(* ===== verification/Prelude.thy ===== *)
theory Prelude
  imports Main "HOL-Library.AList" "HOL-Library.Char_ord" "HOL-Library.List_Lexorder"
    "HOL-Library.Word" "HOL-Library.State_Monad"
begin

text \<open>
  Shared vocabulary of the development: Go maps as association lists with unique keys,
  Go strings as byte lists, the fallible and stateful result types, and the hint
  collections the component theories extend.  Nothing here is specific to a component.
\<close>

section \<open>Hint collections\<close>

named_theorems go_map_simps \<open>lookup laws of the Go map operations\<close>
named_theorems wf_intros \<open>introduction rules of the well-formedness predicates\<close>
named_theorems run_simps \<open>unfolding rules of the state-passing operations\<close>

section \<open>Go maps\<close>

text \<open>
  A Go map is an association list.  \<open>gm_ok\<close> says that no key occurs twice; every
  operation below keeps it.  A nil map reads as the empty map, as in Go.
\<close>

type_synonym ('k, 'v) gomap = "('k \<times> 'v) list"

definition gm_get :: "('k, 'v) gomap \<Rightarrow> 'k \<Rightarrow> 'v option" where
  "gm_get m k = map_of m k"

definition gm_has :: "('k, 'v) gomap \<Rightarrow> 'k \<Rightarrow> bool" where
  "gm_has m k = (gm_get m k \<noteq> None)"

definition gm_put :: "'k \<Rightarrow> 'v \<Rightarrow> ('k, 'v) gomap \<Rightarrow> ('k, 'v) gomap" where
  "gm_put k v m = AList.update k v m"

definition gm_del :: "'k \<Rightarrow> ('k, 'v) gomap \<Rightarrow> ('k, 'v) gomap" where
  "gm_del k m = AList.delete k m"

definition gm_keys :: "('k, 'v) gomap \<Rightarrow> 'k list" where
  "gm_keys m = map fst m"

definition gm_map :: "('k \<Rightarrow> 'v \<Rightarrow> 'w) \<Rightarrow> ('k, 'v) gomap \<Rightarrow> ('k, 'w) gomap" where
  "gm_map f m = map (\<lambda>(k, v). (k, f k v)) m"

definition gm_ok :: "('k, 'v) gomap \<Rightarrow> bool" where
  "gm_ok m = distinct (gm_keys m)"

lemma gm_get_empty [simp, go_map_simps]: "gm_get [] k = None"
  by (simp add: gm_get_def)

lemma gm_get_put [simp, go_map_simps]:
  "gm_get (gm_put k v m) k' = (if k' = k then Some v else gm_get m k')"
  by (simp add: gm_get_def gm_put_def update_conv')

lemma gm_get_del [simp, go_map_simps]:
  "gm_get (gm_del k m) k' = (if k' = k then None else gm_get m k')"
  by (simp add: gm_get_def gm_del_def delete_conv')

lemma gm_get_map [simp, go_map_simps]:
  "gm_get (gm_map f m) k = map_option (f k) (gm_get m k)"
  by (induction m) (auto simp: gm_get_def gm_map_def)

lemma gm_has_iff [go_map_simps]: "gm_has m k \<longleftrightarrow> (\<exists>v. gm_get m k = Some v)"
  by (simp add: gm_has_def)

lemma gm_has_empty [simp]: "\<not> gm_has [] k"
  by (simp add: gm_has_def)

lemma gm_has_put [simp]: "gm_has (gm_put k v m) k' \<longleftrightarrow> k' = k \<or> gm_has m k'"
  by (simp add: gm_has_def)

lemma gm_has_del [simp]: "gm_has (gm_del k m) k' \<longleftrightarrow> k' \<noteq> k \<and> gm_has m k'"
  by (simp add: gm_has_def)

lemma gm_has_map [simp]: "gm_has (gm_map f m) k \<longleftrightarrow> gm_has m k"
  by (simp add: gm_has_def)

lemma set_gm_keys: "k \<in> set (gm_keys m) \<longleftrightarrow> gm_has m k"
  by (simp add: gm_keys_def gm_has_def gm_get_def map_of_eq_None_iff)

lemma set_gm_keys_put: "set (gm_keys (gm_put k v m)) = insert k (set (gm_keys m))"
  by (auto simp: set_gm_keys)

lemma set_gm_keys_del: "set (gm_keys (gm_del k m)) = set (gm_keys m) - {k}"
  by (auto simp: set_gm_keys)

lemma gm_ok_empty [simp]: "gm_ok []"
  by (simp add: gm_ok_def gm_keys_def)

lemma gm_ok_put [simp]: "gm_ok m \<Longrightarrow> gm_ok (gm_put k v m)"
  by (simp add: gm_ok_def gm_keys_def gm_put_def distinct_update)

lemma gm_ok_del [simp]: "gm_ok m \<Longrightarrow> gm_ok (gm_del k m)"
  by (simp add: gm_ok_def gm_keys_def gm_del_def distinct_delete)

lemma gm_keys_map [simp]: "gm_keys (gm_map f m) = gm_keys m"
  by (simp add: gm_keys_def gm_map_def case_prod_unfold comp_def)

lemma gm_ok_map [simp]: "gm_ok (gm_map f m) = gm_ok m"
  by (simp add: gm_ok_def)

lemma gm_get_iff_in: "gm_ok m \<Longrightarrow> gm_get m k = Some v \<longleftrightarrow> (k, v) \<in> set m"
  by (simp add: gm_ok_def gm_keys_def gm_get_def)

lemma gm_get_in: "gm_get m k = Some v \<Longrightarrow> (k, v) \<in> set m"
  by (simp add: gm_get_def map_of_SomeD)

lemma length_gm_put:
  "length (gm_put k v m) = (if gm_has m k then length m else Suc (length m))"
proof -
  have "gm_keys (gm_put k v m) = (if k \<in> set (gm_keys m) then gm_keys m else gm_keys m @ [k])"
    by (simp add: gm_keys_def gm_put_def update_keys)
  then have "length (gm_keys (gm_put k v m))
      = (if k \<in> set (gm_keys m) then length (gm_keys m) else Suc (length (gm_keys m)))"
    by simp
  then show ?thesis by (simp add: set_gm_keys) (simp add: gm_keys_def split: if_splits)
qed

lemma length_gm_map [simp]: "length (gm_map f m) = length m"
  by (simp add: gm_map_def)

lemma length_gm_del:
  "gm_ok m \<Longrightarrow> gm_has m k \<Longrightarrow> Suc (length (gm_del k m)) = length m"
proof (induction m)
  case Nil
  then show ?case by simp
next
  case (Cons p m)
  obtain k' v where p: "p = (k', v)" by (cases p)
  show ?case
  proof (cases "k' = k")
    case True
    with Cons.prems p have "k \<notin> fst ` set m"
      by (simp add: gm_ok_def gm_keys_def)
    then have "AList.delete k m = m" by simp
    with True p show ?thesis by (simp add: gm_del_def)
  next
    case False
    with Cons p show ?thesis
      by (simp add: gm_ok_def gm_keys_def gm_has_def gm_get_def gm_del_def)
  qed
qed

lemma gm_put_same: "gm_get m k = Some v \<Longrightarrow> gm_put k v m = m"
  by (induction m) (auto simp: gm_get_def gm_put_def split: if_splits)

lemma gm_map_put: "gm_map f (gm_put k v m) = gm_put k (f k v) (gm_map f m)"
  by (induction m) (auto simp: gm_map_def gm_put_def)

text \<open>The laws the components use of a map, as an interface.\<close>

locale go_map =
  fixes get :: "'m \<Rightarrow> 'k \<Rightarrow> 'v option"
    and put :: "'k \<Rightarrow> 'v \<Rightarrow> 'm \<Rightarrow> 'm"
    and del :: "'k \<Rightarrow> 'm \<Rightarrow> 'm"
    and ok :: "'m \<Rightarrow> bool"
  assumes get_put: "get (put k v m) k' = (if k' = k then Some v else get m k')"
    and get_del: "get (del k m) k' = (if k' = k then None else get m k')"
    and ok_put: "ok m \<Longrightarrow> ok (put k v m)"
    and ok_del: "ok m \<Longrightarrow> ok (del k m)"
begin

lemma put_overwrites: "get (put k v (put k u m)) = get (put k v m)"
  by (rule ext) (simp add: get_put)

lemma del_after_put: "get m k = None \<Longrightarrow> get (del k (put k v m)) = get m"
  by (rule ext) (simp add: get_put get_del)

lemma put_commutes: "j \<noteq> k \<Longrightarrow> get (put j u (put k v m)) = get (put k v (put j u m))"
  by (rule ext) (simp add: get_put)

end

interpretation gomap: go_map gm_get gm_put gm_del gm_ok
  by unfold_locales simp_all

section \<open>State-passing computations\<close>

text \<open>
  Code that draws from an effectful collaborator (the random source, the identifier
  source) is a computation of \<open>HOL-Library.State_Monad\<close> over that collaborator's state.
  \<open>pred_state P m\<close> says that every result of \<open>m\<close> satisfies \<open>P\<close>.
\<close>

lemma pred_state_return [simp]: "pred_state P (State_Monad.return x) \<longleftrightarrow> P x"
  by (simp add: state.pred_set set_state_iff) (auto simp: set_state_iff)

lemma pred_state_bind:
  "pred_state Q m \<Longrightarrow> (\<And>x. Q x \<Longrightarrow> pred_state P (f x)) \<Longrightarrow> pred_state P (State_Monad.bind m f)"
  by (intro pred_stateI) (auto dest: pred_stateD split: prod.splits)

lemma pred_state_weaken:
  "pred_state Q m \<Longrightarrow> (\<And>x. Q x \<Longrightarrow> P x) \<Longrightarrow> pred_state P m"
  by (intro pred_stateI) (auto dest: pred_stateD)

lemma pred_state_true [simp]: "pred_state (\<lambda>_. True) m"
  by (intro pred_stateI) simp

lemma pred_state_fst: "pred_state P m \<longleftrightarrow> (\<forall>s. P (fst (run_state m s)))"
  by (metis fst_conv pred_stateI pred_state_run_state)

section \<open>Searching\<close>

lemma find_SomeD: "find P xs = Some x \<Longrightarrow> P x \<and> x \<in> set xs"
  by (auto simp: find_Some_iff)

section \<open>Integer helpers\<close>

text \<open>Go's \<open>%\<close> truncates towards zero: the result has the sign of the dividend.\<close>

definition go_rem :: "int \<Rightarrow> int \<Rightarrow> int" where
  "go_rem a b = sgn a * (\<bar>a\<bar> mod \<bar>b\<bar>)"

lemma go_rem_bounds: "0 < b \<Longrightarrow> - b < go_rem a b \<and> go_rem a b < b"
proof -
  assume b: "0 < b"
  then have "0 \<le> \<bar>a\<bar> mod \<bar>b\<bar>" "\<bar>a\<bar> mod \<bar>b\<bar> < b" by simp_all
  with b show ?thesis unfolding go_rem_def by (cases a "0::int" rule: linorder_cases) auto
qed

lemma go_rem_nonneg: "0 \<le> a \<Longrightarrow> 0 < b \<Longrightarrow> go_rem a b = a mod b"
  by (cases "a = 0") (auto simp: go_rem_def)

end
