(* ===== verification/GoStrings.thy ===== *)
theory GoStrings
  imports Prelude
begin

text \<open>
  The parts of Go's standard library the program's own logic relies on, over byte
  strings: \<open>strings.Split\<close>, \<open>Join\<close>, \<open>TrimSpace\<close>, \<open>strconv.Itoa\<close> and \<open>Atoi\<close>, the
  \<open>%d\<close>, \<open>%x\<close> and \<open>%04X\<close> verbs of \<open>fmt\<close>, \<open>utf8.RuneCountInString\<close>, and
  \<open>base64.RawURLEncoding\<close>.  A Go string is its byte sequence, a \<open>char list\<close>, so
  \<open>length\<close> is Go's \<open>len\<close>.  The lemmas are the injectivity and separator facts the
  identity encodings of the program depend on.
\<close>

section \<open>Bytes\<close>

definition byte_val :: "char \<Rightarrow> nat" where
  "byte_val c = of_char c"

definition bytes :: "nat list \<Rightarrow> string" where
  "bytes ns = map char_of ns"

lemma byte_val_lt: "byte_val c < 256"
  by (simp add: byte_val_def)

lemma byte_val_inj: "byte_val a = byte_val b \<Longrightarrow> a = b"
  by (simp add: byte_val_def)

section \<open>Decimal and hexadecimal text\<close>

fun nat_digits :: "nat \<Rightarrow> nat \<Rightarrow> nat list" where
  "nat_digits b n = (if b < 2 \<or> n < b then [n] else nat_digits b (n div b) @ [n mod b])"

declare nat_digits.simps [simp del]

definition digit_char :: "nat \<Rightarrow> char" where
  "digit_char d = (if d < 10 then char_of (48 + d) else char_of (87 + d))"

definition upper_digit_char :: "nat \<Rightarrow> char" where
  "upper_digit_char d = (if d < 10 then char_of (48 + d) else char_of (55 + d))"

definition dec :: "nat \<Rightarrow> string" where
  "dec n = map digit_char (nat_digits 10 n)"

definition itoa :: "int \<Rightarrow> string" where
  "itoa i = (if i < 0 then CHR ''-'' # dec (nat (- i)) else dec (nat i))"

text \<open>\<open>%x\<close> of a byte slice, and \<open>%04X\<close> of a non-negative integer.\<close>

definition hex_byte :: "nat \<Rightarrow> string" where
  "hex_byte n = [digit_char (n div 16 mod 16), digit_char (n mod 16)]"

definition hex :: "nat list \<Rightarrow> string" where
  "hex ns = concat (map hex_byte ns)"

definition pad_left :: "nat \<Rightarrow> char \<Rightarrow> string \<Rightarrow> string" where
  "pad_left w c s = replicate (w - length s) c @ s"

definition upper_hex4 :: "nat \<Rightarrow> string" where
  "upper_hex4 n = pad_left 4 (CHR ''0'') (map upper_digit_char (nat_digits 16 n))"

lemma nat_digits_lt: "2 \<le> b \<Longrightarrow> d \<in> set (nat_digits b n) \<Longrightarrow> d < b"
proof (induction b n rule: nat_digits.induct)
  case (1 b n)
  show ?case
  proof (cases "n < b")
    case True
    with 1 show ?thesis by (simp add: nat_digits.simps [of b n])
  next
    case False
    with 1 have "d \<in> set (nat_digits b (n div b)) \<or> d = n mod b"
      by (auto simp: nat_digits.simps [of b n])
    with 1 False show ?thesis by auto
  qed
qed

fun digits_val :: "nat \<Rightarrow> nat \<Rightarrow> nat list \<Rightarrow> nat" where
  "digits_val b acc [] = acc"
| "digits_val b acc (d # ds) = digits_val b (acc * b + d) ds"

lemma digits_val_append: "digits_val b acc (xs @ ys) = digits_val b (digits_val b acc xs) ys"
  by (induction xs arbitrary: acc) auto

lemma digits_val_nat_digits: "2 \<le> b \<Longrightarrow> digits_val b 0 (nat_digits b n) = n"
proof (induction b n rule: nat_digits.induct)
  case (1 b n)
  show ?case
  proof (cases "n < b")
    case True
    with 1 show ?thesis by (simp add: nat_digits.simps [of b n])
  next
    case False
    with 1 have "digits_val b 0 (nat_digits b (n div b)) = n div b" by simp
    with False 1 show ?thesis
      by (simp add: nat_digits.simps [of b n] digits_val_append)
  qed
qed

lemma nat_digits_inj: "2 \<le> b \<Longrightarrow> nat_digits b m = nat_digits b n \<Longrightarrow> m = n"
  by (metis digits_val_nat_digits)

lemma nat_digits_nonempty: "nat_digits b n \<noteq> []"
  by (subst nat_digits.simps) simp

lemma digit_char_val: "d < 10 \<Longrightarrow> byte_val (digit_char d) = 48 + d"
  by (simp add: digit_char_def byte_val_def)

lemma digit_char_inj: "d < 10 \<Longrightarrow> e < 10 \<Longrightarrow> digit_char d = digit_char e \<Longrightarrow> d = e"
  by (metis add_left_cancel digit_char_val)

lemma dec_bytes: "c \<in> set (dec n) \<Longrightarrow> 48 \<le> byte_val c \<and> byte_val c \<le> 57"
proof -
  assume "c \<in> set (dec n)"
  then obtain d where "d \<in> set (nat_digits 10 n)" "c = digit_char d"
    by (auto simp: dec_def)
  moreover from this have "d < 10" using nat_digits_lt [of 10] by simp
  ultimately show ?thesis by (simp add: digit_char_val)
qed

lemma dec_inj: "dec m = dec n \<Longrightarrow> m = n"
proof -
  assume eq: "dec m = dec n"
  have "inj_on digit_char (set (nat_digits 10 m) \<union> set (nat_digits 10 n))"
    by (rule inj_onI) (auto dest: nat_digits_lt [of 10, simplified] intro: digit_char_inj)
  with eq have "nat_digits 10 m = nat_digits 10 n"
    unfolding dec_def by (blast intro: map_inj_on)
  then show ?thesis by (rule nat_digits_inj [rotated]) simp
qed

lemma dec_nonempty [simp]: "dec n \<noteq> []"
  by (simp add: dec_def nat_digits_nonempty)

lemma itoa_inj: "itoa i = itoa j \<Longrightarrow> i = j"
proof -
  assume eq: "itoa i = itoa j"
  have nodash: "dec n \<noteq> CHR ''-'' # s" for n s
    using dec_bytes [of "CHR ''-''" n] by (auto simp: byte_val_def)
  show ?thesis
  proof (cases "i < 0"; cases "j < 0")
    assume "i < 0" "j < 0"
    with eq have "nat (- i) = nat (- j)" by (simp add: itoa_def dec_inj)
    with \<open>i < 0\<close> \<open>j < 0\<close> show ?thesis by simp
  next
    assume "i < 0" "\<not> j < 0"
    with eq nodash [of "nat j"] show ?thesis by (metis itoa_def)
  next
    assume "\<not> i < 0" "j < 0"
    with eq nodash [of "nat i"] show ?thesis by (metis itoa_def)
  next
    assume "\<not> i < 0" "\<not> j < 0"
    with eq have "nat i = nat j" by (simp add: itoa_def dec_inj)
    with \<open>\<not> i < 0\<close> \<open>\<not> j < 0\<close> show ?thesis by simp
  qed
qed

lemma itoa_bytes: "c \<in> set (itoa i) \<Longrightarrow> c \<noteq> CHR 0x00 \<and> c \<noteq> CHR '':'' \<and> c \<noteq> CHR ''/''"
  using dec_bytes [of c "nat (- i)"] dec_bytes [of c "nat i"]
  by (auto simp: itoa_def byte_val_def split: if_splits)

text \<open>\<open>strconv.Atoi\<close>: an optional sign, at least one digit, and a 64-bit range check.\<close>

definition is_dec_digit :: "char \<Rightarrow> bool" where
  "is_dec_digit c = (48 \<le> byte_val c \<and> byte_val c \<le> 57)"

definition atoi_digits :: "string \<Rightarrow> nat option" where
  "atoi_digits s = (if s \<noteq> [] \<and> list_all is_dec_digit s
     then Some (digits_val 10 0 (map (\<lambda>c. byte_val c - 48) s)) else None)"

definition atoi :: "string \<Rightarrow> int option" where
  "atoi s = (case s of
      [] \<Rightarrow> None
    | c # rest \<Rightarrow>
        (let neg = (c = CHR ''-''); body = (if neg \<or> c = CHR ''+'' then rest else s)
         in case atoi_digits body of
              None \<Rightarrow> None
            | Some n \<Rightarrow> (let v = (if neg then - int n else int n)
                        in if - (2 ^ 63) \<le> v \<and> v < 2 ^ 63 then Some v else None)))"

lemma atoi_digits_dec: "atoi_digits (dec n) = Some n"
proof -
  have "map (\<lambda>c. byte_val c - 48) (dec n) = nat_digits 10 n"
    unfolding dec_def map_map comp_def
    by (rule map_idI) (auto simp: digit_char_val dest: nat_digits_lt [of 10, simplified])
  moreover have "list_all is_dec_digit (dec n)"
    by (auto simp: list_all_iff is_dec_digit_def dest: dec_bytes)
  ultimately show ?thesis by (simp add: atoi_digits_def digits_val_nat_digits)
qed

lemma atoi_dec: "n < 2 ^ 63 \<Longrightarrow> atoi (dec n) = Some (int n)"
proof -
  assume n: "n < 2 ^ 63"
  obtain c rest where s: "dec n = c # rest" by (cases "dec n") auto
  then have "c \<in> set (dec n)" by simp
  then have "c \<noteq> CHR ''-''" "c \<noteq> CHR ''+''"
    by (auto dest!: dec_bytes simp: byte_val_def)
  moreover from n have "int n < 2 ^ 63" by simp
  ultimately show ?thesis using atoi_digits_dec [of n] by (simp add: atoi_def s)
qed

section \<open>Splitting and joining\<close>

text \<open>\<open>strings.Split\<close> with a one-byte separator and \<open>strings.Join\<close>.\<close>

fun split_on :: "char \<Rightarrow> string \<Rightarrow> string list" where
  "split_on sep [] = [[]]"
| "split_on sep (c # cs) =
     (if c = sep then [] # split_on sep cs
      else (case split_on sep cs of [] \<Rightarrow> [[c]] | p # ps \<Rightarrow> (c # p) # ps))"

fun join :: "string \<Rightarrow> string list \<Rightarrow> string" where
  "join sep [] = []"
| "join sep [x] = x"
| "join sep (x # y # ys) = x @ sep @ join sep (y # ys)"

lemma split_on_nonempty [simp]: "split_on sep s \<noteq> []"
  by (induction s) (auto split: list.splits)

lemma split_on_no_sep: "sep \<notin> set s \<Longrightarrow> split_on sep s = [s]"
  by (induction s) auto

lemma split_on_append: "sep \<notin> set x \<Longrightarrow> split_on sep (x @ sep # s) = x # split_on sep s"
  by (induction x) auto

lemma split_on_join:
  "xs \<noteq> [] \<Longrightarrow> \<forall>x\<in>set xs. sep \<notin> set x \<Longrightarrow> split_on sep (join [sep] xs) = xs"
proof (induction "[sep]" xs rule: join.induct)
  case 1
  then show ?case by simp
next
  case (2 x)
  then show ?case by (simp add: split_on_no_sep)
next
  case (3 x y ys)
  then show ?case by (simp add: split_on_append)
qed

lemma append_sep_inj:
  assumes "sep \<notin> set a" and "sep \<notin> set b" and "a @ sep # s = b @ sep # t"
  shows "a = b \<and> s = t"
  using assms
proof (induction a arbitrary: b)
  case Nil
  then show ?case by (cases b) auto
next
  case (Cons x a)
  then show ?case by (cases b) auto
qed

section \<open>Trimming and slicing\<close>

text \<open>
  \<open>strings.TrimSpace\<close>: the white-space code points of Unicode in their UTF-8 encodings.
  A byte that starts no such encoding ends the trimming, as an invalid byte does in Go.
\<close>

definition space_encodings :: "string list" where
  "space_encodings =
     map bytes ([[9], [10], [11], [12], [13], [32], [194, 133], [194, 160], [225, 154, 128],
       [226, 128, 168], [226, 128, 169], [226, 128, 175], [226, 129, 159], [227, 128, 128]]
       @ map (\<lambda>k. [226, 128, 128 + k]) [0..<11])"

definition leading_space :: "string \<Rightarrow> nat option" where
  "leading_space s = map_option length (find (\<lambda>e. take (length e) s = e) space_encodings)"

definition trailing_space :: "string \<Rightarrow> nat option" where
  "trailing_space s =
     map_option length (find (\<lambda>e. length e \<le> length s \<and> drop (length s - length e) s = e) space_encodings)"

primrec trim_left_fuel :: "nat \<Rightarrow> string \<Rightarrow> string" where
  "trim_left_fuel 0 s = s"
| "trim_left_fuel (Suc n) s = (case leading_space s of None \<Rightarrow> s | Some k \<Rightarrow> trim_left_fuel n (drop k s))"

primrec trim_right_fuel :: "nat \<Rightarrow> string \<Rightarrow> string" where
  "trim_right_fuel 0 s = s"
| "trim_right_fuel (Suc n) s =
     (case trailing_space s of None \<Rightarrow> s | Some k \<Rightarrow> trim_right_fuel n (take (length s - k) s))"

text \<open>Every step removes at least one byte, so the length is enough fuel.\<close>

definition trim_space :: "string \<Rightarrow> string" where
  "trim_space s = (let t = trim_left_fuel (length s) s in trim_right_fuel (length t) t)"

definition slice :: "'a list \<Rightarrow> nat \<Rightarrow> nat \<Rightarrow> 'a list" where
  "slice xs i j = take (j - i) (drop i xs)"

primrec index_byte :: "string \<Rightarrow> char \<Rightarrow> nat option" where
  "index_byte [] c = None"
| "index_byte (x # xs) c = (if x = c then Some 0 else map_option Suc (index_byte xs c))"

lemma length_slice [simp]: "length (slice xs i j) = min (j - i) (length xs - i)"
  by (simp add: slice_def min.commute)

lemma nth_slice: "k < j - i \<Longrightarrow> i + k < length xs \<Longrightarrow> slice xs i j ! k = xs ! (i + k)"
  by (simp add: slice_def)

lemma index_byte_Some_iff:
  "index_byte xs c = Some k \<longleftrightarrow> k < length xs \<and> xs ! k = c \<and> (\<forall>i<k. xs ! i \<noteq> c)"
proof (induction xs arbitrary: k)
  case (Cons x xs)
  then show ?case by (cases k) (auto simp: less_Suc_eq_0_disj)
qed simp

lemma index_byte_None_iff [simp]: "index_byte xs c = None \<longleftrightarrow> c \<notin> set xs"
  by (induction xs) auto

lemma trim_space_empty [simp]: "trim_space [] = []"
  by (simp add: trim_space_def)

lemma trim_right_stuck: "trailing_space s = None \<Longrightarrow> trim_right_fuel n s = s"
  by (cases n) auto

lemma trim_left_stuck: "leading_space s = None \<Longrightarrow> trim_left_fuel n s = s"
  by (cases n) auto

end
