(* ===== verification/GoCodec.thy ===== *)
theory GoCodec
  imports GoStrings
begin

text \<open>
  Two encodings of Go's standard library that the program's identities are built from:
  \<open>base64.RawURLEncoding\<close> (pattern identities) and \<open>sha256.Sum256\<close> (word scopes,
  presentation contexts and singleton group identities), both executable.  The base64
  encoder is proved injective on byte strings; of the digest only its length is used.
\<close>

unbundle bit_operations_syntax

section \<open>Base 64, URL alphabet, without padding\<close>

definition b64_alphabet :: string where
  "b64_alphabet = ''ABCDEFGHIJKLMNOPQRSTUVWXYZabcdefghijklmnopqrstuvwxyz0123456789-_''"

definition b64_char :: "nat \<Rightarrow> char" where
  "b64_char n = b64_alphabet ! n"

fun b64_bytes :: "nat list \<Rightarrow> string" where
  "b64_bytes (a # b # c # rest) =
     b64_char (a div 4) # b64_char (a mod 4 * 16 + b div 16)
     # b64_char (b mod 16 * 4 + c div 64) # b64_char (c mod 64) # b64_bytes rest"
| "b64_bytes [a, b] =
     [b64_char (a div 4), b64_char (a mod 4 * 16 + b div 16), b64_char (b mod 16 * 4)]"
| "b64_bytes [a] = [b64_char (a div 4), b64_char (a mod 4 * 16)]"
| "b64_bytes [] = []"

definition raw_url_encode :: "string \<Rightarrow> string" where
  "raw_url_encode s = b64_bytes (map byte_val s)"

lemma b64_char_inj: "i < 64 \<Longrightarrow> j < 64 \<Longrightarrow> b64_char i = b64_char j \<longleftrightarrow> i = j"
proof -
  assume "i < 64" "j < 64"
  moreover have "distinct b64_alphabet" "length b64_alphabet = 64"
    by (simp_all add: b64_alphabet_def)
  ultimately show ?thesis by (simp add: b64_char_def nth_eq_iff_index_eq)
qed

lemma mixed_radix_unique: "(r::nat) < k \<Longrightarrow> r' < k \<Longrightarrow> q * k + r = q' * k + r' \<Longrightarrow> q = q' \<and> r = r'"
proof -
  assume r: "r < k" "r' < k" and eq: "q * k + r = q' * k + r'"
  have "(q * k + r) mod k = r" "(q' * k + r') mod k = r'" using r by simp_all
  then have rr: "r = r'" unfolding eq by simp
  have "0 < k" using r by simp
  with eq rr show ?thesis by simp
qed

lemma split_byte_4:
  fixes a a' b b' :: nat
  assumes "b < 256" "b' < 256" "a div 4 = a' div 4"
    and "a mod 4 * 16 + b div 16 = a' mod 4 * 16 + b' div 16"
  shows "a = a' \<and> b div 16 = b' div 16"
proof -
  have "a mod 4 = a' mod 4 \<and> b div 16 = b' div 16"
    using assms by (intro mixed_radix_unique [of _ 16]) simp_all
  with assms(3) show ?thesis by (metis div_mult_mod_eq)
qed

lemma split_byte_16:
  fixes b b' c c' :: nat
  assumes "c < 256" "c' < 256" "b div 16 = b' div 16" "c mod 64 = c' mod 64"
    and "b mod 16 * 4 + c div 64 = b' mod 16 * 4 + c' div 64"
  shows "b = b' \<and> c = c'"
proof -
  have "b mod 16 = b' mod 16 \<and> c div 64 = c' div 64"
    using assms by (intro mixed_radix_unique [of _ 4]) simp_all
  with assms(3,4) show ?thesis by (metis div_mult_mod_eq)
qed

lemma sextet_bounds [simp]:
  fixes a b c :: nat
  shows "a < 256 \<Longrightarrow> a div 4 < 64" and "b < 256 \<Longrightarrow> a mod 4 * 16 + b div 16 < 64"
    and "c < 256 \<Longrightarrow> b mod 16 * 4 + c div 64 < 64"
    and "a mod 4 * 16 < 64" and "b mod 16 * 4 < 64"
proof -
  have a: "a mod 4 \<le> 3" and b: "b mod 16 \<le> 15" by simp_all
  show "a < 256 \<Longrightarrow> a div 4 < 64" by simp
  show "b < 256 \<Longrightarrow> a mod 4 * 16 + b div 16 < 64" using a by linarith
  show "c < 256 \<Longrightarrow> b mod 16 * 4 + c div 64 < 64" using b by linarith
  show "a mod 4 * 16 < 64" using a by linarith
  show "b mod 16 * 4 < 64" using b by linarith
qed

lemma b64_bytes_inj:
  "\<forall>x\<in>set xs. x < 256 \<Longrightarrow> \<forall>y\<in>set ys. y < 256 \<Longrightarrow> b64_bytes xs = b64_bytes ys \<Longrightarrow> xs = ys"
proof (induction xs arbitrary: ys rule: b64_bytes.induct)
  case (1 a b c rest)
  from "1.prems"(3) obtain a' b' c' rest' where ys: "ys = a' # b' # c' # rest'"
    by (cases ys rule: b64_bytes.cases) simp_all
  have bd: "a < 256" "b < 256" "c < 256" "a' < 256" "b' < 256" "c' < 256"
    using "1.prems" ys by simp_all
  from "1.prems"(3) ys bd have eqs: "a div 4 = a' div 4" "b mod 16 * 4 + c div 64 = b' mod 16 * 4 + c' div 64"
    "a mod 4 * 16 + b div 16 = a' mod 4 * 16 + b' div 16" "c mod 64 = c' mod 64"
    and rest: "b64_bytes rest = b64_bytes rest'"
    by (simp_all add: b64_char_inj)
  have "a = a' \<and> b div 16 = b' div 16" using bd eqs by (intro split_byte_4)
  moreover from this have "b = b' \<and> c = c'" using bd eqs by (intro split_byte_16) simp_all
  moreover have "rest = rest'" using "1.IH" "1.prems" ys rest by simp
  ultimately show ?case using ys by simp
next
  case (2 a b)
  from "2.prems"(3) obtain a' b' where ys: "ys = [a', b']"
    by (cases ys rule: b64_bytes.cases) simp_all
  have bd: "a < 256" "b < 256" "a' < 256" "b' < 256"
    using "2.prems" ys by simp_all
  from "2.prems"(3) ys bd have eqs: "a div 4 = a' div 4" "b mod 16 * 4 = b' mod 16 * 4"
    "a mod 4 * 16 + b div 16 = a' mod 4 * 16 + b' div 16"
    by (simp_all add: b64_char_inj)
  have "a = a' \<and> b div 16 = b' div 16" using bd eqs by (intro split_byte_4)
  moreover from this have "b = b' \<and> (0::nat) = 0" using bd eqs by (intro split_byte_16) simp_all
  ultimately show ?case using ys by simp
next
  case (3 a)
  from "3.prems"(3) obtain a' where ys: "ys = [a']"
    by (cases ys rule: b64_bytes.cases) simp_all
  from "3.prems" ys have "a div 4 = a' div 4" "a mod 4 * 16 = a' mod 4 * 16"
    by (simp_all add: b64_char_inj)
  then have "a = a'" using split_byte_4 [of 0 0 a a'] by simp
  with ys show ?case by simp
next
  case 4
  then show ?case by (cases ys rule: b64_bytes.cases) simp_all
qed

lemma raw_url_encode_inj: "raw_url_encode s = raw_url_encode t \<Longrightarrow> s = t"
proof -
  assume "raw_url_encode s = raw_url_encode t"
  then have "map byte_val s = map byte_val t"
    unfolding raw_url_encode_def by (intro b64_bytes_inj) (auto simp: byte_val_lt)
  then show ?thesis by (rule map_injective) (auto intro: injI byte_val_inj)
qed

section \<open>SHA-256\<close>

type_synonym u32 = "32 word"

definition sha_k :: "u32 list" where
  "sha_k = [
    1116352408, 1899447441, 3049323471, 3921009573, 961987163, 1508970993, 2453635748,
    2870763221, 3624381080, 310598401, 607225278, 1426881987, 1925078388, 2162078206,
    2614888103, 3248222580, 3835390401, 4022224774, 264347078, 604807628, 770255983,
    1249150122, 1555081692, 1996064986, 2554220882, 2821834349, 2952996808, 3210313671,
    3336571891, 3584528711, 113926993, 338241895, 666307205, 773529912, 1294757372,
    1396182291, 1695183700, 1986661051, 2177026350, 2456956037, 2730485921, 2820302411,
    3259730800, 3345764771, 3516065817, 3600352804, 4094571909, 275423344, 430227734,
    506948616, 659060556, 883997877, 958139571, 1322822218, 1537002063, 1747873779,
    1955562222, 2024104815, 2227730452, 2361852424, 2428436474, 2756734187, 3204031479,
    3329325298]"

definition sha_init :: "u32 list" where
  "sha_init = [
    1779033703, 3144134277, 1013904242, 2773480762, 1359893119, 2600822924, 528734635,
    1541459225]"

definition sha_pad :: "nat list \<Rightarrow> nat list" where
  "sha_pad m = m @ 128 # replicate ((119 - length m mod 64) mod 64) 0
     @ map (\<lambda>i. nat (int (8 * length m) div 256 ^ (7 - i) mod 256)) [0..<8]"

fun sha_words :: "nat list \<Rightarrow> u32 list" where
  "sha_words (a # b # c # d # rest) =
     (((of_nat a * 256 + of_nat b) * 256 + of_nat c) * 256 + of_nat d) # sha_words rest"
| "sha_words _ = []"

definition sha_s0 :: "u32 \<Rightarrow> u32" where
  "sha_s0 x = (word_rotr 7 x XOR word_rotr 18 x) XOR drop_bit 3 x"

definition sha_s1 :: "u32 \<Rightarrow> u32" where
  "sha_s1 x = (word_rotr 17 x XOR word_rotr 19 x) XOR drop_bit 10 x"

text \<open>The message schedule, newest word first.\<close>

primrec sha_extend :: "nat \<Rightarrow> u32 list \<Rightarrow> u32 list" where
  "sha_extend 0 ws = ws"
| "sha_extend (Suc n) ws =
     sha_extend n ((sha_s1 (ws ! 1) + ws ! 6 + sha_s0 (ws ! 14) + ws ! 15) # ws)"

fun sha_round :: "u32 list \<Rightarrow> u32 \<times> u32 \<Rightarrow> u32 list" where
  "sha_round [a, b, c, d, e, f, g, h] (k, w) =
     (let t1 = h + ((word_rotr 6 e XOR word_rotr 11 e) XOR word_rotr 25 e)
               + ((e AND f) XOR (NOT e AND g)) + k + w;
          t2 = ((word_rotr 2 a XOR word_rotr 13 a) XOR word_rotr 22 a)
               + (((a AND b) XOR (a AND c)) XOR (b AND c))
      in [t1 + t2, a, b, c, d + t1, e, f, g])"
| "sha_round s _ = s"

definition sha_block :: "u32 list \<Rightarrow> u32 list \<Rightarrow> u32 list" where
  "sha_block h ws = map2 (+) h
     (foldl sha_round h (zip sha_k (rev (sha_extend 48 (rev ws)))))"

fun sha_blocks :: "nat \<Rightarrow> u32 list \<Rightarrow> u32 list \<Rightarrow> u32 list" where
  "sha_blocks 0 h ws = h"
| "sha_blocks (Suc n) h ws = sha_blocks n (sha_block h (take 16 ws)) (drop 16 ws)"

definition sha_word_bytes :: "u32 \<Rightarrow> nat list" where
  "sha_word_bytes w = map (\<lambda>n. unat (drop_bit n w AND 255)) [24, 16, 8, 0]"

definition sha256 :: "string \<Rightarrow> nat list" where
  "sha256 s = (let p = sha_pad (map byte_val s)
     in concat (map sha_word_bytes (sha_blocks (length p div 64) sha_init (sha_words p))))"

lemma length_sha_round [simp]: "length (sha_round s kw) = length s"
  by (cases "(s, kw)" rule: sha_round.cases) (auto simp: Let_def)

lemma length_foldl_sha_round [simp]: "length (foldl sha_round s kws) = length s"
  by (induction kws arbitrary: s) auto

lemma length_sha_block [simp]: "length (sha_block h ws) = length h"
  by (simp add: sha_block_def)

lemma length_sha_blocks [simp]: "length (sha_blocks n h ws) = length h"
  by (induction n h ws rule: sha_blocks.induct) auto

lemma length_sha256 [simp]: "length (sha256 s) = 32"
proof -
  have "length (concat (map sha_word_bytes ws)) = 4 * length ws" for ws
    by (induction ws) (auto simp: sha_word_bytes_def)
  then show ?thesis by (simp add: sha256_def Let_def sha_init_def)
qed

end
