(* ===== verification/Domain.thy ===== *)
theory Domain
  imports GoCodec
begin

text \<open>
  The transport-independent data of \<open>internal/domain/model.go\<close>: the authored content
  tree, navigation and hacking state, the durable session document, the process-local
  coordination aggregate and its projections.  A Go struct is a record (field names keep
  the source's name behind a short prefix), a pointer is an \<open>option\<close>, a slice is a list
  (an \<open>option\<close> of a list where the code distinguishes nil from empty), a
  \<open>map[K]struct{}\<close> is a \<open>goset\<close>, a revision is a 64-bit word.  Named string types are
  type synonyms; an enumeration is a datatype, with an \<open>Other\<close> constructor where an
  arbitrary string can reach the code.  The Go aggregate is copied deeply at every
  boundary (\<open>Clone...\<close>), so values without sharing model it.
\<close>

type_synonym 'k goset = "('k, unit) gomap"
type_synonym revision = "64 word"

section \<open>Authored content\<close>

definition NodeFolder :: string where "NodeFolder = ''folder''"
definition NodeCommand :: string where "NodeCommand = ''command''"
definition NodeEntry :: string where "NodeEntry = ''entry''"

lemma node_types_distinct [simp]:
  "NodeFolder \<noteq> NodeCommand" "NodeFolder \<noteq> NodeEntry" "NodeCommand \<noteq> NodeEntry"
  "NodeCommand \<noteq> NodeFolder" "NodeEntry \<noteq> NodeFolder" "NodeEntry \<noteq> NodeCommand"
  by (simp_all add: NodeFolder_def NodeCommand_def NodeEntry_def)

record EntryContentBlock =
  eb_ID :: string
  eb_InitialText :: string

record EntryContentChange =
  ec_BlockID :: string
  ec_CompletedText :: string

record StateChangeConfig =
  sc_CompletedName :: string
  sc_ConfirmationText :: string
  sc_EntryContentChange :: "EntryContentChange option"

record TerminalTransitionConfig =
  tt_TargetTerminalID :: string

datatype CommandBehavior =
  CommandBehaviorOrdinary | CommandBehaviorStateChange
| CommandBehaviorTerminalTransition | CommandBehaviorInvalid

record CommandExecutionState =
  ce_CompletedName :: string
  ce_ResultText :: string
  ce_EntryContentChange :: "EntryContentChange option"

type_synonym CommandStates = "(string, CommandExecutionState) gomap"

datatype ContentNode = ContentNode
  (cn_ID: string)
  (cn_Type: string)
  (cn_Name: string)
  (cn_Children: "ContentNode list option")
  (cn_Text: string)
  (cn_Description: string)
  (cn_Blocks: "EntryContentBlock list option")
  (cn_StateChange: "StateChangeConfig option")
  (cn_TerminalTransition: "TerminalTransitionConfig option")
  (cn_Extra: "(string, string) gomap")

text \<open>A nil slice ranges like an empty one.\<close>

definition cn_kids :: "ContentNode \<Rightarrow> ContentNode list" where
  "cn_kids n = (case cn_Children n of None \<Rightarrow> [] | Some cs \<Rightarrow> cs)"

definition cn_block_list :: "ContentNode \<Rightarrow> EntryContentBlock list" where
  "cn_block_list n = (case cn_Blocks n of None \<Rightarrow> [] | Some bs \<Rightarrow> bs)"

lemma size_kid [termination_simp]: "c \<in> set (cn_kids n) \<Longrightarrow> size c < size n"
proof (cases n)
  case (ContentNode i t nm kids tx d b sc tt ex)
  assume c: "c \<in> set (cn_kids n)"
  with ContentNode obtain cs where cs: "kids = Some cs" "c \<in> set cs"
    by (auto simp: cn_kids_def split: option.splits)
  have "size c \<le> size_list size cs" using cs(2) order_refl by (rule size_list_estimation')
  with ContentNode cs show ?thesis by simp
qed

definition Behavior :: "ContentNode \<Rightarrow> CommandBehavior" where
  "Behavior n =
     (if cn_StateChange n \<noteq> None \<and> cn_TerminalTransition n \<noteq> None then CommandBehaviorInvalid
      else if cn_StateChange n \<noteq> None then CommandBehaviorStateChange
      else if cn_TerminalTransition n \<noteq> None then CommandBehaviorTerminalTransition
      else CommandBehaviorOrdinary)"

section \<open>Durable documents\<close>

record TerminalGroup =
  tg_ID :: string
  tg_Name :: string
  tg_TerminalIDs :: "string list"

record Terminal =
  tm_ID :: string
  tm_Name :: string
  tm_HackLevel :: int
  tm_IntroText :: string
  tm_Root :: ContentNode
  tm_CommandStates :: CommandStates
  tm_Extra :: "(string, string) gomap"

record Session =
  se_Version :: int
  se_Name :: string
  se_PlayerConfig :: string
  se_Terminals :: "Terminal list option"
  se_TerminalGroups :: "TerminalGroup list"
  se_Extra :: "(string, string) gomap"

definition se_terminal_list :: "Session \<Rightarrow> Terminal list" where
  "se_terminal_list s = (case se_Terminals s of None \<Rightarrow> [] | Some ts \<Rightarrow> ts)"

section \<open>Navigation\<close>

record NavState =
  ns_Path :: "string list"
  ns_Mode :: string
  ns_ViewEntryID :: "string option"
  ns_CommandNodeID :: "string option"

section \<open>Hacking\<close>

text \<open>
  Positions, lengths and attempt counters are built from non-negative values and only
  ever counted down with a floor of zero, so they are natural numbers.
\<close>

record HackWord =
  hw_ID :: string
  hw_Start :: nat
  hw_Length :: nat

record HackColumn =
  hc_Addresses :: "string list"
  hc_Text :: string
  hc_Words :: "HackWord list"

record HackCandidate =
  hd_Text :: string

record HackPatternIdentity =
  hi_GenerationID :: string
  hi_Row :: nat
  hi_Start :: nat
  hi_End :: nat

record HackPattern =
  hp_Identity :: HackPatternIdentity
  hp_ColumnIndex :: nat
  hp_AbsoluteStart :: nat
  hp_AbsoluteEnd :: nat
  hp_Pair :: string

record PublicHackPattern =
  pp_ID :: string
  pp_Row :: nat
  pp_Start :: nat
  pp_End :: nat
  pp_Used :: bool

record HackState =
  hs_GenerationID :: string
  hs_Level :: int
  hs_WordLength :: nat
  hs_AttemptsMax :: nat
  hs_AttemptsLeft :: nat
  hs_SecretWord :: string
  hs_WordsByID :: "(string, HackCandidate) gomap"
  hs_UsedPatterns :: "HackPatternIdentity goset"
  hs_Solved :: bool
  hs_Failed :: bool
  hs_Log :: "string list"
  hs_Columns :: "HackColumn list"

record PublicHackState =
  ph_Level :: int
  ph_WordLength :: nat
  ph_AttemptsMax :: nat
  ph_AttemptsLeft :: nat
  ph_Solved :: bool
  ph_Failed :: bool
  ph_Log :: "string list"
  ph_Columns :: "HackColumn list"
  ph_Patterns :: "PublicHackPattern list"

end
