(* ===== verification/ContentTree.thy ===== *)
theory ContentTree
  imports Domain
begin

text \<open>
  Generic facts about authored content trees, shared by navigation, the live runtime and
  document validation: the node list of a tree, unique node identities, a first-match
  search with its congruence rule, and walking a path of direct folder children
  (\<open>directChild\<close> of \<open>internal/nav/nav.go\<close>, which \<open>selectedAuthoredCommand\<close> of
  \<open>internal/control/service.go\<close> repeats).
\<close>

section \<open>First-match search\<close>

primrec first_some :: "('a \<Rightarrow> 'b option) \<Rightarrow> 'a list \<Rightarrow> 'b option" where
  "first_some f [] = None"
| "first_some f (x # xs) = (case f x of Some y \<Rightarrow> Some y | None \<Rightarrow> first_some f xs)"

lemma first_some_cong [fundef_cong]:
  "xs = ys \<Longrightarrow> (\<And>x. x \<in> set ys \<Longrightarrow> f x = g x) \<Longrightarrow> first_some f xs = first_some g ys"
  by (induction ys arbitrary: xs) (auto split: option.splits)

lemma first_some_SomeD: "first_some f xs = Some y \<Longrightarrow> \<exists>x\<in>set xs. f x = Some y"
  by (induction xs) (auto split: option.splits)

lemma first_some_None_iff [simp]: "first_some f xs = None \<longleftrightarrow> (\<forall>x\<in>set xs. f x = None)"
  by (induction xs) (auto split: option.splits)

lemma first_some_append:
  "first_some f (xs @ ys) = (case first_some f xs of Some y \<Rightarrow> Some y | None \<Rightarrow> first_some f ys)"
  by (induction xs) (simp_all del: first_some_None_iff split: option.split)

lemma first_some_unique:
  assumes "x \<in> set xs" and "f x = Some y"
    and "\<And>z w. z \<in> set xs \<Longrightarrow> f z = Some w \<Longrightarrow> w = y"
  shows "first_some f xs = Some y"
proof -
  have "\<not> (\<forall>z\<in>set xs. f z = None)" using assms(1,2) by auto
  then have "first_some f xs \<noteq> None" by (simp only: first_some_None_iff not_False_eq_True)
  then obtain w where w: "first_some f xs = Some w" by blast
  from first_some_SomeD [OF this] obtain z where "z \<in> set xs" "f z = Some w" by blast
  then have "w = y" by (rule assms(3))
  with w show ?thesis by simp
qed

section \<open>Nodes of a tree\<close>

fun tree_nodes :: "ContentNode \<Rightarrow> ContentNode list" where
  "tree_nodes n = n # concat (map tree_nodes (cn_kids n))"

declare tree_nodes.simps [simp del]

definition unique_ids :: "ContentNode \<Rightarrow> bool" where
  "unique_ids n = distinct (map cn_ID (tree_nodes n))"

lemma tree_nodes_self [simp]: "n \<in> set (tree_nodes n)"
  by (subst tree_nodes.simps) simp

lemma tree_nodes_kid: "c \<in> set (cn_kids n) \<Longrightarrow> x \<in> set (tree_nodes c) \<Longrightarrow> x \<in> set (tree_nodes n)"
  by (subst tree_nodes.simps) auto

lemma kid_in_tree: "c \<in> set (cn_kids n) \<Longrightarrow> c \<in> set (tree_nodes n)"
  using tree_nodes_kid [of c n c] by simp

lemma distinct_concat_unique:
  assumes "distinct (concat (map f xs))" and "x \<in> set xs" and "y \<in> set xs"
    and "z \<in> set (f x)" and "z \<in> set (f y)"
  shows "x = y"
  using assms by (induction xs) auto

lemma unique_ids_kid: "unique_ids n \<Longrightarrow> c \<in> set (cn_kids n) \<Longrightarrow> unique_ids c"
  unfolding unique_ids_def
  by (subst (asm) tree_nodes.simps) (auto simp: map_concat comp_def distinct_concat_iff)

lemma unique_ids_root: "unique_ids n \<Longrightarrow> c \<in> set (cn_kids n) \<Longrightarrow> x \<in> set (tree_nodes c) \<Longrightarrow> cn_ID x \<noteq> cn_ID n"
proof -
  assume "unique_ids n" and c: "c \<in> set (cn_kids n)" "x \<in> set (tree_nodes c)"
  then have "distinct (map cn_ID (n # concat (map tree_nodes (cn_kids n))))"
    unfolding unique_ids_def by (subst (asm) tree_nodes.simps)
  then have "cn_ID n \<notin> cn_ID ` set (concat (map tree_nodes (cn_kids n)))"
    unfolding list.map distinct.simps set_map by (rule conjunct1)
  moreover have "cn_ID x \<in> cn_ID ` set (concat (map tree_nodes (cn_kids n)))"
    using c by auto
  ultimately show ?thesis by metis
qed

lemma unique_ids_branch:
  assumes "unique_ids n" and "c \<in> set (cn_kids n)" and "d \<in> set (cn_kids n)"
    and "x \<in> set (tree_nodes c)" and "y \<in> set (tree_nodes d)" and "cn_ID x = cn_ID y"
  shows "c = d"
proof -
  from assms(1) have "distinct (concat (map (\<lambda>k. map cn_ID (tree_nodes k)) (cn_kids n)))"
    unfolding unique_ids_def by (subst (asm) tree_nodes.simps) (simp add: map_concat comp_def)
  then show ?thesis
    using assms(2,3) by (rule distinct_concat_unique) (use assms(4-6) in force)+
qed

section \<open>Direct children and paths\<close>

definition directChild :: "ContentNode \<Rightarrow> string \<Rightarrow> string \<Rightarrow> ContentNode option" where
  "directChild parent nodeID nodeType =
     find (\<lambda>c. cn_ID c = nodeID \<and> cn_Type c = nodeType) (cn_kids parent)"

lemma directChild_SomeD:
  "directChild p i t = Some c \<Longrightarrow> c \<in> set (cn_kids p) \<and> cn_ID c = i \<and> cn_Type c = t"
  by (auto simp: directChild_def find_Some_iff)

lemma directChild_unique:
  assumes "unique_ids p" and "c \<in> set (cn_kids p)" and "cn_Type c = t"
  shows "directChild p (cn_ID c) t = Some c"
proof -
  have "\<exists>d. directChild p (cn_ID c) t = Some d"
    using assms(2,3) by (cases "directChild p (cn_ID c) t") (auto simp: directChild_def find_None_iff)
  then obtain d where d: "directChild p (cn_ID c) t = Some d" by blast
  then have "d \<in> set (cn_kids p)" "cn_ID d = cn_ID c" by (auto dest: directChild_SomeD)
  then have "d = c" using assms unique_ids_branch [of p d c d c] by simp
  with d show ?thesis by simp
qed

text \<open>Following a list of folder identities from a node.\<close>

primrec walkFolders :: "ContentNode \<Rightarrow> string list \<Rightarrow> ContentNode option" where
  "walkFolders n [] = Some n"
| "walkFolders n (i # is) =
     (case directChild n i NodeFolder of None \<Rightarrow> None | Some c \<Rightarrow> walkFolders c is)"

lemma walkFolders_append:
  "walkFolders n (xs @ ys) = (case walkFolders n xs of None \<Rightarrow> None | Some m \<Rightarrow> walkFolders m ys)"
  by (induction xs arbitrary: n) (auto split: option.splits)

lemma walkFolders_butlast:
  "walkFolders n xs = Some m \<Longrightarrow> \<exists>m'. walkFolders n (butlast xs) = Some m'"
  by (cases xs rule: rev_cases) (auto simp: walkFolders_append split: option.splits)

lemma walkFolders_in_tree: "walkFolders n xs = Some m \<Longrightarrow> m \<in> set (tree_nodes n)"
  by (induction xs arbitrary: n)
    (auto split: option.splits dest!: directChild_SomeD intro: tree_nodes_kid)

lemma walkFolders_folder: "walkFolders n xs = Some m \<Longrightarrow> cn_Type n = NodeFolder \<Longrightarrow> cn_Type m = NodeFolder"
  by (induction xs arbitrary: n) (auto split: option.splits dest!: directChild_SomeD)

lemma walkFolders_last_id:
  "walkFolders n xs = Some m \<Longrightarrow> xs \<noteq> [] \<Longrightarrow> cn_ID m = last xs"
  by (induction xs arbitrary: n) (auto split: option.splits if_splits dest!: directChild_SomeD)

end
