(* ===== verification/GoText.thy ===== *)
theory GoText
  imports ContentTree
begin

text \<open>
  What the validators use of the Go standard library beyond bytes: UTF-8 decoding
  (\<open>utf8.ValidString\<close>, \<open>utf8.RuneCountInString\<close>), results that stop at the first error,
  and the loop that counts upwards until a name is free.  \<open>Platform\<close> collects the library
  functions whose answer depends on the operating system or on tables the repository does
  not contain: path cleaning, the Unicode lower-case mapping and JSON syntax.
\<close>

section \<open>Platform functions\<close>

record Platform =
  pf_IsAbs :: "string \<Rightarrow> bool"
  pf_Clean :: "string \<Rightarrow> string"
  pf_ToLower :: "string \<Rightarrow> string"
  pf_JSONValid :: "string \<Rightarrow> bool"

definition ascii_lower :: "string \<Rightarrow> string" where
  "ascii_lower s =
     map (\<lambda>c. if 65 \<le> byte_val c \<and> byte_val c \<le> 90 then char_of (byte_val c + 32) else c) s"

text \<open>A concrete platform for evaluation: slash paths, ASCII letters, any raw JSON.\<close>

definition demo_platform :: Platform where
  "demo_platform =
     \<lparr>pf_IsAbs = (\<lambda>s. take 1 s = ''/''), pf_Clean = (\<lambda>s. if s = '''' then ''.'' else s),
      pf_ToLower = ascii_lower, pf_JSONValid = (\<lambda>s. s \<noteq> '''')\<rparr>"

section \<open>UTF-8\<close>

text \<open>\<open>rune_len s\<close> is the width of the rune \<open>s\<close> starts with, 0 when its first byte is not the
  start of a valid encoding.\<close>

definition is_cont :: "nat \<Rightarrow> bool" where
  "is_cont b = (128 \<le> b \<and> b \<le> 191)"

fun rune_len_bytes :: "nat list \<Rightarrow> nat" where
  "rune_len_bytes [] = 0"
| "rune_len_bytes (a # bs) =
     (if a < 128 then 1
      else (case bs of
          [] \<Rightarrow> 0
        | b # cs \<Rightarrow>
            if 194 \<le> a \<and> a \<le> 223 then (if is_cont b then 2 else 0)
            else (case cs of
                [] \<Rightarrow> 0
              | c # ds \<Rightarrow>
                  if 224 \<le> a \<and> a \<le> 239
                  then (if (if a = 224 then 160 else 128) \<le> b \<and> b \<le> (if a = 237 then 159 else 191) \<and> is_cont c
                        then 3 else 0)
                  else (case ds of
                      [] \<Rightarrow> 0
                    | d # es \<Rightarrow>
                        if 240 \<le> a \<and> a \<le> 244 \<and> (if a = 240 then 144 else 128) \<le> b \<and>
                           b \<le> (if a = 244 then 143 else 191) \<and> is_cont c \<and> is_cont d
                        then 4 else 0))))"

definition rune_len :: "string \<Rightarrow> nat" where
  "rune_len s = rune_len_bytes (map byte_val (take 4 s))"

fun rune_count :: "string \<Rightarrow> nat" where
  "rune_count [] = 0"
| "rune_count (c # cs) = Suc (rune_count (drop (rune_len (c # cs) - 1) cs))"

fun valid_utf8 :: "string \<Rightarrow> bool" where
  "valid_utf8 [] = True"
| "valid_utf8 (c # cs) = (0 < rune_len (c # cs) \<and> valid_utf8 (drop (rune_len (c # cs) - 1) cs))"

lemma rune_count_le: "rune_count s \<le> length s"
  by (induction s rule: rune_count.induct) (auto intro: order_trans)

lemma rune_len_ascii: "byte_val c < 128 \<Longrightarrow> rune_len (c # cs) = 1"
  by (simp add: rune_len_def)

lemma rune_count_ascii: "list_all (\<lambda>c. byte_val c < 128) s \<Longrightarrow> rune_count s = length s"
  by (induction s rule: rune_count.induct) (auto simp: rune_len_ascii)

lemma valid_utf8_ascii: "list_all (\<lambda>c. byte_val c < 128) s \<Longrightarrow> valid_utf8 s"
  by (induction s rule: valid_utf8.induct) (auto simp: rune_len_ascii)

primrec truncate_fuel :: "nat \<Rightarrow> string \<Rightarrow> string" where
  "truncate_fuel 0 s = s"
| "truncate_fuel (Suc n) s = (if valid_utf8 s then s else truncate_fuel n (butlast s))"

lemma truncate_fuel_valid: "length s \<le> n \<Longrightarrow> valid_utf8 (truncate_fuel n s)"
  by (induction n arbitrary: s) auto

lemma truncate_fuel_length: "length (truncate_fuel n s) \<le> length s"
proof (induction n arbitrary: s)
  case (Suc n)
  have "length (truncate_fuel n (butlast s)) \<le> length s"
    using Suc [of "butlast s"] by simp
  then show ?case by simp
qed simp

section \<open>Results that stop at the first error\<close>

definition ok_bind :: "'e + 'a \<Rightarrow> ('a \<Rightarrow> 'e + 'b) \<Rightarrow> 'e + 'b" where
  "ok_bind r f = (case r of Inl e \<Rightarrow> Inl e | Inr x \<Rightarrow> f x)"

primrec fold_ok :: "('a \<Rightarrow> 's \<Rightarrow> 'e + 's) \<Rightarrow> 'a list \<Rightarrow> 's \<Rightarrow> 'e + 's" where
  "fold_ok f [] s = Inr s"
| "fold_ok f (x # xs) s = ok_bind (f x s) (fold_ok f xs)"

definition first_err :: "'e option list \<Rightarrow> 'e option" where
  "first_err es = first_some (\<lambda>e. e) es"

lemma first_err_None [simp]: "first_err es = None \<longleftrightarrow> (\<forall>e\<in>set es. e = None)"
  by (auto simp: first_err_def)

lemma ok_bind_simps [simp]: "ok_bind (Inl e) f = Inl e" "ok_bind (Inr x) f = f x"
  by (simp_all add: ok_bind_def)

lemma ok_bind_Inr: "ok_bind r f = Inr y \<longleftrightarrow> (\<exists>x. r = Inr x \<and> f x = Inr y)"
  by (cases r) auto

lemma fold_ok_append: "fold_ok f (xs @ ys) s = ok_bind (fold_ok f xs s) (fold_ok f ys)"
  by (induction xs arbitrary: s) (auto simp: ok_bind_def split: sum.splits)

lemma fold_ok_invariant:
  assumes "fold_ok f xs s = Inr t" and "I s"
    and "\<And>x s t. x \<in> set xs \<Longrightarrow> I s \<Longrightarrow> f x s = Inr t \<Longrightarrow> I t"
  shows "I t"
  using assms by (induction xs arbitrary: s) (auto simp: ok_bind_Inr)

primrec map_ok :: "('a \<Rightarrow> 'e + 'b) \<Rightarrow> 'a list \<Rightarrow> 'e + 'b list" where
  "map_ok f [] = Inr []"
| "map_ok f (x # xs) = ok_bind (f x) (\<lambda>y. ok_bind (map_ok f xs) (\<lambda>ys. Inr (y # ys)))"

lemma map_ok_cong [fundef_cong]: "xs = ys \<Longrightarrow> (\<And>x. x \<in> set ys \<Longrightarrow> f x = g x) \<Longrightarrow> map_ok f xs = map_ok g ys"
  by (induction ys arbitrary: xs) auto

lemma map_ok_Inr: "map_ok f xs = Inr ys \<longleftrightarrow> list_all2 (\<lambda>x y. f x = Inr y) xs ys"
  by (induction xs arbitrary: ys) (auto simp: ok_bind_Inr list_all2_Cons1)

lemma map_ok_map: "map_ok f (map g xs) = map_ok (f \<circ> g) xs"
  by (induction xs) simp_all

section \<open>Counting until a name is free\<close>

text \<open>\<open>first_free fuel n f used\<close> is the first \<open>f k\<close>, \<open>k \<ge> n\<close>, that is not used; \<open>None\<close> stands for
  a loop that has not ended within the fuel.  One more candidate than there are used names is
  enough when the candidates differ.\<close>

primrec first_free :: "nat \<Rightarrow> nat \<Rightarrow> (nat \<Rightarrow> 'a) \<Rightarrow> ('a \<Rightarrow> bool) \<Rightarrow> 'a option" where
  "first_free 0 n f used = None"
| "first_free (Suc fuel) n f used = (if used (f n) then first_free fuel (Suc n) f used else Some (f n))"

lemma first_free_Some:
  "first_free fuel n f used = Some x \<Longrightarrow> \<exists>k. n \<le> k \<and> k < n + fuel \<and> x = f k \<and> \<not> used x \<and> (\<forall>j. n \<le> j \<and> j < k \<longrightarrow> used (f j))"
proof (induction fuel arbitrary: n)
  case (Suc fuel)
  show ?case
  proof (cases "used (f n)")
    case True
    with Suc.prems Suc.IH [of "Suc n"] obtain k where
      "Suc n \<le> k" "k < Suc n + fuel" "x = f k" "\<not> used x" "\<forall>j. Suc n \<le> j \<and> j < k \<longrightarrow> used (f j)" by auto
    with True show ?thesis by (intro exI [of _ k]) (metis Suc_leD Suc_leI add_Suc_shift le_neq_implies_less)
  next
    case False
    with Suc.prems show ?thesis by (intro exI [of _ n]) auto
  qed
qed simp

lemma first_free_None: "first_free fuel n f used = None \<Longrightarrow> n \<le> k \<Longrightarrow> k < n + fuel \<Longrightarrow> used (f k)"
proof (induction fuel arbitrary: n)
  case (Suc fuel)
  then show ?case by (cases "k = n") (auto split: if_splits)
qed simp

lemma first_free_found:
  assumes "finite U" and "card U < fuel" and "inj_on g {n..<n + fuel}"
    and "\<And>k. n \<le> k \<Longrightarrow> k < n + fuel \<Longrightarrow> used (f k) \<Longrightarrow> g k \<in> U"
  shows "\<exists>x. first_free fuel n f used = Some x"
proof (rule ccontr)
  assume "\<nexists>x. first_free fuel n f used = Some x"
  then have "first_free fuel n f used = None" by simp
  then have "g ` {n..<n + fuel} \<subseteq> U" using assms(4) first_free_None [of fuel n f used] by fastforce
  then have "card (g ` {n..<n + fuel}) \<le> card U" using assms(1) by (intro card_mono)
  with assms(2,3) show False by (simp add: card_image)
qed

section \<open>Trimming around visible characters\<close>

definition visible :: "char \<Rightarrow> bool" where
  "visible c = (33 \<le> byte_val c \<and> byte_val c \<le> 126)"

lemma spaces_invisible: "e \<in> set space_encodings \<Longrightarrow> c \<in> set e \<Longrightarrow> \<not> visible c"
proof -
  have "list_all (list_all (\<lambda>c. \<not> visible c)) space_encodings" by code_simp
  then show "e \<in> set space_encodings \<Longrightarrow> c \<in> set e \<Longrightarrow> \<not> visible c" by (auto simp: list_all_iff)
qed

lemma nonempty_spaces: "e \<in> set space_encodings \<Longrightarrow> e \<noteq> []"
proof -
  have "list_all (\<lambda>e. e \<noteq> []) space_encodings" by code_simp
  then show "e \<in> set space_encodings \<Longrightarrow> e \<noteq> []" by (auto simp: list_all_iff)
qed

lemma leading_space_visible:
  assumes "leading_space (a @ c # b) = Some k" and "visible c"
  shows "\<exists>a'. drop k (a @ c # b) = a' @ c # b"
proof -
  from assms(1) obtain e where e: "e \<in> set space_encodings" "take k (a @ c # b) = e" "k = length e"
    by (auto simp: leading_space_def dest!: find_SomeD)
  have "k \<le> length a"
  proof (rule ccontr)
    assume "\<not> k \<le> length a"
    then have "c \<in> set (take k (a @ c # b))" by (simp add: take_Cons')
    with e spaces_invisible assms(2) show False by blast
  qed
  then show ?thesis by simp
qed

lemma trim_left_visible: "visible c \<Longrightarrow> \<exists>a'. trim_left_fuel n (a @ c # b) = a' @ c # b"
proof (induction n arbitrary: a)
  case (Suc n)
  show ?case
  proof (cases "leading_space (a @ c # b)")
    case (Some k)
    with leading_space_visible Suc.prems obtain a' where "drop k (a @ c # b) = a' @ c # b" by blast
    with Some Suc show ?thesis by (simp del: drop_append)
  qed auto
qed auto

lemma trailing_space_visible:
  assumes "trailing_space (a @ c # b) = Some k" and "visible c"
  shows "\<exists>b'. take (length (a @ c # b) - k) (a @ c # b) = a @ c # b'"
proof -
  let ?s = "a @ c # b"
  from assms(1) obtain e where e: "e \<in> set space_encodings" "drop (length ?s - k) ?s = e" "k = length e"
    by (auto simp: trailing_space_def dest!: find_SomeD)
  have "length a < length ?s - k"
  proof (rule ccontr)
    assume "\<not> length a < length ?s - k"
    then have "c \<in> set (drop (length ?s - k) ?s)" by simp
    with e spaces_invisible assms(2) show False by blast
  qed
  then show ?thesis by (auto simp: take_Cons' not_less)
qed

lemma trim_right_visible: "visible c \<Longrightarrow> \<exists>b'. trim_right_fuel n (a @ c # b) = a @ c # b'"
proof (induction n arbitrary: b)
  case (Suc n)
  show ?case
  proof (cases "trailing_space (a @ c # b)")
    case (Some k)
    with trailing_space_visible Suc.prems obtain b' where
      "take (length (a @ c # b) - k) (a @ c # b) = a @ c # b'" by blast
    with Some Suc show ?thesis by (simp del: take_append length_append)
  qed auto
qed auto

lemma trim_space_visible: "visible c \<Longrightarrow> \<exists>a' b'. trim_space (a @ c # b) = a' @ c # b'"
  unfolding trim_space_def Let_def using trim_left_visible trim_right_visible by metis

lemma trim_space_nonblank: "c \<in> set s \<Longrightarrow> visible c \<Longrightarrow> trim_space s \<noteq> ''''"
  by (metis append_is_Nil_conv list.distinct(1) split_list trim_space_visible)

lemma trim_space_visible_head [simp]: "visible c \<Longrightarrow> trim_space (c # s) \<noteq> ''''"
  by (rule trim_space_nonblank [of c]) simp_all

text \<open>A suffix between two visible characters is kept.\<close>

lemma trim_space_suffix: "visible c \<Longrightarrow> visible d \<Longrightarrow> \<exists>a'. trim_space (a @ c # b @ [d]) = a' @ c # b @ [d]"
proof -
  assume c: "visible c" and d: "visible d"
  from trim_left_visible [OF c] obtain a' where a':
    "trim_left_fuel (length (a @ c # b @ [d])) (a @ c # b @ [d]) = a' @ c # b @ [d]" by blast
  obtain n where n: "n = length (a' @ c # b @ [d])" by simp
  from trim_right_visible [OF d, of n "a' @ c # b" "[]"] obtain b' where
    "trim_right_fuel n (a' @ c # b @ [d]) = a' @ c # b @ d # b'" by auto
  then have b': "trim_right_fuel (length (a' @ c # b @ [d])) (a' @ c # b @ [d]) = a' @ c # b @ d # b'"
    unfolding n .
  have "length (trim_right_fuel n s) \<le> length s" for n and s :: string
  proof (induction n arbitrary: s)
    case (Suc n)
    have "length (trim_right_fuel n (take (length s - k) s)) \<le> length s" for k
      using Suc [of "take (length s - k) s"] by simp
    then show ?case by (simp split: option.split)
  qed simp
  from this [of "length (a' @ c # b @ [d])" "a' @ c # b @ [d]"] b' have "b' = []" by simp
  with a' b' show ?thesis by (simp add: trim_space_def Let_def)
qed

text \<open>A text between visible characters is not changed.\<close>

lemma leading_visible: "visible c \<Longrightarrow> leading_space (c # s) = None"
proof (rule ccontr)
  assume c: "visible c" and "leading_space (c # s) \<noteq> None"
  then obtain e where e: "e \<in> set space_encodings" "take (length e) (c # s) = e"
    by (auto simp: leading_space_def dest!: find_SomeD)
  then have "e \<noteq> []" using nonempty_spaces by blast
  with e(2) have "c \<in> set e" by (cases e) simp_all
  with spaces_invisible e(1) c show False by blast
qed

lemma trailing_visible: "visible (last s) \<Longrightarrow> s \<noteq> [] \<Longrightarrow> trailing_space s = None"
proof (rule ccontr)
  assume c: "visible (last s)" and s: "s \<noteq> []" and "trailing_space s \<noteq> None"
  then obtain e where e: "e \<in> set space_encodings" "drop (length s - length e) s = e"
    by (auto simp: trailing_space_def dest!: find_SomeD)
  then have "e \<noteq> []" using nonempty_spaces by blast
  with e have "last s = last e" by (metis drop_eq_Nil last_drop linorder_not_less)
  with spaces_invisible e(1) c \<open>e \<noteq> []\<close> show False by (metis last_in_set)
qed

lemma trim_space_id [simp]: "visible c \<Longrightarrow> visible (last (c # s)) \<Longrightarrow> trim_space (c # s) = c # s"
  using trailing_visible [of "c # s"]
  by (simp only: trim_space_def Let_def trim_left_stuck leading_visible trim_right_stuck list.distinct not_False_eq_True simp_thms)

end
