(* ===== verification/DomainLive.thy ===== *)
theory DomainLive
  imports Domain
begin

text \<open>
  The process-local half of \<open>internal/domain/model.go\<close>: the live terminal checkpoint, the
  broadcast, the coordination aggregate that \<open>internal/control\<close> owns, its requests and
  results, and the projections it publishes.  An enumeration whose values arrive from
  decoded requests has an \<open>Other\<close> constructor for any further string.
\<close>

section \<open>Identifiers and enumerations\<close>

type_synonym LogicalSessionID = string
type_synonym BrowserToken = string
type_synonym ConnectionID = string
type_synonym CharacterID = string
type_synonym BroadcastID = string
type_synonym SwitchID = string
type_synonym RequestID = string

datatype RuntimeCommandKind =
  RuntimeCommandSelectCharacter | RuntimeCommandNavigate | RuntimeCommandGuess
| RuntimeCommandActivatePattern | RuntimeCommandPresentation | RuntimeCommandOther string

datatype PresentationKind =
  PresentationNone | PresentationMenu | PresentationPage | PresentationHacking | PresentationOther string

record ControllerTerminalPresentation =
  cp_Kind :: PresentationKind
  cp_ContextKey :: string
  cp_TargetID :: string
  cp_PatternID :: string
  cp_PageIndex :: "32 word"

datatype PlayerRole = PlayerRoleUnassigned | PlayerRoleActive | PlayerRoleObserver

datatype PlayerPhase =
  PlayerPhaseNoBroadcast | PlayerPhaseSelecting | PlayerPhaseWaiting
| PlayerPhaseControlling | PlayerPhaseObserving

datatype RosterStatus = RosterStatusAvailable | RosterStatusClaimed

datatype TerminalLifecycle = TerminalLifecycleActive | TerminalLifecycleSuspended

datatype TerminalSwitchChoice =
  TerminalSwitchPreserve | TerminalSwitchDiscard | TerminalSwitchCancel | TerminalSwitchOther string

datatype CommandExecutionDecision =
  CommandExecutionApprove | CommandExecutionReject | CommandExecutionOther string

datatype CommandApprovalMode =
  CommandApprovalModeOrdinary | CommandApprovalModeStateChange | CommandApprovalModeCompletedStateChange

datatype CommandExecutionPhase = CommandExecutionPhasePending | CommandExecutionPhaseRejected

record CommandExecutionPresentation =
  cx_Phase :: CommandExecutionPhase
  cx_CommandID :: string

datatype TerminalNavigationDirection = TerminalNavigationForward | TerminalNavigationReturn

datatype TerminalNavigationDecision =
  TerminalNavigationApprove | TerminalNavigationReject | TerminalNavigationOther string

datatype TerminalReturnOrigin = TerminalReturnAuthored | TerminalReturnInitialPrefix

section \<open>Terminal navigation\<close>

record TerminalReturnPoint =
  trp_TerminalID :: string
  trp_TerminalName :: string
  trp_FolderID :: string
  trp_AncestorFolderIDs :: "string list"
  trp_CommandID :: string
  trp_CommandName :: string
  trp_Origin :: TerminalReturnOrigin
  trp_GroupID :: string
  trp_GroupPosition :: nat

record PendingTerminalNavigation =
  pn_RequestID :: string
  pn_BroadcastID :: BroadcastID
  pn_ControllerSessionID :: LogicalSessionID
  pn_Direction :: TerminalNavigationDirection
  pn_SourceTerminalID :: string
  pn_SourceTerminalName :: string
  pn_CommandID :: string
  pn_CommandName :: string
  pn_TargetTerminalID :: string
  pn_TargetTerminalName :: string
  pn_ReturnPoint :: TerminalReturnPoint

datatype TerminalNavigationNoticeReason =
  TerminalNavigationNoticeTargetMissing | TerminalNavigationNoticeSelfTarget
| TerminalNavigationNoticeCommandStale | TerminalNavigationNoticeTargetChanged

record TerminalNavigationNotice =
  tn_Reason :: TerminalNavigationNoticeReason
  tn_SourceTerminalID :: string
  tn_CommandID :: string
  tn_TargetTerminalID :: "string option"

record TerminalReturnTarget =
  rt_TerminalID :: string
  rt_TerminalName :: string

record PendingTerminalNavigationPresentation =
  pnp_Direction :: TerminalNavigationDirection
  pnp_TargetTerminalID :: string
  pnp_TargetTerminalName :: string

record TerminalNavigationPresentation =
  tnp_RouteDepth :: nat
  tnp_ReturnTarget :: "TerminalReturnTarget option"
  tnp_Pending :: "PendingTerminalNavigationPresentation option"

section \<open>Requests and results\<close>

datatype PlayerNotice = PlayerNoticeCommandPersistenceFailed

datatype ActionReason =
  ActionReasonAccepted | ActionReasonInvalidSession | ActionReasonStaleBroadcast
| ActionReasonUnassigned | ActionReasonNotController | ActionReasonControllerDisconnected
| ActionReasonStaleTerminal | ActionReasonInvalidAction | ActionReasonConflict | ActionReasonDuplicate

record ActionResult =
  ar_RequestID :: RequestID
  ar_Accepted :: bool
  ar_Reason :: ActionReason
  ar_Revision :: revision

record RuntimeCommand =
  rc_RequestID :: RequestID
  rc_BroadcastID :: BroadcastID
  rc_TerminalID :: string
  rc_Kind :: RuntimeCommandKind
  rc_Action :: string
  rc_NodeID :: string
  rc_TargetID :: string
  rc_PatternID :: string
  rc_Presentation :: ControllerTerminalPresentation
  rc_PayloadFingerprint :: string

record RequestResultRecord =
  rr_Fingerprint :: string
  rr_Result :: ActionResult

record RequestReplayRecord =
  rp_RequestID :: RequestID
  rp_Procedure :: string
  rp_PayloadFingerprint :: string
  rp_Result :: ActionResult
  rp_Revision :: revision

section \<open>Live terminals\<close>

record LiveState =
  lv_TerminalID :: string
  lv_TerminalName :: string
  lv_Tree :: ContentNode
  lv_HackLevel :: int
  lv_IntroText :: string
  lv_Nav :: NavState
  lv_Hack :: "HackState option"

record PublicLiveState =
  pl_TerminalID :: string
  pl_TerminalName :: string
  pl_Tree :: ContentNode
  pl_HackLevel :: int
  pl_IntroText :: string
  pl_Nav :: NavState
  pl_Hack :: "PublicHackState option"
  pl_CommandExecution :: "CommandExecutionPresentation option"
  pl_TerminalNavigation :: "TerminalNavigationPresentation option"
  pl_Presentation :: ControllerTerminalPresentation

record TerminalRuntime =
  tr_TerminalID :: string
  tr_TerminalName :: string
  tr_Tree :: ContentNode
  tr_CommandStates :: CommandStates
  tr_CommandExecution :: "CommandExecutionPresentation option"
  tr_HackLevel :: int
  tr_IntroText :: string
  tr_Nav :: NavState
  tr_Hack :: "HackState option"
  tr_Presentation :: ControllerTerminalPresentation
  tr_Lifecycle :: TerminalLifecycle

record TerminalTarget =
  ttg_TerminalID :: string
  ttg_TerminalName :: string
  ttg_Tree :: ContentNode
  ttg_CommandStates :: CommandStates
  ttg_HackLevel :: int
  ttg_IntroText :: string

record TerminalTransitionTarget =
  tx_SourceTerminalID :: string
  tx_SourceTerminalName :: string
  tx_CommandID :: string
  tx_CommandName :: string
  tx_Target :: TerminalTarget

section \<open>The coordination aggregate\<close>

record LogicalSession =
  ls_ID :: LogicalSessionID
  ls_FallbackName :: string
  ls_ConnectionIDs :: "ConnectionID goset"
  ls_RequestResults :: "(RequestID, RequestResultRecord) gomap"
  ls_Notice :: "PlayerNotice option"

record CharacterCreatePayload =
  ccp_Name :: string
  ccp_Intelligence :: int
  ccp_HackerPerkAvailable :: bool
  ccp_ExpectedRevision :: revision

record CharacterUpdatePayload =
  cup_CharacterID :: CharacterID
  cup_Name :: string
  cup_Intelligence :: int
  cup_HackerPerkAvailable :: bool
  cup_ExpectedRevision :: revision

record CharacterDeletePayload =
  cdp_CharacterID :: CharacterID
  cdp_ExpectedRevision :: revision

record CharacterRosterEntry =
  cr_ID :: CharacterID
  cr_Name :: string
  cr_Intelligence :: int
  cr_HackerPerkAvailable :: bool

record PlayerConfig =
  pc_Version :: int
  pc_Name :: string
  pc_Roster :: "CharacterRosterEntry list option"

record PlayerConfigHandle =
  pcf_Path :: string
  pcf_Version :: int
  pcf_Name :: string
  pcf_ContentDigest :: string

record PlayerConfigMetadata =
  pm_Status :: string
  pm_Name :: string
  pm_FilePath :: string
  pm_Version :: int

record LiveBroadcast =
  lb_ID :: BroadcastID
  lb_AssignmentsBySession :: "(LogicalSessionID, CharacterID) gomap"
  lb_SessionByCharacter :: "(CharacterID, LogicalSessionID) gomap"
  lb_ControllerSessionID :: "LogicalSessionID option"
  lb_ActiveTerminalID :: "string option"
  lb_TerminalRuntimes :: "(string, TerminalRuntime) gomap"
  lb_Route :: "TerminalReturnPoint list"
  lb_InitialTerminalEstablished :: bool
  lb_InitialTerminalID :: string
  lb_InitialTerminalGroupID :: string
  lb_InitialTerminalGroupPosition :: nat

record PendingCommandExecution =
  pe_RequestID :: string
  pe_BroadcastID :: BroadcastID
  pe_TerminalID :: string
  pe_CommandID :: string
  pe_CommandName :: string
  pe_Mode :: CommandApprovalMode
  pe_ConfirmationText :: string
  pe_ControllerSessionID :: LogicalSessionID

record TerminalSwitchDecision =
  sw_ID :: SwitchID
  sw_BroadcastID :: BroadcastID
  sw_SourceTerminalID :: string
  sw_Target :: "TerminalTarget option"

record ProcessRuntime =
  pr_Revision :: revision
  pr_SessionsByID :: "(LogicalSessionID, LogicalSession) gomap"
  pr_SessionIDByBrowserToken :: "(BrowserToken, LogicalSessionID) gomap"
  pr_RosterByID :: "(CharacterID, CharacterRosterEntry) gomap"
  pr_RosterOrder :: "CharacterID list"
  pr_ActivePlayerConfig :: "PlayerConfigHandle option"
  pr_Broadcast :: "LiveBroadcast option"
  pr_PendingSwitch :: "TerminalSwitchDecision option"
  pr_PendingCommandExecution :: "PendingCommandExecution option"
  pr_PendingTerminalNavigation :: "PendingTerminalNavigation option"
  pr_TerminalNavigationNotice :: "TerminalNavigationNotice option"

section \<open>Projections\<close>

record PlayerCharacter =
  pch_ID :: CharacterID
  pch_Name :: string

record PlayerRosterEntry =
  pre_ID :: CharacterID
  pre_Name :: string
  pre_Status :: RosterStatus

record PlayerState =
  ps_Revision :: revision
  ps_SessionID :: LogicalSessionID
  ps_FallbackName :: string
  ps_Character :: "PlayerCharacter option"
  ps_Role :: PlayerRole
  ps_Phase :: PlayerPhase
  ps_BroadcastID :: BroadcastID
  ps_ActiveTerminalID :: string
  ps_Roster :: "PlayerRosterEntry list"
  ps_Notice :: "PlayerNotice option"

record TerminalPresentation =
  tp_Live :: "PublicLiveState option"
  tp_NoLiveTerminal :: bool

record PersonalizedSnapshot =
  sn_RecognitionHandle :: BrowserToken
  sn_Revision :: revision
  sn_PlayerState :: "PlayerState option"
  sn_Terminal :: TerminalPresentation

record CompoundUpdate =
  cu_Revision :: revision
  cu_Player :: "PlayerState option"
  cu_Terminal :: "TerminalPresentation option"
  cu_Nav :: "NavState option"
  cu_Hack :: "PublicHackState option"

record MasterRosterEntry =
  mr_ID :: CharacterID
  mr_Name :: string
  mr_Intelligence :: int
  mr_HackerPerkAvailable :: bool
  mr_ClaimedBySessionID :: "LogicalSessionID option"

record MasterSessionEntry =
  ms_ID :: LogicalSessionID
  ms_FallbackName :: string
  ms_Connected :: bool
  ms_Character :: "PlayerCharacter option"
  ms_Role :: PlayerRole

record MasterBroadcastState =
  mb_ID :: BroadcastID
  mb_ControllerSessionID :: "LogicalSessionID option"
  mb_ActiveTerminalID :: "string option"

record MasterPendingSwitch =
  mp_SwitchID :: SwitchID
  mp_BroadcastID :: BroadcastID
  mp_SourceTerminalID :: string
  mp_TargetTerminalID :: "string option"

record MasterPendingCommandExecution =
  mpe_RequestID :: string
  mpe_BroadcastID :: BroadcastID
  mpe_TerminalID :: string
  mpe_CommandID :: string
  mpe_CommandName :: string
  mpe_Mode :: CommandApprovalMode
  mpe_ConfirmationText :: string

record MasterPendingTerminalNavigation =
  mpn_RequestID :: string
  mpn_BroadcastID :: BroadcastID
  mpn_Direction :: TerminalNavigationDirection
  mpn_SourceTerminalID :: string
  mpn_SourceTerminalName :: string
  mpn_CommandID :: string
  mpn_CommandName :: string
  mpn_TargetTerminalID :: string
  mpn_TargetTerminalName :: string
  mpn_RouteDepth :: nat

record MasterTerminalNavigationNotice =
  mtn_Reason :: TerminalNavigationNoticeReason
  mtn_SourceTerminalID :: string
  mtn_CommandID :: string
  mtn_TargetTerminalID :: "string option"

record MasterCoordinationState =
  mc_Revision :: revision
  mc_PlayerConfig :: "PlayerConfigMetadata option"
  mc_Roster :: "MasterRosterEntry list"
  mc_Sessions :: "MasterSessionEntry list"
  mc_Broadcast :: "MasterBroadcastState option"
  mc_PendingSwitch :: "MasterPendingSwitch option"
  mc_PendingCommandExecution :: "MasterPendingCommandExecution option"
  mc_PendingTerminalNavigation :: "MasterPendingTerminalNavigation option"
  mc_TerminalNavigationNotice :: "MasterTerminalNavigationNotice option"

end
