(* ===== verification/Validate.thy ===== *)
theory Validate
  imports GoText DomainLive
begin

text \<open>
  Document validation (\<open>internal/domain/validate.go\<close>): sessions with their content trees,
  durable command states and entry blocks, terminal groups, standalone player configs and
  the scalar fields of public requests.  A check returns the first violation found, located
  by its path; message texts are not modelled.  Go maps are ranged in their list order.
\<close>

section \<open>Limits, paths and violations\<close>

definition MaxTerminals :: nat where "MaxTerminals = 1000"
definition MaxNodeDepth :: nat where "MaxNodeDepth = 64"
definition MaxNodes :: nat where "MaxNodes = 100000"
definition MaxRosterEntries :: nat where "MaxRosterEntries = 1000"
definition MaxCharacterNameRunes :: nat where "MaxCharacterNameRunes = 80"
definition MaxTerminalIDBytes :: nat where "MaxTerminalIDBytes = 256"
definition maxNameBytes :: nat where "maxNameBytes = 256"
definition maxIntroBytes :: nat where "maxIntroBytes = 64 * 1024"
definition maxBodyBytes :: nat where "maxBodyBytes = 1024 * 1024"

datatype PathSegment = Field string | Index nat | Key string

type_synonym path = "PathSegment list"

datatype Violation =
  MustBeVersion1 | MustNotBeBlank | ExceedsBytes nat | ExceedsLimit nat | MustBeArray
| MustBeRelativePath | InvalidPathCharacter | ShadowsKnownField string | InvalidJSON string
| Duplicates string | OutOfRange | MustBeFolderRoot | NodeLimit | DepthLimit
| FolderWithCommandConfig | FolderWithLeafFields | CommandMustBeLeaf | BothBehaviors
| EntryWithCommandConfig | EntryMustBeLeaf | UnsupportedType string
| DescriptionAndBlocks | SurroundingWhitespace | UnknownBlock string | BlockTargetedTwice string
| FrozenBlockTwice string | FrozenChangeMissing | FrozenChangeUnauthored | FrozenTargetDiffers
| UnknownCommand | NotStateChanging | SelfTransition | UnknownTerminal string
| TerminalInTwoGroups string | EmptyGroup | TerminalMissingFromGroups
| TransitionsCrossGroups "(string \<times> string) list" | SingletonIdentityChanged string
| UnsupportedField | InvalidText | InvalidCharacter

datatype ValidationError = ValidationError (ve_path: path) (ve_what: Violation)

definition sessionFields :: "string list" where
  "sessionFields = [''version'', ''name'', ''playerConfig'', ''terminals'', ''terminalGroups'']"

definition terminalFields :: "string list" where
  "terminalFields = [''id'', ''name'', ''hackLevel'', ''introText'', ''root'', ''commandStates'']"

definition nodeFields :: "string list" where
  "nodeFields = [''id'', ''type'', ''name'', ''children'', ''text'', ''description'', ''blocks'',
     ''stateChange'', ''terminalTransition'']"

section \<open>Scalars\<close>

definition validateRequiredString :: "path \<Rightarrow> string \<Rightarrow> nat \<Rightarrow> ValidationError option" where
  "validateRequiredString p v maxBytes =
     (if trim_space v = '''' then Some (ValidationError p MustNotBeBlank)
      else if maxBytes < length v then Some (ValidationError p (ExceedsBytes maxBytes))
      else None)"

definition validateExtras :: "Platform \<Rightarrow> path \<Rightarrow> (string, string) gomap \<Rightarrow> string list \<Rightarrow> ValidationError option" where
  "validateExtras pf p extras known =
     first_err (map (\<lambda>(f, v).
        if f \<in> set known then Some (ValidationError p (ShadowsKnownField f))
        else if \<not> pf_JSONValid pf v then Some (ValidationError p (InvalidJSON f))
        else None) extras)"

definition validateEntryBlockID :: "path \<Rightarrow> string \<Rightarrow> ValidationError option" where
  "validateEntryBlockID p v =
     (case validateRequiredString p v maxNameBytes of
        Some e \<Rightarrow> Some e
      | None \<Rightarrow> if trim_space v \<noteq> v then Some (ValidationError p SurroundingWhitespace) else None)"

definition validateEntryContentChange :: "path \<Rightarrow> EntryContentChange \<Rightarrow> ValidationError option" where
  "validateEntryContentChange p change =
     (case validateEntryBlockID (p @ [Field ''blockId'']) (ec_BlockID change) of
        Some e \<Rightarrow> Some e
      | None \<Rightarrow>
          if maxBodyBytes < length (ec_CompletedText change)
          then Some (ValidationError (p @ [Field ''completedText'']) (ExceedsBytes maxBodyBytes))
          else None)"

text \<open>Public request fields.\<close>

datatype PublicField =
  PublicFieldRecognitionHandle | PublicFieldRequestID | PublicFieldBroadcastID | PublicFieldGenerationID
| PublicFieldTerminalID | PublicFieldCharacterID | PublicFieldActionTarget | PublicFieldOther string

definition publicFieldLimit :: "PublicField \<Rightarrow> nat" where
  "publicFieldLimit field =
     (case field of
        PublicFieldRecognitionHandle \<Rightarrow> 128 | PublicFieldRequestID \<Rightarrow> 128 | PublicFieldBroadcastID \<Rightarrow> 128
      | PublicFieldGenerationID \<Rightarrow> 128 | PublicFieldTerminalID \<Rightarrow> 256 | PublicFieldCharacterID \<Rightarrow> 256
      | PublicFieldActionTarget \<Rightarrow> 256 | PublicFieldOther _ \<Rightarrow> 0)"

text \<open>In valid UTF-8 a rune outside \<open>0x21..0x7e\<close> is one with a byte outside that range.\<close>

definition ValidatePublicField :: "PublicField \<Rightarrow> string \<Rightarrow> Violation option" where
  "ValidatePublicField field value =
     (let limit = publicFieldLimit field in
      if limit = 0 then Some UnsupportedField
      else if value = '''' \<or> trim_space value \<noteq> value \<or> \<not> valid_utf8 value then Some InvalidText
      else if limit < length value then Some (ExceedsBytes limit)
      else if list_ex (\<lambda>c. byte_val c < 33 \<or> 126 < byte_val c) value then Some InvalidCharacter
      else None)"

definition ValidateCharacterName :: "string \<Rightarrow> Violation + string" where
  "ValidateCharacterName value =
     (let v = trim_space value in
      if v = '''' then Inl MustNotBeBlank
      else if MaxCharacterNameRunes < rune_count v then Inl (ExceedsLimit MaxCharacterNameRunes)
      else Inr v)"

definition ValidateCharacterIntelligence :: "int \<Rightarrow> Violation option" where
  "ValidateCharacterIntelligence v = (if v < 1 \<or> 10 < v then Some OutOfRange else None)"

section \<open>Player configs\<close>

definition validateRosterEntry ::
    "nat \<times> CharacterRosterEntry \<Rightarrow> CharacterID goset \<Rightarrow> ValidationError + CharacterID goset" where
  "validateRosterEntry ie ids =
     (case ie of (i, entry) \<Rightarrow>
      let p = [Field ''roster'', Index i] in
      (case validateRequiredString (p @ [Field ''id'']) (cr_ID entry) maxNameBytes of
        Some e \<Rightarrow> Inl e
      | None \<Rightarrow>
          if gm_has ids (cr_ID entry) then Inl (ValidationError (p @ [Field ''id'']) (Duplicates (cr_ID entry)))
          else if trim_space (cr_Name entry) = '''' then Inl (ValidationError (p @ [Field ''name'']) MustNotBeBlank)
          else if MaxCharacterNameRunes < rune_count (cr_Name entry)
            then Inl (ValidationError (p @ [Field ''name'']) (ExceedsLimit MaxCharacterNameRunes))
          else if cr_Intelligence entry < 1 \<or> 10 < cr_Intelligence entry
            then Inl (ValidationError (p @ [Field ''intelligence'']) OutOfRange)
          else Inr (gm_put (cr_ID entry) () ids)))"

definition ValidatePlayerConfig :: "PlayerConfig \<Rightarrow> ValidationError option" where
  "ValidatePlayerConfig config =
     (if pc_Version config \<noteq> 1 then Some (ValidationError [Field ''version''] MustBeVersion1)
      else case validateRequiredString [Field ''name''] (pc_Name config) maxNameBytes of
        Some e \<Rightarrow> Some e
      | None \<Rightarrow>
          (case pc_Roster config of
             None \<Rightarrow> Some (ValidationError [Field ''roster''] MustBeArray)
           | Some roster \<Rightarrow>
               if MaxRosterEntries < length roster
               then Some (ValidationError [Field ''roster''] (ExceedsLimit MaxRosterEntries))
               else (case fold_ok validateRosterEntry (enumerate 0 roster) [] of
                       Inl e \<Rightarrow> Some e | Inr _ \<Rightarrow> None)))"

section \<open>Content trees\<close>

record TransitionReference =
  tf_Path :: path
  tf_CommandID :: string
  tf_Source :: string
  tf_Target :: string

record TreeVisit =
  tv_Count :: nat
  tv_Nodes :: "(string, ContentNode) gomap"
  tv_Refs :: "TransitionReference list"

definition enterNode ::
    "Platform \<Rightarrow> path \<Rightarrow> path \<Rightarrow> ContentNode \<Rightarrow> nat \<Rightarrow> TreeVisit \<Rightarrow> ValidationError + TreeVisit" where
  "enterNode pf rootPath p node depth st =
     (let count = tv_Count st + 1 in
      if MaxNodes < count then Inl (ValidationError rootPath NodeLimit)
      else if MaxNodeDepth < depth then Inl (ValidationError p DepthLimit)
      else case validateRequiredString (p @ [Field ''id'']) (cn_ID node) maxNameBytes of
        Some e \<Rightarrow> Inl e
      | None \<Rightarrow>
          if gm_has (tv_Nodes st) (cn_ID node)
          then Inl (ValidationError (p @ [Field ''id'']) (Duplicates (cn_ID node)))
          else (case validateRequiredString (p @ [Field ''name'']) (cn_Name node) maxNameBytes of
            Some e \<Rightarrow> Inl e
          | None \<Rightarrow>
              (case validateExtras pf p (cn_Extra node) nodeFields of
                 Some e \<Rightarrow> Inl e
               | None \<Rightarrow> Inr (st\<lparr>tv_Count := count, tv_Nodes := gm_put (cn_ID node) node (tv_Nodes st)\<rparr>))))"

definition checkFolder :: "path \<Rightarrow> ContentNode \<Rightarrow> ValidationError option" where
  "checkFolder p node =
     (if cn_StateChange node \<noteq> None \<or> cn_TerminalTransition node \<noteq> None
      then Some (ValidationError p FolderWithCommandConfig)
      else if cn_Children node = None then Some (ValidationError (p @ [Field ''children'']) MustBeArray)
      else if cn_Text node \<noteq> '''' \<or> cn_Description node \<noteq> '''' \<or> cn_Blocks node \<noteq> None
      then Some (ValidationError p FolderWithLeafFields) else None)"

definition checkCommand :: "path \<Rightarrow> ContentNode \<Rightarrow> TreeVisit \<Rightarrow> ValidationError + TreeVisit" where
  "checkCommand p node st =
     (if cn_kids node \<noteq> [] \<or> cn_Description node \<noteq> '''' \<or> cn_Blocks node \<noteq> None
      then Inl (ValidationError p CommandMustBeLeaf)
      else if maxBodyBytes < length (cn_Text node)
      then Inl (ValidationError (p @ [Field ''text'']) (ExceedsBytes maxBodyBytes))
      else case (cn_StateChange node, cn_TerminalTransition node) of
        (Some _, Some _) \<Rightarrow> Inl (ValidationError p BothBehaviors)
      | (Some sc, None) \<Rightarrow>
          (case first_err
             [validateRequiredString (p @ [Field ''text'']) (cn_Text node) maxBodyBytes,
              validateRequiredString (p @ [Field ''stateChange'', Field ''completedName'']) (sc_CompletedName sc) maxNameBytes,
              validateRequiredString (p @ [Field ''stateChange'', Field ''confirmationText'']) (sc_ConfirmationText sc) maxBodyBytes] of
             Some e \<Rightarrow> Inl e | None \<Rightarrow> Inr st)
      | (None, Some tt) \<Rightarrow>
          (case validateRequiredString (p @ [Field ''terminalTransition'', Field ''targetTerminalId''])
               (tt_TargetTerminalID tt) MaxTerminalIDBytes of
             Some e \<Rightarrow> Inl e
           | None \<Rightarrow> Inr (st\<lparr>tv_Refs := tv_Refs st @
               [\<lparr>tf_Path = p @ [Field ''terminalTransition''], tf_CommandID = cn_ID node, tf_Source = '''',
                 tf_Target = tt_TargetTerminalID tt\<rparr>]\<rparr>))
      | (None, None) \<Rightarrow> Inr st)"

definition checkEntry :: "path \<Rightarrow> ContentNode \<Rightarrow> ValidationError option" where
  "checkEntry p node =
     (if cn_StateChange node \<noteq> None \<or> cn_TerminalTransition node \<noteq> None
      then Some (ValidationError p EntryWithCommandConfig)
      else if cn_kids node \<noteq> [] \<or> cn_Text node \<noteq> '''' then Some (ValidationError p EntryMustBeLeaf)
      else if maxBodyBytes < length (cn_Description node)
      then Some (ValidationError (p @ [Field ''description'']) (ExceedsBytes maxBodyBytes)) else None)"

lemma fold_ok_cong [fundef_cong]:
  "xs = ys \<Longrightarrow> s = t \<Longrightarrow> (\<And>x u. x \<in> set ys \<Longrightarrow> f x u = g x u) \<Longrightarrow> fold_ok f xs s = fold_ok g ys t"
proof (induction ys arbitrary: xs s t)
  case (Cons y ys)
  have "fold_ok f ys = fold_ok g ys" by (rule ext) (use Cons in simp)
  with Cons.prems show ?case by simp
qed simp

lemma fold_ok_cong_partial [fundef_cong]:
  "xs = ys \<Longrightarrow> (\<And>x u. x \<in> set ys \<Longrightarrow> f x u = g x u) \<Longrightarrow> fold_ok f xs = fold_ok g ys"
  by (rule ext) (rule fold_ok_cong, simp_all)

lemma enumerate_kid [termination_simp]: "(i, c) \<in> set (enumerate k (cn_kids n)) \<Longrightarrow> size c < size n"
  by (metis enumerate_eq_zip set_zip_rightD size_kid)

fun visit :: "Platform \<Rightarrow> path \<Rightarrow> path \<Rightarrow> ContentNode \<Rightarrow> nat \<Rightarrow> TreeVisit \<Rightarrow> ValidationError + TreeVisit" where
  "visit pf rootPath p node depth st =
     ok_bind (enterNode pf rootPath p node depth st) (\<lambda>st.
       if cn_Type node = NodeFolder then
         (case checkFolder p node of
            Some e \<Rightarrow> Inl e
          | None \<Rightarrow>
              fold_ok (\<lambda>(i, c) st. visit pf rootPath (p @ [Field ''children'', Index i]) c (depth + 1) st)
                (enumerate 0 (cn_kids node)) st)
       else if cn_Type node = NodeCommand then checkCommand p node st
       else if cn_Type node = NodeEntry then
         (case checkEntry p node of Some e \<Rightarrow> Inl e | None \<Rightarrow> Inr st)
       else Inl (ValidationError (p @ [Field ''type'']) (UnsupportedType (cn_Type node))))"

declare visit.simps [simp del]

definition validateTree ::
    "Platform \<Rightarrow> path \<Rightarrow> ContentNode \<Rightarrow> ValidationError + ((string, ContentNode) gomap \<times> TransitionReference list)" where
  "validateTree pf p root =
     ok_bind (visit pf p p root 1 \<lparr>tv_Count = 0, tv_Nodes = [], tv_Refs = []\<rparr>)
       (\<lambda>st. Inr (tv_Nodes st, tv_Refs st))"

section \<open>Entry blocks and frozen results\<close>

record EntryReference =
  er_Path :: path
  er_Blocks :: "EntryContentBlock list"

record ChangeReference =
  cf_Path :: path
  cf_CommandID :: string
  cf_Change :: EntryContentChange

record EntryVisit =
  ev_Blocks :: "(string, path) gomap"
  ev_Entries :: "EntryReference list"
  ev_Changes :: "ChangeReference list"

definition checkBlock :: "path \<Rightarrow> nat \<times> EntryContentBlock \<Rightarrow> EntryVisit \<Rightarrow> ValidationError + EntryVisit" where
  "checkBlock p ib st =
     (case ib of (i, block) \<Rightarrow>
      let bp = p @ [Field ''blocks'', Index i] in
      (case validateEntryBlockID (bp @ [Field ''id'']) (eb_ID block) of
         Some e \<Rightarrow> Inl e
       | None \<Rightarrow>
           if gm_has (ev_Blocks st) (eb_ID block)
           then Inl (ValidationError (bp @ [Field ''id'']) (Duplicates (eb_ID block)))
           else if maxBodyBytes < length (eb_InitialText block)
           then Inl (ValidationError (bp @ [Field ''initialText'']) (ExceedsBytes maxBodyBytes))
           else Inr (st\<lparr>ev_Blocks := gm_put (eb_ID block) bp (ev_Blocks st)\<rparr>)))"

definition collectNode :: "path \<Rightarrow> ContentNode \<Rightarrow> EntryVisit \<Rightarrow> ValidationError + EntryVisit" where
  "collectNode p node st =
     (if cn_Type node = NodeEntry then
        (if cn_Description node \<noteq> '''' \<and> cn_block_list node \<noteq> []
         then Inl (ValidationError p DescriptionAndBlocks)
         else fold_ok (checkBlock p) (enumerate 0 (cn_block_list node))
           (if cn_block_list node \<noteq> []
            then st\<lparr>ev_Entries := ev_Entries st @ [\<lparr>er_Path = p, er_Blocks = cn_block_list node\<rparr>]\<rparr> else st))
      else if cn_Type node = NodeCommand then
        (case cn_StateChange node of
           None \<Rightarrow> Inr st
         | Some sc \<Rightarrow>
             (case sc_EntryContentChange sc of
                None \<Rightarrow> Inr st
              | Some change \<Rightarrow>
                  (let cp = p @ [Field ''stateChange'', Field ''entryContentChange''] in
                   case validateEntryContentChange cp change of
                     Some e \<Rightarrow> Inl e
                   | None \<Rightarrow> Inr (st\<lparr>ev_Changes := ev_Changes st @
                       [\<lparr>cf_Path = cp, cf_CommandID = cn_ID node, cf_Change = change\<rparr>]\<rparr>))))
      else Inr st)"

fun collect :: "path \<Rightarrow> ContentNode \<Rightarrow> EntryVisit \<Rightarrow> ValidationError + EntryVisit" where
  "collect p node st =
     ok_bind (collectNode p node st) (\<lambda>st.
       fold_ok (\<lambda>(i, c) st. collect (p @ [Field ''children'', Index i]) c st) (enumerate 0 (cn_kids node)) st)"

declare collect.simps [simp del]

text \<open>Whether the running total of composed text exceeds the body limit at some block.\<close>

primrec composedExceeds :: "(string, string) gomap \<Rightarrow> bool \<Rightarrow> nat \<Rightarrow> EntryContentBlock list \<Rightarrow> bool" where
  "composedExceeds replacements first n [] = False"
| "composedExceeds replacements first n (b # bs) =
     (let n = n + (if first then 0 else 2) +
        length (case gm_get replacements (eb_ID b) of Some t \<Rightarrow> t | None \<Rightarrow> eb_InitialText b) in
      maxBodyBytes < n \<or> composedExceeds replacements False n bs)"

definition validateComposedEntryText ::
    "EntryReference list \<Rightarrow> (string, string) gomap \<Rightarrow> string \<Rightarrow> ValidationError option" where
  "validateComposedEntryText entries replacements phase =
     first_err (map (\<lambda>entry.
        if composedExceeds replacements True 0 (er_Blocks entry)
        then Some (ValidationError (er_Path entry @ [Field ''blocks'', Key phase]) (ExceedsBytes maxBodyBytes))
        else None) entries)"

record Authored =
  au_Owners :: "(string, ChangeReference) gomap"
  au_ByCommand :: "(string, ChangeReference) gomap"
  au_Texts :: "(string, string) gomap"

definition authorChange ::
    "(string, path) gomap \<Rightarrow> ChangeReference \<Rightarrow> Authored \<Rightarrow> ValidationError + Authored" where
  "authorChange blocksByID ref st =
     (let change = cf_Change ref; blockID = ec_BlockID change in
      if \<not> gm_has blocksByID blockID
      then Inl (ValidationError (cf_Path ref @ [Field ''blockId'']) (UnknownBlock blockID))
      else if gm_has (au_Owners st) blockID
      then Inl (ValidationError (cf_Path ref @ [Field ''blockId'']) (BlockTargetedTwice blockID))
      else Inr (st\<lparr>au_Owners := gm_put blockID ref (au_Owners st),
                   au_ByCommand := gm_put (cf_CommandID ref) ref (au_ByCommand st),
                   au_Texts := gm_put blockID (ec_CompletedText change) (au_Texts st)\<rparr>))"

definition freezeOwner ::
    "path \<Rightarrow> CommandStates \<Rightarrow> string \<Rightarrow> (string, string) gomap \<Rightarrow> ValidationError + (string, string) gomap" where
  "freezeOwner p states commandID owners =
     (case Option.bind (gm_get states commandID) ce_EntryContentChange of
        None \<Rightarrow> Inr owners
      | Some frozen \<Rightarrow>
          if gm_has owners (ec_BlockID frozen)
          then Inl (ValidationError (p @ [Field ''commandStates'', Key commandID, Field ''entryContentChange'',
                 Field ''blockId'']) (FrozenBlockTwice (ec_BlockID frozen)))
          else Inr (gm_put (ec_BlockID frozen) commandID owners))"

definition freezeText ::
    "path \<Rightarrow> (string, path) gomap \<Rightarrow> (string, ChangeReference) gomap \<Rightarrow> CommandStates \<Rightarrow> string \<Rightarrow>
     (string, string) gomap \<Rightarrow> ValidationError + (string, string) gomap" where
  "freezeText p blocksByID authored states commandID texts =
     (let sp = p @ [Field ''commandStates'', Key commandID, Field ''entryContentChange''] in
      case (gm_get authored commandID, Option.bind (gm_get states commandID) ce_EntryContentChange) of
        (None, None) \<Rightarrow> Inr texts
      | (Some _, None) \<Rightarrow> Inl (ValidationError sp FrozenChangeMissing)
      | (None, Some _) \<Rightarrow> Inl (ValidationError sp FrozenChangeUnauthored)
      | (Some ref, Some frozen) \<Rightarrow>
          (case validateEntryContentChange sp frozen of
             Some e \<Rightarrow> Inl e
           | None \<Rightarrow>
               if \<not> gm_has blocksByID (ec_BlockID frozen)
               then Inl (ValidationError (sp @ [Field ''blockId'']) (UnknownBlock (ec_BlockID frozen)))
               else if ec_BlockID frozen \<noteq> ec_BlockID (cf_Change ref)
               then Inl (ValidationError sp FrozenTargetDiffers)
               else Inr (gm_put (ec_BlockID frozen) (ec_CompletedText frozen) texts)))"

definition validateTerminalEntryContent ::
    "path \<Rightarrow> ContentNode \<Rightarrow> CommandStates \<Rightarrow> ValidationError option" where
  "validateTerminalEntryContent p root states =
     (case collect (p @ [Field ''root'']) root \<lparr>ev_Blocks = [], ev_Entries = [], ev_Changes = []\<rparr> of
        Inl e \<Rightarrow> Some e
      | Inr v \<Rightarrow>
         (case validateComposedEntryText (ev_Entries v) [] ''initial'' of
            Some e \<Rightarrow> Some e
          | None \<Rightarrow>
             (case fold_ok (authorChange (ev_Blocks v)) (ev_Changes v) \<lparr>au_Owners = [], au_ByCommand = [], au_Texts = []\<rparr> of
                Inl e \<Rightarrow> Some e
              | Inr a \<Rightarrow>
                 (case validateComposedEntryText (ev_Entries v) (au_Texts a) ''authored completed'' of
                    Some e \<Rightarrow> Some e
                  | None \<Rightarrow>
                     (let commandIDs = sort (gm_keys states) in
                      case fold_ok (freezeOwner p states) commandIDs [] of
                        Inl e \<Rightarrow> Some e
                      | Inr _ \<Rightarrow>
                         (case fold_ok (freezeText p (ev_Blocks v) (au_ByCommand a) states) commandIDs [] of
                            Inl e \<Rightarrow> Some e
                          | Inr texts \<Rightarrow> validateComposedEntryText (ev_Entries v) texts ''frozen completed''))))))"

section \<open>Terminal groups\<close>

record GroupIndex =
  gi_IDs :: "string goset"
  gi_Names :: "string goset"
  gi_Members :: "(string, string) gomap"

definition groupMember ::
    "string goset \<Rightarrow> path \<Rightarrow> string \<Rightarrow> nat \<times> string \<Rightarrow> (string, string) gomap \<Rightarrow>
     ValidationError + (string, string) gomap" where
  "groupMember terminalIDs p groupID it members =
     (case it of (i, terminalID) \<Rightarrow>
      let mp = p @ [Field ''terminalIds'', Index i] in
      (case validateRequiredString mp terminalID maxNameBytes of
         Some e \<Rightarrow> Inl e
       | None \<Rightarrow>
           if \<not> gm_has terminalIDs terminalID then Inl (ValidationError mp (UnknownTerminal terminalID))
           else if gm_has members terminalID then Inl (ValidationError mp (TerminalInTwoGroups terminalID))
           else Inr (gm_put terminalID groupID members)))"

definition groupName :: "Platform \<Rightarrow> string \<Rightarrow> string" where
  "groupName pf s = pf_ToLower pf (trim_space s)"

definition validateGroup ::
    "Platform \<Rightarrow> string goset \<Rightarrow> nat \<times> TerminalGroup \<Rightarrow> GroupIndex \<Rightarrow> ValidationError + GroupIndex" where
  "validateGroup pf terminalIDs ig gi =
     (case ig of (i, grp) \<Rightarrow>
      let p = [Field ''terminalGroups'', Index i]; name = groupName pf (tg_Name grp) in
      (case validateRequiredString (p @ [Field ''id'']) (tg_ID grp) maxNameBytes of
         Some e \<Rightarrow> Inl e
       | None \<Rightarrow>
           if gm_has (gi_IDs gi) (tg_ID grp) then Inl (ValidationError (p @ [Field ''id'']) (Duplicates (tg_ID grp)))
           else (case validateRequiredString (p @ [Field ''name'']) (tg_Name grp) maxNameBytes of
               Some e \<Rightarrow> Inl e
             | None \<Rightarrow>
                 if gm_has (gi_Names gi) name then Inl (ValidationError (p @ [Field ''name'']) (Duplicates name))
                 else if tg_TerminalIDs grp = [] then Inl (ValidationError (p @ [Field ''terminalIds'']) EmptyGroup)
                 else ok_bind (fold_ok (groupMember terminalIDs p (tg_ID grp)) (enumerate 0 (tg_TerminalIDs grp)) (gi_Members gi))
                   (\<lambda>members. Inr \<lparr>gi_IDs = gm_put (tg_ID grp) () (gi_IDs gi),
                      gi_Names = gm_put name () (gi_Names gi), gi_Members = members\<rparr>))))"

definition validateTerminalGroups :: "Platform \<Rightarrow> Session \<Rightarrow> string goset \<Rightarrow> ValidationError option" where
  "validateTerminalGroups pf session terminalIDs =
     (if se_TerminalGroups session = [] then None
      else case fold_ok (validateGroup pf terminalIDs) (enumerate 0 (se_TerminalGroups session))
            \<lparr>gi_IDs = [], gi_Names = [], gi_Members = []\<rparr> of
        Inl e \<Rightarrow> Some e
      | Inr gi \<Rightarrow>
          first_err (map (\<lambda>(i, terminal).
             if gm_has (gi_Members gi) (tm_ID terminal) then None
             else Some (ValidationError [Field ''terminals'', Index i, Field ''id''] TerminalMissingFromGroups))
            (enumerate 0 (se_terminal_list session))))"

section \<open>Sessions\<close>

definition validateCommandState ::
    "path \<Rightarrow> (string, ContentNode) gomap \<Rightarrow> string \<times> CommandExecutionState \<Rightarrow> ValidationError option" where
  "validateCommandState p nodesByID cs =
     (case cs of (commandID, state) \<Rightarrow>
      let sp = p @ [Field ''commandStates'', Key commandID] in
      (case gm_get nodesByID commandID of
         None \<Rightarrow> Some (ValidationError sp UnknownCommand)
       | Some node \<Rightarrow>
           if cn_Type node \<noteq> NodeCommand \<or> cn_StateChange node = None
           then Some (ValidationError sp NotStateChanging)
           else first_err
             [validateRequiredString (sp @ [Field ''completedName'']) (ce_CompletedName state) maxNameBytes,
              validateRequiredString (sp @ [Field ''resultText'']) (ce_ResultText state) maxBodyBytes]))"

record SessionIndex =
  si_TerminalIDs :: "string goset"
  si_Refs :: "TransitionReference list"

definition validateTerminal ::
    "Platform \<Rightarrow> nat \<times> Terminal \<Rightarrow> SessionIndex \<Rightarrow> ValidationError + SessionIndex" where
  "validateTerminal pf it si =
     (case it of (i, terminal) \<Rightarrow>
      let p = [Field ''terminals'', Index i] in
      (case validateRequiredString (p @ [Field ''id'']) (tm_ID terminal) maxNameBytes of
         Some e \<Rightarrow> Inl e
       | None \<Rightarrow>
           if gm_has (si_TerminalIDs si) (tm_ID terminal)
           then Inl (ValidationError (p @ [Field ''id'']) (Duplicates (tm_ID terminal)))
           else (case validateRequiredString (p @ [Field ''name'']) (tm_Name terminal) maxNameBytes of
               Some e \<Rightarrow> Inl e
             | None \<Rightarrow>
                 if tm_HackLevel terminal < 0 \<or> 5 < tm_HackLevel terminal
                 then Inl (ValidationError (p @ [Field ''hackLevel'']) OutOfRange)
                 else if maxIntroBytes < length (tm_IntroText terminal)
                 then Inl (ValidationError (p @ [Field ''introText'']) (ExceedsBytes maxIntroBytes))
                 else if cn_ID (tm_Root terminal) \<noteq> ''root'' \<or> cn_Type (tm_Root terminal) \<noteq> NodeFolder
                 then Inl (ValidationError (p @ [Field ''root'']) MustBeFolderRoot)
                 else (case validateExtras pf p (tm_Extra terminal) terminalFields of
                     Some e \<Rightarrow> Inl e
                   | None \<Rightarrow>
                       ok_bind (validateTree pf (p @ [Field ''root'']) (tm_Root terminal)) (\<lambda>(nodesByID, references).
                         (case first_err (map (validateCommandState p nodesByID) (tm_CommandStates terminal)) of
                            Some e \<Rightarrow> Inl e
                          | None \<Rightarrow>
                              (case validateTerminalEntryContent p (tm_Root terminal) (tm_CommandStates terminal) of
                                 Some e \<Rightarrow> Inl e
                               | None \<Rightarrow> Inr \<lparr>si_TerminalIDs = gm_put (tm_ID terminal) () (si_TerminalIDs si),
                                   si_Refs = si_Refs si @ map (\<lambda>r. r\<lparr>tf_Source := tm_ID terminal\<rparr>) references\<rparr>)))))))"

definition validateTransition :: "string goset \<Rightarrow> TransitionReference \<Rightarrow> ValidationError option" where
  "validateTransition terminalIDs ref =
     (if tf_Target ref = tf_Source ref then Some (ValidationError (tf_Path ref @ [Field ''targetTerminalId'']) SelfTransition)
      else if \<not> gm_has terminalIDs (tf_Target ref)
      then Some (ValidationError (tf_Path ref @ [Field ''targetTerminalId'']) (UnknownTerminal (tf_Target ref)))
      else None)"

definition validatePlayerConfigPath :: "Platform \<Rightarrow> string \<Rightarrow> ValidationError option" where
  "validatePlayerConfigPath pf p =
     (if p = '''' then None
      else if pf_IsAbs pf p \<or> pf_Clean pf p = ''.'' then Some (ValidationError [Field ''playerConfig''] MustBeRelativePath)
      else if CHR 0x00 \<in> set p then Some (ValidationError [Field ''playerConfig''] InvalidPathCharacter)
      else None)"

definition ValidateSession :: "Platform \<Rightarrow> Session \<Rightarrow> ValidationError option" where
  "ValidateSession pf session =
     (if se_Version session \<noteq> 1 then Some (ValidationError [Field ''version''] MustBeVersion1)
      else (case validateRequiredString [Field ''name''] (se_Name session) maxNameBytes of
          Some e \<Rightarrow> Some e
        | None \<Rightarrow>
           (case se_Terminals session of
              None \<Rightarrow> Some (ValidationError [Field ''terminals''] MustBeArray)
            | Some terminals \<Rightarrow>
               (case validatePlayerConfigPath pf (se_PlayerConfig session) of
                  Some e \<Rightarrow> Some e
                | None \<Rightarrow>
                    if MaxTerminals < length terminals
                    then Some (ValidationError [Field ''terminals''] (ExceedsLimit MaxTerminals))
                    else (case validateExtras pf [] (se_Extra session) sessionFields of
                        Some e \<Rightarrow> Some e
                      | None \<Rightarrow>
                          (case fold_ok (validateTerminal pf) (enumerate 0 terminals) \<lparr>si_TerminalIDs = [], si_Refs = []\<rparr> of
                             Inl e \<Rightarrow> Some e
                           | Inr si \<Rightarrow>
                               (case first_err (map (validateTransition (si_TerminalIDs si)) (si_Refs si)) of
                                  Some e \<Rightarrow> Some e
                                | None \<Rightarrow> validateTerminalGroups pf session (si_TerminalIDs si))))))))"

end
