(* ===== verification/TerminalGroups.thy ===== *)
theory TerminalGroups
  imports Validate
begin

text \<open>
  Terminal groups of a session (\<open>internal/domain/validate.go\<close>): the singleton groups that
  complete a legacy document, the group of a terminal, and the validation and semantic diff
  of a complete replacement of the group set.
\<close>

section \<open>Singleton groups\<close>

definition suffixedID :: "string \<Rightarrow> nat \<Rightarrow> string" where
  "suffixedID base suffix = (if 1 < suffix then base @ ''-'' @ dec suffix else base)"

definition singletonBase :: "string \<Rightarrow> string" where
  "singletonBase terminalID = ''singleton-'' @ hex (take 12 (sha256 terminalID))"

definition uniqueSingletonGroupID :: "string \<Rightarrow> string goset \<Rightarrow> (string \<times> string goset) option" where
  "uniqueSingletonGroupID terminalID used =
     map_option (\<lambda>candidate. (candidate, gm_put candidate () used))
       (first_free (Suc (length used)) 1 (suffixedID (singletonBase terminalID)) (gm_has used))"

definition truncateUTF8Bytes :: "string \<Rightarrow> nat \<Rightarrow> string" where
  "truncateUTF8Bytes v maxBytes =
     (if length v \<le> maxBytes then v
      else trim_space (truncate_fuel maxBytes (take maxBytes v)))"

definition suffixedName :: "string \<Rightarrow> nat \<Rightarrow> string" where
  "suffixedName base suffix =
     (if 1 < suffix
      then (let ending = '' ('' @ dec suffix @ '')'' in
            truncateUTF8Bytes base (maxNameBytes - length ending) @ ending)
      else base)"

definition singletonName :: "string \<Rightarrow> string" where
  "singletonName terminalName =
     (let base = trim_space terminalName in if base = '''' then ''Terminal'' else base)"

text \<open>The name without a suffix may equal one with a suffix, so one candidate more is tried.\<close>

definition uniqueSingletonGroupName ::
    "Platform \<Rightarrow> string \<Rightarrow> string goset \<Rightarrow> (string \<times> string goset) option" where
  "uniqueSingletonGroupName pf terminalName used =
     map_option (\<lambda>candidate. (candidate, gm_put (groupName pf candidate) () used))
       (first_free (Suc (Suc (length used))) 1 (suffixedName (singletonName terminalName))
         (\<lambda>candidate. gm_has used (groupName pf candidate)))"

primrec ensureLoop ::
    "Platform \<Rightarrow> string goset \<Rightarrow> Terminal list \<Rightarrow> string goset \<Rightarrow> string goset \<Rightarrow> TerminalGroup list option" where
  "ensureLoop pf members [] usedIDs usedNames = Some []"
| "ensureLoop pf members (t # ts) usedIDs usedNames =
     (if gm_has members (tm_ID t) then ensureLoop pf members ts usedIDs usedNames
      else Option.bind (uniqueSingletonGroupID (tm_ID t) usedIDs) (\<lambda>(i, usedIDs).
           Option.bind (uniqueSingletonGroupName pf (tm_Name t) usedNames) (\<lambda>(n, usedNames).
           map_option (\<lambda>gs. \<lparr>tg_ID = i, tg_Name = n, tg_TerminalIDs = [tm_ID t]\<rparr> # gs)
             (ensureLoop pf members ts usedIDs usedNames))))"

definition goset_of :: "'k list \<Rightarrow> 'k goset" where
  "goset_of ks = fold (\<lambda>k. gm_put k ()) ks []"

definition EnsureTerminalGroups :: "Platform \<Rightarrow> Session \<Rightarrow> Session option" where
  "EnsureTerminalGroups pf session =
     (let gs = se_TerminalGroups session in
      map_option (\<lambda>new. session\<lparr>se_TerminalGroups := gs @ new\<rparr>)
        (ensureLoop pf (goset_of (concat (map tg_TerminalIDs gs))) (se_terminal_list session)
          (goset_of (map tg_ID gs)) (goset_of (map (\<lambda>g. groupName pf (tg_Name g)) gs))))"

definition NormalizeTerminalGroups :: "Platform \<Rightarrow> Session \<Rightarrow> Session option" where
  "NormalizeTerminalGroups pf session =
     (if se_terminal_list session = [] \<or> se_TerminalGroups session \<noteq> [] then Some session
      else EnsureTerminalGroups pf session)"

definition TerminalGroupFor :: "Session \<Rightarrow> string \<Rightarrow> TerminalGroup option" where
  "TerminalGroupFor session terminalID = find (\<lambda>g. terminalID \<in> set (tg_TerminalIDs g)) (se_TerminalGroups session)"

section \<open>Replacing the group set\<close>

record TerminalGroupDiff =
  td_Changed :: bool
  td_MembershipOrOrderChanged :: bool
  td_RemovedGroupIDs :: "string list"
  td_AffectedTerminalIDs :: "string list"

definition stringSlicesEqual :: "string list \<Rightarrow> string list \<Rightarrow> bool" where
  "stringSlicesEqual left right =
     (length left = length right \<and> list_all (\<lambda>(a, b). a = b) (zip left right))"

definition terminalGroupsEqual :: "TerminalGroup list \<Rightarrow> TerminalGroup list \<Rightarrow> bool" where
  "terminalGroupsEqual left right =
     (length left = length right \<and>
      list_all (\<lambda>(a, b). tg_ID a = tg_ID b \<and> tg_Name a = tg_Name b \<and>
        stringSlicesEqual (tg_TerminalIDs a) (tg_TerminalIDs b)) (zip left right))"

definition groupsByID :: "TerminalGroup list \<Rightarrow> (string, TerminalGroup) gomap" where
  "groupsByID gs = fold (\<lambda>g. gm_put (tg_ID g) g) gs []"

primrec candidateOrderLoop :: "string list \<Rightarrow> string goset \<Rightarrow> string list" where
  "candidateOrderLoop [] seen = []"
| "candidateOrderLoop (t # ts) seen =
     (if gm_has seen t then candidateOrderLoop ts seen else t # candidateOrderLoop ts (gm_put t () seen))"

definition candidateTerminalOrder :: "TerminalGroup list \<Rightarrow> TerminalGroup list \<Rightarrow> string list" where
  "candidateTerminalOrder current candidate =
     candidateOrderLoop (concat (map tg_TerminalIDs current) @ concat (map tg_TerminalIDs candidate)) []"

definition markAll :: "string list \<Rightarrow> string goset \<Rightarrow> string goset" where
  "markAll ts affected = fold (\<lambda>t. gm_put t ()) ts affected"

definition diffCurrent ::
    "(string, TerminalGroup) gomap \<Rightarrow> TerminalGroup \<Rightarrow> TerminalGroupDiff \<times> string goset \<Rightarrow> TerminalGroupDiff \<times> string goset" where
  "diffCurrent candidateByID g da =
     (case da of (diff, affected) \<Rightarrow>
      (case gm_get candidateByID (tg_ID g) of
         None \<Rightarrow> (diff\<lparr>td_RemovedGroupIDs := td_RemovedGroupIDs diff @ [tg_ID g], td_MembershipOrOrderChanged := True\<rparr>,
                  markAll (tg_TerminalIDs g) affected)
       | Some next \<Rightarrow>
           if stringSlicesEqual (tg_TerminalIDs g) (tg_TerminalIDs next) then (diff, affected)
           else (diff\<lparr>td_MembershipOrOrderChanged := True\<rparr>,
                 markAll (tg_TerminalIDs next) (markAll (tg_TerminalIDs g) affected))))"

definition diffCandidate ::
    "(string, TerminalGroup) gomap \<Rightarrow> TerminalGroup \<Rightarrow> TerminalGroupDiff \<times> string goset \<Rightarrow> TerminalGroupDiff \<times> string goset" where
  "diffCandidate currentByID g da =
     (case da of (diff, affected) \<Rightarrow>
      if gm_has currentByID (tg_ID g) then (diff, affected)
      else (diff\<lparr>td_MembershipOrOrderChanged := True\<rparr>, markAll (tg_TerminalIDs g) affected))"

definition deriveTerminalGroupDiff :: "TerminalGroup list \<Rightarrow> TerminalGroup list \<Rightarrow> TerminalGroupDiff" where
  "deriveTerminalGroupDiff current candidate =
     (let diff = \<lparr>td_Changed = (\<not> terminalGroupsEqual current candidate), td_MembershipOrOrderChanged = False,
                  td_RemovedGroupIDs = [], td_AffectedTerminalIDs = []\<rparr> in
      if \<not> td_Changed diff then diff
      else case fold (diffCandidate (groupsByID current)) candidate
             (fold (diffCurrent (groupsByID candidate)) current (diff, [])) of
        (diff, affected) \<Rightarrow>
          diff\<lparr>td_AffectedTerminalIDs := filter (gm_has affected) (candidateTerminalOrder current candidate)\<rparr>)"

definition singletonsByMember :: "TerminalGroup list \<Rightarrow> (string, TerminalGroup) gomap" where
  "singletonsByMember gs =
     fold (\<lambda>g m. case tg_TerminalIDs g of [t] \<Rightarrow> gm_put t g m | _ \<Rightarrow> m) gs []"

definition rejectSingletonIdentityChurn :: "TerminalGroup list \<Rightarrow> TerminalGroup list \<Rightarrow> ValidationError option" where
  "rejectSingletonIdentityChurn current candidate =
     first_err (map (\<lambda>g. case tg_TerminalIDs g of
         [t] \<Rightarrow> (case gm_get (singletonsByMember candidate) t of
             Some replacement \<Rightarrow>
               if tg_ID replacement \<noteq> tg_ID g
               then Some (ValidationError [Field ''terminalGroups'', Key (tg_ID g)] (SingletonIdentityChanged t)) else None
           | None \<Rightarrow> None)
       | _ \<Rightarrow> None) current)"

definition groupByTerminal :: "TerminalGroup list \<Rightarrow> (string, string) gomap" where
  "groupByTerminal gs = fold (\<lambda>g m. fold (\<lambda>t. gm_put t (tg_ID g)) (tg_TerminalIDs g) m) gs []"

text \<open>Indexing a map with an absent key gives the empty string.\<close>

definition gm_lookup :: "('k, string) gomap \<Rightarrow> 'k \<Rightarrow> string" where
  "gm_lookup m k = (case gm_get m k of None \<Rightarrow> '''' | Some v \<Rightarrow> v)"

definition transitionConflicts ::
    "Platform \<Rightarrow> (string, string) gomap \<Rightarrow> nat \<times> Terminal \<Rightarrow> (string \<times> string) list \<Rightarrow>
     ValidationError + (string \<times> string) list" where
  "transitionConflicts pf byTerminal it conflicts =
     (case it of (i, terminal) \<Rightarrow>
      ok_bind (validateTree pf [Field ''terminals'', Index i, Field ''root''] (tm_Root terminal)) (\<lambda>(_, refs).
        Inr (conflicts @ map (\<lambda>r. (tm_ID terminal, tf_Target r))
          (filter (\<lambda>r. gm_lookup byTerminal (tm_ID terminal) \<noteq> gm_lookup byTerminal (tf_Target r)) refs))))"

definition ValidateTerminalGroupReplacement ::
    "Platform \<Rightarrow> Session \<Rightarrow> TerminalGroup list \<Rightarrow> ValidationError + TerminalGroupDiff" where
  "ValidateTerminalGroupReplacement pf session groups =
     (let candidate = session\<lparr>se_TerminalGroups := groups\<rparr> in
      case ValidateSession pf candidate of
        Some e \<Rightarrow> Inl e
      | None \<Rightarrow>
          ok_bind (fold_ok (transitionConflicts pf (groupByTerminal groups)) (enumerate 0 (se_terminal_list candidate)) [])
            (\<lambda>conflicts.
              if conflicts \<noteq> [] then Inl (ValidationError [] (TransitionsCrossGroups conflicts))
              else case rejectSingletonIdentityChurn (se_TerminalGroups session) groups of
                Some e \<Rightarrow> Inl e
              | None \<Rightarrow> Inr (deriveTerminalGroupDiff (se_TerminalGroups session) groups)))"

end
