(* ===== verification/Nav.thy ===== *)
theory Nav
  imports ContentTree
begin

text \<open>
  Shared navigation, \<open>internal/nav/nav.go\<close>: one state for all players, moved by
  \<open>ApplyAction\<close>, repaired against new content by \<open>Revalidate\<close> and restored after a
  terminal return by \<open>RestoreFolder\<close>.  \<open>nav_wf\<close> is what every operation promises: the
  path is a chain of folders from the root, the open entry and the selected command are
  direct children of the folder it ends in, and the mode agrees with the open entry.
\<close>

section \<open>The operations\<close>

definition modeList :: string where "modeList = ''list''"
definition modeEntry :: string where "modeEntry = ''entry''"

lemma modes_distinct [simp]: "modeList \<noteq> modeEntry" "modeEntry \<noteq> modeList"
  by (simp_all add: modeList_def modeEntry_def)

definition Default :: NavState where
  "Default = \<lparr>ns_Path = [''root''], ns_Mode = modeList, ns_ViewEntryID = None, ns_CommandNodeID = None\<rparr>"

definition currentFolder :: "ContentNode \<Rightarrow> string list \<Rightarrow> ContentNode option" where
  "currentFolder tree path =
     (case path of
        [] \<Rightarrow> None
      | p # rest \<Rightarrow>
          if p \<noteq> ''root'' \<or> cn_ID tree \<noteq> ''root'' \<or> cn_Type tree \<noteq> NodeFolder then None
          else walkFolders tree rest)"

definition ApplyAction :: "NavState \<Rightarrow> ContentNode \<Rightarrow> string \<Rightarrow> string \<Rightarrow> NavState" where
  "ApplyAction state tree action nodeID =
     (let folder = currentFolder tree (ns_Path state) in
      if action = ''enter'' then
        (case folder of
           None \<Rightarrow> state
         | Some f \<Rightarrow> (case directChild f nodeID NodeFolder of
             None \<Rightarrow> state
           | Some node \<Rightarrow> state\<lparr>ns_Path := ns_Path state @ [cn_ID node], ns_Mode := modeList,
                              ns_ViewEntryID := None, ns_CommandNodeID := None\<rparr>))
      else if action = ''back'' then
        (if ns_Mode state = modeEntry then state\<lparr>ns_Mode := modeList, ns_ViewEntryID := None\<rparr>
         else if 1 < length (ns_Path state) then
           state\<lparr>ns_Path := butlast (ns_Path state), ns_CommandNodeID := None\<rparr>
         else if ns_CommandNodeID state \<noteq> None then state\<lparr>ns_CommandNodeID := None\<rparr>
         else state)
      else if action = ''entry'' then
        (case folder of
           None \<Rightarrow> state
         | Some f \<Rightarrow> (case directChild f nodeID NodeEntry of
             None \<Rightarrow> state
           | Some node \<Rightarrow> state\<lparr>ns_Mode := modeEntry, ns_ViewEntryID := Some (cn_ID node),
                              ns_CommandNodeID := None\<rparr>))
      else if action = ''command'' then
        (case folder of
           None \<Rightarrow> state
         | Some f \<Rightarrow> (case directChild f nodeID NodeCommand of
             None \<Rightarrow> state
           | Some node \<Rightarrow> state\<lparr>ns_CommandNodeID := Some (cn_ID node)\<rparr>))
      else state)"

text \<open>The loop of \<open>revalidatedPath\<close> after its first component.\<close>

primrec revalidatedWalk :: "ContentNode \<Rightarrow> string list \<Rightarrow> string list \<times> ContentNode" where
  "revalidatedWalk current [] = ([], current)"
| "revalidatedWalk current (i # is) =
     (case directChild current i NodeFolder of
        None \<Rightarrow> ([], current)
      | Some next \<Rightarrow> (let (valid, folder) = revalidatedWalk next is in (cn_ID next # valid, folder)))"

definition revalidatedPath :: "ContentNode \<Rightarrow> string list \<Rightarrow> string list \<times> ContentNode" where
  "revalidatedPath tree path =
     (let (valid, folder) = revalidatedWalk tree (drop 1 path) in (''root'' # valid, folder))"

definition Revalidate :: "NavState \<Rightarrow> ContentNode \<Rightarrow> NavState" where
  "Revalidate state tree =
     (let (path, folder) = revalidatedPath tree (ns_Path state);
          next = \<lparr>ns_Path = path, ns_Mode = ns_Mode state, ns_ViewEntryID = None, ns_CommandNodeID = None\<rparr>;
          next =
            (if ns_Mode next \<noteq> modeEntry then next\<lparr>ns_Mode := modeList\<rparr>
             else case ns_ViewEntryID state of
                 None \<Rightarrow> next\<lparr>ns_Mode := modeList\<rparr>
               | Some v \<Rightarrow> if directChild folder v NodeEntry \<noteq> None
                          then next\<lparr>ns_ViewEntryID := Some v\<rparr> else next\<lparr>ns_Mode := modeList\<rparr>)
      in case ns_CommandNodeID state of
           None \<Rightarrow> next
         | Some c \<Rightarrow> if directChild folder c NodeCommand \<noteq> None
                    then next\<lparr>ns_CommandNodeID := Some c\<rparr> else next)"

fun visitFolder :: "string \<Rightarrow> ContentNode \<Rightarrow> string list \<Rightarrow> string list option" where
  "visitFolder folderID folder path =
     (if cn_ID folder = folderID then Some path
      else first_some
        (\<lambda>child. if cn_Type child \<noteq> NodeFolder then None
                 else visitFolder folderID child (path @ [cn_ID child]))
        (cn_kids folder))"

declare visitFolder.simps [simp del]

definition FindFolderPath :: "ContentNode \<Rightarrow> string \<Rightarrow> string list option" where
  "FindFolderPath tree folderID =
     (if cn_ID tree \<noteq> ''root'' \<or> cn_Type tree \<noteq> NodeFolder \<or> folderID = '''' then None
      else visitFolder folderID tree [''root''])"

definition RestoreFolder :: "ContentNode \<Rightarrow> string \<Rightarrow> string list \<Rightarrow> NavState" where
  "RestoreFolder tree folderID ancestorFolderIDs =
     (let at = (\<lambda>path. \<lparr>ns_Path = path, ns_Mode = modeList, ns_ViewEntryID = None, ns_CommandNodeID = None\<rparr>)
      in case FindFolderPath tree folderID of
           Some path \<Rightarrow> at path
         | None \<Rightarrow> (case first_some (FindFolderPath tree) (rev ancestorFolderIDs) of
                     Some path \<Rightarrow> at path
                   | None \<Rightarrow> Default))"

section \<open>Well-formed positions\<close>

definition root_tree :: "ContentNode \<Rightarrow> bool" where
  "root_tree tree = (cn_ID tree = ''root'' \<and> cn_Type tree = NodeFolder)"

definition leaf_refs_ok :: "ContentNode \<Rightarrow> NavState \<Rightarrow> bool" where
  "leaf_refs_ok folder st =
     ((ns_Mode st = modeList \<and> ns_ViewEntryID st = None \<or>
       ns_Mode st = modeEntry \<and>
         (case ns_ViewEntryID st of None \<Rightarrow> False | Some v \<Rightarrow> directChild folder v NodeEntry \<noteq> None)) \<and>
      (case ns_CommandNodeID st of None \<Rightarrow> True | Some c \<Rightarrow> directChild folder c NodeCommand \<noteq> None))"

definition nav_wf :: "ContentNode \<Rightarrow> NavState \<Rightarrow> bool" where
  "nav_wf tree st = (case currentFolder tree (ns_Path st) of None \<Rightarrow> False | Some f \<Rightarrow> leaf_refs_ok f st)"

lemma currentFolder_root: "root_tree tree \<Longrightarrow> currentFolder tree (''root'' # rest) = walkFolders tree rest"
  by (simp add: currentFolder_def root_tree_def)

lemma currentFolder_SomeD:
  "currentFolder tree path = Some f \<Longrightarrow> root_tree tree \<and> (\<exists>rest. path = ''root'' # rest \<and> walkFolders tree rest = Some f)"
  by (auto simp: currentFolder_def root_tree_def split: list.splits if_splits)

lemma currentFolder_snoc:
  assumes "currentFolder tree path = Some f" and "directChild f i NodeFolder = Some c"
  shows "currentFolder tree (path @ [i]) = Some c"
proof -
  from currentFolder_SomeD [OF assms(1)] obtain rest
    where r: "root_tree tree" "path = ''root'' # rest" "walkFolders tree rest = Some f" by blast
  with assms(2) have "walkFolders tree (rest @ [i]) = Some c" by (simp add: walkFolders_append)
  with r show ?thesis using currentFolder_root [OF r(1), of "rest @ [i]"] by simp
qed

lemma currentFolder_butlast:
  assumes "currentFolder tree path = Some f" and "1 < length path"
  shows "\<exists>g. currentFolder tree (butlast path) = Some g"
proof -
  from currentFolder_SomeD [OF assms(1)] obtain rest
    where r: "root_tree tree" "path = ''root'' # rest" "walkFolders tree rest = Some f" by blast
  then have "butlast path = ''root'' # butlast rest" using assms(2) by simp
  then show ?thesis
    using currentFolder_root [OF r(1), of "butlast rest"] walkFolders_butlast [OF r(3)] by simp
qed

lemma nav_wf_Default: "root_tree tree \<Longrightarrow> nav_wf tree Default"
  by (simp add: nav_wf_def Default_def currentFolder_root leaf_refs_ok_def)

lemma nav_wf_plain:
  "currentFolder tree path = Some f \<Longrightarrow>
   nav_wf tree \<lparr>ns_Path = path, ns_Mode = modeList, ns_ViewEntryID = None, ns_CommandNodeID = None\<rparr>"
  by (simp add: nav_wf_def leaf_refs_ok_def)

section \<open>Navigation steps\<close>

lemma leaf_refs_ok_list: "leaf_refs_ok f st \<Longrightarrow> ns_Mode st \<noteq> modeEntry \<Longrightarrow> ns_Mode st = modeList \<and> ns_ViewEntryID st = None"
  by (auto simp: leaf_refs_ok_def)

lemma nav_wf_currentFolder: "nav_wf tree st \<Longrightarrow> \<exists>f. currentFolder tree (ns_Path st) = Some f \<and> leaf_refs_ok f st"
  by (auto simp: nav_wf_def split: option.splits)

lemma nav_wf_enter:
  assumes "currentFolder tree (ns_Path st) = Some f" and "directChild f i NodeFolder = Some c"
  shows "nav_wf tree (st\<lparr>ns_Path := ns_Path st @ [i], ns_Mode := modeList,
           ns_ViewEntryID := None, ns_CommandNodeID := None\<rparr>)"
  using currentFolder_snoc [OF assms] by (simp add: nav_wf_def leaf_refs_ok_def)

lemma ApplyAction_nav_wf [wf_intros]:
  assumes "nav_wf tree st"
  shows "nav_wf tree (ApplyAction st tree action nodeID)"
proof -
  from nav_wf_currentFolder [OF assms] obtain f
    where f: "currentFolder tree (ns_Path st) = Some f" and ok: "leaf_refs_ok f st" by blast
  show ?thesis
  proof (cases "action = ''back''")
    case True
    then show ?thesis
      using f ok leaf_refs_ok_list [OF ok] currentFolder_butlast [OF f]
      by (auto simp: ApplyAction_def nav_wf_def leaf_refs_ok_def split: option.splits)
  next
    case nb: False
    show ?thesis
    proof (cases "action = ''enter''")
      case True
      then show ?thesis
        using assms f
        by (auto simp: ApplyAction_def split: option.splits dest: directChild_SomeD
            intro!: nav_wf_enter [OF f])
    next
      case enter: False
      show ?thesis
      proof (cases "action = ''entry''")
        case True
        then show ?thesis
          using assms f ok
          by (auto simp: ApplyAction_def nav_wf_def leaf_refs_ok_def split: option.splits dest: directChild_SomeD)
      next
        case False
        with nb enter show ?thesis
          using assms f ok
          by (cases "action = ''command''")
            (auto simp: ApplyAction_def nav_wf_def leaf_refs_ok_def split: option.splits dest: directChild_SomeD)
      qed
    qed
  qed
qed

text \<open>Requests that name no direct child of the right type, and unknown actions, change nothing.\<close>

lemma ApplyAction_rejected:
  assumes "action = ''enter'' \<Longrightarrow> \<forall>f. currentFolder tree (ns_Path st) = Some f \<longrightarrow> directChild f nodeID NodeFolder = None"
    and "action = ''entry'' \<Longrightarrow> \<forall>f. currentFolder tree (ns_Path st) = Some f \<longrightarrow> directChild f nodeID NodeEntry = None"
    and "action = ''command'' \<Longrightarrow> \<forall>f. currentFolder tree (ns_Path st) = Some f \<longrightarrow> directChild f nodeID NodeCommand = None"
    and "action \<noteq> ''back''"
  shows "ApplyAction st tree action nodeID = st"
proof (cases "currentFolder tree (ns_Path st)")
  case None
  with assms(4) show ?thesis by (simp add: ApplyAction_def Let_def)
next
  case (Some f)
  with assms have "action = ''enter'' \<Longrightarrow> directChild f nodeID NodeFolder = None"
    "action = ''entry'' \<Longrightarrow> directChild f nodeID NodeEntry = None"
    "action = ''command'' \<Longrightarrow> directChild f nodeID NodeCommand = None" by auto
  with Some assms(4) show ?thesis
    unfolding ApplyAction_def Let_def
    by (cases "action = ''enter''"; cases "action = ''entry''"; cases "action = ''command''") simp_all
qed

lemma ApplyAction_enter_back:
  assumes "ns_Path (ApplyAction st tree ''enter'' i) \<noteq> ns_Path st"
  shows "ns_Path (ApplyAction (ApplyAction st tree ''enter'' i) tree ''back'' j) = ns_Path st"
  using assms
  by (auto simp: ApplyAction_def currentFolder_def split: option.splits list.splits)

section \<open>Revalidation\<close>

lemma revalidatedWalk_walk: "walkFolders t (fst (revalidatedWalk t is)) = Some (snd (revalidatedWalk t is))"
proof (induction "is" arbitrary: t)
  case (Cons i "is")
  show ?case
  proof (cases "directChild t i NodeFolder")
    case (Some c)
    with directChild_SomeD [OF Some] Cons [of c] show ?thesis
      by (auto simp: case_prod_unfold Let_def)
  qed simp
qed simp

lemma revalidatedWalk_valid: "walkFolders t is = Some f \<Longrightarrow> revalidatedWalk t is = (is, f)"
  by (induction "is" arbitrary: t) (auto split: option.splits dest: directChild_SomeD)

lemma revalidatedWalk_stops:
  "\<exists>lost. is = fst (revalidatedWalk t is) @ lost \<and>
     (case lost of [] \<Rightarrow> True | i # _ \<Rightarrow> directChild (snd (revalidatedWalk t is)) i NodeFolder = None)"
proof (induction "is" arbitrary: t)
  case (Cons i js)
  show ?case
  proof (cases "directChild t i NodeFolder")
    case (Some n)
    moreover obtain v f where "revalidatedWalk n js = (v, f)" by fastforce
    ultimately have "revalidatedWalk t (i # js) = (i # v, f)" by (auto simp: Let_def dest: directChild_SomeD)
    with Cons.IH [of n, unfolded \<open>revalidatedWalk n js = (v, f)\<close>] show ?thesis by (auto simp only: fst_conv snd_conv append_Cons)
  qed simp
qed simp


lemma Revalidate_nav_wf [wf_intros]:
  assumes "root_tree tree"
  shows "nav_wf tree (Revalidate st tree)"
proof -
  obtain valid folder where w: "revalidatedWalk tree (drop 1 (ns_Path st)) = (valid, folder)"
    by (cases "revalidatedWalk tree (drop 1 (ns_Path st))")
  with revalidatedWalk_walk [of tree "drop 1 (ns_Path st)"] have wf: "walkFolders tree valid = Some folder"
    by simp
  show "nav_wf tree (Revalidate st tree)"
    using assms w wf
    by (auto simp: nav_wf_def Revalidate_def revalidatedPath_def Let_def currentFolder_root leaf_refs_ok_def
        split: option.splits)
qed

lemma Revalidate_id:
  assumes "nav_wf tree st"
  shows "Revalidate st tree = st"
proof -
  from nav_wf_currentFolder [OF assms] obtain f
    where f: "currentFolder tree (ns_Path st) = Some f" "leaf_refs_ok f st" by blast
  with currentFolder_SomeD [OF f(1)] obtain rest
    where r: "ns_Path st = ''root'' # rest" "walkFolders tree rest = Some f" by blast
  with revalidatedWalk_valid [OF r(2)] f(2) show "Revalidate st tree = st"
    by (auto simp: Revalidate_def revalidatedPath_def Let_def leaf_refs_ok_def split: option.splits)
qed

text \<open>The repaired path keeps as much of the old one as still exists: players are moved up, never sideways.\<close>

lemma Revalidate_path: "ns_Path (Revalidate st t) = ''root'' # fst (revalidatedWalk t (drop 1 (ns_Path st)))"
  by (auto simp: Revalidate_def revalidatedPath_def Let_def case_prod_unfold split: option.splits)

lemma Revalidate_longest:
  assumes "root_tree tree"
  shows "\<exists>kept lost f. drop 1 (ns_Path st) = kept @ lost \<and> ns_Path (Revalidate st tree) = ''root'' # kept \<and>
       currentFolder tree (ns_Path (Revalidate st tree)) = Some f \<and>
       (case lost of [] \<Rightarrow> True | i # _ \<Rightarrow> directChild f i NodeFolder = None)"
proof -
  let ?w = "revalidatedWalk tree (drop 1 (ns_Path st))"
  have "currentFolder tree (''root'' # fst ?w) = Some (snd ?w)"
    by (simp add: currentFolder_root [OF assms] revalidatedWalk_walk)
  with revalidatedWalk_stops [of "drop 1 (ns_Path st)" tree] show ?thesis unfolding Revalidate_path by blast
qed

section \<open>Folder lookup\<close>

lemma visitFolder_sound:
  assumes "visitFolder i n p = Some q" and "unique_ids n"
  shows "\<exists>rest f. q = p @ rest \<and> walkFolders n rest = Some f \<and> cn_ID f = i"
  using assms
proof (induction n arbitrary: p q rule: measure_induct_rule [where f = size])
  case (less n)
  show ?case
  proof (cases "cn_ID n = i")
    case True
    with less.prems show ?thesis by (auto simp: visitFolder.simps [of i n p])
  next
    case False
    with less.prems(1) obtain c where c: "c \<in> set (cn_kids n)" "cn_Type c = NodeFolder"
      and q: "visitFolder i c (p @ [cn_ID c]) = Some q"
      by (auto simp: visitFolder.simps [of i n p] dest!: first_some_SomeD split: if_splits)
    from less.prems(2) c(1) have u: "unique_ids c" by (rule unique_ids_kid)
    from less.IH [OF size_kid [OF c(1)] q u] obtain rest f
      where r: "q = (p @ [cn_ID c]) @ rest" "walkFolders c rest = Some f" "cn_ID f = i" by blast
    then have "walkFolders n (cn_ID c # rest) = Some f"
      using directChild_unique [OF less.prems(2) c(1) c(2)] by simp
    with r show ?thesis by auto
  qed
qed

lemma visitFolder_complete:
  assumes "walkFolders n rest = Some f" and "unique_ids n"
  shows "visitFolder (cn_ID f) n p = Some (p @ rest)"
  using assms
proof (induction rest arbitrary: n p)
  case Nil
  then show ?case by (simp add: visitFolder.simps)
next
  case (Cons i rest)
  then obtain c where c: "directChild n i NodeFolder = Some c" "walkFolders c rest = Some f"
    by (auto split: option.splits)
  from directChild_SomeD [OF c(1)] have ck: "c \<in> set (cn_kids n)" "cn_ID c = i" "cn_Type c = NodeFolder" by auto
  from Cons.prems(2) ck(1) have u: "unique_ids c" by (rule unique_ids_kid)
  have ft: "f \<in> set (tree_nodes c)" using c(2) by (rule walkFolders_in_tree)
  then have ne: "cn_ID f \<noteq> cn_ID n" using unique_ids_root Cons.prems(2) ck(1) by blast
  let ?g = "\<lambda>d. if cn_Type d \<noteq> NodeFolder then None else visitFolder (cn_ID f) d (p @ [cn_ID d])"
  have gc: "?g c = Some (p @ i # rest)" using Cons.IH [OF c(2) u, of "p @ [i]"] ck by simp
  have "first_some ?g (cn_kids n) = Some (p @ i # rest)"
  proof (rule first_some_unique [where x = c and f = ?g])
    show "c \<in> set (cn_kids n)" by (rule ck(1))
    show "?g c = Some (p @ i # rest)" by (rule gc)
  next
    fix z w assume z: "z \<in> set (cn_kids n)" "?g z = Some w"
    then have v: "visitFolder (cn_ID f) z (p @ [cn_ID z]) = Some w" by (auto split: if_splits)
    from Cons.prems(2) z(1) have "unique_ids z" by (rule unique_ids_kid)
    from visitFolder_sound [OF v this] obtain f' where "f' \<in> set (tree_nodes z)" "cn_ID f' = cn_ID f"
      using walkFolders_in_tree by blast
    then have zc: "z = c" using unique_ids_branch [OF Cons.prems(2) z(1) ck(1) _ ft] by simp
    have "visitFolder (cn_ID f) c (p @ [cn_ID c]) = Some w" using v unfolding zc .
    moreover have "visitFolder (cn_ID f) c (p @ [cn_ID c]) = Some (p @ i # rest)" using gc ck(3) by simp
    ultimately show "w = p @ i # rest" by simp
  qed
  with ne show ?case by (simp add: visitFolder.simps [of "cn_ID f" n p])
qed

lemma FindFolderPath_SomeD:
  assumes "FindFolderPath tree i = Some path" and "unique_ids tree"
  shows "\<exists>f. currentFolder tree path = Some f \<and> cn_ID f = i"
proof -
  have "visitFolder i tree [''root''] = Some path" and root: "root_tree tree"
    using assms by (auto simp: FindFolderPath_def root_tree_def split: if_splits)
  from visitFolder_sound [OF this(1) assms(2)] obtain rest f
    where "path = [''root''] @ rest" "walkFolders tree rest = Some f" "cn_ID f = i" by blast
  then show ?thesis using root by (auto simp: currentFolder_root)
qed

lemma currentFolder_FindFolderPath:
  assumes "currentFolder tree path = Some f" and "unique_ids tree" and "cn_ID f \<noteq> []"
  shows "FindFolderPath tree (cn_ID f) = Some path"
proof -
  from currentFolder_SomeD [OF assms(1)] obtain rest
    where r: "root_tree tree" "path = ''root'' # rest" "walkFolders tree rest = Some f" by blast
  with visitFolder_complete [OF r(3) assms(2), of "[''root'']"] assms(3)
  show ?thesis by (auto simp: FindFolderPath_def root_tree_def)
qed

lemma RestoreFolder_nav_wf [wf_intros]:
  assumes "root_tree tree" and "unique_ids tree"
  shows "nav_wf tree (RestoreFolder tree folderID ancestors)"
proof (cases "FindFolderPath tree folderID")
  case (Some path)
  with FindFolderPath_SomeD [OF Some assms(2)] show ?thesis
    by (auto simp: RestoreFolder_def intro: nav_wf_plain)
next
  case None
  then show ?thesis
    using nav_wf_Default [OF assms(1)]
    by (auto simp: RestoreFolder_def split: option.splits
        dest!: first_some_SomeD FindFolderPath_SomeD [OF _ assms(2)] intro: nav_wf_plain)
qed

section \<open>Properties\<close>

text \<open>A small content tree on which the properties are run.\<close>

definition demo_leaf :: "string \<Rightarrow> string \<Rightarrow> ContentNode" where
  "demo_leaf i t = ContentNode i t i None '''' '''' None None None []"

definition demo_tree :: ContentNode where
  "demo_tree = ContentNode ''root'' NodeFolder ''Root''
     (Some [demo_leaf ''log'' NodeEntry,
            ContentNode ''ops'' NodeFolder ''Ops'' (Some [demo_leaf ''open'' NodeCommand]) '''' '''' None None None []])
     '''' '''' None None None []"

text \<open>C24: Navigation never leaves the tree. From a valid position, any sequence of player requests,
  with arbitrary action names and targets, ends in a valid position: the path is a chain of folders
  from the root, the open entry and the selected command are direct children of its last folder, and
  the mode says whether an entry is open.\<close>

theorem nav_actions_stay_valid:
  assumes "nav_wf tree st"
  shows "nav_wf tree (foldl (\<lambda>s (action, nodeID). ApplyAction s tree action nodeID) st requests)"
  using assms by (induction requests arbitrary: st) (auto intro: ApplyAction_nav_wf)

lemma nav_actions_stay_valid_witness:
  "nav_wf demo_tree (foldl (\<lambda>s (action, nodeID). ApplyAction s demo_tree action nodeID) Default
     [(''enter'', ''ops''), (''command'', ''open''), (''back'', ''''), (''entry'', ''log'')])"
  by (rule nav_actions_stay_valid) code_simp

text \<open>C25: Revalidation repairs any position, however stale, against a current tree that starts with the
  folder called root. The result is a valid position, is left alone by a second revalidation and equals the old position when that was still
  valid. Its path is the root followed by the longest part of the old path, after the first component, whose
  folders still exist: the next component, if there is one, names no folder where the path stops. So a
  position under the root is only moved up, and an empty path becomes the root.\<close>

theorem nav_revalidate_repairs:
  assumes "root_tree tree"
  shows "nav_wf tree (Revalidate st tree) \<and>
    Revalidate (Revalidate st tree) tree = Revalidate st tree \<and>
    (nav_wf tree st \<longrightarrow> Revalidate st tree = st) \<and>
    (\<exists>kept lost f. drop 1 (ns_Path st) = kept @ lost \<and> ns_Path (Revalidate st tree) = ''root'' # kept \<and>
       currentFolder tree (ns_Path (Revalidate st tree)) = Some f \<and>
       (case lost of [] \<Rightarrow> True | i # _ \<Rightarrow> directChild f i NodeFolder = None))"
  using Revalidate_nav_wf [OF assms, of st] Revalidate_id Revalidate_longest [OF assms, of st] by blast

lemma nav_revalidate_repairs_witness:
  "nav_wf demo_tree (Revalidate \<lparr>ns_Path = [''root'', ''gone''], ns_Mode = ''entry'', ns_ViewEntryID = Some ''x'',
     ns_CommandNodeID = Some ''open''\<rparr> demo_tree)"
  using nav_revalidate_repairs [of demo_tree "\<lparr>ns_Path = [''root'', ''gone''], ns_Mode = ''entry'',
     ns_ViewEntryID = Some ''x'', ns_CommandNodeID = Some ''open''\<rparr>"]
  by (simp add: root_tree_def demo_tree_def)

text \<open>Folder lookup and path walking are inverse. In a tree with unique identities, looking up a
  folder identity returns a path exactly when walking that path from the root arrives at the folder
  with that identity; so every folder reachable by the players has one path, and the search finds it.\<close>

theorem nav_folder_paths:
  assumes "unique_ids tree" and "folderID \<noteq> ''''"
  shows "FindFolderPath tree folderID = Some path \<longleftrightarrow>
    (\<exists>f. currentFolder tree path = Some f \<and> cn_ID f = folderID)"
  using FindFolderPath_SomeD [OF _ assms(1)] currentFolder_FindFolderPath [OF _ assms(1)] assms(2) by metis

lemma nav_folder_paths_witness:
  "FindFolderPath demo_tree ''ops'' = Some [''root'', ''ops''] \<longleftrightarrow>
    (\<exists>f. currentFolder demo_tree [''root'', ''ops''] = Some f \<and> cn_ID f = ''ops'')"
  by (rule nav_folder_paths) code_simp+

text \<open>Returning to a remembered folder. The restored position is always a valid list position; it is
  the remembered folder itself whenever that folder still exists anywhere in the tree, else the deepest
  remembered ancestor that still exists, else the root.\<close>

theorem nav_restore_folder:
  assumes "root_tree tree" and "unique_ids tree"
  shows "nav_wf tree (RestoreFolder tree folderID ancestors) \<and>
    ns_Mode (RestoreFolder tree folderID ancestors) = modeList \<and>
    (\<forall>path f. currentFolder tree path = Some f \<and> cn_ID f = folderID \<and> folderID \<noteq> '''' \<longrightarrow>
       ns_Path (RestoreFolder tree folderID ancestors) = path) \<and>
    (FindFolderPath tree folderID = None \<and> list_all (\<lambda>a. FindFolderPath tree a = None) ancestors \<longrightarrow>
       RestoreFolder tree folderID ancestors = Default) \<and>
    (\<forall>xs a path ys. FindFolderPath tree folderID = None \<and> ancestors = xs @ a # ys \<and>
       list_all (\<lambda>b. FindFolderPath tree b = None) ys \<and> FindFolderPath tree a = Some path \<longrightarrow>
       ns_Path (RestoreFolder tree folderID ancestors) = path)"
proof (intro conjI allI impI)
  show "nav_wf tree (RestoreFolder tree folderID ancestors)" using assms by (rule RestoreFolder_nav_wf)
  show "ns_Mode (RestoreFolder tree folderID ancestors) = modeList"
    by (auto simp: RestoreFolder_def Default_def Let_def split: option.splits)
  fix path f assume "currentFolder tree path = Some f \<and> cn_ID f = folderID \<and> folderID \<noteq> ''''"
  then show "ns_Path (RestoreFolder tree folderID ancestors) = path"
    using currentFolder_FindFolderPath [of tree path f] assms(2) by (auto simp: RestoreFolder_def)
next
  assume h: "FindFolderPath tree folderID = None \<and> list_all (\<lambda>a. FindFolderPath tree a = None) ancestors"
  then have "first_some (FindFolderPath tree) (rev ancestors) = None" by (simp add: list_all_iff)
  with h show "RestoreFolder tree folderID ancestors = Default"
    by (simp add: RestoreFolder_def del: first_some_None_iff)
next
  fix xs a path ys
  assume h: "FindFolderPath tree folderID = None \<and> ancestors = xs @ a # ys \<and>
       list_all (\<lambda>b. FindFolderPath tree b = None) ys \<and> FindFolderPath tree a = Some path"
  then have "first_some (FindFolderPath tree) (rev ys) = None" by (simp add: list_all_iff)
  with h have "first_some (FindFolderPath tree) (rev ys @ a # rev xs) = Some path"
    by (simp add: first_some_append del: first_some_None_iff)
  with h show "ns_Path (RestoreFolder tree folderID ancestors) = path" by (simp add: RestoreFolder_def)
qed

lemma nav_restore_folder_witness:
  "ns_Path (RestoreFolder demo_tree ''gone'' [''root'', ''ops'', ''gone2'']) = [''root'', ''ops'']"
proof -
  have h: "root_tree demo_tree" "unique_ids demo_tree" "FindFolderPath demo_tree ''gone'' = None"
    "list_all (\<lambda>b. FindFolderPath demo_tree b = None) [''gone2'']"
    "FindFolderPath demo_tree ''ops'' = Some [''root'', ''ops'']" by code_simp+
  have "[''root'', ''ops'', ''gone2''] = [''root''] @ ''ops'' # [''gone2'']" by simp
  with nav_restore_folder [OF h(1,2), of "''gone''" "[''root'', ''ops'', ''gone2'']"] h(3-5) show ?thesis by blast
qed

end
