(* ===== verification/HackBoard.thy ===== *)
theory HackBoard
  imports Domain
begin

text \<open>
  Playing a hacking board (\<open>internal/hack/hack.go\<close>): discovering the bracket patterns a
  board shows, applying a guess, a forced success or a pattern, and the projection that
  clients see.  Text is a byte list; the random source is a function from a limit to a
  computation over its own state \<open>'r\<close>.
\<close>

section \<open>The random source\<close>

type_synonym 'r random = "int \<Rightarrow> ('r, int) state"

definition systemIntn :: "nat list option \<Rightarrow> int \<Rightarrow> int" where
  "systemIntn cryptoBytes limit =
     (if limit \<le> 1 then 0
      else case cryptoBytes of
          None \<Rightarrow> 0
        | Some bs \<Rightarrow> int (foldr (\<lambda>b acc. b + 256 * acc) bs 0) mod limit)"

definition safeIntn :: "'r random \<Rightarrow> int \<Rightarrow> ('r, nat) state" where
  "safeIntn random limit =
     (if limit \<le> 1 then State_Monad.return 0
      else do {
        value \<leftarrow> random limit;
        let value = go_rem value limit;
        State_Monad.return (nat (if value < 0 then value + limit else value))
      })"

lemma systemIntn_bounds: "1 < limit \<Longrightarrow> 0 \<le> systemIntn bs limit \<and> systemIntn bs limit < limit"
  by (simp add: systemIntn_def split: option.splits)

lemma safeIntn_bounds: "pred_state (\<lambda>k. k = 0 \<or> int k < limit) (safeIntn random limit)"
proof (cases "limit \<le> 1")
  case False
  then have "(if go_rem v limit < 0 then go_rem v limit + limit else go_rem v limit) < limit" for v
    using go_rem_bounds [of limit v] by auto
  then have "int (nat (if go_rem v limit < 0 then go_rem v limit + limit else go_rem v limit)) < limit" for v
    using False go_rem_bounds [of limit v] by auto
  with False show ?thesis
    by (auto simp: safeIntn_def Let_def intro!: pred_state_bind [where Q = "\<lambda>_. True"])
qed (simp add: safeIntn_def)

lemma safeIntn_below: "0 < n \<Longrightarrow> pred_state (\<lambda>k. k < n) (safeIntn random (int n))"
  by (rule pred_state_weaken [OF safeIntn_bounds]) auto

section \<open>Pattern discovery\<close>

definition boardRows :: nat where "boardRows = 16"
definition boardRowWidth :: nat where "boardRowWidth = 12"
definition columnChars :: nat where "columnChars = boardRows * boardRowWidth"

lemma boardRowWidth_pos [simp]: "0 < boardRowWidth"
  by (simp add: boardRowWidth_def)

definition isASCIIAlpha :: "char \<Rightarrow> bool" where
  "isASCIIAlpha c = (65 \<le> byte_val c \<and> byte_val c \<le> 90 \<or> 97 \<le> byte_val c \<and> byte_val c \<le> 122)"

definition closers :: "char \<Rightarrow> char option" where
  "closers c =
     (if c = CHR ''('' then Some (CHR '')'')
      else if c = CHR ''['' then Some (CHR '']'')
      else if c = CHR ''{'' then Some (CHR ''}'')
      else if c = CHR ''<'' then Some (CHR ''>'')
      else None)"

definition patternID :: "HackPatternIdentity \<Rightarrow> string" where
  "patternID i =
     raw_url_encode (hi_GenerationID i @ [CHR 0x00] @ dec (hi_Row i) @ [CHR 0x00]
       @ dec (hi_Start i) @ [CHR 0x00] @ dec (hi_End i))"

text \<open>The closing position of the pattern that opens at \<open>start\<close>, in the row that ends before \<open>rowEnd\<close>.\<close>

definition spanEnd :: "string \<Rightarrow> nat \<Rightarrow> nat \<Rightarrow> (nat \<times> char) option" where
  "spanEnd txt rowEnd start =
     (case closers (txt ! start) of
        None \<Rightarrow> None
      | Some closer \<Rightarrow>
          (case index_byte (slice txt (start + 1) rowEnd) closer of
             None \<Rightarrow> None
           | Some relativeEnd \<Rightarrow>
               (let end = start + 1 + relativeEnd in
                if list_ex isASCIIAlpha (slice txt (start + 1) end) then None
                else Some (end, closer))))"

definition rowCount :: "string \<Rightarrow> nat" where
  "rowCount txt = (length txt + boardRowWidth - 1) div boardRowWidth"

definition rowPatterns :: "string \<Rightarrow> nat \<Rightarrow> nat \<Rightarrow> string \<Rightarrow> nat \<Rightarrow> HackPattern list" where
  "rowPatterns gen columnIndex renderedRowBase txt row =
     (let rowStart = row * boardRowWidth; rowEnd = min (rowStart + boardRowWidth) (length txt) in
      List.map_filter
        (\<lambda>start. case spanEnd txt rowEnd start of
             None \<Rightarrow> None
           | Some (end, closer) \<Rightarrow>
               Some \<lparr>hp_Identity = \<lparr>hi_GenerationID = gen, hi_Row = renderedRowBase + row,
                                  hi_Start = start - rowStart, hi_End = end - rowStart\<rparr>,
                     hp_ColumnIndex = columnIndex, hp_AbsoluteStart = start, hp_AbsoluteEnd = end,
                     hp_Pair = [txt ! start, closer]\<rparr>)
        [rowStart..<rowEnd])"

primrec discoverFrom :: "string \<Rightarrow> nat \<Rightarrow> nat \<Rightarrow> HackColumn list \<Rightarrow> HackPattern list" where
  "discoverFrom gen columnIndex renderedRowBase [] = []"
| "discoverFrom gen columnIndex renderedRowBase (column # columns) =
     concat (map (rowPatterns gen columnIndex renderedRowBase (hc_Text column)) [0..<rowCount (hc_Text column)])
     @ discoverFrom gen (columnIndex + 1) (renderedRowBase + rowCount (hc_Text column)) columns"

definition discoverPatternSpans :: "string \<Rightarrow> HackColumn list \<Rightarrow> HackPattern list" where
  "discoverPatternSpans gen columns = discoverFrom gen 0 0 columns"

definition discoverPatterns :: "HackState \<Rightarrow> PublicHackPattern list" where
  "discoverPatterns st =
     map (\<lambda>span. \<lparr>pp_ID = patternID (hp_Identity span), pp_Row = hi_Row (hp_Identity span),
                  pp_Start = hi_Start (hp_Identity span), pp_End = hi_End (hp_Identity span),
                  pp_Used = gm_has (hs_UsedPatterns st) (hp_Identity span)\<rparr>)
       (discoverPatternSpans (hs_GenerationID st) (hs_Columns st))"

section \<open>Playing\<close>

definition pushLog :: "HackState \<Rightarrow> string list \<Rightarrow> HackState" where
  "pushLog st lines = st\<lparr>hs_Log := hs_Log st @ map (\<lambda>l. ''> '' @ l) lines\<rparr>"

text \<open>The Russian log lines, as their UTF-8 bytes.\<close>

definition deniedLine :: string where
  "deniedLine = bytes
     [208, 158, 209, 130, 208, 186, 208, 176, 208, 183, 32, 208, 178, 32, 208, 180, 208, 190, 209, 129, 209, 130,
      209, 131, 208, 191, 208, 181]"

definition correctSuffix :: string where
  "correctSuffix = bytes
     [32, 208, 191, 209, 128, 208, 176, 208, 178, 208, 184, 208, 187, 209, 140, 208, 189, 208, 190, 46]"

definition exactLine :: string where
  "exactLine = bytes
     [208, 162, 208, 190, 209, 135, 208, 189, 208, 190, 33]"

definition pleaseLine :: string where
  "pleaseLine = bytes
     [208, 159, 208, 190, 208, 182, 208, 176, 208, 187, 209, 131, 208, 185, 209, 129, 209, 130, 208, 176, 44]"

definition waitLine :: string where
  "waitLine = bytes
     [208, 191, 208, 190, 208, 180, 208, 190, 208, 182, 208, 180, 208, 184, 209, 130, 208, 181]"

definition loginLine :: string where
  "loginLine = bytes
     [208, 178, 209, 133, 208, 190, 208, 180, 208, 176, 32, 208, 178, 32, 209, 129, 208, 184, 209, 129, 209, 130,
      208, 181, 208, 188, 209, 131, 46]"

definition attemptsRestoredLine :: string where
  "attemptsRestoredLine = bytes
     [208, 159, 208, 190, 208, 191, 209, 139, 209, 130, 208, 186, 208, 184, 32, 208, 178, 208, 190, 209, 129, 209,
      129, 209, 130, 208, 176, 208, 189, 208, 190, 208, 178, 208, 187, 208, 181, 208, 189, 209, 139, 46]"

definition dudRemovedLine :: string where
  "dudRemovedLine = bytes
     [208, 155, 208, 190, 208, 182, 208, 189, 208, 190, 208, 181, 32, 209, 129, 208, 187, 208, 190, 208, 178, 208,
      190, 32, 209, 131, 208, 180, 208, 176, 208, 187, 208, 181, 208, 189, 208, 190, 46]"

definition pushSuccessLog :: "HackState \<Rightarrow> HackState" where
  "pushSuccessLog st = pushLog st [exactLine, pleaseLine, waitLine, loginLine]"

definition spendAttempt :: "HackState \<Rightarrow> nat \<Rightarrow> HackState" where
  "spendAttempt st matches =
     (let st = st\<lparr>hs_AttemptsLeft := hs_AttemptsLeft st - 1\<rparr>;
          st = pushLog st [deniedLine, dec matches @ ''/'' @ dec (hs_WordLength st) @ correctSuffix]
      in if hs_AttemptsLeft st = 0 then st\<lparr>hs_Failed := True\<rparr> else st)"

fun countMatches :: "string \<Rightarrow> string \<Rightarrow> nat" where
  "countMatches (c # cs) (s # ss) = (if c = s then 1 else 0) + countMatches cs ss"
| "countMatches _ _ = 0"

definition containsWord :: "HackWord list \<Rightarrow> nat \<Rightarrow> bool" where
  "containsWord words index = list_ex (\<lambda>w. hw_Start w \<le> index \<and> index < hw_Start w + hw_Length w) words"

definition parseFillerTarget :: "string \<Rightarrow> (nat \<times> nat) option" where
  "parseFillerTarget target =
     (case split_on (CHR '':'') target of
        [a, b] \<Rightarrow>
          if a = [] \<or> b = [] then None
          else (case atoi a of
                  None \<Rightarrow> None
                | Some column \<Rightarrow>
                    if column < 0 then None
                    else (case atoi b of
                            None \<Rightarrow> None
                          | Some character \<Rightarrow>
                              if character < 0 then None else Some (nat column, nat character)))
      | _ \<Rightarrow> None)"

text \<open>\<open>string(b)\<close> of a byte is the UTF-8 encoding of the code point with that number.\<close>

definition byte_string :: "char \<Rightarrow> string" where
  "byte_string c =
     (if byte_val c < 128 then [c] else bytes [192 + byte_val c div 64, 128 + byte_val c mod 64])"

definition ApplyGuess :: "HackState \<Rightarrow> string \<Rightarrow> HackState" where
  "ApplyGuess st targetID =
     (if hs_Solved st \<or> hs_Failed st then st
      else case gm_get (hs_WordsByID st) targetID of
        Some candidate \<Rightarrow>
          (let st = pushLog st [hd_Text candidate];
               matches = countMatches (hd_Text candidate) (hs_SecretWord st)
           in if matches = hs_WordLength st then pushSuccessLog (st\<lparr>hs_Solved := True\<rparr>)
              else spendAttempt st matches)
      | None \<Rightarrow>
          (case parseFillerTarget targetID of
             None \<Rightarrow> st
           | Some (columnIndex, characterIndex) \<Rightarrow>
               if length (hs_Columns st) \<le> columnIndex then st
               else
                 (let column = hs_Columns st ! columnIndex in
                  if length (hc_Text column) \<le> characterIndex \<or> containsWord (hc_Words column) characterIndex then st
                  else if list_ex (\<lambda>p. hp_ColumnIndex p = columnIndex \<and> hp_AbsoluteStart p = characterIndex)
                            (discoverPatternSpans (hs_GenerationID st) (hs_Columns st)) then st
                  else spendAttempt (pushLog st [byte_string (hc_Text column ! characterIndex)]) 0)))"

definition ForceSuccess :: "HackState \<Rightarrow> HackState" where
  "ForceSuccess st =
     (if hs_Solved st \<or> hs_Failed st then st
      else pushSuccessLog ((pushLog st [hs_SecretWord st])\<lparr>hs_Solved := True\<rparr>))"

definition incorrectCandidateIDs :: "HackState \<Rightarrow> string list" where
  "incorrectCandidateIDs st =
     concat (map (\<lambda>column.
       List.map_filter
         (\<lambda>word. case gm_get (hs_WordsByID st) (hw_ID word) of
              None \<Rightarrow> None
            | Some candidate \<Rightarrow> if hd_Text candidate \<noteq> hs_SecretWord st then Some (hw_ID word) else None)
         (hc_Words column)) (hs_Columns st))"

primrec removeWord :: "string \<Rightarrow> HackWord list \<Rightarrow> (HackWord \<times> HackWord list) option" where
  "removeWord i [] = None"
| "removeWord i (w # ws) =
     (if hw_ID w = i then Some (w, ws)
      else (case removeWord i ws of None \<Rightarrow> None | Some (found, rest) \<Rightarrow> Some (found, w # rest)))"

definition dotText :: "string \<Rightarrow> HackWord \<Rightarrow> string" where
  "dotText txt w = take (hw_Start w) txt @ replicate (hw_Length w) (CHR ''.'') @ drop (hw_Start w + hw_Length w) txt"

primrec dotColumns :: "string \<Rightarrow> HackColumn list \<Rightarrow> HackColumn list option" where
  "dotColumns i [] = None"
| "dotColumns i (column # columns) =
     (case removeWord i (hc_Words column) of
        Some (w, rest) \<Rightarrow> Some (column\<lparr>hc_Text := dotText (hc_Text column) w, hc_Words := rest\<rparr> # columns)
      | None \<Rightarrow> map_option ((#) column) (dotColumns i columns))"

definition dotCandidate :: "HackState \<Rightarrow> string \<Rightarrow> HackState" where
  "dotCandidate st i =
     (case dotColumns i (hs_Columns st) of
        None \<Rightarrow> st
      | Some columns \<Rightarrow> st\<lparr>hs_Columns := columns, hs_WordsByID := gm_del i (hs_WordsByID st)\<rparr>)"

definition ApplyPattern :: "'r random \<Rightarrow> HackState \<Rightarrow> string \<Rightarrow> ('r, bool \<times> HackState) state" where
  "ApplyPattern random st requestedID =
     (if hs_Solved st \<or> hs_Failed st then State_Monad.return (False, st)
      else case find (\<lambda>p. patternID (hp_Identity p) = requestedID)
                  (discoverPatternSpans (hs_GenerationID st) (hs_Columns st)) of
        None \<Rightarrow> State_Monad.return (False, st)
      | Some requested \<Rightarrow>
          if gm_has (hs_UsedPatterns st) (hp_Identity requested) then State_Monad.return (False, st)
          else do {
            let st = st\<lparr>hs_UsedPatterns := gm_put (hp_Identity requested) () (hs_UsedPatterns st)\<rparr>;
            outcome \<leftarrow> safeIntn random 100;
            let decoys = incorrectCandidateIDs st;
            if 80 \<le> outcome \<or> decoys = []
            then State_Monad.return
                   (True, pushLog (st\<lparr>hs_AttemptsLeft := hs_AttemptsMax st\<rparr>) [attemptsRestoredLine])
            else do {
              k \<leftarrow> safeIntn random (int (length decoys));
              State_Monad.return (True, pushLog (dotCandidate st (decoys ! k)) [dudRemovedLine])
            }
          })"

definition PublicState :: "HackState \<Rightarrow> PublicHackState" where
  "PublicState st =
     \<lparr>ph_Level = hs_Level st, ph_WordLength = hs_WordLength st, ph_AttemptsMax = hs_AttemptsMax st,
      ph_AttemptsLeft = hs_AttemptsLeft st, ph_Solved = hs_Solved st, ph_Failed = hs_Failed st,
      ph_Log = hs_Log st, ph_Columns = hs_Columns st, ph_Patterns = discoverPatterns st\<rparr>"

section \<open>What discovery finds\<close>

text \<open>The pattern predicate, stated on positions instead of on the search order.\<close>

definition pattern_at :: "string \<Rightarrow> nat \<Rightarrow> nat \<Rightarrow> bool" where
  "pattern_at txt s e =
     (s < e \<and> e < length txt \<and> s div boardRowWidth = e div boardRowWidth \<and>
      closers (txt ! s) = Some (txt ! e) \<and>
      (\<forall>i. s < i \<and> i < e \<longrightarrow> txt ! i \<noteq> txt ! e \<and> \<not> isASCIIAlpha (txt ! i)))"

lemma spanEnd_iff:
  assumes "rowEnd \<le> length txt"
  shows "spanEnd txt rowEnd s = Some (e, c) \<longleftrightarrow>
    s < e \<and> e < rowEnd \<and> closers (txt ! s) = Some c \<and> txt ! e = c \<and>
    (\<forall>i. s < i \<and> i < e \<longrightarrow> txt ! i \<noteq> c \<and> \<not> isASCIIAlpha (txt ! i))" (is "?l = ?r")
proof
  assume ?l
  then obtain k where k: "closers (txt ! s) = Some c" "index_byte (slice txt (s + 1) rowEnd) c = Some k"
      "e = s + 1 + k" "\<not> list_ex isASCIIAlpha (slice txt (s + 1) e)"
    by (auto simp: spanEnd_def Let_def split: option.splits if_splits)
  from k(2) have kl: "k < rowEnd - (s + 1)" and kc: "slice txt (s + 1) rowEnd ! k = c"
    and kn: "\<forall>i<k. slice txt (s + 1) rowEnd ! i \<noteq> c"
    using assms by (auto simp: index_byte_Some_iff)
  have nth: "j < rowEnd - (s + 1) \<Longrightarrow> slice txt (s + 1) rowEnd ! j = txt ! (s + 1 + j)" for j
    using assms by (simp add: nth_slice)
  have "txt ! i \<noteq> c \<and> \<not> isASCIIAlpha (txt ! i)" if i: "s < i" "i < e" for i
  proof -
    have j: "i - (s + 1) < k" "s + 1 + (i - (s + 1)) = i" using i k(3) by auto
    then have "txt ! i \<noteq> c" using kn nth [of "i - (s + 1)"] kl by auto
    moreover have "txt ! i \<in> set (slice txt (s + 1) e)"
      using i k(3) kl assms nth_slice [of "i - (s + 1)" e "s + 1" "txt"]
      by (auto simp: in_set_conv_nth intro!: exI [of _ "i - (s + 1)"])
    ultimately show ?thesis using k(4) by (auto simp: list_ex_iff)
  qed
  then show ?r using k kl kc nth [of k] by auto
next
  assume r: ?r
  let ?k = "e - (s + 1)"
  have "index_byte (slice txt (s + 1) rowEnd) c = Some ?k"
    using r assms by (auto simp: index_byte_Some_iff nth_slice)
  moreover have "\<not> list_ex isASCIIAlpha (slice txt (s + 1) e)"
    using r assms by (auto simp: list_ex_iff in_set_conv_nth nth_slice)
  ultimately show ?l using r by (auto simp: spanEnd_def Let_def)
qed

definition mkPattern :: "string \<Rightarrow> nat \<Rightarrow> nat \<Rightarrow> string \<Rightarrow> nat \<Rightarrow> nat \<Rightarrow> HackPattern" where
  "mkPattern gen columnIndex base txt s e =
     \<lparr>hp_Identity = \<lparr>hi_GenerationID = gen, hi_Row = base + s div boardRowWidth,
                    hi_Start = s mod boardRowWidth, hi_End = e mod boardRowWidth\<rparr>,
      hp_ColumnIndex = columnIndex, hp_AbsoluteStart = s, hp_AbsoluteEnd = e,
      hp_Pair = [txt ! s, txt ! e]\<rparr>"

lemma in_rowPatterns:
  "p \<in> set (rowPatterns gen ci base txt row) \<longleftrightarrow>
   (\<exists>s e. s div boardRowWidth = row \<and> pattern_at txt s e \<and> p = mkPattern gen ci base txt s e)"
proof -
  let ?w = boardRowWidth
  let ?stop = "min (row * ?w + ?w) (length txt)"
  have same_row: "row * ?w \<le> s \<and> s < row * ?w + ?w \<longleftrightarrow> s div ?w = row" for s
    by (auto simp: boardRowWidth_def)
  have off: "s div ?w = row \<Longrightarrow> s - row * ?w = s mod ?w" for s
    by (metis minus_div_mult_eq_mod)
  have span: "spanEnd txt ?stop s = Some (e, c) \<and> row * ?w \<le> s \<and> s < ?stop
      \<longleftrightarrow> s div ?w = row \<and> pattern_at txt s e \<and> txt ! e = c" (is "?l \<longleftrightarrow> ?r") for s e c
  proof
    assume ?l
    then have l: "s < e" "e < ?stop" "closers (txt ! s) = Some c" "txt ! e = c"
        "\<forall>i. s < i \<and> i < e \<longrightarrow> txt ! i \<noteq> c \<and> \<not> isASCIIAlpha (txt ! i)" "row * ?w \<le> s" "s < ?stop"
      unfolding spanEnd_iff [OF min.cobounded2] by blast+
    then have "s div ?w = row" "e div ?w = row" using same_row [of s] same_row [of e] by simp_all
    with l show ?r unfolding pattern_at_def by simp
  next
    assume r: ?r
    then have "s div ?w = row" "e div ?w = row" by (simp_all add: pattern_at_def)
    then have "row * ?w \<le> s" "e < row * ?w + ?w" using same_row [of s] same_row [of e] by simp_all
    with r show ?l unfolding spanEnd_iff [OF min.cobounded2] pattern_at_def by auto
  qed
  show ?thesis
  proof
    assume "p \<in> set (rowPatterns gen ci base txt row)"
    then obtain s e c where s: "row * ?w \<le> s" "s < ?stop" "spanEnd txt ?stop s = Some (e, c)"
      and p: "p = \<lparr>hp_Identity = \<lparr>hi_GenerationID = gen, hi_Row = base + row,
                     hi_Start = s - row * ?w, hi_End = e - row * ?w\<rparr>,
                   hp_ColumnIndex = ci, hp_AbsoluteStart = s, hp_AbsoluteEnd = e, hp_Pair = [txt ! s, c]\<rparr>"
      by (auto simp: rowPatterns_def Let_def map_filter_def split: option.splits)
    then have m: "s div ?w = row" "pattern_at txt s e" "txt ! e = c" using span by blast+
    moreover from m have "e div ?w = row" by (simp add: pattern_at_def)
    ultimately have "p = mkPattern gen ci base txt s e" using p by (simp add: mkPattern_def off)
    with m show "\<exists>s e. s div ?w = row \<and> pattern_at txt s e \<and> p = mkPattern gen ci base txt s e" by blast
  next
    assume "\<exists>s e. s div ?w = row \<and> pattern_at txt s e \<and> p = mkPattern gen ci base txt s e"
    then obtain s e where m: "s div ?w = row" "pattern_at txt s e" "p = mkPattern gen ci base txt s e" by blast
    then have s: "spanEnd txt ?stop s = Some (e, txt ! e)" "row * ?w \<le> s" "s < ?stop" using span by blast+
    from m have e: "e div ?w = row" by (simp add: pattern_at_def)
    have "s mod ?w = s - row * ?w" "e mod ?w = e - row * ?w" using off m(1) e by simp_all
    with m s show "p \<in> set (rowPatterns gen ci base txt row)"
      by (auto simp: rowPatterns_def Let_def map_filter_def mkPattern_def
          intro!: image_eqI [where x = s])
  qed
qed

primrec rowBase :: "HackColumn list \<Rightarrow> nat \<Rightarrow> nat" where
  "rowBase [] k = 0"
| "rowBase (c # cs) k = (case k of 0 \<Rightarrow> 0 | Suc j \<Rightarrow> rowCount (hc_Text c) + rowBase cs j)"

lemma pattern_at_row: "pattern_at txt s e \<Longrightarrow> s div boardRowWidth < rowCount txt"
  by (auto simp: pattern_at_def rowCount_def boardRowWidth_def)

lemma in_discoverFrom:
  "p \<in> set (discoverFrom gen ci base cols) \<longleftrightarrow>
   (\<exists>k s e. k < length cols \<and> pattern_at (hc_Text (cols ! k)) s e \<and>
      p = mkPattern gen (ci + k) (base + rowBase cols k) (hc_Text (cols ! k)) s e)"
proof (induction cols arbitrary: ci base)
  case (Cons c cols)
  have head: "p \<in> set (concat (map (rowPatterns gen ci base (hc_Text c)) [0..<rowCount (hc_Text c)]))
      \<longleftrightarrow> (\<exists>s e. pattern_at (hc_Text c) s e \<and> p = mkPattern gen ci base (hc_Text c) s e)"
    by (simp add: in_rowPatterns) (metis atLeast0LessThan lessThan_iff pattern_at_row)
  have "(\<exists>k<Suc (length cols). P k) \<longleftrightarrow> P 0 \<or> (\<exists>k<length cols. P (Suc k))" for P
    by (simp add: ex_simps(1) less_Suc_eq_0_disj) blast
  note split = this [of "\<lambda>k. \<exists>s e. pattern_at (hc_Text ((c # cols) ! k)) s e \<and>
      p = mkPattern gen (ci + k) (base + rowBase (c # cols) k) (hc_Text ((c # cols) ! k)) s e"]
  show ?case
    by (simp only: discoverFrom.simps set_append Un_iff head Cons.IH) (use split in \<open>simp add: add.assoc\<close>)
qed simp

lemma in_discoverPatternSpans:
  "p \<in> set (discoverPatternSpans gen cols) \<longleftrightarrow>
   (\<exists>k s e. k < length cols \<and> pattern_at (hc_Text (cols ! k)) s e \<and>
      p = mkPattern gen k (rowBase cols k) (hc_Text (cols ! k)) s e)"
  by (simp add: discoverPatternSpans_def in_discoverFrom)

section \<open>Identities are unique\<close>

lemma patternID_inj: "patternID i = patternID j \<Longrightarrow> i = j"
proof -
  assume eq: "patternID i = patternID j"
  let ?tail = "\<lambda>i. dec (hi_Row i) @ [CHR 0x00] @ dec (hi_Start i) @ [CHR 0x00] @ dec (hi_End i)"
  have nz: "CHR 0x00 \<notin> set (rev (dec n))" for n
    using dec_bytes [of "CHR 0x00" n] by (auto simp: byte_val_def)
  from eq have "rev (hi_GenerationID i @ [CHR 0x00] @ ?tail i) = rev (hi_GenerationID j @ [CHR 0x00] @ ?tail j)"
    unfolding patternID_def by (metis raw_url_encode_inj)
  then have "rev (dec (hi_End i)) @ CHR 0x00 # rev (dec (hi_Start i)) @ CHR 0x00 # rev (dec (hi_Row i))
        @ CHR 0x00 # rev (hi_GenerationID i)
      = rev (dec (hi_End j)) @ CHR 0x00 # rev (dec (hi_Start j)) @ CHR 0x00 # rev (dec (hi_Row j))
        @ CHR 0x00 # rev (hi_GenerationID j)" by simp
  from append_sep_inj [OF nz nz this] have e: "hi_End i = hi_End j"
    and "rev (dec (hi_Start i)) @ CHR 0x00 # rev (dec (hi_Row i)) @ CHR 0x00 # rev (hi_GenerationID i)
      = rev (dec (hi_Start j)) @ CHR 0x00 # rev (dec (hi_Row j)) @ CHR 0x00 # rev (hi_GenerationID j)"
    by (auto dest: dec_inj)
  from append_sep_inj [OF nz nz this(2)] have st: "hi_Start i = hi_Start j"
    and "rev (dec (hi_Row i)) @ CHR 0x00 # rev (hi_GenerationID i)
      = rev (dec (hi_Row j)) @ CHR 0x00 # rev (hi_GenerationID j)"
    by (auto dest: dec_inj)
  from append_sep_inj [OF nz nz this(2)] have "hi_Row i = hi_Row j" "hi_GenerationID i = hi_GenerationID j"
    by (auto dest: dec_inj)
  with e st show ?thesis by simp
qed

lemma pattern_at_end_unique: "pattern_at txt s e \<Longrightarrow> pattern_at txt s e' \<Longrightarrow> e = e'"
  unfolding pattern_at_def by (metis linorder_neqE_nat option.inject)

lemma rowBase_mono:
  "j < k \<Longrightarrow> k \<le> length cols \<Longrightarrow> rowBase cols j + rowCount (hc_Text (cols ! j)) \<le> rowBase cols k"
proof (induction cols arbitrary: j k)
  case (Cons c cols)
  then show ?case by (cases j; cases k) (auto split: nat.splits)
qed simp

lemma discover_row_start_unique:
  assumes "p \<in> set (discoverPatternSpans gen cols)" and "q \<in> set (discoverPatternSpans gen cols)"
    and "hi_Row (hp_Identity p) = hi_Row (hp_Identity q)"
    and "hi_Start (hp_Identity p) = hi_Start (hp_Identity q)"
  shows "p = q"
proof -
  from assms(1) obtain k s e where p: "k < length cols" "pattern_at (hc_Text (cols ! k)) s e"
      "p = mkPattern gen k (rowBase cols k) (hc_Text (cols ! k)) s e"
    by (auto simp: in_discoverPatternSpans)
  from assms(2) obtain k' s' e' where q: "k' < length cols" "pattern_at (hc_Text (cols ! k')) s' e'"
      "q = mkPattern gen k' (rowBase cols k') (hc_Text (cols ! k')) s' e'"
    by (auto simp: in_discoverPatternSpans)
  have row: "rowBase cols k + s div boardRowWidth = rowBase cols k' + s' div boardRowWidth"
    and off: "s mod boardRowWidth = s' mod boardRowWidth"
    using assms(3,4) p q by (simp_all add: mkPattern_def)
  have "s div boardRowWidth < rowCount (hc_Text (cols ! k))" "s' div boardRowWidth < rowCount (hc_Text (cols ! k'))"
    using p(2) q(2) by (auto dest: pattern_at_row)
  then have k: "k = k'"
    using row rowBase_mono [of k k' cols] rowBase_mono [of k' k cols] p(1) q(1)
    by (cases k k' rule: linorder_cases) auto
  with row off have "s = s'" by (metis add_left_cancel mult_div_mod_eq)
  with k p q pattern_at_end_unique show ?thesis by blast
qed

lemma mkPattern_start: "hp_AbsoluteStart (mkPattern gen ci base txt s e) = s"
  by (simp add: mkPattern_def)

lemma distinct_map_filter:
  assumes "distinct xs" and "\<And>x y. x \<in> set xs \<Longrightarrow> f x = Some y \<Longrightarrow> g y = x"
  shows "distinct (List.map_filter f xs)"
  using assms
proof (induction xs)
  case (Cons x xs)
  then have "distinct (List.map_filter f xs)" by simp
  moreover have "y \<notin> set (List.map_filter f xs)" if y: "f x = Some y" for y
  proof
    assume "y \<in> set (List.map_filter f xs)"
    then obtain z where "z \<in> set xs" "f z = Some y" by (auto simp: map_filter_def)
    with Cons.prems y have "x = z" by (metis list.set_intros)
    with Cons.prems(1) \<open>z \<in> set xs\<close> show False by simp
  qed
  ultimately show ?case by (auto simp: List.map_filter_simps split: option.splits)
qed (simp add: List.map_filter_simps)

lemma distinct_rowPatterns: "distinct (rowPatterns gen ci base txt row)"
  unfolding rowPatterns_def Let_def
  by (rule distinct_map_filter [where g = hp_AbsoluteStart]) (auto split: option.splits)

lemma distinct_concat_index:
  assumes "\<And>r. r < n \<Longrightarrow> distinct (f r)"
    and "\<And>r x. r < n \<Longrightarrow> x \<in> set (f r) \<Longrightarrow> g x = r"
  shows "distinct (concat (map f [0..<n]))"
  using assms
proof (induction n)
  case (Suc n)
  have "distinct (concat (map f [0..<n]))" using Suc.prems by (intro Suc.IH) auto
  moreover have "set (concat (map f [0..<n])) \<inter> set (f n) = {}"
  proof (rule equals0I)
    fix x assume "x \<in> set (concat (map f [0..<n])) \<inter> set (f n)"
    then obtain r where "r < n" "x \<in> set (f r)" "x \<in> set (f n)" by auto
    with Suc.prems(2) [of r x] Suc.prems(2) [of n x] show False by simp
  qed
  ultimately show ?case using Suc.prems(1) by simp
qed simp

lemma distinct_discoverFrom: "distinct (discoverFrom gen ci base cols)"
proof (induction cols arbitrary: ci base)
  case (Cons c cols)
  have "distinct (concat (map (rowPatterns gen ci base (hc_Text c)) [0..<rowCount (hc_Text c)]))"
    by (rule distinct_concat_index [where g = "\<lambda>p. hp_AbsoluteStart p div boardRowWidth"])
      (auto simp: distinct_rowPatterns in_rowPatterns mkPattern_start)
  moreover have "set (concat (map (rowPatterns gen ci base (hc_Text c)) [0..<rowCount (hc_Text c)]))
      \<inter> set (discoverFrom gen (ci + 1) (base + rowCount (hc_Text c)) cols) = {}"
    by (auto simp: in_rowPatterns in_discoverFrom mkPattern_def)
  ultimately show ?case using Cons.IH by simp
qed simp

lemma distinct_pattern_ids:
  "distinct (map (\<lambda>p. patternID (hp_Identity p)) (discoverPatternSpans gen cols))"
  unfolding distinct_map
proof
  show "distinct (discoverPatternSpans gen cols)"
    by (simp add: discoverPatternSpans_def distinct_discoverFrom)
  show "inj_on (\<lambda>p. patternID (hp_Identity p)) (set (discoverPatternSpans gen cols))"
    by (rule inj_onI) (metis patternID_inj discover_row_start_unique)
qed

end
