(* ===== verification/HackInv.thy ===== *)
theory HackInv
  imports HackBoard
begin

text \<open>
  The invariant of a hacking board in play and the effect of every action on it
  (\<open>internal/hack/hack.go\<close>).  \<open>board_ok\<close> ties the words shown in the columns to the
  candidate table, \<open>counters_ok\<close> the attempt counter to the two terminal flags, and
  \<open>hack_wf\<close> adds that every consumed pattern is still displayed.
\<close>

section \<open>Well-formed boards\<close>

definition words_apart :: "HackWord \<Rightarrow> HackWord \<Rightarrow> bool" where
  "words_apart a b =
     (hw_Start a + hw_Length a \<le> hw_Start b \<or> hw_Start b + hw_Length b \<le> hw_Start a)"

definition word_ok :: "string \<Rightarrow> (string, HackCandidate) gomap \<Rightarrow> nat \<Rightarrow> HackWord \<Rightarrow> bool" where
  "word_ok txt byId wl w =
     (hw_Length w = wl \<and> hw_Start w + wl \<le> length txt \<and>
      (case gm_get byId (hw_ID w) of
         None \<Rightarrow> False
       | Some c \<Rightarrow> hd_Text c = slice txt (hw_Start w) (hw_Start w + wl) \<and> list_all isASCIIAlpha (hd_Text c)))"

definition column_ok :: "(string, HackCandidate) gomap \<Rightarrow> nat \<Rightarrow> HackColumn \<Rightarrow> bool" where
  "column_ok byId wl c =
     (length (hc_Text c) = columnChars \<and> length (hc_Addresses c) = boardRows \<and>
      list_all (word_ok (hc_Text c) byId wl) (hc_Words c) \<and> sorted_wrt words_apart (hc_Words c))"

definition word_ids :: "HackColumn list \<Rightarrow> string list" where
  "word_ids cols = concat (map (\<lambda>c. map hw_ID (hc_Words c)) cols)"

definition board_ok :: "HackState \<Rightarrow> bool" where
  "board_ok st =
     (list_all (column_ok (hs_WordsByID st) (hs_WordLength st)) (hs_Columns st) \<and>
      distinct (word_ids (hs_Columns st)) \<and>
      gm_ok (hs_WordsByID st) \<and>
      set (gm_keys (hs_WordsByID st)) = set (word_ids (hs_Columns st)) \<and>
      distinct (map (\<lambda>(i, c). hd_Text c) (hs_WordsByID st)) \<and>
      list_ex (\<lambda>(i, c). hd_Text c = hs_SecretWord st) (hs_WordsByID st))"

definition counters_ok :: "HackState \<Rightarrow> bool" where
  "counters_ok st =
     (0 < hs_WordLength st \<and> 0 < hs_AttemptsMax st \<and> hs_AttemptsLeft st \<le> hs_AttemptsMax st \<and>
      hs_Failed st = (hs_AttemptsLeft st = 0) \<and> \<not> (hs_Solved st \<and> hs_Failed st))"

definition used_ok :: "HackState \<Rightarrow> bool" where
  "used_ok st =
     (set (gm_keys (hs_UsedPatterns st))
        \<subseteq> hp_Identity ` set (discoverPatternSpans (hs_GenerationID st) (hs_Columns st)))"

definition hack_wf :: "HackState \<Rightarrow> bool" where
  "hack_wf st = (board_ok st \<and> counters_ok st \<and> used_ok st)"

lemma words_apart_sym: "words_apart a b = words_apart b a"
  by (auto simp: words_apart_def)

text \<open>The parts of the state that the log does not touch.\<close>

lemma pushLog_simps [simp]:
  "hs_GenerationID (pushLog st ls) = hs_GenerationID st"
  "hs_Level (pushLog st ls) = hs_Level st"
  "hs_WordLength (pushLog st ls) = hs_WordLength st"
  "hs_AttemptsMax (pushLog st ls) = hs_AttemptsMax st"
  "hs_AttemptsLeft (pushLog st ls) = hs_AttemptsLeft st"
  "hs_SecretWord (pushLog st ls) = hs_SecretWord st"
  "hs_WordsByID (pushLog st ls) = hs_WordsByID st"
  "hs_UsedPatterns (pushLog st ls) = hs_UsedPatterns st"
  "hs_Solved (pushLog st ls) = hs_Solved st"
  "hs_Failed (pushLog st ls) = hs_Failed st"
  "hs_Columns (pushLog st ls) = hs_Columns st"
  by (simp_all add: pushLog_def)

lemma spendAttempt_simps [simp]:
  "hs_GenerationID (spendAttempt st m) = hs_GenerationID st"
  "hs_Level (spendAttempt st m) = hs_Level st"
  "hs_WordLength (spendAttempt st m) = hs_WordLength st"
  "hs_AttemptsMax (spendAttempt st m) = hs_AttemptsMax st"
  "hs_AttemptsLeft (spendAttempt st m) = hs_AttemptsLeft st - 1"
  "hs_SecretWord (spendAttempt st m) = hs_SecretWord st"
  "hs_WordsByID (spendAttempt st m) = hs_WordsByID st"
  "hs_UsedPatterns (spendAttempt st m) = hs_UsedPatterns st"
  "hs_Solved (spendAttempt st m) = hs_Solved st"
  "hs_Failed (spendAttempt st m) = (hs_Failed st \<or> hs_AttemptsLeft st - 1 = 0)"
  "hs_Columns (spendAttempt st m) = hs_Columns st"
  by (simp_all add: spendAttempt_def Let_def pushLog_def)

lemma pushSuccessLog_simps [simp]:
  "hs_GenerationID (pushSuccessLog st) = hs_GenerationID st"
  "hs_Level (pushSuccessLog st) = hs_Level st"
  "hs_WordLength (pushSuccessLog st) = hs_WordLength st"
  "hs_AttemptsMax (pushSuccessLog st) = hs_AttemptsMax st"
  "hs_AttemptsLeft (pushSuccessLog st) = hs_AttemptsLeft st"
  "hs_SecretWord (pushSuccessLog st) = hs_SecretWord st"
  "hs_WordsByID (pushSuccessLog st) = hs_WordsByID st"
  "hs_UsedPatterns (pushSuccessLog st) = hs_UsedPatterns st"
  "hs_Solved (pushSuccessLog st) = hs_Solved st"
  "hs_Failed (pushSuccessLog st) = hs_Failed st"
  "hs_Columns (pushSuccessLog st) = hs_Columns st"
  by (simp_all add: pushSuccessLog_def)

lemma hack_wf_cong:
  assumes "board_ok st" and "used_ok st"
    and "hs_GenerationID st' = hs_GenerationID st" "hs_WordLength st' = hs_WordLength st"
      "hs_SecretWord st' = hs_SecretWord st" "hs_WordsByID st' = hs_WordsByID st"
      "hs_UsedPatterns st' = hs_UsedPatterns st" "hs_Columns st' = hs_Columns st"
    and "counters_ok st'"
  shows "hack_wf st'"
  using assms by (simp add: hack_wf_def board_ok_def used_ok_def)

section \<open>Guesses and forced success\<close>

lemma countMatches_le: "countMatches c s \<le> length c"
  by (induction c s rule: countMatches.induct) auto

lemma countMatches_full: "length c = length s \<Longrightarrow> countMatches c s = length c \<longleftrightarrow> c = s"
proof (induction c s rule: countMatches.induct)
  case (1 c cs s ss)
  then show ?case using countMatches_le [of cs ss] by auto
qed auto

lemma board_ok_candidate:
  assumes "board_ok st" and "gm_get (hs_WordsByID st) i = Some c"
  shows "length (hd_Text c) = hs_WordLength st \<and> list_all isASCIIAlpha (hd_Text c)"
proof -
  have "i \<in> set (word_ids (hs_Columns st))"
    using assms set_gm_keys [of i "hs_WordsByID st"] by (simp add: board_ok_def gm_has_iff)
  then obtain col w where "col \<in> set (hs_Columns st)" "w \<in> set (hc_Words col)" "hw_ID w = i"
    by (auto simp: word_ids_def)
  then have "word_ok (hc_Text col) (hs_WordsByID st) (hs_WordLength st) w"
    using assms(1) by (auto simp: board_ok_def column_ok_def list_all_iff)
  with assms(2) \<open>hw_ID w = i\<close> show ?thesis by (auto simp: word_ok_def)
qed

lemma board_ok_secret:
  assumes "board_ok st"
  shows "\<exists>i c. gm_get (hs_WordsByID st) i = Some c \<and> hd_Text c = hs_SecretWord st"
proof -
  from assms obtain i c where "(i, c) \<in> set (hs_WordsByID st)" "hd_Text c = hs_SecretWord st"
    by (auto simp: board_ok_def list_ex_iff)
  moreover have "gm_ok (hs_WordsByID st)" using assms by (simp add: board_ok_def)
  ultimately show ?thesis by (auto simp: gm_get_iff_in)
qed

lemma board_ok_secret_length: "board_ok st \<Longrightarrow> length (hs_SecretWord st) = hs_WordLength st"
  using board_ok_secret board_ok_candidate by metis

lemma guess_solves_iff:
  assumes "board_ok st" and "gm_get (hs_WordsByID st) i = Some c"
  shows "countMatches (hd_Text c) (hs_SecretWord st) = hs_WordLength st \<longleftrightarrow> hd_Text c = hs_SecretWord st"
  using countMatches_full [of "hd_Text c" "hs_SecretWord st"] board_ok_candidate [OF assms]
    board_ok_secret_length [OF assms(1)] by simp

lemma spendAttempt_wf:
  assumes "hack_wf st" and "\<not> hs_Solved st" and "\<not> hs_Failed st"
  shows "hack_wf (spendAttempt (pushLog st ls) m)"
  using assms by (intro hack_wf_cong [of st]) (auto simp: hack_wf_def counters_ok_def)

lemma solve_wf:
  assumes "hack_wf st" and "\<not> hs_Failed st"
  shows "hack_wf (pushSuccessLog ((pushLog st ls)\<lparr>hs_Solved := True\<rparr>))"
  using assms by (intro hack_wf_cong [of st]) (auto simp: hack_wf_def counters_ok_def)

lemma ApplyGuess_wf [wf_intros]: "hack_wf st \<Longrightarrow> hack_wf (ApplyGuess st targetID)"
  by (auto simp: ApplyGuess_def Let_def split: option.splits prod.splits intro: spendAttempt_wf solve_wf)

lemma ForceSuccess_wf [wf_intros]: "hack_wf st \<Longrightarrow> hack_wf (ForceSuccess st)"
  by (auto simp: ForceSuccess_def intro: solve_wf)

section \<open>Removing a word\<close>

lemma removeWord_SomeD:
  "removeWord i ws = Some (w, rest) \<Longrightarrow> \<exists>as bs. ws = as @ w # bs \<and> rest = as @ bs \<and> hw_ID w = i"
proof (induction ws arbitrary: rest)
  case (Cons v ws)
  show ?case
  proof (cases "hw_ID v = i")
    case True
    with Cons.prems have "v # ws = [] @ w # ws \<and> rest = [] @ ws \<and> hw_ID w = i" by simp
    then show ?thesis by blast
  next
    case False
    with Cons.prems obtain r where r: "removeWord i ws = Some (w, r)" "rest = v # r"
      by (auto split: option.splits)
    from Cons.IH [OF r(1)] obtain as bs where "ws = as @ w # bs" "r = as @ bs" "hw_ID w = i" by blast
    with r have "v # ws = (v # as) @ w # bs \<and> rest = (v # as) @ bs \<and> hw_ID w = i" by simp
    then show ?thesis by blast
  qed
qed simp

lemma removeWord_None_iff: "removeWord i ws = None \<longleftrightarrow> i \<notin> set (map hw_ID ws)"
  by (induction ws) (auto split: option.splits)

definition dotted :: "HackColumn \<Rightarrow> HackWord \<Rightarrow> HackWord list \<Rightarrow> HackColumn" where
  "dotted c w rest = c\<lparr>hc_Text := dotText (hc_Text c) w, hc_Words := rest\<rparr>"

lemma dotColumns_SomeD:
  "dotColumns i cols = Some cols' \<Longrightarrow>
   \<exists>pre c post as w bs. cols = pre @ c # post \<and> hc_Words c = as @ w # bs \<and> hw_ID w = i \<and>
     cols' = pre @ dotted c w (as @ bs) # post"
proof (induction cols arbitrary: cols')
  case (Cons c cols)
  show ?case
  proof (cases "removeWord i (hc_Words c)")
    case None
    with Cons.prems obtain d where d: "dotColumns i cols = Some d" "cols' = c # d" by auto
    from Cons.IH [OF d(1)] obtain pre e post as w bs where
      e: "cols = pre @ e # post" "hc_Words e = as @ w # bs" "hw_ID w = i"
        "d = pre @ dotted e w (as @ bs) # post" by blast
    with d have "c # cols = (c # pre) @ e # post \<and> hc_Words e = as @ w # bs \<and> hw_ID w = i \<and>
      cols' = (c # pre) @ dotted e w (as @ bs) # post" by simp
    then show ?thesis by blast
  next
    case (Some p)
    then obtain w rest where p: "removeWord i (hc_Words c) = Some (w, rest)" by (cases p) auto
    from removeWord_SomeD [OF p] obtain as bs where ab: "hc_Words c = as @ w # bs" "rest = as @ bs" "hw_ID w = i"
      by blast
    with p Cons.prems have "c # cols = [] @ c # cols \<and> hc_Words c = as @ w # bs \<and> hw_ID w = i \<and>
      cols' = [] @ dotted c w (as @ bs) # cols" by (simp add: dotted_def)
    then show ?thesis by blast
  qed
qed simp

lemma word_ids_Cons [simp]: "word_ids (c # cs) = map hw_ID (hc_Words c) @ word_ids cs"
  by (simp add: word_ids_def)

lemma dotColumns_None_iff: "dotColumns i cols = None \<longleftrightarrow> i \<notin> set (word_ids cols)"
proof (induction cols)
  case Nil
  then show ?case by (simp add: word_ids_def)
next
  case (Cons c cols)
  show ?case
  proof (cases "removeWord i (hc_Words c)")
    case None
    then have "i \<notin> set (map hw_ID (hc_Words c))" using removeWord_None_iff [of i "hc_Words c"] by blast
    with None Cons.IH show ?thesis by simp
  next
    case (Some p)
    then have "i \<in> set (map hw_ID (hc_Words c))" using removeWord_None_iff [of i "hc_Words c"] by simp
    with Some show ?thesis by (simp split: prod.splits)
  qed
qed

lemma length_dotText: "hw_Start w + hw_Length w \<le> length txt \<Longrightarrow> length (dotText txt w) = length txt"
  by (simp add: dotText_def)

lemma nth_dotText:
  "hw_Start w + hw_Length w \<le> length txt \<Longrightarrow> i < length txt \<Longrightarrow>
   dotText txt w ! i = (if hw_Start w \<le> i \<and> i < hw_Start w + hw_Length w then CHR ''.'' else txt ! i)"
  by (auto simp: dotText_def nth_append min_def)

lemma slice_cong:
  "length xs = length ys \<Longrightarrow> (\<And>k. i \<le> k \<Longrightarrow> k < j \<Longrightarrow> k < length xs \<Longrightarrow> xs ! k = ys ! k) \<Longrightarrow>
   slice xs i j = slice ys i j"
  by (rule nth_equalityI) (auto simp: nth_slice)

lemma word_ok_dotText:
  assumes "word_ok txt byId wl v" and "word_ok txt byId wl w" and "words_apart v w"
    and "hw_ID v \<noteq> hw_ID w"
  shows "word_ok (dotText txt w) (gm_del (hw_ID w) byId) wl v"
proof -
  have w: "hw_Start w + hw_Length w \<le> length txt" using assms(2) by (simp add: word_ok_def)
  have "slice (dotText txt w) (hw_Start v) (hw_Start v + wl) = slice txt (hw_Start v) (hw_Start v + wl)"
    by (rule slice_cong) (use assms w in \<open>auto simp: length_dotText nth_dotText words_apart_def word_ok_def\<close>)
  with assms w show ?thesis by (auto simp: word_ok_def length_dotText split: option.splits)
qed

lemma word_ok_del:
  "word_ok txt byId wl v \<Longrightarrow> hw_ID v \<noteq> i \<Longrightarrow> word_ok txt (gm_del i byId) wl v"
  by (simp add: word_ok_def)

lemma sorted_wrt_apart_remove:
  assumes "sorted_wrt words_apart (as @ w # bs)"
  shows "sorted_wrt words_apart (as @ bs)" "\<And>v. v \<in> set (as @ bs) \<Longrightarrow> words_apart v w"
  using assms words_apart_sym by (auto simp: sorted_wrt_append)

lemma column_ok_dotted:
  assumes ok: "column_ok byId wl c" and ws: "hc_Words c = as @ w # bs"
    and ids: "distinct (map hw_ID (hc_Words c))"
  shows "column_ok (gm_del (hw_ID w) byId) wl (dotted c w (as @ bs))"
proof -
  have w: "word_ok (hc_Text c) byId wl w" using ok ws by (simp add: column_ok_def)
  then have len: "hw_Start w + hw_Length w \<le> length (hc_Text c)" by (simp add: word_ok_def)
  have srt: "sorted_wrt words_apart (as @ w # bs)" using ok ws by (simp add: column_ok_def)
  have "word_ok (dotText (hc_Text c) w) (gm_del (hw_ID w) byId) wl v" if v: "v \<in> set (as @ bs)" for v
  proof (rule word_ok_dotText [OF _ w])
    show "word_ok (hc_Text c) byId wl v" using ok ws v by (auto simp: column_ok_def list_all_iff)
    show "words_apart v w" using sorted_wrt_apart_remove(2) [OF srt v] .
    show "hw_ID v \<noteq> hw_ID w" using ids ws v by (auto simp: image_iff)
  qed
  then show ?thesis
    using ok sorted_wrt_apart_remove(1) [OF srt] len
    by (auto simp: column_ok_def dotted_def length_dotText list_all_iff)
qed

lemma column_ok_del:
  "column_ok byId wl c \<Longrightarrow> i \<notin> hw_ID ` set (hc_Words c) \<Longrightarrow> column_ok (gm_del i byId) wl c"
  by (auto simp: column_ok_def list_all_iff intro!: word_ok_del)

lemma word_ids_append [simp]: "word_ids (xs @ c # ys) = word_ids xs @ map hw_ID (hc_Words c) @ word_ids ys"
  by (simp add: word_ids_def)

lemma set_gm_del: "gm_ok m \<Longrightarrow> set (gm_del k m) = {p \<in> set m. fst p \<noteq> k}"
  by (auto simp: gm_del_def AList.delete_eq split: prod.splits)

lemma distinct_values_del:
  "distinct (map f m) \<Longrightarrow> distinct (map f (gm_del k m))"
  by (auto simp: gm_del_def AList.delete_eq distinct_map intro: inj_on_subset)

lemma word_ids_mem: "c \<in> set cols \<Longrightarrow> hw_ID ` set (hc_Words c) \<subseteq> set (word_ids cols)"
  by (auto simp: word_ids_def)

lemma word_ids_dotted:
  assumes "cols = pre @ c # post" and "hc_Words c = as @ w # bs" and "distinct (word_ids cols)"
  shows "distinct (word_ids (pre @ dotted c w (as @ bs) # post))"
    "set (word_ids (pre @ dotted c w (as @ bs) # post)) = set (word_ids cols) - {hw_ID w}"
  using assms by (auto simp: dotted_def)

lemma board_ok_dot:
  assumes ok: "board_ok st" and i: "i \<in> set (word_ids (hs_Columns st))"
    and keep: "\<forall>c. gm_get (hs_WordsByID st) i = Some c \<longrightarrow> hd_Text c \<noteq> hs_SecretWord st"
  shows "board_ok (dotCandidate st i)"
proof -
  let ?byId = "hs_WordsByID st"
  from i obtain cols' where d: "dotColumns i (hs_Columns st) = Some cols'"
    using dotColumns_None_iff by fastforce
  from dotColumns_SomeD [OF d] obtain pre c post as w bs
    where cols: "hs_Columns st = pre @ c # post" and ws: "hc_Words c = as @ w # bs" and wi: "hw_ID w = i"
      and cols': "cols' = pre @ dotted c w (as @ bs) # post" by blast
  have st': "dotCandidate st i = st\<lparr>hs_Columns := cols', hs_WordsByID := gm_del i ?byId\<rparr>"
    by (simp only: dotCandidate_def d option.case)
  have dist: "distinct (word_ids (hs_Columns st))" and gok: "gm_ok ?byId"
    and keys: "set (gm_keys ?byId) = set (word_ids (hs_Columns st))"
    and vals: "distinct (map (\<lambda>(i, c). hd_Text c) ?byId)"
    using ok by (simp_all add: board_ok_def)
  have colok: "column_ok ?byId (hs_WordLength st) e" if "e \<in> set (hs_Columns st)" for e
    using ok that by (simp add: board_ok_def list_all_iff)
  have "i \<in> set (map hw_ID (hc_Words c))" using ws wi by simp
  moreover have "distinct (word_ids pre @ map hw_ID (hc_Words c) @ word_ids post)"
    using dist cols by simp
  ultimately have out: "i \<notin> set (word_ids pre)" "i \<notin> set (word_ids post)"
    unfolding distinct_append set_append by blast+
  have notin: "i \<notin> hw_ID ` set (hc_Words e)" if "e \<in> set pre \<union> set post" for e
    using out word_ids_mem [of e pre] word_ids_mem [of e post] that by blast
  have cols_ok: "column_ok (gm_del i ?byId) (hs_WordLength st) e" if "e \<in> set cols'" for e
  proof (cases "e = dotted c w (as @ bs)")
    case True
    have "distinct (map hw_ID (hc_Words c))" using dist unfolding cols word_ids_append by simp
    with True column_ok_dotted [OF colok ws] cols wi show ?thesis by simp
  next
    case False
    with that cols' have "e \<in> set pre \<union> set post" by auto
    moreover from this have "e \<in> set (hs_Columns st)" using cols by auto
    ultimately show ?thesis by (intro column_ok_del colok notin)
  qed
  have ids: "distinct (word_ids cols')" "set (word_ids cols') = set (word_ids (hs_Columns st)) - {i}"
    using word_ids_dotted [OF cols ws dist] cols' wi by simp_all
  have keys': "set (gm_keys (gm_del i ?byId)) = set (word_ids (hs_Columns st)) - {i}"
    by (simp add: set_gm_keys_del keys)
  from board_ok_secret [OF ok] obtain j d where "gm_get ?byId j = Some d" "hd_Text d = hs_SecretWord st"
    by blast
  then have "(j, d) \<in> set (gm_del i ?byId)" "hd_Text d = hs_SecretWord st"
    using keep gok by (auto simp: set_gm_del gm_get_iff_in)
  then have sec: "list_ex (\<lambda>(i, c). hd_Text c = hs_SecretWord st) (gm_del i ?byId)"
    by (auto simp: list_ex_iff)
  have vals': "distinct (map (\<lambda>(i, c). hd_Text c) (gm_del i ?byId))"
    using vals by (rule distinct_values_del)
  from cols_ok have all: "list_all (column_ok (gm_del i ?byId) (hs_WordLength st)) cols'"
    by (simp add: list_all_iff)
  show ?thesis
    unfolding board_ok_def st' using all ids keys' vals' sec gok by simp
qed

section \<open>Patterns survive\<close>

lemma closers_not_alpha: "closers c = Some d \<Longrightarrow> \<not> isASCIIAlpha c \<and> \<not> isASCIIAlpha d"
  by (auto simp: closers_def isASCIIAlpha_def byte_val_def split: if_splits)

lemma word_ok_alpha:
  assumes "word_ok txt byId wl w" and "hw_Start w \<le> i" and "i < hw_Start w + hw_Length w"
  shows "isASCIIAlpha (txt ! i)"
proof -
  from assms(1) have l: "hw_Start w + wl \<le> length txt" "hw_Length w = wl"
    and a: "list_all isASCIIAlpha (slice txt (hw_Start w) (hw_Start w + wl))"
    by (auto simp: word_ok_def split: option.splits)
  have "slice txt (hw_Start w) (hw_Start w + wl) ! (i - hw_Start w) = txt ! i"
    using nth_slice [of "i - hw_Start w" "hw_Start w + wl" "hw_Start w" "txt"] l assms(2,3) by simp
  moreover have "i - hw_Start w < length (slice txt (hw_Start w) (hw_Start w + wl))"
    using l assms(2,3) by simp
  ultimately show ?thesis using a by (metis list_all_length)
qed

lemma pattern_avoids_word:
  assumes "pattern_at txt s e" and "word_ok txt byId wl w" and "s \<le> i" and "i \<le> e"
  shows "\<not> (hw_Start w \<le> i \<and> i < hw_Start w + hw_Length w)"
proof -
  have "closers (txt ! s) = Some (txt ! e)" using assms(1) by (simp add: pattern_at_def)
  then have "\<not> isASCIIAlpha (txt ! s)" "\<not> isASCIIAlpha (txt ! e)" by (auto dest: closers_not_alpha)
  then have "\<not> isASCIIAlpha (txt ! i)"
    using assms(1,3,4) by (cases "i = s"; cases "i = e") (auto simp: pattern_at_def)
  with word_ok_alpha [OF assms(2)] show ?thesis by blast
qed

lemma pattern_at_dotText:
  assumes p: "pattern_at txt s e" and w: "word_ok txt byId wl w"
  shows "pattern_at (dotText txt w) s e \<and> dotText txt w ! s = txt ! s \<and> dotText txt w ! e = txt ! e"
proof -
  have len: "hw_Start w + hw_Length w \<le> length txt" using w by (simp add: word_ok_def)
  have se: "s < e" "e < length txt" using p by (simp_all add: pattern_at_def)
  have same: "dotText txt w ! i = txt ! i" if "s \<le> i" "i \<le> e" for i
    using nth_dotText [OF len, of i] pattern_avoids_word [OF p w that] that se by auto
  have "s \<le> s" "s \<le> e" "e \<le> e" using se by simp_all
  note same = same [OF this(1,2)] same [OF this(2,3)] same
  have "pattern_at (dotText txt w) s e"
    using p unfolding pattern_at_def same(1,2) length_dotText [OF len]
    by (simp add: same(3))
  with same(1,2) show ?thesis by blast
qed

lemma rowBase_lengths:
  "map (length \<circ> hc_Text) xs = map (length \<circ> hc_Text) ys \<Longrightarrow> rowBase xs k = rowBase ys k"
proof (induction xs arbitrary: ys k)
  case (Cons x xs)
  then show ?case by (cases ys) (auto simp: rowCount_def split: nat.splits)
qed auto

lemma discover_mono:
  assumes len: "map (length \<circ> hc_Text) cols = map (length \<circ> hc_Text) cols'"
    and keep: "\<And>k s e. k < length cols \<Longrightarrow> pattern_at (hc_Text (cols ! k)) s e \<Longrightarrow>
       pattern_at (hc_Text (cols' ! k)) s e \<and> hc_Text (cols' ! k) ! s = hc_Text (cols ! k) ! s \<and>
       hc_Text (cols' ! k) ! e = hc_Text (cols ! k) ! e"
  shows "set (discoverPatternSpans gen cols) \<subseteq> set (discoverPatternSpans gen cols')"
proof
  fix p assume "p \<in> set (discoverPatternSpans gen cols)"
  then obtain k s e where p: "k < length cols" "pattern_at (hc_Text (cols ! k)) s e"
      "p = mkPattern gen k (rowBase cols k) (hc_Text (cols ! k)) s e"
    by (auto simp: in_discoverPatternSpans)
  moreover have "k < length cols'" using p(1) map_eq_imp_length_eq [OF len] by simp
  moreover have "rowBase cols' k = rowBase cols k" using rowBase_lengths [OF len] by simp
  ultimately show "p \<in> set (discoverPatternSpans gen cols')"
    using keep [OF p(1,2)] by (auto simp: in_discoverPatternSpans mkPattern_def)
qed

lemma dotCandidate_discover:
  assumes "board_ok st"
  shows "set (discoverPatternSpans gen (hs_Columns st))
       \<subseteq> set (discoverPatternSpans gen (hs_Columns (dotCandidate st i)))"
proof (cases "dotColumns i (hs_Columns st)")
  case None
  then show ?thesis by (simp add: dotCandidate_def)
next
  case (Some cols')
  from dotColumns_SomeD [OF Some] obtain pre c post as w bs
    where cols: "hs_Columns st = pre @ c # post" and ws: "hc_Words c = as @ w # bs"
      and cols': "cols' = pre @ dotted c w (as @ bs) # post" by blast
  have w: "word_ok (hc_Text c) (hs_WordsByID st) (hs_WordLength st) w"
    using assms cols ws by (simp add: board_ok_def column_ok_def)
  then have len: "hw_Start w + hw_Length w \<le> length (hc_Text c)" by (simp add: word_ok_def)
  have nth: "(pre @ x # post) ! k = (if k = length pre then x else (pre @ y # post) ! k)" for x y k
    by (auto simp: nth_append nth_Cons split: nat.splits)
  have "set (discoverPatternSpans gen (hs_Columns st)) \<subseteq> set (discoverPatternSpans gen cols')"
  proof (rule discover_mono)
    show "map (length \<circ> hc_Text) (hs_Columns st) = map (length \<circ> hc_Text) cols'"
      using cols cols' len by (simp add: dotted_def length_dotText)
    fix k s e assume k: "k < length (hs_Columns st)" "pattern_at (hc_Text (hs_Columns st ! k)) s e"
    show "pattern_at (hc_Text (cols' ! k)) s e \<and> hc_Text (cols' ! k) ! s = hc_Text (hs_Columns st ! k) ! s \<and>
       hc_Text (cols' ! k) ! e = hc_Text (hs_Columns st ! k) ! e"
      using k(2) pattern_at_dotText [OF _ w, of s e] unfolding cols cols' nth [of "dotted c w (as @ bs)" k c]
      by (cases "k = length pre") (simp_all add: dotted_def)
  qed
  with Some show ?thesis by (simp add: dotCandidate_def)
qed

section \<open>Consuming a pattern\<close>

lemma dotCandidate_simps [simp]:
  "hs_GenerationID (dotCandidate st i) = hs_GenerationID st"
  "hs_Level (dotCandidate st i) = hs_Level st"
  "hs_WordLength (dotCandidate st i) = hs_WordLength st"
  "hs_AttemptsMax (dotCandidate st i) = hs_AttemptsMax st"
  "hs_AttemptsLeft (dotCandidate st i) = hs_AttemptsLeft st"
  "hs_SecretWord (dotCandidate st i) = hs_SecretWord st"
  "hs_UsedPatterns (dotCandidate st i) = hs_UsedPatterns st"
  "hs_Solved (dotCandidate st i) = hs_Solved st"
  "hs_Failed (dotCandidate st i) = hs_Failed st"
  by (simp_all add: dotCandidate_def split: option.splits)

lemma incorrectCandidate_in:
  assumes "i \<in> set (incorrectCandidateIDs st)"
  shows "i \<in> set (word_ids (hs_Columns st))"
    "\<forall>c. gm_get (hs_WordsByID st) i = Some c \<longrightarrow> hd_Text c \<noteq> hs_SecretWord st"
proof -
  from assms obtain col w c where "col \<in> set (hs_Columns st)" "w \<in> set (hc_Words col)"
      "gm_get (hs_WordsByID st) (hw_ID w) = Some c" "hd_Text c \<noteq> hs_SecretWord st" "i = hw_ID w"
    by (auto simp: incorrectCandidateIDs_def map_filter_def split: option.splits if_splits)
  then show "i \<in> set (word_ids (hs_Columns st))"
    "\<forall>c. gm_get (hs_WordsByID st) i = Some c \<longrightarrow> hd_Text c \<noteq> hs_SecretWord st"
    by (auto simp: word_ids_def)
qed

text \<open>When a pattern request is honoured: the decision does not depend on the random source.\<close>

definition pattern_available :: "HackState \<Rightarrow> string \<Rightarrow> bool" where
  "pattern_available st req =
     (\<not> hs_Solved st \<and> \<not> hs_Failed st \<and>
      list_ex (\<lambda>p. patternID (hp_Identity p) = req \<and> \<not> gm_has (hs_UsedPatterns st) (hp_Identity p))
        (discoverPatternSpans (hs_GenerationID st) (hs_Columns st)))"

lemma ApplyPattern_unavailable:
  assumes "\<not> pattern_available st req"
  shows "ApplyPattern random st req = State_Monad.return (False, st)"
proof (cases "find (\<lambda>p. patternID (hp_Identity p) = req) (discoverPatternSpans (hs_GenerationID st) (hs_Columns st))")
  case (Some p)
  then have "p \<in> set (discoverPatternSpans (hs_GenerationID st) (hs_Columns st))" "patternID (hp_Identity p) = req"
    by (auto simp: find_Some_iff)
  with assms Some show ?thesis by (auto simp: ApplyPattern_def pattern_available_def list_ex_iff)
qed (simp add: ApplyPattern_def)

text \<open>The two effects of a consumed pattern.\<close>

definition consume :: "HackState \<Rightarrow> HackPatternIdentity \<Rightarrow> HackState" where
  "consume st i = st\<lparr>hs_UsedPatterns := gm_put i () (hs_UsedPatterns st)\<rparr>"

definition restored :: "HackState \<Rightarrow> HackState" where
  "restored st = pushLog (st\<lparr>hs_AttemptsLeft := hs_AttemptsMax st\<rparr>) [attemptsRestoredLine]"

definition dudRemoved :: "HackState \<Rightarrow> string \<Rightarrow> HackState" where
  "dudRemoved st dud = pushLog (dotCandidate st dud) [dudRemovedLine]"

definition consumed_to :: "HackState \<Rightarrow> HackPatternIdentity \<Rightarrow> HackState \<Rightarrow> bool" where
  "consumed_to st i st' =
     (st' = restored (consume st i) \<or>
      (\<exists>dud\<in>set (incorrectCandidateIDs st). st' = dudRemoved (consume st i) dud))"

lemma consume_simps [simp]:
  "hs_WordsByID (consume st i) = hs_WordsByID st" "hs_SecretWord (consume st i) = hs_SecretWord st"
  "hs_Columns (consume st i) = hs_Columns st" "hs_GenerationID (consume st i) = hs_GenerationID st"
  "hs_AttemptsMax (consume st i) = hs_AttemptsMax st" "hs_AttemptsLeft (consume st i) = hs_AttemptsLeft st"
  "hs_Solved (consume st i) = hs_Solved st" "hs_Failed (consume st i) = hs_Failed st"
  "hs_UsedPatterns (consume st i) = gm_put i () (hs_UsedPatterns st)"
  by (simp_all add: consume_def)

lemma incorrectCandidateIDs_consume [simp]: "incorrectCandidateIDs (consume st i) = incorrectCandidateIDs st"
  by (simp only: incorrectCandidateIDs_def consume_simps)

lemma ApplyPattern_available:
  assumes "pattern_available st req"
  shows "\<exists>p\<in>set (discoverPatternSpans (hs_GenerationID st) (hs_Columns st)).
     patternID (hp_Identity p) = req \<and> \<not> gm_has (hs_UsedPatterns st) (hp_Identity p) \<and>
     pred_state (\<lambda>(ok, st'). ok \<and> consumed_to st (hp_Identity p) st') (ApplyPattern random st req)"
proof -
  let ?spans = "discoverPatternSpans (hs_GenerationID st) (hs_Columns st)"
  from assms obtain p where p: "p \<in> set ?spans" "patternID (hp_Identity p) = req"
      "\<not> gm_has (hs_UsedPatterns st) (hp_Identity p)"
    and live: "\<not> hs_Solved st" "\<not> hs_Failed st"
    by (auto simp: pattern_available_def list_ex_iff)
  have "find (\<lambda>p. patternID (hp_Identity p) = req) ?spans \<noteq> None"
    using p(1,2) by (auto simp: find_None_iff)
  then obtain q where q: "find (\<lambda>p. patternID (hp_Identity p) = req) ?spans = Some q" by blast
  then have "patternID (hp_Identity q) = req" by (auto simp: find_Some_iff)
  with p(2) have same: "hp_Identity q = hp_Identity p" by (metis patternID_inj)
  let ?st = "consume st (hp_Identity p)"
  let ?decoys = "incorrectCandidateIDs st"
  have run: "ApplyPattern random st req =
      safeIntn random 100 \<bind> (\<lambda>outcome.
        if 80 \<le> outcome \<or> ?decoys = [] then State_Monad.return (True, restored ?st)
        else safeIntn random (int (length ?decoys)) \<bind>
          (\<lambda>k. State_Monad.return (True, dudRemoved ?st (?decoys ! k))))"
    using p(3) live
    by (simp add: ApplyPattern_def q same Let_def restored_def dudRemoved_def
        flip: consume_def cong: if_cong)
  have "pred_state (\<lambda>(ok, st'). ok \<and> consumed_to st (hp_Identity p) st')
      (safeIntn random (int (length ?decoys)) \<bind> (\<lambda>k. State_Monad.return (True, dudRemoved ?st (?decoys ! k))))"
    if "?decoys \<noteq> []"
  proof (rule pred_state_bind)
    show "pred_state (\<lambda>k. k < length ?decoys) (safeIntn random (int (length ?decoys)))"
      using that by (intro safeIntn_below) simp
  qed (auto simp: consumed_to_def)
  then have "pred_state (\<lambda>(ok, st'). ok \<and> consumed_to st (hp_Identity p) st') (ApplyPattern random st req)"
    unfolding run by (intro pred_state_bind [OF pred_state_true]) (auto simp: consumed_to_def)
  with p show ?thesis by blast
qed

lemma consumed_to_wf:
  assumes wf: "hack_wf st" and live: "\<not> hs_Solved st" "\<not> hs_Failed st"
    and p: "p \<in> set (discoverPatternSpans (hs_GenerationID st) (hs_Columns st))"
    and c: "consumed_to st (hp_Identity p) st'"
  shows "hack_wf st'"
proof -
  have b: "board_ok (consume st (hp_Identity p))" using wf by (simp add: hack_wf_def board_ok_def consume_def)
  have u: "used_ok (consume st (hp_Identity p))"
    using wf p by (auto simp: hack_wf_def used_ok_def consume_def set_gm_keys_put)
  from c consider "st' = restored (consume st (hp_Identity p))"
    | dud where "dud \<in> set (incorrectCandidateIDs st)" "st' = dudRemoved (consume st (hp_Identity p)) dud"
    unfolding consumed_to_def by blast
  then show ?thesis
  proof cases
    case 1
    then show ?thesis
      using wf live by (intro hack_wf_cong [OF b u]) (auto simp: restored_def consume_def hack_wf_def counters_ok_def)
  next
    case 2
    let ?st = "dotCandidate (consume st (hp_Identity p)) dud"
    note inc = incorrectCandidate_in [of dud "consume st (hp_Identity p)"]
    have "board_ok ?st" using 2(1) inc by (intro board_ok_dot [OF b]) simp_all
    moreover have "used_ok ?st"
      using u dotCandidate_discover [OF b] unfolding used_ok_def dotCandidate_simps by blast
    moreover have "counters_ok (dudRemoved (consume st (hp_Identity p)) dud)"
      using wf by (auto simp: hack_wf_def counters_ok_def dudRemoved_def consume_def)
    ultimately show ?thesis
      unfolding 2(2) by (intro hack_wf_cong [of ?st]) (simp_all add: dudRemoved_def)
  qed
qed

lemma ApplyPattern_wf [wf_intros]:
  assumes "hack_wf st"
  shows "pred_state (\<lambda>(ok, st'). hack_wf st') (ApplyPattern random st req)"
proof (cases "pattern_available st req")
  case True
  then have live: "\<not> hs_Solved st" "\<not> hs_Failed st" by (simp_all add: pattern_available_def)
  from ApplyPattern_available [OF True, of random] obtain p
    where "p \<in> set (discoverPatternSpans (hs_GenerationID st) (hs_Columns st))"
      "pred_state (\<lambda>(ok, st'). ok \<and> consumed_to st (hp_Identity p) st') (ApplyPattern random st req)" by blast
  then show ?thesis
    using consumed_to_wf [OF assms live] by (auto elim!: pred_state_weaken)
next
  case False
  then show ?thesis using assms by (simp add: ApplyPattern_unavailable)
qed

section \<open>Sequences of actions\<close>

datatype PuzzleAction = GuessAction string | PatternAction string | ForceAction

primrec playAction :: "'r random \<Rightarrow> HackState \<Rightarrow> PuzzleAction \<Rightarrow> ('r, HackState) state" where
  "playAction random st (GuessAction i) = State_Monad.return (ApplyGuess st i)"
| "playAction random st (PatternAction i) = do { r \<leftarrow> ApplyPattern random st i; State_Monad.return (snd r) }"
| "playAction random st ForceAction = State_Monad.return (ForceSuccess st)"

primrec playActions :: "'r random \<Rightarrow> HackState \<Rightarrow> PuzzleAction list \<Rightarrow> ('r, HackState) state" where
  "playActions random st [] = State_Monad.return st"
| "playActions random st (a # as) = do { st' \<leftarrow> playAction random st a; playActions random st' as }"

lemma playActions_pred:
  assumes "P st" and "\<And>st a. P st \<Longrightarrow> pred_state P (playAction random st a)"
  shows "pred_state P (playActions random st as)"
  using assms(1)
proof (induction as arbitrary: st)
  case (Cons a as)
  show ?case using pred_state_bind [OF assms(2) [OF Cons.prems] Cons.IH] by simp
qed simp

lemma playAction_wf: "hack_wf st \<Longrightarrow> pred_state hack_wf (playAction random st a)"
  by (cases a) (auto intro: ApplyGuess_wf ForceSuccess_wf
      intro!: pred_state_bind [OF ApplyPattern_wf])

definition used_in :: "HackPatternIdentity \<Rightarrow> HackState \<Rightarrow> bool" where
  "used_in i st = gm_has (hs_UsedPatterns st) i"

lemma ApplyGuess_used [simp]: "hs_UsedPatterns (ApplyGuess st i) = hs_UsedPatterns st"
  by (auto simp: ApplyGuess_def Let_def split: option.splits prod.splits)

lemma ForceSuccess_used [simp]: "hs_UsedPatterns (ForceSuccess st) = hs_UsedPatterns st"
  by (simp add: ForceSuccess_def)

lemma consumed_to_used: "consumed_to st i st' \<Longrightarrow> gm_has (hs_UsedPatterns st') j \<longleftrightarrow> j = i \<or> gm_has (hs_UsedPatterns st) j"
  by (auto simp: consumed_to_def restored_def dudRemoved_def)

lemma ApplyPattern_used: "used_in i st \<Longrightarrow> pred_state (\<lambda>r. used_in i (snd r)) (ApplyPattern random st req)"
proof (cases "pattern_available st req")
  case True
  assume "used_in i st"
  with ApplyPattern_available [OF True, of random] show ?thesis
    by (auto simp: used_in_def consumed_to_used elim!: pred_state_weaken)
qed (simp add: ApplyPattern_unavailable)

lemma playAction_used: "used_in i st \<Longrightarrow> pred_state (used_in i) (playAction random st a)"
proof (cases a)
  case (PatternAction req)
  assume "used_in i st"
  from pred_state_bind [OF ApplyPattern_used [OF this], of "used_in i" "\<lambda>r. State_Monad.return (snd r)"]
  show ?thesis by (simp add: PatternAction)
qed (simp_all add: used_in_def)

lemma used_unavailable: "used_in i st \<Longrightarrow> patternID i = req \<Longrightarrow> \<not> pattern_available st req"
  by (auto simp: used_in_def pattern_available_def list_ex_iff dest: patternID_inj)

lemma ApplyPattern_accepted:
  assumes "run_state (ApplyPattern random st req) r = ((True, st'), r')"
  shows "\<exists>p\<in>set (discoverPatternSpans (hs_GenerationID st) (hs_Columns st)).
    patternID (hp_Identity p) = req \<and> \<not> gm_has (hs_UsedPatterns st) (hp_Identity p) \<and>
    consumed_to st (hp_Identity p) st'"
proof -
  have "pattern_available st req"
    using assms by (metis ApplyPattern_unavailable fst_conv run_state_return)
  from ApplyPattern_available [OF this, of random] assms show ?thesis
    by (auto dest!: pred_stateD)
qed

lemma candidate_guess:
  assumes "hack_wf st" and "gm_has (hs_WordsByID st) i" and "\<not> hs_Solved st" and "\<not> hs_Failed st"
  shows "hs_Solved (ApplyGuess st i) \<or> hs_AttemptsLeft (ApplyGuess st i) < hs_AttemptsLeft st"
proof -
  from assms(2) obtain c where "gm_get (hs_WordsByID st) i = Some c" by (auto simp: gm_has_iff)
  moreover have "0 < hs_AttemptsLeft st" using assms by (simp add: hack_wf_def counters_ok_def)
  ultimately show ?thesis using assms by (simp add: ApplyGuess_def Let_def)
qed

lemma ApplyGuess_words [simp]: "hs_WordsByID (ApplyGuess st i) = hs_WordsByID st"
  by (auto simp: ApplyGuess_def Let_def split: option.splits prod.splits)

lemma ApplyGuess_terminal: "hs_Solved st \<or> hs_Failed st \<Longrightarrow> ApplyGuess st i = st"
  by (auto simp: ApplyGuess_def)

lemma guesses_end:
  "hack_wf st \<Longrightarrow> list_all (gm_has (hs_WordsByID st)) gs \<Longrightarrow> hs_AttemptsLeft st \<le> length gs \<Longrightarrow>
   hs_Solved (foldl ApplyGuess st gs) \<or> hs_Failed (foldl ApplyGuess st gs)"
proof (induction gs arbitrary: st)
  case Nil
  then show ?case by (simp add: hack_wf_def counters_ok_def)
next
  case (Cons g gs)
  show ?case
  proof (cases "hs_Solved st \<or> hs_Failed st")
    case True
    then have "foldl ApplyGuess st xs = st" for xs
      by (induction xs) (simp_all add: ApplyGuess_terminal)
    with True show ?thesis by metis
  next
    case False
    let ?st = "ApplyGuess st g"
    have wf: "hack_wf ?st" and words: "list_all (gm_has (hs_WordsByID ?st)) gs"
      using Cons.prems by (auto intro: ApplyGuess_wf)
    have "hs_Solved ?st \<or> hs_AttemptsLeft ?st < hs_AttemptsLeft st"
      using candidate_guess [of st g] Cons.prems False by simp
    then show ?thesis
    proof
      assume s: "hs_Solved ?st"
      have "hs_Solved (foldl ApplyGuess s' gs)" if "hs_Solved s'" for s'
        using that by (induction gs arbitrary: s') (auto simp: ApplyGuess_terminal)
      with s show ?thesis by simp
    next
      assume "hs_AttemptsLeft ?st < hs_AttemptsLeft st"
      with Cons.IH [OF wf words] Cons.prems(3) show ?thesis by simp
    qed
  qed
qed

section \<open>A concrete board\<close>

text \<open>One column, two words, one pattern: used to run the properties below.\<close>

definition demo_board :: HackState where
  "demo_board =
     \<lparr>hs_GenerationID = ''g1'', hs_Level = 1, hs_WordLength = 4, hs_AttemptsMax = 4, hs_AttemptsLeft = 2,
      hs_SecretWord = ''GATE'',
      hs_WordsByID = [(''A1'', \<lparr>hd_Text = ''GATE''\<rparr>), (''A2'', \<lparr>hd_Text = ''RUST''\<rparr>)],
      hs_UsedPatterns = [], hs_Solved = False, hs_Failed = False, hs_Log = [],
      hs_Columns =
        [\<lparr>hc_Addresses = replicate 16 ''0xC000'', hc_Text = ''GATE!(?)....RUST'' @ replicate 176 (CHR ''.''),
          hc_Words = [\<lparr>hw_ID = ''A1'', hw_Start = 0, hw_Length = 4\<rparr>,
                      \<lparr>hw_ID = ''A2'', hw_Start = 12, hw_Length = 4\<rparr>]\<rparr>]\<rparr>"

lemma demo_board_wf: "hack_wf demo_board"
  by code_simp

lemma demo_pattern: "pattern_available demo_board (patternID \<lparr>hi_GenerationID = ''g1'', hi_Row = 0, hi_Start = 5, hi_End = 7\<rparr>)"
  by code_simp

text \<open>A source that always answers with the same number.\<close>

definition constRandom :: "int \<Rightarrow> unit random" where
  "constRandom k limit = State_Monad.return k"

section \<open>Properties\<close>

text \<open>C13: Pattern discovery is exact. The spans found on a board are precisely the places where an
  opening bracket is followed, in the same rendered row, by its closer with neither that closer nor
  a letter in between; each is reported once with its rendered row and offsets, and the identities
  sent to clients are pairwise distinct.\<close>

theorem hack_discovery_exact:
  "set (discoverPatternSpans gen cols) =
     {mkPattern gen k (rowBase cols k) (hc_Text (cols ! k)) s e | k s e.
        k < length cols \<and> pattern_at (hc_Text (cols ! k)) s e}
   \<and> distinct (map (\<lambda>p. patternID (hp_Identity p)) (discoverPatternSpans gen cols))"
  using in_discoverPatternSpans distinct_pattern_ids by blast

text \<open>C14: A guess on a live board. Naming the secret word solves the puzzle without spending an
  attempt; naming another candidate spends one attempt, and the puzzle fails exactly when none is
  left; in no case do the words, the columns, the used patterns or the secret change, and the board
  invariant is kept.\<close>

theorem hack_guess_effect:
  assumes "hack_wf st" and "\<not> hs_Solved st" and "\<not> hs_Failed st"
    and "gm_get (hs_WordsByID st) i = Some c"
  shows "hack_wf (ApplyGuess st i) \<and>
    hs_Solved (ApplyGuess st i) = (hd_Text c = hs_SecretWord st) \<and>
    hs_AttemptsLeft (ApplyGuess st i) =
      (if hd_Text c = hs_SecretWord st then hs_AttemptsLeft st else hs_AttemptsLeft st - 1) \<and>
    hs_Failed (ApplyGuess st i) = (hd_Text c \<noteq> hs_SecretWord st \<and> hs_AttemptsLeft st = 1) \<and>
    hs_WordsByID (ApplyGuess st i) = hs_WordsByID st \<and> hs_Columns (ApplyGuess st i) = hs_Columns st \<and>
    hs_UsedPatterns (ApplyGuess st i) = hs_UsedPatterns st \<and>
    hs_SecretWord (ApplyGuess st i) = hs_SecretWord st"
proof -
  have "board_ok st" "0 < hs_AttemptsLeft st" using assms by (simp_all add: hack_wf_def counters_ok_def)
  with guess_solves_iff [OF this(1) assms(4)] ApplyGuess_wf [OF assms(1), of i] assms(2-4)
  show ?thesis by (auto simp: ApplyGuess_def Let_def)
qed

lemma hack_guess_effect_witness:
  "hs_Failed (ApplyGuess demo_board ''A2'') = False \<and> hs_AttemptsLeft (ApplyGuess demo_board ''A2'') = 1"
proof -
  have h: "\<not> hs_Solved demo_board" "\<not> hs_Failed demo_board" "hs_AttemptsLeft demo_board = 2"
    "gm_get (hs_WordsByID demo_board) ''A2'' = Some \<lparr>hd_Text = ''RUST''\<rparr>" "hs_SecretWord demo_board = ''GATE''"
    by code_simp+
  from hack_guess_effect [OF demo_board_wf h(1,2,4)] h(3,5) show ?thesis by simp
qed

text \<open>C15: A puzzle ends. From any live board, a sequence of candidate guesses at least as long as the
  number of attempts left reaches one of the two terminal states.\<close>

theorem hack_guesses_end:
  assumes "hack_wf st" and "list_all (gm_has (hs_WordsByID st)) gs" and "hs_AttemptsLeft st \<le> length gs"
  shows "hs_Solved (foldl ApplyGuess st gs) \<noteq> hs_Failed (foldl ApplyGuess st gs)"
proof -
  have "hack_wf (foldl ApplyGuess st' gs')" if "hack_wf st'" for st' gs'
    using that by (induction gs' arbitrary: st') (auto intro: ApplyGuess_wf)
  from this [OF assms(1), of gs] guesses_end [OF assms] show ?thesis
    by (auto simp: hack_wf_def counters_ok_def)
qed

lemma hack_guesses_end_witness:
  "hs_Solved (foldl ApplyGuess demo_board [''A2'', ''A2'']) \<noteq> hs_Failed (foldl ApplyGuess demo_board [''A2'', ''A2''])"
  by (rule hack_guesses_end [OF demo_board_wf]) code_simp+

text \<open>C10: Applying a pattern, whatever the random source answers. The request is honoured exactly when
  the puzzle is live and the identity names a displayed, unused pattern. It then marks that pattern
  used and either refills the attempts or removes one wrong word; the secret word stays on the board,
  the terminal flags are untouched, attempts never drop, every displayed pattern stays displayed, and
  the invariant is kept. A request that is not honoured changes nothing.\<close>

theorem hack_pattern_safe:
  assumes "hack_wf st"
  shows "pred_state (\<lambda>(ok, st').
      ok = pattern_available st req \<and> hack_wf st' \<and> (\<not> ok \<longrightarrow> st' = st) \<and>
      (ok \<longrightarrow> (\<exists>i. patternID i = req \<and> consumed_to st i st')) \<and>
      hs_SecretWord st' = hs_SecretWord st \<and>
      hs_Solved st' = hs_Solved st \<and> hs_Failed st' = hs_Failed st \<and>
      hs_AttemptsLeft st \<le> hs_AttemptsLeft st' \<and>
      set (gm_keys (hs_WordsByID st')) \<subseteq> set (gm_keys (hs_WordsByID st)) \<and>
      set (discoverPatternSpans (hs_GenerationID st) (hs_Columns st))
        \<subseteq> set (discoverPatternSpans (hs_GenerationID st') (hs_Columns st')))
    (ApplyPattern random st req)"
proof (cases "pattern_available st req")
  case False
  then show ?thesis using assms by (simp add: ApplyPattern_unavailable)
next
  case True
  then have live: "\<not> hs_Solved st" "\<not> hs_Failed st" by (simp_all add: pattern_available_def)
  from ApplyPattern_available [OF True, of random] obtain p
    where p: "p \<in> set (discoverPatternSpans (hs_GenerationID st) (hs_Columns st))" "patternID (hp_Identity p) = req"
      and run: "pred_state (\<lambda>(ok, st'). ok \<and> consumed_to st (hp_Identity p) st') (ApplyPattern random st req)"
    by blast
  have b: "board_ok (consume st (hp_Identity p))" and max: "hs_AttemptsLeft st \<le> hs_AttemptsMax st"
    using assms by (simp_all add: hack_wf_def board_ok_def consume_def counters_ok_def)
  show ?thesis
  proof (rule pred_state_weaken [OF run], clarify)
    fix ok st' assume ok: ok and c: "consumed_to st (hp_Identity p) st'"
    have same: "\<exists>i. patternID i = req \<and> consumed_to st i st'" using p(2) c by blast
    have "set (gm_keys (hs_WordsByID (dotCandidate (consume st i) d))) \<subseteq> set (gm_keys (hs_WordsByID st))" for i d
      by (auto simp: dotCandidate_def set_gm_keys split: option.splits)
    then have "ok = pattern_available st req \<and> hack_wf st' \<and> (\<not> ok \<longrightarrow> st' = st) \<and>
        hs_SecretWord st' = hs_SecretWord st \<and> hs_Solved st' = hs_Solved st \<and> hs_Failed st' = hs_Failed st \<and>
        hs_AttemptsLeft st \<le> hs_AttemptsLeft st' \<and>
        set (gm_keys (hs_WordsByID st')) \<subseteq> set (gm_keys (hs_WordsByID st)) \<and>
        set (discoverPatternSpans (hs_GenerationID st) (hs_Columns st))
          \<subseteq> set (discoverPatternSpans (hs_GenerationID st') (hs_Columns st'))"
      using consumed_to_wf [OF assms live p(1) c] c True ok max dotCandidate_discover [OF b]
      by (auto simp: consumed_to_def restored_def dudRemoved_def del: subsetI)
    then show "ok = pattern_available st req \<and> hack_wf st' \<and> (\<not> ok \<longrightarrow> st' = st) \<and>
        (ok \<longrightarrow> (\<exists>i. patternID i = req \<and> consumed_to st i st')) \<and>
        hs_SecretWord st' = hs_SecretWord st \<and> hs_Solved st' = hs_Solved st \<and> hs_Failed st' = hs_Failed st \<and>
        hs_AttemptsLeft st \<le> hs_AttemptsLeft st' \<and>
        set (gm_keys (hs_WordsByID st')) \<subseteq> set (gm_keys (hs_WordsByID st)) \<and>
        set (discoverPatternSpans (hs_GenerationID st) (hs_Columns st))
          \<subseteq> set (discoverPatternSpans (hs_GenerationID st') (hs_Columns st'))"
      using same by blast
  qed
qed

lemma hack_pattern_safe_witness:
  "pred_state (\<lambda>(ok, st'). ok) (ApplyPattern (constRandom 7) demo_board
     (patternID \<lparr>hi_GenerationID = ''g1'', hi_Row = 0, hi_Start = 5, hi_End = 7\<rparr>))"
  by (rule pred_state_weaken [OF hack_pattern_safe [OF demo_board_wf]]) (use demo_pattern in auto)

text \<open>C16: A pattern is consumed once. After a pattern request was honoured, no later request for the
  same identity is honoured, whatever guesses, pattern requests and forced successes happen in
  between and whatever the random sources answer.\<close>

theorem hack_pattern_single_use:
  assumes "run_state (ApplyPattern random st req) r = ((True, st1), r1)"
    and "run_state (playActions random1 st1 as) r2 = (st2, r3)"
  shows "ApplyPattern random2 st2 req = State_Monad.return (False, st2)"
proof -
  from ApplyPattern_accepted [OF assms(1)] obtain i where i: "patternID i = req" "consumed_to st i st1" by blast
  then have "used_in i st1" by (simp add: used_in_def consumed_to_used)
  from playActions_pred [of "used_in i" st1 random1, OF this playAction_used] assms(2)
  have "used_in i st2" by (auto dest: pred_stateD)
  with i(1) show ?thesis by (intro ApplyPattern_unavailable used_unavailable)
qed

lemma hack_pattern_single_use_witness:
  "\<exists>st1 st2. run_state (playActions (constRandom 90) st1 [GuessAction ''A2'']) () = (st2, ()) \<and>
     ApplyPattern (constRandom 7) st2 (patternID \<lparr>hi_GenerationID = ''g1'', hi_Row = 0, hi_Start = 5, hi_End = 7\<rparr>)
       = State_Monad.return (False, st2)"
proof -
  let ?req = "patternID \<lparr>hi_GenerationID = ''g1'', hi_Row = 0, hi_Start = 5, hi_End = 7\<rparr>"
  from ApplyPattern_available [OF demo_pattern, of "constRandom 90"]
  have "fst (fst (run_state (ApplyPattern (constRandom 90) demo_board ?req) ()))"
    by (cases "run_state (ApplyPattern (constRandom 90) demo_board ?req) ()") (auto dest!: pred_stateD)
  then obtain st1 where 1: "run_state (ApplyPattern (constRandom 90) demo_board ?req) () = ((True, st1), ())"
    by (metis (full_types) old.unit.exhaust prod.collapse)
  obtain st2 where 2: "run_state (playActions (constRandom 90) st1 [GuessAction ''A2'']) () = (st2, ())"
    by simp
  from hack_pattern_single_use [OF 1 2] 2 show ?thesis by blast
qed

end
