(* ===== verification/HackGen.thy ===== *)
theory HackGen
  imports HackInv
begin

text \<open>
  Generating a hacking board: \<open>internal/hack/wordbank.go\<close> and the generation half of
  \<open>internal/hack/hack.go\<close>.  A column builder is a record that the operations return updated;
  every draw goes through the random source, in the order of the code.  A loop bounded by
  \<open>placementTries\<close> is a recursion on that number.  A negative start is \<open>None\<close>.
\<close>

section \<open>The word bank\<close>

text \<open>\<open>strings.ToUpper\<close> as far as it can yield ASCII: besides the ASCII letters, the dotless i
  (U+0131) and the long s (U+017F) have ASCII upper cases.  Every other non-ASCII byte stays
  non-ASCII, and the only caller that sees such input then rejects the word.\<close>

definition upperByte :: "char \<Rightarrow> char" where
  "upperByte c = (if 97 \<le> byte_val c \<and> byte_val c \<le> 122 then char_of (byte_val c - 32) else c)"

fun toUpper :: "string \<Rightarrow> string" where
  "toUpper (a # b # s) =
     (if byte_val a = 196 \<and> byte_val b = 177 then CHR ''I'' # toUpper s
      else if byte_val a = 197 \<and> byte_val b = 191 then CHR ''S'' # toUpper s
      else upperByte a # toUpper (b # s))"
| "toUpper [a] = [upperByte a]"
| "toUpper [] = []"

definition builtinWordList :: "string list" where
  "builtinWordList =
     [''RUIN'', ''PALM'', ''IRON'', ''GATE'', ''BOLT'', ''RAMP'', ''CORE'', ''DUST'', ''FUSE'', ''GRID'',
      ''LAMP'', ''MASK'', ''NODE'', ''PIPE'', ''RING'', ''RUST'', ''SHIP'', ''SILO'', ''TANK'', ''VENT'',
      ''WIRE'', ''ZONE'', ''CODE'', ''DATA'', ''DISK'', ''DOOR'', ''EXIT'', ''FIRE'', ''FUEL'', ''GEAR'',
      ''LOCK'', ''MINE'', ''PLUG'', ''PUMP'', ''ROAD'', ''ROOF'', ''SEAL'', ''TENT'', ''WALL'', ''ACID'',
      ''ARMY'', ''ATOM'', ''BEAM'', ''CAVE'', ''COAL'', ''COIL'', ''DOSE'', ''DUNE'', ''DIRT'', ''JUNK'',
      ''ALLOY'', ''ARMOR'', ''ATLAS'', ''BASIN'', ''BLAST'', ''BRICK'', ''CABLE'', ''CACHE'', ''CARGO'',
      ''CLIFF'', ''CLOCK'', ''CRANE'', ''CRATE'', ''CREEK'', ''DRAIN'', ''DRONE'', ''FLARE'', ''FLOOR'',
      ''FAULT'', ''FENCE'', ''FORGE'', ''FUMES'', ''GRATE'', ''GUARD'', ''HATCH'', ''HINGE'', ''MOTOR'',
      ''PANEL'', ''RIDGE'', ''RIFLE'', ''ROBOT'', ''ROVER'', ''SHAFT'', ''SIREN'', ''SPIKE'', ''STEEL'',
      ''STOCK'', ''STORM'', ''SWORD'', ''TOWER'', ''TRACE'', ''TRACK'', ''TRAIL'', ''TRUNK'', ''VALVE'',
      ''VAULT'', ''ANCHOR'', ''BASALT'', ''BEACON'', ''BUNKER'', ''CAVERN'', ''CIPHER'', ''CONVOY'',
      ''COURSE'', ''DEBRIS'', ''ENGINE'', ''FILTER'', ''FLIGHT'', ''FUNGUS'', ''GARDEN'', ''GIRDER'',
      ''HARBOR'', ''HOLLOW'', ''LEDGER'', ''MARROW'', ''MIRAGE'', ''NOZZLE'', ''OUTAGE'', ''PISTON'',
      ''PLAGUE'', ''POISON'', ''PYLONS'', ''QUARRY'', ''RANCID'', ''ROCKET'', ''RUBBLE'', ''RUSTIC'',
      ''SENSOR'', ''SLUDGE'', ''SLUICE'', ''SOCKET'', ''SWITCH'', ''SYSTEM'', ''TANKER'', ''TUNNEL'',
      ''TURRET'', ''VESSEL'', ''WANDER'', ''WELDER'', ''ANDROID'', ''ARCHIVE'', ''ARSENAL'', ''ARTICLE'',
      ''BATTERY'', ''BEDROCK'', ''BOMBARD'', ''BREAKER'', ''CAPSULE'', ''CHAMBER'', ''CIRCUIT'',
      ''COOLANT'', ''CORRODE'', ''CRUMBLE'', ''CRYSTAL'', ''DOSSIER'', ''EXHAUST'', ''FALLOUT'',
      ''FOUNDRY'', ''FREIGHT'', ''GEARBOX'', ''IMPLANT'', ''KESTREL'', ''LANDING'', ''LEAKAGE'',
      ''MACHINE'', ''MANGLED'', ''MINERAL'', ''MONITOR'', ''NETWORK'', ''NUCLEUS'', ''OUTPOST'',
      ''PATHWAY'', ''PLATING'', ''PROTONS'', ''QUARTER'', ''RAILWAY'', ''REACTOR'', ''RELAYED'',
      ''RESIDUE'', ''RUPTURE'', ''SCANNER'', ''SEALANT'', ''SHATTER'', ''SHIPPED'', ''SILICON'',
      ''SKYLINE'', ''SPARROW'', ''STATION'', ''STORAGE'', ''THERMAL'', ''TORNADO'', ''TRIGGER'',
      ''TURBINE'', ''VACUUMS'', ''WARHEAD'', ''CONCRETE'', ''DISTANCE'', ''ELECTRIC'', ''CHEMICAL'',
      ''GENERATE'', ''HOSPITAL'', ''INDUSTRY'', ''JUNCTION'', ''KEYSTONE'', ''LOCATION'', ''MOUNTAIN'',
      ''NAVIGATE'', ''OVERLOAD'', ''PIPELINE'', ''QUANTITY'', ''RADIATOR'', ''SIGNPOST'', ''TERMINAL'',
      ''UNIFORMS'', ''VOLTAGES'', ''YIELDING'', ''ZEPPELIN'']"

primrec bucketLoop :: "string list \<Rightarrow> string list \<Rightarrow> (nat, string list) gomap \<Rightarrow> (nat, string list) gomap" where
  "bucketLoop [] seen buckets = buckets"
| "bucketLoop (raw # words) seen buckets =
     (let word = toUpper raw in
      case gm_get buckets (length word) of
        None \<Rightarrow> bucketLoop words seen buckets
      | Some bucket \<Rightarrow>
          if word \<in> set seen then bucketLoop words seen buckets
          else bucketLoop words (word # seen) (gm_put (length word) (bucket @ [word]) buckets))"

definition buildWordBuckets :: "string list \<Rightarrow> (nat, string list) gomap" where
  "buildWordBuckets words = bucketLoop words [] [(4, []), (5, []), (6, []), (7, []), (8, [])]"

definition builtinWordsByLength :: "(nat, string list) gomap" where
  "builtinWordsByLength = buildWordBuckets builtinWordList"

primrec pickLoop :: "'r random \<Rightarrow> nat \<Rightarrow> string list \<Rightarrow> ('r, string list) state" where
  "pickLoop random 0 pool = State_Monad.return []"
| "pickLoop random (Suc n) pool =
     (if pool = [] then State_Monad.return []
      else do {
        index \<leftarrow> safeIntn random (int (length pool));
        picked \<leftarrow> pickLoop random n (take index pool @ drop (index + 1) pool);
        State_Monad.return (pool ! index # picked)
      })"

definition PickWords :: "'r random \<Rightarrow> nat \<Rightarrow> nat \<Rightarrow> ('r, string list) state" where
  "PickWords random len count =
     pickLoop random count (case gm_get builtinWordsByLength len of None \<Rightarrow> [] | Some ws \<Rightarrow> ws)"

section \<open>Candidates\<close>

text \<open>\<open>seen\<close> holds exactly the words already in the result.\<close>

primrec normalizeLoop :: "nat \<Rightarrow> nat \<Rightarrow> string list \<Rightarrow> string list \<Rightarrow> string list" where
  "normalizeLoop len count result [] = result"
| "normalizeLoop len count result (raw # input) =
     (let word = toUpper raw in
      if length word \<noteq> len \<or> \<not> list_all isASCIIAlpha word then normalizeLoop len count result input
      else if word \<in> set result then normalizeLoop len count result input
      else if length (result @ [word]) = count then result @ [word]
      else normalizeLoop len count (result @ [word]) input)"

definition normalizeCandidates :: "string list \<Rightarrow> nat \<Rightarrow> nat \<Rightarrow> string list" where
  "normalizeCandidates input len count = normalizeLoop len count [] input"

primrec supplementLoop :: "nat \<Rightarrow> string list \<Rightarrow> string list \<Rightarrow> string list" where
  "supplementLoop count result [] = result"
| "supplementLoop count result (word # fallback) =
     (if length result = count then result
      else if word \<in> set result then supplementLoop count result fallback
      else supplementLoop count (result @ [word]) fallback)"

definition supplementCandidates :: "string list \<Rightarrow> string list \<Rightarrow> nat \<Rightarrow> string list" where
  "supplementCandidates candidates fallback count = supplementLoop count candidates fallback"

definition levelWordLength :: "int \<Rightarrow> nat" where
  "levelWordLength level = (if 1 \<le> level \<and> level \<le> 5 then nat (level + 3) else 4)"

definition clamp :: "int \<Rightarrow> int \<Rightarrow> int \<Rightarrow> int" where
  "clamp value low high = min (max value low) high"

section \<open>The column builder\<close>

definition wordGap :: nat where "wordGap = 4"
definition placementTries :: nat where "placementTries = 300"
definition maximumAttempts :: nat where "maximumAttempts = 4"
definition fillerPool :: string where "fillerPool = ''!@#$%^&*_+-='' @ [CHR 0x5C] @ ''|;:'' @ [CHR 0x27, CHR 0x22] @ '',./?~''"
definition patternPairs :: "string list" where "patternPairs = [''()'', ''[]'', ''{}'', ''<>'']"
definition delimiterClosers :: string where "delimiterClosers = '')]}>''"

record ColumnBuilder =
  cb_prefix :: string
  cb_chars :: string
  cb_used :: "bool list"
  cb_words :: "HackWord list"
  cb_nextID :: nat

definition newColumnBuilder :: "string \<Rightarrow> ColumnBuilder" where
  "newColumnBuilder prefix =
     \<lparr>cb_prefix = prefix, cb_chars = replicate columnChars (CHR 0x00),
      cb_used = replicate columnChars False, cb_words = [], cb_nextID = 1\<rparr>"

definition overwrite :: "'a list \<Rightarrow> nat \<Rightarrow> 'a list \<Rightarrow> 'a list" where
  "overwrite xs start ys = take start xs @ ys @ drop (start + length ys) xs"

definition markUsed :: "ColumnBuilder \<Rightarrow> nat \<Rightarrow> nat \<Rightarrow> ColumnBuilder" where
  "markUsed b start len = b\<lparr>cb_used := overwrite (cb_used b) start (replicate len True)\<rparr>"

definition freeRange :: "ColumnBuilder \<Rightarrow> nat \<Rightarrow> nat \<Rightarrow> bool" where
  "freeRange b from to = list_all (\<lambda>index. \<not> cb_used b ! index) [from..<to]"

definition canPlace :: "ColumnBuilder \<Rightarrow> nat \<Rightarrow> nat \<Rightarrow> bool" where
  "canPlace b start len =
     (\<not> (len = 0 \<or> length (cb_chars b) < start + len) \<and>
      freeRange b (start - wordGap) (min (length (cb_chars b)) (start + len + wordGap)))"

text \<open>The shared shape of the placement loops: a bounded number of random tries.\<close>

primrec tryRandom :: "'r random \<Rightarrow> int \<Rightarrow> (nat \<Rightarrow> nat option) \<Rightarrow> nat \<Rightarrow> ('r, nat option) state" where
  "tryRandom random limit ok 0 = State_Monad.return None"
| "tryRandom random limit ok (Suc n) =
     do {
       candidate \<leftarrow> safeIntn random limit;
       case ok candidate of
         Some start \<Rightarrow> State_Monad.return (Some start)
       | None \<Rightarrow> tryRandom random limit ok n
     }"

definition accept :: "(nat \<Rightarrow> bool) \<Rightarrow> nat \<Rightarrow> nat option" where
  "accept P k = (if P k then Some k else None)"

definition randomStart :: "'r random \<Rightarrow> ColumnBuilder \<Rightarrow> nat \<Rightarrow> ('r, nat option) state" where
  "randomStart random b len =
     (let limit = int columnChars - int len + 1 in
      do {
        r \<leftarrow> tryRandom random limit (accept (\<lambda>candidate. canPlace b candidate len)) placementTries;
        State_Monad.return
          (case r of Some start \<Rightarrow> Some start | None \<Rightarrow> find (\<lambda>candidate. canPlace b candidate len) [0..<nat limit])
      })"

definition place :: "'r random \<Rightarrow> ColumnBuilder \<Rightarrow> string \<Rightarrow> nat option \<Rightarrow> ('r, (string \<times> ColumnBuilder) option) state" where
  "place random b txt requestedStart =
     do {
       s \<leftarrow> (case requestedStart of Some start \<Rightarrow> State_Monad.return (Some start) | None \<Rightarrow> randomStart random b (length txt));
       State_Monad.return
         (case s of
            None \<Rightarrow> None
          | Some start \<Rightarrow>
              if \<not> canPlace b start (length txt) then None
              else
                (let i = cb_prefix b @ dec (cb_nextID b);
                     b = b\<lparr>cb_nextID := cb_nextID b + 1, cb_chars := overwrite (cb_chars b) start txt\<rparr>;
                     b = markUsed b start (length txt)
                 in Some (i, b\<lparr>cb_words := cb_words b @ [\<lparr>hw_ID = i, hw_Start = start, hw_Length = length txt\<rparr>]\<rparr>)))
     }"

definition interruptible :: "ColumnBuilder \<Rightarrow> HackWord \<Rightarrow> bool" where
  "interruptible b w =
     (\<not> (hw_Start w = 0 \<or> length (cb_used b) \<le> hw_Start w + hw_Length w \<or>
         (hw_Start w - 1) div boardRowWidth \<noteq> (hw_Start w + hw_Length w) div boardRowWidth \<or>
         cb_used b ! (hw_Start w - 1) \<or> cb_used b ! (hw_Start w + hw_Length w)))"

definition surround :: "ColumnBuilder \<Rightarrow> HackWord \<Rightarrow> string \<Rightarrow> ColumnBuilder" where
  "surround b w pair =
     (let start = hw_Start w - 1; end = hw_Start w + hw_Length w in
      b\<lparr>cb_chars := (cb_chars b)[start := pair ! 0, end := pair ! 1],
        cb_used := (cb_used b)[start := True, end := True]\<rparr>)"

definition placeInterruptedSpan :: "'r random \<Rightarrow> string \<Rightarrow> ColumnBuilder \<Rightarrow> ('r, ColumnBuilder option) state" where
  "placeInterruptedSpan random pair b =
     (if length pair \<noteq> 2 \<or> cb_words b = [] then State_Monad.return None
      else do {
        wordOffset \<leftarrow> safeIntn random (int (length (cb_words b)));
        State_Monad.return
          (map_option (\<lambda>w. surround b w pair)
             (find (interruptible b)
               (map (\<lambda>index. cb_words b ! ((wordOffset + index) mod length (cb_words b))) [0..<length (cb_words b)])))
      })"

definition canPlacePattern :: "ColumnBuilder \<Rightarrow> nat \<Rightarrow> nat \<Rightarrow> bool" where
  "canPlacePattern b start len =
     (\<not> (len < 2 \<or> length (cb_used b) < start + len \<or>
         start div boardRowWidth \<noteq> (start + len - 1) div boardRowWidth) \<and>
      freeRange b start (start + len))"

primrec writeInterior :: "'r random \<Rightarrow> nat \<Rightarrow> nat \<Rightarrow> string \<Rightarrow> ('r, string) state" where
  "writeInterior random at 0 chars = State_Monad.return chars"
| "writeInterior random at (Suc n) chars =
     do {
       k \<leftarrow> safeIntn random (int (length fillerPool));
       writeInterior random (at + 1) n (chars[at := fillerPool ! k])
     }"

definition writePattern :: "'r random \<Rightarrow> ColumnBuilder \<Rightarrow> nat \<Rightarrow> string \<Rightarrow> nat \<Rightarrow> ('r, ColumnBuilder) state" where
  "writePattern random b start pair interiorLength =
     do {
       chars \<leftarrow> writeInterior random (start + 1) interiorLength ((cb_chars b)[start := pair ! 0]);
       State_Monad.return
         (markUsed (b\<lparr>cb_chars := chars[start + interiorLength + 1 := pair ! 1]\<rparr>) start (interiorLength + 2))
     }"

definition placePattern :: "'r random \<Rightarrow> string \<Rightarrow> nat \<Rightarrow> ColumnBuilder \<Rightarrow> ('r, ColumnBuilder option) state" where
  "placePattern random pair interiorLength b =
     (let spanLength = interiorLength + 2 in
      if length pair \<noteq> 2 \<or> boardRowWidth < spanLength then State_Monad.return None
      else
        (let startsPerRow = boardRowWidth - spanLength + 1;
             limit = boardRows * startsPerRow;
             startAt = (\<lambda>row column. row * boardRowWidth + column)
         in do {
           r \<leftarrow> tryRandom random (int limit)
                 (\<lambda>candidate. accept (\<lambda>start. canPlacePattern b start spanLength)
                    (startAt (candidate div startsPerRow) (candidate mod startsPerRow))) placementTries;
           let found = (case r of
                 Some start \<Rightarrow> Some start
               | None \<Rightarrow> find (\<lambda>start. canPlacePattern b start spanLength)
                          (concat (map (\<lambda>row. map (startAt row) [0..<startsPerRow]) [0..<boardRows])));
           case found of
             None \<Rightarrow> State_Monad.return None
           | Some start \<Rightarrow> do { b' \<leftarrow> writePattern random b start pair interiorLength; State_Monad.return (Some b') }
         }))"

definition putDelimiter :: "ColumnBuilder \<Rightarrow> char \<Rightarrow> nat \<Rightarrow> ColumnBuilder" where
  "putDelimiter b delimiter index =
     b\<lparr>cb_chars := (cb_chars b)[index := delimiter], cb_used := (cb_used b)[index := True]\<rparr>"

definition placeDelimiterDecoy :: "'r random \<Rightarrow> char \<Rightarrow> ColumnBuilder \<Rightarrow> ('r, ColumnBuilder option) state" where
  "placeDelimiterDecoy random delimiter b =
     do {
       r \<leftarrow> tryRandom random (int (length (cb_used b))) (accept (\<lambda>index. \<not> cb_used b ! index)) placementTries;
       State_Monad.return
         (map_option (putDelimiter b delimiter)
           (case r of
              Some index \<Rightarrow> Some index
            | None \<Rightarrow> find (\<lambda>index. \<not> cb_used b ! index) [0..<length (cb_used b)]))
     }"

primrec fillLoop :: "'r random \<Rightarrow> bool list \<Rightarrow> nat list \<Rightarrow> string \<Rightarrow> ('r, string) state" where
  "fillLoop random used [] chars = State_Monad.return chars"
| "fillLoop random used (index # rest) chars =
     (if used ! index then fillLoop random used rest chars
      else do {
        k \<leftarrow> safeIntn random (int (length fillerPool));
        fillLoop random used rest (chars[index := fillerPool ! k])
      })"

definition generateAddresses :: "'r random \<Rightarrow> nat \<Rightarrow> ('r, string list) state" where
  "generateAddresses random count =
     do {
       a \<leftarrow> safeIntn random 16384;
       k \<leftarrow> safeIntn random 4;
       let address = a + 49152;
       let step = [12, 16, 20, 24] ! k;
       State_Monad.return (map (\<lambda>index. ''0x'' @ upper_hex4 ((address + index * step) mod 65536)) [0..<count])
     }"

definition finish :: "'r random \<Rightarrow> ColumnBuilder \<Rightarrow> ('r, HackColumn) state" where
  "finish random b =
     do {
       chars \<leftarrow> fillLoop random (cb_used b) [0..<length (cb_chars b)] (cb_chars b);
       addresses \<leftarrow> generateAddresses random boardRows;
       State_Monad.return \<lparr>hc_Addresses = addresses, hc_Text = chars, hc_Words = cb_words b\<rparr>
     }"

section \<open>Classifying the finished board\<close>

record BoardPosition =
  bp_row :: nat
  bp_offset :: nat
  bp_columnIndex :: nat
  bp_absolute :: nat

record FinalBoardCamouflage =
  fc_patterns :: "HackPattern list"
  fc_standaloneDelimiters :: "BoardPosition list"
  fc_hasNonEmptyPattern :: bool
  fc_hasAlphabeticInterruptedSpan :: bool
  fc_candidateRows :: "nat goset"
  fc_patternRows :: "nat goset"
  fc_decoyRows :: "nat goset"
  fc_ordinaryFillerRows :: "nat goset"

definition isDelimiter :: "char \<Rightarrow> bool" where
  "isDelimiter c = (index_byte ''()[]{}<>'' c \<noteq> None)"

text \<open>The scan of \<open>rowHasAlphabeticInterruptedSpan\<close> over the start positions of a row.\<close>

definition rowHasAlphabeticInterruptedSpan :: "string \<Rightarrow> bool" where
  "rowHasAlphabeticInterruptedSpan row =
     list_ex
       (\<lambda>start. case closers (row ! start) of
            None \<Rightarrow> False
          | Some closer \<Rightarrow>
              (case index_byte (drop (start + 1) row) closer of
                 None \<Rightarrow> False
               | Some relativeEnd \<Rightarrow>
                   list_ex isASCIIAlpha (slice row (start + 1) (start + 1 + relativeEnd))))
       [0..<length row]"

definition rowInterval :: "nat goset \<Rightarrow> (nat \<times> nat) option" where
  "rowInterval rows =
     (case gm_keys rows of [] \<Rightarrow> None | r # rs \<Rightarrow> Some (foldl min r rs, foldl max r rs))"

primrec pairwiseOverlap :: "(nat \<times> nat) list \<Rightarrow> bool" where
  "pairwiseOverlap [] = True"
| "pairwiseOverlap (left # rest) =
     (list_all (\<lambda>right. \<not> (snd left < fst right \<or> snd right < fst left)) rest \<and> pairwiseOverlap rest)"

definition rowIntervalsOverlapPairwise :: "nat goset list \<Rightarrow> bool" where
  "rowIntervalsOverlapPairwise rowSets =
     (if length rowSets < 2 then True
      else if list_ex (\<lambda>rows. rowInterval rows = None) rowSets then False
      else pairwiseOverlap (map (\<lambda>rows. the (rowInterval rows)) rowSets))"

definition classifyPattern :: "FinalBoardCamouflage \<times> (nat \<times> nat) list \<Rightarrow> HackPattern \<Rightarrow> FinalBoardCamouflage \<times> (nat \<times> nat) list" where
  "classifyPattern acc p =
     (let (c, covered) = acc; i = hp_Identity p in
      (c\<lparr>fc_patternRows := gm_put (hi_Row i) () (fc_patternRows c),
         fc_hasNonEmptyPattern := (fc_hasNonEmptyPattern c \<or> 1 < hi_End i - hi_Start i)\<rparr>,
       covered @ map (\<lambda>offset. (hi_Row i, offset)) [hi_Start i..<hi_End i + 1]))"

definition wordPositions :: "HackColumn \<Rightarrow> nat list" where
  "wordPositions column =
     concat (map (\<lambda>w. [hw_Start w..<min (hw_Start w + hw_Length w) (length (hc_Text column))]) (hc_Words column))"

definition classifyPosition ::
  "(nat \<times> nat) list \<Rightarrow> nat list \<Rightarrow> nat \<Rightarrow> nat \<Rightarrow> string \<Rightarrow> nat \<Rightarrow> FinalBoardCamouflage \<Rightarrow> nat \<Rightarrow> FinalBoardCamouflage" where
  "classifyPosition covered positions columnIndex row txt rowStart c absolute =
     (let value = txt ! absolute; offset = absolute - rowStart in
      if isDelimiter value then
        (if (row, offset) \<in> set covered then c
         else c\<lparr>fc_standaloneDelimiters := fc_standaloneDelimiters c @
                  [\<lparr>bp_row = row, bp_offset = offset, bp_columnIndex = columnIndex, bp_absolute = absolute\<rparr>],
                fc_decoyRows := gm_put row () (fc_decoyRows c)\<rparr>)
      else if absolute \<notin> set positions \<and> \<not> isASCIIAlpha value then
        c\<lparr>fc_ordinaryFillerRows := gm_put row () (fc_ordinaryFillerRows c)\<rparr>
      else c)"

definition classifyRow ::
  "(nat \<times> nat) list \<Rightarrow> nat list \<Rightarrow> nat \<Rightarrow> nat \<Rightarrow> string \<Rightarrow> FinalBoardCamouflage \<Rightarrow> nat \<Rightarrow> FinalBoardCamouflage" where
  "classifyRow covered positions columnIndex renderedRowBase txt c k =
     (let rowStart = k * boardRowWidth;
          rowEnd = min (rowStart + boardRowWidth) (length txt);
          row = renderedRowBase + k;
          c = (if rowHasAlphabeticInterruptedSpan (slice txt rowStart rowEnd)
               then c\<lparr>fc_hasAlphabeticInterruptedSpan := True\<rparr> else c)
      in foldl (classifyPosition covered positions columnIndex row txt rowStart) c [rowStart..<rowEnd])"

definition classifyColumn ::
  "(nat \<times> nat) list \<Rightarrow> FinalBoardCamouflage \<times> nat \<Rightarrow> nat \<times> HackColumn \<Rightarrow> FinalBoardCamouflage \<times> nat" where
  "classifyColumn covered acc ic =
     (let (c, renderedRowBase) = acc; (columnIndex, column) = ic;
          positions = wordPositions column;
          c = c\<lparr>fc_candidateRows :=
                 foldl (\<lambda>rows absolute. gm_put (renderedRowBase + absolute div boardRowWidth) () rows)
                   (fc_candidateRows c) positions\<rparr>;
          c = foldl (classifyRow covered positions columnIndex renderedRowBase (hc_Text column)) c
                [0..<rowCount (hc_Text column)]
      in (c, renderedRowBase + rowCount (hc_Text column)))"

definition classifyFinalBoard :: "HackState \<Rightarrow> FinalBoardCamouflage" where
  "classifyFinalBoard st =
     (let patterns = discoverPatternSpans (hs_GenerationID st) (hs_Columns st);
          c = \<lparr>fc_patterns = patterns, fc_standaloneDelimiters = [], fc_hasNonEmptyPattern = False,
               fc_hasAlphabeticInterruptedSpan = False, fc_candidateRows = [], fc_patternRows = [],
               fc_decoyRows = [], fc_ordinaryFillerRows = []\<rparr>;
          (c, covered) = foldl classifyPattern (c, []) patterns
      in fst (foldl (classifyColumn covered) (c, 0) (zip [0..<length (hs_Columns st)] (hs_Columns st))))"

definition publishable :: "FinalBoardCamouflage \<Rightarrow> bool" where
  "publishable c =
     (let patternCount = length (fc_patterns c) in
      3 \<le> patternCount \<and> patternCount \<le> 6 \<and>
      patternCount \<le> length (fc_standaloneDelimiters c) \<and>
      fc_hasNonEmptyPattern c \<and>
      fc_hasAlphabeticInterruptedSpan c \<and>
      2 \<le> length (fc_candidateRows c) \<and>
      2 \<le> length (fc_patternRows c) \<and>
      2 \<le> length (fc_decoyRows c) \<and>
      2 \<le> length (fc_ordinaryFillerRows c) \<and>
      rowIntervalsOverlapPairwise [fc_candidateRows c, fc_patternRows c, fc_decoyRows c])"

section \<open>Generating a board\<close>

text \<open>Work on column A or B: an even index prefers A, an odd one B, the other is tried second.\<close>

definition onPair ::
  "(ColumnBuilder \<Rightarrow> ('r, ColumnBuilder option) state) \<Rightarrow> nat \<Rightarrow> ColumnBuilder \<times> ColumnBuilder
    \<Rightarrow> ('r, (ColumnBuilder \<times> ColumnBuilder) option) state" where
  "onPair f index bs =
     (let (columnA, columnB) = bs in
      if even index then
        do {
          r \<leftarrow> f columnA;
          case r of
            Some a \<Rightarrow> State_Monad.return (Some (a, columnB))
          | None \<Rightarrow> do { r \<leftarrow> f columnB; State_Monad.return (map_option (\<lambda>b. (columnA, b)) r) }
        }
      else
        do {
          r \<leftarrow> f columnB;
          case r of
            Some b \<Rightarrow> State_Monad.return (Some (columnA, b))
          | None \<Rightarrow> do { r \<leftarrow> f columnA; State_Monad.return (map_option (\<lambda>a. (a, columnB)) r) }
        })"

primrec placeCandidates ::
  "'r random \<Rightarrow> nat \<Rightarrow> string list \<Rightarrow> ColumnBuilder \<times> ColumnBuilder \<Rightarrow> (string, HackCandidate) gomap
    \<Rightarrow> ('r, ((ColumnBuilder \<times> ColumnBuilder) \<times> (string, HackCandidate) gomap) option) state" where
  "placeCandidates random index [] bs byID = State_Monad.return (Some (bs, byID))"
| "placeCandidates random index (txt # candidates) bs byID =
     do {
       r \<leftarrow> place random (if even index then fst bs else snd bs) txt None;
       case r of
         None \<Rightarrow> State_Monad.return None
       | Some (i, b) \<Rightarrow>
           placeCandidates random (index + 1) candidates
             (if even index then (b, snd bs) else (fst bs, b)) (gm_put i \<lparr>hd_Text = txt\<rparr> byID)
     }"

definition placeInterruptedCandidateSpan ::
  "'r random \<Rightarrow> ColumnBuilder \<times> ColumnBuilder \<Rightarrow> ('r, (ColumnBuilder \<times> ColumnBuilder) option) state" where
  "placeInterruptedCandidateSpan random bs =
     do {
       startBuilder \<leftarrow> safeIntn random 2;
       pairOffset \<leftarrow> safeIntn random (int (length patternPairs));
       r \<leftarrow> placeInterruptedSpan random (patternPairs ! (pairOffset mod 4))
              (if startBuilder = 0 then fst bs else snd bs);
       case r of
         Some b \<Rightarrow> State_Monad.return (Some (if startBuilder = 0 then (b, snd bs) else (fst bs, b)))
       | None \<Rightarrow>
           do {
             r \<leftarrow> placeInterruptedSpan random (patternPairs ! ((pairOffset + 1) mod 4))
                    (if startBuilder = 0 then snd bs else fst bs);
             State_Monad.return
               (map_option (\<lambda>b. if startBuilder = 0 then (fst bs, b) else (b, snd bs)) r)
           }
     }"

primrec placePatterns ::
  "'r random \<Rightarrow> nat \<Rightarrow> nat list \<Rightarrow> ColumnBuilder \<times> ColumnBuilder \<Rightarrow> ('r, (ColumnBuilder \<times> ColumnBuilder) option) state" where
  "placePatterns random pairOffset [] bs = State_Monad.return (Some bs)"
| "placePatterns random pairOffset (index # rest) bs =
     do {
       interiorLength \<leftarrow>
         (if index = 0 then do { k \<leftarrow> safeIntn random 3; State_Monad.return (1 + k) }
          else do {
            k \<leftarrow> safeIntn random 2;
            if k = 1 then do { k \<leftarrow> safeIntn random 2; State_Monad.return (1 + k) } else State_Monad.return 0
          });
       r \<leftarrow> onPair (placePattern random (patternPairs ! ((pairOffset + index) mod length patternPairs)) interiorLength)
              index bs;
       case r of
         None \<Rightarrow> State_Monad.return None
       | Some bs \<Rightarrow> placePatterns random pairOffset rest bs
     }"

primrec placeDecoys ::
  "'r random \<Rightarrow> nat \<Rightarrow> nat list \<Rightarrow> ColumnBuilder \<times> ColumnBuilder \<Rightarrow> ('r, (ColumnBuilder \<times> ColumnBuilder) option) state" where
  "placeDecoys random pairOffset [] bs = State_Monad.return (Some bs)"
| "placeDecoys random pairOffset (index # rest) bs =
     do {
       r \<leftarrow> onPair (placeDelimiterDecoy random (delimiterClosers ! ((pairOffset + index) mod length delimiterClosers)))
              index bs;
       case r of
         None \<Rightarrow> State_Monad.return None
       | Some bs \<Rightarrow> placeDecoys random pairOffset rest bs
     }"

definition wordScope :: "string \<Rightarrow> string" where
  "wordScope generationID = hex (take 8 (sha256 generationID))"

definition generateBoardAttempt ::
  "string \<Rightarrow> int \<Rightarrow> nat \<Rightarrow> string \<Rightarrow> string list \<Rightarrow> 'r random \<Rightarrow> ('r, HackState option) state" where
  "generateBoardAttempt generationID level wordLength secretWord candidates random =
     do {
       let scope = wordScope generationID;
       let bs = (newColumnBuilder (scope @ ''-A''), newColumnBuilder (scope @ ''-B''));
       r \<leftarrow> placeCandidates random 0 candidates bs [];
       case r of
         None \<Rightarrow> State_Monad.return None
       | Some (bs, byID) \<Rightarrow>
     do {
       r \<leftarrow> placeInterruptedCandidateSpan random bs;
       case r of
         None \<Rightarrow> State_Monad.return None
       | Some bs \<Rightarrow>
     do {
       t \<leftarrow> safeIntn random 4;
       let patternTarget = 3 + t;
       pairOffset \<leftarrow> safeIntn random (int (length patternPairs));
       r \<leftarrow> placePatterns random pairOffset [0..<patternTarget] bs;
       case r of
         None \<Rightarrow> State_Monad.return None
       | Some bs \<Rightarrow>
     do {
       r \<leftarrow> placeDecoys random pairOffset [0..<patternTarget] bs;
       case r of
         None \<Rightarrow> State_Monad.return None
       | Some bs \<Rightarrow>
     do {
       a \<leftarrow> finish random (fst bs);
       b \<leftarrow> finish random (snd bs);
       State_Monad.return
         (Some \<lparr>hs_GenerationID = generationID, hs_Level = level, hs_WordLength = wordLength,
                hs_AttemptsMax = maximumAttempts, hs_AttemptsLeft = maximumAttempts,
                hs_SecretWord = secretWord, hs_WordsByID = byID, hs_UsedPatterns = [],
                hs_Solved = False, hs_Failed = False, hs_Log = [], hs_Columns = [a, b]\<rparr>)
     }}}}}"

primrec boardTries ::
  "nat \<Rightarrow> string \<Rightarrow> int \<Rightarrow> nat \<Rightarrow> string \<Rightarrow> string list \<Rightarrow> 'r random \<Rightarrow> ('r, HackState option) state" where
  "boardTries 0 generationID level wordLength secretWord candidates random = State_Monad.return None"
| "boardTries (Suc n) generationID level wordLength secretWord candidates random =
     do {
       r \<leftarrow> generateBoardAttempt generationID level wordLength secretWord candidates random;
       case r of
         None \<Rightarrow> boardTries n generationID level wordLength secretWord candidates random
       | Some st \<Rightarrow>
           if publishable (classifyFinalBoard st) then State_Monad.return (Some st)
           else boardTries n generationID level wordLength secretWord candidates random
     }"

text \<open>An injected word source may read and change the same collaborator state as the random source.\<close>

type_synonym 'r wordSource = "nat \<Rightarrow> nat \<Rightarrow> ('r, string list) state"

definition GenerateBoard ::
  "string \<Rightarrow> int \<Rightarrow> 'r random \<Rightarrow> 'r wordSource option \<Rightarrow> ('r, HackState option) state" where
  "GenerateBoard generationID level random words =
     (if trim_space generationID = '''' then State_Monad.return None
      else do {
        let wordLength = levelWordLength level;
        let wordCount = nat (11 + clamp level 1 5);
        raw \<leftarrow> (case words of None \<Rightarrow> PickWords random wordLength wordCount | Some source \<Rightarrow> source wordLength wordCount);
        let candidates = normalizeCandidates raw wordLength wordCount;
        candidates \<leftarrow>
          (if length candidates < wordCount then do {
             fallback \<leftarrow> PickWords random wordLength wordCount;
             State_Monad.return (supplementCandidates candidates fallback wordCount)
           } else State_Monad.return candidates);
        if candidates = [] then State_Monad.return None
        else do {
          k \<leftarrow> safeIntn random (int (length candidates));
          boardTries placementTries generationID level wordLength (candidates ! k) candidates random
        }
      })"

end
