(* ===== verification/HackGenInv.thy ===== *)
theory HackGenInv
  imports HackGen
begin

text \<open>
  What board generation guarantees, for every random source and every injected word source:
  the builder invariant through every placement, and the well-formed, publishable board that
  \<open>GenerateBoard\<close> returns.
\<close>

section \<open>Results that may be missing\<close>

lemma pred_state_bind_option:
  assumes "pred_state (pred_option Q) m"
    and "pred_state P (f None)" and "\<And>x. Q x \<Longrightarrow> pred_state P (f (Some x))"
  shows "pred_state P (m \<bind> f)"
  using assms(1)
proof (rule pred_state_bind)
  fix r assume "pred_option Q r"
  then show "pred_state P (f r)" using assms(2,3) by (cases r) simp_all
qed

lemma pred_state_bind_safeIntn:
  assumes "0 < n" and "\<And>k. k < n \<Longrightarrow> pred_state P (f k)"
  shows "pred_state P (safeIntn random (int n) \<bind> f)"
  using safeIntn_below [OF assms(1)] assms(2) by (rule pred_state_bind)

lemma tryRandom_result:
  "pred_state (pred_option (\<lambda>s. \<exists>k. (k = 0 \<or> int k < limit) \<and> ok k = Some s)) (tryRandom random limit ok n)"
proof (induction n)
  case (Suc n)
  show ?case
    unfolding tryRandom.simps
    by (rule pred_state_bind [OF safeIntn_bounds]) (auto simp: Suc.IH split: option.split)
qed simp

lemma accept_Some [simp]: "accept P k = Some s \<longleftrightarrow> P k \<and> s = k"
  by (auto simp: accept_def)

section \<open>Lists written in place\<close>

lemma length_overwrite [simp]: "start + length ys \<le> length xs \<Longrightarrow> length (overwrite xs start ys) = length xs"
  by (simp add: overwrite_def)

lemma nth_overwrite:
  "start + length ys \<le> length xs \<Longrightarrow> i < length xs \<Longrightarrow>
   overwrite xs start ys ! i = (if start \<le> i \<and> i < start + length ys then ys ! (i - start) else xs ! i)"
  by (auto simp: overwrite_def nth_append min_def)

lemma freeRange_iff: "freeRange b from to \<longleftrightarrow> (\<forall>i. from \<le> i \<and> i < to \<longrightarrow> \<not> cb_used b ! i)"
  by (auto simp: freeRange_def list_all_iff)

section \<open>The builder invariant\<close>

definition word_used :: "ColumnBuilder \<Rightarrow> HackWord \<Rightarrow> bool" where
  "word_used b w = list_all (\<lambda>i. cb_used b ! i) [hw_Start w..<hw_Start w + hw_Length w]"

definition builder_ok :: "(string, HackCandidate) gomap \<Rightarrow> nat \<Rightarrow> ColumnBuilder \<Rightarrow> bool" where
  "builder_ok byID wl b =
     (length (cb_chars b) = columnChars \<and> length (cb_used b) = columnChars \<and>
      list_all (word_ok (cb_chars b) byID wl) (cb_words b) \<and>
      list_all (word_used b) (cb_words b) \<and>
      sorted_wrt words_apart (cb_words b) \<and>
      1 \<le> cb_nextID b \<and>
      map hw_ID (cb_words b) = map (\<lambda>k. cb_prefix b @ dec k) [1..<cb_nextID b])"

text \<open>Filling free cells and never touching used ones.\<close>

definition extends :: "ColumnBuilder \<Rightarrow> ColumnBuilder \<Rightarrow> bool" where
  "extends b b' =
     (cb_prefix b' = cb_prefix b \<and> cb_words b' = cb_words b \<and> cb_nextID b' = cb_nextID b \<and>
      length (cb_chars b') = length (cb_chars b) \<and> length (cb_used b') = length (cb_used b) \<and>
      (\<forall>i<length (cb_used b). cb_used b ! i \<longrightarrow> cb_used b' ! i \<and> cb_chars b' ! i = cb_chars b ! i))"

lemma word_used_iff: "word_used b w \<longleftrightarrow> (\<forall>i. hw_Start w \<le> i \<and> i < hw_Start w + hw_Length w \<longrightarrow> cb_used b ! i)"
  by (auto simp: word_used_def list_all_iff)

lemma word_ok_same_text:
  assumes "word_ok txt byID wl w" and "length txt' = length txt"
    and "\<And>i. hw_Start w \<le> i \<Longrightarrow> i < hw_Start w + hw_Length w \<Longrightarrow> txt' ! i = txt ! i"
  shows "word_ok txt' byID wl w"
proof -
  have l: "hw_Length w = wl" using assms(1) by (simp add: word_ok_def)
  have "slice txt' (hw_Start w) (hw_Start w + wl) = slice txt (hw_Start w) (hw_Start w + wl)"
    by (rule slice_cong) (use assms l in auto)
  with assms(1,2) show ?thesis by (auto simp: word_ok_def split: option.splits)
qed

lemma word_used_bound: "builder_ok byID wl b \<Longrightarrow> w \<in> set (cb_words b) \<Longrightarrow>
   word_ok (cb_chars b) byID wl w \<and> word_used b w \<and> hw_Start w + hw_Length w \<le> columnChars"
  by (auto simp: builder_ok_def list_all_iff word_ok_def)

lemma builder_ok_extends:
  assumes b: "builder_ok byID wl b" and e: "extends b b'"
  shows "builder_ok byID wl b'"
proof -
  have "word_ok (cb_chars b') byID wl w" "word_used b' w" if "w \<in> set (cb_words b)" for w
  proof -
    from word_used_bound [OF b that] have w: "word_ok (cb_chars b) byID wl w" "word_used b w"
      and l: "hw_Start w + hw_Length w \<le> columnChars" by auto
    have same: "cb_used b' ! i \<and> cb_chars b' ! i = cb_chars b ! i"
      if "hw_Start w \<le> i" "i < hw_Start w + hw_Length w" for i
      using w(2) e b l that by (simp add: word_used_iff extends_def builder_ok_def)
    then show "word_used b' w" by (simp add: word_used_iff)
    show "word_ok (cb_chars b') byID wl w"
      by (rule word_ok_same_text [OF w(1)]) (use e same in \<open>simp_all add: extends_def\<close>)
  qed
  with b e show ?thesis by (simp add: builder_ok_def extends_def list_all_iff)
qed

lemma extends_refl: "extends b b"
  by (simp add: extends_def)

lemma word_ok_put:
  assumes "word_ok txt byID wl w" and "hw_ID w \<noteq> i"
  shows "word_ok txt (gm_put i c byID) wl w"
  using assms by (simp add: word_ok_def)

section \<open>Placing a word\<close>

definition placed :: "ColumnBuilder \<Rightarrow> string \<Rightarrow> nat \<Rightarrow> ColumnBuilder" where
  "placed b txt start =
     (let i = cb_prefix b @ dec (cb_nextID b);
          b = b\<lparr>cb_nextID := cb_nextID b + 1, cb_chars := overwrite (cb_chars b) start txt\<rparr>;
          b = markUsed b start (length txt)
      in b\<lparr>cb_words := cb_words b @ [\<lparr>hw_ID = i, hw_Start = start, hw_Length = length txt\<rparr>]\<rparr>)"

lemma placed_simps:
  "cb_prefix (placed b txt start) = cb_prefix b"
  "cb_nextID (placed b txt start) = cb_nextID b + 1"
  "cb_chars (placed b txt start) = overwrite (cb_chars b) start txt"
  "cb_used (placed b txt start) = overwrite (cb_used b) start (replicate (length txt) True)"
  "cb_words (placed b txt start) = cb_words b @
     [\<lparr>hw_ID = cb_prefix b @ dec (cb_nextID b), hw_Start = start, hw_Length = length txt\<rparr>]"
  by (simp_all add: placed_def Let_def markUsed_def)

lemma place_result:
  "pred_state (pred_option (\<lambda>(i, b'). i = cb_prefix b @ dec (cb_nextID b) \<and>
      (\<exists>start. canPlace b start (length txt) \<and> b' = placed b txt start)))
    (place random b txt requestedStart)"
  unfolding place_def
  by (rule pred_state_bind [OF pred_state_true]) (auto simp: placed_def Let_def split: option.split)

lemma canPlace_bound: "canPlace b start len \<Longrightarrow> start + len \<le> length (cb_chars b)"
  by (auto simp: canPlace_def)

lemma canPlace_free:
  assumes "canPlace b start len" and "start \<le> i" and "i < start + len"
  shows "\<not> cb_used b ! i"
  using assms by (auto simp: canPlace_def freeRange_iff)

lemma placed_ok:
  assumes b: "builder_ok byID wl b" and c: "canPlace b start (length txt)"
    and tx: "length txt = wl" "list_all isASCIIAlpha txt"
    and fresh: "\<not> gm_has byID (cb_prefix b @ dec (cb_nextID b))"
  shows "builder_ok (gm_put (cb_prefix b @ dec (cb_nextID b)) \<lparr>hd_Text = txt\<rparr> byID) wl (placed b txt start)"
proof -
  let ?i = "cb_prefix b @ dec (cb_nextID b)"
  let ?byID = "gm_put ?i \<lparr>hd_Text = txt\<rparr> byID"
  let ?w = "\<lparr>hw_ID = ?i, hw_Start = start, hw_Length = length txt\<rparr>"
  let ?b = "placed b txt start"
  have len: "length (cb_chars b) = columnChars" "length (cb_used b) = columnChars"
    using b by (simp_all add: builder_ok_def)
  have bound: "start + length txt \<le> columnChars" using canPlace_bound [OF c] len by simp
  have apart: "words_apart w ?w" and old: "word_ok (cb_chars ?b) ?byID wl w" "word_used ?b w"
    if w: "w \<in> set (cb_words b)" for w
  proof -
    from word_used_bound [OF b w] have ok: "word_ok (cb_chars b) byID wl w" "word_used b w"
      and l: "hw_Start w + hw_Length w \<le> columnChars" by auto
    have out: "\<not> (start \<le> i \<and> i < start + length txt)" if "hw_Start w \<le> i" "i < hw_Start w + hw_Length w" for i
      using ok(2) canPlace_free [OF c, of i] that by (auto simp: word_used_iff)
    show "words_apart w ?w"
    proof -
      have pos: "hw_Length w = length txt" "0 < length txt" using tx c ok(1) by (auto simp: word_ok_def canPlace_def)
      show ?thesis
        using out [of start] out [of "hw_Start w"] pos
        by (cases "start \<le> hw_Start w"; cases "start < hw_Start w + length txt";
            cases "hw_Start w < start + length txt") (auto simp: words_apart_def)
    qed
    have "word_ok (cb_chars ?b) byID wl w"
      by (rule word_ok_same_text [OF ok(1)])
        (use out bound len l in \<open>auto simp: placed_simps nth_overwrite\<close>)
    moreover have "hw_ID w \<noteq> ?i" using ok(1) fresh by (auto simp: word_ok_def gm_has_iff split: option.splits)
    ultimately show "word_ok (cb_chars ?b) ?byID wl w" by (rule word_ok_put)
    show "word_used ?b w"
      using ok(2) bound len l by (auto simp: word_used_iff placed_simps nth_overwrite)
  qed
  have "slice (overwrite (cb_chars b) start txt) start (start + length txt) = txt"
    by (rule nth_equalityI) (use bound len in \<open>auto simp: nth_slice nth_overwrite\<close>)
  then have new: "word_ok (cb_chars ?b) ?byID wl ?w" "word_used ?b ?w"
    using tx bound len by (auto simp: word_ok_def placed_simps word_used_iff nth_overwrite)
  have "map hw_ID (cb_words ?b) = map (\<lambda>k. cb_prefix ?b @ dec k) [1..<cb_nextID ?b]"
    using b by (simp add: builder_ok_def placed_simps)
  with b bound len apart old new show ?thesis
    by (simp add: builder_ok_def placed_simps list_all_iff sorted_wrt_append)
qed

section \<open>Decorating a column\<close>

lemma extends_trans: "extends a b \<Longrightarrow> extends b c \<Longrightarrow> extends a c"
  by (auto simp: extends_def)

lemma placeInterruptedSpan_extends:
  assumes "length (cb_chars b) = length (cb_used b)"
  shows "pred_state (pred_option (extends b)) (placeInterruptedSpan random pair b)"
proof -
  have "extends b (surround b w pair)" if "interruptible b w" for w
    using that assms by (auto simp: extends_def surround_def Let_def interruptible_def nth_list_update)
  then have "pred_option (extends b) (map_option (\<lambda>w. surround b w pair) (find (interruptible b) ws))" for ws
    by (cases "find (interruptible b) ws") (auto dest: find_SomeD)
  then show ?thesis
    by (auto simp: placeInterruptedSpan_def intro: pred_state_bind [OF pred_state_true])
qed

lemma writeInterior_result:
  "pred_state (\<lambda>chars'. length chars' = length chars \<and>
      (\<forall>i. \<not> (at \<le> i \<and> i < at + n) \<longrightarrow> chars' ! i = chars ! i)) (writeInterior random at n chars)"
proof (induction n arbitrary: at chars)
  case (Suc n)
  show ?case
    unfolding writeInterior.simps
    by (rule pred_state_bind [OF pred_state_true], rule pred_state_weaken [OF Suc.IH]) auto
qed simp

lemma writePattern_extends:
  assumes c: "canPlacePattern b start (n + 2)" and len: "length (cb_chars b) = length (cb_used b)"
  shows "pred_state (extends b) (writePattern random b start pair n)"
proof -
  have bound: "start + n + 2 \<le> length (cb_used b)" and free: "freeRange b start (start + (n + 2))"
    using c by (auto simp: canPlacePattern_def)
  show ?thesis
    unfolding writePattern_def
  proof (rule pred_state_bind [OF writeInterior_result])
    fix chars :: string
    assume chars: "length chars = length ((cb_chars b)[start := pair ! 0]) \<and>
      (\<forall>i. \<not> (start + 1 \<le> i \<and> i < start + 1 + n) \<longrightarrow> chars ! i = (cb_chars b)[start := pair ! 0] ! i)"
    let ?b' = "markUsed (b\<lparr>cb_chars := chars[start + n + 1 := pair ! 1]\<rparr>) start (n + 2)"
    have "cb_used ?b' ! i \<and> cb_chars ?b' ! i = cb_chars b ! i" if "i < length (cb_used b)" "cb_used b ! i" for i
    proof -
      have "i < start \<or> start + n + 2 \<le> i" using free that by (auto simp: freeRange_iff not_less)
      then show ?thesis using that chars bound len by (auto simp: markUsed_def nth_overwrite)
    qed
    then show "pred_state (extends b) (State_Monad.return ?b')"
      using chars bound len by (simp add: extends_def markUsed_def)
  qed
qed

lemma placePattern_extends:
  assumes "length (cb_chars b) = length (cb_used b)"
  shows "pred_state (pred_option (extends b)) (placePattern random pair n b)"
proof (cases "length pair \<noteq> 2 \<or> boardRowWidth < n + 2")
  case True
  then show ?thesis by (simp add: placePattern_def Let_def)
next
  case False
  let ?startsPerRow = "boardRowWidth - (n + 2) + 1"
  let ?all = "concat (map (\<lambda>row. map (\<lambda>column. row * boardRowWidth + column) [0..<?startsPerRow]) [0..<boardRows])"
  let ?finish = "\<lambda>found. case found of None \<Rightarrow> State_Monad.return None
      | Some start \<Rightarrow> do { b' \<leftarrow> writePattern random b start pair n; State_Monad.return (Some b') }"
  have finish: "pred_state (pred_option (extends b)) (?finish found)"
    if "pred_option (\<lambda>start. canPlacePattern b start (n + 2)) found" for found
    using that pred_state_bind [OF writePattern_extends [OF _ assms], of _ n "pred_option (extends b)" "\<lambda>b'. State_Monad.return (Some b')"]
    by (auto split: option.split)
  have "pred_option (\<lambda>start. canPlacePattern b start (n + 2)) (find (\<lambda>start. canPlacePattern b start (n + 2)) ?all)"
    by (cases "find (\<lambda>start. canPlacePattern b start (n + 2)) ?all") (auto dest: find_SomeD)
  note finish_all = finish [OF this]
  have tries: "pred_state (pred_option (\<lambda>start. canPlacePattern b start (n + 2)))
      (tryRandom random limit (\<lambda>k. accept (\<lambda>start. canPlacePattern b start (n + 2)) (g k)) m)" for limit g m
    by (rule pred_state_weaken [OF tryRandom_result]) (auto elim!: option.pred_mono_strong)
  from False have not: "\<not> (length pair \<noteq> 2 \<or> boardRowWidth < n + 2)" .
  show ?thesis
    unfolding placePattern_def Let_def if_not_P [OF not]
  proof (rule pred_state_bind_option [OF tries], goal_cases)
    case 1
    show ?case using finish_all by simp
  next
    case (2 start)
    then show ?case using finish [of "Some start"] by simp
  qed
qed

lemma placeDelimiterDecoy_extends:
  assumes "length (cb_chars b) = columnChars" and "length (cb_used b) = columnChars"
  shows "pred_state (pred_option (extends b)) (placeDelimiterDecoy random delimiter b)"
proof -
  have put: "extends b (putDelimiter b delimiter index)" if free: "\<not> cb_used b ! index" for index
  proof -
    have "index \<noteq> i" if "cb_used b ! i" for i using free that by auto
    then show ?thesis using assms by (simp add: extends_def putDelimiter_def)
  qed
  have "pred_option (extends b) (map_option (putDelimiter b delimiter) (find (\<lambda>index. \<not> cb_used b ! index) xs))" for xs
    by (cases "find (\<lambda>index. \<not> cb_used b ! index) xs") (auto dest!: find_SomeD intro: put)
  then show ?thesis
    unfolding placeDelimiterDecoy_def
    by (intro pred_state_bind_option [OF tryRandom_result]) (auto intro: put)
qed

lemma fillLoop_result:
  "pred_state (\<lambda>chars'. length chars' = length chars \<and> (\<forall>i. used ! i \<longrightarrow> chars' ! i = chars ! i))
    (fillLoop random used indexes chars)"
proof (induction indexes arbitrary: chars)
  case (Cons index rest)
  show ?case
  proof (cases "used ! index")
    case True
    then show ?thesis using Cons.IH by simp
  next
    case False
    then have "used ! i \<Longrightarrow> index \<noteq> i" for i by auto
    then have "pred_state (\<lambda>chars'. length chars' = length chars \<and> (\<forall>i. used ! i \<longrightarrow> chars' ! i = chars ! i))
        (fillLoop random used rest (chars[index := fillerPool ! k]))" for k
      by (intro pred_state_weaken [OF Cons.IH]) simp
    with False show ?thesis by (simp add: pred_state_bind [OF pred_state_true])
  qed
qed simp

lemma generateAddresses_length: "pred_state (\<lambda>as. length as = count) (generateAddresses random count)"
  unfolding generateAddresses_def
  by (intro pred_state_bind [OF pred_state_true]) (simp add: Let_def)

lemma finish_result:
  assumes b: "builder_ok byID wl b"
  shows "pred_state (\<lambda>c. column_ok byID wl c \<and> hc_Words c = cb_words b) (finish random b)"
  unfolding finish_def
proof (rule pred_state_bind [OF fillLoop_result], rule pred_state_bind [OF generateAddresses_length])
  fix chars :: string and addresses :: "string list"
  assume chars: "length chars = length (cb_chars b) \<and> (\<forall>i. cb_used b ! i \<longrightarrow> chars ! i = cb_chars b ! i)"
    and addr: "length addresses = boardRows"
  have "word_ok chars byID wl w" if "w \<in> set (cb_words b)" for w
  proof (rule word_ok_same_text)
    show "word_ok (cb_chars b) byID wl w" using word_used_bound [OF b that] by simp
  qed (use chars word_used_bound [OF b that] in \<open>auto simp: word_used_iff\<close>)
  then show "pred_state (\<lambda>c. column_ok byID wl c \<and> hc_Words c = cb_words b)
      (State_Monad.return \<lparr>hc_Addresses = addresses, hc_Text = chars, hc_Words = cb_words b\<rparr>)"
    using b chars addr by (simp add: column_ok_def builder_ok_def list_all_iff)
qed

section \<open>The two columns together\<close>

definition column_ids :: "ColumnBuilder \<Rightarrow> string set" where
  "column_ids b = hw_ID ` set (cb_words b)"

definition pair_ok :: "string \<Rightarrow> (string, HackCandidate) gomap \<Rightarrow> nat \<Rightarrow> ColumnBuilder \<times> ColumnBuilder \<Rightarrow> bool" where
  "pair_ok scope byID wl bs =
     (builder_ok byID wl (fst bs) \<and> builder_ok byID wl (snd bs) \<and>
      cb_prefix (fst bs) = scope @ ''-A'' \<and> cb_prefix (snd bs) = scope @ ''-B'' \<and>
      gm_ok byID \<and> set (gm_keys byID) = column_ids (fst bs) \<union> column_ids (snd bs))"

lemma column_ids_eq:
  assumes "builder_ok byID wl b"
  shows "column_ids b = {cb_prefix b @ dec k | k. 1 \<le> k \<and> k < cb_nextID b}"
proof -
  have "column_ids b = set (map hw_ID (cb_words b))" by (simp add: column_ids_def)
  also have "\<dots> = {cb_prefix b @ dec k | k. 1 \<le> k \<and> k < cb_nextID b}"
    using assms by (auto simp: builder_ok_def)
  finally show ?thesis .
qed

lemma pair_ok_fresh:
  assumes "pair_ok scope byID wl bs"
  shows "\<not> gm_has byID (cb_prefix (fst bs) @ dec (cb_nextID (fst bs)))"
    and "\<not> gm_has byID (cb_prefix (snd bs) @ dec (cb_nextID (snd bs)))"
    and "column_ids (fst bs) \<inter> column_ids (snd bs) = {}"
  using assms column_ids_eq [of byID wl "fst bs"] column_ids_eq [of byID wl "snd bs"]
  by (auto simp: pair_ok_def simp flip: set_gm_keys dest: dec_inj)

lemma builder_ok_put:
  assumes "builder_ok byID wl b" and "i \<notin> column_ids b"
  shows "builder_ok (gm_put i c byID) wl b"
proof -
  have "word_ok (cb_chars b) (gm_put i c byID) wl w" if "w \<in> set (cb_words b)" for w
    using assms that by (intro word_ok_put) (auto simp: builder_ok_def list_all_iff column_ids_def)
  with assms(1) show ?thesis by (simp add: builder_ok_def list_all_iff)
qed

lemma extends_ids: "extends b b' \<Longrightarrow> column_ids b' = column_ids b"
  by (simp add: extends_def column_ids_def)

lemma pair_ok_extends:
  assumes "pair_ok scope byID wl bs" and "extends (fst bs) (fst bs')" and "extends (snd bs) (snd bs')"
  shows "pair_ok scope byID wl bs'"
  using assms(1) builder_ok_extends [OF _ assms(2)] builder_ok_extends [OF _ assms(3)]
    extends_ids [OF assms(2)] extends_ids [OF assms(3)] assms(2,3)
  by (simp add: pair_ok_def) (simp add: extends_def)

lemma place_pair:
  assumes "pair_ok scope byID wl bs" and "length txt = wl" and "list_all isASCIIAlpha txt"
  shows "pred_state (pred_option (\<lambda>(i, b'). \<not> gm_has byID i \<and>
      pair_ok scope (gm_put i \<lparr>hd_Text = txt\<rparr> byID) wl (b', snd bs))) (place random (fst bs) txt r)"
    and "pred_state (pred_option (\<lambda>(i, b'). \<not> gm_has byID i \<and>
      pair_ok scope (gm_put i \<lparr>hd_Text = txt\<rparr> byID) wl (fst bs, b'))) (place random (snd bs) txt r)"
proof -
  have ids: "column_ids (placed b txt start) = insert (cb_prefix b @ dec (cb_nextID b)) (column_ids b)" for b start
    by (auto simp: column_ids_def placed_simps)
  note fresh = pair_ok_fresh [OF assms(1)]
  have keys: "set (gm_keys byID) = column_ids (fst bs) \<union> column_ids (snd bs)"
    using assms(1) by (simp add: pair_ok_def)
  have oks: "builder_ok byID wl (fst bs)" "builder_ok byID wl (snd bs)" using assms(1) by (simp_all add: pair_ok_def)
  let ?i = "cb_prefix (fst bs) @ dec (cb_nextID (fst bs))" and ?j = "cb_prefix (snd bs) @ dec (cb_nextID (snd bs))"
  have out: "?i \<notin> column_ids (snd bs)" "?j \<notin> column_ids (fst bs)"
    using fresh keys by (auto simp flip: set_gm_keys)
  have "pair_ok scope (gm_put ?i \<lparr>hd_Text = txt\<rparr> byID) wl (placed (fst bs) txt start, snd bs)"
    if "canPlace (fst bs) start (length txt)" for start
    using assms(1) placed_ok [OF oks(1) that assms(2,3) fresh(1)] builder_ok_put [OF oks(2) out(1)] keys ids
    by (simp add: pair_ok_def placed_simps set_gm_keys_put)
  then show "pred_state (pred_option (\<lambda>(i, b'). \<not> gm_has byID i \<and>
      pair_ok scope (gm_put i \<lparr>hd_Text = txt\<rparr> byID) wl (b', snd bs))) (place random (fst bs) txt r)"
    using fresh(1) by (intro pred_state_weaken [OF place_result]) (auto elim!: option.pred_mono_strong)
  have "pair_ok scope (gm_put ?j \<lparr>hd_Text = txt\<rparr> byID) wl (fst bs, placed (snd bs) txt start)"
    if "canPlace (snd bs) start (length txt)" for start
    using assms(1) placed_ok [OF oks(2) that assms(2,3) fresh(2)] builder_ok_put [OF oks(1) out(2)] keys ids
    by (simp add: pair_ok_def placed_simps set_gm_keys_put)
  then show "pred_state (pred_option (\<lambda>(i, b'). \<not> gm_has byID i \<and>
      pair_ok scope (gm_put i \<lparr>hd_Text = txt\<rparr> byID) wl (fst bs, b'))) (place random (snd bs) txt r)"
    using fresh(2) by (intro pred_state_weaken [OF place_result]) (auto elim!: option.pred_mono_strong)
qed

definition candidate_texts :: "(string, HackCandidate) gomap \<Rightarrow> string list" where
  "candidate_texts byID = map (\<lambda>(i, c). hd_Text c) byID"

lemma gm_put_fresh: "\<not> gm_has m k \<Longrightarrow> gm_put k v m = m @ [(k, v)]"
  by (induction m) (auto simp: gm_put_def gm_has_def gm_get_def split: if_splits)

definition usable :: "nat \<Rightarrow> string \<Rightarrow> bool" where
  "usable wl w = (length w = wl \<and> list_all isASCIIAlpha w)"

lemma placeCandidates_ok:
  assumes "pair_ok scope byID wl bs" and "list_all (usable wl) candidates"
  shows "pred_state (pred_option (\<lambda>(bs', byID'). pair_ok scope byID' wl bs' \<and>
      candidate_texts byID' = candidate_texts byID @ candidates)) (placeCandidates random index candidates bs byID)"
  using assms
proof (induction candidates arbitrary: index bs byID)
  case (Cons t candidates)
  have t: "length t = wl" "list_all isASCIIAlpha t" using Cons.prems(2) by (simp_all add: usable_def)
  have step: "pred_state (pred_option (\<lambda>(bs', byID'). pair_ok scope byID' wl bs' \<and>
      candidate_texts byID' = candidate_texts byID @ t # candidates))
      (placeCandidates random (index + 1) candidates bs' (gm_put i \<lparr>hd_Text = t\<rparr> byID))"
    if "\<not> gm_has byID i" "pair_ok scope (gm_put i \<lparr>hd_Text = t\<rparr> byID) wl bs'" for i bs'
    using Cons.IH [OF that(2), of "index + 1"] Cons.prems(2) that(1)
    by (simp add: gm_put_fresh candidate_texts_def)
  show ?case
  proof (cases "even index")
    case True
    show ?thesis
      unfolding placeCandidates.simps if_P [OF True]
    proof (rule pred_state_bind_option [OF place_pair(1) [OF Cons.prems(1) t]], goal_cases)
      case (2 p)
      then show ?case using step by (cases p) simp
    qed simp
  next
    case False
    show ?thesis
      unfolding placeCandidates.simps if_not_P [OF False]
    proof (rule pred_state_bind_option [OF place_pair(2) [OF Cons.prems(1) t]], goal_cases)
      case (2 p)
      then show ?case using step by (cases p) simp
    qed simp
  qed
qed (simp add: candidate_texts_def)

text \<open>Every decoration keeps the pair; the three loops share one argument.\<close>

definition keeps_pair :: "('r, (ColumnBuilder \<times> ColumnBuilder) option) state \<Rightarrow> ColumnBuilder \<times> ColumnBuilder \<Rightarrow> bool" where
  "keeps_pair m bs =
     (\<forall>scope byID wl. pair_ok scope byID wl bs \<longrightarrow> pred_state (pred_option (pair_ok scope byID wl)) m)"

lemma builder_lengths:
  "pair_ok scope byID wl bs \<Longrightarrow> length (cb_chars (fst bs)) = columnChars \<and> length (cb_used (fst bs)) = columnChars \<and>
     length (cb_chars (snd bs)) = columnChars \<and> length (cb_used (snd bs)) = columnChars"
  by (simp add: pair_ok_def builder_ok_def)

lemma onPair_keeps:
  assumes "\<And>b. length (cb_chars b) = columnChars \<Longrightarrow> length (cb_used b) = columnChars \<Longrightarrow>
    pred_state (pred_option (extends b)) (f b)"
  shows "keeps_pair (onPair f index bs) bs"
  unfolding keeps_pair_def
proof (intro allI impI)
  fix scope byID wl assume ok: "pair_ok scope byID wl bs"
  obtain a b where bs: "bs = (a, b)" by (cases bs)
  from builder_lengths [OF ok] bs have ea: "pred_state (pred_option (extends a)) (f a)"
    and eb: "pred_state (pred_option (extends b)) (f b)" using assms by simp_all
  have both: "pair_ok scope byID wl (a', b)" if "extends a a'" for a'
    using pair_ok_extends [OF ok, of "(a', b)"] bs that extends_refl by simp
  have both': "pair_ok scope byID wl (a, b')" if "extends b b'" for b'
    using pair_ok_extends [OF ok, of "(a, b')"] bs that extends_refl by simp
  have m1: "pred_state (pred_option (pair_ok scope byID wl)) (f b \<bind> (\<lambda>r. State_Monad.return (map_option (\<lambda>b. (a, b)) r)))"
    by (rule pred_state_bind_option [OF eb]) (use both' in simp_all)
  have m2: "pred_state (pred_option (pair_ok scope byID wl)) (f a \<bind> (\<lambda>r. State_Monad.return (map_option (\<lambda>a. (a, b)) r)))"
    by (rule pred_state_bind_option [OF ea]) (use both in simp_all)
  show "pred_state (pred_option (pair_ok scope byID wl)) (onPair f index bs)"
  proof (cases "even index")
    case True
    show ?thesis
      unfolding onPair_def bs Let_def prod.case if_P [OF True]
      by (rule pred_state_bind_option [OF ea]) (use m1 both in simp_all)
  next
    case False
    show ?thesis
      unfolding onPair_def bs Let_def prod.case if_not_P [OF False]
      by (rule pred_state_bind_option [OF eb]) (use m2 both' in simp_all)
  qed
qed

lemma keeps_pair_loop:
  assumes "keeps_pair m bs" and "\<And>bs'. keeps_pair (g bs') bs'"
  shows "keeps_pair (m \<bind> (\<lambda>r. case r of None \<Rightarrow> State_Monad.return None | Some bs' \<Rightarrow> g bs')) bs"
  using assms unfolding keeps_pair_def
  by (auto intro!: pred_state_bind_option)

lemma keeps_pair_return: "keeps_pair (State_Monad.return (Some bs)) bs"
  by (simp add: keeps_pair_def)

lemma keeps_pair_bind: "(\<And>x. keeps_pair (f x) bs) \<Longrightarrow> keeps_pair (m \<bind> f) bs"
  unfolding keeps_pair_def by (auto intro: pred_state_bind [OF pred_state_true])

lemma placePatterns_keeps: "keeps_pair (placePatterns random pairOffset indexes bs) bs"
proof (induction indexes arbitrary: bs)
  case (Cons index rest)
  show ?case
    unfolding placePatterns.simps
    by (intro keeps_pair_bind keeps_pair_loop onPair_keeps Cons.IH placePattern_extends) simp
qed (simp add: keeps_pair_return)

lemma placeDecoys_keeps: "keeps_pair (placeDecoys random pairOffset indexes bs) bs"
proof (induction indexes arbitrary: bs)
  case (Cons index rest)
  show ?case
    unfolding placeDecoys.simps
    by (intro keeps_pair_loop onPair_keeps Cons.IH placeDelimiterDecoy_extends)
qed (simp add: keeps_pair_return)

lemma placeInterruptedCandidateSpan_keeps: "keeps_pair (placeInterruptedCandidateSpan random bs) bs"
  unfolding placeInterruptedCandidateSpan_def
proof (rule keeps_pair_bind, rule keeps_pair_bind)
  fix startBuilder pairOffset :: nat
  let ?one = "\<lambda>p b. placeInterruptedSpan random (patternPairs ! (p mod 4)) b"
  show "keeps_pair (?one pairOffset (if startBuilder = 0 then fst bs else snd bs) \<bind>
      (\<lambda>r. case r of
         Some b \<Rightarrow> State_Monad.return (Some (if startBuilder = 0 then (b, snd bs) else (fst bs, b)))
       | None \<Rightarrow> ?one (pairOffset + 1) (if startBuilder = 0 then snd bs else fst bs) \<bind>
           (\<lambda>r. State_Monad.return (map_option (\<lambda>b. if startBuilder = 0 then (fst bs, b) else (b, snd bs)) r)))) bs"
    unfolding keeps_pair_def
  proof (intro allI impI)
    fix scope byID wl assume ok: "pair_ok scope byID wl bs"
    have ext: "pred_state (pred_option (extends b)) (?one p b)" if "b = fst bs \<or> b = snd bs" for p b
      using builder_lengths [OF ok] that by (intro placeInterruptedSpan_extends) auto
    have both: "pair_ok scope byID wl (b, snd bs)" if "extends (fst bs) b" for b
      using pair_ok_extends [OF ok, of "(b, snd bs)"] that extends_refl by simp
    have both': "pair_ok scope byID wl (fst bs, b)" if "extends (snd bs) b" for b
      using pair_ok_extends [OF ok, of "(fst bs, b)"] that extends_refl by simp
    show "pred_state (pred_option (pair_ok scope byID wl)) (?one pairOffset (if startBuilder = 0 then fst bs else snd bs) \<bind>
      (\<lambda>r. case r of
         Some b \<Rightarrow> State_Monad.return (Some (if startBuilder = 0 then (b, snd bs) else (fst bs, b)))
       | None \<Rightarrow> ?one (pairOffset + 1) (if startBuilder = 0 then snd bs else fst bs) \<bind>
           (\<lambda>r. State_Monad.return (map_option (\<lambda>b. if startBuilder = 0 then (fst bs, b) else (b, snd bs)) r))))"
      by (cases "startBuilder = 0")
        (auto intro!: pred_state_bind_option [OF ext] both both')
  qed
qed

section \<open>One generation attempt\<close>

lemma builder_ok_new: "builder_ok byID wl (newColumnBuilder prefix)"
  by (simp add: builder_ok_def newColumnBuilder_def)

lemma builder_ok_distinct:
  assumes "builder_ok byID wl b"
  shows "distinct (map hw_ID (cb_words b))"
proof -
  have "map hw_ID (cb_words b) = map (\<lambda>k. cb_prefix b @ dec k) [1..<cb_nextID b]"
    using assms by (simp add: builder_ok_def)
  also have "distinct \<dots>" by (auto simp: distinct_map inj_on_def dest: dec_inj)
  finally show ?thesis .
qed

definition board_for :: "string \<Rightarrow> int \<Rightarrow> nat \<Rightarrow> string list \<Rightarrow> HackState \<Rightarrow> bool" where
  "board_for generationID level wl candidates st =
     (hack_wf st \<and> hs_GenerationID st = generationID \<and> hs_Level st = level \<and> hs_WordLength st = wl \<and>
      hs_AttemptsMax st = maximumAttempts \<and> hs_AttemptsLeft st = maximumAttempts \<and>
      \<not> hs_Solved st \<and> \<not> hs_Failed st \<and> hs_Log st = [] \<and> hs_UsedPatterns st = [] \<and>
      length (hs_Columns st) = 2 \<and> candidate_texts (hs_WordsByID st) = candidates)"

lemma finished_board:
  assumes bs: "pair_ok scope byID wl bs" and wl: "0 < wl"
    and cand: "candidate_texts byID = candidates" "distinct candidates" "secret \<in> set candidates"
    and a: "column_ok byID wl a" "hc_Words a = cb_words (fst bs)"
    and b: "column_ok byID wl b" "hc_Words b = cb_words (snd bs)"
  shows "board_for generationID level wl candidates
     \<lparr>hs_GenerationID = generationID, hs_Level = level, hs_WordLength = wl,
      hs_AttemptsMax = maximumAttempts, hs_AttemptsLeft = maximumAttempts,
      hs_SecretWord = secret, hs_WordsByID = byID, hs_UsedPatterns = [],
      hs_Solved = False, hs_Failed = False, hs_Log = [], hs_Columns = [a, b]\<rparr>"
proof -
  have ids: "word_ids [a, b] = map hw_ID (cb_words (fst bs)) @ map hw_ID (cb_words (snd bs))"
    by (simp add: word_ids_def a b)
  have "distinct (map hw_ID (cb_words (fst bs)))" "distinct (map hw_ID (cb_words (snd bs)))"
    using bs by (auto simp: pair_ok_def intro: builder_ok_distinct)
  then have "distinct (word_ids [a, b])" unfolding ids using pair_ok_fresh(3) [OF bs] by (simp add: column_ids_def)
  moreover have "set (gm_keys byID) = set (word_ids [a, b])" "gm_ok byID"
    using bs unfolding ids by (simp_all add: pair_ok_def column_ids_def)
  moreover have "distinct (map (\<lambda>(i, c). hd_Text c) byID)" using cand by (simp add: candidate_texts_def)
  moreover from cand(1,3) obtain i c where "(i, c) \<in> set byID" "hd_Text c = secret"
    by (auto simp: candidate_texts_def)
  then have "list_ex (\<lambda>(i, c). hd_Text c = secret) byID" by (auto simp: list_ex_iff)
  ultimately show ?thesis
    using a b wl cand(1)
    by (simp add: board_for_def hack_wf_def board_ok_def counters_ok_def used_ok_def maximumAttempts_def gm_keys_def)
qed

lemma generateBoardAttempt_ok:
  assumes "list_all (usable wl) candidates" and "distinct candidates" and "secret \<in> set candidates" and "0 < wl"
  shows "pred_state (pred_option (board_for generationID level wl candidates))
    (generateBoardAttempt generationID level wl secret candidates random)"
proof -
  let ?scope = "wordScope generationID"
  let ?P = "pred_option (board_for generationID level wl candidates)"
  let ?ok = "\<lambda>byID. pred_option (pair_ok ?scope byID wl)"
  have new: "pair_ok ?scope [] wl (newColumnBuilder (?scope @ ''-A''), newColumnBuilder (?scope @ ''-B''))"
    unfolding pair_ok_def fst_conv snd_conv
    by (simp add: builder_ok_new) (simp add: newColumnBuilder_def column_ids_def gm_keys_def)
  have none: "pred_state ?P (State_Monad.return None)" by simp
  show ?thesis
    unfolding generateBoardAttempt_def Let_def
  proof (rule pred_state_bind_option [OF placeCandidates_ok [OF new assms(1)]], goal_cases)
    case (2 p)
    obtain bs byID where p: "p = (bs, byID)" by (cases p)
    with 2 have bs: "pair_ok ?scope byID wl bs" and texts: "candidate_texts byID = candidates"
      by (simp_all add: candidate_texts_def)
    have keep: "pair_ok ?scope byID wl bs' \<Longrightarrow> keeps_pair m bs' \<Longrightarrow> pred_state (?ok byID) m" for m bs'
      unfolding keeps_pair_def by blast
    note span = keep [OF bs placeInterruptedCandidateSpan_keeps]
    show ?case
      unfolding p option.case prod.case
    proof (rule pred_state_bind_option [OF span], goal_cases)
      case (2 bs1)
      note patterns = keep [OF 2 placePatterns_keeps]
      show ?case
        unfolding option.case
      proof (rule pred_state_bind [OF pred_state_true], rule pred_state_bind [OF pred_state_true],
          rule pred_state_bind_option [OF patterns], goal_cases)
        case (2 _ _ bs2)
        note decoys = keep [OF 2(3) placeDecoys_keeps]
        show ?case
          unfolding option.case
        proof (rule pred_state_bind_option [OF decoys], goal_cases)
          case (2 bs3)
          then have ab: "builder_ok byID wl (fst bs3)" "builder_ok byID wl (snd bs3)" by (simp_all add: pair_ok_def)
          show ?case
            unfolding option.case
            by (rule pred_state_bind [OF finish_result [OF ab(1)]], rule pred_state_bind [OF finish_result [OF ab(2)]])
              (use finished_board [OF 2 assms(4) texts assms(2,3)] in simp)
        qed simp
      qed simp
    qed simp
  qed simp
qed

lemma boardTries_ok:
  assumes "list_all (usable wl) candidates" and "distinct candidates" and "secret \<in> set candidates" and "0 < wl"
  shows "pred_state (pred_option (\<lambda>st. board_for generationID level wl candidates st \<and> publishable (classifyFinalBoard st)))
    (boardTries n generationID level wl secret candidates random)"
proof (induction n)
  case (Suc n)
  show ?case
    unfolding boardTries.simps
    by (rule pred_state_bind_option [OF generateBoardAttempt_ok [OF assms]]) (use Suc.IH in simp_all)
qed simp

section \<open>Candidate selection\<close>

text \<open>What the buckets hold after the words read so far.\<close>

definition buckets_ok :: "string list \<Rightarrow> (nat, string list) gomap \<Rightarrow> bool" where
  "buckets_ok seen buckets =
     ((\<forall>l b. gm_get buckets l = Some b \<longrightarrow> distinct b \<and> set b = {w \<in> set seen. length w = l}) \<and>
      (\<forall>w\<in>set seen. gm_has buckets (length w)))"

lemma bucketLoop_ok:
  assumes "buckets_ok seen buckets"
  shows "\<exists>seen'. buckets_ok seen' (bucketLoop words seen buckets) \<and>
    set seen' = set seen \<union> {w \<in> toUpper ` set words. gm_has buckets (length w)} \<and>
    (\<forall>l. gm_has (bucketLoop words seen buckets) l = gm_has buckets l)"
  using assms
proof (induction words arbitrary: seen buckets)
  case (Cons raw words)
  let ?w = "toUpper raw"
  show ?case
  proof (cases "gm_get buckets (length ?w)")
    case None
    then have "\<not> gm_has buckets (length ?w)" by (simp add: gm_has_iff)
    with None Cons.IH [OF Cons.prems] show ?thesis by (simp add: Let_def) blast
  next
    case (Some bucket)
    then have has: "gm_has buckets (length ?w)" by (simp add: gm_has_iff)
    show ?thesis
    proof (cases "?w \<in> set seen")
      case True
      with Some has Cons.IH [OF Cons.prems] show ?thesis by (simp add: Let_def) blast
    next
      case False
      have ok: "buckets_ok (?w # seen) (gm_put (length ?w) (bucket @ [?w]) buckets)"
        using Cons.prems Some False by (auto simp: buckets_ok_def)
      have same: "gm_has (gm_put (length ?w) (bucket @ [?w]) buckets) l = gm_has buckets l" for l
        using has by auto
      have run: "bucketLoop (raw # words) seen buckets
          = bucketLoop words (?w # seen) (gm_put (length ?w) (bucket @ [?w]) buckets)"
        using Some False by (simp add: Let_def)
      from Cons.IH [OF ok] obtain seen' where s: "buckets_ok seen' (bucketLoop (raw # words) seen buckets)"
          "set seen' = set (?w # seen) \<union> {w \<in> toUpper ` set words. gm_has buckets (length w)}"
          "\<forall>l. gm_has (bucketLoop (raw # words) seen buckets) l = gm_has buckets l"
        unfolding run same by blast
      moreover have "set (?w # seen) \<union> {w \<in> toUpper ` set words. gm_has buckets (length w)}
          = set seen \<union> {w \<in> toUpper ` set (raw # words). gm_has buckets (length w)}"
        using has by auto
      ultimately show ?thesis by (intro exI [of _ seen'] conjI) simp_all
    qed
  qed
qed auto

lemma builtin_alpha: "list_all (\<lambda>w. list_all isASCIIAlpha (toUpper w)) builtinWordList"
  by code_simp

lemma builtin_sizes:
  "list_all (\<lambda>l. 16 \<le> length (remdups (take 16 (filter (\<lambda>w. length w = l) (map toUpper builtinWordList)))))
     [4, 5, 6, 7, 8]"
  by code_simp

lemma bank_bucket:
  assumes "l \<in> {4, 5, 6, 7, 8}"
  shows "\<exists>ws. gm_get builtinWordsByLength l = Some ws \<and> distinct ws \<and> list_all (usable l) ws \<and> 16 \<le> length ws"
proof -
  let ?empty = "[(4, []), (5, []), (6, []), (7, []), (8, [])] :: (nat, string list) gomap"
  have keys: "gm_has ?empty k \<longleftrightarrow> k \<in> {4, 5, 6, 7, 8}" for k
    by (simp add: gm_has_def gm_get_def)
  have "buckets_ok [] ?empty" by (auto simp: buckets_ok_def gm_get_def split: if_splits)
  from bucketLoop_ok [OF this, of builtinWordList] obtain seen where
    s: "buckets_ok seen builtinWordsByLength"
      "set seen = {w \<in> toUpper ` set builtinWordList. length w \<in> {4, 5, 6, 7, 8}}"
      "\<forall>k. gm_has builtinWordsByLength k \<longleftrightarrow> k \<in> {4, 5, 6, 7, 8}"
    unfolding keys builtinWordsByLength_def buildWordBuckets_def by auto
  with assms have "gm_has builtinWordsByLength l" by blast
  then obtain ws where ws: "gm_get builtinWordsByLength l = Some ws" unfolding gm_has_iff by blast
  with s(1,2) assms have d: "distinct ws" and set: "set ws = {w \<in> toUpper ` set builtinWordList. length w = l}"
    by (auto simp: buckets_ok_def)
  have "list_all (usable l) ws"
    using set builtin_alpha by (auto simp: usable_def list_all_iff)
  moreover have "16 \<le> length ws"
  proof -
    let ?some = "remdups (take 16 (filter (\<lambda>w. length w = l) (map toUpper builtinWordList)))"
    have "l \<in> set [4, 5, 6, 7, 8]" using assms by simp
    then have "16 \<le> length ?some" using builtin_sizes unfolding list_all_iff by (rule bspec [rotated])
    also have "\<dots> = card (set ?some)" by (simp only: distinct_card [OF distinct_remdups])
    also have "set ?some \<subseteq> set ws" using set_take_subset [of 16 "filter (\<lambda>w. length w = l) (map toUpper builtinWordList)"]
      unfolding set set_remdups by auto
    then have "card (set ?some) \<le> card (set ws)" by (intro card_mono) simp_all
    also have "\<dots> = length ws" using d by (rule distinct_card)
    finally show ?thesis .
  qed
  ultimately show ?thesis using ws d by blast
qed

lemma pickLoop_ok:
  assumes "distinct pool"
  shows "pred_state (\<lambda>ws. distinct ws \<and> set ws \<subseteq> set pool \<and> length ws = min n (length pool)) (pickLoop random n pool)"
  using assms
proof (induction n arbitrary: pool)
  case (Suc n)
  show ?case
  proof (cases "pool = []")
    case False
    have step: "pred_state (\<lambda>ws. distinct ws \<and> set ws \<subseteq> set pool \<and> length ws = min (Suc n) (length pool))
        (pickLoop random n (take k pool @ drop (k + 1) pool) \<bind> (\<lambda>picked. State_Monad.return (pool ! k # picked)))"
      if k: "k < length pool" for k
    proof -
      have split: "pool = take k pool @ pool ! k # drop (k + 1) pool" using k by (simp add: id_take_nth_drop)
      with Suc.prems have "distinct (take k pool @ pool ! k # drop (k + 1) pool)" by metis
      then have d: "distinct (take k pool @ drop (k + 1) pool)" "pool ! k \<notin> set (take k pool @ drop (k + 1) pool)"
        by auto
      have sub: "set (take k pool @ drop (k + 1) pool) \<subseteq> set pool" "pool ! k \<in> set pool"
        using k by (auto dest: in_set_takeD in_set_dropD)
      show ?thesis
        by (rule pred_state_bind [OF Suc.IH [OF d(1)]]) (use d(2) sub k in auto)
    qed
    from False show ?thesis
      by (simp only: pickLoop.simps if_False) (intro pred_state_bind_safeIntn step, simp)
  qed simp
qed simp

lemma PickWords_ok:
  assumes "wl \<in> {4, 5, 6, 7, 8}" and "count \<le> 16"
  shows "pred_state (\<lambda>ws. distinct ws \<and> list_all (usable wl) ws \<and> length ws = count) (PickWords random wl count)"
proof -
  from bank_bucket [OF assms(1)] obtain ws where ws: "gm_get builtinWordsByLength wl = Some ws" "distinct ws"
      "list_all (usable wl) ws" "16 \<le> length ws" by blast
  show ?thesis
    unfolding PickWords_def ws(1) option.case
    by (rule pred_state_weaken [OF pickLoop_ok [OF ws(2)]]) (use ws assms(2) in \<open>auto simp: list_all_iff\<close>)
qed

lemma normalizeLoop_ok:
  assumes "distinct result" and "list_all (usable wl) result" and "length result < count"
  shows "distinct (normalizeLoop wl count result input) \<and> list_all (usable wl) (normalizeLoop wl count result input) \<and>
    length (normalizeLoop wl count result input) \<le> count"
  using assms
proof (induction input arbitrary: result)
  case (Cons raw input)
  then show ?case by (auto simp: Let_def usable_def)
qed simp

lemma supplementLoop_ok:
  assumes "distinct result" and "list_all (usable wl) (result @ fallback)" and "length result \<le> count"
  shows "distinct (supplementLoop count result fallback) \<and> list_all (usable wl) (supplementLoop count result fallback) \<and>
    length (supplementLoop count result fallback) \<le> count \<and>
    (length (supplementLoop count result fallback) = count \<or>
     set result \<union> set fallback \<subseteq> set (supplementLoop count result fallback))"
  using assms
proof (induction fallback arbitrary: result)
  case (Cons w fallback)
  show ?case
  proof (cases "length result = count")
    case True
    then show ?thesis using Cons.prems by simp
  next
    case full: False
    show ?thesis
    proof (cases "w \<in> set result")
      case True
      with full Cons.IH [OF Cons.prems(1) _ Cons.prems(3)] Cons.prems(2) show ?thesis by auto
    next
      case False
      have "distinct (result @ [w])" "list_all (usable wl) ((result @ [w]) @ fallback)" "length (result @ [w]) \<le> count"
        using False full Cons.prems by auto
      from Cons.IH [OF this] False full show ?thesis by auto
    qed
  qed
qed simp

lemma supplement_full:
  assumes "distinct result" "list_all (usable wl) result" "length result \<le> count"
    and "distinct fallback" "list_all (usable wl) fallback" "length fallback = count"
  shows "distinct (supplementCandidates result fallback count) \<and>
    list_all (usable wl) (supplementCandidates result fallback count) \<and>
    length (supplementCandidates result fallback count) = count"
proof -
  let ?r = "supplementLoop count result fallback"
  have ok: "distinct ?r" "list_all (usable wl) ?r" "length ?r \<le> count"
      "length ?r = count \<or> set fallback \<subseteq> set ?r"
    using supplementLoop_ok [of result wl fallback count] assms by auto
  moreover have "count \<le> length ?r" if "set fallback \<subseteq> set ?r"
    using card_mono [OF _ that] distinct_card [OF assms(4)] distinct_card [OF ok(1)] assms(6) by simp
  ultimately have "length ?r = count" by linarith
  with ok show ?thesis by (simp add: supplementCandidates_def)
qed

section \<open>The generated board\<close>

lemma GenerateBoard_ok:
  "pred_state (pred_option (\<lambda>st. \<exists>candidates. length candidates = nat (11 + clamp level 1 5) \<and> distinct candidates \<and>
      board_for generationID level (levelWordLength level) candidates st \<and> publishable (classifyFinalBoard st)))
    (GenerateBoard generationID level random words)"
proof (cases "trim_space generationID = ''''")
  case True
  then show ?thesis by (simp add: GenerateBoard_def)
next
  case False
  let ?wl = "levelWordLength level" and ?count = "nat (11 + clamp level 1 5)"
  have wl: "?wl \<in> {4, 5, 6, 7, 8}" "0 < ?wl" by (auto simp: levelWordLength_def)
  have count: "0 < ?count" "?count \<le> 16" by (auto simp: clamp_def)
  have norm: "distinct (normalizeCandidates raw ?wl ?count) \<and> list_all (usable ?wl) (normalizeCandidates raw ?wl ?count) \<and>
      length (normalizeCandidates raw ?wl ?count) \<le> ?count" for raw
    unfolding normalizeCandidates_def by (rule normalizeLoop_ok) (use count in simp_all)
  let ?good = "\<lambda>cs. distinct cs \<and> list_all (usable ?wl) cs \<and> length cs = ?count"
  have sel: "pred_state ?good
      (if length (normalizeCandidates raw ?wl ?count) < ?count then do {
         fallback \<leftarrow> PickWords random ?wl ?count;
         State_Monad.return (supplementCandidates (normalizeCandidates raw ?wl ?count) fallback ?count)
       } else State_Monad.return (normalizeCandidates raw ?wl ?count))" for raw
  proof (cases "length (normalizeCandidates raw ?wl ?count) < ?count")
    case True
    show ?thesis
      unfolding if_P [OF True]
    proof (rule pred_state_bind [OF PickWords_ok [OF wl(1) count(2)]])
      fix fallback assume "?good fallback"
      then show "pred_state ?good
          (State_Monad.return (supplementCandidates (normalizeCandidates raw ?wl ?count) fallback ?count))"
        using supplement_full [of "normalizeCandidates raw ?wl ?count" ?wl ?count fallback] norm [of raw] by simp
    qed
  next
    case False
    with norm [of raw] show ?thesis by simp
  qed
  show ?thesis
    unfolding GenerateBoard_def if_not_P [OF False] Let_def
  proof (rule pred_state_bind [OF pred_state_true], rule pred_state_bind [OF sel])
    fix raw cs assume cs: "?good cs"
    with count have ne: "cs \<noteq> []" by auto
    then have len: "0 < length cs" by simp
    show "pred_state (pred_option (\<lambda>st. \<exists>candidates. length candidates = ?count \<and> distinct candidates \<and>
        board_for generationID level ?wl candidates st \<and> publishable (classifyFinalBoard st)))
      (if cs = [] then State_Monad.return None
       else safeIntn random (int (length cs)) \<bind>
         (\<lambda>k. boardTries placementTries generationID level ?wl (cs ! k) cs random))"
      unfolding if_not_P [OF ne]
    proof (rule pred_state_bind_safeIntn [OF len])
      fix k assume "k < length cs"
      then show "pred_state (pred_option (\<lambda>st. \<exists>candidates. length candidates = ?count \<and> distinct candidates \<and>
          board_for generationID level ?wl candidates st \<and> publishable (classifyFinalBoard st)))
        (boardTries placementTries generationID level ?wl (cs ! k) cs random)"
        using cs wl(2) by (intro pred_state_weaken [OF boardTries_ok [of ?wl cs "cs ! k"]]) (auto elim!: option.pred_mono_strong)
    qed
  qed
qed

lemma foldl_preserves: "(\<And>a x. g (f a x) = g a) \<Longrightarrow> g (foldl f a xs) = g a"
  by (induction xs arbitrary: a) auto

lemma classifyFinalBoard_patterns:
  "fc_patterns (classifyFinalBoard st) = discoverPatternSpans (hs_GenerationID st) (hs_Columns st)"
proof -
  have pos: "fc_patterns (classifyPosition cov ps k base tx row c i) = fc_patterns c" for cov ps k base tx row c i
    by (simp add: classifyPosition_def Let_def)
  have row: "fc_patterns (classifyRow cov ps k base tx c i) = fc_patterns c" for cov ps k base tx c i
    unfolding classifyRow_def Let_def by (subst foldl_preserves [where g = fc_patterns]) (simp_all add: pos)
  have col: "fc_patterns (fst (classifyColumn cov acc ic)) = fc_patterns (fst acc)" for cov acc ic
    unfolding classifyColumn_def Let_def case_prod_unfold fst_conv
    by (subst foldl_preserves [where g = fc_patterns]) (simp_all add: row)
  have pat: "fc_patterns (fst (classifyPattern acc p)) = fc_patterns (fst acc)" for acc p
    by (simp add: classifyPattern_def case_prod_unfold Let_def)
  show ?thesis unfolding classifyFinalBoard_def Let_def case_prod_unfold
    by (subst foldl_preserves [where g = "\<lambda>acc. fc_patterns (fst acc)"])
      (simp_all add: col foldl_preserves [where g = "\<lambda>acc. fc_patterns (fst acc)"] pat)
qed

text \<open>C12: A generated puzzle is fit for play, whatever the random source and the word source answer. When
  board generation yields a board, it has exactly 11 + level candidate words (the level clamped to 1..5),
  pairwise distinct and all of the level's length, the secret among them; its two columns satisfy the board
  invariant, nothing is spent, logged or consumed, and the finished text shows three to six bracket
  patterns, at least as many stray brackets, a non-empty pattern and a word between brackets.\<close>

theorem hack_generated_board:
  "pred_state (\<lambda>r. case r of None \<Rightarrow> True | Some st \<Rightarrow>
      hack_wf st \<and> hs_GenerationID st = generationID \<and> hs_AttemptsLeft st = 4 \<and> hs_AttemptsMax st = 4 \<and>
      \<not> hs_Solved st \<and> \<not> hs_Failed st \<and> hs_UsedPatterns st = [] \<and> length (hs_Columns st) = 2 \<and>
      hs_WordLength st = levelWordLength level \<and> distinct (candidate_texts (hs_WordsByID st)) \<and>
      length (candidate_texts (hs_WordsByID st)) = nat (11 + clamp level 1 5) \<and>
      length (discoverPatternSpans generationID (hs_Columns st)) \<in> {3..6} \<and>
      length (discoverPatternSpans generationID (hs_Columns st)) \<le> length (fc_standaloneDelimiters (classifyFinalBoard st)) \<and>
      fc_hasNonEmptyPattern (classifyFinalBoard st) \<and> fc_hasAlphabeticInterruptedSpan (classifyFinalBoard st))
    (GenerateBoard generationID level random words)"
proof (rule pred_state_weaken [OF GenerateBoard_ok])
  fix r
  assume ok: "pred_option (\<lambda>st. \<exists>candidates. length candidates = nat (11 + clamp level 1 5) \<and> distinct candidates \<and>
      board_for generationID level (levelWordLength level) candidates st \<and> publishable (classifyFinalBoard st)) r"
  show "case r of None \<Rightarrow> True | Some st \<Rightarrow>
      hack_wf st \<and> hs_GenerationID st = generationID \<and> hs_AttemptsLeft st = 4 \<and> hs_AttemptsMax st = 4 \<and>
      \<not> hs_Solved st \<and> \<not> hs_Failed st \<and> hs_UsedPatterns st = [] \<and> length (hs_Columns st) = 2 \<and>
      hs_WordLength st = levelWordLength level \<and> distinct (candidate_texts (hs_WordsByID st)) \<and>
      length (candidate_texts (hs_WordsByID st)) = nat (11 + clamp level 1 5) \<and>
      length (discoverPatternSpans generationID (hs_Columns st)) \<in> {3..6} \<and>
      length (discoverPatternSpans generationID (hs_Columns st)) \<le> length (fc_standaloneDelimiters (classifyFinalBoard st)) \<and>
      fc_hasNonEmptyPattern (classifyFinalBoard st) \<and> fc_hasAlphabeticInterruptedSpan (classifyFinalBoard st)"
  proof (cases r)
    case (Some st)
    with ok obtain cs where cs: "length cs = nat (11 + clamp level 1 5)" "distinct cs"
      "board_for generationID level (levelWordLength level) cs st" "publishable (classifyFinalBoard st)" by auto
    moreover have "fc_patterns (classifyFinalBoard st) = discoverPatternSpans generationID (hs_Columns st)"
      using cs(3) by (simp add: classifyFinalBoard_patterns board_for_def)
    ultimately show ?thesis using Some
      by (simp add: board_for_def publishable_def Let_def maximumAttempts_def)
  qed simp
qed

end
