(* ===== verification/Live.thy ===== *)
theory Live
  imports DomainLive Nav HackGenInv
begin

text \<open>
  The live terminal, \<open>internal/live/service.go\<close>: the checkpoint of one terminal
  (\<open>TerminalRuntime\<close>) with its navigation, puzzle and shared presentation, the commands
  that move it, and the projections that clients see.  The collaborators of the service
  (random source, word source, generation identities) are functions over their own state
  \<open>'r\<close>.  Methods that only copy under the mutex are the functions they copy.
\<close>

section \<open>Collaborators\<close>

record 'r LiveService =
  sv_random :: "int \<Rightarrow> ('r, int) state"
  sv_words :: "(nat \<Rightarrow> nat \<Rightarrow> ('r, string list) state) option"
  sv_nextGenerationID :: "('r, string) state"

text \<open>\<open>cryptoGenerationIDSource.Next\<close>: the bytes read, or the clock and a 64-bit counter.\<close>

definition hex_nat :: "nat \<Rightarrow> string" where
  "hex_nat n = map digit_char (nat_digits 16 n)"

definition cryptoGenerationID :: "nat list option \<Rightarrow> nat \<Rightarrow> 64 word \<Rightarrow> string \<times> 64 word" where
  "cryptoGenerationID cryptoBytes unixNano fallback =
     (case cryptoBytes of
        Some bs \<Rightarrow> (hex bs, fallback)
      | None \<Rightarrow> (hex_nat unixNano @ ''-'' @ hex_nat (unat (fallback + 1)), fallback + 1))"

definition MaxPresentationPageIndex :: "32 word" where
  "MaxPresentationPageIndex = 10000"

definition zeroPresentation :: ControllerTerminalPresentation where
  "zeroPresentation =
     \<lparr>cp_Kind = PresentationOther '''', cp_ContextKey = '''', cp_TargetID = '''', cp_PatternID = '''', cp_PageIndex = 0\<rparr>"

section \<open>Effective content\<close>

text \<open>The overlay of durable command results on the authored tree.  A Go map is ranged over in
  the order of the association list.\<close>

definition completedBlockTexts :: "CommandStates \<Rightarrow> (string, string) gomap" where
  "completedBlockTexts states =
     foldl (\<lambda>m (i, st). case ce_EntryContentChange st of
                None \<Rightarrow> m
              | Some change \<Rightarrow> gm_put (ec_BlockID change) (ec_CompletedText change) m) [] states"

definition blockTexts :: "(string, string) gomap \<Rightarrow> EntryContentBlock list \<Rightarrow> string" where
  "blockTexts completed blocks =
     join [CHR 0x0A, CHR 0x0A]
       (map (\<lambda>b. case gm_get completed (eb_ID b) of Some t \<Rightarrow> t | None \<Rightarrow> eb_InitialText b) blocks)"

primrec applyEffectiveContentStates :: "CommandStates \<Rightarrow> (string, string) gomap \<Rightarrow> ContentNode \<Rightarrow> ContentNode" where
  "applyEffectiveContentStates states completed (ContentNode i t name kids tx desc blocks sc tt ex) =
     ContentNode i t
       (case gm_get states i of Some st \<Rightarrow> if t = NodeCommand then ce_CompletedName st else name | None \<Rightarrow> name)
       (map_option (map (applyEffectiveContentStates states completed)) kids)
       (case gm_get states i of Some st \<Rightarrow> if t = NodeCommand then ce_ResultText st else tx | None \<Rightarrow> tx)
       (case blocks of
          Some (b # bs) \<Rightarrow> if t = NodeEntry then blockTexts completed (b # bs) else desc
        | _ \<Rightarrow> desc)
       blocks sc tt ex"

definition effectiveTree :: "ContentNode \<Rightarrow> CommandStates \<Rightarrow> ContentNode" where
  "effectiveTree node states = applyEffectiveContentStates states (completedBlockTexts states) node"

section \<open>Projections\<close>

definition publicTerminalRuntime :: "TerminalRuntime \<Rightarrow> PublicLiveState" where
  "publicTerminalRuntime st =
     \<lparr>pl_TerminalID = tr_TerminalID st, pl_TerminalName = tr_TerminalName st,
      pl_Tree = effectiveTree (tr_Tree st) (tr_CommandStates st), pl_HackLevel = tr_HackLevel st,
      pl_IntroText = tr_IntroText st, pl_Nav = tr_Nav st, pl_Hack = map_option PublicState (tr_Hack st),
      pl_CommandExecution = tr_CommandExecution st, pl_TerminalNavigation = None,
      pl_Presentation = tr_Presentation st\<rparr>"

definition publicLiveState :: "LiveState \<Rightarrow> PublicLiveState" where
  "publicLiveState st =
     \<lparr>pl_TerminalID = lv_TerminalID st, pl_TerminalName = lv_TerminalName st, pl_Tree = lv_Tree st,
      pl_HackLevel = lv_HackLevel st, pl_IntroText = lv_IntroText st, pl_Nav = lv_Nav st,
      pl_Hack = map_option PublicState (lv_Hack st), pl_CommandExecution = None,
      pl_TerminalNavigation = None, pl_Presentation = zeroPresentation\<rparr>"

definition terminalRuntime :: "LiveState \<Rightarrow> TerminalRuntime" where
  "terminalRuntime st =
     \<lparr>tr_TerminalID = lv_TerminalID st, tr_TerminalName = lv_TerminalName st, tr_Tree = lv_Tree st,
      tr_CommandStates = [], tr_CommandExecution = None, tr_HackLevel = lv_HackLevel st,
      tr_IntroText = lv_IntroText st, tr_Nav = lv_Nav st, tr_Hack = lv_Hack st,
      tr_Presentation = zeroPresentation, tr_Lifecycle = TerminalLifecycleActive\<rparr>"

section \<open>The shared presentation\<close>

definition activeHackState :: "HackState option \<Rightarrow> bool" where
  "activeHackState h = (case h of None \<Rightarrow> False | Some st \<Rightarrow> \<not> hs_Solved st \<and> \<not> hs_Failed st)"

definition activeRuntimePuzzle :: "TerminalRuntime \<Rightarrow> bool" where
  "activeRuntimePuzzle st = activeHackState (tr_Hack st)"

definition navigationContext :: "NavState \<Rightarrow> string \<times> PresentationKind" where
  "navigationContext st =
     (case ns_ViewEntryID st of
        Some v \<Rightarrow> (''entry:'' @ v, PresentationPage)
      | None \<Rightarrow> (case ns_CommandNodeID st of
          Some c \<Rightarrow> (''command:'' @ c, PresentationPage)
        | None \<Rightarrow> (''menu:'' @ join ''/'' (ns_Path st), PresentationMenu)))"

definition controllerPresentationContext :: "TerminalRuntime \<Rightarrow> string \<times> PresentationKind" where
  "controllerPresentationContext st =
     (case tr_Hack st of
        Some h \<Rightarrow>
          if \<not> hs_Solved h \<and> \<not> hs_Failed h then
            (''hack:'' @ hex (take 8 (sha256 (hs_GenerationID h))), PresentationHacking)
          else navigationContext (tr_Nav st)
      | None \<Rightarrow> navigationContext (tr_Nav st))"

fun findPresentationNode :: "ContentNode \<Rightarrow> string \<Rightarrow> ContentNode option" where
  "findPresentationNode node nodeID =
     (if cn_ID node = nodeID then Some node
      else first_some (\<lambda>child. findPresentationNode child nodeID) (cn_kids node))"

declare findPresentationNode.simps [simp del]

definition currentPresentationFolder :: "TerminalRuntime \<Rightarrow> ContentNode option" where
  "currentPresentationFolder st =
     (if ns_Path (tr_Nav st) = [] then None
      else findPresentationNode (tr_Tree st) (last (ns_Path (tr_Nav st))))"

definition validHackPreviewTarget :: "HackState option \<Rightarrow> string \<Rightarrow> bool" where
  "validHackPreviewTarget h targetID =
     (case h of
        None \<Rightarrow> False
      | Some st \<Rightarrow>
          if \<not> activeHackState h then False
          else if gm_has (hs_WordsByID st) targetID then True
          else (case split_on (CHR '':'') targetID of
              [a, b] \<Rightarrow>
                (case (atoi a, atoi b) of
                   (Some columnIndex, Some characterIndex) \<Rightarrow>
                     if columnIndex < 0 \<or> characterIndex < 0 \<or> int (length (hs_Columns st)) \<le> columnIndex then False
                     else
                       (let column = hs_Columns st ! nat columnIndex in
                        if int (length (hc_Text column)) \<le> characterIndex then False
                        else \<not> containsWord (hc_Words column) (nat characterIndex))
                 | _ \<Rightarrow> False)
            | _ \<Rightarrow> False))"

definition validControllerPresentation :: "TerminalRuntime \<Rightarrow> ControllerTerminalPresentation \<Rightarrow> bool" where
  "validControllerPresentation st p =
     (let (contextKey, contextKind) = controllerPresentationContext st in
      if cp_ContextKey p = '''' \<or> cp_ContextKey p \<noteq> contextKey then False
      else case cp_Kind p of
        PresentationNone \<Rightarrow> cp_TargetID p = '''' \<and> cp_PatternID p = '''' \<and> cp_PageIndex p = 0
      | PresentationMenu \<Rightarrow>
          if contextKind \<noteq> PresentationMenu \<or> cp_TargetID p = '''' \<or> cp_PatternID p \<noteq> '''' \<or> cp_PageIndex p \<noteq> 0
          then False
          else (case currentPresentationFolder st of
                  None \<Rightarrow> False
                | Some folder \<Rightarrow> list_ex (\<lambda>c. cn_ID c = cp_TargetID p) (cn_kids folder))
      | PresentationPage \<Rightarrow>
          contextKind = PresentationPage \<and> cp_TargetID p = '''' \<and> cp_PatternID p = ''''
          \<and> cp_PageIndex p \<le> MaxPresentationPageIndex
      | PresentationHacking \<Rightarrow>
          if contextKind \<noteq> PresentationHacking \<or> cp_PageIndex p \<noteq> 0 then False
          else if cp_TargetID p \<noteq> '''' \<and> cp_PatternID p = '''' then validHackPreviewTarget (tr_Hack st) (cp_TargetID p)
          else if cp_PatternID p \<noteq> '''' \<and> cp_TargetID p = '''' then
            (case tr_Hack st of
               None \<Rightarrow> False
             | Some h \<Rightarrow> list_ex (\<lambda>q. pp_ID q = cp_PatternID p \<and> \<not> pp_Used q) (ph_Patterns (PublicState h)))
          else False
      | PresentationOther _ \<Rightarrow> False)"

definition presentation :: "PresentationKind \<Rightarrow> string \<Rightarrow> string \<Rightarrow> ControllerTerminalPresentation" where
  "presentation kind contextKey targetID =
     \<lparr>cp_Kind = kind, cp_ContextKey = contextKey, cp_TargetID = targetID, cp_PatternID = '''', cp_PageIndex = 0\<rparr>"

definition revalidateControllerPresentation :: "TerminalRuntime \<Rightarrow> TerminalRuntime" where
  "revalidateControllerPresentation st =
     (let (contextKey, kind) = controllerPresentationContext st; current = tr_Presentation st in
      if cp_ContextKey current = contextKey \<and> validControllerPresentation st current then st
      else st\<lparr>tr_Presentation :=
        (case kind of
           PresentationHacking \<Rightarrow> presentation PresentationNone contextKey ''''
         | PresentationPage \<Rightarrow> presentation PresentationPage contextKey ''''
         | PresentationMenu \<Rightarrow>
             (case currentPresentationFolder st of
                Some folder \<Rightarrow>
                  (case cn_kids folder of
                     c # _ \<Rightarrow> presentation PresentationMenu contextKey (cn_ID c)
                   | [] \<Rightarrow> presentation PresentationNone contextKey '''')
              | None \<Rightarrow> presentation PresentationNone contextKey '''')
         | _ \<Rightarrow> presentation PresentationNone contextKey '''')\<rparr>)"

section \<open>Checkpoints\<close>

definition newHack :: "'r LiveService \<Rightarrow> int \<Rightarrow> ('r, HackState option) state" where
  "newHack service hackLevel =
     (if 0 < hackLevel then
        do { i \<leftarrow> sv_nextGenerationID service; GenerateBoard i hackLevel (sv_random service) (sv_words service) }
      else State_Monad.return None)"

definition createRuntimeLocked :: "'r LiveService \<Rightarrow> TerminalTarget \<Rightarrow> ('r, TerminalRuntime \<times> PublicLiveState) state" where
  "createRuntimeLocked service target =
     do {
       h \<leftarrow> newHack service (ttg_HackLevel target);
       let st = revalidateControllerPresentation
         \<lparr>tr_TerminalID = ttg_TerminalID target, tr_TerminalName = ttg_TerminalName target,
          tr_Tree = ttg_Tree target, tr_CommandStates = ttg_CommandStates target, tr_CommandExecution = None,
          tr_HackLevel = ttg_HackLevel target, tr_IntroText = ttg_IntroText target, tr_Nav = Default,
          tr_Hack = h, tr_Presentation = zeroPresentation, tr_Lifecycle = TerminalLifecycleActive\<rparr>;
       State_Monad.return (st, publicTerminalRuntime st)
     }"

definition ResetFailedHack ::
  "'r LiveService \<Rightarrow> TerminalRuntime \<Rightarrow> TerminalTarget \<Rightarrow> ('r, (TerminalRuntime \<times> PublicLiveState) option) state" where
  "ResetFailedHack service source target =
     (if ttg_TerminalID target = '''' \<or> tr_TerminalID source \<noteq> ttg_TerminalID target \<or>
         (case tr_Hack source of None \<Rightarrow> True | Some h \<Rightarrow> \<not> hs_Failed h \<or> hs_Solved h)
      then State_Monad.return None
      else do { r \<leftarrow> createRuntimeLocked service target; State_Monad.return (Some r) })"

definition refreshed :: "TerminalRuntime \<Rightarrow> TerminalTarget \<Rightarrow> TerminalRuntime" where
  "refreshed st target =
     st\<lparr>tr_TerminalName := ttg_TerminalName target, tr_Tree := ttg_Tree target,
        tr_CommandStates := ttg_CommandStates target, tr_IntroText := ttg_IntroText target,
        tr_HackLevel := (if tr_Hack st = None then ttg_HackLevel target else tr_HackLevel st)\<rparr>"

definition UpdateRuntime :: "TerminalRuntime \<Rightarrow> TerminalTarget \<Rightarrow> (TerminalRuntime \<times> PublicLiveState) option" where
  "UpdateRuntime st target =
     (if ttg_TerminalID target = '''' \<or> tr_TerminalID st \<noteq> ttg_TerminalID target then None
      else
        (let st = refreshed st target;
             st = st\<lparr>tr_Nav := Revalidate (tr_Nav st) (tr_Tree st)\<rparr>;
             st = revalidateControllerPresentation st
         in Some (st, publicTerminalRuntime st)))"

definition ProjectRuntime :: "TerminalRuntime \<Rightarrow> TerminalRuntime \<times> PublicLiveState" where
  "ProjectRuntime st =
     (let st = revalidateControllerPresentation st in (st, publicTerminalRuntime st))"

definition SuspendRuntime :: "TerminalRuntime \<Rightarrow> TerminalRuntime" where
  "SuspendRuntime st = st\<lparr>tr_Lifecycle := TerminalLifecycleSuspended\<rparr>"

definition ReactivateRuntime :: "TerminalRuntime \<Rightarrow> TerminalTarget \<Rightarrow> (TerminalRuntime \<times> PublicLiveState) option" where
  "ReactivateRuntime st target =
     (if ttg_TerminalID target = '''' \<or> tr_TerminalID st \<noteq> ttg_TerminalID target then None
      else
        (let st = refreshed st target;
             st = st\<lparr>tr_CommandExecution := None\<rparr>;
             st = st\<lparr>tr_Nav := Revalidate (tr_Nav st) (tr_Tree st)\<rparr>;
             st = st\<lparr>tr_Lifecycle := TerminalLifecycleActive\<rparr>;
             st = revalidateControllerPresentation st
         in Some (st, publicTerminalRuntime st)))"

definition ForceRuntimeHackSuccess :: "TerminalRuntime \<Rightarrow> (TerminalRuntime \<times> PublicLiveState) option" where
  "ForceRuntimeHackSuccess st =
     (if tr_Lifecycle st \<noteq> TerminalLifecycleActive \<or> \<not> activeRuntimePuzzle st then None
      else
        (let st = revalidateControllerPresentation (st\<lparr>tr_Hack := map_option ForceSuccess (tr_Hack st)\<rparr>)
         in Some (st, publicTerminalRuntime st)))"

section \<open>Player commands\<close>

definition guessChanged :: "HackState \<Rightarrow> HackState \<Rightarrow> bool" where
  "guessChanged before after =
     (\<not> (hs_AttemptsLeft after = hs_AttemptsLeft before \<and> hs_Solved after = hs_Solved before \<and>
         hs_Failed after = hs_Failed before \<and> length (hs_Log after) = length (hs_Log before)))"

text \<open>The last three lines of every accepted branch.\<close>

definition acceptRuntime :: "TerminalRuntime \<Rightarrow> TerminalRuntime \<times> PublicLiveState option" where
  "acceptRuntime st = (let st = revalidateControllerPresentation st in (st, Some (publicTerminalRuntime st)))"

definition applyRuntimeKind ::
  "'r random \<Rightarrow> TerminalRuntime \<Rightarrow> RuntimeCommand \<Rightarrow> ('r, TerminalRuntime \<times> PublicLiveState option) state" where
  "applyRuntimeKind random st command =
     (case rc_Kind command of
        RuntimeCommandNavigate \<Rightarrow>
          State_Monad.return
            (acceptRuntime (st\<lparr>tr_Nav := ApplyAction (tr_Nav st) (tr_Tree st) (rc_Action command) (rc_NodeID command)\<rparr>))
      | RuntimeCommandGuess \<Rightarrow>
          (case tr_Hack st of
             None \<Rightarrow> State_Monad.return (st, None)
           | Some h \<Rightarrow>
               if \<not> activeRuntimePuzzle st then State_Monad.return (st, None)
               else
                 (let h' = ApplyGuess h (rc_TargetID command); st' = st\<lparr>tr_Hack := Some h'\<rparr> in
                  if \<not> guessChanged h h' then State_Monad.return (st', None)
                  else State_Monad.return (acceptRuntime st')))
      | RuntimeCommandActivatePattern \<Rightarrow>
          (case tr_Hack st of
             None \<Rightarrow> State_Monad.return (st, None)
           | Some h \<Rightarrow>
               if \<not> activeRuntimePuzzle st then State_Monad.return (st, None)
               else do {
                 (ok, h') \<leftarrow> ApplyPattern random h (rc_PatternID command);
                 let st' = st\<lparr>tr_Hack := Some h'\<rparr>;
                 State_Monad.return (if ok then acceptRuntime st' else (st', None))
               })
      | RuntimeCommandPresentation \<Rightarrow>
          State_Monad.return
            (if \<not> validControllerPresentation st (rc_Presentation command) \<or> tr_Presentation st = rc_Presentation command
             then (st, None)
             else acceptRuntime (st\<lparr>tr_Presentation := rc_Presentation command\<rparr>))
      | _ \<Rightarrow> State_Monad.return (st, None))"

definition applyRuntimeLocked ::
  "'r random \<Rightarrow> TerminalRuntime \<Rightarrow> RuntimeCommand \<Rightarrow> ('r, TerminalRuntime \<times> PublicLiveState option) state" where
  "applyRuntimeLocked random st command =
     (case tr_CommandExecution st of
        None \<Rightarrow> applyRuntimeKind random st command
      | Some execution \<Rightarrow>
          (case cx_Phase execution of
             CommandExecutionPhasePending \<Rightarrow> State_Monad.return (st, None)
           | CommandExecutionPhaseRejected \<Rightarrow>
               if rc_Kind command \<noteq> RuntimeCommandNavigate \<or> rc_Action command \<noteq> ''back''
               then State_Monad.return (st, None)
               else State_Monad.return
                 (acceptRuntime
                   (st\<lparr>tr_CommandExecution := None,
                      tr_Nav := ApplyAction (tr_Nav st) (tr_Tree st) (rc_Action command) (rc_NodeID command)\<rparr>))))"

section \<open>The process-global slot\<close>

text \<open>The methods that work on the single live terminal \<open>service.live\<close>: each takes the slot and
  returns it with the result.\<close>

definition SetLive ::
  "'r LiveService \<Rightarrow> string \<Rightarrow> string \<Rightarrow> ContentNode \<Rightarrow> int \<Rightarrow> string \<Rightarrow> ('r, LiveState option \<times> PublicLiveState) state" where
  "SetLive service terminalID terminalName tree hackLevel introText =
     do {
       h \<leftarrow> newHack service hackLevel;
       let st = \<lparr>lv_TerminalID = terminalID, lv_TerminalName = terminalName, lv_Tree = tree,
                 lv_HackLevel = hackLevel, lv_IntroText = introText, lv_Nav = Default, lv_Hack = h\<rparr>;
       State_Monad.return (Some st, publicLiveState st)
     }"

definition UpdateLive :: "LiveState option \<Rightarrow> ContentNode \<Rightarrow> string option \<Rightarrow> LiveState option \<times> PublicLiveState option" where
  "UpdateLive live tree introText =
     (case live of
        None \<Rightarrow> (None, None)
      | Some st \<Rightarrow>
          (let st = st\<lparr>lv_Tree := tree\<rparr>;
               st = (case introText of None \<Rightarrow> st | Some t \<Rightarrow> st\<lparr>lv_IntroText := t\<rparr>);
               st = st\<lparr>lv_Nav := Revalidate (lv_Nav st) (lv_Tree st)\<rparr>
           in (Some st, Some (publicLiveState st))))"

definition ClearLive :: "LiveState option \<Rightarrow> LiveState option" where
  "ClearLive live = None"

definition SnapshotLive :: "LiveState option \<Rightarrow> PublicLiveState option" where
  "SnapshotLive live = map_option publicLiveState live"

definition activePuzzle :: "LiveState option \<Rightarrow> bool" where
  "activePuzzle live = (case live of None \<Rightarrow> False | Some st \<Rightarrow> activeHackState (lv_Hack st))"

definition runtimeCommand :: "RuntimeCommandKind \<Rightarrow> string \<Rightarrow> string \<Rightarrow> string \<Rightarrow> string \<Rightarrow> RuntimeCommand" where
  "runtimeCommand kind action nodeID targetID pattern =
     \<lparr>rc_RequestID = '''', rc_BroadcastID = '''', rc_TerminalID = '''', rc_Kind = kind, rc_Action = action,
      rc_NodeID = nodeID, rc_TargetID = targetID, rc_PatternID = pattern, rc_Presentation = zeroPresentation,
      rc_PayloadFingerprint = ''''\<rparr>"

definition ApplyNav ::
  "'r random \<Rightarrow> LiveState option \<Rightarrow> string \<Rightarrow> string \<Rightarrow> ('r, LiveState option \<times> NavState option) state" where
  "ApplyNav random live action nodeID =
     (case live of
        None \<Rightarrow> State_Monad.return (None, None)
      | Some st \<Rightarrow>
          do {
            (rt, projection) \<leftarrow> applyRuntimeLocked random (terminalRuntime st)
              (runtimeCommand RuntimeCommandNavigate action nodeID '''' '''');
            State_Monad.return
              (case projection of
                 None \<Rightarrow> (Some st, None)
               | Some p \<Rightarrow> (Some (st\<lparr>lv_Nav := tr_Nav rt\<rparr>), Some (pl_Nav p)))
          })"

text \<open>The runtime shares the puzzle pointer with the slot, so the slot keeps the puzzle that the
  attempt left behind also when it is not accepted.\<close>

definition ApplyHackGuess ::
  "'r random \<Rightarrow> LiveState option \<Rightarrow> string \<Rightarrow> ('r, LiveState option \<times> PublicHackState option) state" where
  "ApplyHackGuess random live targetID =
     (case live of
        None \<Rightarrow> State_Monad.return (live, None)
      | Some st \<Rightarrow>
          if \<not> activePuzzle live then State_Monad.return (live, None)
          else do {
            (rt, projection) \<leftarrow> applyRuntimeLocked random (terminalRuntime st)
              (runtimeCommand RuntimeCommandGuess '''' '''' targetID '''');
            State_Monad.return
              (Some (st\<lparr>lv_Hack := tr_Hack rt\<rparr>),
               case projection of None \<Rightarrow> None | Some p \<Rightarrow> pl_Hack p)
          })"

definition ApplyHackPattern ::
  "'r random \<Rightarrow> LiveState option \<Rightarrow> string \<Rightarrow> ('r, LiveState option \<times> PublicHackState option) state" where
  "ApplyHackPattern random live pattern =
     (case live of
        None \<Rightarrow> State_Monad.return (live, None)
      | Some st \<Rightarrow>
          if \<not> activePuzzle live then State_Monad.return (live, None)
          else do {
            (rt, projection) \<leftarrow> applyRuntimeLocked random (terminalRuntime st)
              (runtimeCommand RuntimeCommandActivatePattern '''' '''' '''' pattern);
            State_Monad.return
              (Some (st\<lparr>lv_Hack := tr_Hack rt\<rparr>),
               case projection of None \<Rightarrow> None | Some p \<Rightarrow> pl_Hack p)
          })"

definition ForceHackSuccess :: "LiveState option \<Rightarrow> LiveState option \<times> PublicHackState option" where
  "ForceHackSuccess live =
     (case live of
        None \<Rightarrow> (live, None)
      | Some st \<Rightarrow>
          if \<not> activePuzzle live then (live, None)
          else
            (let h = map_option ForceSuccess (lv_Hack st) in
             (Some (st\<lparr>lv_Hack := h\<rparr>), map_option PublicState h)))"

end
