(* ===== verification/LiveInv.thy ===== *)
theory LiveInv
  imports Live
begin

text \<open>
  The invariant of a terminal checkpoint (\<open>rt_wf\<close>) and what every live operation does to
  it, and the contract \<open>terminal_lifecycle\<close> under which the coordinator uses the live
  service, discharged here for \<open>internal/live\<close>.
\<close>

section \<open>Well-formed checkpoints\<close>

definition tree_ok :: "ContentNode \<Rightarrow> bool" where
  "tree_ok tree = (root_tree tree \<and> unique_ids tree \<and> list_all (\<lambda>n. cn_ID n \<noteq> '''') (tree_nodes tree))"

definition opt_hack_wf :: "HackState option \<Rightarrow> bool" where
  "opt_hack_wf h = (case h of None \<Rightarrow> True | Some st \<Rightarrow> hack_wf st)"

definition content_wf :: "TerminalRuntime \<Rightarrow> bool" where
  "content_wf st = (tree_ok (tr_Tree st) \<and> nav_wf (tr_Tree st) (tr_Nav st) \<and> opt_hack_wf (tr_Hack st))"

definition rt_wf :: "TerminalRuntime \<Rightarrow> bool" where
  "rt_wf st = (content_wf st \<and> validControllerPresentation st (tr_Presentation st))"

lemma tree_okD: "tree_ok tree \<Longrightarrow> root_tree tree \<and> unique_ids tree"
  by (simp add: tree_ok_def)

lemma rt_wf_content: "rt_wf st \<Longrightarrow> content_wf st"
  by (simp add: rt_wf_def)

section \<open>Revalidation of the shared presentation\<close>

lemma presentation_cong:
  assumes "tr_Hack st' = tr_Hack st" and "tr_Nav st' = tr_Nav st" and "tr_Tree st' = tr_Tree st"
  shows "controllerPresentationContext st' = controllerPresentationContext st"
    and "currentPresentationFolder st' = currentPresentationFolder st"
    and "validControllerPresentation st' q = validControllerPresentation st q"
proof -
  show c: "controllerPresentationContext st' = controllerPresentationContext st"
    by (simp only: controllerPresentationContext_def assms)
  show f: "currentPresentationFolder st' = currentPresentationFolder st"
    by (simp only: currentPresentationFolder_def assms)
  show "validControllerPresentation st' q = validControllerPresentation st q"
    by (simp only: validControllerPresentation_def c f assms)
qed

lemma context_presentation [simp]:
  "controllerPresentationContext (st\<lparr>tr_Presentation := p\<rparr>) = controllerPresentationContext st"
  by (rule presentation_cong) simp_all

lemma valid_presentation [simp]:
  "validControllerPresentation (st\<lparr>tr_Presentation := p\<rparr>) q = validControllerPresentation st q"
  by (rule presentation_cong) simp_all

lemma valid_lifecycle [simp]:
  "validControllerPresentation (st\<lparr>tr_Lifecycle := l\<rparr>) q = validControllerPresentation st q"
  by (rule presentation_cong) simp_all

lemma context_key_nonempty: "fst (controllerPresentationContext st) \<noteq> ''''"
  by (simp add: controllerPresentationContext_def navigationContext_def split: option.split)

lemma context_kind:
  "snd (controllerPresentationContext st) \<in> {PresentationHacking, PresentationPage, PresentationMenu}"
  by (simp add: controllerPresentationContext_def navigationContext_def split: option.split)

lemma findPresentationNode_in_tree:
  "findPresentationNode n i = Some m \<Longrightarrow> m \<in> set (tree_nodes n)"
proof (induction n i rule: findPresentationNode.induct)
  case (1 n i)
  show ?case
  proof (cases "cn_ID n = i")
    case True
    with "1.prems" show ?thesis by (simp add: findPresentationNode.simps)
  next
    case False
    with "1.prems" have "first_some (\<lambda>c. findPresentationNode c i) (cn_kids n) = Some m"
      by (simp add: findPresentationNode.simps [of n])
    then obtain c where c: "c \<in> set (cn_kids n)" "findPresentationNode c i = Some m"
      by (auto dest: first_some_SomeD)
    with "1.IH" [OF False c(1)] tree_nodes_kid show ?thesis by blast
  qed
qed

lemma first_kid_id:
  assumes "tree_ok (tr_Tree st)" and "currentPresentationFolder st = Some folder" and "cn_kids folder = c # cs"
  shows "cn_ID c \<noteq> ''''"
proof -
  have "folder \<in> set (tree_nodes (tr_Tree st))"
    using assms(2) findPresentationNode_in_tree by (auto simp: currentPresentationFolder_def split: if_splits)
  moreover have "c \<in> set (tree_nodes folder)" using assms(3) by (simp add: kid_in_tree)
  moreover have "x \<in> set (tree_nodes n)" if "x \<in> set (tree_nodes m)" "m \<in> set (tree_nodes n)" for x m n
    using that
  proof (induction n rule: tree_nodes.induct)
    case (1 n)
    then show ?case
    proof (cases "m = n")
      case False
      with "1.prems"(2) obtain k where k: "k \<in> set (cn_kids n)" "m \<in> set (tree_nodes k)"
        by (auto simp: tree_nodes.simps [of n])
      with "1.IH" "1.prems"(1) tree_nodes_kid show ?thesis by blast
    qed simp
  qed
  ultimately have "c \<in> set (tree_nodes (tr_Tree st))" by blast
  with assms(1) show ?thesis by (auto simp: tree_ok_def list_all_iff)
qed

lemma valid_plain:
  assumes "fst (controllerPresentationContext st) = key"
  shows "validControllerPresentation st (presentation PresentationNone key '''')"
    and "snd (controllerPresentationContext st) = PresentationPage \<Longrightarrow>
      validControllerPresentation st (presentation PresentationPage key '''')"
  using assms context_key_nonempty [of st]
  by (cases "controllerPresentationContext st"; simp add: validControllerPresentation_def presentation_def)+

lemma valid_menu:
  assumes "tree_ok (tr_Tree st)" and "controllerPresentationContext st = (key, PresentationMenu)"
    and "currentPresentationFolder st = Some folder" and "cn_kids folder = c # cs"
  shows "validControllerPresentation st (presentation PresentationMenu key (cn_ID c))"
  using assms(2-) first_kid_id [OF assms(1,3,4)] context_key_nonempty [of st]
  by (simp add: validControllerPresentation_def presentation_def)

lemma revalidate_valid:
  assumes "tree_ok (tr_Tree st)"
  shows "validControllerPresentation (revalidateControllerPresentation st)
    (tr_Presentation (revalidateControllerPresentation st))"
proof -
  obtain key kind where c: "controllerPresentationContext st = (key, kind)"
    by (cases "controllerPresentationContext st")
  then have key: "fst (controllerPresentationContext st) = key" by simp
  show ?thesis
  proof (cases "cp_ContextKey (tr_Presentation st) = key \<and> validControllerPresentation st (tr_Presentation st)")
    case True
    then show ?thesis by (simp add: revalidateControllerPresentation_def c)
  next
    case False
    then have r: "revalidateControllerPresentation st = st\<lparr>tr_Presentation := tr_Presentation (revalidateControllerPresentation st)\<rparr>"
      by (simp add: revalidateControllerPresentation_def c Let_def)
    have "validControllerPresentation st (tr_Presentation (revalidateControllerPresentation st))"
      using False valid_plain [OF key] valid_menu [OF assms, of key] context_kind [of st] c
      unfolding revalidateControllerPresentation_def c Let_def prod.case
      by (auto split: option.splits list.splits)
    then show ?thesis by (subst r) simp
  qed
qed

lemma revalidate_simps [simp]:
  "tr_TerminalID (revalidateControllerPresentation st) = tr_TerminalID st"
  "tr_TerminalName (revalidateControllerPresentation st) = tr_TerminalName st"
  "tr_Tree (revalidateControllerPresentation st) = tr_Tree st"
  "tr_CommandStates (revalidateControllerPresentation st) = tr_CommandStates st"
  "tr_CommandExecution (revalidateControllerPresentation st) = tr_CommandExecution st"
  "tr_HackLevel (revalidateControllerPresentation st) = tr_HackLevel st"
  "tr_IntroText (revalidateControllerPresentation st) = tr_IntroText st"
  "tr_Nav (revalidateControllerPresentation st) = tr_Nav st"
  "tr_Hack (revalidateControllerPresentation st) = tr_Hack st"
  "tr_Lifecycle (revalidateControllerPresentation st) = tr_Lifecycle st"
  by (simp_all add: revalidateControllerPresentation_def case_prod_unfold Let_def)

lemma revalidate_wf: "content_wf st \<Longrightarrow> rt_wf (revalidateControllerPresentation st)"
  using revalidate_valid [of st] by (simp add: rt_wf_def content_wf_def)

lemma revalidate_id:
  "validControllerPresentation st (tr_Presentation st) \<Longrightarrow> revalidateControllerPresentation st = st"
  by (simp add: revalidateControllerPresentation_def validControllerPresentation_def case_prod_unfold Let_def
      split: if_splits)

section \<open>Operations keep checkpoints well formed\<close>

lemma newHack_wf: "pred_state opt_hack_wf (newHack service level)"
proof (cases "0 < level")
  case True
  have "pred_state opt_hack_wf (GenerateBoard i level (sv_random service) (sv_words service))" for i
    by (rule pred_state_weaken [OF GenerateBoard_ok]) (auto simp: opt_hack_wf_def board_for_def split: option.split)
  with True show ?thesis by (simp add: newHack_def pred_state_bind [OF pred_state_true])
qed (simp add: newHack_def opt_hack_wf_def)

lemma createRuntimeLocked_wf [wf_intros]:
  assumes "tree_ok (ttg_Tree target)"
  shows "pred_state (\<lambda>(st, p). rt_wf st \<and> p = publicTerminalRuntime st \<and> tr_TerminalID st = ttg_TerminalID target \<and>
      tr_TerminalName st = ttg_TerminalName target \<and> tr_Tree st = ttg_Tree target \<and>
      tr_CommandStates st = ttg_CommandStates target \<and> tr_CommandExecution st = None \<and>
      tr_Nav st = Default \<and> tr_Lifecycle st = TerminalLifecycleActive) (createRuntimeLocked service target)"
  unfolding createRuntimeLocked_def Let_def
  by (rule pred_state_bind [OF newHack_wf])
    (use assms in \<open>simp add: content_wf_def nav_wf_Default tree_okD revalidate_wf\<close>)

lemma refreshed_simps [simp]:
  "tr_TerminalID (refreshed st target) = tr_TerminalID st"
  "tr_Tree (refreshed st target) = ttg_Tree target"
  "tr_Nav (refreshed st target) = tr_Nav st"
  "tr_Hack (refreshed st target) = tr_Hack st"
  "tr_Lifecycle (refreshed st target) = tr_Lifecycle st"
  "tr_CommandStates (refreshed st target) = ttg_CommandStates target"
  "tr_CommandExecution (refreshed st target) = tr_CommandExecution st"
  "tr_TerminalName (refreshed st target) = ttg_TerminalName target"
  by (simp_all add: refreshed_def)

lemma UpdateRuntime_wf [wf_intros]:
  assumes "UpdateRuntime st target = Some (st', p)" and "tree_ok (ttg_Tree target)" and "opt_hack_wf (tr_Hack st)"
  shows "rt_wf st'"
  using assms
  by (auto simp: UpdateRuntime_def Let_def content_wf_def tree_okD split: if_splits
      intro!: revalidate_wf Revalidate_nav_wf)

lemma ReactivateRuntime_wf [wf_intros]:
  assumes "ReactivateRuntime st target = Some (st', p)" and "tree_ok (ttg_Tree target)" and "opt_hack_wf (tr_Hack st)"
  shows "rt_wf st'"
  using assms
  by (auto simp: ReactivateRuntime_def Let_def content_wf_def tree_okD split: if_splits
      intro!: revalidate_wf Revalidate_nav_wf)

lemma SuspendRuntime_wf [wf_intros]: "rt_wf st \<Longrightarrow> rt_wf (SuspendRuntime st)"
  by (simp add: SuspendRuntime_def rt_wf_def content_wf_def)

lemma ProjectRuntime_wf [wf_intros]: "content_wf st \<Longrightarrow> rt_wf (fst (ProjectRuntime st))"
  by (simp add: ProjectRuntime_def Let_def revalidate_wf)

lemma ForceRuntimeHackSuccess_wf [wf_intros]:
  assumes "ForceRuntimeHackSuccess st = Some (st', p)" and "content_wf st"
  shows "rt_wf st'"
proof -
  have "opt_hack_wf (map_option ForceSuccess (tr_Hack st))"
    using assms(2) by (auto simp: content_wf_def opt_hack_wf_def intro: ForceSuccess_wf split: option.splits)
  with assms show ?thesis
    by (auto simp: ForceRuntimeHackSuccess_def Let_def content_wf_def split: if_splits
        intro!: revalidate_wf)
qed

text \<open>What an operation of the player leaves alone.\<close>

definition same_terminal :: "TerminalRuntime \<Rightarrow> TerminalRuntime \<Rightarrow> bool" where
  "same_terminal st st' =
     (tr_TerminalID st' = tr_TerminalID st \<and> tr_TerminalName st' = tr_TerminalName st \<and>
      tr_Tree st' = tr_Tree st \<and> tr_CommandStates st' = tr_CommandStates st \<and>
      tr_HackLevel st' = tr_HackLevel st \<and> tr_IntroText st' = tr_IntroText st \<and>
      tr_Lifecycle st' = tr_Lifecycle st)"

lemma same_terminal_refl [simp]: "same_terminal st st"
  by (simp add: same_terminal_def)

lemma same_terminal_hack: "same_terminal st (st\<lparr>tr_Hack := h\<rparr>)"
  by (simp add: same_terminal_def)

definition apply_ok :: "TerminalRuntime \<Rightarrow> TerminalRuntime \<times> PublicLiveState option \<Rightarrow> bool" where
  "apply_ok st r =
     (case r of (st', p) \<Rightarrow>
        same_terminal st st' \<and> (content_wf st \<longrightarrow> content_wf st') \<and> (rt_wf st \<longrightarrow> rt_wf st') \<and>
        (case p of None \<Rightarrow> True | Some pub \<Rightarrow> pub = publicTerminalRuntime st'))"

lemma acceptRuntime_ok:
  assumes "same_terminal st st'" and "content_wf st \<Longrightarrow> content_wf st'"
  shows "apply_ok st (acceptRuntime st')"
  using assms revalidate_wf [of st']
  by (auto simp: apply_ok_def acceptRuntime_def Let_def same_terminal_def dest: rt_wf_content)

lemma hack_update_content:
  "content_wf st \<Longrightarrow> opt_hack_wf h \<Longrightarrow> content_wf (st\<lparr>tr_Hack := h\<rparr>)"
  by (simp add: content_wf_def)

lemma guess_unchanged:
  "\<not> guessChanged h (ApplyGuess h i) \<Longrightarrow> ApplyGuess h i = h"
proof -
  have log: "length (hs_Log (spendAttempt (pushLog h ls) m)) \<noteq> length (hs_Log h)" for ls m
    by (simp add: spendAttempt_def pushLog_def Let_def)
  have log': "length (hs_Log (pushSuccessLog (pushLog h ls\<lparr>hs_Solved := True\<rparr>))) \<noteq> length (hs_Log h)" for ls
    by (simp add: pushSuccessLog_def pushLog_def)
  assume "\<not> guessChanged h (ApplyGuess h i)"
  then have "length (hs_Log (ApplyGuess h i)) = length (hs_Log h)" by (simp add: guessChanged_def)
  with log log' show ?thesis
    by (auto simp: ApplyGuess_def Let_def split: option.splits prod.splits if_splits)
qed

lemma applyRuntimeKind_ok: "pred_state (apply_ok st) (applyRuntimeKind random st command)"
proof (cases "rc_Kind command")
  case RuntimeCommandNavigate
  then show ?thesis
    by (auto simp: applyRuntimeKind_def same_terminal_def rt_wf_def content_wf_def
        intro!: acceptRuntime_ok ApplyAction_nav_wf)
next
  case RuntimeCommandGuess
  show ?thesis
  proof (cases "tr_Hack st")
    case (Some h)
    have "content_wf st \<Longrightarrow> content_wf (st\<lparr>tr_Hack := Some (ApplyGuess h (rc_TargetID command))\<rparr>)"
      using Some by (intro hack_update_content) (auto simp: rt_wf_def content_wf_def opt_hack_wf_def intro: ApplyGuess_wf)
    then have acc: "apply_ok st (acceptRuntime (st\<lparr>tr_Hack := Some (ApplyGuess h (rc_TargetID command))\<rparr>))"
      by (intro acceptRuntime_ok same_terminal_hack)
    have keep: "st\<lparr>tr_Hack := Some h\<rparr> = st" using Some by simp
    have none: "apply_ok st (st, None)" by (simp add: apply_ok_def)
    show ?thesis
    proof (cases "guessChanged h (ApplyGuess h (rc_TargetID command))")
      case True
      with RuntimeCommandGuess Some acc none show ?thesis by (simp add: applyRuntimeKind_def Let_def)
    next
      case False
      have "apply_ok st (st\<lparr>tr_Hack := Some h\<rparr>, None)" by (simp only: keep none)
      with guess_unchanged [OF False] RuntimeCommandGuess Some none False show ?thesis
        by (simp add: applyRuntimeKind_def Let_def)
    qed
  qed (use RuntimeCommandGuess in \<open>simp add: applyRuntimeKind_def apply_ok_def\<close>)
next
  case RuntimeCommandActivatePattern
  show ?thesis
  proof (cases "tr_Hack st")
    case (Some h)
    have keep: "st\<lparr>tr_Hack := Some h\<rparr> = st" using Some by simp
    let ?run = "ApplyPattern random h (rc_PatternID command)"
    have res: "pred_state (\<lambda>(ok, h'). (hack_wf h \<longrightarrow> hack_wf h') \<and> (\<not> ok \<longrightarrow> h' = h)) ?run"
    proof (cases "pattern_available h (rc_PatternID command)")
      case False
      then show ?thesis by (simp add: ApplyPattern_unavailable)
    next
      case True
      then have live: "\<not> hs_Solved h" "\<not> hs_Failed h" by (simp_all add: pattern_available_def)
      from ApplyPattern_available [OF True, of random] obtain p
        where "p \<in> set (discoverPatternSpans (hs_GenerationID h) (hs_Columns h))"
          "pred_state (\<lambda>(ok, st'). ok \<and> consumed_to h (hp_Identity p) st') ?run" by blast
      then show ?thesis using consumed_to_wf [OF _ live] by (auto elim!: pred_state_weaken)
    qed
    have step: "apply_ok st (if ok then acceptRuntime (st\<lparr>tr_Hack := Some h'\<rparr>) else (st\<lparr>tr_Hack := Some h'\<rparr>, None))"
      if "hack_wf h \<longrightarrow> hack_wf h'" "\<not> ok \<longrightarrow> h' = h" for ok h'
    proof (cases ok)
      case True
      have "content_wf st \<Longrightarrow> content_wf (st\<lparr>tr_Hack := Some h'\<rparr>)"
        using that(1) Some by (intro hack_update_content) (auto simp: rt_wf_def content_wf_def opt_hack_wf_def)
      with True show ?thesis by (auto intro!: acceptRuntime_ok simp: same_terminal_def)
    qed (use that(2) keep in \<open>simp add: apply_ok_def\<close>)
    show ?thesis
    proof (cases "activeRuntimePuzzle st")
      case True
      with RuntimeCommandActivatePattern Some have run: "applyRuntimeKind random st command =
          ?run \<bind> (\<lambda>(ok, h'). State_Monad.return
            (if ok then acceptRuntime (st\<lparr>tr_Hack := Some h'\<rparr>) else (st\<lparr>tr_Hack := Some h'\<rparr>, None)))"
        by (simp add: applyRuntimeKind_def Let_def)
      show ?thesis
        unfolding run
      proof (rule pred_state_bind [OF res])
        fix r assume r: "case r of (ok, h') \<Rightarrow> (hack_wf h \<longrightarrow> hack_wf h') \<and> (\<not> ok \<longrightarrow> h' = h)"
        obtain ok h' where e: "r = (ok, h')" by (cases r)
        from r e have "apply_ok st (if ok then acceptRuntime (st\<lparr>tr_Hack := Some h'\<rparr>) else (st\<lparr>tr_Hack := Some h'\<rparr>, None))"
          by (intro step) simp_all
        with e show "pred_state (apply_ok st) (case r of (ok, h') \<Rightarrow> State_Monad.return
            (if ok then acceptRuntime (st\<lparr>tr_Hack := Some h'\<rparr>) else (st\<lparr>tr_Hack := Some h'\<rparr>, None)))"
          by simp
      qed
    qed (use RuntimeCommandActivatePattern Some in \<open>simp add: applyRuntimeKind_def apply_ok_def\<close>)
  qed (use RuntimeCommandActivatePattern in \<open>simp add: applyRuntimeKind_def apply_ok_def\<close>)
next
  case RuntimeCommandPresentation
  then show ?thesis
    by (auto simp: applyRuntimeKind_def apply_ok_def [of st "(st, None)"] same_terminal_def rt_wf_def content_wf_def
        intro!: acceptRuntime_ok)
qed (simp_all add: applyRuntimeKind_def apply_ok_def)

lemma applyRuntimeKind_none:
  "pred_state (\<lambda>(st', p). p = None \<longrightarrow> st' = st) (applyRuntimeKind random st command)"
proof (cases "rc_Kind command")
  case RuntimeCommandNavigate
  then show ?thesis by (simp add: applyRuntimeKind_def acceptRuntime_def Let_def)
next
  case RuntimeCommandGuess
  then show ?thesis
    by (auto simp: applyRuntimeKind_def acceptRuntime_def Let_def guess_unchanged split: option.split)
next
  case RuntimeCommandActivatePattern
  show ?thesis
  proof (cases "tr_Hack st")
    case (Some h)
    let ?run = "ApplyPattern random h (rc_PatternID command)"
    have keep: "st\<lparr>tr_Hack := Some h\<rparr> = st" using Some by simp
    have res: "pred_state (\<lambda>(ok, h'). \<not> ok \<longrightarrow> h' = h) ?run"
    proof (cases "pattern_available h (rc_PatternID command)")
      case True
      from ApplyPattern_available [OF True, of random] show ?thesis by (auto elim!: pred_state_weaken)
    qed (simp add: ApplyPattern_unavailable)
    have run: "pred_state (\<lambda>(st', p). p = None \<longrightarrow> st' = st)
        (?run \<bind> (\<lambda>(ok, h'). State_Monad.return
            (if ok then acceptRuntime (st\<lparr>tr_Hack := Some h'\<rparr>) else (st\<lparr>tr_Hack := Some h'\<rparr>, None))))"
      by (rule pred_state_bind [OF res])
        (use keep in \<open>auto simp: acceptRuntime_def Let_def split: prod.splits if_splits\<close>)
    with RuntimeCommandActivatePattern Some show ?thesis by (simp add: applyRuntimeKind_def Let_def)
  qed (simp add: applyRuntimeKind_def RuntimeCommandActivatePattern)
next
  case RuntimeCommandPresentation
  then show ?thesis by (simp add: applyRuntimeKind_def acceptRuntime_def Let_def)
qed (simp_all add: applyRuntimeKind_def)

lemma pred_state_conj: "pred_state P m \<Longrightarrow> pred_state Q m \<Longrightarrow> pred_state (\<lambda>x. P x \<and> Q x) m"
  by (intro pred_stateI) (auto dest: pred_stateD)

lemma applyRuntimeKind_reject:
  "pred_state (\<lambda>(st', p). apply_ok st (st', p) \<and> (p = None \<longrightarrow> st' = st)) (applyRuntimeKind random st command)"
  using pred_state_conj [OF applyRuntimeKind_ok [of st random command] applyRuntimeKind_none [of st random command]]
  by (auto elim!: pred_state_weaken)

lemma applyRuntimeLocked_ok: "pred_state (apply_ok st) (applyRuntimeLocked random st command)"
proof (cases "tr_CommandExecution st")
  case None
  then show ?thesis by (simp add: applyRuntimeLocked_def applyRuntimeKind_ok)
next
  case (Some execution)
  then show ?thesis
    by (cases "cx_Phase execution")
      (auto simp: applyRuntimeLocked_def apply_ok_def [of st "(st, None)"] same_terminal_def rt_wf_def content_wf_def
        intro!: acceptRuntime_ok ApplyAction_nav_wf)
qed

section \<open>The projected content\<close>

lemma effective_node [simp]:
  "cn_ID (applyEffectiveContentStates states completed n) = cn_ID n"
  "cn_Type (applyEffectiveContentStates states completed n) = cn_Type n"
  "cn_kids (applyEffectiveContentStates states completed n) = map (applyEffectiveContentStates states completed) (cn_kids n)"
  by (cases n; simp add: cn_kids_def split: option.split)+

lemma effective_directChild:
  "directChild (applyEffectiveContentStates states completed n) i t =
     map_option (applyEffectiveContentStates states completed) (directChild n i t)"
proof -
  have "find (\<lambda>c. cn_ID c = i \<and> cn_Type c = t) (map (applyEffectiveContentStates states completed) xs) =
      map_option (applyEffectiveContentStates states completed) (find (\<lambda>c. cn_ID c = i \<and> cn_Type c = t) xs)" for xs
    by (induction xs) auto
  then show ?thesis by (simp add: directChild_def)
qed

lemma effective_walk:
  "walkFolders (applyEffectiveContentStates states completed n) path =
     map_option (applyEffectiveContentStates states completed) (walkFolders n path)"
  by (induction path arbitrary: n) (auto simp: effective_directChild split: option.split)

lemma effective_currentFolder:
  "currentFolder (effectiveTree tree states) path =
     map_option (applyEffectiveContentStates states (completedBlockTexts states)) (currentFolder tree path)"
  by (auto simp: currentFolder_def effectiveTree_def effective_walk split: list.split)

lemma effective_nav_wf: "nav_wf (effectiveTree tree states) st = nav_wf tree st"
  by (auto simp: nav_wf_def effective_currentFolder leaf_refs_ok_def effective_directChild split: option.splits)

section \<open>The contract of a checkpoint\<close>

text \<open>One operation of the coordinator on a checkpoint.  A request that the service refuses
  (\<open>None\<close>) leaves the checkpoint as it was.\<close>

datatype LifecycleOp =
  LApply RuntimeCommand | LProject | LSuspend | LForce
| LUpdate TerminalTarget | LReactivate TerminalTarget

record 'r Lifecycle =
  lc_create :: "TerminalTarget \<Rightarrow> ('r, TerminalRuntime \<times> PublicLiveState) state"
  lc_apply :: "TerminalRuntime \<Rightarrow> RuntimeCommand \<Rightarrow> ('r, TerminalRuntime \<times> PublicLiveState option) state"
  lc_update :: "TerminalRuntime \<Rightarrow> TerminalTarget \<Rightarrow> (TerminalRuntime \<times> PublicLiveState) option"
  lc_project :: "TerminalRuntime \<Rightarrow> TerminalRuntime \<times> PublicLiveState"
  lc_suspend :: "TerminalRuntime \<Rightarrow> TerminalRuntime"
  lc_reactivate :: "TerminalRuntime \<Rightarrow> TerminalTarget \<Rightarrow> (TerminalRuntime \<times> PublicLiveState) option"
  lc_resetFailed :: "TerminalRuntime \<Rightarrow> TerminalTarget \<Rightarrow> ('r, (TerminalRuntime \<times> PublicLiveState) option) state"
  lc_force :: "TerminalRuntime \<Rightarrow> (TerminalRuntime \<times> PublicLiveState) option"

definition fst_or :: "'a \<Rightarrow> ('a \<times> 'b) option \<Rightarrow> 'a" where
  "fst_or x r = (case r of None \<Rightarrow> x | Some (y, _) \<Rightarrow> y)"

primrec lifecycleStep :: "'r Lifecycle \<Rightarrow> TerminalRuntime \<Rightarrow> LifecycleOp \<Rightarrow> ('r, TerminalRuntime) state" where
  "lifecycleStep L st (LApply c) = do { r \<leftarrow> lc_apply L st c; State_Monad.return (fst r) }"
| "lifecycleStep L st LProject = State_Monad.return (fst (lc_project L st))"
| "lifecycleStep L st LSuspend = State_Monad.return (lc_suspend L st)"
| "lifecycleStep L st LForce = State_Monad.return (fst_or st (lc_force L st))"
| "lifecycleStep L st (LUpdate t) = State_Monad.return (fst_or st (lc_update L st t))"
| "lifecycleStep L st (LReactivate t) = State_Monad.return (fst_or st (lc_reactivate L st t))"

primrec lifecycleRun :: "'r Lifecycle \<Rightarrow> TerminalRuntime \<Rightarrow> LifecycleOp list \<Rightarrow> ('r, TerminalRuntime) state" where
  "lifecycleRun L st [] = State_Monad.return st"
| "lifecycleRun L st (op # ops) = do { st' \<leftarrow> lifecycleStep L st op; lifecycleRun L st' ops }"

definition op_ok :: "LifecycleOp \<Rightarrow> bool" where
  "op_ok op = (case op of LUpdate t \<Rightarrow> tree_ok (ttg_Tree t) | LReactivate t \<Rightarrow> tree_ok (ttg_Tree t) | _ \<Rightarrow> True)"

definition liveLifecycle :: "'r LiveService \<Rightarrow> 'r Lifecycle" where
  "liveLifecycle service =
     \<lparr>lc_create = createRuntimeLocked service, lc_apply = applyRuntimeLocked (sv_random service),
      lc_update = UpdateRuntime, lc_project = ProjectRuntime, lc_suspend = SuspendRuntime,
      lc_reactivate = ReactivateRuntime, lc_resetFailed = ResetFailedHack service,
      lc_force = ForceRuntimeHackSuccess\<rparr>"

definition kept :: "TerminalRuntime \<Rightarrow> TerminalRuntime \<Rightarrow> bool" where
  "kept st st' = (tr_TerminalID st' = tr_TerminalID st \<and> (content_wf st \<longrightarrow> content_wf st') \<and> (rt_wf st \<longrightarrow> rt_wf st'))"

locale terminal_lifecycle =
  fixes L :: "'r Lifecycle"
  assumes create_ok: "tree_ok (ttg_Tree t) \<Longrightarrow>
      pred_state (\<lambda>(st, p). rt_wf st \<and> p = publicTerminalRuntime st \<and> tr_TerminalID st = ttg_TerminalID t \<and>
        tr_Lifecycle st = TerminalLifecycleActive) (lc_create L t)"
    and create_id: "pred_state (\<lambda>(st, p). tr_TerminalID st = ttg_TerminalID t \<and>
        tr_Lifecycle st = TerminalLifecycleActive) (lc_create L t)"
    and apply_ok: "pred_state (apply_ok st) (lc_apply L st c)"
    and project_ok: "kept st (fst (lc_project L st)) \<and> tr_Lifecycle (fst (lc_project L st)) = tr_Lifecycle st"
    and suspend_ok: "kept st (lc_suspend L st) \<and> tr_Hack (lc_suspend L st) = tr_Hack st \<and> tr_Nav (lc_suspend L st) = tr_Nav st \<and>
        tr_Lifecycle (lc_suspend L st) = TerminalLifecycleSuspended"
    and update_ok: "lc_update L st t = Some (st', p) \<Longrightarrow> tree_ok (ttg_Tree t) \<Longrightarrow>
        kept st st' \<and> tr_Hack st' = tr_Hack st \<and> tr_Lifecycle st' = tr_Lifecycle st"
    and reactivate_ok: "lc_reactivate L st t = Some (st', p) \<Longrightarrow> tree_ok (ttg_Tree t) \<Longrightarrow>
        kept st st' \<and> tr_Hack st' = tr_Hack st \<and> tr_Lifecycle st' = TerminalLifecycleActive"
    and force_ok: "lc_force L st = Some (st', p) \<Longrightarrow> kept st st' \<and> tr_Lifecycle st' = tr_Lifecycle st"
    and reset_ok: "tree_ok (ttg_Tree t) \<Longrightarrow>
        pred_state (\<lambda>r. case r of None \<Rightarrow> True | Some (st', p) \<Rightarrow> content_wf st' \<and> tr_TerminalID st' = ttg_TerminalID t)
          (lc_resetFailed L st t)"
begin

lemma kept_refl: "kept st st"
  by (simp add: kept_def)

lemma kept_trans: "kept a b \<Longrightarrow> kept b c \<Longrightarrow> kept a c"
  by (simp add: kept_def)

lemma step_kept: "op_ok op \<Longrightarrow> pred_state (kept st) (lifecycleStep L st op)"
proof (cases op)
  case (LApply c)
  have "pred_state (\<lambda>r. kept st (fst r)) (lc_apply L st c)"
    by (rule pred_state_weaken [OF apply_ok]) (auto simp: apply_ok_def kept_def same_terminal_def split: prod.splits)
  then show ?thesis by (simp add: LApply pred_state_bind [where Q = "\<lambda>r. kept st (fst r)"])
qed (use project_ok suspend_ok force_ok update_ok reactivate_ok kept_refl in
  \<open>auto simp: fst_or_def op_ok_def split: option.split\<close>)

lemma run_kept: "list_all op_ok ops \<Longrightarrow> pred_state (kept st) (lifecycleRun L st ops)"
proof (induction ops arbitrary: st)
  case (Cons op ops)
  then have "pred_state (kept st) (lifecycleStep L st op)" by (intro step_kept) simp
  then show ?case
    unfolding lifecycleRun.simps
    by (rule pred_state_bind, intro pred_state_weaken [OF Cons.IH]) (use Cons.prems kept_trans in auto)
qed (simp add: kept_refl)

lemma created_run:
  assumes "tree_ok (ttg_Tree t)" and "list_all op_ok ops"
  shows "pred_state (\<lambda>st. rt_wf st \<and> tr_TerminalID st = ttg_TerminalID t)
    (lc_create L t \<bind> (\<lambda>r. lifecycleRun L (fst r) ops))"
  by (rule pred_state_bind [OF create_ok [OF assms(1)]], rule pred_state_weaken [OF run_kept [OF assms(2)]])
    (auto simp: kept_def)

end

interpretation live: terminal_lifecycle "liveLifecycle service" for service :: "'r LiveService"
proof (unfold_locales, goal_cases)
  case (1 t)
  then show ?case by (auto simp: liveLifecycle_def intro: pred_state_weaken [OF createRuntimeLocked_wf])
next
  case (2 t)
  show ?case
    by (simp add: liveLifecycle_def createRuntimeLocked_def Let_def pred_state_bind [OF pred_state_true])
next
  case (3 st c)
  show ?case by (simp add: liveLifecycle_def applyRuntimeLocked_ok)
next
  case (4 st)
  show ?case
    using ProjectRuntime_wf [of st]
    by (auto simp: liveLifecycle_def kept_def dest: rt_wf_content) (simp_all add: ProjectRuntime_def Let_def)
next
  case (5 st)
  show ?case
    using SuspendRuntime_wf [of st]
    by (auto simp: liveLifecycle_def kept_def) (simp_all add: SuspendRuntime_def content_wf_def)
next
  case (6 st t st' p)
  then show ?case
    using UpdateRuntime_wf [of st t st' p]
    by (auto simp: liveLifecycle_def kept_def rt_wf_def content_wf_def)
      (auto simp: UpdateRuntime_def Let_def split: if_splits)
next
  case (7 st t st' p)
  then show ?case
    using ReactivateRuntime_wf [of st t st' p]
    by (auto simp: liveLifecycle_def kept_def rt_wf_def content_wf_def)
      (auto simp: ReactivateRuntime_def Let_def split: if_splits)
next
  case (8 st st' p)
  then show ?case
    using ForceRuntimeHackSuccess_wf [of st st' p]
    by (auto simp: liveLifecycle_def kept_def dest: rt_wf_content)
      (auto simp: ForceRuntimeHackSuccess_def Let_def split: if_splits)
next
  case (9 t st)
  then show ?case
    by (auto simp: liveLifecycle_def ResetFailedHack_def dest: rt_wf_content
        intro!: pred_state_bind [OF createRuntimeLocked_wf])
qed

section \<open>Properties\<close>

definition demo_target :: TerminalTarget where
  "demo_target =
     \<lparr>ttg_TerminalID = ''t1'', ttg_TerminalName = ''Gate'', ttg_Tree = demo_tree,
      ttg_CommandStates = [(''open'', \<lparr>ce_CompletedName = ''Opened'', ce_ResultText = ''done'', ce_EntryContentChange = None\<rparr>)],
      ttg_HackLevel = 0, ttg_IntroText = ''hi''\<rparr>"

definition demo_runtime :: TerminalRuntime where
  "demo_runtime =
     \<lparr>tr_TerminalID = ''t1'', tr_TerminalName = ''Gate'', tr_Tree = demo_tree, tr_CommandStates = [],
      tr_CommandExecution = None, tr_HackLevel = 1, tr_IntroText = ''hi'', tr_Nav = Default,
      tr_Hack = Some demo_board, tr_Presentation = zeroPresentation, tr_Lifecycle = TerminalLifecycleActive\<rparr>"

lemma demo_tree_ok: "tree_ok demo_tree"
  by code_simp

text \<open>C11: A checkpoint stays sound for its whole life. From its creation on a valid tree, through any
  sequence of player commands, projections, suspensions, forced successes, content updates and
  reactivations, whatever the random sources answer, the checkpoint keeps its terminal identity, its
  shared position lies in the current tree, its puzzle satisfies the board invariant, and the
  published presentation is valid in the current context.\<close>

theorem live_checkpoint_sound:
  assumes "tree_ok (ttg_Tree target)" and "list_all op_ok ops"
  shows "pred_state (\<lambda>st. rt_wf st \<and> tr_TerminalID st = ttg_TerminalID target)
    (createRuntimeLocked service target \<bind> (\<lambda>r. lifecycleRun (liveLifecycle service) (fst r) ops))"
  using live.created_run [OF assms] by (simp add: liveLifecycle_def)

lemma live_checkpoint_sound_witness:
  "pred_state (\<lambda>st. rt_wf st \<and> tr_TerminalID st = ''t1'')
    (createRuntimeLocked (\<lparr>sv_random = constRandom 3, sv_words = None, sv_nextGenerationID = State_Monad.return ''g''\<rparr>) demo_target
      \<bind> (\<lambda>r. lifecycleRun (liveLifecycle (\<lparr>sv_random = constRandom 3, sv_words = None, sv_nextGenerationID = State_Monad.return ''g''\<rparr>))
        (fst r) [LSuspend, LReactivate demo_target]))"
proof -
  have "tree_ok (ttg_Tree demo_target)" "list_all op_ok [LSuspend, LReactivate demo_target]" "ttg_TerminalID demo_target = ''t1''"
    using demo_tree_ok by (simp_all add: demo_target_def op_ok_def)
  with live_checkpoint_sound [of demo_target "[LSuspend, LReactivate demo_target]"] show ?thesis by simp
qed

text \<open>C21: A player command on a checkpoint is all or nothing. A command that is not accepted leaves the
  checkpoint exactly as it was; an accepted one returns the projection of the new checkpoint and never
  changes the terminal, its content, its durable command results or its lifecycle. While a command
  awaits the Overseer nothing is accepted, and after a rejection only going back is.\<close>

theorem live_apply_all_or_nothing:
  "pred_state (\<lambda>(st', p).
      (p = None \<longrightarrow> st' = st) \<and> (\<forall>pub. p = Some pub \<longrightarrow> pub = publicTerminalRuntime st') \<and>
      same_terminal st st' \<and>
      (\<forall>x. tr_CommandExecution st = Some x \<and> cx_Phase x = CommandExecutionPhasePending \<longrightarrow> p = None) \<and>
      (\<forall>x. tr_CommandExecution st = Some x \<and> cx_Phase x = CommandExecutionPhaseRejected \<and> p \<noteq> None \<longrightarrow>
         rc_Kind command = RuntimeCommandNavigate \<and> rc_Action command = ''back'' \<and> tr_CommandExecution st' = None))
    (applyRuntimeLocked random st command)"
proof -
  have "pred_state (\<lambda>(st', p). apply_ok st (st', p) \<and> (p = None \<longrightarrow> st' = st)) (applyRuntimeKind random st command)"
    by (rule applyRuntimeKind_reject)
  then show ?thesis
    by (cases "tr_CommandExecution st"; cases "cx_Phase (the (tr_CommandExecution st))")
      (auto simp: applyRuntimeLocked_def apply_ok_def acceptRuntime_def Let_def same_terminal_def
        split: option.splits elim!: pred_state_weaken)
qed

definition demo_command :: "RuntimeCommandKind \<Rightarrow> string \<Rightarrow> string \<Rightarrow> RuntimeCommand" where
  "demo_command kind action node =
     \<lparr>rc_RequestID = ''r1'', rc_BroadcastID = ''b1'', rc_TerminalID = ''t1'', rc_Kind = kind, rc_Action = action,
      rc_NodeID = node, rc_TargetID = '''', rc_PatternID = '''', rc_Presentation = zeroPresentation,
      rc_PayloadFingerprint = ''''\<rparr>"

lemma live_apply_all_or_nothing_witness:
  "pred_state (\<lambda>(st', p). p = None \<and>
      st' = demo_runtime\<lparr>tr_CommandExecution := Some \<lparr>cx_Phase = CommandExecutionPhasePending, cx_CommandID = ''open''\<rparr>\<rparr>)
    (applyRuntimeLocked (constRandom 0)
      (demo_runtime\<lparr>tr_CommandExecution := Some \<lparr>cx_Phase = CommandExecutionPhasePending, cx_CommandID = ''open''\<rparr>\<rparr>)
      (demo_command RuntimeCommandNavigate ''enter'' ''ops''))"
  by (rule pred_state_weaken [OF live_apply_all_or_nothing]) auto

text \<open>C22: Suspending and reactivating keeps the puzzle. The checkpoint that comes back holds the very
  puzzle it was suspended with, attempts, log and used patterns included, has no pending command, is
  active, and, when the content did not change, stands at the same position.\<close>

theorem live_reactivate_exact:
  assumes "ReactivateRuntime (SuspendRuntime st) target = Some (st', p)"
  shows "tr_Hack st' = tr_Hack st \<and> tr_CommandExecution st' = None \<and> tr_Lifecycle st' = TerminalLifecycleActive \<and>
    tr_TerminalID st' = tr_TerminalID st \<and> tr_CommandStates st' = ttg_CommandStates target \<and>
    (ttg_Tree target = tr_Tree st \<and> rt_wf st \<longrightarrow> tr_Nav st' = tr_Nav st) \<and> p = publicTerminalRuntime st'"
  using assms
  by (auto simp: ReactivateRuntime_def SuspendRuntime_def Let_def rt_wf_def content_wf_def Revalidate_id split: if_splits)

lemma live_reactivate_exact_witness:
  "\<exists>st' p. ReactivateRuntime (SuspendRuntime demo_runtime) demo_target = Some (st', p) \<and>
     tr_Hack st' = Some demo_board \<and> tr_Lifecycle st' = TerminalLifecycleActive"
proof -
  have "\<exists>st' p. ReactivateRuntime (SuspendRuntime demo_runtime) demo_target = Some (st', p)"
    by (simp add: ReactivateRuntime_def SuspendRuntime_def demo_runtime_def demo_target_def Let_def)
  then obtain st' p where r: "ReactivateRuntime (SuspendRuntime demo_runtime) demo_target = Some (st', p)" by blast
  from live_reactivate_exact [OF r] r show ?thesis by (auto simp: demo_runtime_def)
qed

text \<open>The text a block of an entry shows: that of a durable result that changes the block, else what was authored.\<close>

definition blockShows :: "CommandStates \<Rightarrow> EntryContentBlock \<Rightarrow> string \<Rightarrow> bool" where
  "blockShows states b t =
     (if \<exists>(i, r) \<in> set states. \<exists>change. ce_EntryContentChange r = Some change \<and> ec_BlockID change = eb_ID b
      then \<exists>(i, r) \<in> set states. \<exists>change. ce_EntryContentChange r = Some change \<and> ec_BlockID change = eb_ID b \<and>
        t = ec_CompletedText change
      else t = eb_InitialText b)"

text \<open>How a node of the authored tree is published.\<close>

definition publishedNode :: "CommandStates \<Rightarrow> ContentNode \<Rightarrow> ContentNode \<Rightarrow> bool" where
  "publishedNode states n m =
     (cn_ID m = cn_ID n \<and> cn_Type m = cn_Type n \<and> map cn_ID (cn_kids m) = map cn_ID (cn_kids n) \<and>
      cn_Blocks m = cn_Blocks n \<and> cn_StateChange m = cn_StateChange n \<and>
      cn_TerminalTransition m = cn_TerminalTransition n \<and> cn_Extra m = cn_Extra n \<and>
      (case gm_get states (cn_ID n) of
         Some r \<Rightarrow>
           if cn_Type n = NodeCommand then cn_Name m = ce_CompletedName r \<and> cn_Text m = ce_ResultText r
           else cn_Name m = cn_Name n \<and> cn_Text m = cn_Text n
       | None \<Rightarrow> cn_Name m = cn_Name n \<and> cn_Text m = cn_Text n) \<and>
      (if cn_Type n = NodeEntry \<and> cn_block_list n \<noteq> []
       then \<exists>texts. list_all2 (blockShows states) (cn_block_list n) texts \<and> cn_Description m = join [CHR 0x0A, CHR 0x0A] texts
       else cn_Description m = cn_Description n))"

lemma completedBlockTexts_shows:
  "blockShows states b (case gm_get (completedBlockTexts states) (eb_ID b) of Some t \<Rightarrow> t | None \<Rightarrow> eb_InitialText b)"
proof -
  define step where "step = (\<lambda>(m :: (string, string) gomap) (i :: string, st :: CommandExecutionState). case ce_EntryContentChange st of
      None \<Rightarrow> m | Some change \<Rightarrow> gm_put (ec_BlockID change) (ec_CompletedText change) m)"
  have "case gm_get (foldl step [] xs) (eb_ID b) of
      Some t \<Rightarrow> \<exists>(i, r) \<in> set xs. \<exists>change. ce_EntryContentChange r = Some change \<and> ec_BlockID change = eb_ID b \<and>
        t = ec_CompletedText change
    | None \<Rightarrow> \<not> (\<exists>(i, r) \<in> set xs. \<exists>change. ce_EntryContentChange r = Some change \<and> ec_BlockID change = eb_ID b)" for xs
  proof (induction xs rule: rev_induct)
    case (snoc x xs)
    obtain i r where x: "x = (i, r)" by fastforce
    show ?case
    proof (cases "ce_EntryContentChange r")
      case None
      with snoc x show ?thesis by (auto simp: step_def split: option.splits)
    next
      case (Some change)
      have "foldl step [] (xs @ [x]) = gm_put (ec_BlockID change) (ec_CompletedText change) (foldl step [] xs)"
        by (simp add: x step_def Some)
      then show ?thesis using snoc x Some by (cases "ec_BlockID change = eb_ID b") (auto split: option.splits)
    qed
  qed simp
  from this [of states] have "case gm_get (completedBlockTexts states) (eb_ID b) of
      Some t \<Rightarrow> \<exists>(i, r) \<in> set states. \<exists>change. ce_EntryContentChange r = Some change \<and> ec_BlockID change = eb_ID b \<and>
        t = ec_CompletedText change
    | None \<Rightarrow> \<not> (\<exists>(i, r) \<in> set states. \<exists>change. ce_EntryContentChange r = Some change \<and> ec_BlockID change = eb_ID b)"
    by (simp add: completedBlockTexts_def step_def)
  then show ?thesis unfolding blockShows_def by (cases "gm_get (completedBlockTexts states) (eb_ID b)") fastforce+
qed

lemma effective_publishes: "publishedNode states n (applyEffectiveContentStates states (completedBlockTexts states) n)"
proof (cases n)
  case (ContentNode i t nm kids tx desc blocks sc tt ex)
  have "list_all2 (blockShows states) bs
      (map (\<lambda>b. case gm_get (completedBlockTexts states) (eb_ID b) of Some t \<Rightarrow> t | None \<Rightarrow> eb_InitialText b) bs)" for bs
    by (simp add: list_all2_map2 list_all2_same completedBlockTexts_shows)
  then have "\<exists>texts. list_all2 (blockShows states) bs texts \<and> blockTexts (completedBlockTexts states) bs = join [CHR 0x0A, CHR 0x0A] texts"
    for bs unfolding blockTexts_def by blast
  then show ?thesis
    by (auto simp: publishedNode_def ContentNode cn_kids_def cn_block_list_def split: option.split list.split)
qed

lemma effective_tree_nodes:
  "tree_nodes (applyEffectiveContentStates states completed n) = map (applyEffectiveContentStates states completed) (tree_nodes n)"
proof (induction n rule: tree_nodes.induct)
  case (1 n)
  have "cn_kids (applyEffectiveContentStates states completed n) = map (applyEffectiveContentStates states completed) (cn_kids n)"
    by (cases n) (simp add: cn_kids_def split: option.split)
  with 1 show ?case
    by (subst (1 2) tree_nodes.simps) (simp add: map_concat comp_def cong: map_cong)
qed

text \<open>C23: The published content is the authored tree with the durable results written in, node by node. The same
  positions are valid in it; every node keeps its identity, its type, its children, its blocks and what it does;
  exactly a completed command shows its frozen name and result, an entry with blocks shows for each block the text
  of a durable result that changes it or else what was authored, and every other name, text and description is
  the authored one.\<close>

theorem live_effective_tree:
  "nav_wf (effectiveTree tree states) st = nav_wf tree st \<and>
   list_all2 (publishedNode states) (tree_nodes tree) (tree_nodes (effectiveTree tree states))"
  by (simp add: effective_nav_wf) (simp add: effectiveTree_def effective_tree_nodes list_all2_map2 list_all2_same effective_publishes)

end
