(* ===== verification/ControlState.thy ===== *)
theory ControlState
  imports TerminalGroups LiveInv
begin

text \<open>
  The session coordinator, \<open>internal/control/service.go\<close>, first part: the collaborators it is built with,
  the effects and audit events a transition publishes, the projections of the process runtime, and
  the small queries on broadcasts, sessions and routes that the operations share.  The state is the
  record \<open>ProcessRuntime\<close>; collaborators with effects (identifiers, gameplay, stores) act on a
  world \<open>'w\<close> through the state monad, and the session catalog reads it.
\<close>

section \<open>Collaborators\<close>

record TerminalGroupSnapshot =
  gsn_ID :: string
  gsn_Name :: string
  gsn_TerminalIDs :: "string list"

record CommandStateMutation =
  cs_Changed :: bool
  cs_Revision :: revision
  cs_Session :: Session

record TerminalGroupMutation =
  gmu_Changed :: bool
  gmu_Revision :: revision
  gmu_Session :: Session

datatype StoreError = StoreError string | StoreRejection string | CommandExecutionPersistenceError

record 'w CommandStateStore =
  css_Execute :: "string \<Rightarrow> string \<Rightarrow> ('w, StoreError + CommandStateMutation) state"
  css_Reset :: "string \<Rightarrow> string \<Rightarrow> ('w, StoreError + CommandStateMutation) state"
  css_ResetTerminal :: "string \<Rightarrow> ('w, StoreError + CommandStateMutation) state"

record 'w TerminalCatalog =
  tc_LookupTerminal :: "'w \<Rightarrow> string \<Rightarrow> TerminalTarget option"
  tc_LookupTransition :: "'w \<Rightarrow> string \<Rightarrow> string \<Rightarrow> TerminalTransitionTarget option"
  tc_LookupGroup :: "('w \<Rightarrow> string \<Rightarrow> TerminalGroupSnapshot option) option"

text \<open>
  The fields of \<open>Service\<close> that never change.  \<open>co_IDTries\<close> bounds the search for an unused identifier;
  a result \<open>None\<close> of an operation is one that has not returned within it.
\<close>

record 'w Coordinator =
  co_NextID :: "('w, string) state"
  co_Actions :: "(TerminalRuntime \<Rightarrow> RuntimeCommand \<Rightarrow> ('w, TerminalRuntime \<times> PublicLiveState option) state) option"
  co_Terminals :: "'w Lifecycle option"
  co_TrustedHack :: "(TerminalRuntime \<Rightarrow> (TerminalRuntime \<times> PublicLiveState) option) option"
  co_RosterSave :: "(PlayerConfigHandle \<Rightarrow> CharacterRosterEntry list \<Rightarrow> ('w, StoreError + PlayerConfigHandle) state) option"
  co_CommandStates :: "'w CommandStateStore option"
  co_GroupStore :: "(TerminalGroup list \<Rightarrow> revision \<Rightarrow> ('w, TerminalGroupMutation \<times> StoreError option) state) option"
  co_Catalog :: "'w TerminalCatalog option"
  co_RequestResultLimit :: nat
  co_Platform :: Platform
  co_IDTries :: nat

definition requirePlayerConfig :: "'w Coordinator \<Rightarrow> bool" where
  "requirePlayerConfig co = (co_RosterSave co \<noteq> None)"

definition defaultRequestResultLimit :: nat where "defaultRequestResultLimit = 256"

definition requestResultLimit :: "int \<Rightarrow> nat" where
  "requestResultLimit limit = (if limit \<le> 0 then defaultRequestResultLimit else nat limit)"

section \<open>Effects and audit events\<close>

record AuditEvent =
  ae_Name :: string
  ae_Decision :: string
  ae_Outcome :: string
  ae_Reason :: string
  ae_SessionID :: LogicalSessionID
  ae_Role :: "PlayerRole option"
  ae_PreviousRole :: "PlayerRole option"
  ae_RequestID :: string
  ae_BroadcastID :: string
  ae_TerminalID :: string
  ae_CommandID :: string
  ae_Mode :: string
  ae_PuzzleID :: string
  ae_PreviousPuzzleID :: string
  ae_HackLevel :: int
  ae_AttemptsMax :: nat
  ae_AttemptsLeft :: nat

definition noAudit :: AuditEvent where
  "noAudit = \<lparr>ae_Name = '''', ae_Decision = '''', ae_Outcome = '''', ae_Reason = '''', ae_SessionID = '''', ae_Role = None,
     ae_PreviousRole = None, ae_RequestID = '''', ae_BroadcastID = '''', ae_TerminalID = '''', ae_CommandID = '''',
     ae_Mode = '''', ae_PuzzleID = '''', ae_PreviousPuzzleID = '''', ae_HackLevel = 0, ae_AttemptsMax = 0, ae_AttemptsLeft = 0\<rparr>"

record Effect =
  ef_Revision :: revision
  ef_SessionID :: LogicalSessionID
  ef_ConnectionID :: ConnectionID
  ef_Master :: "MasterCoordinationState option"
  ef_Player :: "PlayerState option"
  ef_Live :: "PublicLiveState option"
  ef_Hack :: "PublicHackState option"
  ef_TerminalID :: string
  ef_Result :: "ActionResult option"
  ef_ClearLiveTerminal :: bool
  ef_Update :: "CompoundUpdate option"
  ef_Audit :: "AuditEvent list"

definition noEffect :: Effect where
  "noEffect = \<lparr>ef_Revision = 0, ef_SessionID = '''', ef_ConnectionID = '''', ef_Master = None, ef_Player = None, ef_Live = None,
     ef_Hack = None, ef_TerminalID = '''', ef_Result = None, ef_ClearLiveTerminal = False, ef_Update = None, ef_Audit = []\<rparr>"

record transition =
  ch_accepted :: bool
  ch_persist :: bool
  ch_effects :: "Effect list"

definition rejected :: transition where
  "rejected = \<lparr>ch_accepted = False, ch_persist = False, ch_effects = []\<rparr>"

definition audit :: "AuditEvent \<Rightarrow> transition \<Rightarrow> transition" where
  "audit event change =
     (if ae_Name event = '''' then change
      else change\<lparr>ch_effects := ch_effects change @ [noEffect\<lparr>ef_Audit := [event]\<rparr>]\<rparr>)"

definition audit_opt :: "AuditEvent option \<Rightarrow> transition \<Rightarrow> transition" where
  "audit_opt event change = (case event of None \<Rightarrow> change | Some e \<Rightarrow> audit e change)"

definition detachEffect :: "revision \<Rightarrow> Effect \<Rightarrow> Effect" where
  "detachEffect revn effect =
     effect\<lparr>ef_Revision := revn,
       ef_Master := map_option (\<lambda>m. m\<lparr>mc_Revision := revn\<rparr>) (ef_Master effect),
       ef_Player := map_option (\<lambda>p. p\<lparr>ps_Revision := revn\<rparr>) (ef_Player effect),
       ef_Result := map_option (\<lambda>r. if ar_Revision r = 0 then r\<lparr>ar_Revision := revn\<rparr> else r) (ef_Result effect)\<rparr>"

section \<open>Errors\<close>

text \<open>\<open>Failure\<close> carries the fixed part of a message, without the values formatted into it; the other constructors are the sentinel errors of \<open>errors.go\<close> and
  the errors handed on from validators and stores, with the text they are wrapped in.\<close>

datatype ControlError =
  Failure string
| Invalid ValidationError
| InvalidField string Violation
| StoreFailure string StoreError
| ErrCommandExecutionStale
| ErrCommandExecutionPersistence string
| ErrCommandStateStorageUnavailable

section \<open>Sessions, assignments and the controller\<close>

definition newProcessRuntime :: ProcessRuntime where
  "newProcessRuntime =
     \<lparr>pr_Revision = 0, pr_SessionsByID = [], pr_SessionIDByBrowserToken = [], pr_RosterByID = [], pr_RosterOrder = [],
      pr_ActivePlayerConfig = None, pr_Broadcast = None, pr_PendingSwitch = None, pr_PendingCommandExecution = None,
      pr_PendingTerminalNavigation = None, pr_TerminalNavigationNotice = None\<rparr>"

definition sortedSessionIDs :: "ProcessRuntime \<Rightarrow> LogicalSessionID list" where
  "sortedSessionIDs rt = sort (gm_keys (pr_SessionsByID rt))"

definition connected :: "LogicalSession \<Rightarrow> bool" where
  "connected session = (ls_ConnectionIDs session \<noteq> [])"

definition roleForSession :: "LiveBroadcast option \<Rightarrow> LogicalSessionID \<Rightarrow> PlayerRole" where
  "roleForSession broadcast sessionID =
     (case broadcast of
        None \<Rightarrow> PlayerRoleUnassigned
      | Some b \<Rightarrow>
          if \<not> gm_has (lb_AssignmentsBySession b) sessionID then PlayerRoleUnassigned
          else if lb_ControllerSessionID b = Some sessionID then PlayerRoleActive
          else PlayerRoleObserver)"

definition sessionAssigned :: "LiveBroadcast \<Rightarrow> LogicalSessionID \<Rightarrow> bool" where
  "sessionAssigned b sessionID =
     (gm_has (lb_AssignmentsBySession b) sessionID \<or> list_ex (\<lambda>(_, owner). owner = sessionID) (lb_SessionByCharacter b))"

definition characterOwner :: "LiveBroadcast option \<Rightarrow> CharacterID \<Rightarrow> LogicalSessionID option" where
  "characterOwner broadcast characterID =
     (case broadcast of
        None \<Rightarrow> None
      | Some b \<Rightarrow>
          (case gm_get (lb_SessionByCharacter b) characterID of
             Some sessionID \<Rightarrow> Some sessionID
           | None \<Rightarrow> map_option fst (find (\<lambda>(_, c). c = characterID) (lb_AssignmentsBySession b))))"

definition characterClaimed :: "LiveBroadcast option \<Rightarrow> CharacterID \<Rightarrow> bool" where
  "characterClaimed broadcast characterID = (characterOwner broadcast characterID \<noteq> None)"

definition clearControllerIfSession :: "LogicalSessionID \<Rightarrow> LiveBroadcast \<Rightarrow> LiveBroadcast" where
  "clearControllerIfSession sessionID b =
     (if lb_ControllerSessionID b = Some sessionID then b\<lparr>lb_ControllerSessionID := None\<rparr> else b)"

definition assignedCharacter :: "ProcessRuntime \<Rightarrow> LogicalSessionID \<Rightarrow> CharacterRosterEntry option" where
  "assignedCharacter rt sessionID =
     (case pr_Broadcast rt of
        None \<Rightarrow> None
      | Some b \<Rightarrow> Option.bind (gm_get (lb_AssignmentsBySession b) sessionID) (gm_get (pr_RosterByID rt)))"

definition sessionForConnection :: "ProcessRuntime \<Rightarrow> ConnectionID \<Rightarrow> (LogicalSessionID \<times> LogicalSession) option" where
  "sessionForConnection rt connectionID =
     first_some (\<lambda>sessionID.
        (case gm_get (pr_SessionsByID rt) sessionID of
           Some session \<Rightarrow> if gm_has (ls_ConnectionIDs session) connectionID then Some (sessionID, session) else None
         | None \<Rightarrow> None))
       (sortedSessionIDs rt)"

definition setSession :: "LogicalSessionID \<Rightarrow> LogicalSession \<Rightarrow> ProcessRuntime \<Rightarrow> ProcessRuntime" where
  "setSession sessionID session rt = rt\<lparr>pr_SessionsByID := gm_put sessionID session (pr_SessionsByID rt)\<rparr>"

text \<open>A step of \<open>removeConnectionFromOtherSessions\<close>, and whether a session became absent.\<close>

definition dropConnection ::
    "ConnectionID \<Rightarrow> LogicalSessionID \<Rightarrow> LogicalSessionID \<Rightarrow> ProcessRuntime \<times> bool \<Rightarrow> ProcessRuntime \<times> bool" where
  "dropConnection connectionID target sessionID rp =
     (case rp of (rt, changed) \<Rightarrow>
      if sessionID = target then (rt, changed)
      else (case gm_get (pr_SessionsByID rt) sessionID of
          None \<Rightarrow> (rt, changed)
        | Some session \<Rightarrow>
            if \<not> gm_has (ls_ConnectionIDs session) connectionID then (rt, changed)
            else (let left = gm_del connectionID (ls_ConnectionIDs session) in
                  (setSession sessionID (session\<lparr>ls_ConnectionIDs := left\<rparr>) rt, changed \<or> left = []))))"

definition removeConnectionFromOtherSessions ::
    "ProcessRuntime \<Rightarrow> ConnectionID \<Rightarrow> LogicalSessionID \<Rightarrow> ProcessRuntime \<times> bool" where
  "removeConnectionFromOtherSessions rt connectionID target =
     fold (dropConnection connectionID target) (sortedSessionIDs rt) (rt, False)"

definition fallbackName :: "nat \<Rightarrow> string" where
  "fallbackName number = ''PLAYER '' @ dec number"

text \<open>One candidate more than there are sessions is enough.\<close>

definition nextFallbackName :: "ProcessRuntime \<Rightarrow> string option" where
  "nextFallbackName rt =
     first_free (Suc (length (pr_SessionsByID rt))) 1 fallbackName
       (\<lambda>candidate. candidate \<in> set (map (\<lambda>(_, session). ls_FallbackName session) (pr_SessionsByID rt)))"

definition validatedCoordinationName :: "string \<Rightarrow> string \<Rightarrow> ControlError + string" where
  "validatedCoordinationName value label =
     (let v = trim_space value in
      if v = '''' then Inl (InvalidField label MustNotBeBlank)
      else if 80 < rune_count v then Inl (InvalidField label (ExceedsLimit 80))
      else Inr v)"

text \<open>The loop of the identifier sources: draw until the answer is new.\<close>

primrec nextUnused :: "nat \<Rightarrow> ('w, string) state \<Rightarrow> (string \<Rightarrow> bool) \<Rightarrow> ('w, string option) state" where
  "nextUnused 0 draw used = State_Monad.return None"
| "nextUnused (Suc n) draw used =
     do { i \<leftarrow> draw; if i = '''' \<or> used i then nextUnused n draw used else State_Monad.return (Some i) }"

definition nextUniqueSessionID :: "'w Coordinator \<Rightarrow> ProcessRuntime \<Rightarrow> ('w, LogicalSessionID option) state" where
  "nextUniqueSessionID co rt = nextUnused (co_IDTries co) (co_NextID co) (gm_has (pr_SessionsByID rt))"

definition nextUniqueBrowserToken :: "'w Coordinator \<Rightarrow> ProcessRuntime \<Rightarrow> ('w, BrowserToken option) state" where
  "nextUniqueBrowserToken co rt = nextUnused (co_IDTries co) (co_NextID co) (gm_has (pr_SessionIDByBrowserToken rt))"

section \<open>The replay cache\<close>

definition requestResult :: "ProcessRuntime \<Rightarrow> LogicalSessionID \<Rightarrow> RequestID \<Rightarrow> RequestResultRecord option" where
  "requestResult rt sessionID requestID =
     Option.bind (gm_get (pr_SessionsByID rt) sessionID) (\<lambda>session. gm_get (ls_RequestResults session) requestID)"

text \<open>The key to evict: the least, an empty key giving way to any other.\<close>

definition evictKey :: "string list \<Rightarrow> string" where
  "evictKey keys = foldl (\<lambda>evict candidate. if evict = '''' \<or> candidate < evict then candidate else evict) '''' keys"

definition storeRequestResult ::
    "'w Coordinator \<Rightarrow> LogicalSessionID \<Rightarrow> RequestID \<Rightarrow> RequestResultRecord \<Rightarrow> ProcessRuntime \<Rightarrow> ProcessRuntime" where
  "storeRequestResult co sessionID requestID result rt =
     (case gm_get (pr_SessionsByID rt) sessionID of
        None \<Rightarrow> rt
      | Some session \<Rightarrow>
          (let results = ls_RequestResults session;
               room = (if \<not> gm_has results requestID \<and> co_RequestResultLimit co \<le> length results
                       then gm_del (evictKey (gm_keys results)) results else results)
           in setSession sessionID (session\<lparr>ls_RequestResults := gm_put requestID result room\<rparr>) rt))"

definition clearRequestResults :: "ProcessRuntime \<Rightarrow> ProcessRuntime" where
  "clearRequestResults rt =
     rt\<lparr>pr_SessionsByID := gm_map (\<lambda>_ session. session\<lparr>ls_RequestResults := []\<rparr>) (pr_SessionsByID rt)\<rparr>"

end
