(* ===== verification/ControlView.thy ===== *)
theory ControlView
  imports ControlState
begin

text \<open>
  What the coordinator derives from a process runtime: the active terminal and the authored command
  a request selects, the route back through a group, the projections for the Overseer and for every
  player, the replay fingerprints, and the audit events of a transition.
\<close>

section \<open>The active terminal\<close>

definition activeTerminalRuntime :: "LiveBroadcast option \<Rightarrow> TerminalRuntime option" where
  "activeTerminalRuntime broadcast =
     Option.bind broadcast (\<lambda>b. Option.bind (lb_ActiveTerminalID b) (gm_get (lb_TerminalRuntimes b)))"

definition setBroadcast :: "(LiveBroadcast \<Rightarrow> LiveBroadcast) \<Rightarrow> ProcessRuntime \<Rightarrow> ProcessRuntime" where
  "setBroadcast f rt = rt\<lparr>pr_Broadcast := map_option f (pr_Broadcast rt)\<rparr>"

text \<open>The slot of the active terminal is a pointer: writing through it writes the slot.\<close>

definition setActiveTerminal :: "TerminalRuntime \<Rightarrow> LiveBroadcast \<Rightarrow> LiveBroadcast" where
  "setActiveTerminal terminal b =
     (case lb_ActiveTerminalID b of
        None \<Rightarrow> b
      | Some i \<Rightarrow> b\<lparr>lb_TerminalRuntimes := gm_put i terminal (lb_TerminalRuntimes b)\<rparr>)"

definition clearCommandExecutionRuntime :: "ProcessRuntime \<Rightarrow> ProcessRuntime" where
  "clearCommandExecutionRuntime rt =
     setBroadcast (\<lambda>b. b\<lparr>lb_TerminalRuntimes := gm_map (\<lambda>_ st. st\<lparr>tr_CommandExecution := None\<rparr>) (lb_TerminalRuntimes b)\<rparr>)
       (rt\<lparr>pr_PendingCommandExecution := None\<rparr>)"

definition selectedAuthoredCommand :: "TerminalRuntime \<Rightarrow> RuntimeCommand \<Rightarrow> ContentNode option" where
  "selectedAuthoredCommand st command =
     (if rc_Kind command \<noteq> RuntimeCommandNavigate \<or> rc_Action command \<noteq> ''command'' \<or> rc_NodeID command = '''' then None
      else (case ns_Path (tr_Nav st) of
          [] \<Rightarrow> None
        | p # ps \<Rightarrow>
            if p \<noteq> cn_ID (tr_Tree st) then None
            else Option.bind (walkFolders (tr_Tree st) ps) (\<lambda>folder. directChild folder (rc_NodeID command) NodeCommand)))"

definition commandApprovalMode :: "TerminalRuntime option \<Rightarrow> ContentNode option \<Rightarrow> CommandApprovalMode" where
  "commandApprovalMode st command =
     (case command of
        None \<Rightarrow> CommandApprovalModeOrdinary
      | Some c \<Rightarrow>
          if cn_StateChange c = None then CommandApprovalModeOrdinary
          else (case st of
              Some r \<Rightarrow> if gm_has (tr_CommandStates r) (cn_ID c) then CommandApprovalModeCompletedStateChange
                       else CommandApprovalModeStateChange
            | None \<Rightarrow> CommandApprovalModeStateChange))"

definition displayedCommandName :: "TerminalRuntime option \<Rightarrow> ContentNode option \<Rightarrow> string" where
  "displayedCommandName st command =
     (case command of
        None \<Rightarrow> ''''
      | Some c \<Rightarrow>
          (case Option.bind st (\<lambda>r. gm_get (tr_CommandStates r) (cn_ID c)) of
             Some completed \<Rightarrow> ce_CompletedName completed
           | None \<Rightarrow> cn_Name c))"

definition executeCommandQuestion :: string where
  "executeCommandQuestion =
     bytes [208, 146, 209, 139, 208, 191, 208, 190, 208, 187, 208, 189, 208, 184, 209, 130, 209, 140, 32, 208, 186, 208, 190,
       208, 188, 208, 176, 208, 189, 208, 180, 209, 131, 63]"

definition commandConfirmationText :: "ContentNode option \<Rightarrow> string" where
  "commandConfirmationText command =
     (case Option.bind command cn_StateChange of Some sc \<Rightarrow> sc_ConfirmationText sc | None \<Rightarrow> executeCommandQuestion)"

definition currentPendingCommandExecution ::
    "PendingCommandExecution option \<Rightarrow> LiveBroadcast option \<Rightarrow> TerminalRuntime option \<Rightarrow> string \<Rightarrow> bool" where
  "currentPendingCommandExecution pending broadcast terminal requestID =
     (case (pending, broadcast, terminal) of
        (Some p, Some b, Some t) \<Rightarrow>
          pe_RequestID p = requestID \<and> pe_BroadcastID p = lb_ID b \<and> lb_ActiveTerminalID b = Some (pe_TerminalID p) \<and>
          tr_TerminalID t = pe_TerminalID p \<and> tr_Lifecycle t = TerminalLifecycleActive \<and>
          tr_CommandExecution t = Some \<lparr>cx_Phase = CommandExecutionPhasePending, cx_CommandID = pe_CommandID p\<rparr>
      | _ \<Rightarrow> False)"

definition terminalByStableID :: "Session \<Rightarrow> string \<Rightarrow> Terminal option" where
  "terminalByStableID session terminalID = find (\<lambda>t. tm_ID t = terminalID) (se_terminal_list session)"

definition durableCommandStateMatchesAuthored :: "CommandExecutionState \<Rightarrow> ContentNode option \<Rightarrow> bool" where
  "durableCommandStateMatchesAuthored st command =
     (case Option.bind command cn_StateChange of
        None \<Rightarrow> False
      | Some sc \<Rightarrow>
          (case (sc_EntryContentChange sc, ce_EntryContentChange st) of
             (Some authored, Some frozen) \<Rightarrow> ec_BlockID frozen = ec_BlockID authored
           | (None, None) \<Rightarrow> True
           | _ \<Rightarrow> False))"

definition unfinishedTerminalRuntime :: "TerminalRuntime option \<Rightarrow> bool" where
  "unfinishedTerminalRuntime st = activeHackState (Option.bind st tr_Hack)"

section \<open>The route back\<close>

definition clearTerminalNavigationRuntime :: "ProcessRuntime \<Rightarrow> ProcessRuntime \<times> bool" where
  "clearTerminalNavigationRuntime rt =
     (setBroadcast (\<lambda>b. b\<lparr>lb_Route := []\<rparr>)
        (rt\<lparr>pr_PendingTerminalNavigation := None, pr_TerminalNavigationNotice := None\<rparr>),
      pr_PendingTerminalNavigation rt \<noteq> None \<or> pr_TerminalNavigationNotice rt \<noteq> None \<or>
      (case pr_Broadcast rt of Some b \<Rightarrow> lb_Route b \<noteq> [] | None \<Rightarrow> False))"

definition rootReturnRequested :: "TerminalRuntime \<Rightarrow> RuntimeCommand \<Rightarrow> TerminalReturnPoint list \<Rightarrow> bool" where
  "rootReturnRequested terminal command route =
     (rc_Kind command = RuntimeCommandNavigate \<and> rc_Action command = ''back'' \<and> route \<noteq> [] \<and>
      ns_Mode (tr_Nav terminal) = ''list'' \<and> ns_Path (tr_Nav terminal) = [''root''] \<and>
      ns_ViewEntryID (tr_Nav terminal) = None \<and> ns_CommandNodeID (tr_Nav terminal) = None \<and>
      tr_CommandExecution terminal = None)"

definition sameTerminalReturnPoint :: "TerminalReturnPoint \<Rightarrow> TerminalReturnPoint \<Rightarrow> bool" where
  "sameTerminalReturnPoint l r =
     (trp_TerminalID l = trp_TerminalID r \<and> trp_TerminalName l = trp_TerminalName r \<and> trp_FolderID l = trp_FolderID r \<and>
      trp_CommandID l = trp_CommandID r \<and> trp_CommandName l = trp_CommandName r \<and> trp_Origin l = trp_Origin r \<and>
      trp_GroupID l = trp_GroupID r \<and> trp_GroupPosition l = trp_GroupPosition r \<and>
      stringSlicesEqual (trp_AncestorFolderIDs l) (trp_AncestorFolderIDs r))"

definition sameTerminalGroup :: "'w Coordinator \<Rightarrow> 'w \<Rightarrow> string \<Rightarrow> string \<Rightarrow> bool" where
  "sameTerminalGroup co w source target =
     (case Option.bind (co_Catalog co) tc_LookupGroup of
        None \<Rightarrow> True
      | Some lookup \<Rightarrow>
          (case (lookup w source, lookup w target) of
             (Some s, Some t) \<Rightarrow> gsn_ID s \<noteq> '''' \<and> gsn_ID s = gsn_ID t
           | _ \<Rightarrow> False))"

primrec position_of :: "string \<Rightarrow> string list \<Rightarrow> nat option" where
  "position_of x [] = None"
| "position_of x (y # ys) = (if y = x then Some 0 else map_option Suc (position_of x ys))"

text \<open>The points for the members before the initial terminal; \<open>None\<close> when one of them cannot be resolved.\<close>

primrec prefixRoute ::
    "(string \<Rightarrow> TerminalTarget option) \<Rightarrow> string \<Rightarrow> nat \<Rightarrow> string list \<Rightarrow> TerminalReturnPoint list option" where
  "prefixRoute lookup groupID k [] = Some []"
| "prefixRoute lookup groupID k (m # ms) =
     (case lookup m of
        None \<Rightarrow> None
      | Some target \<Rightarrow>
          if ttg_TerminalID target \<noteq> m then None
          else map_option (\<lambda>ps. \<lparr>trp_TerminalID = ttg_TerminalID target, trp_TerminalName = ttg_TerminalName target,
              trp_FolderID = ''root'', trp_AncestorFolderIDs = [], trp_CommandID = '''', trp_CommandName = '''',
              trp_Origin = TerminalReturnInitialPrefix, trp_GroupID = groupID, trp_GroupPosition = k\<rparr> # ps)
            (prefixRoute lookup groupID (Suc k) ms))"

definition establishInitialTerminalRoute :: "'w Coordinator \<Rightarrow> 'w \<Rightarrow> string \<Rightarrow> LiveBroadcast \<Rightarrow> LiveBroadcast" where
  "establishInitialTerminalRoute co w terminalID b =
     (if lb_InitialTerminalEstablished b then b
      else (let b = b\<lparr>lb_InitialTerminalEstablished := True\<rparr> in
        (case co_Catalog co of
           None \<Rightarrow> b
         | Some catalog \<Rightarrow>
           (case Option.bind (tc_LookupGroup catalog) (\<lambda>lookup. lookup w terminalID) of
              None \<Rightarrow> b
            | Some g \<Rightarrow>
                if gsn_ID g = '''' then b
                else (case position_of terminalID (gsn_TerminalIDs g) of
                    None \<Rightarrow> b
                  | Some position \<Rightarrow>
                      (let b' = b\<lparr>lb_InitialTerminalID := terminalID, lb_InitialTerminalGroupID := gsn_ID g,
                            lb_InitialTerminalGroupPosition := position\<rparr> in
                       if position = 0 then b'
                       else (case prefixRoute (tc_LookupTerminal catalog w) (gsn_ID g) 0 (take position (gsn_TerminalIDs g)) of
                           None \<Rightarrow> b
                         | Some route \<Rightarrow> b'\<lparr>lb_Route := route\<rparr>)))))))"

text \<open>The last position of an identity, -1 when it does not occur.\<close>

definition last_position :: "string \<Rightarrow> string list \<Rightarrow> int" where
  "last_position x ys = fold (\<lambda>(i, y) p. if y = x then int i else p) (enumerate 0 ys) (-1)"

definition validTerminalReturnPoint :: "'w Coordinator \<Rightarrow> 'w \<Rightarrow> string \<Rightarrow> TerminalReturnPoint \<Rightarrow> bool" where
  "validTerminalReturnPoint co w source point =
     (if \<not> sameTerminalGroup co w source (trp_TerminalID point) then False
      else if trp_Origin point \<noteq> TerminalReturnInitialPrefix then True
      else (case Option.bind (co_Catalog co) tc_LookupGroup of
          None \<Rightarrow> False
        | Some lookup \<Rightarrow>
            (case (lookup w source, lookup w (trp_TerminalID point)) of
               (Some s, Some t) \<Rightarrow>
                 gsn_ID s \<noteq> '''' \<and> gsn_ID s = gsn_ID t \<and> trp_GroupID point = gsn_ID t \<and>
                 last_position (trp_TerminalID point) (gsn_TerminalIDs t) = int (trp_GroupPosition point) \<and>
                 last_position source (gsn_TerminalIDs t) = last_position (trp_TerminalID point) (gsn_TerminalIDs t) + 1
             | _ \<Rightarrow> False)))"

section \<open>The roster\<close>

definition orderedIDs :: "(CharacterID, CharacterRosterEntry) gomap \<Rightarrow> CharacterID list \<Rightarrow> CharacterID list" where
  "orderedIDs byID order =
     (let ids = candidateOrderLoop (filter (gm_has byID) order) [] in
      ids @ sort (filter (\<lambda>i. i \<notin> set ids) (gm_keys byID)))"

definition orderedRosterIDs :: "ProcessRuntime \<Rightarrow> CharacterID list" where
  "orderedRosterIDs rt = orderedIDs (pr_RosterByID rt) (pr_RosterOrder rt)"

definition rosterEntries ::
    "(CharacterID, CharacterRosterEntry) gomap \<Rightarrow> CharacterID list \<Rightarrow> CharacterRosterEntry list" where
  "rosterEntries byID order = List.map_filter (gm_get byID) (orderedIDs byID order)"

definition zeroConfigHandle :: PlayerConfigHandle where
  "zeroConfigHandle = \<lparr>pcf_Path = '''', pcf_Version = 0, pcf_Name = '''', pcf_ContentDigest = ''''\<rparr>"

definition persistRoster ::
    "'w Coordinator \<Rightarrow> ProcessRuntime \<Rightarrow> (CharacterID, CharacterRosterEntry) gomap \<Rightarrow> CharacterID list \<Rightarrow>
     ('w, ControlError + PlayerConfigHandle) state" where
  "persistRoster co rt byID order =
     (case co_RosterSave co of
        None \<Rightarrow> State_Monad.return (Inr
          (case pr_ActivePlayerConfig rt of None \<Rightarrow> zeroConfigHandle | Some handle \<Rightarrow> handle))
      | Some save \<Rightarrow>
          (case pr_ActivePlayerConfig rt of
             None \<Rightarrow> State_Monad.return (Inl (Failure ''no active player config''))
           | Some handle \<Rightarrow>
               do { r \<leftarrow> save handle (rosterEntries byID order);
                    State_Monad.return (case r of Inl e \<Rightarrow> Inl (StoreFailure '''' e) | Inr h \<Rightarrow> Inr h) }))"

section \<open>Projections\<close>

definition masterRosterEntry :: "LiveBroadcast option \<Rightarrow> CharacterRosterEntry \<Rightarrow> MasterRosterEntry" where
  "masterRosterEntry broadcast c =
     \<lparr>mr_ID = cr_ID c, mr_Name = cr_Name c, mr_Intelligence = cr_Intelligence c,
      mr_HackerPerkAvailable = cr_HackerPerkAvailable c,
      mr_ClaimedBySessionID = Option.bind broadcast (\<lambda>b. gm_get (lb_SessionByCharacter b) (cr_ID c))\<rparr>"

definition playerCharacter :: "CharacterRosterEntry \<Rightarrow> PlayerCharacter" where
  "playerCharacter c = \<lparr>pch_ID = cr_ID c, pch_Name = cr_Name c\<rparr>"

definition masterSessionEntry :: "ProcessRuntime \<Rightarrow> LogicalSession \<Rightarrow> MasterSessionEntry" where
  "masterSessionEntry rt session =
     \<lparr>ms_ID = ls_ID session, ms_FallbackName = ls_FallbackName session, ms_Connected = connected session,
      ms_Character = map_option playerCharacter (assignedCharacter rt (ls_ID session)),
      ms_Role = roleForSession (pr_Broadcast rt) (ls_ID session)\<rparr>"

definition masterSnapshot :: "ProcessRuntime \<Rightarrow> MasterCoordinationState" where
  "masterSnapshot rt =
     \<lparr>mc_Revision = pr_Revision rt,
      mc_PlayerConfig = map_option (\<lambda>h. \<lparr>pm_Status = ''loaded'', pm_Name = pcf_Name h, pm_FilePath = pcf_Path h,
         pm_Version = pcf_Version h\<rparr>) (pr_ActivePlayerConfig rt),
      mc_Roster = map (masterRosterEntry (pr_Broadcast rt)) (List.map_filter (gm_get (pr_RosterByID rt)) (orderedRosterIDs rt)),
      mc_Sessions = map (masterSessionEntry rt) (List.map_filter (gm_get (pr_SessionsByID rt)) (sortedSessionIDs rt)),
      mc_Broadcast = map_option (\<lambda>b. \<lparr>mb_ID = lb_ID b, mb_ControllerSessionID = lb_ControllerSessionID b,
         mb_ActiveTerminalID = lb_ActiveTerminalID b\<rparr>) (pr_Broadcast rt),
      mc_PendingSwitch = map_option (\<lambda>p. \<lparr>mp_SwitchID = sw_ID p, mp_BroadcastID = sw_BroadcastID p,
         mp_SourceTerminalID = sw_SourceTerminalID p, mp_TargetTerminalID = map_option ttg_TerminalID (sw_Target p)\<rparr>)
         (pr_PendingSwitch rt),
      mc_PendingCommandExecution = map_option (\<lambda>p. \<lparr>mpe_RequestID = pe_RequestID p, mpe_BroadcastID = pe_BroadcastID p,
         mpe_TerminalID = pe_TerminalID p, mpe_CommandID = pe_CommandID p, mpe_CommandName = pe_CommandName p,
         mpe_Mode = pe_Mode p, mpe_ConfirmationText = pe_ConfirmationText p\<rparr>) (pr_PendingCommandExecution rt),
      mc_PendingTerminalNavigation = map_option (\<lambda>p. \<lparr>mpn_RequestID = pn_RequestID p, mpn_BroadcastID = pn_BroadcastID p,
         mpn_Direction = pn_Direction p, mpn_SourceTerminalID = pn_SourceTerminalID p,
         mpn_SourceTerminalName = pn_SourceTerminalName p, mpn_CommandID = pn_CommandID p,
         mpn_CommandName = pn_CommandName p, mpn_TargetTerminalID = pn_TargetTerminalID p,
         mpn_TargetTerminalName = pn_TargetTerminalName p,
         mpn_RouteDepth = (case pr_Broadcast rt of None \<Rightarrow> 0 | Some b \<Rightarrow> length (lb_Route b) mod 2 ^ 32)\<rparr>)
         (pr_PendingTerminalNavigation rt),
      mc_TerminalNavigationNotice = map_option (\<lambda>n. \<lparr>mtn_Reason = tn_Reason n, mtn_SourceTerminalID = tn_SourceTerminalID n,
         mtn_CommandID = tn_CommandID n, mtn_TargetTerminalID = tn_TargetTerminalID n\<rparr>) (pr_TerminalNavigationNotice rt)\<rparr>"

definition playerPhase :: "ProcessRuntime \<Rightarrow> LogicalSessionID \<Rightarrow> PlayerPhase" where
  "playerPhase rt sessionID =
     (case pr_Broadcast rt of
        None \<Rightarrow> PlayerPhaseNoBroadcast
      | Some b \<Rightarrow>
          if assignedCharacter rt sessionID = None then PlayerPhaseSelecting
          else if lb_ActiveTerminalID b = None then PlayerPhaseWaiting
          else if roleForSession (Some b) sessionID = PlayerRoleActive then PlayerPhaseControlling
          else PlayerPhaseObserving)"

definition playerRosterEntry :: "LiveBroadcast option \<Rightarrow> CharacterRosterEntry \<Rightarrow> PlayerRosterEntry" where
  "playerRosterEntry broadcast c =
     \<lparr>pre_ID = cr_ID c, pre_Name = cr_Name c,
      pre_Status = (case broadcast of
          Some b \<Rightarrow> if gm_has (lb_SessionByCharacter b) (cr_ID c) then RosterStatusClaimed else RosterStatusAvailable
        | None \<Rightarrow> RosterStatusAvailable)\<rparr>"

definition playerSnapshot :: "ProcessRuntime \<Rightarrow> LogicalSessionID \<Rightarrow> PlayerState option" where
  "playerSnapshot rt sessionID =
     map_option (\<lambda>session.
       \<lparr>ps_Revision = pr_Revision rt, ps_SessionID = ls_ID session, ps_FallbackName = ls_FallbackName session,
        ps_Character = map_option playerCharacter (assignedCharacter rt (ls_ID session)),
        ps_Role = roleForSession (pr_Broadcast rt) (ls_ID session), ps_Phase = playerPhase rt (ls_ID session),
        ps_BroadcastID = (case pr_Broadcast rt of None \<Rightarrow> '''' | Some b \<Rightarrow> lb_ID b),
        ps_ActiveTerminalID = (case Option.bind (pr_Broadcast rt) lb_ActiveTerminalID of None \<Rightarrow> '''' | Some i \<Rightarrow> i),
        ps_Roster = map (playerRosterEntry (pr_Broadcast rt)) (List.map_filter (gm_get (pr_RosterByID rt)) (orderedRosterIDs rt)),
        ps_Notice = ls_Notice session\<rparr>)
       (gm_get (pr_SessionsByID rt) sessionID)"

definition decorateTerminalNavigation :: "ProcessRuntime \<Rightarrow> PublicLiveState \<Rightarrow> PublicLiveState" where
  "decorateTerminalNavigation rt live =
     live\<lparr>pl_TerminalNavigation :=
       (case pr_Broadcast rt of
          None \<Rightarrow> None
        | Some b \<Rightarrow>
            if lb_Route b = [] \<and> pr_PendingTerminalNavigation rt = None then None
            else Some \<lparr>tnp_RouteDepth = length (lb_Route b) mod 2 ^ 32,
              tnp_ReturnTarget = (if lb_Route b = [] then None
                 else Some \<lparr>rt_TerminalID = trp_TerminalID (last (lb_Route b)), rt_TerminalName = trp_TerminalName (last (lb_Route b))\<rparr>),
              tnp_Pending = map_option (\<lambda>p. \<lparr>pnp_Direction = pn_Direction p, pnp_TargetTerminalID = pn_TargetTerminalID p,
                 pnp_TargetTerminalName = pn_TargetTerminalName p\<rparr>) (pr_PendingTerminalNavigation rt)\<rparr>)\<rparr>"

text \<open>Projecting the active terminal may refresh its shared presentation, so the runtime is returned.\<close>

definition projectActiveTerminal :: "'w Coordinator \<Rightarrow> ProcessRuntime \<Rightarrow> ProcessRuntime \<times> PublicLiveState option" where
  "projectActiveTerminal co rt =
     (case (co_Terminals co, activeTerminalRuntime (pr_Broadcast rt)) of
        (Some lifecycle, Some terminal) \<Rightarrow>
          if tr_Lifecycle terminal \<noteq> TerminalLifecycleActive then (rt, None)
          else (case lc_project lifecycle terminal of (terminal', live) \<Rightarrow>
            (setBroadcast (setActiveTerminal terminal') rt, Some (decorateTerminalNavigation rt live)))
      | _ \<Rightarrow> (rt, None))"

definition compoundUpdateLocked ::
    "'w Coordinator \<Rightarrow> ProcessRuntime \<Rightarrow> LogicalSessionID \<Rightarrow> revision \<Rightarrow> ProcessRuntime \<times> CompoundUpdate option" where
  "compoundUpdateLocked co rt sessionID revn =
     (case playerSnapshot rt sessionID of
        None \<Rightarrow> (rt, None)
      | Some player \<Rightarrow>
         (let update = \<lparr>cu_Revision = revn, cu_Player = Some (player\<lparr>ps_Revision := revn\<rparr>), cu_Terminal = None,
                cu_Nav = None, cu_Hack = None\<rparr> in
          (case (co_Terminals co, pr_Broadcast rt) of
             (Some lifecycle, Some b) \<Rightarrow>
               if \<not> sessionAssigned b sessionID then (rt, Some update)
               else (case projectActiveTerminal co rt of
                   (rt', None) \<Rightarrow> (rt', Some (update\<lparr>cu_Terminal := Some \<lparr>tp_Live = None, tp_NoLiveTerminal = True\<rparr>\<rparr>))
                 | (rt', Some live) \<Rightarrow>
                     (rt', Some (update\<lparr>cu_Terminal := Some \<lparr>tp_Live = Some live, tp_NoLiveTerminal = False\<rparr>,
                       cu_Nav := Some (pl_Nav live), cu_Hack := pl_Hack live\<rparr>)))
           | _ \<Rightarrow> (rt, Some update))))"

definition presenceEffects :: "ProcessRuntime \<Rightarrow> Effect list" where
  "presenceEffects rt =
     noEffect\<lparr>ef_Master := Some (masterSnapshot rt)\<rparr> #
     List.map_filter (\<lambda>sessionID. map_option (\<lambda>st. noEffect\<lparr>ef_SessionID := sessionID, ef_Player := Some st\<rparr>)
        (playerSnapshot rt sessionID)) (sortedSessionIDs rt)"

definition stateEffects :: "ProcessRuntime \<Rightarrow> Effect list" where
  "stateEffects rt = presenceEffects rt"

definition appendCurrentTerminalEffect ::
    "'w Coordinator \<Rightarrow> ProcessRuntime \<Rightarrow> Effect list \<Rightarrow> LogicalSessionID \<Rightarrow> ProcessRuntime \<times> Effect list" where
  "appendCurrentTerminalEffect co rt effects sessionID =
     (case projectActiveTerminal co rt of
        (rt', None) \<Rightarrow> (rt', effects)
      | (rt', Some live) \<Rightarrow> (rt', effects @ [noEffect\<lparr>ef_SessionID := sessionID, ef_Live := Some live\<rparr>]))"

end
