(* ===== verification/ControlAudit.thy ===== *)
theory ControlAudit
  imports ControlView
begin

text \<open>
  Requests, results and audit: which player commands are well formed, the fingerprints that identify a
  replayed request, the effects that answer a request, the audit events a transition derives, and
  \<open>commit\<close>, which applies one transition to a working copy of the runtime.
\<close>

section \<open>Requests\<close>

record CharacterSelection =
  sl_ConnectionID :: ConnectionID
  sl_SessionID :: LogicalSessionID
  sl_RequestID :: RequestID
  sl_BroadcastID :: BroadcastID
  sl_CharacterID :: CharacterID
  sl_Fingerprint :: string

definition kindText :: "RuntimeCommandKind \<Rightarrow> string" where
  "kindText k =
     (case k of
        RuntimeCommandSelectCharacter \<Rightarrow> ''select-character'' | RuntimeCommandNavigate \<Rightarrow> ''navigate''
      | RuntimeCommandGuess \<Rightarrow> ''guess'' | RuntimeCommandActivatePattern \<Rightarrow> ''activate-pattern''
      | RuntimeCommandPresentation \<Rightarrow> ''presentation'' | RuntimeCommandOther s \<Rightarrow> s)"

definition presentationText :: "PresentationKind \<Rightarrow> string" where
  "presentationText k =
     (case k of
        PresentationNone \<Rightarrow> ''none'' | PresentationMenu \<Rightarrow> ''menu'' | PresentationPage \<Rightarrow> ''page''
      | PresentationHacking \<Rightarrow> ''hacking'' | PresentationOther s \<Rightarrow> s)"

definition validTarget :: "string \<Rightarrow> bool" where
  "validTarget s = (ValidatePublicField PublicFieldActionTarget s = None)"

definition blank :: "string \<Rightarrow> bool" where
  "blank s = (trim_space s = '''')"

definition validPresentationCommand :: "ControllerTerminalPresentation \<Rightarrow> bool" where
  "validPresentationCommand p =
     (case cp_Kind p of
        PresentationNone \<Rightarrow> cp_TargetID p = '''' \<and> cp_PatternID p = '''' \<and> cp_PageIndex p = 0
      | PresentationMenu \<Rightarrow> validTarget (cp_TargetID p) \<and> cp_PatternID p = '''' \<and> cp_PageIndex p = 0
      | PresentationPage \<Rightarrow> cp_TargetID p = '''' \<and> cp_PatternID p = '''' \<and> cp_PageIndex p \<le> MaxPresentationPageIndex
      | PresentationHacking \<Rightarrow>
          cp_PageIndex p = 0 \<and>
          (cp_TargetID p \<noteq> '''' \<and> cp_PatternID p = '''' \<and> validTarget (cp_TargetID p) \<or>
           cp_PatternID p \<noteq> '''' \<and> cp_TargetID p = '''' \<and> validTarget (cp_PatternID p))
      | PresentationOther _ \<Rightarrow> False)"

definition validRuntimeCommand :: "RuntimeCommand \<Rightarrow> bool" where
  "validRuntimeCommand c =
     (rc_RequestID c \<noteq> '''' \<and> rc_BroadcastID c \<noteq> '''' \<and> \<not> blank (rc_TerminalID c) \<and>
      (case rc_Kind c of
         RuntimeCommandNavigate \<Rightarrow>
           rc_TargetID c = '''' \<and> rc_PatternID c = '''' \<and>
           (if rc_Action c \<in> {''enter'', ''command'', ''entry''} then \<not> blank (rc_NodeID c)
            else rc_Action c = ''back'' \<and> (rc_NodeID c = '''' \<or> \<not> blank (rc_NodeID c)))
       | RuntimeCommandGuess \<Rightarrow>
           \<not> blank (rc_TargetID c) \<and> rc_Action c = '''' \<and> rc_NodeID c = '''' \<and> rc_PatternID c = ''''
       | RuntimeCommandActivatePattern \<Rightarrow>
           \<not> blank (rc_PatternID c) \<and> rc_Action c = '''' \<and> rc_NodeID c = '''' \<and> rc_TargetID c = ''''
       | RuntimeCommandPresentation \<Rightarrow>
           rc_Action c = '''' \<and> rc_NodeID c = '''' \<and> rc_TargetID c = '''' \<and> rc_PatternID c = '''' \<and>
           validTarget (cp_ContextKey (rc_Presentation c)) \<and> validPresentationCommand (rc_Presentation c)
       | _ \<Rightarrow> False))"

definition fingerprintFields :: "string list \<Rightarrow> string" where
  "fingerprintFields fs = concat (map (\<lambda>f. dec (length f) @ '':'' @ f @ '';'') fs)"

definition playerActionFingerprint :: "RuntimeCommand \<Rightarrow> string" where
  "playerActionFingerprint c =
     (if rc_PayloadFingerprint c \<noteq> '''' then rc_PayloadFingerprint c
      else fingerprintFields
        [kindText (rc_Kind c), rc_BroadcastID c, rc_TerminalID c, rc_Action c, rc_NodeID c, rc_TargetID c, rc_PatternID c,
         presentationText (cp_Kind (rc_Presentation c)), cp_ContextKey (rc_Presentation c), cp_TargetID (rc_Presentation c),
         cp_PatternID (rc_Presentation c), dec (unat (cp_PageIndex (rc_Presentation c)))])"

definition selectionFingerprint :: "CharacterSelection \<Rightarrow> string" where
  "selectionFingerprint s =
     (if sl_Fingerprint s \<noteq> '''' then sl_Fingerprint s
      else fingerprintFields [''SelectCharacter'', sl_BroadcastID s, sl_CharacterID s])"

section \<open>Results\<close>

definition rejectedResult :: "RequestID \<Rightarrow> ActionReason \<Rightarrow> revision \<Rightarrow> ActionResult" where
  "rejectedResult requestID reason revn =
     \<lparr>ar_RequestID = requestID, ar_Accepted = False, ar_Reason = reason, ar_Revision = revn\<rparr>"

definition resultEffect :: "ConnectionID \<Rightarrow> LogicalSessionID \<Rightarrow> ActionResult \<Rightarrow> Effect" where
  "resultEffect connectionID sessionID result =
     noEffect\<lparr>ef_ConnectionID := connectionID, ef_SessionID := sessionID, ef_Result := Some result\<rparr>"

definition selectionResultEffects :: "ProcessRuntime \<Rightarrow> CharacterSelection \<Rightarrow> ActionResult \<Rightarrow> Effect list" where
  "selectionResultEffects rt s result =
     (case playerSnapshot rt (sl_SessionID s) of
        Some st \<Rightarrow> [noEffect\<lparr>ef_SessionID := sl_SessionID s, ef_Player := Some st\<rparr>]
      | None \<Rightarrow> []) @ [resultEffect (sl_ConnectionID s) (sl_SessionID s) result]"

definition cacheSelectionRejection ::
    "'w Coordinator \<Rightarrow> ProcessRuntime \<Rightarrow> CharacterSelection \<Rightarrow> ActionResult \<Rightarrow> ProcessRuntime \<times> transition" where
  "cacheSelectionRejection co rt s result =
     (let rt' = storeRequestResult co (sl_SessionID s) (sl_RequestID s)
            \<lparr>rr_Fingerprint = selectionFingerprint s, rr_Result = result\<rparr> rt
      in (rt', \<lparr>ch_accepted = False, ch_persist = True, ch_effects = selectionResultEffects rt' s result\<rparr>))"

section \<open>Audit events of requests\<close>

definition commandOutcomeForReason :: "ActionReason \<Rightarrow> string" where
  "commandOutcomeForReason reason =
     (case reason of
        ActionReasonDuplicate \<Rightarrow> ''duplicate'' | ActionReasonStaleBroadcast \<Rightarrow> ''stale-broadcast''
      | ActionReasonStaleTerminal \<Rightarrow> ''stale-terminal'' | ActionReasonUnassigned \<Rightarrow> ''unassigned''
      | ActionReasonNotController \<Rightarrow> ''not-controller''
      | ActionReasonControllerDisconnected \<Rightarrow> ''controller-disconnected''
      | ActionReasonConflict \<Rightarrow> ''conflict'' | _ \<Rightarrow> ''invalid'')"

definition rejectedHackActionAudit :: "ProcessRuntime \<Rightarrow> LogicalSessionID \<Rightarrow> RuntimeCommand \<Rightarrow> AuditEvent option" where
  "rejectedHackActionAudit rt sessionID c =
     (if rc_Kind c \<noteq> RuntimeCommandGuess \<and> rc_Kind c \<noteq> RuntimeCommandActivatePattern then None
      else (let event = noAudit\<lparr>ae_Name := (if rc_Kind c = RuntimeCommandActivatePattern then ''hack.pattern'' else ''hack.guess''),
              ae_Outcome := ''rejected'', ae_SessionID := sessionID, ae_TerminalID := rc_TerminalID c\<rparr> in
        (case pr_Broadcast rt of
           None \<Rightarrow> Some event
         | Some b \<Rightarrow>
             (let event = event\<lparr>ae_BroadcastID := lb_ID b, ae_Role := Some (roleForSession (Some b) sessionID)\<rparr> in
              Some (case activeTerminalRuntime (Some b) of
                  Some terminal \<Rightarrow>
                    (case tr_Hack terminal of
                       Some h \<Rightarrow> if tr_TerminalID terminal = rc_TerminalID c
                         then event\<lparr>ae_PuzzleID := hs_GenerationID h, ae_AttemptsLeft := hs_AttemptsLeft h\<rparr> else event
                     | None \<Rightarrow> event)
                | None \<Rightarrow> event)))))"

definition commandRequestOutcomeAudit ::
    "ProcessRuntime \<Rightarrow> LogicalSessionID \<Rightarrow> RuntimeCommand \<Rightarrow> string \<Rightarrow> AuditEvent option" where
  "commandRequestOutcomeAudit rt sessionID c outcome =
     (if rc_Kind c \<noteq> RuntimeCommandNavigate \<or> rc_Action c \<noteq> ''command'' \<or> rc_RequestID c = '''' then None
      else (let event = noAudit\<lparr>ae_Name := ''command.request_outcome'', ae_Outcome := outcome,
                ae_RequestID := rc_RequestID c, ae_SessionID := sessionID\<rparr>;
              event = (case pr_Broadcast rt of
                  None \<Rightarrow> event
                | Some b \<Rightarrow> event\<lparr>ae_BroadcastID := lb_ID b, ae_Role := Some (roleForSession (Some b) sessionID)\<rparr>)
            in Some (if validRuntimeCommand c
                then event\<lparr>ae_TerminalID := rc_TerminalID c, ae_CommandID := rc_NodeID c\<rparr> else event)))"

definition cachePlayerActionRejection ::
    "'w Coordinator \<Rightarrow> ConnectionID \<Rightarrow> LogicalSessionID \<Rightarrow> RuntimeCommand \<Rightarrow> ActionResult \<Rightarrow> ProcessRuntime \<Rightarrow>
     ProcessRuntime \<times> transition" where
  "cachePlayerActionRejection co connectionID sessionID c result rt =
     (let rt' = storeRequestResult co sessionID (rc_RequestID c)
            \<lparr>rr_Fingerprint = playerActionFingerprint c, rr_Result = result\<rparr> rt;
          change = \<lparr>ch_accepted = False, ch_persist = True, ch_effects = [resultEffect connectionID sessionID result]\<rparr>;
          change = audit_opt (commandRequestOutcomeAudit rt' sessionID c (commandOutcomeForReason (ar_Reason result))) change;
          change = audit_opt (rejectedHackActionAudit rt' sessionID c) change
      in (rt', change))"

definition decisionText :: "CommandExecutionDecision option \<Rightarrow> string" where
  "decisionText d =
     (case d of
        None \<Rightarrow> '''' | Some CommandExecutionApprove \<Rightarrow> ''approve'' | Some CommandExecutionReject \<Rightarrow> ''reject''
      | Some (CommandExecutionOther s) \<Rightarrow> s)"

definition navigationDecisionText :: "TerminalNavigationDecision option \<Rightarrow> string" where
  "navigationDecisionText d =
     (case d of
        None \<Rightarrow> '''' | Some TerminalNavigationApprove \<Rightarrow> ''approve'' | Some TerminalNavigationReject \<Rightarrow> ''reject''
      | Some (TerminalNavigationOther s) \<Rightarrow> s)"

definition modeText :: "CommandApprovalMode \<Rightarrow> string" where
  "modeText m =
     (case m of
        CommandApprovalModeOrdinary \<Rightarrow> ''ordinary'' | CommandApprovalModeStateChange \<Rightarrow> ''state-change''
      | CommandApprovalModeCompletedStateChange \<Rightarrow> ''completed-state-change'')"

definition normalizedCommandAuditDecision :: "string \<Rightarrow> string" where
  "normalizedCommandAuditDecision decision = (if decision = ''reject'' then ''decline'' else decision)"

definition commandDecisionAudit ::
    "PendingCommandExecution option \<Rightarrow> CommandExecutionDecision option \<Rightarrow> string \<Rightarrow> AuditEvent" where
  "commandDecisionAudit pending decision outcome =
     (let event = noAudit\<lparr>ae_Name := ''command.decision'', ae_Outcome := outcome,
            ae_Decision := normalizedCommandAuditDecision (decisionText decision)\<rparr> in
      (case pending of
         None \<Rightarrow> event
       | Some p \<Rightarrow> event\<lparr>ae_SessionID := pe_ControllerSessionID p, ae_RequestID := pe_RequestID p,
           ae_BroadcastID := pe_BroadcastID p, ae_TerminalID := pe_TerminalID p, ae_CommandID := pe_CommandID p,
           ae_Mode := modeText (pe_Mode p)\<rparr>))"

definition terminalTransitionCommandAudit ::
    "ProcessRuntime \<Rightarrow> PendingTerminalNavigation option \<Rightarrow> string \<Rightarrow> string \<Rightarrow> TerminalNavigationDecision option \<Rightarrow>
     AuditEvent option" where
  "terminalTransitionCommandAudit rt pending name outcome decision =
     (case pending of
        None \<Rightarrow> None
      | Some p \<Rightarrow>
          if pn_Direction p \<noteq> TerminalNavigationForward then None
          else Some (noAudit\<lparr>ae_Name := name, ae_Outcome := outcome,
            ae_Decision := normalizedCommandAuditDecision (navigationDecisionText decision),
            ae_SessionID := pn_ControllerSessionID p, ae_RequestID := pn_RequestID p, ae_BroadcastID := pn_BroadcastID p,
            ae_TerminalID := pn_SourceTerminalID p, ae_CommandID := pn_CommandID p, ae_Mode := ''terminal-transition'',
            ae_Role := map_option (\<lambda>b. roleForSession (Some b) (pn_ControllerSessionID p)) (pr_Broadcast rt)\<rparr>))"

section \<open>Audit events of transitions\<close>

definition supersededCommandAudit :: "ProcessRuntime \<Rightarrow> ProcessRuntime \<Rightarrow> Effect list \<Rightarrow> AuditEvent option" where
  "supersededCommandAudit old new effects =
     (case pr_PendingCommandExecution old of
        None \<Rightarrow> None
      | Some p \<Rightarrow>
          if pr_PendingCommandExecution new \<noteq> None then None
          else if list_ex (\<lambda>e. ae_Name e = ''command.decision'' \<and> ae_RequestID e = pe_RequestID p) (concat (map ef_Audit effects))
          then None
          else Some ((commandDecisionAudit (Some p) None ''superseded'')\<lparr>ae_Name := ''command.request_outcome''\<rparr>))"

definition supersededTerminalTransitionCommandAudit ::
    "ProcessRuntime \<Rightarrow> ProcessRuntime \<Rightarrow> Effect list \<Rightarrow> AuditEvent option" where
  "supersededTerminalTransitionCommandAudit old new effects =
     (case pr_PendingTerminalNavigation old of
        None \<Rightarrow> None
      | Some p \<Rightarrow>
          if pn_Direction p \<noteq> TerminalNavigationForward \<or> pr_PendingTerminalNavigation new \<noteq> None then None
          else if list_ex (\<lambda>e. take 8 (ae_Name e) = ''command.'' \<and> ae_RequestID e = pn_RequestID p) (concat (map ef_Audit effects))
          then None
          else terminalTransitionCommandAudit old (Some p) ''command.request_outcome'' ''superseded'' None)"

definition controllingSessionChanged :: "ProcessRuntime \<Rightarrow> ProcessRuntime \<Rightarrow> bool" where
  "controllingSessionChanged old new =
     (case (Option.bind (pr_Broadcast old) lb_ControllerSessionID, pr_Broadcast new) of
        (Some c, Some b) \<Rightarrow> lb_ControllerSessionID b \<noteq> Some c
      | _ \<Rightarrow> False)"

definition hackLifecycleAudit ::
    "ProcessRuntime \<Rightarrow> TerminalRuntime \<Rightarrow> HackState \<Rightarrow> string \<Rightarrow> string \<Rightarrow> AuditEvent" where
  "hackLifecycleAudit rt terminal h name outcome =
     (let event = noAudit\<lparr>ae_Name := name, ae_Outcome := outcome, ae_TerminalID := tr_TerminalID terminal,
            ae_PuzzleID := hs_GenerationID h, ae_HackLevel := hs_Level h, ae_AttemptsMax := hs_AttemptsMax h,
            ae_AttemptsLeft := hs_AttemptsLeft h\<rparr> in
      (case pr_Broadcast rt of
         None \<Rightarrow> event
       | Some b \<Rightarrow>
           (let event = event\<lparr>ae_BroadcastID := lb_ID b\<rparr> in
            (case lb_ControllerSessionID b of
               None \<Rightarrow> event
             | Some c \<Rightarrow> event\<lparr>ae_SessionID := c, ae_Role := Some (roleForSession (Some b) c)\<rparr>))))"

definition hackInterruptionReason :: "ProcessRuntime \<Rightarrow> ProcessRuntime \<Rightarrow> string \<Rightarrow> string" where
  "hackInterruptionReason old new terminalID =
     (case pr_Broadcast new of
        None \<Rightarrow> ''broadcast-ended''
      | Some b \<Rightarrow>
          if lb_ActiveTerminalID b = None then ''terminal-cleared''
          else (case gm_get (lb_TerminalRuntimes b) terminalID of
              None \<Rightarrow> ''terminal-discarded''
            | Some terminal \<Rightarrow>
                if tr_Lifecycle terminal = TerminalLifecycleSuspended then ''terminal-suspended''
                else if controllingSessionChanged old new then ''controller-unavailable''
                else ''terminal-suspended''))"

definition activePuzzleOf :: "ProcessRuntime \<Rightarrow> (TerminalRuntime \<times> HackState) option" where
  "activePuzzleOf rt =
     Option.bind (activeTerminalRuntime (pr_Broadcast rt)) (\<lambda>t. map_option (\<lambda>h. (t, h)) (tr_Hack t))"

definition interrupted :: "ProcessRuntime \<Rightarrow> ProcessRuntime \<Rightarrow> TerminalRuntime \<Rightarrow> HackState \<Rightarrow> AuditEvent" where
  "interrupted old new terminal h =
     (hackLifecycleAudit old terminal h ''hack.interrupted'' ''interrupted'')
       \<lparr>ae_Reason := hackInterruptionReason old new (tr_TerminalID terminal)\<rparr>"

definition deriveHackLifecycleEvents :: "ProcessRuntime \<Rightarrow> ProcessRuntime \<Rightarrow> AuditEvent list" where
  "deriveHackLifecycleEvents old new =
     (case (activePuzzleOf old, activePuzzleOf new) of
        (Some (t, h), Some (t', h')) \<Rightarrow>
          if tr_TerminalID t \<noteq> tr_TerminalID t'
          then (if activeHackState (Some h) then [interrupted old new t h] else []) @
            [hackLifecycleAudit new t' h' ''hack.started'' ''started'']
          else if hs_GenerationID h \<noteq> hs_GenerationID h'
          then [(hackLifecycleAudit new t' h' ''hack.reset'' ''reset'')\<lparr>ae_PreviousPuzzleID := hs_GenerationID h\<rparr>]
          else if activeHackState (Some h) \<and> activeHackState (Some h') \<and> controllingSessionChanged old new
          then [interrupted old new t h]
          else (if \<not> hs_Solved h \<and> hs_Solved h' then [hackLifecycleAudit new t' h' ''hack.succeeded'' ''succeeded''] else []) @
            (if \<not> hs_Failed h \<and> hs_Failed h' then [hackLifecycleAudit new t' h' ''hack.failed'' ''failed''] else [])
      | (None, Some (t', h')) \<Rightarrow> [hackLifecycleAudit new t' h' ''hack.started'' ''started'']
      | (Some (t, h), None) \<Rightarrow> if activeHackState (Some h) then [interrupted old new t h] else []
      | (None, None) \<Rightarrow> [])"

definition sessionAuditEvents :: "ProcessRuntime \<Rightarrow> ProcessRuntime \<Rightarrow> LogicalSessionID \<Rightarrow> AuditEvent list" where
  "sessionAuditEvents old new sessionID =
     (let previous = gm_get (pr_SessionsByID old) sessionID;
          wasConnected = (case previous of Some s \<Rightarrow> connected s | None \<Rightarrow> False);
          isConnected = (case gm_get (pr_SessionsByID new) sessionID of Some s \<Rightarrow> connected s | None \<Rightarrow> False);
          previousRole = roleForSession (pr_Broadcast old) sessionID;
          role = roleForSession (pr_Broadcast new) sessionID
      in (if \<not> wasConnected \<and> isConnected
          then [noAudit\<lparr>ae_Name := ''player.connected'', ae_Outcome := ''connected'', ae_SessionID := sessionID,
             ae_Role := Some role\<rparr>] else []) @
         (if wasConnected \<and> \<not> isConnected
          then [noAudit\<lparr>ae_Name := ''player.disconnected'', ae_Outcome := ''disconnected'', ae_SessionID := sessionID,
             ae_Role := Some previousRole\<rparr>] else []) @
         (if isConnected \<and> previous \<noteq> None \<and> previousRole \<noteq> role
          then [noAudit\<lparr>ae_Name := ''player.role_changed'', ae_Outcome := ''selected'', ae_SessionID := sessionID,
             ae_Role := Some role, ae_PreviousRole := Some previousRole\<rparr>] else []))"

definition deriveAuditEvents :: "ProcessRuntime \<Rightarrow> ProcessRuntime \<Rightarrow> AuditEvent list" where
  "deriveAuditEvents old new =
     concat (map (sessionAuditEvents old new) (sortedSessionIDs new)) @ deriveHackLifecycleEvents old new"

definition hackActionAudit ::
    "ProcessRuntime \<Rightarrow> LogicalSessionID \<Rightarrow> RuntimeCommand \<Rightarrow> HackState option \<Rightarrow> HackState option \<Rightarrow> AuditEvent" where
  "hackActionAudit rt sessionID c old new =
     (let pattern = (rc_Kind c = RuntimeCommandActivatePattern);
          event = noAudit\<lparr>ae_Name := (if pattern then ''hack.pattern'' else ''hack.guess''), ae_SessionID := sessionID,
            ae_Role := Some (roleForSession (pr_Broadcast rt) sessionID), ae_TerminalID := rc_TerminalID c,
            ae_BroadcastID := (case pr_Broadcast rt of None \<Rightarrow> '''' | Some b \<Rightarrow> lb_ID b)\<rparr>;
          event = (case old of None \<Rightarrow> event
            | Some h \<Rightarrow> event\<lparr>ae_PuzzleID := hs_GenerationID h, ae_AttemptsLeft := hs_AttemptsLeft h\<rparr>);
          event = (case new of None \<Rightarrow> event
            | Some h \<Rightarrow> event\<lparr>ae_PuzzleID := hs_GenerationID h, ae_AttemptsLeft := hs_AttemptsLeft h\<rparr>)
      in event\<lparr>ae_Outcome :=
           (if pattern then
              (case (old, new) of
                 (Some h, Some h') \<Rightarrow> if length (hs_WordsByID h') < length (hs_WordsByID h) then ''dud-removed''
                                     else ''attempts-replenished''
               | _ \<Rightarrow> ''attempts-replenished'')
            else (case new of
                None \<Rightarrow> ''rejected''
              | Some h \<Rightarrow> if hs_Solved h then ''succeeded'' else if hs_Failed h then ''failed'' else ''mismatch''))\<rparr>)"

section \<open>Committing a transition\<close>

record 'a Committed =
  cm_Runtime :: ProcessRuntime
  cm_Published :: "Effect list"
  cm_Accepted :: bool
  cm_Revision :: revision
  cm_Value :: 'a

definition publishUpdate ::
    "'w Coordinator \<Rightarrow> revision \<Rightarrow> LogicalSessionID \<Rightarrow> ProcessRuntime \<times> Effect list \<Rightarrow> ProcessRuntime \<times> Effect list" where
  "publishUpdate co revn sessionID re =
     (case re of (rt, published) \<Rightarrow>
      (case compoundUpdateLocked co rt sessionID revn of
         (rt', None) \<Rightarrow> (rt', published)
       | (rt', Some update) \<Rightarrow>
           (rt', published @ [detachEffect revn (noEffect\<lparr>ef_SessionID := sessionID, ef_Update := Some update\<rparr>)])))"

text \<open>
  \<open>commit before (working, change, value)\<close>: install the working copy when the change is accepted, with the
  next revision and the derived audit events; install it under the same revision when only the replay
  cache is to be kept; leave the runtime alone otherwise.  Then publish.
\<close>

definition commit :: "'w Coordinator \<Rightarrow> ProcessRuntime \<Rightarrow> ProcessRuntime \<times> transition \<times> 'a \<Rightarrow> 'a Committed" where
  "commit co old r =
     (case r of (working, change, v) \<Rightarrow>
      (let accepted = ch_accepted change;
           new = (if accepted then working\<lparr>pr_Revision := pr_Revision old + 1\<rparr>
                  else if ch_persist change then working\<lparr>pr_Revision := pr_Revision old\<rparr> else old);
           change1 = (if accepted then fold audit (deriveAuditEvents old new) change else change);
           change2 = (if accepted then audit_opt (supersededCommandAudit old new (ch_effects change1)) change1 else change1);
           change3 = (if accepted then audit_opt (supersededTerminalTransitionCommandAudit old new (ch_effects change2)) change2
                      else change2);
           revn = pr_Revision new;
           published = map (detachEffect revn) (ch_effects change3)
       in (case (if accepted then fold (publishUpdate co revn) (sortedSessionIDs new) (new, published) else (new, published)) of
             (rt, out) \<Rightarrow> \<lparr>cm_Runtime = rt, cm_Published = out, cm_Accepted = accepted, cm_Revision = revn, cm_Value = v\<rparr>)))"

end
