(* ===== verification/ControlSessions.thy ===== *)
theory ControlSessions
  imports ControlAudit
begin

text \<open>
  Operations of the coordinator on players: the authored roster, logical sessions and their
  connections, character claims, and the controller.  Each operation builds a transition on a working
  copy of the runtime and commits it.
\<close>

section \<open>Operations that answer with the Overseer's projection\<close>

type_synonym MasterResult = "(MasterCoordinationState \<times> ControlError option) Committed"

text \<open>The outcome of a transition body: the working copy, the change, and the error if there is one.\<close>

type_synonym Attempt = "ProcessRuntime \<times> transition \<times> ControlError option"

definition fail :: "string \<Rightarrow> ProcessRuntime \<Rightarrow> Attempt" where
  "fail message rt = (rt, rejected, Some (Failure message))"

definition unchanged :: "ProcessRuntime \<Rightarrow> Attempt" where
  "unchanged rt = (rt, rejected, None)"

definition accept :: "ProcessRuntime \<Rightarrow> Attempt" where
  "accept rt = (rt, \<lparr>ch_accepted = True, ch_persist = False, ch_effects = stateEffects rt\<rparr>, None)"

definition commitState :: "'w Coordinator \<Rightarrow> ProcessRuntime \<Rightarrow> Attempt \<Rightarrow> MasterResult" where
  "commitState co old attempt =
     (case attempt of (working, change, err) \<Rightarrow>
      (let c = commit co old (working, change, ()) in
       \<lparr>cm_Runtime = cm_Runtime c, cm_Published = cm_Published c, cm_Accepted = cm_Accepted c, cm_Revision = cm_Revision c,
        cm_Value = ((masterSnapshot working)\<lparr>mc_Revision := cm_Revision c\<rparr>, err)\<rparr>))"

text \<open>An operation refused before its transaction starts.\<close>

definition refuse :: "ProcessRuntime \<Rightarrow> ControlError \<Rightarrow> MasterResult" where
  "refuse rt err =
     \<lparr>cm_Runtime = rt, cm_Published = [], cm_Accepted = False, cm_Revision = pr_Revision rt,
      cm_Value = (masterSnapshot rt, Some err)\<rparr>"

section \<open>Queries\<close>

definition ResolveRecognition :: "ProcessRuntime \<Rightarrow> BrowserToken \<Rightarrow> LogicalSessionID option" where
  "ResolveRecognition rt handle =
     (if handle = '''' then None
      else (case gm_get (pr_SessionIDByBrowserToken rt) handle of
          None \<Rightarrow> None
        | Some sessionID \<Rightarrow> if gm_has (pr_SessionsByID rt) sessionID then Some sessionID else None))"

definition ResolveConnection :: "ProcessRuntime \<Rightarrow> ConnectionID \<Rightarrow> LogicalSessionID option" where
  "ResolveConnection rt connectionID =
     (if connectionID = '''' then None else map_option fst (sessionForConnection rt connectionID))"

definition ActiveStreamCount :: "ProcessRuntime \<Rightarrow> nat" where
  "ActiveStreamCount rt = sum_list (map (\<lambda>(_, session). length (ls_ConnectionIDs session)) (pr_SessionsByID rt))"

definition Snapshot :: "ProcessRuntime \<Rightarrow> MasterCoordinationState" where
  "Snapshot rt = masterSnapshot rt"

definition PlayerSnapshot :: "ProcessRuntime \<Rightarrow> LogicalSessionID \<Rightarrow> PlayerState option" where
  "PlayerSnapshot rt sessionID = playerSnapshot rt sessionID"

text \<open>Under the read lock the projection still refreshes the shared presentation of the checkpoint.\<close>

definition CurrentLiveForSession ::
    "'w Coordinator \<Rightarrow> ProcessRuntime \<Rightarrow> LogicalSessionID \<Rightarrow> ProcessRuntime \<times> PublicLiveState option \<times> revision" where
  "CurrentLiveForSession co rt sessionID =
     (case pr_Broadcast rt of
        None \<Rightarrow> (rt, None, pr_Revision rt)
      | Some b \<Rightarrow>
          if co_Terminals co = None \<or> \<not> sessionAssigned b sessionID then (rt, None, pr_Revision rt)
          else (case projectActiveTerminal co rt of (rt', live) \<Rightarrow> (rt', live, pr_Revision rt)))"

section \<open>The authored roster\<close>

definition InstallPlayerConfig ::
    "'w Coordinator \<Rightarrow> ProcessRuntime \<Rightarrow> PlayerConfigHandle \<Rightarrow> CharacterRosterEntry list option \<Rightarrow> MasterResult" where
  "InstallPlayerConfig co rt handle roster =
     (if blank (pcf_Path handle) then refuse rt (Failure ''player config path must not be blank'')
      else (case ValidatePlayerConfig \<lparr>pc_Version = pcf_Version handle, pc_Name = pcf_Name handle, pc_Roster = roster\<rparr> of
          Some e \<Rightarrow> refuse rt (Invalid e)
        | None \<Rightarrow> commitState co rt
            (if pr_Broadcast rt \<noteq> None then fail ''player config cannot change during a broadcast'' rt
             else (let entries = (case roster of None \<Rightarrow> [] | Some es \<Rightarrow> es) in
               accept (rt\<lparr>pr_RosterByID := fold (\<lambda>e. gm_put (cr_ID e) e) entries [],
                 pr_RosterOrder := map cr_ID entries, pr_ActivePlayerConfig := Some handle\<rparr>)))))"

definition ClearPlayerConfig :: "'w Coordinator \<Rightarrow> ProcessRuntime \<Rightarrow> MasterResult" where
  "ClearPlayerConfig co rt =
     commitState co rt
       (if pr_Broadcast rt \<noteq> None then fail ''player config cannot change during a broadcast'' rt
        else accept (rt\<lparr>pr_ActivePlayerConfig := None, pr_RosterByID := [], pr_RosterOrder := []\<rparr>))"

text \<open>The guards shared by the three roster edits; \<open>None\<close> lets the edit go on.\<close>

definition rosterGuard :: "'w Coordinator \<Rightarrow> ProcessRuntime \<Rightarrow> revision \<Rightarrow> string option" where
  "rosterGuard co rt expected =
     (if expected \<noteq> pr_Revision rt then Some ''coordination revision is stale''
      else if requirePlayerConfig co \<and> pr_ActivePlayerConfig rt = None then Some ''select or create a player config first''
      else if pr_Broadcast rt \<noteq> None then Some ''player roster cannot change during a broadcast''
      else None)"

text \<open>Persist the candidate roster, then install the edited one.\<close>

definition replaceRoster ::
    "'w Coordinator \<Rightarrow> ProcessRuntime \<Rightarrow> (CharacterID, CharacterRosterEntry) gomap \<Rightarrow>
     (CharacterID, CharacterRosterEntry) gomap \<Rightarrow> CharacterID list \<Rightarrow> ('w, Attempt) state" where
  "replaceRoster co rt byID installed order =
     do { saved \<leftarrow> persistRoster co rt byID order;
          State_Monad.return
            (case saved of
               Inl e \<Rightarrow> (rt, rejected, Some (case e of StoreFailure _ s \<Rightarrow> StoreFailure ''could not save player config'' s | e \<Rightarrow> e))
             | Inr handle \<Rightarrow>
                 accept (rt\<lparr>pr_ActivePlayerConfig := map_option (\<lambda>_. handle) (pr_ActivePlayerConfig rt),
                   pr_RosterByID := installed, pr_RosterOrder := order\<rparr>)) }"

definition AddCharacter :: "'w Coordinator \<Rightarrow> ProcessRuntime \<Rightarrow> CharacterCreatePayload \<Rightarrow> ('w, MasterResult) state" where
  "AddCharacter co rt payload =
     (case ValidateCharacterName (ccp_Name payload) of
        Inl e \<Rightarrow> State_Monad.return (refuse rt (InvalidField ''name'' e))
      | Inr name \<Rightarrow>
         (case ValidateCharacterIntelligence (ccp_Intelligence payload) of
            Some e \<Rightarrow> State_Monad.return (refuse rt (InvalidField ''intelligence'' e))
          | None \<Rightarrow>
             (case rosterGuard co rt (ccp_ExpectedRevision payload) of
                Some message \<Rightarrow> State_Monad.return (commitState co rt (fail message rt))
              | None \<Rightarrow>
                  do { characterID \<leftarrow> co_NextID co;
                       attempt \<leftarrow> (let byID = gm_put characterID
                           \<lparr>cr_ID = characterID, cr_Name = name, cr_Intelligence = ccp_Intelligence payload,
                            cr_HackerPerkAvailable = ccp_HackerPerkAvailable payload\<rparr> (pr_RosterByID rt)
                         in replaceRoster co rt byID byID (pr_RosterOrder rt @ [characterID]));
                       State_Monad.return (commitState co rt attempt) })))"

definition UpdateCharacter :: "'w Coordinator \<Rightarrow> ProcessRuntime \<Rightarrow> CharacterUpdatePayload \<Rightarrow> ('w, MasterResult) state" where
  "UpdateCharacter co rt payload =
     do { attempt \<leftarrow>
            (case rosterGuard co rt (cup_ExpectedRevision payload) of
               Some message \<Rightarrow> State_Monad.return (fail message rt)
             | None \<Rightarrow>
                (case gm_get (pr_RosterByID rt) (cup_CharacterID payload) of
                   None \<Rightarrow> State_Monad.return (fail ''character does not exist'' rt)
                 | Some character \<Rightarrow>
                    (case ValidateCharacterName (cup_Name payload) of
                       Inl e \<Rightarrow> State_Monad.return (rt, rejected, Some (InvalidField ''name'' e))
                     | Inr name \<Rightarrow>
                        (case ValidateCharacterIntelligence (cup_Intelligence payload) of
                           Some e \<Rightarrow> State_Monad.return (rt, rejected, Some (InvalidField ''intelligence'' e))
                         | None \<Rightarrow>
                             if cr_Name character = name \<and> cr_Intelligence character = cup_Intelligence payload \<and>
                                cr_HackerPerkAvailable character = cup_HackerPerkAvailable payload
                             then State_Monad.return (unchanged rt)
                             else replaceRoster co rt
                               (gm_put (cup_CharacterID payload) \<lparr>cr_ID = cup_CharacterID payload, cr_Name = name,
                                  cr_Intelligence = cup_Intelligence payload,
                                  cr_HackerPerkAvailable = cup_HackerPerkAvailable payload\<rparr> (pr_RosterByID rt))
                               (gm_put (cup_CharacterID payload) (character\<lparr>cr_Name := name,
                                  cr_Intelligence := cup_Intelligence payload,
                                  cr_HackerPerkAvailable := cup_HackerPerkAvailable payload\<rparr>) (pr_RosterByID rt))
                               (pr_RosterOrder rt)))));
          State_Monad.return (commitState co rt attempt) }"

definition DeleteCharacter :: "'w Coordinator \<Rightarrow> ProcessRuntime \<Rightarrow> CharacterDeletePayload \<Rightarrow> ('w, MasterResult) state" where
  "DeleteCharacter co rt payload =
     do { attempt \<leftarrow>
            (case rosterGuard co rt (cdp_ExpectedRevision payload) of
               Some message \<Rightarrow> State_Monad.return (fail message rt)
             | None \<Rightarrow>
                 if \<not> gm_has (pr_RosterByID rt) (cdp_CharacterID payload)
                 then State_Monad.return (fail ''character does not exist'' rt)
                 else replaceRoster co rt (gm_del (cdp_CharacterID payload) (pr_RosterByID rt))
                   (gm_del (cdp_CharacterID payload) (pr_RosterByID rt)) (filter (\<lambda>c. c \<noteq> cdp_CharacterID payload) (pr_RosterOrder rt)));
          State_Monad.return (commitState co rt attempt) }"

section \<open>Logical sessions and connections\<close>

definition RenameLogicalSession :: "'w Coordinator \<Rightarrow> ProcessRuntime \<Rightarrow> LogicalSessionID \<Rightarrow> string \<Rightarrow> MasterResult" where
  "RenameLogicalSession co rt sessionID name =
     (case validatedCoordinationName name ''session fallback name'' of
        Inl e \<Rightarrow> refuse rt e
      | Inr name \<Rightarrow> commitState co rt
          (case gm_get (pr_SessionsByID rt) sessionID of
             None \<Rightarrow> fail ''logical session does not exist'' rt
           | Some session \<Rightarrow>
               if ls_FallbackName session = name then unchanged rt
               else if list_ex (\<lambda>(i, s). i \<noteq> sessionID \<and> ls_FallbackName s = name) (pr_SessionsByID rt)
               then fail ''session fallback name is already in use'' rt
               else accept (setSession sessionID (session\<lparr>ls_FallbackName := name\<rparr>) rt)))"

definition subscriptionSnapshot ::
    "'w Coordinator \<Rightarrow> ProcessRuntime \<Rightarrow> LogicalSessionID \<Rightarrow> BrowserToken \<Rightarrow> ProcessRuntime \<times> PersonalizedSnapshot option" where
  "subscriptionSnapshot co rt sessionID handle =
     (case playerSnapshot rt sessionID of
        None \<Rightarrow> (rt, None)
      | Some player \<Rightarrow>
         (case (case pr_Broadcast rt of
                  Some b \<Rightarrow> if sessionAssigned b sessionID then projectActiveTerminal co rt else (rt, None)
                | None \<Rightarrow> (rt, None)) of
            (rt', live) \<Rightarrow>
              (rt', Some \<lparr>sn_RecognitionHandle = handle, sn_Revision = pr_Revision rt, sn_PlayerState = Some player,
                 sn_Terminal = \<lparr>tp_Live = live, tp_NoLiveTerminal = (live = None)\<rparr>\<rparr>)))"

text \<open>The snapshot handed to the registration callback and returned carries the committed revision.\<close>

definition stampSnapshot :: "PersonalizedSnapshot option Committed \<Rightarrow> (ControlError + PersonalizedSnapshot) Committed" where
  "stampSnapshot c =
     \<lparr>cm_Runtime = cm_Runtime c, cm_Published = cm_Published c, cm_Accepted = cm_Accepted c, cm_Revision = cm_Revision c,
      cm_Value = (case cm_Value c of
         None \<Rightarrow> Inl (Failure ''could not capture subscription snapshot'')
       | Some s \<Rightarrow> Inr (s\<lparr>sn_Revision := cm_Revision c,
           sn_PlayerState := map_option (\<lambda>p. p\<lparr>ps_Revision := cm_Revision c\<rparr>) (sn_PlayerState s)\<rparr>))\<rparr>"

text \<open>A browser that is not recognized gets a new logical session, unless no new identifier is found.\<close>

definition openSession ::
    "ConnectionID \<Rightarrow> LogicalSessionID \<Rightarrow> BrowserToken \<Rightarrow> string \<Rightarrow> ProcessRuntime \<Rightarrow> ProcessRuntime" where
  "openSession connectionID sessionID token name rt =
     (let session = \<lparr>ls_ID = sessionID, ls_FallbackName = name, ls_ConnectionIDs = [(connectionID, ())],
            ls_RequestResults = [], ls_Notice = None\<rparr>
      in (setSession sessionID session rt)
           \<lparr>pr_SessionIDByBrowserToken := gm_put token sessionID (pr_SessionIDByBrowserToken rt)\<rparr>)"

definition newSubscription ::
    "'w Coordinator \<Rightarrow> ProcessRuntime \<Rightarrow> ConnectionID \<Rightarrow> ('w, (ProcessRuntime \<times> transition \<times> PersonalizedSnapshot option) option) state" where
  "newSubscription co rt connectionID =
     do { newID \<leftarrow> nextUniqueSessionID co rt;
          newToken \<leftarrow> (case newID of None \<Rightarrow> State_Monad.return None | Some _ \<Rightarrow> nextUniqueBrowserToken co rt);
          State_Monad.return
            (case (newID, newToken) of
               (Some sessionID, Some token) \<Rightarrow>
                 (let rt1 = fst (removeConnectionFromOtherSessions rt connectionID sessionID) in
                  map_option (\<lambda>name.
                    (case subscriptionSnapshot co (openSession connectionID sessionID token name rt1) sessionID token of
                       (rt2, snapshot) \<Rightarrow>
                         (rt2, \<lparr>ch_accepted = True, ch_persist = False, ch_effects = presenceEffects rt2\<rparr>, snapshot)))
                    (nextFallbackName rt1))
             | _ \<Rightarrow> None) }"

definition knownSubscription ::
    "'w Coordinator \<Rightarrow> ProcessRuntime \<Rightarrow> ConnectionID \<Rightarrow> LogicalSessionID \<Rightarrow> LogicalSession \<Rightarrow> BrowserToken \<Rightarrow>
     ProcessRuntime \<times> transition \<times> PersonalizedSnapshot option" where
  "knownSubscription co rt connectionID sessionID session token =
     (if gm_has (ls_ConnectionIDs session) connectionID
      then (case subscriptionSnapshot co rt sessionID token of (rt', snapshot) \<Rightarrow> (rt', rejected, snapshot))
      else (case removeConnectionFromOtherSessions rt connectionID sessionID of (rt1, otherChanged) \<Rightarrow>
        (let rt2 = setSession sessionID (session\<lparr>ls_ConnectionIDs := gm_put connectionID () (ls_ConnectionIDs session)\<rparr>) rt1
         in (case subscriptionSnapshot co rt2 sessionID token of (rt3, snapshot) \<Rightarrow>
              (rt3, \<lparr>ch_accepted = True, ch_persist = False,
                 ch_effects = (if \<not> connected session \<or> otherChanged then presenceEffects rt3 else [])\<rparr>, snapshot)))))"

definition AttachSubscriptionAndRegister ::
    "'w Coordinator \<Rightarrow> ProcessRuntime \<Rightarrow> ConnectionID \<Rightarrow> BrowserToken option \<Rightarrow>
     ('w, (ControlError + PersonalizedSnapshot) Committed option) state" where
  "AttachSubscriptionAndRegister co rt connectionID handle =
     (if connectionID = ''''
      then State_Monad.return (Some \<lparr>cm_Runtime = rt, cm_Published = [], cm_Accepted = False, cm_Revision = pr_Revision rt,
             cm_Value = Inl (Failure ''physical stream ID must not be blank'')\<rparr>)
      else (let token = (case handle of None \<Rightarrow> '''' | Some h \<Rightarrow> h);
                session = (case gm_get (pr_SessionIDByBrowserToken rt) token of
                    None \<Rightarrow> None
                  | Some i \<Rightarrow> map_option (\<lambda>s. (i, s)) (gm_get (pr_SessionsByID rt) i))
            in (case (if token = '''' then None else session) of
                None \<Rightarrow> do { r \<leftarrow> newSubscription co rt connectionID;
                            State_Monad.return (map_option (\<lambda>x. stampSnapshot (commit co rt x)) r) }
              | Some (sessionID, s) \<Rightarrow>
                  State_Monad.return (Some (stampSnapshot (commit co rt (knownSubscription co rt connectionID sessionID s token)))))))"

definition DetachConnection :: "'w Coordinator \<Rightarrow> ProcessRuntime \<Rightarrow> ConnectionID \<Rightarrow> unit Committed" where
  "DetachConnection co rt connectionID =
     (if connectionID = ''''
      then \<lparr>cm_Runtime = rt, cm_Published = [], cm_Accepted = False, cm_Revision = pr_Revision rt, cm_Value = ()\<rparr>
      else commit co rt
        (case sessionForConnection rt connectionID of
           None \<Rightarrow> (rt, rejected, ())
         | Some (sessionID, session) \<Rightarrow>
             (let rt' = setSession sessionID (session\<lparr>ls_ConnectionIDs := gm_del connectionID (ls_ConnectionIDs session)\<rparr>) rt
              in (rt', \<lparr>ch_accepted = True, ch_persist = False,
                   ch_effects = (if length (ls_ConnectionIDs session) = 1 then presenceEffects rt' else [])\<rparr>, ()))))"

section \<open>Character claims and the controller\<close>

definition claim :: "LogicalSessionID \<Rightarrow> CharacterID \<Rightarrow> LiveBroadcast \<Rightarrow> LiveBroadcast" where
  "claim sessionID characterID b =
     b\<lparr>lb_AssignmentsBySession := gm_put sessionID characterID (lb_AssignmentsBySession b),
       lb_SessionByCharacter := gm_put characterID sessionID (lb_SessionByCharacter b)\<rparr>"

text \<open>A current terminal is published to a session that has just been assigned.\<close>

definition acceptFor :: "'w Coordinator \<Rightarrow> LogicalSessionID \<Rightarrow> Effect list \<Rightarrow> ProcessRuntime \<Rightarrow> ProcessRuntime \<times> transition" where
  "acceptFor co sessionID extra rt =
     (case appendCurrentTerminalEffect co rt (stateEffects rt) sessionID of
        (rt', effects) \<Rightarrow> (rt', \<lparr>ch_accepted = True, ch_persist = False, ch_effects = effects @ extra\<rparr>))"

definition AssignCharacter :: "'w Coordinator \<Rightarrow> ProcessRuntime \<Rightarrow> LogicalSessionID \<Rightarrow> CharacterID \<Rightarrow> MasterResult" where
  "AssignCharacter co rt sessionID characterID =
     commitState co rt
       (case (pr_Broadcast rt, gm_get (pr_SessionsByID rt) sessionID) of
          (None, _) \<Rightarrow> fail ''no broadcast is active'' rt
        | (Some b, None) \<Rightarrow> fail ''logical session does not exist'' rt
        | (Some b, Some session) \<Rightarrow>
            if \<not> gm_has (pr_RosterByID rt) characterID then fail ''character does not exist'' rt
            else if sessionAssigned b sessionID then fail ''logical session already has a character'' rt
            else if characterClaimed (Some b) characterID then fail ''character is currently claimed'' rt
            else (let b1 = claim sessionID characterID b;
                      b2 = (if lb_ControllerSessionID b1 = None \<and> connected session
                            then b1\<lparr>lb_ControllerSessionID := Some sessionID\<rparr> else b1)
                  in (case acceptFor co sessionID [] (rt\<lparr>pr_Broadcast := Some b2\<rparr>) of (rt', change) \<Rightarrow> (rt', change, None))))"

definition ReleaseCharacter :: "'w Coordinator \<Rightarrow> ProcessRuntime \<Rightarrow> LogicalSessionID \<Rightarrow> MasterResult" where
  "ReleaseCharacter co rt sessionID =
     commitState co rt
       (case pr_Broadcast rt of
          None \<Rightarrow> fail ''no broadcast is active'' rt
        | Some b \<Rightarrow>
            if \<not> gm_has (pr_SessionsByID rt) sessionID then fail ''logical session does not exist'' rt
            else (case gm_get (lb_AssignmentsBySession b) sessionID of
                None \<Rightarrow> fail ''logical session has no character'' rt
              | Some characterID \<Rightarrow>
                  accept (rt\<lparr>pr_Broadcast := Some (clearControllerIfSession sessionID
                    (b\<lparr>lb_AssignmentsBySession := gm_del sessionID (lb_AssignmentsBySession b),
                       lb_SessionByCharacter := gm_del characterID (lb_SessionByCharacter b)\<rparr>))\<rparr>)))"

definition MoveCharacter :: "'w Coordinator \<Rightarrow> ProcessRuntime \<Rightarrow> CharacterID \<Rightarrow> LogicalSessionID \<Rightarrow> MasterResult" where
  "MoveCharacter co rt characterID toSessionID =
     commitState co rt
       (case pr_Broadcast rt of
          None \<Rightarrow> fail ''no broadcast is active'' rt
        | Some b \<Rightarrow>
            if \<not> gm_has (pr_RosterByID rt) characterID then fail ''character does not exist'' rt
            else if \<not> gm_has (pr_SessionsByID rt) toSessionID then fail ''logical session does not exist'' rt
            else if sessionAssigned b toSessionID then fail ''logical session already has a character'' rt
            else (let b1 = (case characterOwner (Some b) characterID of
                        None \<Rightarrow> b
                      | Some from \<Rightarrow> clearControllerIfSession from
                          (b\<lparr>lb_AssignmentsBySession := gm_del from (lb_AssignmentsBySession b)\<rparr>))
                  in accept (rt\<lparr>pr_Broadcast := Some (claim toSessionID characterID b1)\<rparr>)))"

definition SetActiveController :: "'w Coordinator \<Rightarrow> ProcessRuntime \<Rightarrow> LogicalSessionID \<Rightarrow> MasterResult" where
  "SetActiveController co rt sessionID =
     commitState co rt
       (case (pr_Broadcast rt, gm_get (pr_SessionsByID rt) sessionID) of
          (None, _) \<Rightarrow> fail ''no broadcast is active'' rt
        | (Some b, None) \<Rightarrow> fail ''logical session does not exist'' rt
        | (Some b, Some session) \<Rightarrow>
            if \<not> sessionAssigned b sessionID then fail ''logical session has no character'' rt
            else if \<not> connected session then fail ''logical session is disconnected'' rt
            else if lb_ControllerSessionID b = Some sessionID then unchanged rt
            else accept (rt\<lparr>pr_Broadcast := Some (b\<lparr>lb_ControllerSessionID := Some sessionID\<rparr>)\<rparr>))"

text \<open>An accepted result carries the committed revision.\<close>

definition stampResult :: "ActionResult Committed \<Rightarrow> ActionResult Committed" where
  "stampResult c =
     (if ar_Accepted (cm_Value c) then c\<lparr>cm_Value := (cm_Value c)\<lparr>ar_Revision := cm_Revision c\<rparr>\<rparr> else c)"

definition selectCharacterTransition ::
    "'w Coordinator \<Rightarrow> ProcessRuntime \<Rightarrow> CharacterSelection \<Rightarrow> ProcessRuntime \<times> transition \<times> ActionResult" where
  "selectCharacterTransition co rt s =
     (let reject = rejectedResult (sl_RequestID s);
          answer = (\<lambda>r. (rt, rejected\<lparr>ch_effects := selectionResultEffects rt s r\<rparr>, r));
          cache = (\<lambda>r. case cacheSelectionRejection co rt s r of (rt', change) \<Rightarrow> (rt', change, r))
      in (case gm_get (pr_SessionsByID rt) (sl_SessionID s) of
        None \<Rightarrow>
          (let r = reject ActionReasonInvalidSession (pr_Revision rt) in
           (rt, rejected\<lparr>ch_effects := [resultEffect (sl_ConnectionID s) (sl_SessionID s) r]\<rparr>, r))
      | Some session \<Rightarrow>
          if sl_RequestID s = '''' then answer (reject ActionReasonInvalidAction (pr_Revision rt))
          else if \<not> connected session then answer (reject ActionReasonInvalidSession (pr_Revision rt))
          else (case requestResult rt (sl_SessionID s) (sl_RequestID s) of
              Some cached \<Rightarrow>
                answer (if rr_Fingerprint cached = selectionFingerprint s then rr_Result cached
                        else reject ActionReasonDuplicate (pr_Revision rt))
            | None \<Rightarrow>
                if sl_CharacterID s = '''' then cache (reject ActionReasonInvalidAction (pr_Revision rt))
                else (case pr_Broadcast rt of
                    None \<Rightarrow> answer (reject ActionReasonStaleBroadcast (pr_Revision rt))
                  | Some b \<Rightarrow>
                      if lb_ID b \<noteq> sl_BroadcastID s then answer (reject ActionReasonStaleBroadcast (pr_Revision rt))
                      else if gm_has (lb_AssignmentsBySession b) (sl_SessionID s) \<or>
                        \<not> gm_has (pr_RosterByID rt) (sl_CharacterID s) \<or> gm_has (lb_SessionByCharacter b) (sl_CharacterID s)
                      then cache (reject ActionReasonConflict (pr_Revision rt))
                      else (let b1 = claim (sl_SessionID s) (sl_CharacterID s) b;
                                b2 = (if lb_ControllerSessionID b1 = None
                                      then b1\<lparr>lb_ControllerSessionID := Some (sl_SessionID s)\<rparr> else b1);
                                r = \<lparr>ar_RequestID = sl_RequestID s, ar_Accepted = True, ar_Reason = ActionReasonAccepted,
                                     ar_Revision = pr_Revision rt + 1\<rparr>;
                                rt1 = storeRequestResult co (sl_SessionID s) (sl_RequestID s)
                                  \<lparr>rr_Fingerprint = selectionFingerprint s, rr_Result = r\<rparr> (rt\<lparr>pr_Broadcast := Some b2\<rparr>)
                            in (case acceptFor co (sl_SessionID s) [resultEffect (sl_ConnectionID s) (sl_SessionID s) r] rt1 of
                                (rt', change) \<Rightarrow> (rt', change, r)))))))"

definition SelectCharacter :: "'w Coordinator \<Rightarrow> ProcessRuntime \<Rightarrow> CharacterSelection \<Rightarrow> ActionResult Committed" where
  "SelectCharacter co rt s = stampResult (commit co rt (selectCharacterTransition co rt s))"

definition SelectCharacterForRecognition ::
    "'w Coordinator \<Rightarrow> ProcessRuntime \<Rightarrow> BrowserToken \<Rightarrow> RequestID \<Rightarrow> BroadcastID \<Rightarrow> CharacterID \<Rightarrow> ActionResult Committed" where
  "SelectCharacterForRecognition co rt handle requestID broadcastID characterID =
     (case ResolveRecognition rt handle of
        None \<Rightarrow> \<lparr>cm_Runtime = rt, cm_Published = [], cm_Accepted = False, cm_Revision = pr_Revision rt,
          cm_Value = rejectedResult requestID ActionReasonInvalidSession (pr_Revision rt)\<rparr>
      | Some sessionID \<Rightarrow> SelectCharacter co rt
          \<lparr>sl_ConnectionID = '''', sl_SessionID = sessionID, sl_RequestID = requestID, sl_BroadcastID = broadcastID,
           sl_CharacterID = characterID, sl_Fingerprint = ''''\<rparr>)"

end
