(* ===== verification/ControlTerminals.thy ===== *)
theory ControlTerminals
  imports ControlSessions
begin

text \<open>
  Operations of the coordinator on terminals: activating, clearing and switching the active terminal,
  deciding a pending command, resetting durable results, and deciding a pending navigation.
\<close>

section \<open>Activating, clearing and switching\<close>

definition setSlot :: "string \<Rightarrow> TerminalRuntime \<Rightarrow> LiveBroadcast \<Rightarrow> LiveBroadcast" where
  "setSlot terminalID terminal b = b\<lparr>lb_TerminalRuntimes := gm_put terminalID terminal (lb_TerminalRuntimes b)\<rparr>"

definition withLifecycle :: "string \<Rightarrow> TerminalLifecycle \<Rightarrow> LiveBroadcast \<Rightarrow> LiveBroadcast" where
  "withLifecycle terminalID l b =
     (case gm_get (lb_TerminalRuntimes b) terminalID of
        None \<Rightarrow> b
      | Some terminal \<Rightarrow> setSlot terminalID (terminal\<lparr>tr_Lifecycle := l\<rparr>) b)"

definition liveEffect :: "PublicLiveState option \<Rightarrow> Effect" where
  "liveEffect live = noEffect\<lparr>ef_Live := live\<rparr>"

definition clearEffect :: Effect where
  "clearEffect = noEffect\<lparr>ef_ClearLiveTerminal := True\<rparr>"

definition acceptWith :: "Effect list \<Rightarrow> ProcessRuntime \<Rightarrow> Attempt" where
  "acceptWith extra rt = (rt, \<lparr>ch_accepted = True, ch_persist = False, ch_effects = stateEffects rt @ extra\<rparr>, None)"

text \<open>The checkpoint of the target: created, reactivated or refreshed.\<close>

definition prepareTarget ::
    "'w Lifecycle \<Rightarrow> TerminalTarget \<Rightarrow> LiveBroadcast \<Rightarrow> ('w, string + (LiveBroadcast \<times> PublicLiveState option)) state" where
  "prepareTarget L target b =
     (let i = ttg_TerminalID target in
      case gm_get (lb_TerminalRuntimes b) i of
        None \<Rightarrow>
          do { r \<leftarrow> lc_create L target;
               State_Monad.return
                 (if tr_TerminalID (fst r) \<noteq> i then Inl ''terminal runtime could not be created''
                  else Inr (setSlot i (fst r) b, Some (snd r))) }
      | Some terminal \<Rightarrow>
          State_Monad.return
            (if tr_Lifecycle terminal = TerminalLifecycleSuspended
             then Inr (case lc_reactivate L terminal target of
                 None \<Rightarrow> (b, None) | Some (terminal', live) \<Rightarrow> (setSlot i terminal' b, Some live))
             else (case lc_update L terminal target of
                 None \<Rightarrow> Inl ''terminal runtime could not be updated''
               | Some (terminal', live) \<Rightarrow> Inr (setSlot i terminal' b, Some live))))"

text \<open>Make a prepared slot the active one; the previous active checkpoint is suspended.\<close>

definition makeActive :: "string \<Rightarrow> LiveBroadcast \<Rightarrow> LiveBroadcast" where
  "makeActive terminalID b =
     (let b1 = (case lb_ActiveTerminalID b of
              Some i \<Rightarrow> if i \<noteq> terminalID then withLifecycle i TerminalLifecycleSuspended b else b
            | None \<Rightarrow> b)
      in (withLifecycle terminalID TerminalLifecycleActive b1)\<lparr>lb_ActiveTerminalID := Some terminalID\<rparr>)"

definition requestSwitch ::
    "'w Coordinator \<Rightarrow> TerminalTarget option \<Rightarrow> LiveBroadcast \<Rightarrow> TerminalRuntime \<Rightarrow> ProcessRuntime \<Rightarrow> ('w, Attempt) state" where
  "requestSwitch co target b source rt =
     do { switchID \<leftarrow> co_NextID co;
          State_Monad.return (accept (rt\<lparr>pr_PendingSwitch := Some \<lparr>sw_ID = switchID, sw_BroadcastID = lb_ID b,
            sw_SourceTerminalID = tr_TerminalID source, sw_Target = target\<rparr>\<rparr>)) }"

definition clearInteraction :: "ProcessRuntime \<Rightarrow> ProcessRuntime" where
  "clearInteraction rt = fst (clearTerminalNavigationRuntime (clearCommandExecutionRuntime rt))"

definition activateWith ::
    "'w Coordinator \<Rightarrow> 'w Lifecycle \<Rightarrow> TerminalTarget \<Rightarrow> LiveBroadcast \<Rightarrow> ProcessRuntime \<Rightarrow> ('w, Attempt) state" where
  "activateWith co L target b rt =
     do { prepared \<leftarrow> prepareTarget L target b;
          w \<leftarrow> State_Monad.get;
          State_Monad.return
            (case prepared of
               Inl message \<Rightarrow> fail message rt
             | Inr (b1, live) \<Rightarrow>
                 acceptWith [liveEffect live]
                   (rt\<lparr>pr_Broadcast := Some (establishInitialTerminalRoute co w (ttg_TerminalID target)
                        (makeActive (ttg_TerminalID target) b1)),
                      pr_PendingSwitch := None\<rparr>)) }"

definition RequestTerminalActivation ::
    "'w Coordinator \<Rightarrow> ProcessRuntime \<Rightarrow> TerminalTarget \<Rightarrow> ('w, MasterResult) state" where
  "RequestTerminalActivation co old target =
     (if blank (ttg_TerminalID target) then State_Monad.return (refuse old (Failure ''terminal ID must not be blank''))
      else do { attempt \<leftarrow>
        (case (pr_Broadcast old, co_Terminals co) of
           (None, _) \<Rightarrow> State_Monad.return (fail ''no broadcast is active'' old)
         | (Some _, None) \<Rightarrow> State_Monad.return (fail ''terminal runtime lifecycle is unavailable'' old)
         | (Some _, Some L) \<Rightarrow>
            (let rt = clearInteraction old in
             case pr_Broadcast rt of
               None \<Rightarrow> State_Monad.return (fail ''no broadcast is active'' old)
             | Some b \<Rightarrow>
                (case activeTerminalRuntime (Some b) of
                   Some source \<Rightarrow>
                     if unfinishedTerminalRuntime (Some source) \<and> tr_TerminalID source \<noteq> ttg_TerminalID target
                     then requestSwitch co (Some target) b source rt
                     else activateWith co L target b rt
                 | None \<Rightarrow> activateWith co L target b rt)));
        State_Monad.return (commitState co old attempt) })"

definition RequestTerminalClear :: "'w Coordinator \<Rightarrow> ProcessRuntime \<Rightarrow> ('w, MasterResult) state" where
  "RequestTerminalClear co old =
     do { attempt \<leftarrow>
        (case pr_Broadcast old of
           None \<Rightarrow> State_Monad.return (fail ''no broadcast is active'' old)
         | Some b0 \<Rightarrow>
            (let rt = clearInteraction old;
                 navigationCleared = snd (clearTerminalNavigationRuntime old);
                 source = activeTerminalRuntime (pr_Broadcast rt)
             in (case source of
                Some terminal \<Rightarrow>
                  if unfinishedTerminalRuntime source then requestSwitch co None b0 terminal rt
                  else State_Monad.return (acceptWith [clearEffect]
                    ((setBroadcast (\<lambda>b. (setActiveTerminal (terminal\<lparr>tr_Lifecycle := TerminalLifecycleSuspended\<rparr>) b)
                        \<lparr>lb_ActiveTerminalID := None\<rparr>) rt)\<lparr>pr_PendingSwitch := None\<rparr>))
              | None \<Rightarrow>
                  State_Monad.return
                    (if lb_ActiveTerminalID b0 = None
                     then (if navigationCleared then accept rt else unchanged rt)
                     else acceptWith [clearEffect]
                       ((setBroadcast (\<lambda>b. b\<lparr>lb_ActiveTerminalID := None\<rparr>) rt)\<lparr>pr_PendingSwitch := None\<rparr>)))));
        State_Monad.return (commitState co old attempt) }"

text \<open>The decision on a pending switch: keep the source checkpoint or drop it, then show the target.\<close>

definition leaveSource :: "'w Lifecycle \<Rightarrow> TerminalSwitchChoice \<Rightarrow> TerminalRuntime \<Rightarrow> LiveBroadcast \<Rightarrow> LiveBroadcast" where
  "leaveSource L choice source b =
     (if choice = TerminalSwitchPreserve then setActiveTerminal (lc_suspend L source) b
      else b\<lparr>lb_TerminalRuntimes := gm_del (tr_TerminalID source) (lb_TerminalRuntimes b)\<rparr>)"

definition switchTo ::
    "'w Lifecycle \<Rightarrow> TerminalTarget \<Rightarrow> LiveBroadcast \<Rightarrow> ('w, (LiveBroadcast \<times> PublicLiveState) option) state" where
  "switchTo L target b =
     (let i = ttg_TerminalID target;
          enter = (\<lambda>terminal. (setSlot i (terminal\<lparr>tr_Lifecycle := TerminalLifecycleActive\<rparr>) b)
            \<lparr>lb_ActiveTerminalID := Some i\<rparr>)
      in (case gm_get (lb_TerminalRuntimes b) i of
        None \<Rightarrow> do { r \<leftarrow> lc_create L target; State_Monad.return (Some (enter (fst r), snd r)) }
      | Some terminal \<Rightarrow>
          State_Monad.return (map_option (\<lambda>(terminal', live). (enter terminal', live)) (lc_reactivate L terminal target))))"

definition resolveSwitchWith ::
    "'w Coordinator \<Rightarrow> ProcessRuntime \<Rightarrow> TerminalSwitchDecision \<Rightarrow> TerminalSwitchChoice \<Rightarrow> LiveBroadcast \<Rightarrow> ('w, Attempt) state" where
  "resolveSwitchWith co rt pending choice b =
     (case co_Terminals co of
        None \<Rightarrow> State_Monad.return (fail ''terminal decision lifecycle is unavailable'' rt)
      | Some L \<Rightarrow>
         (case activeTerminalRuntime (Some b) of
            None \<Rightarrow> State_Monad.return (fail ''terminal switch decision is stale'' rt)
          | Some source \<Rightarrow>
              if tr_TerminalID source \<noteq> sw_SourceTerminalID pending
              then State_Monad.return (fail ''terminal switch decision is stale'' rt)
              else (let b1 = leaveSource L choice source b in
                (case sw_Target pending of
                   None \<Rightarrow> State_Monad.return (acceptWith [clearEffect]
                     (rt\<lparr>pr_Broadcast := Some (b1\<lparr>lb_ActiveTerminalID := None\<rparr>), pr_PendingSwitch := None\<rparr>))
                 | Some target \<Rightarrow>
                     do { r \<leftarrow> switchTo L target b1;
                          State_Monad.return
                            (case r of
                               None \<Rightarrow> fail ''terminal runtime could not be activated'' (rt\<lparr>pr_Broadcast := Some b1\<rparr>)
                             | Some (b2, live) \<Rightarrow> acceptWith [liveEffect (Some live)]
                                 (rt\<lparr>pr_Broadcast := Some b2, pr_PendingSwitch := None\<rparr>)) }))))"

definition ResolveTerminalSwitch ::
    "'w Coordinator \<Rightarrow> ProcessRuntime \<Rightarrow> SwitchID \<Rightarrow> TerminalSwitchChoice \<Rightarrow> ('w, MasterResult) state" where
  "ResolveTerminalSwitch co rt switchID choice =
     (if switchID = '''' then State_Monad.return (refuse rt (Failure ''switch ID must not be blank''))
      else if choice \<notin> {TerminalSwitchPreserve, TerminalSwitchDiscard, TerminalSwitchCancel}
      then State_Monad.return (refuse rt (Failure ''terminal switch decision must be preserve, discard, or cancel''))
      else do { attempt \<leftarrow>
        (case (pr_PendingSwitch rt, pr_Broadcast rt) of
           (Some pending, Some b) \<Rightarrow>
             if sw_ID pending \<noteq> switchID \<or> sw_BroadcastID pending \<noteq> lb_ID b \<or>
                lb_ActiveTerminalID b \<noteq> Some (sw_SourceTerminalID pending)
             then State_Monad.return (fail ''terminal switch decision is stale'' rt)
             else if choice = TerminalSwitchCancel
             then State_Monad.return (accept (rt\<lparr>pr_PendingSwitch := None\<rparr>))
             else resolveSwitchWith co rt pending choice b
         | _ \<Rightarrow> State_Monad.return (fail ''terminal switch decision is stale'' rt));
        State_Monad.return (commitState co rt attempt) })"

section \<open>Deciding a pending command\<close>

type_synonym 'm MutationResult = "(MasterCoordinationState \<times> 'm option \<times> ControlError option) Committed"

type_synonym 'm MutationAttempt = "ProcessRuntime \<times> transition \<times> 'm option \<times> ControlError option"

definition commitMutation :: "'w Coordinator \<Rightarrow> ProcessRuntime \<Rightarrow> 'm MutationAttempt \<Rightarrow> 'm MutationResult" where
  "commitMutation co old attempt =
     (case attempt of (working, change, mutation, err) \<Rightarrow>
      (let c = commitState co old (working, change, err) in
       \<lparr>cm_Runtime = cm_Runtime c, cm_Published = cm_Published c, cm_Accepted = cm_Accepted c, cm_Revision = cm_Revision c,
        cm_Value = (fst (cm_Value c), mutation, snd (cm_Value c))\<rparr>))"

definition refuseMutation :: "ProcessRuntime \<Rightarrow> ControlError \<Rightarrow> 'm MutationResult" where
  "refuseMutation rt err =
     \<lparr>cm_Runtime = rt, cm_Published = [], cm_Accepted = False, cm_Revision = pr_Revision rt,
      cm_Value = (masterSnapshot rt, None, Some err)\<rparr>"

text \<open>Accept with the projection of the active terminal and one audit event.\<close>

definition acceptProjected :: "'w Coordinator \<Rightarrow> AuditEvent \<Rightarrow> ProcessRuntime \<Rightarrow> ProcessRuntime \<times> transition" where
  "acceptProjected co event rt =
     (case projectActiveTerminal co rt of (rt', live) \<Rightarrow>
        (rt', audit event \<lparr>ch_accepted = True, ch_persist = False,
           ch_effects = stateEffects rt @ (case live of None \<Rightarrow> [] | Some l \<Rightarrow> [liveEffect (Some l)])\<rparr>))"

definition settlePending :: "TerminalRuntime \<Rightarrow> ProcessRuntime \<Rightarrow> ProcessRuntime" where
  "settlePending terminal rt = setBroadcast (setActiveTerminal terminal) (rt\<lparr>pr_PendingCommandExecution := None\<rparr>)"

definition failPendingCommandExecution ::
    "'w Coordinator \<Rightarrow> ProcessRuntime \<Rightarrow> TerminalRuntime \<Rightarrow> PendingCommandExecution \<Rightarrow> CommandExecutionDecision \<Rightarrow> string \<Rightarrow>
     CommandStateMutation MutationAttempt" where
  "failPendingCommandExecution co rt terminal pending decision message =
     (let rt1 = settlePending (terminal\<lparr>tr_CommandExecution := None\<rparr>) rt;
          rt2 = (case gm_get (pr_SessionsByID rt1) (pe_ControllerSessionID pending) of
              None \<Rightarrow> rt1
            | Some session \<Rightarrow> setSession (pe_ControllerSessionID pending)
                (session\<lparr>ls_Notice := Some PlayerNoticeCommandPersistenceFailed\<rparr>) rt1)
      in (case acceptProjected co (commandDecisionAudit (Some pending) (Some decision) ''failed'') rt2 of
          (rt', change) \<Rightarrow> (rt', change, None, Some (ErrCommandExecutionPersistence message))))"

definition invalidDurable :: string where
  "invalidDurable = ''command execution returned an invalid durable state''"

definition notPersisted :: string where
  "notPersisted = ''command execution could not be persisted''"

definition storeExecution ::
    "'w Coordinator \<Rightarrow> ProcessRuntime \<Rightarrow> TerminalRuntime \<Rightarrow> PendingCommandExecution \<Rightarrow> CommandExecutionDecision \<Rightarrow>
     ContentNode \<Rightarrow> ('w, CommandStateMutation MutationAttempt) state" where
  "storeExecution co rt terminal pending decision authored =
     (let failed = failPendingCommandExecution co rt terminal pending decision in
      case co_CommandStates co of
        None \<Rightarrow> State_Monad.return (failed notPersisted)
      | Some store \<Rightarrow>
          do { r \<leftarrow> css_Execute store (pe_TerminalID pending) (pe_CommandID pending);
               State_Monad.return
                 (case r of
                    Inl _ \<Rightarrow> failed notPersisted
                  | Inr durable \<Rightarrow>
                      if ValidateSession (co_Platform co) (cs_Session durable) \<noteq> None then failed invalidDurable
                      else (case terminalByStableID (cs_Session durable) (pe_TerminalID pending) of
                          None \<Rightarrow> failed invalidDurable
                        | Some t \<Rightarrow>
                            (case gm_get (tm_CommandStates t) (pe_CommandID pending) of
                               None \<Rightarrow> failed invalidDurable
                             | Some completed \<Rightarrow>
                                 if \<not> durableCommandStateMatchesAuthored completed (Some authored) then failed invalidDurable
                                 else (case acceptProjected co (commandDecisionAudit (Some pending) (Some decision) ''succeeded'')
                                     (settlePending (terminal\<lparr>tr_CommandStates := tm_CommandStates t, tr_CommandExecution := None,
                                        tr_Nav := (tr_Nav terminal)\<lparr>ns_CommandNodeID := Some (pe_CommandID pending)\<rparr>\<rparr>) rt) of
                                   (rt', change) \<Rightarrow> (rt', change, Some durable, None))))) })"

definition decideCommand ::
    "'w Coordinator \<Rightarrow> ProcessRuntime \<Rightarrow> TerminalRuntime \<Rightarrow> PendingCommandExecution \<Rightarrow> CommandExecutionDecision \<Rightarrow>
     ContentNode \<Rightarrow> ('w, CommandStateMutation MutationAttempt) state" where
  "decideCommand co rt terminal pending decision authored =
     (let settled = (\<lambda>outcome st. case acceptProjected co (commandDecisionAudit (Some pending) (Some decision) outcome)
            (settlePending st rt) of (rt', change) \<Rightarrow> State_Monad.return (rt', change, None, None))
      in if decision = CommandExecutionReject
      then settled ''declined'' (terminal\<lparr>tr_CommandExecution :=
             Some \<lparr>cx_Phase = CommandExecutionPhaseRejected, cx_CommandID = pe_CommandID pending\<rparr>\<rparr>)
      else if pe_Mode pending \<in> {CommandApprovalModeOrdinary, CommandApprovalModeCompletedStateChange}
      then settled ''succeeded'' (terminal\<lparr>tr_CommandExecution := None,
             tr_Nav := ApplyAction (tr_Nav terminal) (tr_Tree terminal) ''command'' (pe_CommandID pending)\<rparr>)
      else storeExecution co rt terminal pending decision authored)"

definition commandStillAuthored :: "TerminalRuntime \<Rightarrow> PendingCommandExecution \<Rightarrow> ContentNode \<Rightarrow> bool" where
  "commandStillAuthored terminal pending authored =
     (Behavior authored \<notin> {CommandBehaviorInvalid, CommandBehaviorTerminalTransition} \<and>
      displayedCommandName (Some terminal) (Some authored) = pe_CommandName pending \<and>
      commandApprovalMode (Some terminal) (Some authored) = pe_Mode pending \<and>
      commandConfirmationText (Some authored) = pe_ConfirmationText pending)"

definition staleExecution :: "AuditEvent \<Rightarrow> ProcessRuntime \<Rightarrow> CommandStateMutation MutationAttempt" where
  "staleExecution event rt =
     (rt, rejected\<lparr>ch_effects := [noEffect\<lparr>ef_Audit := [event]\<rparr>]\<rparr>, None, Some ErrCommandExecutionStale)"

definition ResolveCommandExecution ::
    "'w Coordinator \<Rightarrow> ProcessRuntime \<Rightarrow> bool \<Rightarrow> string \<Rightarrow> CommandExecutionDecision \<Rightarrow>
     ('w, CommandStateMutation MutationResult) state" where
  "ResolveCommandExecution co rt noContext requestID decision =
     (let request = trim_space requestID in
      if noContext then State_Monad.return (refuseMutation rt (Failure ''command execution context is required''))
      else if request = ''''
      then State_Monad.return (refuseMutation rt (Failure ''command execution request ID must not be blank''))
      else if decision \<notin> {CommandExecutionApprove, CommandExecutionReject}
      then State_Monad.return (refuseMutation rt (Failure ''command execution decision must be approve or reject''))
      else do { attempt \<leftarrow>
        (case (pr_PendingCommandExecution rt, activeTerminalRuntime (pr_Broadcast rt)) of
           (Some pending, Some terminal) \<Rightarrow>
             if currentPendingCommandExecution (Some pending) (pr_Broadcast rt) (Some terminal) request
             then (case selectedAuthoredCommand terminal (runtimeCommand RuntimeCommandNavigate ''command'' (pe_CommandID pending) '''' '''') of
                 Some authored \<Rightarrow>
                   if commandStillAuthored terminal pending authored
                   then decideCommand co rt terminal pending decision authored
                   else State_Monad.return (staleExecution (commandDecisionAudit (Some pending) (Some decision) ''stale'') rt)
               | None \<Rightarrow> State_Monad.return (staleExecution (commandDecisionAudit (Some pending) (Some decision) ''stale'') rt))
             else State_Monad.return (staleExecution (noAudit\<lparr>ae_Name := ''command.decision'',
               ae_Decision := decisionText (Some decision), ae_Outcome := ''stale'', ae_RequestID := request\<rparr>) rt)
         | _ \<Rightarrow> State_Monad.return (staleExecution (noAudit\<lparr>ae_Name := ''command.decision'',
               ae_Decision := decisionText (Some decision), ae_Outcome := ''stale'', ae_RequestID := request\<rparr>) rt));
        State_Monad.return (commitMutation co rt attempt) })"

section \<open>Resetting durable results\<close>

definition validatedCommandStateReset ::
    "Platform \<Rightarrow> Session \<Rightarrow> string \<Rightarrow> string \<Rightarrow> bool \<Rightarrow> Terminal option" where
  "validatedCommandStateReset pf session terminalID commandID terminalWide =
     (if ValidateSession pf session \<noteq> None then None
      else (case terminalByStableID session terminalID of
          None \<Rightarrow> None
        | Some terminal \<Rightarrow>
            if (if terminalWide then tm_CommandStates terminal \<noteq> [] else gm_has (tm_CommandStates terminal) commandID)
            then None else Some terminal))"

definition clearResetCommandPresentation ::
    "ProcessRuntime \<Rightarrow> TerminalRuntime \<Rightarrow> string \<Rightarrow> bool \<Rightarrow> ProcessRuntime \<times> TerminalRuntime" where
  "clearResetCommandPresentation rt terminal commandID terminalWide =
     (let affected = (\<lambda>c. if terminalWide then gm_has (tr_CommandStates terminal) c else c = commandID);
          t1 = (case ns_CommandNodeID (tr_Nav terminal) of
              Some c \<Rightarrow> if affected c then terminal\<lparr>tr_Nav := (tr_Nav terminal)\<lparr>ns_CommandNodeID := None\<rparr>\<rparr> else terminal
            | None \<Rightarrow> terminal);
          t2 = (case tr_CommandExecution t1 of
              Some x \<Rightarrow> if affected (cx_CommandID x) then t1\<lparr>tr_CommandExecution := None\<rparr> else t1
            | None \<Rightarrow> t1);
          rt' = (case pr_PendingCommandExecution rt of
              Some p \<Rightarrow> if pe_TerminalID p = tr_TerminalID terminal \<and> affected (pe_CommandID p)
                then rt\<lparr>pr_PendingCommandExecution := None\<rparr> else rt
            | None \<Rightarrow> rt)
      in (rt', t2))"

text \<open>The checkpoint takes the durable results, and is projected when it is the active one.\<close>

definition installReset ::
    "'w Coordinator \<Rightarrow> ProcessRuntime \<Rightarrow> string \<Rightarrow> string \<Rightarrow> bool \<Rightarrow> Terminal \<Rightarrow> ProcessRuntime \<times> PublicLiveState option" where
  "installReset co rt terminalID commandID terminalWide durable =
     (case Option.bind (pr_Broadcast rt) (\<lambda>b. gm_get (lb_TerminalRuntimes b) terminalID) of
        None \<Rightarrow> (rt, None)
      | Some terminal \<Rightarrow>
          (case clearResetCommandPresentation rt terminal commandID terminalWide of
             (rt1, t1) \<Rightarrow>
               (let t2 = t1\<lparr>tr_CommandStates := tm_CommandStates durable\<rparr> in
                (case (co_Terminals co, Option.bind (pr_Broadcast rt) lb_ActiveTerminalID) of
                   (Some L, Some active) \<Rightarrow>
                     if active = terminalID
                     then (case lc_project L t2 of (t3, live) \<Rightarrow> (setBroadcast (setSlot terminalID t3) rt1, Some live))
                     else (setBroadcast (setSlot terminalID t2) rt1, None)
                 | _ \<Rightarrow> (setBroadcast (setSlot terminalID t2) rt1, None)))))"

text \<open>\<open>ctx = None\<close> is a nil context, \<open>ctx = Some c\<close> one that is cancelled when \<open>c\<close>.\<close>

definition resetCommandStates ::
    "'w Coordinator \<Rightarrow> ProcessRuntime \<Rightarrow> bool option \<Rightarrow> string \<Rightarrow> string \<Rightarrow> bool \<Rightarrow>
     ('w, CommandStateMutation MutationResult) state" where
  "resetCommandStates co rt ctx terminalID commandID terminalWide =
     (case ctx of
        None \<Rightarrow> State_Monad.return (refuseMutation rt (Failure ''command state reset context is required''))
      | Some cancelled \<Rightarrow>
          do { attempt \<leftarrow>
            (if cancelled then State_Monad.return (rt, rejected, None, Some (Failure ''command state reset was canceled''))
             else (case co_CommandStates co of
               None \<Rightarrow> State_Monad.return (rt, rejected, None, Some ErrCommandStateStorageUnavailable)
             | Some store \<Rightarrow>
                 do { r \<leftarrow> (if terminalWide then css_ResetTerminal store terminalID else css_Reset store terminalID commandID);
                      State_Monad.return
                        (case r of
                           Inl _ \<Rightarrow> (rt, rejected, None, Some (Failure ''command state could not be reset''))
                         | Inr durable \<Rightarrow>
                            (case validatedCommandStateReset (co_Platform co) (cs_Session durable) terminalID commandID terminalWide of
                               None \<Rightarrow> (rt, rejected, None, Some (Failure ''command state reset returned an invalid durable state''))
                             | Some terminal \<Rightarrow>
                                 if \<not> cs_Changed durable then (rt, rejected, Some durable, None)
                                 else (case installReset co rt terminalID commandID terminalWide terminal of
                                   (rt', live) \<Rightarrow>
                                     (rt', \<lparr>ch_accepted = True, ch_persist = False,
                                        ch_effects = stateEffects rt' @ (case live of None \<Rightarrow> [] | Some l \<Rightarrow> [liveEffect (Some l)])\<rparr>,
                                      Some durable, None)))) }));
            State_Monad.return (commitMutation co rt attempt) })"

definition ResetCommandState ::
    "'w Coordinator \<Rightarrow> ProcessRuntime \<Rightarrow> bool option \<Rightarrow> string \<Rightarrow> string \<Rightarrow> ('w, CommandStateMutation MutationResult) state" where
  "ResetCommandState co rt ctx terminalID commandID =
     (let t = trim_space terminalID; c = trim_space commandID in
      if t = '''' then State_Monad.return (refuseMutation rt (Failure ''terminal ID must not be blank''))
      else if c = '''' then State_Monad.return (refuseMutation rt (Failure ''command ID must not be blank''))
      else resetCommandStates co rt ctx t c False)"

definition ResetTerminalCommandStates ::
    "'w Coordinator \<Rightarrow> ProcessRuntime \<Rightarrow> bool option \<Rightarrow> string \<Rightarrow> ('w, CommandStateMutation MutationResult) state" where
  "ResetTerminalCommandStates co rt ctx terminalID =
     (let t = trim_space terminalID in
      if t = '''' then State_Monad.return (refuseMutation rt (Failure ''terminal ID must not be blank''))
      else resetCommandStates co rt ctx t '''' True)"

section \<open>Deciding a pending navigation\<close>

text \<open>Suspend the source and show the target at a given spot.\<close>

definition navigateTo ::
    "'w Lifecycle \<Rightarrow> TerminalTarget \<Rightarrow> NavState \<Rightarrow> TerminalRuntime \<Rightarrow> LiveBroadcast \<Rightarrow>
     ('w, (LiveBroadcast \<times> PublicLiveState) option) state" where
  "navigateTo L target spot source b =
     (let b1 = setActiveTerminal (lc_suspend L source) b;
          i = ttg_TerminalID target;
          arrive = (\<lambda>(terminal, live).
            ((setSlot i (terminal\<lparr>tr_Nav := spot\<rparr>) b1)\<lparr>lb_ActiveTerminalID := Some i\<rparr>, live\<lparr>pl_Nav := spot\<rparr>))
      in (case gm_get (lb_TerminalRuntimes b1) i of
        None \<Rightarrow> do { r \<leftarrow> lc_create L target; State_Monad.return (Some (arrive r)) }
      | Some terminal \<Rightarrow> State_Monad.return (map_option arrive (lc_reactivate L terminal target))))"

text \<open>The navigation ends without a move; the Overseer is told why.\<close>

definition abandonNavigation ::
    "'w Coordinator \<Rightarrow> PendingTerminalNavigation \<Rightarrow> TerminalNavigationNoticeReason \<Rightarrow> AuditEvent option \<Rightarrow> string \<Rightarrow>
     ProcessRuntime \<Rightarrow> Attempt" where
  "abandonNavigation co pending reason event message rt =
     (let rt1 = rt\<lparr>pr_PendingTerminalNavigation := None, pr_TerminalNavigationNotice :=
            Some \<lparr>tn_Reason = reason, tn_SourceTerminalID = pn_SourceTerminalID pending, tn_CommandID = pn_CommandID pending,
              tn_TargetTerminalID = Some (pn_TargetTerminalID pending)\<rparr>\<rparr>
      in (case projectActiveTerminal co rt1 of (rt', live) \<Rightarrow>
          (rt', audit_opt event \<lparr>ch_accepted = True, ch_persist = False,
              ch_effects = stateEffects rt1 @ (case live of None \<Rightarrow> [] | Some l \<Rightarrow> [liveEffect (Some l)])\<rparr>,
           Some (Failure message))))"

text \<open>The arrival: the route changes, the pending navigation is over.\<close>

definition arriveNavigation ::
    "TerminalReturnPoint list \<Rightarrow> AuditEvent option \<Rightarrow> LiveBroadcast \<Rightarrow> PublicLiveState \<Rightarrow> ProcessRuntime \<Rightarrow> Attempt" where
  "arriveNavigation route event b live rt =
     (let rt' = rt\<lparr>pr_Broadcast := Some (b\<lparr>lb_Route := route\<rparr>), pr_PendingTerminalNavigation := None,
            pr_TerminalNavigationNotice := None\<rparr>
      in (rt', audit_opt event \<lparr>ch_accepted = True, ch_persist = False,
            ch_effects = stateEffects rt' @ [liveEffect (Some (decorateTerminalNavigation rt' live))]\<rparr>, None))"

definition failAudited :: "string \<Rightarrow> AuditEvent option \<Rightarrow> ProcessRuntime \<Rightarrow> Attempt" where
  "failAudited message event rt = (rt, audit_opt event rejected, Some (Failure message))"

definition approveReturn ::
    "'w Coordinator \<Rightarrow> PendingTerminalNavigation \<Rightarrow> LiveBroadcast \<Rightarrow> TerminalRuntime \<Rightarrow> ProcessRuntime \<Rightarrow> ('w, Attempt) state" where
  "approveReturn co pending b source rt =
     do { w \<leftarrow> State_Monad.get;
       (case co_Catalog co of
          None \<Rightarrow> State_Monad.return (fail ''terminal navigation route changed'' rt)
        | Some catalog \<Rightarrow>
            if lb_Route b = [] \<or> \<not> sameTerminalReturnPoint (last (lb_Route b)) (pn_ReturnPoint pending) \<or>
               \<not> validTerminalReturnPoint co w (pn_SourceTerminalID pending) (pn_ReturnPoint pending)
            then State_Monad.return (fail ''terminal navigation route changed'' rt)
            else (case tc_LookupTerminal catalog w (pn_TargetTerminalID pending) of
                None \<Rightarrow> State_Monad.return (abandonNavigation co pending TerminalNavigationNoticeTargetMissing None
                  ''terminal navigation return target is unavailable'' rt)
              | Some latest \<Rightarrow>
                  if ttg_TerminalID latest \<noteq> trp_TerminalID (pn_ReturnPoint pending) \<or>
                     \<not> sameTerminalGroup co w (pn_SourceTerminalID pending) (pn_TargetTerminalID pending)
                  then State_Monad.return (abandonNavigation co pending TerminalNavigationNoticeTargetMissing None
                    ''terminal navigation return target is unavailable'' rt)
                  else (case co_Terminals co of
                      None \<Rightarrow> State_Monad.return (fail ''terminal navigation lifecycle is unavailable'' rt)
                    | Some L \<Rightarrow>
                        do { r \<leftarrow> navigateTo L latest (RestoreFolder (ttg_Tree latest) (trp_FolderID (pn_ReturnPoint pending))
                               (trp_AncestorFolderIDs (pn_ReturnPoint pending))) source b;
                             State_Monad.return (case r of
                                None \<Rightarrow> fail ''terminal navigation return target could not be activated'' rt
                              | Some (b', live) \<Rightarrow> arriveNavigation (butlast (lb_Route b)) None b' live rt) }))) }"

definition approveForward ::
    "'w Coordinator \<Rightarrow> PendingTerminalNavigation \<Rightarrow> LiveBroadcast \<Rightarrow> TerminalRuntime \<Rightarrow> ProcessRuntime \<Rightarrow> ('w, Attempt) state" where
  "approveForward co pending b source rt =
     (let event = (\<lambda>outcome. terminalTransitionCommandAudit rt (Some pending) ''command.decision'' outcome (Some TerminalNavigationApprove))
      in do { w \<leftarrow> State_Monad.get;
       (case co_Catalog co of
          None \<Rightarrow> State_Monad.return (failAudited ''terminal navigation target is unavailable'' (event ''failed'') rt)
        | Some catalog \<Rightarrow>
           (case tc_LookupTransition catalog w (pn_SourceTerminalID pending) (pn_CommandID pending) of
              None \<Rightarrow> State_Monad.return (abandonNavigation co pending TerminalNavigationNoticeTargetChanged (event ''stale'')
                ''terminal navigation target changed'' rt)
            | Some latest \<Rightarrow>
                (let target = tx_Target latest in
                 if ttg_TerminalID target \<noteq> pn_TargetTerminalID pending \<or> ttg_TerminalID target = pn_SourceTerminalID pending \<or>
                    \<not> sameTerminalGroup co w (pn_SourceTerminalID pending) (pn_TargetTerminalID pending)
                 then State_Monad.return (abandonNavigation co pending TerminalNavigationNoticeTargetChanged (event ''stale'')
                   ''terminal navigation target changed'' rt)
                 else (case co_Terminals co of
                     None \<Rightarrow> State_Monad.return (failAudited ''terminal navigation lifecycle is unavailable'' (event ''failed'') rt)
                   | Some L \<Rightarrow>
                       do { r \<leftarrow> navigateTo L target Default source b;
                            State_Monad.return (case r of
                               None \<Rightarrow> failAudited ''terminal navigation target could not be activated'' (event ''failed'') rt
                             | Some (b', live) \<Rightarrow>
                                 arriveNavigation (lb_Route b @ [pn_ReturnPoint pending]) (event ''succeeded'') b' live rt) })))) })"

definition rejectNavigation ::
    "'w Coordinator \<Rightarrow> PendingTerminalNavigation \<Rightarrow> TerminalRuntime \<Rightarrow> ProcessRuntime \<Rightarrow> Attempt" where
  "rejectNavigation co pending source rt =
     (let rt1 = rt\<lparr>pr_PendingTerminalNavigation := None, pr_TerminalNavigationNotice := None\<rparr>;
          rt2 = (if pn_Direction pending = TerminalNavigationForward
            then setBroadcast (setActiveTerminal (source\<lparr>tr_CommandExecution :=
              Some \<lparr>cx_Phase = CommandExecutionPhaseRejected, cx_CommandID = pn_CommandID pending\<rparr>\<rparr>)) rt1
            else rt1);
          event = terminalTransitionCommandAudit rt2 (Some pending) ''command.decision'' ''declined'' (Some TerminalNavigationReject)
      in (case projectActiveTerminal co rt2 of (rt', live) \<Rightarrow>
          (rt', audit_opt event \<lparr>ch_accepted = True, ch_persist = False,
             ch_effects = stateEffects rt2 @ (case live of None \<Rightarrow> [] | Some l \<Rightarrow> [liveEffect (Some l)])\<rparr>, None)))"

definition ResolveTerminalNavigation ::
    "'w Coordinator \<Rightarrow> ProcessRuntime \<Rightarrow> string \<Rightarrow> TerminalNavigationDecision \<Rightarrow> ('w, MasterResult) state" where
  "ResolveTerminalNavigation co rt requestID decision =
     (let request = trim_space requestID in
      if request = '''' then State_Monad.return (refuse rt (Failure ''terminal navigation request ID must not be blank''))
      else if decision \<notin> {TerminalNavigationApprove, TerminalNavigationReject}
      then State_Monad.return (refuse rt (Failure ''terminal navigation decision must be approve or reject''))
      else do { attempt \<leftarrow>
        (case pr_PendingTerminalNavigation rt of
           None \<Rightarrow> State_Monad.return (fail ''terminal navigation decision is stale'' rt)
         | Some pending \<Rightarrow>
             if pn_RequestID pending \<noteq> request
             then State_Monad.return (fail ''terminal navigation decision is stale'' rt)
             else (case (pr_Broadcast rt, activeTerminalRuntime (pr_Broadcast rt)) of
                 (Some b, Some source) \<Rightarrow>
                   if pn_BroadcastID pending \<noteq> lb_ID b \<or> tr_TerminalID source \<noteq> pn_SourceTerminalID pending
                   then State_Monad.return (failAudited ''terminal navigation decision is stale''
                     (terminalTransitionCommandAudit rt (Some pending) ''command.decision'' ''stale'' (Some decision)) rt)
                   else if decision = TerminalNavigationReject
                   then State_Monad.return (rejectNavigation co pending source rt)
                   else if pn_Direction pending = TerminalNavigationReturn then approveReturn co pending b source rt
                   else approveForward co pending b source rt
               | _ \<Rightarrow> State_Monad.return (failAudited ''terminal navigation decision is stale''
                     (terminalTransitionCommandAudit rt (Some pending) ''command.decision'' ''stale'' (Some decision)) rt)));
        State_Monad.return (commitState co rt attempt) })"

end
