(* ===== verification/ControlBroadcast.thy ===== *)
theory ControlBroadcast
  imports ControlTerminals
begin

text \<open>
  Operations of the coordinator on the broadcast and on the authored side of the active terminal:
  starting and ending an epoch, refreshing the active checkpoint, resetting a failed puzzle, guarding
  deletion, and replacing the terminal groups under a running broadcast.
\<close>

section \<open>Epochs\<close>

definition StartBroadcast :: "'w Coordinator \<Rightarrow> ProcessRuntime \<Rightarrow> ('w, MasterResult) state" where
  "StartBroadcast co rt =
     do { attempt \<leftarrow>
        (if requirePlayerConfig co \<and> pr_ActivePlayerConfig rt = None
         then State_Monad.return (fail ''select or create a player config first'' rt)
         else if pr_Broadcast rt \<noteq> None then State_Monad.return (fail ''a broadcast is already active'' rt)
         else do { broadcastID \<leftarrow> co_NextID co;
              State_Monad.return (accept (clearRequestResults
                (rt\<lparr>pr_Broadcast := Some \<lparr>lb_ID = broadcastID, lb_AssignmentsBySession = [], lb_SessionByCharacter = [],
                      lb_ControllerSessionID = None, lb_ActiveTerminalID = None, lb_TerminalRuntimes = [], lb_Route = [],
                      lb_InitialTerminalEstablished = False, lb_InitialTerminalID = '''', lb_InitialTerminalGroupID = '''',
                      lb_InitialTerminalGroupPosition = 0\<rparr>,
                    pr_PendingSwitch := None, pr_PendingTerminalNavigation := None, pr_TerminalNavigationNotice := None\<rparr>))) });
        State_Monad.return (commitState co rt attempt) }"

definition EndBroadcast :: "'w Coordinator \<Rightarrow> ProcessRuntime \<Rightarrow> MasterResult" where
  "EndBroadcast co rt =
     commitState co rt
       (if pr_Broadcast rt = None then fail ''no broadcast is active'' rt
        else acceptWith [clearEffect] (clearRequestResults
          (rt\<lparr>pr_Broadcast := None, pr_PendingSwitch := None, pr_PendingCommandExecution := None,
             pr_PendingTerminalNavigation := None, pr_TerminalNavigationNotice := None\<rparr>)))"

definition Shutdown :: "ProcessRuntime \<Rightarrow> ProcessRuntime" where
  "Shutdown rt = newProcessRuntime"

section \<open>The authored side of the active terminal\<close>

definition CanDeleteTerminal :: "ProcessRuntime \<Rightarrow> string \<Rightarrow> ControlError option" where
  "CanDeleteTerminal rt terminalID =
     (let t = trim_space terminalID in
      if t = '''' then Some (Failure ''terminal ID must not be blank'')
      else (case pr_Broadcast rt of
          Some b \<Rightarrow> if gm_has (lb_TerminalRuntimes b) t then Some (Failure ''terminal has active or preserved runtime state'') else None
        | None \<Rightarrow> None))"

text \<open>Refresh the active checkpoint with a target.\<close>

definition refreshActive ::
    "'w Coordinator \<Rightarrow> string \<Rightarrow> TerminalRuntime \<Rightarrow> TerminalTarget \<Rightarrow> ProcessRuntime \<Rightarrow> Attempt" where
  "refreshActive co message active target rt =
     (case co_Terminals co of
        None \<Rightarrow> fail ''terminal runtime lifecycle is unavailable'' rt
      | Some L \<Rightarrow>
          (case lc_update L active target of
             None \<Rightarrow> fail message rt
           | Some (terminal, live) \<Rightarrow> acceptWith [liveEffect (Some live)] (setBroadcast (setActiveTerminal terminal) rt)))"

definition UpdateLiveTerminal :: "'w Coordinator \<Rightarrow> ProcessRuntime \<Rightarrow> ContentNode \<Rightarrow> string option \<Rightarrow> MasterResult" where
  "UpdateLiveTerminal co rt tree introText =
     commitState co rt
       (case activeTerminalRuntime (pr_Broadcast rt) of
          None \<Rightarrow> fail ''no terminal is active'' rt
        | Some active \<Rightarrow> refreshActive co ''active terminal could not be updated'' active
            \<lparr>ttg_TerminalID = tr_TerminalID active, ttg_TerminalName = tr_TerminalName active, ttg_Tree = tree,
             ttg_CommandStates = tr_CommandStates active, ttg_HackLevel = tr_HackLevel active,
             ttg_IntroText = (case introText of None \<Rightarrow> tr_IntroText active | Some t \<Rightarrow> t)\<rparr> rt)"

text \<open>A completed result view whose durable snapshot is gone is left first.\<close>

definition dropStaleResult :: "TerminalTarget \<Rightarrow> TerminalRuntime \<Rightarrow> TerminalRuntime" where
  "dropStaleResult target active =
     (case ns_CommandNodeID (tr_Nav active) of
        Some c \<Rightarrow>
          if gm_has (tr_CommandStates active) c \<and> \<not> gm_has (ttg_CommandStates target) c
          then active\<lparr>tr_Nav := (tr_Nav active)\<lparr>ns_CommandNodeID := None\<rparr>\<rparr> else active
      | None \<Rightarrow> active)"

definition RefreshActiveTerminal :: "'w Coordinator \<Rightarrow> ProcessRuntime \<Rightarrow> TerminalTarget \<Rightarrow> MasterResult" where
  "RefreshActiveTerminal co rt target0 =
     (let target = target0\<lparr>ttg_TerminalID := trim_space (ttg_TerminalID target0)\<rparr> in
      if ttg_TerminalID target = '''' then refuse rt (Failure ''terminal ID must not be blank'')
      else commitState co rt
        (case activeTerminalRuntime (pr_Broadcast rt) of
           None \<Rightarrow> fail ''target terminal is not active'' rt
         | Some active \<Rightarrow>
             if tr_TerminalID active \<noteq> ttg_TerminalID target then fail ''target terminal is not active'' rt
             else refreshActive co ''active terminal could not be refreshed'' (dropStaleResult target active) target rt))"

definition failedPuzzle :: "TerminalRuntime \<Rightarrow> bool" where
  "failedPuzzle t =
     (tr_Lifecycle t = TerminalLifecycleActive \<and>
      (case tr_Hack t of None \<Rightarrow> False | Some h \<Rightarrow> hs_Failed h \<and> \<not> hs_Solved h))"

definition ResetFailedHackActive :: "'w Coordinator \<Rightarrow> ProcessRuntime \<Rightarrow> TerminalTarget \<Rightarrow> ('w, MasterResult) state" where
  "ResetFailedHackActive co rt target0 =
     (let target = target0\<lparr>ttg_TerminalID := trim_space (ttg_TerminalID target0)\<rparr> in
      if ttg_TerminalID target = '''' then State_Monad.return (refuse rt (Failure ''terminal ID must not be blank''))
      else do { attempt \<leftarrow>
        (case (pr_Broadcast rt, activeTerminalRuntime (pr_Broadcast rt)) of
           (Some b, Some active) \<Rightarrow>
             if lb_ActiveTerminalID b \<noteq> Some (ttg_TerminalID target) \<or> tr_TerminalID active \<noteq> ttg_TerminalID target
             then State_Monad.return (fail ''failed hacking puzzle reset is stale'' rt)
             else if \<not> failedPuzzle active then State_Monad.return (fail ''active hacking puzzle is not failed'' rt)
             else (case co_Terminals co of
                 None \<Rightarrow> State_Monad.return (fail ''failed hacking puzzle lifecycle is unavailable'' rt)
               | Some L \<Rightarrow>
                   do { r \<leftarrow> lc_resetFailed L active target;
                        State_Monad.return (case r of
                           None \<Rightarrow> fail ''failed hacking puzzle could not be reset'' rt
                         | Some (replacement, live) \<Rightarrow>
                             if tr_TerminalID replacement \<noteq> ttg_TerminalID target \<or> \<not> activeHackState (tr_Hack replacement)
                             then fail ''failed hacking puzzle could not be reset'' rt
                             else acceptWith [liveEffect (Some live)]
                               (setBroadcast (setSlot (ttg_TerminalID target) (replacement\<lparr>tr_Lifecycle := TerminalLifecycleActive\<rparr>)) rt)) })
         | _ \<Rightarrow> State_Monad.return (fail ''no terminal is active'' rt));
        State_Monad.return (commitState co rt attempt) })"

section \<open>Attaching without a registration callback\<close>

definition AttachSubscription ::
    "'w Coordinator \<Rightarrow> ProcessRuntime \<Rightarrow> ConnectionID \<Rightarrow> BrowserToken option \<Rightarrow>
     ('w, (ControlError + PersonalizedSnapshot) Committed option) state" where
  "AttachSubscription co rt connectionID handle = AttachSubscriptionAndRegister co rt connectionID handle"

text \<open>The token and the player projection; an empty token and none when the attachment failed.\<close>

definition attachAnswer :: "ControlError + PersonalizedSnapshot \<Rightarrow> BrowserToken \<times> PlayerState option" where
  "attachAnswer r = (case r of Inl _ \<Rightarrow> ('''', None) | Inr s \<Rightarrow> (sn_RecognitionHandle s, sn_PlayerState s))"

definition AttachConnection ::
    "'w Coordinator \<Rightarrow> ProcessRuntime \<Rightarrow> ConnectionID \<Rightarrow> BrowserToken \<Rightarrow>
     ('w, (ProcessRuntime \<times> Effect list \<times> BrowserToken \<times> PlayerState option) option) state" where
  "AttachConnection co rt connectionID browserToken =
     do { r \<leftarrow> AttachSubscription co rt connectionID (if browserToken = '''' then None else Some browserToken);
          State_Monad.return (map_option (\<lambda>c. (cm_Runtime c, cm_Published c, attachAnswer (cm_Value c))) r) }"

section \<open>Replacing the groups under a running broadcast\<close>

text \<open>The membership of the last group listing a terminal.\<close>

definition groupMembership :: "TerminalGroup list \<Rightarrow> (string, string \<times> nat) gomap" where
  "groupMembership gs =
     fold (\<lambda>g m. fold (\<lambda>(position, t). gm_put t (tg_ID g, position)) (enumerate 0 (tg_TerminalIDs g)) m) gs []"

definition membersByGroup :: "TerminalGroup list \<Rightarrow> (string, string list) gomap" where
  "membersByGroup gs = fold (\<lambda>g. gm_put (tg_ID g) (tg_TerminalIDs g)) gs []"

definition initialPositionKept :: "(string, string \<times> nat) gomap \<Rightarrow> LiveBroadcast \<Rightarrow> bool" where
  "initialPositionKept byTerminal b =
     (lb_InitialTerminalEstablished b \<and> lb_InitialTerminalGroupID b \<noteq> '''' \<longrightarrow>
      gm_get byTerminal (lb_InitialTerminalID b) = Some (lb_InitialTerminalGroupID b, lb_InitialTerminalGroupPosition b))"

definition pendingKept :: "(string, string \<times> nat) gomap \<Rightarrow> LiveBroadcast option \<Rightarrow> PendingTerminalNavigation \<Rightarrow> string option" where
  "pendingKept byTerminal broadcast pending =
     (case (gm_get byTerminal (pn_SourceTerminalID pending), gm_get byTerminal (pn_TargetTerminalID pending)) of
        (Some (sourceGroup, sourcePosition), Some (targetGroup, targetPosition)) \<Rightarrow>
          if sourceGroup \<noteq> targetGroup then Some ''terminal group candidate invalidates pending navigation''
          else if pn_Direction pending \<noteq> TerminalNavigationReturn then None
          else (let point = pn_ReturnPoint pending; route = (case broadcast of None \<Rightarrow> [] | Some b \<Rightarrow> lb_Route b) in
            if route = [] \<or> \<not> sameTerminalReturnPoint (last route) point
            then Some ''terminal group candidate invalidates pending return route point''
            else if trp_Origin point = TerminalReturnInitialPrefix \<and>
              (sourcePosition \<noteq> targetPosition + 1 \<or> trp_GroupID point \<noteq> targetGroup \<or> trp_GroupPosition point \<noteq> targetPosition)
            then Some ''terminal group candidate invalidates pending return adjacency''
            else None)
      | _ \<Rightarrow> Some ''terminal group candidate invalidates pending navigation'')"

text \<open>One point of the route: its place in the candidate groups, and its successor's.\<close>

definition seededPointError ::
    "(string, string \<times> nat) gomap \<Rightarrow> (string, string list) gomap \<Rightarrow> LiveBroadcast \<Rightarrow> nat \<Rightarrow> bool \<Rightarrow>
     TerminalReturnPoint \<Rightarrow> string \<Rightarrow> string \<Rightarrow> nat \<Rightarrow> bool \<Rightarrow> string option" where
  "seededPointError byTerminal byGroup b seeded ended point successorID memberGroup memberPosition isLast =
     (let ordered = (case gm_get byGroup (trp_GroupID point) of None \<Rightarrow> [] | Some ms \<Rightarrow> ms);
          successor = (case gm_get byTerminal successorID of None \<Rightarrow> ('''', 0) | Some m \<Rightarrow> m)
      in if ended \<or> trp_GroupPosition point \<noteq> seeded
         then Some ''terminal group candidate invalidates seeded return successor chain''
         else if trp_GroupID point \<noteq> memberGroup \<or> length ordered \<le> trp_GroupPosition point \<or>
           ordered ! trp_GroupPosition point \<noteq> trp_TerminalID point \<or> memberPosition \<noteq> trp_GroupPosition point
         then Some ''terminal group candidate invalidates seeded return order''
         else if lb_InitialTerminalGroupID b \<noteq> '''' \<and>
           (trp_GroupID point \<noteq> lb_InitialTerminalGroupID b \<or> lb_InitialTerminalGroupPosition b \<le> trp_GroupPosition point)
         then Some ''terminal group candidate invalidates seeded return successor chain''
         else if fst successor \<noteq> memberGroup \<or> snd successor \<noteq> trp_GroupPosition point + 1
         then Some (if isLast then ''terminal group candidate invalidates active seeded return adjacency''
                    else ''terminal group candidate invalidates seeded return successor adjacency'')
         else None)"

primrec routeErrors ::
    "(string, string \<times> nat) gomap \<Rightarrow> (string, string list) gomap \<Rightarrow> LiveBroadcast \<Rightarrow> string \<Rightarrow> string \<Rightarrow>
     nat \<Rightarrow> bool \<Rightarrow> TerminalReturnPoint list \<Rightarrow> string option" where
  "routeErrors byTerminal byGroup b activeID activeGroup seeded ended [] = None"
| "routeErrors byTerminal byGroup b activeID activeGroup seeded ended (point # points) =
     (case gm_get byTerminal (trp_TerminalID point) of
        None \<Rightarrow> Some ''terminal group candidate invalidates the active return route''
      | Some (memberGroup, memberPosition) \<Rightarrow>
          if memberGroup \<noteq> activeGroup then Some ''terminal group candidate invalidates the active return route''
          else if trp_Origin point \<noteq> TerminalReturnInitialPrefix
          then routeErrors byTerminal byGroup b activeID activeGroup seeded True points
          else (case seededPointError byTerminal byGroup b seeded ended point
                  (case points of [] \<Rightarrow> activeID | q # _ \<Rightarrow> trp_TerminalID q) memberGroup memberPosition (points = []) of
              Some e \<Rightarrow> Some e
            | None \<Rightarrow> routeErrors byTerminal byGroup b activeID activeGroup (seeded + 1) ended points))"

definition validateRuntimeTerminalGroups :: "ProcessRuntime \<Rightarrow> TerminalGroup list \<Rightarrow> string option" where
  "validateRuntimeTerminalGroups rt gs =
     (let byTerminal = groupMembership gs in
      if (case pr_Broadcast rt of None \<Rightarrow> False | Some b \<Rightarrow> \<not> initialPositionKept byTerminal b)
      then Some ''terminal group candidate invalidates initialized terminal position''
      else (case Option.bind (pr_PendingTerminalNavigation rt) (pendingKept byTerminal (pr_Broadcast rt)) of
          Some e \<Rightarrow> Some e
        | None \<Rightarrow>
            (case pr_Broadcast rt of
               None \<Rightarrow> None
             | Some b \<Rightarrow>
                (case lb_ActiveTerminalID b of
                   None \<Rightarrow> None
                 | Some activeID \<Rightarrow>
                     (case gm_get byTerminal activeID of
                        None \<Rightarrow> Some ''terminal group candidate omits the active terminal''
                      | Some (activeGroup, _) \<Rightarrow>
                          routeErrors byTerminal (membersByGroup gs) b activeID activeGroup 0 False (lb_Route b))))))"

record TerminalGroupCandidate =
  gc_TerminalGroups :: "TerminalGroup list"
  gc_ExpectedSessionRevision :: revision
  gc_ExpectedCoordinationRevision :: revision

definition ReplaceTerminalGroups ::
    "'w Coordinator \<Rightarrow> ProcessRuntime \<Rightarrow> bool option \<Rightarrow> TerminalGroupCandidate \<Rightarrow>
     ('w, TerminalGroupMutation MutationResult) state" where
  "ReplaceTerminalGroups co rt ctx candidate =
     (let failed = (\<lambda>message. (rt, rejected, None, Some (Failure message))) in
      case ctx of
        None \<Rightarrow> State_Monad.return (refuseMutation rt (Failure ''terminal group replacement context is required''))
      | Some cancelled \<Rightarrow>
          do { attempt \<leftarrow>
            (if cancelled then State_Monad.return (failed ''terminal group replacement was canceled'')
             else if gc_ExpectedCoordinationRevision candidate \<noteq> pr_Revision rt
             then State_Monad.return (failed ''coordination revision is stale'')
             else (case co_GroupStore co of
                 None \<Rightarrow> State_Monad.return (failed ''terminal group storage is unavailable'')
               | Some store \<Rightarrow>
                   (case validateRuntimeTerminalGroups rt (gc_TerminalGroups candidate) of
                      Some message \<Rightarrow> State_Monad.return (failed message)
                    | None \<Rightarrow>
                        do { r \<leftarrow> store (gc_TerminalGroups candidate) (gc_ExpectedSessionRevision candidate);
                             State_Monad.return (case r of
                                (durable, Some (StoreRejection message)) \<Rightarrow>
                                  (rt, rejected, Some durable, Some (StoreFailure '''' (StoreRejection message)))
                              | (durable, Some _) \<Rightarrow> failed ''could not save terminal groups''
                              | (durable, None) \<Rightarrow>
                                  if gmu_Changed durable
                                  then (rt, \<lparr>ch_accepted = True, ch_persist = False, ch_effects = stateEffects rt\<rparr>, Some durable, None)
                                  else (rt, rejected, Some durable, None)) })));
            State_Monad.return (commitMutation co rt attempt) })"

end
