(* ===== verification/ControlActions.thy ===== *)
theory ControlActions
  imports ControlBroadcast
begin

text \<open>
  Player actions: the checks before an action, the requests that wait for the Overseer (a command, a
  transition to another terminal, a return), and the gameplay actions applied to the checkpoint.
\<close>

section \<open>Checks\<close>

record PreparedAction =
  pa_SessionID :: LogicalSessionID
  pa_Fingerprint :: string
  pa_Broadcast :: LiveBroadcast
  pa_Terminal :: TerminalRuntime

type_synonym ActionAttempt = "ProcessRuntime \<times> transition \<times> ActionResult"

text \<open>An answer that leaves the runtime alone, with the audit of a command request.\<close>

definition answerAction ::
    "ProcessRuntime \<Rightarrow> ConnectionID \<Rightarrow> LogicalSessionID \<Rightarrow> AuditEvent option \<Rightarrow> ActionResult \<Rightarrow> ActionAttempt" where
  "answerAction rt connectionID sessionID event result =
     (rt, audit_opt event (rejected\<lparr>ch_effects := [resultEffect connectionID sessionID result]\<rparr>), result)"

definition rejectAction ::
    "'w Coordinator \<Rightarrow> ProcessRuntime \<Rightarrow> ConnectionID \<Rightarrow> LogicalSessionID \<Rightarrow> RuntimeCommand \<Rightarrow> ActionReason \<Rightarrow> ActionAttempt" where
  "rejectAction co rt connectionID sessionID command reason =
     (let result = rejectedResult (rc_RequestID command) reason (pr_Revision rt) in
      case cachePlayerActionRejection co connectionID sessionID command result rt of
        (rt', change) \<Rightarrow> (rt', change, result))"

text \<open>The first precondition that fails, in the order of the code.\<close>

definition actionObstacle ::
    "ProcessRuntime \<Rightarrow> LogicalSessionID \<Rightarrow> LogicalSession \<Rightarrow> RuntimeCommand \<Rightarrow> ActionReason + (LiveBroadcast \<times> TerminalRuntime)" where
  "actionObstacle rt sessionID session command =
     (if \<not> validRuntimeCommand command then Inl ActionReasonInvalidAction
      else (case pr_Broadcast rt of
          None \<Rightarrow> Inl ActionReasonStaleBroadcast
        | Some b \<Rightarrow>
            if lb_ID b \<noteq> rc_BroadcastID command then Inl ActionReasonStaleBroadcast
            else if \<not> gm_has (lb_AssignmentsBySession b) sessionID then Inl ActionReasonUnassigned
            else if lb_ControllerSessionID b \<noteq> Some sessionID then Inl ActionReasonNotController
            else if \<not> connected session then Inl ActionReasonControllerDisconnected
            else if lb_ActiveTerminalID b \<noteq> Some (rc_TerminalID command) then Inl ActionReasonStaleTerminal
            else (case gm_get (lb_TerminalRuntimes b) (rc_TerminalID command) of
                None \<Rightarrow> Inl ActionReasonStaleTerminal
              | Some terminal \<Rightarrow>
                  if tr_Lifecycle terminal \<noteq> TerminalLifecycleActive then Inl ActionReasonStaleTerminal
                  else if pr_PendingCommandExecution rt \<noteq> None \<or> pr_PendingTerminalNavigation rt \<noteq> None
                  then Inl ActionReasonConflict
                  else Inr (b, terminal))))"

definition preparePlayerAction ::
    "'w Coordinator \<Rightarrow> ProcessRuntime \<Rightarrow> ConnectionID \<Rightarrow> RuntimeCommand \<Rightarrow> ActionAttempt + PreparedAction" where
  "preparePlayerAction co rt connectionID command =
     (case sessionForConnection rt connectionID of
        None \<Rightarrow> Inl (answerAction rt connectionID '''' (commandRequestOutcomeAudit rt '''' command ''invalid'')
          (rejectedResult (rc_RequestID command) ActionReasonInvalidSession (pr_Revision rt)))
      | Some (sessionID, session) \<Rightarrow>
          if rc_RequestID command = ''''
          then Inl (answerAction rt connectionID sessionID None
            (rejectedResult (rc_RequestID command) ActionReasonInvalidAction (pr_Revision rt)))
          else (case requestResult rt sessionID (rc_RequestID command) of
              Some cached \<Rightarrow>
                Inl (if rr_Fingerprint cached = playerActionFingerprint command
                  then answerAction rt connectionID sessionID (commandRequestOutcomeAudit rt sessionID command ''replayed'')
                    (rr_Result cached)
                  else answerAction rt connectionID sessionID (commandRequestOutcomeAudit rt sessionID command ''duplicate'')
                    (rejectedResult (rc_RequestID command) ActionReasonDuplicate (pr_Revision rt)))
            | None \<Rightarrow>
                (case actionObstacle rt sessionID session command of
                   Inl reason \<Rightarrow> Inl (rejectAction co rt connectionID sessionID command reason)
                 | Inr (b, terminal) \<Rightarrow> Inr \<lparr>pa_SessionID = sessionID, pa_Fingerprint = playerActionFingerprint command,
                     pa_Broadcast = b, pa_Terminal = terminal\<rparr>)))"

section \<open>Accepted actions\<close>

definition commitPlayerActionResult ::
    "'w Coordinator \<Rightarrow> ProcessRuntime \<Rightarrow> ConnectionID \<Rightarrow> LogicalSessionID \<Rightarrow> RequestID \<Rightarrow> string \<Rightarrow> ActionResult \<Rightarrow>
     Effect list \<Rightarrow> ProcessRuntime \<times> transition" where
  "commitPlayerActionResult co rt connectionID sessionID requestID fingerprint result effects =
     (storeRequestResult co sessionID requestID \<lparr>rr_Fingerprint = fingerprint, rr_Result = result\<rparr> rt,
      \<lparr>ch_accepted = True, ch_persist = False, ch_effects = effects @ [resultEffect connectionID sessionID result]\<rparr>)"

definition acceptedPlayerAction ::
    "'w Coordinator \<Rightarrow> ProcessRuntime \<Rightarrow> ConnectionID \<Rightarrow> PreparedAction \<Rightarrow> RuntimeCommand \<Rightarrow> AuditEvent option \<Rightarrow>
     Effect list \<Rightarrow> ActionAttempt" where
  "acceptedPlayerAction co rt connectionID prepared command event effects =
     (let result = \<lparr>ar_RequestID = rc_RequestID command, ar_Accepted = True, ar_Reason = ActionReasonAccepted,
            ar_Revision = pr_Revision rt + 1\<rparr>
      in (case commitPlayerActionResult co rt connectionID (pa_SessionID prepared) (rc_RequestID command)
            (pa_Fingerprint prepared) result effects of
          (rt', change) \<Rightarrow> (rt', audit_opt event change, result)))"

definition playerActionStateEffects :: "'w Coordinator \<Rightarrow> ProcessRuntime \<Rightarrow> ProcessRuntime \<times> Effect list" where
  "playerActionStateEffects co rt =
     (case projectActiveTerminal co rt of
        (rt', None) \<Rightarrow> (rt', stateEffects rt)
      | (rt', Some live) \<Rightarrow> (rt', stateEffects rt @ [liveEffect (Some live)]))"

text \<open>The state is published with the projection of the active terminal.\<close>

definition acceptedWithState ::
    "'w Coordinator \<Rightarrow> ProcessRuntime \<Rightarrow> ConnectionID \<Rightarrow> PreparedAction \<Rightarrow> RuntimeCommand \<Rightarrow> AuditEvent option \<Rightarrow> ActionAttempt" where
  "acceptedWithState co rt connectionID prepared command event =
     (case playerActionStateEffects co rt of
        (rt', effects) \<Rightarrow> acceptedPlayerAction co rt' connectionID prepared command event effects)"

definition beginTerminalReturn ::
    "string \<Rightarrow> PreparedAction \<Rightarrow> TerminalReturnPoint \<Rightarrow> ProcessRuntime \<Rightarrow> ProcessRuntime" where
  "beginTerminalReturn requestID prepared point rt =
     (let terminal = pa_Terminal prepared in
      rt\<lparr>pr_PendingTerminalNavigation := Some
          \<lparr>pn_RequestID = requestID, pn_BroadcastID = lb_ID (pa_Broadcast prepared),
           pn_ControllerSessionID = pa_SessionID prepared, pn_Direction = TerminalNavigationReturn,
           pn_SourceTerminalID = tr_TerminalID terminal, pn_SourceTerminalName = tr_TerminalName terminal,
           pn_CommandID = trp_CommandID point, pn_CommandName = trp_CommandName point,
           pn_TargetTerminalID = trp_TerminalID point, pn_TargetTerminalName = trp_TerminalName point,
           pn_ReturnPoint = point\<rparr>,
         pr_TerminalNavigationNotice := None\<rparr>)"

definition authoredReturnPoint :: "TerminalRuntime \<Rightarrow> ContentNode \<Rightarrow> TerminalReturnPoint" where
  "authoredReturnPoint terminal authored =
     (let path = ns_Path (tr_Nav terminal) in
      \<lparr>trp_TerminalID = tr_TerminalID terminal, trp_TerminalName = tr_TerminalName terminal,
       trp_FolderID = (if path = [] then ''root'' else last path),
       trp_AncestorFolderIDs = (if path = [] then [] else butlast path),
       trp_CommandID = cn_ID authored, trp_CommandName = cn_Name authored, trp_Origin = TerminalReturnAuthored,
       trp_GroupID = '''', trp_GroupPosition = 0\<rparr>)"

definition beginTerminalTransition ::
    "string \<Rightarrow> PreparedAction \<Rightarrow> ContentNode \<Rightarrow> TerminalTransitionTarget \<Rightarrow> ProcessRuntime \<Rightarrow> ProcessRuntime" where
  "beginTerminalTransition requestID prepared authored target rt =
     (let terminal = pa_Terminal prepared in
      rt\<lparr>pr_PendingTerminalNavigation := Some
          \<lparr>pn_RequestID = requestID, pn_BroadcastID = lb_ID (pa_Broadcast prepared),
           pn_ControllerSessionID = pa_SessionID prepared, pn_Direction = TerminalNavigationForward,
           pn_SourceTerminalID = tr_TerminalID terminal, pn_SourceTerminalName = tr_TerminalName terminal,
           pn_CommandID = cn_ID authored, pn_CommandName = cn_Name authored,
           pn_TargetTerminalID = ttg_TerminalID (tx_Target target), pn_TargetTerminalName = ttg_TerminalName (tx_Target target),
           pn_ReturnPoint = authoredReturnPoint terminal authored\<rparr>,
         pr_TerminalNavigationNotice := None\<rparr>)"

section \<open>Requests for the Overseer\<close>

definition requestReturn ::
    "'w Coordinator \<Rightarrow> ProcessRuntime \<Rightarrow> ConnectionID \<Rightarrow> PreparedAction \<Rightarrow> RuntimeCommand \<Rightarrow> ('w, ActionAttempt) state" where
  "requestReturn co rt connectionID prepared command =
     (let top = last (lb_Route (pa_Broadcast prepared)) in
      do { w \<leftarrow> State_Monad.get;
           if \<not> validTerminalReturnPoint co w (tr_TerminalID (pa_Terminal prepared)) top
           then State_Monad.return (rejectAction co rt connectionID (pa_SessionID prepared) command ActionReasonInvalidAction)
           else do { requestID \<leftarrow> co_NextID co;
                State_Monad.return (acceptedWithState co (beginTerminalReturn requestID prepared top rt) connectionID prepared command None) } })"

definition transitionTarget ::
    "'w Coordinator \<Rightarrow> 'w \<Rightarrow> TerminalRuntime \<Rightarrow> ContentNode \<Rightarrow> string \<Rightarrow> TerminalTransitionTarget option" where
  "transitionTarget co w terminal authored target =
     (case Option.bind (co_Catalog co) (\<lambda>c. tc_LookupTransition c w (tr_TerminalID terminal) (cn_ID authored)) of
        None \<Rightarrow> None
      | Some x \<Rightarrow>
          (let i = ttg_TerminalID (tx_Target x) in
           if i = tr_TerminalID terminal \<or> i \<noteq> target \<or> \<not> sameTerminalGroup co w (tr_TerminalID terminal) i
           then None else Some x))"

definition requestTransition ::
    "'w Coordinator \<Rightarrow> ProcessRuntime \<Rightarrow> ConnectionID \<Rightarrow> PreparedAction \<Rightarrow> RuntimeCommand \<Rightarrow> ContentNode \<Rightarrow> string \<Rightarrow>
     ('w, ActionAttempt) state" where
  "requestTransition co rt connectionID prepared command authored targetID =
     do { w \<leftarrow> State_Monad.get;
       (case transitionTarget co w (pa_Terminal prepared) authored targetID of
          None \<Rightarrow>
            (let rt1 = rt\<lparr>pr_TerminalNavigationNotice := Some \<lparr>tn_Reason = TerminalNavigationNoticeTargetMissing,
                   tn_SourceTerminalID = tr_TerminalID (pa_Terminal prepared), tn_CommandID = cn_ID authored,
                   tn_TargetTerminalID = Some targetID\<rparr>\<rparr>;
                 result = rejectedResult (rc_RequestID command) ActionReasonInvalidAction (pr_Revision rt + 1)
             in (case commitPlayerActionResult co rt1 connectionID (pa_SessionID prepared) (rc_RequestID command)
                   (pa_Fingerprint prepared) result (stateEffects rt1) of
                 (rt', change) \<Rightarrow> State_Monad.return (rt', change, result)))
        | Some target \<Rightarrow>
            do { requestID \<leftarrow> co_NextID co;
                 State_Monad.return
                   (let rt1 = beginTerminalTransition requestID prepared authored target rt
                    in acceptedWithState co rt1 connectionID prepared command
                      (terminalTransitionCommandAudit rt1 (pr_PendingTerminalNavigation rt1) ''command.request_received'' ''accepted'' None)) }) }"

definition clearNotice :: "LogicalSessionID \<Rightarrow> ProcessRuntime \<Rightarrow> ProcessRuntime" where
  "clearNotice sessionID rt =
     (case gm_get (pr_SessionsByID rt) sessionID of
        None \<Rightarrow> rt | Some session \<Rightarrow> setSession sessionID (session\<lparr>ls_Notice := None\<rparr>) rt)"

definition requestCommand ::
    "'w Coordinator \<Rightarrow> ProcessRuntime \<Rightarrow> ConnectionID \<Rightarrow> PreparedAction \<Rightarrow> RuntimeCommand \<Rightarrow> ContentNode \<Rightarrow> ('w, ActionAttempt) state" where
  "requestCommand co rt connectionID prepared command authored =
     do { requestID \<leftarrow> co_NextID co;
          State_Monad.return
            (let terminal = pa_Terminal prepared; b = pa_Broadcast prepared; sessionID = pa_SessionID prepared;
                 mode = commandApprovalMode (Some terminal) (Some authored);
                 pending = \<lparr>pe_RequestID = requestID, pe_BroadcastID = lb_ID b, pe_TerminalID = tr_TerminalID terminal,
                   pe_CommandID = cn_ID authored, pe_CommandName = displayedCommandName (Some terminal) (Some authored),
                   pe_Mode = mode, pe_ConfirmationText = commandConfirmationText (Some authored),
                   pe_ControllerSessionID = sessionID\<rparr>;
                 rt1 = setBroadcast (setActiveTerminal (terminal\<lparr>tr_CommandExecution :=
                   Some \<lparr>cx_Phase = CommandExecutionPhasePending, cx_CommandID = cn_ID authored\<rparr>\<rparr>))
                   (rt\<lparr>pr_PendingCommandExecution := Some pending\<rparr>);
                 rt2 = clearNotice sessionID rt1
             in acceptedWithState co rt2 connectionID prepared command
               (Some (noAudit\<lparr>ae_Name := ''command.request_received'', ae_Outcome := ''accepted'', ae_SessionID := sessionID,
                  ae_Role := Some (roleForSession (pr_Broadcast rt2) sessionID), ae_RequestID := requestID,
                  ae_BroadcastID := lb_ID b, ae_TerminalID := tr_TerminalID terminal, ae_CommandID := cn_ID authored,
                  ae_Mode := modeText mode\<rparr>))) }"

section \<open>Gameplay\<close>

definition applyGameplay ::
    "'w Coordinator \<Rightarrow> ProcessRuntime \<Rightarrow> ConnectionID \<Rightarrow> PreparedAction \<Rightarrow> RuntimeCommand \<Rightarrow> ('w, ActionAttempt) state" where
  "applyGameplay co rt connectionID prepared command =
     (let sessionID = pa_SessionID prepared; terminal = pa_Terminal prepared;
          invalid = rejectAction co rt connectionID sessionID command ActionReasonInvalidAction
      in (case co_Actions co of
        None \<Rightarrow> State_Monad.return invalid
      | Some apply \<Rightarrow>
          do { r \<leftarrow> apply terminal command;
               State_Monad.return
                 (case r of
                    (_, None) \<Rightarrow> invalid
                  | (terminal', Some live) \<Rightarrow>
                      (let rt1 = setBroadcast (setActiveTerminal terminal') rt;
                           rt2 = (if rc_Kind command \<noteq> RuntimeCommandPresentation then clearNotice sessionID rt1 else rt1);
                           event = (if rc_Kind command \<in> {RuntimeCommandGuess, RuntimeCommandActivatePattern}
                             then Some (hackActionAudit rt2 sessionID command (tr_Hack terminal) (tr_Hack terminal')) else None)
                       in acceptedPlayerAction co rt2 connectionID prepared command event [liveEffect (Some live)])) }))"

definition dispatchPrepared ::
    "'w Coordinator \<Rightarrow> ProcessRuntime \<Rightarrow> ConnectionID \<Rightarrow> PreparedAction \<Rightarrow> RuntimeCommand \<Rightarrow> ('w, ActionAttempt) state" where
  "dispatchPrepared co rt connectionID prepared command =
     (if rootReturnRequested (pa_Terminal prepared) command (lb_Route (pa_Broadcast prepared))
      then requestReturn co rt connectionID prepared command
      else (case selectedAuthoredCommand (pa_Terminal prepared) command of
          None \<Rightarrow>
            if rc_Kind command = RuntimeCommandNavigate \<and> rc_Action command = ''command''
            then State_Monad.return (rejectAction co rt connectionID (pa_SessionID prepared) command ActionReasonInvalidAction)
            else applyGameplay co rt connectionID prepared command
        | Some authored \<Rightarrow>
            if Behavior authored = CommandBehaviorInvalid
            then State_Monad.return (rejectAction co rt connectionID (pa_SessionID prepared) command ActionReasonInvalidAction)
            else (case (Behavior authored, cn_TerminalTransition authored) of
                (CommandBehaviorTerminalTransition, Some tt) \<Rightarrow>
                  requestTransition co rt connectionID prepared command authored (tt_TargetTerminalID tt)
              | _ \<Rightarrow> requestCommand co rt connectionID prepared command authored)))"

definition DispatchPlayerAction ::
    "'w Coordinator \<Rightarrow> ProcessRuntime \<Rightarrow> ConnectionID \<Rightarrow> RuntimeCommand \<Rightarrow> ('w, ActionResult Committed) state" where
  "DispatchPlayerAction co rt connectionID command =
     do { attempt \<leftarrow> (case preparePlayerAction co rt connectionID command of
            Inl stop \<Rightarrow> State_Monad.return stop
          | Inr prepared \<Rightarrow> dispatchPrepared co rt connectionID prepared command);
          State_Monad.return (commit co rt attempt) }"

definition DispatchPlayerActionForRecognition ::
    "'w Coordinator \<Rightarrow> ProcessRuntime \<Rightarrow> BrowserToken \<Rightarrow> RuntimeCommand \<Rightarrow> ('w, ActionResult Committed) state" where
  "DispatchPlayerActionForRecognition co rt handle command =
     (let refuseWith = (\<lambda>reason. State_Monad.return \<lparr>cm_Runtime = rt, cm_Published = [], cm_Accepted = False,
            cm_Revision = pr_Revision rt, cm_Value = rejectedResult (rc_RequestID command) reason (pr_Revision rt)\<rparr>)
      in (case Option.bind (gm_get (pr_SessionIDByBrowserToken rt) handle) (gm_get (pr_SessionsByID rt)) of
        None \<Rightarrow> refuseWith ActionReasonInvalidSession
      | Some session \<Rightarrow>
          (case sort (gm_keys (ls_ConnectionIDs session)) of
             [] \<Rightarrow> refuseWith ActionReasonControllerDisconnected
           | connectionID # _ \<Rightarrow>
               if connectionID = '''' then refuseWith ActionReasonControllerDisconnected
               else DispatchPlayerAction co rt connectionID command)))"

definition ForceHackSuccessActive :: "'w Coordinator \<Rightarrow> ProcessRuntime \<Rightarrow> PublicHackState option Committed" where
  "ForceHackSuccessActive co rt =
     commit co rt
       (case (co_TrustedHack co, activeTerminalRuntime (pr_Broadcast rt)) of
          (Some force, Some terminal) \<Rightarrow>
            if tr_Lifecycle terminal \<noteq> TerminalLifecycleActive then (rt, rejected, None)
            else (case force terminal of
                None \<Rightarrow> (rt, rejected, None)
              | Some (terminal', live) \<Rightarrow>
                  if pl_Hack live = None \<or> pl_TerminalID live \<noteq> tr_TerminalID terminal' then (rt, rejected, None)
                  else (let rt' = setBroadcast (setActiveTerminal terminal') rt in
                    (rt', \<lparr>ch_accepted = True, ch_persist = False,
                       ch_effects = [(liveEffect (Some live))\<lparr>ef_Master := Some (masterSnapshot rt')\<rparr>]\<rparr>, pl_Hack live)))
        | _ \<Rightarrow> (rt, rejected, None))"

end
