(* ===== verification/ControlInv.thy ===== *)
theory ControlInv
  imports ControlActions
begin

text \<open>
  How a predicate on the process runtime survives the coordinator.  A committed transition installs
  its working copy, stamps the revision and projects the active terminal for every session, so a
  predicate is kept by every operation as soon as it is kept by projection and holds of the working
  copy; the locale \<open>runtime_invariant\<close> states this once for every invariant of the coordinator.
  The second part is the players: logical sessions, connections, and the character claims.
\<close>

named_theorems attempt_defs
named_theorems seats_steps
declare fail_def [attempt_defs] unchanged_def [attempt_defs] accept_def [attempt_defs] acceptWith_def [attempt_defs]

section \<open>Invariants and commits\<close>

locale runtime_invariant =
  fixes co :: "'w Coordinator" and P :: "ProcessRuntime \<Rightarrow> bool"
  assumes revision: "P rt \<Longrightarrow> P (rt\<lparr>pr_Revision := r\<rparr>)"
    and project: "P rt \<Longrightarrow> P (fst (projectActiveTerminal co rt))"
begin

lemma project_pair: "projectActiveTerminal co rt = (rt', live) \<Longrightarrow> P rt \<Longrightarrow> P rt'"
  using project [of rt] by simp

lemma compound: "P rt \<Longrightarrow> P (fst (compoundUpdateLocked co rt sessionID revn))"
  using project [of rt] by (auto simp: compoundUpdateLocked_def Let_def split: option.splits prod.splits)

lemma publishes: "P (fst rp) \<Longrightarrow> P (fst (fold (publishUpdate co revn) ids rp))"
proof (induction ids arbitrary: rp)
  case (Cons i ids)
  have "P (fst (publishUpdate co revn i rp))"
    using compound [of "fst rp" i revn] Cons.prems
    by (auto simp: publishUpdate_def split: prod.splits option.splits)
  then show ?case using Cons.IH by simp
qed simp

lemma commit: "P old \<Longrightarrow> P working \<Longrightarrow> P (cm_Runtime (commit co old (working, change, v)))"
  using publishes revision
  by (auto simp: commit_def Let_def split: prod.splits) (metis fst_conv)+

lemma commitState: "P old \<Longrightarrow> P (fst attempt) \<Longrightarrow> P (cm_Runtime (commitState co old attempt))"
  using commit by (auto simp: commitState_def Let_def split: prod.splits)

lemma commitMutation: "P old \<Longrightarrow> P (fst attempt) \<Longrightarrow> P (cm_Runtime (commitMutation co old attempt))"
  using commitState by (auto simp: commitMutation_def Let_def split: prod.splits)

lemma refuse: "P rt \<Longrightarrow> P (cm_Runtime (refuse rt e))"
  by (simp add: refuse_def)

lemma refuseMutation: "P rt \<Longrightarrow> P (cm_Runtime (refuseMutation rt e))"
  by (simp add: refuseMutation_def)

lemma state_step:
  assumes "P rt" and "pred_state (\<lambda>a. P (fst a)) m"
  shows "pred_state (\<lambda>c. P (cm_Runtime c)) (do { attempt \<leftarrow> m; State_Monad.return (commitState co rt attempt) })"
  by (rule pred_state_bind [OF assms(2)]) (simp add: commitState assms(1))

lemma mutation_step:
  assumes "P rt" and "pred_state (\<lambda>a. P (fst a)) m"
  shows "pred_state (\<lambda>c. P (cm_Runtime c)) (do { attempt \<leftarrow> m; State_Monad.return (commitMutation co rt attempt) })"
  by (rule pred_state_bind [OF assms(2)]) (simp add: commitMutation assms(1))

lemma action_step:
  assumes "P rt" and "pred_state (\<lambda>a. P (fst a)) m"
  shows "pred_state (\<lambda>c. P (cm_Runtime c)) (do { attempt \<leftarrow> m; State_Monad.return (commit co rt attempt) })"
  by (rule pred_state_bind [OF assms(2)]) (auto intro: commit assms(1))

end

section \<open>What a projection leaves alone\<close>

text \<open>What players see of sessions and claims, without the replay cache and the notices.\<close>

definition seat :: "LiveBroadcast \<Rightarrow> (LogicalSessionID, CharacterID) gomap \<times> (CharacterID, LogicalSessionID) gomap \<times> LogicalSessionID option" where
  "seat b = (lb_AssignmentsBySession b, lb_SessionByCharacter b, lb_ControllerSessionID b)"

definition seats :: "ProcessRuntime \<Rightarrow> _" where
  "seats rt = (gm_map (\<lambda>_ s. (ls_ID s, ls_FallbackName s, ls_ConnectionIDs s)) (pr_SessionsByID rt),
     pr_SessionIDByBrowserToken rt, pr_RosterByID rt, map_option seat (pr_Broadcast rt))"

lemma seats_revision [simp]: "seats (rt\<lparr>pr_Revision := r\<rparr>) = seats rt"
  by (simp add: seats_def)

lemma seats_pendings [simp]:
  "seats (rt\<lparr>pr_PendingSwitch := p\<rparr>) = seats rt" "seats (rt\<lparr>pr_PendingCommandExecution := q\<rparr>) = seats rt"
  "seats (rt\<lparr>pr_PendingTerminalNavigation := n\<rparr>) = seats rt" "seats (rt\<lparr>pr_TerminalNavigationNotice := m\<rparr>) = seats rt"
  "seats (rt\<lparr>pr_RosterOrder := ro\<rparr>) = seats rt" "seats (rt\<lparr>pr_ActivePlayerConfig := cfg\<rparr>) = seats rt"
  by (simp_all add: seats_def)

lemma seat_fields [simp]:
  "seat (b\<lparr>lb_TerminalRuntimes := ms\<rparr>) = seat b" "seat (b\<lparr>lb_Route := r\<rparr>) = seat b"
  "seat (b\<lparr>lb_ActiveTerminalID := a\<rparr>) = seat b" "seat (b\<lparr>lb_InitialTerminalEstablished := e\<rparr>) = seat b"
  "seat (b\<lparr>lb_InitialTerminalID := i\<rparr>) = seat b" "seat (b\<lparr>lb_InitialTerminalGroupID := g\<rparr>) = seat b"
  "seat (b\<lparr>lb_InitialTerminalGroupPosition := k\<rparr>) = seat b"
  by (simp_all add: seat_def)

lemma seat_setActiveTerminal [simp]: "seat (setActiveTerminal t b) = seat b"
  by (simp add: setActiveTerminal_def split: option.split)

lemma seat_setSlot [simp]: "seat (setSlot i t b) = seat b"
  by (simp add: setSlot_def)

lemma seat_withLifecycle [simp]: "seat (withLifecycle i l b) = seat b"
  by (simp add: withLifecycle_def split: option.split)

lemma seat_makeActive [simp]: "seat (makeActive i b) = seat b"
  by (simp add: makeActive_def Let_def split: option.split)

lemma seat_route [simp]: "seat (establishInitialTerminalRoute co w i b) = seat b"
  by (simp add: establishInitialTerminalRoute_def Let_def split: option.split)

lemma seats_broadcast: "map_option seat b = map_option seat (pr_Broadcast rt) \<Longrightarrow> seats (rt\<lparr>pr_Broadcast := b\<rparr>) = seats rt"
  by (simp add: seats_def)

lemma seats_setBroadcast [simp]:
  assumes "\<And>b. pr_Broadcast rt = Some b \<Longrightarrow> seat (f b) = seat b"
  shows "seats (setBroadcast f rt) = seats rt"
  using assms by (cases "pr_Broadcast rt") (simp_all add: setBroadcast_def seats_def)

lemma seats_setSession:
  assumes "gm_get (pr_SessionsByID rt) i = Some s" and "ls_ID s' = ls_ID s"
    and "ls_FallbackName s' = ls_FallbackName s" and "ls_ConnectionIDs s' = ls_ConnectionIDs s"
  shows "seats (setSession i s' rt) = seats rt"
  using assms by (simp add: seats_def setSession_def gm_map_put gm_put_same)

lemma seats_project [simp]: "seats (fst (projectActiveTerminal co rt)) = seats rt"
  by (auto simp: projectActiveTerminal_def split: option.splits prod.splits)

lemma seats_project_pair: "projectActiveTerminal co rt = (rt', live) \<Longrightarrow> seats rt' = seats rt"
  using seats_project [of co rt] by simp

lemma seats_storeRequestResult [simp]: "seats (storeRequestResult co i r x rt) = seats rt"
  by (auto simp: storeRequestResult_def Let_def intro!: seats_setSession split: option.splits)

lemma seats_clearNotice [simp]: "seats (clearNotice i rt) = seats rt"
  by (auto simp: clearNotice_def intro!: seats_setSession split: option.splits)

lemma seats_clearRequestResults [simp]: "seats (clearRequestResults rt) = seats rt"
  by (simp add: seats_def clearRequestResults_def) (simp add: gm_map_def case_prod_unfold comp_def)

lemma seats_clearCommandExecution [simp]: "seats (clearCommandExecutionRuntime rt) = seats rt"
  by (simp add: clearCommandExecutionRuntime_def)

lemma seats_clearTerminalNavigation [simp]: "seats (fst (clearTerminalNavigationRuntime rt)) = seats rt"
  by (simp add: clearTerminalNavigationRuntime_def)

lemma seats_clearInteraction [simp]: "seats (clearInteraction rt) = seats rt"
  by (simp add: clearInteraction_def)

section \<open>Operations that leave the players alone\<close>

lemma pred_state_any: "(\<And>x. pred_state P (f x)) \<Longrightarrow> pred_state P (m \<bind> f)"
  by (rule pred_state_bind [OF pred_state_true])

lemma seats_requestSwitch: "pred_state (\<lambda>a. seats (fst a) = seats rt) (requestSwitch co target b source rt)"
  by (auto simp: requestSwitch_def attempt_defs intro!: pred_state_any)

lemma prepareTarget_seat:
  "pred_state (\<lambda>r. \<forall>b' live. r = Inr (b', live) \<longrightarrow> seat b' = seat b) (prepareTarget L target b)"
  by (auto simp: prepareTarget_def Let_def intro!: pred_state_any split: option.split prod.split)

lemma seats_activateWith:
  assumes "pr_Broadcast rt = Some b"
  shows "pred_state (\<lambda>a. seats (fst a) = seats rt) (activateWith co L target b rt)"
  unfolding activateWith_def
  by (rule pred_state_bind [OF prepareTarget_seat [of b]])
    (auto simp: attempt_defs assms intro!: pred_state_any seats_broadcast [THEN trans] split: sum.split)

interpretation seats: runtime_invariant co "\<lambda>rt. seats rt = S" for co :: "'w Coordinator" and S
  by unfold_locales simp_all

lemma broadcast_clearInteraction:
  "pr_Broadcast (clearInteraction rt) = map_option (\<lambda>b. b\<lparr>lb_TerminalRuntimes := gm_map (\<lambda>_ st. st\<lparr>tr_CommandExecution := None\<rparr>) (lb_TerminalRuntimes b), lb_Route := []\<rparr>) (pr_Broadcast rt)"
  by (cases "pr_Broadcast rt")
    (simp_all add: clearInteraction_def clearCommandExecutionRuntime_def clearTerminalNavigationRuntime_def setBroadcast_def)

lemma seats_RequestTerminalActivation [seats_steps]:
  "pred_state (\<lambda>c. seats (cm_Runtime c) = seats rt) (RequestTerminalActivation co rt target)"
proof (cases "blank (ttg_TerminalID target)")
  case True
  then show ?thesis by (simp add: RequestTerminalActivation_def seats.refuse)
next
  case False
  then show ?thesis
    unfolding RequestTerminalActivation_def if_not_P [OF False]
    by (intro seats.state_step refl)
      (auto simp: attempt_defs Let_def broadcast_clearInteraction
        intro!: pred_state_weaken [OF seats_activateWith] pred_state_weaken [OF seats_requestSwitch] split: option.split)
qed

lemma seats_RequestTerminalClear [seats_steps]:
  "pred_state (\<lambda>c. seats (cm_Runtime c) = seats rt) (RequestTerminalClear co rt)"
  unfolding RequestTerminalClear_def
  by (intro seats.state_step refl)
    (auto simp: attempt_defs Let_def intro!: pred_state_weaken [OF seats_requestSwitch] split: option.split)

lemma seat_leaveSource [simp]: "seat (leaveSource L choice source b) = seat b"
  by (simp add: leaveSource_def)

lemma switchTo_seat: "pred_state (\<lambda>r. \<forall>b' live. r = Some (b', live) \<longrightarrow> seat b' = seat b) (switchTo L target b)"
  by (auto simp: switchTo_def Let_def intro!: pred_state_any split: option.split)

lemma seats_resolveSwitchWith:
  assumes "pr_Broadcast rt = Some b"
  shows "pred_state (\<lambda>a. seats (fst a) = seats rt) (resolveSwitchWith co rt pending choice b)"
  using assms
  by (auto simp: resolveSwitchWith_def Let_def attempt_defs intro!: seats_broadcast [THEN trans]
      pred_state_bind [OF switchTo_seat] split: option.split)

lemma seats_ResolveTerminalSwitch [seats_steps]:
  "pred_state (\<lambda>c. seats (cm_Runtime c) = seats rt) (ResolveTerminalSwitch co rt i choice)"
  by (auto simp: ResolveTerminalSwitch_def attempt_defs seats.refuse
      intro!: seats.state_step seats.commitState seats_resolveSwitchWith split: option.split)

lemma seats_acceptProjected [simp]: "seats (fst (acceptProjected co event rt)) = seats rt"
  by (simp add: acceptProjected_def case_prod_unfold)

lemma seats_settlePending [simp]: "seats (settlePending terminal rt) = seats rt"
  by (simp add: settlePending_def)

lemma seats_failPending [simp]: "seats (fst (failPendingCommandExecution co rt terminal pending decision message)) = seats rt"
  by (auto simp: failPendingCommandExecution_def Let_def case_prod_unfold seats_setSession split: option.split)

lemma seats_storeExecution: "pred_state (\<lambda>a. seats (fst a) = seats rt) (storeExecution co rt terminal pending decision authored)"
  by (auto simp: storeExecution_def Let_def case_prod_unfold intro!: pred_state_any split: option.split sum.split)

lemma seats_decideCommand: "pred_state (\<lambda>a. seats (fst a) = seats rt) (decideCommand co rt terminal pending decision authored)"
  by (simp add: decideCommand_def Let_def case_prod_unfold seats_storeExecution)

lemma seats_ResolveCommandExecution [seats_steps]:
  "pred_state (\<lambda>c. seats (cm_Runtime c) = seats rt) (ResolveCommandExecution co rt noContext requestID decision)"
  by (auto simp: ResolveCommandExecution_def Let_def seats.refuseMutation staleExecution_def
      intro!: seats.mutation_step seats.commitMutation seats_decideCommand split: option.split)

lemma seats_clearReset [simp]: "seats (fst (clearResetCommandPresentation rt terminal commandID wide)) = seats rt"
  by (cases "pr_PendingCommandExecution rt") (simp_all add: clearResetCommandPresentation_def Let_def)

lemma seats_installReset [simp]: "seats (fst (installReset co rt terminalID commandID wide durable)) = seats rt"
  by (simp add: installReset_def case_prod_unfold Let_def split: option.split)

lemma seats_resetCommandStates:
  "pred_state (\<lambda>c. seats (cm_Runtime c) = seats rt) (resetCommandStates co rt ctx terminalID commandID wide)"
  by (auto simp: resetCommandStates_def Let_def seats.refuseMutation case_prod_unfold
      intro!: seats.mutation_step seats.commitMutation pred_state_any split: option.split sum.split)

lemma seats_ResetCommandState [seats_steps]:
  "pred_state (\<lambda>c. seats (cm_Runtime c) = seats rt) (ResetCommandState co rt ctx terminalID commandID)"
  by (simp add: ResetCommandState_def Let_def seats.refuseMutation seats_resetCommandStates)

lemma seats_ResetTerminalCommandStates [seats_steps]:
  "pred_state (\<lambda>c. seats (cm_Runtime c) = seats rt) (ResetTerminalCommandStates co rt ctx terminalID)"
  by (simp add: ResetTerminalCommandStates_def Let_def seats.refuseMutation seats_resetCommandStates)

lemma navigateTo_seat:
  "pred_state (\<lambda>r. \<forall>b' live. r = Some (b', live) \<longrightarrow> seat b' = seat b) (navigateTo L target spot source b)"
  by (auto simp: navigateTo_def Let_def intro!: pred_state_any split: option.split)

lemma seats_abandonNavigation [simp]: "seats (fst (abandonNavigation co pending reason event message rt)) = seats rt"
  by (simp add: abandonNavigation_def Let_def case_prod_unfold)

lemma seats_arriveNavigation:
  "pr_Broadcast rt = Some b \<Longrightarrow> seat b' = seat b \<Longrightarrow> seats (fst (arriveNavigation route event b' live rt)) = seats rt"
  by (simp add: arriveNavigation_def Let_def seats_def)

lemma seats_approve:
  assumes "pr_Broadcast rt = Some b"
  shows "pred_state (\<lambda>a. seats (fst a) = seats rt) (approveReturn co pending b source rt)"
    and "pred_state (\<lambda>a. seats (fst a) = seats rt) (approveForward co pending b source rt)"
  using assms
  by (auto simp: approveReturn_def approveForward_def attempt_defs failAudited_def Let_def seats_arriveNavigation
      intro!: pred_state_any pred_state_bind [OF navigateTo_seat] split: option.split)

lemma seats_rejectNavigation [simp]: "seats (fst (rejectNavigation co pending source rt)) = seats rt"
  by (simp add: rejectNavigation_def Let_def case_prod_unfold)

lemma seats_ResolveTerminalNavigation [seats_steps]:
  "pred_state (\<lambda>c. seats (cm_Runtime c) = seats rt) (ResolveTerminalNavigation co rt requestID decision)"
  by (auto simp: ResolveTerminalNavigation_def Let_def seats.refuse attempt_defs failAudited_def
      intro!: seats.state_step seats.commitState seats_approve split: option.split)

lemma seats_refreshActive [simp]: "seats (fst (refreshActive co message active target rt)) = seats rt"
  by (simp add: refreshActive_def attempt_defs split: option.split)

lemma seats_UpdateLiveTerminal [seats_steps]: "seats (cm_Runtime (UpdateLiveTerminal co rt tree introText)) = seats rt"
  unfolding UpdateLiveTerminal_def by (rule seats.commitState) (simp_all add: attempt_defs split: option.split)

lemma seats_RefreshActiveTerminal [seats_steps]: "seats (cm_Runtime (RefreshActiveTerminal co rt target)) = seats rt"
  by (auto simp: RefreshActiveTerminal_def Let_def seats.refuse attempt_defs intro!: seats.commitState split: option.split)

lemma seats_ResetFailedHackActive [seats_steps]:
  "pred_state (\<lambda>c. seats (cm_Runtime c) = seats rt) (ResetFailedHackActive co rt target)"
  by (auto simp: ResetFailedHackActive_def Let_def seats.refuse attempt_defs
      intro!: seats.state_step seats.commitState pred_state_any split: option.split)

lemma seats_ReplaceTerminalGroups [seats_steps]:
  "pred_state (\<lambda>c. seats (cm_Runtime c) = seats rt) (ReplaceTerminalGroups co rt ctx candidate)"
  by (auto simp: ReplaceTerminalGroups_def Let_def seats.refuseMutation
      intro!: seats.mutation_step seats.commitMutation pred_state_any split: option.split prod.split StoreError.split)

lemma seats_rejectAction [simp]: "seats (fst (rejectAction co rt c i command reason)) = seats rt"
  by (simp add: rejectAction_def cachePlayerActionRejection_def Let_def case_prod_unfold)

lemma seats_prepared_stop: "preparePlayerAction co rt connectionID command = Inl stop \<Longrightarrow> seats (fst stop) = seats rt"
  by (auto simp: preparePlayerAction_def answerAction_def split: option.splits if_splits sum.splits prod.splits)

lemma seats_acceptedPlayerAction [simp]:
  "seats (fst (acceptedPlayerAction co rt connectionID prepared command event effects)) = seats rt"
  by (simp add: acceptedPlayerAction_def commitPlayerActionResult_def Let_def)

lemma seats_acceptedWithState [simp]: "seats (fst (acceptedWithState co rt connectionID prepared command event)) = seats rt"
  by (auto simp: acceptedWithState_def playerActionStateEffects_def dest: seats_project_pair split: prod.split option.split)

lemma seats_beginTerminal [simp]:
  "seats (beginTerminalReturn i prepared point rt) = seats rt"
  "seats (beginTerminalTransition i prepared authored target rt) = seats rt"
  by (simp_all add: beginTerminalReturn_def beginTerminalTransition_def Let_def)

lemma seats_dispatchPrepared: "pred_state (\<lambda>a. seats (fst a) = seats rt) (dispatchPrepared co rt connectionID prepared command)"
proof -
  have "pred_state (\<lambda>a. seats (fst a) = seats rt) (requestReturn co rt connectionID prepared command)"
    by (auto simp: requestReturn_def Let_def intro!: pred_state_any)
  moreover have "pred_state (\<lambda>a. seats (fst a) = seats rt) (requestTransition co rt connectionID prepared command authored t)" for authored t
    by (auto simp: requestTransition_def commitPlayerActionResult_def Let_def intro!: pred_state_any split: option.split)
  moreover have "pred_state (\<lambda>a. seats (fst a) = seats rt) (requestCommand co rt connectionID prepared command authored)" for authored
    by (auto simp: requestCommand_def Let_def intro!: pred_state_any)
  moreover have "pred_state (\<lambda>a. seats (fst a) = seats rt) (applyGameplay co rt connectionID prepared command)"
    by (auto simp: applyGameplay_def Let_def intro!: pred_state_any split: option.split prod.split)
  ultimately show ?thesis
    by (auto simp: dispatchPrepared_def split: option.split CommandBehavior.split)
qed

lemma seats_DispatchPlayerAction [seats_steps]:
  "pred_state (\<lambda>c. seats (cm_Runtime c) = seats rt) (DispatchPlayerAction co rt connectionID command)"
  unfolding DispatchPlayerAction_def
  by (intro seats.action_step refl) (auto simp: seats_dispatchPrepared dest: seats_prepared_stop split: sum.split)

lemma seats_DispatchPlayerActionForRecognition [seats_steps]:
  "pred_state (\<lambda>c. seats (cm_Runtime c) = seats rt) (DispatchPlayerActionForRecognition co rt handle command)"
  by (simp add: DispatchPlayerActionForRecognition_def Let_def seats_DispatchPlayerAction split: option.split list.split)

lemma seats_ForceHackSuccessActive [seats_steps]: "seats (cm_Runtime (ForceHackSuccessActive co rt)) = seats rt"
  unfolding ForceHackSuccessActive_def
  by (auto simp: Let_def intro!: seats.commit split: option.split)

section \<open>The invariant of the players\<close>

text \<open>
  Sessions carry their own identity; names and connections of different sessions are different; a
  recognition token leads to a session.  Claims pair sessions and characters one to one, both exist,
  and the controller, if any, holds a character.
\<close>

definition sessions_ok :: "ProcessRuntime \<Rightarrow> bool" where
  "sessions_ok rt =
     (gm_ok (pr_SessionsByID rt) \<and>
      (\<forall>i s. gm_get (pr_SessionsByID rt) i = Some s \<longrightarrow> ls_ID s = i \<and> gm_ok (ls_ConnectionIDs s)) \<and>
      (\<forall>i j s t. gm_get (pr_SessionsByID rt) i = Some s \<and> gm_get (pr_SessionsByID rt) j = Some t \<and> i \<noteq> j \<longrightarrow>
         ls_FallbackName s \<noteq> ls_FallbackName t \<and>
         (\<forall>c. \<not> (gm_has (ls_ConnectionIDs s) c \<and> gm_has (ls_ConnectionIDs t) c))) \<and>
      (\<forall>token i. gm_get (pr_SessionIDByBrowserToken rt) token = Some i \<longrightarrow> gm_has (pr_SessionsByID rt) i))"

definition seat_ok :: "ProcessRuntime \<Rightarrow> LiveBroadcast \<Rightarrow> bool" where
  "seat_ok rt b =
     (gm_ok (lb_AssignmentsBySession b) \<and> gm_ok (lb_SessionByCharacter b) \<and>
      (\<forall>s c. gm_get (lb_AssignmentsBySession b) s = Some c \<longleftrightarrow> gm_get (lb_SessionByCharacter b) c = Some s) \<and>
      (\<forall>s c. gm_get (lb_AssignmentsBySession b) s = Some c \<longrightarrow> gm_has (pr_SessionsByID rt) s \<and> gm_has (pr_RosterByID rt) c) \<and>
      (\<forall>s. lb_ControllerSessionID b = Some s \<longrightarrow> gm_has (lb_AssignmentsBySession b) s))"

definition players_ok :: "ProcessRuntime \<Rightarrow> bool" where
  "players_ok rt = (sessions_ok rt \<and> (\<forall>b. pr_Broadcast rt = Some b \<longrightarrow> seat_ok rt b))"

lemma seats_sessions:
  assumes "seats rt' = seats rt" and "gm_get (pr_SessionsByID rt') i = Some s"
  shows "\<exists>t. gm_get (pr_SessionsByID rt) i = Some t \<and> ls_ID t = ls_ID s \<and> ls_FallbackName t = ls_FallbackName s \<and>
    ls_ConnectionIDs t = ls_ConnectionIDs s"
proof -
  let ?f = "\<lambda>_ s. (ls_ID s, ls_FallbackName s, ls_ConnectionIDs s)"
  from assms(1) have "gm_get (gm_map ?f (pr_SessionsByID rt')) i = gm_get (gm_map ?f (pr_SessionsByID rt)) i"
    by (simp add: seats_def)
  with assms(2) show ?thesis by (cases "gm_get (pr_SessionsByID rt) i") auto
qed

lemma seats_keys:
  assumes "seats rt' = seats rt"
  shows "gm_keys (pr_SessionsByID rt') = gm_keys (pr_SessionsByID rt)"
proof -
  from assms have "fst (seats rt') = fst (seats rt)" by simp
  then have "gm_keys (fst (seats rt')) = gm_keys (fst (seats rt))" by simp
  then show ?thesis by (simp only: seats_def fst_conv gm_keys_map)
qed

lemma seats_has: "seats rt' = seats rt \<Longrightarrow> gm_has (pr_SessionsByID rt') i = gm_has (pr_SessionsByID rt) i"
  by (metis seats_keys set_gm_keys)

lemma sessions_ok_seats:
  assumes same: "seats rt' = seats rt" and ok: "sessions_ok rt"
  shows "sessions_ok rt'"
proof -
  have "gm_ok (pr_SessionsByID rt')" using ok seats_keys [OF same] by (simp add: sessions_ok_def gm_ok_def)
  moreover have "pr_SessionIDByBrowserToken rt' = pr_SessionIDByBrowserToken rt" using same by (simp add: seats_def)
  moreover have "ls_ID s = i \<and> gm_ok (ls_ConnectionIDs s)" if "gm_get (pr_SessionsByID rt') i = Some s" for i s
    using seats_sessions [OF same that] ok unfolding sessions_ok_def by metis
  moreover have "ls_FallbackName s \<noteq> ls_FallbackName t \<and> \<not> (gm_has (ls_ConnectionIDs s) c \<and> gm_has (ls_ConnectionIDs t) c)"
    if "gm_get (pr_SessionsByID rt') i = Some s" "gm_get (pr_SessionsByID rt') j = Some t" "i \<noteq> j" for i j s t c
  proof -
    from seats_sessions [OF same that(1)] seats_sessions [OF same that(2)] obtain s' t'
      where "gm_get (pr_SessionsByID rt) i = Some s'" "gm_get (pr_SessionsByID rt) j = Some t'"
        and eq: "ls_FallbackName s' = ls_FallbackName s" "ls_ConnectionIDs s' = ls_ConnectionIDs s"
          "ls_FallbackName t' = ls_FallbackName t" "ls_ConnectionIDs t' = ls_ConnectionIDs t" by blast
    with ok that(3) have "ls_FallbackName s' \<noteq> ls_FallbackName t' \<and>
        \<not> (gm_has (ls_ConnectionIDs s') c \<and> gm_has (ls_ConnectionIDs t') c)"
      unfolding sessions_ok_def by blast
    then show ?thesis by (simp add: eq)
  qed
  moreover have "gm_has (pr_SessionsByID rt') i" if "gm_get (pr_SessionIDByBrowserToken rt) token = Some i" for token i
    using that ok by (auto simp: sessions_ok_def seats_has [OF same])
  ultimately show ?thesis unfolding sessions_ok_def by (simp only:) blast
qed

lemma players_ok_seats:
  assumes same: "seats rt' = seats rt" and ok: "players_ok rt"
  shows "players_ok rt'"
proof -
  have "map_option seat (pr_Broadcast rt') = map_option seat (pr_Broadcast rt)" "pr_RosterByID rt' = pr_RosterByID rt"
    using same by (simp_all add: seats_def)
  then have "seat_ok rt' b" if "pr_Broadcast rt' = Some b" for b
    using ok that seats_has [OF same]
    by (cases "pr_Broadcast rt") (simp_all add: players_ok_def seat_ok_def seat_def)
  then show ?thesis using ok sessions_ok_seats [OF same] by (simp add: players_ok_def)
qed

interpretation players: runtime_invariant co players_ok for co :: "'w Coordinator"
  by unfold_locales (auto intro: players_ok_seats [rotated])

text \<open>With the claims paired, the defensive searches of the code look at one table only.\<close>

lemma seat_sessionAssigned: "seat_ok rt b \<Longrightarrow> sessionAssigned b s = gm_has (lb_AssignmentsBySession b) s"
  by (auto simp: seat_ok_def sessionAssigned_def list_ex_iff gm_has_iff gm_get_iff_in)

lemma seat_characterOwner:
  assumes "seat_ok rt b"
  shows "characterOwner (Some b) c = gm_get (lb_SessionByCharacter b) c"
proof (cases "gm_get (lb_SessionByCharacter b) c")
  case None
  then have "find (\<lambda>(_, d). d = c) (lb_AssignmentsBySession b) = None"
    using assms by (auto simp: seat_ok_def find_None_iff) (metis gm_get_iff_in option.distinct(1))
  with None show ?thesis by (simp add: characterOwner_def)
qed (simp add: characterOwner_def)

section \<open>Operations on players keep the invariant\<close>

named_theorems player_steps

lemma players_okD: "players_ok rt \<Longrightarrow> sessions_ok rt" "players_ok rt \<Longrightarrow> pr_Broadcast rt = Some b \<Longrightarrow> seat_ok rt b"
  by (simp_all add: players_ok_def)

lemma seat_ok_cong:
  assumes "pr_RosterByID rt' = pr_RosterByID rt" and "\<And>i. gm_has (pr_SessionsByID rt) i \<Longrightarrow> gm_has (pr_SessionsByID rt') i"
    and "seat_ok rt b"
  shows "seat_ok rt' b"
  using assms by (auto simp: seat_ok_def)

text \<open>Without a broadcast there are no claims.\<close>

lemma players_ok_roster:
  assumes "players_ok rt" and "pr_Broadcast rt = None"
  shows "players_ok (rt\<lparr>pr_RosterByID := m, pr_RosterOrder := order, pr_ActivePlayerConfig := h\<rparr>)"
    and "players_ok (rt\<lparr>pr_ActivePlayerConfig := h, pr_RosterByID := m, pr_RosterOrder := order\<rparr>)"
  using assms by (auto simp: players_ok_def sessions_ok_def)

lemma players_InstallPlayerConfig [player_steps]:
  "players_ok rt \<Longrightarrow> players_ok (cm_Runtime (InstallPlayerConfig co rt handle roster))"
  by (auto simp: InstallPlayerConfig_def players.refuse attempt_defs players_ok_roster
      intro!: players.commitState split: option.split)

lemma players_ClearPlayerConfig [player_steps]: "players_ok rt \<Longrightarrow> players_ok (cm_Runtime (ClearPlayerConfig co rt))"
  by (auto simp: ClearPlayerConfig_def attempt_defs players_ok_roster intro!: players.commitState)

lemma players_replaceRoster:
  "players_ok rt \<Longrightarrow> pr_Broadcast rt = None \<Longrightarrow>
   pred_state (\<lambda>a. players_ok (fst a)) (replaceRoster co rt byID installed order)"
  by (auto simp: replaceRoster_def attempt_defs players_ok_roster intro!: pred_state_any split: sum.split)

lemma rosterGuard_broadcast: "rosterGuard co rt r = None \<Longrightarrow> pr_Broadcast rt = None"
  by (simp add: rosterGuard_def split: if_splits)

lemma players_AddCharacter [player_steps]:
  assumes "players_ok rt"
  shows "pred_state (\<lambda>c. players_ok (cm_Runtime c)) (AddCharacter co rt payload)"
  using assms
  by (auto simp: AddCharacter_def players.refuse attempt_defs Let_def dest: rosterGuard_broadcast
      intro!: players.commitState pred_state_any [where m = "co_NextID co"] players.state_step players_replaceRoster
      split: option.split sum.split)

lemma players_UpdateCharacter [player_steps]:
  assumes "players_ok rt"
  shows "pred_state (\<lambda>c. players_ok (cm_Runtime c)) (UpdateCharacter co rt payload)"
  unfolding UpdateCharacter_def using assms
  by (intro players.state_step) (auto simp: attempt_defs dest: rosterGuard_broadcast
      intro!: players_replaceRoster split: option.split sum.split)

lemma players_DeleteCharacter [player_steps]:
  assumes "players_ok rt"
  shows "pred_state (\<lambda>c. players_ok (cm_Runtime c)) (DeleteCharacter co rt payload)"
  unfolding DeleteCharacter_def using assms
  by (intro players.state_step) (auto simp: attempt_defs dest: rosterGuard_broadcast
      intro!: players_replaceRoster split: option.split)

lemma seat_ok_setSession: "seat_ok rt b \<Longrightarrow> seat_ok (setSession i s rt) b"
  by (erule seat_ok_cong [rotated 2]) (simp_all add: setSession_def)

text \<open>Replacing or adding one session.\<close>

lemma players_ok_setSession:
  assumes ok: "players_ok rt" and s: "ls_ID s = i" "gm_ok (ls_ConnectionIDs s)"
    and others: "\<And>j t. j \<noteq> i \<Longrightarrow> gm_get (pr_SessionsByID rt) j = Some t \<Longrightarrow>
      ls_FallbackName t \<noteq> ls_FallbackName s \<and> (\<forall>c. \<not> (gm_has (ls_ConnectionIDs s) c \<and> gm_has (ls_ConnectionIDs t) c))"
  shows "players_ok (setSession i s rt)"
proof -
  have b: "pr_Broadcast (setSession i s rt) = pr_Broadcast rt" by (simp add: setSession_def)
  have "sessions_ok (setSession i s rt)"
    using players_okD(1) [OF ok] s others unfolding sessions_ok_def setSession_def by auto metis+
  then show ?thesis
    using ok seat_ok_setSession by (auto simp: players_ok_def b)
qed

lemma players_RenameLogicalSession [player_steps]:
  assumes "players_ok rt"
  shows "players_ok (cm_Runtime (RenameLogicalSession co rt i name))"
proof -
  have "players_ok (setSession i (s\<lparr>ls_FallbackName := n\<rparr>) rt)"
    if s: "gm_get (pr_SessionsByID rt) i = Some s"
      and free: "\<not> list_ex (\<lambda>(j, t). j \<noteq> i \<and> ls_FallbackName t = n) (pr_SessionsByID rt)" for s n
  proof (rule players_ok_setSession [OF assms])
    have ok: "sessions_ok rt" using assms by (rule players_okD)
    show "ls_ID (s\<lparr>ls_FallbackName := n\<rparr>) = i" "gm_ok (ls_ConnectionIDs (s\<lparr>ls_FallbackName := n\<rparr>))"
      using ok s by (auto simp: sessions_ok_def)
    fix j t assume j: "j \<noteq> i" and t: "gm_get (pr_SessionsByID rt) j = Some t"
    have "ls_FallbackName t \<noteq> n" using free j gm_get_in [OF t] by (auto simp: list_ex_iff)
    then show "ls_FallbackName t \<noteq> ls_FallbackName (s\<lparr>ls_FallbackName := n\<rparr>) \<and>
        (\<forall>c. \<not> (gm_has (ls_ConnectionIDs (s\<lparr>ls_FallbackName := n\<rparr>)) c \<and> gm_has (ls_ConnectionIDs t) c))"
      using ok s t j by (simp add: sessions_ok_def) blast
  qed
  then show ?thesis
    using assms by (auto simp: RenameLogicalSession_def players.refuse attempt_defs intro!: players.commitState split: option.split sum.split)
qed

section \<open>Connections\<close>

lemma gm_del_absent: "\<not> gm_has m k \<Longrightarrow> gm_del k m = m"
  by (simp add: gm_del_def flip: set_gm_keys) (simp add: gm_keys_def delete_idem)

text \<open>A connection that attaches to one session is taken from all the others.\<close>

definition without :: "ConnectionID \<Rightarrow> LogicalSession \<Rightarrow> LogicalSession" where
  "without c s = s\<lparr>ls_ConnectionIDs := gm_del c (ls_ConnectionIDs s)\<rparr>"

lemma without_absent: "\<not> gm_has (ls_ConnectionIDs s) c \<Longrightarrow> without c s = s"
  by (simp add: without_def gm_del_absent)

lemma dropConnection_sessions:
  "gm_get (pr_SessionsByID (fst (dropConnection c target i rp))) j =
     (if j = i \<and> i \<noteq> target then map_option (without c) (gm_get (pr_SessionsByID (fst rp)) j)
      else gm_get (pr_SessionsByID (fst rp)) j)"
proof (cases "gm_get (pr_SessionsByID (fst rp)) i")
  case (Some s)
  show ?thesis
  proof (cases "gm_has (ls_ConnectionIDs s) c")
    case True
    with Some show ?thesis
      by (cases rp) (simp add: dropConnection_def setSession_def Let_def without_def)
  next
    case False
    with Some show ?thesis by (cases rp) (simp add: dropConnection_def without_absent)
  qed
qed (cases rp, simp add: dropConnection_def)

lemma dropConnection_rest:
  "\<exists>m. fst (dropConnection c target i rp) = (fst rp)\<lparr>pr_SessionsByID := m\<rparr> \<and>
     gm_keys m = gm_keys (pr_SessionsByID (fst rp))"
proof (cases rp)
  case (Pair rt ch)
  have same: "\<exists>m. rt = rt\<lparr>pr_SessionsByID := m\<rparr> \<and> gm_keys m = gm_keys (pr_SessionsByID rt)"
    by (rule exI [of _ "pr_SessionsByID rt"]) simp
  have keys: "gm_keys (gm_put i s m) = gm_keys m" if "gm_has m i" for s and m :: "(string, LogicalSession) gomap"
    using that by (simp add: gm_keys_def gm_put_def update_keys flip: set_gm_keys)
  show ?thesis
    using same keys by (auto simp: Pair dropConnection_def setSession_def Let_def gm_has_iff split: option.split)
qed

lemma dropConnections:
  "gm_get (pr_SessionsByID (fst (fold (dropConnection c target) ids rp))) j =
     (if j \<in> set ids \<and> j \<noteq> target then map_option (without c) (gm_get (pr_SessionsByID (fst rp)) j)
      else gm_get (pr_SessionsByID (fst rp)) j)"
proof (induction ids arbitrary: rp)
  case (Cons i ids)
  have idem: "without c (without c s) = without c s" for s
    by (simp add: without_def gm_del_absent)
  show ?case
    using Cons.IH [of "dropConnection c target i rp"]
    by (auto simp: dropConnection_sessions idem option.map_comp comp_def)
qed simp

lemma dropConnections_rest:
  "\<exists>m. fst (fold (dropConnection c target) ids rp) = (fst rp)\<lparr>pr_SessionsByID := m\<rparr> \<and>
     gm_keys m = gm_keys (pr_SessionsByID (fst rp))"
proof (induction ids arbitrary: rp)
  case Nil
  show ?case by (auto intro!: exI [of _ "pr_SessionsByID (fst rp)"])
next
  case (Cons i ids)
  from dropConnection_rest [of c target i rp] Cons.IH [of "dropConnection c target i rp"] show ?case by auto
qed

lemma removeConnection:
  fixes rt c target
  defines "rt' \<equiv> fst (removeConnectionFromOtherSessions rt c target)"
  shows "gm_get (pr_SessionsByID rt') j =
      (if j = target then gm_get (pr_SessionsByID rt) j else map_option (without c) (gm_get (pr_SessionsByID rt) j))"
    and "\<exists>m. rt' = rt\<lparr>pr_SessionsByID := m\<rparr> \<and> gm_keys m = gm_keys (pr_SessionsByID rt)"
proof -
  have "j \<in> set (sortedSessionIDs rt) \<longleftrightarrow> gm_has (pr_SessionsByID rt) j" for j
    by (simp add: sortedSessionIDs_def set_gm_keys)
  then show "gm_get (pr_SessionsByID rt') j =
      (if j = target then gm_get (pr_SessionsByID rt) j else map_option (without c) (gm_get (pr_SessionsByID rt) j))"
    and "\<exists>m. rt' = rt\<lparr>pr_SessionsByID := m\<rparr> \<and> gm_keys m = gm_keys (pr_SessionsByID rt)"
    using dropConnections [of c target "sortedSessionIDs rt" "(rt, False)" j]
      dropConnections_rest [of c target "sortedSessionIDs rt" "(rt, False)"]
    by (auto simp: rt'_def removeConnectionFromOtherSessions_def gm_has_def split: if_splits)
qed

lemma without_simps [simp]:
  "ls_ID (without c s) = ls_ID s" "ls_FallbackName (without c s) = ls_FallbackName s"
  "ls_RequestResults (without c s) = ls_RequestResults s"
  "ls_ConnectionIDs (without c s) = gm_del c (ls_ConnectionIDs s)"
  by (simp_all add: without_def)

lemma players_removeConnection:
  assumes "players_ok rt"
  shows "players_ok (fst (removeConnectionFromOtherSessions rt c target))"
proof -
  let ?rt = "fst (removeConnectionFromOtherSessions rt c target)"
  from removeConnection(2) [of rt c target] obtain m where m: "?rt = rt\<lparr>pr_SessionsByID := m\<rparr>"
    "gm_keys m = gm_keys (pr_SessionsByID rt)" by blast
  have old: "\<exists>t. gm_get (pr_SessionsByID rt) i = Some t \<and> ls_ID t = ls_ID s \<and> ls_FallbackName t = ls_FallbackName s \<and>
      (gm_ok (ls_ConnectionIDs t) \<longrightarrow> gm_ok (ls_ConnectionIDs s)) \<and>
      (\<forall>d. gm_has (ls_ConnectionIDs s) d \<longrightarrow> gm_has (ls_ConnectionIDs t) d)"
    if "gm_get (pr_SessionsByID ?rt) i = Some s" for i s
    using that by (auto simp: removeConnection(1) split: if_splits)
  have has: "gm_has (pr_SessionsByID ?rt) i = gm_has (pr_SessionsByID rt) i" for i
    by (simp add: m flip: set_gm_keys)
  have tokens: "pr_SessionIDByBrowserToken ?rt = pr_SessionIDByBrowserToken rt" by (simp add: m)
  have ok: "sessions_ok rt" using assms by (rule players_okD)
  have "sessions_ok ?rt"
    unfolding sessions_ok_def tokens has
  proof (intro conjI allI impI)
    show "gm_ok (pr_SessionsByID ?rt)" using ok m by (simp add: sessions_ok_def gm_ok_def)
    fix i s assume "gm_get (pr_SessionsByID ?rt) i = Some s"
    from old [OF this] ok show "ls_ID s = i" "gm_ok (ls_ConnectionIDs s)" unfolding sessions_ok_def by metis+
  next
    fix i j s t assume *: "gm_get (pr_SessionsByID ?rt) i = Some s \<and> gm_get (pr_SessionsByID ?rt) j = Some t \<and> i \<noteq> j"
    from old [of i s] old [of j t] * ok
    show "ls_FallbackName s \<noteq> ls_FallbackName t" unfolding sessions_ok_def by metis
    fix c
    from old [of i s] old [of j t] * ok
    show "\<not> (gm_has (ls_ConnectionIDs s) c \<and> gm_has (ls_ConnectionIDs t) c)" unfolding sessions_ok_def by metis
  next
    fix token i assume "gm_get (pr_SessionIDByBrowserToken rt) token = Some i"
    then show "gm_has (pr_SessionsByID rt) i" using ok unfolding sessions_ok_def by blast
  qed
  moreover have "seat_ok ?rt b" if "pr_Broadcast ?rt = Some b" for b
    using that assms has by (intro seat_ok_cong [of ?rt rt]) (auto simp: m players_ok_def)
  ultimately show ?thesis by (simp add: players_ok_def)
qed

lemma nextUnused_fresh:
  "pred_state (\<lambda>r. \<forall>i. r = Some i \<longrightarrow> i \<noteq> '''' \<and> \<not> used i) (nextUnused n draw used)"
  by (induction n) (auto intro!: pred_state_any)

lemma nextFallbackName_unused:
  assumes "nextFallbackName rt = Some name" and "gm_get (pr_SessionsByID rt) i = Some s"
  shows "ls_FallbackName s \<noteq> name"
  using first_free_Some [OF assms(1) [unfolded nextFallbackName_def]] gm_get_in [OF assms(2)] by force

lemma seats_subscriptionSnapshot [simp]: "seats (fst (subscriptionSnapshot co rt i token)) = seats rt"
  by (auto simp: subscriptionSnapshot_def dest: seats_project_pair split: option.split prod.split if_splits)

lemma players_tokens:
  assumes "players_ok rt" and "gm_has (pr_SessionsByID rt) i"
  shows "players_ok (rt\<lparr>pr_SessionIDByBrowserToken := gm_put token i (pr_SessionIDByBrowserToken rt)\<rparr>)"
  using assms by (auto simp: players_ok_def sessions_ok_def seat_ok_def)

lemma singleton_set [simp]: "gm_ok [(c, ())]" "gm_has [(c, ())] d \<longleftrightarrow> d = c"
  by (simp_all add: gm_ok_def gm_keys_def gm_has_def gm_get_def)

lemma removed_elsewhere:
  "i \<noteq> target \<Longrightarrow> gm_get (pr_SessionsByID (fst (removeConnectionFromOtherSessions rt c target))) i = Some t \<Longrightarrow>
   \<not> gm_has (ls_ConnectionIDs t) c"
  by (auto simp: removeConnection(1))

lemma sessionForConnectionD:
  assumes "sessionForConnection rt c = Some (i, s)"
  shows "gm_get (pr_SessionsByID rt) i = Some s" and "gm_has (ls_ConnectionIDs s) c"
  using first_some_SomeD [OF assms [unfolded sessionForConnection_def]] by (auto split: option.splits if_splits)

lemma players_openSession:
  assumes "players_ok rt" and rt1: "rt1 = fst (removeConnectionFromOtherSessions rt c i)"
    and name: "nextFallbackName rt1 = Some name"
  shows "players_ok (openSession c i token name rt1)"
proof -
  let ?s = "\<lparr>ls_ID = i, ls_FallbackName = name, ls_ConnectionIDs = [(c, ())], ls_RequestResults = [], ls_Notice = None\<rparr>"
  have "players_ok (setSession i ?s rt1)"
  proof (rule players_ok_setSession)
    show "players_ok rt1" unfolding rt1 by (rule players_removeConnection [OF assms(1)])
    fix j t assume "j \<noteq> i" and t: "gm_get (pr_SessionsByID rt1) j = Some t"
    then show "ls_FallbackName t \<noteq> ls_FallbackName ?s \<and> (\<forall>d. \<not> (gm_has (ls_ConnectionIDs ?s) d \<and> gm_has (ls_ConnectionIDs t) d))"
      using nextFallbackName_unused [OF name t] removed_elsewhere [of j i rt c t] by (auto simp: rt1)
  qed simp_all
  from players_tokens [OF this, of i token] show ?thesis by (simp add: setSession_def openSession_def)
qed

lemma players_newSubscription:
  assumes "players_ok rt"
  shows "pred_state (\<lambda>r. \<forall>a. r = Some a \<longrightarrow> players_ok (fst a)) (newSubscription co rt c)"
  using assms
  by (auto simp: newSubscription_def Let_def case_prod_unfold
      intro!: pred_state_any players_ok_seats [OF seats_subscriptionSnapshot] players_openSession split: option.split)

lemma players_knownSubscription:
  assumes "players_ok rt" and s: "gm_get (pr_SessionsByID rt) i = Some s"
  shows "players_ok (fst (knownSubscription co rt c i s token))"
proof (cases "gm_has (ls_ConnectionIDs s) c")
  case True
  with assms show ?thesis
    by (auto simp: knownSubscription_def case_prod_unfold intro: players_ok_seats [OF seats_subscriptionSnapshot])
next
  case False
  let ?rt = "fst (removeConnectionFromOtherSessions rt c i)"
  let ?s = "s\<lparr>ls_ConnectionIDs := gm_put c () (ls_ConnectionIDs s)\<rparr>"
  have ok: "sessions_ok rt" using assms(1) by (rule players_okD)
  have "players_ok (setSession i ?s ?rt)"
  proof (rule players_ok_setSession [OF players_removeConnection [OF assms(1)]])
    show "ls_ID ?s = i" "gm_ok (ls_ConnectionIDs ?s)" using ok s by (auto simp: sessions_ok_def)
    fix j t assume j: "j \<noteq> i" and t: "gm_get (pr_SessionsByID ?rt) j = Some t"
    then obtain t' where t': "gm_get (pr_SessionsByID rt) j = Some t'" and "t = without c t'"
      by (auto simp: removeConnection(1))
    then show "ls_FallbackName t \<noteq> ls_FallbackName ?s \<and> (\<forall>d. \<not> (gm_has (ls_ConnectionIDs ?s) d \<and> gm_has (ls_ConnectionIDs t) d))"
      using ok s j unfolding sessions_ok_def by simp metis
  qed
  with False show ?thesis
    by (auto simp: knownSubscription_def case_prod_unfold Let_def intro: players_ok_seats [OF seats_subscriptionSnapshot])
qed

lemma stampSnapshot_runtime [simp]: "cm_Runtime (stampSnapshot c) = cm_Runtime c"
  by (simp add: stampSnapshot_def)

lemma players_commit: "players_ok old \<Longrightarrow> players_ok (fst a) \<Longrightarrow> players_ok (cm_Runtime (commit co old a))"
  using players.commit by (cases a) auto

lemma players_AttachSubscriptionAndRegister [player_steps]:
  assumes "players_ok rt"
  shows "pred_state (\<lambda>r. \<forall>c. r = Some c \<longrightarrow> players_ok (cm_Runtime c)) (AttachSubscriptionAndRegister co rt connectionID handle)"
  using assms
  by (auto simp: AttachSubscriptionAndRegister_def Let_def
      intro!: pred_state_bind [OF players_newSubscription] players_commit players_knownSubscription split: option.split)

lemma players_DetachConnection [player_steps]:
  assumes "players_ok rt"
  shows "players_ok (cm_Runtime (DetachConnection co rt connectionID))"
proof -
  have "players_ok (setSession i (without connectionID s) rt)" if s: "sessionForConnection rt connectionID = Some (i, s)" for i s
  proof (rule players_ok_setSession [OF assms])
    have ok: "sessions_ok rt" using assms by (rule players_okD)
    have get: "gm_get (pr_SessionsByID rt) i = Some s" using s by (rule sessionForConnectionD(1))
    then show "ls_ID (without connectionID s) = i" "gm_ok (ls_ConnectionIDs (without connectionID s))"
      using ok by (auto simp: sessions_ok_def)
    fix j t assume "j \<noteq> i" "gm_get (pr_SessionsByID rt) j = Some t"
    then show "ls_FallbackName t \<noteq> ls_FallbackName (without connectionID s) \<and>
        (\<forall>d. \<not> (gm_has (ls_ConnectionIDs (without connectionID s)) d \<and> gm_has (ls_ConnectionIDs t) d))"
      using ok get unfolding sessions_ok_def by simp metis
  qed
  with assms show ?thesis
    by (auto simp: DetachConnection_def Let_def intro!: players_commit simp flip: without_def split: option.split)
qed

section \<open>Claims\<close>

text \<open>Claiming a free character for a free session, and giving a claim up.\<close>

lemma seat_ok_claim:
  assumes ok: "seat_ok rt b" and "gm_has (pr_SessionsByID rt) s" and "gm_has (pr_RosterByID rt) c"
    and "\<not> gm_has (lb_AssignmentsBySession b) s" and "\<not> gm_has (lb_SessionByCharacter b) c"
  shows "seat_ok rt (claim s c b)"
proof -
  have free: "gm_get (lb_AssignmentsBySession b) s' \<noteq> Some c" "gm_get (lb_SessionByCharacter b) c' \<noteq> Some s" for s' c'
    using assms by (auto simp: seat_ok_def gm_has_def)
  show ?thesis
    using assms free by (auto simp: seat_ok_def claim_def)
qed

lemma seat_ok_controller:
  "seat_ok rt b \<Longrightarrow> gm_has (lb_AssignmentsBySession b) s \<Longrightarrow> seat_ok rt (b\<lparr>lb_ControllerSessionID := Some s\<rparr>)"
  by (auto simp: seat_ok_def)

lemma seat_ok_release:
  assumes ok: "seat_ok rt b" and s: "gm_get (lb_AssignmentsBySession b) s = Some c"
  shows "seat_ok rt (clearControllerIfSession s (b\<lparr>lb_AssignmentsBySession := gm_del s (lb_AssignmentsBySession b),
    lb_SessionByCharacter := gm_del c (lb_SessionByCharacter b)\<rparr>))"
proof -
  have pair: "gm_get (lb_AssignmentsBySession b) x = Some y \<longleftrightarrow> gm_get (lb_SessionByCharacter b) y = Some x" for x y
    using ok by (simp add: seat_ok_def)
  have "gm_get (lb_AssignmentsBySession b) s' = Some c \<Longrightarrow> s' = s" "gm_get (lb_AssignmentsBySession b) s = Some c' \<Longrightarrow> c' = c" for s' c'
    using s pair by (metis option.inject)+
  note unique = this
  have paired: "gm_get (gm_del s (lb_AssignmentsBySession b)) x = Some y \<longleftrightarrow> gm_get (gm_del c (lb_SessionByCharacter b)) y = Some x" for x y
  proof (cases "x = s \<or> y = c")
    case True
    then show ?thesis using unique pair [of x y] by auto
  qed (simp add: pair)
  have "seat_ok rt (b\<lparr>lb_AssignmentsBySession := gm_del s (lb_AssignmentsBySession b), lb_SessionByCharacter := gm_del c (lb_SessionByCharacter b),
      lb_ControllerSessionID := None\<rparr>)"
    using ok paired by (simp add: seat_ok_def)
  moreover have "seat_ok rt (b\<lparr>lb_AssignmentsBySession := gm_del s (lb_AssignmentsBySession b), lb_SessionByCharacter := gm_del c (lb_SessionByCharacter b)\<rparr>)"
    if "lb_ControllerSessionID b \<noteq> Some s"
    unfolding seat_ok_def
  proof (intro conjI allI impI)
    fix x y assume "gm_get (lb_AssignmentsBySession (b\<lparr>lb_AssignmentsBySession := gm_del s (lb_AssignmentsBySession b),
      lb_SessionByCharacter := gm_del c (lb_SessionByCharacter b)\<rparr>)) x = Some y"
    then have "gm_get (lb_AssignmentsBySession b) x = Some y" by (simp split: if_splits)
    with ok show "gm_has (pr_SessionsByID rt) x" "gm_has (pr_RosterByID rt) y" unfolding seat_ok_def by blast+
  qed (use ok paired that in \<open>simp_all add: seat_ok_def\<close>)
  ultimately show ?thesis by (simp add: clearControllerIfSession_def)
qed

lemma players_ok_broadcast:
  "players_ok rt \<Longrightarrow> (\<And>b. b' = Some b \<Longrightarrow> seat_ok rt b) \<Longrightarrow> players_ok (rt\<lparr>pr_Broadcast := b'\<rparr>)"
  by (auto simp: players_ok_def sessions_ok_def seat_ok_def)

lemma seats_acceptFor [simp]: "seats (fst (acceptFor co i extra rt)) = seats rt"
  by (auto simp: acceptFor_def appendCurrentTerminalEffect_def dest: seats_project_pair split: prod.split option.split)

lemma claim_simps [simp]:
  "lb_ControllerSessionID (claim s c b) = lb_ControllerSessionID b"
  "lb_AssignmentsBySession (claim s c b) = gm_put s c (lb_AssignmentsBySession b)"
  "lb_SessionByCharacter (claim s c b) = gm_put c s (lb_SessionByCharacter b)"
  by (simp_all add: claim_def)

lemma players_AssignCharacter [player_steps]:
  assumes "players_ok rt"
  shows "players_ok (cm_Runtime (AssignCharacter co rt s c))"
proof -
  have claimed: "players_ok (rt\<lparr>pr_Broadcast := Some (claim s c b)\<rparr>)"
      "players_ok (rt\<lparr>pr_Broadcast := Some (claim s c b\<lparr>lb_ControllerSessionID := Some s\<rparr>)\<rparr>)"
    if b: "pr_Broadcast rt = Some b" and "gm_has (pr_SessionsByID rt) s" "gm_has (pr_RosterByID rt) c"
      and free: "\<not> sessionAssigned b s" "\<not> characterClaimed (Some b) c" for b
  proof -
    have ok: "seat_ok rt b" using assms b by (rule players_okD)
    have "seat_ok rt (claim s c b)"
      using that by (intro seat_ok_claim [OF ok])
        (simp_all add: seat_sessionAssigned [OF ok] characterClaimed_def seat_characterOwner [OF ok] gm_has_def)
    then show "players_ok (rt\<lparr>pr_Broadcast := Some (claim s c b)\<rparr>)"
      "players_ok (rt\<lparr>pr_Broadcast := Some (claim s c b\<lparr>lb_ControllerSessionID := Some s\<rparr>)\<rparr>)"
      by (auto intro!: players_ok_broadcast [OF assms] seat_ok_controller)
  qed
  show ?thesis
    unfolding AssignCharacter_def
    by (intro players.commitState assms)
      (auto simp: attempt_defs Let_def case_prod_unfold gm_has_iff assms
        intro!: players_ok_seats [OF seats_acceptFor] claimed split: option.split)
qed

lemma players_ReleaseCharacter [player_steps]:
  "players_ok rt \<Longrightarrow> players_ok (cm_Runtime (ReleaseCharacter co rt s))"
  unfolding ReleaseCharacter_def
  by (intro players.commitState)
    (auto simp: attempt_defs intro!: players_ok_broadcast seat_ok_release dest: players_okD split: option.split)

lemma players_SetActiveController [player_steps]:
  "players_ok rt \<Longrightarrow> players_ok (cm_Runtime (SetActiveController co rt s))"
  unfolding SetActiveController_def
  by (intro players.commitState)
    (auto simp: attempt_defs dest: seat_sessionAssigned [OF players_okD(2)]
      intro!: players_ok_broadcast seat_ok_controller intro: players_okD split: option.split)

lemma seat_ok_lookup:
  assumes "seat_ok rt b" and "gm_ok (lb_AssignmentsBySession b')" and "gm_ok (lb_SessionByCharacter b')"
    and "\<And>s. gm_get (lb_AssignmentsBySession b') s = gm_get (lb_AssignmentsBySession b) s"
    and "\<And>c. gm_get (lb_SessionByCharacter b') c = gm_get (lb_SessionByCharacter b) c"
    and "lb_ControllerSessionID b' = lb_ControllerSessionID b"
  shows "seat_ok rt b'"
  using assms(1-3) unfolding seat_ok_def gm_has_def assms(4-6) by blast

text \<open>A move is a release by the present owner followed by a claim.\<close>

lemma seat_ok_move:
  assumes ok: "seat_ok rt b" and owner: "gm_get (lb_SessionByCharacter b) c = Some s"
    and "gm_has (pr_SessionsByID rt) to" and "gm_has (pr_RosterByID rt) c" and free: "\<not> gm_has (lb_AssignmentsBySession b) to"
  shows "seat_ok rt (claim to c (clearControllerIfSession s (b\<lparr>lb_AssignmentsBySession := gm_del s (lb_AssignmentsBySession b)\<rparr>)))"
proof -
  let ?b = "clearControllerIfSession s (b\<lparr>lb_AssignmentsBySession := gm_del s (lb_AssignmentsBySession b),
    lb_SessionByCharacter := gm_del c (lb_SessionByCharacter b)\<rparr>)"
  have s: "gm_get (lb_AssignmentsBySession b) s = Some c" using ok owner by (simp add: seat_ok_def)
  have "seat_ok rt ?b" by (rule seat_ok_release [OF ok s])
  then have "seat_ok rt (claim to c ?b)"
    by (rule seat_ok_claim) (use assms in \<open>auto simp: clearControllerIfSession_def\<close>)
  then show ?thesis
    by (rule seat_ok_lookup) (use ok in \<open>auto simp: clearControllerIfSession_def seat_ok_def\<close>)
qed

lemma players_MoveCharacter [player_steps]:
  assumes "players_ok rt"
  shows "players_ok (cm_Runtime (MoveCharacter co rt c to))"
proof -
  have "players_ok (rt\<lparr>pr_Broadcast := Some (claim to c (case characterOwner (Some b) c of None \<Rightarrow> b
      | Some s \<Rightarrow> clearControllerIfSession s (b\<lparr>lb_AssignmentsBySession := gm_del s (lb_AssignmentsBySession b)\<rparr>)))\<rparr>)"
    if b: "pr_Broadcast rt = Some b" and has: "gm_has (pr_RosterByID rt) c" "gm_has (pr_SessionsByID rt) to"
      and free: "\<not> sessionAssigned b to" for b
  proof -
    have ok: "seat_ok rt b" using assms b by (rule players_okD)
    have free': "\<not> gm_has (lb_AssignmentsBySession b) to" using free by (simp add: seat_sessionAssigned [OF ok])
    show ?thesis
      using has free' by (auto simp: seat_characterOwner [OF ok] gm_has_def [of "lb_SessionByCharacter b"]
        intro!: players_ok_broadcast [OF assms] seat_ok_claim [OF ok] seat_ok_move [OF ok] split: option.split)
  qed
  then show ?thesis
    unfolding MoveCharacter_def
    by (intro players.commitState assms) (auto simp: attempt_defs Let_def assms split: option.split)
qed

lemma stampResult_runtime [simp]: "cm_Runtime (stampResult c) = cm_Runtime c"
  by (simp add: stampResult_def)

lemma seats_cacheSelection [simp]: "seats (fst (cacheSelectionRejection co rt s r)) = seats rt"
  by (simp add: cacheSelectionRejection_def Let_def)

lemma players_ok_storeRequestResult: "players_ok rt \<Longrightarrow> players_ok (storeRequestResult co i r x rt)"
  by (rule players_ok_seats) simp_all

lemma players_SelectCharacter [player_steps]:
  assumes "players_ok rt"
  shows "players_ok (cm_Runtime (SelectCharacter co rt s))"
proof -
  have claimed: "players_ok (rt\<lparr>pr_Broadcast := Some (claim i c b)\<rparr>)"
      "players_ok (rt\<lparr>pr_Broadcast := Some (claim i c b\<lparr>lb_ControllerSessionID := Some i\<rparr>)\<rparr>)"
    if b: "pr_Broadcast rt = Some b" and "gm_has (pr_SessionsByID rt) i" "gm_has (pr_RosterByID rt) c"
      "\<not> gm_has (lb_AssignmentsBySession b) i" "\<not> gm_has (lb_SessionByCharacter b) c" for b i c
  proof -
    have ok: "seat_ok rt b" using assms b by (rule players_okD)
    have "seat_ok rt (claim i c b)" using that by (intro seat_ok_claim [OF ok])
    then show "players_ok (rt\<lparr>pr_Broadcast := Some (claim i c b)\<rparr>)"
      "players_ok (rt\<lparr>pr_Broadcast := Some (claim i c b\<lparr>lb_ControllerSessionID := Some i\<rparr>)\<rparr>)"
      by (auto intro!: players_ok_broadcast [OF assms] seat_ok_controller)
  qed
  have "players_ok (fst (selectCharacterTransition co rt s))"
    using assms
    by (auto simp: selectCharacterTransition_def Let_def case_prod_unfold gm_has_iff [of "pr_SessionsByID rt"]
      intro!: players_ok_seats [OF seats_acceptFor] players_ok_seats [OF seats_cacheSelection]
        players_ok_storeRequestResult claimed split: option.split)
  then show ?thesis by (simp add: SelectCharacter_def players_commit assms)
qed

lemma players_SelectCharacterForRecognition [player_steps]:
  "players_ok rt \<Longrightarrow> players_ok (cm_Runtime (SelectCharacterForRecognition co rt handle r b c))"
  by (auto simp: SelectCharacterForRecognition_def players_SelectCharacter split: option.split)

lemma players_StartBroadcast [player_steps]:
  assumes "players_ok rt"
  shows "pred_state (\<lambda>c. players_ok (cm_Runtime c)) (StartBroadcast co rt)"
proof -
  have bare: "players_ok (rt\<lparr>pr_Broadcast := Some b\<rparr>)" if "seat b = ([], [], None)" for b
    using that by (intro players_ok_broadcast [OF assms]) (auto simp: seat_ok_def seat_def)
  then have "players_ok (clearRequestResults (rt\<lparr>pr_Broadcast := Some b, pr_PendingSwitch := None,
      pr_PendingTerminalNavigation := None, pr_TerminalNavigationNotice := None\<rparr>))" if "seat b = ([], [], None)" for b
    by (rule players_ok_seats [where rt = "rt\<lparr>pr_Broadcast := Some b\<rparr>", rotated]) (simp_all add: bare that)
  then show ?thesis
    unfolding StartBroadcast_def
    by (intro players.state_step assms) (auto simp: attempt_defs assms seat_def intro!: pred_state_any)
qed

lemma players_EndBroadcast [player_steps]:
  assumes "players_ok rt"
  shows "players_ok (cm_Runtime (EndBroadcast co rt))"
proof -
  have "players_ok (rt\<lparr>pr_Broadcast := None\<rparr>)" by (rule players_ok_broadcast [OF assms]) simp
  then have "players_ok (clearRequestResults (rt\<lparr>pr_Broadcast := None, pr_PendingSwitch := None, pr_PendingCommandExecution := None,
      pr_PendingTerminalNavigation := None, pr_TerminalNavigationNotice := None\<rparr>))"
    by (rule players_ok_seats [rotated]) simp
  then show ?thesis
    unfolding EndBroadcast_def by (intro players.commitState assms) (simp_all add: attempt_defs assms)
qed

lemma players_newProcessRuntime: "players_ok newProcessRuntime"
  by (simp add: players_ok_def sessions_ok_def newProcessRuntime_def)

end
