(* ===== verification/ControlRun.thy ===== *)
theory ControlRun
  imports ControlInv
begin

text \<open>
  The coordinator as a machine: one constructor of \<open>CoordinatorOp\<close> per exported operation of
  \<open>internal/control\<close> that takes the lock, a step that runs it, and runs of any operations in any order
  (the lock makes them one sequence).  The players' invariant holds in every state a run reaches.
\<close>

datatype CoordinatorOp =
  OpInstallPlayerConfig PlayerConfigHandle "CharacterRosterEntry list option"
| OpClearPlayerConfig
| OpAddCharacter CharacterCreatePayload
| OpUpdateCharacter CharacterUpdatePayload
| OpDeleteCharacter CharacterDeletePayload
| OpRenameLogicalSession LogicalSessionID string
| OpAttach ConnectionID "BrowserToken option"
| OpDetach ConnectionID
| OpAssignCharacter LogicalSessionID CharacterID
| OpReleaseCharacter LogicalSessionID
| OpMoveCharacter CharacterID LogicalSessionID
| OpSetActiveController LogicalSessionID
| OpSelectCharacter CharacterSelection
| OpSelectCharacterForRecognition BrowserToken RequestID BroadcastID CharacterID
| OpRequestActivation TerminalTarget
| OpRequestClear
| OpResolveSwitch SwitchID TerminalSwitchChoice
| OpResolveCommand bool string CommandExecutionDecision
| OpResetCommandState "bool option" string string
| OpResetTerminalCommandStates "bool option" string
| OpResolveNavigation string TerminalNavigationDecision
| OpStartBroadcast
| OpEndBroadcast
| OpShutdown
| OpUpdateLiveTerminal ContentNode "string option"
| OpRefreshActiveTerminal TerminalTarget
| OpResetFailedHack TerminalTarget
| OpReplaceTerminalGroups "bool option" TerminalGroupCandidate
| OpPlayerAction ConnectionID RuntimeCommand
| OpPlayerActionForRecognition BrowserToken RuntimeCommand
| OpForceHackSuccess
| OpCurrentLive LogicalSessionID

text \<open>The runtime after an operation and the effects it published; \<open>None\<close> when the search for a fresh identifier has not ended.\<close>

definition outcome :: "'a Committed \<Rightarrow> ProcessRuntime \<times> Effect list" where
  "outcome c = (cm_Runtime c, cm_Published c)"

definition outcomeOf :: "('w, 'a Committed) state \<Rightarrow> ('w, (ProcessRuntime \<times> Effect list) option) state" where
  "outcomeOf m = do { c \<leftarrow> m; State_Monad.return (Some (outcome c)) }"

fun coordinatorOutcome :: "'w Coordinator \<Rightarrow> ProcessRuntime \<Rightarrow> CoordinatorOp \<Rightarrow> ('w, (ProcessRuntime \<times> Effect list) option) state" where
  "coordinatorOutcome co rt (OpInstallPlayerConfig h roster) = State_Monad.return (Some (outcome (InstallPlayerConfig co rt h roster)))"
| "coordinatorOutcome co rt OpClearPlayerConfig = State_Monad.return (Some (outcome (ClearPlayerConfig co rt)))"
| "coordinatorOutcome co rt (OpAddCharacter p) = outcomeOf (AddCharacter co rt p)"
| "coordinatorOutcome co rt (OpUpdateCharacter p) = outcomeOf (UpdateCharacter co rt p)"
| "coordinatorOutcome co rt (OpDeleteCharacter p) = outcomeOf (DeleteCharacter co rt p)"
| "coordinatorOutcome co rt (OpRenameLogicalSession s n) = State_Monad.return (Some (outcome (RenameLogicalSession co rt s n)))"
| "coordinatorOutcome co rt (OpAttach c h) = do { r \<leftarrow> AttachSubscriptionAndRegister co rt c h; State_Monad.return (map_option outcome r) }"
| "coordinatorOutcome co rt (OpDetach c) = State_Monad.return (Some (outcome (DetachConnection co rt c)))"
| "coordinatorOutcome co rt (OpAssignCharacter s c) = State_Monad.return (Some (outcome (AssignCharacter co rt s c)))"
| "coordinatorOutcome co rt (OpReleaseCharacter s) = State_Monad.return (Some (outcome (ReleaseCharacter co rt s)))"
| "coordinatorOutcome co rt (OpMoveCharacter c s) = State_Monad.return (Some (outcome (MoveCharacter co rt c s)))"
| "coordinatorOutcome co rt (OpSetActiveController s) = State_Monad.return (Some (outcome (SetActiveController co rt s)))"
| "coordinatorOutcome co rt (OpSelectCharacter s) = State_Monad.return (Some (outcome (SelectCharacter co rt s)))"
| "coordinatorOutcome co rt (OpSelectCharacterForRecognition h r b c) =
     State_Monad.return (Some (outcome (SelectCharacterForRecognition co rt h r b c)))"
| "coordinatorOutcome co rt (OpRequestActivation t) = outcomeOf (RequestTerminalActivation co rt t)"
| "coordinatorOutcome co rt OpRequestClear = outcomeOf (RequestTerminalClear co rt)"
| "coordinatorOutcome co rt (OpResolveSwitch i choice) = outcomeOf (ResolveTerminalSwitch co rt i choice)"
| "coordinatorOutcome co rt (OpResolveCommand n i d) = outcomeOf (ResolveCommandExecution co rt n i d)"
| "coordinatorOutcome co rt (OpResetCommandState ctx t c) = outcomeOf (ResetCommandState co rt ctx t c)"
| "coordinatorOutcome co rt (OpResetTerminalCommandStates ctx t) = outcomeOf (ResetTerminalCommandStates co rt ctx t)"
| "coordinatorOutcome co rt (OpResolveNavigation i d) = outcomeOf (ResolveTerminalNavigation co rt i d)"
| "coordinatorOutcome co rt OpStartBroadcast = outcomeOf (StartBroadcast co rt)"
| "coordinatorOutcome co rt OpEndBroadcast = State_Monad.return (Some (outcome (EndBroadcast co rt)))"
| "coordinatorOutcome co rt OpShutdown = State_Monad.return (Some (Shutdown rt, []))"
| "coordinatorOutcome co rt (OpUpdateLiveTerminal tree i) = State_Monad.return (Some (outcome (UpdateLiveTerminal co rt tree i)))"
| "coordinatorOutcome co rt (OpRefreshActiveTerminal t) = State_Monad.return (Some (outcome (RefreshActiveTerminal co rt t)))"
| "coordinatorOutcome co rt (OpResetFailedHack t) = outcomeOf (ResetFailedHackActive co rt t)"
| "coordinatorOutcome co rt (OpReplaceTerminalGroups ctx g) = outcomeOf (ReplaceTerminalGroups co rt ctx g)"
| "coordinatorOutcome co rt (OpPlayerAction c cmd) = outcomeOf (DispatchPlayerAction co rt c cmd)"
| "coordinatorOutcome co rt (OpPlayerActionForRecognition h cmd) = outcomeOf (DispatchPlayerActionForRecognition co rt h cmd)"
| "coordinatorOutcome co rt OpForceHackSuccess = State_Monad.return (Some (outcome (ForceHackSuccessActive co rt)))"
| "coordinatorOutcome co rt (OpCurrentLive s) = State_Monad.return (Some (fst (CurrentLiveForSession co rt s), []))"

definition coordinatorStep :: "'w Coordinator \<Rightarrow> ProcessRuntime \<Rightarrow> CoordinatorOp \<Rightarrow> ('w, ProcessRuntime option) state" where
  "coordinatorStep co rt op = do { r \<leftarrow> coordinatorOutcome co rt op; State_Monad.return (map_option fst r) }"

definition runtimeOf :: "('w, 'a Committed) state \<Rightarrow> ('w, ProcessRuntime option) state" where
  "runtimeOf m = do { c \<leftarrow> m; State_Monad.return (Some (cm_Runtime c)) }"

lemma fst_outcome [simp]: "fst (outcome c) = cm_Runtime c" "snd (outcome c) = cm_Published c"
  by (simp_all add: outcome_def)

lemma runtime_outcome [simp]: "outcomeOf m \<bind> (\<lambda>r. State_Monad.return (map_option fst r)) = runtimeOf m"
  by (simp add: outcomeOf_def runtimeOf_def)

lemma runtime_attach [simp]:
  "(m \<bind> (\<lambda>r. State_Monad.return (map_option outcome r))) \<bind> (\<lambda>r. State_Monad.return (map_option fst r)) =
     m \<bind> (\<lambda>r. State_Monad.return (map_option cm_Runtime r))"
  by (simp add: option.map_comp comp_def)

primrec coordinatorRun :: "'w Coordinator \<Rightarrow> ProcessRuntime \<Rightarrow> CoordinatorOp list \<Rightarrow> ('w, ProcessRuntime option) state" where
  "coordinatorRun co rt [] = State_Monad.return (Some rt)"
| "coordinatorRun co rt (op # ops) =
     do { r \<leftarrow> coordinatorStep co rt op;
          (case r of None \<Rightarrow> State_Monad.return None | Some rt' \<Rightarrow> coordinatorRun co rt' ops) }"

text \<open>\<open>reaches P\<close>: the runtime a run arrives at, if it has returned, satisfies \<open>P\<close>.\<close>

definition reaches :: "(ProcessRuntime \<Rightarrow> bool) \<Rightarrow> ProcessRuntime option \<Rightarrow> bool" where
  "reaches P r = (case r of None \<Rightarrow> True | Some rt \<Rightarrow> P rt)"

lemma reaches_simps [simp]: "reaches P None" "reaches P (Some rt) = P rt"
  by (simp_all add: reaches_def)

lemma runtimeOf_reaches: "pred_state (\<lambda>c. P (cm_Runtime c)) m \<Longrightarrow> pred_state (reaches P) (runtimeOf m)"
  unfolding runtimeOf_def by (erule pred_state_bind) simp

text \<open>A predicate kept by the steps whose operations meet \<open>ok\<close> holds throughout.\<close>

lemma coordinatorRun_invariant:
  assumes "\<And>rt op. P rt \<Longrightarrow> ok op \<Longrightarrow> pred_state (reaches P) (coordinatorStep co rt op)"
    and "P rt" and "list_all ok ops"
  shows "pred_state (reaches P) (coordinatorRun co rt ops)"
  using assms(2,3)
proof (induction ops arbitrary: rt)
  case (Cons op ops)
  from Cons.prems have "pred_state (reaches P) (coordinatorStep co rt op)" by (intro assms(1)) simp_all
  then show ?case
    unfolding coordinatorRun.simps
    by (rule pred_state_bind) (use Cons in \<open>auto split: option.split\<close>)
qed simp

lemma seats_pred: "pred_state (\<lambda>c. seats (cm_Runtime c) = seats rt) m \<Longrightarrow> players_ok rt \<Longrightarrow> pred_state (\<lambda>c. players_ok (cm_Runtime c)) m"
  by (erule pred_state_weaken) (rule players_ok_seats)

lemma coordinatorStep_players:
  assumes "players_ok rt"
  shows "pred_state (reaches players_ok) (coordinatorStep co rt op)"
proof (cases op)
  case (OpAttach c h)
  show ?thesis
    using players_AttachSubscriptionAndRegister [OF assms, of co c h] unfolding OpAttach coordinatorStep_def coordinatorOutcome.simps runtime_attach
    by (rule pred_state_bind) (auto simp: reaches_def split: option.split)
next
  case OpShutdown
  then show ?thesis by (simp add: coordinatorStep_def Shutdown_def players_newProcessRuntime)
next
  case (OpCurrentLive s)
  have "players_ok (fst (CurrentLiveForSession co rt s))"
    using assms players.project [OF assms, of co]
    by (auto simp: CurrentLiveForSession_def split: option.split prod.split)
  then show ?thesis by (simp add: OpCurrentLive coordinatorStep_def)
qed (auto simp: coordinatorStep_def assms player_steps players_ok_seats [OF seats_UpdateLiveTerminal assms]
      players_ok_seats [OF seats_RefreshActiveTerminal assms] players_ok_seats [OF seats_ForceHackSuccessActive assms]
    intro!: runtimeOf_reaches intro: seats_pred [OF _ assms] seats_steps)

text \<open>C1: However players, the Overseer and the network interleave, from the start of the process: no two
  logical sessions share a name or a connection, recognition tokens lead to existing sessions, the two
  tables of character claims are inverse to each other and mention existing sessions and characters
  only, so a character is played by one session and a session plays one character, and the
  controller of the terminal is a session that holds a character.\<close>

theorem coordinator_players_sound:
  "pred_state (reaches players_ok) (coordinatorRun co newProcessRuntime ops)"
  by (rule coordinatorRun_invariant [where ok = "\<lambda>_. True"])
    (simp_all add: coordinatorStep_players players_newProcessRuntime list_all_iff)

end
