(* ===== verification/ControlSpec.thy ===== *)
theory ControlSpec
  imports ControlRun
begin

text \<open>
  What the coordinator promises its callers: when the revision moves, what the claim operations do to
  the table of claims seen as a map from sessions to characters, and the replay cache.
\<close>

section \<open>The outcome of a commit\<close>

lemma commit_accepted_flag [simp]: "cm_Accepted (commit co old (working, change, v)) = ch_accepted change"
  by (simp add: commit_def Let_def split: prod.split)

lemma commit_value [simp]: "cm_Value (commit co old (working, change, v)) = v"
  by (simp add: commit_def Let_def split: prod.split)

lemma revision_project: "pr_Revision (fst (projectActiveTerminal co rt)) = pr_Revision rt"
  by (simp add: projectActiveTerminal_def setBroadcast_def case_prod_unfold split: option.split)

lemma revision_publishes: "pr_Revision (fst (fold (publishUpdate co revn) ids rp)) = pr_Revision (fst rp)"
proof (induction ids arbitrary: rp)
  case (Cons i ids)
  have "pr_Revision (fst (publishUpdate co revn i rp)) = pr_Revision (fst rp)"
    using revision_project [of co "fst rp"]
    by (auto simp: publishUpdate_def compoundUpdateLocked_def Let_def split: prod.splits option.splits)
  then show ?case using Cons.IH by simp
qed simp

lemma commit_runtime:
  obtains "ch_accepted change" "\<exists>out ids. cm_Runtime (commit co old (working, change, v)) =
      fst (fold (publishUpdate co (pr_Revision old + 1)) ids (working\<lparr>pr_Revision := pr_Revision old + 1\<rparr>, out))"
  | "\<not> ch_accepted change" "ch_persist change" "cm_Runtime (commit co old (working, change, v)) = working\<lparr>pr_Revision := pr_Revision old\<rparr>"
  | "\<not> ch_accepted change" "\<not> ch_persist change" "cm_Runtime (commit co old (working, change, v)) = old"
proof (cases "ch_accepted change")
  case True
  moreover have "\<exists>out ids. cm_Runtime (commit co old (working, change, v)) =
      fst (fold (publishUpdate co (pr_Revision old + 1)) ids (working\<lparr>pr_Revision := pr_Revision old + 1\<rparr>, out))"
    using True by (auto simp: commit_def Let_def split: prod.split) (metis fst_conv)
  ultimately show ?thesis by (rule that(1))
next
  case False
  then show ?thesis using that(2,3) by (cases "ch_persist change") (simp_all add: commit_def Let_def)
qed

lemma commit_revision:
  "pr_Revision (cm_Runtime (commit co old (working, change, v))) = (if ch_accepted change then pr_Revision old + 1 else pr_Revision old)"
  by (rule commit_runtime [of change co old working v]) (auto simp: revision_publishes)

lemma commit_cm_revision: "cm_Revision (commit co old (working, change, v)) = (if ch_accepted change then pr_Revision old + 1 else pr_Revision old)"
  by (simp add: commit_def Let_def split: prod.split)

lemma commit_seats: "ch_accepted change \<Longrightarrow> seats (cm_Runtime (commit co old (working, change, v))) = seats working"
  by (rule commit_runtime [of change co old working v]) (auto simp: seats.publishes)

lemma commit_refused: "\<not> ch_accepted change \<Longrightarrow> \<not> ch_persist change \<Longrightarrow> cm_Runtime (commit co old (working, change, v)) = old"
  by (simp add: commit_def Let_def)

lemma commitState_simps [simp]:
  "cm_Runtime (commitState co old (working, change, err)) = cm_Runtime (commit co old (working, change, ()))"
  "cm_Accepted (commitState co old (working, change, err)) = ch_accepted change"
  "snd (cm_Value (commitState co old (working, change, err))) = err"
  by (simp_all add: commitState_def Let_def)

section \<open>Claims as a map\<close>

text \<open>
  The abstract table: which character each session plays, and who controls.  An operation is a partial
  function on it; \<open>None\<close> is a refusal.  The concrete broadcast keeps two tables and searches them
  defensively; under the players' invariant they implement this one map.
\<close>

type_synonym Claims = "(LogicalSessionID \<Rightarrow> CharacterID option) \<times> LogicalSessionID option"

definition assignClaim :: "LogicalSessionID \<Rightarrow> CharacterID \<Rightarrow> bool \<Rightarrow> Claims \<Rightarrow> Claims option" where
  "assignClaim s c online t =
     (case t of (m, ctl) \<Rightarrow>
      if m s \<noteq> None \<or> c \<in> ran m then None
      else Some (m(s \<mapsto> c), if ctl = None \<and> online then Some s else ctl))"

definition releaseClaim :: "LogicalSessionID \<Rightarrow> Claims \<Rightarrow> Claims option" where
  "releaseClaim s t =
     (case t of (m, ctl) \<Rightarrow>
      if m s = None then None else Some (m(s := None), if ctl = Some s then None else ctl))"

definition moveClaim :: "CharacterID \<Rightarrow> LogicalSessionID \<Rightarrow> Claims \<Rightarrow> Claims option" where
  "moveClaim c s t =
     (case t of (m, ctl) \<Rightarrow>
      if m s \<noteq> None then None
      else Some (\<lambda>x. if x = s then Some c else if m x = Some c then None else m x,
                 if \<exists>x. ctl = Some x \<and> m x = Some c then None else ctl))"

definition controlClaim :: "LogicalSessionID \<Rightarrow> bool \<Rightarrow> Claims \<Rightarrow> Claims option" where
  "controlClaim s online t =
     (case t of (m, ctl) \<Rightarrow> if m s = None \<or> \<not> online \<or> ctl = Some s then None else Some (m, Some s))"

definition claimsIn :: "LiveBroadcast \<Rightarrow> Claims" where
  "claimsIn b = (gm_get (lb_AssignmentsBySession b), lb_ControllerSessionID b)"

definition claimsOf :: "ProcessRuntime \<Rightarrow> Claims option" where
  "claimsOf rt = map_option claimsIn (pr_Broadcast rt)"

text \<open>The table after an operation; \<open>None\<close> when it was refused.\<close>

definition claimsAfter :: "'a Committed \<Rightarrow> Claims option" where
  "claimsAfter r = (if cm_Accepted r then claimsOf (cm_Runtime r) else None)"

lemma claimsOf_seats: "seats rt' = seats rt \<Longrightarrow> claimsOf rt' = claimsOf rt"
  by (cases "pr_Broadcast rt"; cases "pr_Broadcast rt'") (simp_all add: seats_def claimsOf_def claimsIn_def seat_def)

lemma claimsAfter_commit:
  "claimsAfter (commit co old (working, change, v)) = (if ch_accepted change then claimsOf working else None)"
  using claimsOf_seats [OF commit_seats [of change co old working v]] by (simp add: claimsAfter_def)

lemma claimsAfter_commitState [simp]:
  "claimsAfter (commitState co old (working, change, err)) = (if ch_accepted change then claimsOf working else None)"
  using claimsAfter_commit [of co old working change "()"] by (simp add: claimsAfter_def split: if_splits)


lemma acceptFor_claims [simp]:
  "ch_accepted (snd (acceptFor co s extra rt))" "claimsOf (fst (acceptFor co s extra rt)) = claimsOf rt"
  using claimsOf_seats [OF seats_acceptFor, of co s extra rt] by (simp_all add: acceptFor_def case_prod_unfold)

lemma seat_ran: "seat_ok rt b \<Longrightarrow> c \<in> ran (gm_get (lb_AssignmentsBySession b)) \<longleftrightarrow> gm_has (lb_SessionByCharacter b) c"
  by (auto simp: seat_ok_def ran_def gm_has_def)

lemma claimsOf_broadcast [simp]: "claimsOf (rt\<lparr>pr_Broadcast := Some b\<rparr>) = Some (claimsIn b)"
  by (simp add: claimsOf_def)

lemma claimsIn_fields [simp]:
  "claimsIn (claim s c b) = ((fst (claimsIn b))(s \<mapsto> c), snd (claimsIn b))"
  "claimsIn (b\<lparr>lb_ControllerSessionID := x\<rparr>) = (fst (claimsIn b), x)"
  "claimsIn (b\<lparr>lb_AssignmentsBySession := gm_del s (lb_AssignmentsBySession b)\<rparr>) = ((fst (claimsIn b))(s := None), snd (claimsIn b))"
  "claimsIn (b\<lparr>lb_SessionByCharacter := m\<rparr>) = claimsIn b"
  by (auto simp: claimsIn_def)

lemma claimsIn_clearController:
  "claimsIn (clearControllerIfSession s b) = (fst (claimsIn b), if snd (claimsIn b) = Some s then None else snd (claimsIn b))"
  by (simp add: clearControllerIfSession_def claimsIn_def)

lemma assign_refines:
  assumes "players_ok rt" and b: "pr_Broadcast rt = Some b" and "gm_get (pr_SessionsByID rt) s = Some session"
    and "gm_has (pr_RosterByID rt) c"
  shows "claimsAfter (AssignCharacter co rt s c) = assignClaim s c (connected session) (claimsIn b)"
proof -
  have ok: "seat_ok rt b" using assms(1) b by (rule players_okD)
  show ?thesis
    using assms by (simp add: AssignCharacter_def attempt_defs rejected_def assignClaim_def Let_def claimsIn_def case_prod_unfold
      seat_sessionAssigned [OF ok] characterClaimed_def seat_characterOwner [OF ok] seat_ran [OF ok] gm_has_def fun_eq_iff
      split: option.split)
qed

lemma release_refines:
  assumes "pr_Broadcast rt = Some b" and "gm_has (pr_SessionsByID rt) s"
  shows "claimsAfter (ReleaseCharacter co rt s) = releaseClaim s (claimsIn b)"
  using assms by (auto simp: ReleaseCharacter_def attempt_defs rejected_def releaseClaim_def clearControllerIfSession_def claimsIn_def
    fun_eq_iff split: option.split)

lemma move_refines:
  assumes "players_ok rt" and b: "pr_Broadcast rt = Some b" and "gm_has (pr_SessionsByID rt) s" and "gm_has (pr_RosterByID rt) c"
  shows "claimsAfter (MoveCharacter co rt c s) = moveClaim c s (claimsIn b)"
proof -
  have ok: "seat_ok rt b" using assms(1) b by (rule players_okD)
  then have pair: "gm_get (lb_AssignmentsBySession b) x = Some c \<longleftrightarrow> gm_get (lb_SessionByCharacter b) c = Some x" for x
    by (simp add: seat_ok_def)
  show ?thesis
    using assms by (auto simp: MoveCharacter_def attempt_defs rejected_def moveClaim_def clearControllerIfSession_def claimsIn_def Let_def
      seat_sessionAssigned [OF ok] seat_characterOwner [OF ok] gm_has_def pair fun_eq_iff split: option.split)
qed

lemma control_refines:
  assumes "players_ok rt" and b: "pr_Broadcast rt = Some b" and "gm_get (pr_SessionsByID rt) s = Some session"
  shows "claimsAfter (SetActiveController co rt s) = controlClaim s (connected session) (claimsIn b)"
proof -
  have ok: "seat_ok rt b" using assms(1) b by (rule players_okD)
  show ?thesis
    using assms by (simp add: SetActiveController_def attempt_defs rejected_def controlClaim_def claimsIn_def
      seat_sessionAssigned [OF ok] gm_has_def split: option.split)
qed

text \<open>C2: The claim operations of the Overseer implement operations on one map from sessions to characters.
  On a runtime that satisfies the players' invariant, with the session and the character existing:
  assigning needs a free session and a free character and hands the control to a connected session when
  nobody has it; releasing frees the character and gives up its control; moving takes the character,
  and the control with it, from whoever plays it; handing over the control needs a connected session that
  plays.  In every other case the operation is refused.\<close>

theorem coordinator_claims_refined:
  assumes "players_ok rt" and "pr_Broadcast rt = Some b"
    and "gm_get (pr_SessionsByID rt) s = Some session" and "gm_has (pr_RosterByID rt) c"
  shows "claimsAfter (AssignCharacter co rt s c) = assignClaim s c (connected session) (claimsIn b) \<and>
    claimsAfter (ReleaseCharacter co rt s) = releaseClaim s (claimsIn b) \<and>
    claimsAfter (MoveCharacter co rt c s) = moveClaim c s (claimsIn b) \<and>
    claimsAfter (SetActiveController co rt s) = controlClaim s (connected session) (claimsIn b)"
  using assms by (simp add: assign_refines release_refines move_refines control_refines gm_has_def)

text \<open>A broadcast with two players: the first plays and controls, the second chooses.\<close>

definition demo_player :: "string \<Rightarrow> string \<Rightarrow> string \<Rightarrow> LogicalSession" where
  "demo_player i name connection =
     \<lparr>ls_ID = i, ls_FallbackName = name, ls_ConnectionIDs = [(connection, ())], ls_RequestResults = [], ls_Notice = None\<rparr>"

definition demo_character :: "string \<Rightarrow> CharacterRosterEntry" where
  "demo_character i = \<lparr>cr_ID = i, cr_Name = i, cr_Intelligence = 5, cr_HackerPerkAvailable = False\<rparr>"

definition demo_live :: "TerminalRuntime list \<Rightarrow> LiveBroadcast" where
  "demo_live terminals =
     \<lparr>lb_ID = ''b1'', lb_AssignmentsBySession = [(''s1'', ''vera'')], lb_SessionByCharacter = [(''vera'', ''s1'')],
      lb_ControllerSessionID = Some ''s1'',
      lb_ActiveTerminalID = (case terminals of [] \<Rightarrow> None | t # _ \<Rightarrow> Some (tr_TerminalID t)),
      lb_TerminalRuntimes = map (\<lambda>t. (tr_TerminalID t, t)) terminals, lb_Route = [], lb_InitialTerminalEstablished = False,
      lb_InitialTerminalID = '''', lb_InitialTerminalGroupID = '''', lb_InitialTerminalGroupPosition = 0\<rparr>"

definition demo_process :: "TerminalRuntime list \<Rightarrow> ProcessRuntime" where
  "demo_process terminals =
     newProcessRuntime\<lparr>pr_Revision := 7,
       pr_SessionsByID := [(''s1'', demo_player ''s1'' ''PLAYER 1'' ''c1''), (''s2'', demo_player ''s2'' ''PLAYER 2'' ''c2'')],
       pr_SessionIDByBrowserToken := [(''t1'', ''s1''), (''t2'', ''s2'')],
       pr_RosterByID := [(''vera'', demo_character ''vera''), (''yuri'', demo_character ''yuri'')],
       pr_RosterOrder := [''vera'', ''yuri''], pr_Broadcast := Some (demo_live terminals)\<rparr>"

lemmas demo_process_defs = demo_process_def demo_live_def demo_player_def demo_character_def newProcessRuntime_def gm_get_def gm_has_def

lemma demo_process_players: "players_ok (demo_process ts)"
  by (auto simp: players_ok_def sessions_ok_def seat_ok_def demo_process_defs gm_ok_def gm_keys_def split: if_splits)

lemma demo_process_simps [simp]:
  "pr_Broadcast (demo_process ts) = Some (demo_live ts)"
  "gm_get (pr_SessionsByID (demo_process ts)) ''s1'' = Some (demo_player ''s1'' ''PLAYER 1'' ''c1'')"
  "gm_get (pr_SessionsByID (demo_process ts)) ''s2'' = Some (demo_player ''s2'' ''PLAYER 2'' ''c2'')"
  "gm_has (pr_RosterByID (demo_process ts)) ''vera''" "gm_has (pr_RosterByID (demo_process ts)) ''yuri''"
  "claimsIn (demo_live ts) = ([''s1'' \<mapsto> ''vera''], Some ''s1'')"
  by (auto simp: demo_process_defs claimsIn_def)

text \<open>A coordinator without persistence whose identifiers count up.\<close>

definition demo_coordinator :: "nat Coordinator" where
  "demo_coordinator =
     \<lparr>co_NextID = State (\<lambda>n. (''id-'' @ dec n, Suc n)), co_Actions = None, co_Terminals = None, co_TrustedHack = None,
      co_RosterSave = None, co_CommandStates = None, co_GroupStore = None, co_Catalog = None,
      co_RequestResultLimit = 4, co_Platform = demo_platform, co_IDTries = 8\<rparr>"

lemma coordinator_claims_refined_witness:
  "claimsAfter (AssignCharacter demo_coordinator (demo_process []) ''s2'' ''yuri'') = Some ([''s1'' \<mapsto> ''vera'', ''s2'' \<mapsto> ''yuri''], Some ''s1'') \<and>
   claimsAfter (MoveCharacter demo_coordinator (demo_process []) ''vera'' ''s2'') = Some ([''s2'' \<mapsto> ''vera''], None)"
  using coordinator_claims_refined [OF demo_process_players, of "[]" "demo_live []" "''s2''" "demo_player ''s2'' ''PLAYER 2'' ''c2''" "''yuri''" demo_coordinator]
    coordinator_claims_refined [OF demo_process_players, of "[]" "demo_live []" "''s2''" "demo_player ''s2'' ''PLAYER 2'' ''c2''" "''vera''" demo_coordinator]
  by (simp add: assignClaim_def moveClaim_def fun_eq_iff)

section \<open>Replays\<close>

text \<open>Every attempt either leaves the runtime alone or records its answer under the request.\<close>

definition answered :: "LogicalSessionID \<Rightarrow> RuntimeCommand \<Rightarrow> ActionAttempt \<Rightarrow> bool" where
  "answered i command a =
     ((ch_accepted (fst (snd a)) \<or> ch_persist (fst (snd a))) \<and>
      requestResult (fst a) i (rc_RequestID command) =
        Some \<lparr>rr_Fingerprint = playerActionFingerprint command, rr_Result = snd (snd a)\<rparr>)"

lemma requestResult_store:
  "gm_has (pr_SessionsByID rt) i \<Longrightarrow> requestResult (storeRequestResult co i r x rt) i r = Some x"
  by (auto simp: requestResult_def storeRequestResult_def setSession_def Let_def gm_has_iff)

lemma audit_flags [simp]:
  "ch_accepted (audit e change) = ch_accepted change" "ch_persist (audit e change) = ch_persist change"
  "ch_accepted (audit_opt oe change) = ch_accepted change" "ch_persist (audit_opt oe change) = ch_persist change"
  by (simp_all add: audit_def audit_opt_def split: option.split)

lemma answered_reject:
  "gm_has (pr_SessionsByID rt) i \<Longrightarrow> answered i command (rejectAction co rt c i command reason)"
  by (simp add: answered_def rejectAction_def cachePlayerActionRejection_def Let_def case_prod_unfold requestResult_store)

lemma answered_accepted:
  "gm_has (pr_SessionsByID rt') (pa_SessionID prepared) \<Longrightarrow> pa_Fingerprint prepared = playerActionFingerprint command \<Longrightarrow>
   answered (pa_SessionID prepared) command (acceptedPlayerAction co rt' c prepared command event effects)"
  by (simp add: answered_def acceptedPlayerAction_def commitPlayerActionResult_def Let_def requestResult_store)

lemma has_seats: "seats rt' = seats rt \<Longrightarrow> gm_has (pr_SessionsByID rt) i \<Longrightarrow> gm_has (pr_SessionsByID rt') i"
  using seats_has by blast

lemma answered_acceptedWithState:
  assumes "gm_has (pr_SessionsByID rt) (pa_SessionID prepared)" and "pa_Fingerprint prepared = playerActionFingerprint command"
  shows "answered (pa_SessionID prepared) command (acceptedWithState co rt c prepared command event)"
  using assms by (auto simp: acceptedWithState_def playerActionStateEffects_def dest!: seats_project_pair
    intro!: answered_accepted elim: has_seats split: prod.split option.split)

lemma dispatchPrepared_answered:
  assumes has: "gm_has (pr_SessionsByID rt) (pa_SessionID prepared)" and "pa_Fingerprint prepared = playerActionFingerprint command"
  shows "pred_state (answered (pa_SessionID prepared) command) (dispatchPrepared co rt c prepared command)"
proof -
  have keep: "gm_has (pr_SessionsByID rt') (pa_SessionID prepared)" if "seats rt' = seats rt" for rt'
    using that has by (rule has_seats)
  note rules = answered_reject answered_accepted answered_acceptedWithState keep assms
  have "pred_state (answered (pa_SessionID prepared) command) (requestReturn co rt c prepared command)"
    by (auto simp: requestReturn_def Let_def rules intro!: pred_state_any)
  moreover have "pred_state (answered (pa_SessionID prepared) command) (requestTransition co rt c prepared command authored t)" for authored t
    by (auto simp: requestTransition_def commitPlayerActionResult_def Let_def rules answered_def [of _ _ "(_, _, _)"]
        requestResult_store intro!: pred_state_any split: option.split)
  moreover have "pred_state (answered (pa_SessionID prepared) command) (requestCommand co rt c prepared command authored)" for authored
    by (auto simp: requestCommand_def Let_def rules intro!: pred_state_any)
  moreover have "pred_state (answered (pa_SessionID prepared) command) (applyGameplay co rt c prepared command)"
    by (auto simp: applyGameplay_def Let_def rules intro!: pred_state_any split: option.split prod.split)
  ultimately show ?thesis
    by (auto simp: dispatchPrepared_def answered_reject has split: option.split CommandBehavior.split)
qed

text \<open>The answer survives the commit.\<close>

lemma sessions_project: "pr_SessionsByID (fst (projectActiveTerminal co rt)) = pr_SessionsByID rt"
  by (simp add: projectActiveTerminal_def setBroadcast_def case_prod_unfold split: option.split)

interpretation sessions: runtime_invariant co "\<lambda>rt. pr_SessionsByID rt = m" for co :: "'w Coordinator" and m
  by unfold_locales (simp_all add: sessions_project)

lemma commit_sessions:
  "ch_accepted change \<or> ch_persist change \<Longrightarrow>
   pr_SessionsByID (cm_Runtime (commit co old (working, change, v))) = pr_SessionsByID working"
  by (rule commit_runtime [of change co old working v]) (auto simp: sessions.publishes)

lemma requestResult_sessions: "pr_SessionsByID rt' = pr_SessionsByID rt \<Longrightarrow> requestResult rt' i r = requestResult rt i r"
  by (simp add: requestResult_def)

lemma sessionForConnection_seats:
  assumes same: "seats rt' = seats rt" and "sessionForConnection rt c = Some (i, s)"
  shows "\<exists>s'. sessionForConnection rt' c = Some (i, s')"
proof -
  have ids: "sortedSessionIDs rt' = sortedSessionIDs rt" by (simp add: sortedSessionIDs_def seats_keys [OF same])
  have conns: "map_option ls_ConnectionIDs (gm_get (pr_SessionsByID rt') j) = map_option ls_ConnectionIDs (gm_get (pr_SessionsByID rt) j)" for j
    using seats_sessions [OF same, of j] seats_sessions [OF same [symmetric], of j]
    by (cases "gm_get (pr_SessionsByID rt') j"; cases "gm_get (pr_SessionsByID rt) j") auto
  let ?at = "\<lambda>rt j. case gm_get (pr_SessionsByID rt) j of
      Some session \<Rightarrow> if gm_has (ls_ConnectionIDs session) c then Some (j, session) else None | None \<Rightarrow> None"
  have "map_option fst (first_some (?at rt') js) = map_option fst (first_some (?at rt) js)" for js
  proof (induction js)
    case (Cons j js)
    then show ?case using conns [of j] by (auto split: option.splits)
  qed simp
  then have "map_option fst (sessionForConnection rt' c) = map_option fst (sessionForConnection rt c)"
    by (simp add: sessionForConnection_def ids)
  with assms(2) show ?thesis by auto
qed

lemma replayed:
  assumes "sessionForConnection rt c = Some (i, s)" and "rc_RequestID command \<noteq> ''''"
    and "requestResult rt i (rc_RequestID command) = Some \<lparr>rr_Fingerprint = playerActionFingerprint command, rr_Result = r\<rparr>"
  shows "pred_state (\<lambda>d. cm_Value d = r \<and> cm_Runtime d = rt \<and> \<not> cm_Accepted d) (DispatchPlayerAction co rt c command)"
  using assms
  by (simp add: DispatchPlayerAction_def preparePlayerAction_def answerAction_def rejected_def commit_refused)

lemma answered_commit:
  assumes c: "sessionForConnection rt c = Some (i, s)" and r: "rc_RequestID command \<noteq> ''''"
    and a: "answered i command a" and seats: "seats (fst a) = seats rt"
  shows "pred_state (\<lambda>d. cm_Value d = cm_Value (commit co rt a) \<and> cm_Runtime d = cm_Runtime (commit co rt a) \<and> \<not> cm_Accepted d)
    (DispatchPlayerAction co (cm_Runtime (commit co rt a)) c command)"
proof -
  obtain working change v where split: "a = (working, change, v)" by (cases a)
  have "seats (cm_Runtime (commit co rt a)) = seats rt"
    using seats.commit [of rt "seats rt" working co change v] seats by (simp add: split)
  then obtain s' where "sessionForConnection (cm_Runtime (commit co rt a)) c = Some (i, s')"
    using sessionForConnection_seats c by blast
  moreover have "requestResult (cm_Runtime (commit co rt a)) i (rc_RequestID command) =
      Some \<lparr>rr_Fingerprint = playerActionFingerprint command, rr_Result = v\<rparr>"
    using a commit_sessions [of change co rt working v] unfolding split answered_def requestResult_def by simp
  ultimately show ?thesis using replayed r by (simp add: split)
qed

lemma dispatch_unfold:
  "DispatchPlayerAction co rt c command =
     (case preparePlayerAction co rt c command of
        Inl stop \<Rightarrow> State_Monad.return (commit co rt stop)
      | Inr prepared \<Rightarrow> do { a \<leftarrow> dispatchPrepared co rt c prepared command; State_Monad.return (commit co rt a) })"
  by (simp add: DispatchPlayerAction_def split: sum.split)

text \<open>A request stopped before it is answered afresh is stopped again in the same way.\<close>

lemma prepared_stop:
  assumes "preparePlayerAction co rt c command = Inl stop"
  shows "(\<not> ch_accepted (fst (snd stop)) \<and> \<not> ch_persist (fst (snd stop))) \<or>
    (\<exists>i s. sessionForConnection rt c = Some (i, s) \<and> rc_RequestID command \<noteq> '''' \<and> answered i command stop)"
  using assms
  by (auto simp: preparePlayerAction_def answerAction_def rejected_def gm_has_iff dest: sessionForConnectionD(1)
      intro!: answered_reject split: option.splits if_splits sum.splits prod.splits)

lemma prepared_fields:
  assumes "preparePlayerAction co rt c command = Inr prepared"
  shows "\<exists>s. sessionForConnection rt c = Some (pa_SessionID prepared, s) \<and> rc_RequestID command \<noteq> '''' \<and>
    pa_Fingerprint prepared = playerActionFingerprint command \<and>
    actionObstacle rt (pa_SessionID prepared) s command = Inr (pa_Broadcast prepared, pa_Terminal prepared)"
  using assms by (auto simp: preparePlayerAction_def split: option.splits if_splits sum.splits prod.splits)

text \<open>C4: A player action is applied at most once per request. Whatever the runtime, the command, the
  collaborators and the answer, sending the same command again over the same connection right after
  it was answered returns the very same answer, is not accepted, and leaves the runtime as it is.\<close>

theorem coordinator_action_idempotent:
  "pred_state (\<lambda>first. pred_state
      (\<lambda>again. cm_Value again = cm_Value first \<and> cm_Runtime again = cm_Runtime first \<and> \<not> cm_Accepted again)
      (DispatchPlayerAction co (cm_Runtime first) c command))
    (DispatchPlayerAction co rt c command)"
proof (cases "preparePlayerAction co rt c command")
  case (Inl stop)
  obtain working change v where stop: "stop = (working, change, v)" by (cases stop)
  consider "\<not> ch_accepted change" "\<not> ch_persist change"
    | i s where "sessionForConnection rt c = Some (i, s)" "rc_RequestID command \<noteq> ''''" "answered i command stop"
    using prepared_stop [OF Inl] by (auto simp: stop)
  then show ?thesis
  proof cases
    case 1
    then show ?thesis using Inl by (simp add: dispatch_unfold stop commit_refused)
  next
    case 2
    then show ?thesis
      unfolding dispatch_unfold [of co rt] Inl
      using answered_commit [OF 2 seats_prepared_stop [OF Inl], of co] by simp
  qed
next
  case (Inr prepared)
  from prepared_fields [OF Inr] obtain s where s: "sessionForConnection rt c = Some (pa_SessionID prepared, s)"
    and r: "rc_RequestID command \<noteq> ''''" and f: "pa_Fingerprint prepared = playerActionFingerprint command" by blast
  have has: "gm_has (pr_SessionsByID rt) (pa_SessionID prepared)"
    using sessionForConnectionD(1) [OF s] by (simp add: gm_has_def)
  have "pred_state (\<lambda>a. answered (pa_SessionID prepared) command a \<and> seats (fst a) = seats rt)
      (dispatchPrepared co rt c prepared command)"
    by (rule pred_state_conj [OF dispatchPrepared_answered [OF has f] seats_dispatchPrepared])
  then show ?thesis
    unfolding dispatch_unfold [of co rt] Inr sum.case
    by (rule pred_state_bind) (elim conjE, simp add: answered_commit [OF s r])
qed

section \<open>Who may act\<close>

lemma clearRequestResults_setSession:
  assumes "gm_get (pr_SessionsByID rt) i = Some s"
  shows "clearRequestResults (setSession i (s\<lparr>ls_RequestResults := m\<rparr>) rt) = clearRequestResults rt"
proof -
  have "gm_put i (s\<lparr>ls_RequestResults := []\<rparr>) (gm_map (\<lambda>_ s. s\<lparr>ls_RequestResults := []\<rparr>) (pr_SessionsByID rt)) =
      gm_map (\<lambda>_ s. s\<lparr>ls_RequestResults := []\<rparr>) (pr_SessionsByID rt)"
    by (rule gm_put_same) (simp add: assms)
  then show ?thesis by (simp add: clearRequestResults_def setSession_def gm_map_put)
qed

lemma clearRequestResults_store [simp]: "clearRequestResults (storeRequestResult co i r x rt) = clearRequestResults rt"
  by (auto simp: storeRequestResult_def Let_def intro!: clearRequestResults_setSession split: option.split)

lemma clearRequestResults_revision: "clearRequestResults (rt\<lparr>pr_Revision := n\<rparr>) = (clearRequestResults rt)\<lparr>pr_Revision := n\<rparr>"
  by (simp add: clearRequestResults_def)

lemma clearRequestResults_rev [simp]: "pr_Revision (clearRequestResults rt) = pr_Revision rt"
  by (simp add: clearRequestResults_def)

lemma clearRequestResults_same: "(clearRequestResults rt)\<lparr>pr_Revision := pr_Revision rt\<rparr> = clearRequestResults rt"
  by (cases rt) (simp add: clearRequestResults_def)

text \<open>An attempt that is not accepted changes at most the replay cache, and that of one session only.\<close>

definition sameButCache :: "ProcessRuntime \<Rightarrow> ProcessRuntime \<Rightarrow> bool" where
  "sameButCache rt rt' =
     (clearRequestResults rt' = clearRequestResults rt \<and>
      (\<exists>i. \<forall>k. k \<noteq> i \<longrightarrow> gm_get (pr_SessionsByID rt') k = gm_get (pr_SessionsByID rt) k))"

lemma sameButCache_refl [simp]: "sameButCache rt rt"
  by (simp add: sameButCache_def)

lemma sameButCache_store [simp]: "sameButCache rt (storeRequestResult co i r x rt)"
  unfolding sameButCache_def
proof (intro conjI exI [of _ i])
  show "\<forall>k. k \<noteq> i \<longrightarrow> gm_get (pr_SessionsByID (storeRequestResult co i r x rt)) k = gm_get (pr_SessionsByID rt) k"
    by (auto simp: storeRequestResult_def setSession_def Let_def split: option.split)
qed simp

lemma sameButCache_rev:
  "sameButCache rt working \<Longrightarrow> sameButCache rt (working\<lparr>pr_Revision := pr_Revision rt\<rparr>)"
  by (simp add: sameButCache_def clearRequestResults_revision clearRequestResults_same)

text \<open>Only \<open>commit\<close> publishes updates: the effects a transition asks for carry none.\<close>

definition plain :: "Effect list \<Rightarrow> bool" where
  "plain effects = list_all (\<lambda>e. ef_Update e = None) effects"

lemma plain_simps [simp]:
  "plain []" "plain (e # es) \<longleftrightarrow> ef_Update e = None \<and> plain es" "plain (es @ es') \<longleftrightarrow> plain es \<and> plain es'"
  "plain (map (detachEffect r) es) \<longleftrightarrow> plain es"
  by (auto simp: plain_def list_all_iff detachEffect_def)

lemma update_simps [simp]:
  "ef_Update noEffect = None" "ef_Update (liveEffect live) = None" "ef_Update clearEffect = None"
  "ef_Update (resultEffect c i r) = None"
  by (simp_all add: noEffect_def liveEffect_def clearEffect_def resultEffect_def)

lemma plain_audit [simp]: "plain (ch_effects (audit e change)) = plain (ch_effects change)"
  by (simp add: audit_def)

lemma plain_audit_opt [simp]: "plain (ch_effects (audit_opt e change)) = plain (ch_effects change)"
  by (simp add: audit_opt_def split: option.split)

lemma plain_audits [simp]: "plain (ch_effects (fold audit events change)) = plain (ch_effects change)"
  by (induction events arbitrary: change) simp_all

lemma plain_stateEffects [simp]: "plain (stateEffects rt)" "plain (presenceEffects rt)"
  by (auto simp: stateEffects_def presenceEffects_def plain_def list_all_iff List.map_filter_def)

lemma plain_current [simp]: "plain (snd (appendCurrentTerminalEffect co rt es i)) = plain es"
  by (simp add: appendCurrentTerminalEffect_def split: prod.split option.split)

lemma plain_live [simp]: "plain (case live of None \<Rightarrow> [] | Some l \<Rightarrow> [liveEffect (Some l)])"
  by (simp split: option.split)

lemma plain_selection [simp]: "plain (selectionResultEffects rt s r)"
  by (simp add: selectionResultEffects_def split: option.split)

definition cacheOnly :: "ProcessRuntime \<Rightarrow> ProcessRuntime \<times> transition \<times> 'a \<Rightarrow> bool" where
  "cacheOnly rt a = (plain (ch_effects (fst (snd a))) \<and>
     (ch_accepted (fst (snd a)) \<or> \<not> ch_persist (fst (snd a)) \<or> sameButCache rt (fst a)))"

lemma commit_cacheOnly:
  assumes "cacheOnly rt a" and "\<not> cm_Accepted (commit co rt a)"
  shows "sameButCache rt (cm_Runtime (commit co rt a))"
proof -
  obtain working change v where a: "a = (working, change, v)" by (cases a)
  have refused: "\<not> ch_accepted change" using assms(2) by (simp add: a)
  show ?thesis
  proof (cases "ch_persist change")
    case True
    then have "sameButCache rt working" using assms(1) refused by (simp add: a cacheOnly_def)
    then show ?thesis using True refused
      by (simp add: a commit_def Let_def sameButCache_rev)
  qed (simp add: a commit_refused refused)
qed

lemma cacheOnly_reject [simp]: "cacheOnly rt (rejectAction co rt c i command reason)"
  by (simp add: cacheOnly_def rejectAction_def cachePlayerActionRejection_def Let_def case_prod_unfold)

lemma cacheOnly_accepted [simp]:
  "plain effects \<Longrightarrow> cacheOnly rt (acceptedPlayerAction co rt' c prepared command event effects)"
  "cacheOnly rt (acceptedWithState co rt' c prepared command event)"
  by (simp_all add: cacheOnly_def acceptedWithState_def acceptedPlayerAction_def commitPlayerActionResult_def case_prod_unfold Let_def
      playerActionStateEffects_def split: option.split)

lemma cacheOnly_dispatch: "pred_state (cacheOnly rt) (dispatchPrepared co rt c prepared command)"
proof -
  have "pred_state (cacheOnly rt) (requestReturn co rt c prepared command)"
    by (auto simp: requestReturn_def Let_def intro!: pred_state_any)
  moreover have "pred_state (cacheOnly rt) (requestTransition co rt c prepared command authored t)" for authored t
    by (auto simp: requestTransition_def commitPlayerActionResult_def Let_def cacheOnly_def [of _ "(_, _, _)"]
      intro!: pred_state_any split: option.split)
  moreover have "pred_state (cacheOnly rt) (requestCommand co rt c prepared command authored)" for authored
    by (auto simp: requestCommand_def Let_def intro!: pred_state_any)
  moreover have "pred_state (cacheOnly rt) (applyGameplay co rt c prepared command)"
    by (auto simp: applyGameplay_def Let_def intro!: pred_state_any split: option.split prod.split)
  ultimately show ?thesis by (auto simp: dispatchPrepared_def split: option.split CommandBehavior.split)
qed




section \<open>The revision\<close>

definition revised :: "ProcessRuntime \<Rightarrow> ProcessRuntime \<Rightarrow> bool" where
  "revised rt rt' =
     (if pr_Revision rt' = pr_Revision rt then sameButCache rt rt' else pr_Revision rt' = pr_Revision rt + 1)"

named_theorems revised_steps

lemma revised_refl [simp]: "revised rt rt"
  by (simp add: revised_def)

text \<open>
  \<open>reported\<close>: an outcome that leaves the revision leaves everything but the replay cache and publishes no update; one that
  moves it has published an update for every session, after effects without one.
\<close>

definition reported :: "'w Coordinator \<Rightarrow> ProcessRuntime \<Rightarrow> 'a Committed \<Rightarrow> bool" where
  "reported co rt c =
     (if pr_Revision (cm_Runtime c) = pr_Revision rt
      then sameButCache rt (cm_Runtime c) \<and> plain (cm_Published c)
      else \<exists>new effects. pr_Revision new = pr_Revision rt + 1 \<and> plain effects \<and>
        fold (publishUpdate co (pr_Revision rt + 1)) (sortedSessionIDs new) (new, effects) = (cm_Runtime c, cm_Published c))"

lemma reported_revised: "reported co rt c \<Longrightarrow> revised rt (cm_Runtime c)"
proof -
  assume r: "reported co rt c"
  then consider "pr_Revision (cm_Runtime c) = pr_Revision rt" "sameButCache rt (cm_Runtime c)"
    | new effects where "pr_Revision new = pr_Revision rt + 1"
      "fold (publishUpdate co (pr_Revision rt + 1)) (sortedSessionIDs new) (new, effects) = (cm_Runtime c, cm_Published c)"
    by (auto simp: reported_def split: if_splits)
  then show ?thesis
  proof cases
    case (2 new effects)
    then show ?thesis
      using revision_publishes [of co "pr_Revision rt + 1" "sortedSessionIDs new" "(new, effects)"] by (simp add: revised_def)
  qed (simp add: revised_def)
qed

lemma reported_reaches: "pred_state (reported co rt) m \<Longrightarrow> pred_state (reaches (revised rt)) (runtimeOf m)"
  by (rule runtimeOf_reaches) (erule pred_state_weaken, rule reported_revised)

text \<open>Being reported is a matter of the runtime and of what is published.\<close>

lemma reported_cong: "cm_Runtime c = cm_Runtime d \<Longrightarrow> cm_Published c = cm_Published d \<Longrightarrow> reported co rt c = reported co rt d"
  by (simp add: reported_def)

lemma reported_unchanged [simp]: "cm_Runtime c = rt \<Longrightarrow> reported co rt c = plain (cm_Published c)"
  by (simp add: reported_def)

lemma commit_published:
  assumes "plain (ch_effects change)"
  shows "if ch_accepted change
    then \<exists>effects. plain effects \<and> fold (publishUpdate co (pr_Revision old + 1)) (sortedSessionIDs working)
        (working\<lparr>pr_Revision := pr_Revision old + 1\<rparr>, effects) =
      (cm_Runtime (commit co old (working, change, v)), cm_Published (commit co old (working, change, v)))
    else plain (cm_Published (commit co old (working, change, v)))"
proof (cases "ch_accepted change")
  case True
  then show ?thesis
    using assms by (simp add: commit_def Let_def sortedSessionIDs_def split: prod.split) (metis (no_types) plain_audits plain_audit_opt plain_simps(4))
qed (use assms in \<open>simp add: commit_def Let_def\<close>)

lemma commit_revised:
  assumes "cacheOnly rt a"
  shows "reported co rt (commit co rt a)"
proof -
  obtain working change v where a: "a = (working, change, v)" by (cases a)
  have p: "plain (ch_effects change)" using assms by (simp add: a cacheOnly_def)
  show ?thesis
  proof (cases "ch_accepted change")
    case True
    then obtain effects where "plain effects" "fold (publishUpdate co (pr_Revision rt + 1))
          (sortedSessionIDs (working\<lparr>pr_Revision := pr_Revision rt + 1\<rparr>)) (working\<lparr>pr_Revision := pr_Revision rt + 1\<rparr>, effects) =
        (cm_Runtime (commit co rt a), cm_Published (commit co rt a))"
      using commit_published [OF p, of co rt working v] by (auto simp: a sortedSessionIDs_def)
    moreover have "pr_Revision (working\<lparr>pr_Revision := pr_Revision rt + 1\<rparr>) = pr_Revision rt + 1" by simp
    ultimately have "\<exists>new effects. pr_Revision new = pr_Revision rt + 1 \<and> plain effects \<and>
        fold (publishUpdate co (pr_Revision rt + 1)) (sortedSessionIDs new) (new, effects) =
          (cm_Runtime (commit co rt a), cm_Published (commit co rt a))"
      by blast
    then show ?thesis
      using True commit_revision [of co rt working change v] by (simp add: reported_def a)
  next
    case False
    then show ?thesis
      using commit_published [OF p, of co rt working v] commit_cacheOnly [OF assms, of co] commit_revision [of co rt working change v]
      by (simp add: a reported_def)
  qed
qed

text \<open>The operations of the Overseer never ask to keep the cache only.\<close>

definition noPersist :: "ProcessRuntime \<times> transition \<times> 'a \<Rightarrow> bool" where
  "noPersist a = (\<not> ch_persist (fst (snd a)) \<and> plain (ch_effects (fst (snd a))))"

lemma noPersist_simps [simp]:
  "noPersist (rt, rejected, v)" "noPersist (rt, \<lparr>ch_accepted = x, ch_persist = False, ch_effects = es\<rparr>, v) = plain es"
  "noPersist (fail m rt)" "noPersist (unchanged rt)" "noPersist (accept rt)" "noPersist (acceptWith es rt) = plain es"
  by (simp_all add: noPersist_def rejected_def attempt_defs)

lemma revised_commit: "noPersist a \<Longrightarrow> reported co rt (commit co rt a)"
  by (rule commit_revised) (simp add: noPersist_def cacheOnly_def)

lemma revised_commitState: "noPersist a \<Longrightarrow> reported co rt (commitState co rt a)"
  using revised_commit [of "(fst a, fst (snd a), ())" co rt]
    reported_cong [of "commitState co rt a" "commit co rt (fst a, fst (snd a), ())" co rt]
  by (cases a) (simp add: noPersist_def commitState_def Let_def)

lemma revised_commitMutation: "noPersist a \<Longrightarrow> reported co rt (commitMutation co rt a)"
  using revised_commitState [of "(fst a, fst (snd a), snd (snd (snd a)))" co rt]
    reported_cong [of "commitMutation co rt a" "commitState co rt (fst a, fst (snd a), snd (snd (snd a)))" co rt]
  by (cases a) (simp add: noPersist_def commitMutation_def Let_def)

lemma revised_refuse [simp]: "reported co rt (refuse rt e)" "reported co rt (refuseMutation rt e)"
  by (simp_all add: refuse_def refuseMutation_def)

lemma revised_state:
  "pred_state noPersist m \<Longrightarrow> pred_state (reported co rt) (do { a \<leftarrow> m; State_Monad.return (commitState co rt a) })"
  by (erule pred_state_bind) (simp add: revised_commitState)

lemma revised_mutation:
  "pred_state noPersist m \<Longrightarrow> pred_state (reported co rt) (do { a \<leftarrow> m; State_Monad.return (commitMutation co rt a) })"
  by (erule pred_state_bind) (simp add: revised_commitMutation)

lemma noPersist_replaceRoster: "pred_state noPersist (replaceRoster co rt byID installed order)"
  by (auto simp: replaceRoster_def intro!: pred_state_any split: sum.split)

lemma revised_roster [revised_steps]:
  "reported co rt (InstallPlayerConfig co rt h roster)"
  "reported co rt (ClearPlayerConfig co rt)"
  "pred_state (reported co rt) (AddCharacter co rt p1)"
  "pred_state (reported co rt) (UpdateCharacter co rt p2)"
  "pred_state (reported co rt) (DeleteCharacter co rt p3)"
  subgoal by (simp add: InstallPlayerConfig_def revised_commitState split: option.split)
  subgoal by (simp add: ClearPlayerConfig_def revised_commitState)
  subgoal by (auto simp: AddCharacter_def Let_def revised_commitState
      intro!: pred_state_any [where m = "co_NextID co"] revised_state noPersist_replaceRoster split: sum.split option.split)
  subgoal unfolding UpdateCharacter_def
    by (intro revised_state) (auto intro!: noPersist_replaceRoster split: sum.split option.split)
  subgoal unfolding DeleteCharacter_def
    by (intro revised_state) (auto intro!: noPersist_replaceRoster split: option.split)
  done

lemma noPersist_acceptFor [simp]: "noPersist (fst (acceptFor co s extra rt), snd (acceptFor co s extra rt), v) = plain extra"
  by (simp add: noPersist_def acceptFor_def case_prod_unfold)

lemma revised_sessions [revised_steps]:
  "reported co rt (RenameLogicalSession co rt s n)"
  "reported co rt (DetachConnection co rt c)"
  "reported co rt (AssignCharacter co rt s ch)"
  "reported co rt (ReleaseCharacter co rt s)"
  "reported co rt (MoveCharacter co rt ch s)"
  "reported co rt (SetActiveController co rt s)"
  subgoal by (auto simp: RenameLogicalSession_def intro!: revised_commitState split: sum.split option.split)
  subgoal by (auto simp: DetachConnection_def Let_def intro!: revised_commit split: option.split)
  subgoal by (auto simp: AssignCharacter_def Let_def case_prod_unfold intro!: revised_commitState revised_commit split: option.split)
  subgoal by (auto simp: ReleaseCharacter_def intro!: revised_commitState split: option.split)
  subgoal by (auto simp: MoveCharacter_def Let_def intro!: revised_commitState split: option.split)
  subgoal by (auto simp: SetActiveController_def intro!: revised_commitState split: option.split)
  done

lemma noPersist_audit [simp]: "noPersist (rt, audit e change, v) = noPersist (rt, change, v)"
  "noPersist (rt, audit_opt oe change, v) = noPersist (rt, change, v)"
  by (simp_all add: noPersist_def)

lemma revised_switching [revised_steps]:
  "pred_state (reported co rt) (RequestTerminalActivation co rt target)"
  "pred_state (reported co rt) (RequestTerminalClear co rt)"
  "pred_state (reported co rt) (ResolveTerminalSwitch co rt i choice)"
proof -
  have switch: "pred_state noPersist (requestSwitch co t b source rt')" for t b source rt'
    by (auto simp: requestSwitch_def intro!: pred_state_any)
  have activate: "pred_state noPersist (activateWith co L target b rt')" for L b rt'
    by (auto simp: activateWith_def intro!: pred_state_any split: sum.split)
  have resolve: "pred_state noPersist (resolveSwitchWith co rt p c b)" for p c b
    by (auto simp: resolveSwitchWith_def Let_def intro!: pred_state_any split: option.split)
  show "pred_state (reported co rt) (RequestTerminalActivation co rt target)"
    by (auto simp: RequestTerminalActivation_def Let_def intro!: revised_state revised_commitState switch activate split: option.split)
  show "pred_state (reported co rt) (RequestTerminalClear co rt)"
    by (auto simp: RequestTerminalClear_def Let_def intro!: revised_state revised_commitState switch split: option.split)
  show "pred_state (reported co rt) (ResolveTerminalSwitch co rt i choice)"
    by (auto simp: ResolveTerminalSwitch_def intro!: revised_state revised_commitState resolve split: option.split)
qed

lemma noPersist_acceptProjected [simp]: "noPersist (fst (acceptProjected co e rt), snd (acceptProjected co e rt), v)"
  by (simp add: acceptProjected_def case_prod_unfold)

lemma revised_commands [revised_steps]:
  "pred_state (reported co rt) (ResolveCommandExecution co rt n i d)"
  "pred_state (reported co rt) (ResetCommandState co rt ctx t cmd)"
  "pred_state (reported co rt) (ResetTerminalCommandStates co rt ctx t)"
proof -
  have failed: "noPersist (failPendingCommandExecution co rt terminal p d m)" for terminal p d m
    by (simp add: failPendingCommandExecution_def Let_def case_prod_unfold)
  have store: "pred_state noPersist (storeExecution co rt terminal p d a)" for terminal p d a
    by (auto simp: storeExecution_def Let_def failed case_prod_unfold intro!: pred_state_any split: option.split sum.split)
  have decide: "pred_state noPersist (decideCommand co rt terminal p d a)" for terminal p d a
    by (simp add: decideCommand_def Let_def case_prod_unfold store)
  have stale: "noPersist (staleExecution e rt)" for e
    by (simp add: staleExecution_def noPersist_def rejected_def)
  have reset: "pred_state (reported co rt) (resetCommandStates co rt ctx t cmd wide)" for t cmd wide
    by (auto simp: resetCommandStates_def case_prod_unfold
      intro!: revised_mutation revised_commitMutation pred_state_any split: option.split sum.split)
  show "pred_state (reported co rt) (ResolveCommandExecution co rt n i d)"
    by (auto simp: ResolveCommandExecution_def Let_def intro!: revised_mutation revised_commitMutation decide stale split: option.split)
  show "pred_state (reported co rt) (ResetCommandState co rt ctx t cmd)"
    by (simp add: ResetCommandState_def Let_def reset)
  show "pred_state (reported co rt) (ResetTerminalCommandStates co rt ctx t)"
    by (simp add: ResetTerminalCommandStates_def Let_def reset)
qed

lemma revised_navigation [revised_steps]:
  "pred_state (reported co rt) (ResolveTerminalNavigation co rt i d)"
proof -
  have simps [simp]: "noPersist (abandonNavigation co p r e m rt')" "noPersist (arriveNavigation route e b live rt')"
      "noPersist (failAudited m e rt')" "noPersist (rejectNavigation co p source rt')" for p r e m rt' route b live source
    by (simp_all add: abandonNavigation_def arriveNavigation_def failAudited_def rejectNavigation_def Let_def case_prod_unfold)
  have "pred_state noPersist (approveReturn co p b source rt)" for p b source
    by (auto simp: approveReturn_def Let_def intro!: pred_state_any split: option.split)
  moreover have "pred_state noPersist (approveForward co p b source rt)" for p b source
    by (auto simp: approveForward_def Let_def intro!: pred_state_any split: option.split)
  ultimately show ?thesis
    by (auto simp: ResolveTerminalNavigation_def Let_def intro!: revised_state revised_commitState split: option.split)
qed

lemma revised_broadcast [revised_steps]:
  "pred_state (reported co rt) (StartBroadcast co rt)"
  "reported co rt (EndBroadcast co rt)"
  "reported co rt (UpdateLiveTerminal co rt tree intro)"
  "reported co rt (RefreshActiveTerminal co rt target)"
  "pred_state (reported co rt) (ResetFailedHackActive co rt target)"
  "pred_state (reported co rt) (ReplaceTerminalGroups co rt ctx g)"
  subgoal by (auto simp: StartBroadcast_def intro!: revised_state revised_commitState pred_state_any)
  subgoal by (auto simp: EndBroadcast_def intro!: revised_commitState)
  subgoal by (auto simp: UpdateLiveTerminal_def refreshActive_def intro!: revised_commitState split: option.split)
  subgoal by (auto simp: RefreshActiveTerminal_def refreshActive_def Let_def intro!: revised_commitState split: option.split)
  subgoal by (auto simp: ResetFailedHackActive_def Let_def intro!: revised_state revised_commitState pred_state_any split: option.split)
  subgoal by (auto simp: ReplaceTerminalGroups_def Let_def intro!: revised_mutation revised_commitMutation pred_state_any
      split: option.split prod.split StoreError.split)
  done

lemma cacheOnly_noPersist: "noPersist a \<Longrightarrow> cacheOnly rt a"
  by (simp add: cacheOnly_def noPersist_def)

lemma cacheOnly_select: "cacheOnly rt (selectCharacterTransition co rt s)"
  by (auto simp: selectCharacterTransition_def Let_def case_prod_unfold cacheSelectionRejection_def cacheOnly_def [of rt "(_, \<lparr>ch_accepted = _, ch_persist = _, ch_effects = _\<rparr>, _)"]
      rejected_def intro: cacheOnly_noPersist noPersist_acceptFor split: option.split)

lemma reported_stamps [simp]:
  "reported co rt (stampSnapshot c) = reported co rt c" "reported co rt (stampResult d) = reported co rt d"
  by (simp_all add: stampSnapshot_def stampResult_def reported_def)

lemma revised_players [revised_steps]:
  "pred_state (\<lambda>r. \<forall>d. r = Some d \<longrightarrow> reported co rt d) (AttachSubscriptionAndRegister co rt c h)"
  "reported co rt (SelectCharacter co rt s)"
  "reported co rt (SelectCharacterForRecognition co rt token r b ch)"
  "reported co rt (ForceHackSuccessActive co rt)"
proof -
  have new: "pred_state (\<lambda>r. \<forall>a. r = Some a \<longrightarrow> noPersist a) (newSubscription co rt c)"
    by (auto simp: newSubscription_def Let_def case_prod_unfold intro!: pred_state_any split: option.split)
  have known: "noPersist (knownSubscription co rt c i t tok)" for i t tok
    by (simp add: knownSubscription_def case_prod_unfold Let_def)
  show "pred_state (\<lambda>r. \<forall>d. r = Some d \<longrightarrow> reported co rt d) (AttachSubscriptionAndRegister co rt c h)"
    by (auto simp: AttachSubscriptionAndRegister_def Let_def intro!: pred_state_bind [OF new] revised_commit known split: option.split)
  show select: "reported co rt (SelectCharacter co rt s)" for s
    by (simp add: SelectCharacter_def commit_revised cacheOnly_select)
  show "reported co rt (SelectCharacterForRecognition co rt token r b ch)"
    by (simp add: SelectCharacterForRecognition_def select split: option.split)
  show "reported co rt (ForceHackSuccessActive co rt)"
    by (auto simp: ForceHackSuccessActive_def Let_def intro!: revised_commit split: option.split)
qed

lemma revised_dispatch [revised_steps]:
  "pred_state (reported co rt) (DispatchPlayerAction co rt c command)"
  "pred_state (reported co rt) (DispatchPlayerActionForRecognition co rt h command)"
proof -
  have "cacheOnly rt stop" if "preparePlayerAction co rt c command = Inl stop" for c stop
    using that by (auto simp: preparePlayerAction_def answerAction_def rejected_def cacheOnly_def [of _ "(_, audit_opt _ _, _)"]
      cacheOnly_def [of _ "(_, \<lparr>ch_accepted = _, ch_persist = _, ch_effects = _\<rparr>, _)"]
      split: option.splits if_splits sum.splits prod.splits)
  then show dispatch: "pred_state (reported co rt) (DispatchPlayerAction co rt c command)" for c
    unfolding dispatch_unfold
    by (auto simp: commit_revised intro!: pred_state_bind [OF cacheOnly_dispatch] split: sum.split)
  show "pred_state (reported co rt) (DispatchPlayerActionForRecognition co rt h command)"
    by (simp add: DispatchPlayerActionForRecognition_def Let_def dispatch split: option.split list.split)
qed

text \<open>Operations that report through the revision: all but the shutdown and the projection for one session.\<close>

definition revising :: "CoordinatorOp \<Rightarrow> bool" where
  "revising op = (case op of OpShutdown \<Rightarrow> False | OpCurrentLive _ \<Rightarrow> False | _ \<Rightarrow> True)"

text \<open>C5: Nothing changes behind the revision. Every operation of the coordinator other than a shutdown and a
  read either moves the revision by exactly one, or leaves the whole process state as it was but for
  the answers recorded for the requests of one session: with all the recorded answers put aside the
  states are equal, and every other session has the very answers it had.\<close>

theorem coordinator_revision:
  assumes "revising op"
  shows "pred_state (\<lambda>r. case r of None \<Rightarrow> True | Some rt' \<Rightarrow>
      if pr_Revision rt' = pr_Revision rt
      then clearRequestResults rt' = clearRequestResults rt \<and>
        (\<exists>i. \<forall>k. k \<noteq> i \<longrightarrow> gm_get (pr_SessionsByID rt') k = gm_get (pr_SessionsByID rt) k)
      else pr_Revision rt' = pr_Revision rt + 1)
    (coordinatorStep co rt op)"
proof -

  have "pred_state (reaches (revised rt)) (coordinatorStep co rt op)"
  proof (cases op)
    case (OpAttach c h)
    show ?thesis
      using revised_players(1) [of co rt c h] unfolding OpAttach coordinatorStep_def coordinatorOutcome.simps runtime_attach
      by (rule pred_state_bind) (auto simp: reaches_def dest: reported_revised split: option.split)
  qed (use assms in \<open>auto simp: coordinatorStep_def revising_def intro!: reported_reaches revised_steps reported_revised\<close>)
  then show ?thesis by (rule pred_state_weaken) (auto simp: reaches_def revised_def sameButCache_def split: option.splits if_splits)
qed

lemma coordinator_revision_witness:
  "pred_state (\<lambda>r. case r of None \<Rightarrow> True | Some rt' \<Rightarrow>
      if pr_Revision rt' = 7
      then clearRequestResults rt' = clearRequestResults (demo_process []) \<and>
        (\<exists>i. \<forall>k. k \<noteq> i \<longrightarrow> gm_get (pr_SessionsByID rt') k = gm_get (pr_SessionsByID (demo_process [])) k)
      else pr_Revision rt' = 8)
    (coordinatorStep demo_coordinator (demo_process []) OpRequestClear)"
  using coordinator_revision [of OpRequestClear "demo_process []" demo_coordinator]
  by (simp add: revising_def demo_process_def cong: option.case_cong if_cong)

end
