(* ===== verification/ControlKeys.thy ===== *)
theory ControlKeys
  imports ControlSpec
begin

text \<open>
  The keys the coordinator makes up: fingerprints of requests, the replay cache that is keyed by them, and
  the fallback names of new sessions.
\<close>

section \<open>Fingerprints\<close>

lemma dec_no_colon: "CHR '':'' \<notin> set (dec n)"
  using dec_bytes [of "CHR '':''" n] by (auto simp: byte_val_def)

lemma split_at_first:
  "c \<notin> set a \<Longrightarrow> c \<notin> set b \<Longrightarrow> a @ c # xs = b @ c # ys \<Longrightarrow> a = b \<and> xs = ys"
proof (induction a arbitrary: b)
  case Nil
  then show ?case by (cases b) auto
next
  case (Cons x a)
  then show ?case by (cases b) auto
qed

lemma dec_colon_split:
  assumes "dec m @ CHR '':'' # xs = dec n @ CHR '':'' # ys"
  shows "m = n \<and> xs = ys"
  using split_at_first [OF dec_no_colon dec_no_colon assms] dec_inj by blast

lemma fingerprintFields_Cons: "fingerprintFields (f # fs) = dec (length f) @ CHR '':'' # f @ CHR '';'' # fingerprintFields fs"
  by (simp add: fingerprintFields_def)

lemma fingerprintFields_inj: "fingerprintFields fs = fingerprintFields gs \<Longrightarrow> fs = gs"
proof (induction fs arbitrary: gs)
  case Nil
  then show ?case by (cases gs) (simp_all add: fingerprintFields_Cons, simp add: fingerprintFields_def)
next
  case (Cons f fs)
  show ?case
  proof (cases gs)
    case Nil
    with Cons.prems show ?thesis by (simp add: fingerprintFields_Cons) (simp add: fingerprintFields_def)
  next
    case (Cons g gs')
    with Cons.prems have "length f = length g" "f @ CHR '';'' # fingerprintFields fs = g @ CHR '';'' # fingerprintFields gs'"
      by (auto simp: fingerprintFields_Cons dest!: dec_colon_split)
    with Cons.IH Cons show ?thesis by auto
  qed
qed

text \<open>C19: The fingerprint under which a player action is cached identifies its payload: two commands without
  a fingerprint of their own have the same one exactly when they agree in everything but the request
  identity, whatever bytes the fields hold, so a replay is never taken for a different command.\<close>

theorem coordinator_fingerprint_exact:
  assumes "rc_PayloadFingerprint c = ''''" and "rc_PayloadFingerprint d = ''''"
  shows "playerActionFingerprint c = playerActionFingerprint d \<longleftrightarrow>
    kindText (rc_Kind c) = kindText (rc_Kind d) \<and> rc_BroadcastID c = rc_BroadcastID d \<and> rc_TerminalID c = rc_TerminalID d \<and>
    rc_Action c = rc_Action d \<and> rc_NodeID c = rc_NodeID d \<and> rc_TargetID c = rc_TargetID d \<and> rc_PatternID c = rc_PatternID d \<and>
    presentationText (cp_Kind (rc_Presentation c)) = presentationText (cp_Kind (rc_Presentation d)) \<and>
    cp_ContextKey (rc_Presentation c) = cp_ContextKey (rc_Presentation d) \<and>
    cp_TargetID (rc_Presentation c) = cp_TargetID (rc_Presentation d) \<and>
    cp_PatternID (rc_Presentation c) = cp_PatternID (rc_Presentation d) \<and>
    cp_PageIndex (rc_Presentation c) = cp_PageIndex (rc_Presentation d)"
proof -
  have page: "dec (unat (cp_PageIndex (rc_Presentation c))) = dec (unat (cp_PageIndex (rc_Presentation d))) \<longleftrightarrow>
      cp_PageIndex (rc_Presentation c) = cp_PageIndex (rc_Presentation d)"
    using dec_inj by (auto simp: word_unat_eq_iff)
  show ?thesis
    unfolding playerActionFingerprint_def using assms page by (auto dest!: fingerprintFields_inj)
qed

section \<open>The replay cache\<close>

lemma evictKey_fold:
  fixes k :: string
  shows "k \<noteq> '''' \<Longrightarrow> '''' \<notin> set ks \<Longrightarrow>
   foldl (\<lambda>evict candidate. if evict = '''' \<or> candidate < evict then candidate else evict) k ks = Min (set (k # ks))"
proof (induction ks arbitrary: k)
  case (Cons x ks)
  have "min k x \<noteq> ''''" using Cons.prems by (auto simp: min_def)
  with Cons have "foldl (\<lambda>evict candidate. if evict = '''' \<or> candidate < evict then candidate else evict) (min k x) ks = Min (set (min k x # ks))"
    by simp
  also have "Min (set (min k x # ks)) = Min (set (k # x # ks))"
    by (cases "ks = []") (simp_all add: Min_insert min.assoc)
  finally have all: "foldl (\<lambda>evict candidate. if evict = '''' \<or> candidate < evict then candidate else evict) (min k x) ks =
      Min (set (k # x # ks))" .
  have "(if k = '''' \<or> x < k then x else k) = min k x" using Cons.prems(1) by (auto simp: min_def)
  then show ?case using all by (simp only: foldl_Cons)
qed simp

lemma evictKey_Min: "ks \<noteq> [] \<Longrightarrow> '''' \<notin> set ks \<Longrightarrow> evictKey ks = Min (set ks)"
proof (cases ks)
  case (Cons k ks')
  then show "'''' \<notin> set ks \<Longrightarrow> evictKey ks = Min (set ks)"
    using evictKey_fold [of k ks'] by (auto simp: evictKey_def)
qed simp

definition evicts :: "'w Coordinator \<Rightarrow> LogicalSession \<Rightarrow> RequestID \<Rightarrow> bool" where
  "evicts co s r = (\<not> gm_has (ls_RequestResults s) r \<and> length (ls_RequestResults s) = co_RequestResultLimit co)"

text \<open>C18: Recording an answer in the replay cache of a session. The answer is found again under its request;
  the cache does not outgrow its limit; when it was full, exactly the entry with the least key goes, and
  otherwise every other entry of the session stays, as do the caches of the other sessions.\<close>

theorem coordinator_cache_bounded:
  assumes s: "gm_get (pr_SessionsByID rt) i = Some s" and ok: "gm_ok (ls_RequestResults s)"
    and named: "\<not> gm_has (ls_RequestResults s) ''''" and bound: "length (ls_RequestResults s) \<le> co_RequestResultLimit co"
    and "0 < co_RequestResultLimit co"
  shows "requestResult (storeRequestResult co i r x rt) i r = Some x \<and>
    (\<exists>s'. gm_get (pr_SessionsByID (storeRequestResult co i r x rt)) i = Some s' \<and>
      gm_ok (ls_RequestResults s') \<and> length (ls_RequestResults s') \<le> co_RequestResultLimit co) \<and>
    (j \<noteq> i \<or> q \<noteq> r \<longrightarrow> requestResult (storeRequestResult co i r x rt) j q =
      (if j = i \<and> evicts co s r \<and> q = Min (set (gm_keys (ls_RequestResults s))) then None else requestResult rt j q))"
proof -
  let ?full = "evicts co s r" and ?m = "ls_RequestResults s" and ?n = "co_RequestResultLimit co"
  let ?room = "if evicts co s r then gm_del (Min (set (gm_keys ?m))) ?m else ?m"
  have key: "evictKey (gm_keys ?m) = Min (set (gm_keys ?m)) \<and> gm_has ?m (Min (set (gm_keys ?m)))" if ?full
  proof -
    have "gm_keys ?m \<noteq> []" using that assms(5) by (auto simp: evicts_def gm_keys_def)
    moreover from this have "Min (set (gm_keys ?m)) \<in> set (gm_keys ?m)" by (intro Min_in) simp_all
    ultimately show ?thesis using named by (simp add: evictKey_Min set_gm_keys)
  qed
  have store: "storeRequestResult co i r x rt = setSession i (s\<lparr>ls_RequestResults := gm_put r x ?room\<rparr>) rt"
    using s bound key by (auto simp: storeRequestResult_def Let_def evicts_def)
  have len: "length (gm_put r x ?room) \<le> ?n"
  proof (cases ?full)
    case True
    then have "Suc (length ?room) = ?n" using key length_gm_del [OF ok] by (simp add: evicts_def)
    moreover have "\<not> gm_has ?room r" using True by (simp add: evicts_def)
    ultimately show ?thesis by (simp add: length_gm_put)
  next
    case False
    then show ?thesis using bound by (auto simp: length_gm_put evicts_def)
  qed
  have "gm_ok (gm_put r x ?room)" using ok by simp
  with len show ?thesis
    by (auto simp: store requestResult_def setSession_def s)
qed

lemma coordinator_cache_bounded_witness:
  "let x = \<lparr>rr_Fingerprint = ''f'', rr_Result = rejectedResult ''r1'' ActionReasonConflict 7\<rparr> in
   requestResult (storeRequestResult demo_coordinator ''s1'' ''r1'' x (demo_process [])) ''s1'' ''r1'' = Some x"
  using coordinator_cache_bounded [of "demo_process []" "''s1''" "demo_player ''s1'' ''PLAYER 1'' ''c1''" demo_coordinator "''r1''"
      "\<lparr>rr_Fingerprint = ''f'', rr_Result = rejectedResult ''r1'' ActionReasonConflict 7\<rparr>"]
  by (simp add: demo_player_def demo_coordinator_def)

lemma coordinator_fingerprint_exact_witness:
  "playerActionFingerprint ((demo_command RuntimeCommandGuess '''' '''')\<lparr>rc_NodeID := ''a'', rc_TargetID := ''bc''\<rparr>) \<noteq>
   playerActionFingerprint ((demo_command RuntimeCommandGuess '''' '''')\<lparr>rc_NodeID := ''ab'', rc_TargetID := ''c''\<rparr>)"
  using coordinator_fingerprint_exact [of "(demo_command RuntimeCommandGuess '''' '''')\<lparr>rc_NodeID := ''a'', rc_TargetID := ''bc''\<rparr>"
    "(demo_command RuntimeCommandGuess '''' '''')\<lparr>rc_NodeID := ''ab'', rc_TargetID := ''c''\<rparr>"]
  by (simp add: demo_command_def)

section \<open>Fallback names\<close>

text \<open>C20: A new session always gets a name. The search over the candidate numbers ends within one try more
  than there are sessions, and its answer, the lowest-numbered free name, is not the name of any session.\<close>

theorem coordinator_fallback_name:
  "\<exists>k. nextFallbackName rt = Some (fallbackName k) \<and> 1 \<le> k \<and> k \<le> Suc (length (pr_SessionsByID rt)) \<and>
     fallbackName k \<notin> ls_FallbackName ` snd ` set (pr_SessionsByID rt) \<and>
     {1..<k} \<subseteq> {j. fallbackName j \<in> ls_FallbackName ` snd ` set (pr_SessionsByID rt)}"
proof -
  let ?names = "set (map (\<lambda>(_, session). ls_FallbackName session) (pr_SessionsByID rt))"
  have names: "?names = ls_FallbackName ` snd ` set (pr_SessionsByID rt)" by force
  have inj: "inj fallbackName" by (rule injI) (auto simp: fallbackName_def dest: dec_inj)
  have "nextFallbackName rt \<noteq> None"
  proof
    assume "nextFallbackName rt = None"
    note none = first_free_None [OF this [unfolded nextFallbackName_def]]
    have "fallbackName ` {1..<1 + Suc (length (pr_SessionsByID rt))} \<subseteq> ?names"
      by (rule image_subsetI, rule none) simp_all
    then have "card {1..<1 + Suc (length (pr_SessionsByID rt))} \<le> card ?names"
      using card_image [OF inj_on_subset [OF inj]] by (metis card_mono finite_set subset_UNIV)
    also have "\<dots> \<le> length (pr_SessionsByID rt)" using card_length by (metis length_map)
    finally show False by simp
  qed
  then obtain x where "nextFallbackName rt = Some x" by blast
  from first_free_Some [OF this [unfolded nextFallbackName_def]] this show ?thesis
    by (auto simp: names [symmetric])
qed

end
