(* ===== verification/ValidateInv.thy ===== *)
theory ValidateInv
  imports TerminalGroups LiveInv
begin

text \<open>
  What an accepted document guarantees: the node identities, shapes and bounds of every
  content tree, the references of command states, blocks and transitions, the partition of
  the terminals into groups, and the facts the live runtime relies on.
\<close>

section \<open>Accepted scalars\<close>

definition required_ok :: "string \<Rightarrow> nat \<Rightarrow> bool" where
  "required_ok v n = (trim_space v \<noteq> '''' \<and> length v \<le> n)"

lemma validateRequiredString_None [simp]: "validateRequiredString p v n = None \<longleftrightarrow> required_ok v n"
  by (auto simp: validateRequiredString_def required_ok_def)

lemma validateRequiredString_visible [simp]:
  "visible c \<Longrightarrow> length (c # s) \<le> n \<Longrightarrow> validateRequiredString p (c # s) n = None"
  by (simp add: required_ok_def)

lemma required_nonempty: "required_ok v n \<Longrightarrow> v \<noteq> ''''"
  by (auto simp: required_ok_def)

lemma first_err_map: "first_err (map f xs) = None \<longleftrightarrow> (\<forall>x\<in>set xs. f x = None)"
  by (auto simp: first_err_def)

section \<open>Visiting a tree\<close>

definition node_transition :: "ContentNode \<Rightarrow> (string \<times> string) list" where
  "node_transition n =
     (if cn_Type n = NodeCommand \<and> cn_StateChange n = None
      then (case cn_TerminalTransition n of None \<Rightarrow> [] | Some t \<Rightarrow> [(cn_ID n, tt_TargetTerminalID t)]) else [])"

definition tree_transitions :: "ContentNode list \<Rightarrow> (string \<times> string) list" where
  "tree_transitions ns = concat (map node_transition ns)"

definition node_ok :: "ContentNode \<Rightarrow> bool" where
  "node_ok n =
     (required_ok (cn_ID n) maxNameBytes \<and> required_ok (cn_Name n) maxNameBytes \<and>
      cn_Type n \<in> {NodeFolder, NodeCommand, NodeEntry} \<and>
      (cn_Type n \<noteq> NodeFolder \<longrightarrow> cn_kids n = []) \<and>
      (cn_Type n \<noteq> NodeCommand \<longrightarrow> Behavior n = CommandBehaviorOrdinary) \<and>
      (cn_Type n \<noteq> NodeCommand \<longrightarrow> cn_Text n = '''') \<and>
      (cn_Type n \<noteq> NodeEntry \<longrightarrow> cn_Blocks n = None \<and> cn_Description n = '''') \<and>
      Behavior n \<noteq> CommandBehaviorInvalid \<and>
      length (cn_Text n) \<le> maxBodyBytes \<and> length (cn_Description n) \<le> maxBodyBytes)"

definition refs_of :: "TreeVisit \<Rightarrow> (string \<times> string) list" where
  "refs_of st = map (\<lambda>r. (tf_CommandID r, tf_Target r)) (tv_Refs st)"

definition visited :: "ContentNode list \<Rightarrow> TreeVisit \<Rightarrow> TreeVisit \<Rightarrow> bool" where
  "visited ns st st' =
     (distinct (map cn_ID ns) \<and> (\<forall>m\<in>set ns. \<not> gm_has (tv_Nodes st) (cn_ID m)) \<and>
      (\<forall>k. gm_get (tv_Nodes st') k =
         (case find (\<lambda>m. cn_ID m = k) ns of Some m \<Rightarrow> Some m | None \<Rightarrow> gm_get (tv_Nodes st) k)) \<and>
      (tv_Count st \<le> MaxNodes \<longrightarrow> tv_Count st' \<le> MaxNodes) \<and> tv_Count st' = tv_Count st + length ns \<and>
      refs_of st' = refs_of st @ tree_transitions ns \<and> list_all node_ok ns)"

lemma visited_refl: "visited [] st st"
  by (simp add: visited_def tree_transitions_def)

lemma find_append: "find P (xs @ ys) = (case find P xs of Some x \<Rightarrow> Some x | None \<Rightarrow> find P ys)"
  by (induction xs) auto

lemma find_None_has:
  "find (\<lambda>m. cn_ID m = k) ns = None \<longleftrightarrow> k \<notin> cn_ID ` set ns"
  by (auto simp: find_None_iff)

lemma visited_has:
  "visited ns st st' \<Longrightarrow> gm_has (tv_Nodes st') k \<longleftrightarrow> k \<in> cn_ID ` set ns \<or> gm_has (tv_Nodes st) k"
  using find_None_has [of k ns] by (auto simp: visited_def gm_has_def split: option.splits)

lemma visited_append:
  assumes "visited xs a b" and "visited ys b c"
  shows "visited (xs @ ys) a c"
proof -
  have b: "\<not> gm_has (tv_Nodes b) (cn_ID m)" if "m \<in> set ys" for m
    using assms(2) that by (simp add: visited_def)
  then have d: "cn_ID ` set xs \<inter> cn_ID ` set ys = {}" "\<forall>m\<in>set ys. \<not> gm_has (tv_Nodes a) (cn_ID m)"
    using visited_has [OF assms(1)] by (auto simp: disjoint_iff) (metis imageI)
  have "gm_get (tv_Nodes c) k =
      (case find (\<lambda>m. cn_ID m = k) (xs @ ys) of Some m \<Rightarrow> Some m | None \<Rightarrow> gm_get (tv_Nodes a) k)" for k
  proof (cases "find (\<lambda>m. cn_ID m = k) ys")
    case None
    then show ?thesis using assms by (auto simp: visited_def find_append split: option.splits)
  next
    case (Some m)
    then have "k \<in> cn_ID ` set ys" by (metis find_None_has option.distinct(1))
    then have "find (\<lambda>m. cn_ID m = k) xs = None" using d(1) find_None_has [of k xs] by auto
    with Some assms(2) show ?thesis by (simp add: visited_def find_append)
  qed
  then show ?thesis
    using assms d by (auto simp: visited_def tree_transitions_def)
qed

lemma enterNode_visited:
  assumes "enterNode pf rp p n d st = Inr st'"
  shows "gm_get (tv_Nodes st') k = (if k = cn_ID n then Some n else gm_get (tv_Nodes st) k)"
    and "\<not> gm_has (tv_Nodes st) (cn_ID n)" and "tv_Count st' = Suc (tv_Count st)" and "tv_Count st' \<le> MaxNodes"
    and "tv_Refs st' = tv_Refs st" and "required_ok (cn_ID n) maxNameBytes" and "required_ok (cn_Name n) maxNameBytes"
    and "d \<le> MaxNodeDepth"
  using assms by (auto simp: enterNode_def Let_def split: if_splits option.splits)

lemma leaf_visited:
  assumes "enterNode pf rp p n d st = Inr st1" and "tv_Nodes st' = tv_Nodes st1" and "tv_Count st' = tv_Count st1"
    and "refs_of st' = refs_of st1 @ node_transition n" and "node_ok n"
  shows "visited [n] st st'"
  using enterNode_visited [OF assms(1)] assms(2-) by (auto simp: visited_def refs_of_def tree_transitions_def)

lemma checkFolder_ok: "checkFolder p n = None \<Longrightarrow> cn_Type n = NodeFolder \<Longrightarrow> required_ok (cn_ID n) maxNameBytes \<Longrightarrow>
    required_ok (cn_Name n) maxNameBytes \<Longrightarrow> node_ok n \<and> node_transition n = []"
  by (auto simp: checkFolder_def node_ok_def node_transition_def Behavior_def cn_block_list_def maxBodyBytes_def
      split: if_splits)

lemma checkEntry_ok: "checkEntry p n = None \<Longrightarrow> cn_Type n = NodeEntry \<Longrightarrow> required_ok (cn_ID n) maxNameBytes \<Longrightarrow>
    required_ok (cn_Name n) maxNameBytes \<Longrightarrow> node_ok n \<and> node_transition n = []"
  by (auto simp: checkEntry_def node_ok_def node_transition_def Behavior_def split: if_splits)

lemma checkCommand_ok:
  assumes "checkCommand p n st = Inr st'" and "cn_Type n = NodeCommand" and "required_ok (cn_ID n) maxNameBytes"
    and "required_ok (cn_Name n) maxNameBytes"
  shows "node_ok n" and "tv_Nodes st' = tv_Nodes st" and "tv_Count st' = tv_Count st"
    and "refs_of st' = refs_of st @ node_transition n"
  using assms
  by (auto simp: checkCommand_def node_ok_def node_transition_def refs_of_def Behavior_def cn_block_list_def
      split: if_splits option.splits)

lemma visit_visited:
  "visit pf rp p n d st = Inr st' \<Longrightarrow> visited (tree_nodes n) st st'"
proof (induction n arbitrary: p d st st' rule: measure_induct_rule [of size])
  case (less n)
  from less.prems obtain st1 where st1: "enterNode pf rp p n d st = Inr st1"
    by (auto simp: visit.simps [of pf rp p n d st] ok_bind_Inr)
  note n = enterNode_visited [OF st1]
  have leaf: "visited (tree_nodes n) st st'" if "cn_kids n = []" "visited [n] st st'"
    using that by (simp add: tree_nodes.simps [of n])
  consider (folder) "cn_Type n = NodeFolder" | (command) "cn_Type n = NodeCommand" | (entry) "cn_Type n = NodeEntry"
    using less.prems st1 by (auto simp: visit.simps [of pf rp p n d st] split: if_splits)
  then show ?case
  proof cases
    case folder
    let ?f = "\<lambda>(i, c). visit pf rp (p @ [Field ''children'', Index i]) c (d + 1)"
    from less.prems folder st1 have c: "checkFolder p n = None"
      and f: "fold_ok ?f (enumerate 0 (cn_kids n)) st1 = Inr st'"
      by (auto simp: visit.simps [of pf rp p n d st] split: option.splits)
    have kids: "fold_ok ?f (enumerate k cs) a = Inr b \<Longrightarrow> set cs \<subseteq> set (cn_kids n) \<Longrightarrow>
        visited (concat (map tree_nodes cs)) a b" for cs a b k
    proof (induction cs arbitrary: k a)
      case (Cons c cs)
      then obtain a1 where "visit pf rp (p @ [Field ''children'', Index k]) c (d + 1) a = Inr a1"
        and "fold_ok ?f (enumerate (Suc k) cs) a1 = Inr b" by (auto simp: ok_bind_Inr)
      moreover from Cons.prems have "size c < size n" by (intro size_kid) simp
      ultimately show ?case using Cons less.IH [of c] by (auto intro!: visited_append)
    qed (simp add: visited_refl)
    have "visited [n] st st1" using checkFolder_ok [OF c folder n(6,7)]
      by (intro leaf_visited [OF st1]) auto
    from visited_append [OF this kids [OF f subset_refl]] show ?thesis
      by (simp add: tree_nodes.simps [of n])
  next
    case command
    from less.prems command st1 have c: "checkCommand p n st1 = Inr st'"
      by (auto simp: visit.simps [of pf rp p n d st])
    note k = checkCommand_ok [OF c command n(6,7)]
    from k(1) command have "cn_kids n = []" by (simp add: node_ok_def)
    then show ?thesis using k by (intro leaf leaf_visited [OF st1]) auto
  next
    case entry
    from less.prems entry st1 have c: "checkEntry p n = None" "st' = st1"
      by (auto simp: visit.simps [of pf rp p n d st] split: option.splits)
    note k = checkEntry_ok [OF c(1) entry n(6,7)]
    from k entry have "cn_kids n = []" by (simp add: node_ok_def)
    then show ?thesis using k c(2) by (intro leaf leaf_visited [OF st1]) auto
  qed
qed

fun tree_height :: "ContentNode \<Rightarrow> nat" where
  "tree_height n = Suc (fold max (map tree_height (cn_kids n)) 0)"

declare tree_height.simps [simp del]

lemma fold_max_le: "fold max xs a \<le> (b::nat) \<longleftrightarrow> a \<le> b \<and> (\<forall>x\<in>set xs. x \<le> b)"
  by (induction xs arbitrary: a) auto

lemma visit_height: "visit pf rp p n d st = Inr st' \<Longrightarrow> d + tree_height n \<le> Suc MaxNodeDepth"
proof (induction n arbitrary: p d st st' rule: measure_induct_rule [of size])
  case (less n)
  from less.prems obtain st1 where st1: "enterNode pf rp p n d st = Inr st1"
    by (auto simp: visit.simps [of pf rp p n d st] ok_bind_Inr)
  note depth = enterNode_visited(8) [OF st1]
  from visit_visited [OF less.prems] have "node_ok n" by (simp add: visited_def tree_nodes.simps [of n])
  then consider (leaf) "cn_kids n = []" | (folder) "cn_Type n = NodeFolder" by (auto simp: node_ok_def)
  then show ?case
  proof cases
    case leaf
    with depth show ?thesis by (simp add: tree_height.simps [of n])
  next
    case folder
    let ?f = "\<lambda>(i, c). visit pf rp (p @ [Field ''children'', Index i]) c (d + 1)"
    from less.prems folder st1 have f: "fold_ok ?f (enumerate 0 (cn_kids n)) st1 = Inr st'"
      by (auto simp: visit.simps [of pf rp p n d st] split: option.splits)
    have "fold_ok ?f (enumerate k cs) a = Inr b \<Longrightarrow> set cs \<subseteq> set (cn_kids n) \<Longrightarrow>
        \<forall>c\<in>set cs. Suc d + tree_height c \<le> Suc MaxNodeDepth" for cs a b k
    proof (induction cs arbitrary: k a)
      case (Cons c cs)
      then obtain a1 where v: "visit pf rp (p @ [Field ''children'', Index k]) c (d + 1) a = Inr a1"
        and r: "fold_ok ?f (enumerate (Suc k) cs) a1 = Inr b" by (auto simp: ok_bind_Inr)
      from Cons.prems have "size c < size n" by (intro size_kid) simp
      from less.IH [OF this v] Cons.IH [OF r] Cons.prems show ?case by simp
    qed simp
    from this [OF f subset_refl] have "\<forall>c\<in>set (cn_kids n). tree_height c \<le> MaxNodeDepth - d" by auto
    then have "fold max (map tree_height (cn_kids n)) 0 \<le> MaxNodeDepth - d" by (simp add: fold_max_le)
    with depth show ?thesis by (simp add: tree_height.simps [of n])
  qed
qed

definition tree_valid :: "ContentNode \<Rightarrow> bool" where
  "tree_valid root =
     (unique_ids root \<and> list_all node_ok (tree_nodes root) \<and> length (tree_nodes root) \<le> MaxNodes \<and>
      tree_height root \<le> MaxNodeDepth)"

lemma validateTree_ok:
  assumes "validateTree pf p root = Inr (nodes, refs)"
  shows "tree_valid root" and "gm_get nodes k = find (\<lambda>m. cn_ID m = k) (tree_nodes root)"
    and "map (\<lambda>r. (tf_CommandID r, tf_Target r)) refs = tree_transitions (tree_nodes root)"
proof -
  from assms obtain st where st: "visit pf p p root 1 \<lparr>tv_Count = 0, tv_Nodes = [], tv_Refs = []\<rparr> = Inr st"
    and eq: "nodes = tv_Nodes st" "refs = tv_Refs st"
    by (auto simp: validateTree_def ok_bind_Inr)
  note v = visit_visited [OF st]
  from v visit_height [OF st] show "tree_valid root" by (simp add: tree_valid_def visited_def unique_ids_def)
  from v eq show "gm_get nodes k = find (\<lambda>m. cn_ID m = k) (tree_nodes root)"
    by (simp add: visited_def split: option.splits)
  from v eq show "map (\<lambda>r. (tf_CommandID r, tf_Target r)) refs = tree_transitions (tree_nodes root)"
    by (simp add: visited_def refs_of_def)
qed

lemma tree_valid_ok: "tree_valid root \<Longrightarrow> cn_ID root = ''root'' \<Longrightarrow> cn_Type root = NodeFolder \<Longrightarrow> tree_ok root"
  by (auto simp: tree_ok_def tree_valid_def root_tree_def list_all_iff node_ok_def dest: required_nonempty)

section \<open>Collecting entry blocks and authored changes\<close>

definition node_blocks :: "ContentNode \<Rightarrow> EntryContentBlock list" where
  "node_blocks n = (if cn_Type n = NodeEntry then cn_block_list n else [])"

definition node_changes :: "ContentNode \<Rightarrow> (string \<times> EntryContentChange) list" where
  "node_changes n =
     (if cn_Type n = NodeCommand
      then (case Option.bind (cn_StateChange n) sc_EntryContentChange of None \<Rightarrow> [] | Some c \<Rightarrow> [(cn_ID n, c)]) else [])"

definition tree_blocks :: "ContentNode list \<Rightarrow> EntryContentBlock list" where
  "tree_blocks ns = concat (map node_blocks ns)"

definition tree_changes :: "ContentNode list \<Rightarrow> (string \<times> EntryContentChange) list" where
  "tree_changes ns = concat (map node_changes ns)"

lemma tree_blocks_simps [simp]:
  "tree_blocks [] = []" "tree_blocks (n # ns) = node_blocks n @ tree_blocks ns"
  "tree_blocks (ns @ ms) = tree_blocks ns @ tree_blocks ms"
  by (simp_all add: tree_blocks_def)

lemma tree_changes_simps [simp]:
  "tree_changes [] = []" "tree_changes (n # ns) = node_changes n @ tree_changes ns"
  "tree_changes (ns @ ms) = tree_changes ns @ tree_changes ms"
  by (simp_all add: tree_changes_def)

definition changes_of :: "EntryVisit \<Rightarrow> (string \<times> EntryContentChange) list" where
  "changes_of st = map (\<lambda>r. (cf_CommandID r, cf_Change r)) (ev_Changes st)"

definition collected :: "ContentNode list \<Rightarrow> EntryVisit \<Rightarrow> EntryVisit \<Rightarrow> bool" where
  "collected ns st st' =
     (distinct (map eb_ID (tree_blocks ns)) \<and>
      (\<forall>b\<in>set (tree_blocks ns). \<not> gm_has (ev_Blocks st) (eb_ID b)) \<and>
      (\<forall>k. gm_has (ev_Blocks st') k \<longleftrightarrow> k \<in> eb_ID ` set (tree_blocks ns) \<or> gm_has (ev_Blocks st) k) \<and>
      map er_Blocks (ev_Entries st') = map er_Blocks (ev_Entries st) @ filter (\<lambda>bs. bs \<noteq> []) (map node_blocks ns) \<and>
      changes_of st' = changes_of st @ tree_changes ns \<and>
      (\<forall>n\<in>set ns. cn_Type n = NodeEntry \<longrightarrow> cn_Description n = '''' \<or> cn_block_list n = []))"

lemma collected_append:
  assumes x: "collected xs a b" and y: "collected ys b c"
  shows "collected (xs @ ys) a c"
proof -
  have k: "gm_has (ev_Blocks b) k \<longleftrightarrow> k \<in> eb_ID ` set (tree_blocks xs) \<or> gm_has (ev_Blocks a) k" for k
    using x by (simp add: collected_def)
  have n: "\<not> gm_has (ev_Blocks b) (eb_ID m)" if "m \<in> set (tree_blocks ys)" for m
    using y that by (simp add: collected_def)
  have "eb_ID ` set (tree_blocks xs) \<inter> eb_ID ` set (tree_blocks ys) = {}"
    using n by (auto simp: disjoint_iff k) (metis imageI)
  moreover have "\<forall>m\<in>set (tree_blocks ys). \<not> gm_has (ev_Blocks a) (eb_ID m)" using n k by blast
  ultimately show ?thesis using x y by (simp add: collected_def ball_Un image_Un disj_assoc) blast
qed

lemma checkBlock_blocks:
  "fold_ok (checkBlock p) (enumerate k bs) st = Inr st' \<Longrightarrow>
     distinct (map eb_ID bs) \<and> (\<forall>b\<in>set bs. \<not> gm_has (ev_Blocks st) (eb_ID b)) \<and>
     (\<forall>i. gm_has (ev_Blocks st') i \<longleftrightarrow> i \<in> eb_ID ` set bs \<or> gm_has (ev_Blocks st) i) \<and>
     ev_Entries st' = ev_Entries st \<and> ev_Changes st' = ev_Changes st"
proof (induction bs arbitrary: k st)
  case (Cons b bs)
  then obtain st1 where s: "checkBlock p (k, b) st = Inr st1" "fold_ok (checkBlock p) (enumerate (Suc k) bs) st1 = Inr st'"
    by (auto simp: ok_bind_Inr)
  from s(1) have b: "\<not> gm_has (ev_Blocks st) (eb_ID b)"
    "\<And>i. gm_has (ev_Blocks st1) i \<longleftrightarrow> i = eb_ID b \<or> gm_has (ev_Blocks st) i"
    "ev_Entries st1 = ev_Entries st" "ev_Changes st1 = ev_Changes st"
    by (auto simp: checkBlock_def Let_def split: if_splits option.splits)
  from Cons.IH [OF s(2)] b show ?case by auto
qed simp

lemma collectNode_collected: "collectNode p n st = Inr st' \<Longrightarrow> collected [n] st st'"
proof (cases "cn_Type n = NodeEntry")
  case True
  assume c: "collectNode p n st = Inr st'"
  let ?st = "if cn_block_list n \<noteq> []
    then st\<lparr>ev_Entries := ev_Entries st @ [\<lparr>er_Path = p, er_Blocks = cn_block_list n\<rparr>]\<rparr> else st"
  from c True have d: "cn_Description n = '''' \<or> cn_block_list n = []"
    and f: "fold_ok (checkBlock p) (enumerate 0 (cn_block_list n)) ?st = Inr st'"
    by (simp_all add: collectNode_def split: if_splits)
  have b: "ev_Blocks ?st = ev_Blocks st" "ev_Changes ?st = ev_Changes st"
    "map er_Blocks (ev_Entries ?st) = map er_Blocks (ev_Entries st) @ filter (\<lambda>bs. bs \<noteq> []) [cn_block_list n]"
    by simp_all
  have n: "node_blocks n = cn_block_list n" "node_changes n = []"
    using True by (simp_all add: node_blocks_def node_changes_def)
  from checkBlock_blocks [OF f] d show ?thesis unfolding collected_def changes_of_def b by (simp add: n b)
next
  case False
  assume c: "collectNode p n st = Inr st'"
  with False have "ev_Blocks st' = ev_Blocks st" "ev_Entries st' = ev_Entries st"
    "changes_of st' = changes_of st @ node_changes n"
    by (auto simp: collectNode_def node_changes_def Let_def changes_of_def split: if_splits option.splits)
  with False show ?thesis by (simp add: collected_def node_blocks_def)
qed

lemma collect_collected: "collect p n st = Inr st' \<Longrightarrow> collected (tree_nodes n) st st'"
proof (induction n arbitrary: p st st' rule: measure_induct_rule [of size])
  case (less n)
  let ?f = "\<lambda>(i, c). collect (p @ [Field ''children'', Index i]) c"
  from less.prems obtain st1 where st1: "collectNode p n st = Inr st1"
    and f: "fold_ok ?f (enumerate 0 (cn_kids n)) st1 = Inr st'"
    by (auto simp: collect.simps [of p n st] ok_bind_Inr)
  have "fold_ok ?f (enumerate k cs) a = Inr b \<Longrightarrow> set cs \<subseteq> set (cn_kids n) \<Longrightarrow>
      collected (concat (map tree_nodes cs)) a b" for cs a b k
  proof (induction cs arbitrary: k a)
    case Nil
    then show ?case by (simp add: collected_def)
  next
    case (Cons c cs)
    then obtain a1 where v: "collect (p @ [Field ''children'', Index k]) c a = Inr a1"
      and r: "fold_ok ?f (enumerate (Suc k) cs) a1 = Inr b" by (auto simp: ok_bind_Inr)
    from Cons.prems have "size c < size n" by (intro size_kid) simp
    from collected_append [OF less.IH [OF this v] Cons.IH [OF r]] Cons.prems show ?case by simp
  qed
  from collected_append [OF collectNode_collected [OF st1] this [OF f subset_refl]] show ?case
    by (simp add: tree_nodes.simps [of n])
qed

section \<open>Composed entry text\<close>

definition block_text :: "(string, string) gomap \<Rightarrow> EntryContentBlock \<Rightarrow> string" where
  "block_text r b = (case gm_get r (eb_ID b) of Some t \<Rightarrow> t | None \<Rightarrow> eb_InitialText b)"

lemma blockTexts_eq: "blockTexts r bs = join [CHR 0x0A, CHR 0x0A] (map (block_text r) bs)"
  by (simp add: blockTexts_def block_text_def [abs_def])

lemma composed_rest:
  "\<not> composedExceeds r False n bs \<Longrightarrow> bs \<noteq> [] \<Longrightarrow>
     n + 2 + length (join [CHR 0x0A, CHR 0x0A] (map (block_text r) bs)) \<le> maxBodyBytes"
proof (induction bs arbitrary: n)
  case (Cons b bs)
  then have "n + 2 + length (block_text r b) \<le> maxBodyBytes"
    and "\<not> composedExceeds r False (n + 2 + length (block_text r b)) bs"
    by (auto simp: Let_def block_text_def)
  with Cons.IH [of "n + 2 + length (block_text r b)"] show ?case by (cases bs) auto
qed simp

lemma composed_le: "\<not> composedExceeds r True 0 bs \<Longrightarrow> length (blockTexts r bs) \<le> maxBodyBytes"
proof (cases bs)
  case (Cons b cs)
  assume "\<not> composedExceeds r True 0 bs"
  with Cons have "length (block_text r b) \<le> maxBodyBytes" "\<not> composedExceeds r False (length (block_text r b)) cs"
    by (auto simp: Let_def block_text_def)
  with composed_rest [of r "length (block_text r b)" cs] Cons show ?thesis
    by (cases cs) (auto simp: blockTexts_eq)
qed (simp add: blockTexts_eq)

lemma composed_entries:
  assumes "validateComposedEntryText es r phase = None" and "map er_Blocks es = filter (\<lambda>bs. bs \<noteq> []) (map node_blocks ns)"
    and "n \<in> set ns"
  shows "length (blockTexts r (node_blocks n)) \<le> maxBodyBytes"
proof (cases "node_blocks n = []")
  case False
  with assms(3) have "node_blocks n \<in> set (map er_Blocks es)" by (simp add: assms(2))
  then obtain e where e: "e \<in> set es" "er_Blocks e = node_blocks n" by (auto simp del: assms(2))
  from assms(1) have "\<forall>e\<in>set es. \<not> composedExceeds r True 0 (er_Blocks e)"
    by (simp only: validateComposedEntryText_def first_err_map) (simp split: if_splits)
  with e have "\<not> composedExceeds r True 0 (node_blocks n)" by metis
  then show ?thesis by (rule composed_le)
qed (simp add: blockTexts_eq)

section \<open>Authored and frozen block texts\<close>

definition frozen :: "CommandStates \<Rightarrow> string \<Rightarrow> EntryContentChange option" where
  "frozen states c = Option.bind (gm_get states c) ce_EntryContentChange"

definition frozen_unique :: "CommandStates \<Rightarrow> bool" where
  "frozen_unique states =
     (\<forall>i j c d. frozen states i = Some c \<and> frozen states j = Some d \<and> ec_BlockID c = ec_BlockID d \<longrightarrow> i = j)"

definition text_for :: "string \<Rightarrow> EntryContentChange option \<Rightarrow> string option" where
  "text_for b ch = (case ch of Some c \<Rightarrow> if ec_BlockID c = b then Some (ec_CompletedText c) else None | None \<Rightarrow> None)"

lemma first_some_snoc_else:
  "(case first_some f (xs @ [x]) of Some t \<Rightarrow> Some t | None \<Rightarrow> k) =
   (case first_some f xs of Some t \<Rightarrow> Some t | None \<Rightarrow> (case f x of Some t \<Rightarrow> Some t | None \<Rightarrow> k))"
  by (cases "first_some f xs"; cases "f x") (simp_all only: first_some_append first_some.simps option.case)

lemma text_for_simps [simp]:
  "text_for b None = None"
  "text_for b (Some c) = (if ec_BlockID c = b then Some (ec_CompletedText c) else None)"
  by (simp_all add: text_for_def)

lemma completed_foldl:
  "gm_get (foldl (\<lambda>m (i, st). case ce_EntryContentChange st of
                None \<Rightarrow> m
              | Some change \<Rightarrow> gm_put (ec_BlockID change) (ec_CompletedText change) m) m xs) b =
     (case first_some (\<lambda>(i, st). text_for b (ce_EntryContentChange st)) (rev xs) of
        Some t \<Rightarrow> Some t | None \<Rightarrow> gm_get m b)"
proof (induction xs arbitrary: m)
  case (Cons x xs)
  obtain i st where x: "x = (i, st)" by (cases x)
  show ?case
    by (cases "ce_EntryContentChange st")
      (simp_all add: x Cons.IH first_some_snoc_else del: first_some_None_iff cong: option.case_cong)
qed simp

lemma completedBlockTexts_get:
  assumes "gm_ok states" and "frozen_unique states"
  shows "gm_get (completedBlockTexts states) b = Some t \<longleftrightarrow>
    (\<exists>i c. frozen states i = Some c \<and> ec_BlockID c = b \<and> ec_CompletedText c = t)"
proof -
  let ?f = "\<lambda>(i :: string, st). text_for b (ce_EntryContentChange st)"
  have mem: "(i, st) \<in> set states \<longleftrightarrow> gm_get states i = Some st" for i st
    using assms(1) by (metis gm_get_iff_in)
  have fr: "?f (i, st) = Some u \<longleftrightarrow> (\<exists>c. frozen states i = Some c \<and> ec_BlockID c = b \<and> ec_CompletedText c = u)"
    if "(i, st) \<in> set states" for i st u
    using that by (auto simp: mem frozen_def text_for_def split: option.splits if_splits)
  have "first_some ?f (rev states) = Some t \<longleftrightarrow>
      (\<exists>i c. frozen states i = Some c \<and> ec_BlockID c = b \<and> ec_CompletedText c = t)" (is "?l \<longleftrightarrow> ?r")
  proof
    assume ?l
    from first_some_SomeD [OF this] fr show ?r by auto
  next
    assume ?r
    then obtain i c where c: "frozen states i = Some c" "ec_BlockID c = b" "ec_CompletedText c = t" by blast
    then obtain st where st: "gm_get states i = Some st" by (cases "gm_get states i") (auto simp: frozen_def)
    show ?l
    proof (rule first_some_unique [of "(i, st)"])
      show "(i, st) \<in> set (rev states)" using st by (simp add: mem)
      show "?f (i, st) = Some t" using fr [of i st t] st c by (simp add: mem)
      fix z w assume z: "z \<in> set (rev states)" "?f z = Some w"
      then obtain d where "frozen states (fst z) = Some d" "ec_BlockID d = b" "ec_CompletedText d = w"
        using fr [of "fst z" "snd z" w] by auto
      moreover from this c assms(2) have "fst z = i" by (auto simp: frozen_unique_def)
      ultimately show "w = t" using c by simp
    qed
  qed
  then show ?thesis using completed_foldl [of "[]" states b]
    by (simp add: completedBlockTexts_def del: first_some_None_iff split: option.splits)
qed

lemma freezeOwner_unique:
  assumes "fold_ok (freezeOwner p states) cs owners = Inr owners'" and "distinct cs"
  shows "(\<forall>i\<in>set cs. \<forall>c. frozen states i = Some c \<longrightarrow> \<not> gm_has owners (ec_BlockID c)) \<and>
    (\<forall>i\<in>set cs. \<forall>j\<in>set cs. \<forall>c d. frozen states i = Some c \<and> frozen states j = Some d \<and>
       ec_BlockID c = ec_BlockID d \<longrightarrow> i = j)"
  using assms
proof (induction cs arbitrary: owners)
  case (Cons c cs)
  then obtain o1 where o1: "freezeOwner p states c owners = Inr o1" "fold_ok (freezeOwner p states) cs o1 = Inr owners'"
    by (auto simp: ok_bind_Inr)
  have d: "distinct cs" "c \<notin> set cs" using Cons.prems by simp_all
  show ?case
  proof (cases "frozen states c")
    case None
    with o1 have "o1 = owners" by (simp add: freezeOwner_def frozen_def)
    with Cons.IH [OF o1(2) d(1)] None show ?thesis by auto
  next
    case (Some x)
    with o1 have x: "\<not> gm_has owners (ec_BlockID x)" "o1 = gm_put (ec_BlockID x) c owners"
      by (auto simp: freezeOwner_def frozen_def split: if_splits)
    with Cons.IH [OF o1(2) d(1)] Some show ?thesis by auto
  qed
qed simp

lemma validateEntryContentChange_bound:
  "validateEntryContentChange p ch = None \<Longrightarrow> length (ec_CompletedText ch) \<le> maxBodyBytes"
  by (simp add: validateEntryContentChange_def split: option.splits if_splits)

lemma freezeText_step:
  assumes "freezeText p blocks authored states c texts = Inr t1"
  shows "case (gm_get authored c, frozen states c) of
      (None, None) \<Rightarrow> t1 = texts
    | (Some ref, Some ch) \<Rightarrow> ec_BlockID ch = ec_BlockID (cf_Change ref) \<and> gm_has blocks (ec_BlockID ch) \<and>
        length (ec_CompletedText ch) \<le> maxBodyBytes \<and> t1 = gm_put (ec_BlockID ch) (ec_CompletedText ch) texts
    | _ \<Rightarrow> False"
  using assms unfolding freezeText_def frozen_def [symmetric] Let_def
  by (simp split: option.splits if_splits) (use validateEntryContentChange_bound in blast)

lemma freezeText_texts:
  assumes "fold_ok (freezeText p blocks authored states) cs texts = Inr texts'" and "c \<in> set cs"
  shows "(frozen states c = None \<longleftrightarrow> gm_get authored c = None) \<and>
    (\<forall>ch ref. frozen states c = Some ch \<and> gm_get authored c = Some ref \<longrightarrow>
       ec_BlockID ch = ec_BlockID (cf_Change ref) \<and> gm_has blocks (ec_BlockID ch) \<and>
       length (ec_CompletedText ch) \<le> maxBodyBytes)"
  using assms
proof (induction cs arbitrary: texts)
  case (Cons d cs)
  then obtain t1 where t1: "freezeText p blocks authored states d texts = Inr t1"
    "fold_ok (freezeText p blocks authored states) cs t1 = Inr texts'" by (auto simp: ok_bind_Inr)
  show ?case
  proof (cases "c = d")
    case True
    from freezeText_step [OF t1(1)] show ?thesis unfolding True
      by (cases "gm_get authored d"; cases "frozen states d") simp_all
  next
    case False
    with Cons.prems(2) have "c \<in> set cs" by simp
    from Cons.IH [OF t1(2) this] show ?thesis .
  qed
qed simp

lemma freezeText_get:
  assumes "fold_ok (freezeText p blocks authored states) cs texts = Inr texts'"
  shows "gm_get texts' b =
    (case first_some (\<lambda>c. text_for b (frozen states c)) (rev cs) of Some t \<Rightarrow> Some t | None \<Rightarrow> gm_get texts b)"
  using assms
proof (induction cs arbitrary: texts)
  case (Cons d cs)
  then obtain t1 where t1: "freezeText p blocks authored states d texts = Inr t1"
    "fold_ok (freezeText p blocks authored states) cs t1 = Inr texts'" by (auto simp: ok_bind_Inr)
  have "gm_get t1 b = (case text_for b (frozen states d) of Some t \<Rightarrow> Some t | None \<Rightarrow> gm_get texts b)"
    using freezeText_step [OF t1(1)] by (auto split: option.splits)
  with Cons.IH [OF t1(2)] show ?case by (simp only: rev.simps first_some_snoc_else)
qed simp

lemma authorChange_fold:
  assumes "fold_ok (authorChange blocks) refs st = Inr st'"
  shows "(\<forall>r\<in>set refs. gm_has blocks (ec_BlockID (cf_Change r)) \<and> \<not> gm_has (au_Owners st) (ec_BlockID (cf_Change r))) \<and>
    distinct (map (\<lambda>r. ec_BlockID (cf_Change r)) refs) \<and>
    (\<forall>c. gm_get (au_ByCommand st') c =
       (case find (\<lambda>r. cf_CommandID r = c) (rev refs) of Some r \<Rightarrow> Some r | None \<Rightarrow> gm_get (au_ByCommand st) c))"
  using assms
proof (induction refs arbitrary: st)
  case (Cons r refs)
  then obtain st1 where st1: "authorChange blocks r st = Inr st1" "fold_ok (authorChange blocks) refs st1 = Inr st'"
    by (auto simp: ok_bind_Inr)
  from st1(1) have s: "gm_has blocks (ec_BlockID (cf_Change r))" "\<not> gm_has (au_Owners st) (ec_BlockID (cf_Change r))"
    "au_Owners st1 = gm_put (ec_BlockID (cf_Change r)) r (au_Owners st)"
    "au_ByCommand st1 = gm_put (cf_CommandID r) r (au_ByCommand st)"
    by (auto simp: authorChange_def Let_def split: if_splits)
  from Cons.IH [OF st1(2)] s show ?case
    by (auto simp: find_append split: option.splits)
qed simp

text \<open>What an accepted terminal guarantees about its entry blocks and results.\<close>

definition content_valid :: "ContentNode \<Rightarrow> CommandStates \<Rightarrow> bool" where
  "content_valid root states =
     (distinct (map eb_ID (tree_blocks (tree_nodes root))) \<and>
      distinct (map (\<lambda>(c, ch). ec_BlockID ch) (tree_changes (tree_nodes root))) \<and>
      (\<forall>(c, ch)\<in>set (tree_changes (tree_nodes root)). ec_BlockID ch \<in> eb_ID ` set (tree_blocks (tree_nodes root))) \<and>
      frozen_unique states \<and>
      (\<forall>c ch. frozen states c = Some ch \<longrightarrow>
         (\<exists>ch'. (c, ch') \<in> set (tree_changes (tree_nodes root)) \<and> ec_BlockID ch' = ec_BlockID ch)) \<and>
      (\<forall>n\<in>set (tree_nodes root). length (blockTexts (completedBlockTexts states) (node_blocks n)) \<le> maxBodyBytes))"

lemma frozen_None: "c \<notin> set (gm_keys states) \<Longrightarrow> frozen states c = None"
  by (simp add: set_gm_keys frozen_def gm_has_def)

lemma blockTexts_cong: "(\<And>k. gm_get r k = gm_get r' k) \<Longrightarrow> blockTexts r bs = blockTexts r' bs"
  by (simp add: blockTexts_def)

lemma entry_content_valid:
  assumes v: "validateTerminalEntryContent p root states = None" and ok: "gm_ok states"
  shows "content_valid root states"
proof -
  let ?ns = "tree_nodes root" and ?e0 = "\<lparr>ev_Blocks = [], ev_Entries = [], ev_Changes = []\<rparr>"
  let ?a0 = "\<lparr>au_Owners = [], au_ByCommand = [], au_Texts = []\<rparr>"
  let ?cs = "sort (gm_keys states)"
  from v obtain w a texts own where w: "collect (p @ [Field ''root'']) root ?e0 = Inr w"
    and a: "fold_ok (authorChange (ev_Blocks w)) (ev_Changes w) ?a0 = Inr a"
    and own: "fold_ok (freezeOwner p states) ?cs [] = Inr own"
    and texts: "fold_ok (freezeText p (ev_Blocks w) (au_ByCommand a) states) ?cs [] = Inr texts"
    and last: "validateComposedEntryText (ev_Entries w) texts ''frozen completed'' = None"
    unfolding validateTerminalEntryContent_def Let_def by (auto split: sum.splits option.splits)
  have col: "collected ?ns ?e0 w" by (rule collect_collected [OF w])
  then have blocks: "distinct (map eb_ID (tree_blocks ?ns))"
      "\<And>k. gm_has (ev_Blocks w) k \<longleftrightarrow> k \<in> eb_ID ` set (tree_blocks ?ns)"
      "map er_Blocks (ev_Entries w) = filter (\<lambda>bs. bs \<noteq> []) (map node_blocks ?ns)"
      "changes_of w = tree_changes ?ns"
    by (simp_all add: collected_def changes_of_def)
  note au = authorChange_fold [OF a]
  have ch: "(c, ch) \<in> set (tree_changes ?ns) \<longleftrightarrow> (\<exists>r\<in>set (ev_Changes w). cf_CommandID r = c \<and> cf_Change r = ch)" for c ch
    by (auto simp: blocks(4) [symmetric] changes_of_def)
  have dch: "distinct (map (\<lambda>(c, ch). ec_BlockID ch) (tree_changes ?ns))"
    using au by (simp add: blocks(4) [symmetric] changes_of_def comp_def)
  have keys: "distinct ?cs" using ok by (simp add: gm_ok_def)
  have mem: "frozen states i = Some c \<Longrightarrow> i \<in> set ?cs" for i c
    using frozen_None [of i states] by force
  have uniq: "frozen_unique states"
    unfolding frozen_unique_def using freezeOwner_unique [OF own keys] mem by blast
  have matched: "\<exists>ch'. (c, ch') \<in> set (tree_changes ?ns) \<and> ec_BlockID ch' = ec_BlockID ch"
    if "frozen states c = Some ch" for c ch
  proof -
    note f = freezeText_texts [OF texts mem [OF that]]
    from f that have "gm_get (au_ByCommand a) c \<noteq> None" by simp
    then obtain ref where r: "gm_get (au_ByCommand a) c = Some ref" by blast
    with f that have ref: "gm_get (au_ByCommand a) c = Some ref" "ec_BlockID ch = ec_BlockID (cf_Change ref)"
      by blast+
    moreover have "gm_get (au_ByCommand a) c = find (\<lambda>r. cf_CommandID r = c) (rev (ev_Changes w))"
      using au by (simp split: option.splits)
    ultimately have "find (\<lambda>r. cf_CommandID r = c) (rev (ev_Changes w)) = Some ref" by simp
    then have "ref \<in> set (ev_Changes w)" "cf_CommandID ref = c" by (auto dest: find_SomeD)
    with ref ch show ?thesis by (intro exI [of _ "cf_Change ref"]) auto
  qed
  have get: "gm_get texts b = gm_get (completedBlockTexts states) b" for b
  proof -
    have "gm_get texts b = first_some (\<lambda>c. text_for b (frozen states c)) (rev ?cs)"
      using freezeText_get [OF texts, of b] by (simp split: option.splits del: first_some_None_iff)
    moreover have "first_some (\<lambda>c. text_for b (frozen states c)) (rev ?cs) = Some t \<longleftrightarrow>
        gm_get (completedBlockTexts states) b = Some t" for t
    proof
      assume "first_some (\<lambda>c. text_for b (frozen states c)) (rev ?cs) = Some t"
      from first_some_SomeD [OF this] show "gm_get (completedBlockTexts states) b = Some t"
        unfolding completedBlockTexts_get [OF ok uniq] text_for_def by (auto split: option.splits if_splits)
    next
      assume "gm_get (completedBlockTexts states) b = Some t"
      then obtain i c where c: "frozen states i = Some c" "ec_BlockID c = b" "ec_CompletedText c = t"
        unfolding completedBlockTexts_get [OF ok uniq] by blast
      show "first_some (\<lambda>c. text_for b (frozen states c)) (rev ?cs) = Some t"
      proof (rule first_some_unique [of i])
        fix z u assume "text_for b (frozen states z) = Some u"
        then obtain d where d: "frozen states z = Some d" "ec_BlockID d = b" "ec_CompletedText d = u"
          by (auto simp: text_for_def split: option.splits if_splits)
        with c uniq have "z = i" by (auto simp: frozen_unique_def)
        with c d show "u = t" by simp
      qed (use c mem in simp_all)
    qed
    ultimately show ?thesis by (metis not_None_eq)
  qed
  have bound: "length (blockTexts (completedBlockTexts states) (node_blocks n)) \<le> maxBodyBytes" if "n \<in> set ?ns" for n
    using composed_entries [OF last blocks(3) that] blockTexts_cong [OF get] by simp
  have target: "ec_BlockID ch' \<in> eb_ID ` set (tree_blocks ?ns)" if "(c, ch') \<in> set (tree_changes ?ns)" for c ch'
    using that au unfolding ch blocks(2) by blast
  show ?thesis unfolding content_valid_def
  proof (intro conjI)
    show "\<forall>(c, ch)\<in>set (tree_changes ?ns). ec_BlockID ch \<in> eb_ID ` set (tree_blocks ?ns)" using target by blast
    show "\<forall>c ch. frozen states c = Some ch \<longrightarrow>
        (\<exists>ch'. (c, ch') \<in> set (tree_changes ?ns) \<and> ec_BlockID ch' = ec_BlockID ch)" using matched by blast
    show "\<forall>n\<in>set ?ns. length (blockTexts (completedBlockTexts states) (node_blocks n)) \<le> maxBodyBytes"
      using bound by blast
  qed (rule blocks(1) dch uniq)+
qed

end
