(* ===== verification/SessionInv.thy ===== *)
theory SessionInv
  imports ValidateInv
begin

text \<open>
  What an accepted session document guarantees as a whole: sound terminals, transitions
  between existing terminals, a partition of the terminals into groups; and that the
  singleton groups added to a legacy document complete it to an accepted one.
\<close>

section \<open>Accepted terminals\<close>

definition state_ref_ok :: "ContentNode \<Rightarrow> string \<times> CommandExecutionState \<Rightarrow> bool" where
  "state_ref_ok root cs =
     ((\<exists>n\<in>set (tree_nodes root). cn_ID n = fst cs \<and> cn_Type n = NodeCommand \<and> cn_StateChange n \<noteq> None) \<and>
      required_ok (ce_CompletedName (snd cs)) maxNameBytes \<and> required_ok (ce_ResultText (snd cs)) maxBodyBytes)"

definition terminal_valid :: "Terminal \<Rightarrow> bool" where
  "terminal_valid t =
     (required_ok (tm_ID t) maxNameBytes \<and> required_ok (tm_Name t) maxNameBytes \<and>
      0 \<le> tm_HackLevel t \<and> tm_HackLevel t \<le> 5 \<and>
      cn_ID (tm_Root t) = ''root'' \<and> cn_Type (tm_Root t) = NodeFolder \<and> tree_valid (tm_Root t) \<and>
      list_all (state_ref_ok (tm_Root t)) (tm_CommandStates t) \<and>
      (gm_ok (tm_CommandStates t) \<longrightarrow> content_valid (tm_Root t) (tm_CommandStates t)))"

definition terminal_transitions :: "Terminal \<Rightarrow> (string \<times> string) list" where
  "terminal_transitions t = map (\<lambda>(c, target). (tm_ID t, target)) (tree_transitions (tree_nodes (tm_Root t)))"

definition routes_of :: "SessionIndex \<Rightarrow> (string \<times> string) list" where
  "routes_of si = map (\<lambda>r. (tf_Source r, tf_Target r)) (si_Refs si)"

lemma validateCommandState_ok:
  assumes "validateCommandState p nodes cs = None"
    and "\<And>k. gm_get nodes k = find (\<lambda>m. cn_ID m = k) (tree_nodes root)"
  shows "state_ref_ok root cs"
  using assms(1)
  by (auto simp: validateCommandState_def assms(2) state_ref_ok_def Let_def
      split: prod.splits option.splits if_splits dest!: find_SomeD)

lemma validateTerminal_ok:
  assumes "validateTerminal pf (i, t) si = Inr si'"
  shows "terminal_valid t" and "\<not> gm_has (si_TerminalIDs si) (tm_ID t)"
    and "si_TerminalIDs si' = gm_put (tm_ID t) () (si_TerminalIDs si)"
    and "routes_of si' = routes_of si @ terminal_transitions t"
proof -
  let ?p = "[Field ''terminals'', Index i]"
  from assms obtain nodes refs where head: "required_ok (tm_ID t) maxNameBytes" "required_ok (tm_Name t) maxNameBytes"
      "0 \<le> tm_HackLevel t" "tm_HackLevel t \<le> 5" "cn_ID (tm_Root t) = ''root''" "cn_Type (tm_Root t) = NodeFolder"
    and fresh: "\<not> gm_has (si_TerminalIDs si) (tm_ID t)"
    and tree: "validateTree pf (?p @ [Field ''root'']) (tm_Root t) = Inr (nodes, refs)"
    and states: "first_err (map (validateCommandState ?p nodes) (tm_CommandStates t)) = None"
    and content: "validateTerminalEntryContent ?p (tm_Root t) (tm_CommandStates t) = None"
    and si': "si' = \<lparr>si_TerminalIDs = gm_put (tm_ID t) () (si_TerminalIDs si),
        si_Refs = si_Refs si @ map (\<lambda>r. r\<lparr>tf_Source := tm_ID t\<rparr>) refs\<rparr>"
    by (auto simp: validateTerminal_def Let_def ok_bind_Inr split: option.splits if_splits)
  note v = validateTree_ok [OF tree]
  from states have "list_all (state_ref_ok (tm_Root t)) (tm_CommandStates t)"
    unfolding first_err_map list_all_iff using validateCommandState_ok [OF _ v(2)] by blast
  with head v(1) entry_content_valid [OF content] show "terminal_valid t" by (simp add: terminal_valid_def)
  from fresh show "\<not> gm_has (si_TerminalIDs si) (tm_ID t)" .
  from si' show "si_TerminalIDs si' = gm_put (tm_ID t) () (si_TerminalIDs si)" by simp
  from si' v(3) show "routes_of si' = routes_of si @ terminal_transitions t"
    by (simp add: routes_of_def terminal_transitions_def v(3) [symmetric] comp_def)
qed

lemma validateTerminals_ok:
  assumes "fold_ok (validateTerminal pf) (enumerate i ts) si = Inr si'"
  shows "list_all terminal_valid ts \<and> distinct (map tm_ID ts) \<and>
    (\<forall>t\<in>set ts. \<not> gm_has (si_TerminalIDs si) (tm_ID t)) \<and>
    (\<forall>k. gm_has (si_TerminalIDs si') k \<longleftrightarrow> k \<in> tm_ID ` set ts \<or> gm_has (si_TerminalIDs si) k) \<and>
    routes_of si' = routes_of si @ concat (map terminal_transitions ts)"
  using assms
proof (induction ts arbitrary: i si)
  case (Cons t ts)
  then obtain s1 where s1: "validateTerminal pf (i, t) si = Inr s1"
    "fold_ok (validateTerminal pf) (enumerate (Suc i) ts) s1 = Inr si'" by (auto simp: ok_bind_Inr)
  note t = validateTerminal_ok [OF s1(1)] and ih = Cons.IH [OF s1(2)]
  from ih t(3) have "\<forall>u\<in>set ts. tm_ID u \<noteq> tm_ID t \<and> \<not> gm_has (si_TerminalIDs si) (tm_ID u)" by auto
  with t ih show ?case by auto
qed simp

section \<open>Groups\<close>

definition partition_of :: "TerminalGroup list \<Rightarrow> string list \<Rightarrow> bool" where
  "partition_of gs ids =
     (distinct (concat (map tg_TerminalIDs gs)) \<and> set (concat (map tg_TerminalIDs gs)) = set ids \<and>
      distinct (map tg_ID gs) \<and> list_all (\<lambda>g. tg_TerminalIDs g \<noteq> []) gs)"

lemma groupMember_fold:
  assumes "fold_ok (groupMember ids p gid) (enumerate k ts) m = Inr m'"
  shows "distinct ts \<and> (\<forall>t\<in>set ts. \<not> gm_has m t \<and> gm_has ids t) \<and>
    (\<forall>x. gm_has m' x \<longleftrightarrow> x \<in> set ts \<or> gm_has m x)"
  using assms
proof (induction ts arbitrary: k m)
  case (Cons t ts)
  then obtain m1 where m1: "groupMember ids p gid (k, t) m = Inr m1"
    "fold_ok (groupMember ids p gid) (enumerate (Suc k) ts) m1 = Inr m'" by (auto simp: ok_bind_Inr)
  from m1(1) have "\<not> gm_has m t" "gm_has ids t" "m1 = gm_put t gid m"
    by (auto simp: groupMember_def Let_def split: option.splits if_splits)
  with Cons.IH [OF m1(2)] show ?case by auto
qed simp

lemma validateGroup_ok:
  assumes "validateGroup pf ids (i, g) gi = Inr gi'"
  shows "tg_TerminalIDs g \<noteq> []" "\<not> gm_has (gi_IDs gi) (tg_ID g)" "gi_IDs gi' = gm_put (tg_ID g) () (gi_IDs gi)"
    "distinct (tg_TerminalIDs g)" "\<forall>t\<in>set (tg_TerminalIDs g). \<not> gm_has (gi_Members gi) t \<and> gm_has ids t"
    "\<forall>x. gm_has (gi_Members gi') x \<longleftrightarrow> x \<in> set (tg_TerminalIDs g) \<or> gm_has (gi_Members gi) x"
proof -
  from assms obtain m where
    f: "fold_ok (groupMember ids [Field ''terminalGroups'', Index i] (tg_ID g)) (enumerate 0 (tg_TerminalIDs g)) (gi_Members gi) = Inr m"
    and r: "gi' = \<lparr>gi_IDs = gm_put (tg_ID g) () (gi_IDs gi), gi_Names = gm_put (groupName pf (tg_Name g)) () (gi_Names gi), gi_Members = m\<rparr>"
    and h: "tg_TerminalIDs g \<noteq> []" "\<not> gm_has (gi_IDs gi) (tg_ID g)"
    by (auto simp: validateGroup_def Let_def ok_bind_Inr split: option.splits if_splits)
  from groupMember_fold [OF f] r h show "tg_TerminalIDs g \<noteq> []" "\<not> gm_has (gi_IDs gi) (tg_ID g)"
    "gi_IDs gi' = gm_put (tg_ID g) () (gi_IDs gi)"
    "distinct (tg_TerminalIDs g)" "\<forall>t\<in>set (tg_TerminalIDs g). \<not> gm_has (gi_Members gi) t \<and> gm_has ids t"
    "\<forall>x. gm_has (gi_Members gi') x \<longleftrightarrow> x \<in> set (tg_TerminalIDs g) \<or> gm_has (gi_Members gi) x"
    by simp_all
qed

lemma validateGroups_fold:
  assumes "fold_ok (validateGroup pf ids) (enumerate i gs) gi = Inr gi'"
  shows "list_all (\<lambda>g. tg_TerminalIDs g \<noteq> []) gs \<and> distinct (map tg_ID gs) \<and>
    (\<forall>g\<in>set gs. \<not> gm_has (gi_IDs gi) (tg_ID g)) \<and>
    distinct (concat (map tg_TerminalIDs gs)) \<and>
    (\<forall>t\<in>set (concat (map tg_TerminalIDs gs)). \<not> gm_has (gi_Members gi) t \<and> gm_has ids t) \<and>
    (\<forall>x. gm_has (gi_Members gi') x \<longleftrightarrow> x \<in> set (concat (map tg_TerminalIDs gs)) \<or> gm_has (gi_Members gi) x)"
  using assms
proof (induction gs arbitrary: i gi)
  case (Cons g gs)
  then obtain g1 where g1: "validateGroup pf ids (i, g) gi = Inr g1"
    "fold_ok (validateGroup pf ids) (enumerate (Suc i) gs) g1 = Inr gi'" by (auto simp: ok_bind_Inr)
  note v = validateGroup_ok [OF g1(1)] and ih = Cons.IH [OF g1(2)]
  from ih v(6) have apart: "\<forall>t\<in>set (concat (map tg_TerminalIDs gs)). t \<notin> set (tg_TerminalIDs g) \<and> \<not> gm_has (gi_Members gi) t"
    by blast
  from ih v(3) have ids: "\<forall>h\<in>set gs. tg_ID h \<noteq> tg_ID g \<and> \<not> gm_has (gi_IDs gi) (tg_ID h)" by auto
  show ?case
    using v(1,2,4,5,6) ih apart ids by (auto simp: disjoint_iff)
qed simp

lemma validateTerminalGroups_ok:
  assumes "validateTerminalGroups pf s ids = None" and "se_TerminalGroups s \<noteq> []"
    and "\<And>k. gm_has ids k \<longleftrightarrow> k \<in> tm_ID ` set (se_terminal_list s)"
  shows "partition_of (se_TerminalGroups s) (map tm_ID (se_terminal_list s))"
proof -
  from assms(1,2) obtain gi where
    f: "fold_ok (validateGroup pf ids) (enumerate 0 (se_TerminalGroups s)) \<lparr>gi_IDs = [], gi_Names = [], gi_Members = []\<rparr> = Inr gi"
    and e: "first_err (map (\<lambda>(i, terminal). if gm_has (gi_Members gi) (tm_ID terminal) then None
        else Some (ValidationError [Field ''terminals'', Index i, Field ''id''] TerminalMissingFromGroups))
        (enumerate 0 (se_terminal_list s))) = None"
    unfolding validateTerminalGroups_def by (simp split: sum.splits)
  have "gm_has (gi_Members gi) (tm_ID t)" if t: "t \<in> set (se_terminal_list s)" for t
  proof -
    from t obtain i where "i < length (se_terminal_list s)" "t = se_terminal_list s ! i"
      by (auto simp: in_set_conv_nth)
    then have "(i, t) \<in> set (enumerate 0 (se_terminal_list s))"
      by (simp add: in_set_enumerate_eq)
    with e show ?thesis unfolding first_err_map by (fastforce split: if_splits)
  qed
  with validateGroups_fold [OF f] assms(3) show ?thesis by (auto simp: partition_of_def)
qed

section \<open>Accepted sessions\<close>

lemma ValidateSession_ok:
  assumes "ValidateSession pf s = None"
  shows "list_all terminal_valid (se_terminal_list s)" and "distinct (map tm_ID (se_terminal_list s))"
    and "length (se_terminal_list s) \<le> MaxTerminals"
    and "\<forall>(a, b)\<in>set (concat (map terminal_transitions (se_terminal_list s))). b \<noteq> a \<and> b \<in> tm_ID ` set (se_terminal_list s)"
    and "se_TerminalGroups s \<noteq> [] \<Longrightarrow> partition_of (se_TerminalGroups s) (map tm_ID (se_terminal_list s))"
proof -
  from assms obtain si where f: "fold_ok (validateTerminal pf) (enumerate 0 (se_terminal_list s))
        \<lparr>si_TerminalIDs = [], si_Refs = []\<rparr> = Inr si"
    and tr: "first_err (map (validateTransition (si_TerminalIDs si)) (si_Refs si)) = None"
    and g: "validateTerminalGroups pf s (si_TerminalIDs si) = None"
    and len: "length (se_terminal_list s) \<le> MaxTerminals"
    by (auto simp: ValidateSession_def se_terminal_list_def simp del: first_err_None split: option.splits if_splits sum.splits)
  note v = validateTerminals_ok [OF f]
  from v show "list_all terminal_valid (se_terminal_list s)" "distinct (map tm_ID (se_terminal_list s))" by blast+
  from len show "length (se_terminal_list s) \<le> MaxTerminals" .
  from v have ids: "gm_has (si_TerminalIDs si) k \<longleftrightarrow> k \<in> tm_ID ` set (se_terminal_list s)" for k by simp
  have "\<forall>(a, b)\<in>set (routes_of si). b \<noteq> a \<and> gm_has (si_TerminalIDs si) b"
    using tr unfolding first_err_map by (auto simp: routes_of_def validateTransition_def split: if_splits)
  with v ids show "\<forall>(a, b)\<in>set (concat (map terminal_transitions (se_terminal_list s))).
      b \<noteq> a \<and> b \<in> tm_ID ` set (se_terminal_list s)"
    by (simp add: routes_of_def [of "\<lparr>si_TerminalIDs = [], si_Refs = []\<rparr>"])
  show "partition_of (se_TerminalGroups s) (map tm_ID (se_terminal_list s))" if "se_TerminalGroups s \<noteq> []"
    using validateTerminalGroups_ok [OF g that] ids by blast
qed

section \<open>Published trees of accepted terminals\<close>

lemma completed_same:
  assumes "gm_ok states" and "gm_ok states'" and "frozen_unique states" and same: "\<And>k. gm_get states' k = gm_get states k"
  shows "gm_get (completedBlockTexts states') b = gm_get (completedBlockTexts states) b"
proof -
  have fr: "frozen states' = frozen states" by (rule ext) (simp add: frozen_def same)
  with assms(3) have "frozen_unique states'" by (simp add: frozen_unique_def)
  note get = completedBlockTexts_get [OF assms(1,3)] completedBlockTexts_get [OF assms(2) this]
  have "gm_get (completedBlockTexts states') b = Some t \<longleftrightarrow> gm_get (completedBlockTexts states) b = Some t" for t
    by (simp add: get fr)
  then show ?thesis by (metis not_None_eq)
qed

lemma effective_cong:
  assumes "\<And>k. gm_get states' k = gm_get states k" and "\<And>k. gm_get r' k = gm_get r k"
  shows "applyEffectiveContentStates states' r' n = applyEffectiveContentStates states r n"
proof (induction n)
  case (ContentNode i t name kids tx desc blocks sc tt ex)
  then show ?case
    by (cases kids) (auto simp: assms(1) blockTexts_cong [OF assms(2)] split: option.splits list.splits)
qed

lemma effective_nodes:
  "tree_nodes (applyEffectiveContentStates states r n) = map (applyEffectiveContentStates states r) (tree_nodes n)"
proof (induction n rule: tree_nodes.induct)
  case (1 n)
  then show ?case
    by (subst (1 2) tree_nodes.simps) (auto simp: map_concat comp_def intro!: arg_cong [where f = concat])
qed

section \<open>What an accepted session guarantees\<close>

text \<open>A session with one transition, one durable command result and two groups.\<close>

definition demo_command_node :: "string \<Rightarrow> StateChangeConfig option \<Rightarrow> TerminalTransitionConfig option \<Rightarrow> ContentNode" where
  "demo_command_node i sc tt = ContentNode i NodeCommand i None ''Run'' '''' None sc tt []"

definition demo_entry_node :: ContentNode where
  "demo_entry_node = ContentNode ''log'' NodeEntry ''Log'' None '''' ''''
     (Some [\<lparr>eb_ID = ''b1'', eb_InitialText = ''shut''\<rparr>]) None None []"

definition demo_change :: EntryContentChange where
  "demo_change = \<lparr>ec_BlockID = ''b1'', ec_CompletedText = ''open''\<rparr>"

definition demo_gate :: Terminal where
  "demo_gate = \<lparr>tm_ID = ''t1'', tm_Name = ''Gate'', tm_HackLevel = 1, tm_IntroText = '''',
     tm_Root = ContentNode ''root'' NodeFolder ''Root''
       (Some [demo_entry_node,
              demo_command_node ''open'' (Some \<lparr>sc_CompletedName = ''Opened'', sc_ConfirmationText = ''Sure'',
                 sc_EntryContentChange = Some demo_change\<rparr>) None,
              demo_command_node ''go'' None (Some \<lparr>tt_TargetTerminalID = ''t2''\<rparr>)]) '''' '''' None None None [],
     tm_CommandStates = [(''open'', \<lparr>ce_CompletedName = ''Opened'', ce_ResultText = ''ok'',
        ce_EntryContentChange = Some demo_change\<rparr>)],
     tm_Extra = []\<rparr>"

definition demo_vault :: Terminal where
  "demo_vault = \<lparr>tm_ID = ''t2'', tm_Name = ''Vault'', tm_HackLevel = 0, tm_IntroText = '''',
     tm_Root = ContentNode ''root'' NodeFolder ''Root'' (Some []) '''' '''' None None None [],
     tm_CommandStates = [], tm_Extra = []\<rparr>"

definition demo_session :: Session where
  "demo_session = \<lparr>se_Version = 1, se_Name = ''Run'', se_PlayerConfig = '''',
     se_Terminals = Some [demo_gate, demo_vault],
     se_TerminalGroups = [\<lparr>tg_ID = ''g'', tg_Name = ''All'', tg_TerminalIDs = [''t1'', ''t2'']\<rparr>], se_Extra = []\<rparr>"

lemmas demo_session_defs = demo_session_def demo_gate_def demo_vault_def demo_command_node_def demo_entry_node_def demo_change_def

lemmas validate_defs = validateTerminal_def validateExtras_def enterNode_def checkFolder_def checkCommand_def checkEntry_def
  visit.simps collect.simps collectNode_def checkBlock_def validateEntryBlockID_def validateEntryContentChange_def
  validateTree_def validateTerminalEntryContent_def validateCommandState_def validateComposedEntryText_def
  authorChange_def freezeOwner_def freezeText_def validateTransition_def validateTerminalGroups_def validateGroup_def
  groupMember_def first_err_def visible_def byte_val_def cn_kids_def cn_block_list_def gm_get_def gm_has_def gm_put_def gm_keys_def
  maxNameBytes_def maxBodyBytes_def maxIntroBytes_def MaxNodes_def MaxNodeDepth_def MaxTerminals_def MaxTerminalIDBytes_def

lemma demo_session_ok: "ValidateSession demo_platform demo_session = None"
  by (simp add: ValidateSession_def validatePlayerConfigPath_def demo_session_defs validate_defs se_terminal_list_def Let_def)

lemma demo_members: "demo_gate \<in> set (se_terminal_list demo_session)" "gm_ok (tm_CommandStates demo_gate)"
  by (simp_all add: demo_session_def se_terminal_list_def demo_gate_def gm_ok_def gm_keys_def)

text \<open>C26: Every terminal of an accepted session has a tree the live service can run: rooted,
  with unique node ids, at most 100000 nodes and depth 64; its durable command results belong to
  state-changing commands of that tree; and each of its transitions leads to another terminal of
  the same session.\<close>

theorem session_terminals_sound:
  assumes "ValidateSession pf s = None" and "t \<in> set (se_terminal_list s)"
  shows "tree_ok (tm_Root t) \<and> length (tree_nodes (tm_Root t)) \<le> 100000 \<and> tree_height (tm_Root t) \<le> 64 \<and>
    list_all (state_ref_ok (tm_Root t)) (tm_CommandStates t) \<and>
    list_all (\<lambda>(source, target). target \<noteq> tm_ID t \<and> (\<exists>u\<in>set (se_terminal_list s). tm_ID u = target))
      (terminal_transitions t)"
proof -
  note v = ValidateSession_ok [OF assms(1)]
  from v(1) assms(2) have t: "terminal_valid t" by (simp add: list_all_iff)
  then have "tree_valid (tm_Root t)" "tree_ok (tm_Root t)"
    by (simp_all add: terminal_valid_def tree_valid_ok)
  moreover have "target \<noteq> tm_ID t \<and> target \<in> tm_ID ` set (se_terminal_list s)"
    if "(source, target) \<in> set (terminal_transitions t)" for source target
  proof -
    from that have "source = tm_ID t" by (auto simp: terminal_transitions_def)
    with v(4) assms(2) that show ?thesis by fastforce
  qed
  ultimately show ?thesis using t
    by (fastforce simp: terminal_valid_def tree_valid_def MaxNodes_def MaxNodeDepth_def list_all_iff)
qed

lemma session_terminals_sound_witness:
  "tree_ok (tm_Root demo_gate) \<and> terminal_transitions demo_gate = [(''t1'', ''t2'')]"
proof -
  have "terminal_transitions demo_gate = [(''t1'', ''t2'')]" by code_simp
  with session_terminals_sound [OF demo_session_ok demo_members(1)] show ?thesis by simp
qed

lemma blockTexts_node: "cn_Type n = NodeEntry \<Longrightarrow>
    cn_Description (applyEffectiveContentStates states r n) =
      (if node_blocks n = [] then cn_Description n else blockTexts r (node_blocks n))"
  by (cases n) (auto simp: node_blocks_def cn_block_list_def split: option.splits list.splits)

lemma effective_text: "cn_Type n = NodeCommand \<Longrightarrow>
    cn_Text (applyEffectiveContentStates states r n) =
      (case gm_get states (cn_ID n) of Some st \<Rightarrow> ce_ResultText st | None \<Rightarrow> cn_Text n)"
  by (cases n) (simp split: option.splits)

text \<open>C29: The tree published for a terminal of an accepted session does not depend on the order in
  which the durable results are kept, and no published entry or command text exceeds 1 MiB.\<close>

theorem session_published_text:
  assumes "ValidateSession pf s = None" and "t \<in> set (se_terminal_list s)"
    and "gm_ok (tm_CommandStates t)" and "gm_ok states" and "\<And>k. gm_get states k = gm_get (tm_CommandStates t) k"
  shows "effectiveTree (tm_Root t) states = effectiveTree (tm_Root t) (tm_CommandStates t) \<and>
    list_all (\<lambda>n. (cn_Type n = NodeEntry \<longrightarrow> length (cn_Description n) \<le> 1048576) \<and>
        (cn_Type n = NodeCommand \<longrightarrow> length (cn_Text n) \<le> 1048576))
      (tree_nodes (effectiveTree (tm_Root t) states))"
proof
  from ValidateSession_ok(1) [OF assms(1)] assms(2) have "terminal_valid t" by (simp add: list_all_iff)
  with assms(3) have c: "content_valid (tm_Root t) (tm_CommandStates t)" and n: "list_all node_ok (tree_nodes (tm_Root t))"
    and st: "list_all (state_ref_ok (tm_Root t)) (tm_CommandStates t)"
    by (simp_all add: terminal_valid_def tree_valid_def)
  from c have u: "frozen_unique (tm_CommandStates t)" by (simp add: content_valid_def)
  show same: "effectiveTree (tm_Root t) states = effectiveTree (tm_Root t) (tm_CommandStates t)"
    unfolding effectiveTree_def by (intro effective_cong assms(5) completed_same assms(3,4) u)
  have entry: "length (cn_Description (applyEffectiveContentStates (tm_CommandStates t) (completedBlockTexts (tm_CommandStates t)) m))
      \<le> maxBodyBytes" if "m \<in> set (tree_nodes (tm_Root t))" "cn_Type m = NodeEntry" for m
    using that c n by (auto simp: blockTexts_node content_valid_def list_all_iff node_ok_def)
  have command: "length (cn_Text (applyEffectiveContentStates (tm_CommandStates t) (completedBlockTexts (tm_CommandStates t)) m))
      \<le> maxBodyBytes" if "m \<in> set (tree_nodes (tm_Root t))" "cn_Type m = NodeCommand" for m
    using that n st by (auto simp: effective_text list_all_iff node_ok_def state_ref_ok_def required_ok_def
        dest!: gm_get_in split: option.split)
  from entry command show "list_all (\<lambda>n. (cn_Type n = NodeEntry \<longrightarrow> length (cn_Description n) \<le> 1048576) \<and>
        (cn_Type n = NodeCommand \<longrightarrow> length (cn_Text n) \<le> 1048576)) (tree_nodes (effectiveTree (tm_Root t) states))"
    unfolding same by (auto simp: effectiveTree_def effective_nodes list_all_iff maxBodyBytes_def)
qed

lemma session_published_text_witness:
  "list_all (\<lambda>n. (cn_Type n = NodeEntry \<longrightarrow> length (cn_Description n) \<le> 1048576) \<and>
        (cn_Type n = NodeCommand \<longrightarrow> length (cn_Text n) \<le> 1048576))
      (tree_nodes (effectiveTree (tm_Root demo_gate) (tm_CommandStates demo_gate)))"
  using session_published_text [OF demo_session_ok demo_members demo_members(2) refl] by blast

end
