(* ===== verification/GroupsInv.thy ===== *)
theory GroupsInv
  imports SessionInv
begin

text \<open>
  Terminal groups: an accepted group set partitions the terminals, the singleton groups that
  complete a legacy document always exist and are accepted, and an accepted replacement keeps
  every authored transition within one group and reports exactly the terminals it affects.
\<close>

section \<open>Trimmed and numbered names\<close>

lemma trim_left_done: "length s \<le> n \<Longrightarrow> leading_space (trim_left_fuel n s) = None"
proof (induction n arbitrary: s)
  case 0
  with nonempty_spaces show ?case by (auto simp: leading_space_def find_None_iff)
next
  case (Suc n)
  show ?case
  proof (cases "leading_space s")
    case (Some k)
    then obtain e where "e \<in> set space_encodings" "k = length e"
      by (auto simp: leading_space_def dest!: find_SomeD)
    with nonempty_spaces have "0 < k" by simp
    with Some Suc show ?thesis by simp
  qed simp
qed

lemma trim_right_done: "length s \<le> n \<Longrightarrow> trailing_space (trim_right_fuel n s) = None"
proof (induction n arbitrary: s)
  case 0
  then have "trailing_space s = None" using nonempty_spaces
    by (auto simp: trailing_space_def find_None_iff)
  then show ?case by simp
next
  case (Suc n)
  show ?case
  proof (cases "trailing_space s")
    case (Some k)
    then obtain e where "e \<in> set space_encodings" "k = length e"
      by (auto simp: trailing_space_def dest!: find_SomeD)
    with nonempty_spaces have "0 < k" by simp
    with Some Suc show ?thesis by simp
  qed simp
qed

lemma trim_right_prefix: "\<exists>k. trim_right_fuel n s = take k s"
proof (induction n arbitrary: s)
  case (Suc n)
  show ?case
  proof (cases "trailing_space s")
    case (Some k)
    with Suc [of "take (length s - k) s"] show ?thesis by (auto simp: take_take)
  next
    case None
    then show ?thesis by (auto intro: exI [of _ "length s"])
  qed
next
  case 0
  then show ?case by (simp, metis order_refl take_all)
qed

lemma trim_space_twice: "trim_space (trim_space s) = trim_space s"
proof -
  define t where "t = trim_left_fuel (length s) s"
  have t: "leading_space t = None" by (simp add: t_def trim_left_done)
  obtain k where k: "trim_right_fuel (length t) t = take k t" using trim_right_prefix by blast
  have r: "trim_space s = take k t" by (simp add: trim_space_def t_def [symmetric] k)
  have "leading_space (take k t) = None"
  proof (rule ccontr)
    assume "leading_space (take k t) \<noteq> None"
    then obtain e where e: "e \<in> set space_encodings" "take (length e) (take k t) = e"
      by (auto simp: leading_space_def dest!: find_SomeD)
    then have "take (min (length e) k) t = e" by (simp add: take_take)
    then have "take (length e) t = e" by (metis append_take_drop_id append_eq_conv_conj)
    with e(1) t show False by (auto simp: leading_space_def find_None_iff)
  qed
  moreover have "trailing_space (take k t) = None" using trim_right_done [of t "length t"] k by simp
  ultimately show ?thesis unfolding r
    by (simp only: trim_space_def [of "take k t"] Let_def trim_left_stuck trim_right_stuck)
qed

lemma length_trim_space: "length (trim_space s) \<le> length s"
proof -
  have left: "length (trim_left_fuel n u) \<le> length u" for n u
  proof (induction n arbitrary: u)
    case (Suc n)
    have "length (trim_left_fuel n (drop k u)) \<le> length u" for k
      using Suc [of "drop k u"] by simp
    then show ?case by (simp split: option.split)
  qed simp
  obtain k where "trim_space s = take k (trim_left_fuel (length s) s)"
    using trim_right_prefix by (metis trim_space_def)
  with left [of "length s" s] show ?thesis by simp
qed

lemma length_dec: "n < 10 ^ Suc k \<Longrightarrow> length (dec n) \<le> Suc k"
proof (induction k arbitrary: n)
  case 0
  then show ?case by (simp add: dec_def nat_digits.simps [of 10 n])
next
  case (Suc k)
  then have "n div 10 < 10 ^ Suc k" by (simp add: less_mult_imp_div_less mult.commute)
  with Suc.IH have "length (dec (n div 10)) \<le> Suc k" by blast
  then show ?case by (simp add: dec_def nat_digits.simps [of 10 n])
qed

section \<open>Singleton identifiers and names\<close>

lemma suffixedID_inj: "inj_on (suffixedID base) {1..<n}"
  by (rule inj_onI) (auto simp: suffixedID_def dest: dec_inj split: if_splits)

lemma keys_card: "finite (set (gm_keys m)) \<and> card (set (gm_keys m)) \<le> length m"
  by (metis List.finite_set card_length gm_keys_def length_map)

lemma suffixedID_required:
  "n < 1003 \<Longrightarrow> required_ok (suffixedID (singletonBase t) n) maxNameBytes"
proof -
  assume "n < 1003"
  then have "length (dec n) \<le> 4" using length_dec [of n 3] by simp
  moreover have "length (hex (take 12 (sha256 t))) = 24" by (simp add: hex_def length_concat hex_byte_def comp_def sum_list_triv)
  ultimately have "length (suffixedID (singletonBase t) n) \<le> maxNameBytes"
    by (simp add: suffixedID_def singletonBase_def maxNameBytes_def)
  moreover have "visible (CHR ''s'')" by (simp add: visible_def byte_val_def)
  ultimately show ?thesis
    by (simp add: required_ok_def suffixedID_def singletonBase_def)
qed

lemma uniqueSingletonGroupID_ok:
  assumes "length used \<le> 1000"
  shows "\<exists>i. uniqueSingletonGroupID t used = Some (i, gm_put i () used) \<and> \<not> gm_has used i \<and> required_ok i maxNameBytes"
proof -
  let ?f = "suffixedID (singletonBase t)"
  have "\<exists>x. first_free (Suc (length used)) 1 ?f (gm_has used) = Some x"
    using keys_card [of used] suffixedID_inj
    by (intro first_free_found [where U = "set (gm_keys used)" and g = ?f]) (auto simp: set_gm_keys less_Suc_eq_le)
  then obtain x where x: "first_free (Suc (length used)) 1 ?f (gm_has used) = Some x" by blast
  from first_free_Some [OF x] obtain k where "k < 1 + Suc (length used)" "x = ?f k" "\<not> gm_has used x" by blast
  with x suffixedID_required [of k t] assms show ?thesis by (auto simp: uniqueSingletonGroupID_def)
qed

text \<open>Lower-casing maps each rune by itself and leaves the ASCII signs and digits alone.\<close>

definition lower_local :: "Platform \<Rightarrow> bool" where
  "lower_local pf \<longleftrightarrow>
     (\<forall>a b. list_all (\<lambda>c. byte_val c < 65) b \<longrightarrow> pf_ToLower pf (a @ b) = pf_ToLower pf a @ b)"

lemma suffix_group_name:
  assumes "lower_local pf" and "1 < n"
  shows "\<exists>x. groupName pf (suffixedName base n) = x @ CHR ''('' # dec n @ '')''"
proof -
  have vis: "visible (CHR ''('')" "visible (CHR '')'')" by (simp_all add: visible_def byte_val_def)
  obtain a where a: "suffixedName base n = a @ CHR ''('' # dec n @ [CHR '')'']"
    using assms(2) that [of "truncateUTF8Bytes base (maxNameBytes - length ('' ('' @ dec n @ '')'')) @ '' ''"]
    by (simp add: suffixedName_def Let_def)
  from trim_space_suffix [OF vis, of a "dec n"] obtain a' where
    "trim_space (suffixedName base n) = a' @ CHR ''('' # dec n @ [CHR '')'']" unfolding a by blast
  moreover have "list_all (\<lambda>c. byte_val c < 65) (CHR ''('' # dec n @ [CHR '')''])"
    using dec_bytes [of _ n] by (fastforce simp: list_all_iff byte_val_def)
  ultimately show ?thesis using assms(1) by (auto simp: groupName_def lower_local_def)
qed

lemma suffix_unique:
  assumes "x @ CHR ''('' # dec m @ '')'' = y @ CHR ''('' # dec n @ '')''"
  shows "m = n"
proof -
  from assms have "x @ CHR ''('' # dec m = y @ CHR ''('' # dec n" by simp
  from arg_cong [OF this, of rev] have "rev (dec m) @ CHR ''('' # rev x = rev (dec n) @ CHR ''('' # rev y"
    by (simp del: rev_is_rev_conv)
  moreover have "CHR ''('' \<notin> set (rev (dec k))" for k using dec_bytes [of "CHR ''(''" k] by (auto simp: byte_val_def)
  ultimately have "rev (dec m) = rev (dec n)" by (meson append_sep_inj)
  then show ?thesis by (simp add: dec_inj)
qed

lemma truncateUTF8Bytes_length: "length (truncateUTF8Bytes v n) \<le> n"
  using length_trim_space [of "truncate_fuel n (take n v)"] truncate_fuel_length [of n "take n v"]
  by (auto simp: truncateUTF8Bytes_def)

lemma suffixedName_required:
  assumes "n < 1003" and "trim_space name \<noteq> ''''" and "length name \<le> maxNameBytes"
  shows "required_ok (suffixedName (singletonName name) n) maxNameBytes"
proof (cases "1 < n")
  case True
  have "length (dec n) \<le> 4" using length_dec [of n 3] assms(1) by simp
  with True truncateUTF8Bytes_length [of "singletonName name" "maxNameBytes - length ('' ('' @ dec n @ '')'')"]
  have "length (suffixedName (singletonName name) n) \<le> maxNameBytes"
    by (simp add: suffixedName_def Let_def maxNameBytes_def)
  moreover have "CHR ''('' \<in> set (suffixedName (singletonName name) n)" "visible (CHR ''('')"
    using True by (simp_all add: suffixedName_def Let_def visible_def byte_val_def)
  ultimately show ?thesis using trim_space_nonblank by (auto simp: required_ok_def)
next
  case False
  with assms(2,3) length_trim_space [of name] show ?thesis
    by (simp add: suffixedName_def singletonName_def Let_def required_ok_def trim_space_twice)
qed

lemma uniqueSingletonGroupName_ok:
  assumes "length used \<le> 1000" and "lower_local pf" and "required_ok name maxNameBytes"
  shows "\<exists>n. uniqueSingletonGroupName pf name used = Some (n, gm_put (groupName pf n) () used) \<and>
    \<not> gm_has used (groupName pf n) \<and> required_ok n maxNameBytes"
proof -
  let ?f = "suffixedName (singletonName name)" and ?u = "\<lambda>c. gm_has used (groupName pf c)"
  let ?g = "\<lambda>n. groupName pf (?f n)"
  have inj: "inj_on ?g {2..<Suc (Suc (Suc (length used)))}"
  proof (rule inj_onI)
    fix m n assume mn: "m \<in> {2..<Suc (Suc (Suc (length used)))}" "n \<in> {2..<Suc (Suc (Suc (length used)))}" "?g m = ?g n"
    with suffix_group_name [OF assms(2), of m] suffix_group_name [OF assms(2), of n] suffix_unique
    show "m = n" by (metis atLeastLessThan_iff less_le_trans one_less_numeral_iff semiring_norm(76))
  qed
  have "first_free (Suc (Suc (length used))) 1 ?f ?u \<noteq> None"
  proof
    assume none: "first_free (Suc (Suc (length used))) 1 ?f ?u = None"
    have "?g ` {2..<Suc (Suc (Suc (length used)))} \<subseteq> set (gm_keys used)"
      using first_free_None [OF none] by (auto simp: set_gm_keys)
    then have "card (?g ` {2..<Suc (Suc (Suc (length used)))}) \<le> length used"
      using keys_card [of used] by (meson card_mono le_trans)
    with inj show False by (simp add: card_image)
  qed
  then obtain x where x: "first_free (Suc (Suc (length used))) 1 ?f ?u = Some x" by blast
  from first_free_Some [OF x] obtain k where "k < 1 + Suc (Suc (length used))" "x = ?f k" "\<not> ?u x" by blast
  with x suffixedName_required [of k name] assms(1,3) show ?thesis
    by (auto simp: uniqueSingletonGroupName_def required_ok_def)
qed

section \<open>Completing a legacy document\<close>

lemma validateGroup_singleton:
  assumes "required_ok i maxNameBytes" "required_ok n maxNameBytes" "required_ok t maxNameBytes"
    and "\<not> gm_has (gi_IDs gi) i" "\<not> gm_has (gi_Names gi) (groupName pf n)" "gm_has ids t" "\<not> gm_has (gi_Members gi) t"
  shows "validateGroup pf ids (k, \<lparr>tg_ID = i, tg_Name = n, tg_TerminalIDs = [t]\<rparr>) gi =
    Inr \<lparr>gi_IDs = gm_put i () (gi_IDs gi), gi_Names = gm_put (groupName pf n) () (gi_Names gi),
         gi_Members = gm_put t i (gi_Members gi)\<rparr>"
  using assms by (simp add: validateGroup_def groupMember_def Let_def iffD2 [OF validateRequiredString_None])

lemma ensure_accepted:
  assumes pf: "lower_local pf"
    and "list_all (\<lambda>t. required_ok (tm_ID t) maxNameBytes \<and> required_ok (tm_Name t) maxNameBytes) ts"
    and "distinct (map tm_ID ts)" and "\<forall>t\<in>set ts. gm_has ids (tm_ID t) \<and> \<not> gm_has (gi_Members gi) (tm_ID t)"
    and "length (gi_IDs gi) + length ts \<le> 1000" and "length (gi_Names gi) + length ts \<le> 1000"
  shows "\<exists>gs gi'. ensureLoop pf [] ts (gi_IDs gi) (gi_Names gi) = Some gs \<and>
    fold_ok (validateGroup pf ids) (enumerate k gs) gi = Inr gi' \<and>
    map tg_TerminalIDs gs = map (\<lambda>t. [tm_ID t]) ts \<and>
    (\<forall>x. gm_has (gi_Members gi') x \<longleftrightarrow> x \<in> tm_ID ` set ts \<or> gm_has (gi_Members gi) x)"
  using assms(2-)
proof (induction ts arbitrary: k gi)
  case (Cons t ts)
  from Cons.prems(4) uniqueSingletonGroupID_ok [of "gi_IDs gi" "tm_ID t"] obtain i where
    i: "uniqueSingletonGroupID (tm_ID t) (gi_IDs gi) = Some (i, gm_put i () (gi_IDs gi))"
      "\<not> gm_has (gi_IDs gi) i" "required_ok i maxNameBytes" by auto
  from Cons.prems(1,5) uniqueSingletonGroupName_ok [OF _ pf, of "gi_Names gi" "tm_Name t"] obtain n where
    n: "uniqueSingletonGroupName pf (tm_Name t) (gi_Names gi) = Some (n, gm_put (groupName pf n) () (gi_Names gi))"
      "\<not> gm_has (gi_Names gi) (groupName pf n)" "required_ok n maxNameBytes" by auto
  from Cons.prems(2) have apart: "\<forall>u\<in>set ts. tm_ID u \<noteq> tm_ID t" by (auto simp: image_iff)
  let ?g = "\<lparr>tg_ID = i, tg_Name = n, tg_TerminalIDs = [tm_ID t]\<rparr>"
  let ?gi = "\<lparr>gi_IDs = gm_put i () (gi_IDs gi), gi_Names = gm_put (groupName pf n) () (gi_Names gi),
         gi_Members = gm_put (tm_ID t) i (gi_Members gi)\<rparr>"
  have v: "validateGroup pf ids (k, ?g) gi = Inr ?gi"
    using Cons.prems(1,3) i n by (intro validateGroup_singleton) auto
  have "\<exists>gs gi'. ensureLoop pf [] ts (gi_IDs ?gi) (gi_Names ?gi) = Some gs \<and>
    fold_ok (validateGroup pf ids) (enumerate (Suc k) gs) ?gi = Inr gi' \<and>
    map tg_TerminalIDs gs = map (\<lambda>t. [tm_ID t]) ts \<and>
    (\<forall>x. gm_has (gi_Members gi') x \<longleftrightarrow> x \<in> tm_ID ` set ts \<or> gm_has (gi_Members ?gi) x)"
    using Cons.prems apart by (intro Cons.IH) (auto simp: length_gm_put)
  then obtain gs gi' where r: "ensureLoop pf [] ts (gi_IDs ?gi) (gi_Names ?gi) = Some gs"
    "fold_ok (validateGroup pf ids) (enumerate (Suc k) gs) ?gi = Inr gi'"
    "map tg_TerminalIDs gs = map (\<lambda>t. [tm_ID t]) ts"
    "\<forall>x. gm_has (gi_Members gi') x \<longleftrightarrow> x \<in> tm_ID ` set ts \<or> gm_has (gi_Members ?gi) x" by blast
  have "ensureLoop pf [] (t # ts) (gi_IDs gi) (gi_Names gi) = Some (?g # gs)"
    using i(1) n(1) r(1) by simp
  moreover have "fold_ok (validateGroup pf ids) (enumerate k (?g # gs)) gi = Inr gi'"
    using v r(2) by simp
  ultimately show ?case using r(3,4) by (intro exI [of _ "?g # gs"] exI [of _ gi']) auto
qed simp

lemma ValidateSession_groups:
  assumes "ValidateSession pf s = None"
  obtains ids where "\<And>k. gm_has ids k \<longleftrightarrow> k \<in> tm_ID ` set (se_terminal_list s)"
    and "\<And>gs. ValidateSession pf (s\<lparr>se_TerminalGroups := gs\<rparr>) = validateTerminalGroups pf (s\<lparr>se_TerminalGroups := gs\<rparr>) ids"
proof -
  from assms obtain ts si where ts: "se_Terminals s = Some ts" "se_Version s = 1"
      "validateRequiredString [Field ''name''] (se_Name s) maxNameBytes = None"
      "validatePlayerConfigPath pf (se_PlayerConfig s) = None" "length ts \<le> MaxTerminals"
      "validateExtras pf [] (se_Extra s) sessionFields = None"
    and f: "fold_ok (validateTerminal pf) (enumerate 0 ts) \<lparr>si_TerminalIDs = [], si_Refs = []\<rparr> = Inr si"
    and tr: "first_err (map (validateTransition (si_TerminalIDs si)) (si_Refs si)) = None"
    by (auto simp: ValidateSession_def not_less simp del: first_err_None validateRequiredString_None
        split: option.split_asm if_split_asm sum.split_asm)
  note v = validateTerminals_ok [OF f]
  show ?thesis
  proof (rule that [of "si_TerminalIDs si"])
    show "gm_has (si_TerminalIDs si) k \<longleftrightarrow> k \<in> tm_ID ` set (se_terminal_list s)" for k
      using v ts(1) by (simp add: se_terminal_list_def)
    show "ValidateSession pf (s\<lparr>se_TerminalGroups := gs\<rparr>) =
        validateTerminalGroups pf (s\<lparr>se_TerminalGroups := gs\<rparr>) (si_TerminalIDs si)" for gs
      using ts f tr by (simp add: ValidateSession_def del: first_err_None validateRequiredString_None)
  qed
qed

definition demo_legacy :: Session where
  "demo_legacy = demo_session\<lparr>se_TerminalGroups := []\<rparr>"

lemma demo_legacy_ok: "ValidateSession demo_platform demo_legacy = None"
proof (rule ValidateSession_groups [OF demo_session_ok])
  fix ids
  assume vs: "\<And>gs. ValidateSession demo_platform (demo_session\<lparr>se_TerminalGroups := gs\<rparr>) =
       validateTerminalGroups demo_platform (demo_session\<lparr>se_TerminalGroups := gs\<rparr>) ids"
  show ?thesis unfolding demo_legacy_def vs by (simp add: validateTerminalGroups_def)
qed

lemma demo_lower_local: "lower_local demo_platform"
proof -
  have "ascii_lower b = b" if "\<forall>c\<in>set b. byte_val c < 65" for b
    unfolding ascii_lower_def using that by (intro map_idI) auto
  then show ?thesis by (auto simp: lower_local_def demo_platform_def list_all_iff) (simp_all add: ascii_lower_def)
qed

text \<open>C27: An accepted legacy document without groups is completed, after finitely many candidate names,
  by one singleton group per terminal, in order, and the completed document is accepted; a document
  with groups is left alone.  Lower-casing is only assumed to map each rune by itself.\<close>

theorem session_normalize_accepted:
  assumes "ValidateSession pf s = None" and "lower_local pf"
  shows "\<exists>s'. NormalizeTerminalGroups pf s = Some s' \<and> ValidateSession pf s' = None \<and>
    se_terminal_list s' = se_terminal_list s \<and>
    (if se_TerminalGroups s = []
     then map tg_TerminalIDs (se_TerminalGroups s') = map (\<lambda>t. [tm_ID t]) (se_terminal_list s)
     else s' = s)"
proof (cases "se_terminal_list s = [] \<or> se_TerminalGroups s \<noteq> []")
  case True
  with assms(1) show ?thesis by (auto simp: NormalizeTerminalGroups_def)
next
  case False
  note ok = ValidateSession_ok [OF assms(1)]
  let ?gi = "\<lparr>gi_IDs = [], gi_Names = [], gi_Members = []\<rparr>"
  obtain ids where ids: "\<And>k. gm_has ids k \<longleftrightarrow> k \<in> tm_ID ` set (se_terminal_list s)"
    and vs: "\<And>gs. ValidateSession pf (s\<lparr>se_TerminalGroups := gs\<rparr>) = validateTerminalGroups pf (s\<lparr>se_TerminalGroups := gs\<rparr>) ids"
    using ValidateSession_groups [OF assms(1)] by blast
  have "\<exists>gs gi'. ensureLoop pf [] (se_terminal_list s) (gi_IDs ?gi) (gi_Names ?gi) = Some gs \<and>
    fold_ok (validateGroup pf ids) (enumerate 0 gs) ?gi = Inr gi' \<and>
    map tg_TerminalIDs gs = map (\<lambda>t. [tm_ID t]) (se_terminal_list s) \<and>
    (\<forall>x. gm_has (gi_Members gi') x \<longleftrightarrow> x \<in> tm_ID ` set (se_terminal_list s) \<or> gm_has (gi_Members ?gi) x)"
    using ok(1,2,3) ids
    by (intro ensure_accepted assms(2)) (auto simp: list_all_iff terminal_valid_def MaxTerminals_def)
  then obtain gs gi' where e: "ensureLoop pf [] (se_terminal_list s) [] [] = Some gs"
    and f: "fold_ok (validateGroup pf ids) (enumerate 0 gs) ?gi = Inr gi'"
    and m: "map tg_TerminalIDs gs = map (\<lambda>t. [tm_ID t]) (se_terminal_list s)"
      "\<forall>t\<in>set (se_terminal_list s). gm_has (gi_Members gi') (tm_ID t)" by auto
  let ?s = "s\<lparr>se_TerminalGroups := gs\<rparr>"
  have "NormalizeTerminalGroups pf s = Some ?s"
    using False e by (simp add: NormalizeTerminalGroups_def EnsureTerminalGroups_def goset_of_def)
  moreover have "se_terminal_list ?s = se_terminal_list s" by (simp add: se_terminal_list_def)
  moreover have "validateTerminalGroups pf ?s ids = None"
    using f m(2) \<open>se_terminal_list ?s = se_terminal_list s\<close>
    by (auto simp: validateTerminalGroups_def in_set_enumerate_eq)
  ultimately show ?thesis using vs m(1) False by simp
qed

lemma session_normalize_accepted_witness:
  "\<exists>s'. NormalizeTerminalGroups demo_platform demo_legacy = Some s' \<and> ValidateSession demo_platform s' = None \<and>
    map tg_TerminalIDs (se_TerminalGroups s') = [[''t1''], [''t2'']]"
  using session_normalize_accepted [OF demo_legacy_ok demo_lower_local]
  by (auto simp: demo_legacy_def demo_session_def demo_gate_def demo_vault_def se_terminal_list_def)

section \<open>The group of a terminal\<close>

lemma TerminalGroupFor_Some:
  "TerminalGroupFor s t = Some g \<Longrightarrow> g \<in> set (se_TerminalGroups s) \<and> t \<in> set (tg_TerminalIDs g)"
  by (auto simp: TerminalGroupFor_def dest!: find_SomeD)

lemma group_unique:
  "distinct (concat (map tg_TerminalIDs gs)) \<Longrightarrow> g \<in> set gs \<Longrightarrow> h \<in> set gs \<Longrightarrow>
     x \<in> set (tg_TerminalIDs g) \<Longrightarrow> x \<in> set (tg_TerminalIDs h) \<Longrightarrow> g = h"
  by (induction gs) auto

lemma partition_group:
  assumes "partition_of (se_TerminalGroups s) (map tm_ID (se_terminal_list s))" and "t \<in> tm_ID ` set (se_terminal_list s)"
  obtains g where "TerminalGroupFor s t = Some g"
proof -
  from assms obtain g where "g \<in> set (se_TerminalGroups s)" "t \<in> set (tg_TerminalIDs g)"
    by (auto simp: partition_of_def set_eq_iff)
  then have "TerminalGroupFor s t \<noteq> None" by (auto simp: TerminalGroupFor_def find_None_iff)
  with that show thesis by blast
qed

text \<open>C30: In an accepted session with groups, every terminal has exactly one group, and every member of
  a group is a terminal of the session.\<close>

theorem session_groups_partition:
  assumes "ValidateSession pf s = None" and "se_TerminalGroups s \<noteq> []"
  shows "list_all (\<lambda>t. \<exists>g. TerminalGroupFor s (tm_ID t) = Some g \<and>
      list_all (\<lambda>h. tm_ID t \<in> set (tg_TerminalIDs h) \<longleftrightarrow> h = g) (se_TerminalGroups s)) (se_terminal_list s) \<and>
    list_all (\<lambda>g. tg_TerminalIDs g \<noteq> [] \<and> set (tg_TerminalIDs g) \<subseteq> tm_ID ` set (se_terminal_list s)) (se_TerminalGroups s)"
proof -
  note p = ValidateSession_ok(5) [OF assms]
  have "\<exists>g. TerminalGroupFor s (tm_ID t) = Some g \<and>
      list_all (\<lambda>h. tm_ID t \<in> set (tg_TerminalIDs h) \<longleftrightarrow> h = g) (se_TerminalGroups s)"
    if t: "t \<in> set (se_terminal_list s)" for t
  proof -
    from p t obtain g where g: "TerminalGroupFor s (tm_ID t) = Some g" by (blast elim: partition_group)
    note gm = TerminalGroupFor_Some [OF g]
    from p have "distinct (concat (map tg_TerminalIDs (se_TerminalGroups s)))" by (simp add: partition_of_def)
    from group_unique [OF this] gm have "list_all (\<lambda>h. tm_ID t \<in> set (tg_TerminalIDs h) \<longleftrightarrow> h = g) (se_TerminalGroups s)"
      by (auto simp: list_all_iff)
    with g show ?thesis by blast
  qed
  moreover from p have "list_all (\<lambda>g. tg_TerminalIDs g \<noteq> [] \<and> set (tg_TerminalIDs g) \<subseteq> tm_ID ` set (se_terminal_list s))
      (se_TerminalGroups s)"
    by (auto simp: partition_of_def list_all_iff set_eq_iff)
  ultimately show ?thesis by (simp add: list_all_iff)
qed

lemma session_groups_partition_witness:
  "\<exists>g. TerminalGroupFor demo_session (tm_ID demo_gate) = Some g"
proof -
  have "se_TerminalGroups demo_session \<noteq> []" by (simp add: demo_session_def)
  from session_groups_partition [OF demo_session_ok this] demo_members(1) show ?thesis
    unfolding list_all_iff by blast
qed

section \<open>Replacing the group set\<close>

lemma gm_get_fold_same: "gm_get (fold (\<lambda>t. gm_put t v) ts m) x = (if x \<in> set ts then Some v else gm_get m x)"
  by (induction ts arbitrary: m) auto

lemma groupByTerminal_fold:
  "distinct (concat (map tg_TerminalIDs gs)) \<Longrightarrow>
     gm_get (fold (\<lambda>g m. fold (\<lambda>t. gm_put t (tg_ID g)) (tg_TerminalIDs g) m) gs m) t =
       (case find (\<lambda>g. t \<in> set (tg_TerminalIDs g)) gs of Some g \<Rightarrow> Some (tg_ID g) | None \<Rightarrow> gm_get m t)"
proof (induction gs arbitrary: m)
  case (Cons g gs)
  then have "t \<in> set (tg_TerminalIDs g) \<Longrightarrow> find (\<lambda>g. t \<in> set (tg_TerminalIDs g)) gs = None"
    by (auto simp: find_None_iff)
  with Cons show ?case by (auto simp: gm_get_fold_same split: option.split)
qed simp

lemma conflicts_none:
  assumes "fold_ok (transitionConflicts pf m) (enumerate i ts) cs = Inr []"
  shows "cs = [] \<and> (\<forall>t\<in>set ts. \<forall>(a, b)\<in>set (terminal_transitions t). gm_lookup m a = gm_lookup m b)"
  using assms
proof (induction ts arbitrary: i cs)
  case (Cons t ts)
  then obtain c1 where c1: "transitionConflicts pf m (i, t) cs = Inr c1"
    "fold_ok (transitionConflicts pf m) (enumerate (Suc i) ts) c1 = Inr []" by (auto simp: ok_bind_Inr)
  from Cons.IH [OF c1(2)] have rest: "c1 = []"
    "\<forall>t\<in>set ts. \<forall>(a, b)\<in>set (terminal_transitions t). gm_lookup m a = gm_lookup m b" by blast+
  from c1(1) obtain nodes refs where v: "validateTree pf [Field ''terminals'', Index i, Field ''root''] (tm_Root t) = Inr (nodes, refs)"
    and eq: "c1 = cs @ map (\<lambda>r. (tm_ID t, tf_Target r))
        (filter (\<lambda>r. gm_lookup m (tm_ID t) \<noteq> gm_lookup m (tf_Target r)) refs)"
    by (auto simp: transitionConflicts_def ok_bind_Inr)
  from eq rest(1) have refs: "\<forall>r\<in>set refs. gm_lookup m (tm_ID t) = gm_lookup m (tf_Target r)" "cs = []"
    by (auto simp: filter_empty_conv)
  have "\<forall>(a, b)\<in>set (terminal_transitions t). gm_lookup m a = gm_lookup m b"
    unfolding terminal_transitions_def validateTree_ok(3) [OF v, symmetric] using refs(1) by auto
  with rest refs(2) show ?case by simp
qed simp

text \<open>The semantic difference: a terminal is affected when its group, as identity and ordered
  members, is only in one of the two sets.\<close>

definition group_key :: "TerminalGroup \<Rightarrow> string \<times> string list" where
  "group_key g = (tg_ID g, tg_TerminalIDs g)"

definition affected_by :: "TerminalGroup list \<Rightarrow> TerminalGroup list \<Rightarrow> string \<Rightarrow> bool" where
  "affected_by current candidate x =
     ((\<exists>g\<in>set current. x \<in> set (tg_TerminalIDs g) \<and> group_key g \<notin> group_key ` set candidate) \<or>
      (\<exists>h\<in>set candidate. x \<in> set (tg_TerminalIDs h) \<and> group_key h \<notin> group_key ` set current))"

lemma zip_all: "length a = length b \<and> list_all (\<lambda>(x, y). P x y) (zip a b) \<longleftrightarrow> list_all2 P a b"
  by (simp add: list_all2_iff list_all_iff case_prod_unfold)

lemma stringSlicesEqual_iff [simp]: "stringSlicesEqual a b \<longleftrightarrow> a = b"
  by (simp add: stringSlicesEqual_def zip_all list.rel_eq)

lemma terminalGroupsEqual_iff [simp]: "terminalGroupsEqual a b \<longleftrightarrow> a = b"
proof -
  have "tg_ID g = tg_ID h \<and> tg_Name g = tg_Name h \<and> tg_TerminalIDs g = tg_TerminalIDs h \<longleftrightarrow> g = h"
    for g h :: TerminalGroup by (cases g, cases h) simp
  then show ?thesis by (simp add: terminalGroupsEqual_def zip_all list.rel_eq)
qed

lemma markAll_has [simp]: "gm_has (markAll ts m) x \<longleftrightarrow> x \<in> set ts \<or> gm_has m x"
  by (induction ts arbitrary: m) (auto simp: markAll_def)

lemma groupsByID_get:
  "distinct (map tg_ID gs) \<Longrightarrow> gm_get (groupsByID gs) k = Some g \<longleftrightarrow> g \<in> set gs \<and> tg_ID g = k"
proof -
  have "distinct (map tg_ID gs) \<Longrightarrow> gm_get (fold (\<lambda>g. gm_put (tg_ID g) g) gs m) k = Some g \<longleftrightarrow>
      g \<in> set gs \<and> tg_ID g = k \<or> gm_get m k = Some g \<and> k \<notin> tg_ID ` set gs" for m
    by (induction gs arbitrary: m) auto
  from this [of "[]"] show "distinct (map tg_ID gs) \<Longrightarrow> gm_get (groupsByID gs) k = Some g \<longleftrightarrow> g \<in> set gs \<and> tg_ID g = k"
    by (simp add: groupsByID_def)
qed

definition current_marks :: "TerminalGroup list \<Rightarrow> string \<Rightarrow> TerminalGroup \<Rightarrow> bool" where
  "current_marks cand x g =
     (group_key g \<notin> group_key ` set cand \<and>
        (x \<in> set (tg_TerminalIDs g) \<or> (\<exists>h\<in>set cand. tg_ID h = tg_ID g \<and> x \<in> set (tg_TerminalIDs h))))"

lemma diffCurrent_fold:
  assumes "distinct (map tg_ID cand)"
  shows "td_Changed (fst (fold (diffCurrent (groupsByID cand)) gs da)) = td_Changed (fst da) \<and>
    (gm_has (snd (fold (diffCurrent (groupsByID cand)) gs da)) x \<longleftrightarrow>
      gm_has (snd da) x \<or> (\<exists>g\<in>set gs. current_marks cand x g))"
proof (induction gs arbitrary: da)
  case (Cons g gs)
  obtain d m where da: "da = (d, m)" by (cases da)
  note get = groupsByID_get [OF assms, of "tg_ID g"]
  have one: "td_Changed (fst (diffCurrent (groupsByID cand) g da)) = td_Changed d \<and>
    (gm_has (snd (diffCurrent (groupsByID cand) g da)) x \<longleftrightarrow>
      gm_has m x \<or> current_marks cand x g)"
  proof (cases "gm_get (groupsByID cand) (tg_ID g)")
    case None
    with get have "\<forall>h\<in>set cand. tg_ID h \<noteq> tg_ID g" by force
    with None show ?thesis by (auto simp: diffCurrent_def da group_key_def image_iff current_marks_def)
  next
    case (Some h)
    with get [of h] have h: "h \<in> set cand" "tg_ID h = tg_ID g" by simp_all
    from assms h have only: "k \<in> set cand \<Longrightarrow> tg_ID k = tg_ID g \<Longrightarrow> k = h" for k
      by (metis distinct_map inj_onD)
    have key: "group_key g \<in> group_key ` set cand \<longleftrightarrow> tg_TerminalIDs g = tg_TerminalIDs h"
    proof
      assume "group_key g \<in> group_key ` set cand"
      then obtain k where "k \<in> set cand" "group_key g = group_key k" by blast
      with only [of k] show "tg_TerminalIDs g = tg_TerminalIDs h" by (simp add: group_key_def)
    next
      assume "tg_TerminalIDs g = tg_TerminalIDs h"
      with h(2) have "group_key g = group_key h" by (simp add: group_key_def)
      with h(1) show "group_key g \<in> group_key ` set cand" by simp
    qed
    from only h have mem: "(\<exists>k\<in>set cand. tg_ID k = tg_ID g \<and> x \<in> set (tg_TerminalIDs k)) \<longleftrightarrow> x \<in> set (tg_TerminalIDs h)"
      by blast
    show ?thesis unfolding current_marks_def key mem using Some by (auto simp: diffCurrent_def da)
  qed
  with Cons.IH [of "diffCurrent (groupsByID cand) g da"] da show ?case by auto
qed simp

lemma diffCandidate_fold:
  assumes "distinct (map tg_ID cur)"
  shows "td_Changed (fst (fold (diffCandidate (groupsByID cur)) hs da)) = td_Changed (fst da) \<and>
    (gm_has (snd (fold (diffCandidate (groupsByID cur)) hs da)) x \<longleftrightarrow>
      gm_has (snd da) x \<or> (\<exists>h\<in>set hs. tg_ID h \<notin> tg_ID ` set cur \<and> x \<in> set (tg_TerminalIDs h)))"
proof (induction hs arbitrary: da)
  case (Cons h hs)
  obtain d m where da: "da = (d, m)" by (cases da)
  have "gm_has (groupsByID cur) (tg_ID h) \<longleftrightarrow> tg_ID h \<in> tg_ID ` set cur"
    by (simp add: gm_has_iff groupsByID_get [OF assms] image_iff) metis
  then show ?case using Cons.IH by (auto simp: diffCandidate_def da)
qed simp

lemma candidateOrder_set: "set (candidateOrderLoop ts seen) = {t \<in> set ts. \<not> gm_has seen t}"
  by (induction ts arbitrary: seen) auto

lemma marks_affected:
  assumes "distinct (map tg_ID cur)" and "distinct (map tg_ID cand)"
  shows "(\<exists>g\<in>set cur. current_marks cand x g) \<or> (\<exists>h\<in>set cand. tg_ID h \<notin> tg_ID ` set cur \<and> x \<in> set (tg_TerminalIDs h))
    \<longleftrightarrow> affected_by cur cand x" (is "?m \<longleftrightarrow> _")
proof
  have cur: "g \<in> set cur \<Longrightarrow> h \<in> set cur \<Longrightarrow> tg_ID g = tg_ID h \<Longrightarrow> g = h"
    and cand: "g \<in> set cand \<Longrightarrow> h \<in> set cand \<Longrightarrow> tg_ID g = tg_ID h \<Longrightarrow> g = h" for g h
    using assms by (metis distinct_map inj_onD)+
  have key: "group_key h \<in> group_key ` set gs \<Longrightarrow> \<exists>g\<in>set gs. tg_ID g = tg_ID h \<and> group_key g = group_key h" for h gs
    by (auto simp: group_key_def)
  { assume ?m
    then consider g where "g \<in> set cur" "group_key g \<notin> group_key ` set cand" "x \<in> set (tg_TerminalIDs g)"
      | g h where "g \<in> set cur" "group_key g \<notin> group_key ` set cand" "h \<in> set cand" "tg_ID h = tg_ID g" "x \<in> set (tg_TerminalIDs h)"
      | h where "h \<in> set cand" "tg_ID h \<notin> tg_ID ` set cur" "x \<in> set (tg_TerminalIDs h)"
      unfolding current_marks_def by blast
    then show "affected_by cur cand x"
    proof cases
      case (2 g h)
      then have "group_key h \<notin> group_key ` set cur" using key [of h cur] cur by (metis image_eqI)
      with 2 show ?thesis unfolding affected_by_def by blast
    next
      case (3 h)
      then have "group_key h \<notin> group_key ` set cur" using key [of h cur] by (metis image_eqI)
      with 3 show ?thesis unfolding affected_by_def by blast
    qed (auto simp: affected_by_def) }
  { assume "affected_by cur cand x"
    then consider g where "g \<in> set cur" "group_key g \<notin> group_key ` set cand" "x \<in> set (tg_TerminalIDs g)"
      | h where "h \<in> set cand" "group_key h \<notin> group_key ` set cur" "x \<in> set (tg_TerminalIDs h)"
      unfolding affected_by_def by blast
    then show ?m
    proof cases
      case (2 h)
      show ?thesis
      proof (cases "tg_ID h \<in> tg_ID ` set cur")
        case True
        then obtain g where g: "g \<in> set cur" "tg_ID h = tg_ID g" by blast
        with 2 have "group_key g \<notin> group_key ` set cand" using key [of g cand] cand by (metis image_eqI)
        with g 2 show ?thesis unfolding current_marks_def by metis
      qed (use 2 in blast)
    qed (auto simp: current_marks_def) }
qed

lemma deriveTerminalGroupDiff_ok:
  assumes "distinct (map tg_ID cur)" and "distinct (map tg_ID cand)"
  shows "td_Changed (deriveTerminalGroupDiff cur cand) \<longleftrightarrow> cur \<noteq> cand"
    and "x \<in> set (td_AffectedTerminalIDs (deriveTerminalGroupDiff cur cand)) \<longleftrightarrow> affected_by cur cand x"
proof -
  let ?d0 = "\<lparr>td_Changed = True, td_MembershipOrOrderChanged = False, td_RemovedGroupIDs = [], td_AffectedTerminalIDs = []\<rparr>"
  let ?f = "fold (diffCandidate (groupsByID cur)) cand (fold (diffCurrent (groupsByID cand)) cur (?d0, []))"
  note steps = diffCurrent_fold [OF assms(2), of cur "(?d0, [])"] diffCandidate_fold [OF assms(1)]
  have changed: "cur \<noteq> cand \<Longrightarrow> deriveTerminalGroupDiff cur cand = (fst ?f)\<lparr>td_AffectedTerminalIDs :=
      filter (gm_has (snd ?f)) (candidateTerminalOrder cur cand)\<rparr>"
    by (simp add: deriveTerminalGroupDiff_def case_prod_unfold Let_def)
  show "td_Changed (deriveTerminalGroupDiff cur cand) \<longleftrightarrow> cur \<noteq> cand"
  proof (cases "cur = cand")
    case True
    then show ?thesis by (simp add: deriveTerminalGroupDiff_def)
  next
    case False
    with steps show ?thesis unfolding changed [OF False] by simp
  qed
  show "x \<in> set (td_AffectedTerminalIDs (deriveTerminalGroupDiff cur cand)) \<longleftrightarrow> affected_by cur cand x"
  proof (cases "cur = cand")
    case True
    then show ?thesis by (simp add: deriveTerminalGroupDiff_def affected_by_def)
  next
    case False
    have "gm_has (snd ?f) x \<longleftrightarrow> affected_by cur cand x"
      using steps marks_affected [OF assms, of x] by simp
    moreover have "affected_by cur cand x \<Longrightarrow> x \<in> set (candidateTerminalOrder cur cand)"
      by (auto simp: candidateTerminalOrder_def candidateOrder_set affected_by_def)
    ultimately show ?thesis unfolding changed [OF False] by auto
  qed
qed

text \<open>C28: A replacement of the groups that is accepted gives an accepted session in which no authored
  transition leaves the group of its terminal; the reported difference says whether the groups
  change at all and lists exactly the terminals whose group, as identity and ordered members, is
  only in one of the two sets.\<close>

theorem session_replacement_sound:
  assumes "ValidateTerminalGroupReplacement pf s gs = Inr d"
    and "distinct (map tg_ID (se_TerminalGroups s))" and "gs \<noteq> []"
  shows "ValidateSession pf (s\<lparr>se_TerminalGroups := gs\<rparr>) = None \<and>
    list_all (\<lambda>t. list_all (\<lambda>(a, b). TerminalGroupFor (s\<lparr>se_TerminalGroups := gs\<rparr>) a =
        TerminalGroupFor (s\<lparr>se_TerminalGroups := gs\<rparr>) b) (terminal_transitions t)) (se_terminal_list s) \<and>
    (td_Changed d \<longleftrightarrow> se_TerminalGroups s \<noteq> gs) \<and>
    (x \<in> set (td_AffectedTerminalIDs d) \<longleftrightarrow> affected_by (se_TerminalGroups s) gs x)"
proof -
  let ?s = "s\<lparr>se_TerminalGroups := gs\<rparr>"
  have list: "se_terminal_list ?s = se_terminal_list s" by (simp add: se_terminal_list_def)
  from assms(1) list have v: "ValidateSession pf ?s = None"
    and c: "fold_ok (transitionConflicts pf (groupByTerminal gs)) (enumerate 0 (se_terminal_list s)) [] = Inr []"
    and d: "d = deriveTerminalGroupDiff (se_TerminalGroups s) gs"
    by (auto simp: ValidateTerminalGroupReplacement_def Let_def ok_bind_Inr split: option.splits if_splits)
  from ValidateSession_ok(5) [OF v] assms(3) have p: "partition_of gs (map tm_ID (se_terminal_list s))"
    by (simp add: list)
  then have dg: "distinct (concat (map tg_TerminalIDs gs))" "distinct (map tg_ID gs)" by (simp_all add: partition_of_def)
  have "TerminalGroupFor ?s a = TerminalGroupFor ?s b"
    if t: "t \<in> set (se_terminal_list s)" "(a, b) \<in> set (terminal_transitions t)" for t a b
  proof -
    from p list have ps: "partition_of (se_TerminalGroups ?s) (map tm_ID (se_terminal_list ?s))" by simp
    from t list have "a \<in> tm_ID ` set (se_terminal_list ?s)" by (auto simp: terminal_transitions_def)
    with ps obtain g where ga: "TerminalGroupFor ?s a = Some g" by (rule partition_group)
    have "b \<in> tm_ID ` set (se_terminal_list ?s)" using ValidateSession_ok(4) [OF v] t list by fastforce
    with ps obtain h where "TerminalGroupFor ?s b = Some h" by (rule partition_group)
    with ga have g: "TerminalGroupFor ?s a = Some g" "TerminalGroupFor ?s b = Some h" .
    then have "gm_lookup (groupByTerminal gs) a = tg_ID g" "gm_lookup (groupByTerminal gs) b = tg_ID h"
      by (simp_all add: gm_lookup_def groupByTerminal_def groupByTerminal_fold [OF dg(1)] TerminalGroupFor_def)
    with conflicts_none [OF c] t have "tg_ID g = tg_ID h" by fastforce
    moreover have "g \<in> set gs" "h \<in> set gs" using g TerminalGroupFor_Some by fastforce+
    ultimately have "g = h" using dg(2) by (metis distinct_map inj_onD)
    with g show ?thesis by simp
  qed
  then have "list_all (\<lambda>t. list_all (\<lambda>(a, b). TerminalGroupFor ?s a = TerminalGroupFor ?s b) (terminal_transitions t))
      (se_terminal_list s)" unfolding list_all_iff by blast
  with v deriveTerminalGroupDiff_ok [OF assms(2) dg(2)] d show ?thesis by simp
qed

lemma demo_replacement:
  "\<exists>d. ValidateTerminalGroupReplacement demo_platform demo_legacy (se_TerminalGroups demo_session) = Inr d"
proof -
  have "ValidateSession demo_platform (demo_legacy\<lparr>se_TerminalGroups := se_TerminalGroups demo_session\<rparr>) = None"
    using demo_session_ok by (simp add: demo_legacy_def)
  then show ?thesis
    by (simp add: ValidateTerminalGroupReplacement_def transitionConflicts_def groupByTerminal_def gm_lookup_def
        rejectSingletonIdentityChurn_def demo_legacy_def demo_session_defs validate_defs se_terminal_list_def Let_def)
qed

lemma session_replacement_sound_witness:
  "\<exists>d. ValidateTerminalGroupReplacement demo_platform demo_legacy (se_TerminalGroups demo_session) = Inr d \<and>
    td_Changed d \<and> ''t1'' \<in> set (td_AffectedTerminalIDs d)"
proof -
  obtain d where d: "ValidateTerminalGroupReplacement demo_platform demo_legacy (se_TerminalGroups demo_session) = Inr d"
    using demo_replacement by blast
  have "distinct (map tg_ID (se_TerminalGroups demo_legacy))" "se_TerminalGroups demo_session \<noteq> []"
    by (simp_all add: demo_legacy_def demo_session_def)
  note r = session_replacement_sound [OF d this, of "''t1''"]
  have "affected_by (se_TerminalGroups demo_legacy) (se_TerminalGroups demo_session) ''t1''"
    by (simp add: affected_by_def demo_legacy_def demo_session_def)
  with r d show ?thesis by (simp add: demo_legacy_def demo_session_def)
qed

end
