(* ===== verification/DomainJSON.thy ===== *)
theory DomainJSON
  imports GroupsInv
begin

text \<open>
  The JSON documents of \<open>internal/domain/json.go\<close>: strict decoding of player configurations with their legacy
  defaults, decoding and encoding of sessions, and the unknown fields a document keeps.  JSON itself is the
  standard library's: the fields of \<open>JSON\<close> read and write one value, a decoder answers the first value of
  a text and the rest of it.
\<close>

section \<open>The JSON package\<close>

record playerConfigRosterEntryWire =
  rw_ID :: CharacterID
  rw_Name :: string
  rw_Intelligence :: string
  rw_HackerPerkAvailable :: string

record playerConfigWire =
  cw_Version :: int
  cw_Name :: string
  cw_Roster :: "playerConfigRosterEntryWire list option"

record JSON =
  js_Object :: "string \<Rightarrow> (string, string) gomap option"
  js_MarshalObject :: "(string, string) gomap \<Rightarrow> string option"
  js_Int :: "string \<Rightarrow> int option"
  js_Bool :: "string \<Rightarrow> bool option"
  js_AtEnd :: "string \<Rightarrow> bool"
  js_DecodeConfig :: "string \<Rightarrow> (playerConfigWire \<times> string) option"
  js_MarshalConfig :: "PlayerConfig \<Rightarrow> string option"
  js_DecodeSession :: "string \<Rightarrow> (Session \<times> string) option"
  js_MarshalSession :: "Session \<Rightarrow> string option"

datatype CodecError =
  Malformed | TrailingValue | RosterField nat string | InvalidDocument ValidationError | ShadowedField string
| NormalizationOpen

section \<open>Unknown fields\<close>

definition fieldSet :: "string list \<Rightarrow> string goset" where
  "fieldSet names = goset_of names"

definition extrasFrom :: "JSON \<Rightarrow> string \<Rightarrow> string goset \<Rightarrow> (string, string) gomap" where
  "extrasFrom js data known =
     (case js_Object js data of
        None \<Rightarrow> []
      | Some raw \<Rightarrow> fold gm_del (gm_keys known) raw)"

text \<open>The first extra field that shadows a known one stops the encoding.\<close>

primrec putExtras :: "string goset \<Rightarrow> (string \<times> string) list \<Rightarrow> (string, string) gomap \<Rightarrow> CodecError + (string, string) gomap" where
  "putExtras known [] raw = Inr raw"
| "putExtras known (field # extras) raw =
     (if gm_has known (fst field) then Inl (ShadowedField (fst field))
      else putExtras known extras (gm_put (fst field) (snd field) raw))"

definition marshalWithExtras ::
    "JSON \<Rightarrow> string option \<Rightarrow> (string, string) gomap \<Rightarrow> string goset \<Rightarrow> CodecError + string" where
  "marshalWithExtras js marshalled extras known =
     (case marshalled of
        None \<Rightarrow> Inl Malformed
      | Some data \<Rightarrow>
          if extras = [] then Inr data
          else (case js_Object js data of
              None \<Rightarrow> Inl Malformed
            | Some raw \<Rightarrow>
                ok_bind (putExtras known extras raw) (\<lambda>raw.
                  case js_MarshalObject js raw of None \<Rightarrow> Inl Malformed | Some out \<Rightarrow> Inr out)))"

text \<open>
  \<open>UnmarshalJSON\<close> and \<open>MarshalJSON\<close> of sessions, terminals and nodes: the plain value through its alias, the
  extras beside it.  A folder always writes its children as an array.
\<close>

definition SessionUnmarshalJSON :: "JSON \<Rightarrow> (string \<Rightarrow> Session option) \<Rightarrow> string \<Rightarrow> Session option" where
  "SessionUnmarshalJSON js alias data =
     map_option (\<lambda>decoded. decoded\<lparr>se_Extra := extrasFrom js data (fieldSet sessionFields)\<rparr>) (alias data)"

definition SessionMarshalJSON :: "JSON \<Rightarrow> (Session \<Rightarrow> string option) \<Rightarrow> Session \<Rightarrow> CodecError + string" where
  "SessionMarshalJSON js alias s = marshalWithExtras js (alias s) (se_Extra s) (fieldSet sessionFields)"

definition TerminalUnmarshalJSON :: "JSON \<Rightarrow> (string \<Rightarrow> Terminal option) \<Rightarrow> string \<Rightarrow> Terminal option" where
  "TerminalUnmarshalJSON js alias data =
     map_option (\<lambda>decoded. decoded\<lparr>tm_Extra := extrasFrom js data (fieldSet terminalFields)\<rparr>) (alias data)"

definition TerminalMarshalJSON :: "JSON \<Rightarrow> (Terminal \<Rightarrow> string option) \<Rightarrow> Terminal \<Rightarrow> CodecError + string" where
  "TerminalMarshalJSON js alias t = marshalWithExtras js (alias t) (tm_Extra t) (fieldSet terminalFields)"

definition withExtra :: "(string, string) gomap \<Rightarrow> ContentNode \<Rightarrow> ContentNode" where
  "withExtra extra n = ContentNode (cn_ID n) (cn_Type n) (cn_Name n) (cn_Children n) (cn_Text n) (cn_Description n)
     (cn_Blocks n) (cn_StateChange n) (cn_TerminalTransition n) extra"

definition NodeUnmarshalJSON :: "JSON \<Rightarrow> (string \<Rightarrow> ContentNode option) \<Rightarrow> string \<Rightarrow> ContentNode option" where
  "NodeUnmarshalJSON js alias data = map_option (withExtra (extrasFrom js data (fieldSet nodeFields))) (alias data)"

definition NodeMarshalJSON ::
    "JSON \<Rightarrow> (ContentNode \<Rightarrow> string option) \<Rightarrow> (ContentNode list option \<Rightarrow> string option) \<Rightarrow> ContentNode \<Rightarrow> CodecError + string" where
  "NodeMarshalJSON js alias marshalChildren n =
     ok_bind (marshalWithExtras js (alias n) (cn_Extra n) (fieldSet nodeFields)) (\<lambda>data.
       if cn_Type n \<noteq> NodeFolder then Inr data
       else (case js_Object js data of
           None \<Rightarrow> Inl Malformed
         | Some raw \<Rightarrow>
             (case marshalChildren (cn_Children n) of
                None \<Rightarrow> Inl Malformed
              | Some children \<Rightarrow>
                  (case js_MarshalObject js (gm_put ''children'' children raw) of
                     None \<Rightarrow> Inl Malformed | Some out \<Rightarrow> Inr out))))"

section \<open>Player configurations\<close>

definition decodeLegacyInt :: "JSON \<Rightarrow> string \<Rightarrow> int \<Rightarrow> int option" where
  "decodeLegacyInt js raw fallback =
     (if raw = '''' then Some fallback else if trim_space raw = ''null'' then None else js_Int js raw)"

definition decodeLegacyBool :: "JSON \<Rightarrow> string \<Rightarrow> bool \<Rightarrow> bool option" where
  "decodeLegacyBool js raw fallback =
     (if raw = '''' then Some fallback else if trim_space raw = ''null'' then None else js_Bool js raw)"

definition canonicalEntry :: "JSON \<Rightarrow> nat \<times> playerConfigRosterEntryWire \<Rightarrow> CodecError + CharacterRosterEntry" where
  "canonicalEntry js ie =
     (case ie of (i, entry) \<Rightarrow>
      (case decodeLegacyInt js (rw_Intelligence entry) 1 of
         None \<Rightarrow> Inl (RosterField i ''intelligence'')
       | Some intelligence \<Rightarrow>
          (case decodeLegacyBool js (rw_HackerPerkAvailable entry) False of
             None \<Rightarrow> Inl (RosterField i ''hackerPerkAvailable'')
           | Some available \<Rightarrow>
               Inr \<lparr>cr_ID = rw_ID entry, cr_Name = rw_Name entry, cr_Intelligence = intelligence,
                 cr_HackerPerkAvailable = available\<rparr>)))"

definition canonicalConfig :: "JSON \<Rightarrow> playerConfigWire \<Rightarrow> CodecError + PlayerConfig" where
  "canonicalConfig js wire =
     (case cw_Roster wire of
        None \<Rightarrow> Inr \<lparr>pc_Version = cw_Version wire, pc_Name = cw_Name wire, pc_Roster = None\<rparr>
      | Some roster \<Rightarrow>
          map_sum id (\<lambda>entries. \<lparr>pc_Version = cw_Version wire, pc_Name = cw_Name wire, pc_Roster = Some entries\<rparr>)
            (map_ok (canonicalEntry js) (enumerate 0 roster)))"

definition DecodePlayerConfig :: "JSON \<Rightarrow> string \<Rightarrow> CodecError + PlayerConfig" where
  "DecodePlayerConfig js data =
     (case js_DecodeConfig js data of
        None \<Rightarrow> Inl Malformed
      | Some (wire, rest) \<Rightarrow>
          if \<not> js_AtEnd js rest then Inl TrailingValue
          else ok_bind (canonicalConfig js wire) (\<lambda>config.
            case ValidatePlayerConfig config of Some e \<Rightarrow> Inl (InvalidDocument e) | None \<Rightarrow> Inr config))"

definition EncodePlayerConfig :: "JSON \<Rightarrow> PlayerConfig \<Rightarrow> CodecError + string" where
  "EncodePlayerConfig js config =
     (case ValidatePlayerConfig config of
        Some e \<Rightarrow> Inl (InvalidDocument e)
      | None \<Rightarrow> (case js_MarshalConfig js config of None \<Rightarrow> Inl Malformed | Some data \<Rightarrow> Inr (data @ [CHR 0x0A])))"

section \<open>Sessions\<close>

text \<open>\<open>NormalizationOpen\<close> stands for a search for singleton names that does not end; it never happens.\<close>

definition DecodeSession :: "Platform \<Rightarrow> JSON \<Rightarrow> string \<Rightarrow> CodecError + Session" where
  "DecodeSession pf js data =
     (case js_DecodeSession js data of
        None \<Rightarrow> Inl Malformed
      | Some (session, rest) \<Rightarrow>
          if \<not> js_AtEnd js rest then Inl TrailingValue
          else (case NormalizeTerminalGroups pf session of
              None \<Rightarrow> Inl NormalizationOpen
            | Some session \<Rightarrow>
                (case ValidateSession pf session of Some e \<Rightarrow> Inl (InvalidDocument e) | None \<Rightarrow> Inr session)))"

definition EncodeSession :: "Platform \<Rightarrow> JSON \<Rightarrow> Session \<Rightarrow> CodecError + string" where
  "EncodeSession pf js session =
     (case NormalizeTerminalGroups pf session of
        None \<Rightarrow> Inl NormalizationOpen
      | Some session \<Rightarrow>
          (case ValidateSession pf session of
             Some e \<Rightarrow> Inl (InvalidDocument e)
           | None \<Rightarrow> (case js_MarshalSession js session of None \<Rightarrow> Inl Malformed | Some data \<Rightarrow> Inr (data @ [CHR 0x0A]))))"

section \<open>Unknown fields survive\<close>

lemma gm_get_fold_del: "gm_get (fold gm_del ks m) k = (if k \<in> set ks then None else gm_get m k)"
  by (induction ks arbitrary: m) auto

lemma putExtras_get:
  "putExtras known extras raw = Inr raw' \<Longrightarrow> gm_ok extras \<Longrightarrow>
   gm_get raw' k = (case gm_get extras k of Some v \<Rightarrow> Some v | None \<Rightarrow> gm_get raw k) \<and>
   (\<forall>j. gm_has extras j \<longrightarrow> \<not> gm_has known j)"
proof (induction extras arbitrary: raw)
  case (Cons f extras)
  then have ok: "gm_ok extras" "gm_get extras (fst f) = None"
    by (auto simp: gm_ok_def gm_keys_def gm_get_def map_of_eq_None_iff)
  from Cons.prems have "\<not> gm_has known (fst f)" "putExtras known extras (gm_put (fst f) (snd f) raw) = Inr raw'"
    by (auto split: if_splits)
  moreover have "gm_get (f # extras) j = (if j = fst f then Some (snd f) else gm_get extras j)" for j
    by (cases f) (simp add: gm_get_def)
  ultimately show ?case using Cons.IH [OF _ ok(1)] ok(2)
    by (auto simp: gm_has_def split: option.splits)
qed simp

lemma fieldSet_has: "gm_has (fieldSet names) k \<longleftrightarrow> k \<in> set names"
proof -
  have "gm_has (fold (\<lambda>k. gm_put k ()) names m) k \<longleftrightarrow> k \<in> set names \<or> gm_has m k" for m
    by (induction names arbitrary: m) auto
  then show ?thesis by (simp add: fieldSet_def goset_of_def)
qed

lemma putExtras_free:
  "(\<And>k. gm_has extras k \<Longrightarrow> \<not> gm_has known k) \<Longrightarrow> \<exists>raw'. putExtras known extras raw = Inr raw'"
proof (induction extras arbitrary: raw)
  case (Cons f extras)
  have "gm_has (f # extras) k" if "gm_has extras k \<or> k = fst f" for k
    using that by (cases f) (auto simp: gm_has_def gm_get_def)
  then have "\<not> gm_has known (fst f)" "\<And>k. gm_has extras k \<Longrightarrow> \<not> gm_has known k" using Cons.prems by blast+
  with Cons.IH show ?case by simp
qed simp

lemma extrasFrom_get:
  "js_Object js data = Some doc \<Longrightarrow>
   gm_get (extrasFrom js data (fieldSet names)) k = (if k \<in> set names then None else gm_get doc k)"
  by (simp add: extrasFrom_def gm_get_fold_del set_gm_keys fieldSet_has)

lemma gm_ok_fold_del: "gm_ok m \<Longrightarrow> gm_ok (fold gm_del ks m)"
  by (induction ks arbitrary: m) auto

lemma gm_has_some: "m \<noteq> [] \<Longrightarrow> \<exists>k. gm_has m k"
  by (cases m) (auto simp: gm_has_def gm_get_def)

text \<open>What the encoder of the library is given when the extras of a document are written back.\<close>

lemma extras_written:
  assumes "js_Object js data = Some doc" and "gm_ok doc" and "js_Object js plain = Some plainObject"
    and extras_def: "extras = extrasFrom js data (fieldSet names)"
  shows "if extras = [] then marshalWithExtras js (Some plain) extras (fieldSet names) = Inr plain
    else \<exists>obj. (\<forall>k. gm_get obj k = (if k \<notin> set names \<and> gm_has doc k then gm_get doc k else gm_get plainObject k)) \<and>
      marshalWithExtras js (Some plain) extras (fieldSet names) =
        (case js_MarshalObject js obj of None \<Rightarrow> Inl Malformed | Some out \<Rightarrow> Inr out)"
proof (cases "extras = []")
  case True
  then show ?thesis by (simp add: marshalWithExtras_def)
next
  case False
  have "gm_ok extras" using assms(1,2) by (simp add: extras_def extrasFrom_def gm_ok_fold_del)
  have get: "gm_get extras k = (if k \<in> set names then None else gm_get doc k)" for k
    unfolding extras_def by (rule extrasFrom_get [OF assms(1)])
  then have "\<not> gm_has (fieldSet names) k" if "gm_has extras k" for k
    using that get [of k] fieldSet_has [of names k] by (auto simp: gm_has_def split: if_splits)
  from putExtras_free [of extras, OF this] obtain obj where obj: "putExtras (fieldSet names) extras plainObject = Inr obj" by blast
  have "gm_get obj k = (if k \<notin> set names \<and> gm_has doc k then gm_get doc k else gm_get plainObject k)" for k
    using putExtras_get [OF obj \<open>gm_ok extras\<close>, of k] get [of k] by (auto simp: gm_has_def split: option.splits)
  moreover have "marshalWithExtras js (Some plain) extras (fieldSet names) =
      (case js_MarshalObject js obj of None \<Rightarrow> Inl Malformed | Some out \<Rightarrow> Inr out)"
    using False obj assms(3) by (simp add: marshalWithExtras_def ok_bind_def)
  ultimately show ?thesis using False by (simp only: if_False) blast
qed

text \<open>C33: The fields of a session document that the program does not know survive an edit. Reading a document keeps
  beside the session exactly the fields with other names, each with the text the library gave for it; writing any
  later version of the session hands the library's encoder one object in which every such field has that very text
  and every other field is that of the plain encoding of the session (which has to succeed and be an object), so nothing is lost, invented or overwritten and the
  encoding never fails because of a field that was read; without such fields the plain encoding is written.\<close>

theorem json_extras_kept:
  assumes "js_Object js data = Some doc" and "gm_ok doc"
    and "SessionUnmarshalJSON js decode data = Some s" and "se_Extra edited = se_Extra s"
    and "encode edited = Some plain" and "js_Object js plain = Some plainObject"
  shows "(\<forall>k. gm_get (se_Extra s) k = (if k \<in> set sessionFields then None else gm_get doc k)) \<and>
    (if \<exists>k. gm_has doc k \<and> k \<notin> set sessionFields
     then \<exists>obj. (\<forall>k. gm_get obj k =
            (if k \<notin> set sessionFields \<and> gm_has doc k then gm_get doc k else gm_get plainObject k)) \<and>
          SessionMarshalJSON js encode edited = (case js_MarshalObject js obj of None \<Rightarrow> Inl Malformed | Some out \<Rightarrow> Inr out)
     else SessionMarshalJSON js encode edited = Inr plain)"
proof -
  have s: "se_Extra s = extrasFrom js data (fieldSet sessionFields)" using assms(3) by (auto simp: SessionUnmarshalJSON_def)
  have get: "gm_get (se_Extra s) k = (if k \<in> set sessionFields then None else gm_get doc k)" for k
    unfolding s by (rule extrasFrom_get [OF assms(1)])
  have "se_Extra s = [] \<longleftrightarrow> \<not> (\<exists>k. gm_has doc k \<and> k \<notin> set sessionFields)"
  proof
    assume "se_Extra s = []"
    then show "\<not> (\<exists>k. gm_has doc k \<and> k \<notin> set sessionFields)" using get by (auto simp: gm_has_def split: if_splits) (metis option.discI)
  next
    assume none: "\<not> (\<exists>k. gm_has doc k \<and> k \<notin> set sessionFields)"
    have "\<not> gm_has (se_Extra s) k" for k using get [of k] none by (auto simp: gm_has_def split: if_splits)
    with gm_has_some [of "se_Extra s"] show "se_Extra s = []" by blast
  qed
  with extras_written [OF assms(1,2,6) refl, of sessionFields] get show ?thesis
    by (simp add: SessionMarshalJSON_def assms(4,5) s split: if_splits)
qed

text \<open>A JSON package that knows a few texts.\<close>

definition demo_json :: JSON where
  "demo_json =
     \<lparr>js_Object = (\<lambda>s. if s = ''{a,x}'' then Some [(''a'', ''1''), (''x'', ''2'')] else if s = ''{a}'' then Some [(''a'', ''1'')] else None),
      js_MarshalObject = (\<lambda>m. if m = [(''a'', ''1''), (''x'', ''2'')] then Some ''{a,x}'' else None),
      js_Int = (\<lambda>_. None), js_Bool = (\<lambda>_. None), js_AtEnd = (\<lambda>s. s = ''''),
      js_DecodeConfig = (\<lambda>s. if s = ''saved'' @ [CHR 0x0A]
        then Some (\<lparr>cw_Version = 1, cw_Name = ''Party'', cw_Roster = Some [\<lparr>rw_ID = ''vera'', rw_Name = ''Vera'', rw_Intelligence = '''',
          rw_HackerPerkAvailable = ''''\<rparr>]\<rparr>, '''') else None),
      js_MarshalConfig = (\<lambda>_. Some ''saved''), js_DecodeSession = (\<lambda>_. None), js_MarshalSession = (\<lambda>_. None)\<rparr>"

text \<open>Objects whose values are neither quoted nor nested, read and written as they stand.\<close>

fun splitFields :: "char \<Rightarrow> string \<Rightarrow> string list" where
  "splitFields c [] = [[]]"
| "splitFields c (x # xs) =
     (if x = c then [] # splitFields c xs
      else case splitFields c xs of [] \<Rightarrow> [[x]] | f # fs \<Rightarrow> (x # f) # fs)"

definition flatField :: "string \<Rightarrow> (string \<times> string) option" where
  "flatField f = (case splitFields (CHR '':'') f of [k, v] \<Rightarrow> Some (k, v) | _ \<Rightarrow> None)"

definition flatObject :: "string \<Rightarrow> (string, string) gomap option" where
  "flatObject s =
     (case s of
        c # rest \<Rightarrow>
          if c = CHR ''{'' \<and> rest \<noteq> [] \<and> last rest = CHR ''}''
          then foldr (\<lambda>f m. case (flatField f, m) of (Some (k, v), Some m) \<Rightarrow> Some (gm_put k v m) | _ \<Rightarrow> None)
            (splitFields (CHR '','') (butlast rest)) (Some [])
          else None
      | [] \<Rightarrow> None)"

definition flatMarshal :: "(string, string) gomap \<Rightarrow> string option" where
  "flatMarshal m =
     Some (''{'' @ join [CHR '',''] (map (\<lambda>k. k @ CHR '':'' # (case gm_get m k of None \<Rightarrow> [] | Some v \<Rightarrow> v)) (gm_keys m)) @ ''}'')"

definition flat_json :: JSON where
  "flat_json = demo_json\<lparr>js_Object := flatObject, js_MarshalObject := flatMarshal\<rparr>"

definition flat_session :: "string \<Rightarrow> Session option" where
  "flat_session data = map_option (\<lambda>m. \<lparr>se_Version = 1, se_Name = (case gm_get m ''name'' of None \<Rightarrow> [] | Some v \<Rightarrow> v),
     se_PlayerConfig = [], se_Terminals = None, se_TerminalGroups = [], se_Extra = []\<rparr>) (flatObject data)"

definition flat_plain :: "Session \<Rightarrow> string option" where
  "flat_plain s = Some (''{version:1,name:'' @ se_Name s @ ''}'')"

text \<open>A renamed session still has the field \<open>theme\<close> of the document it was read from.\<close>

lemma json_extras_kept_witness:
  "case flatObject ''{version:1,name:Old,theme:7}'' of None \<Rightarrow> False | Some doc \<Rightarrow>
    (case SessionUnmarshalJSON flat_json flat_session ''{version:1,name:Old,theme:7}'' of None \<Rightarrow> False | Some s \<Rightarrow>
      \<exists>obj. gm_get obj ''theme'' = Some ''7'' \<and> gm_get obj ''name'' = Some ''New'' \<and>
        SessionMarshalJSON flat_json flat_plain (s\<lparr>se_Name := ''New''\<rparr>) =
          (case flatMarshal obj of None \<Rightarrow> Inl Malformed | Some out \<Rightarrow> Inr out))"
proof -
  let ?data = "''{version:1,name:Old,theme:7}''" and ?plain = "''{version:1,name:New}''"
  let ?doc = "[(''theme'', ''7''), (''name'', ''Old''), (''version'', ''1'')]"
  have doc: "flatObject ?data = Some ?doc" and plain: "flatObject ?plain = Some [(''name'', ''New''), (''version'', ''1'')]"
    by code_simp+
  then obtain s where s: "SessionUnmarshalJSON flat_json flat_session ?data = Some s"
    by (simp add: SessionUnmarshalJSON_def flat_session_def)
  have js: "js_Object flat_json = flatObject" "js_MarshalObject flat_json = flatMarshal" by (simp_all add: flat_json_def)
  have "\<exists>k. gm_has ?doc k \<and> k \<notin> set sessionFields"
    by (rule exI [of _ "''theme''"]) (simp add: gm_has_def gm_get_def sessionFields_def)
  with json_extras_kept [of flat_json ?data ?doc flat_session s "s\<lparr>se_Name := ''New''\<rparr>" flat_plain ?plain
      "[(''name'', ''New''), (''version'', ''1'')]"] doc plain s
  obtain obj where obj: "\<forall>k. gm_get obj k = (if k \<notin> set sessionFields \<and> gm_has ?doc k then gm_get ?doc k
        else gm_get [(''name'', ''New''), (''version'', ''1'')] k)"
    "SessionMarshalJSON flat_json flat_plain (s\<lparr>se_Name := ''New''\<rparr>) =
      (case flatMarshal obj of None \<Rightarrow> Inl Malformed | Some out \<Rightarrow> Inr out)"
    by (auto simp: js gm_ok_def gm_keys_def flat_plain_def)
  then have "gm_get obj ''theme'' = Some ''7''" "gm_get obj ''name'' = Some ''New''"
    by (simp_all add: sessionFields_def gm_has_def gm_get_def)
  with doc s obj(2) show ?thesis by auto
qed

end
