(* ===== verification/GoPath.thy ===== *)
theory GoPath
  imports GoText
begin

text \<open>
  Slash paths as the package \<open>path/filepath\<close> of the Go standard library treats them: lexical cleaning, the
  directory, the last element and its extension, and joining.  A clean absolute path is the list of its
  elements.
\<close>

section \<open>Cleaning\<close>

text \<open>One element of a path: empty ones and dots vanish, two dots remove the element before them.\<close>

definition cleanStep :: "bool \<Rightarrow> string list \<Rightarrow> string \<Rightarrow> string list" where
  "cleanStep rooted done e =
     (if e = '''' \<or> e = ''.'' then done
      else if e = ''..''
      then (if done \<noteq> [] \<and> last done \<noteq> ''..'' then butlast done else if rooted then done else done @ [e])
      else done @ [e])"

definition isRooted :: "string \<Rightarrow> bool" where
  "isRooted p = (take 1 p = ''/'')"

definition cleanPath :: "string \<Rightarrow> string" where
  "cleanPath p =
     (let elements = foldl (cleanStep (isRooted p)) [] (split_on (CHR ''/'') p);
          body = join ''/'' elements
      in if isRooted p then ''/'' @ body else if body = '''' then ''.'' else body)"

definition pathSplit :: "string \<Rightarrow> string \<times> string" where
  "pathSplit p = (let elements = split_on (CHR ''/'') p in
     (concat (map (\<lambda>e. e @ ''/'') (butlast elements)), last elements))"

text \<open>\<open>filepath.Base\<close>, \<open>filepath.Dir\<close>, \<open>filepath.Join\<close> of two elements, \<open>filepath.Ext\<close>.\<close>

definition pathBase :: "string \<Rightarrow> string" where
  "pathBase p =
     (if p = '''' then ''.''
      else (let q = rev (dropWhile (\<lambda>c. c = CHR ''/'') (rev p)) in
            if q = '''' then ''/'' else snd (pathSplit q)))"

definition pathDir :: "Platform \<Rightarrow> string \<Rightarrow> string" where
  "pathDir pf p = pf_Clean pf (fst (pathSplit p))"

definition pathJoin :: "Platform \<Rightarrow> string \<Rightarrow> string \<Rightarrow> string" where
  "pathJoin pf a b =
     (if a = '''' then (if b = '''' then '''' else pf_Clean pf b)
      else pf_Clean pf (a @ ''/'' @ b))"

definition pathExt :: "string \<Rightarrow> string" where
  "pathExt p =
     (let name = snd (pathSplit p) in
      case index_byte name (CHR ''.'') of None \<Rightarrow> '''' | Some _ \<Rightarrow> ''.'' @ last (split_on (CHR ''.'') name))"

text \<open>\<open>strings.TrimSuffix\<close>.\<close>

definition trimSuffix :: "string \<Rightarrow> string \<Rightarrow> string" where
  "trimSuffix s suffix =
     (if length suffix \<le> length s \<and> drop (length s - length suffix) s = suffix
      then take (length s - length suffix) s else s)"

section \<open>Clean absolute paths\<close>

definition proper_element :: "string \<Rightarrow> bool" where
  "proper_element e = (e \<notin> {'''', ''.'', ''..''} \<and> CHR ''/'' \<notin> set e)"

definition rooted_path :: "string list \<Rightarrow> string" where
  "rooted_path es = ''/'' @ join ''/'' es"

lemma split_rooted:
  "list_all proper_element es \<Longrightarrow> split_on (CHR ''/'') (rooted_path es) = '''' # (if es = [] then [''''] else es)"
  using split_on_join [of es "CHR ''/''"] by (auto simp: rooted_path_def list_all_iff proper_element_def)

lemma isRooted_path [simp]: "isRooted (rooted_path es)"
  by (simp add: isRooted_def rooted_path_def)

lemma cleanStep_proper: "list_all proper_element es \<Longrightarrow> foldl (cleanStep r) d es = d @ es"
proof (induction es arbitrary: d)
  case (Cons e es)
  then have "cleanStep r d e = d @ [e]" by (simp add: cleanStep_def proper_element_def)
  with Cons show ?case by simp
qed simp

lemma cleanPath_rooted: "list_all proper_element es \<Longrightarrow> cleanPath (rooted_path es) = rooted_path es"
  using cleanStep_proper [of es True "[]"]
  by (simp add: cleanPath_def split_rooted) (simp add: cleanStep_def rooted_path_def)

lemma split_on_parts: "e \<in> set (split_on c s) \<Longrightarrow> c \<notin> set e"
proof (induction s arbitrary: e)
  case (Cons x s)
  then show ?case by (cases "split_on c s") (auto split: if_splits)
qed simp

text \<open>Cleaning a path that starts at the root gives a rooted path of proper elements.\<close>

lemma cleanPath_absolute:
  assumes "isRooted p"
  shows "\<exists>es. list_all proper_element es \<and> cleanPath p = rooted_path es"
proof -
  have "list_all proper_element d \<Longrightarrow> \<forall>e\<in>set xs. CHR ''/'' \<notin> set e \<Longrightarrow> list_all proper_element (foldl (cleanStep True) d xs)"
    for d xs
  proof (induction xs arbitrary: d)
    case (Cons e xs)
    have "list_all proper_element (cleanStep True d e)"
      using Cons.prems by (auto simp: cleanStep_def proper_element_def list_all_iff dest: in_set_butlastD)
    with Cons show ?case by simp
  qed simp
  from this [of "[]" "split_on (CHR ''/'') p"] split_on_parts show ?thesis
    using assms by (auto simp: cleanPath_def rooted_path_def Let_def)
qed

lemma join_snoc: "es \<noteq> [] \<Longrightarrow> join s (es @ [e]) = join s es @ s @ e"
  by (induction s es rule: join.induct) auto

lemma join_concat: "es \<noteq> [] \<Longrightarrow> concat (map (\<lambda>e. e @ s) es) = join s es @ s"
  by (induction s es rule: join.induct) auto

lemma pathSplit_rooted:
  assumes "list_all proper_element es" and "proper_element e"
  shows "pathSplit (rooted_path (es @ [e])) = (if es = [] then ''/'' else rooted_path es @ ''/'', e)"
proof -
  have "split_on (CHR ''/'') (rooted_path (es @ [e])) = '''' # (es @ [e])"
    using assms split_rooted [of "es @ [e]"] by simp
  then show ?thesis
    by (simp add: pathSplit_def butlast_append join_concat rooted_path_def)
qed

lemma rooted_slash: "list_all proper_element es \<Longrightarrow> cleanPath (rooted_path es @ ''/'') = rooted_path es"
proof -
  assume es: "list_all proper_element es"
  have "split_on (CHR ''/'') (x @ ''/'') = split_on (CHR ''/'') x @ ['''']" for x
  proof (induction x)
    case (Cons c x)
    then show ?case by (cases "split_on (CHR ''/'') x") auto
  qed simp
  moreover have "isRooted (rooted_path es @ ''/'')" by (simp add: isRooted_def rooted_path_def)
  ultimately show ?thesis
    using es cleanStep_proper [of es True "[]"]
    by (auto simp: cleanPath_def split_rooted Let_def) (simp_all add: cleanStep_def rooted_path_def)
qed

lemma pathDir_rooted:
  assumes "pf_Clean pf = cleanPath" and "list_all proper_element es" and "proper_element e"
  shows "pathDir pf (rooted_path (es @ [e])) = rooted_path es"
  using assms cleanPath_rooted [of "[]"] rooted_slash
  by (simp add: pathDir_def pathSplit_rooted) (simp add: rooted_path_def)

lemma pathBase_rooted:
  assumes "list_all proper_element es" and "proper_element e"
  shows "pathBase (rooted_path (es @ [e])) = e"
proof -
  let ?p = "rooted_path (es @ [e])"
  have e: "e \<noteq> ''''" using assms(2) by (simp add: proper_element_def)
  from last_in_set [OF this] assms(2) have "last e \<noteq> CHR ''/''" by (metis proper_element_def)
  note e = e this
  then have "last ?p \<noteq> CHR ''/''" "?p \<noteq> ''''"
    by (cases "es = []", simp_all add: rooted_path_def join_snoc last_append)
  then have "rev (dropWhile (\<lambda>c. c = CHR ''/'') (rev ?p)) = ?p" by (cases ?p rule: rev_cases) simp_all
  then show ?thesis using pathSplit_rooted [OF assms] \<open>?p \<noteq> ''''\<close> by (simp add: pathBase_def)
qed

lemma pathJoin_rooted:
  assumes "pf_Clean pf = cleanPath" and "list_all proper_element es" and "proper_element e"
  shows "pathJoin pf (rooted_path es) e = rooted_path (es @ [e])"
proof (cases "es = []")
  case True
  have "cleanPath (''//'' @ e) = rooted_path [e]"
    using assms(3) split_on_no_sep [of "CHR ''/''" e]
    by (simp add: cleanPath_def isRooted_def cleanStep_def proper_element_def rooted_path_def)
  with True assms(1) show ?thesis by (simp add: pathJoin_def rooted_path_def)
next
  case False
  then have "rooted_path es @ ''/'' @ e = rooted_path (es @ [e])" by (simp add: rooted_path_def join_snoc)
  then show ?thesis using assms cleanPath_rooted [of "es @ [e]"]
    by (simp add: pathJoin_def) (simp add: rooted_path_def)
qed

lemma rooted_path_inj:
  assumes "rooted_path es = rooted_path fs" and "list_all proper_element es" and "list_all proper_element fs"
  shows "es = fs"
proof -
  have "(if es = [] then [''''] else es) = (if fs = [] then [''''] else fs)"
    using split_rooted [OF assms(2)] split_rooted [OF assms(3)] assms(1) by simp
  then show ?thesis using assms(2,3) by (auto simp: proper_element_def split: if_splits)
qed

end
