(* ===== verification/Storage.thy ===== *)
theory Storage
  imports GoPath
begin

text \<open>
  Atomic replacement of files, \<open>internal/session/storage.go\<close> (the player-config storage delegates to it).
  The operations are computations over the state of a \<open>FileSystem\<close>; the operating-system implementation
  runs on a table of files and a list of faults, which says for every system call to come whether it
  succeeds.  The locale \<open>file_system\<close> is what the storage relies on, \<open>atomic_store\<close> what it promises.
\<close>

section \<open>Interfaces\<close>

datatype FileError = FileNotExist | FileExists | FileFault

record 'w FileSystem =
  fs_ReadFile :: "string \<Rightarrow> ('w, FileError + string) state"
  fs_WriteFile :: "string \<Rightarrow> string \<Rightarrow> ('w, FileError option) state"
  fs_Rename :: "string \<Rightarrow> string \<Rightarrow> ('w, FileError option) state"
  fs_Remove :: "string \<Rightarrow> ('w, FileError option) state"
  fs_MkdirAll :: "string \<Rightarrow> ('w, FileError option) state"

datatype StorageError =
  PathIsEmpty | PathIsNotFile | SamePath
| ReadFailed FileError | CreateDirectoryFailed FileError
| WriteTemporaryFailed FileError "FileError option" | ReplaceFailed FileError "FileError option"

text \<open>A \<open>Storage\<close> is its file system, the process identity, and the state of both with the sequence counter.\<close>

record 'w StorageState =
  sg_World :: 'w
  sg_Sequence :: "64 word"

record 'w Storage =
  sg_FileSystem :: "'w FileSystem"
  sg_Platform :: Platform
  sg_Getpid :: nat

definition onWorld :: "('w, 'a) state \<Rightarrow> ('w StorageState, 'a) state" where
  "onWorld m = State (\<lambda>s. case run_state m (sg_World s) of (a, w) \<Rightarrow> (a, s\<lparr>sg_World := w\<rparr>))"

text \<open>The boundary the services use: a document store over some state, \<open>Store\<close> of \<open>internal/session/service.go\<close>.\<close>

record 's Store =
  sr_Read :: "string \<Rightarrow> ('s, StorageError + string) state"
  sr_WriteAtomic :: "string \<Rightarrow> string \<Rightarrow> ('s, StorageError option) state"
  sr_CopyAtomic :: "string \<Rightarrow> string \<Rightarrow> ('s, StorageError option) state"

section \<open>Operations\<close>

definition validateFilePath :: "Platform \<Rightarrow> string \<Rightarrow> StorageError + string" where
  "validateFilePath pf path =
     (if path = '''' then Inl PathIsEmpty
      else (let cleaned = pf_Clean pf path in
            if cleaned = ''.'' \<or> cleaned = ''/'' then Inl PathIsNotFile else Inr cleaned))"

definition temporaryName :: "'w Storage \<Rightarrow> string \<Rightarrow> 64 word \<Rightarrow> string" where
  "temporaryName sg target n =
     ''.'' @ pathBase target @ ''.'' @ dec (sg_Getpid sg) @ ''.'' @ dec (unat n) @ ''.tmp''"

definition temporaryPath :: "'w Storage \<Rightarrow> string \<Rightarrow> ('w StorageState, string) state" where
  "temporaryPath sg target = do {
     State (\<lambda>s. ((), s\<lparr>sg_Sequence := sg_Sequence s + 1\<rparr>));
     n \<leftarrow> State (\<lambda>s. (sg_Sequence s, s));
     State_Monad.return (pathJoin (sg_Platform sg) (pathDir (sg_Platform sg) target) (temporaryName sg target n)) }"

definition removeTemporary :: "'w Storage \<Rightarrow> string \<Rightarrow> ('w StorageState, FileError option) state" where
  "removeTemporary sg path = do {
     err \<leftarrow> onWorld (fs_Remove (sg_FileSystem sg) path);
     State_Monad.return (if err = None \<or> err = Some FileNotExist then None else err) }"

definition ReadDocument :: "'w Storage \<Rightarrow> string \<Rightarrow> ('w StorageState, StorageError + string) state" where
  "ReadDocument sg path =
     (case validateFilePath (sg_Platform sg) path of
        Inl e \<Rightarrow> State_Monad.return (Inl e)
      | Inr path \<Rightarrow> do {
          r \<leftarrow> onWorld (fs_ReadFile (sg_FileSystem sg) path);
          State_Monad.return (map_sum ReadFailed id r) })"

definition WriteAtomic :: "'w Storage \<Rightarrow> string \<Rightarrow> string \<Rightarrow> ('w StorageState, StorageError option) state" where
  "WriteAtomic sg path data =
     (case validateFilePath (sg_Platform sg) path of
        Inl e \<Rightarrow> State_Monad.return (Some e)
      | Inr path \<Rightarrow> do {
          err \<leftarrow> onWorld (fs_MkdirAll (sg_FileSystem sg) (pathDir (sg_Platform sg) path));
          case err of
            Some e \<Rightarrow> State_Monad.return (Some (CreateDirectoryFailed e))
          | None \<Rightarrow> do {
              temporary \<leftarrow> temporaryPath sg path;
              err \<leftarrow> onWorld (fs_WriteFile (sg_FileSystem sg) temporary data);
              case err of
                Some e \<Rightarrow> do {
                  cleanup \<leftarrow> removeTemporary sg temporary;
                  State_Monad.return (Some (WriteTemporaryFailed e cleanup)) }
              | None \<Rightarrow> do {
                  err \<leftarrow> onWorld (fs_Rename (sg_FileSystem sg) temporary path);
                  case err of
                    Some e \<Rightarrow> do {
                      cleanup \<leftarrow> removeTemporary sg temporary;
                      State_Monad.return (Some (ReplaceFailed e cleanup)) }
                  | None \<Rightarrow> State_Monad.return None } } })"

definition CopyAtomic :: "'w Storage \<Rightarrow> string \<Rightarrow> string \<Rightarrow> ('w StorageState, StorageError option) state" where
  "CopyAtomic sg source destination =
     (case validateFilePath (sg_Platform sg) source of
        Inl e \<Rightarrow> State_Monad.return (Some e)
      | Inr source \<Rightarrow>
         (case validateFilePath (sg_Platform sg) destination of
            Inl e \<Rightarrow> State_Monad.return (Some e)
          | Inr destination \<Rightarrow>
              if source = destination then State_Monad.return (Some SamePath)
              else do {
                r \<leftarrow> onWorld (fs_ReadFile (sg_FileSystem sg) source);
                case r of
                  Inl e \<Rightarrow> State_Monad.return (Some (ReadFailed e))
                | Inr data \<Rightarrow> WriteAtomic sg destination data }))"

definition NewStorage :: "'w Storage \<Rightarrow> 'w StorageState Store" where
  "NewStorage sg = \<lparr>sr_Read = ReadDocument sg, sr_WriteAtomic = WriteAtomic sg, sr_CopyAtomic = CopyAtomic sg\<rparr>"

section \<open>The operating system\<close>

text \<open>
  The calls of package \<open>os\<close>.  Every call takes the next entry of the fault list: \<open>None\<close> (or no entry left) lets
  it succeed, \<open>Some k\<close> makes it fail, a \<open>Write\<close> after \<open>k\<close> bytes.  Directories are not part of the table.
\<close>

record OperatingSystem =
  os_Files :: "(string, string) gomap"
  os_Faults :: "nat option list"

definition osCall :: "(nat option \<Rightarrow> (string, string) gomap \<Rightarrow> 'a \<times> (string, string) gomap) \<Rightarrow> (OperatingSystem, 'a) state" where
  "osCall f = State (\<lambda>os. case f (case os_Faults os of [] \<Rightarrow> None | x # _ \<Rightarrow> x) (os_Files os) of
     (a, files) \<Rightarrow> (a, \<lparr>os_Files = files, os_Faults = tl (os_Faults os)\<rparr>))"

definition osReadFile :: "string \<Rightarrow> (OperatingSystem, FileError + string) state" where
  "osReadFile path = osCall (\<lambda>fault files.
     (if fault \<noteq> None then Inl FileFault
      else case gm_get files path of None \<Rightarrow> Inl FileNotExist | Some d \<Rightarrow> Inr d, files))"

definition osOpenExclusive :: "string \<Rightarrow> (OperatingSystem, FileError option) state" where
  "osOpenExclusive path = osCall (\<lambda>fault files.
     if fault \<noteq> None then (Some FileFault, files)
     else if gm_has files path then (Some FileExists, files)
     else (None, gm_put path '''' files))"

definition osAppend :: "string \<Rightarrow> string \<Rightarrow> (OperatingSystem, FileError option) state" where
  "osAppend path data = osCall (\<lambda>fault files.
     (map_option (\<lambda>_. FileFault) fault,
      gm_put path ((case gm_get files path of None \<Rightarrow> '''' | Some d \<Rightarrow> d) @ (case fault of None \<Rightarrow> data | Some k \<Rightarrow> take k data)) files))"

definition osOther :: "(OperatingSystem, FileError option) state" where
  "osOther = osCall (\<lambda>fault files. (map_option (\<lambda>_. FileFault) fault, files))"

text \<open>\<open>osFileSystem.WriteFile\<close>: exclusive creation, write, sync unless the write failed, close always.\<close>

definition osWriteFile :: "string \<Rightarrow> string \<Rightarrow> (OperatingSystem, FileError option) state" where
  "osWriteFile path data = do {
     err \<leftarrow> osOpenExclusive path;
     case err of
       Some e \<Rightarrow> State_Monad.return (Some e)
     | None \<Rightarrow> do {
         writeErr \<leftarrow> osAppend path data;
         writeErr \<leftarrow> (case writeErr of None \<Rightarrow> osOther | Some e \<Rightarrow> State_Monad.return (Some e));
         closeErr \<leftarrow> osOther;
         State_Monad.return (case writeErr of Some e \<Rightarrow> Some e | None \<Rightarrow> closeErr) } }"

definition osRename :: "string \<Rightarrow> string \<Rightarrow> (OperatingSystem, FileError option) state" where
  "osRename oldPath newPath = osCall (\<lambda>fault files.
     if fault \<noteq> None then (Some FileFault, files)
     else case gm_get files oldPath of
       None \<Rightarrow> (Some FileNotExist, files)
     | Some d \<Rightarrow> (None, gm_put newPath d (gm_del oldPath files)))"

definition osRemove :: "string \<Rightarrow> (OperatingSystem, FileError option) state" where
  "osRemove path = osCall (\<lambda>fault files.
     if fault \<noteq> None then (Some FileFault, files)
     else if gm_has files path then (None, gm_del path files) else (Some FileNotExist, files))"

definition osFileSystem :: "OperatingSystem FileSystem" where
  "osFileSystem =
     \<lparr>fs_ReadFile = osReadFile, fs_WriteFile = osWriteFile, fs_Rename = osRename, fs_Remove = osRemove,
      fs_MkdirAll = (\<lambda>_. osOther)\<rparr>"

section \<open>What the storage relies on\<close>

locale file_system =
  fixes fs :: "'w FileSystem" and content :: "'w \<Rightarrow> string \<Rightarrow> string option"
  assumes read_keeps: "run_state (fs_ReadFile fs p) w = (answer, w') \<Longrightarrow> content w' = content w"
    and read_data: "run_state (fs_ReadFile fs p) w = (Inr d, w') \<Longrightarrow> content w p = Some d"
    and write_other: "run_state (fs_WriteFile fs p d) w = (r, w') \<Longrightarrow> q \<noteq> p \<Longrightarrow> content w' q = content w q"
    and write_data: "run_state (fs_WriteFile fs p d) w = (None, w') \<Longrightarrow> content w' p = Some d"
    and rename_done: "run_state (fs_Rename fs p q) w = (None, w') \<Longrightarrow> p \<noteq> q \<Longrightarrow>
      content w' = (content w)(q := content w p, p := None)"
    and rename_failed: "run_state (fs_Rename fs p q) w = (Some e, w') \<Longrightarrow> content w' = content w"
    and remove_other: "run_state (fs_Remove fs p) w = (r, w') \<Longrightarrow> q \<noteq> p \<Longrightarrow> content w' q = content w q"
    and mkdir_keeps: "run_state (fs_MkdirAll fs p) w = (r, w') \<Longrightarrow> content w' = content w"
begin

lemma onWorld_run: "run_state (onWorld m) s = (a, s') \<longleftrightarrow>
    (\<exists>w. run_state m (sg_World s) = (a, w) \<and> s' = s\<lparr>sg_World := w\<rparr>)"
  by (cases "run_state m (sg_World s)") (auto simp: onWorld_def)

lemma removeTemporary_other:
  assumes "run_state (removeTemporary sg p) s = (r, s')" and "sg_FileSystem sg = fs" and "q \<noteq> p"
  shows "content (sg_World s') q = content (sg_World s) q"
proof -
  from assms(1,2) obtain e w where "run_state (fs_Remove fs p) (sg_World s) = (e, w)" "s' = s\<lparr>sg_World := w\<rparr>"
    by (cases "run_state (fs_Remove fs p) (sg_World s)") (auto simp: removeTemporary_def onWorld_def State_Monad.return_def)
  with remove_other [OF this(1) assms(3)] show ?thesis by simp
qed

text \<open>Replacing a document: done completely, or the document is as it was; only the temporary file may be left.\<close>

lemma WriteAtomic_effect:
  assumes run: "run_state (WriteAtomic sg path data) s = (r, s')" and sg: "sg_FileSystem sg = fs"
    and path: "validateFilePath (sg_Platform sg) path = Inr target"
    and tmp: "tmp = pathJoin (sg_Platform sg) (pathDir (sg_Platform sg) target)
      (temporaryName sg target (sg_Sequence s + 1))" and ne: "tmp \<noteq> target"
  shows "content (sg_World s') target = (if r = None then Some data else content (sg_World s) target)"
    and "q \<noteq> target \<Longrightarrow> q \<noteq> tmp \<Longrightarrow> content (sg_World s') q = content (sg_World s) q"
proof -
  obtain e w where mk: "run_state (fs_MkdirAll fs (pathDir (sg_Platform sg) target)) (sg_World s) = (e, w)" by fastforce
  note keep = mkdir_keeps [OF mk]
  have "content (sg_World s') target = (if r = None then Some data else content (sg_World s) target) \<and>
      (q \<noteq> target \<longrightarrow> q \<noteq> tmp \<longrightarrow> content (sg_World s') q = content (sg_World s) q)" for q
  proof (cases e)
    case (Some x)
    with run mk sg path have "r \<noteq> None" "sg_World s' = w"
      by (auto simp: WriteAtomic_def onWorld_def State_Monad.return_def)
    with keep show ?thesis by auto
  next
    case None
    let ?s = "s\<lparr>sg_World := w, sg_Sequence := sg_Sequence s + 1\<rparr>"
    have temp: "run_state (temporaryPath sg target) (s\<lparr>sg_World := w\<rparr>) = (tmp, ?s)"
      by (simp add: temporaryPath_def State_Monad.return_def tmp)
    obtain e1 w1 where wr: "run_state (fs_WriteFile fs tmp data) w = (e1, w1)" by fastforce
    note other = write_other [OF wr]
    show ?thesis
    proof (cases e1)
      case (Some x)
      obtain c s2 where cl: "run_state (removeTemporary sg tmp) (?s\<lparr>sg_World := w1\<rparr>) = (c, s2)" by fastforce
      from run mk sg path None temp wr Some cl have "r \<noteq> None" "s' = s2"
        by (auto simp: WriteAtomic_def onWorld_def State_Monad.return_def)
      with removeTemporary_other [OF cl sg] other keep ne show ?thesis by auto
    next
      case none: None
      obtain e2 w2 where re: "run_state (fs_Rename fs tmp target) w1 = (e2, w2)" by fastforce
      show ?thesis
      proof (cases e2)
        case (Some x)
        obtain c s2 where cl: "run_state (removeTemporary sg tmp) (?s\<lparr>sg_World := w2\<rparr>) = (c, s2)" by fastforce
        from run mk sg path None temp wr none re Some cl have "r \<noteq> None" "s' = s2"
          by (auto simp: WriteAtomic_def onWorld_def State_Monad.return_def)
        with removeTemporary_other [OF cl sg] rename_failed [OF re [unfolded Some]] other keep ne show ?thesis by auto
      next
        case renamed: None
        from run mk sg path None temp wr none re renamed have "r = None" "s' = ?s\<lparr>sg_World := w2\<rparr>"
          by (auto simp: WriteAtomic_def onWorld_def State_Monad.return_def)
        with rename_done [OF re [unfolded renamed] ne] write_data [OF wr [unfolded none]] other keep ne show ?thesis by simp
      qed
    qed
  qed
  then show "content (sg_World s') target = (if r = None then Some data else content (sg_World s) target)"
    and "q \<noteq> target \<Longrightarrow> q \<noteq> tmp \<Longrightarrow> content (sg_World s') q = content (sg_World s) q" by blast+
qed

lemma WriteAtomic_refused:
  "run_state (WriteAtomic sg path data) s = (r, s') \<Longrightarrow> validateFilePath (sg_Platform sg) path = Inl e \<Longrightarrow> r = Some e \<and> s' = s"
  by (simp add: WriteAtomic_def State_Monad.return_def)

lemma ReadDocument_effect:
  assumes "run_state (ReadDocument sg path) s = (r, s')" and "sg_FileSystem sg = fs"
  shows "content (sg_World s') = content (sg_World s)"
    and "validateFilePath (sg_Platform sg) path = Inr target \<Longrightarrow> r = Inr d \<Longrightarrow> content (sg_World s) target = Some d"
proof -
  have *: "content (sg_World s') = content (sg_World s) \<and>
      (\<forall>target d. validateFilePath (sg_Platform sg) path = Inr target \<longrightarrow> r = Inr d \<longrightarrow> content (sg_World s) target = Some d)"
  proof (cases "validateFilePath (sg_Platform sg) path")
    case (Inl e)
    with assms show ?thesis by (auto simp: ReadDocument_def State_Monad.return_def)
  next
    case (Inr p)
    obtain x w where rd: "run_state (fs_ReadFile fs p) (sg_World s) = (x, w)" by fastforce
    with assms Inr have "r = map_sum ReadFailed id x" "s' = s\<lparr>sg_World := w\<rparr>"
      by (auto simp: ReadDocument_def onWorld_def State_Monad.return_def)
    with read_keeps [OF rd] read_data [of p "sg_World s" _ w] rd Inr show ?thesis by (cases x) auto
  qed
  then show "content (sg_World s') = content (sg_World s)"
    and "validateFilePath (sg_Platform sg) path = Inr target \<Longrightarrow> r = Inr d \<Longrightarrow> content (sg_World s) target = Some d" by blast+
qed

end

section \<open>The operating system provides it\<close>

lemma osCall_run: "run_state (osCall f) os = (a, os') \<longleftrightarrow>
    (\<exists>files. f (case os_Faults os of [] \<Rightarrow> None | x # _ \<Rightarrow> x) (os_Files os) = (a, files) \<and>
      os' = \<lparr>os_Files = files, os_Faults = tl (os_Faults os)\<rparr>)"
  by (auto simp: osCall_def split: prod.splits)

lemma osOther_run: "run_state osOther os = (a, os') \<Longrightarrow> os_Files os' = os_Files os"
  by (auto simp: osOther_def osCall_run)

interpretation os: file_system osFileSystem "\<lambda>os. gm_get (os_Files os)"
proof (unfold_locales, goal_cases)
  case (1 p w r w')
  then show ?case by (auto simp: osFileSystem_def osReadFile_def osCall_run)
next
  case (2 p w d w')
  then show ?case by (auto simp: osFileSystem_def osReadFile_def osCall_run split: if_splits option.splits)
next
  case (3 p d w r w' q)
  then show ?case
    by (auto simp: osFileSystem_def osWriteFile_def osOpenExclusive_def osAppend_def osOther_def osCall_def State_Monad.return_def
      split: if_splits option.splits prod.splits list.splits)
next
  case (4 p d w w')
  then show ?case
    by (auto simp: osFileSystem_def osWriteFile_def osOpenExclusive_def osAppend_def osOther_def osCall_def State_Monad.return_def
      split: if_splits option.splits prod.splits list.splits)
next
  case (5 p q w w')
  then show ?case by (auto simp: osFileSystem_def osRename_def osCall_run fun_eq_iff split: if_splits option.splits)
next
  case (6 p q w e w')
  then show ?case by (auto simp: osFileSystem_def osRename_def osCall_run split: if_splits option.splits)
next
  case (7 p w r w' q)
  then show ?case by (auto simp: osFileSystem_def osRemove_def osCall_run split: if_splits)
next
  case (8 p w r w')
  then show ?case by (simp add: osFileSystem_def osOther_run)
qed

section \<open>Temporary files\<close>

definition scratch_name :: "string \<Rightarrow> bool" where
  "scratch_name n = (take 1 n = ''.'' \<and> take 4 (rev n) = ''pmt.'')"

lemma temporaryName_scratch: "scratch_name (temporaryName sg t n)"
  by (simp add: scratch_name_def temporaryName_def)

lemma temporaryName_proper:
  assumes "proper_element (pathBase t)"
  shows "proper_element (temporaryName sg t n)"
proof -
  have digits: "CHR ''/'' \<notin> set (dec k)" for k
    using dec_bytes [of "CHR ''/''" k] by (auto simp: byte_val_def)
  show ?thesis using assms digits by (simp add: proper_element_def temporaryName_def)
qed

lemma validate_rooted:
  assumes "pf_Clean pf = cleanPath" and "isRooted path" and "validateFilePath pf path = Inr target"
  obtains es e where "list_all proper_element es" and "proper_element e" and "target = rooted_path (es @ [e])"
proof -
  from cleanPath_absolute [OF assms(2)] obtain fs where fs: "list_all proper_element fs" "cleanPath path = rooted_path fs" by blast
  with assms(1,3) have "target = rooted_path fs" "rooted_path fs \<noteq> ''/''"
    by (auto simp: validateFilePath_def Let_def split: if_splits)
  then have "fs \<noteq> []" by (auto simp: rooted_path_def)
  with fs that [of "butlast fs" "last fs"] \<open>target = rooted_path fs\<close> show ?thesis
    by (metis append_butlast_last_id list_all_append list.pred_inject(2))
qed

lemma temporary_apart:
  assumes "pf_Clean (sg_Platform sg) = cleanPath" and "list_all proper_element es" and "proper_element e"
  shows "pathJoin (sg_Platform sg) (pathDir (sg_Platform sg) (rooted_path (es @ [e])))
      (temporaryName sg (rooted_path (es @ [e])) n) = rooted_path (es @ [temporaryName sg (rooted_path (es @ [e])) n])"
    and "rooted_path (es @ [temporaryName sg (rooted_path (es @ [e])) n]) \<noteq> rooted_path (es @ [e])"
proof -
  have base: "pathBase (rooted_path (es @ [e])) = e" using assms by (simp add: pathBase_rooted)
  have p: "proper_element (temporaryName sg (rooted_path (es @ [e])) n)"
    using assms(3) base by (simp add: temporaryName_proper)
  show "pathJoin (sg_Platform sg) (pathDir (sg_Platform sg) (rooted_path (es @ [e])))
      (temporaryName sg (rooted_path (es @ [e])) n) = rooted_path (es @ [temporaryName sg (rooted_path (es @ [e])) n])"
    using assms p by (simp add: pathDir_rooted pathJoin_rooted)
  have "temporaryName sg (rooted_path (es @ [e])) n \<noteq> e"
    by (rule notI, drule arg_cong [where f = size]) (simp add: temporaryName_def base)
  with rooted_path_inj [of "es @ [temporaryName sg (rooted_path (es @ [e])) n]" "es @ [e]"] assms p
  show "rooted_path (es @ [temporaryName sg (rooted_path (es @ [e])) n]) \<noteq> rooted_path (es @ [e])" by auto
qed

text \<open>A platform with slash paths; the remaining library functions stay open.\<close>

definition slashPlatform :: "(string \<Rightarrow> string) \<Rightarrow> (string \<Rightarrow> bool) \<Rightarrow> Platform" where
  "slashPlatform lower json =
     \<lparr>pf_IsAbs = isRooted, pf_Clean = cleanPath, pf_ToLower = lower, pf_JSONValid = json\<rparr>"

definition osStorage :: "(string \<Rightarrow> string) \<Rightarrow> (string \<Rightarrow> bool) \<Rightarrow> nat \<Rightarrow> OperatingSystem Storage" where
  "osStorage lower json pid =
     \<lparr>sg_FileSystem = osFileSystem, sg_Platform = slashPlatform lower json, sg_Getpid = pid\<rparr>"

lemma osStorage_simps [simp]:
  "sg_FileSystem (osStorage lower json pid) = osFileSystem" "pf_Clean (sg_Platform (osStorage lower json pid)) = cleanPath"
  by (simp_all add: osStorage_def slashPlatform_def)

section \<open>What the storage promises\<close>

text \<open>
  The documents of a store are read and replaced through paths; two paths may mean the same document.
  \<open>document p\<close> singles out the paths the store is used with.
\<close>

locale atomic_store =
  fixes read :: "string \<Rightarrow> ('s, StorageError + string) state"
    and "write" :: "string \<Rightarrow> string \<Rightarrow> ('s, StorageError option) state"
    and stored :: "'s \<Rightarrow> string \<Rightarrow> string option"
    and same :: "string \<Rightarrow> string \<Rightarrow> bool"
    and document :: "string \<Rightarrow> bool"
  assumes same_refl: "same p p"
    and read_keeps: "run_state (read p) s = (answer, s') \<Longrightarrow> stored s' q = stored s q"
    and read_data: "document p \<Longrightarrow> run_state (read p) s = (Inr d, s') \<Longrightarrow> stored s p = Some d"
    and write_same: "document p \<Longrightarrow> run_state (write p d) s = (r, s') \<Longrightarrow>
      stored s' p = (if r = None then Some d else stored s p)"
    and write_other: "document p \<Longrightarrow> document q \<Longrightarrow> \<not> same p q \<Longrightarrow> run_state (write p d) s = (r, s') \<Longrightarrow>
      stored s' q = stored s q"
begin

lemma read_after_write:
  assumes "document p" and "run_state (write p d) s = (None, s')" and "run_state (read p) s' = (Inr c, s'')"
  shows "c = d"
  using write_same [OF assms(1,2)] read_data [OF assms(1,3)] by simp

lemma failed_write:
  assumes "document p" and "document q" and "run_state (write p d) s = (Some e, s')" and "same p q \<Longrightarrow> p = q"
  shows "stored s' q = stored s q"
  using assms write_same [OF assms(1,3)] write_other [OF assms(1,2) _ assms(3)] by (cases "same p q") auto

end

definition osDocument :: "string \<Rightarrow> bool" where
  "osDocument p = (isRooted p \<and> cleanPath p \<noteq> ''/'' \<and> \<not> scratch_name (pathBase (cleanPath p)))"

definition osStored :: "OperatingSystem StorageState \<Rightarrow> string \<Rightarrow> string option" where
  "osStored s p = gm_get (os_Files (sg_World s)) (cleanPath p)"

lemma osDocument_path:
  assumes "osDocument p"
  obtains es e where "list_all proper_element es" and "proper_element e" and "cleanPath p = rooted_path (es @ [e])"
    and "validateFilePath (sg_Platform (osStorage lower json pid)) p = Inr (rooted_path (es @ [e]))" and "\<not> scratch_name e"
proof -
  from assms have root: "isRooted p" by (simp add: osDocument_def)
  from cleanPath_absolute [OF this] have "cleanPath p \<noteq> ''.''" by (auto simp: rooted_path_def)
  with assms have ok: "validateFilePath (sg_Platform (osStorage lower json pid)) p = Inr (cleanPath p)"
    by (auto simp: osDocument_def validateFilePath_def isRooted_def)
  from validate_rooted [OF _ root ok] obtain es e where
    p: "list_all proper_element es" "proper_element e" "cleanPath p = rooted_path (es @ [e])" by auto
  with assms have "\<not> scratch_name e" by (simp add: osDocument_def pathBase_rooted)
  with p ok that [of es e] show ?thesis by simp
qed

interpretation osStore: atomic_store
  "ReadDocument (osStorage lower json pid)" "WriteAtomic (osStorage lower json pid)" osStored
  "\<lambda>p q. cleanPath p = cleanPath q" osDocument
  for lower json pid
proof (unfold_locales, goal_cases)
  case (1 p)
  then show ?case by simp
next
  case (2 p s answer s' q)
  from os.ReadDocument_effect(1) [OF this] show ?case by (simp add: osStored_def)
next
  case (3 p s d s')
  from 3(1) obtain es e where "validateFilePath (sg_Platform (osStorage lower json pid)) p = Inr (rooted_path (es @ [e]))"
      "cleanPath p = rooted_path (es @ [e])" by (rule osDocument_path)
  with os.ReadDocument_effect(2) [OF 3(2)] show ?case by (simp add: osStored_def)
next
  case (4 p d s r s')
  from 4(1) obtain es e where p: "list_all proper_element es" "proper_element e" "cleanPath p = rooted_path (es @ [e])"
    "validateFilePath (sg_Platform (osStorage lower json pid)) p = Inr (rooted_path (es @ [e]))" by (rule osDocument_path)
  note t = temporary_apart [OF osStorage_simps(2) p(1,2)]
  from os.WriteAtomic_effect(1) [OF 4(2) osStorage_simps(1) p(4) t(1) [symmetric] t(2)] p(3)
  show ?case by (simp add: osStored_def)
next
  case (5 p q d s r s')
  from 5(1) obtain es e where p: "list_all proper_element es" "proper_element e" "cleanPath p = rooted_path (es @ [e])"
    "validateFilePath (sg_Platform (osStorage lower json pid)) p = Inr (rooted_path (es @ [e]))" by (rule osDocument_path)
  from 5(2) obtain fs f where q: "list_all proper_element fs" "proper_element f" "cleanPath q = rooted_path (fs @ [f])"
    "\<not> scratch_name f" by (rule osDocument_path)
  note t = temporary_apart [OF osStorage_simps(2) p(1,2)]
  let ?n = "temporaryName (osStorage lower json pid) (rooted_path (es @ [e])) (sg_Sequence s + 1)"
  have "pathBase (rooted_path (es @ [?n])) = ?n"
    using p by (simp add: pathBase_rooted temporaryName_proper)
  then have "cleanPath q \<noteq> rooted_path (es @ [?n])"
    using q temporaryName_scratch pathBase_rooted [OF q(1,2)] by metis
  with os.WriteAtomic_effect(2) [OF 5(4) osStorage_simps(1) p(4) t(1) [symmetric] t(2), of "cleanPath q"] 5(3) p(3)
  show ?case by (simp add: osStored_def)
qed

section \<open>Replacing a document\<close>

text \<open>Without faults, and with the temporary name free, the replacement succeeds.\<close>

lemma WriteAtomic_succeeds:
  assumes run: "run_state (WriteAtomic sg path data) s = (r, s')" and sg: "sg_FileSystem sg = osFileSystem"
    and path: "validateFilePath (sg_Platform sg) path = Inr target"
    and free: "\<not> gm_has (os_Files (sg_World s)) (pathJoin (sg_Platform sg) (pathDir (sg_Platform sg) target)
      (temporaryName sg target (sg_Sequence s + 1)))"
    and calm: "os_Faults (sg_World s) = []"
  shows "r = None"
  using run free calm
  by (simp add: WriteAtomic_def path sg osFileSystem_def onWorld_def osOther_def osCall_def temporaryPath_def osWriteFile_def
    osOpenExclusive_def osAppend_def osRename_def State_Monad.return_def gm_has_iff)

text \<open>C32: Replacing a document on the operating system is atomic whatever system calls fail: a reported success
  means the document now has the new content, a reported error means it still has the old one, and no
  other document changes either way; when no call fails and the temporary name is free, it succeeds.\<close>

theorem storage_write_atomic:
  assumes "osDocument path" and "osDocument q" and "run_state (WriteAtomic (osStorage lower json pid) path data) s = (r, s')"
  shows "osStored s' path = (if r = None then Some data else osStored s path) \<and>
    (cleanPath path \<noteq> cleanPath q \<longrightarrow> osStored s' q = osStored s q) \<and>
    (os_Faults (sg_World s) = [] \<and>
      \<not> gm_has (os_Files (sg_World s)) (pathJoin (slashPlatform lower json) (pathDir (slashPlatform lower json) (cleanPath path))
        (temporaryName (osStorage lower json pid) (cleanPath path) (sg_Sequence s + 1))) \<longrightarrow> r = None)"
proof -
  have platform: "sg_Platform (osStorage lower json pid) = slashPlatform lower json" by (simp add: osStorage_def)
  from assms(1) obtain es e where
    "validateFilePath (sg_Platform (osStorage lower json pid)) path = Inr (cleanPath path)"
    by (metis osDocument_path)
  from WriteAtomic_succeeds [OF assms(3) osStorage_simps(1) this]
    osStore.write_same [OF assms(1,3)] osStore.write_other [OF assms(1,2) _ assms(3)]
  show ?thesis by (simp add: platform)
qed

definition demo_disk :: "nat option list \<Rightarrow> OperatingSystem StorageState" where
  "demo_disk faults = \<lparr>sg_World = \<lparr>os_Files = [(''/d/s.json'', ''old''), (''/d/t.json'', ''other'')], os_Faults = faults\<rparr>, sg_Sequence = 0\<rparr>"

text \<open>A write that fails after one byte, on the second call.\<close>

lemma storage_write_atomic_witness:
  "osStored (snd (run_state (WriteAtomic (osStorage id (\<lambda>_. True) 7) ''/d/s.json'' ''new'') (demo_disk [None, None, Some 1]))) ''/d/s.json''
    = Some ''old''"
proof -
  let ?run = "run_state (WriteAtomic (osStorage id (\<lambda>_. True) 7) ''/d/s.json'' ''new'') (demo_disk [None, None, Some 1])"
  have d: "osDocument ''/d/s.json''" by code_simp
  have "fst ?run \<noteq> None \<and> osStored (demo_disk [None, None, Some 1]) ''/d/s.json'' = Some ''old''" by code_simp
  with storage_write_atomic [OF d d, of id "\<lambda>_. True" 7 "''new''" "demo_disk [None, None, Some 1]" "fst ?run" "snd ?run"]
  show ?thesis by simp
qed

end
