(* ===== verification/PlayerConfig.thy ===== *)
theory PlayerConfig
  imports DomainJSON Storage
begin

text \<open>
  The player-config service, \<open>internal/playerconfig\<close>: the contract with its protobuf message, creation and
  strict loading of authored rosters, and the conditional save the coordinator performs before it commits a
  roster change.  Dialogs and the context are computations over the same state as the store.
\<close>

section \<open>The contract\<close>

text \<open>A nil entry of the message reads as the zero entry with the legacy defaults.\<close>

record ProtoRosterEntry =
  pe_Id :: string
  pe_Name :: string
  pe_Intelligence :: "32 word option"
  pe_HackerPerkAvailable :: "bool option"

record ProtoPlayerConfig =
  pp_Version :: "32 word"
  pp_Name :: string
  pp_Roster :: "ProtoRosterEntry option list"

datatype ConfigError = ConfigRequired | InvalidConfig ValidationError

definition PlayerConfigToProto :: "PlayerConfig \<Rightarrow> ConfigError + ProtoPlayerConfig" where
  "PlayerConfigToProto v =
     (case ValidatePlayerConfig v of
        Some e \<Rightarrow> Inl (InvalidConfig e)
      | None \<Rightarrow> Inr \<lparr>pp_Version = word_of_int (pc_Version v), pp_Name = pc_Name v,
          pp_Roster = map (\<lambda>entry. Some \<lparr>pe_Id = cr_ID entry, pe_Name = cr_Name entry,
              pe_Intelligence = Some (word_of_int (cr_Intelligence entry)),
              pe_HackerPerkAvailable = Some (cr_HackerPerkAvailable entry)\<rparr>)
            (case pc_Roster v of None \<Rightarrow> [] | Some roster \<Rightarrow> roster)\<rparr>)"

definition rosterEntryFromProto :: "ProtoRosterEntry option \<Rightarrow> CharacterRosterEntry" where
  "rosterEntryFromProto entry =
     (case entry of
        None \<Rightarrow> \<lparr>cr_ID = '''', cr_Name = '''', cr_Intelligence = 1, cr_HackerPerkAvailable = False\<rparr>
      | Some e \<Rightarrow> \<lparr>cr_ID = pe_Id e, cr_Name = pe_Name e,
          cr_Intelligence = (case pe_Intelligence e of None \<Rightarrow> 1 | Some i \<Rightarrow> sint i),
          cr_HackerPerkAvailable = (case pe_HackerPerkAvailable e of None \<Rightarrow> False | Some b \<Rightarrow> b)\<rparr>)"

definition PlayerConfigFromProto :: "ProtoPlayerConfig option \<Rightarrow> ConfigError + PlayerConfig" where
  "PlayerConfigFromProto v =
     (case v of
        None \<Rightarrow> Inl ConfigRequired
      | Some v \<Rightarrow>
          (let result = \<lparr>pc_Version = sint (pp_Version v), pc_Name = pp_Name v,
                 pc_Roster = Some (map rosterEntryFromProto (pp_Roster v))\<rparr>
           in case ValidatePlayerConfig result of Some e \<Rightarrow> Inl (InvalidConfig e) | None \<Rightarrow> Inr result))"

definition verifyPlayerConfigContract :: "PlayerConfig \<Rightarrow> ConfigError option" where
  "verifyPlayerConfigContract v =
     (case PlayerConfigToProto v of
        Inl e \<Rightarrow> Some e
      | Inr message \<Rightarrow> (case PlayerConfigFromProto (Some message) of Inl e \<Rightarrow> Some e | Inr _ \<Rightarrow> None))"

section \<open>The service\<close>

record 's Dialog =
  dg_OpenFile :: "string \<Rightarrow> ('s, unit + string) state"
  dg_SaveFile :: "string \<Rightarrow> ('s, unit + string) state"

record 's PlayerConfigService =
  pcs_Store :: "'s Store option"
  pcs_Dialog :: "'s Dialog option"
  pcs_DocumentsDefault :: string
  pcs_Platform :: Platform
  pcs_JSON :: JSON

record ConfigResult =
  cg_OK :: bool
  cg_Canceled :: bool
  cg_Error :: string
  cg_FilePath :: string
  cg_Config :: "PlayerConfig option"
  cg_ContentDigest :: string

definition configFailure :: "string \<Rightarrow> ConfigResult" where
  "configFailure message =
     \<lparr>cg_OK = False, cg_Canceled = False, cg_Error = message, cg_FilePath = '''', cg_Config = None, cg_ContentDigest = ''''\<rparr>"

definition configSuccess :: "string \<Rightarrow> PlayerConfig \<Rightarrow> string \<Rightarrow> ConfigResult" where
  "configSuccess path config digest =
     \<lparr>cg_OK = True, cg_Canceled = False, cg_Error = '''', cg_FilePath = path, cg_Config = Some config, cg_ContentDigest = digest\<rparr>"

definition configCanceled :: ConfigResult where
  "configCanceled =
     \<lparr>cg_OK = False, cg_Canceled = True, cg_Error = '''', cg_FilePath = '''', cg_Config = None, cg_ContentDigest = ''''\<rparr>"

definition contentDigest :: "string \<Rightarrow> string" where
  "contentDigest data = hex (sha256 data)"

definition absoluteFilePath :: "Platform \<Rightarrow> string \<Rightarrow> string + string" where
  "absoluteFilePath pf path =
     (let path = trim_space path in
      if path = '''' \<or> CHR 0x00 \<in> set path then Inl ''player config path is invalid''
      else (let path = pf_Clean pf path in
            if \<not> pf_IsAbs pf path \<or> path = ''/'' then Inl ''player config path must be an absolute file path''
            else Inr path))"

definition nameFromPath :: "string \<Rightarrow> string" where
  "nameFromPath path =
     (let name = trim_space (trimSuffix (pathBase path) (pathExt path)) in if name = '''' then ''Players'' else name)"

datatype SaveError =
  StorageUnavailable | NeedsReselection | InvalidPath string | ContractViolated ConfigError
| EncodingFailed CodecError | WriteFailed StorageError

definition writeConfig :: "'s PlayerConfigService \<Rightarrow> string \<Rightarrow> PlayerConfig \<Rightarrow> ('s, SaveError + string) state" where
  "writeConfig service path config =
     (case pcs_Store service of
        None \<Rightarrow> State_Monad.return (Inl StorageUnavailable)
      | Some store \<Rightarrow>
         (case verifyPlayerConfigContract config of
            Some e \<Rightarrow> State_Monad.return (Inl (ContractViolated e))
          | None \<Rightarrow>
             (case EncodePlayerConfig (pcs_JSON service) config of
                Inl e \<Rightarrow> State_Monad.return (Inl (EncodingFailed e))
              | Inr data \<Rightarrow> do {
                  err \<leftarrow> sr_WriteAtomic store path data;
                  State_Monad.return (case err of Some e \<Rightarrow> Inl (WriteFailed e) | None \<Rightarrow> Inr (contentDigest data)) })))"

definition loadConfig :: "'s PlayerConfigService \<Rightarrow> string \<Rightarrow> ('s, ConfigResult) state" where
  "loadConfig service path =
     (case pcs_Store service of
        None \<Rightarrow> State_Monad.return (configFailure ''player config storage is unavailable'')
      | Some store \<Rightarrow> do {
          r \<leftarrow> sr_Read store path;
          State_Monad.return (case r of
            Inl _ \<Rightarrow> configFailure ''could not read the player config''
          | Inr data \<Rightarrow>
             (case DecodePlayerConfig (pcs_JSON service) data of
                Inl _ \<Rightarrow> configFailure ''the selected file is not a valid version-1 player config''
              | Inr config \<Rightarrow>
                  if verifyPlayerConfigContract config \<noteq> None
                  then configFailure ''the selected file does not satisfy the player config contract''
                  else configSuccess path config (contentDigest data))) })"

definition CreateConfig :: "'s PlayerConfigService \<Rightarrow> ('s, bool) state \<Rightarrow> ('s, ConfigResult) state" where
  "CreateConfig service canceled = do {
     stop \<leftarrow> canceled;
     if stop then State_Monad.return (configFailure ''new player config was canceled'')
     else (case pcs_Dialog service of
         None \<Rightarrow> State_Monad.return (configFailure ''new player config dialog is unavailable'')
       | Some dialog \<Rightarrow> do {
           chosen \<leftarrow> dg_SaveFile dialog (pathJoin (pcs_Platform service) (pcs_DocumentsDefault service) ''players.json'');
           case chosen of
             Inl _ \<Rightarrow> State_Monad.return (configFailure ''could not choose a new player config destination'')
           | Inr target \<Rightarrow>
               if target = '''' then State_Monad.return configCanceled
               else (case absoluteFilePath (pcs_Platform service) target of
                   Inl message \<Rightarrow> State_Monad.return (configFailure message)
                 | Inr target \<Rightarrow>
                     (let config = \<lparr>pc_Version = 1, pc_Name = nameFromPath target, pc_Roster = Some []\<rparr> in
                      if verifyPlayerConfigContract config \<noteq> None
                      then State_Monad.return (configFailure ''could not verify the new player config contract'')
                      else do {
                        written \<leftarrow> writeConfig service target config;
                        State_Monad.return (case written of
                            Inl _ \<Rightarrow> configFailure ''could not write the new player config''
                          | Inr digest \<Rightarrow> configSuccess target config digest) })) }) }"

definition OpenConfig :: "'s PlayerConfigService \<Rightarrow> ('s, bool) state \<Rightarrow> ('s, ConfigResult) state" where
  "OpenConfig service canceled = do {
     stop \<leftarrow> canceled;
     if stop then State_Monad.return (configFailure ''open player config was canceled'')
     else (case pcs_Dialog service of
         None \<Rightarrow> State_Monad.return (configFailure ''open player config dialog is unavailable'')
       | Some dialog \<Rightarrow> do {
           chosen \<leftarrow> dg_OpenFile dialog (pcs_DocumentsDefault service);
           case chosen of
             Inl _ \<Rightarrow> State_Monad.return (configFailure ''could not choose a player config'')
           | Inr target \<Rightarrow>
               if target = '''' then State_Monad.return configCanceled
               else (case absoluteFilePath (pcs_Platform service) target of
                   Inl message \<Rightarrow> State_Monad.return (configFailure message)
                 | Inr target \<Rightarrow> loadConfig service target) }) }"

definition LoadReferenced :: "'s PlayerConfigService \<Rightarrow> string \<Rightarrow> string \<Rightarrow> ('s, ConfigResult) state" where
  "LoadReferenced service sessionPath reference =
     (let pf = pcs_Platform service in
      case absoluteFilePath pf sessionPath of
        Inl _ \<Rightarrow> State_Monad.return (configFailure ''active session path is invalid'')
      | Inr sessionPath \<Rightarrow>
         (let reference = trim_space reference in
          if reference = '''' \<or> pf_IsAbs pf reference \<or> pf_Clean pf reference = ''.'' \<or> CHR 0x00 \<in> set reference
          then State_Monad.return (configFailure ''player config reference must be a relative file path'')
          else loadConfig service (pf_Clean pf (pathJoin pf (pathDir pf sessionPath) reference))))"

definition SaveConfig ::
    "'s PlayerConfigService \<Rightarrow> PlayerConfigHandle \<Rightarrow> CharacterRosterEntry list option \<Rightarrow> ('s, SaveError + PlayerConfigHandle) state" where
  "SaveConfig service handle roster =
     (case absoluteFilePath (pcs_Platform service) (pcf_Path handle) of
        Inl message \<Rightarrow> State_Monad.return (Inl (InvalidPath message))
      | Inr path \<Rightarrow>
         (case pcs_Store service of
            None \<Rightarrow> State_Monad.return (Inl StorageUnavailable)
          | Some store \<Rightarrow> do {
              r \<leftarrow> sr_Read store path;
              case r of
                Inl _ \<Rightarrow> State_Monad.return (Inl NeedsReselection)
              | Inr current \<Rightarrow>
                  if contentDigest current \<noteq> pcf_ContentDigest handle then State_Monad.return (Inl NeedsReselection)
                  else do {
                    written \<leftarrow> writeConfig service path
                      \<lparr>pc_Version = pcf_Version handle, pc_Name = pcf_Name handle, pc_Roster = roster\<rparr>;
                    State_Monad.return (case written of
                        Inl e \<Rightarrow> Inl e
                      | Inr digest \<Rightarrow> Inr \<lparr>pcf_Path = path, pcf_Version = pcf_Version handle, pcf_Name = pcf_Name handle,
                          pcf_ContentDigest = digest\<rparr>) } }))"

text \<open>\<open>filepath.Rel\<close> is the library's: it answers a path relative to a directory, or fails.\<close>

definition RelativeReference :: "Platform \<Rightarrow> (string \<Rightarrow> string \<Rightarrow> string option) \<Rightarrow> string \<Rightarrow> string \<Rightarrow> string + string" where
  "RelativeReference pf rel sessionPath configPath =
     (case absoluteFilePath pf sessionPath of
        Inl _ \<Rightarrow> Inl ''active session path is invalid''
      | Inr sessionPath \<Rightarrow>
         (case absoluteFilePath pf configPath of
            Inl _ \<Rightarrow> Inl ''player config path is invalid''
          | Inr configPath \<Rightarrow>
             (case rel (pathDir pf sessionPath) configPath of
                None \<Rightarrow> Inl ''could not create a relative player config reference''
              | Some reference \<Rightarrow>
                  if pf_IsAbs pf reference \<or> pf_Clean pf reference = ''.''
                  then Inl ''could not create a relative player config reference''
                  else Inr (pf_Clean pf reference))))"

end
