(* ===== verification/PlayerConfigInv.thy ===== *)
theory PlayerConfigInv
  imports PlayerConfig
begin

text \<open>
  What the player-config service guarantees over any store that keeps the contract \<open>atomic_store\<close>: a save
  replaces exactly the file the handle was read from, and what was saved is what is loaded again.
\<close>

section \<open>The contract check\<close>

lemma roster_int32: "1 \<le> i \<Longrightarrow> i \<le> 10 \<Longrightarrow> sint (word_of_int i :: 32 word) = (i :: int)"
  by (simp add: sint_sbintrunc' signed_take_bit_int_eq_self)

lemma roster_fold:
  "fold_ok validateRosterEntry (enumerate k roster) ids = Inr ids' \<Longrightarrow>
   \<forall>entry\<in>set roster. 1 \<le> cr_Intelligence entry \<and> cr_Intelligence entry \<le> 10"
proof (induction roster arbitrary: k ids)
  case (Cons entry roster)
  then show ?case by (force simp: ok_bind_Inr validateRosterEntry_def Let_def split: option.splits if_splits)
qed simp

lemma validConfig:
  assumes "ValidatePlayerConfig v = None"
  obtains roster where "pc_Roster v = Some roster" and "pc_Version v = 1"
    and "\<forall>entry\<in>set roster. 1 \<le> cr_Intelligence entry \<and> cr_Intelligence entry \<le> 10"
proof -
  from assms obtain roster ids where "pc_Roster v = Some roster" "pc_Version v = 1"
    "fold_ok validateRosterEntry (enumerate 0 roster) [] = Inr ids"
    by (auto simp: ValidatePlayerConfig_def split: if_splits option.splits sum.splits)
  with roster_fold [OF this(3)] that show ?thesis by blast
qed

lemma config_roundtrip:
  assumes "ValidatePlayerConfig v = None"
  shows "\<exists>m. PlayerConfigToProto v = Inr m \<and> PlayerConfigFromProto (Some m) = Inr v"
proof -
  from assms obtain roster where r: "pc_Roster v = Some roster" "pc_Version v = 1"
    "\<forall>entry\<in>set roster. 1 \<le> cr_Intelligence entry \<and> cr_Intelligence entry \<le> 10" by (rule validConfig)
  have "map (rosterEntryFromProto \<circ> (\<lambda>entry. Some \<lparr>pe_Id = cr_ID entry, pe_Name = cr_Name entry,
      pe_Intelligence = Some (word_of_int (cr_Intelligence entry)),
      pe_HackerPerkAvailable = Some (cr_HackerPerkAvailable entry)\<rparr>)) roster = roster"
    using r(3) by (intro map_idI) (simp add: rosterEntryFromProto_def roster_int32)
  moreover obtain name where v: "v = \<lparr>pc_Version = 1, pc_Name = name, pc_Roster = Some roster\<rparr>"
    using r by (cases v) auto
  ultimately show ?thesis using assms
    unfolding v by (simp add: PlayerConfigToProto_def PlayerConfigFromProto_def comp_def Let_def)
qed

lemma verify_config: "verifyPlayerConfigContract v = map_option InvalidConfig (ValidatePlayerConfig v)"
proof (cases "ValidatePlayerConfig v")
  case None
  from config_roundtrip [OF this] None show ?thesis by (auto simp: verifyPlayerConfigContract_def)
qed (simp add: verifyPlayerConfigContract_def PlayerConfigToProto_def)

text \<open>The JSON package reads back what it wrote of one value.\<close>

definition config_codec :: "JSON \<Rightarrow> PlayerConfig \<Rightarrow> bool" where
  "config_codec js config =
     (case js_MarshalConfig js config of
        None \<Rightarrow> True
      | Some d \<Rightarrow>
         (case js_DecodeConfig js (d @ [CHR 0x0A]) of
            None \<Rightarrow> False
          | Some (wire, rest) \<Rightarrow> js_AtEnd js rest \<and> canonicalConfig js wire = Inr config))"

lemma decode_encode:
  assumes "config_codec js config" and "EncodePlayerConfig js config = Inr d"
  shows "DecodePlayerConfig js d = Inr config"
  using assms by (auto simp: config_codec_def EncodePlayerConfig_def DecodePlayerConfig_def split: option.splits)

section \<open>Saving and loading over a store\<close>


context atomic_store
begin

lemma writeConfig_effect:
  assumes run: "run_state (writeConfig service p config) s = (r, s')" and "pcs_Store service = Some st"
    and "sr_WriteAtomic st = write" and "document p"
  shows "case r of
      Inl e \<Rightarrow> stored s' p = stored s p
    | Inr digest \<Rightarrow> ValidatePlayerConfig config = None \<and>
        (\<exists>d. EncodePlayerConfig (pcs_JSON service) config = Inr d \<and> stored s' p = Some d \<and> digest = contentDigest d)"
proof (cases "verifyPlayerConfigContract config")
  case None
  show ?thesis
  proof (cases "EncodePlayerConfig (pcs_JSON service) config")
    case (Inr d)
    obtain e w where wr: "run_state (write p d) s = (e, w)" by fastforce
    from write_same [OF assms(4) wr] assms None Inr wr show ?thesis
      by (auto simp: writeConfig_def verify_config State_Monad.return_def split: option.splits)
  qed (use assms None in \<open>auto simp: writeConfig_def State_Monad.return_def\<close>)
qed (use assms in \<open>auto simp: writeConfig_def State_Monad.return_def\<close>)

lemma SaveConfig_effect:
  assumes run: "run_state (SaveConfig service handle roster) s = (r, s')" and st: "pcs_Store service = Some st"
    and ops: "sr_Read st = read" "sr_WriteAtomic st = write"
    and p: "absoluteFilePath (pcs_Platform service) (pcf_Path handle) = Inr p" "document p"
  shows "case r of
      Inl e \<Rightarrow> stored s' p = stored s p
    | Inr h \<Rightarrow> \<exists>old d. stored s p = Some old \<and> contentDigest old = pcf_ContentDigest handle \<and>
        EncodePlayerConfig (pcs_JSON service)
          \<lparr>pc_Version = pcf_Version handle, pc_Name = pcf_Name handle, pc_Roster = roster\<rparr> = Inr d \<and>
        stored s' p = Some d \<and>
        h = \<lparr>pcf_Path = p, pcf_Version = pcf_Version handle, pcf_Name = pcf_Name handle, pcf_ContentDigest = contentDigest d\<rparr>"
proof -
  obtain x s1 where rd: "run_state (read p) s = (x, s1)" by fastforce
  note keep = read_keeps [OF rd]
  show ?thesis
  proof (cases x)
    case (Inl e)
    with run st ops p rd keep show ?thesis by (auto simp: SaveConfig_def State_Monad.return_def)
  next
    case (Inr old)
    from read_data [OF p(2) rd [unfolded Inr]] have old: "stored s p = Some old" .
    show ?thesis
    proof (cases "contentDigest old = pcf_ContentDigest handle")
      case False
      with run st ops p rd keep Inr show ?thesis by (auto simp: SaveConfig_def State_Monad.return_def)
    next
      case True
      let ?c = "\<lparr>pc_Version = pcf_Version handle, pc_Name = pcf_Name handle, pc_Roster = roster\<rparr>"
      obtain y s2 where wr: "run_state (writeConfig service p ?c) s1 = (y, s2)" by fastforce
      from run st ops p rd Inr True wr have "r = (case y of Inl e \<Rightarrow> Inl e | Inr digest \<Rightarrow>
          Inr \<lparr>pcf_Path = p, pcf_Version = pcf_Version handle, pcf_Name = pcf_Name handle, pcf_ContentDigest = digest\<rparr>)"
        and "s' = s2"
        by (auto simp: SaveConfig_def State_Monad.return_def split: prod.splits)
      with writeConfig_effect [OF wr st ops(2) p(2)] old True keep show ?thesis by (cases y) auto
    qed
  qed
qed

lemma loadConfig_effect:
  assumes run: "run_state (loadConfig service p) s = (r, s')" and st: "pcs_Store service = Some st"
    and ops: "sr_Read st = read" and p: "document p" and ok: "cg_OK r"
  shows "\<exists>d config. stored s p = Some d \<and> DecodePlayerConfig (pcs_JSON service) d = Inr config \<and>
    r = configSuccess p config (contentDigest d)"
proof -
  obtain x s1 where rd: "run_state (read p) s = (x, s1)" by fastforce
  from run st ops rd ok obtain d where d: "x = Inr d"
    by (cases x) (auto simp: loadConfig_def State_Monad.return_def configFailure_def)
  from read_data [OF p rd [unfolded d]] run st ops rd ok d show ?thesis
    by (cases "DecodePlayerConfig (pcs_JSON service) d")
      (auto simp: loadConfig_def State_Monad.return_def configFailure_def split: if_splits)
qed

end

section \<open>The service on the operating system\<close>

definition osPlayerConfigService ::
    "(string \<Rightarrow> string) \<Rightarrow> nat \<Rightarrow> JSON \<Rightarrow> OperatingSystem StorageState Dialog option \<Rightarrow> string \<Rightarrow>
     OperatingSystem StorageState PlayerConfigService" where
  "osPlayerConfigService lower pid js dialog documents =
     \<lparr>pcs_Store = Some (NewStorage (osStorage lower (\<lambda>_. True) pid)), pcs_Dialog = dialog,
      pcs_DocumentsDefault = documents, pcs_Platform = slashPlatform lower (\<lambda>_. True), pcs_JSON = js\<rparr>"

lemma osService_store:
  "pcs_Store (osPlayerConfigService lower pid js dialog documents) = Some (NewStorage (osStorage lower (\<lambda>_. True) pid))"
  "sr_Read (NewStorage sg) = ReadDocument sg" "sr_WriteAtomic (NewStorage sg) = WriteAtomic sg"
  "pcs_JSON (osPlayerConfigService lower pid js dialog documents) = js"
  "pcs_Platform (osPlayerConfigService lower pid js dialog documents) = slashPlatform lower (\<lambda>_. True)"
  by (simp_all add: osPlayerConfigService_def NewStorage_def)

text \<open>A document that is stored is read when no system call fails.\<close>

lemma osRead_calm:
  assumes "osDocument p" and "osStored s p = Some d" and "os_Faults (sg_World s) = []"
  shows "fst (run_state (ReadDocument (osStorage lower json pid) p) s) = Inr d"
proof -
  from assms(1) obtain es e where "validateFilePath (sg_Platform (osStorage lower json pid)) p = Inr (cleanPath p)"
    by (metis osDocument_path)
  with assms(2,3) show ?thesis
    by (simp add: ReadDocument_def osStorage_simps osStored_def osFileSystem_def osReadFile_def osCall_def onWorld_def
        State_Monad.return_def split: prod.split)
qed

text \<open>What is answered when a saved file is loaded.\<close>

lemma loaded_saved:
  assumes service: "service = osPlayerConfigService lower pid js dialog documents" and "osDocument p"
    and "EncodePlayerConfig js config = Inr d" and "config_codec js config" and "osStored t p = Some d"
    and load: "run_state (loadConfig service p) t = (answer, t')"
  shows "(cg_OK answer \<longrightarrow> answer = configSuccess p config (contentDigest d)) \<and>
    (os_Faults (sg_World t) = [] \<longrightarrow> answer = configSuccess p config (contentDigest d))"
proof -
  note st = osService_store(1) [of lower pid js dialog documents, folded service]
  have js: "pcs_JSON service = js" by (simp add: service osService_store)
  note decoded = decode_encode [OF assms(4,3)]
  have loaded: "answer = configSuccess p config (contentDigest d)" if "cg_OK answer"
    using osStore.loadConfig_effect [OF load st osService_store(2) assms(2) that] assms(5) decoded by (auto simp: js)
  moreover have "cg_OK answer" if "os_Faults (sg_World t) = []"
  proof -
    have "fst (run_state (ReadDocument (osStorage lower (\<lambda>_. True) pid) p) t) = Inr d" by (rule osRead_calm [OF assms(2,5) that])
    then obtain w where "run_state (ReadDocument (osStorage lower (\<lambda>_. True) pid) p) t = (Inr d, w)"
      by (metis prod.collapse)
    moreover have "ValidatePlayerConfig config = None" using assms(3) by (auto simp: EncodePlayerConfig_def split: option.splits)
    ultimately show ?thesis
      using load st decoded by (auto simp: loadConfig_def osService_store js verify_config State_Monad.return_def configSuccess_def)
  qed
  ultimately show ?thesis by blast
qed

text \<open>C34: Saving a roster to an absolute document path on the operating system, whatever system calls fail. If the
  save reports an error the file is as it was, whether or not it can be read or decoded. If it reports success, the
  file existed and its content had the digest kept in the handle, the configuration is valid, and the file now holds its encoding, whose digest is
  that of the new handle. If moreover the JSON package reads back what it wrote for this configuration, every later
  load of the file as it was left answers with exactly the saved roster or reports an error, and reports none when
  no system call fails.\<close>

theorem player_config_saved:
  assumes service: "service = osPlayerConfigService lower pid js dialog documents"
    and path: "absoluteFilePath (pcs_Platform service) (pcf_Path handle) = Inr p" "osDocument p"
    and config: "config = \<lparr>pc_Version = pcf_Version handle, pc_Name = pcf_Name handle, pc_Roster = roster\<rparr>"
    and save: "run_state (SaveConfig service handle roster) s = (r, s')"
  shows "case r of
      Inl e \<Rightarrow> osStored s' p = osStored s p
    | Inr h \<Rightarrow> map_option contentDigest (osStored s p) = Some (pcf_ContentDigest handle) \<and>
        ValidatePlayerConfig config = None \<and>
        (\<exists>d. EncodePlayerConfig js config = Inr d \<and> osStored s' p = Some d \<and>
           h = \<lparr>pcf_Path = p, pcf_Version = pcf_Version handle, pcf_Name = pcf_Name handle, pcf_ContentDigest = contentDigest d\<rparr>) \<and>
        (config_codec js config \<longrightarrow> (\<forall>t answer t'. osStored t p = osStored s' p \<and> run_state (loadConfig service p) t = (answer, t') \<longrightarrow>
           (cg_OK answer \<longrightarrow> answer = configSuccess p config (pcf_ContentDigest h)) \<and>
           (os_Faults (sg_World t) = [] \<longrightarrow> answer = configSuccess p config (pcf_ContentDigest h))))"
proof -
  note st = osService_store(1) [of lower pid js dialog documents, folded service]
  have js: "pcs_JSON service = js" by (simp add: service osService_store)
  note saved = osStore.SaveConfig_effect [OF save st osService_store(2,3) path, folded config]
  show ?thesis
  proof (cases r)
    case (Inl e)
    with saved show ?thesis by simp
  next
    case (Inr h)
    with saved obtain old d where d: "osStored s p = Some old" "contentDigest old = pcf_ContentDigest handle"
      "EncodePlayerConfig js config = Inr d" "osStored s' p = Some d"
      "h = \<lparr>pcf_Path = p, pcf_Version = pcf_Version handle, pcf_Name = pcf_Name handle, pcf_ContentDigest = contentDigest d\<rparr>"
      by (auto simp: js)
    then have "ValidatePlayerConfig config = None" by (auto simp: EncodePlayerConfig_def split: option.splits)
    with d loaded_saved [OF service path(2) d(3)] show ?thesis unfolding Inr sum.case by auto
  qed
qed

definition demo_roster :: "CharacterRosterEntry list" where
  "demo_roster = [\<lparr>cr_ID = ''vera'', cr_Name = ''Vera'', cr_Intelligence = 1, cr_HackerPerkAvailable = False\<rparr>]"

definition demo_handle :: PlayerConfigHandle where
  "demo_handle = \<lparr>pcf_Path = ''/d/s.json'', pcf_Version = 1, pcf_Name = ''Party'', pcf_ContentDigest = contentDigest ''old''\<rparr>"

lemma player_config_saved_witness:
  "let service = osPlayerConfigService id 7 demo_json None ''/d'';
       s' = snd (run_state (SaveConfig service demo_handle (Some demo_roster)) (demo_disk []))
   in cg_Config (fst (run_state (loadConfig service ''/d/s.json'') s')) =
      Some \<lparr>pc_Version = 1, pc_Name = ''Party'', pc_Roster = Some demo_roster\<rparr>"
proof -
  let ?service = "osPlayerConfigService id 7 demo_json None ''/d''"
  let ?save = "run_state (SaveConfig ?service demo_handle (Some demo_roster)) (demo_disk [])"
  let ?load = "run_state (loadConfig ?service ''/d/s.json'') (snd ?save)"
  have h: "pcf_Path demo_handle = ''/d/s.json''" "pcf_ContentDigest demo_handle = contentDigest ''old''" "pcf_Version demo_handle = 1"
    "pcf_Name demo_handle = ''Party''" by (simp_all add: demo_handle_def)
  have clean: "cleanPath ''/d/s.json'' = ''/d/s.json''" "osDocument ''/d/s.json''" by code_simp+
  have "trim_space ''/d/s.json'' = ''/d/s.json''"
    by (simp add: visible_def byte_val_def)
  with clean have "absoluteFilePath (slashPlatform id (\<lambda>_. True)) ''/d/s.json'' = Inr ''/d/s.json''"
    by (simp add: absoluteFilePath_def slashPlatform_def isRooted_def)
  from this clean(2) have p: "absoluteFilePath (pcs_Platform ?service) (pcf_Path demo_handle) = Inr ''/d/s.json''" "osDocument ''/d/s.json''"
    unfolding h osService_store .
  let ?sg = "osStorage id (\<lambda>_. True) 7" and ?data = "''saved'' @ [CHR 0x0A]"
  let ?c = "\<lparr>pc_Version = 1, pc_Name = ''Party'', pc_Roster = Some demo_roster\<rparr>"
  let ?s = "\<lparr>sg_World = \<lparr>os_Files = [(''/d/s.json'', ?data), (''/d/t.json'', ''other'')], os_Faults = []\<rparr>, sg_Sequence = 1\<rparr>"
  have ops: "run_state (ReadDocument ?sg ''/d/s.json'') (demo_disk []) = (Inr ''old'', demo_disk [])"
    "run_state (WriteAtomic ?sg ''/d/s.json'' ?data) (demo_disk []) = (None, ?s)"
    "run_state (ReadDocument ?sg ''/d/s.json'') ?s = (Inr ?data, ?s)"
    by code_simp+
  have valid: "ValidatePlayerConfig ?c = None"
    using rune_count_le [of "''Vera''"]
    by (simp add: ValidatePlayerConfig_def validateRosterEntry_def demo_roster_def Let_def visible_def byte_val_def maxNameBytes_def
      MaxRosterEntries_def MaxCharacterNameRunes_def del: rune_count.simps)
  have "config_codec demo_json ?c"
    by (simp add: config_codec_def demo_json_def canonicalConfig_def canonicalEntry_def decodeLegacyInt_def decodeLegacyBool_def
      demo_roster_def)
  with valid have codecs: "EncodePlayerConfig demo_json ?c = Inr ?data" "DecodePlayerConfig demo_json ?data = Inr ?c"
    "verifyPlayerConfigContract ?c = None" "config_codec demo_json ?c"
    using decode_encode [of demo_json ?c ?data] by (simp_all add: EncodePlayerConfig_def verify_config demo_json_def)
  from codecs(4) have codec: "config_codec demo_json \<lparr>pc_Version = pcf_Version demo_handle, pc_Name = pcf_Name demo_handle, pc_Roster = Some demo_roster\<rparr>"
    unfolding h .
  have save: "?save = (Inr \<lparr>pcf_Path = ''/d/s.json'', pcf_Version = 1, pcf_Name = ''Party'', pcf_ContentDigest = contentDigest ?data\<rparr>, ?s)"
    using p(1) ops codecs unfolding h
    by (simp add: SaveConfig_def writeConfig_def osService_store State_Monad.return_def h del: append.simps)
  let ?config = "\<lparr>pc_Version = pcf_Version demo_handle, pc_Name = pcf_Name demo_handle, pc_Roster = Some demo_roster\<rparr>"
  have "case fst ?save of
      Inl e \<Rightarrow> osStored (snd ?save) ''/d/s.json'' = osStored (demo_disk []) ''/d/s.json''
    | Inr h \<Rightarrow> map_option contentDigest (osStored (demo_disk []) ''/d/s.json'') = Some (pcf_ContentDigest demo_handle) \<and>
        ValidatePlayerConfig ?config = None \<and>
        (\<exists>d. EncodePlayerConfig demo_json ?config = Inr d \<and> osStored (snd ?save) ''/d/s.json'' = Some d \<and>
           h = \<lparr>pcf_Path = ''/d/s.json'', pcf_Version = pcf_Version demo_handle, pcf_Name = pcf_Name demo_handle,
             pcf_ContentDigest = contentDigest d\<rparr>) \<and>
        (config_codec demo_json ?config \<longrightarrow> (\<forall>t answer t'. osStored t ''/d/s.json'' = osStored (snd ?save) ''/d/s.json'' \<and>
             run_state (loadConfig ?service ''/d/s.json'') t = (answer, t') \<longrightarrow>
           (cg_OK answer \<longrightarrow> answer = configSuccess ''/d/s.json'' ?config (pcf_ContentDigest h)) \<and>
           (os_Faults (sg_World t) = [] \<longrightarrow> answer = configSuccess ''/d/s.json'' ?config (pcf_ContentDigest h))))"
    by (rule player_config_saved [OF refl p refl prod.collapse [symmetric]])
  then have "\<forall>t answer t'. osStored t ''/d/s.json'' = osStored ?s ''/d/s.json'' \<and>
             run_state (loadConfig ?service ''/d/s.json'') t = (answer, t') \<longrightarrow>
           (os_Faults (sg_World t) = [] \<longrightarrow> answer = configSuccess ''/d/s.json'' ?config (contentDigest ?data))"
    using codec unfolding save fst_conv snd_conv sum.case PlayerConfigHandle.select_convs by blast
  moreover have "os_Faults (sg_World ?s) = []" by simp
  ultimately have "fst (run_state (loadConfig ?service ''/d/s.json'') ?s) = configSuccess ''/d/s.json'' ?config (contentDigest ?data)"
    by (metis prod.collapse)
  then show ?thesis by (simp only: save snd_conv Let_def) (simp add: configSuccess_def h)
qed

end
