(* ===== verification/SessionContract.thy ===== *)
theory SessionContract
  imports SessionInv
begin

text \<open>
  The persistence contract of \<open>internal/session/contract.go\<close>: a session is mapped to the protobuf message of
  the contract and back before it is accepted.  The messages are the plain structures the generated code
  declares; a nil message pointer is a constructor of its own, an unset oneof likewise.  Fields the contract
  does not know (JSON extras) come from a template.
\<close>

section \<open>Messages\<close>

record ProtoEntryContentChange =
  pe_BlockId :: string
  pe_CompletedText :: string

record ProtoStateChange =
  pc_CompletedName :: string
  pc_ConfirmationText :: string
  pc_EntryContentChange :: "ProtoEntryContentChange option"

datatype ProtoBehavior = NoBehavior | BehaviorStateChange ProtoStateChange | BehaviorTerminalTransition string

record ProtoBlock =
  pb_Id :: string
  pb_InitialText :: string

datatype ProtoNode = NilNode | ProtoNode string string ProtoContent
and ProtoContent =
  NoContent | FolderContent "ProtoNode list" | CommandContent string ProtoBehavior | EntryContent string "ProtoBlock list"

record ProtoCommandState =
  ps_CompletedName :: string
  ps_ResultText :: string
  ps_EntryContentChange :: "ProtoEntryContentChange option"

record ProtoTerminal =
  pt_Id :: string
  pt_Name :: string
  pt_HackLevel :: "32 word"
  pt_IntroText :: string
  pt_Root :: ProtoNode
  pt_CommandStates :: "(string, ProtoCommandState) gomap"

record ProtoGroup =
  pg_Id :: string
  pg_Name :: string
  pg_TerminalIds :: "string list"

record ProtoSession =
  po_Version :: "32 word"
  po_Name :: string
  po_PlayerConfig :: "string option"
  po_Terminals :: "ProtoTerminal list"
  po_TerminalGroups :: "ProtoGroup list"

datatype ContractError =
  InvalidSession ValidationError | ConflictingBehaviors string | UnsupportedNodeType string
| NodeRequired | VariantRequired | SessionRequired

section \<open>Content nodes\<close>

definition entryContentChangeToProto :: "EntryContentChange option \<Rightarrow> ProtoEntryContentChange option" where
  "entryContentChangeToProto change =
     map_option (\<lambda>c. \<lparr>pe_BlockId = ec_BlockID c, pe_CompletedText = ec_CompletedText c\<rparr>) change"

definition entryContentChangeFromProto :: "ProtoEntryContentChange option \<Rightarrow> EntryContentChange option" where
  "entryContentChangeFromProto change =
     map_option (\<lambda>c. \<lparr>ec_BlockID = pe_BlockId c, ec_CompletedText = pe_CompletedText c\<rparr>) change"

definition behaviorToProto :: "ContentNode \<Rightarrow> ContractError + ProtoBehavior" where
  "behaviorToProto node =
     (case (cn_StateChange node, cn_TerminalTransition node) of
        (None, None) \<Rightarrow> Inr NoBehavior
      | (Some sc, None) \<Rightarrow> Inr (BehaviorStateChange
          \<lparr>pc_CompletedName = sc_CompletedName sc, pc_ConfirmationText = sc_ConfirmationText sc,
           pc_EntryContentChange = entryContentChangeToProto (sc_EntryContentChange sc)\<rparr>)
      | (None, Some tt) \<Rightarrow> Inr (BehaviorTerminalTransition (tt_TargetTerminalID tt))
      | (Some _, Some _) \<Rightarrow> Inl (ConflictingBehaviors (cn_ID node)))"

definition blockToProto :: "EntryContentBlock \<Rightarrow> ProtoBlock" where
  "blockToProto block = \<lparr>pb_Id = eb_ID block, pb_InitialText = eb_InitialText block\<rparr>"

fun contentNodeToProto :: "ContentNode \<Rightarrow> ContractError + ProtoNode" where
  "contentNodeToProto node =
     map_sum id (ProtoNode (cn_ID node) (cn_Name node))
       (if cn_Type node = NodeFolder then map_sum id FolderContent (map_ok contentNodeToProto (cn_kids node))
        else if cn_Type node = NodeCommand then map_sum id (CommandContent (cn_Text node)) (behaviorToProto node)
        else if cn_Type node = NodeEntry
        then Inr (EntryContent (cn_Description node) (map blockToProto (cn_block_list node)))
        else Inl (UnsupportedNodeType (cn_Type node)))"

declare contentNodeToProto.simps [simp del]

definition zeroNode :: ContentNode where
  "zeroNode = ContentNode '''' '''' '''' None '''' '''' None None None []"

definition behaviorFromProto :: "ProtoBehavior \<Rightarrow> StateChangeConfig option \<times> TerminalTransitionConfig option" where
  "behaviorFromProto behavior =
     (case behavior of
        NoBehavior \<Rightarrow> (None, None)
      | BehaviorStateChange sc \<Rightarrow>
          (Some \<lparr>sc_CompletedName = pc_CompletedName sc, sc_ConfirmationText = pc_ConfirmationText sc,
                 sc_EntryContentChange = entryContentChangeFromProto (pc_EntryContentChange sc)\<rparr>, None)
      | BehaviorTerminalTransition target \<Rightarrow> (None, Some \<lparr>tt_TargetTerminalID = target\<rparr>))"

definition blockFromProto :: "ProtoBlock \<Rightarrow> EntryContentBlock" where
  "blockFromProto block = \<lparr>eb_ID = pb_Id block, eb_InitialText = pb_InitialText block\<rparr>"

text \<open>The children of the template are consumed along with those of the message; a missing one is the zero node.\<close>

fun contentNodeFromProto :: "ProtoNode \<Rightarrow> ContentNode \<Rightarrow> ContractError + ContentNode"
and childrenFromProto :: "ProtoNode list \<Rightarrow> ContentNode list \<Rightarrow> ContractError + ContentNode list" where
  "contentNodeFromProto NilNode template = Inl NodeRequired"
| "contentNodeFromProto (ProtoNode i name content) template =
     (case content of
        NoContent \<Rightarrow> Inl VariantRequired
      | FolderContent children \<Rightarrow>
          map_sum id (\<lambda>cs. ContentNode i NodeFolder name (Some cs) '''' '''' None None None (cn_Extra template))
            (childrenFromProto children (cn_kids template))
      | CommandContent command_text behavior \<Rightarrow>
          (case behaviorFromProto behavior of (sc, tt) \<Rightarrow>
            Inr (ContentNode i NodeCommand name None command_text '''' None sc tt (cn_Extra template)))
      | EntryContent description blocks \<Rightarrow>
          Inr (ContentNode i NodeEntry name None '''' description
            (if blocks = [] then None else Some (map blockFromProto blocks)) None None (cn_Extra template)))"
| "childrenFromProto [] templates = Inr []"
| "childrenFromProto (child # children) templates =
     ok_bind (contentNodeFromProto child (case templates of [] \<Rightarrow> zeroNode | t # _ \<Rightarrow> t)) (\<lambda>c.
     ok_bind (childrenFromProto children (tl templates)) (\<lambda>cs. Inr (c # cs)))"

declare contentNodeFromProto.simps(2) [simp del]

definition ContentNodeToProto :: "ContentNode \<Rightarrow> ContractError + ProtoNode" where
  "ContentNodeToProto node = contentNodeToProto node"

definition ContentNodeFromProto :: "ProtoNode \<Rightarrow> ContentNode \<Rightarrow> ContractError + ContentNode" where
  "ContentNodeFromProto node template = contentNodeFromProto node template"

section \<open>Sessions\<close>

definition commandStateToProto :: "CommandExecutionState \<Rightarrow> ProtoCommandState" where
  "commandStateToProto state =
     \<lparr>ps_CompletedName = ce_CompletedName state, ps_ResultText = ce_ResultText state,
      ps_EntryContentChange = entryContentChangeToProto (ce_EntryContentChange state)\<rparr>"

definition commandStateFromProto :: "ProtoCommandState \<Rightarrow> CommandExecutionState" where
  "commandStateFromProto state =
     \<lparr>ce_CompletedName = ps_CompletedName state, ce_ResultText = ps_ResultText state,
      ce_EntryContentChange = entryContentChangeFromProto (ps_EntryContentChange state)\<rparr>"

definition terminalToProto :: "Terminal \<Rightarrow> ContractError + ProtoTerminal" where
  "terminalToProto terminal =
     map_sum id (\<lambda>root. \<lparr>pt_Id = tm_ID terminal, pt_Name = tm_Name terminal,
         pt_HackLevel = word_of_int (tm_HackLevel terminal), pt_IntroText = tm_IntroText terminal, pt_Root = root,
         pt_CommandStates = gm_map (\<lambda>_. commandStateToProto) (tm_CommandStates terminal)\<rparr>)
       (contentNodeToProto (tm_Root terminal))"

definition groupToProto :: "TerminalGroup \<Rightarrow> ProtoGroup" where
  "groupToProto g = \<lparr>pg_Id = tg_ID g, pg_Name = tg_Name g, pg_TerminalIds = tg_TerminalIDs g\<rparr>"

definition SessionToProto :: "Platform \<Rightarrow> Session \<Rightarrow> ContractError + ProtoSession" where
  "SessionToProto pf v =
     (case ValidateSession pf v of
        Some e \<Rightarrow> Inl (InvalidSession e)
      | None \<Rightarrow>
          map_sum id (\<lambda>terminals.
             \<lparr>po_Version = word_of_int (se_Version v), po_Name = se_Name v,
              po_PlayerConfig = (if se_PlayerConfig v = '''' then None else Some (se_PlayerConfig v)),
              po_Terminals = terminals, po_TerminalGroups = map groupToProto (se_TerminalGroups v)\<rparr>)
            (map_ok terminalToProto (se_terminal_list v)))"

definition terminalFromProto :: "ProtoTerminal \<Rightarrow> Terminal option \<Rightarrow> ContractError + Terminal" where
  "terminalFromProto terminal template =
     map_sum id (\<lambda>root. \<lparr>tm_ID = pt_Id terminal, tm_Name = pt_Name terminal, tm_HackLevel = sint (pt_HackLevel terminal),
         tm_IntroText = pt_IntroText terminal, tm_Root = root,
         tm_CommandStates = gm_map (\<lambda>_. commandStateFromProto) (pt_CommandStates terminal),
         tm_Extra = (case template of None \<Rightarrow> [] | Some t \<Rightarrow> tm_Extra t)\<rparr>)
       (contentNodeFromProto (pt_Root terminal) (case template of None \<Rightarrow> zeroNode | Some t \<Rightarrow> tm_Root t))"

primrec terminalsFromProto :: "ProtoTerminal list \<Rightarrow> Terminal list \<Rightarrow> ContractError + Terminal list" where
  "terminalsFromProto [] templates = Inr []"
| "terminalsFromProto (terminal # terminals) templates =
     ok_bind (terminalFromProto terminal (case templates of [] \<Rightarrow> None | t # _ \<Rightarrow> Some t)) (\<lambda>t.
     ok_bind (terminalsFromProto terminals (tl templates)) (\<lambda>ts. Inr (t # ts)))"

definition groupFromProto :: "ProtoGroup \<Rightarrow> TerminalGroup" where
  "groupFromProto g = \<lparr>tg_ID = pg_Id g, tg_Name = pg_Name g, tg_TerminalIDs = pg_TerminalIds g\<rparr>"

definition SessionFromProto :: "Platform \<Rightarrow> ProtoSession option \<Rightarrow> Session \<Rightarrow> ContractError + Session" where
  "SessionFromProto pf v template =
     (case v of
        None \<Rightarrow> Inl SessionRequired
      | Some v \<Rightarrow>
          ok_bind (terminalsFromProto (po_Terminals v) (se_terminal_list template)) (\<lambda>terminals.
            let result = \<lparr>se_Version = sint (po_Version v), se_Name = po_Name v,
                  se_PlayerConfig = (case po_PlayerConfig v of None \<Rightarrow> '''' | Some p \<Rightarrow> p),
                  se_Terminals = Some terminals, se_TerminalGroups = map groupFromProto (po_TerminalGroups v),
                  se_Extra = se_Extra template\<rparr>
            in (case ValidateSession pf result of Some e \<Rightarrow> Inl (InvalidSession e) | None \<Rightarrow> Inr result)))"

definition verifySessionContract :: "Platform \<Rightarrow> Session \<Rightarrow> ContractError option" where
  "verifySessionContract pf v =
     (case SessionToProto pf v of
        Inl e \<Rightarrow> Some e
      | Inr message \<Rightarrow> (case SessionFromProto pf (Some message) v of Inl e \<Rightarrow> Some e | Inr _ \<Rightarrow> None))"

end
