(* ===== verification/SessionContractInv.thy ===== *)
theory SessionContractInv
  imports SessionContract
begin

text \<open>
  The contract adds nothing to and loses nothing from an accepted session: the way through the protobuf
  message and back gives the session in canonical form, so the contract accepts exactly what the document
  validator accepts.
\<close>

section \<open>Canonical form\<close>

text \<open>The children of a folder are an array, a leaf has none, and empty blocks are absent.\<close>

fun canonicalNode :: "ContentNode \<Rightarrow> ContentNode" where
  "canonicalNode n = ContentNode (cn_ID n) (cn_Type n) (cn_Name n)
     (if cn_Type n = NodeFolder then Some (map canonicalNode (cn_kids n)) else None)
     (cn_Text n) (cn_Description n) (if cn_block_list n = [] then None else cn_Blocks n)
     (cn_StateChange n) (cn_TerminalTransition n) (cn_Extra n)"

declare canonicalNode.simps [simp del]

definition canonicalTerminal :: "Terminal \<Rightarrow> Terminal" where
  "canonicalTerminal t = t\<lparr>tm_Root := canonicalNode (tm_Root t)\<rparr>"

definition canonicalSession :: "Session \<Rightarrow> Session" where
  "canonicalSession v = v\<lparr>se_Terminals := Some (map canonicalTerminal (se_terminal_list v))\<rparr>"

lemma canonical_fields [simp]:
  "cn_ID (canonicalNode n) = cn_ID n" "cn_Type (canonicalNode n) = cn_Type n" "cn_Name (canonicalNode n) = cn_Name n"
  "cn_Text (canonicalNode n) = cn_Text n" "cn_Description (canonicalNode n) = cn_Description n"
  "cn_StateChange (canonicalNode n) = cn_StateChange n" "cn_TerminalTransition (canonicalNode n) = cn_TerminalTransition n"
  "cn_Extra (canonicalNode n) = cn_Extra n" "cn_block_list (canonicalNode n) = cn_block_list n"
  "cn_kids (canonicalNode n) = (if cn_Type n = NodeFolder then map canonicalNode (cn_kids n) else [])"
  "cn_Children (canonicalNode n) = (if cn_Type n = NodeFolder then Some (map canonicalNode (cn_kids n)) else None)"
  "cn_Blocks (canonicalNode n) = (if cn_block_list n = [] then None else cn_Blocks n)"
  by (simp_all add: canonicalNode.simps [of n] cn_block_list_def cn_kids_def)

section \<open>There and back\<close>

lemma change_roundtrip [simp]: "entryContentChangeFromProto (entryContentChangeToProto c) = c"
  by (cases c) (simp_all add: entryContentChangeFromProto_def entryContentChangeToProto_def)

lemma behavior_roundtrip:
  "Behavior n \<noteq> CommandBehaviorInvalid \<Longrightarrow>
   \<exists>b. behaviorToProto n = Inr b \<and> behaviorFromProto b = (cn_StateChange n, cn_TerminalTransition n)"
  by (cases "cn_StateChange n"; cases "cn_TerminalTransition n")
    (simp_all add: Behavior_def behaviorToProto_def behaviorFromProto_def)

lemma block_roundtrip [simp]: "blockFromProto (blockToProto b) = b"
  by (simp add: blockFromProto_def blockToProto_def)

lemma childrenFromProto_zip:
  "list_all2 (\<lambda>m (t, n). contentNodeFromProto m t = Inr n) ms (zip ts ns) \<Longrightarrow> length ts = length ns \<Longrightarrow>
   childrenFromProto ms ts = Inr ns"
proof (induction ms arbitrary: ts ns)
  case (Cons m ms)
  then show ?case by (cases ts; cases ns) auto
qed (auto split: list.splits)

lemma node_roundtrip:
  "list_all node_ok (tree_nodes n) \<Longrightarrow>
   \<exists>m. contentNodeToProto n = Inr m \<and> contentNodeFromProto m n = Inr (canonicalNode n)"
proof (induction n rule: measure_induct_rule [of size])
  case (less n)
  from less.prems have ok: "node_ok n" by (simp add: tree_nodes.simps [of n])
  then consider (folder) "cn_Type n = NodeFolder" | (command) "cn_Type n = NodeCommand" | (entry) "cn_Type n = NodeEntry"
    by (auto simp: node_ok_def)
  then show ?case
  proof cases
    case folder
    have "\<exists>m. contentNodeToProto c = Inr m \<and> contentNodeFromProto m c = Inr (canonicalNode c)"
      if "c \<in> set (cn_kids n)" for c
      using that less.prems by (intro less.IH size_kid) (auto simp: tree_nodes.simps [of n] list_all_iff)
    then obtain f where f: "\<And>c. c \<in> set (cn_kids n) \<Longrightarrow>
        contentNodeToProto c = Inr (f c) \<and> contentNodeFromProto (f c) c = Inr (canonicalNode c)" by metis
    have "map_ok contentNodeToProto (cn_kids n) = Inr (map f (cn_kids n))"
      using f by (auto simp: map_ok_Inr list_all2_map2 list.rel_refl_strong)
    moreover have "childrenFromProto (map f (cn_kids n)) (cn_kids n) = Inr (map canonicalNode (cn_kids n))"
      using f by (intro childrenFromProto_zip) (auto simp: list_all2_conv_all_nth)
    ultimately show ?thesis using folder ok
      by (auto simp: contentNodeToProto.simps [of n] contentNodeFromProto.simps(2) canonicalNode.simps [of n] node_ok_def
        Behavior_def cn_block_list_def split: if_splits)
  next
    case command
    from ok have "Behavior n \<noteq> CommandBehaviorInvalid" by (simp add: node_ok_def)
    from behavior_roundtrip [OF this] show ?thesis using command ok
      by (auto simp: contentNodeToProto.simps [of n] contentNodeFromProto.simps(2) canonicalNode.simps [of n] node_ok_def
        cn_block_list_def)
  next
    case entry
    then show ?thesis using ok
      by (auto simp: contentNodeToProto.simps [of n] contentNodeFromProto.simps(2) canonicalNode.simps [of n] node_ok_def
        Behavior_def cn_block_list_def comp_def split: if_splits option.split)
  qed
qed

section \<open>The validator on the canonical form\<close>

definition canonicalVisit :: "TreeVisit \<Rightarrow> TreeVisit" where
  "canonicalVisit st = st\<lparr>tv_Nodes := gm_map (\<lambda>_. canonicalNode) (tv_Nodes st)\<rparr>"

lemma canonicalVisit_simps [simp]:
  "tv_Count (canonicalVisit st) = tv_Count st" "tv_Refs (canonicalVisit st) = tv_Refs st"
  "tv_Nodes (canonicalVisit st) = gm_map (\<lambda>_. canonicalNode) (tv_Nodes st)"
  by (simp_all add: canonicalVisit_def)

lemma enterNode_canonical:
  "enterNode pf rp p n d st = Inr st' \<Longrightarrow> enterNode pf rp p (canonicalNode n) d (canonicalVisit st) = Inr (canonicalVisit st')"
  by (auto simp: enterNode_def Let_def canonicalVisit_def gm_map_put split: if_splits option.splits)

lemma required_Some:
  "validateRequiredString p v n = Some e \<Longrightarrow> \<not> required_ok v n" "Some e = validateRequiredString p v n \<Longrightarrow> \<not> required_ok v n"
  by (metis validateRequiredString_None option.distinct(1))+

lemma first_err_Some: "first_err es = Some e \<Longrightarrow> \<exists>x\<in>set es. x \<noteq> None"
  by (metis first_err_None option.distinct(1))

lemma check_canonical:
  "checkFolder p n = None \<Longrightarrow> cn_Type n = NodeFolder \<Longrightarrow> checkFolder p (canonicalNode n) = None"
  "checkEntry p n = None \<Longrightarrow> cn_Type n = NodeEntry \<Longrightarrow> checkEntry p (canonicalNode n) = None"
  "checkCommand p n st = Inr st' \<Longrightarrow> cn_Type n = NodeCommand \<Longrightarrow>
   checkCommand p (canonicalNode n) (canonicalVisit st) = Inr (canonicalVisit st')"
    apply (auto simp: checkFolder_def split: if_splits)[1]
   apply (auto simp: checkEntry_def split: if_splits)[1]
  apply (auto simp: checkCommand_def canonicalVisit_def split: if_splits option.splits dest!: required_Some first_err_Some)
  done

lemma visit_canonical:
  "visit pf rp p n d st = Inr st' \<Longrightarrow> visit pf rp p (canonicalNode n) d (canonicalVisit st) = Inr (canonicalVisit st')"
proof (induction n arbitrary: p d st st' rule: measure_induct_rule [of size])
  case (less n)
  from less.prems obtain st1 where st1: "enterNode pf rp p n d st = Inr st1"
    by (auto simp: visit.simps [of pf rp p n d st] ok_bind_Inr)
  note enter = enterNode_canonical [OF st1]
  note unfold = visit.simps [of pf rp p "canonicalNode n" d "canonicalVisit st"]
  consider (folder) "cn_Type n = NodeFolder" | (command) "cn_Type n = NodeCommand" | (entry) "cn_Type n = NodeEntry"
    using less.prems st1 by (auto simp: visit.simps [of pf rp p n d st] split: if_splits)
  then show ?case
  proof cases
    case folder
    let ?f = "\<lambda>(i, c). visit pf rp (p @ [Field ''children'', Index i]) c (d + 1)"
    from less.prems folder st1 have c: "checkFolder p n = None"
      and f: "fold_ok ?f (enumerate 0 (cn_kids n)) st1 = Inr st'"
      by (auto simp: visit.simps [of pf rp p n d st] split: option.splits)
    have "fold_ok ?f (enumerate k cs) a = Inr b \<Longrightarrow> set cs \<subseteq> set (cn_kids n) \<Longrightarrow>
        fold_ok ?f (enumerate k (map canonicalNode cs)) (canonicalVisit a) = Inr (canonicalVisit b)" for cs a b k
    proof (induction cs arbitrary: k a)
      case (Cons c cs)
      then obtain a1 where v: "visit pf rp (p @ [Field ''children'', Index k]) c (d + 1) a = Inr a1"
        and r: "fold_ok ?f (enumerate (Suc k) cs) a1 = Inr b" by (auto simp: ok_bind_Inr)
      from Cons.prems have "size c < size n" by (intro size_kid) simp
      from less.IH [OF this v] Cons.IH [OF r] Cons.prems show ?case by simp
    qed simp
    from this [OF f subset_refl] check_canonical(1) [OF c folder] show ?thesis
      by (simp add: unfold enter folder)
  next
    case command
    from less.prems command st1 have "checkCommand p n st1 = Inr st'"
      by (auto simp: visit.simps [of pf rp p n d st])
    from check_canonical(3) [OF this command] show ?thesis by (simp add: unfold enter command)
  next
    case entry
    from less.prems entry st1 have c: "checkEntry p n = None" "st' = st1"
      by (auto simp: visit.simps [of pf rp p n d st] split: option.splits)
    from check_canonical(2) [OF c(1) entry] c(2) show ?thesis by (simp add: unfold enter entry)
  qed
qed

lemma validateTree_canonical:
  "validateTree pf p root = Inr (nodes, refs) \<Longrightarrow>
   validateTree pf p (canonicalNode root) = Inr (gm_map (\<lambda>_. canonicalNode) nodes, refs)"
  using visit_canonical [of pf p p root 1 "\<lparr>tv_Count = 0, tv_Nodes = [], tv_Refs = []\<rparr>"]
  by (auto simp: validateTree_def ok_bind_Inr canonicalVisit_def gm_map_def)

lemma validateCommandState_canonical:
  "validateCommandState p (gm_map (\<lambda>_. canonicalNode) nodes) cs = validateCommandState p nodes cs"
  by (cases cs; cases "gm_get nodes (fst cs)") (simp_all add: validateCommandState_def Let_def)

text \<open>Below a leaf there is nothing, so the collection of blocks and changes sees the same nodes.\<close>

lemma collect_canonical:
  "list_all node_ok (tree_nodes n) \<Longrightarrow> collect p (canonicalNode n) st = collect p n st"
proof (induction n arbitrary: p st rule: measure_induct_rule [of size])
  case (less n)
  from less.prems have ok: "node_ok n" by (simp add: tree_nodes.simps [of n])
  have same: "collectNode p (canonicalNode n) st = collectNode p n st"
    by (simp add: collectNode_def cong: if_cong option.case_cong)
  have "set cs \<subseteq> set (cn_kids n) \<Longrightarrow>
      fold_ok (\<lambda>(i, c) st. collect (p @ [Field ''children'', Index i]) c st) (enumerate k (map canonicalNode cs)) =
      fold_ok (\<lambda>(i, c) st. collect (p @ [Field ''children'', Index i]) c st) (enumerate k cs)" for cs k
  proof (induction cs arbitrary: k)
    case (Cons c cs)
    then have c: "c \<in> set (cn_kids n)" by simp
    then have "list_all node_ok (tree_nodes c)"
      using less.prems by (auto simp: tree_nodes.simps [of n] list_all_iff)
    from less.IH [OF size_kid [OF c] this] Cons show ?case by (intro ext) (simp cong: sum.case_cong)
  qed simp
  from this [OF subset_refl, of 0] ok
  have "fold_ok (\<lambda>(i, c) st. collect (p @ [Field ''children'', Index i]) c st) (enumerate 0 (cn_kids (canonicalNode n))) =
      fold_ok (\<lambda>(i, c) st. collect (p @ [Field ''children'', Index i]) c st) (enumerate 0 (cn_kids n))"
    by (auto simp: node_ok_def)
  then show ?case
    by (simp only: collect.simps [of p n] collect.simps [of p "canonicalNode n"] same)
qed

lemma validateTerminalEntryContent_canonical:
  "list_all node_ok (tree_nodes root) \<Longrightarrow>
   validateTerminalEntryContent p (canonicalNode root) states = validateTerminalEntryContent p root states"
  by (simp add: validateTerminalEntryContent_def collect_canonical)

lemma validateTerminal_canonical:
  assumes "validateTerminal pf (i, t) si = Inr si'"
  shows "validateTerminal pf (i, canonicalTerminal t) si = Inr si'"
proof -
  have ok: "list_all node_ok (tree_nodes (tm_Root t))"
    using validateTerminal_ok(1) [OF assms] by (simp add: terminal_valid_def tree_valid_def)
  let ?p = "[Field ''terminals'', Index i]"
  from assms obtain nodes refs where head: "required_ok (tm_ID t) maxNameBytes" "required_ok (tm_Name t) maxNameBytes"
      "\<not> tm_HackLevel t < 0" "\<not> 5 < tm_HackLevel t" "cn_ID (tm_Root t) = ''root''" "cn_Type (tm_Root t) = NodeFolder"
      "\<not> gm_has (si_TerminalIDs si) (tm_ID t)" "\<not> maxIntroBytes < length (tm_IntroText t)"
      "validateExtras pf ?p (tm_Extra t) terminalFields = None"
    and tree: "validateTree pf (?p @ [Field ''root'']) (tm_Root t) = Inr (nodes, refs)"
    and states: "first_err (map (validateCommandState ?p nodes) (tm_CommandStates t)) = None"
    and content: "validateTerminalEntryContent ?p (tm_Root t) (tm_CommandStates t) = None"
    and si': "si' = \<lparr>si_TerminalIDs = gm_put (tm_ID t) () (si_TerminalIDs si),
        si_Refs = si_Refs si @ map (\<lambda>r. r\<lparr>tf_Source := tm_ID t\<rparr>) refs\<rparr>"
    by (auto simp: validateTerminal_def Let_def ok_bind_Inr split: option.splits if_splits)
  have states': "first_err (map (validateCommandState ?p (gm_map (\<lambda>_. canonicalNode) nodes)) (tm_CommandStates t)) = None"
    using states by (simp add: validateCommandState_canonical cong: map_cong)
  show ?thesis
    using head validateTree_canonical [OF tree] states' content si'
    by (simp add: validateTerminal_def Let_def canonicalTerminal_def validateRequiredString_None [THEN iffD2]
      validateTerminalEntryContent_canonical [OF ok] del: first_err_None validateRequiredString_None)
qed

lemma validateTerminals_canonical:
  "fold_ok (validateTerminal pf) (enumerate k ts) si = Inr si' \<Longrightarrow>
   fold_ok (validateTerminal pf) (enumerate k (map canonicalTerminal ts)) si = Inr si'"
  by (induction ts arbitrary: k si) (auto simp: ok_bind_Inr dest: validateTerminal_canonical)

lemma canonicalTerminal_simps [simp]: "tm_ID (canonicalTerminal t) = tm_ID t"
  by (simp add: canonicalTerminal_def)

lemma canonicalSession_simps [simp]:
  "se_terminal_list (canonicalSession v) = map canonicalTerminal (se_terminal_list v)"
  "se_Version (canonicalSession v) = se_Version v" "se_Name (canonicalSession v) = se_Name v"
  "se_PlayerConfig (canonicalSession v) = se_PlayerConfig v" "se_Extra (canonicalSession v) = se_Extra v"
  "se_TerminalGroups (canonicalSession v) = se_TerminalGroups v"
  "se_Terminals (canonicalSession v) = Some (map canonicalTerminal (se_terminal_list v))"
  by (simp_all add: canonicalSession_def se_terminal_list_def)

lemma enumerate_map_snd: "enumerate k (map f xs) = map (\<lambda>(i, x). (i, f x)) (enumerate k xs)"
  by (induction xs arbitrary: k) simp_all

lemma validateTerminalGroups_canonical:
  "validateTerminalGroups pf (canonicalSession v) ids = validateTerminalGroups pf v ids"
  by (simp add: validateTerminalGroups_def enumerate_map_snd case_prod_unfold comp_def split: sum.split cong: if_cong)

lemma ValidateSession_canonical:
  assumes "ValidateSession pf v = None"
  shows "ValidateSession pf (canonicalSession v) = None"
proof -
  from assms obtain ts si where ts: "se_Terminals v = Some ts"
    and si: "fold_ok (validateTerminal pf) (enumerate 0 ts) \<lparr>si_TerminalIDs = [], si_Refs = []\<rparr> = Inr si"
    by (auto simp: ValidateSession_def split: if_splits option.splits sum.splits)
  have "se_terminal_list v = ts" using ts by (simp add: se_terminal_list_def)
  with assms ts si validateTerminals_canonical [OF si] show ?thesis
    by (simp add: ValidateSession_def validateTerminalGroups_canonical split: if_splits option.splits)
qed

section \<open>The whole way round\<close>

lemma state_roundtrip [simp]: "commandStateFromProto (commandStateToProto s) = s"
  by (simp add: commandStateFromProto_def commandStateToProto_def)

lemma states_roundtrip [simp]: "gm_map (\<lambda>_. commandStateFromProto) (gm_map (\<lambda>_. commandStateToProto) m) = m"
  by (simp add: gm_map_def comp_def case_prod_unfold)

lemma group_roundtrip [simp]: "groupFromProto (groupToProto g) = g"
  by (simp add: groupFromProto_def groupToProto_def)

lemma int32_roundtrip: "- (2 ^ 31) \<le> k \<Longrightarrow> k < 2 ^ 31 \<Longrightarrow> sint (word_of_int k :: 32 word) = k"
  by (simp add: sint_sbintrunc' signed_take_bit_int_eq_self)

lemma terminal_roundtrip:
  assumes "terminal_valid t"
  shows "\<exists>m. terminalToProto t = Inr m \<and> terminalFromProto m (Some t) = Inr (canonicalTerminal t)"
proof -
  from assms have "list_all node_ok (tree_nodes (tm_Root t))" and level: "0 \<le> tm_HackLevel t" "tm_HackLevel t \<le> 5"
    by (simp_all add: terminal_valid_def tree_valid_def)
  from node_roundtrip [OF this(1)] level show ?thesis
    by (auto simp: terminalToProto_def terminalFromProto_def canonicalTerminal_def int32_roundtrip)
qed

lemma terminals_roundtrip:
  "list_all terminal_valid ts \<Longrightarrow>
   \<exists>ms. map_ok terminalToProto ts = Inr ms \<and> terminalsFromProto ms ts = Inr (map canonicalTerminal ts)"
proof (induction ts)
  case (Cons t ts)
  with terminal_roundtrip [of t] show ?case by auto
qed simp

lemma session_roundtrip:
  assumes "ValidateSession pf v = None"
  shows "\<exists>m. SessionToProto pf v = Inr m \<and> SessionFromProto pf (Some m) v = Inr (canonicalSession v)"
proof -
  note ok = ValidateSession_ok [OF assms]
  then have "list_all terminal_valid (se_terminal_list v)" by (simp add: list_all_iff)
  from terminals_roundtrip [OF this] obtain ms where ms: "map_ok terminalToProto (se_terminal_list v) = Inr ms"
      "terminalsFromProto ms (se_terminal_list v) = Inr (map canonicalTerminal (se_terminal_list v))" by blast
  have version: "se_Version v = 1" using assms by (simp add: ValidateSession_def split: if_splits)
  let ?m = "\<lparr>po_Version = word_of_int (se_Version v), po_Name = se_Name v,
      po_PlayerConfig = (if se_PlayerConfig v = '''' then None else Some (se_PlayerConfig v)),
      po_Terminals = ms, po_TerminalGroups = map groupToProto (se_TerminalGroups v)\<rparr>"
  have "SessionToProto pf v = Inr ?m" using assms ms(1) by (simp add: SessionToProto_def)
  moreover have result: "\<lparr>se_Version = sint (po_Version ?m), se_Name = po_Name ?m,
      se_PlayerConfig = (case po_PlayerConfig ?m of None \<Rightarrow> '''' | Some p \<Rightarrow> p),
      se_Terminals = Some (map canonicalTerminal (se_terminal_list v)),
      se_TerminalGroups = map groupFromProto (po_TerminalGroups ?m), se_Extra = se_Extra v\<rparr> = canonicalSession v"
    by (rule Session.equality) (simp_all add: version comp_def)
  have "terminalsFromProto (po_Terminals ?m) (se_terminal_list v) = Inr (map canonicalTerminal (se_terminal_list v))"
    using ms(2) by simp
  then have "SessionFromProto pf (Some ?m) v = Inr (canonicalSession v)"
    by (simp only: SessionFromProto_def option.case Let_def ok_bind_simps result ValidateSession_canonical [OF assms])
  ultimately show ?thesis by blast
qed

text \<open>C31: A session passes through the persistence contract unharmed. Mapping to the message fails exactly on
  documents the validator refuses, with its error; mapping the message back over the session gives the
  session again, with unknown fields kept at every level, up to the spelling of absent children and blocks.\<close>

theorem session_contract_roundtrip:
  "case SessionToProto pf v of
     Inl e \<Rightarrow> \<exists>x. ValidateSession pf v = Some x \<and> e = InvalidSession x
   | Inr m \<Rightarrow> ValidateSession pf v = None \<and> SessionFromProto pf (Some m) v = Inr (canonicalSession v)"
proof (cases "ValidateSession pf v")
  case None
  from session_roundtrip [OF this] None show ?thesis by auto
next
  case (Some x)
  then show ?thesis by (simp add: SessionToProto_def)
qed

text \<open>So the contract check adds nothing to validation.\<close>
text \<open>So the contract check adds nothing to validation.\<close>

lemma verify_validate: "verifySessionContract pf v = map_option InvalidSession (ValidateSession pf v)"
proof (cases "ValidateSession pf v")
  case None
  from session_roundtrip [OF this] obtain m
    where "SessionToProto pf v = Inr m" "SessionFromProto pf (Some m) v = Inr (canonicalSession v)" by blast
  then show ?thesis using None by (simp add: verifySessionContract_def)
qed (simp add: verifySessionContract_def SessionToProto_def)

end
