(* ===== verification/SessionDoc.thy ===== *)
theory SessionDoc
  imports SessionContractInv DomainJSON GoPath
begin

text \<open>
  Session documents as \<open>internal/session/service.go\<close> edits them, apart from dialogs and storage: lookups by
  identity, the catalog the coordinator reads, the durable command states, the merge of an authored document
  with the canonical one, the starter document, and the checks before anything is written.
\<close>

section \<open>Lookup\<close>

definition terminalByID :: "Session option \<Rightarrow> string \<Rightarrow> Terminal option" where
  "terminalByID session terminalID =
     (case session of
        None \<Rightarrow> None
      | Some s \<Rightarrow> if trim_space terminalID = '''' then None
          else find (\<lambda>t. tm_ID t = terminalID) (se_terminal_list s))"

fun contentNodeByID :: "ContentNode \<Rightarrow> string \<Rightarrow> ContentNode option" where
  "contentNodeByID node nodeID =
     (if trim_space nodeID = '''' then None
      else if cn_ID node = nodeID then Some node
      else first_some (\<lambda>c. contentNodeByID c nodeID) (cn_kids node))"

declare contentNodeByID.simps [simp del]

definition terminalTarget :: "Terminal \<Rightarrow> TerminalTarget" where
  "terminalTarget t =
     \<lparr>ttg_TerminalID = tm_ID t, ttg_TerminalName = tm_Name t, ttg_Tree = tm_Root t,
      ttg_CommandStates = tm_CommandStates t, ttg_HackLevel = tm_HackLevel t, ttg_IntroText = tm_IntroText t\<rparr>"

definition LookupTerminal :: "Session option \<Rightarrow> string \<Rightarrow> TerminalTarget option" where
  "LookupTerminal session terminalID = map_option terminalTarget (terminalByID session terminalID)"

definition LookupTerminalGroup :: "Session option \<Rightarrow> string \<Rightarrow> TerminalGroup option" where
  "LookupTerminalGroup session terminalID =
     (case session of None \<Rightarrow> None | Some s \<Rightarrow> TerminalGroupFor s terminalID)"

definition LookupTerminalTransition :: "Session option \<Rightarrow> string \<Rightarrow> string \<Rightarrow> TerminalTransitionTarget option" where
  "LookupTerminalTransition session sourceTerminalID commandID =
     (case terminalByID session sourceTerminalID of
        None \<Rightarrow> None
      | Some source \<Rightarrow>
         (case contentNodeByID (tm_Root source) commandID of
            None \<Rightarrow> None
          | Some command \<Rightarrow>
              if cn_Type command \<noteq> NodeCommand then None
              else (case cn_TerminalTransition command of
                  None \<Rightarrow> None
                | Some transition \<Rightarrow>
                   (case terminalByID session (tt_TargetTerminalID transition) of
                      None \<Rightarrow> None
                    | Some target \<Rightarrow>
                        if tm_ID target = tm_ID source then None
                        else (case (LookupTerminalGroup session (tm_ID source), LookupTerminalGroup session (tm_ID target)) of
                            (Some sourceGroup, Some targetGroup) \<Rightarrow>
                              if tg_ID sourceGroup \<noteq> tg_ID targetGroup then None
                              else Some \<lparr>tx_SourceTerminalID = tm_ID source, tx_SourceTerminalName = tm_Name source,
                                tx_CommandID = cn_ID command, tx_CommandName = cn_Name command,
                                tx_Target = terminalTarget target\<rparr>
                          | _ \<Rightarrow> None)))))"

section \<open>Command states\<close>

text \<open>A pointer to the first matching element: changing what it points to.\<close>

primrec updateFirst :: "('a \<Rightarrow> bool) \<Rightarrow> ('a \<Rightarrow> 'a) \<Rightarrow> 'a list \<Rightarrow> 'a list" where
  "updateFirst P f [] = []"
| "updateFirst P f (x # xs) = (if P x then f x # xs else x # updateFirst P f xs)"

definition updateTerminal :: "string \<Rightarrow> (Terminal \<Rightarrow> Terminal) \<Rightarrow> Session \<Rightarrow> Session" where
  "updateTerminal terminalID f s =
     s\<lparr>se_Terminals := map_option (updateFirst (\<lambda>t. tm_ID t = terminalID) f) (se_Terminals s)\<rparr>"

text \<open>The mutations answer a message, or whether they changed the candidate and the candidate.\<close>

definition executeCommandState :: "string \<Rightarrow> string \<Rightarrow> Session \<Rightarrow> string + bool \<times> Session" where
  "executeCommandState terminalID commandID candidate =
     (case terminalByID (Some candidate) terminalID of
        None \<Rightarrow> Inl ''terminal does not exist''
      | Some terminal \<Rightarrow>
         (case contentNodeByID (tm_Root terminal) commandID of
            None \<Rightarrow> Inl ''state-changing command does not exist''
          | Some command \<Rightarrow>
             (case cn_StateChange command of
                None \<Rightarrow> Inl ''state-changing command does not exist''
              | Some change \<Rightarrow>
                  if cn_Type command \<noteq> NodeCommand then Inl ''state-changing command does not exist''
                  else if gm_has (tm_CommandStates terminal) commandID then Inr (False, candidate)
                  else (let frozen = \<lparr>ce_CompletedName = sc_CompletedName change, ce_ResultText = cn_Text command,
                          ce_EntryContentChange = sc_EntryContentChange change\<rparr>
                    in Inr (True, updateTerminal terminalID
                      (\<lambda>t. t\<lparr>tm_CommandStates := gm_put commandID frozen (tm_CommandStates t)\<rparr>) candidate)))))"

definition resetCommandState :: "string \<Rightarrow> string \<Rightarrow> Session \<Rightarrow> string + bool \<times> Session" where
  "resetCommandState terminalID commandID candidate =
     (case terminalByID (Some candidate) terminalID of
        None \<Rightarrow> Inl ''terminal does not exist''
      | Some terminal \<Rightarrow>
         (case contentNodeByID (tm_Root terminal) commandID of
            None \<Rightarrow> Inl ''state-changing command does not exist''
          | Some command \<Rightarrow>
              if cn_Type command \<noteq> NodeCommand \<or> cn_StateChange command = None
              then Inl ''state-changing command does not exist''
              else if \<not> gm_has (tm_CommandStates terminal) commandID then Inr (False, candidate)
              else Inr (True, updateTerminal terminalID
                (\<lambda>t. t\<lparr>tm_CommandStates := gm_del commandID (tm_CommandStates t)\<rparr>) candidate)))"

definition resetTerminalCommandStates :: "string \<Rightarrow> Session \<Rightarrow> string + bool \<times> Session" where
  "resetTerminalCommandStates terminalID candidate =
     (case terminalByID (Some candidate) terminalID of
        None \<Rightarrow> Inl ''terminal does not exist''
      | Some terminal \<Rightarrow>
          if tm_CommandStates terminal = [] then Inr (False, candidate)
          else Inr (True, updateTerminal terminalID (\<lambda>t. t\<lparr>tm_CommandStates := []\<rparr>) candidate))"

definition clearCommandStates :: "Session \<Rightarrow> Session" where
  "clearCommandStates s = s\<lparr>se_Terminals := map_option (map (\<lambda>t. t\<lparr>tm_CommandStates := []\<rparr>)) (se_Terminals s)\<rparr>"

section \<open>Merging an authored document\<close>

text \<open>\<open>cloneSession\<close> of this package always makes the terminals an array.\<close>

definition cloneSession :: "Session \<Rightarrow> Session" where
  "cloneSession s = s\<lparr>se_Terminals := Some (se_terminal_list s)\<rparr>"

fun walkTerminalTransitions ::
    "string \<Rightarrow> ContentNode \<Rightarrow> (string \<times> string, string) gomap \<Rightarrow> (string \<times> string, string) gomap" where
  "walkTerminalTransitions terminalID node targets =
     fold (walkTerminalTransitions terminalID) (cn_kids node)
       (if cn_Type node = NodeCommand
        then (case cn_TerminalTransition node of
            None \<Rightarrow> targets
          | Some transition \<Rightarrow> gm_put (terminalID, cn_ID node) (tt_TargetTerminalID transition) targets)
        else targets)"

declare walkTerminalTransitions.simps [simp del]

definition terminalTransitionTargets :: "Session \<Rightarrow> (string \<times> string, string) gomap" where
  "terminalTransitionTargets s = fold (\<lambda>t. walkTerminalTransitions (tm_ID t) (tm_Root t)) (se_terminal_list s) []"

text \<open>The transitions that are new and leave their group; the code reports one of them.\<close>

definition validateAuthoredTransitionChanges :: "Session \<Rightarrow> Session \<Rightarrow> (string \<times> string) list" where
  "validateAuthoredTransitionChanges candidate canonical =
     (let canonicalTargets = terminalTransitionTargets canonical;
          byTerminal = groupByTerminal (se_TerminalGroups candidate)
      in map fst (filter (\<lambda>(key, targetID).
           gm_lookup byTerminal (fst key) \<noteq> gm_lookup byTerminal targetID \<and>
           gm_lookup canonicalTargets key \<noteq> targetID) (terminalTransitionTargets candidate)))"

definition mergeCanonicalTerminalGroups :: "Platform \<Rightarrow> Session \<Rightarrow> Session \<Rightarrow> Session option" where
  "mergeCanonicalTerminalGroups pf authored canonical =
     (let merged = cloneSession authored;
          kept = map (\<lambda>g. g\<lparr>tg_TerminalIDs := filter (\<lambda>i. i \<in> set (map tm_ID (se_terminal_list merged))) (tg_TerminalIDs g)\<rparr>)
            (se_TerminalGroups canonical)
      in EnsureTerminalGroups pf (merged\<lparr>se_TerminalGroups := filter (\<lambda>g. tg_TerminalIDs g \<noteq> []) kept\<rparr>))"

datatype MergeError =
  MergeRefused ContractError | TransitionLeavesGroup "(string \<times> string) list" | CompletedCommandChanged string | MergeOpen

text \<open>The canonical states of the commands that still exist; one that no longer changes state is an error.\<close>

primrec mergeStates ::
    "ContentNode \<Rightarrow> (string \<times> CommandExecutionState) list \<Rightarrow> CommandStates \<Rightarrow> MergeError + CommandStates" where
  "mergeStates root [] states = Inr states"
| "mergeStates root (cs # rest) states =
     (case contentNodeByID root (fst cs) of
        None \<Rightarrow> mergeStates root rest states
      | Some node \<Rightarrow>
          if cn_Type node \<noteq> NodeCommand \<or> cn_StateChange node = None then Inl (CompletedCommandChanged (fst cs))
          else mergeStates root rest (gm_put (fst cs) (snd cs) states))"

text \<open>The index of the canonical terminals keeps the last one of an identity.\<close>

definition canonicalByTerminal :: "Session \<Rightarrow> (string, Terminal) gomap" where
  "canonicalByTerminal canonical = fold (\<lambda>t. gm_put (tm_ID t) t) (se_terminal_list canonical) []"

definition mergeTerminal :: "Session \<Rightarrow> Terminal \<Rightarrow> MergeError + Terminal" where
  "mergeTerminal canonical terminal =
     map_sum id (\<lambda>states. terminal\<lparr>tm_CommandStates := states\<rparr>)
       (mergeStates (tm_Root terminal)
         (case gm_get (canonicalByTerminal canonical) (tm_ID terminal) of None \<Rightarrow> [] | Some t \<Rightarrow> tm_CommandStates t) [])"

definition mergeCanonicalSessionState :: "Platform \<Rightarrow> Session \<Rightarrow> Session \<Rightarrow> MergeError + Session" where
  "mergeCanonicalSessionState pf authored canonical =
     (case mergeCanonicalTerminalGroups pf authored canonical of
        None \<Rightarrow> Inl MergeOpen
      | Some merged \<Rightarrow>
          (let crossing = validateAuthoredTransitionChanges merged canonical in
           if crossing \<noteq> [] then Inl (TransitionLeavesGroup crossing)
           else ok_bind (map_ok (mergeTerminal canonical) (se_terminal_list merged)) (\<lambda>terminals.
             let merged = merged\<lparr>se_Terminals := Some terminals\<rparr> in
             (case verifySessionContract pf merged of Some e \<Rightarrow> Inl (MergeRefused e) | None \<Rightarrow> Inr merged))))"

section \<open>Checks before writing\<close>

definition verifyAuthoredSession :: "Platform \<Rightarrow> Session \<Rightarrow> bool" where
  "verifyAuthoredSession pf authored =
     (case NormalizeTerminalGroups pf ((cloneSession authored)\<lparr>se_TerminalGroups := []\<rparr>) of
        None \<Rightarrow> False
      | Some candidate \<Rightarrow> verifySessionContract pf candidate = None)"

definition encodeAcceptedSession :: "Platform \<Rightarrow> JSON \<Rightarrow> Session \<Rightarrow> string option" where
  "encodeAcceptedSession pf js candidate =
     (if verifySessionContract pf candidate \<noteq> None then None
      else (case EncodeSession pf js candidate of
          Inl _ \<Rightarrow> None
        | Inr data \<Rightarrow> (case DecodeSession pf js data of Inl _ \<Rightarrow> None | Inr _ \<Rightarrow> Some data)))"

definition sessionsEqual :: "Platform \<Rightarrow> JSON \<Rightarrow> Session \<Rightarrow> Session \<Rightarrow> bool" where
  "sessionsEqual pf js left right =
     (case (EncodeSession pf js left, EncodeSession pf js right) of (Inr a, Inr b) \<Rightarrow> a = b | _ \<Rightarrow> False)"

section \<open>New documents and paths\<close>

definition starterSession :: "Platform \<Rightarrow> string \<Rightarrow> Session option" where
  "starterSession pf name =
     NormalizeTerminalGroups pf
       \<lparr>se_Version = 1, se_Name = name, se_PlayerConfig = '''',
        se_Terminals = Some [\<lparr>tm_ID = ''terminal-1'', tm_Name = ''Terminal 1'', tm_HackLevel = 0, tm_IntroText = '''',
          tm_Root = ContentNode ''root'' NodeFolder ''ROOT'' (Some []) '''' '''' None None None [],
          tm_CommandStates = [], tm_Extra = []\<rparr>],
        se_TerminalGroups = [], se_Extra = []\<rparr>"

definition sessionNameFromPath :: "string \<Rightarrow> string" where
  "sessionNameFromPath path =
     (let base = pathBase path; name = trim_space (trimSuffix base (pathExt base)) in
      if name = '''' then ''New Session'' else name)"

definition samePath :: "Platform \<Rightarrow> string \<Rightarrow> string \<Rightarrow> bool" where
  "samePath pf left right = (left \<noteq> '''' \<and> right \<noteq> '''' \<and> pf_Clean pf left = pf_Clean pf right)"

definition userDocumentPath :: "Platform \<Rightarrow> string \<Rightarrow> string + string" where
  "userDocumentPath pf path =
     (if trim_space path = '''' then Inl ''session path is empty''
      else (let cleaned = pf_Clean pf path in
            if \<not> pf_IsAbs pf cleaned then Inl ''session path must be absolute''
            else if cleaned = ''/'' then Inl ''session path does not name a file'' else Inr cleaned))"

definition writableTarget :: "Platform \<Rightarrow> string \<Rightarrow> string \<Rightarrow> string + string" where
  "writableTarget pf bundledDemo path =
     ok_bind (userDocumentPath pf path) (\<lambda>path.
       if samePath pf path bundledDemo then Inl ''the bundled demo is read-only; choose another destination'' else Inr path)"

definition demoCompanionPaths :: "Platform \<Rightarrow> string \<Rightarrow> string \<Rightarrow> string \<Rightarrow> string + string \<times> string" where
  "demoCompanionPaths pf bundledSession destination reference =
     (let reference = pf_Clean pf reference in
      if reference = ''.'' \<or> pf_IsAbs pf reference \<or> reference = ''..'' \<or> take 3 reference = ''../''
      then Inl ''demo companion reference must stay beside the session''
      else (let source = pathJoin pf (pathDir pf bundledSession) reference;
                destinationConfig = pathJoin pf (pathDir pf destination) reference
            in if samePath pf source bundledSession \<or> samePath pf destinationConfig destination
               then Inl ''demo companion must differ from the session'' else Inr (source, destinationConfig)))"

end
