(* ===== verification/SessionService.thy ===== *)
theory SessionService
  imports SessionDoc PlayerConfig
begin

text \<open>
  The session service, \<open>internal/session/service.go\<close>: the active document, the queue of accepted saves, and the
  worker that writes them one after the other.  Every stretch of code that runs under the mutex \<open>mu\<close> is one
  definition on \<open>ServiceState\<close>; the goroutines around them, with the locks \<open>commandMu\<close> and \<open>documentMu\<close> they
  hold, the reply channels and the wake channel of capacity one, are the steps of \<open>SaveProtocol\<close>.
\<close>

section \<open>State\<close>

datatype SaveState = SaveStateIdle | SaveStateSaving | SaveStateSaved | SaveStateFailed

record ActiveSession =
  as_Path :: string
  as_Session :: "Session option"
  as_RequestedRevision :: revision
  as_SavedRevision :: revision
  as_SaveState :: SaveState

record SaveResult =
  sr_OK :: bool
  sr_Error :: string
  sr_RequestedRevision :: revision
  sr_SavedRevision :: revision

record CommandStateResult =
  cr_OK :: bool
  cr_Changed :: bool
  cr_Error :: string
  cr_Revision :: revision
  cr_Session :: "Session option"

record SessionResult =
  sn_OK :: bool
  sn_Canceled :: bool
  sn_Error :: string
  sn_FilePath :: string
  sn_Session :: "Session option"

text \<open>\<open>rollbackOnFailure\<close> comes with the document and revision to go back to.\<close>

record savePayload =
  sp_epoch :: "64 word"
  sp_path :: string
  sp_revision :: revision
  sp_session :: Session
  sp_data :: string
  sp_prior :: "(Session \<times> revision) option"

text \<open>A reply channel is named by the call that waits on it.\<close>

type_synonym CallID = nat

record saveWaiter =
  sw_epoch :: "64 word"
  sw_revision :: revision
  sw_requestedRevision :: revision
  sw_reply :: CallID

record ServiceState =
  ss_active :: ActiveSession
  ss_epoch :: "64 word"
  ss_closed :: bool
  ss_pending :: "savePayload list"
  ss_waiters :: "saveWaiter list"
  ss_durable :: "(64 word, revision) gomap"
  ss_wake :: bool

text \<open>What never changes: the platform, JSON, and the locations.\<close>

record SessionEnv =
  ev_Platform :: Platform
  ev_JSON :: JSON
  ev_DocumentsDefault :: string
  ev_BundledDemo :: string

definition NewService :: ServiceState where
  "NewService =
     \<lparr>ss_active = \<lparr>as_Path = '''', as_Session = None, as_RequestedRevision = 0, as_SavedRevision = 0, as_SaveState = SaveStateIdle\<rparr>,
      ss_epoch = 0, ss_closed = False, ss_pending = [], ss_waiters = [], ss_durable = [], ss_wake = False\<rparr>"

text \<open>Reading an absent key of the map gives zero.\<close>

definition durableAt :: "ServiceState \<Rightarrow> 64 word \<Rightarrow> revision" where
  "durableAt st e = (case gm_get (ss_durable st) e of None \<Rightarrow> 0 | Some r \<Rightarrow> r)"

definition signalWorkerLocked :: "ServiceState \<Rightarrow> ServiceState" where
  "signalWorkerLocked st = st\<lparr>ss_wake := True\<rparr>"

section \<open>Results\<close>

definition saveFailure :: "revision \<Rightarrow> revision \<Rightarrow> string \<Rightarrow> SaveResult" where
  "saveFailure requested saved message =
     \<lparr>sr_OK = False, sr_Error = message, sr_RequestedRevision = requested, sr_SavedRevision = saved\<rparr>"

definition saveSuccess :: "revision \<Rightarrow> revision \<Rightarrow> SaveResult" where
  "saveSuccess requested saved =
     \<lparr>sr_OK = True, sr_Error = '''', sr_RequestedRevision = requested, sr_SavedRevision = saved\<rparr>"

definition commandStateFailure :: "revision \<Rightarrow> string \<Rightarrow> CommandStateResult" where
  "commandStateFailure revn message =
     \<lparr>cr_OK = False, cr_Changed = False, cr_Error = message, cr_Revision = revn, cr_Session = None\<rparr>"

definition terminalGroupMutationFailure :: "revision \<Rightarrow> Session option \<Rightarrow> string \<Rightarrow> CommandStateResult" where
  "terminalGroupMutationFailure revn session message =
     \<lparr>cr_OK = False, cr_Changed = False, cr_Error = message, cr_Revision = revn, cr_Session = session\<rparr>"

definition sessionFailure :: "string \<Rightarrow> SessionResult" where
  "sessionFailure message =
     \<lparr>sn_OK = False, sn_Canceled = False, sn_Error = message, sn_FilePath = '''', sn_Session = None\<rparr>"

definition sessionOpened :: "string \<Rightarrow> Session \<Rightarrow> SessionResult" where
  "sessionOpened path session =
     \<lparr>sn_OK = True, sn_Canceled = False, sn_Error = '''', sn_FilePath = path, sn_Session = Some session\<rparr>"

section \<open>Saving\<close>

definition enqueue :: "savePayload \<Rightarrow> saveWaiter \<Rightarrow> ServiceState \<Rightarrow> ServiceState" where
  "enqueue payload waiter st =
     signalWorkerLocked (st\<lparr>ss_active := (ss_active st)\<lparr>as_RequestedRevision := sp_revision payload,
         as_Session := Some (sp_session payload), as_SaveState := SaveStateSaving\<rparr>,
       ss_pending := ss_pending st @ [payload], ss_waiters := ss_waiters st @ [waiter]\<rparr>)"

text \<open>\<open>Save\<close> up to the wait for the reply: an answer, or the state with the save queued.\<close>

definition saveAccept ::
    "SessionEnv \<Rightarrow> bool \<Rightarrow> CallID \<Rightarrow> Session \<Rightarrow> revision \<Rightarrow> ServiceState \<Rightarrow> SaveResult + ServiceState" where
  "saveAccept env canceled call session revn st =
     (if canceled then Inl (saveFailure revn 0 ''save was canceled'')
      else if revn = 0 then Inl (saveFailure revn 0 ''save revision must be greater than zero'')
      else let authored = clearCommandStates (cloneSession session) in
      if \<not> verifyAuthoredSession (ev_Platform env) authored
      then Inl (saveFailure revn 0 ''session is invalid and was not saved'')
      else if ss_closed st then Inl (saveFailure revn 0 ''session service is shut down'')
      else let active = ss_active st; saved = as_SavedRevision active in
      (case as_Session active of
         None \<Rightarrow> Inl (saveFailure revn saved ''there is no active session path'')
       | Some current \<Rightarrow>
           if as_Path active = '''' then Inl (saveFailure revn saved ''there is no active session path'')
           else if samePath (ev_Platform env) (as_Path active) (ev_BundledDemo env)
           then Inl (saveFailure revn saved ''the bundled demo cannot be saved in place'')
           else (case mergeCanonicalSessionState (ev_Platform env) authored current of
               Inl _ \<Rightarrow> Inl (saveFailure revn saved ''session is invalid and was not saved'')
             | Inr accepted \<Rightarrow>
                (case encodeAcceptedSession (ev_Platform env) (ev_JSON env) accepted of
                   None \<Rightarrow> Inl (saveFailure revn saved ''session is invalid and was not saved'')
                 | Some data \<Rightarrow>
                     if revn \<le> durableAt st (ss_epoch st) \<and> sessionsEqual (ev_Platform env) (ev_JSON env) accepted current
                     then Inl (saveSuccess revn (durableAt st (ss_epoch st)))
                     else (let effective = (if revn \<le> as_RequestedRevision active then as_RequestedRevision active + 1 else revn)
                       in Inr (enqueue
                         \<lparr>sp_epoch = ss_epoch st, sp_path = as_Path active, sp_revision = effective, sp_session = accepted,
                          sp_data = data, sp_prior = None\<rparr>
                         \<lparr>sw_epoch = ss_epoch st, sw_revision = effective, sw_requestedRevision = revn, sw_reply = call\<rparr> st))))))"

text \<open>\<open>mutateCommandStates\<close> up to the wait; a call that does not wait has its answer.\<close>

definition nextRevision :: "ActiveSession \<Rightarrow> revision" where
  "nextRevision active =
     (let revn = as_RequestedRevision active + 1 in
      if revn \<le> as_SavedRevision active then as_SavedRevision active + 1 else revn)"

definition mutateAccept ::
    "SessionEnv \<Rightarrow> bool \<Rightarrow> CallID \<Rightarrow> (Session \<Rightarrow> string + bool \<times> Session) \<Rightarrow> ServiceState \<Rightarrow>
     CommandStateResult + ServiceState" where
  "mutateAccept env canceled call mutate st =
     (if canceled then Inl (commandStateFailure 0 ''command state mutation was canceled'')
      else if ss_closed st then Inl (commandStateFailure 0 ''session service is shut down'')
      else let active = ss_active st; saved = as_SavedRevision active in
      (case as_Session active of
         None \<Rightarrow> Inl (commandStateFailure saved ''there is no active session path'')
       | Some prior \<Rightarrow>
           if as_Path active = '''' then Inl (commandStateFailure saved ''there is no active session path'')
           else if samePath (ev_Platform env) (as_Path active) (ev_BundledDemo env)
           then Inl (commandStateFailure saved ''the bundled demo cannot be changed in place'')
           else (case mutate (cloneSession prior) of
               Inl message \<Rightarrow> Inl (commandStateFailure saved message)
             | Inr (changed, candidate) \<Rightarrow>
                 if \<not> changed
                 then Inl \<lparr>cr_OK = True, cr_Changed = False, cr_Error = '''', cr_Revision = saved, cr_Session = Some candidate\<rparr>
                 else (case encodeAcceptedSession (ev_Platform env) (ev_JSON env) candidate of
                     None \<Rightarrow> Inl (commandStateFailure saved ''command state mutation is invalid'')
                   | Some data \<Rightarrow>
                       (let revn = nextRevision active in Inr (enqueue
                         \<lparr>sp_epoch = ss_epoch st, sp_path = as_Path active, sp_revision = revn, sp_session = candidate,
                          sp_data = data, sp_prior = Some (cloneSession prior, as_RequestedRevision active)\<rparr>
                         \<lparr>sw_epoch = ss_epoch st, sw_revision = revn, sw_requestedRevision = revn, sw_reply = call\<rparr> st))))))"

definition mutateAnswer :: "SaveResult \<Rightarrow> ServiceState \<Rightarrow> CommandStateResult" where
  "mutateAnswer saved st =
     (if \<not> sr_OK saved then commandStateFailure (sr_SavedRevision saved) ''could not save the command state''
      else \<lparr>cr_OK = True, cr_Changed = True, cr_Error = '''', cr_Revision = sr_SavedRevision saved,
        cr_Session = as_Session (ss_active st)\<rparr>)"

section \<open>The worker\<close>

text \<open>The newest of the queued saves that share the epoch of the oldest, and the queue behind them.\<close>

primrec coalesce :: "savePayload \<Rightarrow> savePayload list \<Rightarrow> savePayload \<times> savePayload list" where
  "coalesce selected [] = (selected, [])"
| "coalesce selected (p # ps) = (if sp_epoch p = sp_epoch selected then coalesce p ps else (selected, p # ps))"

definition nextPayload :: "ServiceState \<Rightarrow> savePayload option \<times> bool \<times> ServiceState" where
  "nextPayload st =
     (case ss_pending st of
        [] \<Rightarrow> (None, ss_closed st, st)
      | p # ps \<Rightarrow>
         (case coalesce p ps of (selected, rest) \<Rightarrow>
            (Some selected, False,
             st\<lparr>ss_pending := rest,
                ss_active := (if ss_epoch st = sp_epoch selected
                  then (ss_active st)\<lparr>as_SaveState := SaveStateSaving\<rparr> else ss_active st)\<rparr>)))"

definition replyTo :: "revision \<Rightarrow> saveWaiter \<Rightarrow> CallID \<times> SaveResult" where
  "replyTo durableRevision waiter =
     (sw_reply waiter,
      if sw_revision waiter \<le> durableRevision then saveSuccess (sw_requestedRevision waiter) durableRevision
      else saveFailure (sw_requestedRevision waiter) durableRevision ''could not save the session'')"

definition waitsBeyond :: "savePayload \<Rightarrow> saveWaiter \<Rightarrow> bool" where
  "waitsBeyond payload waiter = (sw_epoch waiter \<noteq> sp_epoch payload \<or> sp_revision payload < sw_revision waiter)"

definition finishActive :: "savePayload \<Rightarrow> bool \<Rightarrow> revision \<Rightarrow> ActiveSession \<Rightarrow> ActiveSession" where
  "finishActive payload written durableRevision active =
     (let active = active\<lparr>as_SavedRevision := durableRevision\<rparr> in
      if written
      then active\<lparr>as_Session := Some (sp_session payload),
        as_SaveState := (if as_RequestedRevision active \<le> durableRevision then SaveStateSaved else SaveStateSaving)\<rparr>
      else (case sp_prior payload of
          Some (priorSession, priorRevision) \<Rightarrow>
            if as_RequestedRevision active = sp_revision payload
            then active\<lparr>as_Session := Some priorSession, as_RequestedRevision := priorRevision, as_SaveState := SaveStateFailed\<rparr>
            else active\<lparr>as_SaveState := SaveStateFailed\<rparr>
        | None \<Rightarrow> active\<lparr>as_SaveState := SaveStateFailed\<rparr>))"

definition finishPayload :: "savePayload \<Rightarrow> bool \<Rightarrow> ServiceState \<Rightarrow> ServiceState \<times> (CallID \<times> SaveResult) list" where
  "finishPayload payload written st =
     (let e = sp_epoch payload;
          durable = (if written \<and> durableAt st e < sp_revision payload
            then gm_put e (sp_revision payload) (ss_durable st) else ss_durable st);
          durableRevision = (case gm_get durable e of None \<Rightarrow> 0 | Some r \<Rightarrow> r)
      in (st\<lparr>ss_durable := durable,
             ss_active := (if ss_epoch st = e then finishActive payload written durableRevision (ss_active st) else ss_active st),
             ss_waiters := filter (waitsBeyond payload) (ss_waiters st)\<rparr>,
          map (replyTo durableRevision) (filter (\<lambda>w. \<not> waitsBeyond payload w) (ss_waiters st))))"

section \<open>Direct replacements\<close>

text \<open>\<open>ReplaceTerminalGroups\<close> up to the write: an answer, or what to write and the revision it was prepared at.\<close>

record DirectWrite =
  dw_path :: string
  dw_epoch :: "64 word"
  dw_revision :: revision
  dw_canonical :: Session
  dw_candidate :: Session
  dw_data :: string

definition replacePrepare ::
    "SessionEnv \<Rightarrow> bool \<Rightarrow> TerminalGroup list \<Rightarrow> revision \<Rightarrow> ServiceState \<Rightarrow> CommandStateResult + DirectWrite" where
  "replacePrepare env canceled groups expectedRevision st =
     (if canceled then Inl (terminalGroupMutationFailure 0 None ''terminal group replacement was canceled'')
      else if ss_closed st then Inl (terminalGroupMutationFailure 0 None ''session service is shut down'')
      else let active = ss_active st; revn = as_SavedRevision active in
      (case as_Session active of
         None \<Rightarrow> Inl (terminalGroupMutationFailure revn None ''there is no active session path'')
       | Some session \<Rightarrow>
           if as_Path active = '''' then Inl (terminalGroupMutationFailure revn None ''there is no active session path'')
           else let canonical = cloneSession session in
           if expectedRevision \<noteq> revn
           then Inl (terminalGroupMutationFailure revn (Some canonical) ''session revision changed; review the latest terminal groups'')
           else if samePath (ev_Platform env) (as_Path active) (ev_BundledDemo env)
           then Inl (terminalGroupMutationFailure revn (Some canonical) ''the bundled demo cannot be changed in place'')
           else (case ValidateTerminalGroupReplacement (ev_Platform env) canonical groups of
               Inl e \<Rightarrow> Inl (terminalGroupMutationFailure revn (Some canonical) ''invalid replacement'')
             | Inr diff \<Rightarrow>
                 if \<not> td_Changed diff
                 then Inl \<lparr>cr_OK = True, cr_Changed = False, cr_Error = '''', cr_Revision = revn, cr_Session = Some canonical\<rparr>
                 else let candidate = canonical\<lparr>se_TerminalGroups := groups\<rparr> in
                 (case encodeAcceptedSession (ev_Platform env) (ev_JSON env) candidate of
                    None \<Rightarrow> Inl (terminalGroupMutationFailure revn (Some canonical) ''terminal group candidate is invalid'')
                  | Some data \<Rightarrow> Inr \<lparr>dw_path = as_Path active, dw_epoch = ss_epoch st, dw_revision = revn,
                      dw_canonical = canonical, dw_candidate = candidate, dw_data = data\<rparr>))))"

definition installDirect :: "revision \<Rightarrow> DirectWrite \<Rightarrow> ServiceState \<Rightarrow> ServiceState" where
  "installDirect revn job st =
     st\<lparr>ss_active := (ss_active st)\<lparr>as_Session := Some (dw_candidate job), as_RequestedRevision := revn,
          as_SavedRevision := revn, as_SaveState := SaveStateSaved\<rparr>,
        ss_durable := gm_put (ss_epoch st) revn (ss_durable st)\<rparr>"

definition replaceCommit :: "DirectWrite \<Rightarrow> bool \<Rightarrow> ServiceState \<Rightarrow> CommandStateResult \<times> ServiceState" where
  "replaceCommit job written st =
     (let active = ss_active st in
      if \<not> written
      then (terminalGroupMutationFailure (dw_revision job) (Some (dw_canonical job)) ''could not save terminal groups'', st)
      else if ss_closed st \<or> as_Path active \<noteq> dw_path job \<or> as_SavedRevision active \<noteq> dw_revision job
      then (terminalGroupMutationFailure (as_SavedRevision active) (as_Session active)
        ''active session changed while saving terminal groups'', st)
      else (let revn = dw_revision job + 1 in
        (\<lparr>cr_OK = True, cr_Changed = True, cr_Error = '''', cr_Revision = revn, cr_Session = Some (dw_candidate job)\<rparr>,
         installDirect revn job st)))"

text \<open>\<open>AssociatePlayerConfig\<close>; the relative path comes from \<open>filepath.Rel\<close>.\<close>

definition associatePrepare ::
    "SessionEnv \<Rightarrow> (string \<Rightarrow> string \<Rightarrow> string option) \<Rightarrow> bool \<Rightarrow> string \<Rightarrow> ServiceState \<Rightarrow> SessionResult + DirectWrite" where
  "associatePrepare env rel canceled playerConfigPath st =
     (if canceled then Inl (sessionFailure ''player config association was canceled'')
      else (case as_Session (ss_active st) of
          None \<Rightarrow> Inl (sessionFailure ''there is no active session'')
        | Some session \<Rightarrow>
            if ss_closed st \<or> as_Path (ss_active st) = '''' then Inl (sessionFailure ''there is no active session'')
            else let pf = ev_Platform env; path = pf_Clean pf (trim_space playerConfigPath) in
            if \<not> pf_IsAbs pf path \<or> path = ''/'' then Inl (sessionFailure ''player config path must be absolute'')
            else (case rel (pathDir pf (as_Path (ss_active st))) path of
                None \<Rightarrow> Inl (sessionFailure ''could not create a relative player config reference'')
              | Some reference \<Rightarrow>
                  if pf_IsAbs pf reference \<or> pf_Clean pf reference = ''.''
                  then Inl (sessionFailure ''could not create a relative player config reference'')
                  else let candidate = (cloneSession session)\<lparr>se_PlayerConfig := pf_Clean pf reference\<rparr> in
                  if verifySessionContract pf candidate \<noteq> None
                  then Inl (sessionFailure ''could not verify the player config association'')
                  else (case EncodeSession pf (ev_JSON env) candidate of
                      Inl _ \<Rightarrow> Inl (sessionFailure ''could not prepare the player config association'')
                    | Inr data \<Rightarrow> Inr \<lparr>dw_path = as_Path (ss_active st), dw_epoch = ss_epoch st,
                        dw_revision = as_SavedRevision (ss_active st), dw_canonical = session, dw_candidate = candidate,
                        dw_data = data\<rparr>))))"

definition associateCommit :: "DirectWrite \<Rightarrow> bool \<Rightarrow> ServiceState \<Rightarrow> SessionResult \<times> ServiceState" where
  "associateCommit job written st =
     (if \<not> written then (sessionFailure ''could not save the player config association'', st)
      else if ss_closed st \<or> ss_epoch st \<noteq> dw_epoch job \<or> as_Path (ss_active st) \<noteq> dw_path job
      then (sessionFailure ''active session changed while saving the player config association'', st)
      else (sessionOpened (dw_path job) (dw_candidate job), installDirect (nextRevision (ss_active st)) job st))"

section \<open>Opening documents\<close>

text \<open>A session whose singleton names are not found stays as it is; the search always ends.\<close>

definition activate :: "SessionEnv \<Rightarrow> string \<Rightarrow> Session \<Rightarrow> ServiceState \<Rightarrow> SessionResult \<times> ServiceState" where
  "activate env path session st =
     (let copied = (case NormalizeTerminalGroups (ev_Platform env) session of None \<Rightarrow> session | Some s \<Rightarrow> s) in
      if ss_closed st then (sessionFailure ''session service is shut down'', st)
      else (let e = ss_epoch st + 1 in
        (sessionOpened path copied,
         st\<lparr>ss_epoch := e, ss_active := \<lparr>as_Path = path, as_Session = Some copied, as_RequestedRevision = 0,
              as_SavedRevision = 0, as_SaveState = SaveStateSaved\<rparr>,
            ss_durable := gm_put e 0 (ss_durable st)\<rparr>)))"

definition Snapshot :: "ServiceState \<Rightarrow> ActiveSession" where
  "Snapshot st = ss_active st"

definition Shutdown :: "ServiceState \<Rightarrow> ServiceState" where
  "Shutdown st = signalWorkerLocked (st\<lparr>ss_closed := True\<rparr>)"

text \<open>
  The parts of \<open>Create\<close>, \<open>Open\<close> and \<open>CopyDemo\<close> between the dialog and the store: what is answered at once, or
  the path, the document and its bytes.
\<close>

definition createPrepare :: "SessionEnv \<Rightarrow> string \<Rightarrow> SessionResult + string \<times> Session \<times> string" where
  "createPrepare env target =
     (case writableTarget (ev_Platform env) (ev_BundledDemo env) target of
        Inl message \<Rightarrow> Inl (sessionFailure message)
      | Inr target \<Rightarrow>
         (case starterSession (ev_Platform env) (sessionNameFromPath target) of
            None \<Rightarrow> Inl (sessionFailure ''could not prepare the new session'')
          | Some created \<Rightarrow>
              if verifySessionContract (ev_Platform env) created \<noteq> None
              then Inl (sessionFailure ''could not verify the new session contract'')
              else (case EncodeSession (ev_Platform env) (ev_JSON env) created of
                  Inl _ \<Rightarrow> Inl (sessionFailure ''could not prepare the new session'')
                | Inr data \<Rightarrow> Inr (target, created, data))))"

definition openTarget :: "SessionEnv \<Rightarrow> string \<Rightarrow> SessionResult + string" where
  "openTarget env target =
     (case userDocumentPath (ev_Platform env) target of
        Inl message \<Rightarrow> Inl (sessionFailure message)
      | Inr target \<Rightarrow>
          if samePath (ev_Platform env) target (ev_BundledDemo env)
          then Inl (sessionFailure ''the bundled demo is read-only; copy it before editing'') else Inr target)"

text \<open>A document that has to be valid, from the bytes that were read.\<close>

definition acceptDocument :: "SessionEnv \<Rightarrow> string \<Rightarrow> string \<Rightarrow> string \<Rightarrow> SessionResult + Session" where
  "acceptDocument env invalid refused data =
     (case DecodeSession (ev_Platform env) (ev_JSON env) data of
        Inl _ \<Rightarrow> Inl (sessionFailure invalid)
      | Inr opened \<Rightarrow>
          if verifySessionContract (ev_Platform env) opened \<noteq> None then Inl (sessionFailure refused) else Inr opened)"

definition openAccept :: "SessionEnv \<Rightarrow> string \<Rightarrow> SessionResult + Session" where
  "openAccept env = acceptDocument env ''the selected file is not a valid version-1 session''
     ''the selected file does not satisfy the session contract''"

definition demoAccept :: "SessionEnv \<Rightarrow> string \<Rightarrow> SessionResult + Session" where
  "demoAccept env = acceptDocument env ''the bundled demo is not a valid version-1 session''
     ''the bundled demo does not satisfy the session contract''"

text \<open>The player configuration the bundled demo refers to: where it is and where its copy goes.\<close>

definition companion :: "SessionEnv \<Rightarrow> string \<Rightarrow> string \<Rightarrow> string + (string \<times> string) option" where
  "companion env destination reference =
     (if reference = [] then Inr None
      else (case demoCompanionPaths (ev_Platform env) (ev_BundledDemo env) destination reference of
          Inl _ \<Rightarrow> Inl ''the bundled demo player config reference is invalid''
        | Inr paths \<Rightarrow> Inr (Some paths)))"

definition companionAccept :: "SessionEnv \<Rightarrow> string \<Rightarrow> string option" where
  "companionAccept env configData =
     (case DecodePlayerConfig (ev_JSON env) configData of
        Inl _ \<Rightarrow> Some ''the bundled demo player config is not valid version 1''
      | Inr _ \<Rightarrow> None)"

text \<open>
  The commands with their dialogs, over the state of the store: what is answered at once, or the path and document
  to activate.  \<open>available\<close> is whether the service was still open when the command began.
\<close>

definition CreateDocument ::
    "SessionEnv \<Rightarrow> 's Dialog option \<Rightarrow> 's Store option \<Rightarrow> bool \<Rightarrow> ('s, bool) state \<Rightarrow> ('s, SessionResult + string \<times> Session) state" where
  "CreateDocument env dialog store available canceled = do {
     stop \<leftarrow> canceled;
     if stop \<or> \<not> available then State_Monad.return (Inl (sessionFailure ''new session is unavailable''))
     else (case dialog of
         None \<Rightarrow> State_Monad.return (Inl (sessionFailure ''new session dialog is unavailable''))
       | Some dialog \<Rightarrow> do {
           chosen \<leftarrow> dg_SaveFile dialog (pathJoin (ev_Platform env) (ev_DocumentsDefault env) ''session.json'');
           case chosen of
             Inl _ \<Rightarrow> State_Monad.return (Inl (sessionFailure ''could not choose a new session destination''))
           | Inr target \<Rightarrow>
               if target = '''' then State_Monad.return (Inl ((sessionFailure '''')\<lparr>sn_Canceled := True\<rparr>))
               else do {
                 stop \<leftarrow> canceled;
                 if stop then State_Monad.return (Inl (sessionFailure ''new session was canceled''))
                 else (case createPrepare env target of
                     Inl failure \<Rightarrow> State_Monad.return (Inl failure)
                   | Inr (target, created, data) \<Rightarrow>
                      (case store of
                         None \<Rightarrow> State_Monad.return (Inl (sessionFailure ''session storage is unavailable''))
                       | Some store \<Rightarrow> do {
                           err \<leftarrow> sr_WriteAtomic store target data;
                           State_Monad.return (if err \<noteq> None
                             then Inl (sessionFailure ''could not write the new session'')
                             else Inr (target, created)) })) } }) }"

definition readDocument ::
    "'s Store \<Rightarrow> string \<Rightarrow> string \<Rightarrow> (string \<Rightarrow> SessionResult + Session) \<Rightarrow> ('s, SessionResult + Session) state" where
  "readDocument store path unreadable check = do {
     r \<leftarrow> sr_Read store path;
     State_Monad.return (case r of Inl _ \<Rightarrow> Inl (sessionFailure unreadable) | Inr data \<Rightarrow> check data) }"

definition OpenDocument ::
    "SessionEnv \<Rightarrow> 's Dialog option \<Rightarrow> 's Store option \<Rightarrow> bool \<Rightarrow> ('s, bool) state \<Rightarrow> ('s, SessionResult + string \<times> Session) state" where
  "OpenDocument env dialog store available canceled = do {
     stop \<leftarrow> canceled;
     if stop \<or> \<not> available then State_Monad.return (Inl (sessionFailure ''open session is unavailable''))
     else (case dialog of
         None \<Rightarrow> State_Monad.return (Inl (sessionFailure ''open session dialog is unavailable''))
       | Some dialog \<Rightarrow> do {
           chosen \<leftarrow> dg_OpenFile dialog (ev_DocumentsDefault env);
           case chosen of
             Inl _ \<Rightarrow> State_Monad.return (Inl (sessionFailure ''could not choose a session to open''))
           | Inr target \<Rightarrow>
               if target = '''' then State_Monad.return (Inl ((sessionFailure '''')\<lparr>sn_Canceled := True\<rparr>))
               else do {
                 stop \<leftarrow> canceled;
                 if stop then State_Monad.return (Inl (sessionFailure ''open session was canceled''))
                 else (case openTarget env target of
                     Inl failure \<Rightarrow> State_Monad.return (Inl failure)
                   | Inr target \<Rightarrow>
                      (case store of
                         None \<Rightarrow> State_Monad.return (Inl (sessionFailure ''session storage is unavailable''))
                       | Some store \<Rightarrow> do {
                           r \<leftarrow> readDocument store target ''could not read the selected session'' (openAccept env);
                           State_Monad.return (map_sum id (Pair target) r) })) } }) }"

definition copyCompanion ::
    "SessionEnv \<Rightarrow> 's Store \<Rightarrow> string \<Rightarrow> string \<Rightarrow> ('s, string option) state" where
  "copyCompanion env store destination reference =
     (case companion env destination reference of
        Inl message \<Rightarrow> State_Monad.return (Some message)
      | Inr None \<Rightarrow> State_Monad.return None
      | Inr (Some (source, destinationConfig)) \<Rightarrow> do {
          r \<leftarrow> sr_Read store source;
          case r of
            Inl _ \<Rightarrow> State_Monad.return (Some ''could not read the bundled demo player config'')
          | Inr configData \<Rightarrow>
             (case companionAccept env configData of
                Some message \<Rightarrow> State_Monad.return (Some message)
              | None \<Rightarrow> do {
                  err \<leftarrow> sr_CopyAtomic store source destinationConfig;
                  State_Monad.return (if err \<noteq> None
                    then Some ''could not create a writable demo player config copy'' else None) }) })"

definition CopyDemoDocument ::
    "SessionEnv \<Rightarrow> 's Dialog option \<Rightarrow> 's Store option \<Rightarrow> bool \<Rightarrow> ('s, bool) state \<Rightarrow> ('s, SessionResult + string \<times> Session) state" where
  "CopyDemoDocument env dialog store available canceled = do {
     stop \<leftarrow> canceled;
     if stop \<or> \<not> available then State_Monad.return (Inl (sessionFailure ''demo copy is unavailable''))
     else (case dialog of
         None \<Rightarrow> State_Monad.return (Inl (sessionFailure ''demo copy dialog is unavailable''))
       | Some dialog \<Rightarrow> do {
           chosen \<leftarrow> dg_SaveFile dialog (pathJoin (ev_Platform env) (ev_DocumentsDefault env) ''demo.json'');
           case chosen of
             Inl _ \<Rightarrow> State_Monad.return (Inl (sessionFailure ''could not choose a demo destination''))
           | Inr destination \<Rightarrow>
               if destination = '''' then State_Monad.return (Inl ((sessionFailure '''')\<lparr>sn_Canceled := True\<rparr>))
               else do {
                 stop \<leftarrow> canceled;
                 if stop then State_Monad.return (Inl (sessionFailure ''demo copy was canceled''))
                 else (case writableTarget (ev_Platform env) (ev_BundledDemo env) destination of
                     Inl message \<Rightarrow> State_Monad.return (Inl (sessionFailure message))
                   | Inr destination \<Rightarrow>
                      (case store of
                         None \<Rightarrow> State_Monad.return (Inl (sessionFailure ''session storage is unavailable''))
                       | Some store \<Rightarrow> do {
                           r \<leftarrow> readDocument store (ev_BundledDemo env) ''could not read the bundled demo'' (demoAccept env);
                           case r of
                             Inl failure \<Rightarrow> State_Monad.return (Inl failure)
                           | Inr demo \<Rightarrow> do {
                               problem \<leftarrow> copyCompanion env store destination (se_PlayerConfig demo);
                               case problem of
                                 Some message \<Rightarrow> State_Monad.return (Inl (sessionFailure message))
                               | None \<Rightarrow> do {
                                   err \<leftarrow> sr_CopyAtomic store (ev_BundledDemo env) destination;
                                   State_Monad.return (if err \<noteq> None
                                     then Inl (sessionFailure ''could not create a writable demo copy'')
                                     else Inr (destination, demo)) } } })) } }) }"

end
