(* ===== verification/SaveProtocol.thy ===== *)
theory SaveProtocol
  imports SessionService
begin

text \<open>
  The goroutines of the session service: callers that hold the locks \<open>commandMu\<close> and \<open>documentMu\<close>, wait on
  their reply channels and write directly, and the worker that drains the queue.  One event is one stretch of
  code between two points where another goroutine can run; \<open>protocolStep\<close> answers \<open>None\<close> for an event that
  is not possible, because the lock it needs is held or nothing is there to be received.
\<close>

section \<open>Goroutines\<close>

datatype Worker = WorkerWaiting | WorkerReady | WorkerWriting savePayload | WorkerWritten savePayload bool | WorkerDone

text \<open>
  What \<open>Create\<close> and \<open>CopyDemo\<close> still have to do with files before they activate: write given bytes, or copy
  whatever the source holds when it is copied.
\<close>

datatype FileStep = WriteStep string string | CopyStep string

primrec fileTarget :: "FileStep \<Rightarrow> string" where
  "fileTarget (WriteStep path data) = path"
| "fileTarget (CopyStep path) = path"

primrec fileData :: "FileStep \<Rightarrow> string \<Rightarrow> string" where
  "fileData (WriteStep path data) copied = data"
| "fileData (CopyStep path) copied = copied"

datatype Call =
  CallSave | CallMutate | CallOpening "FileStep list" string Session
| CallReplace DirectWrite | CallReplaced DirectWrite bool
| CallAssociate DirectWrite | CallAssociated DirectWrite bool

datatype Mutation = ExecuteCommandState string string | ResetCommandState string string | ResetTerminalCommandStates string

primrec mutation :: "Mutation \<Rightarrow> Session \<Rightarrow> string + bool \<times> Session" where
  "mutation (ExecuteCommandState terminalID commandID) = executeCommandState terminalID commandID"
| "mutation (ResetCommandState terminalID commandID) = resetCommandState terminalID commandID"
| "mutation (ResetTerminalCommandStates terminalID) = resetTerminalCommandStates terminalID"

record World =
  wd_service :: ServiceState
  wd_worker :: Worker
  wd_calls :: "(CallID, Call) gomap"
  wd_replies :: "(CallID \<times> SaveResult) list"
  wd_files :: "(string, string) gomap"

datatype Event =
  EvSave CallID bool Session revision | EvMutate CallID bool Mutation | EvReturn CallID
| EvReplace CallID bool "TerminalGroup list" revision | EvReplaceWrite CallID bool | EvReplaceEnd CallID
| EvAssociate CallID bool string | EvAssociateWrite CallID bool | EvAssociateEnd CallID
| EvCreate CallID bool string | EvOpen CallID bool string "string option"
| EvCopyDemo CallID bool string "string option" "string option"
| EvOpeningWrite CallID bool string | EvActivate CallID | EvShutdown
| EvWake | EvNext | EvWrite bool | EvFinish

definition newWorld :: World where
  "newWorld = \<lparr>wd_service = NewService, wd_worker = WorkerWaiting, wd_calls = [], wd_replies = [], wd_files = []\<rparr>"

text \<open>Which calls hold which lock.\<close>

definition holdsCommand :: "Call \<Rightarrow> bool" where "holdsCommand c = (c \<noteq> CallSave)"

definition holdsDocument :: "Call \<Rightarrow> bool" where
  "holdsDocument c = (case c of CallMutate \<Rightarrow> True | CallReplace _ \<Rightarrow> True | CallReplaced _ _ \<Rightarrow> True | _ \<Rightarrow> False)"

definition commandFree :: "World \<Rightarrow> bool" where
  "commandFree w = list_all (\<lambda>(_, c). \<not> holdsCommand c) (wd_calls w)"

definition documentFree :: "World \<Rightarrow> bool" where
  "documentFree w = list_all (\<lambda>(_, c). \<not> holdsDocument c) (wd_calls w)"

definition newCall :: "World \<Rightarrow> CallID \<Rightarrow> bool" where
  "newCall w c = (\<not> gm_has (wd_calls w) c \<and> c \<notin> fst ` set (wd_replies w))"

definition putFile :: "bool \<Rightarrow> string \<Rightarrow> string \<Rightarrow> World \<Rightarrow> World" where
  "putFile written path data w = (if written then w\<lparr>wd_files := gm_put path data (wd_files w)\<rparr> else w)"

definition running :: "CallID \<Rightarrow> Call \<Rightarrow> World \<Rightarrow> World" where
  "running c call w = w\<lparr>wd_calls := gm_put c call (wd_calls w)\<rparr>"

definition returned :: "CallID \<Rightarrow> World \<Rightarrow> World" where
  "returned c w = w\<lparr>wd_calls := gm_del c (wd_calls w)\<rparr>"

text \<open>Everything a step depends on that never changes.\<close>

record ProtocolEnv =
  pe_Env :: SessionEnv
  pe_Rel :: "string \<Rightarrow> string \<Rightarrow> string option"

section \<open>Callers\<close>

text \<open>
  \<open>CopyDemo\<close> up to its copies; \<open>demo\<close> and \<open>config\<close> are what the bundled demo and its player configuration held
  when they were checked, nothing when they could not be read.
\<close>

definition copyPrepare ::
    "SessionEnv \<Rightarrow> string \<Rightarrow> string option \<Rightarrow> string option \<Rightarrow> SessionResult + FileStep list \<times> string \<times> Session" where
  "copyPrepare env destination demo config =
     (case writableTarget (ev_Platform env) (ev_BundledDemo env) destination of
        Inl message \<Rightarrow> Inl (sessionFailure message)
      | Inr destination \<Rightarrow>
         (case demo of
            None \<Rightarrow> Inl (sessionFailure ''could not read the bundled demo'')
          | Some data \<Rightarrow>
             (case demoAccept env data of
                Inl failure \<Rightarrow> Inl failure
              | Inr session \<Rightarrow>
                 (case companion env destination (se_PlayerConfig session) of
                    Inl message \<Rightarrow> Inl (sessionFailure message)
                  | Inr None \<Rightarrow> Inr ([CopyStep destination], destination, session)
                  | Inr (Some (source, destinationConfig)) \<Rightarrow>
                     (case config of
                        None \<Rightarrow> Inl (sessionFailure ''could not read the bundled demo player config'')
                      | Some configData \<Rightarrow>
                         (case companionAccept env configData of
                            Some message \<Rightarrow> Inl (sessionFailure message)
                          | None \<Rightarrow> Inr ([CopyStep destinationConfig, CopyStep destination], destination, session)))))))"

text \<open>
  A command with a dialog, once a file was chosen: it holds \<open>commandMu\<close> until its files are written and its
  document is active, or answers at once.
\<close>

definition beginOpening :: "CallID \<Rightarrow> bool \<Rightarrow> SessionResult + FileStep list \<times> string \<times> Session \<Rightarrow> World \<Rightarrow> World option" where
  "beginOpening c canceled plan w =
     (if newCall w c \<and> commandFree w
      then Some (if canceled \<or> ss_closed (wd_service w) then w
        else (case plan of Inl answer \<Rightarrow> w | Inr (steps, path, session) \<Rightarrow> running c (CallOpening steps path session) w))
      else None)"

definition callerStep :: "ProtocolEnv \<Rightarrow> Event \<Rightarrow> World \<Rightarrow> World option" where
  "callerStep pe ev w =
     (let st = wd_service w in
      case ev of
        EvSave c canceled session revn \<Rightarrow>
          if newCall w c \<and> documentFree w
          then Some (case saveAccept (pe_Env pe) canceled c session revn st of
              Inl answer \<Rightarrow> w\<lparr>wd_replies := wd_replies w @ [(c, answer)]\<rparr>
            | Inr st' \<Rightarrow> running c CallSave (w\<lparr>wd_service := st'\<rparr>))
          else None
      | EvMutate c canceled m \<Rightarrow>
          if newCall w c \<and> commandFree w \<and> documentFree w
          then Some (case mutateAccept (pe_Env pe) canceled c (mutation m) st of
              Inl answer \<Rightarrow> w
            | Inr st' \<Rightarrow> running c CallMutate (w\<lparr>wd_service := st'\<rparr>))
          else None
      | EvReturn c \<Rightarrow>
          if gm_get (wd_calls w) c \<in> {Some CallSave, Some CallMutate} \<and> c \<in> fst ` set (wd_replies w)
          then Some (returned c w) else None
      | EvReplace c canceled groups expected \<Rightarrow>
          if newCall w c \<and> commandFree w \<and> documentFree w
          then Some (case replacePrepare (pe_Env pe) canceled groups expected st of
              Inl answer \<Rightarrow> w
            | Inr job \<Rightarrow> running c (CallReplace job) w)
          else None
      | EvReplaceWrite c ok \<Rightarrow>
          (case gm_get (wd_calls w) c of
             Some (CallReplace job) \<Rightarrow>
               Some (running c (CallReplaced job ok) (putFile ok (dw_path job) (dw_data job) w))
           | _ \<Rightarrow> None)
      | EvReplaceEnd c \<Rightarrow>
          (case gm_get (wd_calls w) c of
             Some (CallReplaced job ok) \<Rightarrow> Some (returned c (w\<lparr>wd_service := snd (replaceCommit job ok st)\<rparr>))
           | _ \<Rightarrow> None)
      | EvAssociate c canceled path \<Rightarrow>
          if newCall w c \<and> commandFree w
          then Some (case associatePrepare (pe_Env pe) (pe_Rel pe) canceled path st of
              Inl answer \<Rightarrow> w
            | Inr job \<Rightarrow> running c (CallAssociate job) w)
          else None
      | EvAssociateWrite c ok \<Rightarrow>
          (case gm_get (wd_calls w) c of
             Some (CallAssociate job) \<Rightarrow>
               Some (running c (CallAssociated job ok) (putFile ok (dw_path job) (dw_data job) w))
           | _ \<Rightarrow> None)
      | EvAssociateEnd c \<Rightarrow>
          (case gm_get (wd_calls w) c of
             Some (CallAssociated job ok) \<Rightarrow> Some (returned c (w\<lparr>wd_service := snd (associateCommit job ok st)\<rparr>))
           | _ \<Rightarrow> None)
      | EvCreate c canceled target \<Rightarrow>
          beginOpening c canceled (case createPrepare (pe_Env pe) target of
              Inl answer \<Rightarrow> Inl answer
            | Inr (path, created, data) \<Rightarrow> Inr ([WriteStep path data], path, created)) w
      | EvOpen c canceled target contents \<Rightarrow>
          beginOpening c canceled (case openTarget (pe_Env pe) target of
              Inl answer \<Rightarrow> Inl answer
            | Inr path \<Rightarrow>
                (case contents of
                   None \<Rightarrow> Inl (sessionFailure ''could not read the selected session'')
                 | Some data \<Rightarrow> map_sum id (\<lambda>opened. ([], path, opened)) (openAccept (pe_Env pe) data))) w
      | EvCopyDemo c canceled destination demo config \<Rightarrow>
          beginOpening c canceled (copyPrepare (pe_Env pe) destination demo config) w
      | EvOpeningWrite c ok copied \<Rightarrow>
          (case gm_get (wd_calls w) c of
             Some (CallOpening (s # steps) path session) \<Rightarrow>
               Some (if ok then running c (CallOpening steps path session) (putFile True (fileTarget s) (fileData s copied) w)
                 else returned c w)
           | _ \<Rightarrow> None)
      | EvActivate c \<Rightarrow>
          (case gm_get (wd_calls w) c of
             Some (CallOpening [] path session) \<Rightarrow>
               Some (returned c (w\<lparr>wd_service := snd (activate (pe_Env pe) path session st)\<rparr>))
           | _ \<Rightarrow> None)
      | EvShutdown \<Rightarrow> Some (w\<lparr>wd_service := Shutdown st\<rparr>)
      | _ \<Rightarrow> None)"

section \<open>The worker\<close>

text \<open>\<open>runSaveWorker\<close>: wait for the wake signal, then take payloads until the queue is empty.\<close>

definition workerStep :: "Event \<Rightarrow> World \<Rightarrow> World option" where
  "workerStep ev w =
     (case (ev, wd_worker w) of
        (EvWake, WorkerWaiting) \<Rightarrow>
          if ss_wake (wd_service w)
          then Some (w\<lparr>wd_service := (wd_service w)\<lparr>ss_wake := False\<rparr>, wd_worker := WorkerReady\<rparr>) else None
      | (EvNext, WorkerReady) \<Rightarrow>
          (case nextPayload (wd_service w) of
             (payload, stop, st) \<Rightarrow>
               Some (w\<lparr>wd_service := st, wd_worker :=
                 (case payload of Some p \<Rightarrow> WorkerWriting p | None \<Rightarrow> if stop then WorkerDone else WorkerWaiting)\<rparr>))
      | (EvWrite ok, WorkerWriting p) \<Rightarrow>
          Some (putFile ok (sp_path p) (sp_data p) (w\<lparr>wd_worker := WorkerWritten p ok\<rparr>))
      | (EvFinish, WorkerWritten p ok) \<Rightarrow>
          (case finishPayload p ok (wd_service w) of
             (st, replies) \<Rightarrow> Some (w\<lparr>wd_service := st, wd_worker := WorkerReady, wd_replies := wd_replies w @ replies\<rparr>))
      | _ \<Rightarrow> None)"

definition workerEvent :: "Event \<Rightarrow> bool" where
  "workerEvent ev = (case ev of EvWake \<Rightarrow> True | EvNext \<Rightarrow> True | EvWrite _ \<Rightarrow> True | EvFinish \<Rightarrow> True | _ \<Rightarrow> False)"

definition protocolStep :: "ProtocolEnv \<Rightarrow> Event \<Rightarrow> World \<Rightarrow> World option" where
  "protocolStep pe ev w = (if workerEvent ev then workerStep ev w else callerStep pe ev w)"

text \<open>The states a run can reach when only events that \<open>allowed\<close> admits take place.\<close>

inductive reachable :: "ProtocolEnv \<Rightarrow> (World \<Rightarrow> Event \<Rightarrow> bool) \<Rightarrow> World \<Rightarrow> bool" for pe allowed where
  start: "reachable pe allowed newWorld"
| step: "reachable pe allowed w \<Longrightarrow> allowed w ev \<Longrightarrow> protocolStep pe ev w = Some w' \<Longrightarrow> reachable pe allowed w'"

text \<open>A run of given events.\<close>

primrec protocolRun :: "ProtocolEnv \<Rightarrow> Event list \<Rightarrow> World \<Rightarrow> World option" where
  "protocolRun pe [] w = Some w"
| "protocolRun pe (ev # evs) w = Option.bind (protocolStep pe ev w) (protocolRun pe evs)"

text \<open>The worker on its own: its only possible event, \<open>ok\<close> deciding a write.\<close>

definition workerTurn :: "bool \<Rightarrow> World \<Rightarrow> World" where
  "workerTurn ok w =
     (case workerStep (case wd_worker w of WorkerWaiting \<Rightarrow> EvWake | WorkerReady \<Rightarrow> EvNext
         | WorkerWriting _ \<Rightarrow> EvWrite ok | _ \<Rightarrow> EvFinish) w of
        Some w' \<Rightarrow> w' | None \<Rightarrow> w)"

section \<open>Outstanding saves\<close>

definition inFlight :: "World \<Rightarrow> savePayload list" where
  "inFlight w = (case wd_worker w of WorkerWriting p \<Rightarrow> [p] | WorkerWritten p _ \<Rightarrow> [p] | _ \<Rightarrow> [])"

definition outstanding :: "World \<Rightarrow> savePayload list" where
  "outstanding w = inFlight w @ ss_pending (wd_service w)"

text \<open>
  Runs in which a direct replacement is written and committed only while no save is outstanding, a new or copied
  document does not overwrite the file of an outstanding save, and the counters do not reach the end of their
  range.
\<close>

definition undisturbed :: "World \<Rightarrow> Event \<Rightarrow> bool" where
  "undisturbed w ev =
     (case ev of
        EvReplaceWrite _ _ \<Rightarrow> outstanding w = []
      | EvReplaceEnd _ \<Rightarrow> outstanding w = []
      | EvAssociateWrite _ _ \<Rightarrow> outstanding w = []
      | EvAssociateEnd _ \<Rightarrow> outstanding w = []
      | EvSave _ _ _ _ \<Rightarrow> as_RequestedRevision (ss_active (wd_service w)) \<noteq> -1
      | EvMutate _ _ _ \<Rightarrow> as_RequestedRevision (ss_active (wd_service w)) \<noteq> -1
      | EvOpeningWrite c _ _ \<Rightarrow>
          (case gm_get (wd_calls w) c of
             Some (CallOpening (s # steps) _ _) \<Rightarrow> fileTarget s \<notin> sp_path ` set (outstanding w)
           | _ \<Rightarrow> True)
      | EvActivate _ \<Rightarrow> ss_epoch (wd_service w) \<noteq> -1
      | _ \<Rightarrow> True)"

end
