(* ===== verification/SaveProtocolInv.thy ===== *)
theory SaveProtocolInv
  imports SaveProtocol
begin

text \<open>
  What the save protocol guarantees.  \<open>queue_ok\<close> describes the accepted saves that are not finished, with the calls
  that wait for them; each operation of the service is a step on it.  \<open>protocol_ok\<close> adds the worker (a wake signal
  is never lost) and the callers (whoever waits is answered or registered).
\<close>

section \<open>The queue\<close>

definition precedes :: "savePayload \<Rightarrow> savePayload \<Rightarrow> bool" where
  "precedes p q =
     (sp_epoch p < sp_epoch q \<or>
      sp_epoch p = sp_epoch q \<and> sp_revision p < sp_revision q \<and>
      (\<forall>prior r. sp_prior q = Some (prior, r) \<longrightarrow> sp_revision p \<le> r))"

definition unsaved :: "(64 word \<Rightarrow> revision) \<Rightarrow> savePayload \<Rightarrow> bool" where
  "unsaved durable p =
     (durable (sp_epoch p) < sp_revision p \<and>
      (\<forall>prior r. sp_prior p = Some (prior, r) \<longrightarrow> durable (sp_epoch p) \<le> r))"

definition requested :: "64 word \<Rightarrow> revision \<Rightarrow> savePayload \<Rightarrow> bool" where
  "requested e r p = (sp_epoch p < e \<or> sp_epoch p = e \<and> sp_revision p \<le> r)"

definition waiting :: "(64 word \<Rightarrow> revision) \<Rightarrow> savePayload list \<Rightarrow> saveWaiter \<Rightarrow> bool" where
  "waiting durable qs w =
     (durable (sw_epoch w) < sw_revision w \<and> sw_requestedRevision w \<le> sw_revision w \<and>
      (\<exists>p\<in>set qs. \<not> waitsBeyond p w))"

definition queue_ok :: "64 word \<Rightarrow> revision \<Rightarrow> (64 word \<Rightarrow> revision) \<Rightarrow> savePayload list \<Rightarrow> saveWaiter list \<Rightarrow> bool" where
  "queue_ok e r durable qs ws =
     (sorted_wrt precedes qs \<and> (\<forall>p\<in>set qs. unsaved durable p \<and> requested e r p) \<and> (\<forall>w\<in>set ws. waiting durable qs w))"

lemma queue_ok_nil [simp]: "queue_ok e r durable [] ws \<longleftrightarrow> ws = []"
  by (cases ws) (auto simp: queue_ok_def waiting_def)

lemma queue_ok_accept:
  assumes "queue_ok e r durable qs ws" and "durable e \<le> r" and "r < sp_revision p" and "sp_epoch p = e"
    and "sp_prior p = None \<or> (\<exists>prior. sp_prior p = Some (prior, r))"
    and "sw_epoch w = e" and "sw_revision w = sp_revision p" and "sw_requestedRevision w \<le> sw_revision w"
  shows "queue_ok e (sp_revision p) durable (qs @ [p]) (ws @ [w])"
proof -
  have "precedes q p" "requested e (sp_revision p) q" if "q \<in> set qs" for q
  proof -
    from assms(1) that have "requested e r q" by (simp add: queue_ok_def)
    then have "sp_epoch q < e \<or> sp_epoch q = e \<and> sp_revision q \<le> r" by (simp add: requested_def)
    then show "precedes q p" "requested e (sp_revision p) q"
      using assms(3,4,5) unfolding precedes_def requested_def by (elim disjE; force)+
  qed
  moreover have "unsaved durable p" "requested e (sp_revision p) p"
    using assms(2-5) unfolding unsaved_def requested_def by (elim disjE; force)+
  moreover have "waiting durable (qs @ [p]) w"
    using assms(2-4,6-8) by (auto simp: waiting_def waitsBeyond_def)
  moreover have "waiting durable (qs @ [p]) v" if "v \<in> set ws" for v
    using assms(1) that by (auto simp: queue_ok_def waiting_def)
  ultimately show ?thesis using assms(1) by (auto simp: queue_ok_def sorted_wrt_append)
qed

lemma coalesce_split:
  "coalesce p ps = (s, rest) \<Longrightarrow> \<exists>taken. p # ps = taken @ s # rest \<and> (\<forall>q\<in>set taken. sp_epoch q = sp_epoch s)"
proof (induction ps arbitrary: p)
  case (Cons q ps)
  show ?case
  proof (cases "sp_epoch q = sp_epoch p")
    case True
    with Cons.prems have "coalesce q ps = (s, rest)" by simp
    from Cons.IH [OF this] obtain taken
      where taken: "q # ps = taken @ s # rest" "\<forall>x\<in>set taken. sp_epoch x = sp_epoch s" by blast
    from taken(1) have "q \<in> insert s (set taken)" by (cases taken) auto
    with taken(2) True have "\<forall>x\<in>set (p # taken). sp_epoch x = sp_epoch s" by (metis insert_iff list.simps(15))
    with taken(1) show ?thesis by (intro exI [of _ "p # taken"]) simp
  qed (use Cons.prems in auto)
qed auto

lemma queue_ok_coalesce:
  assumes "queue_ok e r durable (p # ps) ws" and "coalesce p ps = (s, rest)"
  shows "queue_ok e r durable (s # rest) ws"
proof -
  from coalesce_split [OF assms(2)] obtain taken
    where split: "p # ps = taken @ s # rest" and same: "\<forall>q\<in>set taken. sp_epoch q = sp_epoch s" by blast
  have queue: "queue_ok e r durable (taken @ s # rest) ws" using assms(1) by (simp only: split)
  have "waiting durable (s # rest) w" if "w \<in> set ws" for w
  proof -
    from queue that obtain q where q: "q \<in> set (taken @ s # rest)" "\<not> waitsBeyond q w"
      and rest: "durable (sw_epoch w) < sw_revision w" "sw_requestedRevision w \<le> sw_revision w"
      by (auto simp: queue_ok_def waiting_def)
    have "\<exists>q\<in>set (s # rest). \<not> waitsBeyond q w"
    proof (cases "q \<in> set taken")
      case True
      with queue have "precedes q s" by (simp add: queue_ok_def sorted_wrt_append)
      with same True have "sp_epoch q = sp_epoch s" "sp_revision q < sp_revision s"
        by (auto simp: precedes_def)
      with q(2) have "\<not> waitsBeyond s w" by (auto simp: waitsBeyond_def)
      then show ?thesis by simp
    qed (use q in auto)
    with rest show ?thesis by (simp add: waiting_def)
  qed
  with queue show ?thesis by (auto simp: queue_ok_def sorted_wrt_append)
qed

lemma queue_ok_finish:
  assumes "queue_ok e r durable (p # qs) ws"
    and "r' = r \<or> \<not> written \<and> sp_epoch p = e \<and> sp_revision p = r \<and> (\<exists>prior. sp_prior p = Some (prior, r'))"
  shows "queue_ok e r' (if written then durable(sp_epoch p := sp_revision p) else durable) qs (filter (waitsBeyond p) ws)"
    (is "queue_ok e r' ?durable qs ?ws")
proof -
  have p: "unsaved durable p" "requested e r p" and qs: "sorted_wrt precedes qs"
    and after: "precedes p q" "unsaved durable q" "requested e r q" if "q \<in> set qs" for q
    using assms(1) that by (auto simp: queue_ok_def)
  have "unsaved ?durable q" if "q \<in> set qs" for q
    using after(1,2) [OF that] by (auto simp: unsaved_def precedes_def)
  moreover have "requested e r' q" if "q \<in> set qs" for q
    using assms(2) after(1,3) [OF that] unfolding requested_def precedes_def by (elim disjE; force)
  moreover have "waiting ?durable qs w" if "w \<in> set ws" "waitsBeyond p w" for w
  proof -
    from assms(1) that have w: "waiting durable (p # qs) w" by (simp add: queue_ok_def)
    with that(2) obtain q where q: "q \<in> set qs" "\<not> waitsBeyond q w" by (auto simp: waiting_def)
    from w that(2) have "?durable (sw_epoch w) < sw_revision w" by (auto simp: waiting_def waitsBeyond_def)
    with w q show ?thesis by (auto simp: waiting_def)
  qed
  moreover have "sorted_wrt precedes qs" using assms(1) by (simp add: queue_ok_def)
  ultimately show ?thesis by (auto simp: queue_ok_def)
qed

lemma queue_ok_activate:
  assumes "queue_ok e r durable qs ws" and "e < e'"
  shows "queue_ok e' r' (durable(e' := 0)) qs ws"
proof -
  have below: "sp_epoch p \<noteq> e'" "requested e' r' p" if "p \<in> set qs" for p
    using assms that by (fastforce simp: queue_ok_def requested_def)+
  have "waiting (durable(e' := 0)) qs w" if "w \<in> set ws" for w
  proof -
    from assms(1) that have w: "waiting durable qs w" by (simp add: queue_ok_def)
    then obtain p where "p \<in> set qs" "sw_epoch w = sp_epoch p" by (auto simp: waiting_def waitsBeyond_def)
    with below(1) have "sw_epoch w \<noteq> e'" by metis
    with w show ?thesis by (simp add: waiting_def)
  qed
  with assms(1) below show ?thesis by (auto simp: queue_ok_def unsaved_def)
qed

section \<open>The service\<close>

definition service_ok :: "ServiceState \<Rightarrow> savePayload list \<Rightarrow> bool" where
  "service_ok st qs =
     (queue_ok (ss_epoch st) (as_RequestedRevision (ss_active st)) (durableAt st) qs (ss_waiters st) \<and>
      as_SavedRevision (ss_active st) = durableAt st (ss_epoch st) \<and>
      durableAt st (ss_epoch st) \<le> as_RequestedRevision (ss_active st))"

lemma durableAt_cong: "ss_durable st = ss_durable st' \<Longrightarrow> durableAt st = durableAt st'"
  by (simp add: durableAt_def fun_eq_iff)

lemma durableAt_put: "ss_durable st' = gm_put e r (ss_durable st) \<Longrightarrow> durableAt st' = (durableAt st)(e := r)"
  by (simp add: durableAt_def fun_eq_iff)

text \<open>What accepting a save or a mutation does to the service.\<close>

definition queues :: "SessionEnv \<Rightarrow> CallID \<Rightarrow> ServiceState \<Rightarrow> ServiceState \<Rightarrow> bool" where
  "queues env c st st' =
     (\<not> ss_closed st \<and> (\<exists>p w. st' = enqueue p w st \<and> sp_epoch p = ss_epoch st \<and>
        as_RequestedRevision (ss_active st) < sp_revision p \<and>
        (sp_prior p = None \<or> (\<exists>prior. sp_prior p = Some (prior, as_RequestedRevision (ss_active st)))) \<and>
        encodeAcceptedSession (ev_Platform env) (ev_JSON env) (sp_session p) = Some (sp_data p) \<and>
        sw_epoch w = ss_epoch st \<and> sw_revision w = sp_revision p \<and> sw_requestedRevision w \<le> sw_revision w \<and>
        sw_reply w = c))"

lemma revision_next: "r \<noteq> -1 \<Longrightarrow> r < r + 1" for r :: revision
  using unatSuc [of r] by (auto simp: eq_neg_iff_add_eq_0 word_less_nat_alt add.commute)

lemma saveAccept_queues:
  assumes "saveAccept env canceled c session revn st = Inr st'" and "as_RequestedRevision (ss_active st) \<noteq> -1"
  shows "queues env c st st'"
proof -
  let ?e = "if revn \<le> as_RequestedRevision (ss_active st) then as_RequestedRevision (ss_active st) + 1 else revn"
  from assms(1) obtain accepted data where st':
    "encodeAcceptedSession (ev_Platform env) (ev_JSON env) accepted = Some data" "\<not> ss_closed st"
    "st' = enqueue \<lparr>sp_epoch = ss_epoch st, sp_path = as_Path (ss_active st), sp_revision = ?e, sp_session = accepted,
        sp_data = data, sp_prior = None\<rparr>
      \<lparr>sw_epoch = ss_epoch st, sw_revision = ?e, sw_requestedRevision = revn, sw_reply = c\<rparr> st"
    by (auto simp: saveAccept_def Let_def split: if_splits option.splits sum.splits)
  have "as_RequestedRevision (ss_active st) < ?e" "revn \<le> ?e"
    using revision_next [OF assms(2)] by auto
  with st' show ?thesis unfolding queues_def by fastforce
qed

lemma mutateAccept_accepts:
  assumes "mutateAccept env canceled c mutate st = Inr st'"
  obtains prior candidate data where "as_Session (ss_active st) = Some prior"
    and "mutate (cloneSession prior) = Inr (True, candidate)"
    and "encodeAcceptedSession (ev_Platform env) (ev_JSON env) candidate = Some data" and "\<not> ss_closed st"
    and "st' = enqueue \<lparr>sp_epoch = ss_epoch st, sp_path = as_Path (ss_active st), sp_revision = nextRevision (ss_active st),
        sp_session = candidate, sp_data = data,
        sp_prior = Some (cloneSession prior, as_RequestedRevision (ss_active st))\<rparr>
      \<lparr>sw_epoch = ss_epoch st, sw_revision = nextRevision (ss_active st), sw_requestedRevision = nextRevision (ss_active st),
        sw_reply = c\<rparr> st"
  using assms by (auto simp: mutateAccept_def Let_def split: if_splits option.splits sum.splits)

lemma nextRevision_next:
  assumes "as_RequestedRevision active \<noteq> -1" and "as_SavedRevision active \<le> as_RequestedRevision active"
  shows "nextRevision active = as_RequestedRevision active + 1" and "as_RequestedRevision active < nextRevision active"
  using revision_next [OF assms(1)] assms(2) by (auto simp: nextRevision_def Let_def)

lemma mutateAccept_queues:
  assumes "mutateAccept env canceled c mutate st = Inr st'" and "as_RequestedRevision (ss_active st) \<noteq> -1"
    and "as_SavedRevision (ss_active st) \<le> as_RequestedRevision (ss_active st)"
  shows "queues env c st st'"
  using assms(1) by (rule mutateAccept_accepts) (use nextRevision_next [OF assms(2,3)] in \<open>unfold queues_def, fastforce\<close>)

lemma service_ok_queues:
  assumes "service_ok st qs" and "queues env c st st'"
  shows "\<exists>p w. st' = enqueue p w st \<and> service_ok st' (qs @ [p]) \<and>
    encodeAcceptedSession (ev_Platform env) (ev_JSON env) (sp_session p) = Some (sp_data p) \<and> sw_reply w = c"
proof -
  from assms(2) obtain p w where
    st': "st' = enqueue p w st" and p: "sp_epoch p = ss_epoch st" "as_RequestedRevision (ss_active st) < sp_revision p"
      "sp_prior p = None \<or> (\<exists>prior. sp_prior p = Some (prior, as_RequestedRevision (ss_active st)))"
      "encodeAcceptedSession (ev_Platform env) (ev_JSON env) (sp_session p) = Some (sp_data p)"
    and w: "sw_epoch w = ss_epoch st" "sw_revision w = sp_revision p" "sw_requestedRevision w \<le> sw_revision w" "sw_reply w = c"
    unfolding queues_def by blast
  have "queue_ok (ss_epoch st) (sp_revision p) (durableAt st) (qs @ [p]) (ss_waiters st @ [w])"
    using assms(1) p w by (intro queue_ok_accept [where r = "as_RequestedRevision (ss_active st)"]) (auto simp: service_ok_def)
  moreover have "durableAt st' = durableAt st" by (rule durableAt_cong) (simp add: st' enqueue_def signalWorkerLocked_def)
  ultimately have "service_ok st' (qs @ [p])"
    using assms(1) order.strict_implies_order [OF p(2)]
    by (auto simp: service_ok_def st' enqueue_def signalWorkerLocked_def)
  with st' p(4) w(4) show ?thesis by blast
qed

lemma service_ok_next:
  assumes "service_ok st (ss_pending st)" and "nextPayload st = (payload, stop, st')"
  shows "service_ok st' ((case payload of None \<Rightarrow> [] | Some p \<Rightarrow> [p]) @ ss_pending st') \<and>
    set ((case payload of None \<Rightarrow> [] | Some p \<Rightarrow> [p]) @ ss_pending st') \<subseteq> set (ss_pending st) \<and>
    ss_waiters st' = ss_waiters st \<and> ss_closed st' = ss_closed st \<and> ss_wake st' = ss_wake st"
proof (cases "ss_pending st")
  case (Cons p ps)
  obtain s rest where split: "coalesce p ps = (s, rest)" by fastforce
  from coalesce_split [OF split] have "set (s # rest) \<subseteq> set (p # ps)"
    by (metis set_append sup.cobounded2)
  moreover have "queue_ok (ss_epoch st) (as_RequestedRevision (ss_active st)) (durableAt st) (s # rest) (ss_waiters st)"
    using assms(1) Cons by (intro queue_ok_coalesce [OF _ split]) (simp add: service_ok_def)
  moreover have "durableAt st' = durableAt st" using assms(2) Cons split by (intro durableAt_cong) (auto simp: nextPayload_def)
  ultimately show ?thesis
    using assms Cons split by (auto simp: nextPayload_def service_ok_def)
qed (use assms in \<open>auto simp: nextPayload_def\<close>)

lemma finishActive_saved [simp]: "as_SavedRevision (finishActive p written durable active) = durable"
  by (auto simp: finishActive_def Let_def split: option.splits)

lemma finishActive_requested:
  "as_RequestedRevision (finishActive p written durable active) = as_RequestedRevision active \<or>
   \<not> written \<and> sp_revision p = as_RequestedRevision active \<and>
   (\<exists>prior. sp_prior p = Some (prior, as_RequestedRevision (finishActive p written durable active)))"
  by (auto simp: finishActive_def Let_def split: option.splits)

lemma service_ok_finish:
  assumes "service_ok st (p # qs)" and "finishPayload p written st = (st', replies)"
  shows "service_ok st' qs \<and> ss_pending st' = ss_pending st \<and> ss_closed st' = ss_closed st \<and> ss_wake st' = ss_wake st"
proof -
  let ?e = "sp_epoch p" and ?r' = "as_RequestedRevision (ss_active st')"
  let ?D = "if written then (durableAt st)(?e := sp_revision p) else durableAt st"
  have unsaved: "unsaved (durableAt st) p" and saved: "durableAt st (ss_epoch st) \<le> as_RequestedRevision (ss_active st)"
    and below: "requested (ss_epoch st) (as_RequestedRevision (ss_active st)) p"
    using assms(1) by (auto simp: service_ok_def queue_ok_def)
  then have less: "durableAt st ?e < sp_revision p" by (simp add: unsaved_def)
  have D: "durableAt st' = ?D"
    using assms(2) less unfolding finishPayload_def Let_def
    by (cases written) (auto simp: durableAt_put [of _ ?e "sp_revision p" st] intro: durableAt_cong)
  have parts: "ss_epoch st' = ss_epoch st" "ss_waiters st' = filter (waitsBeyond p) (ss_waiters st)"
      "ss_pending st' = ss_pending st" "ss_closed st' = ss_closed st" "ss_wake st' = ss_wake st"
      "ss_active st' = (if ss_epoch st = ?e then finishActive p written (durableAt st' ?e) (ss_active st) else ss_active st)"
    using assms(2) by (auto simp: finishPayload_def Let_def durableAt_def)
  have r': "?r' = as_RequestedRevision (ss_active st) \<or> \<not> written \<and> ?e = ss_epoch st \<and>
      sp_revision p = as_RequestedRevision (ss_active st) \<and> (\<exists>prior. sp_prior p = Some (prior, ?r'))"
    using finishActive_requested [of p written "durableAt st' ?e" "ss_active st"] by (auto simp: parts(6))
  have "queue_ok (ss_epoch st) ?r' ?D qs (ss_waiters st')"
    unfolding parts(2) using assms(1) r' by (intro queue_ok_finish) (auto simp: service_ok_def)
  moreover have "as_SavedRevision (ss_active st') = ?D (ss_epoch st)"
    using assms(1) by (auto simp: parts(6) D service_ok_def)
  moreover have "?D (ss_epoch st) \<le> ?r'"
  proof (cases "written \<and> ?e = ss_epoch st")
    case True
    with r' below show ?thesis by (simp add: requested_def)
  next
    case False
    then have "?D (ss_epoch st) = durableAt st (ss_epoch st)" by auto
    moreover from r' have "durableAt st (ss_epoch st) \<le> ?r'"
    proof
      assume "\<not> written \<and> ?e = ss_epoch st \<and> sp_revision p = as_RequestedRevision (ss_active st) \<and>
        (\<exists>prior. sp_prior p = Some (prior, ?r'))"
      with unsaved show ?thesis unfolding unsaved_def by metis
    qed (use saved in simp)
    ultimately show ?thesis by simp
  qed
  ultimately show ?thesis using parts(1,3,4,5) by (simp add: service_ok_def D)
qed

lemma finish_success:
  assumes "finishPayload p True st = (st', replies)" and "v \<in> set (ss_waiters st)" and "\<not> waitsBeyond p v"
  shows "\<exists>r. (sw_reply v, r) \<in> set replies \<and> sr_OK r"
proof -
  define d where "d = (if durableAt st (sp_epoch p) < sp_revision p then sp_revision p else durableAt st (sp_epoch p))"
  have d: "sp_revision p \<le> d" "replies = map (replyTo d) (filter (\<lambda>w. \<not> waitsBeyond p w) (ss_waiters st))"
    using assms(1) by (auto simp: d_def finishPayload_def Let_def durableAt_def)
  moreover have "sw_revision v \<le> d" using assms(3) d(1) by (auto simp: waitsBeyond_def)
  then have "replyTo d v = (sw_reply v, saveSuccess (sw_requestedRevision v) d)" by (simp add: replyTo_def)
  ultimately have "(sw_reply v, saveSuccess (sw_requestedRevision v) d) \<in> set replies"
    using assms(2,3) unfolding d(2) by (force simp: image_iff)
  then show ?thesis by (intro exI conjI) (auto simp: saveSuccess_def)
qed

lemma finish_answers:
  assumes "service_ok st (p # qs)" and "finishPayload p ok st = (st', replies)" and "cr \<in> set replies"
  shows "sr_OK (snd cr) = ok \<and>
    (ok \<longrightarrow> sr_SavedRevision (snd cr) = sp_revision p \<and> sr_RequestedRevision (snd cr) \<le> sp_revision p)"
proof -
  from assms(1) have less: "durableAt st (sp_epoch p) < sp_revision p" by (simp add: service_ok_def queue_ok_def unsaved_def)
  from assms(2,3) obtain v where v: "v \<in> set (ss_waiters st)" "\<not> waitsBeyond p v"
    and cr: "cr = replyTo (if ok then sp_revision p else durableAt st (sp_epoch p)) v"
    using less by (auto simp: finishPayload_def Let_def durableAt_def)
  from assms(1) v(1) have "durableAt st (sw_epoch v) < sw_revision v" "sw_requestedRevision v \<le> sw_revision v"
    by (auto simp: service_ok_def queue_ok_def waiting_def)
  with v(2) cr show ?thesis by (auto simp: replyTo_def waitsBeyond_def saveSuccess_def saveFailure_def)
qed

lemma service_ok_activate:
  assumes "service_ok st qs" and "ss_epoch st \<noteq> -1"
  shows "service_ok (snd (activate env path session st)) qs"
proof (cases "ss_closed st")
  case False
  have "ss_epoch st < ss_epoch st + 1" by (rule revision_next [OF assms(2)])
  from queue_ok_activate [OF _ this, of "as_RequestedRevision (ss_active st)" "durableAt st" qs "ss_waiters st" 0] assms(1)
  have "queue_ok (ss_epoch st + 1) 0 ((durableAt st)(ss_epoch st + 1 := 0)) qs (ss_waiters st)"
    by (simp add: service_ok_def)
  moreover have "durableAt (snd (activate env path session st)) = (durableAt st)(ss_epoch st + 1 := 0)"
    using False by (intro durableAt_put) (simp add: activate_def Let_def)
  ultimately show ?thesis using False by (simp add: service_ok_def activate_def Let_def)
qed (use assms(1) in \<open>simp add: activate_def Let_def\<close>)

lemma service_ok_direct:
  assumes "service_ok st []"
  shows "service_ok (installDirect revn job st) []"
proof -
  have "durableAt (installDirect revn job st) = (durableAt st)(ss_epoch st := revn)"
    by (rule durableAt_put) (simp add: installDirect_def)
  with assms show ?thesis by (simp add: service_ok_def installDirect_def)
qed

section \<open>Runs\<close>

definition waitsReply :: "Call option \<Rightarrow> bool" where
  "waitsReply call = (call = Some CallSave \<or> call = Some CallMutate)"

lemma waitsReply_simps [simp]: "\<not> waitsReply None" "waitsReply (Some call) \<longleftrightarrow> call = CallSave \<or> call = CallMutate"
  by (auto simp: waitsReply_def)

definition worker_ok :: "World \<Rightarrow> bool" where
  "worker_ok w =
     (case wd_worker w of
        WorkerWaiting \<Rightarrow> ss_pending (wd_service w) \<noteq> [] \<or> ss_closed (wd_service w) \<longrightarrow> ss_wake (wd_service w)
      | WorkerDone \<Rightarrow> ss_closed (wd_service w) \<and> ss_pending (wd_service w) = []
      | _ \<Rightarrow> True)"

definition calls_ok :: "World \<Rightarrow> bool" where
  "calls_ok w =
     (\<forall>c. waitsReply (gm_get (wd_calls w) c) \<longrightarrow>
        c \<in> fst ` set (wd_replies w) \<or> c \<in> sw_reply ` set (ss_waiters (wd_service w)))"

definition files_ok :: "ProtocolEnv \<Rightarrow> World \<Rightarrow> bool" where
  "files_ok pe w =
     ((\<forall>p\<in>set (outstanding w).
         encodeAcceptedSession (ev_Platform (pe_Env pe)) (ev_JSON (pe_Env pe)) (sp_session p) = Some (sp_data p)) \<and>
      (\<forall>p. wd_worker w = WorkerWritten p True \<longrightarrow> gm_get (wd_files w) (sp_path p) = Some (sp_data p)))"

definition protocol_ok :: "ProtocolEnv \<Rightarrow> World \<Rightarrow> bool" where
  "protocol_ok pe w = (service_ok (wd_service w) (outstanding w) \<and> worker_ok w \<and> calls_ok w \<and> files_ok pe w)"

lemma protocol_ok_new [simp]: "protocol_ok pe newWorld"
  by (simp add: protocol_ok_def service_ok_def worker_ok_def calls_ok_def files_ok_def newWorld_def NewService_def
      outstanding_def inFlight_def durableAt_def waitsReply_def)

lemma protocol_ok_queue:
  assumes "protocol_ok pe w" and "queues (pe_Env pe) c (wd_service w) st'"
  shows "protocol_ok pe (running c call (w\<lparr>wd_service := st'\<rparr>))"
proof -
  from assms(2) have "\<not> ss_closed (wd_service w)" by (simp add: queues_def)
  moreover from assms obtain p v where "st' = enqueue p v (wd_service w)" "service_ok st' (outstanding w @ [p])"
    "encodeAcceptedSession (ev_Platform (pe_Env pe)) (ev_JSON (pe_Env pe)) (sp_session p) = Some (sp_data p)" "sw_reply v = c"
    using service_ok_queues unfolding protocol_ok_def by blast
  ultimately show ?thesis using assms(1)
    by (auto simp: protocol_ok_def worker_ok_def calls_ok_def files_ok_def outstanding_def inFlight_def running_def
        enqueue_def signalWorkerLocked_def split: Worker.splits if_splits)
qed

lemma protocol_ok_calls:
  assumes "protocol_ok pe w" and "wd_service w' = wd_service w" and "wd_worker w' = wd_worker w"
    and "wd_files w' = wd_files w \<or> (\<forall>p\<in>set (outstanding w). gm_get (wd_files w') (sp_path p) = gm_get (wd_files w) (sp_path p))"
    and "set (wd_replies w) \<subseteq> set (wd_replies w')"
    and "\<And>c. waitsReply (gm_get (wd_calls w') c) \<Longrightarrow> gm_get (wd_calls w') c = gm_get (wd_calls w) c"
  shows "protocol_ok pe w'"
proof -
  have same: "outstanding w' = outstanding w" "inFlight w' = inFlight w" using assms(2,3) by (simp_all add: outstanding_def inFlight_def)
  moreover have "calls_ok w'" unfolding calls_ok_def
  proof (intro allI impI)
    fix c assume waits: "waitsReply (gm_get (wd_calls w') c)"
    then have "waitsReply (gm_get (wd_calls w) c)" using assms(6) by metis
    with assms(1,2,5) show "c \<in> fst ` set (wd_replies w') \<or> c \<in> sw_reply ` set (ss_waiters (wd_service w'))"
      unfolding protocol_ok_def calls_ok_def by (metis image_mono subsetD)
  qed
  moreover have "files_ok pe w'"
    using assms(1,3,4) same(1) by (auto simp: protocol_ok_def files_ok_def outstanding_def inFlight_def)
  moreover have "worker_ok w'" using assms(1-3) by (simp add: protocol_ok_def worker_ok_def cong: Worker.case_cong)
  ultimately show ?thesis using assms(1,2) by (simp add: protocol_ok_def)
qed

lemma protocol_ok_direct:
  assumes "protocol_ok pe w" and "outstanding w = []"
  shows "protocol_ok pe (returned c (w\<lparr>wd_service := installDirect revn job (wd_service w)\<rparr>))"
proof -
  from assms have "service_ok (installDirect revn job (wd_service w)) []"
    using service_ok_direct by (simp add: protocol_ok_def)
  with assms show ?thesis
    by (auto simp: protocol_ok_def worker_ok_def calls_ok_def files_ok_def outstanding_def inFlight_def returned_def
        installDirect_def service_ok_def split: Worker.splits if_splits)
qed

lemma protocol_ok_activate:
  assumes "protocol_ok pe w" and "ss_epoch (wd_service w) \<noteq> -1"
  shows "protocol_ok pe (w\<lparr>wd_service := snd (activate (pe_Env pe) path session (wd_service w))\<rparr>)"
proof -
  let ?st = "snd (activate (pe_Env pe) path session (wd_service w))"
  have same: "ss_pending ?st = ss_pending (wd_service w)" "ss_waiters ?st = ss_waiters (wd_service w)"
    "ss_closed ?st = ss_closed (wd_service w)" "ss_wake ?st = ss_wake (wd_service w)"
    by (simp_all add: activate_def Let_def)
  moreover have "service_ok ?st (outstanding w)"
    using assms service_ok_activate by (simp add: protocol_ok_def)
  ultimately show ?thesis using assms(1)
    by (simp add: protocol_ok_def worker_ok_def calls_ok_def files_ok_def outstanding_def inFlight_def cong: Worker.case_cong)
qed

lemma protocol_ok_shutdown:
  assumes "protocol_ok pe w"
  shows "protocol_ok pe (w\<lparr>wd_service := Shutdown (wd_service w)\<rparr>)"
proof -
  have "durableAt (Shutdown (wd_service w)) = durableAt (wd_service w)"
    by (rule durableAt_cong) (simp add: Shutdown_def signalWorkerLocked_def)
  with assms show ?thesis
    by (auto simp: protocol_ok_def service_ok_def worker_ok_def calls_ok_def files_ok_def outstanding_def inFlight_def
        Shutdown_def signalWorkerLocked_def split: Worker.splits)
qed

lemma replaceCommit_state:
  "snd (replaceCommit job ok st) = st \<or> (\<exists>revn. snd (replaceCommit job ok st) = installDirect revn job st)"
  by (auto simp: replaceCommit_def Let_def)

lemma associateCommit_state:
  "snd (associateCommit job ok st) = st \<or> (\<exists>revn. snd (associateCommit job ok st) = installDirect revn job st)"
  by (auto simp: associateCommit_def Let_def)

lemma protocol_ok_return: "protocol_ok pe w \<Longrightarrow> protocol_ok pe (returned c w)"
  by (erule protocol_ok_calls) (auto simp: returned_def split: if_splits)

lemma protocol_ok_running: "protocol_ok pe w \<Longrightarrow> \<not> waitsReply (Some call) \<Longrightarrow> protocol_ok pe (running c call w)"
  by (erule protocol_ok_calls) (auto simp: running_def split: if_splits)

lemma protocol_ok_file:
  assumes "protocol_ok pe w" and "path \<notin> sp_path ` set (outstanding w)"
  shows "protocol_ok pe (putFile ok path data w)"
proof (rule protocol_ok_calls [OF assms(1)])
  show "wd_files (putFile ok path data w) = wd_files w \<or>
      (\<forall>p\<in>set (outstanding w). gm_get (wd_files (putFile ok path data w)) (sp_path p) = gm_get (wd_files w) (sp_path p))"
    using assms(2) by (auto simp: putFile_def)
qed (simp_all add: putFile_def)

lemma protocol_ok_opening: "protocol_ok pe w \<Longrightarrow> beginOpening c canceled plan w = Some w' \<Longrightarrow> protocol_ok pe w'"
  by (auto simp: beginOpening_def intro!: protocol_ok_running split: if_splits sum.splits)

lemma protocol_ok_commit:
  assumes "protocol_ok pe w" and "st' = wd_service w \<or> (\<exists>revn. st' = installDirect revn job (wd_service w))"
    and "outstanding w = []"
  shows "protocol_ok pe (returned c (w\<lparr>wd_service := st'\<rparr>))"
  using assms(2) protocol_ok_direct [OF assms(1,3), of c] protocol_ok_return [OF assms(1), of c] by auto

lemma replies_cover: "finishPayload p written st = (st', replies) \<Longrightarrow>
    sw_reply ` set (ss_waiters st) = fst ` set replies \<union> sw_reply ` set (ss_waiters st')"
  by (force simp: finishPayload_def Let_def replyTo_def image_iff)

lemma protocol_ok_worker:
  assumes "protocol_ok pe w" and "workerStep ev w = Some w'"
  shows "protocol_ok pe w'"
proof -
  consider (wake) "ev = EvWake" "wd_worker w = WorkerWaiting" | (taking) "ev = EvNext" "wd_worker w = WorkerReady"
    | (writing) ok p where "ev = EvWrite ok" "wd_worker w = WorkerWriting p"
    | (finish) p ok where "ev = EvFinish" "wd_worker w = WorkerWritten p ok"
    using assms(2) by (auto simp: workerStep_def split: Event.splits Worker.splits)
  then show ?thesis
  proof cases
    case wake
    have "durableAt ((wd_service w)\<lparr>ss_wake := False\<rparr>) = durableAt (wd_service w)" by (rule durableAt_cong) simp
    with assms wake show ?thesis
      by (auto simp: workerStep_def protocol_ok_def service_ok_def worker_ok_def calls_ok_def files_ok_def outstanding_def
          inFlight_def split: if_splits)
  next
    case taking
    obtain payload stop st where st: "nextPayload (wd_service w) = (payload, stop, st)" by (metis prod_cases3)
    have "service_ok (wd_service w) (ss_pending (wd_service w))"
      using assms(1) taking by (simp add: protocol_ok_def outstanding_def inFlight_def)
    note service_ok_next [OF this st]
    moreover have "payload = None \<Longrightarrow> ss_pending st = [] \<and> stop = ss_closed st"
      using st by (auto simp: nextPayload_def split: list.splits prod.splits)
    ultimately show ?thesis using assms taking st
      by (cases payload) (auto simp: workerStep_def protocol_ok_def worker_ok_def calls_ok_def files_ok_def
          outstanding_def inFlight_def)
  next
    case writing
    with assms show ?thesis
      by (cases ok) (auto simp: workerStep_def protocol_ok_def worker_ok_def calls_ok_def files_ok_def outstanding_def inFlight_def putFile_def)
  next
    case finish
    obtain st replies where st: "finishPayload p ok (wd_service w) = (st, replies)" by fastforce
    have "service_ok (wd_service w) (p # ss_pending (wd_service w))"
      using assms(1) finish by (simp add: protocol_ok_def outstanding_def inFlight_def)
    note after = service_ok_finish [OF this st]
    have w': "w' = w\<lparr>wd_service := st, wd_worker := WorkerReady, wd_replies := wd_replies w @ replies\<rparr>"
      using assms(2) finish st by (simp add: workerStep_def)
    have "calls_ok w'" using assms(1) replies_cover [OF st]
      by (simp add: w' protocol_ok_def calls_ok_def image_Un)
    moreover have "files_ok pe w'" using assms(1) finish after
      by (simp add: w' protocol_ok_def files_ok_def outstanding_def inFlight_def)
    ultimately show ?thesis using after by (simp add: w' protocol_ok_def worker_ok_def outstanding_def inFlight_def)
  qed
qed

lemma protocol_ok_caller:
  assumes "protocol_ok pe w" and "undisturbed w ev" and "callerStep pe ev w = Some w'"
  shows "protocol_ok pe w'"
proof (cases ev)
  case (EvSave c canceled session revn)
  show ?thesis
  proof (cases "saveAccept (pe_Env pe) canceled c session revn (wd_service w)")
    case (Inl answer)
    with assms EvSave show ?thesis
      by (intro protocol_ok_calls [OF assms(1)]) (auto simp: callerStep_def Let_def split: if_splits)
  next
    case (Inr st')
    with assms(2) EvSave have "queues (pe_Env pe) c (wd_service w) st'"
      by (intro saveAccept_queues) (auto simp: undisturbed_def)
    with protocol_ok_queue [OF assms(1) this] assms(3) EvSave Inr show ?thesis by (auto simp: callerStep_def Let_def split: if_splits)
  qed
next
  case (EvMutate c canceled m)
  show ?thesis
  proof (cases "mutateAccept (pe_Env pe) canceled c (mutation m) (wd_service w)")
    case (Inl answer)
    with assms EvMutate show ?thesis by (auto simp: callerStep_def Let_def split: if_splits)
  next
    case (Inr st')
    with assms(1,2) EvMutate have "queues (pe_Env pe) c (wd_service w) st'"
      by (intro mutateAccept_queues) (auto simp: undisturbed_def protocol_ok_def service_ok_def)
    with protocol_ok_queue [OF assms(1) this] assms(3) EvMutate Inr show ?thesis by (auto simp: callerStep_def Let_def split: if_splits)
  qed
next
  case (EvReturn c)
  with assms(3) show ?thesis
    by (auto simp: callerStep_def Let_def intro: protocol_ok_return [OF assms(1)] split: if_splits)
next
  case (EvReplace c canceled groups expected)
  with assms(1,3) show ?thesis
    by (auto simp: callerStep_def Let_def intro!: protocol_ok_running split: if_splits sum.splits)
next
  case (EvReplaceWrite c ok)
  with assms show ?thesis
    by (auto simp: callerStep_def Let_def undisturbed_def intro!: protocol_ok_running protocol_ok_file
        split: option.splits Call.splits)
next
  case (EvReplaceEnd c)
  with assms(3) obtain job ok where w': "w' = returned c (w\<lparr>wd_service := snd (replaceCommit job ok (wd_service w))\<rparr>)"
    by (auto simp: callerStep_def Let_def split: option.splits Call.splits)
  show ?thesis using replaceCommit_state [of job ok "wd_service w"]
    unfolding w' by (rule protocol_ok_commit [OF assms(1)]) (use assms(2) EvReplaceEnd in \<open>simp add: undisturbed_def\<close>)
next
  case (EvAssociate c canceled path)
  with assms(1,3) show ?thesis
    by (auto simp: callerStep_def Let_def intro!: protocol_ok_running split: if_splits sum.splits)
next
  case (EvAssociateWrite c ok)
  with assms show ?thesis
    by (auto simp: callerStep_def Let_def undisturbed_def intro!: protocol_ok_running protocol_ok_file
        split: option.splits Call.splits)
next
  case (EvAssociateEnd c)
  with assms(3) obtain job ok where w': "w' = returned c (w\<lparr>wd_service := snd (associateCommit job ok (wd_service w))\<rparr>)"
    by (auto simp: callerStep_def Let_def split: option.splits Call.splits)
  show ?thesis using associateCommit_state [of job ok "wd_service w"]
    unfolding w' by (rule protocol_ok_commit [OF assms(1)]) (use assms(2) EvAssociateEnd in \<open>simp add: undisturbed_def\<close>)
next
  case (EvCreate c canceled target)
  with assms(3) show ?thesis by (auto simp: callerStep_def Let_def intro: protocol_ok_opening [OF assms(1)])
next
  case (EvOpen c canceled target contents)
  with assms(3) show ?thesis by (auto simp: callerStep_def Let_def intro: protocol_ok_opening [OF assms(1)])
next
  case (EvCopyDemo c canceled destination demo config)
  with assms(3) show ?thesis by (auto simp: callerStep_def Let_def intro: protocol_ok_opening [OF assms(1)])
next
  case (EvOpeningWrite c ok copied)
  with assms show ?thesis
    by (auto simp: callerStep_def Let_def undisturbed_def intro!: protocol_ok_running protocol_ok_file protocol_ok_return
        split: option.splits Call.splits list.splits if_splits)
next
  case (EvActivate c)
  with assms show ?thesis
    by (auto simp: callerStep_def Let_def undisturbed_def intro!: protocol_ok_return protocol_ok_activate
        split: option.splits Call.splits list.splits)
next
  case EvShutdown
  with assms show ?thesis by (auto simp: callerStep_def Let_def intro: protocol_ok_shutdown)
qed (use assms(3) in \<open>auto simp: callerStep_def Let_def\<close>)

lemma protocol_ok_step:
  "protocol_ok pe w \<Longrightarrow> undisturbed w ev \<Longrightarrow> protocolStep pe ev w = Some w' \<Longrightarrow> protocol_ok pe w'"
  unfolding protocolStep_def by (cases "workerEvent ev") (auto intro: protocol_ok_worker protocol_ok_caller)

lemma reachable_ok: "reachable pe undisturbed w \<Longrightarrow> protocol_ok pe w"
  by (induction rule: reachable.induct) (auto intro: protocol_ok_step)

section \<open>The worker alone\<close>

definition turnsLeft :: "World \<Rightarrow> nat" where
  "turnsLeft w =
     3 * length (ss_pending (wd_service w)) +
     (case wd_worker w of WorkerWaiting \<Rightarrow> 2 | WorkerReady \<Rightarrow> 1 | WorkerWriting _ \<Rightarrow> 3 | WorkerWritten _ _ \<Rightarrow> 2 | WorkerDone \<Rightarrow> 0)"

definition quiet :: "World \<Rightarrow> bool" where
  "quiet w = (outstanding w = [] \<and> (ss_closed (wd_service w) \<longrightarrow> wd_worker w = WorkerDone))"

lemma coalesce_length: "coalesce p ps = (s, rest) \<Longrightarrow> length rest \<le> length ps"
  by (induction ps arbitrary: p) (auto split: if_splits intro: le_SucI)

lemma workerTurn_step: "workerTurn ok w = w \<or> (\<exists>ev. workerEvent ev \<and> workerStep ev w = Some (workerTurn ok w))"
  by (auto simp: workerTurn_def workerEvent_def split: option.splits Worker.splits)

lemma workerTurn_ok: "protocol_ok pe w \<Longrightarrow> protocol_ok pe (workerTurn ok w)"
  using workerTurn_step [of ok w] protocol_ok_worker by auto

lemma workerTurn_calls [simp]: "wd_calls (workerTurn ok w) = wd_calls w"
  by (auto simp: workerTurn_def workerStep_def putFile_def split: Worker.splits option.splits prod.splits)

lemma nextPayload_closed: "nextPayload st = (payload, stop, st') \<Longrightarrow> ss_closed st' = ss_closed st"
  by (auto simp: nextPayload_def split: list.splits prod.splits)

lemma finishPayload_closed: "finishPayload p ok st = (st', replies) \<Longrightarrow> ss_closed st' = ss_closed st"
  by (auto simp: finishPayload_def Let_def)

lemma workerTurn_closed [simp]: "ss_closed (wd_service (workerTurn ok w)) = ss_closed (wd_service w)"
  by (auto simp: workerTurn_def workerStep_def putFile_def dest: nextPayload_closed finishPayload_closed
      split: Worker.splits option.splits prod.splits)

lemma workerTurn_next:
  assumes "wd_worker w = WorkerReady"
  shows "turnsLeft (workerTurn ok w) < turnsLeft w \<or> outstanding (workerTurn ok w) = [] \<and> \<not> ss_closed (wd_service w)"
proof (cases "ss_pending (wd_service w)")
  case Nil
  with assms show ?thesis
    by (auto simp: workerTurn_def workerStep_def nextPayload_def turnsLeft_def outstanding_def inFlight_def)
next
  case (Cons p ps)
  obtain s rest where split: "coalesce p ps = (s, rest)" by fastforce
  with assms Cons coalesce_length [OF split] show ?thesis
    by (auto simp: workerTurn_def workerStep_def nextPayload_def turnsLeft_def)
qed

lemma workerTurn_progress:
  assumes "protocol_ok pe w"
  shows "quiet w \<and> quiet (workerTurn ok w) \<or> \<not> quiet w \<and> turnsLeft (workerTurn ok w) < turnsLeft w"
proof (cases "wd_worker w")
  case WorkerReady
  then show ?thesis using workerTurn_next [OF WorkerReady, of ok]
    by (auto simp: quiet_def outstanding_def inFlight_def workerTurn_def workerStep_def nextPayload_def turnsLeft_def
        split: list.splits prod.splits)
next
  case WorkerWaiting
  with assms show ?thesis
    by (auto simp: quiet_def outstanding_def inFlight_def workerTurn_def workerStep_def turnsLeft_def
        protocol_ok_def worker_ok_def)
next
  case (WorkerWriting p)
  then show ?thesis
    by (auto simp: quiet_def outstanding_def inFlight_def workerTurn_def workerStep_def turnsLeft_def putFile_def)
next
  case (WorkerWritten p written)
  then show ?thesis
    by (auto simp: quiet_def outstanding_def inFlight_def workerTurn_def workerStep_def turnsLeft_def
        finishPayload_def Let_def)
next
  case WorkerDone
  with assms show ?thesis
    by (auto simp: quiet_def outstanding_def inFlight_def workerTurn_def workerStep_def protocol_ok_def worker_ok_def)
qed

lemma worker_drains:
  "protocol_ok pe w \<Longrightarrow> quiet w \<or> turnsLeft w \<le> length oks \<Longrightarrow>
   quiet (fold workerTurn oks w) \<and> protocol_ok pe (fold workerTurn oks w) \<and>
   wd_calls (fold workerTurn oks w) = wd_calls w \<and>
   ss_closed (wd_service (fold workerTurn oks w)) = ss_closed (wd_service w)"
proof (induction oks arbitrary: w)
  case Nil
  with workerTurn_progress [of pe w True] show ?case by auto
next
  case (Cons ok oks)
  from workerTurn_progress [OF Cons.prems(1), of ok] Cons.prems(2)
  have "quiet (workerTurn ok w) \<or> turnsLeft (workerTurn ok w) \<le> length oks" by auto
  from Cons.IH [OF workerTurn_ok [OF Cons.prems(1)] this] show ?case by simp
qed

lemma quiet_answered:
  assumes "protocol_ok pe w" and "quiet w" and "waitsReply (gm_get (wd_calls w) c)"
  shows "c \<in> fst ` set (wd_replies w)"
  using assms by (auto simp: protocol_ok_def quiet_def service_ok_def calls_ok_def)

end
