(* ===== verification/SaveGuarantees.thy ===== *)
theory SaveGuarantees
  imports SaveProtocolInv
begin

text \<open>
  What callers of the session service can rely on, over every interleaving of the save protocol, and two
  interleavings in which an accepted change is lost.  The concrete runs use a document without terminals.
\<close>

section \<open>A concrete run\<close>

definition demo_document :: "string \<Rightarrow> Session" where
  "demo_document name =
     \<lparr>se_Version = 1, se_Name = name, se_PlayerConfig = '''', se_Terminals = Some [], se_TerminalGroups = [], se_Extra = []\<rparr>"

definition demo_env :: ProtocolEnv where
  "demo_env =
     \<lparr>pe_Env = \<lparr>ev_Platform = demo_platform,
        ev_JSON = demo_json\<lparr>js_MarshalSession := (\<lambda>s. Some (se_Name s)),
          js_DecodeSession := (\<lambda>data. Some (demo_document (butlast data), ''''))\<rparr>,
        ev_DocumentsDefault = ''/'', ev_BundledDemo = ''/demo.json''\<rparr>,
      pe_Rel = (\<lambda>_ _. None)\<rparr>"

definition demo_save :: "string \<Rightarrow> revision \<Rightarrow> savePayload" where
  "demo_save name r =
     \<lparr>sp_epoch = 1, sp_path = ''/a'', sp_revision = r, sp_session = demo_document name, sp_data = name @ [CHR 0x0A], sp_prior = None\<rparr>"

definition demo_waiter :: "CallID \<Rightarrow> revision \<Rightarrow> saveWaiter" where
  "demo_waiter c r = \<lparr>sw_epoch = 1, sw_revision = r, sw_requestedRevision = r, sw_reply = c\<rparr>"

definition demo_open :: "ServiceState \<Rightarrow> bool" where
  "demo_open st =
     (as_Path (ss_active st) = ''/a'' \<and> \<not> ss_closed st \<and> ss_epoch st = 1 \<and>
      (case as_Session (ss_active st) of None \<Rightarrow> False | Some s \<Rightarrow> s = demo_document (se_Name s)))"

lemma demo_document_name [simp]: "se_Name (demo_document name) = name"
  by (simp add: demo_document_def)

lemma demo_valid: "n \<in> {''A'', ''B''} \<Longrightarrow> ValidateSession demo_platform (demo_document n) = None"
  by (auto simp: ValidateSession_def demo_document_def validateRequiredString_def maxNameBytes_def validatePlayerConfigPath_def
      validateExtras_def validateTerminalGroups_def visible_def byte_val_def first_err_def)

lemma demo_encode:
  assumes "n \<in> {''A'', ''B''}"
  shows "verifySessionContract demo_platform (demo_document n) = None"
    and "encodeAcceptedSession (ev_Platform (pe_Env demo_env)) (ev_JSON (pe_Env demo_env)) (demo_document n) = Some (n @ [CHR 0x0A])"
proof -
  show verify: "verifySessionContract demo_platform (demo_document n) = None"
    using demo_valid [OF assms] by (simp add: verify_validate)
  with demo_valid [OF assms]
  show "encodeAcceptedSession (ev_Platform (pe_Env demo_env)) (ev_JSON (pe_Env demo_env)) (demo_document n) = Some (n @ [CHR 0x0A])"
    by (simp add: encodeAcceptedSession_def EncodeSession_def DecodeSession_def NormalizeTerminalGroups_def demo_env_def
        demo_json_def demo_document_def se_terminal_list_def)
qed

lemma demo_accept:
  assumes "n \<in> {''A'', ''B''}" and "demo_open st"
    and "as_RequestedRevision (ss_active st) < r" and "durableAt st 1 < r"
  shows "saveAccept (pe_Env demo_env) False c (demo_document n) r st = Inr (enqueue (demo_save n r) (demo_waiter c r) st)"
proof -
  note defs = clearCommandStates_def cloneSession_def demo_document_def se_terminal_list_def Let_def
  have r: "r \<noteq> 0" using assms(3) by auto
  have "clearCommandStates (cloneSession (demo_document n)) = demo_document n" by (simp add: defs)
  moreover have "verifyAuthoredSession demo_platform (demo_document n)"
    using demo_encode(1) [OF assms(1)] by (simp add: verifyAuthoredSession_def NormalizeTerminalGroups_def defs)
  moreover from assms(2) obtain m where "as_Session (ss_active st) = Some (demo_document m)"
    by (auto simp: demo_open_def split: option.splits)
  moreover have "mergeCanonicalSessionState demo_platform (demo_document n) (demo_document m) = Inr (demo_document n)"
    using demo_encode(1) [OF assms(1)]
    by (simp add: mergeCanonicalSessionState_def mergeCanonicalTerminalGroups_def EnsureTerminalGroups_def
        validateAuthoredTransitionChanges_def terminalTransitionTargets_def defs)
  ultimately show ?thesis using assms(2-4) r demo_encode(2) [OF assms(1)]
    by (auto simp: saveAccept_def Let_def demo_env_def demo_open_def demo_save_def demo_waiter_def samePath_def demo_platform_def)
qed

definition demo_at :: "string \<Rightarrow> revision \<Rightarrow> SaveState \<Rightarrow> savePayload list \<Rightarrow> saveWaiter list \<Rightarrow> bool \<Rightarrow> Worker \<Rightarrow>
    (CallID, Call) gomap \<Rightarrow> (string, string) gomap \<Rightarrow> World" where
  "demo_at name r s ps ws wake worker calls files =
     \<lparr>wd_service =
        \<lparr>ss_active = \<lparr>as_Path = ''/a'', as_Session = Some (demo_document name), as_RequestedRevision = r, as_SavedRevision = 0,
           as_SaveState = s\<rparr>,
         ss_epoch = 1, ss_closed = False, ss_pending = ps, ss_waiters = ws, ss_durable = [(1, 0)], ss_wake = wake\<rparr>,
      wd_worker = worker, wd_calls = calls, wd_replies = [], wd_files = files\<rparr>"

lemmas demo_step_defs = demo_at_def protocolStep_def callerStep_def workerStep_def workerEvent_def Let_def

definition demo_opening :: World where
  "demo_opening = running 0 (CallOpening [] ''/a'' (demo_document ''A'')) newWorld"

lemma demo_step_open:
  "protocolStep demo_env (EvOpen 0 False ''/a'' (Some (''A'' @ [CHR 0x0A]))) newWorld = Some demo_opening"
proof -
  have "DecodeSession (ev_Platform (pe_Env demo_env)) (ev_JSON (pe_Env demo_env)) (''A'' @ [CHR 0x0A]) = Inr (demo_document ''A'')"
    using demo_valid [of "''A''"]
    by (simp add: DecodeSession_def NormalizeTerminalGroups_def demo_env_def demo_json_def demo_document_def se_terminal_list_def)
  moreover have "verifySessionContract (ev_Platform (pe_Env demo_env)) (demo_document ''A'') = None"
    using demo_encode(1) [of "''A''"] by (simp add: demo_env_def)
  ultimately have "openAccept (pe_Env demo_env) (''A'' @ [CHR 0x0A]) = Inr (demo_document ''A'')"
    by (simp add: openAccept_def acceptDocument_def)
  moreover have "trim_space ''/a'' \<noteq> []" by (simp add: visible_def byte_val_def)
  then have "openTarget (pe_Env demo_env) ''/a'' = Inr ''/a''"
    by (simp add: openTarget_def userDocumentPath_def demo_env_def demo_platform_def samePath_def)
  ultimately show ?thesis
    by (simp add: demo_opening_def protocolStep_def workerEvent_def callerStep_def beginOpening_def newWorld_def NewService_def
        newCall_def commandFree_def Let_def)
qed

lemma demo_step_activate:
  "protocolStep demo_env (EvActivate 0) demo_opening = Some (demo_at ''A'' 0 SaveStateSaved [] [] False WorkerWaiting [] [])"
  by (simp add: demo_step_defs demo_opening_def running_def returned_def newWorld_def NewService_def activate_def
      NormalizeTerminalGroups_def demo_document_def se_terminal_list_def gm_put_def gm_get_def gm_del_def)

lemma demo_step_save:
  assumes "n \<in> {''A'', ''B''}" and "r < r'" and "list_all (\<lambda>(_, c). c = CallSave) calls" and "\<not> gm_has calls c"
  shows "protocolStep demo_env (EvSave c False (demo_document n) r') (demo_at m r s ps ws wake worker calls files) =
    Some (demo_at n r' SaveStateSaving (ps @ [demo_save n r']) (ws @ [demo_waiter c r']) True worker (gm_put c CallSave calls) files)"
proof -
  have "0 < r'" using assms(2) by (rule le_less_trans [OF word_zero_le])
  let ?st = "wd_service (demo_at m r s ps ws wake worker calls files)"
  have "saveAccept (pe_Env demo_env) False c (demo_document n) r' ?st = Inr (enqueue (demo_save n r') (demo_waiter c r') ?st)"
    using assms(1,2) \<open>0 < r'\<close> by (intro demo_accept) (auto simp: demo_at_def demo_open_def durableAt_def gm_get_def)
  moreover have "documentFree (demo_at m r s ps ws wake worker calls files)"
    using assms(3) by (auto simp: documentFree_def demo_at_def holdsDocument_def list_all_iff)
  moreover have "newCall (demo_at m r s ps ws wake worker calls files) c" using assms(4) by (simp add: newCall_def demo_at_def)
  ultimately show ?thesis
    by (simp add: protocolStep_def workerEvent_def callerStep_def Let_def)
      (simp add: demo_at_def running_def enqueue_def signalWorkerLocked_def demo_save_def)
qed

text \<open>Two saves, the second while the first is written.\<close>

definition demo_world :: World where
  "demo_world = demo_at ''A'' 2 SaveStateSaving [demo_save ''A'' 2] [demo_waiter 1 1, demo_waiter 2 2] True
     (WorkerWritten (demo_save ''B'' 1) True) [(1, CallSave), (2, CallSave)] [(''/a'', ''B'' @ [CHR 0x0A])]"

lemma demo_reachable: "reachable demo_env undisturbed demo_world"
proof -
  note step = reachable.step [where pe = demo_env and allowed = undisturbed]
  let ?first = "demo_at ''B'' 1 SaveStateSaving" and ?calls = "[(1, CallSave)]" and ?p = "demo_save ''B'' 1"
  have "reachable demo_env undisturbed demo_opening"
    by (rule step [OF reachable.start _ demo_step_open]) (simp add: undisturbed_def)
  then have "reachable demo_env undisturbed (demo_at ''A'' 0 SaveStateSaved [] [] False WorkerWaiting [] [])"
    by (rule step [OF _ _ demo_step_activate])
      (simp add: undisturbed_def demo_opening_def running_def newWorld_def NewService_def)
  then have "reachable demo_env undisturbed (?first [?p] [demo_waiter 1 1] True WorkerWaiting ?calls [])"
    by (rule step [where ev = "EvSave 1 False (demo_document ''B'') 1"])
      (simp_all add: undisturbed_def demo_at_def [of "''A''"], simp add: demo_at_def [of "''A''", symmetric] demo_step_save gm_put_def)
  then have "reachable demo_env undisturbed (?first [?p] [demo_waiter 1 1] False WorkerReady ?calls [])"
    by (rule step [where ev = EvWake]) (simp_all add: undisturbed_def demo_step_defs)
  then have "reachable demo_env undisturbed (?first [] [demo_waiter 1 1] False (WorkerWriting ?p) ?calls [])"
    by (rule step [where ev = EvNext]) (simp_all add: undisturbed_def demo_step_defs nextPayload_def demo_save_def)
  then have "reachable demo_env undisturbed
      (?first [] [demo_waiter 1 1] False (WorkerWritten ?p True) ?calls [(''/a'', ''B'' @ [CHR 0x0A])])"
    by (rule step [where ev = "EvWrite True"]) (simp_all add: undisturbed_def demo_step_defs putFile_def demo_save_def gm_put_def)
  then show ?thesis
    by (rule step [where ev = "EvSave 2 False (demo_document ''A'') 2"])
      (simp_all add: undisturbed_def demo_at_def [of "''B''"], simp add: demo_at_def [of "''B''", symmetric] demo_step_save demo_world_def gm_put_def gm_has_def gm_get_def)
qed

section \<open>Guarantees\<close>



text \<open>C8: In undisturbed runs the answer a save gets is the truth. As long as direct replacements happen while no save
  is outstanding, new or copied documents do not overwrite the file of an outstanding save and no counter is at the
  end of its range: when the worker reports a write, every call it answers is told success exactly when that write
  succeeded; a success names the revision that was written, which is not older than the revision that was asked
  for, and the file then holds the encoding of a document that was accepted with that revision.  (Without the
  first condition the answer can be untrue, see session_associate_overtaken.)\<close>

theorem session_answer_true:
  assumes "reachable pe undisturbed w" and "protocolStep pe EvFinish w = Some w'"
  shows "\<exists>p ok replies. wd_worker w = WorkerWritten p ok \<and> wd_replies w' = wd_replies w @ replies \<and>
    (\<forall>(c, r) \<in> set replies. sr_OK r = ok \<and>
       (ok \<longrightarrow> sr_SavedRevision r = sp_revision p \<and> sr_RequestedRevision r \<le> sp_revision p)) \<and>
    (ok \<longrightarrow> gm_get (wd_files w') (sp_path p) = Some (sp_data p) \<and>
       encodeAcceptedSession (ev_Platform (pe_Env pe)) (ev_JSON (pe_Env pe)) (sp_session p) = Some (sp_data p))"
proof -
  from assms(2) obtain p ok where p: "wd_worker w = WorkerWritten p ok"
    by (auto simp: protocolStep_def workerEvent_def workerStep_def split: Worker.splits)
  obtain st replies where st: "finishPayload p ok (wd_service w) = (st, replies)" by fastforce
  have w': "w' = w\<lparr>wd_service := st, wd_worker := WorkerReady, wd_replies := wd_replies w @ replies\<rparr>"
    using assms(2) p st by (simp add: protocolStep_def workerEvent_def workerStep_def)
  have ok: "service_ok (wd_service w) (p # ss_pending (wd_service w))" "files_ok pe w"
    using reachable_ok [OF assms(1)] p by (simp_all add: protocol_ok_def outstanding_def inFlight_def)
  have "sr_OK (snd cr) = ok \<and> (ok \<longrightarrow> sr_SavedRevision (snd cr) = sp_revision p \<and> sr_RequestedRevision (snd cr) \<le> sp_revision p)"
    if "cr \<in> set replies" for cr
    by (rule finish_answers [OF ok(1) st that])
  with p w' ok(2) show ?thesis
    by (intro exI [of _ p] exI [of _ ok] exI [of _ replies]) (auto simp: files_ok_def outstanding_def inFlight_def)
qed

lemma session_answer_true_witness:
  "\<exists>w'. protocolStep demo_env EvFinish demo_world = Some w' \<and> gm_get (wd_files w') ''/a'' = Some (''B'' @ [CHR 0x0A]) \<and>
    (\<exists>r. wd_replies w' = [(1, r)] \<and> sr_OK r)"
proof -
  let ?st = "fst (finishPayload (demo_save ''B'' 1) True (wd_service demo_world))"
  let ?r = "saveSuccess 1 1"
  let ?w' = "demo_world\<lparr>wd_service := ?st, wd_worker := WorkerReady, wd_replies := [(1, ?r)]\<rparr>"
  have step: "protocolStep demo_env EvFinish demo_world = Some ?w'"
    by (simp add: demo_step_defs demo_world_def finishPayload_def waitsBeyond_def replyTo_def durableAt_def demo_save_def
        demo_waiter_def gm_get_def gm_put_def)
  from session_answer_true [OF demo_reachable this]
  have "gm_get (wd_files ?w') (sp_path (demo_save ''B'' 1)) = Some (sp_data (demo_save ''B'' 1)) \<and> sr_OK ?r"
    by (auto simp: demo_world_def demo_at_def)
  with step show ?thesis by (auto simp: demo_save_def)
qed

text \<open>C9: In undisturbed runs accepted saves are drained. From every state that is reachable with direct replacements
  only while no save is outstanding, no new or copied document over the file of an outstanding save and no counter
  at the end of its range, whatever the writes return, a bounded number of turns of the worker alone leaves no
  save outstanding and no waiter registered; every running save or command state mutation then has its answer and
  can return; and after a shutdown the worker has ended.\<close>

theorem session_saves_answered:
  assumes "reachable pe undisturbed w" and "3 * length (ss_pending (wd_service w)) + 3 \<le> length oks"
  shows "outstanding (fold workerTurn oks w) = [] \<and> ss_waiters (wd_service (fold workerTurn oks w)) = [] \<and>
    (\<forall>c. gm_get (wd_calls w) c = Some CallSave \<or> gm_get (wd_calls w) c = Some CallMutate \<longrightarrow>
       protocolStep pe (EvReturn c) (fold workerTurn oks w) = Some (returned c (fold workerTurn oks w))) \<and>
    (ss_closed (wd_service w) \<longrightarrow> wd_worker (fold workerTurn oks w) = WorkerDone)"
proof -
  have "turnsLeft w \<le> length oks" using assms(2) by (auto simp: turnsLeft_def split: Worker.splits)
  with worker_drains [OF reachable_ok [OF assms(1)]] have drained:
    "quiet (fold workerTurn oks w)" "protocol_ok pe (fold workerTurn oks w)"
    "wd_calls (fold workerTurn oks w) = wd_calls w"
    "ss_closed (wd_service (fold workerTurn oks w)) = ss_closed (wd_service w)" by auto
  then have "outstanding (fold workerTurn oks w) = []" "ss_waiters (wd_service (fold workerTurn oks w)) = []"
    by (auto simp: quiet_def protocol_ok_def service_ok_def)
  with drained quiet_answered [OF drained(2,1)] show ?thesis
    by (auto simp: quiet_def waitsReply_def protocolStep_def workerEvent_def callerStep_def Let_def)
qed

lemma session_saves_answered_witness:
  "outstanding (fold workerTurn [False, False, True, False, True, True] demo_world) = []"
  using session_saves_answered [OF demo_reachable, of "[False, False, True, False, True, True]"]
  by (simp add: demo_world_def demo_at_def)

section \<open>Lost changes\<close>

text \<open>C35: An association made while a save is queued is lost, and the save is reported as written even when it was not.
  If a player configuration is associated while a save of the same document is still queued, the association is
  answered with success and counted as saved; the worker then takes the older save, tells its caller success
  whatever the write returned, and when the write succeeded the file and the active session are those of the
  older save.\<close>

theorem session_associate_overtaken:
  assumes "wd_worker w = WorkerReady" and "ss_pending (wd_service w) = [p]" and "\<not> ss_closed (wd_service w)"
    and "sp_epoch p = ss_epoch (wd_service w)" and "sp_revision p \<le> as_RequestedRevision (ss_active (wd_service w))"
    and "as_SavedRevision (ss_active (wd_service w)) \<le> as_RequestedRevision (ss_active (wd_service w))"
    and "as_RequestedRevision (ss_active (wd_service w)) \<noteq> -1"
    and "gm_get (wd_calls w) c = Some (CallAssociated job True)" and "dw_epoch job = ss_epoch (wd_service w)"
    and "dw_path job = as_Path (ss_active (wd_service w))"
    and "v \<in> set (ss_waiters (wd_service w))" and "sw_epoch v = sp_epoch p" and "sw_revision v \<le> sp_revision p"
  shows "sn_OK (fst (associateCommit job True (wd_service w))) \<and>
    (\<exists>w'. protocolRun pe [EvAssociateEnd c, EvNext, EvWrite ok, EvFinish] w = Some w' \<and>
       (\<exists>r. (sw_reply v, r) \<in> set (wd_replies w') \<and> sr_OK r) \<and>
       (ok \<longrightarrow> gm_get (wd_files w') (sp_path p) = Some (sp_data p) \<and>
          as_Session (ss_active (wd_service w')) = Some (sp_session p)))"
proof -
  let ?r = "as_RequestedRevision (ss_active (wd_service w)) + 1"
  let ?st = "installDirect ?r job (wd_service w)"
  have next_r: "nextRevision (ss_active (wd_service w)) = ?r" by (rule nextRevision_next(1) [OF assms(7,6)])
  have less: "sp_revision p < ?r" using assms(5) revision_next [OF assms(7)] by (rule le_less_trans)
  then have commit: "associateCommit job True (wd_service w) = (sessionOpened (dw_path job) (dw_candidate job), ?st)"
    using assms(3,9,10) next_r by (simp add: associateCommit_def)
  let ?st2 = "?st\<lparr>ss_pending := [], ss_active := (ss_active ?st)\<lparr>as_SaveState := SaveStateSaving\<rparr>\<rparr>"
  have take_p: "nextPayload ?st = (Some p, False, ?st2)"
    using assms(2,4) by (simp add: nextPayload_def installDirect_def)
  obtain st3 replies where st3: "finishPayload p ok ?st2 = (st3, replies)" by fastforce
  have durable: "gm_get (ss_durable ?st2) (sp_epoch p) = Some ?r" using assms(4) by (simp add: installDirect_def)
  have waiters: "ss_waiters ?st2 = ss_waiters (wd_service w)" by (simp add: installDirect_def)
  have "(sw_reply v, saveSuccess (sw_requestedRevision v) ?r) \<in> set replies"
    using st3 durable less assms(11-13) waiters
    by (force simp: finishPayload_def Let_def durableAt_def replyTo_def waitsBeyond_def image_iff)
  moreover have "ok \<Longrightarrow> as_Session (ss_active st3) = Some (sp_session p)"
    using st3 assms(4) by (auto simp: finishPayload_def Let_def finishActive_def installDirect_def)
  moreover have "protocolRun pe [EvAssociateEnd c, EvNext, EvWrite ok, EvFinish] w =
      Some (putFile ok (sp_path p) (sp_data p) (returned c w)\<lparr>wd_service := st3, wd_worker := WorkerReady,
        wd_replies := wd_replies w @ replies\<rparr>)"
    using assms(1,8) commit take_p st3
    by (cases ok) (simp_all add: protocolStep_def workerEvent_def callerStep_def workerStep_def Let_def returned_def putFile_def)
  ultimately show ?thesis using commit
    by (cases ok) (auto simp: sessionOpened_def saveSuccess_def putFile_def returned_def)
qed

lemma session_associate_overtaken_witness:
  "\<exists>w w' r. protocolRun demo_env [EvAssociateEnd 3, EvNext, EvWrite False, EvFinish] w = Some w' \<and>
     (1, r) \<in> set (wd_replies w') \<and> sr_OK r"
proof -
  let ?job = "\<lparr>dw_path = ''/a'', dw_epoch = 1, dw_revision = 0, dw_canonical = demo_document ''A'',
    dw_candidate = (demo_document ''A'')\<lparr>se_PlayerConfig := ''p''\<rparr>, dw_data = ''P''\<rparr>"
  let ?w = "demo_at ''B'' 1 SaveStateSaving [demo_save ''B'' 1] [demo_waiter 1 1] False WorkerReady
    [(1, CallSave), (3, CallAssociated ?job True)] [(''/a'', ''P'')]"
  have "\<exists>w'. protocolRun demo_env [EvAssociateEnd 3, EvNext, EvWrite False, EvFinish] ?w = Some w' \<and>
      (\<exists>r. (sw_reply (demo_waiter 1 1), r) \<in> set (wd_replies w') \<and> sr_OK r)"
    using session_associate_overtaken [of ?w "demo_save ''B'' 1" 3 ?job "demo_waiter 1 1" demo_env False]
    by (simp add: demo_at_def demo_save_def demo_waiter_def gm_get_def)
  then show ?thesis by (auto simp: demo_waiter_def)
qed

text \<open>C36: A change made while another save is queued replaces it. When the worker reports the write of one save
  while a newer one of the same document is queued, the active session is the older document again; a command
  state mutation that follows is applied to that document, and the worker then writes its outcome instead of the
  newer save, whose caller is nevertheless told success.\<close>

theorem session_update_lost:
  assumes "ss_pending st = [q]" and "sp_epoch p = ss_epoch st" and "sp_epoch q = ss_epoch st"
    and "v \<in> set (ss_waiters st)" and "sw_epoch v = ss_epoch st" and "sp_revision p < sw_revision v"
    and "sw_revision v \<le> as_RequestedRevision (ss_active st)" and "as_RequestedRevision (ss_active st) \<noteq> -1"
    and "finishPayload p True st = (st1, replies1)"
    and "as_SavedRevision (ss_active st1) \<le> as_RequestedRevision (ss_active st)"
    and "mutateAccept env False c mutate st1 = Inr st2" and "nextPayload st2 = (Some m, stop, st3)"
    and "finishPayload m True st3 = (st4, replies4)"
  shows "mutate (cloneSession (sp_session p)) = Inr (True, sp_session m) \<and>
    as_Session (ss_active st4) = Some (sp_session m) \<and> (\<exists>r. (sw_reply v, r) \<in> set replies4 \<and> sr_OK r)"
proof -
  have st1: "ss_pending st1 = [q]" "ss_epoch st1 = ss_epoch st" "v \<in> set (ss_waiters st1)"
    "as_Session (ss_active st1) = Some (sp_session p)" "as_RequestedRevision (ss_active st1) = as_RequestedRevision (ss_active st)"
    using assms(1,2,4-6,9) by (auto simp: finishPayload_def Let_def finishActive_def waitsBeyond_def)
  let ?r = "as_RequestedRevision (ss_active st) + 1"
  have r: "nextRevision (ss_active st1) = ?r" "sw_revision v < ?r"
    using nextRevision_next [of "ss_active st1"] assms(7,8,10) by (auto simp: st1 intro: le_less_trans)
  from assms(11) obtain candidate data where accepted: "mutate (cloneSession (sp_session p)) = Inr (True, candidate)"
    and st2: "st2 = enqueue \<lparr>sp_epoch = ss_epoch st, sp_path = as_Path (ss_active st1), sp_revision = ?r, sp_session = candidate,
        sp_data = data, sp_prior = Some (cloneSession (sp_session p), as_RequestedRevision (ss_active st))\<rparr>
      \<lparr>sw_epoch = ss_epoch st, sw_revision = ?r, sw_requestedRevision = ?r, sw_reply = c\<rparr> st1"
    by (rule mutateAccept_accepts) (auto simp: st1 r)
  with assms(3,12) have m: "sp_session m = candidate" "sp_epoch m = ss_epoch st" "sp_revision m = ?r"
    and st3: "ss_epoch st3 = ss_epoch st" "v \<in> set (ss_waiters st3)"
    by (auto simp: nextPayload_def enqueue_def signalWorkerLocked_def st1)
  have "\<not> waitsBeyond m v" using assms(5) m(2,3) r(2) by (simp add: waitsBeyond_def)
  from finish_success [OF assms(13) st3(2) this] have "\<exists>r. (sw_reply v, r) \<in> set replies4 \<and> sr_OK r" .
  moreover have "as_Session (ss_active st4) = Some (sp_session m)"
    using assms(13) m(2) st3(1) by (auto simp: finishPayload_def Let_def finishActive_def)
  ultimately show ?thesis using accepted m(1) by simp
qed
lemma session_update_lost_witness:
  "\<exists>st1 replies1 st2 m stop st3 st4 replies4 r.
     finishPayload (demo_save ''B'' 1) True (wd_service demo_world) = (st1, replies1) \<and>
     mutateAccept (pe_Env demo_env) False 9 (\<lambda>_. Inr (True, demo_document ''B'')) st1 = Inr st2 \<and>
     nextPayload st2 = (Some m, stop, st3) \<and> finishPayload m True st3 = (st4, replies4) \<and>
     as_Session (ss_active st4) = Some (demo_document ''B'') \<and> (2, r) \<in> set replies4 \<and> sr_OK r"
proof -
  let ?st = "wd_service demo_world" and ?mutate = "\<lambda>_. Inr (True, demo_document ''B'')"
  obtain st1 replies1 where st1: "finishPayload (demo_save ''B'' 1) True ?st = (st1, replies1)" by fastforce
  then have fields: "ss_active st1 = \<lparr>as_Path = ''/a'', as_Session = Some (demo_document ''B''), as_RequestedRevision = 2,
      as_SavedRevision = 1, as_SaveState = SaveStateSaving\<rparr>" "ss_epoch st1 = 1" "\<not> ss_closed st1"
      "ss_pending st1 = [demo_save ''A'' 2]" "ss_waiters st1 = [demo_waiter 2 2]"
    by (auto simp: demo_world_def demo_at_def finishPayload_def Let_def finishActive_def durableAt_def demo_save_def
        demo_waiter_def waitsBeyond_def gm_get_def gm_put_def word_le_nat_alt)
  obtain st2 where st2: "mutateAccept (pe_Env demo_env) False 9 ?mutate st1 = Inr st2"
    using demo_encode(2) [of "''B''"] fields
    by (auto simp: mutateAccept_def Let_def demo_env_def samePath_def demo_platform_def)
  then have "ss_pending st2 \<noteq> []" by (rule mutateAccept_accepts) (simp add: enqueue_def signalWorkerLocked_def)
  then obtain m stop st3 where m: "nextPayload st2 = (Some m, stop, st3)"
    by (cases "nextPayload st2") (auto simp: nextPayload_def split: list.splits prod.splits)
  obtain st4 replies4 where st4: "finishPayload m True st3 = (st4, replies4)" by fastforce
  have "(Inr (True, demo_document ''B'') :: string + bool \<times> Session) = Inr (True, sp_session m) \<and>
      as_Session (ss_active st4) = Some (sp_session m) \<and> (\<exists>r. (sw_reply (demo_waiter 2 2), r) \<in> set replies4 \<and> sr_OK r)"
    by (rule session_update_lost [where p = "demo_save ''B'' 1" and q = "demo_save ''A'' 2" and mutate = ?mutate,
          OF _ _ _ _ _ _ _ _ st1 _ st2 m st4])
      (simp_all add: demo_world_def demo_at_def demo_save_def demo_waiter_def fields)
  with st1 st2 m st4 show ?thesis by (auto simp: demo_waiter_def)
qed

text \<open>
  A save whose number runs ahead of the document's revision can be left waiting for ever.  A replacement of the terminal
  groups takes the requested revision back to the one after the saved revision; the command state mutation that
  follows then has a smaller number than the save it replaces in the queue, so that its completion does not reach
  the caller of the save, and nothing is left in the queue that would.
\<close>

lemma session_save_starved:
  assumes "ss_pending st = [p]" and "sp_epoch p = ss_epoch st"
    and "v \<in> set (ss_waiters st)" and "as_SavedRevision (ss_active st) + 2 < sw_revision v"
    and "replaceCommit job True st = (answer, st1)" and "cr_OK answer"
    and "mutateAccept env False c mutate st1 = Inr st2" and "nextPayload st2 = (Some m, stop, st3)"
    and "finishPayload m ok st3 = (st4, replies)"
  shows "v \<in> set (ss_waiters st4) \<and> ss_pending st4 = []"
proof -
  have st1: "st1 = installDirect (as_SavedRevision (ss_active st) + 1) job st"
    using assms(5,6) by (auto simp: replaceCommit_def Let_def terminalGroupMutationFailure_def split: if_splits)
  then have "nextRevision (ss_active st1) = as_SavedRevision (ss_active st) + 2"
    by (simp add: nextRevision_def installDirect_def Let_def add.assoc)
  then obtain n w where st2: "st2 = enqueue n w st1" and n: "sp_revision n = as_SavedRevision (ss_active st) + 2" "sp_epoch n = ss_epoch st1"
    using assms(7) by (elim mutateAccept_accepts) auto
  have "ss_pending st2 = [p, n]" "ss_waiters st2 = ss_waiters st @ [w]"
    using assms(1) st1 by (simp_all add: st2 enqueue_def signalWorkerLocked_def installDirect_def)
  then have "m = n" "ss_pending st3 = []" "ss_waiters st3 = ss_waiters st @ [w]"
    using assms(2,8) n(2) st1 by (auto simp: nextPayload_def installDirect_def)
  then show ?thesis using assms(3,4,9) n(1) by (auto simp: finishPayload_def Let_def waitsBeyond_def)
qed

end
