(* ===== verification/PlayerStream.thy ===== *)
theory PlayerStream
  imports DomainLive
begin

text \<open>
  Physical player streams, \<open>internal/player/stream.go\<close>: the bounded queue of one subscription, the hub that indexes
  subscriptions by connection, logical session and browser tab, the presentation uplinks bound to them, and the
  mailbox that keeps the newest intent.  Subscriptions and uplinks are shared by pointer in the code; here the
  hub holds them in a store and everything else names them by address.  A message is its revision and a body of
  any type.  The turns of \<open>Subscribe\<close>, \<open>internal/player/handler.go\<close>, move messages from the queues to the wire.
\<close>

section \<open>Subscriptions\<close>

type_synonym RecognitionHandle = string

datatype 'm SubscriptionMessage =
  SnapshotMessage revision RecognitionHandle 'm | UpdateMessage revision 'm | UplinkResultMessage 'm | EmptyMessage

datatype StreamCause =
  SubscriptionClosed | SubscriptionReplaced | SubscriptionUnregistered | HubClosed | RevisionRegressed | QueueOverflow
| ParentCanceled

type_synonym StreamAddress = nat

text \<open>A closed subscription keeps the first cause.  \<open>sb_Sent\<close> is what went over the wire, oldest first.\<close>

record 'm Subscription =
  sb_ID :: ConnectionID
  sb_SessionID :: LogicalSessionID
  sb_Snapshot :: "'m SubscriptionMessage"
  sb_Updates :: "'m SubscriptionMessage list"
  sb_QueueSize :: nat
  sb_Targeted :: "'m SubscriptionMessage option"
  sb_ClientID :: string
  sb_LastRevision :: revision
  sb_Closed :: "StreamCause option"
  sb_Sent :: "'m SubscriptionMessage list"

definition defaultSubscriptionQueueSize :: nat where "defaultSubscriptionQueueSize = 32"

definition NewSubscription ::
    "ConnectionID \<Rightarrow> LogicalSessionID \<Rightarrow> 'm SubscriptionMessage \<Rightarrow> int \<Rightarrow> string \<Rightarrow> 'm Subscription" where
  "NewSubscription connectionID sessionID snapshot queueSize clientID =
     \<lparr>sb_ID = connectionID, sb_SessionID = sessionID, sb_Snapshot = snapshot, sb_Updates = [],
      sb_QueueSize = (if queueSize \<le> 0 then defaultSubscriptionQueueSize else nat queueSize), sb_Targeted = None,
      sb_ClientID = clientID,
      sb_LastRevision = (case snapshot of SnapshotMessage r _ _ \<Rightarrow> r | _ \<Rightarrow> 0), sb_Closed = None, sb_Sent = []\<rparr>"

definition sb_RecognitionHandle :: "'m Subscription \<Rightarrow> RecognitionHandle" where
  "sb_RecognitionHandle s = (case sb_Snapshot s of SnapshotMessage _ handle _ \<Rightarrow> handle | _ \<Rightarrow> '''')"

definition closeWithCause :: "StreamCause \<Rightarrow> 'm Subscription \<Rightarrow> 'm Subscription" where
  "closeWithCause cause s = (if sb_Closed s = None then s\<lparr>sb_Closed := Some cause\<rparr> else s)"

text \<open>\<open>Offer\<close> of one subscription: whether it took the update, and the subscription after it.\<close>

definition offerUpdate :: "'m SubscriptionMessage \<Rightarrow> 'm Subscription \<Rightarrow> bool \<times> 'm Subscription" where
  "offerUpdate message s =
     (case message of
        UpdateMessage r _ \<Rightarrow>
          if r = sb_LastRevision s then (True, s)
          else if r < sb_LastRevision s then (False, closeWithCause RevisionRegressed s)
          else if sb_Closed s \<noteq> None then (False, s)
          else if length (sb_Updates s) < sb_QueueSize s
          then (True, s\<lparr>sb_Updates := sb_Updates s @ [message], sb_LastRevision := r\<rparr>)
          else (False, closeWithCause QueueOverflow s)
      | _ \<Rightarrow> (False, s))"

text \<open>\<open>PublishTargeted\<close> when it does not have to wait: the slot is free, or the subscription closed.\<close>

definition PublishTargeted :: "'m SubscriptionMessage \<Rightarrow> 'm Subscription \<Rightarrow> bool \<times> 'm Subscription" where
  "PublishTargeted message s =
     (case message of
        UplinkResultMessage _ \<Rightarrow>
          if sb_Closed s \<noteq> None \<or> sb_Targeted s \<noteq> None then (False, s) else (True, s\<lparr>sb_Targeted := Some message\<rparr>)
      | _ \<Rightarrow> (False, s))"

text \<open>
  A turn of the loop in \<open>Subscribe\<close>: the snapshot first, then a waiting update, with or without a targeted
  result after it, or a targeted result alone, as \<open>select\<close> picks.  Nothing happens when nothing waits.
\<close>

datatype Picked = PickUpdate | PickUpdateAndTargeted | PickTargeted

definition sendMessages :: "'m SubscriptionMessage list \<Rightarrow> 'm Subscription \<Rightarrow> 'm Subscription" where
  "sendMessages messages s = s\<lparr>sb_Sent := sb_Sent s @ messages\<rparr>"

definition takeUpdate :: "'m Subscription \<Rightarrow> 'm Subscription" where
  "takeUpdate s =
     (case sb_Updates s of [] \<Rightarrow> s | update # updates \<Rightarrow> sendMessages [update] (s\<lparr>sb_Updates := updates\<rparr>))"

definition takeTargeted :: "'m Subscription \<Rightarrow> 'm Subscription" where
  "takeTargeted s =
     (case sb_Targeted s of None \<Rightarrow> s | Some message \<Rightarrow> sendMessages [message] (s\<lparr>sb_Targeted := None\<rparr>))"

definition subscribeTurn :: "Picked \<Rightarrow> 'm Subscription \<Rightarrow> 'm Subscription" where
  "subscribeTurn picked s =
     (if sb_Sent s = [] then sendMessages [sb_Snapshot s] s
      else (case picked of
          PickUpdate \<Rightarrow> takeUpdate s
        | PickUpdateAndTargeted \<Rightarrow> takeTargeted (takeUpdate s)
        | PickTargeted \<Rightarrow> takeTargeted s))"

section \<open>The mailbox of an uplink\<close>

record 'm LatestIntentMailbox =
  mb_Pending :: "'m option"
  mb_Notified :: bool
  mb_Closed :: bool

definition NewLatestIntentMailbox :: "'m LatestIntentMailbox" where
  "NewLatestIntentMailbox = \<lparr>mb_Pending = None, mb_Notified = False, mb_Closed = False\<rparr>"

definition offerIntent :: "'m \<Rightarrow> 'm LatestIntentMailbox \<Rightarrow> bool \<times> 'm LatestIntentMailbox" where
  "offerIntent intent mailbox =
     (if mb_Closed mailbox then (False, mailbox)
      else (True, mailbox\<lparr>mb_Pending := Some intent, mb_Notified := True\<rparr>))"

text \<open>
  One attempt of \<open>Take\<close>: the pending intent; without one the notification is consumed and the attempt repeated,
  or the mailbox is closed and there will be none.
\<close>

datatype 'm Taken = TakenIntent 'm | TakeAgain | TakeBlocked | TakeClosed

definition takeIntent :: "'m LatestIntentMailbox \<Rightarrow> 'm Taken \<times> 'm LatestIntentMailbox" where
  "takeIntent mailbox =
     (case mb_Pending mailbox of
        Some intent \<Rightarrow> (TakenIntent intent, mailbox\<lparr>mb_Pending := None\<rparr>)
      | None \<Rightarrow>
          if mb_Notified mailbox then (TakeAgain, mailbox\<lparr>mb_Notified := False\<rparr>)
          else if mb_Closed mailbox then (TakeClosed, mailbox) else (TakeBlocked, mailbox))"

text \<open>\<open>Close\<close> and \<open>Finish\<close> share a \<open>sync.Once\<close>: the first of them decides.\<close>

definition closeMailbox :: "'m LatestIntentMailbox \<Rightarrow> 'm LatestIntentMailbox" where
  "closeMailbox mailbox = (if mb_Closed mailbox then mailbox else mailbox\<lparr>mb_Closed := True, mb_Pending := None\<rparr>)"

definition finishMailbox :: "'m LatestIntentMailbox \<Rightarrow> 'm LatestIntentMailbox" where
  "finishMailbox mailbox = (if mb_Closed mailbox then mailbox else mailbox\<lparr>mb_Closed := True\<rparr>)"

section \<open>The hub\<close>

type_synonym UplinkAddress = nat

record PresentationUplinkBinding =
  ub_ClientInstanceID :: string
  ub_Generation :: "64 word"
  ub_RecognitionHandle :: RecognitionHandle

record 'i PresentationUplink =
  up_Binding :: PresentationUplinkBinding
  up_ConnectionID :: ConnectionID
  up_Subscription :: StreamAddress
  up_Mailbox :: "'i LatestIntentMailbox"
  up_Closed :: bool

record ('m, 'i) SubscriptionHub =
  hb_Streams :: "(StreamAddress, 'm Subscription) gomap"
  hb_Leases :: "(UplinkAddress, 'i PresentationUplink) gomap"
  hb_ByID :: "(ConnectionID, StreamAddress) gomap"
  hb_BySession :: "(LogicalSessionID, (ConnectionID, StreamAddress) gomap) gomap"
  hb_ByClient :: "(string, StreamAddress) gomap"
  hb_Uplinks :: "(string, UplinkAddress) gomap"

definition MaximumConcurrentPresentationUplinks :: nat where "MaximumConcurrentPresentationUplinks = 32"

definition NewSubscriptionHub :: "('m, 'i) SubscriptionHub" where
  "NewSubscriptionHub =
     \<lparr>hb_Streams = [], hb_Leases = [], hb_ByID = [], hb_BySession = [], hb_ByClient = [], hb_Uplinks = []\<rparr>"

text \<open>Changing what a pointer points to.\<close>

definition onStream :: "StreamAddress \<Rightarrow> ('m Subscription \<Rightarrow> 'm Subscription) \<Rightarrow> ('m, 'i) SubscriptionHub \<Rightarrow> ('m, 'i) SubscriptionHub" where
  "onStream a f hub =
     (case gm_get (hb_Streams hub) a of None \<Rightarrow> hub | Some s \<Rightarrow> hub\<lparr>hb_Streams := gm_put a (f s) (hb_Streams hub)\<rparr>)"

definition onLease :: "UplinkAddress \<Rightarrow> ('i PresentationUplink \<Rightarrow> 'i PresentationUplink) \<Rightarrow> ('m, 'i) SubscriptionHub \<Rightarrow> ('m, 'i) SubscriptionHub" where
  "onLease u f hub =
     (case gm_get (hb_Leases hub) u of None \<Rightarrow> hub | Some l \<Rightarrow> hub\<lparr>hb_Leases := gm_put u (f l) (hb_Leases hub)\<rparr>)"

definition closeUplink :: "'i PresentationUplink \<Rightarrow> 'i PresentationUplink" where
  "closeUplink l = (if up_Closed l then l else l\<lparr>up_Closed := True, up_Mailbox := closeMailbox (up_Mailbox l)\<rparr>)"

definition siblings :: "LogicalSessionID \<Rightarrow> ('m, 'i) SubscriptionHub \<Rightarrow> (ConnectionID, StreamAddress) gomap" where
  "siblings sessionID hub = (case gm_get (hb_BySession hub) sessionID of None \<Rightarrow> [] | Some m \<Rightarrow> m)"

definition dropClient :: "StreamAddress \<Rightarrow> string \<Rightarrow> ('m, 'i) SubscriptionHub \<Rightarrow> ('m, 'i) SubscriptionHub" where
  "dropClient a clientID hub =
     (if clientID = '''' \<or> gm_get (hb_ByClient hub) clientID \<noteq> Some a then hub
      else (let hub = hub\<lparr>hb_ByClient := gm_del clientID (hb_ByClient hub)\<rparr> in
        (case gm_get (hb_Uplinks hub) clientID of
           None \<Rightarrow> hub
         | Some u \<Rightarrow> onLease u closeUplink (hub\<lparr>hb_Uplinks := gm_del clientID (hb_Uplinks hub)\<rparr>))))"

definition removeLocked :: "StreamAddress \<Rightarrow> ('m, 'i) SubscriptionHub \<Rightarrow> ('m, 'i) SubscriptionHub" where
  "removeLocked a hub =
     (case gm_get (hb_Streams hub) a of
        None \<Rightarrow> hub
      | Some s \<Rightarrow>
          (let hub = dropClient a (sb_ClientID s) (hub\<lparr>hb_ByID := gm_del (sb_ID s) (hb_ByID hub)\<rparr>);
               rest = gm_del (sb_ID s) (siblings (sb_SessionID s) hub)
           in hub\<lparr>hb_BySession := (if rest = [] then gm_del (sb_SessionID s) (hb_BySession hub)
                else gm_put (sb_SessionID s) rest (hb_BySession hub))\<rparr>))"

definition replaceStream :: "StreamAddress \<Rightarrow> ('m, 'i) SubscriptionHub \<Rightarrow> ('m, 'i) SubscriptionHub" where
  "replaceStream a hub = onStream a (closeWithCause SubscriptionReplaced) (removeLocked a hub)"

definition Register :: "StreamAddress \<Rightarrow> ('m, 'i) SubscriptionHub \<Rightarrow> ('m, 'i) SubscriptionHub" where
  "Register a hub =
     (case gm_get (hb_Streams hub) a of
        None \<Rightarrow> hub
      | Some s \<Rightarrow>
          if sb_ID s = '''' \<or> sb_SessionID s = '''' then hub
          else (let hub = (case gm_get (hb_ByID hub) (sb_ID s) of None \<Rightarrow> hub | Some previous \<Rightarrow> replaceStream previous hub);
                    hub = (if sb_ClientID s = '''' then hub
                      else (let hub = (case gm_get (hb_ByClient hub) (sb_ClientID s) of
                              None \<Rightarrow> hub
                            | Some previous \<Rightarrow> if previous \<noteq> a then replaceStream previous hub else hub)
                        in hub\<lparr>hb_ByClient := gm_put (sb_ClientID s) a (hb_ByClient hub)\<rparr>))
            in hub\<lparr>hb_ByID := gm_put (sb_ID s) a (hb_ByID hub),
                 hb_BySession := gm_put (sb_SessionID s) (gm_put (sb_ID s) a (siblings (sb_SessionID s) hub)) (hb_BySession hub)\<rparr>))"

definition Unregister :: "ConnectionID \<Rightarrow> ('m, 'i) SubscriptionHub \<Rightarrow> ('m, 'i) SubscriptionHub" where
  "Unregister connectionID hub =
     (if connectionID = '''' then hub
      else (case gm_get (hb_ByID hub) connectionID of
          None \<Rightarrow> hub
        | Some a \<Rightarrow> onStream a (closeWithCause SubscriptionUnregistered) (removeLocked a hub)))"

text \<open>\<open>Offer\<close> of the hub: the streams of the session one by one; one that refuses is unregistered.\<close>

definition offerStream :: "'m SubscriptionMessage \<Rightarrow> StreamAddress \<Rightarrow> ('m, 'i) SubscriptionHub \<Rightarrow> ('m, 'i) SubscriptionHub" where
  "offerStream message a hub =
     (case gm_get (hb_Streams hub) a of
        None \<Rightarrow> hub
      | Some s \<Rightarrow>
         (case offerUpdate message s of
            (taken, s') \<Rightarrow>
              let hub = onStream a (\<lambda>_. s') hub in if taken then hub else Unregister (sb_ID s) hub))"

definition offerSession :: "LogicalSessionID \<Rightarrow> 'm SubscriptionMessage \<Rightarrow> ('m, 'i) SubscriptionHub \<Rightarrow> ('m, 'i) SubscriptionHub" where
  "offerSession sessionID message hub =
     (if sessionID = '''' then hub else fold (offerStream message) (map snd (siblings sessionID hub)) hub)"

definition CloseUplinks :: "('m, 'i) SubscriptionHub \<Rightarrow> ('m, 'i) SubscriptionHub" where
  "CloseUplinks hub = fold (\<lambda>u. onLease u closeUplink) (map snd (hb_Uplinks hub)) (hub\<lparr>hb_Uplinks := []\<rparr>)"

definition CloseAll :: "('m, 'i) SubscriptionHub \<Rightarrow> ('m, 'i) SubscriptionHub" where
  "CloseAll hub =
     fold (\<lambda>a. onStream a (closeWithCause HubClosed)) (map snd (hb_ByID hub))
       (CloseUplinks (hub\<lparr>hb_ByID := [], hb_BySession := [], hb_ByClient := []\<rparr>))"

section \<open>Uplinks\<close>

datatype UplinkError = UplinkUnavailable | UplinkGeneration | UplinkLimit

text \<open>\<open>u\<close> is the address of the new lease.\<close>

definition BindUplink ::
    "UplinkAddress \<Rightarrow> PresentationUplinkBinding \<Rightarrow> ('m, 'i) SubscriptionHub \<Rightarrow> UplinkError + ('m, 'i) SubscriptionHub" where
  "BindUplink u binding hub =
     (if ub_ClientInstanceID binding = '''' \<or> ub_Generation binding = 0 then Inl UplinkUnavailable
      else (case gm_get (hb_ByClient hub) (ub_ClientInstanceID binding) of
          None \<Rightarrow> Inl UplinkUnavailable
        | Some a \<Rightarrow>
           (case gm_get (hb_Streams hub) a of
              None \<Rightarrow> Inl UplinkUnavailable
            | Some s \<Rightarrow>
                if sb_RecognitionHandle s \<noteq> ub_RecognitionHandle binding then Inl UplinkUnavailable
                else (let lease = \<lparr>up_Binding = binding, up_ConnectionID = sb_ID s, up_Subscription = a,
                            up_Mailbox = NewLatestIntentMailbox, up_Closed = False\<rparr>;
                          bound = hub\<lparr>hb_Leases := gm_put u lease (hb_Leases hub),
                            hb_Uplinks := gm_put (ub_ClientInstanceID binding) u (hb_Uplinks hub)\<rparr>
                  in (case gm_get (hb_Uplinks hub) (ub_ClientInstanceID binding) of
                      None \<Rightarrow>
                        if MaximumConcurrentPresentationUplinks \<le> length (hb_Uplinks hub) then Inl UplinkLimit else Inr bound
                    | Some previous \<Rightarrow>
                        if (case gm_get (hb_Leases hub) previous of None \<Rightarrow> False
                            | Some l \<Rightarrow> ub_Generation binding \<le> ub_Generation (up_Binding l))
                        then Inl UplinkGeneration else Inr (onLease previous closeUplink bound))))))"

definition Current :: "UplinkAddress \<Rightarrow> ('m, 'i) SubscriptionHub \<Rightarrow> bool" where
  "Current u hub =
     (case gm_get (hb_Leases hub) u of
        None \<Rightarrow> False
      | Some l \<Rightarrow> gm_get (hb_Uplinks hub) (ub_ClientInstanceID (up_Binding l)) = Some u \<and>
          gm_get (hb_ByID hub) (up_ConnectionID l) = Some (up_Subscription l))"

definition ReleaseUplink :: "UplinkAddress \<Rightarrow> ('m, 'i) SubscriptionHub \<Rightarrow> ('m, 'i) SubscriptionHub" where
  "ReleaseUplink u hub =
     (case gm_get (hb_Leases hub) u of
        None \<Rightarrow> hub
      | Some l \<Rightarrow>
          (let clientID = ub_ClientInstanceID (up_Binding l);
               hub = (if gm_get (hb_Uplinks hub) clientID = Some u
                 then hub\<lparr>hb_Uplinks := gm_del clientID (hb_Uplinks hub)\<rparr> else hub)
           in onLease u closeUplink hub))"

section \<open>Runs\<close>

text \<open>
  What the goroutines do to the hub.  \<open>Attach\<close> is the part of \<open>Subscribe\<close> that creates and registers a stream,
  \<open>Turn\<close> an iteration of its loop; \<open>Watch\<close> is the goroutine that ends a lease with its stream.  New streams and
  leases get addresses that are not in use.
\<close>

datatype ('m, 'i) HubEvent =
  Attach ConnectionID LogicalSessionID revision RecognitionHandle 'm int string | OfferSession LogicalSessionID "'m SubscriptionMessage"
| Targeted StreamAddress "'m SubscriptionMessage" | Turn StreamAddress Picked | Cancel StreamAddress | Leave ConnectionID
| Bind PresentationUplinkBinding | OfferIntent UplinkAddress 'i | TakeIntent UplinkAddress | FinishIntents UplinkAddress
| CloseLease UplinkAddress | Release UplinkAddress | Watch UplinkAddress | RotateUplinks | CloseHub

definition freshAddress :: "(nat, 'v) gomap \<Rightarrow> nat" where
  "freshAddress m = Suc (fold max (gm_keys m) 0)"

primrec hubStep :: "('m, 'i) HubEvent \<Rightarrow> ('m, 'i) SubscriptionHub \<Rightarrow> ('m, 'i) SubscriptionHub" where
  "hubStep (Attach connectionID sessionID r handle body queueSize clientID) hub =
     (let a = freshAddress (hb_Streams hub) in
      Register a (hub\<lparr>hb_Streams :=
        gm_put a (NewSubscription connectionID sessionID (SnapshotMessage r handle body) queueSize clientID) (hb_Streams hub)\<rparr>))"
| "hubStep (OfferSession sessionID message) hub = offerSession sessionID message hub"
| "hubStep (Targeted a message) hub = onStream a (\<lambda>s. snd (PublishTargeted message s)) hub"
| "hubStep (Turn a picked) hub = onStream a (subscribeTurn picked) hub"
| "hubStep (Cancel a) hub = onStream a (closeWithCause ParentCanceled) hub"
| "hubStep (Leave connectionID) hub = Unregister connectionID hub"
| "hubStep (Bind binding) hub =
     (case BindUplink (freshAddress (hb_Leases hub)) binding hub of Inl _ \<Rightarrow> hub | Inr hub' \<Rightarrow> hub')"
| "hubStep (OfferIntent u intent) hub = onLease u (\<lambda>l. l\<lparr>up_Mailbox := snd (offerIntent intent (up_Mailbox l))\<rparr>) hub"
| "hubStep (TakeIntent u) hub = onLease u (\<lambda>l. l\<lparr>up_Mailbox := snd (takeIntent (up_Mailbox l))\<rparr>) hub"
| "hubStep (FinishIntents u) hub = onLease u (\<lambda>l. l\<lparr>up_Mailbox := finishMailbox (up_Mailbox l)\<rparr>) hub"
| "hubStep (CloseLease u) hub = onLease u closeUplink hub"
| "hubStep (Release u) hub = ReleaseUplink u hub"
| "hubStep (Watch u) hub =
     (case gm_get (hb_Leases hub) u of
        None \<Rightarrow> hub
      | Some l \<Rightarrow> (case gm_get (hb_Streams hub) (up_Subscription l) of
          None \<Rightarrow> hub | Some s \<Rightarrow> if sb_Closed s = None then hub else onLease u closeUplink hub))"
| "hubStep RotateUplinks hub = CloseUplinks hub"
| "hubStep CloseHub hub = CloseAll hub"

end
