(* ===== verification/PlayerStreamInv.thy ===== *)
theory PlayerStreamInv
  imports PlayerStream
begin

text \<open>
  What players' streams guarantee over every run of the hub.  \<open>stream_ok\<close> is about one subscription: revisions go
  over the wire in order.  \<open>indexed\<close> is about the hub's indices, as functions: each of them is the same set of
  registered streams, and an uplink is bound to the registered stream of its browser tab.
\<close>

section \<open>One stream\<close>

primrec messageRevision :: "'m SubscriptionMessage \<Rightarrow> revision list" where
  "messageRevision (SnapshotMessage r _ _) = [r]"
| "messageRevision (UpdateMessage r _) = [r]"
| "messageRevision (UplinkResultMessage _) = []"
| "messageRevision EmptyMessage = []"

definition revisions :: "'m SubscriptionMessage list \<Rightarrow> revision list" where
  "revisions messages = concat (map messageRevision messages)"

lemma revisions_simps [simp]:
  "revisions [] = []" "revisions (m # ms) = messageRevision m @ revisions ms" "revisions (ms @ ns) = revisions ms @ revisions ns"
  by (simp_all add: revisions_def)

text \<open>What the player has or will have received.\<close>

definition wire :: "'m Subscription \<Rightarrow> 'm SubscriptionMessage list" where
  "wire s = (if sb_Sent s = [] then [sb_Snapshot s] else sb_Sent s) @ sb_Updates s"

definition stream_ok :: "'m Subscription \<Rightarrow> bool" where
  "stream_ok s =
     (sorted_wrt (<) (revisions (wire s)) \<and> (\<forall>r\<in>set (revisions (wire s)). r \<le> sb_LastRevision s) \<and>
      length (sb_Updates s) \<le> sb_QueueSize s \<and> (sb_Sent s \<noteq> [] \<longrightarrow> hd (sb_Sent s) = sb_Snapshot s) \<and>
      (\<forall>m. sb_Targeted s = Some m \<longrightarrow> messageRevision m = []))"

lemma stream_ok_new: "stream_ok (NewSubscription connectionID sessionID (SnapshotMessage r handle body) queueSize clientID)"
  by (simp add: stream_ok_def wire_def NewSubscription_def)

lemma stream_ok_close [simp]: "stream_ok (closeWithCause cause s) = stream_ok s"
  by (simp add: stream_ok_def wire_def closeWithCause_def)

lemma stream_ok_push:
  assumes "stream_ok s" and "sb_LastRevision s < r" and "length (sb_Updates s) < sb_QueueSize s"
  shows "stream_ok (s\<lparr>sb_Updates := sb_Updates s @ [UpdateMessage r body], sb_LastRevision := r\<rparr>)"
proof -
  let ?s = "s\<lparr>sb_Updates := sb_Updates s @ [UpdateMessage r body], sb_LastRevision := r\<rparr>"
  have "revisions (wire ?s) = revisions (wire s) @ [r]" by (simp add: wire_def)
  moreover have "x < r" if "x \<in> set (revisions (wire s))" for x
    using assms(1,2) that unfolding stream_ok_def by (meson le_less_trans)
  ultimately show ?thesis using assms by (auto simp: stream_ok_def sorted_wrt_append intro: less_imp_le)
qed

lemma stream_ok_offer: "stream_ok s \<Longrightarrow> stream_ok (snd (offerUpdate message s))"
  by (cases message) (simp_all add: offerUpdate_def stream_ok_push not_less_iff_gr_or_eq)

lemma stream_ok_targeted: "stream_ok s \<Longrightarrow> stream_ok (snd (PublishTargeted message s))"
  by (cases message) (auto simp: PublishTargeted_def stream_ok_def wire_def)

lemma stream_ok_takeTargeted: "stream_ok s \<Longrightarrow> sb_Sent s \<noteq> [] \<Longrightarrow> stream_ok (takeTargeted s)"
  by (cases "sb_Targeted s") (auto simp: takeTargeted_def sendMessages_def stream_ok_def wire_def)

lemma stream_ok_takeUpdate:
  "stream_ok s \<Longrightarrow> sb_Sent s \<noteq> [] \<Longrightarrow> stream_ok (takeUpdate s) \<and> sb_Sent (takeUpdate s) \<noteq> []"
  by (cases "sb_Updates s") (auto simp: takeUpdate_def sendMessages_def stream_ok_def wire_def)

lemma stream_ok_first: "stream_ok s \<Longrightarrow> sb_Sent s = [] \<Longrightarrow> stream_ok (sendMessages [sb_Snapshot s] s)"
  by (simp add: sendMessages_def stream_ok_def wire_def)

lemma stream_ok_turn: "stream_ok s \<Longrightarrow> stream_ok (subscribeTurn picked s)"
  by (cases picked) (simp_all add: subscribeTurn_def stream_ok_first stream_ok_takeUpdate stream_ok_takeTargeted)

section \<open>The indices\<close>

text \<open>
  \<open>B\<close>, \<open>S\<close>, \<open>C\<close> and \<open>U\<close> are the indices by connection, session, browser tab and the uplinks; \<open>ki\<close>, \<open>ks\<close> and \<open>kc\<close>
  read the connection, session and tab of a stream, \<open>li\<close>, \<open>la\<close> and \<open>lc\<close> the connection, stream and tab of a lease.
\<close>

definition indexed ::
    "(StreamAddress \<Rightarrow> ConnectionID) \<Rightarrow> (StreamAddress \<Rightarrow> LogicalSessionID) \<Rightarrow> (StreamAddress \<Rightarrow> string) \<Rightarrow>
     (UplinkAddress \<Rightarrow> ConnectionID) \<Rightarrow> (UplinkAddress \<Rightarrow> StreamAddress) \<Rightarrow> (UplinkAddress \<Rightarrow> string) \<Rightarrow>
     (ConnectionID \<Rightarrow> StreamAddress option) \<Rightarrow> (LogicalSessionID \<Rightarrow> ConnectionID \<Rightarrow> StreamAddress option) \<Rightarrow>
     (string \<Rightarrow> StreamAddress option) \<Rightarrow> (string \<Rightarrow> UplinkAddress option) \<Rightarrow> bool" where
  "indexed ki ks kc li la lc B S C U =
     ((\<forall>i a. B i = Some a \<longrightarrow> ki a = i \<and> i \<noteq> '''' \<and> ks a \<noteq> '''') \<and>
      (\<forall>sess i a. S sess i = Some a \<longleftrightarrow> B i = Some a \<and> ks a = sess) \<and>
      (\<forall>c a. C c = Some a \<longleftrightarrow> c \<noteq> '''' \<and> kc a = c \<and> B (ki a) = Some a) \<and>
      (\<forall>c u. U c = Some u \<longrightarrow> lc u = c \<and> C c = Some (la u) \<and> B (li u) = Some (la u)))"

lemma indexedD:
  assumes "indexed ki ks kc li la lc B S C U"
  shows "B i = Some a \<Longrightarrow> ki a = i \<and> i \<noteq> '''' \<and> ks a \<noteq> ''''"
    and "S sess i = Some a \<longleftrightarrow> B i = Some a \<and> ks a = sess"
    and "C c = Some a \<longleftrightarrow> c \<noteq> '''' \<and> kc a = c \<and> B (ki a) = Some a"
    and "U c = Some u \<Longrightarrow> lc u = c \<and> C c = Some (la u) \<and> B (li u) = Some (la u)"
  using assms unfolding indexed_def by metis+

lemma indexedI:
  assumes "\<And>i a. B i = Some a \<Longrightarrow> ki a = i \<and> i \<noteq> '''' \<and> ks a \<noteq> ''''"
    and "\<And>sess i a. S sess i = Some a \<longleftrightarrow> B i = Some a \<and> ks a = sess"
    and "\<And>c a. C c = Some a \<longleftrightarrow> c \<noteq> '''' \<and> kc a = c \<and> B (ki a) = Some a"
    and "\<And>c u. U c = Some u \<Longrightarrow> lc u = c \<and> C c = Some (la u) \<and> B (li u) = Some (la u)"
  shows "indexed ki ks kc li la lc B S C U"
  using assms unfolding indexed_def by blast

lemma indexed_remove:
  assumes ok: "indexed ki ks kc li la lc B S C U" and B: "B i = Some a"
  shows "indexed ki ks kc li la lc (B(i := None)) (S(ks a := (S (ks a))(i := None))) (C(kc a := None)) (U(kc a := None))"
proof (rule indexedI)
  have i: "ki a = i" using indexedD(1) [OF ok B] by simp
  have only: "C c = Some a \<Longrightarrow> c = kc a" for c using indexedD(3) [OF ok, of c a] by simp
  have client: "b = a" if "kc b = kc a" "B (ki b) = Some b" "kc a \<noteq> ''''" for b
    using indexedD(3) [OF ok, of "kc a" b] indexedD(3) [OF ok, of "kc a" a] that B i by simp
  fix sess j c b u
  show "ki b = j \<and> j \<noteq> '''' \<and> ks b \<noteq> ''''" if "(B(i := None)) j = Some b"
    using indexedD(1) [OF ok] that by (auto split: if_splits)
  show "(S(ks a := (S (ks a))(i := None))) sess j = Some b \<longleftrightarrow> (B(i := None)) j = Some b \<and> ks b = sess"
    using indexedD(2) [OF ok, of sess j b] B by auto
  show "(C(kc a := None)) c = Some b \<longleftrightarrow> c \<noteq> '''' \<and> kc b = c \<and> (B(i := None)) (ki b) = Some b"
    using indexedD(3) [OF ok, of c b] client [of b] B i by auto
  show "lc u = c \<and> (C(kc a := None)) c = Some (la u) \<and> (B(i := None)) (li u) = Some (la u)" if "(U(kc a := None)) c = Some u"
  proof -
    from that have c: "c \<noteq> kc a" "U c = Some u" by (auto split: if_splits)
    with indexedD(4) [OF ok c(2)] only [of c] B show ?thesis by auto
  qed
qed

lemma indexed_add:
  assumes ok: "indexed ki ks kc li la lc B S C U" and B: "B (ki a) = None" and "ki a \<noteq> ''''" and "ks a \<noteq> ''''"
    and C: "kc a = '''' \<or> C (kc a) = None"
  shows "indexed ki ks kc li la lc (B(ki a \<mapsto> a)) (S(ks a := (S (ks a))(ki a \<mapsto> a)))
    (if kc a = '''' then C else C(kc a \<mapsto> a)) U"
proof (rule indexedI)
  have client: "B (ki b) \<noteq> Some b" if "kc b = kc a" "kc a \<noteq> ''''" for b
    using indexedD(3) [OF ok, of "kc a" b] that C by simp
  fix sess j c b u
  show "ki b = j \<and> j \<noteq> '''' \<and> ks b \<noteq> ''''" if "(B(ki a \<mapsto> a)) j = Some b"
    using indexedD(1) [OF ok] that assms(3,4) by (auto split: if_splits)
  show "(S(ks a := (S (ks a))(ki a \<mapsto> a))) sess j = Some b \<longleftrightarrow> (B(ki a \<mapsto> a)) j = Some b \<and> ks b = sess"
    using indexedD(2) [OF ok, of sess j b] B by auto
  show "(if kc a = '''' then C else C(kc a \<mapsto> a)) c = Some b \<longleftrightarrow> c \<noteq> '''' \<and> kc b = c \<and> (B(ki a \<mapsto> a)) (ki b) = Some b"
    using indexedD(3) [OF ok, of c b] client [of b] B by auto
  show "lc u = c \<and> (if kc a = '''' then C else C(kc a \<mapsto> a)) c = Some (la u) \<and> (B(ki a \<mapsto> a)) (li u) = Some (la u)"
    if "U c = Some u"
    using indexedD(4) [OF ok that] B C by auto
qed

lemma indexed_bind:
  assumes ok: "indexed ki ks kc li la lc B S C U" and "C (lc u) = Some (la u)" and "B (li u) = Some (la u)"
  shows "indexed ki ks kc li la lc B S C (U(lc u \<mapsto> u))"
proof (rule indexedI)
  fix c u' assume "(U(lc u \<mapsto> u)) c = Some u'"
  then show "lc u' = c \<and> C c = Some (la u') \<and> B (li u') = Some (la u')"
    using indexedD(4) [OF ok, of c u'] assms(2,3) by (auto split: if_splits)
qed (use indexedD(1-3) [OF ok] in blast)+

lemma indexed_release:
  assumes ok: "indexed ki ks kc li la lc B S C U"
  shows "indexed ki ks kc li la lc B S C (U(c := None))"
proof (rule indexedI)
  fix c' u assume "(U(c := None)) c' = Some u"
  then show "lc u = c' \<and> C c' = Some (la u) \<and> B (li u) = Some (la u)"
    using indexedD(4) [OF ok, of c' u] by (auto split: if_splits)
qed (use indexedD(1-3) [OF ok] in blast)+

lemma indexed_streams:
  assumes ok: "indexed ki ks kc li la lc B S C U" and "\<And>a. a \<noteq> new \<Longrightarrow> ki' a = ki a \<and> ks' a = ks a \<and> kc' a = kc a"
    and fresh: "\<And>i. B i \<noteq> Some new"
  shows "indexed ki' ks' kc' li la lc B S C U"
proof (rule indexedI)
  fix sess j c b u
  have same: "ki' b = ki b \<and> ks' b = ks b \<and> kc' b = kc b" if "B x = Some b" for x
    using assms(2) [of b] fresh [of x] that by auto
  show "ki' b = j \<and> j \<noteq> '''' \<and> ks' b \<noteq> ''''" if "B j = Some b"
    using indexedD(1) [OF ok that] same [OF that] by simp
  show "S sess j = Some b \<longleftrightarrow> B j = Some b \<and> ks' b = sess"
    using indexedD(2) [OF ok, of sess j b] same [of j] by auto
  show "C c = Some b \<longleftrightarrow> c \<noteq> '''' \<and> kc' b = c \<and> B (ki' b) = Some b"
  proof (cases "b = new")
    case True
    then show ?thesis using indexedD(3) [OF ok, of c b] fresh by auto
  next
    case False
    then show ?thesis using indexedD(3) [OF ok, of c b] assms(2) [OF False] by simp
  qed
  show "lc u = c \<and> C c = Some (la u) \<and> B (li u) = Some (la u)" if "U c = Some u" by (rule indexedD(4) [OF ok that])
qed

lemma indexed_leases:
  assumes ok: "indexed ki ks kc li la lc B S C U" and same: "\<And>c u. U c = Some u \<Longrightarrow> li' u = li u \<and> la' u = la u \<and> lc' u = lc u"
  shows "indexed ki ks kc li' la' lc' B S C U"
proof (rule indexedI)
  fix c u assume "U c = Some u"
  with indexedD(4) [OF ok this] same [OF this]
  show "lc' u = c \<and> C c = Some (la' u) \<and> B (li' u) = Some (la' u)" by simp
qed (use indexedD(1-3) [OF ok] in blast)+

section \<open>The hub\<close>

definition streamID :: "('m, 'i) SubscriptionHub \<Rightarrow> StreamAddress \<Rightarrow> ConnectionID" where
  "streamID hub a = (case gm_get (hb_Streams hub) a of None \<Rightarrow> '''' | Some s \<Rightarrow> sb_ID s)"

definition streamSession :: "('m, 'i) SubscriptionHub \<Rightarrow> StreamAddress \<Rightarrow> LogicalSessionID" where
  "streamSession hub a = (case gm_get (hb_Streams hub) a of None \<Rightarrow> '''' | Some s \<Rightarrow> sb_SessionID s)"

definition streamClient :: "('m, 'i) SubscriptionHub \<Rightarrow> StreamAddress \<Rightarrow> string" where
  "streamClient hub a = (case gm_get (hb_Streams hub) a of None \<Rightarrow> '''' | Some s \<Rightarrow> sb_ClientID s)"

definition leaseID :: "('m, 'i) SubscriptionHub \<Rightarrow> UplinkAddress \<Rightarrow> ConnectionID" where
  "leaseID hub u = (case gm_get (hb_Leases hub) u of None \<Rightarrow> '''' | Some l \<Rightarrow> up_ConnectionID l)"

definition leaseStream :: "('m, 'i) SubscriptionHub \<Rightarrow> UplinkAddress \<Rightarrow> StreamAddress" where
  "leaseStream hub u = (case gm_get (hb_Leases hub) u of None \<Rightarrow> 0 | Some l \<Rightarrow> up_Subscription l)"

definition leaseClient :: "('m, 'i) SubscriptionHub \<Rightarrow> UplinkAddress \<Rightarrow> string" where
  "leaseClient hub u = (case gm_get (hb_Leases hub) u of None \<Rightarrow> '''' | Some l \<Rightarrow> ub_ClientInstanceID (up_Binding l))"

lemmas stream_views = streamID_def streamSession_def streamClient_def

lemmas lease_views = leaseID_def leaseStream_def leaseClient_def

definition indices_ok :: "('m, 'i) SubscriptionHub \<Rightarrow> bool" where
  "indices_ok hub =
     indexed (streamID hub) (streamSession hub) (streamClient hub) (leaseID hub) (leaseStream hub) (leaseClient hub)
       (gm_get (hb_ByID hub)) (\<lambda>sess. gm_get (siblings sess hub)) (gm_get (hb_ByClient hub)) (gm_get (hb_Uplinks hub))"

definition hub_ok :: "('m, 'i) SubscriptionHub \<Rightarrow> bool" where
  "hub_ok hub =
     (indices_ok hub \<and> gm_ok (hb_Uplinks hub) \<and> length (hb_Uplinks hub) \<le> MaximumConcurrentPresentationUplinks \<and>
      (\<forall>a s. gm_get (hb_Streams hub) a = Some s \<longrightarrow> stream_ok s))"

lemma gm_get_put_upd: "gm_get (gm_put k v m) = (gm_get m)(k \<mapsto> v)"
  by (rule ext) simp

lemma gm_get_del_upd: "gm_get (gm_del k m) = (gm_get m)(k := None)"
  by (rule ext) simp

lemma hub_ok_new [simp]: "hub_ok NewSubscriptionHub"
  by (simp add: hub_ok_def indices_ok_def indexed_def NewSubscriptionHub_def siblings_def)

text \<open>Changing a stream or a lease without what the indices read.\<close>

definition keeps_stream :: "('m Subscription \<Rightarrow> 'm Subscription) \<Rightarrow> bool" where
  "keeps_stream f =
     (\<forall>s. sb_ID (f s) = sb_ID s \<and> sb_SessionID (f s) = sb_SessionID s \<and> sb_ClientID (f s) = sb_ClientID s \<and>
        (stream_ok s \<longrightarrow> stream_ok (f s)))"

definition keeps_lease :: "('i PresentationUplink \<Rightarrow> 'i PresentationUplink) \<Rightarrow> bool" where
  "keeps_lease f =
     (\<forall>l. up_Binding (f l) = up_Binding l \<and> up_ConnectionID (f l) = up_ConnectionID l \<and>
        up_Subscription (f l) = up_Subscription l)"

lemma onStream_parts [simp]:
  "hb_ByID (onStream a f hub) = hb_ByID hub" "hb_BySession (onStream a f hub) = hb_BySession hub"
  "hb_ByClient (onStream a f hub) = hb_ByClient hub" "hb_Uplinks (onStream a f hub) = hb_Uplinks hub"
  "hb_Leases (onStream a f hub) = hb_Leases hub" "siblings sess (onStream a f hub) = siblings sess hub"
  by (auto simp: onStream_def siblings_def split: option.splits)

lemma onLease_parts [simp]:
  "hb_ByID (onLease u f hub) = hb_ByID hub" "hb_BySession (onLease u f hub) = hb_BySession hub"
  "hb_ByClient (onLease u f hub) = hb_ByClient hub" "hb_Uplinks (onLease u f hub) = hb_Uplinks hub"
  "hb_Streams (onLease u f hub) = hb_Streams hub" "siblings sess (onLease u f hub) = siblings sess hub"
  by (auto simp: onLease_def siblings_def split: option.splits)

lemma view_simps [simp]:
  "leaseID (hub\<lparr>hb_ByID := b\<rparr>) = leaseID hub" "leaseID (hub\<lparr>hb_BySession := m\<rparr>) = leaseID hub"
  "leaseID (hub\<lparr>hb_ByClient := c\<rparr>) = leaseID hub" "leaseID (hub\<lparr>hb_Uplinks := us\<rparr>) = leaseID hub"
  "leaseID (hub\<lparr>hb_Streams := ss\<rparr>) = leaseID hub" "leaseID (onStream a f hub) = leaseID hub"
  "leaseStream (hub\<lparr>hb_ByID := b\<rparr>) = leaseStream hub" "leaseStream (hub\<lparr>hb_BySession := m\<rparr>) = leaseStream hub"
  "leaseStream (hub\<lparr>hb_ByClient := c\<rparr>) = leaseStream hub" "leaseStream (hub\<lparr>hb_Uplinks := us\<rparr>) = leaseStream hub"
  "leaseStream (hub\<lparr>hb_Streams := ss\<rparr>) = leaseStream hub" "leaseStream (onStream a f hub) = leaseStream hub"
  "leaseClient (hub\<lparr>hb_ByID := b\<rparr>) = leaseClient hub" "leaseClient (hub\<lparr>hb_BySession := m\<rparr>) = leaseClient hub"
  "leaseClient (hub\<lparr>hb_ByClient := c\<rparr>) = leaseClient hub" "leaseClient (hub\<lparr>hb_Uplinks := us\<rparr>) = leaseClient hub"
  "leaseClient (hub\<lparr>hb_Streams := ss\<rparr>) = leaseClient hub" "leaseClient (onStream a f hub) = leaseClient hub"
  "streamID (hub\<lparr>hb_ByID := b\<rparr>) = streamID hub" "streamID (hub\<lparr>hb_BySession := m\<rparr>) = streamID hub"
  "streamID (hub\<lparr>hb_ByClient := c\<rparr>) = streamID hub" "streamID (hub\<lparr>hb_Uplinks := us\<rparr>) = streamID hub"
  "streamID (hub\<lparr>hb_Leases := ls\<rparr>) = streamID hub" "streamID (onLease u g hub) = streamID hub"
  "streamSession (hub\<lparr>hb_ByID := b\<rparr>) = streamSession hub" "streamSession (hub\<lparr>hb_BySession := m\<rparr>) = streamSession hub"
  "streamSession (hub\<lparr>hb_ByClient := c\<rparr>) = streamSession hub" "streamSession (hub\<lparr>hb_Uplinks := us\<rparr>) = streamSession hub"
  "streamSession (hub\<lparr>hb_Leases := ls\<rparr>) = streamSession hub" "streamSession (onLease u g hub) = streamSession hub"
  "streamClient (hub\<lparr>hb_ByID := b\<rparr>) = streamClient hub" "streamClient (hub\<lparr>hb_BySession := m\<rparr>) = streamClient hub"
  "streamClient (hub\<lparr>hb_ByClient := c\<rparr>) = streamClient hub" "streamClient (hub\<lparr>hb_Uplinks := us\<rparr>) = streamClient hub"
  "streamClient (hub\<lparr>hb_Leases := ls\<rparr>) = streamClient hub" "streamClient (onLease u g hub) = streamClient hub"
  "siblings sess (hub\<lparr>hb_ByID := b\<rparr>) = siblings sess hub" "siblings sess (hub\<lparr>hb_ByClient := c\<rparr>) = siblings sess hub"
  "siblings sess (hub\<lparr>hb_Uplinks := us\<rparr>) = siblings sess hub" "siblings sess (hub\<lparr>hb_Leases := ls\<rparr>) = siblings sess hub"
  "siblings sess (hub\<lparr>hb_Streams := ss\<rparr>) = siblings sess hub"
  by (simp_all add: lease_views stream_views siblings_def fun_eq_iff)

lemma onStream_views [simp]:
  "keeps_stream f \<Longrightarrow> streamID (onStream a f hub) = streamID hub"
  "keeps_stream f \<Longrightarrow> streamSession (onStream a f hub) = streamSession hub"
  "keeps_stream f \<Longrightarrow> streamClient (onStream a f hub) = streamClient hub"
  by (auto simp: stream_views onStream_def keeps_stream_def fun_eq_iff split: option.splits)

lemma onLease_views [simp]:
  "keeps_lease f \<Longrightarrow> leaseID (onLease u f hub) = leaseID hub"
  "keeps_lease f \<Longrightarrow> leaseStream (onLease u f hub) = leaseStream hub"
  "keeps_lease f \<Longrightarrow> leaseClient (onLease u f hub) = leaseClient hub"
  by (auto simp: lease_views onLease_def keeps_lease_def fun_eq_iff split: option.splits)

lemma onStream_ok: "hub_ok hub \<Longrightarrow> keeps_stream f \<Longrightarrow> hub_ok (onStream a f hub)"
proof -
  assume ok: "hub_ok hub" and f: "keeps_stream f"
  have "indices_ok (onStream a f hub)" using ok f by (simp add: hub_ok_def indices_ok_def)
  moreover have "stream_ok s" if "gm_get (hb_Streams (onStream a f hub)) b = Some s" for b s
    using ok f that by (auto simp: hub_ok_def keeps_stream_def onStream_def split: option.splits if_splits)
  ultimately show ?thesis using ok by (simp add: hub_ok_def)
qed

lemma onLease_ok: "hub_ok hub \<Longrightarrow> keeps_lease f \<Longrightarrow> hub_ok (onLease u f hub)"
  by (simp add: hub_ok_def indices_ok_def)

lemma keeps_close [simp, wf_intros]: "keeps_stream (closeWithCause cause)"
proof -
  have "sb_ID (closeWithCause cause s) = sb_ID s \<and> sb_SessionID (closeWithCause cause s) = sb_SessionID s \<and>
      sb_ClientID (closeWithCause cause s) = sb_ClientID s" for s :: "'a Subscription"
    by (simp add: closeWithCause_def)
  then show ?thesis by (simp add: keeps_stream_def)
qed

lemma keeps_turn [simp, wf_intros]: "keeps_stream (subscribeTurn picked)"
  by (auto simp: keeps_stream_def stream_ok_turn)
    (auto simp: subscribeTurn_def takeTargeted_def takeUpdate_def sendMessages_def split: Picked.splits option.splits list.splits)

lemma keeps_targeted [simp, wf_intros]: "keeps_stream (\<lambda>s. snd (PublishTargeted message s))"
  by (auto simp: keeps_stream_def stream_ok_targeted) (auto simp: PublishTargeted_def split: SubscriptionMessage.splits)

lemma keeps_offer [simp, wf_intros]: "keeps_stream (\<lambda>s. snd (offerUpdate message s))"
  by (auto simp: keeps_stream_def stream_ok_offer)
    (auto simp: offerUpdate_def closeWithCause_def split: SubscriptionMessage.splits)

lemma keeps_lease_intros [simp, wf_intros]: "keeps_lease closeUplink" "keeps_lease (\<lambda>l. l\<lparr>up_Mailbox := g l\<rparr>)"
  by (auto simp: keeps_lease_def closeUplink_def)

text \<open>Taking a registered stream out of the indices.\<close>

lemma length_gm_del_le: "length (gm_del k m) \<le> length m"
  by (simp add: gm_del_def length_delete_le)

lemma dropClient_views:
  assumes "clientID = '''' \<longrightarrow> gm_get (hb_ByClient hub) '''' = None \<and> gm_get (hb_Uplinks hub) '''' = None"
    and "clientID \<noteq> '''' \<longrightarrow> gm_get (hb_ByClient hub) clientID = Some a"
  shows "gm_get (hb_ByClient (dropClient a clientID hub)) = (gm_get (hb_ByClient hub))(clientID := None)"
    and "gm_get (hb_Uplinks (dropClient a clientID hub)) = (gm_get (hb_Uplinks hub))(clientID := None)"
  using assms
  by (auto simp: dropClient_def Let_def gm_get_del_upd fun_upd_idem split: option.splits)

lemma dropClient_parts [simp]:
  "hb_ByID (dropClient a c hub) = hb_ByID hub" "hb_BySession (dropClient a c hub) = hb_BySession hub"
  "hb_Streams (dropClient a c hub) = hb_Streams hub" "siblings sess (dropClient a c hub) = siblings sess hub"
  "leaseID (dropClient a c hub) = leaseID hub" "leaseStream (dropClient a c hub) = leaseStream hub"
  "leaseClient (dropClient a c hub) = leaseClient hub" "streamID (dropClient a c hub) = streamID hub"
  "streamSession (dropClient a c hub) = streamSession hub" "streamClient (dropClient a c hub) = streamClient hub"
  "gm_ok (hb_Uplinks hub) \<Longrightarrow> gm_ok (hb_Uplinks (dropClient a c hub))"
  "length (hb_Uplinks (dropClient a c hub)) \<le> length (hb_Uplinks hub)"
  by (simp_all add: dropClient_def Let_def length_gm_del_le split: option.split)

lemma removeLocked_ok:
  assumes ok: "hub_ok hub" and B: "gm_get (hb_ByID hub) i = Some a"
  shows "hub_ok (removeLocked a hub)"
    and "gm_get (hb_ByID (removeLocked a hub)) = (gm_get (hb_ByID hub))(i := None)"
    and "gm_get (hb_ByClient (removeLocked a hub)) = (gm_get (hb_ByClient hub))(streamClient hub a := None)"
    and "hb_Streams (removeLocked a hub) = hb_Streams hub"
proof -
  have indexed: "indexed (streamID hub) (streamSession hub) (streamClient hub) (leaseID hub) (leaseStream hub) (leaseClient hub)
       (gm_get (hb_ByID hub)) (\<lambda>sess. gm_get (siblings sess hub)) (gm_get (hb_ByClient hub)) (gm_get (hb_Uplinks hub))"
    using ok by (simp add: hub_ok_def indices_ok_def)
  from indexedD(1) [OF indexed B] obtain s where s: "gm_get (hb_Streams hub) a = Some s" "sb_ID s = i"
    by (auto simp: streamID_def split: option.splits)
  let ?sess = "streamSession hub a" and ?c = "streamClient hub a"
  let ?mid = "hub\<lparr>hb_ByID := gm_del i (hb_ByID hub)\<rparr>"
  let ?drop = "dropClient a ?c ?mid" and ?rest = "gm_del i (siblings ?sess hub)"
  have keys: "sb_SessionID s = ?sess" "sb_ClientID s = ?c" using s by (simp_all add: stream_views)
  have noClient: "gm_get (hb_ByClient hub) '''' = None" using indexedD(3) [OF indexed, of "''''"] by (meson not_Some_eq)
  then have noUplink: "gm_get (hb_Uplinks hub) '''' = None"
    using indexedD(4) [OF indexed, of "''''"] by (metis option.distinct(1) not_Some_eq)
  have "?c \<noteq> '''' \<longrightarrow> gm_get (hb_ByClient ?mid) ?c = Some a"
    using indexedD(1) [OF indexed B] indexedD(3) [OF indexed, of ?c a] B by simp
  with noClient noUplink have drop: "gm_get (hb_ByClient ?drop) = (gm_get (hb_ByClient hub))(?c := None)"
    "gm_get (hb_Uplinks ?drop) = (gm_get (hb_Uplinks hub))(?c := None)"
    using dropClient_views [of ?c ?mid a] by simp_all
  have removed: "removeLocked a hub = ?drop\<lparr>hb_BySession :=
      (if ?rest = [] then gm_del ?sess (hb_BySession hub) else gm_put ?sess ?rest (hb_BySession hub))\<rparr>"
    using s keys by (simp add: removeLocked_def Let_def)
  have "gm_get (siblings sess (removeLocked a hub)) =
      (if sess = ?sess then (gm_get (siblings ?sess hub))(i := None) else gm_get (siblings sess hub))" for sess
    unfolding removed by (simp add: siblings_def gm_get_del_upd split: option.split)
      (metis gm_get_del_upd gm_get_empty)
  then have S: "(\<lambda>sess. gm_get (siblings sess (removeLocked a hub))) =
      (\<lambda>sess. gm_get (siblings sess hub))(?sess := (gm_get (siblings ?sess hub))(i := None))"
    by (simp add: fun_eq_iff)
  show "gm_get (hb_ByID (removeLocked a hub)) = (gm_get (hb_ByID hub))(i := None)"
    and "gm_get (hb_ByClient (removeLocked a hub)) = (gm_get (hb_ByClient hub))(?c := None)"
    and "hb_Streams (removeLocked a hub) = hb_Streams hub"
    unfolding removed using drop by (simp_all add: gm_get_del_upd)
  have "indices_ok (removeLocked a hub)"
    unfolding indices_ok_def S unfolding removed using indexed_remove [OF indexed B] drop by (simp add: gm_get_del_upd)
  then show "hub_ok (removeLocked a hub)"
    using ok by (auto simp: hub_ok_def removed intro: order_trans [OF dropClient_parts(12)])
qed

section \<open>Every operation keeps the hub\<close>

lemma stream_views_cong:
  "hb_Streams hub' = hb_Streams hub \<Longrightarrow>
   streamID hub' = streamID hub \<and> streamSession hub' = streamSession hub \<and> streamClient hub' = streamClient hub"
  by (simp add: stream_views fun_eq_iff)

lemma replaceStream_ok:
  assumes "hub_ok hub" and "gm_get (hb_ByID hub) i = Some a"
  shows "hub_ok (replaceStream a hub)"
    and "gm_get (hb_ByID (replaceStream a hub)) = (gm_get (hb_ByID hub))(i := None)"
    and "gm_get (hb_ByClient (replaceStream a hub)) = (gm_get (hb_ByClient hub))(streamClient hub a := None)"
    and "streamID (replaceStream a hub) = streamID hub" "streamSession (replaceStream a hub) = streamSession hub"
    and "streamClient (replaceStream a hub) = streamClient hub"
  using removeLocked_ok [OF assms] stream_views_cong [of "removeLocked a hub" hub]
  by (simp_all add: replaceStream_def onStream_ok)

lemma registered_client:
  assumes "hub_ok hub" and "gm_get (hb_ByClient hub) c = Some a"
  shows "streamClient hub a = c" and "gm_get (hb_ByID hub) (streamID hub a) = Some a"
  using assms indexedD(3) by (fastforce simp: hub_ok_def indices_ok_def)+

lemma evict_connection:
  fixes hub :: "('m, 'i) SubscriptionHub" and i :: ConnectionID
  assumes "hub_ok hub"
  defines "hub' \<equiv> (case gm_get (hb_ByID hub) i of None \<Rightarrow> hub | Some previous \<Rightarrow> replaceStream previous hub)"
  shows "hub_ok hub'" and "gm_get (hb_ByID hub') = (gm_get (hb_ByID hub))(i := None)"
    and "streamID hub' = streamID hub" "streamSession hub' = streamSession hub" "streamClient hub' = streamClient hub"
  using replaceStream_ok [OF assms(1), of i] assms(1)
  by (cases "gm_get (hb_ByID hub) i"; simp add: hub'_def fun_upd_idem)+

lemma evict_client:
  fixes hub :: "('m, 'i) SubscriptionHub" and a :: StreamAddress and c :: string
  assumes "hub_ok hub" and "\<And>i. gm_get (hb_ByID hub) i \<noteq> Some a"
  defines "hub' \<equiv> (case gm_get (hb_ByClient hub) c of
      None \<Rightarrow> hub | Some previous \<Rightarrow> if previous \<noteq> a then replaceStream previous hub else hub)"
  shows "hub_ok hub'" and "gm_get (hb_ByID hub) i = None \<Longrightarrow> gm_get (hb_ByID hub') i = None"
    and "gm_get (hb_ByClient hub') c = None"
    and "streamID hub' = streamID hub" "streamSession hub' = streamSession hub" "streamClient hub' = streamClient hub"
proof -
  have "hub_ok hub' \<and> (gm_get (hb_ByID hub) i = None \<longrightarrow> gm_get (hb_ByID hub') i = None) \<and> gm_get (hb_ByClient hub') c = None \<and>
      streamID hub' = streamID hub \<and> streamSession hub' = streamSession hub \<and> streamClient hub' = streamClient hub"
  proof (cases "gm_get (hb_ByClient hub) c")
    case (Some p)
    note p = registered_client [OF assms(1) Some]
    with assms(2) have "p \<noteq> a" by auto
    with replaceStream_ok [OF assms(1) p(2)] p(1) Some show ?thesis by (simp add: hub'_def)
  qed (use assms(1) in \<open>simp add: hub'_def\<close>)
  then show "hub_ok hub'" and "gm_get (hb_ByID hub) i = None \<Longrightarrow> gm_get (hb_ByID hub') i = None"
    and "gm_get (hb_ByClient hub') c = None"
    and "streamID hub' = streamID hub" "streamSession hub' = streamSession hub" "streamClient hub' = streamClient hub" by auto
qed

lemma index_ok:
  assumes ok: "hub_ok hub" and keys: "streamID hub a = i" "streamSession hub a = sess" "streamClient hub a = c"
    and "i \<noteq> ''''" "sess \<noteq> ''''" and free: "gm_get (hb_ByID hub) i = None" "c = '''' \<or> gm_get (hb_ByClient hub) c = None"
  shows "hub_ok (hub\<lparr>hb_ByClient := (if c = '''' then hb_ByClient hub else gm_put c a (hb_ByClient hub)),
    hb_ByID := gm_put i a (hb_ByID hub), hb_BySession := gm_put sess (gm_put i a (siblings sess hub)) (hb_BySession hub)\<rparr>)"
    (is "hub_ok ?hub")
proof -
  have S: "(\<lambda>sess'. gm_get (siblings sess' ?hub)) =
      (\<lambda>sess'. gm_get (siblings sess' hub))(sess := (gm_get (siblings sess hub))(i \<mapsto> a))"
    by (auto simp: siblings_def fun_eq_iff)
  have C: "gm_get (hb_ByClient ?hub) = (if c = '''' then gm_get (hb_ByClient hub) else (gm_get (hb_ByClient hub))(c \<mapsto> a))"
    by (simp add: gm_get_put_upd)
  have "indexed (streamID hub) (streamSession hub) (streamClient hub) (leaseID hub) (leaseStream hub) (leaseClient hub)
      (gm_get (hb_ByID hub)) (\<lambda>sess. gm_get (siblings sess hub)) (gm_get (hb_ByClient hub)) (gm_get (hb_Uplinks hub))"
    using ok by (simp add: hub_ok_def indices_ok_def)
  from indexed_add [OF this, of a] assms(5-) have "indices_ok ?hub"
    unfolding indices_ok_def S C keys by (simp add: keys gm_get_put_upd)
  with ok show ?thesis by (simp add: hub_ok_def)
qed

lemma hub_ok_Register:
  assumes ok: "hub_ok hub" and new: "\<And>i. gm_get (hb_ByID hub) i \<noteq> Some a"
  shows "hub_ok (Register a hub)"
proof (cases "gm_get (hb_Streams hub) a")
  case (Some s)
  show ?thesis
  proof (cases "sb_ID s = '''' \<or> sb_SessionID s = ''''")
    case False
    let ?c = "sb_ClientID s"
    let ?one = "case gm_get (hb_ByID hub) (sb_ID s) of None \<Rightarrow> hub | Some previous \<Rightarrow> replaceStream previous hub"
    let ?two = "case gm_get (hb_ByClient ?one) ?c of
      None \<Rightarrow> ?one | Some previous \<Rightarrow> if previous \<noteq> a then replaceStream previous ?one else ?one"
    have keys: "streamID hub a = sb_ID s" "streamSession hub a = sb_SessionID s" "streamClient hub a = ?c"
      using Some by (simp_all add: stream_views)
    note one = evict_connection [OF ok, of "sb_ID s"]
    have "\<And>i. gm_get (hb_ByID ?one) i \<noteq> Some a" using new unfolding one(2) by simp
    note two = evict_client [OF one(1) this, where c = ?c]
    show ?thesis
    proof (cases "?c = ''''")
      case True
      have "Register a hub = ?one\<lparr>hb_ByClient := (if ?c = '''' then hb_ByClient ?one else gm_put ?c a (hb_ByClient ?one)),
          hb_ByID := gm_put (sb_ID s) a (hb_ByID ?one),
          hb_BySession := gm_put (sb_SessionID s) (gm_put (sb_ID s) a (siblings (sb_SessionID s) ?one)) (hb_BySession ?one)\<rparr>"
        using Some False True by (simp add: Register_def Let_def)
      then show ?thesis using index_ok [OF one(1), of a "sb_ID s" "sb_SessionID s" ?c] one False True keys by simp
    next
      case client: False
      have "Register a hub = ?two\<lparr>hb_ByClient := (if ?c = '''' then hb_ByClient ?two else gm_put ?c a (hb_ByClient ?two)),
          hb_ByID := gm_put (sb_ID s) a (hb_ByID ?two),
          hb_BySession := gm_put (sb_SessionID s) (gm_put (sb_ID s) a (siblings (sb_SessionID s) ?two)) (hb_BySession ?two)\<rparr>"
        using Some False client by (simp add: Register_def Let_def)
      then show ?thesis using index_ok [OF two(1), of a "sb_ID s" "sb_SessionID s" ?c] one two False client keys by simp
    qed
  qed (use ok Some in \<open>simp add: Register_def\<close>)
qed (use ok in \<open>simp add: Register_def\<close>)

lemma hub_ok_Unregister: "hub_ok hub \<Longrightarrow> hub_ok (Unregister i hub)"
  by (auto simp: Unregister_def removeLocked_ok intro: onStream_ok split: option.split)

lemma hub_ok_offerStream: "hub_ok hub \<Longrightarrow> hub_ok (offerStream message a hub)"
proof (cases "gm_get (hb_Streams hub) a")
  case (Some s)
  assume ok: "hub_ok hub"
  have "onStream a (\<lambda>_. snd (offerUpdate message s)) hub = onStream a (\<lambda>s. snd (offerUpdate message s)) hub"
    using Some by (simp add: onStream_def)
  then have "hub_ok (onStream a (\<lambda>_. snd (offerUpdate message s)) hub)" using onStream_ok [OF ok keeps_offer] by simp
  then show ?thesis using Some by (auto simp: offerStream_def Let_def hub_ok_Unregister split: prod.split)
qed (simp add: offerStream_def)

lemma hub_ok_offerSession: "hub_ok hub \<Longrightarrow> hub_ok (offerSession sess message hub)"
proof -
  have "hub_ok hub \<Longrightarrow> hub_ok (fold (offerStream message) as hub)" for as and hub :: "('a, 'b) SubscriptionHub"
    by (induction as arbitrary: hub) (auto intro: hub_ok_offerStream)
  then show "hub_ok hub \<Longrightarrow> ?thesis" by (simp add: offerSession_def)
qed

lemma hub_ok_closeUplinks: "hub_ok hub \<Longrightarrow> hub_ok (fold (\<lambda>u. onLease u closeUplink) us hub)"
  by (induction us arbitrary: hub) (simp_all add: onLease_ok)

lemma hub_ok_closeStreams: "hub_ok hub \<Longrightarrow> hub_ok (fold (\<lambda>a. onStream a (closeWithCause cause)) as hub)"
  by (induction as arbitrary: hub) (simp_all add: onStream_ok)

lemma hub_ok_noUplinks: "hub_ok hub \<Longrightarrow> hub_ok (hub\<lparr>hb_Uplinks := []\<rparr>)"
  by (auto simp: hub_ok_def indices_ok_def indexed_def)

lemma hub_ok_CloseUplinks: "hub_ok hub \<Longrightarrow> hub_ok (CloseUplinks hub)"
  by (simp add: CloseUplinks_def hub_ok_closeUplinks hub_ok_noUplinks)

lemma hub_ok_CloseAll: "hub_ok hub \<Longrightarrow> hub_ok (CloseAll hub)"
  unfolding CloseAll_def CloseUplinks_def
  by (intro hub_ok_closeStreams hub_ok_closeUplinks) (simp add: hub_ok_def indices_ok_def indexed_def siblings_def)

lemma hub_ok_Release: "hub_ok hub \<Longrightarrow> hub_ok (ReleaseUplink u hub)"
proof (cases "gm_get (hb_Leases hub) u")
  case (Some l)
  assume ok: "hub_ok hub"
  let ?c = "ub_ClientInstanceID (up_Binding l)"
  have "hub_ok (hub\<lparr>hb_Uplinks := gm_del ?c (hb_Uplinks hub)\<rparr>)"
    using ok indexed_release by (auto simp: hub_ok_def indices_ok_def gm_get_del_upd intro: order_trans [OF length_gm_del_le])
  with ok Some show ?thesis by (auto simp: ReleaseUplink_def Let_def intro: onLease_ok)
qed (simp add: ReleaseUplink_def)

lemma hub_ok_Bind:
  assumes ok: "hub_ok hub" and fresh: "gm_get (hb_Leases hub) u = None" and bind: "BindUplink u binding hub = Inr hub'"
  shows "hub_ok hub'"
proof -
  let ?c = "ub_ClientInstanceID binding"
  from bind obtain a s where a: "gm_get (hb_ByClient hub) ?c = Some a" "gm_get (hb_Streams hub) a = Some s"
    by (auto simp: BindUplink_def split: if_splits option.splits)
  let ?lease = "\<lparr>up_Binding = binding, up_ConnectionID = sb_ID s, up_Subscription = a, up_Mailbox = NewLatestIntentMailbox, up_Closed = False\<rparr>"
  let ?bound = "hub\<lparr>hb_Leases := gm_put u ?lease (hb_Leases hub), hb_Uplinks := gm_put ?c u (hb_Uplinks hub)\<rparr>"
  have hub': "hub' = ?bound \<or> (\<exists>previous. hub' = onLease previous closeUplink ?bound)"
    and room: "gm_has (hb_Uplinks hub) ?c \<or> length (hb_Uplinks hub) < MaximumConcurrentPresentationUplinks"
    using bind a by (auto simp: BindUplink_def Let_def gm_has_def split: if_splits option.splits)
  have id: "gm_get (hb_ByID hub) (sb_ID s) = Some a"
    using registered_client(2) [OF ok a(1)] a(2) by (simp add: streamID_def)
  have indexed: "indexed (streamID hub) (streamSession hub) (streamClient hub) (leaseID hub) (leaseStream hub) (leaseClient hub)
      (gm_get (hb_ByID hub)) (\<lambda>sess. gm_get (siblings sess hub)) (gm_get (hb_ByClient hub)) (gm_get (hb_Uplinks hub))"
    using ok by (simp add: hub_ok_def indices_ok_def)
  have old: "leaseID ?bound v = leaseID hub v \<and> leaseStream ?bound v = leaseStream hub v \<and> leaseClient ?bound v = leaseClient hub v"
    if "gm_get (hb_Uplinks hub) c = Some v" for c v
  proof -
    have "v \<noteq> u" using indexedD(4) [OF indexed that] indexedD(3) [OF indexed] fresh by (force simp: leaseClient_def)
    then show ?thesis by (simp add: lease_views)
  qed
  have "leaseID ?bound u = sb_ID s" "leaseStream ?bound u = a" "leaseClient ?bound u = ?c" by (simp_all add: lease_views)
  with indexed_bind [OF indexed_leases [OF indexed old], where u = u] a(1) id have "indices_ok ?bound"
    by (simp add: indices_ok_def gm_get_put_upd)
  moreover have "length (gm_put ?c u (hb_Uplinks hub)) \<le> MaximumConcurrentPresentationUplinks"
    using ok room by (auto simp: hub_ok_def length_gm_put)
  ultimately have "hub_ok ?bound" using ok by (simp add: hub_ok_def)
  with hub' show ?thesis by (auto intro: onLease_ok)
qed

lemma address_max_le: "b \<le> fold max ks b \<and> (\<forall>k\<in>set ks. k \<le> fold max ks b)" for b :: nat
proof (induction ks arbitrary: b)
  case (Cons x ks)
  from Cons.IH [of "max x b"] show ?case by simp
qed simp

lemma freshAddress: "gm_get m (freshAddress m) = None"
proof -
  have "k \<in> set (gm_keys m) \<Longrightarrow> k < freshAddress m" for k
    using address_max_le [of 0 "gm_keys m"] by (simp add: freshAddress_def less_Suc_eq_le)
  then have "freshAddress m \<notin> set (gm_keys m)" by blast
  then show ?thesis by (simp add: set_gm_keys gm_has_def)
qed

lemma hub_ok_attach:
  assumes ok: "hub_ok hub" and fresh: "gm_get (hb_Streams hub) a = None" and s: "stream_ok s"
  shows "hub_ok (Register a (hub\<lparr>hb_Streams := gm_put a s (hb_Streams hub)\<rparr>))"
proof -
  let ?hub = "hub\<lparr>hb_Streams := gm_put a s (hb_Streams hub)\<rparr>"
  have indexed: "indexed (streamID hub) (streamSession hub) (streamClient hub) (leaseID hub) (leaseStream hub) (leaseClient hub)
      (gm_get (hb_ByID hub)) (\<lambda>sess. gm_get (siblings sess hub)) (gm_get (hb_ByClient hub)) (gm_get (hb_Uplinks hub))"
    using ok by (simp add: hub_ok_def indices_ok_def)
  have unused: "gm_get (hb_ByID hub) i \<noteq> Some a" for i
    using indexedD(1) [OF indexed, of i a] fresh by (auto simp: streamID_def)
  have "indices_ok ?hub"
    unfolding indices_ok_def using indexed_streams [OF indexed, of a "streamID ?hub" "streamSession ?hub" "streamClient ?hub"] unused
    by (simp add: stream_views)
  then have "hub_ok ?hub" using ok s by (auto simp: hub_ok_def split: if_splits)
  then show ?thesis using unused by (intro hub_ok_Register) simp_all
qed

lemma hub_ok_step: "hub_ok hub \<Longrightarrow> hub_ok (hubStep ev hub)"
proof (cases ev)
  case (Bind binding)
  assume "hub_ok hub"
  then show ?thesis using Bind hub_ok_Bind [OF _ freshAddress] by (auto split: sum.split)
next
  case (Attach i sess r handle body size c)
  assume "hub_ok hub"
  then show ?thesis using Attach hub_ok_attach [OF _ freshAddress stream_ok_new] by (simp add: Let_def)
qed (auto simp: onStream_ok onLease_ok hub_ok_Unregister hub_ok_offerSession hub_ok_Release hub_ok_CloseUplinks hub_ok_CloseAll
    split: option.split)

lemma hub_ok_run: "hub_ok (fold hubStep evs NewSubscriptionHub)"
proof -
  have "hub_ok hub \<Longrightarrow> hub_ok (fold hubStep evs hub)" for hub :: "('a, 'b) SubscriptionHub"
    by (induction evs arbitrary: hub) (auto intro: hub_ok_step)
  then show ?thesis by simp
qed

section \<open>Guarantees\<close>

text \<open>C37: Players see revisions in order. Whatever subscribers, publishers and uplinks do, each stream sends its
  complete snapshot first, and the revisions it has sent, followed by those it still holds, strictly increase:
  nothing is repeated, reordered or sent before the snapshot. A stream never holds more updates than its queue.\<close>

theorem player_stream_ordered:
  assumes "gm_get (hb_Streams (fold hubStep evs NewSubscriptionHub)) a = Some s"
  shows "sorted_wrt (<) (revisions (sb_Sent s @ sb_Updates s)) \<and> (sb_Sent s \<noteq> [] \<longrightarrow> hd (sb_Sent s) = sb_Snapshot s) \<and>
    length (sb_Updates s) \<le> sb_QueueSize s"
proof -
  have "stream_ok s" using hub_ok_run [of evs] assms by (simp add: hub_ok_def)
  then show ?thesis by (auto simp: stream_ok_def wire_def sorted_wrt_append split: if_splits)
qed

definition demo_hub_events :: "(string, string) HubEvent list" where
  "demo_hub_events =
     [Attach ''connect-1'' ''s1'' 4 ''h1'' ''state'' 1 ''tab-1'', Turn 1 PickUpdate, OfferSession ''s1'' (UpdateMessage 5 ''five''),
      OfferSession ''s1'' (UpdateMessage 5 ''again''), Turn 1 PickUpdateAndTargeted, OfferSession ''s1'' (UpdateMessage 8 ''eight''),
      Bind \<lparr>ub_ClientInstanceID = ''tab-1'', ub_Generation = 1, ub_RecognitionHandle = ''h1''\<rparr>,
      Attach ''connect-2'' ''s1'' 6 ''h1'' ''state'' 0 '''']"

lemma player_stream_ordered_witness:
  "\<exists>s. gm_get (hb_Streams (fold hubStep demo_hub_events NewSubscriptionHub)) 1 = Some s \<and>
     revisions (sb_Sent s @ sb_Updates s) = [4, 5, 8] \<and> sorted_wrt (<) (revisions (sb_Sent s @ sb_Updates s))"
proof -
  obtain s where s: "gm_get (hb_Streams (fold hubStep demo_hub_events NewSubscriptionHub)) 1 = Some s"
    "revisions (sb_Sent s @ sb_Updates s) = [4, 5, 8]"
  proof -
    have "(case gm_get (hb_Streams (fold hubStep demo_hub_events NewSubscriptionHub)) 1 of
        None \<Rightarrow> False | Some s \<Rightarrow> revisions (sb_Sent s @ sb_Updates s) = [4, 5, 8])" by code_simp
    with that show ?thesis by (auto split: option.splits)
  qed
  with player_stream_ordered [OF s(1)] show ?thesis by blast
qed

text \<open>C38: The hub's indices agree in every run. The streams registered by connection are those found through their
  session and, when they carry a browser tab, through the tab; no tab has two registered streams; every uplink in
  the table is current, that is bound to the registered stream of its tab, and there are at most as many uplinks as
  the limit.\<close>

theorem player_hub_indexed:
  fixes hub :: "('m, 'i) SubscriptionHub"
  assumes "hub = fold hubStep evs NewSubscriptionHub"
  shows "(gm_get (hb_ByID hub) i = Some a \<longrightarrow> streamID hub a = i \<and> i \<noteq> '''' \<and> streamSession hub a \<noteq> '''') \<and>
    (gm_get (siblings sess hub) i = Some a \<longleftrightarrow> gm_get (hb_ByID hub) i = Some a \<and> streamSession hub a = sess) \<and>
    (gm_get (hb_ByClient hub) c = Some a \<longleftrightarrow>
       c \<noteq> '''' \<and> streamClient hub a = c \<and> gm_get (hb_ByID hub) (streamID hub a) = Some a) \<and>
    (gm_get (hb_Uplinks hub) c = Some u \<longrightarrow>
       Current u hub \<and> leaseClient hub u = c \<and> gm_get (hb_ByClient hub) c = Some (leaseStream hub u)) \<and>
    length (hb_Uplinks hub) \<le> MaximumConcurrentPresentationUplinks"
proof -
  have ok: "hub_ok hub" using hub_ok_run [of evs] by (simp add: assms)
  then have indexed: "indexed (streamID hub) (streamSession hub) (streamClient hub) (leaseID hub) (leaseStream hub) (leaseClient hub)
      (gm_get (hb_ByID hub)) (\<lambda>sess. gm_get (siblings sess hub)) (gm_get (hb_ByClient hub)) (gm_get (hb_Uplinks hub))"
    by (simp add: hub_ok_def indices_ok_def)
  have "Current u hub" if "gm_get (hb_Uplinks hub) c = Some u"
  proof -
    note u = indexedD(4) [OF indexed that]
    then have "c \<noteq> ''''" using indexedD(3) [OF indexed, of c "leaseStream hub u"] by simp
    with u obtain l where "gm_get (hb_Leases hub) u = Some l" by (auto simp: leaseClient_def split: option.splits)
    with u that show ?thesis by (simp add: Current_def lease_views)
  qed
  with ok indexedD(1) [OF indexed, of i a] indexedD(2) [OF indexed, of sess i a] indexedD(3) [OF indexed, of c a]
    indexedD(4) [OF indexed, of c u]
  show ?thesis by (simp add: hub_ok_def)
qed

lemma player_hub_indexed_witness:
  "gm_get (hb_Uplinks (fold hubStep demo_hub_events NewSubscriptionHub)) ''tab-1'' = Some 1 \<and>
   Current 1 (fold hubStep demo_hub_events NewSubscriptionHub)"
proof -
  have "gm_get (hb_Uplinks (fold hubStep demo_hub_events NewSubscriptionHub)) ''tab-1'' = Some 1" by code_simp
  with player_hub_indexed [OF refl, of demo_hub_events "''connect-1''" 1 "''s1''" "''tab-1''" 1] show ?thesis by blast
qed

text \<open>A mailbox that is finished still hands out the newest intent, and only that; a closed one hands out nothing.\<close>

lemma mailbox_newest:
  assumes "intents \<noteq> []"
  defines "mailbox \<equiv> fold (\<lambda>intent m. snd (offerIntent intent m)) intents NewLatestIntentMailbox"
  shows "fst (takeIntent (finishMailbox mailbox)) = TakenIntent (last intents)"
    and "fst (takeIntent (snd (takeIntent (finishMailbox mailbox)))) \<in> {TakeAgain, TakeClosed}"
    and "mb_Pending (closeMailbox mailbox) = None"
proof -
  have "mb_Pending (fold (\<lambda>intent m. snd (offerIntent intent m)) intents m) = Some (last intents) \<and>
      \<not> mb_Closed (fold (\<lambda>intent m. snd (offerIntent intent m)) intents m)" if "\<not> mb_Closed m" for m
    using assms(1) that by (induction intents arbitrary: m) (auto simp: offerIntent_def neq_Nil_conv)
  then show "fst (takeIntent (finishMailbox mailbox)) = TakenIntent (last intents)"
    and "fst (takeIntent (snd (takeIntent (finishMailbox mailbox)))) \<in> {TakeAgain, TakeClosed}"
    and "mb_Pending (closeMailbox mailbox) = None"
    by (auto simp: mailbox_def takeIntent_def finishMailbox_def closeMailbox_def NewLatestIntentMailbox_def)
qed

end
