(* ===== verification/PlayerMessages.thy ===== *)
theory PlayerMessages
  imports PlayerStream
begin

text \<open>
  What a player's browser is told, \<open>internal/player/adapter.go\<close>: the projections of the coordinator become the
  messages of the public protocol.  The messages are the structures the generated code declares; an enumeration
  keeps its unspecified value.
\<close>

section \<open>Messages\<close>

datatype WireRole = ROLE_UNSPECIFIED | ROLE_UNASSIGNED | ROLE_ACTIVE | ROLE_OBSERVER

datatype WirePhase =
  PHASE_UNSPECIFIED | PHASE_NO_BROADCAST | PHASE_SELECTING | PHASE_WAITING | PHASE_CONTROLLING | PHASE_OBSERVING

datatype WireAvailability = AVAILABILITY_UNSPECIFIED | AVAILABILITY_AVAILABLE | AVAILABILITY_CLAIMED

datatype WireNotice = NOTICE_UNSPECIFIED | NOTICE_COMMAND_PERSISTENCE_FAILED

datatype WireReason =
  REASON_UNSPECIFIED | REASON_ACCEPTED | REASON_INVALID_SESSION | REASON_STALE_BROADCAST | REASON_UNASSIGNED
| REASON_NOT_CONTROLLER | REASON_CONTROLLER_DISCONNECTED | REASON_STALE_TERMINAL | REASON_INVALID_ACTION
| REASON_CONFLICT | REASON_DUPLICATE

datatype WireDirection = DIRECTION_UNSPECIFIED | DIRECTION_FORWARD | DIRECTION_RETURN

datatype WireExecutionPhase = EXECUTION_UNSPECIFIED | EXECUTION_PENDING | EXECUTION_REJECTED

datatype WireMode = MODE_UNSPECIFIED | MODE_LIST | MODE_ENTRY

record WireRosterEntry =
  wre_CharacterId :: string
  wre_DisplayName :: string
  wre_Availability :: WireAvailability

record WireCharacter =
  wch_CharacterId :: string
  wch_DisplayName :: string

record WirePlayerState =
  wps_LogicalSessionId :: string
  wps_FallbackName :: string
  wps_AssignedCharacter :: "WireCharacter option"
  wps_Role :: WireRole
  wps_Phase :: WirePhase
  wps_BroadcastId :: "string option"
  wps_ActiveTerminalId :: "string option"
  wps_Roster :: "WireRosterEntry list"
  wps_Notice :: "WireNotice option"

datatype WireNode = WireNode string string WireContent
and WireContent = NoWireContent | WireFolder "WireNode list" | WireCommand string | WireEntry string

record WireNavigation =
  wnv_Path :: "string list"
  wnv_Mode :: WireMode
  wnv_ViewEntryId :: "string option"
  wnv_CommandNodeId :: "string option"

record WireHackWord =
  whw_Id :: string
  whw_Start :: "32 word"
  whw_Length :: "32 word"

record WireHackColumn =
  whc_Addresses :: "string list"
  whc_Text :: string
  whc_Words :: "WireHackWord list"

record WireHackPattern =
  whp_PatternId :: string
  whp_Row :: "32 word"
  whp_Start :: "32 word"
  whp_End :: "32 word"
  whp_Used :: bool

record WireHack =
  whk_Level :: "32 word"
  whk_WordLength :: "32 word"
  whk_AttemptsMax :: "32 word"
  whk_AttemptsLeft :: "32 word"
  whk_Solved :: bool
  whk_Failed :: bool
  whk_Log :: "string list"
  whk_Columns :: "WireHackColumn list"
  whk_Patterns :: "WireHackPattern list"

record WireExecution =
  wex_Phase :: WireExecutionPhase
  wex_CommandNodeId :: string

record WireReturnTarget =
  wrt_TerminalId :: string
  wrt_TerminalName :: string

record WirePendingNavigation =
  wpn_Direction :: WireDirection
  wpn_TargetTerminalId :: string
  wpn_TargetTerminalName :: string

record WireTerminalNavigation =
  wtn_RouteDepth :: nat
  wtn_ReturnTarget :: "WireReturnTarget option"
  wtn_Pending :: "WirePendingNavigation option"

text \<open>
  A variant whose payload is a message may hold a nil pointer, \<open>None\<close>; so may the target of a hacking preview.
\<close>

datatype WirePreview = PreviewUnset | PreviewTarget string | PreviewPattern string

datatype WireVariant =
  VariantUnset | VariantNone "unit option" | VariantMenu "string option" | VariantPage "32 word option"
| VariantHacking "WirePreview option"

record WirePresentation =
  wpr_ContextKey :: string
  wpr_Variant :: WireVariant

record WireLive =
  wlv_TerminalId :: string
  wlv_TerminalName :: string
  wlv_Tree :: WireNode
  wlv_HackLevel :: "32 word"
  wlv_IntroText :: string
  wlv_Navigation :: WireNavigation
  wlv_Hacking :: "WireHack option"
  wlv_CommandExecution :: "WireExecution option"
  wlv_TerminalNavigation :: "WireTerminalNavigation option"
  wlv_Presentation :: WirePresentation

datatype WireTerminal = LiveTerminal WireLive | NoLiveTerminal

record WireSnapshot =
  wsn_RecognitionHandle :: string
  wsn_Revision :: revision
  wsn_PlayerState :: WirePlayerState
  wsn_Terminal :: WireTerminal

record WireUpdate =
  wup_Revision :: revision
  wup_PlayerState :: "WirePlayerState option"
  wup_Terminal :: "WireTerminal option"
  wup_Navigation :: "WireNavigation option"
  wup_Hacking :: "WireHack option"

record WireResult =
  wrs_RequestId :: string
  wrs_Accepted :: bool
  wrs_Reason :: WireReason
  wrs_Revision :: revision

section \<open>Players\<close>

definition roleToProto :: "PlayerRole \<Rightarrow> WireRole" where
  "roleToProto role =
     (case role of
        PlayerRoleUnassigned \<Rightarrow> ROLE_UNASSIGNED | PlayerRoleActive \<Rightarrow> ROLE_ACTIVE | PlayerRoleObserver \<Rightarrow> ROLE_OBSERVER)"

definition phaseToProto :: "PlayerPhase \<Rightarrow> WirePhase" where
  "phaseToProto phase =
     (case phase of
        PlayerPhaseNoBroadcast \<Rightarrow> PHASE_NO_BROADCAST | PlayerPhaseSelecting \<Rightarrow> PHASE_SELECTING
      | PlayerPhaseWaiting \<Rightarrow> PHASE_WAITING | PlayerPhaseControlling \<Rightarrow> PHASE_CONTROLLING
      | PlayerPhaseObserving \<Rightarrow> PHASE_OBSERVING)"

definition rosterToProto :: "RosterStatus \<Rightarrow> WireAvailability" where
  "rosterToProto status =
     (case status of RosterStatusAvailable \<Rightarrow> AVAILABILITY_AVAILABLE | RosterStatusClaimed \<Rightarrow> AVAILABILITY_CLAIMED)"

definition playerNoticeToProto :: "PlayerNotice option \<Rightarrow> WireNotice option" where
  "playerNoticeToProto notice =
     map_option (\<lambda>n. case n of PlayerNoticeCommandPersistenceFailed \<Rightarrow> NOTICE_COMMAND_PERSISTENCE_FAILED) notice"

definition rosterEntryToProto :: "PlayerRosterEntry \<Rightarrow> WireRosterEntry" where
  "rosterEntryToProto entry =
     \<lparr>wre_CharacterId = pre_ID entry, wre_DisplayName = pre_Name entry, wre_Availability = rosterToProto (pre_Status entry)\<rparr>"

definition present :: "string \<Rightarrow> string option" where
  "present value = (if value = '''' then None else Some value)"

definition PlayerStateToProto :: "PlayerState \<Rightarrow> WirePlayerState" where
  "PlayerStateToProto st =
     \<lparr>wps_LogicalSessionId = ps_SessionID st, wps_FallbackName = ps_FallbackName st,
      wps_AssignedCharacter = map_option (\<lambda>c. \<lparr>wch_CharacterId = pch_ID c, wch_DisplayName = pch_Name c\<rparr>) (ps_Character st),
      wps_Role = roleToProto (ps_Role st), wps_Phase = phaseToProto (ps_Phase st),
      wps_BroadcastId = present (ps_BroadcastID st), wps_ActiveTerminalId = present (ps_ActiveTerminalID st),
      wps_Roster = map rosterEntryToProto (ps_Roster st),
      wps_Notice = (if ps_Role st = PlayerRoleActive then playerNoticeToProto (ps_Notice st) else None)\<rparr>"

section \<open>Terminals\<close>

fun ContentNodeToProto :: "ContentNode \<Rightarrow> WireNode" where
  "ContentNodeToProto node =
     WireNode (cn_ID node) (cn_Name node)
       (if cn_Type node = NodeFolder then WireFolder (map ContentNodeToProto (cn_kids node))
        else if cn_Type node = NodeCommand then WireCommand (cn_Text node)
        else if cn_Type node = NodeEntry then WireEntry (cn_Description node)
        else NoWireContent)"

declare ContentNodeToProto.simps [simp del]

definition NavigationToProto :: "NavState \<Rightarrow> WireNavigation" where
  "NavigationToProto st =
     \<lparr>wnv_Path = ns_Path st, wnv_Mode = (if ns_Mode st = ''entry'' then MODE_ENTRY else MODE_LIST),
      wnv_ViewEntryId = ns_ViewEntryID st, wnv_CommandNodeId = ns_CommandNodeID st\<rparr>"

definition hackWordToProto :: "HackWord \<Rightarrow> WireHackWord" where
  "hackWordToProto w = \<lparr>whw_Id = hw_ID w, whw_Start = of_nat (hw_Start w), whw_Length = of_nat (hw_Length w)\<rparr>"

definition hackColumnToProto :: "HackColumn \<Rightarrow> WireHackColumn" where
  "hackColumnToProto column =
     \<lparr>whc_Addresses = hc_Addresses column, whc_Text = hc_Text column, whc_Words = map hackWordToProto (hc_Words column)\<rparr>"

definition hackPatternToProto :: "PublicHackPattern \<Rightarrow> WireHackPattern" where
  "hackPatternToProto p =
     \<lparr>whp_PatternId = pp_ID p, whp_Row = of_nat (pp_Row p), whp_Start = of_nat (pp_Start p), whp_End = of_nat (pp_End p),
      whp_Used = pp_Used p\<rparr>"

definition HackToProto :: "PublicHackState \<Rightarrow> WireHack" where
  "HackToProto st =
     \<lparr>whk_Level = of_int (ph_Level st), whk_WordLength = of_nat (ph_WordLength st), whk_AttemptsMax = of_nat (ph_AttemptsMax st),
      whk_AttemptsLeft = of_nat (ph_AttemptsLeft st), whk_Solved = ph_Solved st, whk_Failed = ph_Failed st, whk_Log = ph_Log st,
      whk_Columns = map hackColumnToProto (ph_Columns st), whk_Patterns = map hackPatternToProto (ph_Patterns st)\<rparr>"

definition commandExecutionToProto :: "CommandExecutionPresentation option \<Rightarrow> WireExecution option" where
  "commandExecutionToProto execution =
     map_option (\<lambda>x. \<lparr>wex_Phase = (case cx_Phase x of
          CommandExecutionPhasePending \<Rightarrow> EXECUTION_PENDING | CommandExecutionPhaseRejected \<Rightarrow> EXECUTION_REJECTED),
        wex_CommandNodeId = cx_CommandID x\<rparr>) execution"

definition terminalNavigationDirectionToProto :: "TerminalNavigationDirection \<Rightarrow> WireDirection" where
  "terminalNavigationDirectionToProto direction =
     (case direction of TerminalNavigationForward \<Rightarrow> DIRECTION_FORWARD | TerminalNavigationReturn \<Rightarrow> DIRECTION_RETURN)"

definition terminalNavigationToProto :: "TerminalNavigationPresentation option \<Rightarrow> WireTerminalNavigation option" where
  "terminalNavigationToProto navigation =
     map_option (\<lambda>n. \<lparr>wtn_RouteDepth = tnp_RouteDepth n,
        wtn_ReturnTarget = map_option (\<lambda>t. \<lparr>wrt_TerminalId = rt_TerminalID t, wrt_TerminalName = rt_TerminalName t\<rparr>)
          (tnp_ReturnTarget n),
        wtn_Pending = map_option (\<lambda>p. \<lparr>wpn_Direction = terminalNavigationDirectionToProto (pnp_Direction p),
            wpn_TargetTerminalId = pnp_TargetTerminalID p, wpn_TargetTerminalName = pnp_TargetTerminalName p\<rparr>)
          (tnp_Pending n)\<rparr>) navigation"

definition controllerPresentationToProto :: "ControllerTerminalPresentation \<Rightarrow> WirePresentation" where
  "controllerPresentationToProto p =
     \<lparr>wpr_ContextKey = cp_ContextKey p,
      wpr_Variant = (case cp_Kind p of
          PresentationMenu \<Rightarrow> VariantMenu (Some (cp_TargetID p))
        | PresentationPage \<Rightarrow> VariantPage (Some (cp_PageIndex p))
        | PresentationHacking \<Rightarrow> VariantHacking (Some
            (if cp_PatternID p \<noteq> '''' then PreviewPattern (cp_PatternID p) else PreviewTarget (cp_TargetID p)))
        | _ \<Rightarrow> VariantNone (Some ()))\<rparr>"

definition LiveToProto :: "PublicLiveState \<Rightarrow> WireLive" where
  "LiveToProto st =
     \<lparr>wlv_TerminalId = pl_TerminalID st, wlv_TerminalName = pl_TerminalName st, wlv_Tree = ContentNodeToProto (pl_Tree st),
      wlv_HackLevel = of_int (pl_HackLevel st), wlv_IntroText = pl_IntroText st, wlv_Navigation = NavigationToProto (pl_Nav st),
      wlv_Hacking = map_option HackToProto (pl_Hack st), wlv_CommandExecution = commandExecutionToProto (pl_CommandExecution st),
      wlv_TerminalNavigation = terminalNavigationToProto (pl_TerminalNavigation st),
      wlv_Presentation = controllerPresentationToProto (pl_Presentation st)\<rparr>"

section \<open>Snapshots, updates and results\<close>

datatype MessageError = SnapshotIncomplete | RevisionRequired | TerminalVariant

definition TerminalPresentationToProto :: "TerminalPresentation \<Rightarrow> MessageError + WireTerminal" where
  "TerminalPresentationToProto p =
     (case (tp_Live p, tp_NoLiveTerminal p) of
        (Some live, False) \<Rightarrow> Inr (LiveTerminal (LiveToProto live))
      | (None, True) \<Rightarrow> Inr NoLiveTerminal
      | _ \<Rightarrow> Inl TerminalVariant)"

definition SnapshotToProto :: "PersonalizedSnapshot \<Rightarrow> MessageError + WireSnapshot" where
  "SnapshotToProto s =
     (case sn_PlayerState s of
        None \<Rightarrow> Inl SnapshotIncomplete
      | Some player \<Rightarrow>
          map_sum id (\<lambda>terminal. \<lparr>wsn_RecognitionHandle = sn_RecognitionHandle s, wsn_Revision = sn_Revision s,
              wsn_PlayerState = PlayerStateToProto player, wsn_Terminal = terminal\<rparr>)
            (TerminalPresentationToProto (sn_Terminal s)))"

definition CompoundUpdateToProto :: "CompoundUpdate \<Rightarrow> MessageError + WireUpdate" where
  "CompoundUpdateToProto u =
     (if cu_Revision u = 0 then Inl RevisionRequired
      else map_sum id (\<lambda>terminal. \<lparr>wup_Revision = cu_Revision u, wup_PlayerState = map_option PlayerStateToProto (cu_Player u),
             wup_Terminal = terminal, wup_Navigation = map_option NavigationToProto (cu_Nav u),
             wup_Hacking = map_option HackToProto (cu_Hack u)\<rparr>)
        (case cu_Terminal u of None \<Rightarrow> Inr None | Some t \<Rightarrow> map_sum id Some (TerminalPresentationToProto t)))"

definition actionReasonToProto :: "ActionReason \<Rightarrow> WireReason" where
  "actionReasonToProto reason =
     (case reason of
        ActionReasonAccepted \<Rightarrow> REASON_ACCEPTED | ActionReasonInvalidSession \<Rightarrow> REASON_INVALID_SESSION
      | ActionReasonStaleBroadcast \<Rightarrow> REASON_STALE_BROADCAST | ActionReasonUnassigned \<Rightarrow> REASON_UNASSIGNED
      | ActionReasonNotController \<Rightarrow> REASON_NOT_CONTROLLER
      | ActionReasonControllerDisconnected \<Rightarrow> REASON_CONTROLLER_DISCONNECTED
      | ActionReasonStaleTerminal \<Rightarrow> REASON_STALE_TERMINAL | ActionReasonInvalidAction \<Rightarrow> REASON_INVALID_ACTION
      | ActionReasonConflict \<Rightarrow> REASON_CONFLICT | ActionReasonDuplicate \<Rightarrow> REASON_DUPLICATE)"

definition ActionResultToProto :: "ActionResult \<Rightarrow> WireResult" where
  "ActionResultToProto result =
     \<lparr>wrs_RequestId = ar_RequestID result, wrs_Accepted = ar_Accepted result,
      wrs_Reason = actionReasonToProto (ar_Reason result), wrs_Revision = ar_Revision result\<rparr>"

end
