(* ===== verification/PlayerRequests.thy ===== *)
theory PlayerRequests
  imports PlayerMessages Validate ControlAudit
begin

text \<open>
  What a player's browser may ask, \<open>internal/player/adapter.go\<close>: every request is bounded and validated field by
  field before it becomes a command of the coordinator.  Decoding and encoding of protobuf are parameters of the
  model: the size of a message and its deterministic encoding, either of which covers the unknown fields a message
  retains.  Asking a nil message for a string answers with the empty string, so a variant whose only field is a
  string carries it alone.
\<close>

section \<open>Requests\<close>

record SubscribeRequest =
  rqs_RecognitionHandle :: "string option"
  rqs_ClientInstanceId :: "string option"
  rqs_Unknown :: string

record UplinkOpen =
  rqo_ClientInstanceId :: string
  rqo_UplinkGeneration :: "64 word"
  rqo_RecognitionHandle :: string
  rqo_Unknown :: string

record SelectCharacterRequest =
  rqc_RecognitionHandle :: string
  rqc_RequestId :: string
  rqc_BroadcastId :: string
  rqc_CharacterId :: string
  rqc_Unknown :: string

text \<open>The addresses every action on a terminal carries.\<close>

record TerminalAddress =
  rqa_RecognitionHandle :: string
  rqa_RequestId :: string
  rqa_BroadcastId :: string
  rqa_TerminalId :: string
  rqa_Unknown :: string

datatype NavigateAction = ActionUnset | NavigateBack | NavigateEnter string | NavigateCommand string | NavigateEntry string

datatype GuessTarget = GuessUnset | GuessWord string | GuessFiller "(32 word \<times> 32 word) option"

datatype PlayerRequest =
  Subscribing SubscribeRequest | Opening UplinkOpen | Selecting SelectCharacterRequest
| Navigating TerminalAddress NavigateAction | Guessing TerminalAddress GuessTarget
| Activating TerminalAddress string | Presenting TerminalAddress string "WirePresentation option"
| Intending TerminalAddress string "WirePresentation option"

record Codec =
  wc_Size :: "PlayerRequest \<Rightarrow> nat"
  wc_Marshal :: "PlayerRequest \<Rightarrow> string option"

datatype RequestError = ResourceExhausted | InvalidField Violation | InvalidRequest string

definition MaxUncompressedMessageBytes :: nat where "MaxUncompressedMessageBytes = 4096"

definition ValidateMessageSize :: "Codec \<Rightarrow> PlayerRequest \<Rightarrow> RequestError option" where
  "ValidateMessageSize codec request =
     (if MaxUncompressedMessageBytes < wc_Size codec request then Some ResourceExhausted else None)"

section \<open>Procedures\<close>

definition procedure :: "string \<Rightarrow> string" where
  "procedure name = ''/fallout.terminal.player.v1.PlayerService/'' @ name"

definition PlayerServiceSelectCharacterProcedure :: string where
  "PlayerServiceSelectCharacterProcedure = procedure ''SelectCharacter''"
definition PlayerServiceNavigateProcedure :: string where
  "PlayerServiceNavigateProcedure = procedure ''Navigate''"
definition PlayerServiceGuessProcedure :: string where
  "PlayerServiceGuessProcedure = procedure ''Guess''"
definition PlayerServiceActivatePatternProcedure :: string where
  "PlayerServiceActivatePatternProcedure = procedure ''ActivatePattern''"
definition PlayerServiceSetPresentationProcedure :: string where
  "PlayerServiceSetPresentationProcedure = procedure ''SetPresentation''"
definition PlayerServicePresentationUplinkProcedure :: string where
  "PlayerServicePresentationUplinkProcedure = procedure ''PresentationUplink''"

definition deterministicRequestFingerprint :: "Codec \<Rightarrow> string \<Rightarrow> PlayerRequest \<Rightarrow> RequestError + string" where
  "deterministicRequestFingerprint codec procedureName request =
     (case wc_Marshal codec request of
        None \<Rightarrow> Inl (InvalidRequest ''fingerprint generated request'')
      | Some payload \<Rightarrow> Inr (hex (sha256 (procedureName @ [CHR 0x00] @ payload))))"

section \<open>Guards\<close>

text \<open>A guard that fails stops the request.\<close>

definition ensure :: "RequestError option \<Rightarrow> RequestError + 'a \<Rightarrow> RequestError + 'a" where
  "ensure e r = (case e of None \<Rightarrow> r | Some x \<Rightarrow> Inl x)"

definition checkField :: "PublicField \<Rightarrow> string \<Rightarrow> RequestError option" where
  "checkField field value = map_option InvalidField (ValidatePublicField field value)"

definition validateCommonMutation :: "string \<Rightarrow> string \<Rightarrow> string \<Rightarrow> RequestError option" where
  "validateCommonMutation handle requestID broadcastID =
     first_err [checkField PublicFieldRecognitionHandle handle, checkField PublicFieldRequestID requestID,
       checkField PublicFieldBroadcastID broadcastID]"

definition validateTerminalMutation :: "TerminalAddress \<Rightarrow> RequestError option" where
  "validateTerminalMutation a =
     (case validateCommonMutation (rqa_RecognitionHandle a) (rqa_RequestId a) (rqa_BroadcastId a) of
        Some e \<Rightarrow> Some e
      | None \<Rightarrow> checkField PublicFieldTerminalID (rqa_TerminalId a))"

section \<open>Subscriptions and uplinks\<close>

definition PresentationUplinkOpenFromProto :: "Codec \<Rightarrow> UplinkOpen \<Rightarrow> RequestError + PresentationUplinkBinding" where
  "PresentationUplinkOpenFromProto codec open_frame =
     ensure (ValidateMessageSize codec (Opening open_frame))
     (ensure (checkField PublicFieldGenerationID (rqo_ClientInstanceId open_frame))
     (ensure (checkField PublicFieldRecognitionHandle (rqo_RecognitionHandle open_frame))
     (if rqo_UplinkGeneration open_frame = 0 then Inl (InvalidRequest ''presentation uplink generation is required'')
      else Inr \<lparr>ub_ClientInstanceID = rqo_ClientInstanceId open_frame, ub_Generation = rqo_UplinkGeneration open_frame,
                ub_RecognitionHandle = rqo_RecognitionHandle open_frame\<rparr>)))"

definition SubscribeRecognition :: "Codec \<Rightarrow> SubscribeRequest \<Rightarrow> RequestError + RecognitionHandle option" where
  "SubscribeRecognition codec request =
     ensure (ValidateMessageSize codec (Subscribing request))
     (case rqs_RecognitionHandle request of
        None \<Rightarrow> Inr None
      | Some handle \<Rightarrow> ensure (checkField PublicFieldRecognitionHandle handle) (Inr (Some handle)))"

definition SubscribeClientInstance :: "SubscribeRequest \<Rightarrow> RequestError + string" where
  "SubscribeClientInstance request =
     (case rqs_ClientInstanceId request of
        None \<Rightarrow> Inr ''''
      | Some clientID \<Rightarrow> ensure (checkField PublicFieldGenerationID clientID) (Inr clientID))"

section \<open>Actions\<close>

record SelectionMutation =
  sm_RecognitionHandle :: RecognitionHandle
  sm_Selection :: CharacterSelection

record RuntimeMutation =
  mu_RecognitionHandle :: RecognitionHandle
  mu_Command :: RuntimeCommand

definition SelectionFromProto :: "Codec \<Rightarrow> SelectCharacterRequest \<Rightarrow> ConnectionID \<Rightarrow> RequestError + SelectionMutation" where
  "SelectionFromProto codec request connectionID =
     ensure (ValidateMessageSize codec (Selecting request))
     (ensure (validateCommonMutation (rqc_RecognitionHandle request) (rqc_RequestId request) (rqc_BroadcastId request))
     (ensure (checkField PublicFieldCharacterID (rqc_CharacterId request))
     (ok_bind (deterministicRequestFingerprint codec PlayerServiceSelectCharacterProcedure (Selecting request)) (\<lambda>fingerprint.
      Inr \<lparr>sm_RecognitionHandle = rqc_RecognitionHandle request,
           sm_Selection = \<lparr>sl_ConnectionID = connectionID, sl_SessionID = '''', sl_RequestID = rqc_RequestId request,
             sl_BroadcastID = rqc_BroadcastId request, sl_CharacterID = rqc_CharacterId request,
             sl_Fingerprint = fingerprint\<rparr>\<rparr>))))"

definition runtimeCommandFor :: "TerminalAddress \<Rightarrow> RuntimeCommandKind \<Rightarrow> RuntimeCommand" where
  "runtimeCommandFor a kind =
     \<lparr>rc_RequestID = rqa_RequestId a, rc_BroadcastID = rqa_BroadcastId a, rc_TerminalID = rqa_TerminalId a, rc_Kind = kind,
      rc_Action = '''', rc_NodeID = '''', rc_TargetID = '''', rc_PatternID = '''', rc_Presentation = zeroPresentation,
      rc_PayloadFingerprint = ''''\<rparr>"

text \<open>The last step of every action: fingerprint the request and pair the command with its recognition handle.\<close>

definition mutation ::
    "Codec \<Rightarrow> string \<Rightarrow> PlayerRequest \<Rightarrow> TerminalAddress \<Rightarrow> RuntimeCommand \<Rightarrow> RequestError + RuntimeMutation" where
  "mutation codec procedureName request a command =
     ok_bind (deterministicRequestFingerprint codec procedureName request) (\<lambda>fingerprint.
     Inr \<lparr>mu_RecognitionHandle = rqa_RecognitionHandle a, mu_Command = command\<lparr>rc_PayloadFingerprint := fingerprint\<rparr>\<rparr>)"

text \<open>The action text and the node a navigation names.\<close>

definition navigateAction :: "NavigateAction \<Rightarrow> RequestError + string \<times> string" where
  "navigateAction action =
     (case action of
        ActionUnset \<Rightarrow> Inl (InvalidRequest ''navigate action is required'')
      | NavigateBack \<Rightarrow> Inr (''back'', '''')
      | NavigateEnter node \<Rightarrow> Inr (''enter'', node)
      | NavigateCommand node \<Rightarrow> Inr (''command'', node)
      | NavigateEntry node \<Rightarrow> Inr (''entry'', node))"

definition NavigateFromProto :: "Codec \<Rightarrow> TerminalAddress \<Rightarrow> NavigateAction \<Rightarrow> RequestError + RuntimeMutation" where
  "NavigateFromProto codec a action =
     ensure (ValidateMessageSize codec (Navigating a action))
     (ensure (validateTerminalMutation a)
     (ok_bind (navigateAction action) (\<lambda>(actionText, node).
      ensure (if actionText = ''back'' then None else checkField PublicFieldActionTarget node)
      (mutation codec PlayerServiceNavigateProcedure (Navigating a action) a
        ((runtimeCommandFor a RuntimeCommandNavigate)\<lparr>rc_Action := actionText, rc_NodeID := node\<rparr>)))))"

definition guessTarget :: "GuessTarget \<Rightarrow> RequestError + string" where
  "guessTarget target =
     (case target of
        GuessUnset \<Rightarrow> Inl (InvalidRequest ''guess target is required'')
      | GuessWord word \<Rightarrow> Inr word
      | GuessFiller None \<Rightarrow> Inl (InvalidRequest ''filler target is outside the public board'')
      | GuessFiller (Some (column, character)) \<Rightarrow>
          if sint column < 0 \<or> 1 < sint column \<or> sint character < 0 \<or> 192 \<le> sint character
          then Inl (InvalidRequest ''filler target is outside the public board'')
          else Inr (itoa (sint column) @ '':'' @ itoa (sint character)))"

definition GuessFromProto :: "Codec \<Rightarrow> TerminalAddress \<Rightarrow> GuessTarget \<Rightarrow> RequestError + RuntimeMutation" where
  "GuessFromProto codec a target =
     ensure (ValidateMessageSize codec (Guessing a target))
     (ensure (validateTerminalMutation a)
     (ok_bind (guessTarget target) (\<lambda>targetID.
      ensure (checkField PublicFieldActionTarget targetID)
      (mutation codec PlayerServiceGuessProcedure (Guessing a target) a
        ((runtimeCommandFor a RuntimeCommandGuess)\<lparr>rc_TargetID := targetID\<rparr>)))))"

definition ActivatePatternFromProto :: "Codec \<Rightarrow> TerminalAddress \<Rightarrow> string \<Rightarrow> RequestError + RuntimeMutation" where
  "ActivatePatternFromProto codec a pattern =
     ensure (ValidateMessageSize codec (Activating a pattern))
     (ensure (validateTerminalMutation a)
     (ensure (checkField PublicFieldActionTarget pattern)
     (mutation codec PlayerServiceActivatePatternProcedure (Activating a pattern) a
        ((runtimeCommandFor a RuntimeCommandActivatePattern)\<lparr>rc_PatternID := pattern\<rparr>))))"

section \<open>Presentations\<close>

text \<open>One exclusive variant; the fields the variant does not have stay empty.\<close>

definition previewFromProto ::
    "WirePreview \<Rightarrow> ControllerTerminalPresentation \<Rightarrow> RequestError + ControllerTerminalPresentation" where
  "previewFromProto preview p =
     (case preview of
        PreviewUnset \<Rightarrow> Inl (InvalidRequest ''hacking preview target is required'')
      | PreviewTarget targetID \<Rightarrow>
          if ValidatePublicField PublicFieldActionTarget targetID \<noteq> None
          then Inl (InvalidRequest ''hacking preview target is invalid'') else Inr (p\<lparr>cp_TargetID := targetID\<rparr>)
      | PreviewPattern pattern \<Rightarrow>
          if ValidatePublicField PublicFieldActionTarget pattern \<noteq> None
          then Inl (InvalidRequest ''hacking preview pattern is invalid'') else Inr (p\<lparr>cp_PatternID := pattern\<rparr>))"

definition variantFromProto :: "string \<Rightarrow> WireVariant \<Rightarrow> RequestError + ControllerTerminalPresentation" where
  "variantFromProto contextKey variant =
     (let p = zeroPresentation\<lparr>cp_ContextKey := contextKey\<rparr> in
      case variant of
        VariantUnset \<Rightarrow> Inl (InvalidRequest ''presentation variant is required'')
      | VariantNone None \<Rightarrow> Inl (InvalidRequest ''none presentation is required'')
      | VariantNone (Some _) \<Rightarrow> Inr (p\<lparr>cp_Kind := PresentationNone\<rparr>)
      | VariantMenu None \<Rightarrow> Inl (InvalidRequest ''menu presentation target is invalid'')
      | VariantMenu (Some targetID) \<Rightarrow>
          if ValidatePublicField PublicFieldActionTarget targetID \<noteq> None
          then Inl (InvalidRequest ''menu presentation target is invalid'')
          else Inr (p\<lparr>cp_Kind := PresentationMenu, cp_TargetID := targetID\<rparr>)
      | VariantPage None \<Rightarrow> Inl (InvalidRequest ''page presentation is invalid'')
      | VariantPage (Some page) \<Rightarrow>
          if MaxPresentationPageIndex < page then Inl (InvalidRequest ''page presentation is invalid'')
          else Inr (p\<lparr>cp_Kind := PresentationPage, cp_PageIndex := page\<rparr>)
      | VariantHacking None \<Rightarrow> Inl (InvalidRequest ''hacking presentation target is required'')
      | VariantHacking (Some preview) \<Rightarrow> previewFromProto preview (p\<lparr>cp_Kind := PresentationHacking\<rparr>))"

definition PresentationFromProto ::
    "Codec \<Rightarrow> TerminalAddress \<Rightarrow> string \<Rightarrow> WirePresentation option \<Rightarrow> RequestError + RuntimeMutation" where
  "PresentationFromProto codec a contextKey generated =
     (case generated of
        None \<Rightarrow> Inl (InvalidRequest ''presentation request is required'')
      | Some g \<Rightarrow>
          ensure (ValidateMessageSize codec (Presenting a contextKey generated))
          (ensure (validateTerminalMutation a)
          (ensure (checkField PublicFieldActionTarget contextKey)
          (if wpr_ContextKey g \<noteq> contextKey
           then Inl (InvalidRequest ''presentation context precondition does not match'')
           else ok_bind (variantFromProto contextKey (wpr_Variant g)) (\<lambda>p.
             mutation codec PlayerServiceSetPresentationProcedure (Presenting a contextKey generated) a
               ((runtimeCommandFor a RuntimeCommandPresentation)\<lparr>rc_Presentation := p\<rparr>))))))"

text \<open>An intent of the uplink is the same request without its unknown fields, under a fingerprint of its own.\<close>

definition PresentationIntentFromProto ::
    "Codec \<Rightarrow> TerminalAddress \<Rightarrow> string \<Rightarrow> WirePresentation option \<Rightarrow> RequestError + RuntimeMutation" where
  "PresentationIntentFromProto codec a contextKey generated =
     ensure (ValidateMessageSize codec (Intending a contextKey generated))
     (ok_bind (PresentationFromProto codec (a\<lparr>rqa_Unknown := ''''\<rparr>) contextKey generated) (\<lambda>m.
      ok_bind (deterministicRequestFingerprint codec PlayerServicePresentationUplinkProcedure (Intending a contextKey generated))
        (\<lambda>fingerprint. Inr (m\<lparr>mu_Command := (mu_Command m)\<lparr>rc_PayloadFingerprint := fingerprint\<rparr>\<rparr>))))"


section \<open>Serving a request\<close>

text \<open>The conversion that serves a request for an action on the shared terminal.\<close>

definition requestMutation :: "Codec \<Rightarrow> PlayerRequest \<Rightarrow> (RequestError + RuntimeMutation) option" where
  "requestMutation codec request =
     (case request of
        Navigating a action \<Rightarrow> Some (NavigateFromProto codec a action)
      | Guessing a target \<Rightarrow> Some (GuessFromProto codec a target)
      | Activating a pattern \<Rightarrow> Some (ActivatePatternFromProto codec a pattern)
      | Presenting a contextKey generated \<Rightarrow> Some (PresentationFromProto codec a contextKey generated)
      | Intending a contextKey generated \<Rightarrow> Some (PresentationIntentFromProto codec a contextKey generated)
      | _ \<Rightarrow> None)"


end
