(* ===== verification/PlayerRequestsInv.thy ===== *)
theory PlayerRequestsInv
  imports PlayerRequests
begin

text \<open>
  What the conversions of \<open>PlayerRequests\<close> guarantee: a request that passes them passes the shape check of the
  coordinator, with bounded printable text in every field, and a presentation survives the way to the browser and
  back.
\<close>

section \<open>Guards\<close>

lemma ensure_Inr: "ensure e r = Inr x \<longleftrightarrow> e = None \<and> r = Inr x"
  by (simp add: ensure_def split: option.split)

lemma checkField_None: "checkField field value = None \<longleftrightarrow> ValidatePublicField field value = None"
  by (simp add: checkField_def)

lemma validateTerminalMutation_None:
  "validateTerminalMutation a = None \<longleftrightarrow>
     ValidatePublicField PublicFieldRecognitionHandle (rqa_RecognitionHandle a) = None \<and>
     ValidatePublicField PublicFieldRequestID (rqa_RequestId a) = None \<and>
     ValidatePublicField PublicFieldBroadcastID (rqa_BroadcastId a) = None \<and>
     ValidatePublicField PublicFieldTerminalID (rqa_TerminalId a) = None"
  by (auto simp: validateTerminalMutation_def validateCommonMutation_def checkField_def first_err_def split: option.splits)

lemmas request_guards = ensure_Inr ok_bind_Inr checkField_None validateTerminalMutation_None

text \<open>Text that may reach the coordinator: bounded, printable, without blanks.\<close>

definition publicText :: "nat \<Rightarrow> string \<Rightarrow> bool" where
  "publicText limit s = (s \<noteq> '''' \<and> length s \<le> limit \<and> list_all visible s)"

lemma publicField_text:
  assumes "ValidatePublicField field value = None"
  shows "publicText (publicFieldLimit field) value" and "\<not> blank value"
proof -
  have ok: "value \<noteq> ''''" "trim_space value = value" "length value \<le> publicFieldLimit field"
      "\<not> list_ex (\<lambda>c. byte_val c < 33 \<or> 126 < byte_val c) value"
    using assms by (auto simp: ValidatePublicField_def Let_def split: if_splits)
  then show "publicText (publicFieldLimit field) value"
    by (auto simp: publicText_def list_ex_iff list_all_iff linorder_not_less visible_def)
  show "\<not> blank value" using ok by (simp add: blank_def)
qed

lemma publicField_valid:
  assumes "publicText (publicFieldLimit field) value"
  shows "ValidatePublicField field value = None"
proof -
  from assms obtain c s where s: "value = c # s" by (cases "value") (auto simp: publicText_def)
  with assms have "trim_space value = value" by (auto simp: publicText_def list_all_iff)
  moreover have "valid_utf8 value"
    by (rule valid_utf8_ascii) (use assms in \<open>auto simp: publicText_def list_all_iff visible_def\<close>)
  moreover have "\<not> list_ex (\<lambda>c. byte_val c < 33 \<or> 126 < byte_val c) value"
    using assms by (auto simp: publicText_def list_ex_iff list_all_iff visible_def)
  moreover have "0 < publicFieldLimit field" using assms by (cases "value") (auto simp: publicText_def)
  ultimately show ?thesis using assms by (auto simp: ValidatePublicField_def Let_def publicText_def)
qed

lemma publicFieldLimit_simps [simp]:
  "publicFieldLimit PublicFieldRecognitionHandle = 128" "publicFieldLimit PublicFieldRequestID = 128"
  "publicFieldLimit PublicFieldBroadcastID = 128" "publicFieldLimit PublicFieldTerminalID = 256"
  "publicFieldLimit PublicFieldActionTarget = 256"
  by (simp_all add: publicFieldLimit_def)

lemma publicText_empty [simp]: "\<not> publicText n ''''"
  by (simp add: publicText_def)

section \<open>The command a request becomes\<close>

text \<open>What every accepted request has in common: its addresses, its size and its fingerprint.\<close>

definition addressed :: "Codec \<Rightarrow> PlayerRequest \<Rightarrow> TerminalAddress \<Rightarrow> RuntimeMutation \<Rightarrow> bool" where
  "addressed codec request a m =
     (wc_Size codec request \<le> MaxUncompressedMessageBytes \<and> mu_RecognitionHandle m = rqa_RecognitionHandle a \<and>
      rc_RequestID (mu_Command m) = rqa_RequestId a \<and> rc_BroadcastID (mu_Command m) = rqa_BroadcastId a \<and>
      rc_TerminalID (mu_Command m) = rqa_TerminalId a \<and> validateTerminalMutation a = None)"

text \<open>The text a command names besides its addresses.\<close>

definition commandTexts :: "RuntimeCommand \<Rightarrow> string list" where
  "commandTexts c =
     filter (\<lambda>s. s \<noteq> '''') [rc_NodeID c, rc_TargetID c, rc_PatternID c, cp_ContextKey (rc_Presentation c),
       cp_TargetID (rc_Presentation c), cp_PatternID (rc_Presentation c)]"

definition shaped :: "RuntimeCommand \<Rightarrow> bool" where
  "shaped c = (validRuntimeCommand c \<and> list_all (publicText 256) (commandTexts c))"

lemma zeroPresentation_fields [simp]:
  "cp_Kind zeroPresentation = PresentationOther ''''" "cp_ContextKey zeroPresentation = ''''"
  "cp_TargetID zeroPresentation = ''''" "cp_PatternID zeroPresentation = ''''" "cp_PageIndex zeroPresentation = 0"
  by (simp_all add: zeroPresentation_def)

lemma publicText_256: "publicText n s \<Longrightarrow> n \<le> 256 \<Longrightarrow> publicText 256 s"
  by (simp add: publicText_def)

lemma address_fields:
  assumes "validateTerminalMutation a = None"
  shows "rqa_RequestId a \<noteq> ''''" "rqa_BroadcastId a \<noteq> ''''" "\<not> blank (rqa_TerminalId a)"
  using assms publicField_text(1) [of PublicFieldRequestID "rqa_RequestId a"]
    publicField_text(1) [of PublicFieldBroadcastID "rqa_BroadcastId a"] publicField_text(2) [of PublicFieldTerminalID "rqa_TerminalId a"]
  by (auto simp: validateTerminalMutation_None)

lemma target_text: "ValidatePublicField PublicFieldActionTarget s = None \<Longrightarrow> publicText 256 s \<and> \<not> blank s \<and> s \<noteq> ''''"
  using publicField_text [of PublicFieldActionTarget s] by auto

lemma fingerprint_unchanged [simp]:
  "validRuntimeCommand (c\<lparr>rc_PayloadFingerprint := f\<rparr>) = validRuntimeCommand c"
  "commandTexts (c\<lparr>rc_PayloadFingerprint := f\<rparr>) = commandTexts c"
  "shaped (c\<lparr>rc_PayloadFingerprint := f\<rparr>) = shaped c"
  by (simp_all add: validRuntimeCommand_def commandTexts_def shaped_def cong: if_cong RuntimeCommandKind.case_cong)

lemma mutation_Inr:
  "mutation codec procedureName request a command = Inr m \<longleftrightarrow>
     (\<exists>f. deterministicRequestFingerprint codec procedureName request = Inr f \<and>
        m = \<lparr>mu_RecognitionHandle = rqa_RecognitionHandle a, mu_Command = command\<lparr>rc_PayloadFingerprint := f\<rparr>\<rparr>)"
  by (auto simp: mutation_def ok_bind_Inr)

lemma sizeGuard_None: "ValidateMessageSize codec request = None \<longleftrightarrow> wc_Size codec request \<le> MaxUncompressedMessageBytes"
  by (simp add: ValidateMessageSize_def)

lemma navigateAction_Inr:
  "navigateAction action = Inr (actionText, node) \<Longrightarrow>
     actionText = ''back'' \<and> node = '''' \<or> actionText \<in> {''enter'', ''command'', ''entry''}"
  by (auto simp: navigateAction_def split: NavigateAction.splits)

lemma command_fields [simp]:
  "rc_RequestID (runtimeCommandFor a kind) = rqa_RequestId a" "rc_BroadcastID (runtimeCommandFor a kind) = rqa_BroadcastId a"
  "rc_TerminalID (runtimeCommandFor a kind) = rqa_TerminalId a" "rc_Kind (runtimeCommandFor a kind) = kind"
  "rc_Action (runtimeCommandFor a kind) = ''''" "rc_NodeID (runtimeCommandFor a kind) = ''''"
  "rc_TargetID (runtimeCommandFor a kind) = ''''" "rc_PatternID (runtimeCommandFor a kind) = ''''"
  "rc_Presentation (runtimeCommandFor a kind) = zeroPresentation"
  by (simp_all add: runtimeCommandFor_def)

text \<open>A command whose addresses were checked is shaped when its own fields are.\<close>

lemma shaped_mutation:
  assumes "validateTerminalMutation a = None" and "wc_Size codec request \<le> MaxUncompressedMessageBytes"
    and "mutation codec procedureName request a command = Inr m"
    and "rc_RequestID command = rqa_RequestId a" "rc_BroadcastID command = rqa_BroadcastId a" "rc_TerminalID command = rqa_TerminalId a"
    and "validRuntimeCommand command" "list_all (publicText 256) (commandTexts command)"
  shows "addressed codec request a m \<and> shaped (mu_Command m)"
  using assms by (auto simp: mutation_Inr addressed_def shaped_def)

lemma NavigateFromProto_shaped:
  assumes "NavigateFromProto codec a action = Inr m"
  shows "addressed codec (Navigating a action) a m \<and> shaped (mu_Command m)"
proof -
  from assms obtain actionText node where n: "wc_Size codec (Navigating a action) \<le> MaxUncompressedMessageBytes"
      "validateTerminalMutation a = None" "navigateAction action = Inr (actionText, node)"
      "actionText = ''back'' \<or> ValidatePublicField PublicFieldActionTarget node = None"
      "mutation codec PlayerServiceNavigateProcedure (Navigating a action) a
        ((runtimeCommandFor a RuntimeCommandNavigate)\<lparr>rc_Action := actionText, rc_NodeID := node\<rparr>) = Inr m"
    by (auto simp: NavigateFromProto_def ensure_Inr ok_bind_Inr sizeGuard_None checkField_None split: if_splits)
  show ?thesis
    by (rule shaped_mutation [OF n(2,1,5)])
      (use navigateAction_Inr [OF n(3)] n(4) target_text [of node] address_fields [OF n(2)] in
        \<open>auto simp: validRuntimeCommand_def commandTexts_def\<close>)
qed

lemma GuessFromProto_shaped:
  assumes "GuessFromProto codec a target = Inr m"
  shows "addressed codec (Guessing a target) a m \<and> shaped (mu_Command m)"
proof -
  from assms obtain targetID where n: "wc_Size codec (Guessing a target) \<le> MaxUncompressedMessageBytes"
      "validateTerminalMutation a = None" "ValidatePublicField PublicFieldActionTarget targetID = None"
      "mutation codec PlayerServiceGuessProcedure (Guessing a target) a
        ((runtimeCommandFor a RuntimeCommandGuess)\<lparr>rc_TargetID := targetID\<rparr>) = Inr m"
    by (auto simp: GuessFromProto_def ensure_Inr ok_bind_Inr sizeGuard_None checkField_None)
  show ?thesis
    by (rule shaped_mutation [OF n(2,1,4)])
      (use target_text [OF n(3)] address_fields [OF n(2)] in \<open>auto simp: validRuntimeCommand_def commandTexts_def\<close>)
qed

lemma ActivatePatternFromProto_shaped:
  assumes "ActivatePatternFromProto codec a pattern = Inr m"
  shows "addressed codec (Activating a pattern) a m \<and> shaped (mu_Command m)"
proof -
  from assms have n: "wc_Size codec (Activating a pattern) \<le> MaxUncompressedMessageBytes"
      "validateTerminalMutation a = None" "ValidatePublicField PublicFieldActionTarget pattern = None"
      "mutation codec PlayerServiceActivatePatternProcedure (Activating a pattern) a
        ((runtimeCommandFor a RuntimeCommandActivatePattern)\<lparr>rc_PatternID := pattern\<rparr>) = Inr m"
    by (auto simp: ActivatePatternFromProto_def ensure_Inr sizeGuard_None checkField_None)
  show ?thesis
    by (rule shaped_mutation [OF n(2,1,4)])
      (use target_text [OF n(3)] address_fields [OF n(2)] in \<open>auto simp: validRuntimeCommand_def commandTexts_def\<close>)
qed

lemma target_empty [simp]: "ValidatePublicField PublicFieldActionTarget '''' \<noteq> None"
  using target_text [of "''''"] by auto

lemma variantFromProto_valid:
  assumes "variantFromProto contextKey variant = Inr p"
  shows "validPresentationCommand p \<and> cp_ContextKey p = contextKey \<and>
     (cp_TargetID p \<noteq> '''' \<longrightarrow> validTarget (cp_TargetID p)) \<and> (cp_PatternID p \<noteq> '''' \<longrightarrow> validTarget (cp_PatternID p))"
  using assms
  by (auto simp: variantFromProto_def previewFromProto_def Let_def validPresentationCommand_def validTarget_def
      split: WireVariant.splits WirePreview.splits option.splits if_splits)

lemma PresentationFromProto_shaped:
  assumes "PresentationFromProto codec a contextKey generated = Inr m"
  shows "addressed codec (Presenting a contextKey generated) a m \<and> shaped (mu_Command m)"
proof -
  from assms obtain g p f where g: "generated = Some g" "wpr_ContextKey g = contextKey"
      "variantFromProto contextKey (wpr_Variant g) = Inr p" "ValidatePublicField PublicFieldActionTarget contextKey = None"
      "validateTerminalMutation a = None" "wc_Size codec (Presenting a contextKey generated) \<le> MaxUncompressedMessageBytes"
      "m = \<lparr>mu_RecognitionHandle = rqa_RecognitionHandle a,
         mu_Command = (runtimeCommandFor a RuntimeCommandPresentation)\<lparr>rc_Presentation := p, rc_PayloadFingerprint := f\<rparr>\<rparr>"
    by (auto simp: PresentationFromProto_def ensure_Inr ok_bind_Inr mutation_Inr sizeGuard_None checkField_None
      split: option.splits if_splits)
  with variantFromProto_valid [OF g(3)] address_fields [OF g(5)] target_text [of contextKey] show ?thesis
    by (auto simp: addressed_def shaped_def validRuntimeCommand_def commandTexts_def validTarget_def dest: target_text)
qed

lemma PresentationIntentFromProto_shaped:
  assumes "PresentationIntentFromProto codec a contextKey generated = Inr m"
  shows "addressed codec (Intending a contextKey generated) a m \<and> shaped (mu_Command m)"
proof -
  from assms obtain n f where n: "PresentationFromProto codec (a\<lparr>rqa_Unknown := ''''\<rparr>) contextKey generated = Inr n"
      "wc_Size codec (Intending a contextKey generated) \<le> MaxUncompressedMessageBytes"
      "m = n\<lparr>mu_Command := (mu_Command n)\<lparr>rc_PayloadFingerprint := f\<rparr>\<rparr>"
    by (auto simp: PresentationIntentFromProto_def ensure_Inr ok_bind_Inr sizeGuard_None)
  with PresentationFromProto_shaped [OF n(1)] show ?thesis
    by (auto simp: addressed_def validateTerminalMutation_None)
qed

section \<open>What a request asks for\<close>

text \<open>The addresses of the message, the procedure it was sent to, and what it asks for in its own words.\<close>

definition requestAddress :: "PlayerRequest \<Rightarrow> TerminalAddress option" where
  "requestAddress request =
     (case request of
        Navigating a _ \<Rightarrow> Some a | Guessing a _ \<Rightarrow> Some a | Activating a _ \<Rightarrow> Some a
      | Presenting a _ _ \<Rightarrow> Some a | Intending a _ _ \<Rightarrow> Some a | _ \<Rightarrow> None)"

definition requestProcedure :: "PlayerRequest \<Rightarrow> string" where
  "requestProcedure request = ''/fallout.terminal.player.v1.PlayerService/'' @
     (case request of
        Navigating _ _ \<Rightarrow> ''Navigate'' | Guessing _ _ \<Rightarrow> ''Guess'' | Activating _ _ \<Rightarrow> ''ActivatePattern''
      | Presenting _ _ _ \<Rightarrow> ''SetPresentation'' | _ \<Rightarrow> ''PresentationUplink'')"

definition asksFor :: "PlayerRequest \<Rightarrow> RuntimeCommand \<Rightarrow> bool" where
  "asksFor request c =
     (case request of
        Navigating _ action \<Rightarrow> rc_Kind c = RuntimeCommandNavigate \<and>
          (case action of
             NavigateBack \<Rightarrow> rc_Action c = ''back'' \<and> rc_NodeID c = []
           | NavigateEnter node \<Rightarrow> rc_Action c = ''enter'' \<and> rc_NodeID c = node
           | NavigateCommand node \<Rightarrow> rc_Action c = ''command'' \<and> rc_NodeID c = node
           | NavigateEntry node \<Rightarrow> rc_Action c = ''entry'' \<and> rc_NodeID c = node
           | ActionUnset \<Rightarrow> False)
      | Guessing _ target \<Rightarrow> rc_Kind c = RuntimeCommandGuess \<and>
          (case target of
             GuessWord word \<Rightarrow> rc_TargetID c = word
           | GuessFiller (Some (column, character)) \<Rightarrow>
               sint column \<in> {0, 1} \<and> sint character \<in> {0..<192} \<and>
               rc_TargetID c = itoa (sint column) @ '':'' @ itoa (sint character)
           | _ \<Rightarrow> False)
      | Activating _ pattern \<Rightarrow> rc_Kind c = RuntimeCommandActivatePattern \<and> rc_PatternID c = pattern
      | Presenting _ contextKey _ \<Rightarrow> rc_Kind c = RuntimeCommandPresentation \<and> cp_ContextKey (rc_Presentation c) = contextKey
      | Intending _ contextKey _ \<Rightarrow> rc_Kind c = RuntimeCommandPresentation \<and> cp_ContextKey (rc_Presentation c) = contextKey
      | _ \<Rightarrow> False)"

definition fingerprinted :: "Codec \<Rightarrow> PlayerRequest \<Rightarrow> RuntimeCommand \<Rightarrow> bool" where
  "fingerprinted codec request c =
     (\<exists>payload. wc_Marshal codec request = Some payload \<and>
        rc_PayloadFingerprint c = hex (sha256 (requestProcedure request @ [CHR 0x00] @ payload)))"

lemmas procedure_defs = procedure_def PlayerServiceNavigateProcedure_def PlayerServiceGuessProcedure_def
  PlayerServiceActivatePatternProcedure_def PlayerServiceSetPresentationProcedure_def
  PlayerServicePresentationUplinkProcedure_def

lemma fingerprint_Inr:
  "deterministicRequestFingerprint codec name request = Inr f \<longleftrightarrow>
     (\<exists>payload. wc_Marshal codec request = Some payload \<and> f = hex (sha256 (name @ [CHR 0x00] @ payload)))"
  by (auto simp: deterministicRequestFingerprint_def split: option.splits)

lemma presentation_asks:
  assumes "PresentationFromProto codec a contextKey generated = Inr m"
  shows "asksFor (Presenting a contextKey generated) (mu_Command m) \<and>
    fingerprinted codec (Presenting a contextKey generated) (mu_Command m)"
  using assms variantFromProto_valid [of contextKey]
  by (auto simp: PresentationFromProto_def ensure_Inr ok_bind_Inr mutation_Inr asksFor_def fingerprinted_def requestProcedure_def
      procedure_defs fingerprint_Inr split: option.splits if_splits)

lemma request_asks:
  assumes "requestMutation codec request = Some (Inr m)"
  shows "asksFor request (mu_Command m) \<and> fingerprinted codec request (mu_Command m)"
proof (cases request)
  case (Navigating a action)
  with assms show ?thesis
    by (auto simp: requestMutation_def NavigateFromProto_def ensure_Inr ok_bind_Inr mutation_Inr asksFor_def fingerprinted_def
        requestProcedure_def procedure_defs fingerprint_Inr navigateAction_def split: NavigateAction.splits)
next
  case (Guessing a target)
  then obtain targetID where t: "guessTarget target = Inr targetID"
    and m: "mutation codec PlayerServiceGuessProcedure request a
      ((runtimeCommandFor a RuntimeCommandGuess)\<lparr>rc_TargetID := targetID\<rparr>) = Inr m"
    using assms by (auto simp: requestMutation_def GuessFromProto_def ensure_Inr ok_bind_Inr)
  have "case target of GuessWord word \<Rightarrow> targetID = word
      | GuessFiller (Some (column, character)) \<Rightarrow> sint column \<in> {0, 1} \<and> sint character \<in> {0..<192} \<and>
          targetID = itoa (sint column) @ '':'' @ itoa (sint character) | _ \<Rightarrow> False"
    using t by (auto simp: guessTarget_def split: GuessTarget.splits option.splits if_splits)
  with m show ?thesis
    by (cases target) (auto simp: Guessing mutation_Inr asksFor_def fingerprinted_def requestProcedure_def procedure_defs
        fingerprint_Inr split: option.splits)
next
  case (Activating a pattern)
  with assms show ?thesis
    by (auto simp: requestMutation_def ActivatePatternFromProto_def ensure_Inr mutation_Inr asksFor_def fingerprinted_def
        requestProcedure_def procedure_defs fingerprint_Inr)
next
  case (Presenting a contextKey generated)
  with assms presentation_asks [of codec a contextKey generated m] show ?thesis by (simp add: requestMutation_def)
next
  case (Intending a contextKey generated)
  with assms obtain n where n: "PresentationFromProto codec (a\<lparr>rqa_Unknown := []\<rparr>) contextKey generated = Inr n"
    and f: "\<exists>f. deterministicRequestFingerprint codec PlayerServicePresentationUplinkProcedure request = Inr f \<and>
      m = n\<lparr>mu_Command := (mu_Command n)\<lparr>rc_PayloadFingerprint := f\<rparr>\<rparr>"
    by (auto simp: requestMutation_def PresentationIntentFromProto_def ensure_Inr ok_bind_Inr)
  from presentation_asks [OF n] f show ?thesis
    by (auto simp: Intending asksFor_def fingerprinted_def requestProcedure_def procedure_defs fingerprint_Inr)
qed (use assms in \<open>simp_all add: requestMutation_def\<close>)

section \<open>Guarantees\<close>

text \<open>C39: Whatever bytes a browser sends, a request that becomes a command of the coordinator is at most 4096
  bytes long with all its unknown fields. The command carries the recognition handle, the request, the broadcast
  and the terminal of the message and asks for the very action, node, target, pattern or context the message
  named; its fingerprint is the digest of the procedure and the encoded message; and it passes the shape check the
  coordinator makes itself: every identity and target is bounded printable text without blanks, one action is
  named, and a presentation has exactly the fields of its kind.\<close>

theorem player_request_checked:
  assumes "requestMutation codec request = Some (Inr m)"
  shows "wc_Size codec request \<le> MaxUncompressedMessageBytes \<and>
    (\<exists>a. requestAddress request = Some a \<and> mu_RecognitionHandle m = rqa_RecognitionHandle a \<and>
       rc_RequestID (mu_Command m) = rqa_RequestId a \<and> rc_BroadcastID (mu_Command m) = rqa_BroadcastId a \<and>
       rc_TerminalID (mu_Command m) = rqa_TerminalId a) \<and>
    asksFor request (mu_Command m) \<and> fingerprinted codec request (mu_Command m) \<and>
    validRuntimeCommand (mu_Command m) \<and>
    publicText 128 (mu_RecognitionHandle m) \<and> publicText 128 (rc_RequestID (mu_Command m)) \<and>
    publicText 128 (rc_BroadcastID (mu_Command m)) \<and> publicText 256 (rc_TerminalID (mu_Command m)) \<and>
    list_all (publicText 256) (commandTexts (mu_Command m))"
proof -
  from assms obtain a where "requestAddress request = Some a" "addressed codec request a m \<and> shaped (mu_Command m)"
    by (cases request) (simp_all add: requestMutation_def requestAddress_def, (blast dest: NavigateFromProto_shaped
      GuessFromProto_shaped ActivatePatternFromProto_shaped PresentationFromProto_shaped PresentationIntentFromProto_shaped)+)
  with request_asks [OF assms] show ?thesis
    using publicField_text(1) [of PublicFieldRecognitionHandle "rqa_RecognitionHandle a"]
      publicField_text(1) [of PublicFieldRequestID "rqa_RequestId a"]
      publicField_text(1) [of PublicFieldBroadcastID "rqa_BroadcastId a"]
      publicField_text(1) [of PublicFieldTerminalID "rqa_TerminalId a"]
    by (simp add: addressed_def shaped_def validateTerminalMutation_None)
qed

definition demo_codec :: Codec where
  "demo_codec = \<lparr>wc_Size = (\<lambda>_. 100), wc_Marshal = (\<lambda>_. Some ''wire'')\<rparr>"

definition demo_address :: TerminalAddress where
  "demo_address = \<lparr>rqa_RecognitionHandle = ''token'', rqa_RequestId = ''r1'', rqa_BroadcastId = ''b1'',
     rqa_TerminalId = ''t1'', rqa_Unknown = ''''\<rparr>"

lemma demo_fields [simp]:
  "publicText 128 ''token''" "publicText 128 ''r1''" "publicText 128 ''b1''" "publicText 256 ''t1''" "publicText 256 ''ops''"
  "publicText 256 ''list/root''"
  by (simp_all add: publicText_def visible_def byte_val_def)

lemma demo_address_valid: "validateTerminalMutation demo_address = None"
  by (simp add: validateTerminalMutation_None demo_address_def publicField_valid)

lemma player_request_checked_witness:
  "\<exists>m. requestMutation demo_codec (Navigating demo_address (NavigateEnter ''ops'')) = Some (Inr m) \<and>
     rc_NodeID (mu_Command m) = ''ops'' \<and> rc_BroadcastID (mu_Command m) = ''b1'' \<and> validRuntimeCommand (mu_Command m)"
proof -
  let ?f = "hex (sha256 (PlayerServiceNavigateProcedure @ [CHR 0x00] @ ''wire''))"

  have r: "requestMutation demo_codec (Navigating demo_address (NavigateEnter ''ops'')) = Some (Inr
      \<lparr>mu_RecognitionHandle = ''token'', mu_Command = (runtimeCommandFor demo_address RuntimeCommandNavigate)
         \<lparr>rc_Action := ''enter'', rc_NodeID := ''ops'', rc_PayloadFingerprint := ?f\<rparr>\<rparr>)"
    using demo_address_valid
    by (simp add: requestMutation_def NavigateFromProto_def ensure_def ValidateMessageSize_def demo_codec_def
        MaxUncompressedMessageBytes_def navigateAction_def ok_bind_def mutation_def deterministicRequestFingerprint_def
        checkField_def publicField_valid, simp add: demo_address_def)
  from player_request_checked [OF r] r show ?thesis by (auto simp: requestAddress_def demo_address_def asksFor_def)
qed

text \<open>C40: What the controller's browser shows comes back as it was sent. A presentation of the shape the
  coordinator accepts, sent to a browser and sent back unchanged as a request with sound addresses, arrives as
  the same presentation, for every kind of it.\<close>

theorem player_presentation_roundtrip:
  assumes "validPresentationCommand p" and "validTarget (cp_ContextKey p)" and "validateTerminalMutation a = None"
    and "wc_Size codec (Presenting a (cp_ContextKey p) (Some (controllerPresentationToProto p))) \<le> MaxUncompressedMessageBytes"
    and "wc_Marshal codec (Presenting a (cp_ContextKey p) (Some (controllerPresentationToProto p))) = Some payload"
  shows "\<exists>m. PresentationFromProto codec a (cp_ContextKey p) (Some (controllerPresentationToProto p)) = Inr m \<and>
    rc_Presentation (mu_Command m) = p"
proof -
  have "variantFromProto (cp_ContextKey p) (wpr_Variant (controllerPresentationToProto p)) = Inr p"
    using assms(1)
    by (cases p; cases "cp_Kind p")
      (auto simp: validPresentationCommand_def controllerPresentationToProto_def variantFromProto_def previewFromProto_def
        Let_def validTarget_def zeroPresentation_def)
  moreover have "wpr_ContextKey (controllerPresentationToProto p) = cp_ContextKey p"
    by (simp add: controllerPresentationToProto_def)
  ultimately show ?thesis
    using assms(2-) by (simp add: PresentationFromProto_def ensure_Inr ok_bind_Inr mutation_Inr sizeGuard_None checkField_None
      validTarget_def deterministicRequestFingerprint_def)
qed

definition demo_menu :: ControllerTerminalPresentation where
  "demo_menu = zeroPresentation\<lparr>cp_Kind := PresentationMenu, cp_ContextKey := ''list/root'', cp_TargetID := ''ops''\<rparr>"

lemma player_presentation_roundtrip_witness:
  "\<exists>m. PresentationFromProto demo_codec demo_address ''list/root'' (Some (controllerPresentationToProto demo_menu)) = Inr m \<and>
    rc_Presentation (mu_Command m) = demo_menu"
proof -
  have "validPresentationCommand demo_menu" "validTarget (cp_ContextKey demo_menu)"
    by (simp_all add: validPresentationCommand_def demo_menu_def validTarget_def publicField_valid)
  from player_presentation_roundtrip [OF this demo_address_valid, of demo_codec "''wire''"] show ?thesis
    by (simp add: demo_codec_def MaxUncompressedMessageBytes_def demo_menu_def)
qed


end
