(* ===== verification/PlayerService.thy ===== *)
theory PlayerService
  imports PlayerRequests ControlRun
begin

text \<open>
  The public player service, \<open>internal/player/handler.go\<close>: it takes requests to the coordinator, and takes the
  updates the coordinator publishes to the streams of the hub.  The coordinator publishes while it holds its lock, and
  a new subscription is registered under the same lock, so a transaction of the coordinator and what it does to the
  hub are one step here.  The state is the coordinator's runtime, the hub, and the number of connections opened.
\<close>

section \<open>Messages\<close>

datatype UplinkPayload = UplinkReady | UplinkAction WireResult

record UplinkResult =
  ur_ClientInstanceId :: string
  ur_Generation :: "64 word"
  ur_Payload :: UplinkPayload

datatype StreamBody = SnapshotBody WireSnapshot | UpdateBody WireUpdate | ResultBody UplinkResult

record PresentationIntent =
  pin_Address :: TerminalAddress
  pin_ContextKey :: string
  pin_Presentation :: "WirePresentation option"

type_synonym PlayerHub = "(StreamBody, PresentationIntent) SubscriptionHub"

type_synonym PlayerMessage = "StreamBody SubscriptionMessage"

definition snapshotMessage :: "WireSnapshot \<Rightarrow> PlayerMessage" where
  "snapshotMessage w = SnapshotMessage (wsn_Revision w) (wsn_RecognitionHandle w) (SnapshotBody w)"

definition updateMessage :: "WireUpdate \<Rightarrow> PlayerMessage" where
  "updateMessage w = UpdateMessage (wup_Revision w) (UpdateBody w)"

definition resultMessage :: "PresentationUplinkBinding \<Rightarrow> UplinkPayload \<Rightarrow> PlayerMessage" where
  "resultMessage binding payload =
     UplinkResultMessage (ResultBody \<lparr>ur_ClientInstanceId = ub_ClientInstanceID binding,
       ur_Generation = ub_Generation binding, ur_Payload = payload\<rparr>)"

section \<open>Publishing\<close>

text \<open>A notice is for the active player of the session it is published to.\<close>

definition publicUpdate :: "LogicalSessionID \<Rightarrow> CompoundUpdate \<Rightarrow> CompoundUpdate" where
  "publicUpdate sessionID update =
     (case cu_Player update of
        None \<Rightarrow> update
      | Some player \<Rightarrow>
          if ps_Notice player \<noteq> None \<and> (ps_SessionID player \<noteq> sessionID \<or> ps_Role player \<noteq> PlayerRoleActive)
          then update\<lparr>cu_Player := Some (player\<lparr>ps_Notice := None\<rparr>)\<rparr> else update)"

definition PublishEffect :: "Effect \<Rightarrow> PlayerHub \<Rightarrow> PlayerHub" where
  "PublishEffect effect hub =
     (case ef_Update effect of
        None \<Rightarrow> hub
      | Some update \<Rightarrow>
          if ef_SessionID effect = '''' then hub
          else (case CompoundUpdateToProto (publicUpdate (ef_SessionID effect) update) of
              Inl _ \<Rightarrow> hub
            | Inr generated \<Rightarrow> offerSession (ef_SessionID effect) (updateMessage generated) hub))"

section \<open>The service\<close>

record 'w ConnectService =
  cs_Coordinator :: "'w Coordinator"
  cs_Codec :: Codec
  cs_QueueSize :: int

record PlayerSystem =
  sy_Runtime :: ProcessRuntime
  sy_Hub :: PlayerHub
  sy_Sequence :: "64 word"

definition newPlayerSystem :: PlayerSystem where
  "newPlayerSystem = \<lparr>sy_Runtime = newProcessRuntime, sy_Hub = NewSubscriptionHub, sy_Sequence = 0\<rparr>"

definition published :: "ProcessRuntime \<times> Effect list \<Rightarrow> PlayerSystem \<Rightarrow> PlayerSystem" where
  "published result sys = sys\<lparr>sy_Runtime := fst result, sy_Hub := fold PublishEffect (snd result) (sy_Hub sys)\<rparr>"

definition onHub :: "(PlayerHub \<Rightarrow> PlayerHub) \<Rightarrow> PlayerSystem \<Rightarrow> PlayerSystem" where
  "onHub f sys = sys\<lparr>sy_Hub := f (sy_Hub sys)\<rparr>"

datatype ConnectCode =
  CodeInvalidArgument | CodeResourceExhausted | CodeUnavailable | CodeInternal | CodeFailedPrecondition | CodeCanceled

definition publicConnectError :: "RequestError \<Rightarrow> ConnectCode" where
  "publicConnectError e = (case e of ResourceExhausted \<Rightarrow> CodeResourceExhausted | _ \<Rightarrow> CodeInvalidArgument)"

section \<open>Subscribing\<close>

definition newStream ::
    "'w ConnectService \<Rightarrow> ConnectionID \<Rightarrow> LogicalSessionID \<Rightarrow> WireSnapshot \<Rightarrow> string \<Rightarrow> StreamBody Subscription" where
  "newStream service connectionID sessionID snapshot clientID =
     NewSubscription connectionID sessionID (snapshotMessage snapshot) (cs_QueueSize service) clientID"

definition addStream :: "StreamBody Subscription \<Rightarrow> PlayerHub \<Rightarrow> PlayerHub" where
  "addStream s hub =
     (let a = freshAddress (hb_Streams hub) in Register a (hub\<lparr>hb_Streams := gm_put a s (hb_Streams hub)\<rparr>))"

text \<open>The callback of the attachment: build the first message and register the stream, if it can be built.\<close>

definition registerSnapshot ::
    "'w ConnectService \<Rightarrow> ConnectionID \<Rightarrow> string \<Rightarrow> PersonalizedSnapshot \<Rightarrow> PlayerHub \<Rightarrow> PlayerHub option" where
  "registerSnapshot service connectionID clientID attached hub =
     (case (SnapshotToProto attached, sn_PlayerState attached) of
        (Inr generated, Some player) \<Rightarrow>
          Some (addStream (newStream service connectionID (ps_SessionID player) generated clientID) hub)
      | _ \<Rightarrow> None)"

definition attached ::
    "'w ConnectService \<Rightarrow> ConnectionID \<Rightarrow> string \<Rightarrow> (ControlError + PersonalizedSnapshot) Committed \<Rightarrow> PlayerSystem \<Rightarrow>
     ConnectCode option \<times> PlayerSystem" where
  "attached service connectionID clientID c sys =
     (case cm_Value c of
        Inl _ \<Rightarrow> (Some CodeUnavailable, published (outcome c) sys)
      | Inr snapshot \<Rightarrow>
          (case registerSnapshot service connectionID clientID snapshot (sy_Hub sys) of
             Some hub \<Rightarrow> (None, published (outcome c) (sys\<lparr>sy_Hub := hub\<rparr>))
           | None \<Rightarrow>
               (let sys' = published (outcome c) sys in
                (Some CodeInternal, published (outcome (DetachConnection (cs_Coordinator service) (sy_Runtime sys') connectionID)) sys'))))"

text \<open>\<open>None\<close> when the coordinator's search for fresh identifiers has not ended.\<close>

definition Subscribe ::
    "'w ConnectService \<Rightarrow> SubscribeRequest \<Rightarrow> PlayerSystem \<Rightarrow> ('w, (ConnectCode option \<times> PlayerSystem) option) state" where
  "Subscribe service request sys =
     (case SubscribeRecognition (cs_Codec service) request of
        Inl e \<Rightarrow> State_Monad.return (Some (Some (publicConnectError e), sys))
      | Inr handle \<Rightarrow>
          (case SubscribeClientInstance request of
             Inl e \<Rightarrow> State_Monad.return (Some (Some (publicConnectError e), sys))
           | Inr clientID \<Rightarrow>
               (let sys = sys\<lparr>sy_Sequence := sy_Sequence sys + 1\<rparr>; connectionID = ''connect-'' @ dec (unat (sy_Sequence sys)) in
                do { r \<leftarrow> AttachSubscriptionAndRegister (cs_Coordinator service) (sy_Runtime sys) connectionID handle;
                     State_Monad.return (map_option (\<lambda>c. attached service connectionID clientID c sys) r) })))"

section \<open>Actions\<close>

definition SelectCharacter ::
    "'w ConnectService \<Rightarrow> SelectCharacterRequest \<Rightarrow> PlayerSystem \<Rightarrow> (ConnectCode + WireResult) \<times> PlayerSystem" where
  "SelectCharacter service request sys =
     (case SelectionFromProto (cs_Codec service) request '''' of
        Inl e \<Rightarrow> (Inl (publicConnectError e), sys)
      | Inr m \<Rightarrow>
          (let s = sm_Selection m;
               c = SelectCharacterForRecognition (cs_Coordinator service) (sy_Runtime sys) (sm_RecognitionHandle m)
                 (sl_RequestID s) (sl_BroadcastID s) (sl_CharacterID s)
           in (Inr (ActionResultToProto (cm_Value c)), published (outcome c) sys)))"

definition dispatchRuntimeMutation ::
    "'w ConnectService \<Rightarrow> RuntimeMutation \<Rightarrow> PlayerSystem \<Rightarrow> ('w, WireResult \<times> PlayerSystem) state" where
  "dispatchRuntimeMutation service m sys =
     do { c \<leftarrow> DispatchPlayerActionForRecognition (cs_Coordinator service) (sy_Runtime sys) (mu_RecognitionHandle m) (mu_Command m);
          State_Monad.return (ActionResultToProto (cm_Value c), published (outcome c) sys) }"

text \<open>The body of \<open>Navigate\<close>, \<open>Guess\<close>, \<open>ActivatePattern\<close> and \<open>SetPresentation\<close>.\<close>

definition serveMutation ::
    "'w ConnectService \<Rightarrow> RequestError + RuntimeMutation \<Rightarrow> PlayerSystem \<Rightarrow> ('w, (ConnectCode + WireResult) \<times> PlayerSystem) state" where
  "serveMutation service r sys =
     (case r of
        Inl e \<Rightarrow> State_Monad.return (Inl (publicConnectError e), sys)
      | Inr m \<Rightarrow> do { (result, sys') \<leftarrow> dispatchRuntimeMutation service m sys; State_Monad.return (Inr result, sys') })"

definition Navigate ::
    "'w ConnectService \<Rightarrow> TerminalAddress \<Rightarrow> NavigateAction \<Rightarrow> PlayerSystem \<Rightarrow> ('w, (ConnectCode + WireResult) \<times> PlayerSystem) state" where
  "Navigate service a action = serveMutation service (NavigateFromProto (cs_Codec service) a action)"

definition Guess ::
    "'w ConnectService \<Rightarrow> TerminalAddress \<Rightarrow> GuessTarget \<Rightarrow> PlayerSystem \<Rightarrow> ('w, (ConnectCode + WireResult) \<times> PlayerSystem) state" where
  "Guess service a target = serveMutation service (GuessFromProto (cs_Codec service) a target)"

definition ActivatePattern ::
    "'w ConnectService \<Rightarrow> TerminalAddress \<Rightarrow> string \<Rightarrow> PlayerSystem \<Rightarrow> ('w, (ConnectCode + WireResult) \<times> PlayerSystem) state" where
  "ActivatePattern service a pattern = serveMutation service (ActivatePatternFromProto (cs_Codec service) a pattern)"

definition SetPresentation ::
    "'w ConnectService \<Rightarrow> TerminalAddress \<Rightarrow> string \<Rightarrow> WirePresentation option \<Rightarrow> PlayerSystem \<Rightarrow>
     ('w, (ConnectCode + WireResult) \<times> PlayerSystem) state" where
  "SetPresentation service a contextKey generated =
     serveMutation service (PresentationFromProto (cs_Codec service) a contextKey generated)"

definition serveAction ::
    "'w ConnectService \<Rightarrow> PlayerRequest \<Rightarrow> PlayerSystem \<Rightarrow> ('w, (ConnectCode + WireResult) \<times> PlayerSystem) state" where
  "serveAction service request sys =
     (case request of
        Navigating a action \<Rightarrow> Navigate service a action sys
      | Guessing a target \<Rightarrow> Guess service a target sys
      | Activating a pattern \<Rightarrow> ActivatePattern service a pattern sys
      | Presenting a contextKey generated \<Rightarrow> SetPresentation service a contextKey generated sys
      | _ \<Rightarrow> State_Monad.return (Inl CodeInvalidArgument, sys))"

section \<open>Uplinks\<close>

text \<open>
  Opening an uplink binds a lease; the message that it is ready, like the results later, waits for the targeted slot of
  the stream, so delivering one is a step of its own (\<open>Targeted\<close> of the hub).
\<close>

definition openUplink ::
    "'w ConnectService \<Rightarrow> UplinkOpen \<Rightarrow> PlayerSystem \<Rightarrow> (ConnectCode + UplinkAddress \<times> PlayerMessage) \<times> PlayerSystem" where
  "openUplink service open_frame sys =
     (case PresentationUplinkOpenFromProto (cs_Codec service) open_frame of
        Inl e \<Rightarrow> (Inl (publicConnectError e), sys)
      | Inr binding \<Rightarrow>
          (let u = freshAddress (hb_Leases (sy_Hub sys)) in
           (case BindUplink u binding (sy_Hub sys) of
              Inl UplinkLimit \<Rightarrow> (Inl CodeResourceExhausted, sys)
            | Inl _ \<Rightarrow> (Inl CodeFailedPrecondition, sys)
            | Inr hub \<Rightarrow> (Inr (u, resultMessage binding UplinkReady), sys\<lparr>sy_Hub := hub\<rparr>))))"

definition closeLease :: "UplinkAddress \<Rightarrow> PlayerSystem \<Rightarrow> PlayerSystem" where
  "closeLease u = onHub (onLease u closeUplink)"

text \<open>A frame received on an uplink; \<open>allowed\<close> is the answer of the rate limiter.\<close>

definition receiveIntent ::
    "'w ConnectService \<Rightarrow> UplinkAddress \<Rightarrow> PresentationIntent \<Rightarrow> bool \<Rightarrow> PlayerSystem \<Rightarrow> ConnectCode option \<times> PlayerSystem" where
  "receiveIntent service u intent allowed sys =
     (case gm_get (hb_Leases (sy_Hub sys)) u of
        None \<Rightarrow> (Some CodeFailedPrecondition, sys)
      | Some lease \<Rightarrow>
          (case PresentationIntentFromProto (cs_Codec service) (pin_Address intent) (pin_ContextKey intent) (pin_Presentation intent) of
             Inl e \<Rightarrow> (Some (publicConnectError e), closeLease u sys)
           | Inr _ \<Rightarrow>
               if rqa_RecognitionHandle (pin_Address intent) \<noteq> ub_RecognitionHandle (up_Binding lease) \<or> \<not> Current u (sy_Hub sys)
               then (Some CodeFailedPrecondition, closeLease u sys)
               else if \<not> allowed then (Some CodeResourceExhausted, closeLease u sys)
               else (if fst (offerIntent intent (up_Mailbox lease)) then None else Some CodeCanceled,
                 onHub (onLease u (\<lambda>l. l\<lparr>up_Mailbox := snd (offerIntent intent (up_Mailbox l))\<rparr>)) sys)))"

text \<open>A turn of the processor of an uplink: what it dispatched, or why it stopped; nothing when nothing waits.\<close>

datatype Processed = ProcessedNothing | ProcessedStop ConnectCode | ProcessedEnd | ProcessedResult StreamAddress PlayerMessage

definition processPresentationUplink ::
    "'w ConnectService \<Rightarrow> UplinkAddress \<Rightarrow> PlayerSystem \<Rightarrow> ('w, Processed \<times> PlayerSystem) state" where
  "processPresentationUplink service u sys =
     (case gm_get (hb_Leases (sy_Hub sys)) u of
        None \<Rightarrow> State_Monad.return (ProcessedNothing, sys)
      | Some lease \<Rightarrow>
         (let sys' = onHub (onLease u (\<lambda>l. l\<lparr>up_Mailbox := snd (takeIntent (up_Mailbox l))\<rparr>)) sys in
          (case fst (takeIntent (up_Mailbox lease)) of
             TakeAgain \<Rightarrow> State_Monad.return (ProcessedNothing, sys')
           | TakeBlocked \<Rightarrow> State_Monad.return (ProcessedNothing, sys')
           | TakeClosed \<Rightarrow> State_Monad.return (ProcessedEnd, sys')
           | TakenIntent intent \<Rightarrow>
               if \<not> Current u (sy_Hub sys') then State_Monad.return (ProcessedStop CodeFailedPrecondition, sys')
               else (case PresentationIntentFromProto (cs_Codec service) (pin_Address intent) (pin_ContextKey intent)
                      (pin_Presentation intent) of
                   Inl e \<Rightarrow> State_Monad.return (ProcessedStop (publicConnectError e), sys')
                 | Inr m \<Rightarrow>
                     do { c \<leftarrow> DispatchPlayerAction (cs_Coordinator service) (sy_Runtime sys') (up_ConnectionID lease) (mu_Command m);
                          State_Monad.return (ProcessedResult (up_Subscription lease)
                            (resultMessage (up_Binding lease) (UplinkAction (ActionResultToProto (cm_Value c)))),
                            published (outcome c) sys') }))))"

section \<open>Runs\<close>

text \<open>
  What happens in the process: an operation of the Overseer or the coordinator, a call of the service, or a
  step of the hub that is not part of one of these (turns of the streams, deliveries, cancellations).
\<close>

datatype PlayerEvent =
  Operate CoordinatorOp | CallSubscribe SubscribeRequest | CallSelect SelectCharacterRequest | CallAction PlayerRequest
| CallOpen UplinkOpen | CallIntent UplinkAddress PresentationIntent bool | Process UplinkAddress
| HubAct "(StreamBody, PresentationIntent) HubEvent"

definition hubOnly :: "('m, 'i) HubEvent \<Rightarrow> bool" where
  "hubOnly ev = (case ev of Attach _ _ _ _ _ _ _ \<Rightarrow> False | OfferSession _ _ \<Rightarrow> False | _ \<Rightarrow> True)"

fun playerStep :: "'w ConnectService \<Rightarrow> PlayerEvent \<Rightarrow> PlayerSystem \<Rightarrow> ('w, PlayerSystem option) state" where
  "playerStep service (Operate op) sys =
     do { r \<leftarrow> coordinatorOutcome (cs_Coordinator service) (sy_Runtime sys) op;
          State_Monad.return (map_option (\<lambda>x. published x sys) r) }"
| "playerStep service (CallSubscribe request) sys =
     do { r \<leftarrow> Subscribe service request sys; State_Monad.return (map_option snd r) }"
| "playerStep service (CallSelect request) sys = State_Monad.return (Some (snd (SelectCharacter service request sys)))"
| "playerStep service (CallAction request) sys =
     do { x \<leftarrow> serveAction service request sys; State_Monad.return (Some (snd x)) }"
| "playerStep service (CallOpen open_frame) sys = State_Monad.return (Some (snd (openUplink service open_frame sys)))"
| "playerStep service (CallIntent u intent allowed) sys = State_Monad.return (Some (snd (receiveIntent service u intent allowed sys)))"
| "playerStep service (Process u) sys =
     do { x \<leftarrow> processPresentationUplink service u sys; State_Monad.return (Some (snd x)) }"
| "playerStep service (HubAct ev) sys = State_Monad.return (Some (if hubOnly ev then onHub (hubStep ev) sys else sys))"

primrec playerRun :: "'w ConnectService \<Rightarrow> PlayerEvent list \<Rightarrow> PlayerSystem \<Rightarrow> ('w, PlayerSystem option) state" where
  "playerRun service [] sys = State_Monad.return (Some sys)"
| "playerRun service (ev # evs) sys =
     do { r \<leftarrow> playerStep service ev sys;
          (case r of None \<Rightarrow> State_Monad.return None | Some sys' \<Rightarrow> playerRun service evs sys') }"

end
