(* ===== verification/ControlPublish.thy ===== *)
theory ControlPublish
  imports ControlSpec
begin

text \<open>
  What a committed transition tells the players.  The view of a session is what its player is shown: the projection of
  the session, and the projection of the active terminal once the session holds a character.  A projection may refresh
  the checkpoint it reads; the locale \<open>settling_lifecycle\<close> states that a second one finds nothing left to refresh, so
  that every update of a transition shows the same state.
\<close>

section \<open>Projections settle\<close>

locale settling_lifecycle =
  fixes L :: "'w Lifecycle"
  assumes settles: "lc_project L (fst (lc_project L terminal)) = lc_project L terminal"
    and lifecycle_kept: "tr_Lifecycle (fst (lc_project L terminal)) = tr_Lifecycle terminal"
begin

lemma project_again:
  assumes "co_Terminals co = Some L"
  shows "projectActiveTerminal co (fst (projectActiveTerminal co rt)) = projectActiveTerminal co rt"
proof (cases "activeTerminalRuntime (pr_Broadcast rt)")
  case (Some terminal)
  then obtain b i where b: "pr_Broadcast rt = Some b" "lb_ActiveTerminalID b = Some i"
    "gm_get (lb_TerminalRuntimes b) i = Some terminal"
    by (auto simp: activeTerminalRuntime_def bind_eq_Some_conv)
  obtain terminal' live where p: "lc_project L terminal = (terminal', live)" by fastforce
  have p': "lc_project L terminal' = (terminal', live)" and same: "tr_Lifecycle terminal' = tr_Lifecycle terminal"
    using settles [of terminal] lifecycle_kept [of terminal] by (simp_all add: p)
  have "decorateTerminalNavigation (setBroadcast (setActiveTerminal terminal') rt) = decorateTerminalNavigation rt"
    by (rule ext) (simp add: decorateTerminalNavigation_def setBroadcast_def setActiveTerminal_def b)
  then show ?thesis
    using b same by (simp add: projectActiveTerminal_def assms activeTerminalRuntime_def p p' setBroadcast_def setActiveTerminal_def gm_put_same)
qed (simp add: projectActiveTerminal_def split: option.split)

end

lemma revalidate_again:
  "revalidateControllerPresentation (revalidateControllerPresentation st) = revalidateControllerPresentation st"
proof -
  obtain key kind where c: "controllerPresentationContext st = (key, kind)" by fastforce
  have folder: "currentPresentationFolder (st\<lparr>tr_Presentation := p\<rparr>) = currentPresentationFolder st" for p
    by (rule presentation_cong) simp_all
  show ?thesis by (cases kind) (simp_all add: revalidateControllerPresentation_def c folder Let_def)
qed

interpretation live_settles: settling_lifecycle "liveLifecycle service" for service :: "'w LiveService"
  by unfold_locales (simp_all add: liveLifecycle_def ProjectRuntime_def Let_def revalidate_again)

section \<open>Views\<close>

text \<open>
  The view of a session: its projection without the revision, whether it may see the terminal, and the projection of
  the active terminal.
\<close>

definition liveView :: "'w Coordinator \<Rightarrow> ProcessRuntime \<Rightarrow> PublicLiveState option" where
  "liveView co rt = snd (projectActiveTerminal co rt)"

definition mayWatch :: "ProcessRuntime \<Rightarrow> LogicalSessionID \<Rightarrow> bool" where
  "mayWatch rt sess = (case pr_Broadcast rt of None \<Rightarrow> False | Some b \<Rightarrow> sessionAssigned b sess)"

definition view :: "'w Coordinator \<Rightarrow> ProcessRuntime \<Rightarrow> LogicalSessionID \<Rightarrow> PlayerState option \<times> PublicLiveState option option" where
  "view co rt sess =
     (map_option (\<lambda>p. p\<lparr>ps_Revision := 0\<rparr>) (playerSnapshot rt sess),
      if mayWatch rt sess then Some (liveView co rt) else None)"

text \<open>The update and the snapshot made of a view.\<close>

definition viewUpdate :: "revision \<Rightarrow> PlayerState option \<times> PublicLiveState option option \<Rightarrow> CompoundUpdate option" where
  "viewUpdate r v =
     map_option (\<lambda>p. \<lparr>cu_Revision = r, cu_Player = Some (p\<lparr>ps_Revision := r\<rparr>),
        cu_Terminal = map_option (\<lambda>live. \<lparr>tp_Live = live, tp_NoLiveTerminal = (live = None)\<rparr>) (snd v),
        cu_Nav = Option.bind (snd v) (map_option pl_Nav), cu_Hack = Option.bind (snd v) (\<lambda>live. Option.bind live pl_Hack)\<rparr>) (fst v)"

definition viewSnapshot :: "revision \<Rightarrow> BrowserToken \<Rightarrow> PlayerState option \<times> PublicLiveState option option \<Rightarrow> PersonalizedSnapshot option" where
  "viewSnapshot r handle v =
     map_option (\<lambda>p. (let live = Option.bind (snd v) id in
        \<lparr>sn_RecognitionHandle = handle, sn_Revision = r, sn_PlayerState = Some (p\<lparr>ps_Revision := r\<rparr>),
         sn_Terminal = \<lparr>tp_Live = live, tp_NoLiveTerminal = (live = None)\<rparr>\<rparr>)) (fst v)"

lemma update_of_view:
  assumes "co_Terminals co = Some L"
  shows "snd (compoundUpdateLocked co rt sess r) = viewUpdate r (view co rt sess)"
  by (auto simp: compoundUpdateLocked_def assms viewUpdate_def view_def mayWatch_def liveView_def Let_def option.map_comp
      split: option.split prod.split)

lemma playerSnapshot_revision: "playerSnapshot rt sess = Some p \<Longrightarrow> ps_Revision p = pr_Revision rt"
  by (auto simp: playerSnapshot_def)

lemma snapshot_of_view: "snd (subscriptionSnapshot co rt sess handle) = viewSnapshot (pr_Revision rt) handle (view co rt sess)"
proof -
  have "p\<lparr>ps_Revision := pr_Revision rt\<rparr> = p" if "playerSnapshot rt sess = Some p" for p
    using playerSnapshot_revision [OF that] by simp
  then show ?thesis
    by (auto simp: subscriptionSnapshot_def viewSnapshot_def view_def mayWatch_def liveView_def Let_def option.map_comp
      split: option.split prod.split)
qed

section \<open>What leaves a view alone\<close>

lemma decorate_cong:
  "pr_Broadcast rt' = pr_Broadcast rt \<Longrightarrow> pr_PendingTerminalNavigation rt' = pr_PendingTerminalNavigation rt \<Longrightarrow>
   decorateTerminalNavigation rt' = decorateTerminalNavigation rt"
  by (rule ext) (simp only: decorateTerminalNavigation_def)

lemma view_revision [simp]: "view co (rt\<lparr>pr_Revision := r\<rparr>) sess = view co rt sess"
proof -
  have "decorateTerminalNavigation (rt\<lparr>pr_Revision := r\<rparr>) = decorateTerminalNavigation rt"
    by (rule decorate_cong) simp_all
  then have "liveView co (rt\<lparr>pr_Revision := r\<rparr>) = liveView co rt"
    by (simp add: liveView_def projectActiveTerminal_def split: option.split prod.split)
  moreover have "map_option (\<lambda>p. p\<lparr>ps_Revision := 0\<rparr>) (playerSnapshot (rt\<lparr>pr_Revision := r\<rparr>) sess) =
      map_option (\<lambda>p. p\<lparr>ps_Revision := 0\<rparr>) (playerSnapshot rt sess)"
    by (simp add: playerSnapshot_def option.map_comp comp_def assignedCharacter_def playerPhase_def orderedRosterIDs_def
        cong: option.case_cong if_cong)
  ultimately show ?thesis by (simp add: view_def mayWatch_def)
qed

lemma view_clearResults [simp]: "view co (clearRequestResults rt) sess = view co rt sess"
proof -
  have "decorateTerminalNavigation (clearRequestResults rt) = decorateTerminalNavigation rt"
    by (rule decorate_cong) (simp_all add: clearRequestResults_def)
  then have "liveView co (clearRequestResults rt) = liveView co rt"
    by (simp add: liveView_def projectActiveTerminal_def clearRequestResults_def split: option.split prod.split)
  moreover have "playerSnapshot (clearRequestResults rt) sess = playerSnapshot rt sess"
    by (simp add: playerSnapshot_def clearRequestResults_def option.map_comp comp_def assignedCharacter_def
        playerPhase_def orderedRosterIDs_def cong: option.case_cong if_cong)
  ultimately show ?thesis by (simp add: view_def mayWatch_def clearRequestResults_def)
qed

lemma view_cached: "clearRequestResults rt' = clearRequestResults rt \<Longrightarrow> view co rt' sess = view co rt sess"
  using view_clearResults [of co rt' sess] view_clearResults [of co rt sess] by simp

lemma projected_parts:
  "pr_Revision (fst (projectActiveTerminal co rt)) = pr_Revision rt"
  "pr_SessionsByID (fst (projectActiveTerminal co rt)) = pr_SessionsByID rt"
  "playerSnapshot (fst (projectActiveTerminal co rt)) sess = playerSnapshot rt sess"
  "mayWatch (fst (projectActiveTerminal co rt)) sess = mayWatch rt sess"
proof -
  have "playerSnapshot (setBroadcast (setActiveTerminal t) rt) sess = playerSnapshot rt sess \<and>
      mayWatch (setBroadcast (setActiveTerminal t) rt) sess = mayWatch rt sess" for t
  proof (cases "pr_Broadcast rt")
    case (Some b)
    have "playerRosterEntry (Some (b\<lparr>lb_TerminalRuntimes := m\<rparr>)) = playerRosterEntry (Some b)" for m
      by (rule ext) (simp add: playerRosterEntry_def)
    with Some show ?thesis
      by (simp add: setBroadcast_def setActiveTerminal_def playerSnapshot_def assignedCharacter_def playerPhase_def
        orderedRosterIDs_def roleForSession_def mayWatch_def sessionAssigned_def split: option.split cong: if_cong)
  qed (cases rt, simp add: setBroadcast_def)
  then show "playerSnapshot (fst (projectActiveTerminal co rt)) sess = playerSnapshot rt sess"
    and "mayWatch (fst (projectActiveTerminal co rt)) sess = mayWatch rt sess"
    by (simp_all add: projectActiveTerminal_def split: option.split prod.split)
  show "pr_Revision (fst (projectActiveTerminal co rt)) = pr_Revision rt"
    "pr_SessionsByID (fst (projectActiveTerminal co rt)) = pr_SessionsByID rt"
    by (simp_all add: projectActiveTerminal_def setBroadcast_def split: option.split prod.split)
qed

section \<open>What a commit publishes\<close>

definition updateEffect :: "revision \<Rightarrow> LogicalSessionID \<Rightarrow> CompoundUpdate \<Rightarrow> Effect" where
  "updateEffect r sess u = detachEffect r (noEffect\<lparr>ef_SessionID := sess, ef_Update := Some u\<rparr>)"

lemma updateEffect_parts [simp]: "ef_SessionID (updateEffect r sess u) = sess" "ef_Update (updateEffect r sess u) = Some u"
  by (simp_all add: updateEffect_def detachEffect_def)

definition updateEffects ::
    "revision \<Rightarrow> (LogicalSessionID \<Rightarrow> PlayerState option \<times> PublicLiveState option option) \<Rightarrow> LogicalSessionID list \<Rightarrow> Effect list" where
  "updateEffects r v ids = List.map_filter (\<lambda>sess. map_option (updateEffect r sess) (viewUpdate r (v sess))) ids"

lemma compound_runtime:
  "fst (compoundUpdateLocked co rt sess r) \<in> {rt, fst (projectActiveTerminal co rt)}"
  by (auto simp: compoundUpdateLocked_def Let_def split: option.split prod.split)

context settling_lifecycle begin

lemma view_project: "co_Terminals co = Some L \<Longrightarrow> view co (fst (projectActiveTerminal co rt)) = view co rt"
  by (rule ext) (simp add: view_def projected_parts liveView_def project_again)

lemma view_compound:
  assumes "co_Terminals co = Some L"
  shows "view co (fst (compoundUpdateLocked co rt sess r)) = view co rt"
  using compound_runtime [of co rt sess r] view_project [OF assms, of rt] by auto

lemma view_subscription:
  assumes "co_Terminals co = Some L"
  shows "view co (fst (subscriptionSnapshot co rt sess handle)) = view co rt"
  using view_project [OF assms, of rt] by (auto simp: subscriptionSnapshot_def split: option.split prod.split)

lemma publishes_views:
  assumes "co_Terminals co = Some L"
  shows "\<exists>rt'. fold (publishUpdate co r) ids (rt, effects) = (rt', effects @ updateEffects r (view co rt) ids) \<and>
    view co rt' = view co rt \<and> pr_Revision rt' = pr_Revision rt \<and> pr_SessionsByID rt' = pr_SessionsByID rt"
proof (induction ids arbitrary: rt effects)
  case (Cons sess ids)
  let ?rt = "fst (compoundUpdateLocked co rt sess r)" and ?u = "viewUpdate r (view co rt sess)"
  have same: "view co ?rt = view co rt" by (rule view_compound [OF assms])
  have kept: "pr_Revision ?rt = pr_Revision rt" "pr_SessionsByID ?rt = pr_SessionsByID rt"
    using compound_runtime [of co rt sess r] by (auto simp: projected_parts)
  have step: "publishUpdate co r sess (rt, effects) =
      (?rt, effects @ (case ?u of None \<Rightarrow> [] | Some u \<Rightarrow> [updateEffect r sess u]))"
    using update_of_view [OF assms, of rt sess r]
    by (cases "compoundUpdateLocked co rt sess r") (auto simp: publishUpdate_def updateEffect_def split: option.split)
  have "(case ?u of None \<Rightarrow> [] | Some u \<Rightarrow> [updateEffect r sess u]) @ updateEffects r (view co rt) ids =
      updateEffects r (view co rt) (sess # ids)"
    by (simp add: updateEffects_def List.map_filter_simps split: option.split)
  with Cons.IH [of ?rt "effects @ (case ?u of None \<Rightarrow> [] | Some u \<Rightarrow> [updateEffect r sess u])"] show ?case
    by (simp add: step same kept)
qed (simp add: updateEffects_def List.map_filter_simps)

end

context settling_lifecycle begin

lemma reported_views:
  assumes "co_Terminals co = Some L" and "reported co rt c"
  obtains (kept) "pr_Revision (cm_Runtime c) = pr_Revision rt" "view co (cm_Runtime c) = view co rt" "plain (cm_Published c)"
  | (moved) effects where "pr_Revision (cm_Runtime c) = pr_Revision rt + 1" "plain effects"
    "cm_Published c = effects @ updateEffects (pr_Revision rt + 1) (view co (cm_Runtime c)) (sortedSessionIDs (cm_Runtime c))"
proof (cases "pr_Revision (cm_Runtime c) = pr_Revision rt")
  case True
  with assms(2) have "clearRequestResults (cm_Runtime c) = clearRequestResults rt" "plain (cm_Published c)"
    by (simp_all add: reported_def sameButCache_def)
  with kept [OF True] view_cached show thesis by blast
next
  case False
  with assms(2) obtain new effects where new: "pr_Revision new = pr_Revision rt + 1" "plain effects"
    "fold (publishUpdate co (pr_Revision rt + 1)) (sortedSessionIDs new) (new, effects) = (cm_Runtime c, cm_Published c)"
    by (auto simp: reported_def)
  from publishes_views [OF assms(1), of "pr_Revision rt + 1" "sortedSessionIDs new" new effects] new(1,3)
  have "pr_Revision (cm_Runtime c) = pr_Revision rt + 1" "view co (cm_Runtime c) = view co new"
    "pr_SessionsByID (cm_Runtime c) = pr_SessionsByID new"
    "cm_Published c = effects @ updateEffects (pr_Revision rt + 1) (view co new) (sortedSessionIDs new)"
    by auto
  then show thesis using moved [of effects] new(2) by (simp add: sortedSessionIDs_def)
qed

end

section \<open>Sessions stay\<close>

text \<open>No operation but the shutdown forgets a logical session.\<close>

definition hasSession :: "LogicalSessionID \<Rightarrow> ProcessRuntime \<Rightarrow> bool" where
  "hasSession sess rt = gm_has (pr_SessionsByID rt) sess"

interpretation member: runtime_invariant co "hasSession sess" for co :: "'w Coordinator" and sess
  by unfold_locales (simp_all add: hasSession_def projected_parts)

lemma hasSession_seats: "seats rt' = seats rt \<Longrightarrow> hasSession sess rt \<Longrightarrow> hasSession sess rt'"
  using seats_has [of rt' rt sess] by (simp only: hasSession_def)

named_theorems member_steps

lemma hasSession_set [simp]: "hasSession sess rt \<Longrightarrow> hasSession sess (setSession i s rt)"
  by (simp add: hasSession_def setSession_def)

lemma hasSession_fields [simp]:
  "hasSession sess (rt\<lparr>pr_Broadcast := b\<rparr>) = hasSession sess rt"
  "hasSession sess (rt\<lparr>pr_RosterByID := m, pr_RosterOrder := order, pr_ActivePlayerConfig := h\<rparr>) = hasSession sess rt"
  "hasSession sess (rt\<lparr>pr_ActivePlayerConfig := h, pr_RosterByID := m, pr_RosterOrder := order\<rparr>) = hasSession sess rt"
  "hasSession sess (rt\<lparr>pr_SessionIDByBrowserToken := tokens\<rparr>) = hasSession sess rt"
  "hasSession sess (rt\<lparr>pr_PendingSwitch := p\<rparr>) = hasSession sess rt"
  "hasSession sess (rt\<lparr>pr_PendingCommandExecution := q\<rparr>) = hasSession sess rt"
  "hasSession sess (rt\<lparr>pr_PendingTerminalNavigation := n\<rparr>) = hasSession sess rt"
  "hasSession sess (rt\<lparr>pr_TerminalNavigationNotice := note\<rparr>) = hasSession sess rt"
  by (simp_all add: hasSession_def)

lemma hasSession_clear [simp]: "hasSession sess (clearRequestResults rt) = hasSession sess rt"
  using seats_clearRequestResults [of rt] hasSession_seats by metis

lemma member_replaceRoster: "hasSession sess rt \<Longrightarrow> pred_state (\<lambda>a. hasSession sess (fst a)) (replaceRoster co rt byID installed order)"
  by (auto simp: replaceRoster_def attempt_defs intro!: pred_state_any split: sum.split)

lemma member_roster [member_steps]:
  assumes "hasSession sess rt"
  shows "hasSession sess (cm_Runtime (InstallPlayerConfig co rt h roster))"
    and "hasSession sess (cm_Runtime (ClearPlayerConfig co rt))"
    and "pred_state (\<lambda>c. hasSession sess (cm_Runtime c)) (AddCharacter co rt p1)"
    and "pred_state (\<lambda>c. hasSession sess (cm_Runtime c)) (UpdateCharacter co rt p2)"
    and "pred_state (\<lambda>c. hasSession sess (cm_Runtime c)) (DeleteCharacter co rt p3)"
    and "hasSession sess (cm_Runtime (RenameLogicalSession co rt i n))"
  using assms
  subgoal by (auto simp: InstallPlayerConfig_def member.refuse attempt_defs intro!: member.commit member.commitState split: option.split)
  subgoal using assms by (auto simp: ClearPlayerConfig_def attempt_defs intro!: member.commit member.commitState)
  subgoal using assms by (auto simp: AddCharacter_def member.refuse attempt_defs Let_def
      intro!: member.commit member.commitState pred_state_any [where m = "co_NextID co"] member.state_step member_replaceRoster
      split: option.split sum.split)
  subgoal using assms unfolding UpdateCharacter_def
    by (intro member.state_step) (auto simp: attempt_defs intro!: member_replaceRoster split: option.split sum.split)
  subgoal using assms unfolding DeleteCharacter_def
    by (intro member.state_step) (auto simp: attempt_defs intro!: member_replaceRoster split: option.split sum.split)
  subgoal using assms by (auto simp: RenameLogicalSession_def member.refuse attempt_defs intro!: member.commit member.commitState split: option.split sum.split)
  done

lemma member_removeConnection [simp]: "hasSession sess (fst (removeConnectionFromOtherSessions rt c i)) = hasSession sess rt"
  using removeConnection(2) [of rt c i] by (auto simp: hasSession_def simp flip: set_gm_keys)

lemma member_subscription [simp]: "hasSession sess (fst (subscriptionSnapshot co rt i token)) = hasSession sess rt"
  using hasSession_seats [OF seats_subscriptionSnapshot] hasSession_seats [OF seats_subscriptionSnapshot [symmetric]] by metis

lemma member_openSession [simp]: "hasSession sess rt \<Longrightarrow> hasSession sess (openSession c i token name rt)"
  by (simp add: openSession_def hasSession_def setSession_def)

lemma member_commit: "hasSession sess old \<Longrightarrow> hasSession sess (fst a) \<Longrightarrow> hasSession sess (cm_Runtime (commit co old a))"
  using member.commit by (cases a) auto

lemma member_acceptFor: "hasSession sess rt \<Longrightarrow> hasSession sess (fst (acceptFor co i extra rt))"
  by (erule hasSession_seats [OF seats_acceptFor])

lemma member_seating [member_steps]:
  assumes "hasSession sess rt"
  shows "pred_state (\<lambda>r. \<forall>c. r = Some c \<longrightarrow> hasSession sess (cm_Runtime c)) (AttachSubscriptionAndRegister co rt c h)"
    and "hasSession sess (cm_Runtime (DetachConnection co rt c))"
    and "hasSession sess (cm_Runtime (AssignCharacter co rt s ch))"
    and "hasSession sess (cm_Runtime (ReleaseCharacter co rt s))"
    and "hasSession sess (cm_Runtime (MoveCharacter co rt ch s))"
    and "hasSession sess (cm_Runtime (SetActiveController co rt s))"
proof -
  have "pred_state (\<lambda>r. \<forall>a. r = Some a \<longrightarrow> hasSession sess (fst a)) (newSubscription co rt c)"
    using assms by (auto simp: newSubscription_def Let_def case_prod_unfold intro!: pred_state_any split: option.split)
  moreover have "hasSession sess (fst (knownSubscription co rt c i s token))" for i s token
    using assms by (auto simp: knownSubscription_def case_prod_unfold Let_def)
  ultimately show "pred_state (\<lambda>r. \<forall>c. r = Some c \<longrightarrow> hasSession sess (cm_Runtime c)) (AttachSubscriptionAndRegister co rt c h)"
    using assms
    by (auto simp: AttachSubscriptionAndRegister_def Let_def intro!: pred_state_bind member_commit split: option.split)
  show "hasSession sess (cm_Runtime (DetachConnection co rt c))"
    using assms by (auto simp: DetachConnection_def Let_def intro!: member_commit split: option.split)
  show "hasSession sess (cm_Runtime (AssignCharacter co rt s ch))"
    using assms by (auto simp: AssignCharacter_def Let_def attempt_defs case_prod_unfold
      intro!: member.commit member.commitState member_acceptFor split: option.split)
  show "hasSession sess (cm_Runtime (ReleaseCharacter co rt s))" "hasSession sess (cm_Runtime (MoveCharacter co rt ch s))"
    "hasSession sess (cm_Runtime (SetActiveController co rt s))"
    using assms by (auto simp: ReleaseCharacter_def MoveCharacter_def SetActiveController_def Let_def attempt_defs
      intro!: member.commit member.commitState split: option.split)
qed

lemma member_selecting [member_steps]:
  assumes "hasSession sess rt"
  shows "hasSession sess (cm_Runtime (SelectCharacter co rt s))"
    and "hasSession sess (cm_Runtime (SelectCharacterForRecognition co rt handle r b ch))"
    and "pred_state (\<lambda>c. hasSession sess (cm_Runtime c)) (StartBroadcast co rt)"
    and "hasSession sess (cm_Runtime (EndBroadcast co rt))"
proof -
  have store: "hasSession sess rt' \<Longrightarrow> hasSession sess (storeRequestResult co i r x rt')" for i r x rt'
    by (erule hasSession_seats [OF seats_storeRequestResult])
  have "hasSession sess (fst (selectCharacterTransition co rt s))" for s
    using assms by (auto simp: selectCharacterTransition_def cacheSelectionRejection_def Let_def case_prod_unfold
      intro!: store member_acceptFor split: option.split)
  then show select: "hasSession sess (cm_Runtime (SelectCharacter co rt s))" for s
    using assms by (simp add: SelectCharacter_def member_commit)
  show "hasSession sess (cm_Runtime (SelectCharacterForRecognition co rt handle r b ch))"
    using assms select by (simp add: SelectCharacterForRecognition_def split: option.split)
  show "pred_state (\<lambda>c. hasSession sess (cm_Runtime c)) (StartBroadcast co rt)"
    unfolding StartBroadcast_def using assms by (intro member.state_step) (auto simp: attempt_defs intro!: pred_state_any)
  show "hasSession sess (cm_Runtime (EndBroadcast co rt))"
    unfolding EndBroadcast_def using assms by (intro member.commitState) (simp_all add: attempt_defs)
qed

lemma member_pred: "pred_state (\<lambda>c. seats (cm_Runtime c) = seats rt) m \<Longrightarrow> hasSession sess rt \<Longrightarrow> pred_state (\<lambda>c. hasSession sess (cm_Runtime c)) m"
  by (erule pred_state_weaken) (rule hasSession_seats)

section \<open>What an operation tells the players\<close>

text \<open>
  An operation keeps the sessions and the players' invariant; it leaves every view alone and publishes no update, or it
  moves the revision by one and publishes to every session the update made of its view.
\<close>

definition tells :: "'w Coordinator \<Rightarrow> ProcessRuntime \<Rightarrow> ProcessRuntime \<times> Effect list \<Rightarrow> bool" where
  "tells co rt x =
     ((\<forall>sess. hasSession sess rt \<longrightarrow> hasSession sess (fst x)) \<and> (players_ok rt \<longrightarrow> players_ok (fst x)) \<and>
      (pr_Revision (fst x) = pr_Revision rt \<and> view co (fst x) = view co rt \<and> plain (snd x) \<or>
       pr_Revision (fst x) = pr_Revision rt + 1 \<and>
       (\<exists>effects. plain effects \<and>
          snd x = effects @ updateEffects (pr_Revision rt + 1) (view co (fst x)) (sortedSessionIDs (fst x)))))"

text \<open>Results that may be missing: \<open>None\<close> is an operation that has not returned.\<close>

definition returns :: "('a \<Rightarrow> bool) \<Rightarrow> 'a option \<Rightarrow> bool" where
  "returns P r = (case r of None \<Rightarrow> True | Some x \<Rightarrow> P x)"

lemma returns_simps [simp]: "returns P None" "returns P (Some x) = P x" "returns P (map_option f r) = returns (\<lambda>x. P (f x)) r"
  by (simp_all add: returns_def split: option.split)

lemma returns_both: "pred_state (returns P) m \<Longrightarrow> pred_state (returns Q) m \<Longrightarrow> pred_state (returns (\<lambda>x. P x \<and> Q x)) m"
proof -
  have "returns R r \<longleftrightarrow> (\<forall>x. r = Some x \<longrightarrow> R x)" for R and r :: "'a option" by (cases r) simp_all
  then show "pred_state (returns P) m \<Longrightarrow> pred_state (returns Q) m \<Longrightarrow> ?thesis" by (simp add: pred_state_fst)
qed

context settling_lifecycle begin

lemma tells_outcome:
  assumes "co_Terminals co = Some L" and "reported co rt c"
    and "\<And>sess. hasSession sess rt \<Longrightarrow> hasSession sess (cm_Runtime c)" and "players_ok rt \<Longrightarrow> players_ok (cm_Runtime c)"
  shows "tells co rt (outcome c)"
  by (rule reported_views [OF assms(1,2)]) (use assms(3,4) in \<open>auto simp: tells_def\<close>)

lemma tells_outcomeOf:
  assumes "co_Terminals co = Some L" and "pred_state (reported co rt) m"
    and "\<And>sess. hasSession sess rt \<Longrightarrow> pred_state (\<lambda>c. hasSession sess (cm_Runtime c)) m"
    and "players_ok rt \<Longrightarrow> pred_state (\<lambda>c. players_ok (cm_Runtime c)) m"
  shows "pred_state (returns (tells co rt)) (outcomeOf m)"
proof -
  have "pred_state (\<lambda>c. tells co rt (outcome c)) m"
    using assms(2-) unfolding pred_state_fst by (auto intro: tells_outcome [OF assms(1)])
  then show ?thesis unfolding outcomeOf_def by (rule pred_state_bind) simp
qed

lemma tells_attach:
  assumes "co_Terminals co = Some L"
  shows "pred_state (returns (\<lambda>c. tells co rt (outcome c))) (AttachSubscriptionAndRegister co rt c h)"
  using revised_players(1) [of co rt c h] member_seating(1) [of _ rt co c h] players_AttachSubscriptionAndRegister [of rt co c h]
  unfolding pred_state_fst returns_def by (auto intro: tells_outcome [OF assms] split: option.split)

lemma tells_step:
  assumes "co_Terminals co = Some L" and "op \<noteq> OpShutdown"
  shows "pred_state (returns (tells co rt)) (coordinatorOutcome co rt op)"
proof (cases op)
  case (OpAttach c h)
  show ?thesis
    using tells_attach [OF assms(1), of rt c h] unfolding OpAttach coordinatorOutcome.simps
    by (rule pred_state_bind) simp
next
  case (OpCurrentLive s)
  have "fst (CurrentLiveForSession co rt s) \<in> {rt, fst (projectActiveTerminal co rt)}"
    by (auto simp: CurrentLiveForSession_def split: option.split prod.split)
  then have "tells co rt (fst (CurrentLiveForSession co rt s), [])"
    using view_project [OF assms(1), of rt] players.project [of rt co] by (auto simp: tells_def hasSession_def projected_parts)
  then show ?thesis by (simp add: OpCurrentLive)
qed (use assms in \<open>auto intro!: tells_outcome tells_outcomeOf revised_steps intro: member_steps player_steps
    member_pred seats_pred seats_steps hasSession_seats players_ok_seats\<close>)

end

section \<open>The snapshot of an attachment\<close>

lemma viewSnapshot_stamp:
  "map_option (\<lambda>s. s\<lparr>sn_Revision := r, sn_PlayerState := map_option (\<lambda>p. p\<lparr>ps_Revision := r\<rparr>) (sn_PlayerState s)\<rparr>) (viewSnapshot r' handle v) =
   viewSnapshot r handle v"
  by (simp add: viewSnapshot_def option.map_comp comp_def Let_def)

definition shownTo :: "'w Coordinator \<Rightarrow> ProcessRuntime \<Rightarrow> PersonalizedSnapshot \<Rightarrow> bool" where
  "shownTo co rt s =
     (\<exists>sess. hasSession sess rt \<and> viewSnapshot (pr_Revision rt) (sn_RecognitionHandle s) (view co rt sess) = Some s)"

context settling_lifecycle begin

lemma commit_snapshot:
  fixes co and rt1 sess token
  defines "q \<equiv> subscriptionSnapshot co rt1 sess token"
  assumes L: "co_Terminals co = Some L" and plain: "plain (ch_effects change)"
    and refused: "\<not> ch_accepted change \<Longrightarrow> \<not> ch_persist change \<and> rt1 = rt"
    and snap: "cm_Value (stampSnapshot (commit co rt (fst q, change, snd q))) = Inr s"
  shows "shownTo co (cm_Runtime (commit co rt (fst q, change, snd q))) s"
proof -
  let ?c = "commit co rt (fst q, change, snd q)" and ?r = "if ch_accepted change then pr_Revision rt + 1 else pr_Revision rt"
  have "view co (cm_Runtime ?c) = view co rt1 \<and> pr_Revision (cm_Runtime ?c) = ?r"
  proof (cases "ch_accepted change")
    case True
    with commit_published [OF plain, of co rt "fst q" "snd q"] obtain effects where
      "fold (publishUpdate co (pr_Revision rt + 1)) (sortedSessionIDs (fst q)) ((fst q)\<lparr>pr_Revision := pr_Revision rt + 1\<rparr>, effects) =
        (cm_Runtime ?c, cm_Published ?c)" by auto
    with publishes_views [OF L, of "pr_Revision rt + 1" "sortedSessionIDs (fst q)" "(fst q)\<lparr>pr_Revision := pr_Revision rt + 1\<rparr>" effects]
    have "view co (cm_Runtime ?c) = view co ((fst q)\<lparr>pr_Revision := pr_Revision rt + 1\<rparr>)" "pr_Revision (cm_Runtime ?c) = pr_Revision rt + 1"
      by auto
    then show ?thesis
      using view_subscription [OF L, of rt1 sess token] True by (simp add: q_def fun_eq_iff)
  next
    case False
    with refused have "rt1 = rt" "cm_Runtime ?c = rt" by (simp_all add: commit_def Let_def)
    with False show ?thesis by simp
  qed
  then have v: "view co (cm_Runtime ?c) sess = view co rt1 sess" "pr_Revision (cm_Runtime ?c) = ?r" by simp_all
  have s: "viewSnapshot ?r token (view co rt1 sess) = Some s"
    using snap viewSnapshot_stamp [of ?r "pr_Revision rt1" token "view co rt1 sess"]
    by (auto simp: stampSnapshot_def commit_cm_revision q_def snapshot_of_view split: option.splits)
  moreover from s have "sn_RecognitionHandle s = token" by (auto simp: viewSnapshot_def Let_def)
  moreover have "hasSession sess (cm_Runtime ?c)"
  proof -
    from s have "fst (view co rt1 sess) \<noteq> None" by (auto simp: viewSnapshot_def)
    then have "playerSnapshot (cm_Runtime ?c) sess \<noteq> None" unfolding v(1) [symmetric] by (simp add: view_def)
    then show ?thesis by (auto simp: playerSnapshot_def hasSession_def gm_has_iff)
  qed
  ultimately show ?thesis using v by (auto simp: shownTo_def)
qed

lemma attach_snapshot:
  assumes L: "co_Terminals co = Some L"
  shows "pred_state (returns (\<lambda>c. \<forall>s. cm_Value c = Inr s \<longrightarrow> shownTo co (cm_Runtime c) s)) (AttachSubscriptionAndRegister co rt connectionID handle)"
proof -
  have known: "shownTo co (cm_Runtime (commit co rt (knownSubscription co rt connectionID i t token))) s"
    if "cm_Value (stampSnapshot (commit co rt (knownSubscription co rt connectionID i t token))) = Inr s" for i t token s
    using that
    by (auto simp: knownSubscription_def case_prod_unfold Let_def rejected_def intro!: commit_snapshot [OF L] split: if_splits)
  have "pred_state (returns (\<lambda>a. \<forall>s. cm_Value (stampSnapshot (commit co rt a)) = Inr s \<longrightarrow> shownTo co (cm_Runtime (commit co rt a)) s))
      (newSubscription co rt connectionID)"
    by (auto simp: newSubscription_def Let_def case_prod_unfold returns_def intro!: pred_state_any commit_snapshot [OF L] split: option.split)
  then show ?thesis
    unfolding AttachSubscriptionAndRegister_def Let_def
    by (auto simp: known stampSnapshot_def [of "\<lparr>cm_Runtime = _, cm_Published = _, cm_Accepted = _, cm_Revision = _, cm_Value = _\<rparr>"]
        intro!: pred_state_bind split: option.split)
qed

end

end
