(* ===== verification/PlayerServiceInv.thy ===== *)
theory PlayerServiceInv
  imports PlayerService PlayerStreamInv PlayerRequestsInv ControlPublish
begin

text \<open>
  The coordinator and the streams together: whatever happens, the newest message of every registered stream is what
  the coordinator's current state shows to the stream's session.
\<close>

section \<open>Registered streams\<close>

definition registered :: "('m, 'i) SubscriptionHub \<Rightarrow> ConnectionID \<Rightarrow> 'm Subscription option" where
  "registered hub i = Option.bind (gm_get (hb_ByID hub) i) (gm_get (hb_Streams hub))"

text \<open>\<open>restricts hub hub'\<close>: \<open>hub'\<close> has lost registered streams at most.\<close>

definition restricts :: "('m, 'i) SubscriptionHub \<Rightarrow> ('m, 'i) SubscriptionHub \<Rightarrow> bool" where
  "restricts hub hub' = (\<forall>i s. registered hub' i = Some s \<longrightarrow> registered hub i = Some s)"

lemma restricts_refl [simp]: "restricts hub hub"
  by (simp add: restricts_def)

lemma restricts_trans: "restricts a b \<Longrightarrow> restricts b c \<Longrightarrow> restricts a c"
  by (simp add: restricts_def)

lemma restricts_same: "registered hub' = registered hub \<Longrightarrow> restricts hub hub'"
  by (simp add: restricts_def)

lemma hub_indexed:
  "hub_ok hub \<Longrightarrow> indexed (streamID hub) (streamSession hub) (streamClient hub) (leaseID hub) (leaseStream hub) (leaseClient hub)
      (gm_get (hb_ByID hub)) (\<lambda>sess. gm_get (siblings sess hub)) (gm_get (hb_ByClient hub)) (gm_get (hb_Uplinks hub))"
  by (simp add: hub_ok_def indices_ok_def)

lemma byID_stream:
  assumes "hub_ok hub" and "gm_get (hb_ByID hub) i = Some a"
  obtains s where "gm_get (hb_Streams hub) a = Some s" "sb_ID s = i" "registered hub i = Some s" "sb_SessionID s \<noteq> ''''"
  using indexedD(1) [OF hub_indexed [OF assms(1)] assms(2)] assms(2) that
  by (auto simp: stream_views registered_def split: option.splits)

lemma byID_injective: "hub_ok hub \<Longrightarrow> gm_get (hb_ByID hub) i = Some a \<Longrightarrow> gm_get (hb_ByID hub) j = Some a \<Longrightarrow> i = j"
  using indexedD(1) [OF hub_indexed, of hub i a] indexedD(1) [OF hub_indexed, of hub j a] by simp

lemma sibling_registered:
  assumes "hub_ok hub"
  shows "gm_get (siblings sess hub) i = Some a \<longleftrightarrow>
    gm_get (hb_ByID hub) i = Some a \<and> (\<exists>s. gm_get (hb_Streams hub) a = Some s \<and> sb_SessionID s = sess)"
  using indexedD(2) [OF hub_indexed [OF assms], of sess i a] indexedD(1) [OF hub_indexed [OF assms], of i a]
  by (auto simp: stream_views split: option.splits)

lemma registered_parts:
  "hb_ByID hub' = hb_ByID hub \<Longrightarrow> hb_Streams hub' = hb_Streams hub \<Longrightarrow> registered hub' = registered hub"
  by (simp add: registered_def fun_eq_iff)

lemma registered_onLease [simp]: "registered (onLease u f hub) = registered hub"
  by (rule registered_parts) simp_all

text \<open>Changing one stream.\<close>

lemma registered_onStream:
  "registered (onStream a f hub) i =
     (if gm_get (hb_ByID hub) i = Some a then map_option f (registered hub i) else registered hub i)"
  by (auto simp: registered_def onStream_def split: option.split bind_split)

lemma restricts_removeLocked:
  assumes "hub_ok hub" and "gm_get (hb_ByID hub) i = Some a"
  shows "registered (removeLocked a hub) = (registered hub)(i := None)"
  using removeLocked_ok [OF assms] by (simp add: registered_def fun_eq_iff)

lemma registered_Unregister:
  assumes ok: "hub_ok hub" and "i \<noteq> ''''"
  shows "registered (Unregister i hub) = (registered hub)(i := None)"
proof (cases "gm_get (hb_ByID hub) i")
  case (Some a)
  have "gm_get (hb_ByID (removeLocked a hub)) j \<noteq> Some a" for j
    using removeLocked_ok(2) [OF ok Some] byID_injective [OF ok Some, of j] by auto
  then show ?thesis
    using Some assms(2) restricts_removeLocked [OF ok Some] by (simp add: Unregister_def fun_eq_iff registered_onStream)
qed (use assms(2) in \<open>auto simp: Unregister_def registered_def fun_eq_iff\<close>)

lemma restricts_Unregister: "hub_ok hub \<Longrightarrow> restricts hub (Unregister i hub)"
  by (cases "i = ''''") (simp_all add: registered_Unregister restricts_def, simp add: Unregister_def)

section \<open>Offering to a session\<close>

definition offered :: "'m SubscriptionMessage \<Rightarrow> 'm Subscription \<Rightarrow> 'm Subscription option" where
  "offered message s = (case offerUpdate message s of (taken, s') \<Rightarrow> if taken then Some s' else None)"

lemma registered_offerStream:
  assumes ok: "hub_ok hub" and a: "gm_get (hb_ByID hub) i = Some a"
  shows "registered (offerStream message a hub) = (registered hub)(i := Option.bind (registered hub i) (offered message))"
proof -
  obtain s where s: "gm_get (hb_Streams hub) a = Some s" "sb_ID s = i" "registered hub i = Some s"
    using byID_stream [OF ok a] by blast
  obtain taken s' where offer: "offerUpdate message s = (taken, s')" by fastforce
  have same: "onStream a (\<lambda>_. s') hub = onStream a (\<lambda>s. snd (offerUpdate message s)) hub"
    using s(1) offer by (simp add: onStream_def)
  have ok': "hub_ok (onStream a (\<lambda>_. s') hub)" unfolding same by (rule onStream_ok [OF ok]) simp
  have only: "gm_get (hb_ByID hub) j = Some a \<longleftrightarrow> j = i" for j
    using a byID_injective [OF ok a, of j] by blast
  have on: "registered (onStream a (\<lambda>_. s') hub) = (registered hub)(i := Some s')"
    by (rule ext) (simp add: registered_onStream only s(3))
  have "i \<noteq> ''''" using indexedD(1) [OF hub_indexed [OF ok] a] by simp
  then have off: "registered (Unregister (sb_ID s) (onStream a (\<lambda>_. s') hub)) = (registered hub)(i := None)"
    using registered_Unregister [OF ok'] s(2) on by simp
  have "offerStream message a hub =
      (if taken then onStream a (\<lambda>_. s') hub else Unregister (sb_ID s) (onStream a (\<lambda>_. s') hub))"
    and "offered message s = (if taken then Some s' else None)"
    by (simp_all only: offerStream_def offered_def s(1) offer option.case prod.case Let_def)
  then show ?thesis by (simp add: on off s(3))
qed

lemma byID_offerStream:
  assumes ok: "hub_ok hub" and a: "gm_get (hb_ByID hub) i = Some a" and "j \<noteq> i"
  shows "gm_get (hb_ByID (offerStream message a hub)) j = gm_get (hb_ByID hub) j"
proof -
  obtain s where s: "gm_get (hb_Streams hub) a = Some s" "sb_ID s = i" using byID_stream [OF ok a] by blast
  obtain taken s' where offer: "offerUpdate message s = (taken, s')" by fastforce
  have same: "onStream a (\<lambda>_. s') hub = onStream a (\<lambda>s. snd (offerUpdate message s)) hub"
    using s(1) offer by (simp add: onStream_def)
  have ok': "hub_ok (onStream a (\<lambda>_. s') hub)" unfolding same by (rule onStream_ok [OF ok]) simp
  have "gm_get (hb_ByID (Unregister i (onStream a (\<lambda>_. s') hub))) j = gm_get (hb_ByID hub) j"
    using removeLocked_ok(2) [OF ok', of i a] a assms(3) by (simp add: Unregister_def)
  then show ?thesis using s offer by (simp add: offerStream_def Let_def)
qed

text \<open>Streams offered one after another, each registered once.\<close>

lemma registered_offers:
  assumes "hub_ok hub" and "distinct (map fst targets)" and "\<forall>(i, a)\<in>set targets. gm_get (hb_ByID hub) i = Some a"
  shows "registered (fold (offerStream message) (map snd targets) hub) i =
    (if i \<in> fst ` set targets then Option.bind (registered hub i) (offered message) else registered hub i)"
  using assms
proof (induction targets arbitrary: hub)
  case (Cons t targets)
  obtain j a where t: "t = (j, a)" by fastforce
  with Cons.prems have a: "gm_get (hb_ByID hub) j = Some a" and j: "j \<notin> fst ` set targets" by auto
  let ?hub = "offerStream message a hub"
  have "\<forall>(i, b)\<in>set targets. gm_get (hb_ByID ?hub) i = Some b"
  proof clarify
    fix i b assume "(i, b) \<in> set targets"
    moreover from this j have "i \<noteq> j" by force
    ultimately show "gm_get (hb_ByID ?hub) i = Some b"
      using Cons.prems(3) byID_offerStream [OF Cons.prems(1) a, of i message] by auto
  qed
  with Cons.prems have "registered (fold (offerStream message) (map snd targets) ?hub) i =
      (if i \<in> fst ` set targets then Option.bind (registered ?hub i) (offered message) else registered ?hub i)"
    by (intro Cons.IH) (auto simp: hub_ok_offerStream)
  then show ?case
    using j registered_offerStream [OF Cons.prems(1) a, of message] by (auto simp: t)
qed simp

section \<open>Tables by session\<close>

definition siblings_ok :: "('m, 'i) SubscriptionHub \<Rightarrow> bool" where
  "siblings_ok hub = (\<forall>sess. gm_ok (siblings sess hub))"

lemma siblings_same: "hb_BySession hub' = hb_BySession hub \<Longrightarrow> siblings_ok hub' = siblings_ok hub"
  by (simp add: siblings_ok_def siblings_def)

lemma siblings_onStream [simp]: "siblings_ok (onStream a f hub) = siblings_ok hub"
  by (rule siblings_same) simp

lemma siblings_onLease [simp]: "siblings_ok (onLease u g hub) = siblings_ok hub"
  by (rule siblings_same) simp

lemma siblings_put:
  "siblings_ok hub \<Longrightarrow> gm_ok m \<Longrightarrow> siblings_ok (hub\<lparr>hb_BySession := gm_put sess m (hb_BySession hub)\<rparr>)"
  by (simp add: siblings_ok_def siblings_def)

lemma siblings_del: "siblings_ok hub \<Longrightarrow> siblings_ok (hub\<lparr>hb_BySession := gm_del sess (hb_BySession hub)\<rparr>)"
  by (auto simp: siblings_ok_def siblings_def split: option.splits)

lemma siblings_removeLocked: "siblings_ok hub \<Longrightarrow> siblings_ok (removeLocked a hub)"
proof (cases "gm_get (hb_Streams hub) a")
  case (Some s)
  assume ok: "siblings_ok hub"
  let ?hub = "dropClient a (sb_ClientID s) (hub\<lparr>hb_ByID := gm_del (sb_ID s) (hb_ByID hub)\<rparr>)"
  have "siblings_ok ?hub" using ok siblings_same [of ?hub hub] by simp
  moreover from this have "gm_ok (gm_del (sb_ID s) (siblings (sb_SessionID s) ?hub))" by (simp add: siblings_ok_def)
  ultimately show ?thesis using siblings_put siblings_del by (fastforce simp: removeLocked_def Some Let_def)
qed (simp add: removeLocked_def)

lemma siblings_replace: "siblings_ok hub \<Longrightarrow> siblings_ok (replaceStream a hub)"
  by (simp add: replaceStream_def siblings_removeLocked)

lemma siblings_Unregister: "siblings_ok hub \<Longrightarrow> siblings_ok (Unregister i hub)"
  by (simp add: Unregister_def siblings_removeLocked split: option.split)

text \<open>Registering a stream: it takes its place, and streams that were registered may have lost theirs.\<close>

definition making_room :: "StreamAddress \<Rightarrow> 'm Subscription \<Rightarrow> ('m, 'i) SubscriptionHub \<Rightarrow> ('m, 'i) SubscriptionHub \<Rightarrow> bool" where
  "making_room a s hub hub' =
     (hub_ok hub' \<and> siblings_ok hub' \<and> (\<forall>i. gm_get (hb_ByID hub') i \<noteq> Some a) \<and> gm_get (hb_Streams hub') a = Some s \<and>
      restricts hub hub')"

lemma making_room_replace:
  assumes room: "making_room a s hub hub'" and p: "gm_get (hb_ByID hub') i = Some p"
  shows "making_room a s hub (replaceStream p hub')"
proof -
  have ok: "hub_ok hub'" using room by (simp add: making_room_def)
  have byID: "gm_get (hb_ByID (replaceStream p hub')) = (gm_get (hb_ByID hub'))(i := None)"
    by (rule replaceStream_ok(2) [OF ok p])
  have "p \<noteq> a" using room p by (auto simp: making_room_def)
  then have streams: "gm_get (hb_Streams (replaceStream p hub')) a = gm_get (hb_Streams hub') a"
    using removeLocked_ok(4) [OF ok p] by (simp add: replaceStream_def onStream_def split: option.split)
  have "registered (replaceStream p hub') j = Some t \<Longrightarrow> registered hub' j = Some t" for j t
  proof -
    assume t: "registered (replaceStream p hub') j = Some t"
    then have "j \<noteq> i" by (auto simp: registered_def byID)
    then have "gm_get (hb_ByID hub') j \<noteq> Some p" using byID_injective [OF ok p, of j] by auto
    then show ?thesis
      using t \<open>j \<noteq> i\<close> restricts_removeLocked [OF ok p] removeLocked_ok(2) [OF ok p]
      by (simp add: replaceStream_def registered_onStream)
  qed
  then have "restricts hub' (replaceStream p hub')" by (simp add: restricts_def)
  with room byID streams show ?thesis
    using replaceStream_ok(1) [OF ok p] siblings_replace [of hub' p] restricts_trans by (auto simp: making_room_def)
qed

lemma registered_Register:
  assumes room: "making_room a s hub hub"
  shows "siblings_ok (Register a hub)"
    and "registered (Register a hub) i = Some t \<Longrightarrow> i = sb_ID s \<and> t = s \<or> registered hub i = Some t"
proof -
  have s: "gm_get (hb_Streams hub) a = Some s" and sib: "siblings_ok hub" using room by (simp_all add: making_room_def)
  have "siblings_ok (Register a hub) \<and>
    (registered (Register a hub) i = Some t \<longrightarrow> i = sb_ID s \<and> t = s \<or> registered hub i = Some t)"
  proof (cases "sb_ID s = '''' \<or> sb_SessionID s = ''''")
    case False
    let ?c = "sb_ClientID s"
    let ?one = "case gm_get (hb_ByID hub) (sb_ID s) of None \<Rightarrow> hub | Some previous \<Rightarrow> replaceStream previous hub"
    let ?two = "case gm_get (hb_ByClient ?one) ?c of
      None \<Rightarrow> ?one | Some previous \<Rightarrow> if previous \<noteq> a then replaceStream previous ?one else ?one"
    have one: "making_room a s hub ?one" using room making_room_replace [OF room] by (simp split: option.split)
    have two: "making_room a s hub ?two"
    proof (cases "gm_get (hb_ByClient ?one) ?c")
      case (Some p)
      have ok: "hub_ok ?one" using one by (simp only: making_room_def)
      show ?thesis using one making_room_replace [OF one registered_client(2) [OF ok Some]] Some by simp
    qed (use one in simp)
    have final: "siblings_ok (hub'\<lparr>hb_ByClient := m, hb_ByID := gm_put (sb_ID s) a (hb_ByID hub'),
          hb_BySession := gm_put (sb_SessionID s) (gm_put (sb_ID s) a (siblings (sb_SessionID s) hub')) (hb_BySession hub')\<rparr>) \<and>
        (registered (hub'\<lparr>hb_ByClient := m, hb_ByID := gm_put (sb_ID s) a (hb_ByID hub'),
          hb_BySession := gm_put (sb_SessionID s) (gm_put (sb_ID s) a (siblings (sb_SessionID s) hub')) (hb_BySession hub')\<rparr>) i = Some t \<longrightarrow>
         i = sb_ID s \<and> t = s \<or> registered hub i = Some t)" if "making_room a s hub hub'" for hub' m
      using that by (auto simp: making_room_def siblings_ok_def siblings_def registered_def restricts_def split: option.splits)
    show ?thesis
    proof (cases "?c = ''''")
      case True
      have "Register a hub = ?one\<lparr>hb_ByClient := hb_ByClient ?one, hb_ByID := gm_put (sb_ID s) a (hb_ByID ?one),
          hb_BySession := gm_put (sb_SessionID s) (gm_put (sb_ID s) a (siblings (sb_SessionID s) ?one)) (hb_BySession ?one)\<rparr>"
        using s False True by (simp add: Register_def Let_def)
      show ?thesis unfolding \<open>Register a hub = _\<close> by (rule final [OF one])
    next
      case client: False
      have "Register a hub = ?two\<lparr>hb_ByClient := gm_put ?c a (hb_ByClient ?two), hb_ByID := gm_put (sb_ID s) a (hb_ByID ?two),
          hb_BySession := gm_put (sb_SessionID s) (gm_put (sb_ID s) a (siblings (sb_SessionID s) ?two)) (hb_BySession ?two)\<rparr>"
        using s False client by (simp add: Register_def Let_def)
      show ?thesis unfolding \<open>Register a hub = _\<close> by (rule final [OF two])
    qed
  qed (use s sib in \<open>simp add: Register_def\<close>)
  then show "siblings_ok (Register a hub)"
    and "registered (Register a hub) i = Some t \<Longrightarrow> i = sb_ID s \<and> t = s \<or> registered hub i = Some t" by blast+
qed

lemma making_room_fresh:
  assumes "hub_ok hub" and "siblings_ok hub" and s: "stream_ok s"
  defines "a \<equiv> freshAddress (hb_Streams hub)"
  shows "making_room a s (hub\<lparr>hb_Streams := gm_put a s (hb_Streams hub)\<rparr>) (hub\<lparr>hb_Streams := gm_put a s (hb_Streams hub)\<rparr>)"
    and "registered (hub\<lparr>hb_Streams := gm_put a s (hb_Streams hub)\<rparr>) = registered hub"
proof -
  let ?hub = "hub\<lparr>hb_Streams := gm_put a s (hb_Streams hub)\<rparr>"
  note indexed = hub_indexed [OF assms(1)]
  have unused: "gm_get (hb_ByID hub) i \<noteq> Some a" for i
    using indexedD(1) [OF indexed, of i a] freshAddress [of "hb_Streams hub"] by (auto simp: streamID_def a_def)
  have "indices_ok ?hub"
    unfolding indices_ok_def using indexed_streams [OF indexed, of a "streamID ?hub" "streamSession ?hub" "streamClient ?hub"] unused
    by (simp add: stream_views)
  then have "hub_ok ?hub" using assms(1) s by (auto simp: hub_ok_def split: if_splits)
  then show "making_room a s ?hub ?hub" using unused assms(2) siblings_same [of ?hub hub] by (simp add: making_room_def)
  show "registered ?hub = registered hub"
    by (rule ext) (auto simp: registered_def unused bind_eq_Some_conv split: bind_split)
qed

lemma registered_addStream:
  assumes "hub_ok hub" and "siblings_ok hub" and "stream_ok s"
  shows "hub_ok (addStream s hub)" and "siblings_ok (addStream s hub)"
    and "registered (addStream s hub) i = Some t \<Longrightarrow> i = sb_ID s \<and> t = s \<or> registered hub i = Some t"
  using hub_ok_attach [OF assms(1) freshAddress assms(3)] registered_Register [OF making_room_fresh(1) [OF assms]]
    making_room_fresh(2) [OF assms]
  by (auto simp: addStream_def Let_def)

lemma registered_offerSession:
  assumes ok: "hub_ok hub" and sib: "siblings_ok hub" and "sess \<noteq> ''''"
  shows "registered (offerSession sess message hub) i =
    Option.bind (registered hub i) (\<lambda>s. if sb_SessionID s = sess then offered message s else Some s)"
proof -
  let ?targets = "siblings sess hub"
  have m: "gm_ok ?targets" using sib by (simp add: siblings_ok_def)
  then have targets: "(j, a) \<in> set ?targets \<longleftrightarrow> gm_get ?targets j = Some a" for j a by (simp add: gm_get_iff_in)
  have i: "i \<in> fst ` set ?targets \<longleftrightarrow> (\<exists>s. registered hub i = Some s \<and> sb_SessionID s = sess)"
  proof -
    have "i \<in> fst ` set ?targets \<longleftrightarrow> (\<exists>a. gm_get ?targets i = Some a)" by (auto simp: image_iff Bex_def split_paired_Ex targets)
    also have "\<dots> \<longleftrightarrow> (\<exists>s. registered hub i = Some s \<and> sb_SessionID s = sess)"
      unfolding sibling_registered [OF ok] by (auto simp: registered_def bind_eq_Some_conv)
    finally show ?thesis .
  qed
  have "registered (fold (offerStream message) (map snd ?targets) hub) i =
      (if i \<in> fst ` set ?targets then Option.bind (registered hub i) (offered message) else registered hub i)"
    using m sibling_registered [OF ok, of sess]
    by (intro registered_offers [OF ok]) (auto simp: gm_ok_def gm_keys_def targets)
  then show ?thesis using i assms(3) by (cases "registered hub i") (auto simp: offerSession_def)
qed

lemma siblings_offerSession: "siblings_ok hub \<Longrightarrow> siblings_ok (offerSession sess message hub)"
proof -
  have one: "siblings_ok hub \<Longrightarrow> siblings_ok (offerStream message a hub)" for a and hub :: "('a, 'b) SubscriptionHub"
    by (auto simp: offerStream_def Let_def siblings_Unregister split: option.split prod.split)
  have "siblings_ok hub \<Longrightarrow> siblings_ok (fold (offerStream message) as hub)" for as and hub :: "('a, 'b) SubscriptionHub"
    by (induction as arbitrary: hub) (auto intro: one)
  then show "siblings_ok hub \<Longrightarrow> ?thesis" by (simp add: offerSession_def)
qed

section \<open>The newest message of a stream\<close>

text \<open>The last snapshot or update that is on the wire or waits for it.\<close>

definition newest :: "'m Subscription \<Rightarrow> 'm SubscriptionMessage" where
  "newest s = last (filter (\<lambda>m. messageRevision m \<noteq> []) (wire s))"

text \<open>Operations that leave revision, session and newest message of a stream alone.\<close>

definition unheard :: "('m Subscription \<Rightarrow> 'm Subscription) \<Rightarrow> bool" where
  "unheard f = (\<forall>s. stream_ok s \<longrightarrow>
     sb_LastRevision (f s) = sb_LastRevision s \<and> sb_SessionID (f s) = sb_SessionID s \<and> newest (f s) = newest s)"

lemma unheard_close [simp]: "unheard (closeWithCause cause)"
  by (simp add: unheard_def closeWithCause_def newest_def wire_def)

lemma unheard_targeted [simp]: "unheard (\<lambda>s. snd (PublishTargeted message s))"
proof -
  have "wire (snd (PublishTargeted message s)) = wire s \<and> sb_LastRevision (snd (PublishTargeted message s)) = sb_LastRevision s \<and>
      sb_SessionID (snd (PublishTargeted message s)) = sb_SessionID s" for s :: "'a Subscription"
    by (cases message) (simp_all add: PublishTargeted_def wire_def)
  then show ?thesis by (simp only: unheard_def newest_def) simp
qed

lemma newest_takeUpdate: "sb_Sent s \<noteq> [] \<Longrightarrow> newest (takeUpdate s) = newest s"
proof -
  assume "sb_Sent s \<noteq> []"
  then have "wire (takeUpdate s) = wire s"
    by (cases "sb_Updates s") (simp_all add: wire_def takeUpdate_def sendMessages_def)
  then show ?thesis by (simp only: newest_def)
qed

lemma newest_takeTargeted:
  "stream_ok s \<Longrightarrow> sb_Sent s \<noteq> [] \<Longrightarrow> newest (takeTargeted s) = newest s"
  by (auto simp: stream_ok_def newest_def wire_def takeTargeted_def sendMessages_def split: option.split)

lemma unheard_turn [simp]: "unheard (subscribeTurn picked :: 'm Subscription \<Rightarrow> _)"
proof -
  have "newest (subscribeTurn picked s) = newest s" if ok: "stream_ok s" for s :: "'m Subscription"
  proof (cases "sb_Sent s = []")
    case False
    have "sb_Sent (takeUpdate s) \<noteq> []" using False by (simp add: takeUpdate_def sendMessages_def split: list.split)
    with False ok show ?thesis
      by (cases picked) (simp_all add: subscribeTurn_def newest_takeUpdate newest_takeTargeted stream_ok_takeUpdate)
  qed (simp add: subscribeTurn_def newest_def wire_def sendMessages_def)
  moreover have "sb_LastRevision (subscribeTurn picked s) = sb_LastRevision s \<and> sb_SessionID (subscribeTurn picked s) = sb_SessionID s" for s :: "'m Subscription"
    by (simp add: subscribeTurn_def takeUpdate_def takeTargeted_def sendMessages_def split: Picked.split list.split option.split)
  ultimately show ?thesis by (simp add: unheard_def)
qed

lemma newest_offered:
  assumes "stream_ok s" and "offered (UpdateMessage r body) s = Some s'"
  shows "sb_SessionID s' = sb_SessionID s \<and>
    (r = sb_LastRevision s \<and> s' = s \<or> sb_LastRevision s < r \<and> sb_LastRevision s' = r \<and> newest s' = UpdateMessage r body)"
  using assms(2) by (auto simp: offered_def offerUpdate_def newest_def wire_def not_less_iff_gr_or_eq split: if_splits)

section \<open>What a stream shows\<close>

text \<open>The messages that show the coordinator's current state to a session.\<close>

definition currentUpdate :: "'w Coordinator \<Rightarrow> ProcessRuntime \<Rightarrow> LogicalSessionID \<Rightarrow> PlayerMessage option" where
  "currentUpdate co rt sess =
     (case snd (compoundUpdateLocked co rt sess (pr_Revision rt)) of
        None \<Rightarrow> None
      | Some u \<Rightarrow> (case CompoundUpdateToProto (publicUpdate sess u) of Inl _ \<Rightarrow> None | Inr w \<Rightarrow> Some (updateMessage w)))"

definition currentSnapshot ::
    "'w Coordinator \<Rightarrow> ProcessRuntime \<Rightarrow> LogicalSessionID \<Rightarrow> RecognitionHandle \<Rightarrow> PlayerMessage option" where
  "currentSnapshot co rt sess handle =
     (case snd (subscriptionSnapshot co rt sess handle) of
        None \<Rightarrow> None
      | Some snapshot \<Rightarrow> (case SnapshotToProto snapshot of Inl _ \<Rightarrow> None | Inr w \<Rightarrow> Some (snapshotMessage w)))"

definition presents :: "'w Coordinator \<Rightarrow> ProcessRuntime \<Rightarrow> LogicalSessionID \<Rightarrow> PlayerMessage \<Rightarrow> bool" where
  "presents co rt sess message =
     (case message of
        SnapshotMessage _ handle _ \<Rightarrow> currentSnapshot co rt sess handle = Some message
      | UpdateMessage _ _ \<Rightarrow> currentUpdate co rt sess = Some message
      | _ \<Rightarrow> False)"

text \<open>A stream is up to date when its newest message does, and carries the current revision.\<close>

definition upToDate :: "'w Coordinator \<Rightarrow> ProcessRuntime \<Rightarrow> StreamBody Subscription \<Rightarrow> bool" where
  "upToDate co rt s =
     (hasSession (sb_SessionID s) rt \<and> sb_LastRevision s = pr_Revision rt \<and> presents co rt (sb_SessionID s) (newest s))"

lemma presents_cong:
  assumes "co_Terminals co = Some L" and "pr_Revision rt' = pr_Revision rt" and "view co rt' = view co rt"
  shows "presents co rt' = presents co rt"
  by (intro ext) (simp add: presents_def currentUpdate_def currentSnapshot_def update_of_view [OF assms(1)] snapshot_of_view assms(2,3)
      split: SubscriptionMessage.split)

section \<open>Publishing\<close>

lemma view_update_converts:
  assumes "viewUpdate r v = Some u" and "r \<noteq> 0"
  obtains w where "CompoundUpdateToProto (publicUpdate sess u) = Inr w" "wup_Revision w = r"
proof -
  have u: "cu_Revision u = r" "cu_Terminal u = map_option (\<lambda>live. \<lparr>tp_Live = live, tp_NoLiveTerminal = (live = None)\<rparr>) (snd v)"
    using assms(1) by (auto simp: viewUpdate_def)
  have same: "cu_Revision (publicUpdate sess u) = r" "cu_Terminal (publicUpdate sess u) = cu_Terminal u"
    by (simp_all add: publicUpdate_def u(1) split: option.split)
  have "\<exists>w. CompoundUpdateToProto (publicUpdate sess u) = Inr w \<and> wup_Revision w = r"
    using assms(2)
    by (cases "snd v"; cases "Option.bind (snd v) id")
      (auto simp: CompoundUpdateToProto_def same u(2) TerminalPresentationToProto_def)
  then show thesis using that by blast
qed

lemma view_snapshot_converts:
  assumes "viewSnapshot r handle v = Some s"
  obtains w where "SnapshotToProto s = Inr w" "wsn_Revision w = r" "wsn_RecognitionHandle w = handle"
    "(\<exists>p. sn_PlayerState s = Some p)"
proof -
  have "\<exists>w. SnapshotToProto s = Inr w \<and> wsn_Revision w = r \<and> wsn_RecognitionHandle w = handle \<and> (\<exists>p. sn_PlayerState s = Some p)"
    using assms
    by (cases "Option.bind (snd v) id") (auto simp: viewSnapshot_def Let_def SnapshotToProto_def TerminalPresentationToProto_def)
  then show thesis using that by blast
qed

lemma stream_ok_registered: "hub_ok hub \<Longrightarrow> registered hub i = Some s \<Longrightarrow> stream_ok s \<and> sb_SessionID s \<noteq> ''''"
  by (auto simp: registered_def bind_eq_Some_conv hub_ok_def elim!: byID_stream [of hub, rotated])

lemma hub_ok_PublishEffect: "hub_ok hub \<Longrightarrow> hub_ok (PublishEffect e hub)"
  by (simp add: PublishEffect_def hub_ok_offerSession split: option.split sum.split)

lemma siblings_PublishEffect: "siblings_ok hub \<Longrightarrow> siblings_ok (PublishEffect e hub)"
  by (simp add: PublishEffect_def siblings_offerSession split: option.split sum.split)

lemma PublishEffect_plain: "plain effects \<Longrightarrow> fold PublishEffect effects hub = hub"
  by (induction effects) (simp_all add: PublishEffect_def)

text \<open>One update: a registered stream of its session takes it, unless it has its revision; the others stay.\<close>

lemma registered_publish:
  assumes ok: "hub_ok hub" "siblings_ok hub" and L: "co_Terminals co = Some L"
    and u: "viewUpdate (pr_Revision rt) (view co rt sess) = Some u" and nonzero: "pr_Revision rt \<noteq> 0"
    and s': "registered (PublishEffect (updateEffect (pr_Revision rt) sess u) hub) i = Some s'"
  obtains s where "registered hub i = Some s" "sb_SessionID s' = sb_SessionID s"
    "s' = s \<and> (sb_SessionID s = sess \<longrightarrow> sb_LastRevision s = pr_Revision rt) \<or>
     sb_SessionID s = sess \<and> sb_LastRevision s' = pr_Revision rt \<and> currentUpdate co rt sess = Some (newest s')"
proof -
  obtain w where w: "CompoundUpdateToProto (publicUpdate sess u) = Inr w" "wup_Revision w = pr_Revision rt"
    by (rule view_update_converts [OF u nonzero])
  have current: "currentUpdate co rt sess = Some (updateMessage w)"
    using u by (simp add: currentUpdate_def update_of_view [OF L] w)
  show thesis
  proof (cases "sess = ''''")
    case True
    with s' have s: "registered hub i = Some s'" by (simp add: PublishEffect_def)
    with stream_ok_registered [OF ok(1) s] True show thesis using that [of s'] by simp
  next
    case False
    then have "registered (PublishEffect (updateEffect (pr_Revision rt) sess u) hub) i =
        Option.bind (registered hub i) (\<lambda>s. if sb_SessionID s = sess then offered (updateMessage w) s else Some s)"
      by (simp add: PublishEffect_def w registered_offerSession [OF ok])
    with s' obtain s where s: "registered hub i = Some s" "(if sb_SessionID s = sess then offered (updateMessage w) s else Some s) = Some s'"
      by (auto simp: bind_eq_Some_conv)
    then show thesis
      using that [of s] newest_offered [of s "wup_Revision w" "UpdateBody w" s'] stream_ok_registered [OF ok(1) s(1)] current w(2)
      by (auto simp: updateMessage_def split: if_splits)
  qed
qed

lemma presents_update: "currentUpdate co rt sess = Some m \<Longrightarrow> presents co rt sess m"
proof -
  assume m: "currentUpdate co rt sess = Some m"
  then obtain w where "m = updateMessage w" by (auto simp: currentUpdate_def split: option.splits sum.splits)
  with m show ?thesis by (simp add: presents_def updateMessage_def)
qed

text \<open>All updates of a commit: every stream of a session in the list is up to date, or gone.\<close>

lemma registered_updates:
  assumes ok: "hub_ok hub" "siblings_ok hub" and L: "co_Terminals co = Some L" and nonzero: "pr_Revision rt \<noteq> 0"
    and known: "\<forall>sess\<in>set ids. hasSession sess rt"
    and hub: "\<And>i s. registered hub i = Some s \<Longrightarrow>
      hasSession (sb_SessionID s) rt \<and> (sb_SessionID s \<in> set ids \<and> sb_LastRevision s \<noteq> pr_Revision rt \<or> upToDate co rt s)"
  defines "hub' \<equiv> fold PublishEffect (updateEffects (pr_Revision rt) (view co rt) ids) hub"
  shows "hub_ok hub' \<and> siblings_ok hub' \<and> (\<forall>i s. registered hub' i = Some s \<longrightarrow> upToDate co rt s)"
  using ok known hub unfolding hub'_def
proof (induction ids arbitrary: hub)
  case (Cons sess ids)
  from Cons.prems(3) obtain p where "playerSnapshot rt sess = Some p"
    by (auto simp: hasSession_def gm_has_iff playerSnapshot_def)
  then obtain u where u: "viewUpdate (pr_Revision rt) (view co rt sess) = Some u"
    by (auto simp: viewUpdate_def view_def)
  let ?hub = "PublishEffect (updateEffect (pr_Revision rt) sess u) hub"
  have step: "fold PublishEffect (updateEffects (pr_Revision rt) (view co rt) (sess # ids)) hub =
      fold PublishEffect (updateEffects (pr_Revision rt) (view co rt) ids) ?hub"
    by (simp add: updateEffects_def List.map_filter_simps u)
  show ?case unfolding step
  proof (rule Cons.IH)
    show "hub_ok ?hub" "siblings_ok ?hub"
      using Cons.prems(1,2) by (simp_all add: hub_ok_PublishEffect siblings_PublishEffect)
    show "\<forall>sess\<in>set ids. hasSession sess rt" using Cons.prems(3) by simp
    fix i s' assume "registered ?hub i = Some s'"
    then obtain s where s: "registered hub i = Some s" "sb_SessionID s' = sb_SessionID s"
      "s' = s \<and> (sb_SessionID s = sess \<longrightarrow> sb_LastRevision s = pr_Revision rt) \<or>
       sb_SessionID s = sess \<and> sb_LastRevision s' = pr_Revision rt \<and> currentUpdate co rt sess = Some (newest s')"
      by (rule registered_publish [OF Cons.prems(1,2) L u nonzero])
    from Cons.prems(4) [OF s(1)] s(2,3)
    show "hasSession (sb_SessionID s') rt \<and>
        (sb_SessionID s' \<in> set ids \<and> sb_LastRevision s' \<noteq> pr_Revision rt \<or> upToDate co rt s')"
      by (auto simp: upToDate_def dest: presents_update)
  qed
qed (auto simp: updateEffects_def List.map_filter_simps)

section \<open>Steps of the hub alone\<close>

definition follows :: "('m, 'i) SubscriptionHub \<Rightarrow> ('m, 'i) SubscriptionHub \<Rightarrow> bool" where
  "follows hub hub' =
     (hub_ok hub' \<and> siblings_ok hub' \<and>
      (\<forall>i s'. registered hub' i = Some s' \<longrightarrow>
         (\<exists>s. registered hub i = Some s \<and> sb_LastRevision s' = sb_LastRevision s \<and> sb_SessionID s' = sb_SessionID s \<and>
           newest s' = newest s)))"

lemma follows_restricts: "hub_ok hub' \<Longrightarrow> siblings_ok hub' \<Longrightarrow> restricts hub hub' \<Longrightarrow> follows hub hub'"
  by (auto simp: follows_def restricts_def)

lemma follows_parts:
  assumes "hub_ok hub'" and "siblings_ok hub" and "hb_ByID hub' = hb_ByID hub" and "hb_Streams hub' = hb_Streams hub"
    and "hb_BySession hub' = hb_BySession hub"
  shows "follows hub hub'"
  using assms registered_parts [OF assms(3,4)] siblings_same [OF assms(5)] by (intro follows_restricts) (simp_all add: restricts_same)

lemma follows_lease: "hub_ok hub \<Longrightarrow> siblings_ok hub \<Longrightarrow> keeps_lease f \<Longrightarrow> follows hub (onLease u f hub)"
  by (rule follows_parts) (simp_all add: onLease_ok)

lemma follows_stream:
  assumes ok: "hub_ok hub" "siblings_ok hub" and f: "keeps_stream f" "unheard f"
  shows "follows hub (onStream a f hub)"
proof -
  have "\<exists>s. registered hub i = Some s \<and> sb_LastRevision s' = sb_LastRevision s \<and> sb_SessionID s' = sb_SessionID s \<and> newest s' = newest s"
    if "registered (onStream a f hub) i = Some s'" for i s'
    using that f(2) stream_ok_registered [OF ok(1), of i] by (auto simp: registered_onStream unheard_def split: if_splits)
  with ok f(1) show ?thesis by (simp add: follows_def onStream_ok)
qed

lemma closing_parts [simp]:
  "hb_ByID (fold (\<lambda>a. onStream a g) as hub) = hb_ByID hub" "hb_BySession (fold (\<lambda>a. onStream a g) as hub) = hb_BySession hub"
  "hb_ByID (fold (\<lambda>u. onLease u f) us hub) = hb_ByID hub" "hb_BySession (fold (\<lambda>u. onLease u f) us hub) = hb_BySession hub"
  "hb_Streams (fold (\<lambda>u. onLease u f) us hub) = hb_Streams hub"
proof -
  show "hb_ByID (fold (\<lambda>a. onStream a g) as hub) = hb_ByID hub" "hb_BySession (fold (\<lambda>a. onStream a g) as hub) = hb_BySession hub"
    by (induction as arbitrary: hub) simp_all
  show "hb_ByID (fold (\<lambda>u. onLease u f) us hub) = hb_ByID hub" "hb_BySession (fold (\<lambda>u. onLease u f) us hub) = hb_BySession hub"
    "hb_Streams (fold (\<lambda>u. onLease u f) us hub) = hb_Streams hub"
    by (induction us arbitrary: hub) simp_all
qed

lemma CloseUplinks_parts [simp]:
  "hb_ByID (CloseUplinks hub) = hb_ByID hub" "hb_Streams (CloseUplinks hub) = hb_Streams hub"
  "hb_BySession (CloseUplinks hub) = hb_BySession hub"
  by (simp_all add: CloseUplinks_def)

lemma CloseAll_empty: "registered (CloseAll hub) i = None" "siblings_ok (CloseAll hub)"
  by (simp_all add: registered_def siblings_ok_def siblings_def CloseAll_def)

lemma BindUplink_parts:
  assumes "BindUplink u binding hub = Inr hub'"
  shows "hb_ByID hub' = hb_ByID hub" "hb_Streams hub' = hb_Streams hub" "hb_BySession hub' = hb_BySession hub"
  using assms by (auto simp: BindUplink_def Let_def split: if_splits option.splits)

lemma follows_bind:
  "hub_ok hub \<Longrightarrow> siblings_ok hub \<Longrightarrow> BindUplink (freshAddress (hb_Leases hub)) binding hub = Inr hub' \<Longrightarrow> follows hub hub'"
  using hub_ok_Bind [OF _ freshAddress] BindUplink_parts by (intro follows_parts) auto

lemma follows_step:
  assumes ok: "hub_ok hub" "siblings_ok hub" and "hubOnly ev"
  shows "follows hub (hubStep ev hub)"
proof -
  have okay: "hub_ok (hubStep ev hub)" by (rule hub_ok_step [OF ok(1)])
  have refl: "follows hub hub" using ok by (intro follows_restricts) simp_all
  show ?thesis
  proof (cases ev)
    case (Leave i)
    with okay ok show ?thesis by (intro follows_restricts) (simp_all add: siblings_Unregister restricts_Unregister)
  next
    case (Bind binding)
    then show ?thesis using refl follows_bind [OF ok] by (auto split: sum.split)
  next
    case (Release u)
    with okay ok show ?thesis
      by (intro follows_parts) (simp_all add: ReleaseUplink_def Let_def split: option.split)
  next
    case (Watch u)
    then show ?thesis using refl follows_lease [OF ok] by (simp split: option.split)
  next
    case RotateUplinks
    with okay ok show ?thesis by (intro follows_parts) simp_all
  next
    case CloseHub
    with okay show ?thesis by (simp add: follows_def CloseAll_empty)
  qed (use assms in \<open>simp_all add: hubOnly_def follows_stream follows_lease\<close>)
qed

section \<open>Steps of the service\<close>

definition settled :: "'w ConnectService \<Rightarrow> PlayerSystem \<Rightarrow> bool" where
  "settled service sys =
     (players_ok (sy_Runtime sys) \<and> hub_ok (sy_Hub sys) \<and> siblings_ok (sy_Hub sys) \<and>
      (\<forall>i s. registered (sy_Hub sys) i = Some s \<longrightarrow> upToDate (cs_Coordinator service) (sy_Runtime sys) s))"

text \<open>A step that keeps the streams up to date and moves the revision by \<open>n\<close> at most.\<close>

definition advances :: "'w ConnectService \<Rightarrow> nat \<Rightarrow> PlayerSystem \<Rightarrow> PlayerSystem \<Rightarrow> bool" where
  "advances service n sys sys' =
     (settled service sys' \<and> unat (pr_Revision (sy_Runtime sys')) \<le> unat (pr_Revision (sy_Runtime sys)) + n)"

lemma advances_trans: "advances service n a b \<Longrightarrow> advances service m b c \<Longrightarrow> advances service (n + m) a c"
  by (auto simp: advances_def)

lemma advances_le: "advances service n a b \<Longrightarrow> n \<le> m \<Longrightarrow> advances service m a b"
  by (auto simp: advances_def)

lemma advances_hub: "settled service sys \<Longrightarrow> follows (sy_Hub sys) (f (sy_Hub sys)) \<Longrightarrow> advances service 0 sys (onHub f sys)"
  by (fastforce simp: advances_def settled_def onHub_def follows_def upToDate_def)

lemma advances_refl [simp]: "settled service sys \<Longrightarrow> advances service n sys sys"
  by (simp add: advances_def)

text \<open>
  A transaction of the coordinator and its effects; streams registered by it may be ahead of the state before it.
\<close>

lemma advances_published:
  assumes L: "co_Terminals (cs_Coordinator service) = Some L" and tells: "tells (cs_Coordinator service) (sy_Runtime sys) x"
    and room: "unat (pr_Revision (sy_Runtime sys)) + 1 < 2 ^ 64"
    and sys: "players_ok (sy_Runtime sys)" "hub_ok (sy_Hub sys)" "siblings_ok (sy_Hub sys)"
      "\<And>i s. registered (sy_Hub sys) i = Some s \<Longrightarrow>
         upToDate (cs_Coordinator service) (sy_Runtime sys) s \<or> upToDate (cs_Coordinator service) (fst x) s"
  shows "advances service 1 sys (published x sys)"
proof -
  let ?co = "cs_Coordinator service" and ?rt = "sy_Runtime sys" and ?hub = "fold PublishEffect (snd x) (sy_Hub sys)"
  have keeps: "hasSession sess ?rt \<Longrightarrow> hasSession sess (fst x)" for sess using tells by (simp add: tells_def)
  from tells consider (kept) "pr_Revision (fst x) = pr_Revision ?rt" "view ?co (fst x) = view ?co ?rt" "plain (snd x)"
    | (moved) effects where "pr_Revision (fst x) = pr_Revision ?rt + 1" "plain effects"
        "snd x = effects @ updateEffects (pr_Revision (fst x)) (view ?co (fst x)) (sortedSessionIDs (fst x))"
    by (auto simp: tells_def)
  then have "hub_ok ?hub \<and> siblings_ok ?hub \<and> (\<forall>i s. registered ?hub i = Some s \<longrightarrow> upToDate ?co (fst x) s) \<and>
      unat (pr_Revision (fst x)) \<le> unat (pr_Revision ?rt) + 1"
  proof cases
    case kept
    have "upToDate ?co ?rt s \<Longrightarrow> upToDate ?co (fst x) s" for s
      using presents_cong [OF L kept(1,2)] keeps kept(1) by (simp add: upToDate_def)
    with sys kept show ?thesis by (auto simp: PublishEffect_plain)
  next
    case (moved effects)
    have unat: "unat (pr_Revision ?rt + 1) = unat (pr_Revision ?rt) + 1"
      using room by (simp add: unat_add_lem [THEN iffD1])
    then have nonzero: "pr_Revision (fst x) \<noteq> 0" and differ: "pr_Revision ?rt \<noteq> pr_Revision (fst x)"
      by (auto simp: moved(1))
    have known: "hasSession sess (fst x) \<longleftrightarrow> sess \<in> set (sortedSessionIDs (fst x))" for sess
      by (simp add: hasSession_def sortedSessionIDs_def set_gm_keys)
    have "hub_ok ?hub \<and> siblings_ok ?hub \<and> (\<forall>i s. registered ?hub i = Some s \<longrightarrow> upToDate ?co (fst x) s)"
      unfolding moved(3) fold_append comp_def PublishEffect_plain [OF moved(2)]
    proof (rule registered_updates [OF sys(2,3) L nonzero])
      show "\<forall>sess\<in>set (sortedSessionIDs (fst x)). hasSession sess (fst x)" by (simp add: known)
      fix i s assume "registered (sy_Hub sys) i = Some s"
      from sys(4) [OF this] show "hasSession (sb_SessionID s) (fst x) \<and>
          (sb_SessionID s \<in> set (sortedSessionIDs (fst x)) \<and> sb_LastRevision s \<noteq> pr_Revision (fst x) \<or> upToDate ?co (fst x) s)"
        using keeps differ by (auto simp: upToDate_def simp flip: known)
    qed
    with unat show ?thesis by (simp add: moved(1))
  qed
  moreover have "players_ok (fst x)" using tells sys(1) by (simp add: tells_def)
  ultimately show ?thesis by (simp add: advances_def settled_def published_def)
qed

lemma advances_settled:
  "co_Terminals (cs_Coordinator service) = Some L \<Longrightarrow> tells (cs_Coordinator service) (sy_Runtime sys) x \<Longrightarrow>
   unat (pr_Revision (sy_Runtime sys)) + 1 < 2 ^ 64 \<Longrightarrow> settled service sys \<Longrightarrow> advances service 1 sys (published x sys)"
  by (rule advances_published) (auto simp: settled_def)

lemma viewSnapshot_player:
  "viewSnapshot r handle v = Some s \<Longrightarrow> sn_PlayerState s = map_option (\<lambda>p. p\<lparr>ps_Revision := r\<rparr>) (fst v)"
  by (auto simp: viewSnapshot_def Let_def)

text \<open>The snapshot an attachment sends is what the runtime it commits shows.\<close>

lemma newStream_upToDate:
  assumes "shownTo co rt snapshot" and "players_ok rt" and "SnapshotToProto snapshot = Inr w" and "sn_PlayerState snapshot = Some player"
  shows "upToDate co rt (NewSubscription i (ps_SessionID player) (snapshotMessage w) room clientID)"
proof -
  from assms(1) obtain sess where sess: "hasSession sess rt"
    "viewSnapshot (pr_Revision rt) (sn_RecognitionHandle snapshot) (view co rt sess) = Some snapshot"
    by (auto simp: shownTo_def)
  obtain w' where w': "SnapshotToProto snapshot = Inr w'" "wsn_Revision w' = pr_Revision rt"
    "wsn_RecognitionHandle w' = sn_RecognitionHandle snapshot"
    by (rule view_snapshot_converts [OF sess(2)])
  with assms(3) have w: "wsn_Revision w = pr_Revision rt" "wsn_RecognitionHandle w = sn_RecognitionHandle snapshot" by simp_all
  from sess(2) have "sn_PlayerState snapshot = map_option (\<lambda>p. p\<lparr>ps_Revision := pr_Revision rt\<rparr>) (fst (view co rt sess))"
    by (rule viewSnapshot_player)
  then obtain p where "playerSnapshot rt sess = Some p" "ps_SessionID player = ps_SessionID p"
    using assms(4) by (cases "playerSnapshot rt sess") (auto simp: view_def)
  then have "ps_SessionID player = sess"
    using players_okD(1) [OF assms(2)] by (auto simp: playerSnapshot_def sessions_ok_def)
  then show ?thesis
    using sess assms(3) w
    by (simp add: upToDate_def presents_def newest_def wire_def NewSubscription_def snapshotMessage_def currentSnapshot_def snapshot_of_view)
qed

context settling_lifecycle begin

lemma advances_op:
  assumes L: "co_Terminals (cs_Coordinator service) = Some L" and "settled service sys" and "op \<noteq> OpShutdown"
    and room: "unat (pr_Revision (sy_Runtime sys)) + 1 < 2 ^ 64"
  shows "pred_state (returns (\<lambda>x. advances service 1 sys (published x sys))) (coordinatorOutcome (cs_Coordinator service) (sy_Runtime sys) op)"
  by (rule pred_state_weaken [OF tells_step [OF L assms(3)]])
    (simp add: returns_def advances_settled [OF L _ room assms(2)] del: One_nat_def split: option.split_asm option.split)

lemma advances_attached:
  assumes L: "co_Terminals (cs_Coordinator service) = Some L" and sys: "settled service sys"
    and room: "unat (pr_Revision (sy_Runtime sys)) + 2 < 2 ^ 64"
    and tells: "tells (cs_Coordinator service) (sy_Runtime sys) (outcome c)"
    and shown: "\<And>s. cm_Value c = Inr s \<Longrightarrow> shownTo (cs_Coordinator service) (cm_Runtime c) s"
  shows "advances service 2 sys (snd (attached service connectionID clientID c sys))"
proof -
  have step: "advances service 1 sys (published (outcome c) sys)"
    using advances_settled [OF L tells _ sys] room by simp
  show ?thesis
  proof (cases "cm_Value c")
    case (Inl e)
    then show ?thesis using advances_le [OF step] by (simp add: attached_def)
  next
    case (Inr snapshot)
    show ?thesis
    proof (cases "registerSnapshot service connectionID clientID snapshot (sy_Hub sys)")
      case None
      let ?sys = "published (outcome c) sys"
      have "settled service ?sys" "unat (pr_Revision (sy_Runtime ?sys)) + 1 < 2 ^ 64"
        using step room by (auto simp: advances_def)
      from advances_op [OF L this(1) _ this(2), of "OpDetach connectionID"]
      have "advances service 1 ?sys (published (outcome (DetachConnection (cs_Coordinator service) (sy_Runtime ?sys) connectionID)) ?sys)"
        by simp
      from advances_trans [OF step this] show ?thesis by (simp add: attached_def Inr None Let_def numeral_2_eq_2)
    next
      case (Some hub)
      then obtain w player where w: "SnapshotToProto snapshot = Inr w" "sn_PlayerState snapshot = Some player"
        "hub = addStream (newStream service connectionID (ps_SessionID player) w clientID) (sy_Hub sys)"
        by (auto simp: registerSnapshot_def split: sum.splits option.splits)
      let ?s = "newStream service connectionID (ps_SessionID player) w clientID" and ?sys = "sys\<lparr>sy_Hub := hub\<rparr>"
      have "players_ok (cm_Runtime c)" using tells sys by (simp add: tells_def settled_def)
      from newStream_upToDate [OF shown [OF Inr] this w(1,2)]
      have new: "upToDate (cs_Coordinator service) (cm_Runtime c) ?s" by (simp add: newStream_def)
      have ok: "stream_ok ?s" by (simp add: newStream_def snapshotMessage_def stream_ok_new)
      have "advances service 1 ?sys (published (outcome c) ?sys)"
        using L tells room sys new registered_addStream [OF _ _ ok, of "sy_Hub sys"]
        by (intro advances_published [OF L]) (fastforce simp: settled_def w(3))+
      then show ?thesis by (simp add: attached_def Inr Some advances_def)
    qed
  qed
qed

end

context settling_lifecycle begin

lemma advances_step:
  assumes L: "co_Terminals (cs_Coordinator service) = Some L" and sys: "settled service sys" and live: "ev \<noteq> Operate OpShutdown"
    and room: "unat (pr_Revision (sy_Runtime sys)) + 2 < 2 ^ 64"
  shows "pred_state (returns (advances service 2 sys)) (playerStep service ev sys)"
proof -
  let ?co = "cs_Coordinator service"
  have ok: "hub_ok (sy_Hub sys)" "siblings_ok (sy_Hub sys)" using sys by (simp_all add: settled_def)
  have room1: "unat (pr_Revision (sy_Runtime sys)) + 1 < 2 ^ 64" using room by simp
  have hub: "advances service 2 sys (onHub f sys)" if "follows (sy_Hub sys) (f (sy_Hub sys))" for f
    using advances_le [OF advances_hub [where f = f, OF sys that]] by simp
  have op: "pred_state (returns (\<lambda>x. advances service 2 s (published x s))) (coordinatorOutcome ?co (sy_Runtime s) op)"
    if "settled service s" "sy_Runtime s = sy_Runtime sys" "op \<noteq> OpShutdown" for op s
    using advances_op [OF L that(1,3)] room1 that(2)
    by (auto simp: returns_def elim!: pred_state_weaken advances_le split: option.splits)
  have mutation: "pred_state (\<lambda>x. advances service 2 sys (snd x)) (serveMutation service r sys)" for r
  proof (cases r)
    case (Inr m)
    show ?thesis
      using op [OF sys refl, of "OpPlayerActionForRecognition (mu_RecognitionHandle m) (mu_Command m)"]
      unfolding Inr serveMutation_def dispatchRuntimeMutation_def sum.case coordinatorOutcome.simps outcomeOf_def
      by (simp add: pred_state_fst case_prod_unfold)
  qed (simp add: serveMutation_def sys)
  show ?thesis
  proof (cases ev)
    case (Operate op')
    with op [OF sys refl, of op'] live show ?thesis by (auto elim!: pred_state_bind)
  next
    case (CallSelect request)
    show ?thesis
      using op [OF sys refl, of "OpSelectCharacterForRecognition _ _ _ _"]
      by (auto simp: CallSelect SelectCharacter_def Let_def sys split: sum.split)
  next
    case (CallAction request)
    have "pred_state (\<lambda>x. advances service 2 sys (snd x)) (serveAction service request sys)"
      using mutation sys
      by (simp add: serveAction_def Navigate_def Guess_def ActivatePattern_def SetPresentation_def split: PlayerRequest.split)
    then show ?thesis by (auto simp: CallAction elim!: pred_state_bind)
  next
    case (HubAct act)
    then show ?thesis using hub follows_step [OF ok] sys by simp
  next
    case (CallOpen open_frame)
    have "advances service 2 sys (sys\<lparr>sy_Hub := hub'\<rparr>)" if "follows (sy_Hub sys) hub'" for hub'
      using hub [of "\<lambda>_. hub'"] that by (simp add: onHub_def)
    then show ?thesis
      using follows_bind [OF ok] sys by (simp add: CallOpen openUplink_def Let_def split: sum.split UplinkError.split)
  next
    case (CallIntent u intent allowed)
    have "advances service 2 sys (onHub (onLease u f) sys)" if "keeps_lease f" for f
      by (rule hub) (rule follows_lease [OF ok that])
    then show ?thesis
      using sys by (simp add: CallIntent receiveIntent_def closeLease_def split: option.split sum.split)
  next
    case (CallSubscribe request)
    have both: "pred_state (returns (\<lambda>c. tells ?co rt (outcome c) \<and> (\<forall>s. cm_Value c = Inr s \<longrightarrow> shownTo ?co (cm_Runtime c) s)))
        (AttachSubscriptionAndRegister ?co rt i handle)" for rt i handle
      by (rule returns_both [OF tells_attach [OF L] attach_snapshot [OF L]])
    have "advances service 2 sys (snd (attached service i clientID c (sys\<lparr>sy_Sequence := n\<rparr>)))"
      if "tells ?co (sy_Runtime sys) (outcome c) \<and> (\<forall>s. cm_Value c = Inr s \<longrightarrow> shownTo ?co (cm_Runtime c) s)" for i clientID c n
      using advances_attached [OF L, of "sys\<lparr>sy_Sequence := n\<rparr>" c i clientID] that sys room by (simp add: settled_def advances_def)
    then have "pred_state (returns (\<lambda>x. advances service 2 sys (snd x))) (Subscribe service request sys)"
      by (auto simp: Subscribe_def Let_def sys intro!: pred_state_bind [OF both] split: sum.split)
        (auto simp: returns_def split: option.splits)
    then show ?thesis by (auto simp: CallSubscribe elim!: pred_state_bind)
  next
    case (Process u)
    let ?sys = "onHub (onLease u (\<lambda>l. l\<lparr>up_Mailbox := snd (takeIntent (up_Mailbox l))\<rparr>)) sys"
    have take: "advances service 2 sys ?sys" by (rule hub) (rule follows_lease [OF ok], simp)
    then have settled: "settled service ?sys" and same: "sy_Runtime ?sys = sy_Runtime sys"
      by (simp_all add: advances_def onHub_def)
    have action: "pred_state (\<lambda>c. advances service 2 sys (published (outcome c) ?sys)) (DispatchPlayerAction ?co (sy_Runtime sys) i command)" for i command
      using op [OF settled same, of "OpPlayerAction i command"]
      by (simp add: outcomeOf_def pred_state_fst case_prod_unfold same advances_def)
    have "pred_state (\<lambda>x. advances service 2 sys (snd x)) (processPresentationUplink service u sys)"
      using take sys
      by (auto simp: processPresentationUplink_def Let_def same intro!: pred_state_bind [OF action] split: option.split Taken.split sum.split)
    then show ?thesis by (auto simp: Process elim!: pred_state_bind)
  qed
qed

end

section \<open>Guarantee\<close>

context settling_lifecycle begin

lemma playerRun_current:
  assumes L: "co_Terminals (cs_Coordinator service) = Some L"
  shows "settled service sys \<Longrightarrow> Operate OpShutdown \<notin> set evs \<Longrightarrow>
    unat (pr_Revision (sy_Runtime sys)) + 2 * length evs < 2 ^ 64 \<Longrightarrow>
    pred_state (returns (settled service)) (playerRun service evs sys)"
proof (induction evs arbitrary: sys)
  case (Cons ev evs)
  then have "pred_state (returns (advances service 2 sys)) (playerStep service ev sys)"
    by (intro advances_step [OF L]) auto
  then show ?case
    unfolding playerRun.simps
    by (rule pred_state_bind) (use Cons in \<open>auto simp: advances_def split: option.split\<close>)
qed simp

end

lemma settled_new: "settled service newPlayerSystem"
  by (simp add: settled_def newPlayerSystem_def players_newProcessRuntime siblings_ok_def siblings_def registered_def
      NewSubscriptionHub_def hub_ok_new [unfolded NewSubscriptionHub_def])

text \<open>C6: Players are never shown a stale state. However subscriptions, player actions, presentation uplinks, operations of
  the Overseer and the turns of the streams interleave, short of a shutdown, every registered stream carries the
  coordinator's current revision, and the newest message on its wire or in its queue is the snapshot or the update
  that the coordinator's current state gives for the stream's session; a stream that could not take an update is not
  registered any more.\<close>

theorem player_view_current:
  assumes "co_Terminals (cs_Coordinator service) = Some (liveLifecycle live)" and "Operate OpShutdown \<notin> set evs"
    and "2 * length evs < 2 ^ 64"
  shows "pred_state (\<lambda>r. case r of None \<Rightarrow> True | Some sys \<Rightarrow>
      \<forall>i s. registered (sy_Hub sys) i = Some s \<longrightarrow> sb_LastRevision s = pr_Revision (sy_Runtime sys) \<and>
        presents (cs_Coordinator service) (sy_Runtime sys) (sb_SessionID s) (newest s))
    (playerRun service evs newPlayerSystem)"
proof -
  have "pr_Revision (sy_Runtime newPlayerSystem) = 0" by (simp add: newPlayerSystem_def newProcessRuntime_def)
  then have "pred_state (returns (settled service)) (playerRun service evs newPlayerSystem)"
    using assms(3) by (intro live_settles.playerRun_current [OF assms(1) settled_new assms(2)]) simp
  then show ?thesis
    by (rule pred_state_weaken) (auto simp: settled_def upToDate_def split: option.split)
qed

definition demo_player_service :: "nat ConnectService" where
  "demo_player_service =
     \<lparr>cs_Coordinator = demo_coordinator\<lparr>co_NextID := State_Monad.return ''id'', co_Terminals := Some (liveLifecycle
        \<lparr>sv_random = (\<lambda>_. State_Monad.return 0), sv_words = None, sv_nextGenerationID = State_Monad.return ''g1''\<rparr>)\<rparr>,
      cs_Codec = demo_codec, cs_QueueSize = 8\<rparr>"

definition demo_player_events :: "PlayerEvent list" where
  "demo_player_events = [CallSubscribe \<lparr>rqs_RecognitionHandle = None, rqs_ClientInstanceId = None, rqs_Unknown = ''''\<rparr>]"

lemma demo_player_registered:
  "case fst (run_state (playerRun demo_player_service demo_player_events newPlayerSystem) 0) of
     None \<Rightarrow> False | Some sys \<Rightarrow> registered (sy_Hub sys) ''connect-1'' \<noteq> None"
  by code_simp

lemma player_view_current_witness:
  "\<exists>sys s. fst (run_state (playerRun demo_player_service demo_player_events newPlayerSystem) 0) = Some sys \<and>
     registered (sy_Hub sys) ''connect-1'' = Some s \<and> sb_LastRevision s = pr_Revision (sy_Runtime sys) \<and>
     presents (cs_Coordinator demo_player_service) (sy_Runtime sys) (sb_SessionID s) (newest s)"
proof -
  obtain sys s where run: "fst (run_state (playerRun demo_player_service demo_player_events newPlayerSystem) 0) = Some sys"
    "registered (sy_Hub sys) ''connect-1'' = Some s"
    using demo_player_registered by (auto split: option.splits)
  have "co_Terminals (cs_Coordinator demo_player_service) = Some (liveLifecycle
      \<lparr>sv_random = (\<lambda>_. State_Monad.return 0), sv_words = None, sv_nextGenerationID = State_Monad.return ''g1''\<rparr>)"
    by (simp add: demo_player_service_def)
  moreover have "Operate OpShutdown \<notin> set demo_player_events" "2 * length demo_player_events < 2 ^ 64"
    by (simp_all add: demo_player_events_def)
  ultimately have "case fst (run_state (playerRun demo_player_service demo_player_events newPlayerSystem) 0) of
      None \<Rightarrow> True
    | Some sys \<Rightarrow> \<forall>i s. registered (sy_Hub sys) i = Some s \<longrightarrow> sb_LastRevision s = pr_Revision (sy_Runtime sys) \<and>
        presents (cs_Coordinator demo_player_service) (sy_Runtime sys) (sb_SessionID s) (newest s)"
    using player_view_current [of demo_player_service _ demo_player_events, unfolded pred_state_fst] by blast
  with run show ?thesis by auto
qed

end
