(* ===== verification/Tunnel.thy ===== *)
theory Tunnel
  imports GoText GoCodec Domain
begin

text \<open>
  Public access: the settings, status and error vocabulary of \<open>tunnel/model.go\<close>, the secret checks of
  \<open>tunnel/secret.go\<close>, the redaction of failures in \<open>tunnel/redaction.go\<close>, the conversions of
  \<open>tunnel/settings.go\<close> and the admission check of \<open>tunnel/public_ingress.go\<close>.

  The URL parser and the IP-address parser of the standard library are fields of \<open>NetPlatform\<close>.  A Go error is
  the record of what \<open>errors.Is\<close> and \<open>errors.As\<close> find in it, for the targets this package asks about.
\<close>

section \<open>Standard library functions\<close>

record ParsedURL =
  pu_Scheme :: string
  pu_Host :: string
  pu_User :: bool
  pu_RawQuery :: string
  pu_Fragment :: string
  pu_EscapedPath :: string

record NetPlatform =
  np_ToLower :: "string \<Rightarrow> string"
  np_ParseURL :: "string \<Rightarrow> ParsedURL option"
  np_ParseIP :: "string \<Rightarrow> (string \<times> bool) option"

definition containsAny :: "string \<Rightarrow> string \<Rightarrow> bool" where
  "containsAny s cs = list_ex (\<lambda>c. c \<in> set cs) s"

definition trimSuffix :: "char \<Rightarrow> string \<Rightarrow> string" where
  "trimSuffix c s = (if s \<noteq> [] \<and> last s = c then butlast s else s)"

text \<open>\<open>URL.Hostname\<close> and \<open>URL.Port\<close>: the port starts at the last colon when only digits follow it.\<close>

fun lastColon :: "string \<Rightarrow> (string \<times> string) option" where
  "lastColon [] = None"
| "lastColon (c # cs) =
     (case lastColon cs of
        Some (host, port) \<Rightarrow> Some (c # host, port)
      | None \<Rightarrow> if c = CHR '':'' then Some ([], cs) else None)"

definition splitHostPort :: "string \<Rightarrow> string \<times> string" where
  "splitHostPort hostPort =
     (let (host, port) = (case lastColon hostPort of
            Some (h, p) \<Rightarrow> if list_all is_dec_digit p then (h, p) else (hostPort, [])
          | None \<Rightarrow> (hostPort, []))
      in if host \<noteq> [] \<and> hd host = CHR ''['' \<and> last host = CHR '']'' then (butlast (tl host), port) else (host, port))"

definition urlHostname :: "ParsedURL \<Rightarrow> string" where "urlHostname u = fst (splitHostPort (pu_Host u))"

definition urlPort :: "ParsedURL \<Rightarrow> string" where "urlPort u = snd (splitHostPort (pu_Host u))"

section \<open>Domains and preferences\<close>

definition lineBreaks :: string where "lineBreaks = [CHR 0x0D, CHR 0x0A]"

definition domainForbidden :: string where
  "domainForbidden = ''/:@?#[]%'' @ [CHR 0x5C, CHR 0x0D, CHR 0x0A, CHR 0x09, CHR '' '']"

definition labelChar :: "char \<Rightarrow> bool" where
  "labelChar c = (is_dec_digit c \<or> (97 \<le> byte_val c \<and> byte_val c \<le> 122))"

text \<open>\<open>dnsLabelPattern\<close>: at most 63 characters of \<open>[a-z0-9-]\<close>, the first and the last not a hyphen.\<close>

definition dnsLabelPattern :: "string \<Rightarrow> bool" where
  "dnsLabelPattern s =
     (s \<noteq> [] \<and> length s \<le> 63 \<and> labelChar (hd s) \<and> labelChar (last s) \<and>
      list_all (\<lambda>c. labelChar c \<or> c = CHR ''-'') s)"

definition NormalizeReservedDomain :: "NetPlatform \<Rightarrow> string \<Rightarrow> string + string" where
  "NormalizeReservedDomain np raw =
     (let domain = np_ToLower np (trimSuffix (CHR ''.'') (trim_space raw)) in
      if domain = [] then Inr []
      else if 253 < length domain \<or> containsAny domain domainForbidden \<or> np_ParseIP np domain \<noteq> None
      then Inl ''reserved domain is invalid''
      else let labels = split_on (CHR ''.'') domain in
        if length labels < 2 then Inl ''reserved domain is invalid''
        else if list_all dnsLabelPattern labels then Inr domain
        else Inl ''reserved domain is invalid'')"

definition PublicAccessSettingsVersion :: "32 word" where "PublicAccessSettingsVersion = 1"

definition DefaultPlayerUsername :: string where "DefaultPlayerUsername = ''players''"

record PublicAccessPreferences =
  pr_Version :: "32 word"
  pr_EnabledPreference :: bool
  pr_ReservedDomain :: string
  pr_Username :: string
  pr_ProviderTokenPresentHint :: bool
  pr_PlayerPasswordPresentHint :: bool
  pr_Revision :: revision

definition DefaultPublicAccessPreferences :: PublicAccessPreferences where
  "DefaultPublicAccessPreferences =
     \<lparr>pr_Version = PublicAccessSettingsVersion, pr_EnabledPreference = False, pr_ReservedDomain = [],
      pr_Username = DefaultPlayerUsername, pr_ProviderTokenPresentHint = False,
      pr_PlayerPasswordPresentHint = False, pr_Revision = 0\<rparr>"

definition Normalized :: "NetPlatform \<Rightarrow> PublicAccessPreferences \<Rightarrow> string + PublicAccessPreferences" where
  "Normalized np p =
     (if pr_Version p \<noteq> PublicAccessSettingsVersion then Inl ''unsupported public-access settings version''
      else let username = trim_space (pr_Username p) in
        if username = [] \<or> containsAny username lineBreaks then Inl ''public-access username is invalid''
        else ok_bind (NormalizeReservedDomain np (pr_ReservedDomain p))
          (\<lambda>domain. Inr (p\<lparr>pr_Username := username, pr_ReservedDomain := domain\<rparr>)))"

text \<open>\<open>NormalizeEndpointURL\<close> answers the canonical URL and its host.\<close>

definition NormalizeEndpointURL :: "NetPlatform \<Rightarrow> string \<Rightarrow> string \<Rightarrow> string + string \<times> string" where
  "NormalizeEndpointURL np raw reservedDomain =
     (case np_ParseURL np raw of
        None \<Rightarrow> Inl ''provider returned an invalid HTTPS URL''
      | Some u \<Rightarrow>
          if pu_Scheme u \<noteq> ''https'' \<or> pu_Host u = [] \<or> pu_User u \<or> pu_RawQuery u \<noteq> [] \<or> pu_Fragment u \<noteq> [] \<or>
             (pu_EscapedPath u \<noteq> [] \<and> pu_EscapedPath u \<noteq> ''/'')
          then Inl ''provider returned an invalid HTTPS URL''
          else if urlPort u \<noteq> [] \<or> (pu_Host u \<noteq> urlHostname u \<and> pu_Host u \<noteq> urlHostname u @ ''.'')
          then Inl ''provider returned an invalid HTTPS authority''
          else (case NormalizeReservedDomain np (urlHostname u) of
              Inl _ \<Rightarrow> Inl ''provider returned an invalid HTTPS host''
            | Inr host \<Rightarrow>
                if reservedDomain \<noteq> [] \<and> NormalizeReservedDomain np reservedDomain \<noteq> Inr host
                then Inl ''provider did not return the requested reserved domain''
                else Inr (''https://'' @ host, host)))"

section \<open>Lifecycle, errors and status\<close>

text \<open>The enumerations of the package, with their zero values.\<close>

datatype LifecycleState =
  LifecycleUnset | LifecycleDisabled | LifecycleStarting | LifecycleReady | LifecycleStopping | LifecycleFailed

definition lifecycleValid :: "LifecycleState \<Rightarrow> bool" where "lifecycleValid s = (s \<noteq> LifecycleUnset)"

datatype ErrorCategory =
  NoError | ErrorValidation | ErrorSettingsCorrupt | ErrorSecretStoreLocked | ErrorSecretStoreDenied
| ErrorSecretStoreUnavailable | ErrorCredentialMissing | ErrorProviderAuthentication | ErrorDomainUnavailable
| ErrorNetworkUnavailable | ErrorTimeout | ErrorProviderFailure | ErrorShutdownTimeout | ErrorConflict

definition categoryValid :: "ErrorCategory \<Rightarrow> bool" where "categoryValid c = (c \<noteq> NoError)"

datatype PublicAccessDiagnosticCode = NoDiagnostic | DiagnosticPublicIngressListenFailed

definition diagnosticValid :: "PublicAccessDiagnosticCode \<Rightarrow> bool" where
  "diagnosticValid c = (c = DiagnosticPublicIngressListenFailed)"

primrec SafeMessage :: "ErrorCategory \<Rightarrow> string" where
  "SafeMessage ErrorValidation = ''Check the public-access settings and try again.''"
| "SafeMessage ErrorSettingsCorrupt = ''Saved public-access settings were reset safely.''"
| "SafeMessage ErrorSecretStoreLocked = ''Unlock the secure credential store and try again.''"
| "SafeMessage ErrorSecretStoreDenied = ''Allow secure credential store access and try again.''"
| "SafeMessage ErrorSecretStoreUnavailable =
     ''The secure credential store is unavailable; local access remains available.''"
| "SafeMessage ErrorCredentialMissing = ''Add the required credentials before starting public access.''"
| "SafeMessage ErrorProviderAuthentication = ''The provider rejected the account credential.''"
| "SafeMessage ErrorDomainUnavailable = ''The reserved domain is unavailable for this account.''"
| "SafeMessage ErrorNetworkUnavailable = ''The network is unavailable; local access remains available.''"
| "SafeMessage ErrorTimeout = ''Public access did not become ready in time.''"
| "SafeMessage ErrorProviderFailure = ''The public-access provider stopped unexpectedly.''"
| "SafeMessage ErrorShutdownTimeout = ''Public-access cleanup exceeded the shutdown deadline.''"
| "SafeMessage ErrorConflict = ''Settings changed; reload the current public-access state.''"
| "SafeMessage NoError = ''Public access is unavailable.''"

record PublicAccessStatus =
  st_State :: LifecycleState
  st_Generation :: revision
  st_SettingsRevision :: revision
  st_PublicURL :: string
  st_ErrorCategory :: ErrorCategory
  st_ErrorMessage :: string

definition plainStatus :: "LifecycleState \<Rightarrow> revision \<Rightarrow> revision \<Rightarrow> PublicAccessStatus" where
  "plainStatus s g r =
     \<lparr>st_State = s, st_Generation = g, st_SettingsRevision = r, st_PublicURL = [], st_ErrorCategory = NoError,
      st_ErrorMessage = []\<rparr>"

definition failedStatus :: "PublicAccessStatus \<Rightarrow> ErrorCategory \<Rightarrow> PublicAccessStatus" where
  "failedStatus s c =
     s\<lparr>st_State := LifecycleFailed, st_PublicURL := [], st_ErrorCategory := c, st_ErrorMessage := SafeMessage c\<rparr>"

definition ValidateStatus :: "NetPlatform \<Rightarrow> PublicAccessStatus \<Rightarrow> string option" where
  "ValidateStatus np s =
     (if \<not> lifecycleValid (st_State s) then Some ''public-access lifecycle state is invalid''
      else first_err
        [if st_State s = LifecycleReady
         then (if st_PublicURL s = [] then Some ''ready public access requires a public URL''
               else if isl (NormalizeEndpointURL np (st_PublicURL s) [])
               then Some ''ready public access has an invalid public URL'' else None)
         else if st_PublicURL s \<noteq> [] then Some ''public URL is forbidden outside ready state'' else None,
         if st_State s = LifecycleFailed
         then (if \<not> categoryValid (st_ErrorCategory s) then Some ''failed public access requires an error category'' else None)
         else if st_ErrorCategory s \<noteq> NoError \<or> st_ErrorMessage s \<noteq> []
         then Some ''public-access error is forbidden outside failed state'' else None])"

end
