(* ===== verification/TunnelAccess.thy ===== *)
theory TunnelAccess
  imports Tunnel
begin

text \<open>
  What may leave the package and who may come in: redacted failures (\<open>tunnel/redaction.go\<close>), the checks on
  secrets (\<open>tunnel/secret.go\<close>), the settings document (\<open>tunnel/settings.go\<close>) and the admission policy of the
  public ingress (\<open>tunnel/public_ingress.go\<close>).
\<close>

section \<open>Failures\<close>

text \<open>
  An error as this package sees it: for each target, what \<open>errors.As\<close> or \<open>errors.Is\<close> answers.  An error made by
  \<open>errors.New\<close> matches none of them.
\<close>

record Failure =
  fl_Category :: "ErrorCategory option"
  fl_Code :: "string option"
  fl_Diagnostic :: "PublicAccessDiagnosticCode option"
  fl_Deadline :: bool
  fl_Canceled :: bool
  fl_StoreLocked :: bool
  fl_StoreDenied :: bool
  fl_StoreCancelled :: bool
  fl_StoreUnavailable :: bool
  fl_Network :: bool

definition plainError :: Failure where
  "plainError =
     \<lparr>fl_Category = None, fl_Code = None, fl_Diagnostic = None, fl_Deadline = False, fl_Canceled = False,
      fl_StoreLocked = False, fl_StoreDenied = False, fl_StoreCancelled = False, fl_StoreUnavailable = False,
      fl_Network = False\<rparr>"

definition deadlineExceeded :: Failure where "deadlineExceeded = plainError\<lparr>fl_Deadline := True, fl_Network := True\<rparr>"

definition ErrSecretStoreUnavailable :: Failure where
  "ErrSecretStoreUnavailable = plainError\<lparr>fl_StoreUnavailable := True\<rparr>"

definition orElse :: "'a option \<Rightarrow> 'a option \<Rightarrow> 'a option" where
  "orElse a b = (case a of Some x \<Rightarrow> Some x | None \<Rightarrow> b)"

text \<open>\<open>errors.Join\<close>: the targets of either, the first error's answer first.\<close>

definition joinFailures :: "Failure \<Rightarrow> Failure \<Rightarrow> Failure" where
  "joinFailures f g =
     \<lparr>fl_Category = orElse (fl_Category f) (fl_Category g), fl_Code = orElse (fl_Code f) (fl_Code g),
      fl_Diagnostic = orElse (fl_Diagnostic f) (fl_Diagnostic g),
      fl_Deadline = (fl_Deadline f \<or> fl_Deadline g), fl_Canceled = (fl_Canceled f \<or> fl_Canceled g),
      fl_StoreLocked = (fl_StoreLocked f \<or> fl_StoreLocked g), fl_StoreDenied = (fl_StoreDenied f \<or> fl_StoreDenied g),
      fl_StoreCancelled = (fl_StoreCancelled f \<or> fl_StoreCancelled g),
      fl_StoreUnavailable = (fl_StoreUnavailable f \<or> fl_StoreUnavailable g),
      fl_Network = (fl_Network f \<or> fl_Network g)\<rparr>"

definition joinErrors :: "Failure option \<Rightarrow> Failure option \<Rightarrow> Failure option" where
  "joinErrors a b =
     (case a of None \<Rightarrow> b | Some f \<Rightarrow> (case b of None \<Rightarrow> a | Some g \<Rightarrow> Some (joinFailures f g)))"

definition categorizedError :: "ErrorCategory \<Rightarrow> string \<Rightarrow> PublicAccessDiagnosticCode \<Rightarrow> Failure" where
  "categorizedError c code diagnostic =
     plainError\<lparr>fl_Category := Some c, fl_Code := Some code, fl_Diagnostic := Some diagnostic\<rparr>"

definition ngrokPrefix :: string where "ngrokPrefix = ''ERR_NGROK_''"

definition ngrokErrorNumber :: "string \<Rightarrow> int option" where
  "ngrokErrorNumber code =
     (if take (length ngrokPrefix) code \<noteq> ngrokPrefix \<or> length code \<le> length ngrokPrefix \<or>
         length ngrokPrefix + 8 < length code
      then None
      else let number = drop (length ngrokPrefix) code in
        if list_all is_dec_digit number then atoi number else None)"

definition authenticationCodes :: "string list" where
  "authenticationCodes =
     [''ERR_NGROK_102'', ''ERR_NGROK_103'', ''ERR_NGROK_105'', ''ERR_NGROK_106'', ''ERR_NGROK_107'', ''ERR_NGROK_108'',
      ''ERR_NGROK_109'', ''ERR_NGROK_115'', ''ERR_NGROK_116'', ''ERR_NGROK_118'', ''ERR_NGROK_121'', ''ERR_NGROK_122'',
      ''ERR_NGROK_123'', ''ERR_NGROK_127'', ''ERR_NGROK_200'', ''ERR_NGROK_201'', ''ERR_NGROK_202'', ''ERR_NGROK_203'',
      ''ERR_NGROK_300'']"

definition domainCodes :: "string list" where
  "domainCodes =
     [''ERR_NGROK_307'', ''ERR_NGROK_308'', ''ERR_NGROK_309'', ''ERR_NGROK_310'', ''ERR_NGROK_311'', ''ERR_NGROK_312'',
      ''ERR_NGROK_313'', ''ERR_NGROK_314'', ''ERR_NGROK_315'', ''ERR_NGROK_316'', ''ERR_NGROK_317'', ''ERR_NGROK_318'',
      ''ERR_NGROK_319'', ''ERR_NGROK_320'', ''ERR_NGROK_321'', ''ERR_NGROK_322'', ''ERR_NGROK_401'', ''ERR_NGROK_415'',
      ''ERR_NGROK_417'', ''ERR_NGROK_430'']"

definition validationCodes :: "string list" where
  "validationCodes =
     [''ERR_NGROK_2257'', ''ERR_NGROK_2258'', ''ERR_NGROK_2261'', ''ERR_NGROK_9025'', ''ERR_NGROK_9026'',
      ''ERR_NGROK_15008'', ''ERR_NGROK_15009'', ''ERR_NGROK_15011'']"

definition ngrokErrorCategory :: "string \<Rightarrow> ErrorCategory" where
  "ngrokErrorCategory code =
     (if code \<in> set authenticationCodes then ErrorProviderAuthentication
      else if code \<in> set domainCodes then ErrorDomainUnavailable
      else if code \<in> set validationCodes then ErrorValidation
      else (case ngrokErrorNumber code of
          Some number \<Rightarrow> if 8000 \<le> number \<and> number \<le> 8010 then ErrorNetworkUnavailable else ErrorProviderFailure
        | None \<Rightarrow> ErrorProviderFailure))"

definition safeProviderErrorCode :: "Failure \<Rightarrow> string" where
  "safeProviderErrorCode f =
     (case fl_Code f of None \<Rightarrow> [] | Some code \<Rightarrow> if ngrokErrorNumber code = None then [] else code)"

definition safePublicAccessMessage :: "ErrorCategory \<Rightarrow> string \<Rightarrow> string" where
  "safePublicAccessMessage category providerCode =
     (if ngrokErrorNumber providerCode = None then SafeMessage category
      else trimSuffix (CHR ''.'') (SafeMessage category) @ '' ('' @ providerCode @ '').'')"

definition redactedPublicAccessFailure :: "Failure \<Rightarrow> ErrorCategory \<times> string" where
  "redactedPublicAccessFailure f =
     (let category =
        (case fl_Category f of
           Some c \<Rightarrow> if categoryValid c then c else NoError
         | None \<Rightarrow> NoError);
        category =
         (if category \<noteq> NoError then category
          else if fl_Deadline f \<or> fl_Canceled f then ErrorTimeout
          else if fl_StoreLocked f then ErrorSecretStoreLocked
          else if fl_StoreDenied f \<or> fl_StoreCancelled f then ErrorSecretStoreDenied
          else if fl_StoreUnavailable f then ErrorSecretStoreUnavailable
          else (case fl_Code f of
              Some code \<Rightarrow> ngrokErrorCategory code
            | None \<Rightarrow> if fl_Network f then ErrorNetworkUnavailable else ErrorProviderFailure))
      in (category, safePublicAccessMessage category (safeProviderErrorCode f)))"

definition newRedactedPublicAccessError :: "Failure \<Rightarrow> Failure" where
  "newRedactedPublicAccessError f =
     categorizedError (fst (redactedPublicAccessFailure f)) (safeProviderErrorCode f) NoDiagnostic"

definition safePublicAccessDiagnosticCode :: "Failure \<Rightarrow> PublicAccessDiagnosticCode" where
  "safePublicAccessDiagnosticCode f =
     (case fl_Diagnostic f of
        None \<Rightarrow> NoDiagnostic
      | Some code \<Rightarrow> if diagnosticValid code then code else NoDiagnostic)"

definition publicIngressListenFailure :: "Failure \<Rightarrow> Failure" where
  "publicIngressListenFailure f =
     categorizedError (fst (redactedPublicAccessFailure f)) [] DiagnosticPublicIngressListenFailed"

text \<open>\<open>publicAccessEndpointFailure\<close>: the endpoint may or may not keep the failure that ended it.\<close>

definition publicAccessEndpointFailure :: "Failure option \<Rightarrow> ErrorCategory \<times> string" where
  "publicAccessEndpointFailure failure =
     (case failure of
        None \<Rightarrow> (ErrorProviderFailure, SafeMessage ErrorProviderFailure)
      | Some f \<Rightarrow> redactedPublicAccessFailure f)"

definition secretErrorCategory :: "Failure \<Rightarrow> ErrorCategory" where
  "secretErrorCategory f =
     (if fl_StoreLocked f then ErrorSecretStoreLocked
      else if fl_StoreDenied f \<or> fl_StoreCancelled f then ErrorSecretStoreDenied
      else ErrorSecretStoreUnavailable)"

definition secretStoreFailureCategory :: "ErrorCategory \<Rightarrow> bool" where
  "secretStoreFailureCategory c =
     (c = ErrorSecretStoreLocked \<or> c = ErrorSecretStoreDenied \<or> c = ErrorSecretStoreUnavailable)"

section \<open>Secrets\<close>

datatype SecretPresence = SecretUnset | SecretAbsent | SecretPresent | SecretUnknown

definition secretBreaks :: string where "secretBreaks = [CHR 0x00, CHR 0x0D, CHR 0x0A]"

definition MinimumPlayerPasswordBytes :: nat where "MinimumPlayerPasswordBytes = 8"

definition MaximumPlayerPasswordBytes :: nat where "MaximumPlayerPasswordBytes = 128"

definition GeneratedPasswordEntropyBytes :: nat where "GeneratedPasswordEntropyBytes = 16"

definition ValidateProviderToken :: "string \<Rightarrow> bool" where
  "ValidateProviderToken v = (v \<noteq> [] \<and> \<not> containsAny v secretBreaks)"

definition ValidatePlayerPassword :: "string \<Rightarrow> bool" where
  "ValidatePlayerPassword v =
     (valid_utf8 v \<and> MinimumPlayerPasswordBytes \<le> rune_count v \<and> \<not> containsAny v secretBreaks)"

text \<open>\<open>GeneratePlayerPassword\<close>: what the random source gave, or \<open>None\<close> when \<open>io.ReadFull\<close> failed.\<close>

definition GeneratePlayerPassword :: "(nat \<Rightarrow> string option) \<Rightarrow> string + string" where
  "GeneratePlayerPassword source =
     (case source GeneratedPasswordEntropyBytes of
        None \<Rightarrow> Inl ''generate player password: cryptographic random source unavailable''
      | Some entropy \<Rightarrow> Inr (raw_url_encode entropy))"

definition redactSecretStoreError :: "Failure \<Rightarrow> Failure" where
  "redactSecretStoreError f =
     (if fl_StoreLocked f then plainError\<lparr>fl_StoreLocked := True\<rparr>
      else if fl_StoreDenied f then plainError\<lparr>fl_StoreDenied := True\<rparr>
      else if fl_StoreCancelled f then plainError\<lparr>fl_StoreCancelled := True\<rparr>
      else ErrSecretStoreUnavailable)"

datatype SecretRef = ProviderAccountToken | PlayerBasicAuthPassword

primrec validateSecret :: "SecretRef \<Rightarrow> string \<Rightarrow> bool" where
  "validateSecret ProviderAccountToken v = ValidateProviderToken v"
| "validateSecret PlayerBasicAuthPassword v = ValidatePlayerPassword v"

text \<open>A secure-store call: \<open>stored\<close> is what the store answered.\<close>

definition ReplaceSecret :: "SecretRef \<Rightarrow> string \<Rightarrow> Failure option \<Rightarrow> Failure option" where
  "ReplaceSecret ref v stored =
     (if \<not> validateSecret ref v then Some plainError else map_option redactSecretStoreError stored)"

definition DeleteSecret :: "Failure option \<Rightarrow> Failure option" where
  "DeleteSecret stored = map_option redactSecretStoreError stored"

text \<open>\<open>WithPublicAccessSecrets\<close>: the store fails, or gives both secrets to the callback.  The callback's own
  error is returned as it is.\<close>

definition WithPublicAccessSecrets ::
    "Failure + string \<times> string \<Rightarrow> (string \<Rightarrow> string \<Rightarrow> Failure + 'a) \<Rightarrow> Failure + 'a" where
  "WithPublicAccessSecrets stored callback =
     (case stored of
        Inl f \<Rightarrow> Inl (redactSecretStoreError f)
      | Inr (token, password) \<Rightarrow>
          if \<not> ValidateProviderToken token \<or> \<not> ValidatePlayerPassword password
          then Inl (redactSecretStoreError plainError)
          else callback token password)"

section \<open>The settings document\<close>

record SettingsDocument =
  sd_Version :: "32 word"
  sd_EnabledPreference :: bool
  sd_ReservedDomain :: "string option"
  sd_Username :: string
  sd_ProviderTokenPresentHint :: bool
  sd_PlayerPasswordPresentHint :: bool
  sd_Revision :: revision

definition settingsDocument :: "PublicAccessPreferences \<Rightarrow> SettingsDocument" where
  "settingsDocument p =
     \<lparr>sd_Version = pr_Version p, sd_EnabledPreference = pr_EnabledPreference p,
      sd_ReservedDomain = (if pr_ReservedDomain p \<noteq> [] then Some (pr_ReservedDomain p) else None),
      sd_Username = pr_Username p, sd_ProviderTokenPresentHint = pr_ProviderTokenPresentHint p,
      sd_PlayerPasswordPresentHint = pr_PlayerPasswordPresentHint p, sd_Revision = pr_Revision p\<rparr>"

definition native :: "SettingsDocument \<Rightarrow> PublicAccessPreferences" where
  "native d =
     \<lparr>pr_Version = sd_Version d, pr_EnabledPreference = sd_EnabledPreference d,
      pr_ReservedDomain = (case sd_ReservedDomain d of None \<Rightarrow> [] | Some domain \<Rightarrow> domain),
      pr_Username = sd_Username d, pr_ProviderTokenPresentHint = sd_ProviderTokenPresentHint d,
      pr_PlayerPasswordPresentHint = sd_PlayerPasswordPresentHint d, pr_Revision = sd_Revision d\<rparr>"

text \<open>The message of the desktop contract has the fields of the document.\<close>

definition PreferencesToProto :: "PublicAccessPreferences \<Rightarrow> SettingsDocument" where
  "PreferencesToProto p =
     \<lparr>sd_Version = pr_Version p, sd_EnabledPreference = pr_EnabledPreference p,
      sd_ReservedDomain = (if pr_ReservedDomain p \<noteq> [] then Some (pr_ReservedDomain p) else None),
      sd_Username = pr_Username p, sd_ProviderTokenPresentHint = pr_ProviderTokenPresentHint p,
      sd_PlayerPasswordPresentHint = pr_PlayerPasswordPresentHint p, sd_Revision = pr_Revision p\<rparr>"

definition PreferencesFromProto :: "NetPlatform \<Rightarrow> SettingsDocument option \<Rightarrow> string + PublicAccessPreferences" where
  "PreferencesFromProto np message =
     (case message of
        None \<Rightarrow> Inl ''public-access preferences are missing''
      | Some m \<Rightarrow> Normalized np
          \<lparr>pr_Version = sd_Version m, pr_EnabledPreference = sd_EnabledPreference m,
           pr_ReservedDomain = (case sd_ReservedDomain m of None \<Rightarrow> [] | Some domain \<Rightarrow> domain),
           pr_Username = sd_Username m, pr_ProviderTokenPresentHint = sd_ProviderTokenPresentHint m,
           pr_PlayerPasswordPresentHint = sd_PlayerPasswordPresentHint m, pr_Revision = sd_Revision m\<rparr>)"

section \<open>Admission\<close>

record ingressAuthorization =
  ia_host :: string
  ia_usernameDigest :: "nat list"
  ia_passwordDigest :: "nat list"

definition ingressUserForbidden :: string where
  "ingressUserForbidden = [CHR '':'', CHR 0x00, CHR 0x0D, CHR 0x0A]"

text \<open>
  \<open>normalizeIngressHost\<close>: an authority with a port must be a loopback address.  \<open>split\<close> is
  \<open>net.SplitHostPort\<close>; \<open>np_ParseIP\<close> answers the canonical text of an address and whether it is loopback.
\<close>

definition joinHostPort :: "string \<Rightarrow> string \<Rightarrow> string" where
  "joinHostPort host port =
     (if containsAny host '':'' then ''['' @ host @ '']:'' @ port else host @ '':'' @ port)"

definition normalizeIngressHost :: "NetPlatform \<Rightarrow> (string \<Rightarrow> (string \<times> string) option) \<Rightarrow> string \<Rightarrow> string + string" where
  "normalizeIngressHost np split raw0 =
     (let raw = trim_space raw0 in
      if containsAny raw '':''
      then (case split raw of
          None \<Rightarrow> Inl ''public Host authority is invalid''
        | Some (host, port) \<Rightarrow>
            (case (np_ParseIP np host, atoi port) of
               (Some (ip, True), Some n) \<Rightarrow>
                 if n \<le> 0 \<or> 65535 < n then Inl ''public Host authority is invalid'' else Inr (joinHostPort ip (itoa n))
             | _ \<Rightarrow> Inl ''public Host authority is invalid''))
      else NormalizeReservedDomain np raw)"

definition Activate ::
    "NetPlatform \<Rightarrow> (string \<Rightarrow> (string \<times> string) option) \<Rightarrow> string \<Rightarrow> string \<Rightarrow> string \<Rightarrow> Failure + ingressAuthorization" where
  "Activate np split host username0 password =
     (case normalizeIngressHost np split host of
        Inl _ \<Rightarrow> Inl plainError
      | Inr normalizedHost \<Rightarrow>
          let username = trim_space username0 in
          if username = [] \<or> containsAny username ingressUserForbidden \<or> \<not> ValidatePlayerPassword password \<or>
             MaximumPlayerPasswordBytes < length password
          then Inl plainError
          else Inr \<lparr>ia_host = normalizedHost, ia_usernameDigest = sha256 username, ia_passwordDigest = sha256 password\<rparr>)"

record IngressRequest =
  ir_Host :: string
  ir_BasicAuth :: "(string \<times> string) option"

datatype Admission = AdmissionNotFound | AdmissionMisdirected | AdmissionUnauthorized | AdmissionForward

definition serve ::
    "NetPlatform \<Rightarrow> (string \<Rightarrow> (string \<times> string) option) \<Rightarrow> ingressAuthorization option \<Rightarrow> IngressRequest \<Rightarrow> Admission" where
  "serve np split policy request =
     (case policy of
        None \<Rightarrow> AdmissionNotFound
      | Some p \<Rightarrow>
          if normalizeIngressHost np split (ir_Host request) \<noteq> Inr (ia_host p) then AdmissionMisdirected
          else (case ir_BasicAuth request of
              None \<Rightarrow> AdmissionUnauthorized
            | Some (username, password) \<Rightarrow>
                if sha256 username = ia_usernameDigest p \<and> sha256 password = ia_passwordDigest p
                then AdmissionForward else AdmissionUnauthorized))"

end
