(* ===== verification/TunnelManager.thy ===== *)
theory TunnelManager
  imports TunnelAccess
begin

text \<open>
  \<open>PublicAccessManager\<close> of \<open>tunnel/manager.go\<close>.  The manager runs many goroutines: every call of \<open>Start\<close>,
  \<open>Stop\<close> and \<open>Reconfigure\<close>, the goroutine that launches the ingress and the provider, the one that disposes
  of a late start and the monitor of a running endpoint.  What a goroutine has still to do is kept in the
  operation object it belongs to.  One step is one stretch of code between two points where another goroutine
  can run: a section under the lock \<open>mu\<close>, or an answer from the provider, the ingress, the stores or a context.

  Operations, endpoints and ingresses are named by their position in the tables of \<open>World\<close>; \<open>nil\<close> is \<open>None\<close>.
\<close>

section \<open>The manager and its operations\<close>

type_synonym OpID = nat
type_synonym EndpointID = nat
type_synonym IngressID = nat

record PublicAccessSnapshot =
  sn_Preferences :: PublicAccessPreferences
  sn_ProviderTokenPresence :: SecretPresence
  sn_PlayerPasswordPresence :: SecretPresence
  sn_Status :: PublicAccessStatus

record PublicAccessResult =
  re_OK :: bool
  re_Error :: string
  re_DiagnosticCode :: PublicAccessDiagnosticCode
  re_Snapshot :: PublicAccessSnapshot

text \<open>\<open>startResponse\<close> and the goroutine that produces it.\<close>

record startResponse =
  sr_endpoint :: "EndpointID option"
  sr_ingress :: "IngressID option"
  sr_canonicalURL :: string
  sr_err :: "Failure option"

datatype Launch =
  LaunchIngress
| LaunchTunnel IngressID
| LaunchReturned IngressID EndpointID string string string
| LaunchActivating IngressID EndpointID string string string
| LaunchDone startResponse
| LaunchTaken

text \<open>The goroutine that called \<open>Start\<close>, and the disposal or the monitor it hands over to.\<close>

datatype Driver =
  Selecting
| Finishing startResponse
| Discarding "EndpointID option" "IngressID option" PublicAccessResult bool
| Settling PublicAccessResult bool
| Disposing
| DisposeClosing "EndpointID option" "IngressID option"
| DisposeSettling
| Monitoring EndpointID IngressID
| Cleaning EndpointID IngressID
| DriverEnded

record startOperation =
  so_settled :: bool
  so_generation :: revision
  so_revision :: revision
  so_preferences :: PublicAccessPreferences
  so_canceled :: bool
  so_result :: "PublicAccessResult option"
  so_launch :: Launch
  so_driver :: Driver

datatype StopStage =
  StopDraining "OpID option" "EndpointID option" "IngressID option"
| StopClosing "EndpointID option" "IngressID option"
| StopEnding "EndpointID option" "IngressID option" "Failure option"
| StopEnded

record stopOperation =
  sp_generation :: revision
  sp_stage :: StopStage
  sp_result :: "PublicAccessResult option"

record SecretMutation =
  sm_Replacement :: string
  sm_Delete :: bool

record PublicAccessMutation =
  mu_ExpectedRevision :: revision
  mu_Preferences :: PublicAccessPreferences
  mu_PersistVisibleOverrides :: bool
  mu_ProviderToken :: SecretMutation
  mu_PlayerPassword :: SecretMutation

datatype ReconfigureStage =
  ReconfigureDraining "OpID option" "EndpointID option" "IngressID option"
| ReconfigureClosing "EndpointID option" "IngressID option"
| ReconfigureClosed "EndpointID option" "IngressID option"
| ReconfigureChanging
| ReconfigureSaved PublicAccessPreferences SecretPresence SecretPresence
| ReconfigureFailing ErrorCategory
| ReconfigureRestarting revision
| ReconfigureClearing revision
| ReconfigureJoining OpID bool
| ReconfigureEnding "PublicAccessResult option"
| ReconfigureEnded

record reconfigureOperation =
  rc_expectedRevision :: revision
  rc_generation :: revision
  rc_mutation :: PublicAccessMutation
  rc_wasActive :: bool
  rc_stage :: ReconfigureStage
  rc_result :: "PublicAccessResult option"

record Manager =
  pm_preferences :: PublicAccessPreferences
  pm_provider :: SecretPresence
  pm_password :: SecretPresence
  pm_status :: PublicAccessStatus
  pm_endpoint :: "EndpointID option"
  pm_ingress :: "IngressID option"
  pm_start :: "OpID option"
  pm_pendingStart :: "OpID option"
  pm_cleanup :: "OpID option"
  pm_stop :: "OpID option"
  pm_reconfigure :: "OpID option"

text \<open>
  The ingress objects with their admission policy, and whether a resource was closed without an error.
  \<open>pw_closers\<close> are the calls of \<open>Start\<close> that close a runtime left behind; \<open>pw_published\<close> collects the
  snapshots given to the publisher, which are published outside the lock.
\<close>

record IngressState =
  ig_policy :: "ingressAuthorization option"
  ig_open :: bool

record PublicWorld =
  pw_manager :: Manager
  pw_starts :: "startOperation list"
  pw_stops :: "stopOperation list"
  pw_reconfigures :: "reconfigureOperation list"
  pw_closers :: "(EndpointID option \<times> IngressID option \<times> OpID option) option list"
  pw_endpoints :: "bool list"
  pw_ingresses :: "IngressState list"
  pw_published :: "PublicAccessSnapshot list"

record PublicEnv =
  pe_Net :: NetPlatform
  pe_SplitHostPort :: "string \<Rightarrow> (string \<times> string) option"

section \<open>Small steps under the lock\<close>

definition modifyManager :: "(Manager \<Rightarrow> Manager) \<Rightarrow> PublicWorld \<Rightarrow> PublicWorld" where
  "modifyManager f w = w\<lparr>pw_manager := f (pw_manager w)\<rparr>"

definition updateStart :: "OpID \<Rightarrow> (startOperation \<Rightarrow> startOperation) \<Rightarrow> PublicWorld \<Rightarrow> PublicWorld" where
  "updateStart i f w = w\<lparr>pw_starts := (pw_starts w)[i := f (pw_starts w ! i)]\<rparr>"

definition updateStop :: "OpID \<Rightarrow> (stopOperation \<Rightarrow> stopOperation) \<Rightarrow> PublicWorld \<Rightarrow> PublicWorld" where
  "updateStop k f w = w\<lparr>pw_stops := (pw_stops w)[k := f (pw_stops w ! k)]\<rparr>"

definition updateReconfigure :: "OpID \<Rightarrow> (reconfigureOperation \<Rightarrow> reconfigureOperation) \<Rightarrow> PublicWorld \<Rightarrow> PublicWorld" where
  "updateReconfigure r f w = w\<lparr>pw_reconfigures := (pw_reconfigures w)[r := f (pw_reconfigures w ! r)]\<rparr>"

definition driveTo :: "OpID \<Rightarrow> Driver \<Rightarrow> PublicWorld \<Rightarrow> PublicWorld" where
  "driveTo i d = updateStart i (\<lambda>op. op\<lparr>so_driver := d\<rparr>)"

definition launchTo :: "OpID \<Rightarrow> Launch \<Rightarrow> PublicWorld \<Rightarrow> PublicWorld" where
  "launchTo i l = updateStart i (\<lambda>op. op\<lparr>so_launch := l\<rparr>)"

definition snapshotLocked :: "Manager \<Rightarrow> PublicAccessSnapshot" where
  "snapshotLocked m =
     \<lparr>sn_Preferences = pm_preferences m, sn_ProviderTokenPresence = pm_provider m,
      sn_PlayerPasswordPresence = pm_password m, sn_Status = pm_status m\<rparr>"

definition resultLocked :: "bool \<Rightarrow> Manager \<Rightarrow> PublicAccessResult" where
  "resultLocked ok m =
     \<lparr>re_OK = ok,
      re_Error = (if ok then [] else if st_ErrorMessage (pm_status m) = [] then SafeMessage ErrorProviderFailure
                  else st_ErrorMessage (pm_status m)),
      re_DiagnosticCode = NoDiagnostic, re_Snapshot = snapshotLocked m\<rparr>"

definition conflictResultLocked :: "Manager \<Rightarrow> PublicAccessResult" where
  "conflictResultLocked m =
     \<lparr>re_OK = False, re_Error = SafeMessage ErrorConflict, re_DiagnosticCode = NoDiagnostic,
      re_Snapshot = (snapshotLocked m)\<lparr>sn_Status := failedStatus (pm_status m) ErrorConflict\<rparr>\<rparr>"

definition emit :: "PublicAccessSnapshot \<Rightarrow> PublicWorld \<Rightarrow> PublicWorld" where
  "emit s w = w\<lparr>pw_published := pw_published w @ [s]\<rparr>"

definition emitCurrent :: "PublicWorld \<Rightarrow> PublicWorld" where
  "emitCurrent w = emit (snapshotLocked (pw_manager w)) w"

definition setStatus :: "PublicAccessStatus \<Rightarrow> PublicWorld \<Rightarrow> PublicWorld" where
  "setStatus s = modifyManager (\<lambda>m. m\<lparr>pm_status := s\<rparr>)"

text \<open>\<open>failedStatus\<close> with the redacted message of a failure.\<close>

definition failWith :: "PublicAccessStatus \<Rightarrow> ErrorCategory \<times> string \<Rightarrow> PublicAccessStatus" where
  "failWith s failure = (failedStatus s (fst failure))\<lparr>st_ErrorMessage := snd failure\<rparr>"

text \<open>A failed close is a shutdown timeout when a deadline or a cancellation is behind it.\<close>

definition closeFailure :: "Failure \<Rightarrow> ErrorCategory \<times> string" where
  "closeFailure f =
     (if fl_Deadline f \<or> fl_Canceled f then (ErrorShutdownTimeout, snd (redactedPublicAccessFailure f))
      else redactedPublicAccessFailure f)"

definition deny :: "IngressID option \<Rightarrow> PublicWorld \<Rightarrow> PublicWorld" where
  "deny ing w =
     (case ing of
        None \<Rightarrow> w
      | Some j \<Rightarrow> w\<lparr>pw_ingresses := (pw_ingresses w)[j := (pw_ingresses w ! j)\<lparr>ig_policy := None\<rparr>]\<rparr>)"

text \<open>
  \<open>closePublicAccessRuntime\<close> with the answers of the two \<open>Close\<close> calls, each of which may also be the end of
  the bounded cleanup context.
\<close>

definition closeOwned :: "EndpointID option \<Rightarrow> IngressID option \<Rightarrow> Failure option \<Rightarrow> Failure option \<Rightarrow> PublicWorld \<Rightarrow> PublicWorld" where
  "closeOwned ep ing epErr ingErr w =
     (let w = deny ing w;
        w = (case (ep, epErr) of
               (Some e, None) \<Rightarrow> w\<lparr>pw_endpoints := (pw_endpoints w)[e := False]\<rparr>
             | _ \<Rightarrow> w)
      in (case (ing, ingErr) of
            (Some j, None) \<Rightarrow> w\<lparr>pw_ingresses := (pw_ingresses w)[j := (pw_ingresses w ! j)\<lparr>ig_open := False\<rparr>]\<rparr>
          | _ \<Rightarrow> w))"

definition closeError :: "EndpointID option \<Rightarrow> IngressID option \<Rightarrow> Failure option \<Rightarrow> Failure option \<Rightarrow> Failure option" where
  "closeError ep ing epErr ingErr =
     joinErrors (if ep = None then None else epErr) (if ing = None then None else ingErr)"

definition releaseRuntime :: "EndpointID option \<Rightarrow> IngressID option \<Rightarrow> PublicWorld \<Rightarrow> PublicWorld" where
  "releaseRuntime ep ing = modifyManager (\<lambda>m.
     m\<lparr>pm_endpoint := (if pm_endpoint m = ep then None else pm_endpoint m),
       pm_ingress := (if pm_ingress m = ing then None else pm_ingress m)\<rparr>)"

definition retainRuntimeAfterFailedCleanup :: "EndpointID option \<Rightarrow> IngressID option \<Rightarrow> PublicWorld \<Rightarrow> PublicWorld" where
  "retainRuntimeAfterFailedCleanup ep ing = modifyManager (\<lambda>m.
     m\<lparr>pm_endpoint := (if pm_endpoint m = None then ep else pm_endpoint m),
       pm_ingress := (if pm_ingress m = None then ing else pm_ingress m)\<rparr>)"

definition completeStartLocked :: "OpID \<Rightarrow> PublicAccessResult \<Rightarrow> PublicWorld \<Rightarrow> PublicWorld" where
  "completeStartLocked i result w =
     (if so_result (pw_starts w ! i) \<noteq> None then w
      else modifyManager (\<lambda>m. m\<lparr>pm_start := (if pm_start m = Some i then None else pm_start m)\<rparr>)
             (updateStart i (\<lambda>op. op\<lparr>so_result := Some result\<rparr>) w))"

definition settleStartLocked :: "OpID \<Rightarrow> PublicWorld \<Rightarrow> PublicWorld" where
  "settleStartLocked i w =
     modifyManager (\<lambda>m. m\<lparr>pm_pendingStart := (if pm_pendingStart m = Some i then None else pm_pendingStart m)\<rparr>)
       (updateStart i (\<lambda>op. op\<lparr>so_settled := True\<rparr>) w)"

definition completeReconfigureLocked :: "OpID \<Rightarrow> PublicAccessResult \<Rightarrow> PublicWorld \<Rightarrow> PublicWorld" where
  "completeReconfigureLocked r result w =
     (if rc_result (pw_reconfigures w ! r) \<noteq> None then w
      else modifyManager (\<lambda>m. m\<lparr>pm_reconfigure := (if pm_reconfigure m = Some r then None else pm_reconfigure m)\<rparr>)
             (updateReconfigure r (\<lambda>op. op\<lparr>rc_result := Some result, rc_stage := ReconfigureEnded\<rparr>) w))"

section \<open>Start\<close>

datatype StartOutcome =
  StartWaits
| StartReturns PublicAccessResult
| StartJoins OpID
| StartCloses "EndpointID option" "IngressID option"
| StartLaunches OpID

definition newStart :: "Manager \<Rightarrow> startOperation" where
  "newStart m =
     \<lparr>so_settled = False, so_generation = st_Generation (pm_status m) + 1, so_revision = pr_Revision (pm_preferences m),
      so_preferences = pm_preferences m, so_canceled = False, so_result = None, so_launch = LaunchIngress,
      so_driver = Selecting\<rparr>"

text \<open>
  The first section of \<open>startPublicAccess\<close>: it waits for a reconfiguration it is not part of, for a start that
  is still being disposed of, and for a cleanup; \<open>StartWaits\<close> is one of these waits, after which the call enters
  the section again.
\<close>

definition startSection :: "revision \<Rightarrow> OpID option \<Rightarrow> PublicWorld \<Rightarrow> StartOutcome \<times> PublicWorld" where
  "startSection expectedRevision owner w =
     (let m = pw_manager w; s = pm_status m in
      if pm_reconfigure m \<noteq> None \<and> pm_reconfigure m \<noteq> owner then (StartWaits, w)
      else if pm_pendingStart m \<noteq> None \<and> st_State s \<noteq> LifecycleStarting then (StartWaits, w)
      else if pm_cleanup m \<noteq> None then (StartWaits, w)
      else if expectedRevision \<noteq> pr_Revision (pm_preferences m) then (StartReturns (conflictResultLocked m), w)
      else if st_State s = LifecycleReady then (StartReturns (resultLocked True m), w)
      else if st_State s = LifecycleStarting \<and> pm_start m \<noteq> None then (StartJoins (the (pm_start m)), w)
      else if pm_provider m \<noteq> SecretPresent \<or> pm_password m \<noteq> SecretPresent
      then let category =
             (if (pm_provider m = SecretUnknown \<or> pm_password m = SecretUnknown) \<and>
                 secretStoreFailureCategory (st_ErrorCategory s)
              then st_ErrorCategory s else ErrorCredentialMissing);
             w = setStatus (failedStatus (s\<lparr>st_Generation := st_Generation s + 1\<rparr>) category) w
           in (StartReturns (resultLocked False (pw_manager w)), emitCurrent w)
      else if pm_endpoint m \<noteq> None \<or> pm_ingress m \<noteq> None
      then (StartCloses (pm_endpoint m) (pm_ingress m), deny (pm_ingress m) w)
      else let i = length (pw_starts w); op = newStart m;
             w = w\<lparr>pw_starts := pw_starts w @ [op]\<rparr>;
             w = modifyManager (\<lambda>m. m\<lparr>pm_start := Some i, pm_pendingStart := Some i,
                   pm_status := plainStatus LifecycleStarting (so_generation op) (so_revision op)\<rparr>) w
           in (StartLaunches i, emitCurrent w))"

text \<open>Closing a runtime left behind, outside the lock, and the section after it.\<close>

definition startClosed ::
    "EndpointID option \<Rightarrow> IngressID option \<Rightarrow> Failure option \<Rightarrow> Failure option \<Rightarrow> PublicWorld \<Rightarrow> PublicAccessResult option \<times> PublicWorld" where
  "startClosed ep ing epErr ingErr w =
     (let w = closeOwned ep ing epErr ingErr w in
      case closeError ep ing epErr ingErr of
        None \<Rightarrow> (None, releaseRuntime ep ing w)
      | Some f \<Rightarrow>
          let w = setStatus (failWith (pm_status (pw_manager w)) (closeFailure f)) w
          in (Some (resultLocked False (pw_manager w)), emitCurrent w))"

section \<open>The launch\<close>

definition launchFailed :: "EndpointID option \<Rightarrow> IngressID option \<Rightarrow> Failure \<Rightarrow> startResponse" where
  "launchFailed ep ing f = \<lparr>sr_endpoint = ep, sr_ingress = ing, sr_canonicalURL = [], sr_err = Some f\<rparr>"

text \<open>The factory starts an ingress in deny-all mode, or fails.\<close>

definition launchIngress :: "OpID \<Rightarrow> Failure option \<Rightarrow> PublicWorld \<Rightarrow> PublicWorld" where
  "launchIngress i failure w =
     (case failure of
        Some f \<Rightarrow> launchTo i (LaunchDone (launchFailed None None f)) w
      | None \<Rightarrow>
          launchTo i (LaunchTunnel (length (pw_ingresses w)))
            (w\<lparr>pw_ingresses := pw_ingresses w @ [\<lparr>ig_policy = None, ig_open = True\<rparr>]\<rparr>))"

text \<open>
  The scoped callback up to the check of the start context: \<open>provider\<close> is what the tunnel service answers,
  an error or an endpoint with its URL.
\<close>

definition launchTunnel ::
    "PublicEnv \<Rightarrow> OpID \<Rightarrow> IngressID \<Rightarrow> Failure + string \<times> string \<Rightarrow> Failure + string option \<Rightarrow> PublicWorld \<Rightarrow> PublicWorld" where
  "launchTunnel pe i ing stored provider w =
     (let e = length (pw_endpoints w); opened = w\<lparr>pw_endpoints := pw_endpoints w @ [True]\<rparr> in
      case WithPublicAccessSecrets stored (\<lambda>token password. Inr password) of
        Inl f \<Rightarrow> launchTo i (LaunchDone (launchFailed None (Some ing) f)) w
      | Inr password \<Rightarrow>
          (case provider of
             Inl f \<Rightarrow> launchTo i (LaunchDone (launchFailed None (Some ing) f)) w
           | Inr None \<Rightarrow> launchTo i (LaunchDone (launchFailed (Some e) (Some ing) plainError)) opened
           | Inr (Some url) \<Rightarrow>
               (case NormalizeEndpointURL (pe_Net pe) url (pr_ReservedDomain (so_preferences (pw_starts w ! i))) of
                  Inl _ \<Rightarrow> launchTo i (LaunchDone (launchFailed (Some e) (Some ing) plainError)) opened
                | Inr (canonicalURL, host) \<Rightarrow> launchTo i (LaunchReturned ing e canonicalURL host password) opened)))"

definition launchCheck :: "OpID \<Rightarrow> PublicWorld \<Rightarrow> PublicWorld" where
  "launchCheck i w =
     (case so_launch (pw_starts w ! i) of
        LaunchReturned ing e canonicalURL host password \<Rightarrow>
          if so_canceled (pw_starts w ! i)
          then launchTo i (LaunchDone ((launchFailed (Some e) (Some ing) (categorizedError ErrorTimeout [] NoDiagnostic))
                 \<lparr>sr_canonicalURL := canonicalURL\<rparr>)) w
          else launchTo i (LaunchActivating ing e canonicalURL host password) w
      | _ \<Rightarrow> w)"

text \<open>\<open>storeErr\<close> is an error the secret store returns although the callback succeeded.\<close>

definition launchActivate :: "PublicEnv \<Rightarrow> OpID \<Rightarrow> Failure option \<Rightarrow> PublicWorld \<Rightarrow> PublicWorld" where
  "launchActivate pe i storeErr w =
     (case so_launch (pw_starts w ! i) of
        LaunchActivating ing e canonicalURL host password \<Rightarrow>
          (case Activate (pe_Net pe) (pe_SplitHostPort pe) host (pr_Username (so_preferences (pw_starts w ! i))) password of
             Inl f \<Rightarrow> launchTo i (LaunchDone ((launchFailed (Some e) (Some ing) f)\<lparr>sr_canonicalURL := canonicalURL\<rparr>)) w
           | Inr policy \<Rightarrow>
               launchTo i (LaunchDone
                   \<lparr>sr_endpoint = Some e, sr_ingress = Some ing, sr_canonicalURL = canonicalURL,
                    sr_err = map_option redactSecretStoreError storeErr\<rparr>)
                 (w\<lparr>pw_ingresses := (pw_ingresses w)[ing := (pw_ingresses w ! ing)\<lparr>ig_policy := Some policy\<rparr>]\<rparr>))
      | _ \<Rightarrow> w)"

section \<open>After the launch\<close>

definition startCurrent :: "OpID \<Rightarrow> PublicWorld \<Rightarrow> bool" where
  "startCurrent i w =
     (let m = pw_manager w; op = pw_starts w ! i in
      pm_start m = Some i \<and> st_State (pm_status m) = LifecycleStarting \<and>
      st_Generation (pm_status m) = so_generation op \<and> pr_Revision (pm_preferences m) = so_revision op)"

text \<open>\<open>finishStart\<close>: the section that adopts the runtime or turns it away.\<close>

definition finishStart :: "OpID \<Rightarrow> startResponse \<Rightarrow> PublicWorld \<Rightarrow> PublicWorld" where
  "finishStart i r w =
     (let op = pw_starts w ! i;
        startErr = (if sr_err r = None \<and> (sr_endpoint r = None \<or> sr_ingress r = None \<or> sr_canonicalURL r = [])
                    then Some plainError else sr_err r)
      in if \<not> startCurrent i w
      then driveTo i (Discarding (sr_endpoint r) (sr_ingress r) (resultLocked False (pw_manager w)) False) (deny (sr_ingress r) w)
      else (case startErr of
          Some f \<Rightarrow>
            let w = setStatus (failWith (pm_status (pw_manager w)) (redactedPublicAccessFailure f)) w;
              result = (resultLocked False (pw_manager w))\<lparr>re_DiagnosticCode := safePublicAccessDiagnosticCode f\<rparr>
            in driveTo i (Discarding (sr_endpoint r) (sr_ingress r) result True) (deny (sr_ingress r) w)
        | None \<Rightarrow>
            let w = modifyManager (\<lambda>m. m\<lparr>pm_endpoint := sr_endpoint r, pm_ingress := sr_ingress r,
                  pm_status := (plainStatus LifecycleReady (so_generation op) (so_revision op))
                    \<lparr>st_PublicURL := sr_canonicalURL r\<rparr>\<rparr>) w;
              w = settleStartLocked i (completeStartLocked i (resultLocked True (pw_manager w)) w)
            in driveTo i (Monitoring (the (sr_endpoint r)) (the (sr_ingress r))) (emitCurrent w)))"

definition failCurrentStart :: "OpID \<Rightarrow> ErrorCategory \<Rightarrow> PublicWorld \<Rightarrow> PublicWorld" where
  "failCurrentStart i category w =
     (let m = pw_manager w; op = pw_starts w ! i in
      if pm_start m = Some i \<and> st_State (pm_status m) = LifecycleStarting \<and> st_Generation (pm_status m) = so_generation op
      then let w = setStatus (failedStatus (pm_status m) category) w
           in emitCurrent (completeStartLocked i (resultLocked False (pw_manager w)) w)
      else completeStartLocked i (resultLocked False m) w)"

text \<open>The close outside the lock, keeping what could not be closed.\<close>

definition discardRuntime ::
    "EndpointID option \<Rightarrow> IngressID option \<Rightarrow> Failure option \<Rightarrow> Failure option \<Rightarrow> PublicWorld \<Rightarrow> PublicWorld" where
  "discardRuntime ep ing epErr ingErr w =
     (let w = closeOwned ep ing epErr ingErr w in
      if closeError ep ing epErr ingErr = None then w else retainRuntimeAfterFailedCleanup ep ing w)"

text \<open>One step of the goroutines that end a start: the caller, \<open>disposeLateStart\<close> and \<open>monitor\<close>.\<close>

definition driverStep :: "OpID \<Rightarrow> Failure option \<Rightarrow> Failure option \<Rightarrow> PublicWorld \<Rightarrow> PublicWorld option" where
  "driverStep i epErr ingErr w =
     (case (so_driver (pw_starts w ! i), so_launch (pw_starts w ! i)) of
        (Selecting, LaunchDone r) \<Rightarrow>
          Some (updateStart i (\<lambda>op. op\<lparr>so_canceled := True, so_launch := LaunchTaken, so_driver := Finishing r\<rparr>) w)
      | (Finishing r, _) \<Rightarrow> Some (finishStart i r w)
      | (Discarding ep ing result publish, _) \<Rightarrow>
          Some (driveTo i (Settling result publish) (discardRuntime ep ing epErr ingErr w))
      | (Settling result publish, _) \<Rightarrow>
          (let w = driveTo i DriverEnded (settleStartLocked i (completeStartLocked i result w))
           in Some (if publish then emit (re_Snapshot result) w else w))
      | (Disposing, LaunchDone r) \<Rightarrow>
          Some (updateStart i (\<lambda>op. op\<lparr>so_launch := LaunchTaken,
              so_driver := DisposeClosing (sr_endpoint r) (sr_ingress r)\<rparr>) (deny (sr_ingress r) w))
      | (DisposeClosing ep ing, _) \<Rightarrow> Some (driveTo i DisposeSettling (discardRuntime ep ing epErr ingErr w))
      | (DisposeSettling, _) \<Rightarrow> Some (driveTo i DriverEnded (settleStartLocked i w))
      | (Cleaning e j, _) \<Rightarrow>
          (let w = closeOwned (Some e) (Some j) epErr ingErr w;
             w = (if closeError (Some e) (Some j) epErr ingErr = None then releaseRuntime (Some e) (Some j) w else w);
             w = modifyManager (\<lambda>m. m\<lparr>pm_cleanup := (if pm_cleanup m = Some i then None else pm_cleanup m)\<rparr>) w
           in Some (driveTo i DriverEnded w))
      | _ \<Rightarrow> None)"

text \<open>The timeout or the end of the caller's context.\<close>

definition startExpired :: "OpID \<Rightarrow> PublicWorld \<Rightarrow> PublicWorld" where
  "startExpired i w =
     driveTo i Disposing (failCurrentStart i ErrorTimeout (updateStart i (\<lambda>op. op\<lparr>so_canceled := True\<rparr>) w))"

text \<open>\<open>monitor\<close>, once the endpoint is done; \<open>failure\<close> is what the endpoint says ended it.\<close>

definition endpointDone :: "OpID \<Rightarrow> EndpointID \<Rightarrow> IngressID \<Rightarrow> Failure option \<Rightarrow> PublicWorld \<Rightarrow> PublicWorld" where
  "endpointDone i e j failure w =
     (let m = pw_manager w; s = pm_status m in
      if pm_endpoint m \<noteq> Some e \<or> pm_ingress m \<noteq> Some j \<or> st_State s \<noteq> LifecycleReady \<or>
         st_Generation s \<noteq> so_generation (pw_starts w ! i)
      then driveTo i DriverEnded w
      else let w = deny (Some j) w;
             w = modifyManager (\<lambda>m. m\<lparr>pm_cleanup := Some i, pm_status := failWith
                   (plainStatus LifecycleFailed (st_Generation s + 1) (pr_Revision (pm_preferences m)))
                   (publicAccessEndpointFailure failure)\<rparr>) w
           in driveTo i (Cleaning e j) (emitCurrent w))"

section \<open>Stop\<close>

datatype StopOutcome = StopWaits | StopReturns PublicAccessResult | StopJoins OpID | StopStarts OpID

definition cancelStart :: "OpID option \<Rightarrow> PublicWorld \<Rightarrow> PublicWorld" where
  "cancelStart start w =
     (case start of None \<Rightarrow> w | Some i \<Rightarrow> updateStart i (\<lambda>op. op\<lparr>so_canceled := True\<rparr>) w)"

definition stopSection :: "revision \<Rightarrow> PublicWorld \<Rightarrow> StopOutcome \<times> PublicWorld" where
  "stopSection expectedRevision w =
     (let m = pw_manager w; s = pm_status m in
      if pm_reconfigure m \<noteq> None then (StopWaits, w)
      else if pm_cleanup m \<noteq> None then (StopWaits, w)
      else if expectedRevision \<noteq> pr_Revision (pm_preferences m) then (StopReturns (conflictResultLocked m), w)
      else if pm_stop m \<noteq> None \<and> st_State s = LifecycleStopping then (StopJoins (the (pm_stop m)), w)
      else if st_State s = LifecycleDisabled \<and> pm_endpoint m = None \<and> pm_ingress m = None
      then (StopReturns (resultLocked True m), w)
      else let k = length (pw_stops w); generation = st_Generation s + 1;
             w = deny (pm_ingress m) (cancelStart (pm_start m) w);
             w = w\<lparr>pw_stops := pw_stops w @
                   [\<lparr>sp_generation = generation, sp_stage = StopDraining (pm_pendingStart m) (pm_endpoint m) (pm_ingress m),
                     sp_result = None\<rparr>]\<rparr>;
             w = modifyManager (\<lambda>m. m\<lparr>pm_stop := Some k,
                   pm_status := plainStatus LifecycleStopping generation (pr_Revision (pm_preferences m))\<rparr>) w
           in (StopStarts k, emitCurrent w))"

definition stopTo :: "OpID \<Rightarrow> StopStage \<Rightarrow> PublicWorld \<Rightarrow> PublicWorld" where
  "stopTo k stage = updateStop k (\<lambda>op. op\<lparr>sp_stage := stage\<rparr>)"

definition settled :: "OpID option \<Rightarrow> PublicWorld \<Rightarrow> bool" where
  "settled pending w = (case pending of None \<Rightarrow> True | Some i \<Rightarrow> so_settled (pw_starts w ! i))"

text \<open>
  After the wait: a runtime that the pending start left behind is collected under the lock when there was none
  before.
\<close>

definition collectRuntime ::
    "EndpointID option \<Rightarrow> IngressID option \<Rightarrow> PublicWorld \<Rightarrow> (EndpointID option \<times> IngressID option) \<times> PublicWorld" where
  "collectRuntime ep ing w =
     (if ep = None \<and> ing = None
      then let m = pw_manager w in ((pm_endpoint m, pm_ingress m), deny (pm_ingress m) w)
      else ((ep, ing), w))"

definition stopEnd :: "OpID \<Rightarrow> EndpointID option \<Rightarrow> IngressID option \<Rightarrow> Failure option \<Rightarrow> PublicWorld \<Rightarrow> PublicWorld" where
  "stopEnd k ep ing closeErr w =
     (let w = (case closeErr of
            Some f \<Rightarrow> setStatus (failWith (pm_status (pw_manager w)) (closeFailure f)) w
          | None \<Rightarrow> modifyManager (\<lambda>m. m\<lparr>pm_status := plainStatus LifecycleDisabled (sp_generation (pw_stops w ! k))
                      (pr_Revision (pm_preferences m))\<rparr>) (releaseRuntime ep ing w));
        result = resultLocked (closeErr = None) (pw_manager w);
        w = modifyManager (\<lambda>m. m\<lparr>pm_stop := None\<rparr>)
              (updateStop k (\<lambda>op. op\<lparr>sp_result := Some result, sp_stage := StopEnded\<rparr>) w)
      in emit (re_Snapshot result) w)"

text \<open>
  One step of a running \<open>Stop\<close>; \<open>ctxDone\<close>: of the two branches of its wait for the pending start it takes the end
  of its context.
\<close>

definition stopStep :: "OpID \<Rightarrow> bool \<Rightarrow> Failure option \<Rightarrow> Failure option \<Rightarrow> PublicWorld \<Rightarrow> PublicWorld option" where
  "stopStep k ctxDone epErr ingErr w =
     (case sp_stage (pw_stops w ! k) of
        StopDraining pending ep ing \<Rightarrow>
          if ctxDone \<and> pending \<noteq> None then Some (stopTo k (StopEnding ep ing (Some deadlineExceeded)) w)
          else if settled pending w
          then (case collectRuntime ep ing w of
              ((ep, ing), w) \<Rightarrow> Some (stopTo k (if ep = None \<and> ing = None then StopEnding ep ing None else StopClosing ep ing) w))
          else None
      | StopClosing ep ing \<Rightarrow>
          Some (stopTo k (StopEnding ep ing (closeError ep ing epErr ingErr)) (closeOwned ep ing epErr ingErr w))
      | StopEnding ep ing closeErr \<Rightarrow> Some (stopEnd k ep ing closeErr w)
      | StopEnded \<Rightarrow> None)"

section \<open>Reconfigure\<close>

datatype ReconfigureOutcome = ReconfigureWaits | ReconfigureReturns PublicAccessResult | ReconfigureStarts OpID

definition mutationFailure :: "ErrorCategory \<Rightarrow> Manager \<Rightarrow> PublicAccessResult" where
  "mutationFailure category m =
     \<lparr>re_OK = False, re_Error = SafeMessage category, re_DiagnosticCode = NoDiagnostic, re_Snapshot = snapshotLocked m\<rparr>"

definition validatePublicAccessMutation :: "PublicEnv \<Rightarrow> PublicAccessMutation \<Rightarrow> bool" where
  "validatePublicAccessMutation pe mu =
     (let token = mu_ProviderToken mu; password = mu_PlayerPassword mu in
      \<not> (sm_Delete token \<and> sm_Replacement token \<noteq> []) \<and> \<not> (sm_Delete password \<and> sm_Replacement password \<noteq> []) \<and>
      (sm_Replacement token = [] \<or> ValidateProviderToken (sm_Replacement token)) \<and>
      (sm_Replacement password = [] \<or> ValidatePlayerPassword (sm_Replacement password)) \<and>
      \<not> isl (Normalized (pe_Net pe) ((mu_Preferences mu)\<lparr>pr_Version := PublicAccessSettingsVersion\<rparr>)))"

text \<open>The part of \<open>Reconfigure\<close> before its loop, and the section that starts the transaction.\<close>

definition reconfigureSection :: "PublicEnv \<Rightarrow> PublicAccessMutation \<Rightarrow> PublicWorld \<Rightarrow> ReconfigureOutcome \<times> PublicWorld" where
  "reconfigureSection pe mu w =
     (let m = pw_manager w; s = pm_status m in
      if \<not> validatePublicAccessMutation pe mu then (ReconfigureReturns (mutationFailure ErrorValidation m), w)
      else if pm_reconfigure m \<noteq> None then (ReconfigureWaits, w)
      else if pm_cleanup m \<noteq> None then (ReconfigureWaits, w)
      else if mu_ExpectedRevision mu \<noteq> pr_Revision (pm_preferences m) then (ReconfigureReturns (conflictResultLocked m), w)
      else if pm_stop m \<noteq> None then (ReconfigureWaits, w)
      else let r = length (pw_reconfigures w); generation = st_Generation s + 1;
             wasActive = (st_State s = LifecycleStarting \<or> st_State s = LifecycleReady \<or> pm_endpoint m \<noteq> None \<or>
               pm_ingress m \<noteq> None \<or> pm_pendingStart m \<noteq> None);
             w = deny (pm_ingress m) (cancelStart (pm_start m) w);
             w = w\<lparr>pw_reconfigures := pw_reconfigures w @
                   [\<lparr>rc_expectedRevision = mu_ExpectedRevision mu, rc_generation = generation, rc_mutation = mu,
                     rc_wasActive = wasActive,
                     rc_stage = ReconfigureDraining (pm_pendingStart m) (pm_endpoint m) (pm_ingress m), rc_result = None\<rparr>]\<rparr>;
             w = modifyManager (\<lambda>m. m\<lparr>pm_reconfigure := Some r,
                   pm_status := plainStatus LifecycleStopping generation (pr_Revision (pm_preferences m))\<rparr>) w
           in (ReconfigureStarts r, emitCurrent w))"

definition reconfigureTo :: "OpID \<Rightarrow> ReconfigureStage \<Rightarrow> PublicWorld \<Rightarrow> PublicWorld" where
  "reconfigureTo r stage = updateReconfigure r (\<lambda>op. op\<lparr>rc_stage := stage\<rparr>)"

definition finishReconfigureFailure :: "OpID \<Rightarrow> ErrorCategory \<Rightarrow> PublicWorld \<Rightarrow> PublicWorld" where
  "finishReconfigureFailure r category w =
     (let m = pw_manager w in
      if pm_reconfigure m \<noteq> Some r then completeReconfigureLocked r (resultLocked False m) w
      else let w = setStatus (failedStatus (plainStatus LifecycleFailed (rc_generation (pw_reconfigures w ! r))
                     (pr_Revision (pm_preferences m))) category) w
           in emitCurrent (completeReconfigureLocked r (resultLocked False (pw_manager w)) w))"

text \<open>
  What the secret store and the settings store answer during the change; whether a visible override is persisted
  (\<open>mu_PersistVisibleOverrides\<close>) is a question the settings store answers by itself.
\<close>

record StoreAnswers =
  sa_Token :: "Failure option"
  sa_Password :: "Failure option"
  sa_TokenPresence :: "SecretPresence \<times> Failure option"
  sa_PasswordPresence :: "SecretPresence \<times> Failure option"
  sa_SaveFailed :: bool

definition applySecretMutation :: "SecretRef \<Rightarrow> SecretMutation \<Rightarrow> Failure option \<Rightarrow> Failure option" where
  "applySecretMutation ref mutation stored =
     (if sm_Replacement mutation \<noteq> [] then ReplaceSecret ref (sm_Replacement mutation) stored
      else if sm_Delete mutation then DeleteSecret stored
      else None)"

definition setPresence :: "SecretPresence \<Rightarrow> SecretPresence \<Rightarrow> PublicWorld \<Rightarrow> PublicWorld" where
  "setPresence provider password = modifyManager (\<lambda>m. m\<lparr>pm_provider := provider, pm_password := password\<rparr>)"

definition reconcilePresence :: "StoreAnswers \<Rightarrow> PublicWorld \<Rightarrow> PublicWorld" where
  "reconcilePresence sa =
     (let read = (\<lambda>p. if snd p = None then fst p else SecretUnknown)
      in setPresence (read (sa_TokenPresence sa)) (read (sa_PasswordPresence sa)))"

definition proposedPreferences :: "PublicAccessMutation \<Rightarrow> PublicAccessPreferences" where
  "proposedPreferences mu =
     (mu_Preferences mu)\<lparr>pr_Version := PublicAccessSettingsVersion, pr_Revision := mu_ExpectedRevision mu + 1,
       pr_ProviderTokenPresentHint := False, pr_PlayerPasswordPresentHint := False\<rparr>"

definition reconfigureChange :: "PublicEnv \<Rightarrow> OpID \<Rightarrow> StoreAnswers \<Rightarrow> PublicWorld \<Rightarrow> PublicWorld" where
  "reconfigureChange pe r sa w =
     (let mu = rc_mutation (pw_reconfigures w ! r); fail = (\<lambda>c. reconfigureTo r (ReconfigureFailing c)) in
      case Normalized (pe_Net pe) (proposedPreferences mu) of
        Inl _ \<Rightarrow> fail ErrorValidation w
      | Inr normalized \<Rightarrow>
          (case applySecretMutation ProviderAccountToken (mu_ProviderToken mu) (sa_Token sa) of
             Some f \<Rightarrow> fail (secretErrorCategory f) (reconcilePresence sa w)
           | None \<Rightarrow>
               (case applySecretMutation PlayerBasicAuthPassword (mu_PlayerPassword mu) (sa_Password sa) of
                  Some f \<Rightarrow> fail (secretErrorCategory f) (reconcilePresence sa w)
                | None \<Rightarrow>
                    let (provider, providerErr) = sa_TokenPresence sa; (password, passwordErr) = sa_PasswordPresence sa in
                    (case joinErrors providerErr passwordErr of
                       Some f \<Rightarrow> fail (secretErrorCategory f) (setPresence provider password w)
                     | None \<Rightarrow>
                         if sa_SaveFailed sa then fail ErrorSettingsCorrupt (setPresence provider password w)
                         else reconfigureTo r (ReconfigureSaved
                                (normalized\<lparr>pr_ProviderTokenPresentHint := (provider = SecretPresent),
                                  pr_PlayerPasswordPresentHint := (password = SecretPresent)\<rparr>) provider password) w))))"

definition reconfigureCommit :: "OpID \<Rightarrow> PublicAccessPreferences \<Rightarrow> SecretPresence \<Rightarrow> SecretPresence \<Rightarrow> PublicWorld \<Rightarrow> PublicWorld" where
  "reconfigureCommit r normalized provider password w =
     (let m = pw_manager w; op = pw_reconfigures w ! r in
      if pm_reconfigure m \<noteq> Some r \<or> st_Generation (pm_status m) \<noteq> rc_generation op
      then completeReconfigureLocked r (resultLocked False m) w
      else let w = modifyManager (\<lambda>m. m\<lparr>pm_preferences := normalized, pm_provider := provider, pm_password := password,
                 pm_status := plainStatus LifecycleDisabled (rc_generation op) (pr_Revision normalized)\<rparr>) w
           in reconfigureTo r
                (if rc_wasActive op \<and> provider = SecretPresent \<and> password = SecretPresent
                 then ReconfigureRestarting (pr_Revision normalized) else ReconfigureEnding None)
                (emitCurrent w))"

text \<open>
  The restart is a \<open>startPublicAccess\<close> that the reconfiguration owns.  A start that it joins, and a wait, end
  early with its context; a start that it launched ends through \<open>startExpired\<close>.
\<close>

definition reconfigureRestart :: "OpID \<Rightarrow> revision \<Rightarrow> bool \<Rightarrow> PublicWorld \<Rightarrow> PublicWorld option" where
  "reconfigureRestart r expectedRevision ctxDone w =
     (let timedOut = reconfigureTo r (ReconfigureEnding (Some (mutationFailure ErrorTimeout (pw_manager w)))) w in
      case startSection expectedRevision (Some r) w of
        (StartWaits, _) \<Rightarrow> if ctxDone then Some timedOut else None
      | (StartReturns result, w) \<Rightarrow> Some (reconfigureTo r (ReconfigureEnding (Some result)) w)
      | (StartJoins i, w) \<Rightarrow> Some (reconfigureTo r (ReconfigureJoining i True) w)
      | (StartCloses ep ing, w) \<Rightarrow>
          Some (reconfigureTo r (ReconfigureClearing expectedRevision) (w\<lparr>pw_closers := pw_closers w @ [Some (ep, ing, Some r)]\<rparr>))
      | (StartLaunches i, w) \<Rightarrow> Some (reconfigureTo r (ReconfigureJoining i False) w))"

text \<open>One step of a running \<open>Reconfigure\<close>.\<close>

definition reconfigureStep ::
    "PublicEnv \<Rightarrow> OpID \<Rightarrow> bool \<Rightarrow> Failure option \<Rightarrow> Failure option \<Rightarrow> StoreAnswers \<Rightarrow> PublicWorld \<Rightarrow> PublicWorld option" where
  "reconfigureStep pe r ctxDone epErr ingErr sa w =
     (case rc_stage (pw_reconfigures w ! r) of
        ReconfigureDraining pending ep ing \<Rightarrow>
          if ctxDone \<and> pending \<noteq> None then Some (reconfigureTo r (ReconfigureFailing ErrorTimeout) w)
          else if settled pending w
          then (case collectRuntime ep ing w of
              ((ep, ing), w) \<Rightarrow> Some (reconfigureTo r
                (if ep = None \<and> ing = None then ReconfigureChanging else ReconfigureClosing ep ing) w))
          else None
      | ReconfigureClosing ep ing \<Rightarrow>
          (let w = closeOwned ep ing epErr ingErr w in
           Some (reconfigureTo r
             (case closeError ep ing epErr ingErr of
                None \<Rightarrow> ReconfigureClosed ep ing
              | Some f \<Rightarrow> ReconfigureFailing (fst (redactedPublicAccessFailure f))) w))
      | ReconfigureClosed ep ing \<Rightarrow> Some (reconfigureTo r ReconfigureChanging (releaseRuntime ep ing w))
      | ReconfigureChanging \<Rightarrow> Some (reconfigureChange pe r sa w)
      | ReconfigureSaved normalized provider password \<Rightarrow> Some (reconfigureCommit r normalized provider password w)
      | ReconfigureFailing category \<Rightarrow> Some (finishReconfigureFailure r category w)
      | ReconfigureRestarting expectedRevision \<Rightarrow> reconfigureRestart r expectedRevision ctxDone w
      | ReconfigureClearing _ \<Rightarrow> None
      | ReconfigureJoining i joined \<Rightarrow>
          if joined \<and> ctxDone
          then Some (reconfigureTo r (ReconfigureEnding (Some (mutationFailure ErrorTimeout (pw_manager w)))) w)
          else (case so_result (pw_starts w ! i) of
              Some result \<Rightarrow> Some (reconfigureTo r (ReconfigureEnding (Some result)) w)
            | None \<Rightarrow> None)
      | ReconfigureEnding result \<Rightarrow>
          Some (completeReconfigureLocked r (case result of Some res \<Rightarrow> res | None \<Rightarrow> resultLocked True (pw_manager w)) w)
      | ReconfigureEnded \<Rightarrow> None)"

section \<open>Steps and runs\<close>

datatype PublicEvent =
  EvStart revision
| EvClosed nat "Failure option" "Failure option"
| EvLaunchIngress OpID "Failure option"
| EvLaunchTunnel OpID "Failure + string \<times> string" "Failure + string option"
| EvLaunchCheck OpID
| EvLaunchActivate OpID "Failure option"
| EvContextDone OpID
| EvExpire OpID
| EvDriver OpID "Failure option" "Failure option"
| EvEndpointDone OpID "Failure option"
| EvStop revision
| EvStopStep OpID bool "Failure option" "Failure option"
| EvReconfigure PublicAccessMutation
| EvReconfigureStep OpID bool "Failure option" "Failure option" StoreAnswers

definition startEvent :: "revision \<Rightarrow> PublicWorld \<Rightarrow> PublicWorld option" where
  "startEvent expectedRevision w =
     (case startSection expectedRevision None w of
        (StartWaits, _) \<Rightarrow> None
      | (StartCloses ep ing, w) \<Rightarrow> Some (w\<lparr>pw_closers := pw_closers w @ [Some (ep, ing, None)]\<rparr>)
      | (_, w) \<Rightarrow> Some w)"

text \<open>A call of \<open>Start\<close> that has closed what was left behind enters its first section again, as a new call does.\<close>

definition closedEvent :: "nat \<Rightarrow> Failure option \<Rightarrow> Failure option \<Rightarrow> PublicWorld \<Rightarrow> PublicWorld option" where
  "closedEvent c epErr ingErr w =
     (if length (pw_closers w) \<le> c then None
      else (case pw_closers w ! c of
          None \<Rightarrow> None
        | Some (ep, ing, owner) \<Rightarrow>
            (case startClosed ep ing epErr ingErr (w\<lparr>pw_closers := (pw_closers w)[c := None]\<rparr>) of
               (result, w) \<Rightarrow>
                 Some (case owner of
                     None \<Rightarrow> w
                   | Some r \<Rightarrow>
                       (case (result, rc_stage (pw_reconfigures w ! r)) of
                          (Some _, _) \<Rightarrow> reconfigureTo r (ReconfigureEnding result) w
                        | (None, ReconfigureClearing expectedRevision) \<Rightarrow>
                            reconfigureTo r (ReconfigureRestarting expectedRevision) w
                        | _ \<Rightarrow> w)))))"

definition launchEvent :: "PublicEnv \<Rightarrow> PublicEvent \<Rightarrow> PublicWorld \<Rightarrow> PublicWorld option" where
  "launchEvent pe ev w =
     (case ev of
        EvLaunchIngress i failure \<Rightarrow>
          if so_launch (pw_starts w ! i) = LaunchIngress then Some (launchIngress i failure w) else None
      | EvLaunchTunnel i stored provider \<Rightarrow>
          (case so_launch (pw_starts w ! i) of
             LaunchTunnel ing \<Rightarrow> Some (launchTunnel pe i ing stored provider w)
           | _ \<Rightarrow> None)
      | EvLaunchCheck i \<Rightarrow>
          (case so_launch (pw_starts w ! i) of LaunchReturned _ _ _ _ _ \<Rightarrow> Some (launchCheck i w) | _ \<Rightarrow> None)
      | EvLaunchActivate i storeErr \<Rightarrow>
          (case so_launch (pw_starts w ! i) of
             LaunchActivating _ _ _ _ _ \<Rightarrow> Some (launchActivate pe i storeErr w)
           | _ \<Rightarrow> None)
      | _ \<Rightarrow> None)"

text \<open>The operation an event of a goroutine belongs to has to exist.\<close>

definition eventPossible :: "PublicEvent \<Rightarrow> PublicWorld \<Rightarrow> bool" where
  "eventPossible ev w =
     (case ev of
        EvLaunchIngress i _ \<Rightarrow> i < length (pw_starts w)
      | EvLaunchTunnel i _ _ \<Rightarrow> i < length (pw_starts w)
      | EvLaunchCheck i \<Rightarrow> i < length (pw_starts w)
      | EvLaunchActivate i _ \<Rightarrow> i < length (pw_starts w)
      | EvContextDone i \<Rightarrow> i < length (pw_starts w)
      | EvExpire i \<Rightarrow> i < length (pw_starts w)
      | EvDriver i _ _ \<Rightarrow> i < length (pw_starts w)
      | EvEndpointDone i _ \<Rightarrow> i < length (pw_starts w)
      | EvStopStep k _ _ _ \<Rightarrow> k < length (pw_stops w)
      | EvReconfigureStep r _ _ _ _ \<Rightarrow> r < length (pw_reconfigures w)
      | _ \<Rightarrow> True)"

definition publicEvent :: "PublicEnv \<Rightarrow> PublicEvent \<Rightarrow> PublicWorld \<Rightarrow> PublicWorld option" where
  "publicEvent pe ev w =
     (case ev of
        EvStart expectedRevision \<Rightarrow> startEvent expectedRevision w
      | EvClosed c epErr ingErr \<Rightarrow> closedEvent c epErr ingErr w
      | EvContextDone i \<Rightarrow> Some (updateStart i (\<lambda>op. op\<lparr>so_canceled := True\<rparr>) w)
      | EvExpire i \<Rightarrow> if so_driver (pw_starts w ! i) = Selecting then Some (startExpired i w) else None
      | EvDriver i epErr ingErr \<Rightarrow> driverStep i epErr ingErr w
      | EvEndpointDone i failure \<Rightarrow>
          (case so_driver (pw_starts w ! i) of Monitoring e j \<Rightarrow> Some (endpointDone i e j failure w) | _ \<Rightarrow> None)
      | EvStop expectedRevision \<Rightarrow>
          (case stopSection expectedRevision w of (StopWaits, _) \<Rightarrow> None | (_, w) \<Rightarrow> Some w)
      | EvStopStep k ctxDone epErr ingErr \<Rightarrow> stopStep k ctxDone epErr ingErr w
      | EvReconfigure mu \<Rightarrow>
          (case reconfigureSection pe mu w of (ReconfigureWaits, _) \<Rightarrow> None | (_, w) \<Rightarrow> Some w)
      | EvReconfigureStep r ctxDone epErr ingErr sa \<Rightarrow> reconfigureStep pe r ctxDone epErr ingErr sa w
      | _ \<Rightarrow> launchEvent pe ev w)"

definition publicStep :: "PublicEnv \<Rightarrow> PublicEvent \<Rightarrow> PublicWorld \<Rightarrow> PublicWorld option" where
  "publicStep pe ev w = (if eventPossible ev w then publicEvent pe ev w else None)"

text \<open>\<open>NewPublicAccessManager\<close> and \<open>Initialize\<close>: what the stores answered when the application started.\<close>

definition Initialize ::
    "PublicEnv \<Rightarrow> string + PublicAccessPreferences \<Rightarrow> SecretPresence \<times> Failure option \<Rightarrow> SecretPresence \<times> Failure option \<Rightarrow> Manager" where
  "Initialize pe loaded tokenPresence passwordPresence =
     (let settings = ok_bind loaded (Normalized (pe_Net pe));
        preferences = (case settings of Inr p \<Rightarrow> p | Inl _ \<Rightarrow> DefaultPublicAccessPreferences);
        read = (\<lambda>p. if snd p = None then fst p else SecretUnknown);
        status = plainStatus LifecycleDisabled 0 (pr_Revision preferences)
      in \<lparr>pm_preferences = preferences, pm_provider = read tokenPresence, pm_password = read passwordPresence,
          pm_status =
            (if isl settings then failedStatus status ErrorSettingsCorrupt
             else (case joinErrors (snd tokenPresence) (snd passwordPresence) of
                 Some f \<Rightarrow> failedStatus status (secretErrorCategory f)
               | None \<Rightarrow> status)),
          pm_endpoint = None, pm_ingress = None, pm_start = None, pm_pendingStart = None, pm_cleanup = None,
          pm_stop = None, pm_reconfigure = None\<rparr>)"

definition initialWorld :: "Manager \<Rightarrow> PublicWorld" where
  "initialWorld m =
     \<lparr>pw_manager = m, pw_starts = [], pw_stops = [], pw_reconfigures = [], pw_closers = [], pw_endpoints = [],
      pw_ingresses = [], pw_published = []\<rparr>"

inductive publicReach :: "PublicEnv \<Rightarrow> (PublicWorld \<Rightarrow> PublicEvent \<Rightarrow> bool) \<Rightarrow> PublicWorld \<Rightarrow> bool" for pe allowed where
  initialized: "publicReach pe allowed (initialWorld (Initialize pe loaded tokenPresence passwordPresence))"
| stepped: "publicReach pe allowed w \<Longrightarrow> allowed w ev \<Longrightarrow> publicStep pe ev w = Some w' \<Longrightarrow> publicReach pe allowed w'"

text \<open>The run along a list of events, each of them allowed where it happens.\<close>

primrec publicRun ::
    "PublicEnv \<Rightarrow> (PublicWorld \<Rightarrow> PublicEvent \<Rightarrow> bool) \<Rightarrow> PublicEvent list \<Rightarrow> PublicWorld \<Rightarrow> PublicWorld option" where
  "publicRun pe allowed [] w = Some w"
| "publicRun pe allowed (ev # evs) w =
     (if allowed w ev then Option.bind (publicStep pe ev w) (publicRun pe allowed evs) else None)"

lemma publicRun_reach:
  "publicReach pe allowed w \<Longrightarrow> publicRun pe allowed evs w = Some w' \<Longrightarrow> publicReach pe allowed w'"
  by (induction evs arbitrary: w) (auto split: if_splits bind_splits intro: publicReach.stepped)

text \<open>
  Nothing is closing a runtime: no \<open>Stop\<close> is at work and no call of \<open>Start\<close> is clearing what was left behind.
  In an orderly run \<open>Start\<close> and \<open>Reconfigure\<close> are entered only then, which the lock alone does not enforce.
\<close>

definition quiet :: "PublicWorld \<Rightarrow> bool" where
  "quiet w = (list_all (\<lambda>op. sp_stage op = StopEnded) (pw_stops w) \<and> list_all (\<lambda>c. c = None) (pw_closers w))"

definition orderly :: "PublicWorld \<Rightarrow> PublicEvent \<Rightarrow> bool" where
  "orderly w ev = (case ev of EvStart _ \<Rightarrow> quiet w | EvReconfigure _ \<Rightarrow> quiet w | _ \<Rightarrow> True)"

end
