(* ===== verification/TunnelInv.thy ===== *)
theory TunnelInv
  imports TunnelManager
begin

text \<open>
  What the public-access manager guarantees however its goroutines interleave: at most one start is in
  flight, and every runtime that was opened and not closed is either the manager's or in the hands of that
  start, so none is lost.
\<close>

section \<open>What the small steps leave alone\<close>

named_theorems public_simps \<open>fields of a world after a small step\<close>

definition openIngresses :: "PublicWorld \<Rightarrow> bool list" where
  "openIngresses w = map ig_open (pw_ingresses w)"

definition closeOne :: "nat option \<Rightarrow> Failure option \<Rightarrow> bool list \<Rightarrow> bool list" where
  "closeOne x failure xs = (case (x, failure) of (Some e, None) \<Rightarrow> xs[e := False] | _ \<Rightarrow> xs)"

lemma nth_update: "xs[i := x] ! j = (if i = j \<and> i < length xs then x else xs ! j)"
  by (cases "i < length xs") (auto simp: nth_list_update not_less list_update_beyond)

lemma length_closeOne [simp]: "length (closeOne x f xs) = length xs"
  by (simp add: closeOne_def split: option.splits)

lemma nth_closeOne: "closeOne x f xs ! e \<Longrightarrow> e < length xs \<Longrightarrow> xs ! e"
  by (auto simp: closeOne_def nth_update split: option.splits if_splits)

lemma closeOne_closes: "x = Some e \<Longrightarrow> f = None \<Longrightarrow> e < length xs \<Longrightarrow> \<not> closeOne x f xs ! e"
  by (simp add: closeOne_def)

lemma modifyManager_fields [public_simps]:
  "pw_manager (modifyManager f w) = f (pw_manager w)"
  "pw_starts (modifyManager f w) = pw_starts w" "pw_stops (modifyManager f w) = pw_stops w"
  "pw_reconfigures (modifyManager f w) = pw_reconfigures w" "pw_closers (modifyManager f w) = pw_closers w"
  "pw_endpoints (modifyManager f w) = pw_endpoints w" "pw_ingresses (modifyManager f w) = pw_ingresses w"
  "pw_published (modifyManager f w) = pw_published w"
  by (simp_all add: modifyManager_def)

lemma updateStart_fields [public_simps]:
  "pw_manager (updateStart i g w) = pw_manager w"
  "pw_starts (updateStart i g w) = (pw_starts w)[i := g (pw_starts w ! i)]" "pw_stops (updateStart i g w) = pw_stops w"
  "pw_reconfigures (updateStart i g w) = pw_reconfigures w" "pw_closers (updateStart i g w) = pw_closers w"
  "pw_endpoints (updateStart i g w) = pw_endpoints w" "pw_ingresses (updateStart i g w) = pw_ingresses w"
  "pw_published (updateStart i g w) = pw_published w"
  by (simp_all add: updateStart_def)

lemma updateStop_fields [public_simps]:
  "pw_manager (updateStop i h w) = pw_manager w" "pw_starts (updateStop i h w) = pw_starts w"
  "pw_stops (updateStop i h w) = (pw_stops w)[i := h (pw_stops w ! i)]"
  "pw_reconfigures (updateStop i h w) = pw_reconfigures w" "pw_closers (updateStop i h w) = pw_closers w"
  "pw_endpoints (updateStop i h w) = pw_endpoints w" "pw_ingresses (updateStop i h w) = pw_ingresses w"
  "pw_published (updateStop i h w) = pw_published w"
  by (simp_all add: updateStop_def)

lemma updateReconfigure_fields [public_simps]:
  "pw_manager (updateReconfigure i k w) = pw_manager w" "pw_starts (updateReconfigure i k w) = pw_starts w"
  "pw_stops (updateReconfigure i k w) = pw_stops w"
  "pw_reconfigures (updateReconfigure i k w) = (pw_reconfigures w)[i := k (pw_reconfigures w ! i)]"
  "pw_closers (updateReconfigure i k w) = pw_closers w"
  "pw_endpoints (updateReconfigure i k w) = pw_endpoints w" "pw_ingresses (updateReconfigure i k w) = pw_ingresses w"
  "pw_published (updateReconfigure i k w) = pw_published w"
  by (simp_all add: updateReconfigure_def)

lemma emit_fields [public_simps]:
  "pw_manager (emit s w) = pw_manager w" "pw_starts (emit s w) = pw_starts w" "pw_stops (emit s w) = pw_stops w"
  "pw_reconfigures (emit s w) = pw_reconfigures w" "pw_closers (emit s w) = pw_closers w"
  "pw_endpoints (emit s w) = pw_endpoints w" "pw_ingresses (emit s w) = pw_ingresses w"
  "pw_published (emit s w) = pw_published w @ [s]"
  by (simp_all add: emit_def)

lemma deny_fields [public_simps]:
  "pw_manager (deny ing w) = pw_manager w" "pw_starts (deny ing w) = pw_starts w" "pw_stops (deny ing w) = pw_stops w"
  "pw_reconfigures (deny ing w) = pw_reconfigures w" "pw_closers (deny ing w) = pw_closers w"
  "pw_endpoints (deny ing w) = pw_endpoints w" "pw_published (deny ing w) = pw_published w"
  by (simp_all add: deny_def split: option.splits)

lemma closeOwned_fields [public_simps]:
  "pw_manager (closeOwned ep ing f g w) = pw_manager w" "pw_starts (closeOwned ep ing f g w) = pw_starts w"
  "pw_stops (closeOwned ep ing f g w) = pw_stops w" "pw_reconfigures (closeOwned ep ing f g w) = pw_reconfigures w"
  "pw_closers (closeOwned ep ing f g w) = pw_closers w" "pw_published (closeOwned ep ing f g w) = pw_published w"
  "pw_endpoints (closeOwned ep ing f g w) = closeOne ep f (pw_endpoints w)"
  by (simp_all add: closeOwned_def closeOne_def Let_def deny_fields split: option.splits)

lemma cancelStart_fields [public_simps]:
  "pw_manager (cancelStart s w) = pw_manager w" "pw_stops (cancelStart s w) = pw_stops w"
  "pw_reconfigures (cancelStart s w) = pw_reconfigures w" "pw_closers (cancelStart s w) = pw_closers w"
  "pw_endpoints (cancelStart s w) = pw_endpoints w" "pw_ingresses (cancelStart s w) = pw_ingresses w"
  "pw_published (cancelStart s w) = pw_published w"
  by (simp_all add: cancelStart_def public_simps split: option.splits)

lemma openIngresses_deny [public_simps]: "openIngresses (deny ing w) = openIngresses w"
proof (cases ing)
  case (Some j)
  have "map ig_open ((pw_ingresses w)[j := (pw_ingresses w ! j)\<lparr>ig_policy := None\<rparr>]) = map ig_open (pw_ingresses w)"
    by (rule nth_equalityI) (auto simp: nth_update)
  with Some show ?thesis by (simp add: openIngresses_def deny_def)
qed (simp add: deny_def)

lemma openIngresses_close [public_simps]:
  "openIngresses (closeOwned ep ing f g w) = closeOne ing g (openIngresses w)"
proof -
  let ?w = "deny ing w"
  have "openIngresses (closeOwned ep ing f g w) = closeOne ing g (openIngresses ?w)"
    by (auto simp: closeOwned_def closeOne_def openIngresses_def map_update Let_def split: option.splits)
  then show ?thesis by (simp add: openIngresses_deny)
qed

lemma openIngresses_cong: "pw_ingresses w' = pw_ingresses w \<Longrightarrow> openIngresses w' = openIngresses w"
  by (simp add: openIngresses_def)

lemma openIngresses_keeps [public_simps]:
  "openIngresses (modifyManager f w) = openIngresses w" "openIngresses (updateStart i g w) = openIngresses w"
  "openIngresses (updateStop i h w) = openIngresses w" "openIngresses (updateReconfigure i k w) = openIngresses w"
  "openIngresses (emit s w) = openIngresses w" "openIngresses (cancelStart c w) = openIngresses w"
  "openIngresses (w\<lparr>pw_starts := a\<rparr>) = openIngresses w" "openIngresses (w\<lparr>pw_stops := b\<rparr>) = openIngresses w"
  "openIngresses (w\<lparr>pw_reconfigures := rs\<rparr>) = openIngresses w" "openIngresses (w\<lparr>pw_closers := cs\<rparr>) = openIngresses w"
  by (simp_all add: openIngresses_def public_simps)

lemma closeError_None:
  assumes "closeError ep ing f g = None"
  shows "(\<forall>e. ep = Some e \<longrightarrow> f = None) \<and> (\<forall>j. ing = Some j \<longrightarrow> g = None)"
  using assms by (auto simp: closeError_def joinErrors_def split: option.splits if_splits)

section \<open>Who holds a runtime\<close>

primrec launchHolds :: "Launch \<Rightarrow> EndpointID option \<times> IngressID option" where
  "launchHolds LaunchIngress = (None, None)"
| "launchHolds (LaunchTunnel j) = (None, Some j)"
| "launchHolds (LaunchReturned j e _ _ _) = (Some e, Some j)"
| "launchHolds (LaunchActivating j e _ _ _) = (Some e, Some j)"
| "launchHolds (LaunchDone r) = (sr_endpoint r, sr_ingress r)"
| "launchHolds LaunchTaken = (None, None)"

primrec driverHolds :: "Driver \<Rightarrow> EndpointID option \<times> IngressID option" where
  "driverHolds Selecting = (None, None)"
| "driverHolds (Finishing r) = (sr_endpoint r, sr_ingress r)"
| "driverHolds (Discarding ep ing _ _) = (ep, ing)"
| "driverHolds (Settling _ _) = (None, None)"
| "driverHolds Disposing = (None, None)"
| "driverHolds (DisposeClosing ep ing) = (ep, ing)"
| "driverHolds DisposeSettling = (None, None)"
| "driverHolds (Monitoring _ _) = (None, None)"
| "driverHolds (Cleaning _ _) = (None, None)"
| "driverHolds DriverEnded = (None, None)"

definition selecting :: "Driver \<Rightarrow> bool" where
  "selecting d = (d = Selecting \<or> d = Disposing)"

definition starting :: "Driver \<Rightarrow> bool" where
  "starting d = (d = Selecting \<or> (\<exists>r. d = Finishing r))"

definition emptyHanded :: "Driver \<Rightarrow> bool" where
  "emptyHanded d = ((\<exists>r b. d = Settling r b) \<or> d = DisposeSettling)"

definition over :: "Driver \<Rightarrow> bool" where
  "over d = ((\<exists>e j. d = Monitoring e j \<or> d = Cleaning e j) \<or> d = DriverEnded)"

lemma driver_kinds [simp]:
  "selecting Selecting" "selecting Disposing" "\<not> selecting (Finishing r)" "\<not> selecting (Discarding ep ing res b)"
  "\<not> selecting (Settling res b)" "\<not> selecting (DisposeClosing ep ing)" "\<not> selecting DisposeSettling"
  "\<not> selecting (Monitoring e j)" "\<not> selecting (Cleaning e j)" "\<not> selecting DriverEnded"
  "starting Selecting" "starting (Finishing r)" "\<not> starting Disposing" "\<not> starting (Discarding ep ing res b)"
  "\<not> starting (Settling res b)" "\<not> starting (DisposeClosing ep ing)" "\<not> starting DisposeSettling"
  "\<not> starting (Monitoring e j)" "\<not> starting (Cleaning e j)" "\<not> starting DriverEnded"
  "emptyHanded (Settling res b)" "emptyHanded DisposeSettling" "\<not> emptyHanded Selecting" "\<not> emptyHanded Disposing"
  "\<not> emptyHanded (Finishing r)" "\<not> emptyHanded (Discarding ep ing res b)" "\<not> emptyHanded (DisposeClosing ep ing)"
  "\<not> emptyHanded (Monitoring e j)" "\<not> emptyHanded (Cleaning e j)" "\<not> emptyHanded DriverEnded"
  "over (Monitoring e j)" "over (Cleaning e j)" "over DriverEnded" "\<not> over Selecting" "\<not> over Disposing"
  "\<not> over (Finishing r)" "\<not> over (Discarding ep ing res b)" "\<not> over (DisposeClosing ep ing)"
  "\<not> over (Settling res b)" "\<not> over DisposeSettling"
  by (auto simp: selecting_def starting_def emptyHanded_def over_def)

definition holds :: "startOperation \<Rightarrow> nat set \<times> nat set" where
  "holds op =
     (set_option (fst (launchHolds (so_launch op))) \<union> set_option (fst (driverHolds (so_driver op))),
      set_option (snd (launchHolds (so_launch op))) \<union> set_option (snd (driverHolds (so_driver op))))"

definition endpointInFlight :: "PublicWorld \<Rightarrow> EndpointID \<Rightarrow> bool" where
  "endpointInFlight w e = (\<exists>i. pm_pendingStart (pw_manager w) = Some i \<and> e \<in> fst (holds (pw_starts w ! i)))"

definition ingressInFlight :: "PublicWorld \<Rightarrow> IngressID \<Rightarrow> bool" where
  "ingressInFlight w j = (\<exists>i. pm_pendingStart (pw_manager w) = Some i \<and> j \<in> snd (holds (pw_starts w ! i)))"

text \<open>The runtimes that the other goroutines close.\<close>

primrec stopHolds :: "StopStage \<Rightarrow> EndpointID option \<times> IngressID option" where
  "stopHolds (StopDraining _ ep ing) = (ep, ing)"
| "stopHolds (StopClosing ep ing) = (ep, ing)"
| "stopHolds (StopEnding ep ing _) = (ep, ing)"
| "stopHolds StopEnded = (None, None)"

primrec reconfigureHolds :: "ReconfigureStage \<Rightarrow> EndpointID option \<times> IngressID option" where
  "reconfigureHolds (ReconfigureDraining _ ep ing) = (ep, ing)"
| "reconfigureHolds (ReconfigureClosing ep ing) = (ep, ing)"
| "reconfigureHolds (ReconfigureClosed ep ing) = (ep, ing)"
| "reconfigureHolds ReconfigureChanging = (None, None)"
| "reconfigureHolds (ReconfigureSaved _ _ _) = (None, None)"
| "reconfigureHolds (ReconfigureFailing _) = (None, None)"
| "reconfigureHolds (ReconfigureRestarting _) = (None, None)"
| "reconfigureHolds (ReconfigureClearing _) = (None, None)"
| "reconfigureHolds (ReconfigureJoining _ _) = (None, None)"
| "reconfigureHolds (ReconfigureEnding _) = (None, None)"
| "reconfigureHolds ReconfigureEnded = (None, None)"

definition exists :: "PublicWorld \<Rightarrow> EndpointID option \<times> IngressID option \<Rightarrow> bool" where
  "exists w x =
     ((\<forall>e. fst x = Some e \<longrightarrow> e < length (pw_endpoints w)) \<and> (\<forall>j. snd x = Some j \<longrightarrow> j < length (pw_ingresses w)))"

definition closed :: "PublicWorld \<Rightarrow> EndpointID option \<times> IngressID option \<Rightarrow> bool" where
  "closed w x =
     (exists w x \<and> (\<forall>e. fst x = Some e \<longrightarrow> \<not> pw_endpoints w ! e) \<and> (\<forall>j. snd x = Some j \<longrightarrow> \<not> openIngresses w ! j))"

definition closedStop :: "StopStage \<Rightarrow> bool" where
  "closedStop s = (\<exists>ep ing. s = StopEnding ep ing None)"

definition closedReconfigure :: "ReconfigureStage \<Rightarrow> bool" where
  "closedReconfigure s = (\<exists>ep ing. s = ReconfigureClosed ep ing)"

section \<open>The invariant\<close>

definition opShape :: "PublicWorld \<Rightarrow> startOperation \<Rightarrow> bool" where
  "opShape w op =
     (so_settled op = over (so_driver op) \<and> (so_launch op = LaunchTaken \<longleftrightarrow> \<not> selecting (so_driver op)) \<and>
      exists w (launchHolds (so_launch op)) \<and> exists w (driverHolds (so_driver op)))"

definition singleFlight :: "PublicWorld \<Rightarrow> bool" where
  "singleFlight w =
     ((\<forall>i. pm_pendingStart (pw_manager w) = Some i \<longrightarrow> i < length (pw_starts w) \<and> \<not> so_settled (pw_starts w ! i)) \<and>
      (\<forall>i<length (pw_starts w). \<not> so_settled (pw_starts w ! i) \<longrightarrow> pm_pendingStart (pw_manager w) = Some i))"

definition startingSound :: "PublicWorld \<Rightarrow> bool" where
  "startingSound w =
     (let m = pw_manager w in
      st_State (pm_status m) = LifecycleStarting \<longrightarrow>
      (\<exists>i. pm_start m = Some i \<and> pm_pendingStart m = Some i \<and> starting (so_driver (pw_starts w ! i)) \<and>
           st_Generation (pm_status m) = so_generation (pw_starts w ! i) \<and>
           pr_Revision (pm_preferences m) = so_revision (pw_starts w ! i)))"

definition vacant :: "PublicWorld \<Rightarrow> bool" where
  "vacant w =
     (\<forall>i. pm_pendingStart (pw_manager w) = Some i \<longrightarrow> emptyHanded (so_driver (pw_starts w ! i)) \<or>
        (pm_endpoint (pw_manager w) = None \<and> pm_ingress (pw_manager w) = None))"

definition tracked :: "PublicWorld \<Rightarrow> bool" where
  "tracked w =
     ((\<forall>e<length (pw_endpoints w). pw_endpoints w ! e \<longrightarrow>
         pm_endpoint (pw_manager w) = Some e \<or> endpointInFlight w e) \<and>
      (\<forall>j<length (pw_ingresses w). openIngresses w ! j \<longrightarrow>
         pm_ingress (pw_manager w) = Some j \<or> ingressInFlight w j))"

definition closersSound :: "PublicWorld \<Rightarrow> bool" where
  "closersSound w =
     ((\<forall>k<length (pw_stops w). exists w (stopHolds (sp_stage (pw_stops w ! k))) \<and>
         (closedStop (sp_stage (pw_stops w ! k)) \<longrightarrow> closed w (stopHolds (sp_stage (pw_stops w ! k))))) \<and>
      (\<forall>r<length (pw_reconfigures w). exists w (reconfigureHolds (rc_stage (pw_reconfigures w ! r))) \<and>
         (closedReconfigure (rc_stage (pw_reconfigures w ! r)) \<longrightarrow>
          closed w (reconfigureHolds (rc_stage (pw_reconfigures w ! r))))) \<and>
      (\<forall>c<length (pw_closers w). \<forall>ep ing owner. pw_closers w ! c = Some (ep, ing, owner) \<longrightarrow> exists w (ep, ing)))"

definition sound :: "PublicWorld \<Rightarrow> bool" where
  "sound w =
     (singleFlight w \<and> startingSound w \<and> vacant w \<and> tracked w \<and> closersSound w \<and>
      (\<forall>i<length (pw_starts w). opShape w (pw_starts w ! i)) \<and>
      exists w (pm_endpoint (pw_manager w), pm_ingress (pw_manager w)))"

section \<open>Steps that keep it\<close>

lemma length_open [simp]: "length (openIngresses w) = length (pw_ingresses w)" by (simp add: openIngresses_def)
lemma length_deny [public_simps]: "length (pw_ingresses (deny ing w)) = length (pw_ingresses w)"
  by (metis length_open openIngresses_deny)
lemma length_close [public_simps]: "length (pw_ingresses (closeOwned ep ing f g w)) = length (pw_ingresses w)"
  by (metis length_open openIngresses_close length_closeOne)

lemma sound_cong:
  assumes "pm_pendingStart (pw_manager w') = pm_pendingStart (pw_manager w)"
    and "pm_endpoint (pw_manager w') = pm_endpoint (pw_manager w)" and "pm_ingress (pw_manager w') = pm_ingress (pw_manager w)"
    and "pw_starts w' = pw_starts w" and "pw_stops w' = pw_stops w" and "pw_reconfigures w' = pw_reconfigures w"
    and "pw_closers w' = pw_closers w" and "pw_endpoints w' = pw_endpoints w" and "openIngresses w' = openIngresses w"
    and "startingSound w'"
  shows "sound w \<Longrightarrow> sound w'"
proof -
  have l: "length (pw_ingresses w') = length (pw_ingresses w)" using assms(9) by (metis length_open)
  have e: "exists w' = exists w" "closed w' = closed w"
    using assms l by (auto simp: exists_def closed_def fun_eq_iff)
  have "singleFlight w' = singleFlight w" "vacant w' = vacant w" "tracked w' = tracked w" "closersSound w' = closersSound w"
    "opShape w' = opShape w"
    using assms by (simp_all add: e l singleFlight_def vacant_def tracked_def closersSound_def opShape_def
        endpointInFlight_def ingressInFlight_def fun_eq_iff)
  with assms show "sound w \<Longrightarrow> sound w'" by (simp add: sound_def e)
qed

lemma startingSound_cong:
  assumes "pm_pendingStart (pw_manager w') = pm_pendingStart (pw_manager w)" and "pm_start (pw_manager w') = pm_start (pw_manager w)"
    and "pm_status (pw_manager w') = pm_status (pw_manager w)" and "pm_preferences (pw_manager w') = pm_preferences (pw_manager w)"
    and "pw_starts w' = pw_starts w"
  shows "startingSound w' = startingSound w"
  using assms by (simp add: startingSound_def Let_def)

lemma sound_deny: "sound w \<Longrightarrow> sound (deny ing w)"
  by (rule sound_cong) (simp_all add: public_simps, simp add: sound_def startingSound_def public_simps)

lemma sound_emit: "sound w \<Longrightarrow> sound (emit s w)"
  by (rule sound_cong) (simp_all add: public_simps, simp add: sound_def startingSound_def public_simps)

lemma sound_manager:
  assumes "sound w" and "\<And>m. pm_pendingStart (f m) = pm_pendingStart m" and "\<And>m. pm_endpoint (f m) = pm_endpoint m"
    and "\<And>m. pm_ingress (f m) = pm_ingress m" and "st_State (pm_status (f (pw_manager w))) \<noteq> LifecycleStarting"
  shows "sound (modifyManager f w)"
  by (rule sound_cong [OF _ _ _ _ _ _ _ _ _ _ assms(1)]) (simp_all add: public_simps assms startingSound_def)

lemma exists_mono:
  "exists w x \<Longrightarrow> length (pw_endpoints w) \<le> length (pw_endpoints w') \<Longrightarrow> length (pw_ingresses w) \<le> length (pw_ingresses w') \<Longrightarrow> exists w' x"
  by (auto simp: exists_def intro: less_le_trans)

lemma sound_closersI:
  assumes "sound w"
    and "pw_manager w' = pw_manager w" "pw_starts w' = pw_starts w" "pw_endpoints w' = pw_endpoints w" "pw_ingresses w' = pw_ingresses w"
    and "closersSound w'"
  shows "sound w'"
proof -
  have o: "openIngresses w' = openIngresses w" using assms(5) by (rule openIngresses_cong)
  have e: "exists w' = exists w" "closed w' = closed w"
    using assms o by (auto simp: exists_def closed_def fun_eq_iff)
  have "singleFlight w' = singleFlight w" "startingSound w' = startingSound w" "vacant w' = vacant w" "tracked w' = tracked w"
    "opShape w' = opShape w"
    using assms by (simp_all add: e o singleFlight_def startingSound_def vacant_def tracked_def opShape_def
        endpointInFlight_def ingressInFlight_def fun_eq_iff)
  with assms show ?thesis by (simp add: sound_def e)
qed

lemma existing_cong: "pw_endpoints w' = pw_endpoints w \<Longrightarrow> pw_ingresses w' = pw_ingresses w \<Longrightarrow> exists w' = exists w \<and> closed w' = closed w"
  by (auto simp: exists_def closed_def fun_eq_iff openIngresses_def)

lemma sound_addStop:
  assumes "sound w" "exists w (stopHolds (sp_stage op))" "\<not> closedStop (sp_stage op)"
  shows "sound (w\<lparr>pw_stops := pw_stops w @ [op]\<rparr>)"
proof (rule sound_closersI [OF assms(1)])
  show "closersSound (w\<lparr>pw_stops := pw_stops w @ [op]\<rparr>)"
    using assms existing_cong [of "w\<lparr>pw_stops := pw_stops w @ [op]\<rparr>" w]
    by (auto simp: sound_def closersSound_def nth_append less_Suc_eq)
qed simp_all

lemma sound_stopTo:
  assumes "sound w" "exists w (stopHolds (sp_stage (h (pw_stops w ! k))))" "closedStop (sp_stage (h (pw_stops w ! k))) \<longrightarrow> closed w (stopHolds (sp_stage (h (pw_stops w ! k))))"
  shows "sound (updateStop k h w)"
proof (rule sound_closersI [OF assms(1)])
  show "closersSound (updateStop k h w)"
    using assms existing_cong [of "updateStop k h w" w]
    by (auto simp: sound_def closersSound_def nth_update public_simps)
qed (simp_all add: public_simps)

lemma sound_addReconfigure:
  assumes "sound w" "exists w (reconfigureHolds (rc_stage op))" "\<not> closedReconfigure (rc_stage op)"
  shows "sound (w\<lparr>pw_reconfigures := pw_reconfigures w @ [op]\<rparr>)"
proof (rule sound_closersI [OF assms(1)])
  show "closersSound (w\<lparr>pw_reconfigures := pw_reconfigures w @ [op]\<rparr>)"
    using assms existing_cong [of "w\<lparr>pw_reconfigures := pw_reconfigures w @ [op]\<rparr>" w]
    by (auto simp: sound_def closersSound_def nth_append less_Suc_eq)
qed simp_all

lemma sound_updateReconfigure:
  assumes "sound w" "exists w (reconfigureHolds (rc_stage (h (pw_reconfigures w ! r))))"
    "closedReconfigure (rc_stage (h (pw_reconfigures w ! r))) \<longrightarrow> closed w (reconfigureHolds (rc_stage (h (pw_reconfigures w ! r))))"
  shows "sound (updateReconfigure r h w)"
proof (rule sound_closersI [OF assms(1)])
  show "closersSound (updateReconfigure r h w)"
    using assms existing_cong [of "updateReconfigure r h w" w]
    by (auto simp: sound_def closersSound_def nth_update public_simps)
qed (simp_all add: public_simps)

lemma sound_addCloser:
  assumes "sound w" "exists w (ep, ing)"
  shows "sound (w\<lparr>pw_closers := pw_closers w @ [Some (ep, ing, owner)]\<rparr>)"
proof (rule sound_closersI [OF assms(1)])
  show "closersSound (w\<lparr>pw_closers := pw_closers w @ [Some (ep, ing, owner)]\<rparr>)"
    using assms existing_cong [of "w\<lparr>pw_closers := pw_closers w @ [Some (ep, ing, owner)]\<rparr>" w]
    by (auto simp: sound_def closersSound_def nth_append less_Suc_eq)
qed simp_all

lemma sound_dropCloser:
  assumes "sound w" shows "sound (w\<lparr>pw_closers := (pw_closers w)[c := None]\<rparr>)"
proof (rule sound_closersI [OF assms(1)])
  show "closersSound (w\<lparr>pw_closers := (pw_closers w)[c := None]\<rparr>)"
    using assms existing_cong [of "w\<lparr>pw_closers := (pw_closers w)[c := None]\<rparr>" w]
    by (auto simp: sound_def closersSound_def nth_update split: if_splits)
qed simp_all

lemma closeOne_hit [simp]: "e < length xs \<Longrightarrow> \<not> closeOne (Some e) None xs ! e"
  by (simp add: closeOne_def)

lemma closersSound_mono:
  assumes "closersSound w" and "pw_stops w' = pw_stops w" "pw_reconfigures w' = pw_reconfigures w" "pw_closers w' = pw_closers w"
    and "\<And>x. exists w x \<Longrightarrow> exists w' x" and "\<And>x. closed w x \<Longrightarrow> closed w' x"
  shows "closersSound w'"
  using assms by (simp add: closersSound_def)

lemma exists_keeps [public_simps]:
  "exists (modifyManager f w) = exists w" "exists (updateStart i g w) = exists w" "exists (updateStop k h w) = exists w"
  "exists (updateReconfigure r l w) = exists w" "exists (emit s w) = exists w" "exists (deny ing w) = exists w"
  "exists (closeOwned ep ing ef gf w) = exists w" "exists (cancelStart c w) = exists w"
  "exists (w\<lparr>pw_starts := ws\<rparr>) = exists w" "exists (w\<lparr>pw_stops := wk\<rparr>) = exists w"
  "exists (w\<lparr>pw_reconfigures := wr\<rparr>) = exists w" "exists (w\<lparr>pw_closers := wc\<rparr>) = exists w"
  by (simp_all add: exists_def public_simps fun_eq_iff)

lemma closed_keeps [public_simps]:
  "closed (modifyManager f w) = closed w" "closed (updateStart i g w) = closed w" "closed (updateStop k h w) = closed w"
  "closed (updateReconfigure r l w) = closed w" "closed (emit s w) = closed w" "closed (deny ing w) = closed w"
  "closed (cancelStart c w) = closed w"
  "closed (w\<lparr>pw_starts := ws\<rparr>) = closed w" "closed (w\<lparr>pw_stops := wk\<rparr>) = closed w"
  "closed (w\<lparr>pw_reconfigures := wr\<rparr>) = closed w" "closed (w\<lparr>pw_closers := wc\<rparr>) = closed w"
  by (simp_all add: closed_def public_simps fun_eq_iff)

lemma tracked_close:
  assumes "tracked w" shows "tracked (closeOwned ep ing f g w)"
proof -
  have "pw_endpoints w ! e" if "closeOne ep f (pw_endpoints w) ! e" "e < length (pw_endpoints w)" for e
    using that by (rule nth_closeOne)
  moreover have "openIngresses w ! j" if "closeOne ing g (openIngresses w) ! j" "j < length (pw_ingresses w)" for j
    using that by (simp add: nth_closeOne [of ing g])
  ultimately show ?thesis
    using assms by (simp add: tracked_def endpointInFlight_def ingressInFlight_def public_simps)
qed

lemma sound_close:
  assumes "sound w" shows "sound (closeOwned ep ing f g w)"
proof -
  let ?w = "closeOwned ep ing f g w"
  have c: "closed w x \<Longrightarrow> closed ?w x" for x
    by (auto simp: closed_def exists_def public_simps dest: nth_closeOne)
  have "singleFlight ?w = singleFlight w" "startingSound ?w = startingSound w" "vacant ?w = vacant w" "opShape ?w = opShape w"
    by (simp_all add: public_simps singleFlight_def startingSound_def vacant_def opShape_def fun_eq_iff)
  moreover have "closersSound ?w"
    by (rule closersSound_mono [of w]) (use assms in \<open>simp_all add: sound_def c public_simps\<close>)
  ultimately show ?thesis using assms tracked_close by (simp add: sound_def public_simps)
qed

lemma closed_close:
  assumes "exists w (ep, ing)" "closeError ep ing f g = None"
  shows "closed (closeOwned ep ing f g w) (ep, ing)"
  using assms(1) closeError_None [OF assms(2)]
  by (auto simp: closed_def exists_def public_simps)

lemma releaseRuntime_fields [public_simps]:
  "pw_manager (releaseRuntime ep ing w) = (pw_manager w)
     \<lparr>pm_endpoint := (if pm_endpoint (pw_manager w) = ep then None else pm_endpoint (pw_manager w)),
      pm_ingress := (if pm_ingress (pw_manager w) = ing then None else pm_ingress (pw_manager w))\<rparr>"
  "pw_starts (releaseRuntime ep ing w) = pw_starts w" "pw_stops (releaseRuntime ep ing w) = pw_stops w"
  "pw_reconfigures (releaseRuntime ep ing w) = pw_reconfigures w" "pw_closers (releaseRuntime ep ing w) = pw_closers w"
  "pw_endpoints (releaseRuntime ep ing w) = pw_endpoints w" "pw_ingresses (releaseRuntime ep ing w) = pw_ingresses w"
  "pw_published (releaseRuntime ep ing w) = pw_published w" "openIngresses (releaseRuntime ep ing w) = openIngresses w"
  "exists (releaseRuntime ep ing w) = exists w" "closed (releaseRuntime ep ing w) = closed w"
  by (simp_all add: releaseRuntime_def public_simps)

definition shut :: "PublicWorld \<Rightarrow> EndpointID option \<times> IngressID option \<Rightarrow> bool" where
  "shut w x =
     ((\<forall>e. fst x = Some e \<longrightarrow> e < length (pw_endpoints w) \<longrightarrow> \<not> pw_endpoints w ! e) \<and>
      (\<forall>j. snd x = Some j \<longrightarrow> j < length (pw_ingresses w) \<longrightarrow> \<not> openIngresses w ! j))"

lemma shut_closed: "closed w x \<Longrightarrow> shut w x"
  by (simp add: closed_def shut_def)

lemma shut_close: "closeError ep ing f g = None \<Longrightarrow> shut (closeOwned ep ing f g w) (ep, ing)"
  using closeError_None [of ep ing f g] by (auto simp: shut_def public_simps)

lemma sound_release:
  assumes "sound w" "shut w (ep, ing)" shows "sound (releaseRuntime ep ing w)"
proof -
  let ?w = "releaseRuntime ep ing w"
  have "singleFlight ?w = singleFlight w" "startingSound ?w = startingSound w" "opShape ?w = opShape w" "closersSound ?w = closersSound w"
    by (simp_all add: public_simps singleFlight_def startingSound_def opShape_def closersSound_def fun_eq_iff Let_def)
  moreover have "vacant ?w" using assms(1) by (auto simp: sound_def vacant_def public_simps)
  moreover have "tracked ?w"
    using assms by (simp add: sound_def tracked_def endpointInFlight_def ingressInFlight_def public_simps shut_def) blast
  moreover have "exists w (pm_endpoint (pw_manager ?w), pm_ingress (pw_manager ?w))"
    using assms(1) by (simp add: sound_def exists_def public_simps)
  ultimately show ?thesis using assms by (simp add: sound_def public_simps)
qed

lemma pendingI: "sound w \<Longrightarrow> i < length (pw_starts w) \<Longrightarrow> \<not> over (so_driver (pw_starts w ! i)) \<Longrightarrow>
    pm_pendingStart (pw_manager w) = Some i"
  unfolding sound_def singleFlight_def opShape_def by blast

lemma unsettledD: "sound w \<Longrightarrow> i < length (pw_starts w) \<Longrightarrow> \<not> so_settled (pw_starts w ! i) \<Longrightarrow>
    pm_pendingStart (pw_manager w) = Some i"
  unfolding sound_def singleFlight_def by blast

lemma pendingD:
  assumes "sound w" "pm_pendingStart (pw_manager w) = Some i"
  shows "i < length (pw_starts w) \<and> \<not> so_settled (pw_starts w ! i) \<and> \<not> over (so_driver (pw_starts w ! i))"
  using assms unfolding sound_def singleFlight_def opShape_def by blast

lemma notStarting:
  assumes "sound w" "i < length (pw_starts w)" "\<not> over (so_driver (pw_starts w ! i))" "\<not> starting (so_driver (pw_starts w ! i))"
  shows "st_State (pm_status (pw_manager w)) \<noteq> LifecycleStarting"
  using assms pendingI [OF assms(1-3)] by (auto simp: sound_def startingSound_def Let_def)

lemma sound_inertStart:
  assumes "sound w"
    and "\<And>op. so_settled (g op) = so_settled op \<and> so_launch (g op) = so_launch op \<and> so_driver (g op) = so_driver op \<and>
      so_generation (g op) = so_generation op \<and> so_revision (g op) = so_revision op"
  shows "sound (updateStart i g w)"
proof -
  let ?w = "updateStart i g w"
  have f: "so_settled (pw_starts ?w ! k) = so_settled (pw_starts w ! k)" "so_driver (pw_starts ?w ! k) = so_driver (pw_starts w ! k)"
    "so_generation (pw_starts ?w ! k) = so_generation (pw_starts w ! k)" "so_revision (pw_starts ?w ! k) = so_revision (pw_starts w ! k)"
    "so_launch (pw_starts ?w ! k) = so_launch (pw_starts w ! k)" "length (pw_starts ?w) = length (pw_starts w)" for k
    using assms(2) by (simp_all add: public_simps nth_update)
  have h: "holds (pw_starts ?w ! k) = holds (pw_starts w ! k)" "opShape w (pw_starts ?w ! k) = opShape w (pw_starts w ! k)" for k
    by (simp_all add: holds_def opShape_def f)
  have o: "opShape ?w = opShape w" "closersSound ?w = closersSound w" "openIngresses ?w = openIngresses w" "exists ?w = exists w"
    by (simp_all add: public_simps opShape_def closersSound_def fun_eq_iff)
  have "singleFlight ?w = singleFlight w" "vacant ?w = vacant w" "tracked ?w = tracked w" "startingSound ?w = startingSound w"
    by (simp_all only: updateStart_fields(1,6,7) singleFlight_def vacant_def tracked_def endpointInFlight_def
        ingressInFlight_def startingSound_def f h o Let_def)
  with assms(1) show ?thesis by (simp only: sound_def o f h) (simp add: public_simps)
qed

lemma updated_start:
  "k < length (pw_starts w) \<Longrightarrow> pw_starts (updateStart i g w) ! k = (if k = i then g (pw_starts w ! i) else pw_starts w ! k)"
  "length (pw_starts (updateStart i g w)) = length (pw_starts w)"
  by (simp_all add: public_simps nth_update)

lemma sound_transfer:
  assumes "sound w" and i: "i < length (pw_starts w)" and "\<not> over (so_driver (pw_starts w ! i))"
    and g: "g (pw_starts w ! i) = op"
    and new: "\<not> over (so_driver op)" "so_settled op = so_settled (pw_starts w ! i)"
      "so_generation op = so_generation (pw_starts w ! i)" "so_revision op = so_revision (pw_starts w ! i)"
      "so_launch op = LaunchTaken \<longleftrightarrow> \<not> selecting (so_driver op)"
      "exists w (launchHolds (so_launch op))" "exists w (driverHolds (so_driver op))"
    and keep: "fst (holds (pw_starts w ! i)) \<subseteq> fst (holds op)" "snd (holds (pw_starts w ! i)) \<subseteq> snd (holds op)"
    and empty: "emptyHanded (so_driver (pw_starts w ! i)) \<longrightarrow> emptyHanded (so_driver op)"
    and starts: "starting (so_driver op) \<or> st_State (pm_status (pw_manager w)) \<noteq> LifecycleStarting"
  shows "sound (updateStart i g w)"
proof -
  let ?w = "updateStart i g w"
  note pend = pendingI [OF assms(1-3)]
  have u: "\<not> so_settled (pw_starts w ! i)" using pendingD [OF assms(1) pend] by simp
  have at: "pw_starts ?w ! k = (if k = i then op else pw_starts w ! k)" if "k < length (pw_starts w)" for k
    using that g by (simp add: updated_start)
  note n = updated_start(2) [of i g w]
  have m: "pw_manager ?w = pw_manager w" "pw_endpoints ?w = pw_endpoints w" "pw_ingresses ?w = pw_ingresses w"
    "openIngresses ?w = openIngresses w" "exists ?w = exists w" "opShape ?w = opShape w" "closersSound ?w = closersSound w"
    by (simp_all add: public_simps opShape_def closersSound_def fun_eq_iff)
  have "opShape w op" using new u by (simp add: opShape_def)
  then have shape: "\<forall>k<length (pw_starts w). opShape w (pw_starts ?w ! k)" using assms(1) at by (simp add: sound_def)
  have "singleFlight ?w" unfolding singleFlight_def n m
  proof (intro conjI allI impI)
    fix k assume "pm_pendingStart (pw_manager w) = Some k"
    with pend i u new at [OF i] show "k < length (pw_starts w)" "\<not> so_settled (pw_starts ?w ! k)" by auto
  next
    fix k assume "k < length (pw_starts w)" "\<not> so_settled (pw_starts ?w ! k)"
    with pend at [of k] unsettledD [OF assms(1), of k] show "pm_pendingStart (pw_manager w) = Some k"
      by (cases "k = i") simp_all
  qed
  moreover have "vacant ?w" using assms(1) empty pend at [OF i] by (auto simp: sound_def m vacant_def)
  moreover have "tracked ?w"
    using assms(1) keep pend at [OF i] unfolding sound_def m tracked_def endpointInFlight_def ingressInFlight_def by auto
  moreover have "startingSound ?w"
    using assms(1) starts pend at [OF i] new by (auto simp: sound_def m startingSound_def Let_def)
  ultimately show ?thesis using assms(1) shape by (simp add: sound_def n m)
qed

lemma sound_settle:
  assumes "sound w" and i: "i < length (pw_starts w)" and e: "emptyHanded (so_driver (pw_starts w ! i))"
  shows "sound (driveTo i DriverEnded (settleStartLocked i w))"
proof -
  let ?w = "driveTo i DriverEnded (settleStartLocked i w)"
  have d: "\<not> over (so_driver (pw_starts w ! i))" "\<not> starting (so_driver (pw_starts w ! i))" "\<not> selecting (so_driver (pw_starts w ! i))"
    using e by (auto simp: emptyHanded_def)
  note pend = pendingI [OF assms(1,2) d(1)]
  have sh: "opShape w (pw_starts w ! i)" using assms by (simp add: sound_def)
  then have l: "so_launch (pw_starts w ! i) = LaunchTaken" using d by (simp add: opShape_def)
  have n: "holds (pw_starts w ! i) = ({}, {})" using l e by (auto simp: holds_def emptyHanded_def)
  have m: "pw_endpoints ?w = pw_endpoints w" "pw_ingresses ?w = pw_ingresses w"
    "openIngresses ?w = openIngresses w" "exists ?w = exists w" "opShape ?w = opShape w" "closersSound ?w = closersSound w"
    "pw_manager ?w = (pw_manager w)\<lparr>pm_pendingStart := None\<rparr>" "length (pw_starts ?w) = length (pw_starts w)"
    using pend by (simp_all add: driveTo_def settleStartLocked_def public_simps opShape_def closersSound_def fun_eq_iff)
  have at: "pw_starts ?w ! k = (if k = i then (pw_starts w ! i)\<lparr>so_settled := True, so_driver := DriverEnded\<rparr> else pw_starts w ! k)"
    if "k < length (pw_starts w)" for k
    using that by (simp add: driveTo_def settleStartLocked_def public_simps nth_update)
  have shape: "\<forall>k<length (pw_starts w). opShape w (pw_starts ?w ! k)"
    using assms(1) sh l at by (simp add: sound_def opShape_def exists_def)
  have "singleFlight ?w" unfolding singleFlight_def m
  proof (intro conjI allI impI)
    fix k assume "k < length (pw_starts w)" "\<not> so_settled (pw_starts ?w ! k)"
    with pend at [of k] unsettledD [OF assms(1), of k]
    show "pm_pendingStart ((pw_manager w)\<lparr>pm_pendingStart := None\<rparr>) = Some k" by (cases "k = i") simp_all
  qed simp_all
  moreover have "vacant ?w" by (simp add: vacant_def m)
  moreover have "tracked ?w"
    using assms(1) pend n unfolding sound_def tracked_def endpointInFlight_def ingressInFlight_def m by simp
  moreover have "startingSound ?w"
    using notStarting [OF assms(1,2) d(1,2)] by (simp add: m startingSound_def)
  ultimately show ?thesis using assms(1) shape by (simp add: sound_def m)
qed

lemma launchTo_at:
  "k < length (pw_starts w) \<Longrightarrow> pw_starts (launchTo i l w) ! k =
     (if k = i then (pw_starts w ! i)\<lparr>so_launch := l\<rparr> else pw_starts w ! k)"
  "length (pw_starts (launchTo i l w)) = length (pw_starts w)"
  by (simp_all add: launchTo_def updated_start)

text \<open>Room for a resource that is opened.\<close>

lemma exists_grow:
  "exists w x \<Longrightarrow> length (pw_endpoints w) \<le> length (pw_endpoints w') \<Longrightarrow>
     length (pw_ingresses w) \<le> length (pw_ingresses w') \<Longrightarrow> exists w' x"
  by (auto simp: exists_def intro: less_le_trans)

lemma sound_opened:
  assumes "sound w" and i: "i < length (pw_starts w)" and sel: "selecting (so_driver (pw_starts w ! i))"
    and w': "pw_manager w' = pw_manager w" "pw_starts w' = pw_starts w" "pw_stops w' = pw_stops w"
      "pw_reconfigures w' = pw_reconfigures w" "pw_closers w' = pw_closers w"
      "pw_endpoints w' = pw_endpoints w @ newE" "openIngresses w' = openIngresses w @ newI"
    and l: "l \<noteq> LaunchTaken" "exists w' (launchHolds l)"
    and keep: "set_option (fst (launchHolds (so_launch (pw_starts w ! i)))) \<subseteq> set_option (fst (launchHolds l))"
      "set_option (snd (launchHolds (so_launch (pw_starts w ! i)))) \<subseteq> set_option (snd (launchHolds l))"
    and new: "\<And>e. length (pw_endpoints w) \<le> e \<Longrightarrow> e < length (pw_endpoints w') \<Longrightarrow> fst (launchHolds l) = Some e"
      "\<And>j. length (pw_ingresses w) \<le> j \<Longrightarrow> j < length (pw_ingresses w') \<Longrightarrow> snd (launchHolds l) = Some j"
  shows "sound (launchTo i l w')"
proof -
  let ?w = "launchTo i l w'"
  have d: "\<not> over (so_driver (pw_starts w ! i))" "\<not> emptyHanded (so_driver (pw_starts w ! i))"
    using sel by (auto simp: selecting_def)
  note pend = pendingI [OF assms(1) i d(1)]
  have n: "length (pw_ingresses w') = length (pw_ingresses w) + length newI"
    using w'(7) by (metis length_append length_open)
  have m: "pw_manager ?w = pw_manager w" "pw_stops ?w = pw_stops w" "pw_reconfigures ?w = pw_reconfigures w"
    "pw_closers ?w = pw_closers w" "pw_endpoints ?w = pw_endpoints w @ newE" "openIngresses ?w = openIngresses w @ newI"
    "length (pw_starts ?w) = length (pw_starts w)" "pw_ingresses ?w = pw_ingresses w'" "exists ?w = exists w'"
    using w' by (simp_all add: launchTo_def public_simps)
  have at: "pw_starts ?w ! k = (if k = i then (pw_starts w ! i)\<lparr>so_launch := l\<rparr> else pw_starts w ! k)"
    if "k < length (pw_starts w)" for k
    using that w'(2) by (simp add: launchTo_at)
  have e: "exists w' x" if "exists w x" for x
    using that by (rule exists_grow) (simp_all add: w' n)
  have c: "closed ?w x" if "closed w x" for x
    using that e [of x] by (auto simp: closed_def m exists_def nth_append)
  have "closersSound ?w"
    by (rule closersSound_mono [of w]) (use assms(1) e c in \<open>simp_all add: sound_def m\<close>)
  moreover have "singleFlight ?w" unfolding singleFlight_def m
  proof (intro conjI allI impI)
    fix k assume "pm_pendingStart (pw_manager w) = Some k"
    with pendingD [OF assms(1), of k] at [of k] show "k < length (pw_starts w)" "\<not> so_settled (pw_starts ?w ! k)" by auto
  next
    fix k assume "k < length (pw_starts w)" "\<not> so_settled (pw_starts ?w ! k)"
    with at [of k] unsettledD [OF assms(1), of k] pend show "pm_pendingStart (pw_manager w) = Some k" by (cases "k = i") simp_all
  qed
  moreover have "vacant ?w" using assms(1) d pend by (auto simp: sound_def m vacant_def at [OF i])
  moreover have "startingSound ?w" using assms(1) pend by (auto simp: sound_def m startingSound_def Let_def at [OF i])
  moreover have "opShape ?w (pw_starts ?w ! k)" if "k < length (pw_starts w)" for k
    using assms(1) that e l sel at [OF that] by (auto simp: sound_def opShape_def m)
  moreover have "tracked ?w"
  proof -
    have h: "fst (holds (pw_starts w ! i)) \<subseteq> fst (holds (pw_starts ?w ! i))" "snd (holds (pw_starts w ! i)) \<subseteq> snd (holds (pw_starts ?w ! i))"
      using keep by (auto simp: holds_def at [OF i])
    have "pm_endpoint (pw_manager w) = Some e \<or> endpointInFlight ?w e"
      if "e < length (pw_endpoints ?w)" "pw_endpoints ?w ! e" for e
    proof (cases "e < length (pw_endpoints w)")
      case True
      with that assms(1) h pend show ?thesis
        by (auto simp: sound_def tracked_def m nth_append endpointInFlight_def)
    next
      case False
      with that new(1) [of e] pend show ?thesis by (auto simp: endpointInFlight_def m holds_def at [OF i] w')
    qed
    moreover have "pm_ingress (pw_manager w) = Some j \<or> ingressInFlight ?w j"
      if "j < length (pw_ingresses ?w)" "openIngresses ?w ! j" for j
    proof (cases "j < length (pw_ingresses w)")
      case True
      with that assms(1) h pend show ?thesis
        by (auto simp: sound_def tracked_def m nth_append ingressInFlight_def)
    next
      case False
      with that new(2) [of j] pend show ?thesis by (auto simp: ingressInFlight_def m holds_def at [OF i])
    qed
    ultimately show ?thesis by (simp add: tracked_def m)
  qed
  ultimately show ?thesis using assms(1) e by (simp add: sound_def m)
qed

lemma sound_discard:
  assumes "sound w" and i: "i < length (pw_starts w)"
    and d: "driverHolds (so_driver (pw_starts w ! i)) = (ep, ing)" "\<not> over (so_driver (pw_starts w ! i))"
      "\<not> selecting (so_driver (pw_starts w ! i))" "\<not> starting (so_driver (pw_starts w ! i))" "\<not> emptyHanded (so_driver (pw_starts w ! i))"
    and d': "emptyHanded d'"
  shows "sound (driveTo i d' (discardRuntime ep ing f g w))"
proof -
  let ?c = "closeOwned ep ing f g w" and ?w = "driveTo i d' (discardRuntime ep ing f g w)"
  note pend = pendingI [OF assms(1) i d(2)]
  have "pm_endpoint (pw_manager w) = None" "pm_ingress (pw_manager w) = None"
    using assms(1) pend d by (auto simp: sound_def vacant_def)
  then have m: "pw_manager ?w = (pw_manager w)\<lparr>pm_endpoint := (if closeError ep ing f g = None then None else ep),
      pm_ingress := (if closeError ep ing f g = None then None else ing)\<rparr>"
    by (simp add: driveTo_def discardRuntime_def retainRuntimeAfterFailedCleanup_def public_simps Let_def)
  have s: "sound ?c" using assms(1) by (rule sound_close)
  have x: "pw_endpoints ?w = pw_endpoints ?c" "openIngresses ?w = openIngresses ?c" "pw_ingresses ?w = pw_ingresses ?c"
    "exists ?w = exists w" "closed ?w = closed ?c" "opShape ?w = opShape ?c" "closersSound ?w = closersSound ?c"
    "length (pw_starts ?w) = length (pw_starts w)"
    by (simp_all add: driveTo_def discardRuntime_def retainRuntimeAfterFailedCleanup_def public_simps Let_def opShape_def
        closersSound_def fun_eq_iff)
  have at: "pw_starts ?w ! k = (if k = i then (pw_starts w ! i)\<lparr>so_driver := d'\<rparr> else pw_starts w ! k)"
    if "k < length (pw_starts w)" for k
    using that by (simp add: driveTo_def discardRuntime_def retainRuntimeAfterFailedCleanup_def public_simps Let_def nth_update)
  have sh: "opShape ?c (pw_starts w ! i)" using s i by (simp add: sound_def public_simps)
  have l: "so_launch (pw_starts w ! i) = LaunchTaken" using sh d by (simp add: opShape_def)
  have h: "holds (pw_starts w ! i) = (set_option ep, set_option ing)" using d l by (simp add: holds_def)
  have ex: "exists w (ep, ing)" using sh d by (simp add: opShape_def public_simps)
  have "opShape ?c (pw_starts ?w ! k)" if "k < length (pw_starts w)" for k
    using that s sh d d' l at [OF that] by (auto simp: sound_def opShape_def public_simps emptyHanded_def exists_def)
  moreover have "singleFlight ?w" unfolding singleFlight_def x
  proof (intro conjI allI impI)
    fix k assume "pm_pendingStart (pw_manager ?w) = Some k"
    then have "pm_pendingStart (pw_manager w) = Some k" by (simp add: m)
    with pendingD [OF assms(1), of k] at [of k] show "k < length (pw_starts w)" "\<not> so_settled (pw_starts ?w ! k)" by auto
  next
    fix k assume "k < length (pw_starts w)" "\<not> so_settled (pw_starts ?w ! k)"
    with at [of k] unsettledD [OF assms(1), of k] pend show "pm_pendingStart (pw_manager ?w) = Some k"
      by (cases "k = i") (simp_all add: m)
  qed
  moreover have "vacant ?w" using pend d' at [OF i] by (simp add: vacant_def m)
  moreover have "startingSound ?w" using notStarting [OF assms(1) i d(2,4)] by (simp add: startingSound_def m)
  moreover have "tracked ?w"
  proof (cases "closeError ep ing f g = None")
    case True
    with closed_close [OF ex] have "closed ?c (ep, ing)" by simp
    then show ?thesis using s pend True h \<open>pm_endpoint (pw_manager w) = None\<close> \<open>pm_ingress (pw_manager w) = None\<close>
      by (auto simp: sound_def tracked_def x m endpointInFlight_def ingressInFlight_def closed_def public_simps)
  next
    case False
    then show ?thesis using s pend h \<open>pm_endpoint (pw_manager w) = None\<close> \<open>pm_ingress (pw_manager w) = None\<close>
      by (auto simp: sound_def tracked_def x m endpointInFlight_def ingressInFlight_def public_simps)
  qed
  moreover have "exists w (pm_endpoint (pw_manager ?w), pm_ingress (pw_manager ?w))" using ex by (simp add: m exists_def)
  ultimately show ?thesis using s by (simp add: sound_def x)
qed

lemma sound_launched:
  assumes "sound w" and none: "pm_pendingStart (pw_manager w) = None" "pm_endpoint (pw_manager w) = None"
      "pm_ingress (pw_manager w) = None"
    and op: "so_launch op = LaunchIngress" "so_driver op = Selecting" "\<not> so_settled op"
      "so_generation op = g" "so_revision op = pr_Revision (pm_preferences (pw_manager w))"
  shows "sound (modifyManager (\<lambda>m. m\<lparr>pm_start := Some (length (pw_starts w)), pm_pendingStart := Some (length (pw_starts w)),
            pm_status := plainStatus LifecycleStarting g r\<rparr>) (w\<lparr>pw_starts := pw_starts w @ [op]\<rparr>))" (is "sound ?w")
proof -
  let ?n = "length (pw_starts w)"
  have s: "so_settled (pw_starts w ! k)" if "k < ?n" for k
    using unsettledD [OF assms(1) that] none by auto
  have m: "pw_endpoints ?w = pw_endpoints w" "openIngresses ?w = openIngresses w" "pw_ingresses ?w = pw_ingresses w"
    "exists ?w = exists w" "closed ?w = closed w" "opShape ?w = opShape w" "closersSound ?w = closersSound w"
    "length (pw_starts ?w) = Suc ?n"
    by (simp_all add: public_simps opShape_def closersSound_def fun_eq_iff)
  have "singleFlight ?w"
    using s op by (auto simp: singleFlight_def public_simps nth_append less_Suc_eq)
  moreover have "vacant ?w" using none by (simp add: vacant_def public_simps)
  moreover have "startingSound ?w" using op by (simp add: startingSound_def public_simps plainStatus_def)
  moreover have "tracked ?w"
    using assms(1) none by (auto simp: sound_def tracked_def endpointInFlight_def ingressInFlight_def public_simps)
  moreover have "opShape w (pw_starts ?w ! k)" if "k < Suc ?n" for k
    using that assms(1) op by (auto simp: sound_def public_simps nth_append less_Suc_eq opShape_def exists_def)
  ultimately show ?thesis using assms(1) none by (simp add: sound_def m) (simp add: public_simps)
qed

lemma sound_adopted:
  assumes "sound w" and i: "i < length (pw_starts w)"
    and d: "so_driver (pw_starts w ! i) = Finishing r" and r: "sr_endpoint r = Some e" "sr_ingress r = Some j"
    and w': "pw_manager w' = (pw_manager w)\<lparr>pm_endpoint := Some e, pm_ingress := Some j, pm_pendingStart := None,
        pm_status := s, pm_start := st\<rparr>" "st_State s \<noteq> LifecycleStarting"
      "length (pw_starts w') = length (pw_starts w)"
      "\<And>k. k < length (pw_starts w) \<Longrightarrow> k \<noteq> i \<Longrightarrow> pw_starts w' ! k = pw_starts w ! k"
      "so_settled (pw_starts w' ! i)" "so_launch (pw_starts w' ! i) = so_launch (pw_starts w ! i)"
      "so_driver (pw_starts w' ! i) = Monitoring e j"
      "pw_stops w' = pw_stops w" "pw_reconfigures w' = pw_reconfigures w" "pw_closers w' = pw_closers w"
      "pw_endpoints w' = pw_endpoints w" "pw_ingresses w' = pw_ingresses w"
  shows "sound w'"
proof -
  have sh: "opShape w (pw_starts w ! i)" using assms(1) i by (simp add: sound_def)
  then have l: "so_launch (pw_starts w ! i) = LaunchTaken" using d by (simp add: opShape_def)
  have h: "holds (pw_starts w ! i) = ({e}, {j})" using d l r by (simp add: holds_def)
  have ex: "exists w (Some e, Some j)" using sh d r by (simp add: opShape_def)
  have pend: "pm_pendingStart (pw_manager w) = Some i" using pendingI [OF assms(1) i] d by simp
  have x: "openIngresses w' = openIngresses w" "exists w' = exists w" "closed w' = closed w" "opShape w' = opShape w"
    "closersSound w' = closersSound w"
    using w' by (simp_all add: openIngresses_def exists_def closed_def opShape_def closersSound_def fun_eq_iff)
  have "singleFlight w'" unfolding singleFlight_def w'(1,3)
  proof (intro conjI allI impI)
    fix k assume "k < length (pw_starts w)" "\<not> so_settled (pw_starts w' ! k)"
    with pend w'(4) [of k] w'(5) unsettledD [OF assms(1), of k]
    show "pm_pendingStart ((pw_manager w)\<lparr>pm_endpoint := Some e, pm_ingress := Some j, pm_pendingStart := None,
        pm_status := s, pm_start := st\<rparr>) = Some k" by (cases "k = i") simp_all
  qed simp_all
  moreover have "vacant w'" "startingSound w'" using w' by (simp_all add: vacant_def startingSound_def)
  moreover have "tracked w'"
    using assms(1) pend h i d by (auto simp: sound_def tracked_def vacant_def endpointInFlight_def ingressInFlight_def w'(1,11,12) x)
  moreover have "opShape w (pw_starts w' ! k)" if "k < length (pw_starts w)" for k
    using that assms(1) w'(4) [of k] w'(5-7) l by (cases "k = i") (auto simp: sound_def opShape_def exists_def)
  ultimately show ?thesis using assms(1) ex w' by (simp add: sound_def x)
qed

lemma sound_status: "sound w \<Longrightarrow> st_State s \<noteq> LifecycleStarting \<Longrightarrow> sound (setStatus s w)"
  unfolding setStatus_def by (rule sound_manager) simp_all

lemma sound_emitCurrent: "sound w \<Longrightarrow> sound (emitCurrent w)"
  unfolding emitCurrent_def by (rule sound_emit)

lemma failed_state [simp]:
  "st_State (failedStatus s c) = LifecycleFailed" "st_State (failWith s f) = LifecycleFailed"
  "st_State (plainStatus x g r) = x"
  by (simp_all add: failedStatus_def failWith_def plainStatus_def)

lemma sound_startSection:
  assumes "sound w" "startSection x owner w = (out, w')"
  shows "sound w' \<and> (\<forall>ep ing. out = StartCloses ep ing \<longrightarrow> exists w' (ep, ing))"
proof -
  have st: "pm_pendingStart (pw_manager w) = None"
    if "\<not> (pm_pendingStart (pw_manager w) \<noteq> None \<and> st_State (pm_status (pw_manager w)) \<noteq> LifecycleStarting)"
      "\<not> (st_State (pm_status (pw_manager w)) = LifecycleStarting \<and> pm_start (pw_manager w) \<noteq> None)"
    using that assms(1) by (auto simp: sound_def startingSound_def Let_def)
  have ex: "exists w (pm_endpoint (pw_manager w), pm_ingress (pw_manager w))" using assms(1) by (simp add: sound_def)
  show ?thesis
    using assms(2) st ex assms(1)
    by (auto simp: startSection_def Let_def newStart_def public_simps split: if_splits
        intro!: sound_emitCurrent sound_status sound_deny sound_launched)
qed

lemma sound_complete:
  assumes "sound w" and "st_State (pm_status (pw_manager w)) \<noteq> LifecycleStarting"
  shows "sound (completeStartLocked i res w)"
  unfolding completeStartLocked_def
  by (auto intro!: sound_manager sound_inertStart simp: assms public_simps)

lemma completeStart_fields [public_simps]:
  "pm_status (pw_manager (completeStartLocked i res w)) = pm_status (pw_manager w)"
  "pm_preferences (pw_manager (completeStartLocked i res w)) = pm_preferences (pw_manager w)"
  "pm_pendingStart (pw_manager (completeStartLocked i res w)) = pm_pendingStart (pw_manager w)"
  "length (pw_starts (completeStartLocked i res w)) = length (pw_starts w)"
  "so_driver (pw_starts (completeStartLocked i res w) ! k) = so_driver (pw_starts w ! k)"
  "so_launch (pw_starts (completeStartLocked i res w) ! k) = so_launch (pw_starts w ! k)"
  "so_generation (pw_starts (completeStartLocked i res w) ! k) = so_generation (pw_starts w ! k)"
  "so_settled (pw_starts (completeStartLocked i res w) ! k) = so_settled (pw_starts w ! k)"
  by (simp_all add: completeStartLocked_def public_simps nth_update)

lemma sound_notCurrent:
  assumes "sound w" "i < length (pw_starts w)" "\<not> over (so_driver (pw_starts w ! i))" "\<not> startCurrent i w"
  shows "st_State (pm_status (pw_manager w)) \<noteq> LifecycleStarting"
  using assms pendingI [OF assms(1-3)] by (auto simp: sound_def startingSound_def startCurrent_def Let_def)

lemma driveTo_transfer:
  assumes "sound w" and i: "i < length (pw_starts w)" and "\<not> over (so_driver (pw_starts w ! i))"
    and "\<not> over d" "selecting (so_driver (pw_starts w ! i)) = selecting d" "exists w (driverHolds d)"
    and "set_option (fst (driverHolds (so_driver (pw_starts w ! i)))) \<subseteq> set_option (fst (driverHolds d))"
      "set_option (snd (driverHolds (so_driver (pw_starts w ! i)))) \<subseteq> set_option (snd (driverHolds d))"
    and "emptyHanded (so_driver (pw_starts w ! i)) \<longrightarrow> emptyHanded d"
    and "st_State (pm_status (pw_manager w)) \<noteq> LifecycleStarting"
  shows "sound (driveTo i d w)"
  unfolding driveTo_def
proof (rule sound_transfer [OF assms(1-3) refl])
  have "opShape w (pw_starts w ! i)" using assms(1) i by (simp add: sound_def)
  with assms(5) show "so_launch ((pw_starts w ! i)\<lparr>so_driver := d\<rparr>) = LaunchTaken \<longleftrightarrow>
      \<not> selecting (so_driver ((pw_starts w ! i)\<lparr>so_driver := d\<rparr>))"
    and "exists w (launchHolds (so_launch ((pw_starts w ! i)\<lparr>so_driver := d\<rparr>)))" by (simp_all add: opShape_def)
qed (use assms in \<open>auto simp: holds_def\<close>)

lemma sound_finishStart:
  assumes "sound w" and i: "i < length (pw_starts w)" and d: "so_driver (pw_starts w ! i) = Finishing r"
  shows "sound (finishStart i r w)"
proof -
  have ov: "\<not> over (so_driver (pw_starts w ! i))" using d by simp
  have sh: "opShape w (pw_starts w ! i)" using assms(1) i by (simp add: sound_def)
  then have ex: "exists w (sr_endpoint r, sr_ingress r)" using d by (simp add: opShape_def)
  have turned: "sound (driveTo i (Discarding (sr_endpoint r) (sr_ingress r) res b) (deny (sr_ingress r) v))"
    if "sound v" "pw_starts v = pw_starts w" "exists v = exists w" "st_State (pm_status (pw_manager v)) \<noteq> LifecycleStarting" for v res b
    using that d i ex by (intro driveTo_transfer sound_deny) (simp_all add: public_simps)
  show ?thesis
  proof (cases "startCurrent i w")
    case False
    with turned [OF assms(1) refl refl sound_notCurrent [OF assms(1) i ov False]] show ?thesis
      by (simp add: finishStart_def Let_def)
  next
    case True
    let ?err = "if sr_err r = None \<and> (sr_endpoint r = None \<or> sr_ingress r = None \<or> sr_canonicalURL r = [])
                    then Some plainError else sr_err r"
    show ?thesis
    proof (cases ?err)
      case (Some f)
      have "sound (setStatus (failWith (pm_status (pw_manager w)) (redactedPublicAccessFailure f)) w)"
        using assms(1) by (rule sound_status) simp
      with turned True Some show ?thesis by (auto simp: finishStart_def Let_def setStatus_def public_simps)
    next
      case None
      then obtain e j where ej: "sr_endpoint r = Some e" "sr_ingress r = Some j" by (auto split: if_splits)
      show ?thesis
      proof (rule sound_adopted [OF assms(1) i d ej])
        have pend: "pm_pendingStart (pw_manager w) = Some i" using pendingI [OF assms(1) i ov] .
        show "pw_manager (finishStart i r w) = (pw_manager w)\<lparr>pm_endpoint := Some e, pm_ingress := Some j, pm_pendingStart := None,
          pm_status := (plainStatus LifecycleReady (so_generation (pw_starts w ! i)) (so_revision (pw_starts w ! i)))
                    \<lparr>st_PublicURL := sr_canonicalURL r\<rparr>,
          pm_start := (if so_result (pw_starts w ! i) \<noteq> None then pm_start (pw_manager w) else None)\<rparr>"
          using True None ej pend
          by (simp add: finishStart_def Let_def driveTo_def settleStartLocked_def completeStartLocked_def emitCurrent_def public_simps startCurrent_def)
      qed (use True None ej i in \<open>simp_all add: finishStart_def Let_def driveTo_def settleStartLocked_def
            completeStartLocked_def emitCurrent_def public_simps nth_update\<close>)
    qed
  qed
qed

lemma sound_failCurrent:
  assumes "sound w" and i: "i < length (pw_starts w)" and d: "so_driver (pw_starts w ! i) = Selecting"
  shows "sound (failCurrentStart i c w) \<and> st_State (pm_status (pw_manager (failCurrentStart i c w))) \<noteq> LifecycleStarting"
proof (cases "pm_start (pw_manager w) = Some i \<and> st_State (pm_status (pw_manager w)) = LifecycleStarting \<and>
    st_Generation (pm_status (pw_manager w)) = so_generation (pw_starts w ! i)")
  case True
  have "sound (setStatus (failedStatus (pm_status (pw_manager w)) c) w)" using assms(1) by (rule sound_status) simp
  with True show ?thesis
    by (auto simp: failCurrentStart_def Let_def emitCurrent_def public_simps setStatus_def intro!: sound_emit sound_complete)
next
  case False
  have "st_State (pm_status (pw_manager w)) \<noteq> LifecycleStarting"
    using False assms(1) pendingI [OF assms(1) i] d by (auto simp: sound_def startingSound_def Let_def)
  with False assms(1) show ?thesis
    by (auto simp: failCurrentStart_def Let_def public_simps intro!: sound_complete)
qed

lemma failCurrent_fields [public_simps]:
  "length (pw_starts (failCurrentStart i c w)) = length (pw_starts w)"
  "so_driver (pw_starts (failCurrentStart i c w) ! k) = so_driver (pw_starts w ! k)"
  "so_launch (pw_starts (failCurrentStart i c w) ! k) = so_launch (pw_starts w ! k)"
  by (simp_all add: failCurrentStart_def emitCurrent_def setStatus_def Let_def public_simps)

lemma sound_expired:
  assumes "sound w" and i: "i < length (pw_starts w)" and d: "so_driver (pw_starts w ! i) = Selecting"
  shows "sound (startExpired i w)"
proof -
  let ?c = "updateStart i (\<lambda>op. op\<lparr>so_canceled := True\<rparr>) w"
  have "sound ?c" using assms(1) by (rule sound_inertStart) simp
  then have "sound (failCurrentStart i ErrorTimeout ?c)"
    "st_State (pm_status (pw_manager (failCurrentStart i ErrorTimeout ?c))) \<noteq> LifecycleStarting"
    using sound_failCurrent [of ?c i ErrorTimeout] i d by (simp_all add: public_simps nth_update)
  then show ?thesis unfolding startExpired_def
    by (intro driveTo_transfer) (simp_all add: public_simps nth_update i d exists_def)
qed

lemma sound_over:
  assumes "sound v" "over x" "driverHolds x = (None, None)" "over (so_driver (pw_starts v ! i))"
  shows "sound (driveTo i x v)"
proof -
  let ?w = "driveTo i x v"
  have f: "so_settled (pw_starts ?w ! k) = so_settled (pw_starts v ! k)" "so_generation (pw_starts ?w ! k) = so_generation (pw_starts v ! k)"
    "so_revision (pw_starts ?w ! k) = so_revision (pw_starts v ! k)" "so_launch (pw_starts ?w ! k) = so_launch (pw_starts v ! k)"
    "length (pw_starts ?w) = length (pw_starts v)" for k
    by (simp_all add: driveTo_def public_simps nth_update)
  have g: "so_driver (pw_starts ?w ! k) = (if k = i then x else so_driver (pw_starts v ! k))" if "k < length (pw_starts v)" for k
    using that by (simp add: driveTo_def public_simps nth_update)
  have m: "pw_manager ?w = pw_manager v" "pw_endpoints ?w = pw_endpoints v" "pw_ingresses ?w = pw_ingresses v"
    "openIngresses ?w = openIngresses v" "exists ?w = exists v" "opShape ?w = opShape v" "closersSound ?w = closersSound v"
    by (simp_all add: driveTo_def public_simps opShape_def closersSound_def fun_eq_iff)
  have np: "pm_pendingStart (pw_manager v) \<noteq> Some i" using pendingD [OF assms(1), of i] assms(4) by auto
  have h: "pm_pendingStart (pw_manager v) = Some k \<Longrightarrow> so_driver (pw_starts ?w ! k) = so_driver (pw_starts v ! k) \<and>
      holds (pw_starts ?w ! k) = holds (pw_starts v ! k)" for k
    using pendingD [OF assms(1), of k] np g [of k] by (auto simp: holds_def f)
  have "singleFlight ?w" using assms(1) unfolding sound_def singleFlight_def m f by blast
  moreover have "vacant ?w" "startingSound ?w"
    using assms(1) h unfolding sound_def by (auto simp: vacant_def startingSound_def Let_def m f)
  moreover have "tracked ?w"
    using assms(1) h unfolding sound_def tracked_def endpointInFlight_def ingressInFlight_def m by fastforce
  moreover have "opShape v (pw_starts ?w ! k)" if k: "k < length (pw_starts v)" for k
    using assms k g [OF k] by (cases "k = i") (auto simp: sound_def opShape_def f exists_def over_def)
  ultimately show ?thesis using assms(1) by (simp add: sound_def m f)
qed

lemma sound_endpointDone:
  assumes "sound w" and d: "so_driver (pw_starts w ! i) = Monitoring e j"
  shows "sound (endpointDone i e j f w)"
  unfolding endpointDone_def Let_def emitCurrent_def
  by (auto intro!: sound_over sound_emit sound_manager sound_deny simp: assms public_simps)

lemma sound_inertManager:
  assumes "sound w" and "\<And>m. pm_pendingStart (f m) = pm_pendingStart m" and "\<And>m. pm_endpoint (f m) = pm_endpoint m"
    and "\<And>m. pm_ingress (f m) = pm_ingress m" and "\<And>m. pm_start (f m) = pm_start m"
    and "\<And>m. pm_status (f m) = pm_status m" and "\<And>m. pm_preferences (f m) = pm_preferences m"
  shows "sound (modifyManager f w)"
proof -
  have "startingSound (modifyManager f w) = startingSound w"
    by (rule startingSound_cong) (simp_all add: public_simps assms)
  then show ?thesis
    using assms(1) by (intro sound_cong [OF _ _ _ _ _ _ _ _ _ _ assms(1)]) (simp_all add: public_simps assms sound_def)
qed

lemma sound_driverStep:
  assumes "sound w" and i: "i < length (pw_starts w)" and step: "driverStep i f g w = Some w'"
  shows "sound w'"
proof -
  have sh: "opShape w (pw_starts w ! i)" using assms(1) i by (simp add: sound_def)
  show ?thesis
  proof (cases "so_driver (pw_starts w ! i)")
    case Selecting
    then obtain r where r: "so_launch (pw_starts w ! i) = LaunchDone r"
      "w' = updateStart i (\<lambda>op. op\<lparr>so_canceled := True, so_launch := LaunchTaken, so_driver := Finishing r\<rparr>) w"
      using step by (auto simp: driverStep_def split: Launch.splits)
    show ?thesis unfolding r(2)
      by (rule sound_transfer [OF assms(1) i _ refl]) (use sh Selecting r in \<open>auto simp: holds_def opShape_def exists_def\<close>)
  next
    case (Finishing r)
    with step have "w' = finishStart i r w" by (simp add: driverStep_def)
    with sound_finishStart [OF assms(1) i Finishing] show ?thesis by simp
  next
    case (Discarding ep ing res b)
    with step have "w' = driveTo i (Settling res b) (discardRuntime ep ing f g w)" by (simp add: driverStep_def)
    with sound_discard [OF assms(1) i, of ep ing "Settling res b"] Discarding show ?thesis by simp
  next
    case (Settling res b)
    have n: "st_State (pm_status (pw_manager w)) \<noteq> LifecycleStarting"
      using notStarting [OF assms(1) i] Settling by simp
    have "sound (driveTo i DriverEnded (settleStartLocked i (completeStartLocked i res w)))"
      using sound_complete [OF assms(1) n, of i res] i Settling by (intro sound_settle) (simp_all add: public_simps)
    with step Settling show ?thesis by (auto simp: driverStep_def Let_def intro: sound_emit)
  next
    case Disposing
    then obtain r where r: "so_launch (pw_starts w ! i) = LaunchDone r"
      "w' = updateStart i (\<lambda>op. op\<lparr>so_launch := LaunchTaken, so_driver := DisposeClosing (sr_endpoint r) (sr_ingress r)\<rparr>)
              (deny (sr_ingress r) w)"
      using step by (auto simp: driverStep_def split: Launch.splits)
    have n: "st_State (pm_status (pw_manager w)) \<noteq> LifecycleStarting"
      using notStarting [OF assms(1) i] Disposing by simp
    show ?thesis unfolding r(2)
      by (rule sound_transfer [OF sound_deny [OF assms(1)] _ _ refl])
        (use i sh Disposing r n in \<open>auto simp: holds_def opShape_def exists_def public_simps\<close>)
  next
    case (DisposeClosing ep ing)
    with step have "w' = driveTo i DisposeSettling (discardRuntime ep ing f g w)" by (simp add: driverStep_def)
    with sound_discard [OF assms(1) i, of ep ing DisposeSettling] DisposeClosing show ?thesis by simp
  next
    case DisposeSettling
    with step have "w' = driveTo i DriverEnded (settleStartLocked i w)" by (simp add: driverStep_def)
    with sound_settle [OF assms(1) i] DisposeSettling show ?thesis by simp
  next
    case (Cleaning e j)
    let ?c = "closeOwned (Some e) (Some j) f g w"
    let ?r = "if closeError (Some e) (Some j) f g = None then releaseRuntime (Some e) (Some j) ?c else ?c"
    let ?m = "modifyManager (\<lambda>m. m\<lparr>pm_cleanup := (if pm_cleanup m = Some i then None else pm_cleanup m)\<rparr>) ?r"
    have c: "sound ?c" using assms(1) by (rule sound_close)
    then have "sound ?r" using shut_close by (auto intro: sound_release)
    then have "sound ?m" by (rule sound_inertManager) simp_all
    then have "sound (driveTo i DriverEnded ?m)" using Cleaning by (intro sound_over) (simp_all add: public_simps)
    with step Cleaning show ?thesis by (simp add: driverStep_def Let_def)
  qed (use step in \<open>auto simp: driverStep_def split: Launch.splits\<close>)
qed

lemma launching:
  assumes "sound w" "i < length (pw_starts w)" "so_launch (pw_starts w ! i) \<noteq> LaunchTaken"
  shows "selecting (so_driver (pw_starts w ! i)) \<and> exists w (launchHolds (so_launch (pw_starts w ! i)))"
  using assms by (auto simp: sound_def opShape_def)

lemma sound_launchTo:
  assumes "sound w" "i < length (pw_starts w)" "so_launch (pw_starts w ! i) \<noteq> LaunchTaken" "l \<noteq> LaunchTaken"
    and "exists w (launchHolds l)"
    and "set_option (fst (launchHolds (so_launch (pw_starts w ! i)))) \<subseteq> set_option (fst (launchHolds l))"
      "set_option (snd (launchHolds (so_launch (pw_starts w ! i)))) \<subseteq> set_option (snd (launchHolds l))"
  shows "sound (launchTo i l w)"
  using launching [OF assms(1-3)] assms
  by (intro sound_opened [where w = w and newE = "[]" and newI = "[]"]) auto

lemma launchFailed_simps [simp]:
  "sr_endpoint (launchFailed ep ing f) = ep" "sr_ingress (launchFailed ep ing f) = ing" "sr_err (launchFailed ep ing f) = Some f"
  "sr_canonicalURL (launchFailed ep ing f) = []"
  by (simp_all add: launchFailed_def)

lemma sound_launchIngress:
  assumes "sound w" and i: "i < length (pw_starts w)" and l: "so_launch (pw_starts w ! i) = LaunchIngress"
  shows "sound (launchIngress i f w)"
proof (cases f)
  case None
  let ?w = "w\<lparr>pw_ingresses := pw_ingresses w @ [\<lparr>ig_policy = None, ig_open = True\<rparr>]\<rparr>"
  have "sound (launchTo i (LaunchTunnel (length (pw_ingresses w))) ?w)"
    by (rule sound_opened [OF assms(1) i, where newE = "[]" and newI = "[True]"])
      (use launching [OF assms(1) i] l in \<open>auto simp: openIngresses_def exists_def\<close>)
  with None show ?thesis by (simp add: launchIngress_def)
next
  case (Some x)
  have "sound (launchTo i (LaunchDone (launchFailed None None x)) w)"
    using assms by (intro sound_launchTo) (simp_all add: exists_def)
  with Some show ?thesis by (simp add: launchIngress_def)
qed

lemma sound_launchTunnel:
  assumes "sound w" and i: "i < length (pw_starts w)" and l: "so_launch (pw_starts w ! i) = LaunchTunnel ing"
  shows "sound (launchTunnel pe i ing stored provider w)"
proof -
  have ex: "exists w (None, Some ing)" using launching [OF assms(1) i] l by simp
  have failed: "sound (launchTo i (LaunchDone (launchFailed None (Some ing) x)) w)" for x
    using assms ex by (intro sound_launchTo) simp_all
  let ?w = "w\<lparr>pw_endpoints := pw_endpoints w @ [True]\<rparr>"
  have opened: "sound (launchTo i x ?w)" if "launchHolds x = (Some (length (pw_endpoints w)), Some ing)" "x \<noteq> LaunchTaken" for x
    by (rule sound_opened [OF assms(1) i, where newE = "[True]" and newI = "[]"])
      (use launching [OF assms(1) i] l ex that in \<open>auto simp: openIngresses_def exists_def\<close>)
  show ?thesis unfolding launchTunnel_def Let_def
    by (auto intro!: failed opened split: sum.splits option.splits)
qed

lemma sound_launchCheck:
  assumes "sound w" and i: "i < length (pw_starts w)" and l: "so_launch (pw_starts w ! i) = LaunchReturned ing e url host pass"
  shows "sound (launchCheck i w)"
  using assms launching [OF assms(1) i] by (auto simp: launchCheck_def intro!: sound_launchTo)

lemma sound_policy:
  "sound w \<Longrightarrow> sound (w\<lparr>pw_ingresses := (pw_ingresses w)[j := (pw_ingresses w ! j)\<lparr>ig_policy := p\<rparr>]\<rparr>)" (is "_ \<Longrightarrow> sound ?w")
proof -
  assume s: "sound w"
  have "openIngresses ?w = openIngresses w"
    unfolding openIngresses_def by (rule nth_equalityI) (auto simp: nth_update)
  then show "sound ?w"
    by (intro sound_cong [OF _ _ _ _ _ _ _ _ _ _ s]) (use s in \<open>simp_all add: sound_def startingSound_def\<close>)
qed

lemma sound_launchActivate:
  assumes "sound w" and i: "i < length (pw_starts w)" and l: "so_launch (pw_starts w ! i) = LaunchActivating ing e url host pass"
  shows "sound (launchActivate pe i f w)"
  using assms launching [OF assms(1) i] sound_policy [OF assms(1)]
  by (auto simp: launchActivate_def exists_def intro!: sound_launchTo split: sum.splits)

lemma sound_launchEvent:
  assumes "sound w" "eventPossible ev w" "launchEvent pe ev w = Some w'"
  shows "sound w'"
  using assms
  by (auto simp: launchEvent_def eventPossible_def sound_launchIngress sound_launchTunnel sound_launchCheck sound_launchActivate
      split: PublicEvent.splits Launch.splits if_splits)

lemma sound_cancel: "sound w \<Longrightarrow> sound (cancelStart s w)"
  by (cases s) (auto simp: cancelStart_def intro!: sound_inertStart)

lemma manager_exists: "sound w \<Longrightarrow> exists w (pm_endpoint (pw_manager w), pm_ingress (pw_manager w))"
  by (simp add: sound_def)

lemma sound_addedStop:
  "sound w \<Longrightarrow> ks = pw_stops w \<Longrightarrow> exists w (stopHolds (sp_stage op)) \<Longrightarrow> \<not> closedStop (sp_stage op) \<Longrightarrow>
     sound (w\<lparr>pw_stops := ks @ [op]\<rparr>)"
  by (simp add: sound_addStop)

lemma sound_addedReconfigure:
  "sound w \<Longrightarrow> rs = pw_reconfigures w \<Longrightarrow> exists w (reconfigureHolds (rc_stage op)) \<Longrightarrow> \<not> closedReconfigure (rc_stage op) \<Longrightarrow>
     sound (w\<lparr>pw_reconfigures := rs @ [op]\<rparr>)"
  by (simp add: sound_addReconfigure)

lemma open_stages [simp]:
  "\<not> closedStop (StopDraining p ep ing)" "\<not> closedStop (StopClosing ep ing)" "\<not> closedStop StopEnded"
  "closedStop (StopEnding ep ing x) = (x = None)"
  "\<not> closedReconfigure (ReconfigureDraining p ep ing)" "\<not> closedReconfigure (ReconfigureClosing ep ing)"
  "closedReconfigure (ReconfigureClosed ep ing)" "\<not> closedReconfigure ReconfigureChanging"
  "\<not> closedReconfigure (ReconfigureSaved n a b)" "\<not> closedReconfigure (ReconfigureFailing c)"
  "\<not> closedReconfigure (ReconfigureRestarting v)" "\<not> closedReconfigure (ReconfigureClearing v)"
  "\<not> closedReconfigure (ReconfigureJoining i joined)" "\<not> closedReconfigure (ReconfigureEnding r)"
  "\<not> closedReconfigure ReconfigureEnded"
  by (simp_all add: closedStop_def closedReconfigure_def)

lemma sound_stopSection:
  assumes "sound w" "stopSection x w = (out, w')" shows "sound w'"
  using assms manager_exists [OF assms(1)]
  by (auto simp: stopSection_def Let_def public_simps split: if_splits
      intro!: sound_emitCurrent sound_manager sound_addedStop sound_deny sound_cancel)

lemma sound_collect:
  assumes "sound w" "exists w (ep, ing)" "collectRuntime ep ing w = ((ep', ing'), w')"
  shows "sound w' \<and> exists w' (ep', ing') \<and> pw_stops w' = pw_stops w \<and> pw_reconfigures w' = pw_reconfigures w"
  using assms manager_exists [OF assms(1)]
  by (auto simp: collectRuntime_def Let_def public_simps intro!: sound_deny split: if_splits)

lemma stop_exists:
  assumes "sound w" "k < length (pw_stops w)"
  shows "exists w (stopHolds (sp_stage (pw_stops w ! k))) \<and>
    (closedStop (sp_stage (pw_stops w ! k)) \<longrightarrow> closed w (stopHolds (sp_stage (pw_stops w ! k))))"
  using assms by (simp add: sound_def closersSound_def)

lemma reconfigure_exists:
  assumes "sound w" "r < length (pw_reconfigures w)"
  shows "exists w (reconfigureHolds (rc_stage (pw_reconfigures w ! r))) \<and>
    (closedReconfigure (rc_stage (pw_reconfigures w ! r)) \<longrightarrow> closed w (reconfigureHolds (rc_stage (pw_reconfigures w ! r))))"
  using assms by (simp add: sound_def closersSound_def)

lemma sound_stopStage:
  "sound w \<Longrightarrow> exists w (stopHolds s) \<Longrightarrow> closedStop s \<longrightarrow> closed w (stopHolds s) \<Longrightarrow> sound (stopTo k s w)"
  unfolding stopTo_def by (intro sound_stopTo) simp_all

lemma sound_reconfigureTo:
  "sound w \<Longrightarrow> exists w (reconfigureHolds s) \<Longrightarrow> closedReconfigure s \<longrightarrow> closed w (reconfigureHolds s) \<Longrightarrow> sound (reconfigureTo r s w)"
  unfolding reconfigureTo_def by (intro sound_updateReconfigure) simp_all

lemma nothing [simp]: "exists w (None, None)" "closed w (None, None)"
  by (simp_all add: exists_def closed_def)

lemma sound_stopEnd:
  assumes "sound w" "err = None \<Longrightarrow> closed w (ep, ing)"
  shows "sound (stopEnd k ep ing err w)"
proof (cases err)
  case None
  have "sound (releaseRuntime ep ing w)" using assms None by (intro sound_release shut_closed) simp_all
  with None show ?thesis unfolding stopEnd_def
    by (auto simp: Let_def public_simps intro!: sound_emit sound_stopTo sound_manager)
next
  case (Some f)
  with assms(1) show ?thesis unfolding stopEnd_def
    by (auto simp: Let_def public_simps setStatus_def intro!: sound_emit sound_stopTo sound_manager)
qed

lemma sound_stopStep:
  assumes "sound w" and k: "k < length (pw_stops w)" and step: "stopStep k d f g w = Some w'"
  shows "sound w'"
proof (cases "sp_stage (pw_stops w ! k)")
  case (StopDraining p ep ing)
  have ex: "exists w (ep, ing)" using stop_exists [OF assms(1) k] StopDraining by simp
  show ?thesis
  proof (cases "settled p w \<and> \<not> (d \<and> p \<noteq> None)")
    case True
    obtain ep' ing' v where c: "collectRuntime ep ing w = ((ep', ing'), v)" by (metis surj_pair)
    with step True StopDraining have "w' = stopTo k (if ep' = None \<and> ing' = None then StopEnding ep' ing' None else StopClosing ep' ing') v"
      by (auto simp: stopStep_def split: if_splits)
    with sound_collect [OF assms(1) ex c] show ?thesis by (auto intro!: sound_stopStage)
  next
    case False
    with step StopDraining assms(1) ex show ?thesis by (auto simp: stopStep_def intro!: sound_stopStage split: if_splits)
  qed
next
  case (StopClosing ep ing)
  have ex: "exists w (ep, ing)" using stop_exists [OF assms(1) k] StopClosing by simp
  with step StopClosing sound_close [OF assms(1)] show ?thesis
    by (auto simp: stopStep_def public_simps intro!: sound_stopStage closed_close)
next
  case (StopEnding ep ing err)
  with step stop_exists [OF assms(1) k] assms(1) show ?thesis by (auto simp: stopStep_def intro!: sound_stopEnd)
qed (use step in \<open>simp add: stopStep_def\<close>)

lemma sound_reconfigureSection:
  assumes "sound w" "reconfigureSection pe mu w = (out, w')" shows "sound w'"
  using assms manager_exists [OF assms(1)]
  by (auto simp: reconfigureSection_def Let_def public_simps split: if_splits
      intro!: sound_emitCurrent sound_manager sound_addedReconfigure sound_deny sound_cancel)

lemma sound_completeReconfigure: "sound w \<Longrightarrow> sound (completeReconfigureLocked r res w)"
  unfolding completeReconfigureLocked_def by (auto intro!: sound_inertManager sound_updateReconfigure)

lemma sound_reconfigureFailure: "sound w \<Longrightarrow> sound (finishReconfigureFailure r c w)"
  unfolding finishReconfigureFailure_def Let_def
  by (auto intro!: sound_emitCurrent sound_completeReconfigure sound_status)

lemma sound_setPresence: "sound w \<Longrightarrow> sound (setPresence a b w)"
  unfolding setPresence_def by (rule sound_inertManager) simp_all

lemma sound_plainStage:
  "sound w \<Longrightarrow> sound (reconfigureTo r (ReconfigureFailing c) w)" "sound w \<Longrightarrow> sound (reconfigureTo r (ReconfigureSaved n a b) w)"
  by (auto intro!: sound_reconfigureTo)

lemma sound_reconfigureChange: "sound w \<Longrightarrow> sound (reconfigureChange pe r sa w)"
  by (simp add: reconfigureChange_def reconcilePresence_def Let_def sound_plainStage sound_setPresence case_prod_unfold
      split: sum.split option.split)

lemma sound_reconfigureCommit: "sound w \<Longrightarrow> sound (reconfigureCommit r n a b w)"
  unfolding reconfigureCommit_def Let_def
  by (auto intro!: sound_reconfigureTo sound_completeReconfigure sound_emitCurrent sound_manager)

lemma sound_addedCloser:
  "sound w \<Longrightarrow> exists w (ep, ing) \<Longrightarrow> sound (w\<lparr>pw_closers := pw_closers w @ [Some (ep, ing, owner)]\<rparr>)"
  by (rule sound_addCloser)

lemma sound_restart:
  assumes "sound w" "reconfigureRestart r x d w = Some w'" shows "sound w'"
proof -
  obtain out v where s: "startSection x (Some r) w = (out, v)" by (metis surj_pair)
  note v = sound_startSection [OF assms(1) s]
  have "sound (reconfigureTo r (ReconfigureEnding (Some (mutationFailure ErrorTimeout (pw_manager w)))) w)"
    using assms(1) by (intro sound_reconfigureTo) simp_all
  then show ?thesis using assms(2) s v
    by (auto simp: reconfigureRestart_def Let_def split: StartOutcome.splits if_splits
        intro!: sound_reconfigureTo sound_addedCloser)
qed

lemma sound_reconfigureStep:
  assumes "sound w" and r: "r < length (pw_reconfigures w)" and step: "reconfigureStep pe r d f g sa w = Some w'"
  shows "sound w'"
proof (cases "rc_stage (pw_reconfigures w ! r)")
  case (ReconfigureDraining p ep ing)
  have ex: "exists w (ep, ing)" using reconfigure_exists [OF assms(1) r] ReconfigureDraining by simp
  show ?thesis
  proof (cases "settled p w \<and> \<not> (d \<and> p \<noteq> None)")
    case True
    obtain ep' ing' v where c: "collectRuntime ep ing w = ((ep', ing'), v)" by (metis surj_pair)
    with step True ReconfigureDraining
    have "w' = reconfigureTo r (if ep' = None \<and> ing' = None then ReconfigureChanging else ReconfigureClosing ep' ing') v"
      by (auto simp: reconfigureStep_def split: if_splits)
    with sound_collect [OF assms(1) ex c] show ?thesis by (auto intro!: sound_reconfigureTo)
  next
    case False
    with step ReconfigureDraining assms(1) ex show ?thesis
      by (auto simp: reconfigureStep_def intro!: sound_reconfigureTo split: if_splits)
  qed
next
  case (ReconfigureClosing ep ing)
  have ex: "exists w (ep, ing)" using reconfigure_exists [OF assms(1) r] ReconfigureClosing by simp
  with step ReconfigureClosing sound_close [OF assms(1)] show ?thesis
    by (auto simp: reconfigureStep_def Let_def public_simps intro!: sound_reconfigureTo closed_close split: option.splits)
next
  case (ReconfigureClosed ep ing)
  with step reconfigure_exists [OF assms(1) r] assms(1) show ?thesis
    by (auto simp: reconfigureStep_def intro!: sound_reconfigureTo sound_release shut_closed)
qed (use step assms(1) in \<open>auto simp: reconfigureStep_def split: option.splits if_splits
      intro!: sound_reconfigureTo sound_completeReconfigure sound_reconfigureFailure sound_reconfigureCommit
        sound_reconfigureChange intro: sound_restart\<close>)

lemma sound_startClosed:
  assumes "sound w" "startClosed ep ing f g w = (res, w')" shows "sound w'"
  using assms(2) sound_close [OF assms(1)]
  by (auto simp: startClosed_def Let_def split: option.splits intro!: sound_release shut_close sound_emitCurrent sound_status)

lemma sound_closedEvent:
  assumes "sound w" "closedEvent c f g w = Some w'" shows "sound w'"
proof -
  obtain ep ing owner where c: "pw_closers w ! c = Some (ep, ing, owner)" "\<not> length (pw_closers w) \<le> c"
    using assms(2) by (auto simp: closedEvent_def split: if_splits option.splits)
  obtain res v where s: "startClosed ep ing f g (w\<lparr>pw_closers := (pw_closers w)[c := None]\<rparr>) = (res, v)" by (metis surj_pair)
  have "sound v" using sound_startClosed [OF sound_dropCloser [OF assms(1)] s] .
  then show ?thesis using assms(2) c s
    by (auto simp: closedEvent_def intro!: sound_reconfigureTo split: option.splits ReconfigureStage.splits)
qed

lemma sound_startEvent:
  assumes "sound w" "startEvent x w = Some w'" shows "sound w'"
proof -
  obtain out v where s: "startSection x None w = (out, v)" by (metis surj_pair)
  with sound_startSection [OF assms(1) s] assms(2) show ?thesis
    by (auto simp: startEvent_def split: StartOutcome.splits intro!: sound_addedCloser)
qed

lemma sound_step:
  assumes "sound w" "publicStep pe ev w = Some w'" shows "sound w'"
proof -
  have p: "eventPossible ev w" and e: "publicEvent pe ev w = Some w'"
    using assms(2) by (simp_all add: publicStep_def split: if_splits)
  show ?thesis
  proof (cases ev)
    case (EvStart x)
    with e assms(1) show ?thesis by (auto simp: publicEvent_def intro: sound_startEvent)
  next
    case (EvClosed c f g)
    with e assms(1) show ?thesis by (auto simp: publicEvent_def intro: sound_closedEvent)
  next
    case (EvContextDone i)
    with e assms(1) show ?thesis by (auto simp: publicEvent_def intro!: sound_inertStart)
  next
    case (EvExpire i)
    with e p assms(1) show ?thesis by (auto simp: publicEvent_def eventPossible_def intro: sound_expired split: if_splits)
  next
    case (EvDriver i f g)
    with e p assms(1) show ?thesis by (auto simp: publicEvent_def eventPossible_def intro: sound_driverStep)
  next
    case (EvEndpointDone i f)
    with e assms(1) show ?thesis by (auto simp: publicEvent_def intro: sound_endpointDone split: Driver.splits)
  next
    case (EvStop x)
    with e assms(1) show ?thesis by (auto simp: publicEvent_def intro: sound_stopSection split: prod.splits StopOutcome.splits)
  next
    case (EvStopStep k d f g)
    with e p assms(1) show ?thesis by (auto simp: publicEvent_def eventPossible_def intro: sound_stopStep)
  next
    case (EvReconfigure mu)
    with e assms(1) show ?thesis
      by (auto simp: publicEvent_def intro: sound_reconfigureSection split: prod.splits ReconfigureOutcome.splits)
  next
    case (EvReconfigureStep r d f g sa)
    with e p assms(1) show ?thesis by (auto simp: publicEvent_def eventPossible_def intro: sound_reconfigureStep)
  qed (use e p assms(1) in \<open>auto simp: publicEvent_def intro: sound_launchEvent\<close>)
qed

lemma sound_initial: "sound (initialWorld (Initialize pe loaded a b))"
  by (simp add: sound_def singleFlight_def startingSound_def vacant_def tracked_def closersSound_def initialWorld_def
      Initialize_def Let_def failedStatus_def plainStatus_def exists_def openIngresses_def split: option.split)

lemma sound_reachable: "publicReach pe allowed w \<Longrightarrow> sound w"
  by (induction rule: publicReach.induct) (auto intro: sound_initial sound_step)

end
