(* ===== verification/TunnelGuard.thy ===== *)
theory TunnelGuard
  imports TunnelInv
begin

text \<open>
  Who is let in.  In an orderly run an ingress admits players only while public access is ready and the
  ingress is the manager's, or while the start that activated it is still being decided.
\<close>

section \<open>Lanes\<close>

definition active :: "PublicWorld \<Rightarrow> bool" where
  "active w = (st_State (pm_status (pw_manager w)) = LifecycleStarting \<or> st_State (pm_status (pw_manager w)) = LifecycleReady)"

definition stopRunning :: "PublicWorld \<Rightarrow> bool" where
  "stopRunning w = (\<exists>k<length (pw_stops w). sp_stage (pw_stops w ! k) \<noteq> StopEnded)"

definition closing :: "PublicWorld \<Rightarrow> nat \<Rightarrow> bool" where
  "closing w c = (c < length (pw_closers w) \<and> pw_closers w ! c \<noteq> None)"

definition closerOwner :: "PublicWorld \<Rightarrow> nat \<Rightarrow> OpID option" where
  "closerOwner w c = (case pw_closers w ! c of Some (_, _, owner) \<Rightarrow> owner | None \<Rightarrow> None)"

definition clearing :: "PublicWorld \<Rightarrow> OpID \<Rightarrow> bool" where
  "clearing w r = (\<exists>v. rc_stage (pw_reconfigures w ! r) = ReconfigureClearing v)"

definition restarted :: "ReconfigureStage \<Rightarrow> bool" where
  "restarted s = ((\<exists>i b. s = ReconfigureJoining i b) \<or> (\<exists>r. s = ReconfigureEnding r))"

text \<open>
  While something is closing a runtime, or a reconfiguration has not restarted yet, public access is neither
  starting nor ready; a reconfiguration is alone with the close it owns.
\<close>

definition lanes :: "PublicWorld \<Rightarrow> bool" where
  "lanes w =
     ((stopRunning w \<or> (\<exists>c. closing w c) \<longrightarrow> \<not> active w) \<and>
      (\<forall>r. pm_reconfigure (pw_manager w) = Some r \<longrightarrow> r < length (pw_reconfigures w) \<and> \<not> stopRunning w \<and>
         rc_stage (pw_reconfigures w ! r) \<noteq> ReconfigureEnded \<and>
         (restarted (rc_stage (pw_reconfigures w ! r)) \<or> \<not> active w) \<and>
         (\<forall>c. closing w c \<longrightarrow> closerOwner w c = Some r \<and> clearing w r)) \<and>
      (\<forall>c r. closing w c \<longrightarrow> closerOwner w c = Some r \<longrightarrow> pm_reconfigure (pw_manager w) = Some r \<and>
         (\<forall>c'. closing w c' \<longrightarrow> c' = c)) \<and>
      (\<forall>r<length (pw_reconfigures w). rc_stage (pw_reconfigures w ! r) \<noteq> ReconfigureEnded \<longrightarrow>
         pm_reconfigure (pw_manager w) = Some r \<and> rc_result (pw_reconfigures w ! r) = None))"

definition admits :: "PublicWorld \<Rightarrow> IngressID \<Rightarrow> bool" where
  "admits w j = (j < length (pw_ingresses w) \<and> ig_policy (pw_ingresses w ! j) \<noteq> None)"

definition serving :: "PublicWorld \<Rightarrow> IngressID \<Rightarrow> bool" where
  "serving w j = (st_State (pm_status (pw_manager w)) = LifecycleReady \<and> pm_ingress (pw_manager w) = Some j)"

definition guarded :: "PublicWorld \<Rightarrow> bool" where
  "guarded w = (\<forall>j. admits w j \<longrightarrow> serving w j \<or> ingressInFlight w j)"

lemma lanes_frame:
  assumes "lanes w" "pm_reconfigure (pw_manager w') = pm_reconfigure (pw_manager w)" "pw_stops w' = pw_stops w"
    "pw_closers w' = pw_closers w" "pw_reconfigures w' = pw_reconfigures w" "active w' \<Longrightarrow> active w"
  shows "lanes w'"
proof -
  have e: "stopRunning w' = stopRunning w" "closing w' = closing w" "closerOwner w' = closerOwner w" "clearing w' = clearing w"
    using assms(2-5) by (simp_all add: stopRunning_def closing_def closerOwner_def clearing_def fun_eq_iff)
  show ?thesis using assms(1,6) unfolding lanes_def e assms(2-5) by blast
qed

lemma quiet_iff: "quiet w = (\<not> stopRunning w \<and> (\<forall>c. \<not> closing w c))"
  by (auto simp: quiet_def stopRunning_def closing_def list_all_length simp del: not_None_eq not_Some_eq)

lemma active_keeps [public_simps]:
  "active (deny ing w) = active w" "active (emit s w) = active w" "active (closeOwned ep ing f g w) = active w"
  "active (releaseRuntime ep ing w) = active w" "active (cancelStart c w) = active w" "active (updateStart i h w) = active w"
  "active (updateStop k j w) = active w" "active (updateReconfigure r l w) = active w"
  "active (w\<lparr>pw_starts := ws\<rparr>) = active w" "active (w\<lparr>pw_stops := wk\<rparr>) = active w"
  "active (w\<lparr>pw_reconfigures := wr\<rparr>) = active w" "active (w\<lparr>pw_closers := wc\<rparr>) = active w"
  "active (completeStartLocked i res w) = active w"
  by (simp_all add: active_def public_simps)

lemma active_status [simp]:
  "active (modifyManager f w) = (st_State (pm_status (f (pw_manager w))) = LifecycleStarting \<or>
     st_State (pm_status (f (pw_manager w))) = LifecycleReady)"
  by (simp add: active_def public_simps)

lemma lanesD:
  assumes "lanes w"
  shows "stopRunning w \<Longrightarrow> \<not> active w" "closing w c \<Longrightarrow> \<not> active w"
    "pm_reconfigure (pw_manager w) = Some r \<Longrightarrow> \<not> stopRunning w"
    "pm_reconfigure (pw_manager w) = Some r \<Longrightarrow> restarted (rc_stage (pw_reconfigures w ! r)) \<or> \<not> active w"
    "pm_reconfigure (pw_manager w) = Some r \<Longrightarrow> closing w c \<Longrightarrow> closerOwner w c = Some r \<and> clearing w r"
    "closing w c \<Longrightarrow> closerOwner w c = Some r \<Longrightarrow> pm_reconfigure (pw_manager w) = Some r"
    "closing w c \<Longrightarrow> closerOwner w c = Some r \<Longrightarrow> closing w c' \<Longrightarrow> c' = c"
    "r < length (pw_reconfigures w) \<Longrightarrow> rc_stage (pw_reconfigures w ! r) \<noteq> ReconfigureEnded \<Longrightarrow> pm_reconfigure (pw_manager w) = Some r"
    "pm_reconfigure (pw_manager w) = Some r \<Longrightarrow> r < length (pw_reconfigures w)"
    "r < length (pw_reconfigures w) \<Longrightarrow> rc_stage (pw_reconfigures w ! r) \<noteq> ReconfigureEnded \<Longrightarrow> rc_result (pw_reconfigures w ! r) = None"
    "pm_reconfigure (pw_manager w) = Some r \<Longrightarrow> rc_stage (pw_reconfigures w ! r) \<noteq> ReconfigureEnded"
  using assms unfolding lanes_def by blast+

lemma lanesI:
  assumes "stopRunning w \<Longrightarrow> \<not> active w" and "\<And>c. closing w c \<Longrightarrow> \<not> active w"
    and "\<And>r. pm_reconfigure (pw_manager w) = Some r \<Longrightarrow> r < length (pw_reconfigures w) \<and> \<not> stopRunning w \<and>
      rc_stage (pw_reconfigures w ! r) \<noteq> ReconfigureEnded"
    and "\<And>r. pm_reconfigure (pw_manager w) = Some r \<Longrightarrow> restarted (rc_stage (pw_reconfigures w ! r)) \<or> \<not> active w"
    and "\<And>r c. pm_reconfigure (pw_manager w) = Some r \<Longrightarrow> closing w c \<Longrightarrow> closerOwner w c = Some r \<and> clearing w r"
    and "\<And>c r. closing w c \<Longrightarrow> closerOwner w c = Some r \<Longrightarrow> pm_reconfigure (pw_manager w) = Some r"
    and "\<And>c r c'. closing w c \<Longrightarrow> closerOwner w c = Some r \<Longrightarrow> closing w c' \<Longrightarrow> c' = c"
    and "\<And>r. r < length (pw_reconfigures w) \<Longrightarrow> rc_stage (pw_reconfigures w ! r) \<noteq> ReconfigureEnded \<Longrightarrow>
      pm_reconfigure (pw_manager w) = Some r \<and> rc_result (pw_reconfigures w ! r) = None"
  shows "lanes w"
  using assms unfolding lanes_def by blast

lemma Starting_waits:
  assumes "sound w" "st_State (pm_status (pw_manager w)) = LifecycleStarting"
  shows "pm_start (pw_manager w) \<noteq> None"
  using assms by (auto simp: sound_def startingSound_def Let_def)

definition startAllowed :: "OpID option \<Rightarrow> PublicWorld \<Rightarrow> bool" where
  "startAllowed owner w = (let m = pw_manager w in
     (pm_reconfigure m = None \<or> pm_reconfigure m = owner) \<and> pm_cleanup m = None)"

lemma startSection_cases:
  assumes "startSection x owner w = (out, w')"
  obtains (waits) "out = StartWaits" "w' = w"
  | (returns) res where "out = StartReturns res" "w' = w" "startAllowed owner w"
  | (joins) i where "out = StartJoins i" "w' = w" "startAllowed owner w" "pm_start (pw_manager w) = Some i"
  | (refused) res c g where "out = StartReturns res" "startAllowed owner w" "st_State (pm_status (pw_manager w)) \<noteq> LifecycleReady"
      "w' = emitCurrent (setStatus (failedStatus ((pm_status (pw_manager w))\<lparr>st_Generation := g\<rparr>) c) w)"
      "c = ErrorCredentialMissing \<or> secretStoreFailureCategory c"
  | (closes) "out = StartCloses (pm_endpoint (pw_manager w)) (pm_ingress (pw_manager w))" "startAllowed owner w"
      "w' = deny (pm_ingress (pw_manager w)) w" "st_State (pm_status (pw_manager w)) \<noteq> LifecycleReady"
      "st_State (pm_status (pw_manager w)) = LifecycleStarting \<longrightarrow> pm_start (pw_manager w) = None"
      "st_State (pm_status (pw_manager w)) = LifecycleStarting \<or> pm_pendingStart (pw_manager w) = None"
  | (launches) "out = StartLaunches (length (pw_starts w))" "startAllowed owner w"
      "st_State (pm_status (pw_manager w)) \<noteq> LifecycleReady"
      "st_State (pm_status (pw_manager w)) = LifecycleStarting \<longrightarrow> pm_start (pw_manager w) = None"
      "pm_endpoint (pw_manager w) = None" "pm_ingress (pw_manager w) = None"
      "w' = emitCurrent (modifyManager (\<lambda>m. m\<lparr>pm_start := Some (length (pw_starts w)), pm_pendingStart := Some (length (pw_starts w)),
         pm_status := plainStatus LifecycleStarting (so_generation (newStart (pw_manager w))) (so_revision (newStart (pw_manager w)))\<rparr>)
         (w\<lparr>pw_starts := pw_starts w @ [newStart (pw_manager w)]\<rparr>))"
proof -
  let ?m = "pw_manager w"
  note d = startSection_def [of x owner w] Let_def startAllowed_def
  consider "pm_reconfigure ?m \<noteq> None \<and> pm_reconfigure ?m \<noteq> owner \<or>
      (pm_pendingStart ?m \<noteq> None \<and> st_State (pm_status ?m) \<noteq> LifecycleStarting) \<or> pm_cleanup ?m \<noteq> None"
    | "startAllowed owner w" "pm_pendingStart ?m = None \<or> st_State (pm_status ?m) = LifecycleStarting"
      "x \<noteq> pr_Revision (pm_preferences ?m) \<or> st_State (pm_status ?m) = LifecycleReady \<or>
       (st_State (pm_status ?m) = LifecycleStarting \<and> pm_start ?m \<noteq> None)"
    | "startAllowed owner w" "pm_pendingStart ?m = None \<or> st_State (pm_status ?m) = LifecycleStarting"
      "x = pr_Revision (pm_preferences ?m)" "st_State (pm_status ?m) \<noteq> LifecycleReady"
       "st_State (pm_status ?m) = LifecycleStarting \<longrightarrow> pm_start ?m = None"
       "pm_provider ?m \<noteq> SecretPresent \<or> pm_password ?m \<noteq> SecretPresent"
    | "startAllowed owner w" "pm_pendingStart ?m = None \<or> st_State (pm_status ?m) = LifecycleStarting"
      "x = pr_Revision (pm_preferences ?m)" "st_State (pm_status ?m) \<noteq> LifecycleReady"
       "st_State (pm_status ?m) = LifecycleStarting \<longrightarrow> pm_start ?m = None"
       "pm_provider ?m = SecretPresent" "pm_password ?m = SecretPresent"
    unfolding startAllowed_def Let_def by atomize_elim argo
  then show ?thesis
  proof cases
    case 1
    with assms have "out = StartWaits \<and> w' = w" unfolding startSection_def Let_def by (auto split: if_splits)
    with waits show ?thesis by blast
  next
    case 2
    then show ?thesis using assms returns joins unfolding startSection_def Let_def startAllowed_def by (auto split: if_splits)
  next
    case 3
    let ?c = "if (pm_provider ?m = SecretUnknown \<or> pm_password ?m = SecretUnknown) \<and>
        secretStoreFailureCategory (st_ErrorCategory (pm_status ?m)) then st_ErrorCategory (pm_status ?m) else ErrorCredentialMissing"
    let ?w = "setStatus (failedStatus ((pm_status ?m)\<lparr>st_Generation := st_Generation (pm_status ?m) + 1\<rparr>) ?c) w"
    have "startSection x owner w = (StartReturns (resultLocked False (pw_manager ?w)), emitCurrent ?w)"
      using 3 by (auto simp: startSection_def Let_def startAllowed_def)
    with assms have o: "out = StartReturns (resultLocked False (pw_manager ?w))" "w' = emitCurrent ?w" by simp_all
    have "?c = ErrorCredentialMissing \<or> secretStoreFailureCategory ?c" by simp
    then show ?thesis by (rule refused [OF o(1) 3(1) 3(4) o(2)])
  next
    case 4
    show ?thesis
    proof (cases "pm_endpoint ?m = None \<and> pm_ingress ?m = None")
      case True
      with assms 4 launches show ?thesis by (auto simp: startSection_def Let_def startAllowed_def)
    next
      case False
      with assms 4 have "out = StartCloses (pm_endpoint ?m) (pm_ingress ?m) \<and> w' = deny (pm_ingress ?m) w"
        by (auto simp: startSection_def Let_def startAllowed_def)
      with closes 4 show ?thesis by (simp add: disj_commute)
    qed
  qed
qed

lemma emitCurrent_fields [public_simps]:
  "pw_manager (emitCurrent w) = pw_manager w" "pw_starts (emitCurrent w) = pw_starts w" "pw_stops (emitCurrent w) = pw_stops w"
  "pw_reconfigures (emitCurrent w) = pw_reconfigures w" "pw_closers (emitCurrent w) = pw_closers w"
  "pw_endpoints (emitCurrent w) = pw_endpoints w" "pw_ingresses (emitCurrent w) = pw_ingresses w"
  "active (emitCurrent w) = active w" "openIngresses (emitCurrent w) = openIngresses w"
  by (simp_all add: emitCurrent_def public_simps)

lemma setStatus_fields [public_simps]:
  "pw_manager (setStatus s w) = (pw_manager w)\<lparr>pm_status := s\<rparr>" "pw_starts (setStatus s w) = pw_starts w"
  "pw_stops (setStatus s w) = pw_stops w" "pw_reconfigures (setStatus s w) = pw_reconfigures w"
  "pw_closers (setStatus s w) = pw_closers w" "pw_endpoints (setStatus s w) = pw_endpoints w"
  "pw_ingresses (setStatus s w) = pw_ingresses w"
  "active (setStatus s w) = (st_State s = LifecycleStarting \<or> st_State s = LifecycleReady)"
  by (simp_all add: setStatus_def public_simps active_def)

lemma lanes_stopTo:
  assumes "lanes w" "k < length (pw_stops w)" "sp_stage (pw_stops w ! k) \<noteq> StopEnded"
  shows "lanes (updateStop k h w)"
proof -
  let ?w = "updateStop k h w"
  have e: "closing ?w = closing w" "closerOwner ?w = closerOwner w" "clearing ?w = clearing w" "active ?w = active w"
    "pw_reconfigures ?w = pw_reconfigures w" "pw_manager ?w = pw_manager w"
    by (simp_all add: closing_def closerOwner_def clearing_def public_simps fun_eq_iff)
  have "stopRunning w" using assms by (auto simp: stopRunning_def)
  then show ?thesis using assms(1) unfolding lanes_def e by blast
qed

lemma reconfigure_stage:
  "r < length (pw_reconfigures w) \<Longrightarrow> rc_stage (pw_reconfigures (reconfigureTo r s w) ! k) =
     (if k = r then s else rc_stage (pw_reconfigures w ! k))"
  "length (pw_reconfigures (reconfigureTo r s w)) = length (pw_reconfigures w)"
  "rc_result (pw_reconfigures (reconfigureTo r s w) ! k) = rc_result (pw_reconfigures w ! k)"
  by (simp_all add: reconfigureTo_def public_simps nth_update)

text \<open>A reconfiguration that holds the lane moves on when no close is under way.\<close>

lemma lanes_reconfigureTo:
  assumes "lanes w" and r: "pm_reconfigure (pw_manager w) = Some r" and "\<forall>c. \<not> closing w c"
    and "s \<noteq> ReconfigureEnded" "restarted s \<or> \<not> active w"
  shows "lanes (reconfigureTo r s w)"
proof -
  let ?w = "reconfigureTo r s w"
  have rl: "r < length (pw_reconfigures w)" using lanesD(9) [OF assms(1) r] .
  have e: "closing ?w = closing w" "closerOwner ?w = closerOwner w" "stopRunning ?w = stopRunning w" "active ?w = active w"
    "pw_manager ?w = pw_manager w"
    by (simp_all add: closing_def closerOwner_def stopRunning_def reconfigureTo_def public_simps fun_eq_iff)
  show ?thesis
  proof (rule lanesI, unfold e)
    fix r' assume "r' < length (pw_reconfigures ?w)" "rc_stage (pw_reconfigures ?w ! r') \<noteq> ReconfigureEnded"
    then show "pm_reconfigure (pw_manager w) = Some r' \<and> rc_result (pw_reconfigures ?w ! r') = None"
      using r lanesD(10) [OF assms(1) rl lanesD(11) [OF assms(1) r]] lanesD(8) [OF assms(1), of r'] lanesD(10) [OF assms(1), of r']
      by (cases "r' = r") (simp_all only: reconfigure_stage(1) [OF rl] reconfigure_stage(2,3) simp_thms if_True if_False)
  qed (use assms r rl lanesD(1,3,6) [OF assms(1)] in \<open>simp_all add: reconfigure_stage\<close>)
qed

lemma lanes_completeReconfigure:
  assumes "lanes w" and r: "r < length (pw_reconfigures w)" "rc_stage (pw_reconfigures w ! r) \<noteq> ReconfigureEnded"
    and "\<forall>c. \<not> closing w c"
  shows "lanes (completeReconfigureLocked r res w)"
proof -
  let ?w = "completeReconfigureLocked r res w"
  note n = lanesD(10) [OF assms(1) r] and p = lanesD(8) [OF assms(1) r]
  have e: "closing ?w = closing w" "closerOwner ?w = closerOwner w" "stopRunning ?w = stopRunning w" "active ?w = active w"
    "pm_reconfigure (pw_manager ?w) = None" "length (pw_reconfigures ?w) = length (pw_reconfigures w)"
    using n p by (simp_all add: completeReconfigureLocked_def closing_def closerOwner_def stopRunning_def active_def public_simps fun_eq_iff)
  have s: "rc_stage (pw_reconfigures ?w ! k) = (if k = r then ReconfigureEnded else rc_stage (pw_reconfigures w ! k))"
    if "k < length (pw_reconfigures w)" for k
    using n p r that by (simp add: completeReconfigureLocked_def public_simps nth_update)
  have "rc_stage (pw_reconfigures ?w ! k) = ReconfigureEnded" if "k < length (pw_reconfigures w)" for k
    using s [OF that] lanesD(8) [OF assms(1) that] p by (auto split: if_splits)
  then show ?thesis
    by (intro lanesI) (use assms(4) lanesD(3) [OF assms(1) p] in \<open>simp_all add: e\<close>)
qed

lemma lanes_addCloser:
  assumes "cs = pw_closers w" "lanes w" "\<not> active w" "\<forall>c. \<not> closing w c"
    and "case owner of None \<Rightarrow> pm_reconfigure (pw_manager w) = None | Some r \<Rightarrow> pm_reconfigure (pw_manager w) = Some r \<and> clearing w r"
  shows "lanes (w\<lparr>pw_closers := cs @ [Some (ep, ing, owner)]\<rparr>)"
proof -
  let ?w = "w\<lparr>pw_closers := cs @ [Some (ep, ing, owner)]\<rparr>" and ?n = "length (pw_closers w)"
  have e: "stopRunning ?w = stopRunning w" "clearing ?w = clearing w" "active ?w = active w" "pw_manager ?w = pw_manager w"
    "pw_reconfigures ?w = pw_reconfigures w"
    by (simp_all add: stopRunning_def clearing_def active_def fun_eq_iff)
  have c: "closing ?w c \<Longrightarrow> c = ?n \<and> closerOwner ?w c = owner" for c
    using assms(1,4) by (auto simp: closing_def closerOwner_def nth_append less_Suc_eq split: if_splits)
  show ?thesis
  proof (rule lanesI, unfold e)
    fix r c' assume "closing ?w c'" "closerOwner ?w c' = Some r"
    with c [of c'] assms(5) show "pm_reconfigure (pw_manager w) = Some r" by auto
  next
    fix r c' assume "pm_reconfigure (pw_manager w) = Some r" "closing ?w c'"
    with c [of c'] assms(5) show "closerOwner ?w c' = Some r \<and> clearing w r" by (auto split: option.splits)
  next
    fix c c' r assume "closing ?w c" "closing ?w c'"
    with c show "c' = c" by blast
  qed (use assms(3) in \<open>blast dest: lanesD [OF assms(2)]\<close>)+
qed

lemma lanes_startEvent:
  assumes "sound w" "lanes w" "quiet w" "startEvent x w = Some w'"
  shows "lanes w'"
proof -
  obtain out v where s: "startSection x None w = (out, v)" by (metis surj_pair)
  have q: "\<not> stopRunning w" "\<forall>c. \<not> closing w c" using assms(3) by (simp_all add: quiet_iff)
  from s show ?thesis
  proof (cases rule: startSection_cases)
    case (closes)
    have na: "\<not> active w" using closes Starting_waits [OF assms(1)] by (auto simp: active_def)
    have "lanes v" unfolding closes(3)
      by (rule lanes_frame [OF assms(2)]) (use na in \<open>simp_all add: public_simps\<close>)
    moreover have "\<forall>c. \<not> closing v c" using q(2) by (simp add: closes(3) closing_def public_simps)
    ultimately show ?thesis using assms(4) s closes na
      by (auto simp: startEvent_def startAllowed_def Let_def public_simps intro!: lanes_addCloser)
  next
    case launches
    have "pm_reconfigure (pw_manager w) = None" using launches(2) by (auto simp: startAllowed_def Let_def)
    then have "lanes v" unfolding launches(7) using assms(2) q
      by (auto simp: lanes_def public_simps stopRunning_def closing_def closerOwner_def clearing_def)
    then show ?thesis using assms(4) s launches by (simp add: startEvent_def)
  next
    case (refused res c g)
    have "lanes v" unfolding refused(4) by (rule lanes_frame [OF assms(2)]) (simp_all add: public_simps)
    then show ?thesis using assms(4) s refused by (simp add: startEvent_def)
  qed (use assms(2,4) s in \<open>auto simp: startEvent_def\<close>)
qed

lemma lanes_dropCloser:
  assumes "lanes w" shows "lanes (w\<lparr>pw_closers := (pw_closers w)[c := None]\<rparr>)"
proof -
  let ?w = "w\<lparr>pw_closers := (pw_closers w)[c := None]\<rparr>"
  have e: "stopRunning ?w = stopRunning w" "clearing ?w = clearing w" "active ?w = active w" "pw_manager ?w = pw_manager w"
    "pw_reconfigures ?w = pw_reconfigures w"
    by (simp_all add: stopRunning_def clearing_def active_def fun_eq_iff)
  have k: "closing ?w d \<Longrightarrow> closing w d \<and> closerOwner ?w d = closerOwner w d" for d
    by (auto simp: closing_def closerOwner_def nth_update split: if_splits)
  show ?thesis
  proof (rule lanesI, unfold e)
    fix d r d' assume "closing ?w d" "closerOwner ?w d = Some r" "closing ?w d'"
    with k [of d] k [of d'] lanesD(7) [OF assms, of d r d'] show "d' = d" by simp
  next
    fix d assume "closing ?w d"
    with k [of d] lanesD(2) [OF assms, of d] show "\<not> active w" by simp
  next
    fix d r assume "pm_reconfigure (pw_manager w) = Some r" "closing ?w d"
    with k [of d] lanesD(5) [OF assms, of r d] show "closerOwner ?w d = Some r \<and> clearing w r" by simp
  next
    fix d r assume "closing ?w d" "closerOwner ?w d = Some r"
    with k [of d] lanesD(6) [OF assms, of d r] show "pm_reconfigure (pw_manager w) = Some r" by simp
  qed (blast dest: lanesD [OF assms])+
qed

lemma startClosed_fields:
  "pm_reconfigure (pw_manager (snd (startClosed ep ing f g w))) = pm_reconfigure (pw_manager w)"
  "pw_stops (snd (startClosed ep ing f g w)) = pw_stops w" "pw_closers (snd (startClosed ep ing f g w)) = pw_closers w"
  "pw_reconfigures (snd (startClosed ep ing f g w)) = pw_reconfigures w"
  "active (snd (startClosed ep ing f g w)) \<Longrightarrow> active w"
  "fst (startClosed ep ing f g w) \<noteq> None \<Longrightarrow> \<not> active (snd (startClosed ep ing f g w))"
  by (auto simp: startClosed_def Let_def public_simps split: option.splits)

lemma lanes_closedEvent:
  assumes "lanes w" "closedEvent c f g w = Some w'" shows "lanes w'"
proof -
  obtain ep ing owner where c: "pw_closers w ! c = Some (ep, ing, owner)" "c < length (pw_closers w)"
    using assms(2) by (auto simp: closedEvent_def not_le split: if_splits option.splits)
  let ?d = "w\<lparr>pw_closers := (pw_closers w)[c := None]\<rparr>"
  obtain res v where s: "startClosed ep ing f g ?d = (res, v)" by (metis surj_pair)
  have cl: "closing w c" "closerOwner w c = owner" using c by (simp_all add: closing_def closerOwner_def)
  have na: "\<not> active w" using lanesD(2) [OF assms(1) cl(1)] .
  note sf = startClosed_fields [of ep ing f g ?d, unfolded s, simplified]
  have nv: "\<not> active v" using sf na by (auto simp: public_simps)
  have v: "lanes v" by (rule lanes_frame [OF lanes_dropCloser [OF assms(1)], of _ c]) (use sf nv in simp_all)
  show ?thesis
  proof (cases owner)
    case None
    with assms(2) c s v show ?thesis by (simp add: closedEvent_def)
  next
    case (Some r)
    have p: "pm_reconfigure (pw_manager v) = Some r" using lanesD(6) [OF assms(1) cl(1)] cl Some sf by simp
    have "\<forall>d. \<not> closing v d"
    proof
      fix d show "\<not> closing v d"
        using lanesD(7) [OF assms(1) cl(1), of r d] cl Some sf by (auto simp: closing_def nth_update split: if_splits)
    qed
    then have "lanes (reconfigureTo r (ReconfigureEnding res) v)" "lanes (reconfigureTo r (ReconfigureRestarting x) v)" for x
      using v p nv by (auto intro!: lanes_reconfigureTo)
    with assms(2) c s v Some show ?thesis
      by (auto simp: closedEvent_def split: option.splits ReconfigureStage.splits)
  qed
qed

lemma laneKeeping [public_simps]:
  "pm_reconfigure (pw_manager (completeStartLocked i res w)) = pm_reconfigure (pw_manager w)"
  "pw_stops (completeStartLocked i res w) = pw_stops w" "pw_closers (completeStartLocked i res w) = pw_closers w"
  "pw_reconfigures (completeStartLocked i res w) = pw_reconfigures w"
  "pm_reconfigure (pw_manager (settleStartLocked i w)) = pm_reconfigure (pw_manager w)"
  "pw_stops (settleStartLocked i w) = pw_stops w" "pw_closers (settleStartLocked i w) = pw_closers w"
  "pw_reconfigures (settleStartLocked i w) = pw_reconfigures w" "active (settleStartLocked i w) = active w"
  "pw_manager (driveTo i d w) = pw_manager w" "active (driveTo i d w) = active w"
  "pw_stops (driveTo i d w) = pw_stops w" "pw_closers (driveTo i d w) = pw_closers w"
  "pw_reconfigures (driveTo i d w) = pw_reconfigures w"
  "pw_manager (launchTo i l w) = pw_manager w" "active (launchTo i l w) = active w"
  "pw_stops (launchTo i l w) = pw_stops w" "pw_closers (launchTo i l w) = pw_closers w"
  "pw_reconfigures (launchTo i l w) = pw_reconfigures w"
  "pm_reconfigure (pw_manager (retainRuntimeAfterFailedCleanup ep ing w)) = pm_reconfigure (pw_manager w)"
  "active (retainRuntimeAfterFailedCleanup ep ing w) = active w"
  "pw_stops (retainRuntimeAfterFailedCleanup ep ing w) = pw_stops w"
  "pw_closers (retainRuntimeAfterFailedCleanup ep ing w) = pw_closers w"
  "pw_reconfigures (retainRuntimeAfterFailedCleanup ep ing w) = pw_reconfigures w"
  by (simp_all add: completeStartLocked_def settleStartLocked_def driveTo_def launchTo_def active_def
      retainRuntimeAfterFailedCleanup_def public_simps)

lemma discard_keeps [public_simps]:
  "pm_reconfigure (pw_manager (discardRuntime ep ing f g w)) = pm_reconfigure (pw_manager w)"
  "pw_stops (discardRuntime ep ing f g w) = pw_stops w" "pw_closers (discardRuntime ep ing f g w) = pw_closers w"
  "pw_reconfigures (discardRuntime ep ing f g w) = pw_reconfigures w" "active (discardRuntime ep ing f g w) = active w"
  by (simp_all add: discardRuntime_def Let_def public_simps)

lemma finishStart_keeps [public_simps]:
  "pm_reconfigure (pw_manager (finishStart i r w)) = pm_reconfigure (pw_manager w)"
  "pw_stops (finishStart i r w) = pw_stops w" "pw_closers (finishStart i r w) = pw_closers w"
  "pw_reconfigures (finishStart i r w) = pw_reconfigures w"
  by (simp_all add: finishStart_def Let_def public_simps split: option.split)

lemma finishStart_active: "active (finishStart i r w) \<Longrightarrow> active w"
  by (cases "startCurrent i w")
    (auto simp: finishStart_def Let_def public_simps startCurrent_def active_def split: option.splits if_splits)

lemma failCurrent_keeps [public_simps]:
  "pm_reconfigure (pw_manager (failCurrentStart i c w)) = pm_reconfigure (pw_manager w)"
  "pw_stops (failCurrentStart i c w) = pw_stops w" "pw_closers (failCurrentStart i c w) = pw_closers w"
  "pw_reconfigures (failCurrentStart i c w) = pw_reconfigures w"
  by (simp_all add: failCurrentStart_def Let_def public_simps)

lemma failCurrent_active: "active (failCurrentStart i c w) \<Longrightarrow> active w"
  by (auto simp: failCurrentStart_def Let_def public_simps split: if_splits)

lemma lanes_driverStep:
  assumes "lanes w" "driverStep i f g w = Some w'" shows "lanes w'"
proof (rule lanes_frame [OF assms(1)])
  show "active w' \<Longrightarrow> active w"
    using assms(2) finishStart_active [of i _ w]
    by (auto simp: driverStep_def Let_def public_simps active_def [of w] split: Driver.splits Launch.splits if_splits)
qed (use assms(2) in \<open>auto simp: driverStep_def Let_def public_simps split: Driver.splits Launch.splits if_splits\<close>)

lemma lanes_endpointDone: "lanes w \<Longrightarrow> lanes (endpointDone i e j f w)"
  by (rule lanes_frame [of w]) (auto simp: endpointDone_def Let_def public_simps split: if_splits)

lemma lanes_expired: "lanes w \<Longrightarrow> lanes (startExpired i w)"
  by (rule lanes_frame [of w]) (auto simp: startExpired_def public_simps dest: failCurrent_active)

lemma lanes_launchEvent: "lanes w \<Longrightarrow> launchEvent pe ev w = Some w' \<Longrightarrow> lanes w'"
  by (rule lanes_frame [of w])
    (auto simp: launchEvent_def launchIngress_def launchTunnel_def launchCheck_def launchActivate_def Let_def public_simps active_def
      split: PublicEvent.splits Launch.splits option.splits sum.splits prod.splits if_splits)

lemma stopSection_cases:
  assumes "stopSection x w = (out, w')"
  obtains (waits) "out = StopWaits" "w' = w"
  | (returns) res where "out = StopReturns res" "w' = w"
  | (joins) k where "out = StopJoins k" "w' = w"
  | (starts) g where "out = StopStarts (length (pw_stops w))" "pm_reconfigure (pw_manager w) = None" "pm_cleanup (pw_manager w) = None"
      "w' = emitCurrent (modifyManager (\<lambda>m. m\<lparr>pm_stop := Some (length (pw_stops w)),
          pm_status := plainStatus LifecycleStopping g (pr_Revision (pm_preferences m))\<rparr>)
        ((deny (pm_ingress (pw_manager w)) (cancelStart (pm_start (pw_manager w)) w))\<lparr>pw_stops := pw_stops w @
           [\<lparr>sp_generation = g, sp_stage = StopDraining (pm_pendingStart (pw_manager w)) (pm_endpoint (pw_manager w))
              (pm_ingress (pw_manager w)), sp_result = None\<rparr>]\<rparr>))"
proof -
  let ?m = "pw_manager w"
  note d = stopSection_def [of x w] Let_def
  show ?thesis
  proof (cases "pm_reconfigure ?m \<noteq> None \<or> pm_cleanup ?m \<noteq> None")
    case True
    then have "stopSection x w = (StopWaits, w)" unfolding d by (auto simp del: not_None_eq)
    with assms show ?thesis using waits by simp
  next
    case blocked: False
    consider "x \<noteq> pr_Revision (pm_preferences ?m)"
      | "x = pr_Revision (pm_preferences ?m)" "pm_stop ?m \<noteq> None \<and> st_State (pm_status ?m) = LifecycleStopping"
      | "x = pr_Revision (pm_preferences ?m)" "\<not> (pm_stop ?m \<noteq> None \<and> st_State (pm_status ?m) = LifecycleStopping)"
        "st_State (pm_status ?m) = LifecycleDisabled \<and> pm_endpoint ?m = None \<and> pm_ingress ?m = None"
      | "x = pr_Revision (pm_preferences ?m)" "\<not> (pm_stop ?m \<noteq> None \<and> st_State (pm_status ?m) = LifecycleStopping)"
        "\<not> (st_State (pm_status ?m) = LifecycleDisabled \<and> pm_endpoint ?m = None \<and> pm_ingress ?m = None)"
      by blast
    then show ?thesis
    proof cases
      case 1
      then have "stopSection x w = (StopReturns (conflictResultLocked ?m), w)" unfolding d using blocked by simp
      with assms have "out = StopReturns (conflictResultLocked ?m)" "w' = w" by auto
      then show ?thesis by (rule returns)
    next
      case 2
      then have "stopSection x w = (StopJoins (the (pm_stop ?m)), w)" unfolding d using blocked by simp
      with assms have "out = StopJoins (the (pm_stop ?m))" "w' = w" by auto
      then show ?thesis by (rule joins)
    next
      case 3
      have "stopSection x w = (StopReturns (resultLocked True ?m), w)" unfolding d using 3 blocked by simp
      with assms have "out = StopReturns (resultLocked True ?m)" "w' = w" by auto
      then show ?thesis by (rule returns)
    next
      case 4
      have b: "pm_reconfigure ?m = None" "pm_cleanup ?m = None" using blocked by simp_all
      show ?thesis
        by (rule starts [OF _ b, of "st_Generation (pm_status ?m) + 1"])
          (use assms 4 b in \<open>auto simp: stopSection_def Let_def public_simps split: if_split_asm\<close>)
    qed
  qed
qed

lemma reconfigureSection_cases:
  assumes "reconfigureSection pe mu w = (out, w')"
  obtains (waits) "out = ReconfigureWaits" "w' = w"
  | (returns) res where "out = ReconfigureReturns res" "w' = w"
  | (starts) g a where "out = ReconfigureStarts (length (pw_reconfigures w))" "pm_reconfigure (pw_manager w) = None"
      "pm_cleanup (pw_manager w) = None" "pm_stop (pw_manager w) = None"
      "w' = emitCurrent (modifyManager (\<lambda>m. m\<lparr>pm_reconfigure := Some (length (pw_reconfigures w)),
          pm_status := plainStatus LifecycleStopping g (pr_Revision (pm_preferences m))\<rparr>)
        ((deny (pm_ingress (pw_manager w)) (cancelStart (pm_start (pw_manager w)) w))\<lparr>pw_reconfigures := pw_reconfigures w @
           [\<lparr>rc_expectedRevision = mu_ExpectedRevision mu, rc_generation = g, rc_mutation = mu, rc_wasActive = a,
             rc_stage = ReconfigureDraining (pm_pendingStart (pw_manager w)) (pm_endpoint (pw_manager w))
               (pm_ingress (pw_manager w)), rc_result = None\<rparr>]\<rparr>))"
proof -
  let ?m = "pw_manager w"
  note d = reconfigureSection_def [of pe mu w] Let_def
  show ?thesis
  proof (cases "\<not> validatePublicAccessMutation pe mu \<or> pm_reconfigure ?m \<noteq> None \<or> pm_cleanup ?m \<noteq> None \<or>
      mu_ExpectedRevision mu \<noteq> pr_Revision (pm_preferences ?m) \<or> pm_stop ?m \<noteq> None")
    case True
    then have "(fst (reconfigureSection pe mu w) = ReconfigureWaits \<or> (\<exists>res. fst (reconfigureSection pe mu w) = ReconfigureReturns res)) \<and>
        snd (reconfigureSection pe mu w) = w"
      unfolding d by (auto simp del: not_None_eq)
    with assms waits returns show ?thesis by auto
  next
    case False
    then have b: "pm_reconfigure ?m = None" "pm_cleanup ?m = None" "pm_stop ?m = None" by simp_all
    let ?a = "st_State (pm_status ?m) = LifecycleStarting \<or> st_State (pm_status ?m) = LifecycleReady \<or> pm_endpoint ?m \<noteq> None \<or>
               pm_ingress ?m \<noteq> None \<or> pm_pendingStart ?m \<noteq> None"
    show ?thesis
      by (rule starts [OF _ b, of "st_Generation (pm_status ?m) + 1" ?a])
        (use assms False b in \<open>simp_all add: d public_simps\<close>)
  qed
qed

lemma lanes_stopSection:
  assumes "lanes w" "stopSection x w = (out, w')" shows "lanes w'"
  using assms(2)
proof (cases rule: stopSection_cases)
  case (starts g)
  have "lanes w'"
  proof (rule lanesI)
    fix c r assume "closing w' c" "closerOwner w' c = Some r"
    moreover have "closing w' = closing w" "closerOwner w' = closerOwner w"
      by (simp_all add: starts(4) closing_def closerOwner_def public_simps fun_eq_iff)
    ultimately show "pm_reconfigure (pw_manager w') = Some r" using lanesD(6) [OF assms(1), of c r] starts(2) by simp
  next
    fix c r c' assume "closing w' c" "closerOwner w' c = Some r"
    moreover have "closing w' = closing w" "closerOwner w' = closerOwner w"
      by (simp_all add: starts(4) closing_def closerOwner_def public_simps fun_eq_iff)
    ultimately show "c' = c" using lanesD(6) [OF assms(1), of c r] starts(2) by simp
  next
    fix r assume "r < length (pw_reconfigures w')" "rc_stage (pw_reconfigures w' ! r) \<noteq> ReconfigureEnded"
    then have "r < length (pw_reconfigures w)" "rc_stage (pw_reconfigures w ! r) \<noteq> ReconfigureEnded"
      by (simp_all add: starts(4) public_simps)
    with lanesD(8) [OF assms(1), of r] starts(2) have False by simp
    then show "pm_reconfigure (pw_manager w') = Some r \<and> rc_result (pw_reconfigures w' ! r) = None" ..
  qed (simp_all add: starts(2,4) public_simps)
  then show ?thesis .
qed (use assms(1) in simp_all)

lemma lanes_stopEnd:
  assumes "lanes w" "k < length (pw_stops w)" "sp_stage (pw_stops w ! k) \<noteq> StopEnded"
  shows "lanes (stopEnd k ep ing err w)"
proof -
  have na: "\<not> active w" using lanesD(1) [OF assms(1)] assms(2,3) by (auto simp: stopRunning_def)
  obtain h where h: "pw_stops (stopEnd k ep ing err w) = pw_stops (updateStop k h w)"
    by (cases err) (auto simp: stopEnd_def Let_def public_simps)
  show ?thesis
    by (rule lanes_frame [OF lanes_stopTo [OF assms, of h]])
      (use h na in \<open>auto simp: stopEnd_def Let_def public_simps split: option.splits\<close>)
qed

lemma lanes_stopStep:
  assumes "lanes w" and k: "k < length (pw_stops w)" and step: "stopStep k d f g w = Some w'"
  shows "lanes w'"
proof -
  have n: "sp_stage (pw_stops w ! k) \<noteq> StopEnded" using step by (auto simp: stopStep_def)
  have moved: "lanes (stopTo k s v)"
    if "pm_reconfigure (pw_manager v) = pm_reconfigure (pw_manager w)" "pw_stops v = pw_stops w" "pw_closers v = pw_closers w"
      "pw_reconfigures v = pw_reconfigures w" "active v = active w" for s v
    unfolding stopTo_def
    by (rule lanes_frame [OF lanes_stopTo [OF assms(1) k n, of "\<lambda>op. op\<lparr>sp_stage := s\<rparr>"]]) (use that in \<open>simp_all add: public_simps\<close>)
  show ?thesis using step
    by (auto simp: stopStep_def collectRuntime_def Let_def public_simps
        split: StopStage.splits if_splits intro!: moved lanes_stopEnd [OF assms(1) k n])
qed

lemma lanes_reconfigureSection:
  assumes "lanes w" "quiet w" "reconfigureSection pe mu w = (out, w')" shows "lanes w'"
  using assms(3)
proof (cases rule: reconfigureSection_cases)
  case (starts g a)
  have q: "\<not> stopRunning w" "\<not> closing w c" for c using assms(2) by (simp_all add: quiet_iff)
  have e: "stopRunning w' = stopRunning w" "closing w' = closing w"
    by (simp_all add: starts(5) stopRunning_def closing_def public_simps fun_eq_iff)
  have "rc_stage (pw_reconfigures w ! r) = ReconfigureEnded" if "r < length (pw_reconfigures w)" for r
    using lanesD(8) [OF assms(1) that] starts(2) by auto
  moreover have "pm_reconfigure (pw_manager w') = Some (length (pw_reconfigures w))" "\<not> active w'"
    by (simp_all add: starts(5) public_simps)
  moreover obtain op where "pw_reconfigures w' = pw_reconfigures w @ [op]" "rc_stage op \<noteq> ReconfigureEnded" "rc_result op = None"
    by (simp add: starts(5) public_simps)
  ultimately show ?thesis
    by (intro lanesI) (auto simp: e q nth_append less_Suc_eq)
qed (use assms(1) in simp_all)

lemma lanes_restart:
  assumes "sound w" "lanes w" and r: "r < length (pw_reconfigures w)" "rc_stage (pw_reconfigures w ! r) = ReconfigureRestarting x"
    and step: "reconfigureRestart r x d w = Some w'"
  shows "lanes w'"
proof -
  have p: "pm_reconfigure (pw_manager w) = Some r" using lanesD(8) [OF assms(2) r(1)] r(2) by simp
  have na: "\<not> active w" using lanesD(4) [OF assms(2) p] r(2) by (auto simp: restarted_def)
  have nc: "\<forall>c. \<not> closing w c" using lanesD(5) [OF assms(2) p] r(2) by (auto simp: clearing_def)
  note ns = lanesD(3) [OF assms(2) p]
  have moved: "lanes (reconfigureTo r s v)"
    if "lanes v" "pm_reconfigure (pw_manager v) = Some r" "pw_closers v = pw_closers w" "s \<noteq> ReconfigureEnded"
      "restarted s \<or> \<not> active v" for s v
    using that nc by (intro lanes_reconfigureTo) (simp_all add: closing_def)
  obtain out v where s: "startSection x (Some r) w = (out, v)" by (metis surj_pair)
  from s show ?thesis
  proof (cases rule: startSection_cases)
    case waits
    with step s moved [OF assms(2) p refl] na show ?thesis by (auto simp: reconfigureRestart_def restarted_def split: if_splits)
  next
    case (returns res)
    with step s moved [OF assms(2) p refl] show ?thesis by (auto simp: reconfigureRestart_def restarted_def)
  next
    case (joins i)
    with step s moved [OF assms(2) p refl] show ?thesis by (auto simp: reconfigureRestart_def restarted_def)
  next
    case (refused res c g)
    have "lanes v" unfolding refused(4) by (rule lanes_frame [OF assms(2)]) (simp_all add: public_simps)
    from moved [OF this] step s refused p show ?thesis by (auto simp: reconfigureRestart_def public_simps restarted_def)
  next
    case closes
    have v: "lanes v" unfolding closes(3) by (rule lanes_frame [OF assms(2)]) (simp_all add: public_simps)
    have m: "pm_reconfigure (pw_manager v) = Some r" "pw_closers v = pw_closers w" "\<not> active v" "length (pw_reconfigures v) = length (pw_reconfigures w)"
      using closes(3) p na by (simp_all add: public_simps)
    let ?s = "ReconfigureClearing x"
    let ?v = "reconfigureTo r ?s v"
    have "lanes ?v" using moved [OF v m(1,2)] m(3) by simp
    moreover have "clearing ?v r" using m(4) r(1) by (simp add: clearing_def reconfigure_stage)
    moreover have "\<forall>c. \<not> closing ?v c" using nc m(2) by (simp add: closing_def reconfigureTo_def public_simps)
    ultimately have l: "lanes (?v\<lparr>pw_closers := pw_closers v @ [Some (ep, ing, Some r)]\<rparr>)" for ep ing
      using m by (intro lanes_addCloser) (simp_all add: reconfigureTo_def public_simps)
    have "w' = ?v\<lparr>pw_closers := pw_closers v @ [Some (pm_endpoint (pw_manager w), pm_ingress (pw_manager w), Some r)]\<rparr>"
      by (rule PublicWorld.equality)
        (use step s closes in \<open>auto simp: reconfigureRestart_def reconfigureTo_def updateReconfigure_def\<close>)
    with l show ?thesis by simp
  next
    case launches
    let ?u = "reconfigureTo r (ReconfigureJoining (length (pw_starts w)) False) w"
    have u: "lanes ?u" by (rule moved [OF assms(2) p refl]) (auto simp: restarted_def)
    have e: "pw_manager ?u = pw_manager w" "stopRunning ?u = stopRunning w" "closing ?u = closing w"
      by (simp_all add: reconfigureTo_def public_simps stopRunning_def closing_def fun_eq_iff)
    have w': "w' = reconfigureTo r (ReconfigureJoining (length (pw_starts w)) False) v"
      using step s launches by (simp add: reconfigureRestart_def)
    have f: "pm_reconfigure (pw_manager w') = Some r" "pw_reconfigures w' = pw_reconfigures ?u" "stopRunning w' = stopRunning w" "closing w' = closing w"
      using p by (simp_all add: w' launches(7) reconfigureTo_def public_simps stopRunning_def closing_def fun_eq_iff)
    have st: "rc_stage (pw_reconfigures ?u ! r) = ReconfigureJoining (length (pw_starts w)) False"
      using r by (simp add: reconfigure_stage)
    show ?thesis
    proof (rule lanesI, unfold f)
      fix q assume "q < length (pw_reconfigures ?u)" "rc_stage (pw_reconfigures ?u ! q) \<noteq> ReconfigureEnded"
      then show "Some r = Some q \<and> rc_result (pw_reconfigures ?u ! q) = None"
        using lanesD(8) [OF u, of q] lanesD(10) [OF u, of q] e p by simp
    qed (use nc ns st r in \<open>auto simp: restarted_def reconfigure_stage\<close>)
  qed
qed


lemma lanes_reconfigureStep:
  assumes "sound w" "lanes w" and r: "r < length (pw_reconfigures w)" and step: "reconfigureStep pe r d f g sa w = Some w'"
  shows "lanes w'"
proof -
  let ?s = "rc_stage (pw_reconfigures w ! r)"
  have n: "?s \<noteq> ReconfigureEnded" "\<not> clearing w r" using step by (auto simp: reconfigureStep_def clearing_def)
  have p: "pm_reconfigure (pw_manager w) = Some r" using lanesD(8) [OF assms(2) r n(1)] .
  have nc: "\<forall>c. \<not> closing w c" using lanesD(5) [OF assms(2) p] n(2) by blast
  have na: "restarted ?s \<or> \<not> active w" using lanesD(4) [OF assms(2) p] .
  have rs: "rc_result (pw_reconfigures w ! r) = None" using lanesD(10) [OF assms(2) r n(1)] .
  have framed: "lanes v \<and> pm_reconfigure (pw_manager v) = Some r \<and> (\<forall>c. \<not> closing v c)"
    if "pm_reconfigure (pw_manager v) = Some r" "pw_stops v = pw_stops w" "pw_closers v = pw_closers w"
      "pw_reconfigures v = pw_reconfigures w" "active v \<Longrightarrow> active w" for v
    using that p nc lanes_frame [OF assms(2), of v] by (simp add: closing_def)
  have moved: "lanes (reconfigureTo r s v)"
    if "pm_reconfigure (pw_manager v) = Some r" "pw_stops v = pw_stops w" "pw_closers v = pw_closers w"
      "pw_reconfigures v = pw_reconfigures w" "active v \<Longrightarrow> active w" "s \<noteq> ReconfigureEnded" "restarted s \<or> \<not> active v" for s v
    using framed [OF that(1-5)] that(6,7) by (intro lanes_reconfigureTo) simp_all
  have ended: "lanes (completeReconfigureLocked r res v)"
    if "pm_reconfigure (pw_manager v) = Some r" "pw_stops v = pw_stops w" "pw_closers v = pw_closers w"
      "pw_reconfigures v = pw_reconfigures w" "active v \<Longrightarrow> active w" for res v
    using framed [OF that] n r that(4) by (intro lanes_completeReconfigure) simp_all
  have emitted: "lanes (emitCurrent v)" if "lanes v" for v
    using that by (rule lanes_frame) (simp_all add: public_simps)
  show ?thesis
  proof (cases ?s)
    case (ReconfigureDraining q ep ing)
    with step na show ?thesis
      by (auto simp: reconfigureStep_def collectRuntime_def Let_def public_simps restarted_def p
          split: if_splits intro!: moved)
  next
    case (ReconfigureClosing ep ing)
    with step na show ?thesis
      by (auto simp: reconfigureStep_def Let_def public_simps restarted_def p split: option.splits intro!: moved)
  next
    case (ReconfigureClosed ep ing)
    with step na show ?thesis
      by (auto simp: reconfigureStep_def public_simps restarted_def p intro!: moved)
  next
    case ReconfigureChanging
    have v: "pm_reconfigure (pw_manager (setPresence a b w)) = Some r" "pw_stops (setPresence a b w) = pw_stops w"
      "pw_closers (setPresence a b w) = pw_closers w" "pw_reconfigures (setPresence a b w) = pw_reconfigures w"
      "active (setPresence a b w) = active w" for a b
      by (simp_all add: setPresence_def public_simps p active_def)
    have "lanes (reconfigureTo r (ReconfigureFailing c) (setPresence a b w))" "lanes (reconfigureTo r (ReconfigureFailing c) w)"
      "lanes (reconfigureTo r (ReconfigureSaved m a b) w)" for c a b m
      using na ReconfigureChanging by (auto simp: v p restarted_def intro!: moved)
    then have "lanes (reconfigureChange pe r sa w)"
      by (simp add: reconfigureChange_def reconcilePresence_def Let_def case_prod_unfold split: sum.split option.split)
    with step ReconfigureChanging show ?thesis by (simp add: reconfigureStep_def)
  next
    case (ReconfigureSaved m a b)
    have "lanes (reconfigureCommit r m a b w)"
      using na ReconfigureSaved unfolding reconfigureCommit_def Let_def
      by (auto simp: public_simps restarted_def p intro!: moved ended)
    with step ReconfigureSaved show ?thesis by (simp add: reconfigureStep_def)
  next
    case (ReconfigureFailing c)
    have "lanes (finishReconfigureFailure r c w)"
      unfolding finishReconfigureFailure_def Let_def by (auto simp: public_simps p intro!: emitted ended)
    with step ReconfigureFailing show ?thesis by (simp add: reconfigureStep_def)
  next
    case (ReconfigureRestarting x)
    with step have "reconfigureRestart r x d w = Some w'" by (simp add: reconfigureStep_def)
    with lanes_restart [OF assms(1,2) r ReconfigureRestarting] show ?thesis by simp
  next
    case (ReconfigureJoining i b)
    with step show ?thesis
      by (auto simp: reconfigureStep_def restarted_def p intro!: moved split: option.splits if_splits)
  next
    case (ReconfigureEnding res)
    with step show ?thesis by (auto simp: reconfigureStep_def p intro!: ended)
  qed (use step in \<open>simp_all add: reconfigureStep_def\<close>)
qed

lemma lanes_step:
  assumes "sound w" "lanes w" "orderly w ev" "publicStep pe ev w = Some w'" shows "lanes w'"
proof -
  have p: "eventPossible ev w" and e: "publicEvent pe ev w = Some w'"
    using assms(4) by (simp_all add: publicStep_def split: if_splits)
  note a = assms(1-3)
  show ?thesis
  proof (cases ev)
    case (EvContextDone i)
    with e have "w' = updateStart i (\<lambda>op. op\<lparr>so_canceled := True\<rparr>) w" by (simp add: publicEvent_def)
    then show ?thesis using lanes_frame [OF a(2), of w'] by (simp add: public_simps)
  next
    case (EvStart x)
    with e a show ?thesis by (auto simp: publicEvent_def orderly_def intro: lanes_startEvent)
  next
    case (EvClosed c f g)
    with e a show ?thesis by (auto simp: publicEvent_def intro: lanes_closedEvent)
  next
    case (EvExpire i)
    with e a show ?thesis by (auto simp: publicEvent_def intro: lanes_expired split: if_splits)
  next
    case (EvDriver i f g)
    with e a show ?thesis by (auto simp: publicEvent_def intro: lanes_driverStep)
  next
    case (EvEndpointDone i f)
    with e a show ?thesis by (auto simp: publicEvent_def intro: lanes_endpointDone split: Driver.splits)
  next
    case (EvStop x)
    with e a show ?thesis by (auto simp: publicEvent_def intro: lanes_stopSection split: prod.splits StopOutcome.splits)
  next
    case (EvStopStep k d f g)
    with e p a show ?thesis by (auto simp: publicEvent_def eventPossible_def intro: lanes_stopStep)
  next
    case (EvReconfigure mu)
    with e a show ?thesis
      by (auto simp: publicEvent_def orderly_def intro: lanes_reconfigureSection split: prod.splits ReconfigureOutcome.splits)
  next
    case (EvReconfigureStep r d f g sa)
    with e p a show ?thesis by (auto simp: publicEvent_def eventPossible_def intro: lanes_reconfigureStep)
  qed (use e a in \<open>auto simp: publicEvent_def intro: lanes_launchEvent\<close>)
qed

section \<open>Admission\<close>

lemma admits_cong: "pw_ingresses w' = pw_ingresses w \<Longrightarrow> admits w' = admits w"
  by (simp add: admits_def fun_eq_iff)

lemma admits_deny [public_simps]: "admits (deny ing w) j = (admits w j \<and> ing \<noteq> Some j)"
  by (auto simp: admits_def deny_def nth_update split: option.splits)

lemma admits_close: "admits (closeOwned ep ing f g w) j = (admits w j \<and> ing \<noteq> Some j)"
proof -
  let ?w = "deny ing w"
  have "admits (closeOwned ep ing f g w) j = admits ?w j"
    by (auto simp: closeOwned_def Let_def admits_def nth_update split: option.splits)
  then show ?thesis by (simp add: admits_deny)
qed

lemma admits_keeps [public_simps]:
  "admits (modifyManager f w) = admits w" "admits (updateStart i g w) = admits w" "admits (updateStop k h w) = admits w"
  "admits (updateReconfigure r l w) = admits w" "admits (emit s w) = admits w" "admits (emitCurrent w) = admits w"
  "admits (setStatus st w) = admits w" "admits (cancelStart c w) = admits w" "admits (releaseRuntime ep ing w) = admits w"
  "admits (driveTo i d w) = admits w" "admits (launchTo i la w) = admits w" "admits (completeStartLocked i res w) = admits w"
  "admits (settleStartLocked i w) = admits w" "admits (retainRuntimeAfterFailedCleanup ep ing w) = admits w"
  "admits (w\<lparr>pw_starts := ws\<rparr>) = admits w" "admits (w\<lparr>pw_stops := wk\<rparr>) = admits w"
  "admits (w\<lparr>pw_reconfigures := wr\<rparr>) = admits w" "admits (w\<lparr>pw_closers := wc\<rparr>) = admits w"
  "admits (stopTo k sg w) = admits w" "admits (reconfigureTo r rg w) = admits w"
  "admits (completeReconfigureLocked r res w) = admits w" "admits (setPresence a b w) = admits w"
  "admits (w\<lparr>pw_endpoints := we\<rparr>) = admits w"
  by (rule admits_cong; simp add: public_simps driveTo_def launchTo_def completeStartLocked_def settleStartLocked_def
      retainRuntimeAfterFailedCleanup_def stopTo_def reconfigureTo_def completeReconfigureLocked_def setPresence_def)+

lemma guarded_still:
  assumes "guarded w" and "\<And>j. admits w' j \<Longrightarrow> admits w j"
    and "pm_pendingStart (pw_manager w') = pm_pendingStart (pw_manager w)"
    and "\<And>i. pm_pendingStart (pw_manager w) = Some i \<Longrightarrow> snd (holds (pw_starts w ! i)) \<subseteq> snd (holds (pw_starts w' ! i))"
    and "\<And>j. serving w j \<Longrightarrow> admits w' j \<Longrightarrow> serving w' j"
  shows "guarded w'"
  using assms unfolding guarded_def ingressInFlight_def by (metis subsetD)

lemma serving_active: "serving w j \<Longrightarrow> active w"
  by (simp add: serving_def active_def)

lemma guarded_inactive:
  assumes "guarded w" "\<not> active w" and "\<And>j. admits w' j \<Longrightarrow> admits w j"
    and "pm_pendingStart (pw_manager w') = pm_pendingStart (pw_manager w)" "pw_starts w' = pw_starts w"
  shows "guarded w'"
  by (rule guarded_still [OF assms(1)]) (use assms serving_active in auto)

lemma guarded_none:
  assumes "guarded w" "pm_pendingStart (pw_manager w) = None" "st_State (pm_status (pw_manager w)) \<noteq> LifecycleReady"
    and "\<And>j. admits w' j \<Longrightarrow> admits w j"
  shows "guarded w'"
  using assms by (auto simp: guarded_def ingressInFlight_def serving_def)

lemma guarded_startSection:
  assumes "sound w" "guarded w" "startSection x owner w = (out, w')"
  shows "guarded w'"
  using assms(3)
proof (cases rule: startSection_cases)
  case (refused res c g)
  show ?thesis by (rule guarded_still [OF assms(2)]) (use refused in \<open>auto simp: public_simps serving_def\<close>)
next
  case closes
  show ?thesis by (rule guarded_still [OF assms(2)]) (use closes in \<open>auto simp: public_simps serving_def\<close>)
next
  case launches
  have "pm_pendingStart (pw_manager w) = None"
    using launches sound_startSection [OF assms(1,3)] Starting_waits [OF assms(1)] assms(3)
    by (auto simp: startSection_def Let_def split: if_splits)
  then show ?thesis by (rule guarded_none [OF assms(2)]) (use launches in \<open>auto simp: public_simps\<close>)
qed (use assms(2) in simp_all)

lemma guarded_keeps:
  "guarded (w\<lparr>pw_closers := wc\<rparr>) = guarded w" "guarded (reconfigureTo r s w) = guarded w"
  "guarded (completeReconfigureLocked r res w) = guarded w" "guarded (emitCurrent w) = guarded w" "guarded (emit sn w) = guarded w"
  "guarded (stopTo k sg w) = guarded w" "guarded (setPresence a b w) = guarded w"
  by (simp_all add: guarded_def public_simps serving_def ingressInFlight_def reconfigureTo_def stopTo_def
      completeReconfigureLocked_def setPresence_def)

lemma guarded_startEvent: "sound w \<Longrightarrow> guarded w \<Longrightarrow> startEvent x w = Some w' \<Longrightarrow> guarded w'"
  using guarded_startSection [of w x None]
  by (auto simp: startEvent_def guarded_keeps split: prod.splits StartOutcome.splits)

lemma guarded_closedEvent:
  assumes "lanes w" "guarded w" "closedEvent c f g w = Some w'" shows "guarded w'"
proof -
  obtain ep ing owner where c: "pw_closers w ! c = Some (ep, ing, owner)" "c < length (pw_closers w)"
    using assms(3) by (auto simp: closedEvent_def not_le split: if_splits option.splits)
  let ?d = "w\<lparr>pw_closers := (pw_closers w)[c := None]\<rparr>"
  obtain res v where s: "startClosed ep ing f g ?d = (res, v)" by (metis surj_pair)
  have na: "\<not> active w" using lanesD(2) [OF assms(1), of c] c by (simp add: closing_def)
  have "guarded v"
    by (rule guarded_inactive [OF assms(2) na])
      (use s in \<open>auto simp: startClosed_def Let_def public_simps admits_close split: option.splits\<close>)
  with assms(3) c s show ?thesis
    by (auto simp: closedEvent_def guarded_keeps split: option.splits ReconfigureStage.splits)
qed

lemma holds_inert:
  "(\<And>op. so_launch (g op) = so_launch op \<and> so_driver (g op) = so_driver op) \<Longrightarrow>
     holds (pw_starts (updateStart i g w) ! k) = holds (pw_starts w ! k)"
  by (simp add: public_simps nth_update holds_def)

lemma guarded_inertStart:
  assumes "guarded w" "\<And>op. so_launch (g op) = so_launch op \<and> so_driver (g op) = so_driver op"
  shows "guarded (updateStart i g w)"
  by (rule guarded_still [OF assms(1)])
    (simp_all only: holds_inert [of g, OF assms(2)] admits_keeps updateStart_fields(1) serving_def subset_refl)

lemma guarded_launchTo:
  assumes "guarded w" "snd (launchHolds (so_launch (pw_starts w ! i))) = None \<or> snd (launchHolds l) = snd (launchHolds (so_launch (pw_starts w ! i)))"
  shows "guarded (launchTo i l w)"
proof (rule guarded_still [OF assms(1)])
  fix k show "snd (holds (pw_starts w ! k)) \<subseteq> snd (holds (pw_starts (launchTo i l w) ! k))"
    using assms(2) by (auto simp: launchTo_def public_simps nth_update holds_def)
qed (simp_all add: public_simps serving_def)

lemma guarded_launchEvent:
  assumes "sound w" "guarded w" "eventPossible ev w" "launchEvent pe ev w = Some w'"
  shows "guarded w'"
proof (cases ev)
  case (EvLaunchIngress i f)
  then have l: "so_launch (pw_starts w ! i) = LaunchIngress" "w' = launchIngress i f w"
    using assms(4) by (auto simp: launchEvent_def split: if_splits)
  let ?w = "w\<lparr>pw_ingresses := pw_ingresses w @ [\<lparr>ig_policy = None, ig_open = True\<rparr>]\<rparr>"
  have "admits ?w j \<Longrightarrow> admits w j" for j by (auto simp: admits_def nth_append split: if_splits)
  then have "guarded ?w" by (intro guarded_still [OF assms(2)]) (simp_all add: serving_def)
  then show ?thesis unfolding l(2) launchIngress_def using assms(2) l(1)
    by (auto split: option.splits intro!: guarded_launchTo)
next
  case (EvLaunchTunnel i stored provider)
  then obtain ing where l: "so_launch (pw_starts w ! i) = LaunchTunnel ing" "w' = launchTunnel pe i ing stored provider w"
    using assms(4) by (auto simp: launchEvent_def split: Launch.splits)
  have "guarded (w\<lparr>pw_endpoints := pw_endpoints w @ [True]\<rparr>)"
    using assms(2) by (simp add: guarded_def public_simps serving_def ingressInFlight_def)
  then show ?thesis unfolding l(2) launchTunnel_def Let_def using assms(2) l(1)
    by (auto split: option.splits sum.splits intro!: guarded_launchTo)
next
  case (EvLaunchCheck i)
  then show ?thesis using assms(2,4)
    by (auto simp: launchEvent_def launchCheck_def split: Launch.splits intro!: guarded_launchTo)
next
  case (EvLaunchActivate i f)
  then obtain ing e url host pass where l: "so_launch (pw_starts w ! i) = LaunchActivating ing e url host pass"
      "w' = launchActivate pe i f w" and i: "i < length (pw_starts w)"
    using assms(3,4) by (auto simp: launchEvent_def eventPossible_def split: Launch.splits)
  show ?thesis
  proof (cases "Activate (pe_Net pe) (pe_SplitHostPort pe) host (pr_Username (so_preferences (pw_starts w ! i))) pass")
    case (Inl x)
    then show ?thesis unfolding l(2) using assms(2) l(1) by (auto simp: launchActivate_def intro!: guarded_launchTo)
  next
    case (Inr policy)
    let ?w = "w\<lparr>pw_ingresses := (pw_ingresses w)[ing := (pw_ingresses w ! ing)\<lparr>ig_policy := Some policy\<rparr>]\<rparr>"
    let ?r = "\<lparr>sr_endpoint = Some e, sr_ingress = Some ing, sr_canonicalURL = url, sr_err = map_option redactSecretStoreError f\<rparr>"
    have w': "w' = launchTo i (LaunchDone ?r) ?w" unfolding l(2) using Inr l(1) by (simp add: launchActivate_def)
    have "selecting (so_driver (pw_starts w ! i))" using launching [OF assms(1) i] l(1) by simp
    then have p: "pm_pendingStart (pw_manager w) = Some i" using pendingI [OF assms(1) i] by (auto simp: selecting_def)
    have "holds (pw_starts w' ! i) = holds (pw_starts w ! i)" "snd (holds (pw_starts w ! i)) \<supseteq> {ing}"
      using i l(1) by (simp_all add: w' launchTo_def public_simps holds_def)
    then have fl: "ingressInFlight w' j = ingressInFlight w j" "ingressInFlight w ing" for j
      using p by (auto simp: ingressInFlight_def w' public_simps)
    have ad: "admits w' j \<Longrightarrow> admits w j \<or> j = ing" for j
      by (auto simp: w' public_simps) (auto simp: admits_def nth_update split: if_splits)
    have se: "serving w' j = serving w j" for j by (simp add: serving_def w' public_simps)
    show ?thesis using assms(2) fl ad se unfolding guarded_def by metis
  qed
qed (use assms(4) in \<open>simp_all add: launchEvent_def\<close>)

lemma guarded_finishStart:
  assumes "sound w" "guarded w" and i: "i < length (pw_starts w)" and d: "so_driver (pw_starts w ! i) = Finishing r"
  shows "guarded (finishStart i r w)"
proof -
  have pend: "pm_pendingStart (pw_manager w) = Some i" using pendingI [OF assms(1) i] d by simp
  have l: "so_launch (pw_starts w ! i) = LaunchTaken" using assms(1) i d by (auto simp: sound_def opShape_def)
  have h: "snd (holds (pw_starts w ! i)) = set_option (sr_ingress r)" using d l by (simp add: holds_def)
  have turned: "guarded (driveTo i (Discarding (sr_endpoint r) (sr_ingress r) res b) (deny (sr_ingress r) v))"
    if "pw_starts v = pw_starts w" "pw_ingresses v = pw_ingresses w" "pm_pendingStart (pw_manager v) = Some i"
      "\<And>j. serving w j \<Longrightarrow> serving v j" for v res b
  proof (rule guarded_still [OF assms(2)])
    show "admits (driveTo i (Discarding (sr_endpoint r) (sr_ingress r) res b) (deny (sr_ingress r) v)) j \<Longrightarrow> admits w j" for j
      using admits_cong [OF that(2)] by (simp add: public_simps)
  next
    fix k assume "pm_pendingStart (pw_manager w) = Some k"
    then show "snd (holds (pw_starts w ! k)) \<subseteq>
        snd (holds (pw_starts (driveTo i (Discarding (sr_endpoint r) (sr_ingress r) res b) (deny (sr_ingress r) v)) ! k))"
      using pend h i that(1) by (simp add: driveTo_def public_simps holds_def)
  qed (use that pend in \<open>simp_all add: public_simps serving_def\<close>)
  show ?thesis
  proof (cases "startCurrent i w")
    case False
    with turned [of w] pend show ?thesis by (simp add: finishStart_def Let_def)
  next
    case True
    then have nr: "\<not> serving w j" for j by (simp add: startCurrent_def Let_def serving_def)
    let ?err = "if sr_err r = None \<and> (sr_endpoint r = None \<or> sr_ingress r = None \<or> sr_canonicalURL r = [])
                    then Some plainError else sr_err r"
    show ?thesis
    proof (cases ?err)
      case (Some f)
      with turned [of "setStatus (failWith (pm_status (pw_manager w)) (redactedPublicAccessFailure f)) w"] nr pend True
      show ?thesis by (auto simp: finishStart_def Let_def public_simps)
    next
      case None
      then obtain e j where ej: "sr_endpoint r = Some e" "sr_ingress r = Some j" by (auto split: if_splits)
      have "admits (finishStart i r w) k \<Longrightarrow> serving (finishStart i r w) k" for k
      proof -
        assume "admits (finishStart i r w) k"
        then have "admits w k" using True None by (simp add: finishStart_def Let_def public_simps)
        then have "k = j" using assms(2) nr pend h ej by (auto simp: guarded_def ingressInFlight_def)
        then show ?thesis using True None ej
          by (simp add: finishStart_def Let_def serving_def driveTo_def settleStartLocked_def completeStartLocked_def public_simps plainStatus_def)
      qed
      then show ?thesis by (simp add: guarded_def)
    qed
  qed
qed

lemma guarded_driveTo:
  assumes "guarded w" "snd (driverHolds (so_driver (pw_starts w ! i))) = None \<or>
    snd (driverHolds d) = snd (driverHolds (so_driver (pw_starts w ! i)))"
  shows "guarded (driveTo i d w)"
proof (rule guarded_still [OF assms(1)])
  fix k show "snd (holds (pw_starts w ! k)) \<subseteq> snd (holds (pw_starts (driveTo i d w) ! k))"
    using assms(2) by (auto simp: driveTo_def public_simps nth_update holds_def)
qed (simp_all add: public_simps serving_def)

lemma retained_serving: "serving w j \<Longrightarrow> serving (retainRuntimeAfterFailedCleanup ep ing w) j"
  by (simp add: serving_def retainRuntimeAfterFailedCleanup_def public_simps)

lemma guarded_discard:
  assumes "sound w" "guarded w" and i: "i < length (pw_starts w)"
    and d: "driverHolds (so_driver (pw_starts w ! i)) = (ep, ing)" "\<not> over (so_driver (pw_starts w ! i))" "\<not> selecting (so_driver (pw_starts w ! i))"
  shows "guarded (driveTo i d' (discardRuntime ep ing f g w))"
proof -
  let ?w = "driveTo i d' (discardRuntime ep ing f g w)"
  have pend: "pm_pendingStart (pw_manager w) = Some i" using pendingI [OF assms(1) i d(2)] .
  have l: "so_launch (pw_starts w ! i) = LaunchTaken" using assms(1) i d by (auto simp: sound_def opShape_def)
  have a: "admits ?w j \<Longrightarrow> admits w j \<and> ing \<noteq> Some j" for j
    by (auto simp: discardRuntime_def Let_def public_simps admits_close split: if_splits)
  have s: "serving w j \<Longrightarrow> serving ?w j" for j
    by (simp add: discardRuntime_def Let_def public_simps serving_def retainRuntimeAfterFailedCleanup_def)
  have "serving w j" if "admits ?w j" for j
    using a [OF that] assms(2) pend d l by (auto simp: guarded_def ingressInFlight_def holds_def)
  with s show ?thesis by (auto simp: guarded_def)
qed

lemma guarded_driverStep:
  assumes "sound w" "guarded w" and i: "i < length (pw_starts w)" and step: "driverStep i f g w = Some w'"
  shows "guarded w'"
proof (cases "so_driver (pw_starts w ! i)")
  case Selecting
  then obtain r where r: "so_launch (pw_starts w ! i) = LaunchDone r"
    "w' = updateStart i (\<lambda>op. op\<lparr>so_canceled := True, so_launch := LaunchTaken, so_driver := Finishing r\<rparr>) w"
    using step by (auto simp: driverStep_def split: Launch.splits)
  show ?thesis
  proof (rule guarded_still [OF assms(2)])
    fix k show "snd (holds (pw_starts w ! k)) \<subseteq> snd (holds (pw_starts w' ! k))"
      using r Selecting by (auto simp: public_simps nth_update holds_def)
  qed (simp_all add: r public_simps serving_def)
next
  case (Finishing r)
  with step have "w' = finishStart i r w" by (simp add: driverStep_def)
  with guarded_finishStart [OF assms(1,2) i Finishing] show ?thesis by simp
next
  case (Discarding ep ing res b)
  with step have "w' = driveTo i (Settling res b) (discardRuntime ep ing f g w)" by (simp add: driverStep_def)
  with guarded_discard [OF assms(1,2) i] Discarding show ?thesis by simp
next
  case (Settling res b)
  then have h: "holds (pw_starts w ! i) = ({}, {})"
    using assms(1) i by (auto simp: sound_def opShape_def holds_def)
  have pend: "pm_pendingStart (pw_manager w) = Some i" using pendingI [OF assms(1) i] Settling by simp
  have s: "serving w j" if "admits w j" for j using that assms(2) h pend by (auto simp: guarded_def ingressInFlight_def)
  have "guarded (driveTo i DriverEnded (settleStartLocked i (completeStartLocked i res w)))"
    unfolding guarded_def
    by (auto simp: public_simps serving_def settleStartLocked_def completeStartLocked_def dest!: s)
  with step Settling show ?thesis by (auto simp: driverStep_def Let_def guarded_keeps)
next
  case Disposing
  then obtain r where r: "so_launch (pw_starts w ! i) = LaunchDone r"
    "w' = updateStart i (\<lambda>op. op\<lparr>so_launch := LaunchTaken, so_driver := DisposeClosing (sr_endpoint r) (sr_ingress r)\<rparr>)
            (deny (sr_ingress r) w)"
    using step by (auto simp: driverStep_def split: Launch.splits)
  show ?thesis
  proof (rule guarded_still [OF assms(2)])
    fix k show "snd (holds (pw_starts w ! k)) \<subseteq> snd (holds (pw_starts w' ! k))"
      using r Disposing by (auto simp: public_simps nth_update holds_def)
  qed (simp_all add: r public_simps serving_def)
next
  case (DisposeClosing ep ing)
  with step have "w' = driveTo i DisposeSettling (discardRuntime ep ing f g w)" by (simp add: driverStep_def)
  with guarded_discard [OF assms(1,2) i] DisposeClosing show ?thesis by simp
next
  case DisposeSettling
  then have h: "holds (pw_starts w ! i) = ({}, {})"
    using assms(1) i by (auto simp: sound_def opShape_def holds_def)
  have pend: "pm_pendingStart (pw_manager w) = Some i" using pendingI [OF assms(1) i] DisposeSettling by simp
  have s: "serving w j" if "admits w j" for j using that assms(2) h pend by (auto simp: guarded_def ingressInFlight_def)
  have "guarded (driveTo i DriverEnded (settleStartLocked i w))"
    unfolding guarded_def by (auto simp: public_simps serving_def settleStartLocked_def dest!: s)
  with step DisposeSettling show ?thesis by (simp add: driverStep_def)
next
  case (Cleaning e j)
  let ?c = "closeOwned (Some e) (Some j) f g w"
  let ?r = "if closeError (Some e) (Some j) f g = None then releaseRuntime (Some e) (Some j) ?c else ?c"
  let ?m = "modifyManager (\<lambda>m. m\<lparr>pm_cleanup := (if pm_cleanup m = Some i then None else pm_cleanup m)\<rparr>) ?r"
  have "guarded ?m"
    by (rule guarded_still [OF assms(2)]) (auto simp: public_simps admits_close serving_def split: if_splits)
  then have "guarded (driveTo i DriverEnded ?m)" by (rule guarded_driveTo) (simp add: public_simps Cleaning)
  with step Cleaning show ?thesis by (simp add: driverStep_def Let_def)
qed (use step in \<open>auto simp: driverStep_def split: Launch.splits\<close>)

lemma guarded_failCurrent:
  assumes "guarded w" shows "guarded (failCurrentStart i c w)"
proof (rule guarded_still [OF assms])
  fix k show "snd (holds (pw_starts w ! k)) \<subseteq> snd (holds (pw_starts (failCurrentStart i c w) ! k))"
    by (simp add: holds_def public_simps)
qed (auto simp: failCurrentStart_def Let_def public_simps serving_def completeStartLocked_def split: if_splits)

lemma guarded_expired:
  assumes "guarded w" and d: "so_driver (pw_starts w ! i) = Selecting" shows "guarded (startExpired i w)"
  unfolding startExpired_def
  by (intro guarded_driveTo guarded_failCurrent guarded_inertStart assms)
    (simp_all add: public_simps nth_update d)

lemma guarded_endpointDone:
  assumes "guarded w" and d: "so_driver (pw_starts w ! i) = Monitoring e j" shows "guarded (endpointDone i e j f w)"
proof -
  have "guarded (modifyManager (\<lambda>m. m\<lparr>pm_cleanup := Some i, pm_status := s m\<rparr>) (deny (Some j) w))"
    if "pm_ingress (pw_manager w) = Some j" for s
    by (rule guarded_still [OF assms(1)]) (use that in \<open>auto simp: public_simps serving_def\<close>)
  then show ?thesis unfolding endpointDone_def Let_def
    by (auto simp: public_simps d guarded_keeps assms(1) intro!: guarded_driveTo)
qed

lemma guarded_cancel: "guarded w \<Longrightarrow> guarded (cancelStart s w)"
  by (cases s) (auto simp: cancelStart_def intro!: guarded_inertStart)

lemma cancelled_serving [simp]: "serving (cancelStart s w) = serving w"
  by (simp add: serving_def public_simps fun_eq_iff)

text \<open>The sections that leave the ready state deny the manager's ingress first.\<close>

lemma guarded_stopping:
  assumes "guarded w"
    and "\<And>m. pm_pendingStart (f m) = pm_pendingStart m" and "\<And>m. pm_ingress (f m) = pm_ingress m"
  shows "guarded (modifyManager f (deny (pm_ingress (pw_manager w)) (cancelStart (pm_start (pw_manager w)) w)))"
proof -
  let ?c = "cancelStart (pm_start (pw_manager w)) w"
  show ?thesis
    by (rule guarded_still [OF guarded_cancel [OF assms(1), of "pm_start (pw_manager w)"]])
      (auto simp: public_simps assms serving_def)
qed

lemma guarded_cong:
  assumes "guarded w" "pw_ingresses w' = pw_ingresses w" "pw_starts w' = pw_starts w"
    "pm_pendingStart (pw_manager w') = pm_pendingStart (pw_manager w)" "pm_ingress (pw_manager w') = pm_ingress (pw_manager w)"
    "st_State (pm_status (pw_manager w')) = st_State (pm_status (pw_manager w))"
  shows "guarded w'"
  using assms admits_cong [OF assms(2)] by (simp add: guarded_def serving_def ingressInFlight_def)

lemma guarded_stopSection:
  assumes "guarded w" "stopSection x w = (out, w')" shows "guarded w'"
  using assms(2)
proof (cases rule: stopSection_cases)
  case (starts g)
  let ?f = "\<lambda>m. m\<lparr>pm_stop := Some (length (pw_stops w)), pm_status := plainStatus LifecycleStopping g (pr_Revision (pm_preferences m))\<rparr>"
  have "guarded (modifyManager ?f (deny (pm_ingress (pw_manager w)) (cancelStart (pm_start (pw_manager w)) w)))"
    by (rule guarded_stopping [OF assms(1)]) simp_all
  then show ?thesis by (rule guarded_cong) (simp_all add: starts(4) public_simps)
qed (use assms(1) in simp_all)

lemma guarded_reconfigureSection:
  assumes "guarded w" "reconfigureSection pe mu w = (out, w')" shows "guarded w'"
  using assms(2)
proof (cases rule: reconfigureSection_cases)
  case (starts g a)
  let ?f = "\<lambda>m. m\<lparr>pm_reconfigure := Some (length (pw_reconfigures w)),
      pm_status := plainStatus LifecycleStopping g (pr_Revision (pm_preferences m))\<rparr>"
  have "guarded (modifyManager ?f (deny (pm_ingress (pw_manager w)) (cancelStart (pm_start (pw_manager w)) w)))"
    by (rule guarded_stopping [OF assms(1)]) simp_all
  then show ?thesis by (rule guarded_cong) (simp_all add: starts(5) public_simps)
qed (use assms(1) in simp_all)

lemma guarded_stopStep:
  assumes "lanes w" "guarded w" and k: "k < length (pw_stops w)" and step: "stopStep k d f g w = Some w'"
  shows "guarded w'"
proof -
  have n: "sp_stage (pw_stops w ! k) \<noteq> StopEnded" using step by (auto simp: stopStep_def)
  then have na: "\<not> active w" using lanesD(1) [OF assms(1)] k by (auto simp: stopRunning_def)
  have s: "pm_pendingStart (pw_manager w') = pm_pendingStart (pw_manager w)" "pw_starts w' = pw_starts w"
    using step by (auto simp: stopStep_def collectRuntime_def stopTo_def stopEnd_def Let_def public_simps
        split: StopStage.splits option.splits if_splits)
  have "admits w' j \<Longrightarrow> admits w j" for j
    using step by (auto simp: stopStep_def collectRuntime_def stopEnd_def Let_def public_simps admits_close
        split: StopStage.splits option.splits if_splits)
  then show ?thesis by (rule guarded_inactive [OF assms(2) na]) (simp_all add: s)
qed

lemma guarded_restart: "sound w \<Longrightarrow> guarded w \<Longrightarrow> reconfigureRestart r x d w = Some w' \<Longrightarrow> guarded w'"
  using guarded_startSection [of w x "Some r"]
  by (auto simp: reconfigureRestart_def Let_def guarded_keeps split: prod.splits StartOutcome.splits if_splits)

lemma guarded_reconfigureStep:
  assumes "sound w" "lanes w" "guarded w" and r: "r < length (pw_reconfigures w)"
    and step: "reconfigureStep pe r d f g sa w = Some w'"
  shows "guarded w'"
proof -
  let ?s = "rc_stage (pw_reconfigures w ! r)"
  have n: "?s \<noteq> ReconfigureEnded" using step by (auto simp: reconfigureStep_def)
  have p: "pm_reconfigure (pw_manager w) = Some r" using lanesD(8) [OF assms(2) r n] .
  have na: "restarted ?s \<or> \<not> active w" using lanesD(4) [OF assms(2) p] .
  have inactive: "guarded v" if "\<not> restarted ?s" "\<And>j. admits v j \<Longrightarrow> admits w j"
      "pm_pendingStart (pw_manager v) = pm_pendingStart (pw_manager w)" "pw_starts v = pw_starts w" for v
    using that na by (intro guarded_inactive [OF assms(3)]) simp_all
  show ?thesis
  proof (cases ?s)
    case (ReconfigureDraining q ep ing)
    have "guarded v" if "v = w \<or> v = deny (pm_ingress (pw_manager w)) w" for v
      using that ReconfigureDraining by (intro inactive) (auto simp: restarted_def public_simps)
    with step ReconfigureDraining show ?thesis
      by (auto simp: reconfigureStep_def collectRuntime_def Let_def guarded_keeps split: if_splits)
  next
    case (ReconfigureClosing ep ing)
    have "guarded (closeOwned ep ing f g w)"
      using ReconfigureClosing by (intro inactive) (auto simp: restarted_def public_simps admits_close)
    with step ReconfigureClosing show ?thesis by (auto simp: reconfigureStep_def Let_def guarded_keeps)
  next
    case (ReconfigureClosed ep ing)
    have "guarded (releaseRuntime ep ing w)"
      using ReconfigureClosed by (intro inactive) (auto simp: restarted_def public_simps)
    with step ReconfigureClosed show ?thesis by (auto simp: reconfigureStep_def guarded_keeps)
  next
    case ReconfigureChanging
    have "guarded (reconfigureChange pe r sa w)"
      using assms(3)
      by (simp add: reconfigureChange_def reconcilePresence_def Let_def case_prod_unfold guarded_keeps split: sum.split option.split)
    with step ReconfigureChanging show ?thesis by (simp add: reconfigureStep_def)
  next
    case (ReconfigureSaved m a b)
    have "guarded (modifyManager (\<lambda>x. x\<lparr>pm_preferences := m, pm_provider := a, pm_password := b, pm_status := st x\<rparr>) w)" for st
      using ReconfigureSaved by (intro inactive) (auto simp: restarted_def public_simps)
    with step ReconfigureSaved assms(3) show ?thesis
      by (auto simp: reconfigureStep_def reconfigureCommit_def Let_def guarded_keeps)
  next
    case (ReconfigureFailing c)
    have "guarded (setStatus st w)" for st
      using ReconfigureFailing by (intro inactive) (auto simp: restarted_def public_simps)
    with step ReconfigureFailing assms(3) show ?thesis
      by (auto simp: reconfigureStep_def finishReconfigureFailure_def Let_def guarded_keeps)
  next
    case (ReconfigureRestarting x)
    with step guarded_restart [OF assms(1,3)] show ?thesis by (simp add: reconfigureStep_def)
  qed (use step assms(3) in \<open>auto simp: reconfigureStep_def guarded_keeps split: option.splits if_splits\<close>)
qed

lemma guarded_step:
  assumes "sound w" "lanes w" "guarded w" "publicStep pe ev w = Some w'" shows "guarded w'"
proof -
  have p: "eventPossible ev w" and e: "publicEvent pe ev w = Some w'"
    using assms(4) by (simp_all add: publicStep_def split: if_splits)
  note a = assms(1-3)
  show ?thesis
  proof (cases ev)
    case (EvContextDone i)
    with e a show ?thesis by (auto simp: publicEvent_def intro!: guarded_inertStart)
  next
    case (EvStart x)
    with e a show ?thesis by (auto simp: publicEvent_def intro: guarded_startEvent)
  next
    case (EvClosed c f g)
    with e a show ?thesis by (auto simp: publicEvent_def intro: guarded_closedEvent)
  next
    case (EvExpire i)
    with e a show ?thesis by (auto simp: publicEvent_def intro: guarded_expired split: if_splits)
  next
    case (EvDriver i f g)
    with e p a show ?thesis by (auto simp: publicEvent_def eventPossible_def intro: guarded_driverStep)
  next
    case (EvEndpointDone i f)
    with e a show ?thesis by (auto simp: publicEvent_def intro: guarded_endpointDone split: Driver.splits)
  next
    case (EvStop x)
    with e a show ?thesis by (auto simp: publicEvent_def intro: guarded_stopSection split: prod.splits StopOutcome.splits)
  next
    case (EvStopStep k d f g)
    with e p a show ?thesis by (auto simp: publicEvent_def eventPossible_def intro: guarded_stopStep)
  next
    case (EvReconfigure mu)
    with e a show ?thesis
      by (auto simp: publicEvent_def intro: guarded_reconfigureSection split: prod.splits ReconfigureOutcome.splits)
  next
    case (EvReconfigureStep r d f g sa)
    with e p a show ?thesis by (auto simp: publicEvent_def eventPossible_def intro: guarded_reconfigureStep)
  qed (use e p a in \<open>auto simp: publicEvent_def intro: guarded_launchEvent\<close>)
qed

lemma orderly_reachable: "publicReach pe orderly w \<Longrightarrow> sound w \<and> lanes w \<and> guarded w"
proof (induction rule: publicReach.induct)
  case (initialized loaded a b)
  have "lanes (initialWorld m)" if "pm_reconfigure m = None" for m
    by (rule lanesI) (simp_all add: initialWorld_def stopRunning_def closing_def that)
  moreover have "guarded (initialWorld m)" for m by (simp add: guarded_def admits_def initialWorld_def)
  ultimately show ?case using sound_initial by (simp add: Initialize_def Let_def)
next
  case (stepped w ev w')
  then show ?case using sound_step lanes_step guarded_step by blast
qed

end
