(* ===== verification/TunnelNames.thy ===== *)
theory TunnelNames
  imports TunnelGuard
begin

text \<open>
  Names and texts that leave the manager: a reserved domain is normalised once and for all, a canonical URL is
  accepted again, a published failure carries one of the fixed messages, and every published status is valid.
\<close>

section \<open>Domains\<close>

definition domainChar :: "char \<Rightarrow> bool" where
  "domainChar c = (labelChar c \<or> c = CHR ''-'' \<or> c = CHR ''.'')"

text \<open>What the platform is relied on for: lower-case ASCII letters stay as they are, and a plain HTTPS URL parses.\<close>

definition lowerLaw :: "NetPlatform \<Rightarrow> bool" where
  "lowerLaw np = (\<forall>s. list_all domainChar s \<longrightarrow> np_ToLower np s = s)"

definition plainURL :: "string \<Rightarrow> ParsedURL" where
  "plainURL host =
     \<lparr>pu_Scheme = ''https'', pu_Host = host, pu_User = False, pu_RawQuery = [], pu_Fragment = [], pu_EscapedPath = []\<rparr>"

definition urlLaw :: "NetPlatform \<Rightarrow> bool" where
  "urlLaw np = (\<forall>host. host \<noteq> [] \<longrightarrow> list_all domainChar host \<longrightarrow> np_ParseURL np (''https://'' @ host) = Some (plainURL host))"

definition normal :: "NetPlatform \<Rightarrow> string \<Rightarrow> bool" where
  "normal np d = (d \<noteq> [] \<and> NormalizeReservedDomain np d = Inr d)"

lemma split_on_chars: "c \<in> set s \<Longrightarrow> c = sep \<or> (\<exists>p\<in>set (split_on sep s). c \<in> set p)"
proof (induction s)
  case (Cons x s)
  show ?case
  proof (cases "x = sep")
    case True
    with Cons show ?thesis by auto
  next
    case False
    obtain p ps where s: "split_on sep s = p # ps" using split_on_nonempty [of sep s] by (cases "split_on sep s") blast+
    with Cons False show ?thesis by auto
  qed
qed simp

lemma split_on_single_empty: "split_on sep s = [[]] \<Longrightarrow> s = []"
  by (cases s) (auto split: if_splits list.splits)

lemma split_on_last: "s \<noteq> [] \<Longrightarrow> last (split_on sep s) \<noteq> [] \<Longrightarrow> last s = last (last (split_on sep s))"
proof (induction s)
  case (Cons x s)
  show ?case
  proof (cases s)
    case Nil
    with Cons show ?thesis by (auto split: if_splits)
  next
    case (Cons y t)
    obtain p ps where s: "split_on sep s = p # ps" using split_on_nonempty [of sep s] by (cases "split_on sep s") blast+
    show ?thesis
    proof (cases "last (split_on sep s) = []")
      case True
      with Cons.prems s show ?thesis using split_on_single_empty [of sep s] \<open>s = y # t\<close> by (auto split: if_splits)
    next
      case False
      then show ?thesis using Cons.IH Cons.prems s \<open>s = y # t\<close> by (auto split: if_splits)
    qed
  qed
qed simp

lemma split_on_head: "hd (split_on sep s) \<noteq> [] \<Longrightarrow> s \<noteq> [] \<and> hd s = hd (hd (split_on sep s))"
  by (cases s) (auto split: list.splits if_splits)

lemma labelChar_visible: "labelChar c \<Longrightarrow> visible c \<and> c \<noteq> CHR ''.'' \<and> c \<noteq> CHR '':'' \<and> c \<noteq> CHR ''[''"
  by (auto simp: labelChar_def is_dec_digit_def visible_def byte_val_def)

lemma domainChar_plain: "domainChar c \<Longrightarrow> c \<noteq> CHR '':'' \<and> c \<noteq> CHR ''[''"
  by (auto simp: domainChar_def labelChar_def is_dec_digit_def byte_val_def)

text \<open>The text that passed the label check.\<close>

definition labelled :: "string \<Rightarrow> bool" where
  "labelled d = (d \<noteq> [] \<and> list_all dnsLabelPattern (split_on (CHR ''.'') d))"

lemma labelled_text:
  assumes "labelled d"
  shows "list_all domainChar d \<and> labelChar (hd d) \<and> labelChar (last d)"
proof -
  let ?ls = "split_on (CHR ''.'') d"
  have l: "\<forall>p\<in>set ?ls. dnsLabelPattern p" and d: "d \<noteq> []" using assms by (simp_all add: labelled_def list_all_iff)
  have "c \<in> set d \<Longrightarrow> domainChar c" for c
    using split_on_chars [of c d "CHR ''.''"] l by (auto simp: dnsLabelPattern_def list_all_iff domainChar_def)
  moreover have "dnsLabelPattern (hd ?ls)" "dnsLabelPattern (last ?ls)" using l by simp_all
  then have "labelChar (hd (hd ?ls))" "hd ?ls \<noteq> []" "labelChar (last (last ?ls))" "last ?ls \<noteq> []"
    by (simp_all add: dnsLabelPattern_def)
  then have "labelChar (hd d)" "labelChar (last d)"
    using split_on_head [of "CHR ''.''" d] split_on_last [OF d, of "CHR ''.''"] by simp_all
  ultimately show ?thesis by (simp add: list_all_iff)
qed

lemma labelled_unchanged:
  assumes "labelled d" "lowerLaw np"
  shows "trim_space d = d" "trimSuffix (CHR ''.'') d = d" "np_ToLower np d = d"
proof -
  note t = labelled_text [OF assms(1)]
  obtain c s where d: "d = c # s" using assms(1) by (cases d) (auto simp: labelled_def)
  show "trim_space d = d" using t labelChar_visible [of c] labelChar_visible [of "last d"] by (simp add: d)
  show "trimSuffix (CHR ''.'') d = d" using t labelChar_visible [of "last d"] by (auto simp: trimSuffix_def)
  show "np_ToLower np d = d" using t assms(2) by (simp add: lowerLaw_def)
qed

lemma normalize_result:
  assumes "NormalizeReservedDomain np raw = Inr d" "lowerLaw np"
  shows "d = [] \<or> (normal np d \<and> labelled d)"
proof (cases "d = []")
  case False
  let ?d = "np_ToLower np (trimSuffix (CHR ''.'') (trim_space raw))"
  have d: "d = ?d" "?d \<noteq> []" "\<not> 253 < length ?d" "\<not> containsAny ?d domainForbidden" "np_ParseIP np ?d = None"
    "2 \<le> length (split_on (CHR ''.'') ?d)" "list_all dnsLabelPattern (split_on (CHR ''.'') ?d)"
    using assms(1) False by (cases "np_ParseIP np ?d"; auto simp: NormalizeReservedDomain_def Let_def split: if_splits)+
  then have l: "labelled d" by (simp add: labelled_def)
  note u = labelled_unchanged [OF l assms(2)]
  have "NormalizeReservedDomain np d = Inr d"
    unfolding NormalizeReservedDomain_def Let_def u using d(2-) d(1) by simp
  with l False show ?thesis by (simp add: normal_def)
qed simp

lemma normal_labelled: "normal np d \<Longrightarrow> lowerLaw np \<Longrightarrow> labelled d"
  using normalize_result [of np d d] by (auto simp: normal_def)

lemma lastColon_none: "CHR '':'' \<notin> set s \<Longrightarrow> lastColon s = None"
  by (induction s) auto

lemma plainURL_parts:
  assumes "normal np d" "lowerLaw np"
  shows "urlHostname (plainURL d) = d" "urlPort (plainURL d) = []"
proof -
  have l: "labelled d" using normal_labelled [OF assms] .
  note t = labelled_text [OF l]
  have "CHR '':'' \<notin> set d" using t domainChar_plain by (auto simp: list_all_iff)
  moreover have "hd d \<noteq> CHR ''[''" using t labelChar_visible [of "hd d"] by auto
  ultimately show "urlHostname (plainURL d) = d" "urlPort (plainURL d) = []"
    by (auto simp: urlHostname_def urlPort_def plainURL_def splitHostPort_def lastColon_none)
qed

lemma endpoint_result:
  assumes "NormalizeEndpointURL np raw rd = Inr (url, host)"
  shows "url = ''https://'' @ host \<and> (rd = [] \<or> NormalizeReservedDomain np rd = Inr host) \<and>
    (\<exists>u. np_ParseURL np raw = Some u \<and> NormalizeReservedDomain np (urlHostname u) = Inr host)"
  using assms by (auto simp: NormalizeEndpointURL_def split: option.splits if_splits sum.splits)

text \<open>A canonical URL is its own normal form.\<close>

lemma endpoint_canonical:
  assumes "normal np host" "lowerLaw np" "urlLaw np"
  shows "NormalizeEndpointURL np (''https://'' @ host) [] = Inr (''https://'' @ host, host)"
proof -
  have l: "labelled host" using normal_labelled [OF assms(1,2)] .
  have p: "np_ParseURL np (''https://'' @ host) = Some (plainURL host)"
    using assms(3) labelled_text [OF l] assms(1) by (simp add: urlLaw_def normal_def)
  show ?thesis
    unfolding NormalizeEndpointURL_def p
    using plainURL_parts [OF assms(1,2)] assms(1) by (simp add: normal_def) (simp add: plainURL_def)
qed

lemma ingress_host:
  assumes "normal np host" "lowerLaw np"
  shows "normalizeIngressHost np split host = Inr host"
proof -
  have l: "labelled host" using normal_labelled [OF assms] .
  have "\<not> containsAny host '':''"
    using labelled_text [OF l] domainChar_plain by (auto simp: containsAny_def list_all_iff list_ex_iff)
  then show ?thesis using labelled_unchanged(1) [OF l assms(2)] assms(1)
    by (simp add: normalizeIngressHost_def Let_def normal_def)
qed

section \<open>Redacted failures\<close>

definition safeText :: "ErrorCategory \<Rightarrow> string \<Rightarrow> bool" where
  "safeText c m =
     (m = SafeMessage c \<or>
      (\<exists>digits. 1 \<le> length digits \<and> length digits \<le> 8 \<and> list_all is_dec_digit digits \<and>
        m = butlast (SafeMessage c) @ '' ('' @ ''ERR_NGROK_'' @ digits @ '').''))"

lemma errorNumber_text:
  assumes "ngrokErrorNumber code = Some n"
  shows "\<exists>digits. code = ''ERR_NGROK_'' @ digits \<and> 1 \<le> length digits \<and> length digits \<le> 8 \<and> list_all is_dec_digit digits"
proof (intro exI conjI)
  let ?d = "drop (length ngrokPrefix) code"
  have a: "take (length ngrokPrefix) code = ngrokPrefix" "length ngrokPrefix < length code"
    "length code \<le> length ngrokPrefix + 8" "list_all is_dec_digit ?d"
    using assms by (simp_all add: ngrokErrorNumber_def Let_def not_le not_less split: if_splits)
  show "code = ''ERR_NGROK_'' @ ?d" unfolding ngrokPrefix_def [symmetric] using a(1) by (metis append_take_drop_id)
  show "1 \<le> length ?d" "length ?d \<le> 8" "list_all is_dec_digit ?d" using a by simp_all
qed

lemma message_ends: "SafeMessage c \<noteq> [] \<and> last (SafeMessage c) = CHR ''.''"
  by (cases c) simp_all

lemma redacted_text: "safeText c (safePublicAccessMessage c code)"
proof (cases "ngrokErrorNumber code")
  case None
  then show ?thesis by (simp add: safeText_def safePublicAccessMessage_def)
next
  case (Some n)
  from errorNumber_text [OF Some] message_ends [of c] Some show ?thesis
    by (auto simp: safeText_def safePublicAccessMessage_def trimSuffix_def)
qed

lemma ngrok_category: "ngrokErrorCategory code \<noteq> NoError"
  by (simp add: ngrokErrorCategory_def split: option.split)

lemma redacted_category: "fst (redactedPublicAccessFailure f) \<noteq> NoError"
  using ngrok_category
  by (auto simp: redactedPublicAccessFailure_def Let_def categoryValid_def split: option.splits if_splits)

lemma close_category: "fst (closeFailure f) \<noteq> NoError"
  using redacted_category by (simp add: closeFailure_def)

lemma endpoint_category: "fst (publicAccessEndpointFailure f) \<noteq> NoError"
  using redacted_category by (simp add: publicAccessEndpointFailure_def split: option.split)

lemma secret_category: "secretErrorCategory f \<noteq> NoError"
  by (simp add: secretErrorCategory_def)

section \<open>Valid statuses\<close>

definition goodURL :: "NetPlatform \<Rightarrow> string \<Rightarrow> bool" where
  "goodURL np url = (\<exists>host. url = ''https://'' @ host \<and> normal np host)"

definition goodStatus :: "NetPlatform \<Rightarrow> PublicAccessStatus \<Rightarrow> bool" where
  "goodStatus np s =
     (st_State s \<noteq> LifecycleUnset \<and>
      (if st_State s = LifecycleReady then goodURL np (st_PublicURL s) else st_PublicURL s = []) \<and>
      (if st_State s = LifecycleFailed then st_ErrorCategory s \<noteq> NoError
       else st_ErrorCategory s = NoError \<and> st_ErrorMessage s = []))"

lemma goodStatus_valid:
  assumes "goodStatus np s" "lowerLaw np" "urlLaw np"
  shows "ValidateStatus np s = None"
  using assms endpoint_canonical [OF _ assms(2,3)]
  by (auto simp: goodStatus_def goodURL_def ValidateStatus_def lifecycleValid_def categoryValid_def split: if_splits)

lemma good_plain: "x \<notin> {LifecycleUnset, LifecycleReady, LifecycleFailed} \<Longrightarrow> goodStatus np (plainStatus x g r)"
  by (simp add: goodStatus_def plainStatus_def)

lemma good_failed: "c \<noteq> NoError \<Longrightarrow> goodStatus np (failedStatus s c)"
  by (simp add: goodStatus_def failedStatus_def)

lemma good_failWith: "fst f \<noteq> NoError \<Longrightarrow> goodStatus np (failWith s f)"
  by (simp add: goodStatus_def failWith_def failedStatus_def)

definition goodResponse :: "NetPlatform \<Rightarrow> startResponse \<Rightarrow> bool" where
  "goodResponse np r = (sr_err r = None \<longrightarrow> goodURL np (sr_canonicalURL r))"

definition goodLaunch :: "NetPlatform \<Rightarrow> Launch \<Rightarrow> bool" where
  "goodLaunch np l =
     (case l of
        LaunchReturned _ _ url host _ \<Rightarrow> url = ''https://'' @ host \<and> normal np host
      | LaunchActivating _ _ url host _ \<Rightarrow> url = ''https://'' @ host \<and> normal np host
      | LaunchDone r \<Rightarrow> goodResponse np r
      | _ \<Rightarrow> True)"

definition goodSnapshot :: "NetPlatform \<Rightarrow> PublicAccessSnapshot \<Rightarrow> bool" where
  "goodSnapshot np s = goodStatus np (sn_Status s)"

definition goodDriver :: "NetPlatform \<Rightarrow> Driver \<Rightarrow> bool" where
  "goodDriver np d =
     (case d of
        Finishing r \<Rightarrow> goodResponse np r
      | Discarding _ _ res _ \<Rightarrow> goodSnapshot np (re_Snapshot res)
      | Settling res _ \<Rightarrow> goodSnapshot np (re_Snapshot res)
      | _ \<Rightarrow> True)"

definition goodStage :: "ReconfigureStage \<Rightarrow> bool" where
  "goodStage s = (\<forall>c. s = ReconfigureFailing c \<longrightarrow> c \<noteq> NoError)"

definition presentable :: "NetPlatform \<Rightarrow> PublicWorld \<Rightarrow> bool" where
  "presentable np w =
     (goodStatus np (pm_status (pw_manager w)) \<and> (\<forall>s\<in>set (pw_published w). goodSnapshot np s) \<and>
      (\<forall>op\<in>set (pw_starts w). goodLaunch np (so_launch op) \<and> goodDriver np (so_driver op)) \<and>
      (\<forall>op\<in>set (pw_reconfigures w). goodStage (rc_stage op)))"

lemma good_simps [simp]:
  "goodLaunch np LaunchIngress" "goodLaunch np (LaunchTunnel j)" "goodLaunch np LaunchTaken"
  "goodLaunch np (LaunchDone r) = goodResponse np r"
  "goodLaunch np (LaunchReturned j e url host pass) = (url = ''https://'' @ host \<and> normal np host)"
  "goodLaunch np (LaunchActivating j e url host pass) = (url = ''https://'' @ host \<and> normal np host)"
  "goodDriver np Selecting" "goodDriver np Disposing" "goodDriver np (DisposeClosing ep ing)" "goodDriver np DisposeSettling"
  "goodDriver np (Monitoring e j)" "goodDriver np (Cleaning e j)" "goodDriver np DriverEnded"
  "goodDriver np (Finishing r) = goodResponse np r"
  "goodDriver np (Discarding ep ing res b) = goodSnapshot np (re_Snapshot res)"
  "goodDriver np (Settling res b) = goodSnapshot np (re_Snapshot res)"
  "goodStage (ReconfigureFailing c) = (c \<noteq> NoError)" "goodStage (ReconfigureDraining p ep ing)"
  "goodStage (ReconfigureClosing ep ing)" "goodStage (ReconfigureClosed ep ing)" "goodStage ReconfigureChanging"
  "goodStage (ReconfigureSaved n a c')" "goodStage (ReconfigureRestarting v)" "goodStage (ReconfigureClearing v)"
  "goodStage (ReconfigureJoining i joined)" "goodStage (ReconfigureEnding res')" "goodStage ReconfigureEnded"
  by (simp_all add: goodLaunch_def goodDriver_def goodStage_def)

lemma good_response_failed [simp]: "goodResponse np (launchFailed ep ing f)" "goodResponse np ((launchFailed ep ing f)\<lparr>sr_canonicalURL := u\<rparr>)"
  by (simp_all add: goodResponse_def launchFailed_def)

lemma good_snapshotLocked [simp]: "goodSnapshot np (snapshotLocked m) = goodStatus np (pm_status m)"
  by (simp add: goodSnapshot_def snapshotLocked_def)

lemma result_snapshot [simp]: "re_Snapshot (resultLocked ok m) = snapshotLocked m"
  by (simp add: resultLocked_def)

lemma presentable_fields:
  assumes "presentable np w" "goodStatus np (pm_status (pw_manager w'))" "pw_published w' = pw_published w" "pw_starts w' = pw_starts w"
    "pw_reconfigures w' = pw_reconfigures w"
  shows "presentable np w'"
  using assms by (simp add: presentable_def)

lemma presentable_keeps [public_simps]:
  "presentable np (deny ing w) = presentable np w" "presentable np (closeOwned ep ing f g w) = presentable np w"
  "presentable np (updateStop k h w) = presentable np w" "presentable np (releaseRuntime ep ing w) = presentable np w"
  "presentable np (w\<lparr>pw_stops := wk\<rparr>) = presentable np w" "presentable np (w\<lparr>pw_closers := wc\<rparr>) = presentable np w"
  "presentable np (w\<lparr>pw_endpoints := we\<rparr>) = presentable np w" "presentable np (w\<lparr>pw_ingresses := wi\<rparr>) = presentable np w"
  "presentable np (stopTo k s w) = presentable np w"
  "presentable np (retainRuntimeAfterFailedCleanup ep ing w) = presentable np w" "presentable np (setPresence a b w) = presentable np w"
  by (simp_all add: presentable_def public_simps stopTo_def retainRuntimeAfterFailedCleanup_def setPresence_def)

lemma presentable_manager:
  "presentable np w \<Longrightarrow> goodStatus np (pm_status (f (pw_manager w))) \<Longrightarrow> presentable np (modifyManager f w)"
  by (simp add: presentable_def public_simps)

lemma presentable_status: "presentable np w \<Longrightarrow> goodStatus np s \<Longrightarrow> presentable np (setStatus s w)"
  by (simp add: presentable_def public_simps setStatus_def)

lemma presentable_emit: "presentable np w \<Longrightarrow> goodSnapshot np s \<Longrightarrow> presentable np (emit s w)"
  by (simp add: presentable_def public_simps)

lemma presentable_current: "presentable np w \<Longrightarrow> presentable np (emitCurrent w)"
  unfolding emitCurrent_def by (rule presentable_emit) (simp_all add: presentable_def)

lemma presentable_update:
  assumes "presentable np w"
    and "i < length (pw_starts w) \<Longrightarrow> goodLaunch np (so_launch (g (pw_starts w ! i))) \<and> goodDriver np (so_driver (g (pw_starts w ! i)))"
  shows "presentable np (updateStart i g w)"
proof (cases "i < length (pw_starts w)")
  case True
  with assms show ?thesis by (auto simp: presentable_def public_simps dest!: set_update_subset_insert [THEN subsetD])
next
  case False
  with assms(1) show ?thesis by (simp add: presentable_def public_simps list_update_beyond)
qed

lemma presentable_at:
  assumes "presentable np w" "i < length (pw_starts w)"
  shows "goodLaunch np (so_launch (pw_starts w ! i)) \<and> goodDriver np (so_driver (pw_starts w ! i))"
  using assms by (simp add: presentable_def)

lemma presentable_inert:
  assumes "presentable np w" "\<And>op. so_launch (g op) = so_launch op \<and> so_driver (g op) = so_driver op"
  shows "presentable np (updateStart i g w)"
  using assms presentable_at [OF assms(1), of i] by (intro presentable_update) simp_all

lemma presentable_drive: "presentable np w \<Longrightarrow> goodDriver np d \<Longrightarrow> presentable np (driveTo i d w)"
  unfolding driveTo_def using presentable_at [of np w i] by (intro presentable_update) simp_all

lemma presentable_launch: "presentable np w \<Longrightarrow> goodLaunch np l \<Longrightarrow> presentable np (launchTo i l w)"
  unfolding launchTo_def using presentable_at [of np w i] by (intro presentable_update) simp_all

lemma presentable_complete: "presentable np w \<Longrightarrow> presentable np (completeStartLocked i res w)"
  unfolding completeStartLocked_def
  by (auto intro!: presentable_manager presentable_inert simp: public_simps) (simp add: presentable_def)

lemma presentable_settle: "presentable np w \<Longrightarrow> presentable np (settleStartLocked i w)"
  unfolding settleStartLocked_def
  by (auto intro!: presentable_manager presentable_inert simp: public_simps) (simp add: presentable_def)

lemma presentable_cancel: "presentable np w \<Longrightarrow> presentable np (cancelStart s w)"
  by (cases s) (auto simp: cancelStart_def intro!: presentable_inert)

lemma presentable_stage: "presentable np w \<Longrightarrow> goodStage s \<Longrightarrow> presentable np (reconfigureTo r s w)"
  by (cases "r < length (pw_reconfigures w)")
    (auto simp: reconfigureTo_def presentable_def public_simps dest!: set_update_subset_insert [THEN subsetD])

lemma presentable_completeReconfigure: "presentable np w \<Longrightarrow> presentable np (completeReconfigureLocked r res w)"
  by (cases "r < length (pw_reconfigures w)")
    (auto simp: completeReconfigureLocked_def presentable_def public_simps dest!: set_update_subset_insert [THEN subsetD])

lemma presentable_good: "presentable np w \<Longrightarrow> goodStatus np (pm_status (pw_manager w))"
  by (simp add: presentable_def)

lemma presentable_startSection:
  assumes "presentable np w" "startSection x owner w = (out, w')" shows "presentable np w'"
  using assms(2)
proof (cases rule: startSection_cases)
  case (refused res c g)
  then have "c \<noteq> NoError" by (auto simp: secretStoreFailureCategory_def)
  with refused assms(1) show ?thesis by (auto intro!: presentable_current presentable_status good_failed)
next
  case launches
  have "presentable np (w\<lparr>pw_starts := pw_starts w @ [newStart (pw_manager w)]\<rparr>)"
    using assms(1) by (auto simp: presentable_def newStart_def)
  then show ?thesis unfolding launches(7)
    by (auto intro!: presentable_current presentable_manager good_plain simp: public_simps)
qed (use assms(1) in \<open>simp_all add: public_simps\<close>)

lemma presentable_startClosed:
  assumes "presentable np w" "startClosed ep ing f g w = (res, w')" shows "presentable np w'"
  using assms close_category
  by (auto simp: startClosed_def Let_def public_simps split: option.splits intro!: presentable_current presentable_status good_failWith)

lemma presentable_finish:
  assumes "presentable np w" "goodResponse np r" shows "presentable np (finishStart i r w)"
proof -
  have g: "goodURL np (sr_canonicalURL r)" if "sr_err r = None" using assms(2) that by (simp add: goodResponse_def)
  note p = presentable_good [OF assms(1)]
  have ready: "goodStatus np ((plainStatus LifecycleReady a b)\<lparr>st_PublicURL := sr_canonicalURL r\<rparr>)" if "sr_err r = None" for a b
    using g [OF that] by (simp add: goodStatus_def plainStatus_def)
  show ?thesis unfolding finishStart_def Let_def
    using redacted_category p assms(1)
    by (auto simp: public_simps good_failWith intro: ready split: option.splits if_splits
        intro!: presentable_drive presentable_current presentable_settle presentable_complete presentable_manager presentable_status)
qed

lemma presentable_failCurrent:
  assumes "presentable np w" "c \<noteq> NoError" shows "presentable np (failCurrentStart i c w)"
  using assms by (auto simp: failCurrentStart_def Let_def
      intro!: presentable_current presentable_complete presentable_status good_failed)

lemma presentable_discard: "presentable np (discardRuntime ep ing f g w) = presentable np w"
  by (simp add: discardRuntime_def Let_def public_simps)

lemma presentable_driverStep:
  assumes "presentable np w" "i < length (pw_starts w)" "driverStep i f g w = Some w'" shows "presentable np w'"
  using assms(3) presentable_at [OF assms(1,2)] assms(1)
  by (auto simp: driverStep_def Let_def presentable_discard public_simps split: Driver.splits Launch.splits if_splits
      intro!: presentable_update presentable_finish presentable_drive presentable_settle presentable_complete presentable_emit
        presentable_manager presentable_good)

text \<open>Runs in which the provider never answers with a host that is empty once it is normalised.\<close>

definition namedEndpoints :: "NetPlatform \<Rightarrow> PublicWorld \<Rightarrow> PublicEvent \<Rightarrow> bool" where
  "namedEndpoints np w ev =
     (case ev of
        EvLaunchTunnel _ _ (Inr (Some url)) \<Rightarrow>
          (case np_ParseURL np url of None \<Rightarrow> True | Some u \<Rightarrow> NormalizeReservedDomain np (urlHostname u) \<noteq> Inr [])
      | _ \<Rightarrow> True)"

lemma presentable_launchEvent:
  assumes "presentable (pe_Net pe) w" "lowerLaw (pe_Net pe)" "eventPossible ev w" "namedEndpoints (pe_Net pe) w ev"
    "launchEvent pe ev w = Some w'"
  shows "presentable (pe_Net pe) w'"
proof (cases ev)
  case (EvLaunchIngress i f)
  with assms show ?thesis
    by (auto simp: launchEvent_def launchIngress_def public_simps split: if_splits option.splits intro!: presentable_launch)
next
  case (EvLaunchTunnel i stored provider)
  have named: "url = ''https://'' @ host \<and> normal (pe_Net pe) host"
    if pr: "provider = Inr (Some raw)" and no: "NormalizeEndpointURL (pe_Net pe) raw rd = Inr (url, host)" for raw rd url host
  proof -
    obtain u where u: "np_ParseURL (pe_Net pe) raw = Some u" "NormalizeReservedDomain (pe_Net pe) (urlHostname u) = Inr host"
      "url = ''https://'' @ host" using endpoint_result [OF no] by blast
    have "host \<noteq> []" using assms(4) pr u EvLaunchTunnel by (auto simp: namedEndpoints_def)
    with normalize_result [OF u(2) assms(2)] u(3) show ?thesis by simp
  qed
  obtain ing where w': "w' = launchTunnel pe i ing stored provider w"
    using assms(5) EvLaunchTunnel by (auto simp: launchEvent_def split: Launch.splits)
  show ?thesis unfolding w' launchTunnel_def Let_def
    using assms(1) named by (auto simp: public_simps split: sum.splits option.splits intro!: presentable_launch)
next
  case (EvLaunchCheck i)
  with assms(1,3,5) presentable_at [OF assms(1), of i] show ?thesis
    by (auto simp: launchEvent_def launchCheck_def eventPossible_def split: Launch.splits intro!: presentable_launch)
next
  case (EvLaunchActivate i f)
  then obtain ing e url host pass where l: "so_launch (pw_starts w ! i) = LaunchActivating ing e url host pass"
      "w' = launchActivate pe i f w" and i: "i < length (pw_starts w)"
    using assms(3,5) by (auto simp: launchEvent_def eventPossible_def split: Launch.splits)
  have "url = ''https://'' @ host \<and> normal (pe_Net pe) host" using presentable_at [OF assms(1) i] l(1) by simp
  then have "goodResponse (pe_Net pe) \<lparr>sr_endpoint = a, sr_ingress = b, sr_canonicalURL = url, sr_err = x\<rparr>" for a b x
    by (auto simp: goodResponse_def goodURL_def)
  then show ?thesis unfolding l(2) using l(1) assms(1)
    by (auto simp: launchActivate_def public_simps split: sum.splits intro!: presentable_launch)
qed (use assms(5) in \<open>simp_all add: launchEvent_def\<close>)

lemma presentable_closedEvent:
  assumes "presentable np w" "closedEvent c f g w = Some w'" shows "presentable np w'"
proof -
  obtain ep ing owner where c: "pw_closers w ! c = Some (ep, ing, owner)" "c < length (pw_closers w)"
    using assms(2) by (auto simp: closedEvent_def not_le split: if_splits option.splits)
  obtain res v where s: "startClosed ep ing f g (w\<lparr>pw_closers := (pw_closers w)[c := None]\<rparr>) = (res, v)" by (metis surj_pair)
  have "presentable np v" by (rule presentable_startClosed [OF _ s]) (simp add: public_simps assms(1))
  with assms(2) c s show ?thesis
    by (auto simp: closedEvent_def split: option.splits ReconfigureStage.splits intro!: presentable_stage)
qed

lemma presentable_stopSection:
  assumes "presentable np w" "stopSection x w = (out, w')" shows "presentable np w'"
  using assms(2)
  by (cases rule: stopSection_cases)
    (auto simp: public_simps assms(1) intro!: presentable_current presentable_manager presentable_cancel good_plain)

lemma presentable_append:
  "presentable np w \<Longrightarrow> goodStage (rc_stage op) \<Longrightarrow> rs = pw_reconfigures w \<Longrightarrow> presentable np (w\<lparr>pw_reconfigures := rs @ [op]\<rparr>)"
  by (auto simp: presentable_def)

lemma presentable_reconfigureSection:
  assumes "presentable np w" "reconfigureSection pe mu w = (out, w')" shows "presentable np w'"
  using assms(2)
  by (cases rule: reconfigureSection_cases)
    (auto simp: public_simps assms(1) intro!: presentable_current presentable_manager presentable_cancel good_plain presentable_append)

lemma presentable_stopEnd: "presentable np w \<Longrightarrow> presentable np (stopEnd k ep ing err w)"
  using close_category presentable_good [of np w]
  by (cases err) (auto simp: stopEnd_def Let_def public_simps
      intro!: presentable_emit presentable_manager presentable_status good_plain good_failWith)

lemma presentable_stopStep:
  assumes "presentable np w" "stopStep k d f g w = Some w'" shows "presentable np w'"
  using assms
  by (auto simp: stopStep_def collectRuntime_def Let_def public_simps split: StopStage.splits if_splits intro: presentable_stopEnd)

lemma presentable_restart:
  assumes "presentable np w" "reconfigureRestart r x d w = Some w'" shows "presentable np w'"
proof -
  obtain out v where s: "startSection x (Some r) w = (out, v)" by (metis surj_pair)
  with presentable_startSection [OF assms(1) s] assms show ?thesis
    by (auto simp: reconfigureRestart_def Let_def public_simps split: StartOutcome.splits if_splits intro!: presentable_stage)
qed

lemma presentable_reconfigureStep:
  assumes "presentable np w" "r < length (pw_reconfigures w)" "reconfigureStep pe r d f g sa w = Some w'"
  shows "presentable np w'"
proof -
  have st: "goodStage (rc_stage (pw_reconfigures w ! r))" using assms(1,2) by (simp add: presentable_def)
  have change: "presentable np (reconfigureChange pe r sa w)"
    using assms(1) secret_category
    by (simp add: reconfigureChange_def reconcilePresence_def Let_def case_prod_unfold public_simps presentable_stage
        split: sum.split option.split)
  have commit: "presentable np (reconfigureCommit r m a b w)" for m a b
    using assms(1) unfolding reconfigureCommit_def Let_def
    by (auto intro!: presentable_stage presentable_completeReconfigure presentable_current presentable_manager good_plain)
  have failing: "presentable np (finishReconfigureFailure r c w)" if "c \<noteq> NoError" for c
    using assms(1) that unfolding finishReconfigureFailure_def Let_def
    by (auto intro!: presentable_completeReconfigure presentable_current presentable_status good_failed)
  show ?thesis
    using assms(1,3) st change commit failing redacted_category
    by (auto simp: reconfigureStep_def collectRuntime_def Let_def public_simps
        split: ReconfigureStage.splits if_splits option.splits
        intro!: presentable_stage presentable_completeReconfigure intro: presentable_restart)
qed

lemma presentable_step:
  assumes "presentable (pe_Net pe) w" "lowerLaw (pe_Net pe)" "namedEndpoints (pe_Net pe) w ev" "publicStep pe ev w = Some w'"
  shows "presentable (pe_Net pe) w'"
proof -
  have p: "eventPossible ev w" and e: "publicEvent pe ev w = Some w'"
    using assms(4) by (simp_all add: publicStep_def split: if_splits)
  note a = assms(1)
  show ?thesis
  proof (cases ev)
    case (EvContextDone i)
    with e a show ?thesis by (auto simp: publicEvent_def intro!: presentable_inert)
  next
    case (EvStart x)
    obtain out v where s: "startSection x None w = (out, v)" by (metis surj_pair)
    with EvStart e presentable_startSection [OF a s] show ?thesis
      by (auto simp: publicEvent_def startEvent_def public_simps split: StartOutcome.splits)
  next
    case (EvClosed c f g)
    with e a show ?thesis by (auto simp: publicEvent_def intro: presentable_closedEvent)
  next
    case (EvExpire i)
    with e a show ?thesis
      by (auto simp: publicEvent_def startExpired_def split: if_splits intro!: presentable_drive presentable_failCurrent presentable_inert)
  next
    case (EvDriver i f g)
    with e p a show ?thesis by (auto simp: publicEvent_def eventPossible_def intro: presentable_driverStep)
  next
    case (EvEndpointDone i f)
    with e a endpoint_category show ?thesis
      by (auto simp: publicEvent_def endpointDone_def Let_def public_simps split: Driver.splits if_splits
          intro!: presentable_drive presentable_current presentable_manager good_failWith)
  next
    case (EvStop x)
    with e a show ?thesis by (auto simp: publicEvent_def intro: presentable_stopSection split: prod.splits StopOutcome.splits)
  next
    case (EvStopStep k d f g)
    with e a show ?thesis by (auto simp: publicEvent_def intro: presentable_stopStep)
  next
    case (EvReconfigure mu)
    with e a show ?thesis
      by (auto simp: publicEvent_def intro: presentable_reconfigureSection split: prod.splits ReconfigureOutcome.splits)
  next
    case (EvReconfigureStep r d f g sa)
    with e p a show ?thesis by (auto simp: publicEvent_def eventPossible_def intro: presentable_reconfigureStep)
  qed (use e p assms(1-3) in \<open>auto simp: publicEvent_def intro: presentable_launchEvent\<close>)
qed

lemma presentable_initial: "presentable (pe_Net pe) (initialWorld (Initialize pe loaded a b))"
  by (auto simp: presentable_def initialWorld_def Initialize_def Let_def secret_category
      intro!: good_plain good_failed split: option.splits)

lemma presentable_reachable:
  "publicReach pe (namedEndpoints (pe_Net pe)) w \<Longrightarrow> lowerLaw (pe_Net pe) \<Longrightarrow> presentable (pe_Net pe) w"
  by (induction rule: publicReach.induct) (auto intro: presentable_initial presentable_step)

end
