(* ===== verification/TunnelReady.thy ===== *)
theory TunnelReady
  imports TunnelNames
begin

text \<open>
  What ready means: in an orderly run the published address is served by an open endpoint and an open ingress
  that admits players for exactly that host.
\<close>

section \<open>Serving the published address\<close>

definition live :: "PublicWorld \<Rightarrow> EndpointID \<Rightarrow> IngressID \<Rightarrow> string \<Rightarrow> bool" where
  "live w e j url =
     (e < length (pw_endpoints w) \<and> pw_endpoints w ! e \<and> j < length (pw_ingresses w) \<and> ig_open (pw_ingresses w ! j) \<and>
      (\<exists>p. ig_policy (pw_ingresses w ! j) = Some p \<and> url = ''https://'' @ ia_host p))"

definition liveResponse :: "PublicWorld \<Rightarrow> startResponse \<Rightarrow> bool" where
  "liveResponse w r =
     (sr_err r = None \<longrightarrow> (\<exists>e j. sr_endpoint r = Some e \<and> sr_ingress r = Some j \<and> live w e j (sr_canonicalURL r)))"

definition openPair :: "PublicWorld \<Rightarrow> EndpointID option \<Rightarrow> IngressID \<Rightarrow> bool" where
  "openPair w ep j =
     (j < length (pw_ingresses w) \<and> ig_open (pw_ingresses w ! j) \<and>
      (\<forall>e. ep = Some e \<longrightarrow> e < length (pw_endpoints w) \<and> pw_endpoints w ! e))"

definition launchedWell :: "PublicWorld \<Rightarrow> startOperation \<Rightarrow> bool" where
  "launchedWell w op =
     ((case so_launch op of
         LaunchTunnel j \<Rightarrow> openPair w None j
       | LaunchReturned j e _ _ _ \<Rightarrow> openPair w (Some e) j
       | LaunchActivating j e _ _ _ \<Rightarrow> openPair w (Some e) j
       | LaunchDone r \<Rightarrow> liveResponse w r
       | _ \<Rightarrow> True) \<and>
      (case so_driver op of Finishing r \<Rightarrow> liveResponse w r | _ \<Rightarrow> True))"

definition readySound :: "PublicWorld \<Rightarrow> bool" where
  "readySound w =
     (let m = pw_manager w in
      (st_State (pm_status m) = LifecycleReady \<longrightarrow> pm_pendingStart m = None \<and>
        (\<exists>e j. pm_endpoint m = Some e \<and> pm_ingress m = Some j \<and> live w e j (st_PublicURL (pm_status m)))) \<and>
      (st_State (pm_status m) = LifecycleStarting \<longrightarrow>
        (\<forall>i. pm_pendingStart m = Some i \<longrightarrow> launchedWell w (pw_starts w ! i))))"

definition cleaningSound :: "PublicWorld \<Rightarrow> bool" where
  "cleaningSound w =
     (\<forall>i<length (pw_starts w). \<forall>e j. so_driver (pw_starts w ! i) = Cleaning e j \<longrightarrow>
        \<not> active w \<and> pm_cleanup (pw_manager w) = Some i)"

lemma ready_inactive: "\<not> active w \<Longrightarrow> readySound w"
  by (simp add: readySound_def active_def Let_def)

lemma live_cong: "pw_endpoints w' = pw_endpoints w \<Longrightarrow> pw_ingresses w' = pw_ingresses w \<Longrightarrow> live w' = live w"
  by (simp add: live_def fun_eq_iff)

lemma launched_cong:
  assumes "pw_endpoints w' = pw_endpoints w" "pw_ingresses w' = pw_ingresses w"
  shows "launchedWell w' = launchedWell w"
proof -
  have "liveResponse w' = liveResponse w" "openPair w' = openPair w"
    using assms by (simp_all add: liveResponse_def openPair_def live_cong [OF assms] fun_eq_iff)
  then show ?thesis by (intro ext) (simp add: launchedWell_def split: Launch.split Driver.split)
qed

lemma ready_same:
  assumes "readySound w" "pw_endpoints w' = pw_endpoints w" "pw_ingresses w' = pw_ingresses w"
    "pm_status (pw_manager w') = pm_status (pw_manager w)" "pm_pendingStart (pw_manager w') = pm_pendingStart (pw_manager w)"
    "pm_endpoint (pw_manager w') = pm_endpoint (pw_manager w)" "pm_ingress (pw_manager w') = pm_ingress (pw_manager w)"
    "\<And>i. pm_pendingStart (pw_manager w) = Some i \<Longrightarrow> so_launch (pw_starts w' ! i) = so_launch (pw_starts w ! i) \<and>
      so_driver (pw_starts w' ! i) = so_driver (pw_starts w ! i)"
  shows "readySound w'"
proof -
  have eq: "launchedWell w (pw_starts w' ! i) = launchedWell w (pw_starts w ! i)" if "pm_pendingStart (pw_manager w) = Some i" for i
    using assms(8) [OF that] by (simp add: launchedWell_def)
  show ?thesis
    unfolding readySound_def Let_def assms(4-7) live_cong [OF assms(2,3)] launched_cong [OF assms(2,3)]
  proof (intro conjI impI allI)
    assume r: "st_State (pm_status (pw_manager w)) = LifecycleReady"
    then show "pm_pendingStart (pw_manager w) = None"
      "\<exists>e j. pm_endpoint (pw_manager w) = Some e \<and> pm_ingress (pw_manager w) = Some j \<and>
         live w e j (st_PublicURL (pm_status (pw_manager w)))"
      using assms(1) unfolding readySound_def Let_def by blast+
  next
    fix i assume "st_State (pm_status (pw_manager w)) = LifecycleStarting" and p: "pm_pendingStart (pw_manager w) = Some i"
    then show "launchedWell w (pw_starts w' ! i)"
      using assms(1) eq [OF p] unfolding readySound_def Let_def by blast
  qed
qed

lemma cleaning_same:
  assumes "cleaningSound w" "pm_cleanup (pw_manager w') = pm_cleanup (pw_manager w)"
    "\<And>i e j. i < length (pw_starts w') \<Longrightarrow> so_driver (pw_starts w' ! i) = Cleaning e j \<Longrightarrow>
      i < length (pw_starts w) \<and> so_driver (pw_starts w ! i) = Cleaning e j"
    "active w' \<Longrightarrow> active w"
  shows "cleaningSound w'"
  unfolding cleaningSound_def
proof (intro allI impI)
  fix i e j assume "i < length (pw_starts w')" "so_driver (pw_starts w' ! i) = Cleaning e j"
  from assms(3) [OF this] assms(1) have "\<not> active w \<and> pm_cleanup (pw_manager w) = Some i"
    unfolding cleaningSound_def by blast
  with assms(2,4) show "\<not> active w' \<and> pm_cleanup (pw_manager w') = Some i" by auto
qed

lemma busy_pending:
  assumes "sound w" "readySound w" "i < length (pw_starts w)" "\<not> over (so_driver (pw_starts w ! i))"
  shows "st_State (pm_status (pw_manager w)) \<noteq> LifecycleReady"
  using pendingI [OF assms(1,3,4)] assms(2) by (auto simp: readySound_def Let_def)

lemma ready_startSection:
  assumes "sound w" "readySound w" "cleaningSound w" "startSection x owner w = (out, w')"
  shows "readySound w' \<and> cleaningSound w'"
  using assms(4)
proof (cases rule: startSection_cases)
  case (refused res c g)
  have "cleaningSound w'" by (rule cleaning_same [OF assms(3)]) (use refused in \<open>simp_all add: public_simps\<close>)
  moreover have "\<not> active w'" using refused by (simp add: public_simps)
  ultimately show ?thesis using ready_inactive by blast
next
  case closes
  have "\<not> active w" using closes Starting_waits [OF assms(1)] by (auto simp: active_def)
  then have "\<not> active w'" using closes by (simp add: public_simps)
  moreover have "cleaningSound w'" by (rule cleaning_same [OF assms(3)]) (use closes in \<open>simp_all add: public_simps\<close>)
  ultimately show ?thesis using ready_inactive by blast
next
  case launches
  have nc: "so_driver (pw_starts w ! i) \<noteq> Cleaning e j" if "i < length (pw_starts w)" for i e j
    using assms(3) that launches(2) by (auto simp: cleaningSound_def startAllowed_def Let_def)
  have "readySound w'"
    by (simp add: launches(7) readySound_def public_simps Let_def newStart_def launchedWell_def)
  moreover have "cleaningSound w'"
    using nc by (auto simp: launches(7) cleaningSound_def public_simps nth_append less_Suc_eq newStart_def)
  ultimately show ?thesis by blast
qed (use assms(2,3) in simp_all)

lemma ready_fields:
  assumes "pw_endpoints w' = pw_endpoints w" "pw_ingresses w' = pw_ingresses w" "pw_manager w' = pw_manager w" "pw_starts w' = pw_starts w"
  shows "readySound w' = readySound w" "cleaningSound w' = cleaningSound w"
  using launched_cong [OF assms(1,2)] live_cong [OF assms(1,2)] assms(3,4)
  by (simp_all add: readySound_def cleaningSound_def active_def)

lemma ready_keeps:
  "readySound (w\<lparr>pw_closers := wc\<rparr>) = readySound w" "cleaningSound (w\<lparr>pw_closers := wc\<rparr>) = cleaningSound w"
  "readySound (reconfigureTo r s w) = readySound w" "cleaningSound (reconfigureTo r s w) = cleaningSound w"
  "readySound (stopTo k sg w) = readySound w" "cleaningSound (stopTo k sg w) = cleaningSound w"
  "readySound (emitCurrent w) = readySound w" "cleaningSound (emitCurrent w) = cleaningSound w"
  "readySound (emit sn w) = readySound w" "cleaningSound (emit sn w) = cleaningSound w"
  by (rule ready_fields; simp add: reconfigureTo_def stopTo_def public_simps)+

lemma ready_startEvent:
  assumes "sound w" "readySound w" "cleaningSound w" "startEvent x w = Some w'"
  shows "readySound w' \<and> cleaningSound w'"
proof -
  obtain out v where s: "startSection x None w = (out, v)" by (metis surj_pair)
  with ready_startSection [OF assms(1-3) s] assms(4) show ?thesis
    by (auto simp: startEvent_def ready_keeps split: StartOutcome.splits)
qed

lemma ready_closedEvent:
  assumes "lanes w" "cleaningSound w" "closedEvent c f g w = Some w'"
  shows "readySound w' \<and> cleaningSound w'"
proof -
  obtain ep ing owner where c: "pw_closers w ! c = Some (ep, ing, owner)" "c < length (pw_closers w)"
    using assms(3) by (auto simp: closedEvent_def not_le split: if_splits option.splits)
  let ?d = "w\<lparr>pw_closers := (pw_closers w)[c := None]\<rparr>"
  obtain res v where s: "startClosed ep ing f g ?d = (res, v)" by (metis surj_pair)
  have na: "\<not> active w" using lanesD(2) [OF assms(1), of c] c by (simp add: closing_def)
  have "\<not> active v" using startClosed_fields(5) [of ep ing f g ?d] s na by (auto simp: public_simps)
  moreover have "cleaningSound v"
    by (rule cleaning_same [OF assms(2)])
      (use s \<open>\<not> active v\<close> in \<open>auto simp: startClosed_def Let_def public_simps split: option.splits\<close>)
  ultimately have "readySound v \<and> cleaningSound v" using ready_inactive by blast
  with assms(3) c s show ?thesis
    by (auto simp: closedEvent_def ready_keeps split: option.splits ReconfigureStage.splits)
qed

lemma ready_pending:
  assumes "sound w" "readySound w" "i < length (pw_starts w)" "\<not> over (so_driver (pw_starts w ! i))"
    and "pm_status (pw_manager w') = pm_status (pw_manager w)" "pm_pendingStart (pw_manager w') = pm_pendingStart (pw_manager w)"
    and "launchedWell w (pw_starts w ! i) \<Longrightarrow> launchedWell w' (pw_starts w' ! i)"
  shows "readySound w'"
proof -
  note p = pendingI [OF assms(1,3,4)]
  show ?thesis
    unfolding readySound_def Let_def assms(5,6)
  proof (intro conjI impI allI)
    fix k assume "st_State (pm_status (pw_manager w)) = LifecycleStarting" "pm_pendingStart (pw_manager w) = Some k"
    then show "launchedWell w' (pw_starts w' ! k)" using assms(2,7) p unfolding readySound_def Let_def by auto
  qed (use busy_pending [OF assms(1-4)] in simp_all)
qed

lemma launchTo_own: "i < length (pw_starts w) \<Longrightarrow> pw_starts (launchTo i l w) ! i = (pw_starts w ! i)\<lparr>so_launch := l\<rparr>"
  by (simp add: launchTo_at)

lemma launchTo_fields:
  "pw_manager (launchTo i l w) = pw_manager w" "pw_endpoints (launchTo i l w) = pw_endpoints w"
  "pw_ingresses (launchTo i l w) = pw_ingresses w" "length (pw_starts (launchTo i l w)) = length (pw_starts w)"
  "so_driver (pw_starts (launchTo i l w) ! k) = so_driver (pw_starts w ! k)"
  by (simp_all add: launchTo_def public_simps nth_update)

text \<open>While the launch is under way nobody is finishing.\<close>

lemma launched_selecting:
  assumes "selecting (so_driver op)"
  shows "launchedWell w op = (case so_launch op of
         LaunchTunnel j \<Rightarrow> openPair w None j
       | LaunchReturned j e _ _ _ \<Rightarrow> openPair w (Some e) j
       | LaunchActivating j e _ _ _ \<Rightarrow> openPair w (Some e) j
       | LaunchDone r \<Rightarrow> liveResponse w r
       | _ \<Rightarrow> True)"
  using assms by (auto simp: launchedWell_def selecting_def)

lemma liveResponse_failed [simp]:
  "liveResponse w (launchFailed ep ing f)" "liveResponse w ((launchFailed ep ing f)\<lparr>sr_canonicalURL := u\<rparr>)"
  by (simp_all add: liveResponse_def)

lemma ready_launch:
  assumes "sound w" "readySound w" "cleaningSound w" "presentable (pe_Net pe) w" "lowerLaw (pe_Net pe)"
    and ev: "eventPossible ev w" "launchEvent pe ev w = Some w'"
  shows "readySound w' \<and> cleaningSound w'"
proof -
  have main: "readySound w' \<and> cleaningSound w'"
    if i: "i < length (pw_starts w)" "so_launch (pw_starts w ! i) \<noteq> LaunchTaken"
      and w': "w' = launchTo i l v" "pw_manager v = pw_manager w" "pw_starts v = pw_starts w"
      and l: "launchedWell w (pw_starts w ! i) \<Longrightarrow> launchedWell w' ((pw_starts w ! i)\<lparr>so_launch := l\<rparr>)" for i l v
  proof -
    have "\<not> over (so_driver (pw_starts w ! i))" using launching [OF assms(1) i] by (auto simp: selecting_def)
    then have "readySound w'" using i w' l
      by (intro ready_pending [OF assms(1,2) i(1)]) (simp_all add: launchTo_fields launchTo_own)
    moreover have "cleaningSound w'"
      by (rule cleaning_same [OF assms(3)]) (simp_all add: w' launchTo_fields active_def)
    ultimately show ?thesis ..
  qed
  have sel: "selecting (so_driver (pw_starts w ! i))" if "i < length (pw_starts w)" "so_launch (pw_starts w ! i) \<noteq> LaunchTaken" for i
    using launching [OF assms(1) that] by simp
  show ?thesis
  proof (cases ev)
    case (EvLaunchIngress i f)
    then have i: "i < length (pw_starts w)" "so_launch (pw_starts w ! i) = LaunchIngress" and w': "w' = launchIngress i f w"
      using ev by (auto simp: launchEvent_def eventPossible_def split: if_splits)
    note s = sel [OF i(1), unfolded i(2), simplified]
    show ?thesis
    proof (cases f)
      case None
      let ?v = "w\<lparr>pw_ingresses := pw_ingresses w @ [\<lparr>ig_policy = None, ig_open = True\<rparr>]\<rparr>"
      show ?thesis
        by (rule main [of i "LaunchTunnel (length (pw_ingresses w))" ?v])
          (use i s w' None in \<open>simp_all add: launchIngress_def launched_selecting openPair_def launchTo_fields\<close>)
    next
      case (Some x)
      show ?thesis
        by (rule main [of i "LaunchDone (launchFailed None None x)" w])
          (use i s w' Some in \<open>simp_all add: launchIngress_def launched_selecting\<close>)
    qed
  next
    case (EvLaunchTunnel i stored provider)
    then obtain ing where i: "i < length (pw_starts w)" "so_launch (pw_starts w ! i) = LaunchTunnel ing"
      and w': "w' = launchTunnel pe i ing stored provider w"
      using ev by (auto simp: launchEvent_def eventPossible_def split: Launch.splits)
    note s = sel [OF i(1), unfolded i(2), simplified]
    let ?v = "w\<lparr>pw_endpoints := pw_endpoints w @ [True]\<rparr>"
    have failed: ?thesis if "w' = launchTo i (LaunchDone (launchFailed a b x)) v" "v = w \<or> v = ?v" for a b x v
      by (rule main [of i "LaunchDone (launchFailed a b x)" v]) (use i s that in \<open>auto simp: launched_selecting\<close>)
    have returned: ?thesis if "w' = launchTo i (LaunchReturned ing (length (pw_endpoints w)) url host pass) ?v" for url host pass
      by (rule main [of i _ ?v])
        (use i s that in \<open>auto simp: launched_selecting openPair_def launchTo_fields nth_append\<close>)
    show ?thesis
      using w' failed returned unfolding launchTunnel_def Let_def by (auto split: sum.splits option.splits)
  next
    case (EvLaunchCheck i)
    then obtain ing e url host pass where i: "i < length (pw_starts w)"
      "so_launch (pw_starts w ! i) = LaunchReturned ing e url host pass" and w': "w' = launchCheck i w"
      using ev by (auto simp: launchEvent_def eventPossible_def split: Launch.splits)
    note s = sel [OF i(1), unfolded i(2), simplified]
    have eq: "openPair w' x y = openPair w x y" for x y
      by (simp add: w' launchCheck_def openPair_def launchTo_fields split: Launch.split)
    show ?thesis
    proof (cases "so_canceled (pw_starts w ! i)")
      case True
      let ?r = "(launchFailed (Some e) (Some ing) (categorizedError ErrorTimeout [] NoDiagnostic))\<lparr>sr_canonicalURL := url\<rparr>"
      show ?thesis by (rule main [OF i(1), of "LaunchDone ?r" w])
          (use i s w' True in \<open>simp_all add: launchCheck_def launched_selecting\<close>)
    next
      case False
      show ?thesis by (rule main [OF i(1), of "LaunchActivating ing e url host pass" w])
          (use i s w' False eq in \<open>simp_all add: launchCheck_def launched_selecting\<close>)
    qed
  next
    case (EvLaunchActivate i f)
    then obtain ing e url host pass where i: "i < length (pw_starts w)"
      "so_launch (pw_starts w ! i) = LaunchActivating ing e url host pass" and w': "w' = launchActivate pe i f w"
      using ev by (auto simp: launchEvent_def eventPossible_def split: Launch.splits)
    note s = sel [OF i(1), unfolded i(2), simplified]
    have h: "url = ''https://'' @ host" "normal (pe_Net pe) host" using presentable_at [OF assms(4) i(1)] i(2) by simp_all
    show ?thesis
    proof (cases "Activate (pe_Net pe) (pe_SplitHostPort pe) host (pr_Username (so_preferences (pw_starts w ! i))) pass")
      case (Inl x)
      let ?r = "(launchFailed (Some e) (Some ing) x)\<lparr>sr_canonicalURL := url\<rparr>"
      show ?thesis by (rule main [OF i(1), of "LaunchDone ?r" w])
          (use i s w' Inl in \<open>simp_all add: launchActivate_def launched_selecting\<close>)
    next
      case (Inr policy)
      then have "ia_host policy = host"
        using ingress_host [OF h(2) assms(5), of "pe_SplitHostPort pe"] by (auto simp: Activate_def Let_def split: if_splits)
      let ?v = "w\<lparr>pw_ingresses := (pw_ingresses w)[ing := (pw_ingresses w ! ing)\<lparr>ig_policy := Some policy\<rparr>]\<rparr>"
      let ?r = "\<lparr>sr_endpoint = Some e, sr_ingress = Some ing, sr_canonicalURL = url, sr_err = map_option redactSecretStoreError f\<rparr>"
      show ?thesis
        by (rule main [OF i(1), of "LaunchDone ?r" ?v])
          (use i s w' Inr h \<open>ia_host policy = host\<close> in
            \<open>simp_all add: launchActivate_def launched_selecting liveResponse_def live_def openPair_def launchTo_fields\<close>)
    qed
  qed (use ev in \<open>simp_all add: launchEvent_def\<close>)
qed

text \<open>The steps of the goroutines that end a start.\<close>

lemma taken:
  assumes "sound w" "i < length (pw_starts w)" "\<not> selecting (so_driver (pw_starts w ! i))"
  shows "so_launch (pw_starts w ! i) = LaunchTaken"
  using assms by (auto simp: sound_def opShape_def)

lemma pendingOver:
  assumes "sound w" "pm_pendingStart (pw_manager w) = Some i" shows "i < length (pw_starts w)" "\<not> over (so_driver (pw_starts w ! i))"
  using assms by (auto simp: sound_def singleFlight_def opShape_def)

lemma driveTo_own: "i < length (pw_starts w) \<Longrightarrow> pw_starts (driveTo i d w) ! i = (pw_starts w ! i)\<lparr>so_driver := d\<rparr>"
  by (simp add: driveTo_def public_simps)

lemma driveTo_runtimes:
  "pw_endpoints (driveTo i d w) = pw_endpoints w" "pw_ingresses (driveTo i d w) = pw_ingresses w"
  "length (pw_starts (driveTo i d w)) = length (pw_starts w)"
  by (simp_all add: driveTo_def public_simps)

lemma cleaning_drive:
  assumes "cleaningSound w" "pm_cleanup (pw_manager v) = pm_cleanup (pw_manager w)" "active v \<Longrightarrow> active w"
    "\<And>k. so_driver (pw_starts v ! k) = so_driver (pw_starts w ! k)" "length (pw_starts v) = length (pw_starts w)"
    "\<And>e j. d \<noteq> Cleaning e j"
  shows "cleaningSound (driveTo i d v)"
  by (rule cleaning_same [OF assms(1)]) (use assms in \<open>auto simp: driveTo_def public_simps nth_update split: if_splits\<close>)

lemma ready_settled:
  assumes "st_State (pm_status (pw_manager w)) \<noteq> LifecycleReady" "pm_pendingStart (pw_manager w) = None" shows "readySound w"
  using assms by (simp add: readySound_def Let_def)

lemma discard_fields:
  "pm_status (pw_manager (discardRuntime ep ing f g w)) = pm_status (pw_manager w)"
  "pm_pendingStart (pw_manager (discardRuntime ep ing f g w)) = pm_pendingStart (pw_manager w)"
  "pm_cleanup (pw_manager (discardRuntime ep ing f g w)) = pm_cleanup (pw_manager w)"
  "pw_starts (discardRuntime ep ing f g w) = pw_starts w"
  by (simp_all add: discardRuntime_def retainRuntimeAfterFailedCleanup_def Let_def public_simps)

lemma ready_discard:
  assumes "sound w" "readySound w" "cleaningSound w" and i: "i < length (pw_starts w)"
    and d: "\<not> over (so_driver (pw_starts w ! i))" "\<not> selecting (so_driver (pw_starts w ! i))"
    and d': "emptyHanded d"
  shows "readySound (driveTo i d (discardRuntime ep ing f g w)) \<and> cleaningSound (driveTo i d (discardRuntime ep ing f g w))"
proof
  have n: "d \<noteq> Finishing r" "d \<noteq> Cleaning e j" for r e j using d' by auto
  show "readySound (driveTo i d (discardRuntime ep ing f g w))"
    by (rule ready_pending [OF assms(1,2) i d(1)])
      (use taken [OF assms(1) i d(2)] n i in \<open>simp_all add: driveTo_own discard_fields public_simps launchedWell_def split: Driver.split\<close>)
  show "cleaningSound (driveTo i d (discardRuntime ep ing f g w))"
    by (rule cleaning_drive [OF assms(3)]) (use n in \<open>simp_all add: discard_fields public_simps\<close>)
qed

lemma ready_finishStart:
  assumes "sound w" "readySound w" "cleaningSound w" and i: "i < length (pw_starts w)" and d: "so_driver (pw_starts w ! i) = Finishing r"
  shows "readySound (finishStart i r w) \<and> cleaningSound (finishStart i r w)"
proof -
  have over: "\<not> over (so_driver (pw_starts w ! i))" "\<not> selecting (so_driver (pw_starts w ! i))" using d by simp_all
  note pend = pendingI [OF assms(1) i over(1)] and l = taken [OF assms(1) i over(2)]
  have turned: "readySound (driveTo i (Discarding a b res p) (deny b w))" "cleaningSound (driveTo i (Discarding a b res p) (deny b v))"
    if "v = w \<or> (\<exists>s. v = setStatus s w \<and> st_State s = LifecycleFailed)" for a b res p v
  proof -
    show "readySound (driveTo i (Discarding a b res p) (deny b w))"
      by (rule ready_pending [OF assms(1,2) i over(1)])
        (use l i in \<open>simp_all add: driveTo_own public_simps launchedWell_def\<close>)
    show "cleaningSound (driveTo i (Discarding a b res p) (deny b v))"
      by (rule cleaning_drive [OF assms(3)]) (use that in \<open>auto simp: public_simps\<close>)
  qed
  show ?thesis
  proof (cases "startCurrent i w")
    case False
    then show ?thesis using turned [of w] by (simp add: finishStart_def Let_def)
  next
    case True
    let ?err = "if sr_err r = None \<and> (sr_endpoint r = None \<or> sr_ingress r = None \<or> sr_canonicalURL r = [])
                    then Some plainError else sr_err r"
    show ?thesis
    proof (cases ?err)
      case (Some f)
      let ?s = "failWith (pm_status (pw_manager w)) (redactedPublicAccessFailure f)"
      obtain res where w': "finishStart i r w = driveTo i (Discarding (sr_endpoint r) (sr_ingress r) res True) (deny (sr_ingress r) (setStatus ?s w))"
        using True Some by (simp add: finishStart_def Let_def)
      have "\<not> active (finishStart i r w)" by (simp add: w' public_simps)
      moreover have "cleaningSound (finishStart i r w)" unfolding w' by (rule turned) auto
      ultimately show ?thesis using ready_inactive by blast
    next
      case None
      have "launchedWell w (pw_starts w ! i)"
        using assms(2) True pend by (simp add: readySound_def startCurrent_def Let_def)
      then have "liveResponse w r" using d by (simp add: launchedWell_def)
      then obtain e j where ej: "sr_endpoint r = Some e" "sr_ingress r = Some j" "live w e j (sr_canonicalURL r)"
        using None by (auto simp: liveResponse_def split: if_splits)
      have st: "startCurrent i w" "active w" using True by (simp_all add: startCurrent_def active_def Let_def)
      have "live (finishStart i r w) e j (sr_canonicalURL r)"
        using ej(3) live_cong [of "finishStart i r w" w] st(1) None
        by (simp add: finishStart_def Let_def public_simps settleStartLocked_def completeStartLocked_def driveTo_runtimes)
      moreover have "st_State (pm_status (pw_manager (finishStart i r w))) = LifecycleReady"
        "pm_pendingStart (pw_manager (finishStart i r w)) = None" "pm_endpoint (pw_manager (finishStart i r w)) = Some e"
        "pm_ingress (pw_manager (finishStart i r w)) = Some j"
        "st_PublicURL (pm_status (pw_manager (finishStart i r w))) = sr_canonicalURL r"
        using st(1) None ej pend
        by (simp_all add: finishStart_def Let_def public_simps settleStartLocked_def completeStartLocked_def plainStatus_def)
      ultimately have "readySound (finishStart i r w)" by (simp add: readySound_def Let_def)
      moreover have "cleaningSound (finishStart i r w)"
        using st(1) None st(2)
        by (auto simp: finishStart_def Let_def public_simps settleStartLocked_def completeStartLocked_def nth_update
            intro!: cleaning_drive [OF assms(3)])
      ultimately show ?thesis ..
    qed
  qed
qed

lemma ready_driverStep:
  assumes "sound w" "readySound w" "cleaningSound w" and i: "i < length (pw_starts w)" and step: "driverStep i f g w = Some w'"
  shows "readySound w' \<and> cleaningSound w'"
proof (cases "so_driver (pw_starts w ! i)")
  case Selecting
  then obtain r where r: "so_launch (pw_starts w ! i) = LaunchDone r"
    "w' = updateStart i (\<lambda>op. op\<lparr>so_canceled := True, so_launch := LaunchTaken, so_driver := Finishing r\<rparr>) w"
    using step by (auto simp: driverStep_def split: Launch.splits)
  have l: "liveResponse w' r = liveResponse w r"
    using live_cong [of w' w] by (simp add: liveResponse_def r(2) public_simps)
  have "readySound w'"
    by (rule ready_pending [OF assms(1,2) i]) (use r i Selecting l in \<open>simp_all add: public_simps launchedWell_def\<close>)
  moreover have "cleaningSound w'"
    by (rule cleaning_same [OF assms(3)]) (use r in \<open>auto simp: public_simps nth_update split: if_splits\<close>)
  ultimately show ?thesis ..
next
  case (Finishing r)
  with step ready_finishStart [OF assms(1-4) Finishing] show ?thesis by (simp add: driverStep_def)
next
  case (Discarding ep ing res b)
  with step have "w' = driveTo i (Settling res b) (discardRuntime ep ing f g w)" by (simp add: driverStep_def)
  with ready_discard [OF assms(1-4)] Discarding show ?thesis by simp
next
  case (Settling res b)
  let ?w = "driveTo i DriverEnded (settleStartLocked i (completeStartLocked i res w))"
  have "\<not> over (so_driver (pw_starts w ! i))" using Settling by simp
  note p = pendingI [OF assms(1) i this] and n = busy_pending [OF assms(1,2) i this]
  have "readySound ?w"
    by (rule ready_settled) (use p n in \<open>simp_all add: public_simps settleStartLocked_def completeStartLocked_def\<close>)
  moreover have "cleaningSound ?w"
    by (rule cleaning_drive [OF assms(3)])
      (auto simp: public_simps settleStartLocked_def completeStartLocked_def nth_update active_def split: if_splits)
  ultimately show ?thesis using step Settling by (auto simp: driverStep_def Let_def ready_keeps)
next
  case Disposing
  then obtain r where r: "so_launch (pw_starts w ! i) = LaunchDone r"
    "w' = updateStart i (\<lambda>op. op\<lparr>so_launch := LaunchTaken, so_driver := DisposeClosing (sr_endpoint r) (sr_ingress r)\<rparr>)
            (deny (sr_ingress r) w)"
    using step by (auto simp: driverStep_def split: Launch.splits)
  have "readySound w'"
    by (rule ready_pending [OF assms(1,2) i]) (use r i Disposing in \<open>simp_all add: public_simps launchedWell_def\<close>)
  moreover have "cleaningSound w'"
    by (rule cleaning_same [OF assms(3)]) (use r in \<open>auto simp: public_simps nth_update split: if_splits\<close>)
  ultimately show ?thesis ..
next
  case (DisposeClosing ep ing)
  with step have "w' = driveTo i DisposeSettling (discardRuntime ep ing f g w)" by (simp add: driverStep_def)
  with ready_discard [OF assms(1-4)] DisposeClosing show ?thesis by simp
next
  case DisposeSettling
  let ?w = "driveTo i DriverEnded (settleStartLocked i w)"
  have "\<not> over (so_driver (pw_starts w ! i))" using DisposeSettling by simp
  note p = pendingI [OF assms(1) i this] and n = busy_pending [OF assms(1,2) i this]
  have "readySound ?w" by (rule ready_settled) (use p n in \<open>simp_all add: public_simps settleStartLocked_def\<close>)
  moreover have "cleaningSound ?w"
    by (rule cleaning_drive [OF assms(3)]) (simp_all add: public_simps settleStartLocked_def nth_update active_def)
  ultimately show ?thesis using step DisposeSettling by (simp add: driverStep_def)
next
  case (Cleaning e j)
  with assms(3) i have na: "\<not> active w" "pm_cleanup (pw_manager w) = Some i"
    unfolding cleaningSound_def by blast+
  have other: "k = i" if "k < length (pw_starts w)" "so_driver (pw_starts w ! k) = Cleaning a b" for k a b
    using assms(3) that na(2) unfolding cleaningSound_def by (metis option.inject)
  have w': "\<not> active w'" "length (pw_starts w') = length (pw_starts w)"
      "\<And>k. so_driver (pw_starts w' ! k) = (if k = i then DriverEnded else so_driver (pw_starts w ! k))"
    using step Cleaning na i
    by (auto simp: driverStep_def Let_def public_simps driveTo_def nth_update active_def [of w] split: if_splits)
  have "cleaningSound w'" unfolding cleaningSound_def w' using other by auto
  with ready_inactive [OF w'(1)] show ?thesis ..
qed (use step in \<open>auto simp: driverStep_def split: Launch.splits\<close>)

lemma ready_expired:
  assumes "sound w" "readySound w" "cleaningSound w" and i: "i < length (pw_starts w)" and d: "so_driver (pw_starts w ! i) = Selecting"
  shows "readySound (startExpired i w) \<and> cleaningSound (startExpired i w)"
proof
  let ?u = "updateStart i (\<lambda>op. op\<lparr>so_canceled := True\<rparr>) w"
  let ?f = "failCurrentStart i ErrorTimeout ?u"
  have l: "launchedWell (startExpired i w) (pw_starts (startExpired i w) ! i) = launchedWell w (pw_starts w ! i)"
  proof -
    have "launchedWell (startExpired i w) = launchedWell w"
      by (rule launched_cong) (simp_all add: startExpired_def driveTo_runtimes failCurrentStart_def completeStartLocked_def Let_def public_simps)
    moreover have "so_launch (pw_starts (startExpired i w) ! i) = so_launch (pw_starts w ! i)"
      "so_driver (pw_starts (startExpired i w) ! i) = Disposing"
      using i by (simp_all add: startExpired_def driveTo_def public_simps)
    ultimately show ?thesis using d by (simp add: launchedWell_def)
  qed
  show "readySound (startExpired i w)"
  proof (cases "pm_status (pw_manager (startExpired i w)) = pm_status (pw_manager w)")
    case True
    have "pm_pendingStart (pw_manager (startExpired i w)) = pm_pendingStart (pw_manager w)"
      by (simp add: startExpired_def public_simps failCurrentStart_def completeStartLocked_def Let_def)
    with True show ?thesis by (intro ready_pending [OF assms(1,2) i]) (simp_all add: d l)
  next
    case False
    then have "\<not> active (startExpired i w)"
      by (auto simp: startExpired_def public_simps failCurrentStart_def completeStartLocked_def Let_def split: if_splits)
    then show ?thesis by (rule ready_inactive)
  qed
  show "cleaningSound (startExpired i w)" unfolding startExpired_def
  proof (rule cleaning_drive [OF assms(3)])
    show "active ?f \<Longrightarrow> active w" using failCurrent_active [of i ErrorTimeout ?u] by (simp add: public_simps)
  qed (simp_all add: public_simps failCurrentStart_def completeStartLocked_def Let_def nth_update)
qed

lemma ready_endpointDone:
  assumes "sound w" "readySound w" "cleaningSound w" and i: "i < length (pw_starts w)" and d: "so_driver (pw_starts w ! i) = Monitoring e j"
  shows "readySound (endpointDone i e j f w) \<and> cleaningSound (endpointDone i e j f w)"
proof (cases "endpointDone i e j f w = driveTo i DriverEnded w")
  case True
  have "readySound (driveTo i DriverEnded w)"
  proof (rule ready_same [OF assms(2)])
    fix k assume "pm_pendingStart (pw_manager w) = Some k"
    then have "k \<noteq> i" using pendingOver(2) [OF assms(1), of k] d by auto
    then show "so_launch (pw_starts (driveTo i DriverEnded w) ! k) = so_launch (pw_starts w ! k) \<and>
        so_driver (pw_starts (driveTo i DriverEnded w) ! k) = so_driver (pw_starts w ! k)"
      by (simp add: driveTo_def public_simps nth_update)
  qed (simp_all add: public_simps driveTo_runtimes)
  moreover have "cleaningSound (driveTo i DriverEnded w)" by (rule cleaning_drive [OF assms(3)]) simp_all
  ultimately show ?thesis using True by simp
next
  case False
  then have r: "active w" "\<not> active (endpointDone i e j f w)" "pm_cleanup (pw_manager (endpointDone i e j f w)) = Some i"
    and o: "\<And>k. k \<noteq> i \<Longrightarrow> so_driver (pw_starts (endpointDone i e j f w) ! k) = so_driver (pw_starts w ! k)"
      "length (pw_starts (endpointDone i e j f w)) = length (pw_starts w)"
    by (auto simp: endpointDone_def Let_def public_simps active_def driveTo_def nth_update split: if_splits)
  have "so_driver (pw_starts w ! k) \<noteq> Cleaning a b" if "k < length (pw_starts w)" for k a b
    using assms(3) r(1) that by (auto simp: cleaningSound_def)
  then have "k = i" if "k < length (pw_starts w)" "so_driver (pw_starts (endpointDone i e j f w) ! k) = Cleaning a b" for k a b
    using o(1) that by (cases "k = i") auto
  then have "cleaningSound (endpointDone i e j f w)" using r o unfolding cleaningSound_def by auto
  with ready_inactive [OF r(2)] show ?thesis ..
qed

text \<open>The sections and steps of \<open>Stop\<close> and \<open>Reconfigure\<close>.\<close>

lemma ready_inert:
  assumes "cleaningSound w" "\<not> active w'" "pm_cleanup (pw_manager w') = pm_cleanup (pw_manager w)"
    "\<And>k. so_driver (pw_starts w' ! k) = so_driver (pw_starts w ! k)" "length (pw_starts w') = length (pw_starts w)"
  shows "readySound w' \<and> cleaningSound w'"
  using ready_inactive [OF assms(2)] cleaning_same [OF assms(1), of w'] assms by simp

lemma cancelled_driver:
  "so_driver (pw_starts (cancelStart s w) ! k) = so_driver (pw_starts w ! k)" "length (pw_starts (cancelStart s w)) = length (pw_starts w)"
  by (simp_all add: cancelStart_def public_simps nth_update split: option.split)

lemma ready_stopSection:
  assumes "readySound w" "cleaningSound w" "stopSection x w = (out, w')" shows "readySound w' \<and> cleaningSound w'"
  using assms(3)
proof (cases rule: stopSection_cases)
  case (starts g)
  show ?thesis by (rule ready_inert [OF assms(2)]) (simp_all add: starts public_simps cancelled_driver)
qed (use assms(1,2) in simp_all)

lemma ready_reconfigureSection:
  assumes "readySound w" "cleaningSound w" "reconfigureSection pe mu w = (out, w')" shows "readySound w' \<and> cleaningSound w'"
  using assms(3)
proof (cases rule: reconfigureSection_cases)
  case (starts g a)
  show ?thesis by (rule ready_inert [OF assms(2)]) (simp_all add: starts public_simps cancelled_driver)
qed (use assms(1,2) in simp_all)

lemma ready_stopStep:
  assumes "lanes w" "cleaningSound w" and k: "k < length (pw_stops w)" and step: "stopStep k d f g w = Some w'"
  shows "readySound w' \<and> cleaningSound w'"
proof -
  have "sp_stage (pw_stops w ! k) \<noteq> StopEnded" using step by (auto simp: stopStep_def)
  then have na: "\<not> active w" using lanesD(1) [OF assms(1)] k by (auto simp: stopRunning_def)
  have s: "pm_cleanup (pw_manager w') = pm_cleanup (pw_manager w)" "pw_starts w' = pw_starts w" "\<not> active w'"
    using step na by (auto simp: stopStep_def collectRuntime_def stopTo_def stopEnd_def Let_def public_simps
        split: StopStage.splits option.splits if_splits)
  show ?thesis by (rule ready_inert [OF assms(2)]) (simp_all add: s)
qed

lemma ready_restart:
  assumes "sound w" "readySound w" "cleaningSound w" "reconfigureRestart r x d w = Some w'"
  shows "readySound w' \<and> cleaningSound w'"
proof -
  obtain out v where s: "startSection x (Some r) w = (out, v)" by (metis surj_pair)
  with ready_startSection [OF assms(1-3) s] assms show ?thesis
    by (auto simp: reconfigureRestart_def Let_def ready_keeps split: StartOutcome.splits if_splits)
qed

lemma ready_completeReconfigure:
  "readySound (completeReconfigureLocked r res w) = readySound w" "cleaningSound (completeReconfigureLocked r res w) = cleaningSound w"
proof -
  let ?w = "completeReconfigureLocked r res w"
  have "live ?w = live w" "launchedWell ?w = launchedWell w"
    by (rule live_cong launched_cong; simp add: completeReconfigureLocked_def public_simps)+
  moreover have "pm_status (pw_manager ?w) = pm_status (pw_manager w)" "pm_pendingStart (pw_manager ?w) = pm_pendingStart (pw_manager w)"
    "pm_endpoint (pw_manager ?w) = pm_endpoint (pw_manager w)" "pm_ingress (pw_manager ?w) = pm_ingress (pw_manager w)"
    "pm_cleanup (pw_manager ?w) = pm_cleanup (pw_manager w)" "pw_starts ?w = pw_starts w"
    by (simp_all add: completeReconfigureLocked_def public_simps)
  ultimately show "readySound ?w = readySound w" "cleaningSound ?w = cleaningSound w"
    by (simp_all only: readySound_def cleaningSound_def active_def Let_def)
qed

lemma reconfigureChange_shape:
  "\<exists>stage v. reconfigureChange pe r sa w = reconfigureTo r stage v \<and> (v = w \<or> (\<exists>a b. v = setPresence a b w))"
proof -
  define P where "P v' = (\<exists>stage v. v' = reconfigureTo r stage v \<and> (v = w \<or> (\<exists>a b. v = setPresence a b w)))" for v'
  have i: "P (reconfigureTo r stage w)" "P (reconfigureTo r stage (setPresence a b w))" for stage a b
    unfolding P_def by blast+
  have "P (reconfigureChange pe r sa w)"
    unfolding reconfigureChange_def reconcilePresence_def Let_def case_prod_unfold by (simp add: i split: sum.split option.split)
  then show ?thesis by (simp only: P_def)
qed

lemma ready_reconfigureStep:
  assumes "sound w" "lanes w" "readySound w" "cleaningSound w" and r: "r < length (pw_reconfigures w)"
    and step: "reconfigureStep pe r d f g sa w = Some w'"
  shows "readySound w' \<and> cleaningSound w'"
proof -
  let ?s = "rc_stage (pw_reconfigures w ! r)"
  have n: "?s \<noteq> ReconfigureEnded" using step by (auto simp: reconfigureStep_def)
  have p: "pm_reconfigure (pw_manager w) = Some r" using lanesD(8) [OF assms(2) r n] .
  have na: "restarted ?s \<or> \<not> active w" using lanesD(4) [OF assms(2) p] .
  have inert: "readySound v" "cleaningSound v"
    if "\<not> restarted ?s" "active v \<Longrightarrow> active w" "pm_cleanup (pw_manager v) = pm_cleanup (pw_manager w)" "pw_starts v = pw_starts w" for v
    using that na ready_inert [OF assms(4), of v] by auto
  show ?thesis
  proof (cases ?s)
    case (ReconfigureDraining q ep ing)
    have "readySound v \<and> cleaningSound v" if "v = w \<or> v = deny (pm_ingress (pw_manager w)) w" for v
      using that ReconfigureDraining by (intro conjI inert) (auto simp: restarted_def public_simps)
    moreover obtain stage v where "w' = reconfigureTo r stage v" "v = w \<or> v = deny (pm_ingress (pw_manager w)) w"
      using step ReconfigureDraining by (auto simp: reconfigureStep_def collectRuntime_def Let_def split: if_splits)
    ultimately show ?thesis by (simp add: ready_keeps)
  next
    case (ReconfigureClosing ep ing)
    have "readySound (closeOwned ep ing f g w)" "cleaningSound (closeOwned ep ing f g w)"
      using ReconfigureClosing by (auto simp: restarted_def public_simps intro!: inert)
    with step ReconfigureClosing show ?thesis by (auto simp: reconfigureStep_def Let_def ready_keeps)
  next
    case (ReconfigureClosed ep ing)
    have "readySound (releaseRuntime ep ing w)" "cleaningSound (releaseRuntime ep ing w)"
      using ReconfigureClosed by (auto simp: restarted_def public_simps releaseRuntime_def active_def intro!: inert)
    with step ReconfigureClosed show ?thesis by (auto simp: reconfigureStep_def ready_keeps)
  next
    case ReconfigureChanging
    obtain stage v where c: "reconfigureChange pe r sa w = reconfigureTo r stage v" "v = w \<or> (\<exists>a b. v = setPresence a b w)"
      using reconfigureChange_shape by metis
    have "readySound v \<and> cleaningSound v"
      using c(2) ReconfigureChanging
      by (intro conjI inert) (auto simp: restarted_def public_simps setPresence_def active_def)
    with step ReconfigureChanging c(1) show ?thesis by (auto simp: reconfigureStep_def ready_keeps)
  next
    case (ReconfigureSaved m a b)
    have "readySound (modifyManager (\<lambda>x. x\<lparr>pm_preferences := m, pm_provider := a, pm_password := b, pm_status := plainStatus LifecycleDisabled y z\<rparr>) w)"
      "cleaningSound (modifyManager (\<lambda>x. x\<lparr>pm_preferences := m, pm_provider := a, pm_password := b, pm_status := plainStatus LifecycleDisabled y z\<rparr>) w)" for y z
      using ReconfigureSaved by (auto simp: restarted_def public_simps plainStatus_def intro!: inert)
    with step ReconfigureSaved assms(3,4) show ?thesis
      by (auto simp: reconfigureStep_def reconfigureCommit_def Let_def ready_keeps ready_completeReconfigure)
  next
    case (ReconfigureFailing c)
    have "readySound (setStatus (failedStatus st c) w)" "cleaningSound (setStatus (failedStatus st c) w)" for st
      using ReconfigureFailing by (auto simp: restarted_def public_simps intro!: inert)
    with step ReconfigureFailing assms(3,4) show ?thesis
      by (auto simp: reconfigureStep_def finishReconfigureFailure_def Let_def ready_keeps ready_completeReconfigure)
  next
    case (ReconfigureRestarting x)
    with step ready_restart [OF assms(1,3,4)] show ?thesis by (simp add: reconfigureStep_def)
  qed (use step assms(3,4) in \<open>auto simp: reconfigureStep_def ready_keeps ready_completeReconfigure split: option.splits if_splits\<close>)
qed

section \<open>Every orderly run\<close>

lemma ready_step:
  assumes "sound w" "lanes w" "readySound w" "cleaningSound w" "presentable (pe_Net pe) w" "lowerLaw (pe_Net pe)"
    and "publicStep pe ev w = Some w'"
  shows "readySound w' \<and> cleaningSound w'"
proof -
  have p: "eventPossible ev w" and e: "publicEvent pe ev w = Some w'"
    using assms(7) by (simp_all add: publicStep_def split: if_splits)
  note a = assms(1-6)
  note b = a(1,3,4)
  show ?thesis
  proof (cases ev)
    case (EvContextDone i)
    with e have w': "w' = updateStart i (\<lambda>op. op\<lparr>so_canceled := True\<rparr>) w" by (simp add: publicEvent_def)
    have "readySound w'" by (rule ready_same [OF a(3)]) (simp_all add: w' public_simps nth_update)
    moreover have "cleaningSound w'" by (rule cleaning_same [OF a(4)]) (auto simp: w' public_simps nth_update split: if_splits)
    ultimately show ?thesis ..
  next
    case (EvStart x)
    with e ready_startEvent [OF b] show ?thesis by (simp add: publicEvent_def)
  next
    case (EvClosed c f g)
    with e ready_closedEvent [OF a(2,4)] show ?thesis by (simp add: publicEvent_def)
  next
    case (EvExpire i)
    with e p ready_expired [OF b] show ?thesis by (auto simp: publicEvent_def eventPossible_def split: if_splits)
  next
    case (EvDriver i f g)
    with e p ready_driverStep [OF b] show ?thesis by (auto simp: publicEvent_def eventPossible_def)
  next
    case (EvEndpointDone i f)
    with e p ready_endpointDone [OF b] show ?thesis by (auto simp: publicEvent_def eventPossible_def split: Driver.splits)
  next
    case (EvStop x)
    with e ready_stopSection [OF a(3,4)] show ?thesis by (auto simp: publicEvent_def split: prod.splits StopOutcome.splits)
  next
    case (EvStopStep k d f g)
    with e p ready_stopStep [OF a(2,4)] show ?thesis by (auto simp: publicEvent_def eventPossible_def)
  next
    case (EvReconfigure mu)
    with e ready_reconfigureSection [OF a(3,4)] show ?thesis
      by (auto simp: publicEvent_def split: prod.splits ReconfigureOutcome.splits)
  next
    case (EvReconfigureStep r d f g sa)
    with e p ready_reconfigureStep [OF a(1-4)] show ?thesis by (auto simp: publicEvent_def eventPossible_def)
  qed (use e p ready_launch [OF a(1,3,4,5,6)] in \<open>simp_all add: publicEvent_def\<close>)
qed

lemma publicReach_mono: "publicReach pe allowed w \<Longrightarrow> (\<And>v ev. allowed v ev \<Longrightarrow> allowed' v ev) \<Longrightarrow> publicReach pe allowed' w"
  by (induction rule: publicReach.induct) (auto intro: publicReach.intros)

definition orderlyNamed :: "NetPlatform \<Rightarrow> PublicWorld \<Rightarrow> PublicEvent \<Rightarrow> bool" where
  "orderlyNamed np w ev = (orderly w ev \<and> namedEndpoints np w ev)"

lemma ready_reachable:
  assumes "publicReach pe (orderlyNamed (pe_Net pe)) w" "lowerLaw (pe_Net pe)"
  shows "readySound w \<and> cleaningSound w"
  using assms(1)
proof (induction rule: publicReach.induct)
  case (initialized loaded a b)
  have "\<not> active (initialWorld (Initialize pe loaded a b))"
    by (auto simp: active_def initialWorld_def Initialize_def Let_def failedStatus_def plainStatus_def split: option.split sum.split)
  then show ?case using ready_inactive by (simp add: cleaningSound_def initialWorld_def)
next
  case (stepped w ev w')
  have "sound w \<and> lanes w \<and> guarded w"
    by (rule orderly_reachable) (rule publicReach_mono [OF stepped(1)], simp add: orderlyNamed_def)
  moreover have "presentable (pe_Net pe) w"
    by (rule presentable_reachable [OF _ assms(2)]) (rule publicReach_mono [OF stepped(1)], simp add: orderlyNamed_def)
  ultimately show ?case using ready_step [of w pe ev w'] stepped assms(2) by blast
qed

end
