(* ===== verification/TunnelClaims.thy ===== *)
theory TunnelClaims
  imports TunnelReady
begin

text \<open>
  What the steps of \<open>PublicAccessManager\<close> guarantee together: one runtime at a time, no admission outside of it,
  and a published address that leads to it.
\<close>

section \<open>One runtime at a time\<close>

definition openEndpoint :: "PublicWorld \<Rightarrow> EndpointID \<Rightarrow> bool" where
  "openEndpoint w e = (e < length (pw_endpoints w) \<and> pw_endpoints w ! e)"

definition openIngress :: "PublicWorld \<Rightarrow> IngressID \<Rightarrow> bool" where
  "openIngress w j = (j < length (pw_ingresses w) \<and> ig_open (pw_ingresses w ! j))"

text \<open>What a start holds it holds once, and a start that holds anything leaves no room for the manager's runtime.\<close>

lemma holds_once:
  assumes "opShape w op"
  shows "e \<in> fst (holds op) \<Longrightarrow> e' \<in> fst (holds op) \<Longrightarrow> e' = e"
    and "j \<in> snd (holds op) \<Longrightarrow> j' \<in> snd (holds op) \<Longrightarrow> j' = j"
    and "emptyHanded (so_driver op) \<Longrightarrow> holds op = ({}, {})"
  using assms by (cases "so_driver op"; auto simp: opShape_def holds_def selecting_def emptyHanded_def)+

lemma in_flight_alone:
  assumes "sound w" and "pm_pendingStart (pw_manager w) = Some i" and "holds (pw_starts w ! i) \<noteq> ({}, {})"
  shows "pm_endpoint (pw_manager w) = None \<and> pm_ingress (pw_manager w) = None"
  using assms holds_once(3) [of w "pw_starts w ! i"] by (auto simp: sound_def vacant_def singleFlight_def)

lemma public_access_single:
  assumes "sound w"
  shows "openEndpoint w e \<Longrightarrow> openEndpoint w e' \<Longrightarrow> e' = e"
    and "openIngress w j \<Longrightarrow> openIngress w j' \<Longrightarrow> j' = j"
proof -
  have s: "opShape w (pw_starts w ! i)" if "pm_pendingStart (pw_manager w) = Some i" for i
    using assms that by (auto simp: sound_def singleFlight_def)
  have e: "pm_endpoint (pw_manager w) = Some x \<or> endpointInFlight w x" if "openEndpoint w x" for x
    using assms that by (auto simp: sound_def tracked_def openEndpoint_def)
  have j: "pm_ingress (pw_manager w) = Some x \<or> ingressInFlight w x" if "openIngress w x" for x
    using assms that by (auto simp: sound_def tracked_def openIngress_def openIngresses_def)
  show "e' = e" if "openEndpoint w e" "openEndpoint w e'"
    using e [OF that(1)] e [OF that(2)] in_flight_alone [OF assms] holds_once(1) [OF s]
    by (fastforce simp: endpointInFlight_def)
  show "j' = j" if "openIngress w j" "openIngress w j'"
    using j [OF that(1)] j [OF that(2)] in_flight_alone [OF assms] holds_once(2) [OF s]
    by (fastforce simp: ingressInFlight_def)
qed

section \<open>A demonstration\<close>

definition demo_net :: NetPlatform where
  "demo_net =
     \<lparr>np_ToLower = ascii_lower,
      np_ParseURL = (\<lambda>url. if take 8 url = ''https://'' then Some (plainURL (drop 8 url)) else None),
      np_ParseIP = (\<lambda>_. None)\<rparr>"

definition demo_access :: PublicEnv where
  "demo_access = \<lparr>pe_Net = demo_net, pe_SplitHostPort = (\<lambda>_. None)\<rparr>"

definition demo_manager :: Manager where
  "demo_manager =
     Initialize demo_access (Inr DefaultPublicAccessPreferences) (SecretPresent, None) (SecretPresent, None)"

definition startUp :: "OpID \<Rightarrow> PublicEvent list" where
  "startUp i =
     [EvStart 0, EvLaunchIngress i None, EvLaunchTunnel i (Inr (''token'', ''password'')) (Inr (Some ''https://a.b'')),
      EvLaunchCheck i, EvLaunchActivate i None, EvDriver i None None, EvDriver i None None]"

lemma demo_laws: "lowerLaw demo_net" "urlLaw demo_net"
proof -
  have "ascii_lower s = s" if s: "list_all domainChar s" for s
    unfolding ascii_lower_def
  proof (rule map_idI)
    fix c assume "c \<in> set s"
    with s have "byte_val c \<le> 57 \<or> 97 \<le> byte_val c"
      by (auto simp: list_all_iff domainChar_def labelChar_def is_dec_digit_def byte_val_def)
    then show "(if 65 \<le> byte_val c \<and> byte_val c \<le> 90 then char_of (byte_val c + 32) else c) = c" by auto
  qed
  then show "lowerLaw demo_net" by (simp add: lowerLaw_def demo_net_def)
  show "urlLaw demo_net" by (simp add: urlLaw_def demo_net_def)
qed

lemma demo_url: "NormalizeEndpointURL demo_net ''https://a.b'' [] = Inr (''https://a.b'', ''a.b'')"
  by code_simp

lemma demo_passwords: "ValidateProviderToken ''token''" "ValidatePlayerPassword ''password''"
proof -
  have "list_all (\<lambda>c. byte_val c < 128) ''password''" by (simp add: byte_val_def)
  then show "ValidatePlayerPassword ''password''"
    using valid_utf8_ascii rune_count_ascii
    by (simp add: ValidatePlayerPassword_def containsAny_def secretBreaks_def MinimumPlayerPasswordBytes_def
        del: valid_utf8.simps rune_count.simps)
qed (simp add: ValidateProviderToken_def containsAny_def secretBreaks_def)

lemma demo_policy:
  "Activate demo_net (\<lambda>_. None) ''a.b'' ''players'' ''password'' =
     Inr \<lparr>ia_host = ''a.b'', ia_usernameDigest = sha256 ''players'', ia_passwordDigest = sha256 ''password''\<rparr>"
proof -
  have "normal demo_net ''a.b''" by code_simp
  then have "normalizeIngressHost demo_net (\<lambda>_. None) ''a.b'' = Inr ''a.b''" using demo_laws(1) by (rule ingress_host)
  moreover have "trim_space ''players'' = ''players''" by (simp add: visible_def byte_val_def)
  moreover have "\<not> containsAny ''players'' ingressUserForbidden" by (simp add: containsAny_def ingressUserForbidden_def)
  ultimately show ?thesis by (simp add: Activate_def demo_passwords MaximumPlayerPasswordBytes_def)
qed

lemma demo_initial:
  "demo_manager =
     \<lparr>pm_preferences = DefaultPublicAccessPreferences, pm_provider = SecretPresent, pm_password = SecretPresent,
      pm_status = plainStatus LifecycleDisabled 0 0, pm_endpoint = None, pm_ingress = None, pm_start = None,
      pm_pendingStart = None, pm_cleanup = None, pm_stop = None, pm_reconfigure = None\<rparr>"
proof -
  have "trim_space ''players'' = ''players''" by (simp add: visible_def byte_val_def)
  then have "Normalized demo_net DefaultPublicAccessPreferences = Inr DefaultPublicAccessPreferences"
    by (simp add: Normalized_def DefaultPublicAccessPreferences_def DefaultPlayerUsername_def containsAny_def
        lineBreaks_def NormalizeReservedDomain_def trimSuffix_def demo_net_def ascii_lower_def ok_bind_def)
  then show ?thesis
    by (simp add: demo_manager_def Initialize_def demo_access_def ok_bind_def joinErrors_def
        DefaultPublicAccessPreferences_def)
qed

text \<open>Events of the demonstration step by step.\<close>

lemmas demo_steps = orderlyNamed_def orderly_def quiet_def initialWorld_def publicStep_def eventPossible_def publicEvent_def
  startEvent_def startSection_def Let_def plainStatus_def newStart_def modifyManager_def emitCurrent_def emit_def
  launchEvent_def launchIngress_def launchTo_def updateStart_def launchTunnel_def WithPublicAccessSecrets_def
  launchCheck_def launchActivate_def driverStep_def finishStart_def startCurrent_def settleStartLocked_def
  completeStartLocked_def driveTo_def

lemma demo_named:
  "namedEndpoints demo_net w (EvLaunchTunnel i (Inr (''token'', ''password'')) (Inr (Some ''https://a.b'')))"
  unfolding namedEndpoints_def by code_simp

lemma demo_access_fields:
  "pe_Net demo_access = demo_net" "pe_SplitHostPort demo_access = (\<lambda>_. None)"
  "pr_Revision DefaultPublicAccessPreferences = 0" "pr_ReservedDomain DefaultPublicAccessPreferences = []"
  "pr_Username DefaultPublicAccessPreferences = ''players''"
  by (simp_all add: demo_access_def DefaultPublicAccessPreferences_def DefaultPlayerUsername_def)

lemma demo_ready:
  "\<exists>w. publicRun demo_access (orderlyNamed demo_net) (startUp 0) (initialWorld demo_manager) = Some w \<and>
     st_State (pm_status (pw_manager w)) = LifecycleReady \<and> st_PublicURL (pm_status (pw_manager w)) = ''https://a.b'' \<and>
     pm_endpoint (pw_manager w) = Some 0 \<and> pm_ingress (pw_manager w) = Some 0"
  using demo_url demo_passwords demo_policy
  by (simp add: startUp_def demo_named demo_access_fields demo_initial demo_steps) (simp add: namedEndpoints_def)

section \<open>Exposure\<close>

text \<open>C17: Public access exposes one runtime and nothing else.  In every run, whatever is cancelled, times out or fails
  to close, at most one endpoint and at most one ingress are open.  In a run in which Start and Reconfigure are
  entered only while no Stop is at work and no other Start is clearing a runtime away, an ingress admits
  players only if it is the one of a ready manager or is held by the start in progress.  If moreover the provider
  names a host in the URL of its endpoints and lower-casing keeps lower-case host names, then in every ready state
  no start is pending and the public URL is the address of the open endpoint in front of the open ingress, which
  admits players under that host.\<close>

theorem public_access_exposure:
  assumes "publicReach pe allowed w"
  shows "(\<forall>e e'. openEndpoint w e \<longrightarrow> openEndpoint w e' \<longrightarrow> e' = e) \<and>
    (\<forall>j j'. openIngress w j \<longrightarrow> openIngress w j' \<longrightarrow> j' = j) \<and>
    ((\<forall>v ev. allowed v ev \<longrightarrow> orderly v ev) \<longrightarrow> (\<forall>j. admits w j \<longrightarrow> serving w j \<or> ingressInFlight w j)) \<and>
    ((\<forall>v ev. allowed v ev \<longrightarrow> orderlyNamed (pe_Net pe) v ev) \<longrightarrow> lowerLaw (pe_Net pe) \<longrightarrow>
     st_State (pm_status (pw_manager w)) = LifecycleReady \<longrightarrow>
       pm_pendingStart (pw_manager w) = None \<and>
       (\<exists>e j policy. pm_endpoint (pw_manager w) = Some e \<and> pm_ingress (pw_manager w) = Some j \<and>
          openEndpoint w e \<and> openIngress w j \<and> ig_policy (pw_ingresses w ! j) = Some policy \<and>
          st_PublicURL (pm_status (pw_manager w)) = ''https://'' @ ia_host policy))"
proof (intro conjI impI)
  note one = public_access_single [OF sound_reachable [OF assms]]
  show "\<forall>e e'. openEndpoint w e \<longrightarrow> openEndpoint w e' \<longrightarrow> e' = e"
    "\<forall>j j'. openIngress w j \<longrightarrow> openIngress w j' \<longrightarrow> j' = j" using one by blast+
next
  assume "\<forall>v ev. allowed v ev \<longrightarrow> orderly v ev"
  then have "publicReach pe orderly w" by (intro publicReach_mono [OF assms]) simp
  from orderly_reachable [OF this] show "\<forall>j. admits w j \<longrightarrow> serving w j \<or> ingressInFlight w j" by (simp add: guarded_def)
next
  assume named: "\<forall>v ev. allowed v ev \<longrightarrow> orderlyNamed (pe_Net pe) v ev" and laws: "lowerLaw (pe_Net pe)"
    and ready: "st_State (pm_status (pw_manager w)) = LifecycleReady"
  from named have "publicReach pe (orderlyNamed (pe_Net pe)) w" by (intro publicReach_mono [OF assms]) simp
  with laws ready_reachable ready show "pm_pendingStart (pw_manager w) = None"
    "\<exists>e j policy. pm_endpoint (pw_manager w) = Some e \<and> pm_ingress (pw_manager w) = Some j \<and>
       openEndpoint w e \<and> openIngress w j \<and> ig_policy (pw_ingresses w ! j) = Some policy \<and>
       st_PublicURL (pm_status (pw_manager w)) = ''https://'' @ ia_host policy"
    unfolding readySound_def Let_def live_def openEndpoint_def openIngress_def by metis+
qed

theorem public_access_exposure_witness:
  "\<exists>w policy. publicRun demo_access (orderlyNamed demo_net) (startUp 0) (initialWorld demo_manager) = Some w \<and>
     openEndpoint w 0 \<and> (\<forall>e. openEndpoint w e \<longrightarrow> e = 0) \<and> pm_ingress (pw_manager w) = Some 0 \<and>
     ig_policy (pw_ingresses w ! 0) = Some policy \<and> ia_host policy = ''a.b''"
proof -
  from demo_ready obtain w where
    w: "publicRun demo_access (orderlyNamed demo_net) (startUp 0) (initialWorld demo_manager) = Some w"
      "st_State (pm_status (pw_manager w)) = LifecycleReady" "st_PublicURL (pm_status (pw_manager w)) = ''https://a.b''"
      "pm_endpoint (pw_manager w) = Some 0" "pm_ingress (pw_manager w) = Some 0"
    by blast
  have "publicReach demo_access (orderlyNamed demo_net) (initialWorld demo_manager)"
    unfolding demo_manager_def by (rule publicReach.initialized)
  then have "publicReach demo_access (orderlyNamed demo_net) w" using publicRun_reach w(1) by blast
  from public_access_exposure [OF this] demo_laws(1) w(2-)
  have "openEndpoint w 0" "\<forall>e. openEndpoint w e \<longrightarrow> e = 0"
    "\<exists>policy. ig_policy (pw_ingresses w ! 0) = Some policy \<and> ia_host policy = ''a.b''"
    by (auto simp: demo_access_fields)
  with w show ?thesis by blast
qed

text \<open>Every status that is kept or published is one the desktop accepts.\<close>

lemma public_access_status_valid:
  assumes "publicReach pe (namedEndpoints (pe_Net pe)) w" and "lowerLaw (pe_Net pe)" and "urlLaw (pe_Net pe)"
  shows "ValidateStatus (pe_Net pe) (pm_status (pw_manager w)) = None"
    and "\<forall>s\<in>set (pw_published w). ValidateStatus (pe_Net pe) (sn_Status s) = None"
  using presentable_reachable [OF assms(1,2)] goodStatus_valid [OF _ assms(2,3)]
  by (auto simp: presentable_def goodSnapshot_def)

text \<open>
  Without that order a \<open>Stop\<close> that has closed its runtime can overwrite the status of a later start: here the status
  says that public access is disabled while the endpoint and the ingress of the second start are open and admit
  players.
\<close>

lemma stop_overtaken:
  "\<exists>w. publicRun demo_access (namedEndpoints demo_net)
       (startUp 0 @ [EvStop 0, EvStopStep 0 False None None, EvStart 0, EvClosed 0 None None, EvStopStep 0 False None None] @
        startUp 1 @ [EvStopStep 0 False None None]) (initialWorld demo_manager) = Some w \<and>
     st_State (pm_status (pw_manager w)) = LifecycleDisabled \<and> openEndpoint w 1 \<and> openIngress w 1 \<and> admits w 1"
  using demo_url demo_passwords demo_policy
  by (simp add: startUp_def demo_named demo_access_fields demo_initial demo_steps
      stopSection_def cancelStart_def deny_def stopStep_def settled_def collectRuntime_def stopTo_def updateStop_def
      closeOwned_def closeError_def joinErrors_def closedEvent_def startClosed_def releaseRuntime_def stopEnd_def)
     (simp add: namedEndpoints_def openEndpoint_def openIngress_def admits_def)

end
