(* ===== verification/Spec2Isabelle.thy ===== *)
theory Spec2Isabelle
  imports ControlKeys PlayerConfigInv SaveGuarantees PlayerStreamInv PlayerRequestsInv PlayerServiceInv TunnelClaims
begin

text \<open>
  Fallout Terminal, a tabletop companion: an Overseer's desktop application publishes fictional computer
  terminals to players' browsers, on the local network or through a public tunnel.  This development models the Go
  program below \<open>src/internal\<close>, from the authored documents to the messages a player receives.

  \<^bold>\<open>Parts and theories\<close>, in dependency order (file names are below \<open>src/internal\<close>).

  \<^item> \<open>Prelude\<close>, \<open>GoStrings\<close>, \<open>GoCodec\<close>, \<open>GoText\<close>, \<open>GoPath\<close>: the Go standard library as far as the program uses it: maps
    as association lists (locale \<open>go_map\<close>), byte strings, decimal and hexadecimal text, SHA-256, UTF-8, slash paths,
    results that stop at the first error, counting loops.
  \<^item> \<open>Domain\<close>, \<open>DomainLive\<close>: the data of \<open>domain/model.go\<close>.
  \<^item> \<open>ContentTree\<close>, \<open>Nav\<close>: authored trees and \<open>nav/nav.go\<close>; positions stay valid under every action, and a position is
    cut back to its longest part that still exists.
  \<^item> \<open>HackBoard\<close>, \<open>HackInv\<close>, \<open>HackGen\<close>, \<open>HackGenInv\<close>: playing and generating a hacking board, \<open>hack/hack.go\<close> and
    \<open>hack/wordbank.go\<close>; the invariant \<open>hack_wf\<close> of a board and what a generated board looks like.
  \<^item> \<open>Validate\<close>, \<open>TerminalGroups\<close>, \<open>ValidateInv\<close>, \<open>SessionInv\<close>, \<open>GroupsInv\<close>: document validation,
    \<open>domain/validate.go\<close>, and what an accepted document guarantees.
  \<^item> \<open>Live\<close>, \<open>LiveInv\<close>: terminal checkpoints, \<open>live/service.go\<close>; the locale \<open>terminal_lifecycle\<close> is the contract the
    coordinator relies on, interpreted by the live service.
  \<^item> \<open>ControlState\<close>, \<open>ControlView\<close>, \<open>ControlAudit\<close>, \<open>ControlSessions\<close>, \<open>ControlTerminals\<close>, \<open>ControlBroadcast\<close>,
    \<open>ControlActions\<close>: the session coordinator, \<open>control/service.go\<close>, one definition per operation over the aggregate
    \<open>ProcessRuntime\<close>.  \<open>ControlInv\<close> states invariants once for all operations (locale \<open>runtime_invariant\<close>),
    \<open>ControlRun\<close> closes them under runs, \<open>ControlSpec\<close> refines the claims of characters to one map and treats
    authorization, replayed requests and revisions, \<open>ControlKeys\<close> the replay cache, the fingerprint and the search
    for names, \<open>ControlPublish\<close> what an effect tells each player.
  \<^item> \<open>SessionContract\<close>, \<open>SessionContractInv\<close>, \<open>DomainJSON\<close>: the contract messages of \<open>session/contract.go\<close> and the
    JSON methods of \<open>domain/json.go\<close>, with the fields of a newer version that they keep.
  \<^item> \<open>Storage\<close>: \<open>session/storage.go\<close> over a file system whose calls fail at any point (locales \<open>file_system\<close> and
    \<open>atomic_store\<close>).
  \<^item> \<open>PlayerConfig\<close>, \<open>PlayerConfigInv\<close>: \<open>playerconfig/service.go\<close> and \<open>playerconfig/contract.go\<close>.
  \<^item> \<open>SessionDoc\<close>, \<open>SessionService\<close>, \<open>SaveProtocol\<close>, \<open>SaveProtocolInv\<close>, \<open>SaveGuarantees\<close>: \<open>session/service.go\<close>.  The
    service is a step system of callers, which hold \<open>commandMu\<close> and \<open>documentMu\<close> across their file writes, and the
    save worker; \<open>New\<close>, \<open>Open\<close> and the demo copy write their files in steps of their own.
  \<^item> \<open>PlayerStream\<close>, \<open>PlayerStreamInv\<close>, \<open>PlayerMessages\<close>, \<open>PlayerRequests\<close>, \<open>PlayerRequestsInv\<close>, \<open>PlayerService\<close>,
    \<open>PlayerServiceInv\<close>: streams, uplinks and their hub (\<open>player/stream.go\<close>), the messages and requests
    (\<open>player/adapter.go\<close>, \<open>player/limits.go\<close>) and the handlers that join them to the coordinator
    (\<open>player/handler.go\<close>); what a player was last told agrees with the current state.
  \<^item> \<open>Tunnel\<close>, \<open>TunnelAccess\<close>, \<open>TunnelManager\<close>: public access, \<open>tunnel/model.go\<close>, \<open>redaction.go\<close>, \<open>secret.go\<close>,
    \<open>settings.go\<close>, \<open>public_ingress.go\<close> and \<open>manager.go\<close>, the manager as a step system of its goroutines.  \<open>TunnelInv\<close>
    tracks who holds a runtime, \<open>TunnelGuard\<close> who may admit players, \<open>TunnelNames\<close> the published status,
    \<open>TunnelReady\<close> what is behind a ready status, \<open>TunnelClaims\<close> puts them together.

  \<^bold>\<open>How the parts interact.\<close>  A session document is validated (\<open>Validate\<close>), stored by the session service and
  published by the coordinator, which creates and drives checkpoints of the live service (\<open>Live\<close>, \<open>Nav\<close>, \<open>HackBoard\<close>)
  inside a transaction that either commits a new aggregate or leaves the old one.  A committed effect reaches the
  players through the hub under the same lock; a player's request is checked, turned into a runtime command and
  handed to the coordinator.  The tunnel only fronts the player service.

  \<^bold>\<open>Conventions.\<close>  Collaborators with effects (random numbers, identifiers, live services) are computations of a state
  monad over an arbitrary state; a property about them holds for every answer they give.  Answers of the operating
  system, the stores and the tunnel provider are arguments of the steps.  One step of a step system is one stretch of
  code between two points where another goroutine can run; a close of the tunnel runtime is taken together with the
  section that follows it.  A published list is a collection, since snapshots are published outside the lock.

  \<^bold>\<open>Bounds and fuel.\<close>  Searches for a free name or identifier are bounded by fuel derived from the data (the number of used
  names plus two, the attempts the source allows), which is proved enough.  Revisions are 64-bit words: where a
  property needs that a counter is not at its end it says so (\<open>2 * length evs < 2^64\<close> in \<open>PlayerServiceInv\<close>,
  \<open>undisturbed\<close> in \<open>SaveProtocol\<close>).  The worker empties its queue within three turns for every queued save and three
  more.

  \<^bold>\<open>Restricted runs.\<close>  \<open>undisturbed\<close> (\<open>SaveProtocol\<close>): direct replacements happen while no save is outstanding, and a new
  or copied document does not overwrite the file of one.  \<open>orderly\<close> (\<open>TunnelManager\<close>): \<open>Start\<close> and \<open>Reconfigure\<close> are entered
  while no \<open>Stop\<close> is at work and no other \<open>Start\<close> clears a runtime away.  The source does not enforce either;
  \<open>session_associate_overtaken\<close>, \<open>session_update_lost\<close>, \<open>session_save_starved\<close> and \<open>stop_overtaken\<close> are the behaviours
  that appear without them.

  \<^bold>\<open>Not modelled.\<close>  HTTP and Connect routing, the listener, the sound manifest and the rate limiter of the player
  server; the ngrok wrapper, the settings file and the HTTP proxy of the tunnel; updates, the desktop shell,
  operating-system integration, diagnostics and build tooling, which are input and output around this core;
  generated code, except the message structs the contract and the player service fill in.  JSON syntax, relative
  paths, the Unicode tables and the URL and address parsers of the standard library are parameters (the records
  \<open>Platform\<close>, \<open>JSON\<close>, \<open>Codec\<close> and \<open>NetPlatform\<close>).
\<close>

end
